(* ===== verification/Prelude.thy ===== *)
theory Prelude
  imports Complex_Main "HOL-Library.AList" "HOL-Library.Sublist"
begin

text \<open>
  Shared vocabulary of the development: the fragment of Python's values, dictionaries and
  strings that the agent platform uses, the lemmas about them that the component theories
  rely on, and the two generic interfaces (a state machine with an invariant, a state machine
  that only ever moves upwards in an order) that every stateful component instantiates.

  Conventions used throughout.
  \<^item> A \<open>datetime\<close> is the number of microseconds since the epoch (UTC), an \<open>int\<close>; every
    read of the clock is an argument of the operation that reads it.
  \<^item> A \<open>dict\<close> is an association list in insertion order, written by \<open>AList.update\<close>, which
    overwrites an existing key in place and appends a new one, as CPython does.
  \<^item> A stored object that the code copies on the way in and on the way out
    (\<open>model_copy(deep=True)\<close>) is a plain HOL value.
\<close>

named_theorems repo_defs \<open>definitions of the run repository's operations\<close>
named_theorems frame_simps \<open>what an operation leaves unchanged\<close>

subsection \<open>Python values\<close>

text \<open>JSON-like payloads (\<open>dict[str, Any]\<close>, \<open>Any\<close>). Finite floats are rationals; the modelled
  code never computes with them, it only asks for their type and their truth value.\<close>

datatype pyval =
    PNone
  | PBool bool
  | PInt int
  | PFloat rat
  | PStr string
  | PList "pyval list"
  | PDict "(string \<times> pyval) list"

type_synonym datetime = int
type_synonym payload = "(string \<times> pyval) list"

text \<open>Python's truth value of an object.\<close>

fun truthy :: "pyval \<Rightarrow> bool" where
  "truthy PNone = False"
| "truthy (PBool b) = b"
| "truthy (PInt i) = (i \<noteq> 0)"
| "truthy (PFloat q) = (q \<noteq> 0)"
| "truthy (PStr s) = (s \<noteq> [])"
| "truthy (PList xs) = (xs \<noteq> [])"
| "truthy (PDict kvs) = (kvs \<noteq> [])"

text \<open>The truth value of a \<open>str | None\<close>, and \<open>a or b\<close> on such values.\<close>

definition truthy_opt :: "'a list option \<Rightarrow> bool" where
  "truthy_opt x = (case x of None \<Rightarrow> False | Some s \<Rightarrow> s \<noteq> [])"

definition or_opt :: "'a list option \<Rightarrow> 'a list option \<Rightarrow> 'a list option" where
  "or_opt x y = (if truthy_opt x then x else y)"

definition or_else :: "'a list option \<Rightarrow> 'a list \<Rightarrow> 'a list" where
  "or_else x d = (case x of Some s \<Rightarrow> if s \<noteq> [] then s else d | None \<Rightarrow> d)"

text \<open>\<open>ttl_sec or default\<close> on \<open>int | None\<close>: zero is falsy too.\<close>

definition int_or :: "int option \<Rightarrow> int \<Rightarrow> int" where
  "int_or x d = (case x of None \<Rightarrow> d | Some n \<Rightarrow> if n = 0 then d else n)"

text \<open>An optional text as a value.\<close>

definition opt_val :: "string option \<Rightarrow> pyval" where
  "opt_val x = (case x of None \<Rightarrow> PNone | Some s \<Rightarrow> PStr s)"

lemma truthy_opt_simps [simp]:
  "truthy_opt None = False" "truthy_opt (Some s) = (s \<noteq> [])"
  by (simp_all add: truthy_opt_def)

lemma truthy_opt_iff: "truthy_opt x \<longleftrightarrow> (\<exists>c cs. x = Some (c # cs))"
  by (cases x) (auto simp: neq_Nil_conv)

lemma or_else_simps [simp]:
  "or_else None d = d" "or_else (Some []) d = d" "or_else (Some (c # cs)) d = c # cs"
  by (simp_all add: or_else_def)

lemma int_or_simps [simp]: "int_or None d = d" "n \<noteq> 0 \<Longrightarrow> int_or (Some n) d = n" "int_or (Some 0) d = d"
  by (simp_all add: int_or_def)

subsection \<open>Time\<close>

definition timedelta_seconds :: "int \<Rightarrow> int" where
  "timedelta_seconds n = n * 1000000"

lemma timedelta_seconds_pos [simp]: "0 < timedelta_seconds n \<longleftrightarrow> 0 < n"
  by (simp add: timedelta_seconds_def)

lemma timedelta_seconds_nonneg [simp]: "0 \<le> timedelta_seconds n \<longleftrightarrow> 0 \<le> n"
  by (simp add: timedelta_seconds_def)

subsection \<open>Dictionaries\<close>

type_synonym ('k, 'v) pydict = "('k \<times> 'v) list"

abbreviation dict_get :: "('k, 'v) pydict \<Rightarrow> 'k \<Rightarrow> 'v option" where
  "dict_get d k \<equiv> map_of d k"

abbreviation dict_set :: "'k \<Rightarrow> 'v \<Rightarrow> ('k, 'v) pydict \<Rightarrow> ('k, 'v) pydict" where
  "dict_set k v d \<equiv> AList.update k v d"

abbreviation dict_del :: "'k \<Rightarrow> ('k, 'v) pydict \<Rightarrow> ('k, 'v) pydict" where
  "dict_del k d \<equiv> AList.delete k d"

abbreviation dict_keys :: "('k, 'v) pydict \<Rightarrow> 'k list" where
  "dict_keys d \<equiv> map fst d"

abbreviation dict_values :: "('k, 'v) pydict \<Rightarrow> 'v list" where
  "dict_values d \<equiv> map snd d"

text \<open>\<open>d.get(k, default)\<close>.\<close>

definition dict_get_or :: "('k, 'v) pydict \<Rightarrow> 'k \<Rightarrow> 'v \<Rightarrow> 'v" where
  "dict_get_or d k v = (case map_of d k of None \<Rightarrow> v | Some x \<Rightarrow> x)"

text \<open>\<open>d.update(e)\<close>.\<close>

definition dict_update :: "('k, 'v) pydict \<Rightarrow> ('k, 'v) pydict \<Rightarrow> ('k, 'v) pydict" where
  "dict_update d e = fold (\<lambda>(k, v) acc. AList.update k v acc) e d"

text \<open>A real dictionary has each key once.\<close>

abbreviation dict_ok :: "('k, 'v) pydict \<Rightarrow> bool" where
  "dict_ok d \<equiv> distinct (map fst d)"

lemma dict_get_set [simp]:
  "map_of (AList.update k v d) k' = (if k' = k then Some v else map_of d k')"
  by (simp add: update_conv')

lemma dict_get_del [simp]:
  "map_of (AList.delete k d) k' = (if k' = k then None else map_of d k')"
  by (simp add: delete_conv')

lemma dict_ok_set [simp]: "dict_ok d \<Longrightarrow> dict_ok (AList.update k v d)"
  by (rule distinct_update)

lemma dict_ok_del [simp]: "dict_ok d \<Longrightarrow> dict_ok (AList.delete k d)"
  by (rule distinct_delete)

lemma dict_keys_set_mem:
  "map_of d k = Some v0 \<Longrightarrow> map fst (AList.update k v d) = map fst d"
  by (induction d) (auto split: if_splits)

lemma dict_set_absent: "map_of d k = None \<Longrightarrow> AList.update k v d = d @ [(k, v)]"
  by (induction d) (auto split: if_splits)

lemma dict_get_values: "map_of d k = Some v \<Longrightarrow> v \<in> set (map snd d)"
  by (force dest: map_of_SomeD)

lemma dict_values_get: "dict_ok d \<Longrightarrow> v \<in> set (map snd d) \<Longrightarrow> \<exists>k. map_of d k = Some v"
  by (auto simp: map_of_eq_Some_iff)

lemma dict_get_or_simps [simp]:
  "map_of d k = None \<Longrightarrow> dict_get_or d k v = v" "map_of d k = Some x \<Longrightarrow> dict_get_or d k v = x"
  by (simp_all add: dict_get_or_def)

lemma dict_get_or_set [simp]: "dict_get_or (AList.update k v d) k' w = (if k' = k then v else dict_get_or d k' w)"
  by (simp add: dict_get_or_def)

lemma dict_update_get:
  "map_of (dict_update d e) k = (case map_of (rev e) k of None \<Rightarrow> map_of d k | Some v \<Rightarrow> Some v)"
  unfolding dict_update_def
  by (induction e arbitrary: d) (auto simp: map_add_def split: option.splits)

subsection \<open>First match in insertion order\<close>

text \<open>\<open>for x in xs: if p(x): return x\<close>, with \<open>None\<close> after the loop, is \<open>List.find\<close>.\<close>

lemma find_Some_iff_mem: "List.find p xs = Some x \<Longrightarrow> x \<in> set xs \<and> p x"
  by (auto simp: find_Some_iff)

lemma find_None_all: "List.find p xs = None \<longleftrightarrow> (\<forall>x \<in> set xs. \<not> p x)"
  by (auto simp: find_None_iff)

text \<open>\<open>xs[:n]\<close>: a negative bound counts from the end.\<close>

definition py_take :: "int \<Rightarrow> 'a list \<Rightarrow> 'a list" where
  "py_take n xs = (if 0 \<le> n then take (nat n) xs else take (length xs - nat (- n)) xs)"

lemma length_py_take: "0 \<le> n \<Longrightarrow> int (length (py_take n xs)) \<le> n"
  by (simp add: py_take_def)

lemma set_py_take: "set (py_take n xs) \<subseteq> set xs"
  by (auto simp: py_take_def dest: in_set_takeD)

subsection \<open>Strings\<close>

definition py_startswith :: "string \<Rightarrow> string \<Rightarrow> bool" where
  "py_startswith s p = prefix p s"

definition py_endswith :: "string \<Rightarrow> string \<Rightarrow> bool" where
  "py_endswith s p = prefix (rev p) (rev s)"

text \<open>\<open>s.rstrip(c)\<close> for a one-character argument.\<close>

definition py_rstrip :: "char \<Rightarrow> string \<Rightarrow> string" where
  "py_rstrip c s = rev (dropWhile (\<lambda>x. x = c) (rev s))"

definition py_isspace :: "char \<Rightarrow> bool" where
  "py_isspace c = (let n = (of_char c :: nat) in (9 \<le> n \<and> n \<le> 13) \<or> (28 \<le> n \<and> n \<le> 32))"

definition py_strip :: "string \<Rightarrow> string" where
  "py_strip s = rev (dropWhile py_isspace (rev (dropWhile py_isspace s)))"

definition py_upper_char :: "char \<Rightarrow> char" where
  "py_upper_char c = (let n = (of_char c :: nat) in if 97 \<le> n \<and> n \<le> 122 then char_of (n - 32) else c)"

definition py_upper :: "string \<Rightarrow> string" where
  "py_upper s = map py_upper_char s"

definition py_lower_char :: "char \<Rightarrow> char" where
  "py_lower_char c = (let n = (of_char c :: nat) in if 65 \<le> n \<and> n \<le> 90 then char_of (n + 32) else c)"

definition py_lower :: "string \<Rightarrow> string" where
  "py_lower s = map py_lower_char s"

text \<open>A value between single quotes, as in the messages of the code.\<close>

definition sq :: "string \<Rightarrow> string" where
  "sq s = CHR 0x27 # s @ [CHR 0x27]"

text \<open>\<open>sub in s\<close> on strings.\<close>

fun py_contains :: "string \<Rightarrow> string \<Rightarrow> bool" where
  "py_contains sub [] = (sub = [])"
| "py_contains sub (c # cs) = (prefix sub (c # cs) \<or> py_contains sub cs)"

lemma py_contains_sublist: "py_contains sub s \<longleftrightarrow> sublist sub s"
  by (induction s) (auto simp: sublist_Cons_right)

lemma py_startswith_append [simp]: "py_startswith (p @ s) p"
  by (simp add: py_startswith_def)

text \<open>\<open>str(n)\<close> of an integer.\<close>

fun digits :: "nat \<Rightarrow> string" where
  "digits n = (if n < 10 then [char_of (48 + n)] else digits (n div 10) @ [char_of (48 + n mod 10)])"

declare digits.simps [simp del]

definition int_str :: "int \<Rightarrow> string" where
  "int_str i = (if i < 0 then CHR ''-'' # digits (nat (- i)) else digits (nat i))"

subsection \<open>State machines\<close>

text \<open>
  A component is a state and a type of operation requests; \<open>step\<close> performs one request. Lists
  of requests are the interleavings that several callers of one component can produce, since
  each operation runs without a preemption point. \<open>guard\<close> says which requests the environment
  can make in a state (for instance that a generated identifier is fresh, or that nobody touches
  one particular record); a list of requests is admissible when each satisfies it in turn.
\<close>

fun admissible :: "('op \<Rightarrow> 's \<Rightarrow> bool) \<Rightarrow> ('op \<Rightarrow> 's \<Rightarrow> 's) \<Rightarrow> 'op list \<Rightarrow> 's \<Rightarrow> bool" where
  "admissible guard step [] s = True"
| "admissible guard step (op # ops) s = (guard op s \<and> admissible guard step ops (step op s))"

lemma admissible_append:
  "admissible guard step (ops @ ops') s \<longleftrightarrow>
     admissible guard step ops s \<and> admissible guard step ops' (fold step ops s)"
  by (induction ops arbitrary: s) simp_all

lemma admissible_stateless:
  "admissible (\<lambda>op s. g op) step ops s \<longleftrightarrow> list_all g ops"
  by (induction ops arbitrary: s) simp_all

lemma admissible_True [simp]: "admissible (\<lambda>_ _. True) step ops s"
  by (induction ops arbitrary: s) simp_all

locale state_machine =
  fixes step :: "'op \<Rightarrow> 's \<Rightarrow> 's"
    and guard :: "'op \<Rightarrow> 's \<Rightarrow> bool"
    and inv :: "'s \<Rightarrow> bool"
  assumes step_inv: "inv s \<Longrightarrow> guard op s \<Longrightarrow> inv (step op s)"
begin

lemma run_inv: "inv s \<Longrightarrow> admissible guard step ops s \<Longrightarrow> inv (fold step ops s)"
  by (induction ops arbitrary: s) (simp_all add: step_inv)

end

text \<open>
  A component whose requests only move its state upwards in an order \<open>le\<close> (nothing recorded
  is ever lost or rewritten), given the invariant.
\<close>

locale monotone_machine = state_machine +
  fixes le :: "'s \<Rightarrow> 's \<Rightarrow> bool"
  assumes le_refl: "le s s"
    and le_trans: "le s t \<Longrightarrow> le t u \<Longrightarrow> le s u"
    and step_le: "inv s \<Longrightarrow> guard op s \<Longrightarrow> le s (step op s)"
begin

lemma run_le: "inv s \<Longrightarrow> admissible guard step ops s \<Longrightarrow> le s (fold step ops s)"
proof (induction ops arbitrary: s)
  case Nil
  show ?case by (simp add: le_refl)
next
  case (Cons op ops)
  then have g: "guard op s" "admissible guard step ops (step op s)" by simp_all
  have "le (step op s) (fold step ops (step op s))"
    using Cons.prems(1) g by (intro Cons.IH step_inv)
  with step_le [OF Cons.prems(1) g(1)] show ?case
    by (auto intro: le_trans)
qed

end

end
