(* ===== verification/Governance.thy ===== *)
theory Governance
  imports Prelude
begin

text \<open>
  The governance plane of the agent package (\<open>packages/agent/governance\<close>): policy outcomes and
  decisions, the capability floor, the conjunction of two decisions, the monotone accumulator
  of one invocation, the in-memory governance store, the ambient checks made just before a side
  effect, the role hierarchy and the weighted quorum, and the attenuation of a child agent's
  authority (\<open>packages/agent/coordination/delegation_envelope.py\<close>).
\<close>

subsection \<open>Contracts\<close>

datatype policy_outcome = ALLOW | DENY | REQUIRE_APPROVAL | NON_APPROVABLE

datatype capability_risk = LOW | MEDIUM | HIGH | CRITICAL

datatype approval_policy = NEVER | ALWAYS | CONDITIONAL | POLICY_DRIVEN

datatype execution_mode =
  AUTONOMOUS | HUMAN_IN_THE_LOOP | SUPERVISED | APPROVED_WORKFLOW | WORKFLOW | AGENT

datatype approval_requirement =
    RoleApproval string
  | UserApproval string
  | AllOf "approval_requirement list"
  | AnyOf "approval_requirement list"
  | Quorum int "string list"

record policy_decision =
  outcome :: policy_outcome
  requirement :: "approval_requirement option"
  reasons :: "string list"

datatype spec_kind =
    KIND_agent | KIND_workflow | KIND_skill | KIND_prompt | KIND_model_policy
  | KIND_tool_contract | KIND_eval_suite | KIND_knowledge_snapshot

record pinned_spec_identity =
  spec_kind :: spec_kind
  spec_id :: string
  spec_version :: string
  spec_definition_hash :: string

record spec_resolution_manifest =
  entries :: "pinned_spec_identity list"

record approval_evidence =
  ae_id :: string
  ae_approver :: string
  ae_scope :: string
  ae_decided_at :: string
  ae_valid_until :: "string option"

definition empty_manifest :: spec_resolution_manifest where
  "empty_manifest = \<lparr>entries = []\<rparr>"

definition with_entry :: "spec_resolution_manifest \<Rightarrow> pinned_spec_identity \<Rightarrow> spec_resolution_manifest" where
  "with_entry m e = (if e \<in> set (entries m) then m else \<lparr>entries = entries m @ [e]\<rparr>)"

text \<open>The \<open>value\<close> of an enumeration member.\<close>

fun outcome_value :: "policy_outcome \<Rightarrow> string" where
  "outcome_value ALLOW = ''ALLOW''"
| "outcome_value DENY = ''DENY''"
| "outcome_value REQUIRE_APPROVAL = ''REQUIRE_APPROVAL''"
| "outcome_value NON_APPROVABLE = ''NON_APPROVABLE''"

subsection \<open>The capability floor\<close>

definition risk_of_value :: "string \<Rightarrow> capability_risk option" where
  "risk_of_value s = map_of [(''low'', LOW), (''medium'', MEDIUM), (''high'', HIGH), (''critical'', CRITICAL)] s"

definition approval_policy_of_value :: "string \<Rightarrow> approval_policy option" where
  "approval_policy_of_value s =
     map_of [(''never'', NEVER), (''always'', ALWAYS), (''conditional'', CONDITIONAL),
             (''policy_driven'', POLICY_DRIVEN)] s"

definition capability_floor :: "capability_risk \<Rightarrow> approval_policy \<Rightarrow> policy_outcome" where
  "capability_floor r pol =
     (if pol = ALWAYS then REQUIRE_APPROVAL
      else if r \<in> {HIGH, CRITICAL} then REQUIRE_APPROVAL
      else ALLOW)"

datatype enum_error = ValueError string

text \<open>Called with plain strings, the two enumeration constructors raise on an unknown value.\<close>

definition capability_floor_str :: "string \<Rightarrow> string \<Rightarrow> enum_error + policy_outcome" where
  "capability_floor_str r pol =
     (case approval_policy_of_value pol of
        None \<Rightarrow> Inl (ValueError pol)
      | Some p \<Rightarrow>
          (case risk_of_value r of
             None \<Rightarrow> Inl (ValueError r)
           | Some r' \<Rightarrow> Inr (capability_floor r' p)))"

subsection \<open>Conjunction of two decisions\<close>

text \<open>What a caller may pass as a decision: \<open>PolicyDecision | PolicyOutcome | str | None\<close>, or a
  value of none of these types.\<close>

datatype decision_arg =
    ArgNone
  | ArgDecision policy_decision
  | ArgOutcome policy_outcome
  | ArgStr string
  | ArgOther

definition decision :: "policy_outcome \<Rightarrow> string list \<Rightarrow> policy_decision" where
  "decision out rs = \<lparr>outcome = out, requirement = None, reasons = rs\<rparr>"

fun normalize_decision :: "decision_arg \<Rightarrow> string \<Rightarrow> policy_decision" where
  "normalize_decision ArgNone src = decision ALLOW [src @ '': default allow'']"
| "normalize_decision (ArgDecision d) src = d"
| "normalize_decision (ArgOutcome out) src = decision out [src @ '': '' @ outcome_value out]"
| "normalize_decision (ArgStr s) src =
     (let v = py_strip (py_upper s) in
      if py_contains ''DENY'' v then decision DENY [src @ '': '' @ v]
      else if py_contains ''APPROVAL'' v then decision REQUIRE_APPROVAL [src @ '': '' @ v]
      else decision ALLOW [src @ '': '' @ v])"
| "normalize_decision ArgOther src = decision ALLOW [src @ '': fallback allow'']"

definition or_reasons :: "string list \<Rightarrow> string \<Rightarrow> string list" where
  "or_reasons rs d = (if rs \<noteq> [] then rs else [d])"

definition conjoin :: "decision_arg \<Rightarrow> decision_arg \<Rightarrow> policy_decision" where
  "conjoin a b =
     (let da = normalize_decision a ''floor''; db = normalize_decision b ''tenant'';
          rs = reasons da @ reasons db in
      if outcome da \<in> {DENY, NON_APPROVABLE} \<or> outcome db \<in> {DENY, NON_APPROVABLE} then
        \<lparr>outcome = DENY, requirement = None,
         reasons = or_reasons rs ''Execution denied by conjoined policy''\<rparr>
      else if REQUIRE_APPROVAL \<in> {outcome da, outcome db} then
        \<lparr>outcome = REQUIRE_APPROVAL,
         requirement = Some (case requirement db of Some q \<Rightarrow> q
           | None \<Rightarrow> (case requirement da of Some q \<Rightarrow> q | None \<Rightarrow> RoleApproval ''admin'')),
         reasons = or_reasons rs ''Action requires human approval''\<rparr>
      else
        \<lparr>outcome = ALLOW, requirement = None,
         reasons = or_reasons rs ''Allowed by conjoined policy''\<rparr>)"

subsection \<open>The monotone accumulator\<close>

fun outcome_rank :: "policy_outcome \<Rightarrow> nat" where
  "outcome_rank ALLOW = 0"
| "outcome_rank REQUIRE_APPROVAL = 1"
| "outcome_rank DENY = 2"
| "outcome_rank NON_APPROVABLE = 3"

fun combine_requirements ::
  "approval_requirement option \<Rightarrow> approval_requirement option \<Rightarrow> approval_requirement option" where
  "combine_requirements None b = b"
| "combine_requirements (Some a) None = Some a"
| "combine_requirements (Some a) (Some b) = (if a = b then Some a else Some (AllOf [a, b]))"

text \<open>\<open>tuple(dict.fromkeys(xs))\<close>: first occurrences, in order.\<close>

definition dict_fromkeys :: "'a list \<Rightarrow> 'a list" where
  "dict_fromkeys xs = rev (remdups (rev xs))"

definition combine_decisions :: "policy_decision \<Rightarrow> policy_decision \<Rightarrow> policy_decision" where
  "combine_decisions a b =
     \<lparr>outcome = (if outcome_rank (outcome b) \<le> outcome_rank (outcome a) then outcome a else outcome b),
      requirement = combine_requirements (requirement a) (requirement b),
      reasons = dict_fromkeys (reasons a @ reasons b)\<rparr>"

record invocation_governance_state =
  gs_run_id :: string
  gs_tool_call_id :: string
  accumulated :: policy_decision

definition gov_start :: "string \<Rightarrow> string \<Rightarrow> policy_decision \<Rightarrow> invocation_governance_state" where
  "gov_start rid tid d = \<lparr>gs_run_id = rid, gs_tool_call_id = tid, accumulated = d\<rparr>"

definition accumulate ::
  "invocation_governance_state \<Rightarrow> policy_decision \<Rightarrow> invocation_governance_state" where
  "accumulate g obs =
     \<lparr>gs_run_id = gs_run_id g, gs_tool_call_id = gs_tool_call_id g,
      accumulated = combine_decisions (accumulated g) obs\<rparr>"

subsection \<open>The in-memory governance store\<close>

record governance_store =
  gov_manifests :: "(string, spec_resolution_manifest) pydict"
  gov_states :: "(string \<times> string, invocation_governance_state) pydict"
  gov_evidence :: "(string, approval_evidence list) pydict"

definition empty_governance_store :: governance_store where
  "empty_governance_store = \<lparr>gov_manifests = [], gov_states = [], gov_evidence = []\<rparr>"

definition load_manifest :: "governance_store \<Rightarrow> string \<Rightarrow> spec_resolution_manifest" where
  "load_manifest st rid = dict_get_or (gov_manifests st) rid empty_manifest"

definition save_manifest_entry ::
  "governance_store \<Rightarrow> string \<Rightarrow> pinned_spec_identity \<Rightarrow> governance_store" where
  "save_manifest_entry st rid e =
     st\<lparr>gov_manifests :=
          dict_set rid (with_entry (dict_get_or (gov_manifests st) rid empty_manifest) e) (gov_manifests st)\<rparr>"

definition save_governance_state ::
  "governance_store \<Rightarrow> invocation_governance_state \<Rightarrow> governance_store" where
  "save_governance_state st g =
     st\<lparr>gov_states := dict_set (gs_run_id g, gs_tool_call_id g) g (gov_states st)\<rparr>"

definition load_governance_state ::
  "governance_store \<Rightarrow> string \<Rightarrow> string \<Rightarrow> invocation_governance_state option" where
  "load_governance_state st rid tid = dict_get (gov_states st) (rid, tid)"

definition save_evidence :: "governance_store \<Rightarrow> approval_evidence \<Rightarrow> governance_store" where
  "save_evidence st e =
     st\<lparr>gov_evidence :=
          dict_set (ae_scope e) (dict_get_or (gov_evidence st) (ae_scope e) [] @ [e]) (gov_evidence st)\<rparr>"

definition list_evidence :: "governance_store \<Rightarrow> string \<Rightarrow> approval_evidence list" where
  "list_evidence st scope = dict_get_or (gov_evidence st) scope []"

subsection \<open>Ambient governance\<close>

text \<open>The context the check reads, once flattened: \<open>metadata\<close> updated with \<open>policy_snapshot\<close> for
  an invocation context, the dictionary itself for a plain one.\<close>

definition ambient_lookup :: "payload \<Rightarrow> string \<Rightarrow> pyval \<Rightarrow> pyval" where
  "ambient_lookup ctx k d = dict_get_or ctx k d"

datatype ambient_reason =
  AmbientOk | TenantIs string | PrincipalIs string | EmergencyLock | HumanTakeover

fun status_in :: "pyval \<Rightarrow> string list \<Rightarrow> string option" where
  "status_in (PStr s) ss = (if s \<in> set ss then Some s else None)"
| "status_in _ ss = None"

definition verify_ambient_governance :: "payload option \<Rightarrow> bool \<times> ambient_reason" where
  "verify_ambient_governance context =
     (case context of
        None \<Rightarrow> (True, AmbientOk)
      | Some ctx \<Rightarrow>
          (case status_in (ambient_lookup ctx ''tenant_status'' (PStr ''active'')) [''suspended'', ''disabled''] of
             Some s \<Rightarrow> (False, TenantIs s)
           | None \<Rightarrow>
          (case status_in (ambient_lookup ctx ''principal_status'' (PStr ''active'')) [''revoked'', ''disabled''] of
             Some s \<Rightarrow> (False, PrincipalIs s)
           | None \<Rightarrow>
             if truthy (ambient_lookup ctx ''emergency_lock'' (PBool False))
                \<or> truthy (ambient_lookup ctx ''kill_switch'' (PBool False))
             then (False, EmergencyLock)
             else if truthy (ambient_lookup ctx ''human_takeover'' (PBool False))
                \<or> truthy (ambient_lookup ctx ''takeover'' (PBool False))
                \<or> truthy (ambient_lookup ctx ''thread_takeover'' (PBool False))
             then (False, HumanTakeover)
             else (True, AmbientOk))))"

subsection \<open>Role hierarchy and weighted quorum\<close>

type_synonym role_hierarchy = "(string, string) pydict"

definition add_relation :: "role_hierarchy \<Rightarrow> string \<Rightarrow> string \<Rightarrow> role_hierarchy" where
  "add_relation h sub superior = dict_set sub superior h"

text \<open>The \<open>while curr in self._hierarchy\<close> loop; \<open>None\<close> when it runs forever.\<close>

partial_function (option) climb :: "role_hierarchy \<Rightarrow> string \<Rightarrow> string \<Rightarrow> bool option" where
  "climb h active cur =
     (case map_of h cur of
        None \<Rightarrow> Some False
      | Some parent \<Rightarrow> if parent = active then Some True else climb h active parent)"

definition is_superior_or_equal :: "role_hierarchy \<Rightarrow> string \<Rightarrow> string \<Rightarrow> bool option" where
  "is_superior_or_equal h active req =
     (if active = req \<or> active \<in> {''admin'', ''superadmin'', ''founder''} then Some True
      else climb h active req)"

record weighted_approver =
  principal_or_role :: string
  weight :: int

record weighted_quorum_policy =
  required_weight :: int
  approvers :: "weighted_approver list"

definition evaluate_decisions :: "weighted_quorum_policy \<Rightarrow> string set \<Rightarrow> bool" where
  "evaluate_decisions pol approved =
     (required_weight pol \<le>
        fold (\<lambda>app acc. if principal_or_role app \<in> approved then acc + weight app else acc)
          (approvers pol) 0)"

subsection \<open>Attenuation of a delegated authority\<close>

definition compute_effective_child_authority ::
  "string list \<Rightarrow> string list \<Rightarrow> string list \<Rightarrow> string set option \<Rightarrow> string set" where
  "compute_effective_child_authority parent child_spec ceil_caps revoked =
     (let parent_set = set parent; child_spec_set = set child_spec;
          ceiling_set = (if ceil_caps \<noteq> [] then set ceil_caps else child_spec_set);
          rv = (case revoked of None \<Rightarrow> {} | Some r \<Rightarrow> r)
      in (parent_set \<inter> ceiling_set \<inter> child_spec_set) - rv)"

subsection \<open>Strictness of decisions\<close>

text \<open>
  Interface of a way to combine decisions over time: the combination is as strict as the
  stricter of the two. Folding observations into a starting decision then ends at the strictest
  of them all, in whatever order they came.
\<close>

locale strictness_join =
  fixes comb :: "'d \<Rightarrow> 'd \<Rightarrow> 'd"
    and rank :: "'d \<Rightarrow> nat"
  assumes rank_comb: "rank (comb a b) = max (rank a) (rank b)"
begin

lemma rank_fold: "rank (fold (\<lambda>obs acc. comb acc obs) obs d) = Max (rank ` set (d # obs))"
proof (induction obs arbitrary: d)
  case Nil
  then show ?case by simp
next
  case (Cons x obs)
  have "rank (fold (\<lambda>obs acc. comb acc obs) (x # obs) d) = Max (rank ` set (comb d x # obs))"
    using Cons.IH [of "comb d x"] by simp
  also have "\<dots> = Max (rank ` set (d # x # obs))"
  proof (cases "obs = []")
    case True
    then show ?thesis by (simp add: rank_comb)
  next
    case False
    then show ?thesis by (simp add: rank_comb max.assoc)
  qed
  finally show ?case .
qed

lemma rank_fold_ge: "x \<in> set (d # obs) \<Longrightarrow> rank x \<le> rank (fold (\<lambda>obs acc. comb acc obs) obs d)"
  unfolding rank_fold by (intro Max_ge) auto

end

text \<open>
  A combination that also conjoins what each decision demands of the approvers: whoever
  satisfies the accumulated demand satisfies every demand that was ever observed.
\<close>

locale demand_join = strictness_join +
  fixes sat :: "'e \<Rightarrow> 'd \<Rightarrow> bool"
  assumes sat_comb: "sat e (comb a b) \<longleftrightarrow> sat e a \<and> sat e b"
begin

lemma sat_fold: "sat e (fold (\<lambda>obs acc. comb acc obs) obs d) \<longleftrightarrow> (\<forall>x \<in> set (d # obs). sat e x)"
  by (induction obs arbitrary: d) (auto simp: sat_comb)

end

text \<open>
  What an approval requirement asks of the people who approved, given as the set of roles and
  the set of user ids behind the approvals: the reading that the comments of \<open>AllOf\<close> and
  \<open>combine_decisions\<close> give to the requirement language.
\<close>

fun req_sat :: "string set \<times> string set \<Rightarrow> approval_requirement \<Rightarrow> bool" where
  "req_sat (roles, users) (RoleApproval r) = (r \<in> roles)"
| "req_sat (roles, users) (UserApproval u) = (u \<in> users)"
| "req_sat (roles, users) (AllOf ps) = (\<forall>p \<in> set ps. req_sat (roles, users) p)"
| "req_sat (roles, users) (AnyOf ps) = (\<exists>p \<in> set ps. req_sat (roles, users) p)"
| "req_sat (roles, users) (Quorum n rs) = (n \<le> int (card (roles \<inter> set rs)))"

definition decision_sat :: "string set \<times> string set \<Rightarrow> policy_decision \<Rightarrow> bool" where
  "decision_sat e d = (case requirement d of None \<Rightarrow> True | Some q \<Rightarrow> req_sat e q)"

abbreviation decision_rank :: "policy_decision \<Rightarrow> nat" where
  "decision_rank d \<equiv> outcome_rank (outcome d)"

lemma req_sat_AllOf2: "req_sat e (AllOf [a, b]) \<longleftrightarrow> req_sat e a \<and> req_sat e b"
  by (cases e) simp

lemma combine_requirements_sat:
  "(case combine_requirements a b of None \<Rightarrow> True | Some q \<Rightarrow> req_sat e q) \<longleftrightarrow>
   (case a of None \<Rightarrow> True | Some q \<Rightarrow> req_sat e q) \<and> (case b of None \<Rightarrow> True | Some q \<Rightarrow> req_sat e q)"
  by (cases "(a, b)" rule: combine_requirements.cases) (auto simp: req_sat_AllOf2)

interpretation gov: demand_join combine_decisions decision_rank decision_sat
  by unfold_locales
    (simp_all add: combine_decisions_def decision_sat_def combine_requirements_sat max_def)

text \<open>In a conjunction \<open>NON_APPROVABLE\<close> counts as \<open>DENY\<close>.\<close>

definition strictness :: "policy_decision \<Rightarrow> nat" where
  "strictness d = min 2 (decision_rank d)"

lemma strictness_simps:
  "strictness d = 0 \<longleftrightarrow> outcome d = ALLOW"
  "strictness d = Suc 0 \<longleftrightarrow> outcome d = REQUIRE_APPROVAL"
  "strictness d = 2 \<longleftrightarrow> outcome d \<in> {DENY, NON_APPROVABLE}"
  by (cases "outcome d", simp_all add: strictness_def)+

lemma conjoin_outcome_cases:
  "outcome (conjoin a b) =
     (let oa = outcome (normalize_decision a ''floor''); ob = outcome (normalize_decision b ''tenant'') in
      if oa \<in> {DENY, NON_APPROVABLE} \<or> ob \<in> {DENY, NON_APPROVABLE} then DENY
      else if oa = REQUIRE_APPROVAL \<or> ob = REQUIRE_APPROVAL then REQUIRE_APPROVAL else ALLOW)"
  by (auto simp: conjoin_def Let_def)

interpretation conj: strictness_join "\<lambda>a b. conjoin (ArgDecision a) (ArgDecision b)" strictness
proof
  fix a b :: policy_decision
  show "strictness (conjoin (ArgDecision a) (ArgDecision b)) = max (strictness a) (strictness b)"
    by (cases "outcome a"; cases "outcome b")
      (simp_all add: strictness_def conjoin_outcome_cases)
qed

lemma conjoin_never_non_approvable: "outcome (conjoin a b) \<noteq> NON_APPROVABLE"
  by (simp add: conjoin_outcome_cases Let_def)

lemma conjoin_requirement:
  "outcome (conjoin a b) = REQUIRE_APPROVAL \<longleftrightarrow> requirement (conjoin a b) \<noteq> None"
  by (simp add: conjoin_def Let_def)

lemma fold_accumulate:
  "fold (\<lambda>obs g. accumulate g obs) obs g =
     \<lparr>gs_run_id = gs_run_id g, gs_tool_call_id = gs_tool_call_id g,
      accumulated = fold (\<lambda>obs acc. combine_decisions acc obs) obs (accumulated g)\<rparr>"
  by (induction obs arbitrary: g) (simp_all add: accumulate_def)

lemma accumulate_outcome_DENY:
  "outcome obs = DENY \<Longrightarrow> outcome (accumulated g) \<noteq> NON_APPROVABLE \<Longrightarrow> outcome (accumulated (accumulate g obs)) = DENY"
  by (cases "outcome (accumulated g)") (simp_all add: accumulate_def combine_decisions_def)

lemma accumulate_outcome_ALLOW:
  "outcome (accumulated (accumulate g obs)) = ALLOW \<longleftrightarrow>
     outcome (accumulated g) = ALLOW \<and> outcome obs = ALLOW"
  by (cases "outcome (accumulated g)"; cases "outcome obs")
    (simp_all add: accumulate_def combine_decisions_def)

lemma load_after_save_governance:
  "load_governance_state (save_governance_state st g) rid tid =
     (if rid = gs_run_id g \<and> tid = gs_tool_call_id g then Some g else load_governance_state st rid tid)"
  by (auto simp: load_governance_state_def save_governance_state_def)

lemma manifest_entry_grows:
  "entries (load_manifest (save_manifest_entry st rid e) rid') =
     (if rid' = rid \<and> e \<notin> set (entries (load_manifest st rid)) then entries (load_manifest st rid) @ [e]
      else entries (load_manifest st rid'))"
  by (simp add: load_manifest_def save_manifest_entry_def with_entry_def dict_get_or_def)

subsection \<open>The role hierarchy\<close>

definition parent_rel :: "role_hierarchy \<Rightarrow> (string \<times> string) set" where
  "parent_rel h = {(c, p). map_of h c = Some p}"

lemma finite_parent_rel: "finite (parent_rel h)"
proof -
  have "parent_rel h \<subseteq> set h" by (auto simp: parent_rel_def dest: map_of_SomeD)
  then show ?thesis by (rule finite_subset) simp
qed

lemma parent_rel_trancl_step:
  "map_of h c = Some p \<Longrightarrow> (c, a) \<in> (parent_rel h)\<^sup>+ \<longleftrightarrow> p = a \<or> (p, a) \<in> (parent_rel h)\<^sup>+"
  by (subst trancl_unfold_left) (auto simp: parent_rel_def dest: rtranclD intro: trancl_into_rtrancl)

lemma parent_rel_trancl_root: "map_of h c = None \<Longrightarrow> (c, a) \<notin> (parent_rel h)\<^sup>+"
  by (auto simp: parent_rel_def dest: tranclD)

lemma climb_acyclic:
  assumes "acyclic (parent_rel h)"
  shows "climb h a c = Some ((c, a) \<in> (parent_rel h)\<^sup>+)"
proof -
  have "wf ((parent_rel h)\<inverse>)"
    using assms by (simp add: finite_acyclic_wf_converse finite_parent_rel)
  then show ?thesis
  proof (induction c)
    case (less c)
    show ?case
    proof (cases "map_of h c")
      case None
      then show ?thesis by (simp add: climb.simps parent_rel_trancl_root)
    next
      case (Some p)
      then have "(p, c) \<in> (parent_rel h)\<inverse>" by (simp add: parent_rel_def)
      from less.IH [OF this] Some show ?thesis
        by (simp add: climb.simps [of h a c] parent_rel_trancl_step)
    qed
  qed
qed

lemma climb_trapped:
  assumes closed: "\<And>c. c \<in> C \<Longrightarrow> \<exists>p \<in> C. map_of h c = Some p"
    and "a \<notin> C" "c \<in> C"
  shows "climb h a c = None"
proof (rule ccontr)
  assume "climb h a c \<noteq> None"
  then obtain b where b: "climb h a c = Some b" by auto
  have "h' = h \<longrightarrow> a' = a \<longrightarrow> c' \<notin> C" if "climb h' a' c' = Some b'" for h' a' c' b'
  proof (rule climb.raw_induct [where P = "\<lambda>h' a' c' b. h' = h \<longrightarrow> a' = a \<longrightarrow> c' \<notin> C", OF _ that])
    fix f :: "role_hierarchy \<Rightarrow> string \<Rightarrow> string \<Rightarrow> bool option" and h' a' c' r
    assume IH: "\<And>h' a' c' r. f h' a' c' = Some r \<Longrightarrow> h' = h \<longrightarrow> a' = a \<longrightarrow> c' \<notin> C"
      and eq: "(case map_of h' c' of None \<Rightarrow> Some False
         | Some parent \<Rightarrow> if parent = a' then Some True else f h' a' parent) = Some r"
    show "h' = h \<longrightarrow> a' = a \<longrightarrow> c' \<notin> C"
      using IH eq closed [of c'] \<open>a \<notin> C\<close> by (auto split: option.splits if_splits)
  qed
  with b \<open>c \<in> C\<close> show False by blast
qed

subsection \<open>Properties\<close>

text \<open>The governance accumulated for one invocation is as strict as the strictest of all the
  decisions ever observed for it, whatever their order; who satisfies its approval requirement
  satisfies the requirement of every one of them; and it stays attached to the same run and
  tool call. A later, laxer observation never weakens it.\<close>

theorem accumulate_strictest:
  "let g' = fold (\<lambda>d g. accumulate g d) obs g in
     decision_rank (accumulated g') = Max (decision_rank ` set (accumulated g # obs))
     \<and> (decision_sat e (accumulated g') \<longleftrightarrow> (\<forall>d \<in> set (accumulated g # obs). decision_sat e d))
     \<and> gs_run_id g' = gs_run_id g \<and> gs_tool_call_id g' = gs_tool_call_id g"
  unfolding fold_accumulate Let_def using gov.rank_fold gov.sat_fold by simp

text \<open>An instance: a denial observed first survives two later allowances.\<close>

theorem accumulate_strictest_witness:
  "outcome (accumulated (fold (\<lambda>d g. accumulate g d)
     [decision ALLOW [''later''], decision ALLOW [''still later'']]
     (gov_start ''run'' ''call'' (decision DENY [''first''])))) = DENY"
  using accumulate_strictest
    [of "[decision ALLOW [''later''], decision ALLOW [''still later'']]"
      "gov_start ''run'' ''call'' (decision DENY [''first''])" "({}, {})"]
  by (simp add: gov_start_def decision_def accumulate_def combine_decisions_def)

text \<open>Conjoining the platform's floor with whatever the tenant policy returned never relaxes
  either side: the outcome is as strict as the stricter of the two (a \<open>NON_APPROVABLE\<close> side
  gives \<open>DENY\<close>), an approval is demanded exactly when a requirement is attached, and a high or
  critical risk or an always-approve policy can never end in \<open>ALLOW\<close>.\<close>

theorem conjoin_never_relaxes:
  "strictness (conjoin (ArgOutcome (capability_floor r pol)) t) =
     max (if pol = ALWAYS \<or> r = HIGH \<or> r = CRITICAL then 1 else 0) (strictness (normalize_decision t ''tenant''))
   \<and> (outcome (conjoin (ArgOutcome (capability_floor r pol)) t) = REQUIRE_APPROVAL
        \<longleftrightarrow> requirement (conjoin (ArgOutcome (capability_floor r pol)) t) \<noteq> None)
   \<and> outcome (conjoin (ArgOutcome (capability_floor r pol)) t) \<noteq> NON_APPROVABLE"
proof -
  let ?f = "normalize_decision (ArgOutcome (capability_floor r pol)) ''floor''"
  have "strictness ?f = (if pol = ALWAYS \<or> r = HIGH \<or> r = CRITICAL then 1 else 0)"
    by (simp add: strictness_def capability_floor_def decision_def)
  moreover have "strictness (conjoin (ArgOutcome (capability_floor r pol)) t) =
      max (strictness ?f) (strictness (normalize_decision t ''tenant''))"
    using conj.rank_comb [of ?f "normalize_decision t ''tenant''"]
    by (simp add: strictness_def conjoin_outcome_cases)
  ultimately show ?thesis
    by (simp add: conjoin_requirement conjoin_never_non_approvable)
qed

text \<open>The same verdict is treated in opposite ways depending on its Python type: the
  enumeration member \<open>NON_APPROVABLE\<close> denies, but the plain string \<open>NON_APPROVABLE\<close> contains
  neither of the two substrings the normaliser looks for and falls through to \<open>ALLOW\<close>; so does
  a decision of an unknown type.\<close>

theorem non_approvable_string_fails_open:
  "outcome (conjoin (ArgOutcome ALLOW) (ArgOutcome NON_APPROVABLE)) = DENY
   \<and> outcome (conjoin (ArgOutcome ALLOW) (ArgStr (outcome_value NON_APPROVABLE))) = ALLOW
   \<and> outcome (conjoin (ArgOutcome ALLOW) ArgOther) = ALLOW"
  by code_simp

text \<open>C19. On an acyclic hierarchy the authority check terminates and decides exactly whether the
  active role is the required one, one of the three universal roles, or an ancestor of the
  required role.\<close>

theorem superior_or_equal_correct:
  assumes "acyclic (parent_rel h)"
  shows "is_superior_or_equal h active req =
    Some (active = req \<or> active \<in> {''admin'', ''superadmin'', ''founder''} \<or> (req, active) \<in> (parent_rel h)\<^sup>+)"
  by (simp add: is_superior_or_equal_def climb_acyclic [OF assms])

theorem superior_or_equal_correct_witness:
  "is_superior_or_equal (add_relation (add_relation [] ''officer'' ''director'') ''director'' ''cfo'') ''cfo'' ''officer'' = Some True"
proof -
  let ?h = "add_relation (add_relation [] ''officer'' ''director'') ''director'' ''cfo''"
  let ?rank = "\<lambda>r. if r = ''officer'' then 2 else if r = ''director'' then 1 else (0::nat)"
  have "(parent_rel ?h)\<inverse> \<subseteq> inv_image (measure id) ?rank"
    by (auto simp: parent_rel_def add_relation_def split: if_splits)
  then have "wf ((parent_rel ?h)\<inverse>)"
    by (rule wf_subset [OF wf_inv_image [OF wf_measure]])
  then have ac: "acyclic (parent_rel ?h)"
    by (metis wf_acyclic acyclic_converse)
  have "(''officer'', ''cfo'') \<in> (parent_rel ?h)\<^sup>+"
    by (rule trancl_into_trancl [of _ "''director''"]) (auto simp: parent_rel_def add_relation_def)
  with superior_or_equal_correct [OF ac] show ?thesis by simp
qed

text \<open>\<open>add_relation\<close> does not refuse a relation that closes a cycle, and on a set of roles
  that is closed under "has a superior" the check for an active role outside it never returns
  (unless one of the shortcuts applies): the \<open>while\<close> loop runs forever.\<close>

theorem superior_or_equal_diverges:
  assumes "\<And>c. c \<in> C \<Longrightarrow> \<exists>p \<in> C. map_of h c = Some p"
    and "req \<in> C" "active \<notin> C" "active \<notin> {''admin'', ''superadmin'', ''founder''}"
  shows "is_superior_or_equal h active req = None"
  using assms climb_trapped [OF assms(1,3,2)] by (auto simp: is_superior_or_equal_def)

theorem superior_or_equal_diverges_witness:
  "is_superior_or_equal (add_relation (add_relation [] ''a'' ''b'') ''b'' ''a'') ''viewer'' ''a'' = None"
  by (rule superior_or_equal_diverges [of "{''a'', ''b''}"]) (auto simp: add_relation_def)

text \<open>A child agent's authority never exceeds its parent's, its own declaration or a non-empty
  delegated ceiling, and never contains a revoked capability; but an empty ceiling is read as
  "no ceiling": the child then gets everything its parent and its declaration share.\<close>

theorem child_authority_attenuated:
  "compute_effective_child_authority parent child_spec (c # cs) revoked =
     set parent \<inter> set child_spec \<inter> set (c # cs) - (case revoked of None \<Rightarrow> {} | Some r \<Rightarrow> r)
   \<and> compute_effective_child_authority parent child_spec [] revoked =
     set parent \<inter> set child_spec - (case revoked of None \<Rightarrow> {} | Some r \<Rightarrow> r)"
  by (auto simp: compute_effective_child_authority_def)

text \<open>The ambient check lets a side effect through exactly when the tenant is neither
  suspended nor disabled, the principal neither revoked nor disabled, and no emergency lock,
  kill switch or human takeover flag of the context is set.\<close>

lemma ambient_governance_iff:
  "fst (verify_ambient_governance (Some ctx)) \<longleftrightarrow>
     map_of ctx ''tenant_status'' \<notin> {Some (PStr ''suspended''), Some (PStr ''disabled'')}
     \<and> map_of ctx ''principal_status'' \<notin> {Some (PStr ''revoked''), Some (PStr ''disabled'')}
     \<and> \<not> (\<exists>k v. k \<in> {''emergency_lock'', ''kill_switch'', ''human_takeover'', ''takeover'', ''thread_takeover''}
           \<and> map_of ctx k = Some v \<and> truthy v)"
proof -
  have st: "status_in (ambient_lookup ctx k (PStr ''active'')) [a, b] = None \<longleftrightarrow>
      map_of ctx k \<notin> {Some (PStr a), Some (PStr b)}"
    if "a \<noteq> ''active''" "b \<noteq> ''active''" for k a b
  proof (cases "map_of ctx k")
    case None
    with that show ?thesis by (simp add: ambient_lookup_def)
  next
    case (Some v)
    then show ?thesis by (cases v) (simp_all add: ambient_lookup_def)
  qed
  have fl: "truthy (ambient_lookup ctx k (PBool False)) \<longleftrightarrow> (\<exists>v. map_of ctx k = Some v \<and> truthy v)" for k
    by (cases "map_of ctx k") (simp_all add: ambient_lookup_def)
  have flags: "(\<exists>k v. k \<in> {a, b, c, d, e} \<and> map_of ctx k = Some v \<and> truthy v) \<longleftrightarrow>
      truthy (ambient_lookup ctx a (PBool False)) \<or> truthy (ambient_lookup ctx b (PBool False))
      \<or> truthy (ambient_lookup ctx c (PBool False)) \<or> truthy (ambient_lookup ctx d (PBool False))
      \<or> truthy (ambient_lookup ctx e (PBool False))" for a b c d e
    unfolding fl by blast
  have t: "status_in (ambient_lookup ctx ''tenant_status'' (PStr ''active'')) [''suspended'', ''disabled''] = None
      \<longleftrightarrow> map_of ctx ''tenant_status'' \<notin> {Some (PStr ''suspended''), Some (PStr ''disabled'')}"
    by (rule st) simp_all
  have p: "status_in (ambient_lookup ctx ''principal_status'' (PStr ''active'')) [''revoked'', ''disabled''] = None
      \<longleftrightarrow> map_of ctx ''principal_status'' \<notin> {Some (PStr ''revoked''), Some (PStr ''disabled'')}"
    by (rule st) simp_all
  show ?thesis
    unfolding verify_ambient_governance_def option.case flags t [symmetric] p [symmetric]
    by (simp only: fst_conv option.case_distrib [of fst] if_distrib [of fst] split: option.split) simp
qed

end
