(* ===== verification/RunModels.thy ===== *)
theory RunModels
  imports Governance
begin

text \<open>
  The durable records of a run (\<open>packages/agent/runs/models.py\<close>, \<open>contracts/run.py\<close>,
  \<open>contracts/wait.py\<close>, \<open>contracts/target.py\<close>) and the state of \<open>InMemoryRunRepository\<close>
  (\<open>packages/agent/runs/repository.py\<close>). Field names carry a prefix per record. An optional
  object is an \<open>option\<close>; statuses that the code keeps as plain strings stay strings.
\<close>

subsection \<open>Runs\<close>

datatype run_status =
    RS_PENDING | RS_RUNNING | RS_WAITING_APPROVAL | RS_WAITING_INPUT
  | RS_COMPLETED | RS_FAILED | RS_CANCELLED

definition run_terminal :: "run_status \<Rightarrow> bool" where
  "run_terminal s \<longleftrightarrow> s \<in> {RS_COMPLETED, RS_FAILED, RS_CANCELLED}"

record workforce_run_attribution =
  agent_instance_id :: string
  assignment_id :: string
  work_package_id :: string
  work_attempt_id :: string

record run_record =
  r_run_id :: string
  r_workspace_id :: "string option"
  r_project_id :: "string option"
  r_conversation_id :: "string option"
  r_session_ref :: "string option"
  r_principal :: string
  r_root_executable_id :: string
  r_root_executable_kind :: string
  r_root_executable_version :: string
  r_root_definition_hash :: "string option"
  r_policy_snapshot_ref :: "string option"
  r_status :: run_status
  r_execution_mode :: execution_mode
  r_correlation_id :: "string option"
  r_idempotency_key :: "string option"
  r_input_payload :: payload
  r_model_policy :: payload
  r_final_output :: "pyval option"
  r_usage :: payload
  r_error_details :: "payload option"
  r_created_at :: datetime
  r_updated_at :: datetime
  r_completed_at :: "datetime option"
  r_workforce_attribution :: "workforce_run_attribution option"

subsection \<open>Checkpoints, events, tool calls\<close>

record run_checkpoint_record =
  ck_checkpoint_ref :: string
  ck_run_id :: string
  ck_project_id :: "string option"
  ck_sequence_no :: int
  ck_step_name :: "string option"
  ck_state_kind :: string
  ck_serialized_state :: payload
  ck_manifest_snapshot :: payload
  ck_resume_metadata :: payload
  ck_created_at :: datetime

record run_event_record =
  ev_event_id :: string
  ev_run_id :: string
  ev_project_id :: "string option"
  ev_sequence_no :: "nat option"
  ev_event_type :: string
  ev_payload :: payload
  ev_correlation_id :: "string option"
  ev_created_at :: datetime

text \<open>\<open>ExecutionTargetSnapshot\<close>, which a tool call stores as its dumped dictionary (empty until
  the gateway fills it).\<close>

record execution_target_snapshot =
  ts_capability_id :: string
  ts_connector_id :: "string option"
  ts_connection_account_id :: "string option"
  ts_endpoint_resource_identity :: "string option"
  ts_schema_hash_version :: "string option"
  ts_credential_grant_version :: "string option"
  ts_capability_risk_at_request_time :: capability_risk
  ts_handler_catalog_version :: "string option"
  ts_metadata :: payload

record run_tool_call_record =
  tc_tool_call_id :: string
  tc_run_id :: string
  tc_project_id :: "string option"
  tc_checkpoint_ref :: "string option"
  tc_capability_id :: string
  tc_payload_hash :: string
  tc_input_payload :: payload
  tc_status :: string
  tc_idempotency_key :: "string option"
  tc_result_hash :: "string option"
  tc_output_payload :: "pyval option"
  tc_error_message :: "string option"
  tc_spec_version :: "string option"
  tc_definition_hash :: "string option"
  tc_policy_snapshot_ref :: "string option"
  tc_execution_target_snapshot :: "execution_target_snapshot option"
  tc_governance_state :: "invocation_governance_state option"
  tc_created_at :: datetime
  tc_completed_at :: "datetime option"

subsection \<open>Approvals\<close>

datatype approval_binding_kind = TOOL_CALL | CHANGE_REQUEST

record approval_subject =
  subj_kind :: string
  subj_ref :: string
  subj_definition_hash :: string

record run_approval_record =
  ap_approval_id :: string
  ap_workspace_id :: "string option"
  ap_project_id :: "string option"
  ap_binding_kind :: approval_binding_kind
  ap_run_id :: "string option"
  ap_tool_call_id :: "string option"
  ap_checkpoint_ref :: "string option"
  ap_status :: string
  ap_requirement :: payload
  ap_requester :: "string option"
  ap_action :: "string option"
  ap_subject :: "string option"
  ap_subject_kind :: "string option"
  ap_subject_ref :: "string option"
  ap_subject_hash :: "string option"
  ap_reviewer :: "string option"
  ap_reason :: "string option"
  ap_evidence :: "payload option"
  ap_manifest_hash :: "string option"
  ap_decision_version :: int
  ap_created_at :: datetime
  ap_decided_at :: "datetime option"
  ap_expires_at :: "datetime option"

record approval_event_record =
  ae_event_id :: string
  ae_approval_id :: string
  ae_workspace_id :: string
  ae_event_type :: string
  ae_actor_id :: "string option"
  ae_payload :: payload
  ae_created_at :: datetime

record approval_action_outbox_record =
  ob_outbox_id :: string
  ob_approval_id :: string
  ob_workspace_id :: string
  ob_action :: string
  ob_subject_kind :: "string option"
  ob_subject_ref :: "string option"
  ob_subject_hash :: string
  ob_state :: string
  ob_attempt_count :: int
  ob_next_attempt_at :: datetime
  ob_claim_token :: "string option"
  ob_created_at :: datetime
  ob_delivered_at :: "datetime option"

subsection \<open>Idempotency claims and automation manifests\<close>

record idempotency_claim_record =
  cl_claim_id :: string
  cl_tenant_id :: "string option"
  cl_capability_id :: string
  cl_scope_kind :: string
  cl_scope_key :: string
  cl_idempotency_key :: string
  cl_payload_hash :: string
  cl_run_id :: string
  cl_tool_call_id :: string
  cl_status :: string
  cl_result_hash :: "string option"
  cl_result_payload :: "pyval option"
  cl_error_message :: "string option"
  cl_created_at :: datetime
  cl_updated_at :: datetime

record automation_run_manifest =
  am_run_id :: string
  am_manifest_hash :: string
  am_manifest_json :: payload

subsection \<open>Waits\<close>

datatype wait_kind = WK_APPROVAL | WK_EVENT | WK_INPUT | WK_TIMER | WK_EXTERNAL_DEPENDENCY

record wait_descriptor =
  wd_id :: string
  wd_kind :: wait_kind
  wd_reason :: string
  wd_owner_responder :: "string option"
  wd_resume_trigger :: string
  wd_checkpoint_ref :: string
  wd_related_ref :: "string option"
  wd_created_at :: datetime
  wd_expires_at :: "datetime option"

subsection \<open>The repository's state\<close>

type_synonym claim_key = "string \<times> string \<times> string \<times> string"

record run_repo =
  runs :: "(string, run_record) pydict"
  checkpoints :: "(string, run_checkpoint_record) pydict"
  run_checkpoints :: "(string, string list) pydict"
  events :: "(string, run_event_record list) pydict"
  tool_calls :: "(string, run_tool_call_record) pydict"
  approvals :: "(string, run_approval_record) pydict"
  approval_events :: "approval_event_record list"
  approval_outbox :: "(string, approval_action_outbox_record) pydict"
  idempotency_claims :: "(string, idempotency_claim_record) pydict"
  idempotency_index :: "(claim_key, string) pydict"
  automation_manifests :: "(string, automation_run_manifest) pydict"

definition empty_repo :: run_repo where
  "empty_repo = \<lparr>runs = [], checkpoints = [], run_checkpoints = [], events = [], tool_calls = [],
     approvals = [], approval_events = [], approval_outbox = [], idempotency_claims = [],
     idempotency_index = [], automation_manifests = []\<rparr>"

end
