(* ===== verification/RunRepo.thy ===== *)
theory RunRepo
  imports RunModels
begin

text \<open>
  \<open>InMemoryRunRepository\<close> (\<open>packages/agent/runs/repository.py\<close>): runs, checkpoints, automation
  manifests, the per-run event log and the tool-call ledger. Each operation takes the repository
  and returns the new one with its result; a method body has no preemption point, so one call is
  one step. Clock readings (\<open>datetime.now(UTC)\<close>) are arguments.
\<close>

subsection \<open>Runs\<close>

definition create_run :: "run_record \<Rightarrow> run_repo \<Rightarrow> run_repo \<times> run_record" where
  "create_run run s = (s\<lparr>runs := dict_set (r_run_id run) run (runs s)\<rparr>, run)"

definition get_run :: "string \<Rightarrow> run_repo \<Rightarrow> run_record option" where
  "get_run rid s = dict_get (runs s) rid"

definition get_scoped_run :: "string \<Rightarrow> string \<Rightarrow> run_repo \<Rightarrow> run_record option" where
  "get_scoped_run rid ws s =
     (case dict_get (runs s) rid of
        None \<Rightarrow> None
      | Some r \<Rightarrow> if r_workspace_id r = Some ws then Some r else None)"

definition attach_workforce_attribution ::
  "datetime \<Rightarrow> string \<Rightarrow> workforce_run_attribution \<Rightarrow> run_repo \<Rightarrow> run_repo \<times> run_record option" where
  "attach_workforce_attribution now rid attr s =
     (case dict_get (runs s) rid of
        None \<Rightarrow> (s, None)
      | Some r \<Rightarrow>
          let r' = r\<lparr>r_workforce_attribution := Some attr, r_updated_at := now\<rparr> in
          (s\<lparr>runs := dict_set rid r' (runs s)\<rparr>, Some r'))"

definition list_runs :: "string \<Rightarrow> int \<Rightarrow> run_repo \<Rightarrow> run_record list" where
  "list_runs ws limit s =
     py_take limit
       (filter (\<lambda>r. r_workspace_id r = Some ws)
          (sort_key (\<lambda>r. - r_created_at r) (dict_values (runs s))))"

text \<open>The assignments that \<open>update_run_status\<close> and \<open>transition_run_status\<close> share; the second
  clock reading is the one for \<open>completed_at\<close>.\<close>

definition set_run_status ::
  "datetime \<Rightarrow> datetime \<Rightarrow> run_status \<Rightarrow> pyval option \<Rightarrow> payload option \<Rightarrow> run_record \<Rightarrow> run_record" where
  "set_run_status now now' st out err r =
     (let r1 = r\<lparr>r_status := st, r_updated_at := now\<rparr>;
          r2 = (case out of None \<Rightarrow> r1 | Some v \<Rightarrow> r1\<lparr>r_final_output := Some v\<rparr>);
          r3 = (case err of None \<Rightarrow> r2 | Some d \<Rightarrow> r2\<lparr>r_error_details := Some d\<rparr>)
      in if st \<in> {RS_COMPLETED, RS_FAILED, RS_CANCELLED} then r3\<lparr>r_completed_at := Some now'\<rparr> else r3)"

definition update_run_status ::
  "datetime \<Rightarrow> datetime \<Rightarrow> string \<Rightarrow> run_status \<Rightarrow> pyval option \<Rightarrow> payload option \<Rightarrow> run_repo
     \<Rightarrow> run_repo \<times> run_record option" where
  "update_run_status now now' rid st out err s =
     (case dict_get (runs s) rid of
        None \<Rightarrow> (s, None)
      | Some r \<Rightarrow>
          let r' = set_run_status now now' st out err r in
          (s\<lparr>runs := dict_set rid r' (runs s)\<rparr>, Some r'))"

definition transition_run_status ::
  "datetime \<Rightarrow> datetime \<Rightarrow> string \<Rightarrow> run_status list \<Rightarrow> run_status \<Rightarrow> pyval option \<Rightarrow> payload option
     \<Rightarrow> run_repo \<Rightarrow> run_repo \<times> run_record option" where
  "transition_run_status now now' rid from_statuses to_status out err s =
     (case dict_get (runs s) rid of
        None \<Rightarrow> (s, None)
      | Some r \<Rightarrow>
          if r_status r \<notin> set from_statuses then (s, None)
          else
            let r' = set_run_status now now' to_status out err r in
            (s\<lparr>runs := dict_set rid r' (runs s)\<rparr>, Some r'))"

definition cancellable :: "run_status list" where
  "cancellable = [RS_PENDING, RS_RUNNING, RS_WAITING_APPROVAL, RS_WAITING_INPUT, RS_CANCELLED]"

definition cancel_run ::
  "datetime \<Rightarrow> datetime \<Rightarrow> string \<Rightarrow> string \<Rightarrow> run_repo \<Rightarrow> run_repo \<times> run_record option" where
  "cancel_run now now' rid reason s =
     (case transition_run_status now now' rid cancellable RS_CANCELLED None
             (Some [(''reason'', PStr reason)]) s of
        (s', Some r) \<Rightarrow> (s', Some r)
      | (s', None) \<Rightarrow> (s', get_run rid s'))"

subsection \<open>Checkpoints\<close>

definition save_checkpoint ::
  "run_checkpoint_record \<Rightarrow> run_repo \<Rightarrow> run_repo \<times> run_checkpoint_record" where
  "save_checkpoint c s =
     (let seq_list = dict_get_or (run_checkpoints s) (ck_run_id c) [];
          seq_list' = (if ck_checkpoint_ref c \<in> set seq_list then seq_list else seq_list @ [ck_checkpoint_ref c])
      in (s\<lparr>checkpoints := dict_set (ck_checkpoint_ref c) c (checkpoints s),
            run_checkpoints := dict_set (ck_run_id c) seq_list' (run_checkpoints s)\<rparr>, c))"

datatype repo_error = KeyError string | ManifestConflict string string string

text \<open>\<open>self._checkpoints[ref]\<close> raises on a missing key.\<close>

definition get_latest_checkpoint :: "string \<Rightarrow> run_repo \<Rightarrow> repo_error + run_checkpoint_record option" where
  "get_latest_checkpoint rid s =
     (let seq_list = dict_get_or (run_checkpoints s) rid [] in
      if seq_list = [] then Inr None
      else case dict_get (checkpoints s) (last seq_list) of
             None \<Rightarrow> Inl (KeyError (last seq_list))
           | Some c \<Rightarrow> Inr (Some c))"

definition get_checkpoint :: "string \<Rightarrow> run_repo \<Rightarrow> run_checkpoint_record option" where
  "get_checkpoint ref s = dict_get (checkpoints s) ref"

fun lookup_checkpoints ::
  "(string, run_checkpoint_record) pydict \<Rightarrow> string list \<Rightarrow> repo_error + run_checkpoint_record list" where
  "lookup_checkpoints d [] = Inr []"
| "lookup_checkpoints d (ref # refs) =
     (case dict_get d ref of
        None \<Rightarrow> Inl (KeyError ref)
      | Some c \<Rightarrow> (case lookup_checkpoints d refs of Inl e \<Rightarrow> Inl e | Inr cs \<Rightarrow> Inr (c # cs)))"

definition list_checkpoints :: "string \<Rightarrow> run_repo \<Rightarrow> repo_error + run_checkpoint_record list" where
  "list_checkpoints rid s = lookup_checkpoints (checkpoints s) (dict_get_or (run_checkpoints s) rid [])"

subsection \<open>Automation manifests\<close>

definition save_automation_manifest ::
  "string \<Rightarrow> string \<Rightarrow> payload \<Rightarrow> run_repo \<Rightarrow> run_repo \<times> (repo_error + automation_run_manifest)" where
  "save_automation_manifest rid h json s =
     (case dict_get (automation_manifests s) rid of
        Some m \<Rightarrow>
          if am_manifest_hash m \<noteq> h then (s, Inl (ManifestConflict rid (am_manifest_hash m) h))
          else (s, Inr m)
      | None \<Rightarrow>
          let m = \<lparr>am_run_id = rid, am_manifest_hash = h, am_manifest_json = json\<rparr> in
          (s\<lparr>automation_manifests := dict_set rid m (automation_manifests s)\<rparr>, Inr m))"

definition get_automation_manifest :: "string \<Rightarrow> run_repo \<Rightarrow> automation_run_manifest option" where
  "get_automation_manifest rid s = dict_get (automation_manifests s) rid"

subsection \<open>Events\<close>

definition append_event :: "run_event_record \<Rightarrow> run_repo \<Rightarrow> run_repo \<times> run_event_record" where
  "append_event e s =
     (let ev_list = dict_get_or (events s) (ev_run_id e) [];
          e' = e\<lparr>ev_sequence_no := Some (length ev_list + 1)\<rparr>
      in (s\<lparr>events := dict_set (ev_run_id e) (ev_list @ [e']) (events s)\<rparr>, e'))"

text \<open>\<open>e.sequence_no or 0\<close>.\<close>

definition seq_no :: "run_event_record \<Rightarrow> nat" where
  "seq_no e = (case ev_sequence_no e of None \<Rightarrow> 0 | Some n \<Rightarrow> n)"

definition list_events :: "string \<Rightarrow> int option \<Rightarrow> run_repo \<Rightarrow> run_event_record list" where
  "list_events rid after_seq s =
     (let ev_list = dict_get_or (events s) rid [] in
      case after_seq of
        None \<Rightarrow> ev_list
      | Some n \<Rightarrow> filter (\<lambda>e. n < int (seq_no e)) ev_list)"

subsection \<open>Tool calls\<close>

definition save_tool_call :: "run_tool_call_record \<Rightarrow> run_repo \<Rightarrow> run_repo \<times> run_tool_call_record" where
  "save_tool_call tc s = (s\<lparr>tool_calls := dict_set (tc_tool_call_id tc) tc (tool_calls s)\<rparr>, tc)"

definition get_tool_call :: "string \<Rightarrow> run_repo \<Rightarrow> run_tool_call_record option" where
  "get_tool_call tid s = dict_get (tool_calls s) tid"

definition get_tool_call_by_idempotency ::
  "string \<Rightarrow> string \<Rightarrow> run_repo \<Rightarrow> run_tool_call_record option" where
  "get_tool_call_by_idempotency rid key s =
     List.find (\<lambda>tc. tc_run_id tc = rid \<and> tc_idempotency_key tc = Some key) (dict_values (tool_calls s))"

definition list_tool_calls :: "string \<Rightarrow> run_repo \<Rightarrow> run_tool_call_record list" where
  "list_tool_calls rid s = filter (\<lambda>tc. tc_run_id tc = rid) (dict_values (tool_calls s))"

end
