(* ===== verification/RunApprovals.thy ===== *)
theory RunApprovals
  imports RunRepo
begin

text \<open>
  The approval side of \<open>InMemoryRunRepository\<close>: approval records and their compare-and-set
  decision, change approvals with their audit events, and the outbox of approved actions.
\<close>

subsection \<open>Approval records\<close>

definition create_approval ::
  "run_approval_record \<Rightarrow> run_repo \<Rightarrow> run_repo \<times> run_approval_record" where
  "create_approval a s =
     (let rec' =
        (case (ap_workspace_id a, ap_run_id a) of
           (None, Some rid) \<Rightarrow>
             (if rid \<noteq> [] then
                (case dict_get (runs s) rid of
                   None \<Rightarrow> a
                 | Some run \<Rightarrow> a\<lparr>ap_workspace_id := r_workspace_id run\<rparr>)
              else a)
         | _ \<Rightarrow> a)
      in (s\<lparr>approvals := dict_set (ap_approval_id a) rec' (approvals s)\<rparr>, rec'))"

definition get_approval :: "string \<Rightarrow> run_repo \<Rightarrow> run_approval_record option" where
  "get_approval aid s = dict_get (approvals s) aid"

text \<open>Whether an approval is visible from a workspace: directly, or through its run when it
  names no workspace itself.\<close>

definition via_run :: "string \<Rightarrow> run_repo \<Rightarrow> run_approval_record \<Rightarrow> bool" where
  "via_run ws s a =
     (ap_workspace_id a = None \<and>
      (case ap_run_id a of
         None \<Rightarrow> False
       | Some rid \<Rightarrow>
           rid \<noteq> [] \<and>
           (case dict_get (runs s) rid of None \<Rightarrow> False | Some run \<Rightarrow> r_workspace_id run = Some ws)))"

definition get_scoped_approval :: "string \<Rightarrow> string \<Rightarrow> run_repo \<Rightarrow> run_approval_record option" where
  "get_scoped_approval aid ws s =
     (case dict_get (approvals s) aid of
        None \<Rightarrow> None
      | Some a \<Rightarrow>
          if ap_workspace_id a = Some ws then Some a
          else if via_run ws s a then Some a
          else None)"

definition get_approval_by_tool_call :: "string \<Rightarrow> run_repo \<Rightarrow> run_approval_record option" where
  "get_approval_by_tool_call tid s =
     List.find (\<lambda>a. ap_tool_call_id a = Some tid) (dict_values (approvals s))"

definition get_approval_by_checkpoint :: "string \<Rightarrow> run_repo \<Rightarrow> run_approval_record option" where
  "get_approval_by_checkpoint ref s =
     List.find (\<lambda>a. ap_checkpoint_ref a = Some ref) (dict_values (approvals s))"

text \<open>The assignments of a decision, shared by the two deciding operations.\<close>

definition decided ::
  "datetime \<Rightarrow> string \<Rightarrow> bool \<Rightarrow> string option \<Rightarrow> payload option \<Rightarrow> run_approval_record \<Rightarrow> run_approval_record" where
  "decided now reviewer approved reason evidence a =
     (let a1 = a\<lparr>ap_status := (if approved then ''approved'' else ''denied''), ap_reviewer := Some reviewer,
                 ap_decided_at := Some now, ap_decision_version := ap_decision_version a + 1\<rparr>;
          a2 = (if truthy_opt reason then a1\<lparr>ap_reason := reason\<rparr> else a1)
      in if truthy_opt evidence then a2\<lparr>ap_evidence := evidence\<rparr> else a2)"

definition decide_approval ::
  "datetime \<Rightarrow> string \<Rightarrow> string \<Rightarrow> bool \<Rightarrow> string option \<Rightarrow> payload option \<Rightarrow> run_repo
     \<Rightarrow> run_repo \<times> run_approval_record option" where
  "decide_approval now aid reviewer approved reason evidence s =
     (case dict_get (approvals s) aid of
        None \<Rightarrow> (s, None)
      | Some a \<Rightarrow>
          if ap_status a \<noteq> ''pending'' then (s, None)
          else
            let a' = decided now reviewer approved reason evidence a in
            (s\<lparr>approvals := dict_set aid a' (approvals s)\<rparr>, Some a'))"

definition list_pending_approvals :: "string option \<Rightarrow> run_repo \<Rightarrow> run_approval_record list" where
  "list_pending_approvals ws s =
     filter (\<lambda>a. ap_status a = ''pending'' \<and>
               (case ws of None \<Rightarrow> True | Some w \<Rightarrow> ap_workspace_id a = Some w \<or> via_run w s a))
       (dict_values (approvals s))"

subsection \<open>Change approvals\<close>

definition same_pending_change :: "run_approval_record \<Rightarrow> run_approval_record \<Rightarrow> bool" where
  "same_pending_change a e \<longleftrightarrow>
     ap_binding_kind e = CHANGE_REQUEST \<and> ap_status e = ''pending''
     \<and> ap_workspace_id e = ap_workspace_id a \<and> ap_action e = ap_action a
     \<and> ap_subject_kind e = ap_subject_kind a \<and> ap_subject_ref e = ap_subject_ref a
     \<and> ap_subject_hash e = ap_subject_hash a"

definition create_or_get_pending_change_approval ::
  "run_approval_record \<Rightarrow> run_repo \<Rightarrow> run_repo \<times> (run_approval_record \<times> bool)" where
  "create_or_get_pending_change_approval a s =
     (case List.find (same_pending_change a) (dict_values (approvals s)) of
        Some e \<Rightarrow> (s, (e, False))
      | None \<Rightarrow> (s\<lparr>approvals := dict_set (ap_approval_id a) a (approvals s)\<rparr>, (a, True)))"

definition append_approval_event ::
  "string \<Rightarrow> datetime \<Rightarrow> string \<Rightarrow> string \<Rightarrow> string \<Rightarrow> string option \<Rightarrow> payload option \<Rightarrow> run_repo
     \<Rightarrow> run_repo \<times> approval_event_record" where
  "append_approval_event eid now aid ws etype actor pl s =
     (let e = \<lparr>ae_event_id = eid, ae_approval_id = aid, ae_workspace_id = ws, ae_event_type = etype,
               ae_actor_id = actor, ae_payload = (case pl of None \<Rightarrow> [] | Some p \<Rightarrow> p), ae_created_at = now\<rparr>
      in (s\<lparr>approval_events := approval_events s @ [e]\<rparr>, e))"

definition ALLOW_LISTED_CHANGE_ACTIONS :: "string list" where
  "ALLOW_LISTED_CHANGE_ACTIONS = [''promote_skill_candidate'']"

definition WORKFLOW_GATE_SUBJECT_KIND :: string where
  "WORKFLOW_GATE_SUBJECT_KIND = ''workflow_gate''"

definition outbox_eligible :: "run_approval_record \<Rightarrow> bool" where
  "outbox_eligible a \<longleftrightarrow>
     (case ap_action a of None \<Rightarrow> False | Some act \<Rightarrow> act \<in> set ALLOW_LISTED_CHANGE_ACTIONS)
     \<or> ap_subject_kind a = Some WORKFLOW_GATE_SUBJECT_KIND"

definition opt_str :: "string option \<Rightarrow> pyval" where
  "opt_str x = (case x of None \<Rightarrow> PNone | Some s \<Rightarrow> PStr s)"

text \<open>\<open>ids\<close> are the generated event and outbox identifiers; \<open>t1 .. t4\<close> the clock readings of the
  decision, of the audit event and of the outbox record's two timestamps.\<close>

definition decide_change_approval_and_enqueue ::
  "string \<times> string \<Rightarrow> datetime \<times> datetime \<times> datetime \<times> datetime \<Rightarrow> string \<Rightarrow> string \<Rightarrow> bool
     \<Rightarrow> string option \<Rightarrow> payload option \<Rightarrow> run_repo \<Rightarrow> run_repo \<times> run_approval_record option" where
  "decide_change_approval_and_enqueue ids ts aid reviewer approved reason evidence s =
     (case (ids, ts) of ((eid, oid), (t1, t2, t3, t4)) \<Rightarrow>
     (case dict_get (approvals s) aid of
        None \<Rightarrow> (s, None)
      | Some a \<Rightarrow>
          if ap_status a \<noteq> ''pending'' then (s, None)
          else
            let a' = decided t1 reviewer approved reason evidence a;
                s1 = s\<lparr>approvals := dict_set aid a' (approvals s)\<rparr>;
                s2 = fst (append_approval_event eid t2 (ap_approval_id a') (or_else (ap_workspace_id a') [])
                       ''approval.decided'' (Some reviewer)
                       (Some [(''approved'', PBool approved), (''reason'', opt_str reason),
                              (''action'', opt_str (ap_action a'))]) s1);
                s3 = (if approved \<and> outbox_eligible a' then
                        s2\<lparr>approval_outbox := dict_set (ap_approval_id a')
                             \<lparr>ob_outbox_id = oid, ob_approval_id = ap_approval_id a',
                              ob_workspace_id = or_else (ap_workspace_id a') [],
                              ob_action = or_else (ap_action a') [],
                              ob_subject_kind = ap_subject_kind a', ob_subject_ref = ap_subject_ref a',
                              ob_subject_hash = or_else (ap_subject_hash a') [],
                              ob_state = ''pending'', ob_attempt_count = 0, ob_next_attempt_at = t3,
                              ob_claim_token = None, ob_created_at = t4, ob_delivered_at = None\<rparr>
                             (approval_outbox s2)\<rparr>
                      else s2)
            in (s3, Some a')))"

subsection \<open>The outbox of approved actions\<close>

definition outbox_due :: "datetime \<Rightarrow> approval_action_outbox_record \<Rightarrow> bool" where
  "outbox_due now ob \<longleftrightarrow>
     (ob_state ob = ''pending'' \<and> ob_next_attempt_at ob \<le> now)
     \<or> (ob_state ob = ''claimed'' \<and> ob_next_attempt_at ob \<le> now)"

definition outbox_claimed ::
  "string \<Rightarrow> datetime \<Rightarrow> approval_action_outbox_record \<Rightarrow> approval_action_outbox_record" where
  "outbox_claimed worker now ob =
     ob\<lparr>ob_state := ''claimed'', ob_claim_token := Some worker,
        ob_attempt_count := ob_attempt_count ob + 1,
        ob_next_attempt_at := now + timedelta_seconds 60\<rparr>"

text \<open>The loop over \<open>self._approval_outbox.values()\<close>, which stops once \<open>limit\<close> records are
  claimed; \<open>n\<close> is \<open>len(claimed)\<close>.\<close>

fun claim_loop ::
  "int \<Rightarrow> string \<Rightarrow> datetime \<Rightarrow> int \<Rightarrow> (string, approval_action_outbox_record) pydict
     \<Rightarrow> (string, approval_action_outbox_record) pydict \<times> approval_action_outbox_record list" where
  "claim_loop limit worker now n [] = ([], [])"
| "claim_loop limit worker now n ((k, ob) # rest) =
     (if limit \<le> n then ((k, ob) # rest, [])
      else if outbox_due now ob then
        let ob' = outbox_claimed worker now ob; (d, cs) = claim_loop limit worker now (n + 1) rest
        in ((k, ob') # d, ob' # cs)
      else let (d, cs) = claim_loop limit worker now n rest in ((k, ob) # d, cs))"

definition claim_approval_actions ::
  "int \<Rightarrow> string \<Rightarrow> datetime \<Rightarrow> run_repo \<Rightarrow> run_repo \<times> approval_action_outbox_record list" where
  "claim_approval_actions limit worker now s =
     (let (d, cs) = claim_loop limit worker now 0 (approval_outbox s)
      in (s\<lparr>approval_outbox := d\<rparr>, cs))"

definition mark_approval_action_delivered ::
  "datetime \<Rightarrow> string \<Rightarrow> string \<Rightarrow> run_repo \<Rightarrow> run_repo \<times> bool" where
  "mark_approval_action_delivered now aid worker s =
     (case dict_get (approval_outbox s) aid of
        None \<Rightarrow> (s, False)
      | Some ob \<Rightarrow>
          if ob_claim_token ob = Some worker \<and> ob_state ob = ''claimed'' then
            (s\<lparr>approval_outbox :=
                 dict_set aid (ob\<lparr>ob_state := ''delivered'', ob_delivered_at := Some now\<rparr>) (approval_outbox s)\<rparr>,
             True)
          else (s, False))"

end
