(* ===== verification/RunClaims.thy ===== *)
theory RunClaims
  imports RunRepo
begin

text \<open>
  Atomic idempotency claims: the claim table of \<open>InMemoryRunRepository\<close> and the
  \<open>IdempotencyClaimService\<close> (\<open>packages/agent/capabilities/idempotency.py\<close>) that stands in
  front of every handler.
\<close>

subsection \<open>The claim table\<close>

definition claim_key_of :: "idempotency_claim_record \<Rightarrow> claim_key" where
  "claim_key_of c = (cl_scope_kind c, cl_scope_key c, cl_capability_id c, cl_idempotency_key c)"

definition claim_idempotency ::
  "idempotency_claim_record \<Rightarrow> run_repo \<Rightarrow> run_repo \<times> (repo_error + bool \<times> idempotency_claim_record)" where
  "claim_idempotency c s =
     (case dict_get (idempotency_index s) (claim_key_of c) of
        Some cid \<Rightarrow>
          (case dict_get (idempotency_claims s) cid of
             None \<Rightarrow> (s, Inl (KeyError cid))
           | Some e \<Rightarrow> (s, Inr (False, e)))
      | None \<Rightarrow>
          (s\<lparr>idempotency_claims := dict_set (cl_claim_id c) c (idempotency_claims s),
             idempotency_index := dict_set (claim_key_of c) (cl_claim_id c) (idempotency_index s)\<rparr>,
           Inr (True, c)))"

definition complete_idempotency_claim ::
  "datetime \<Rightarrow> string \<Rightarrow> pyval option \<Rightarrow> string \<Rightarrow> run_repo \<Rightarrow> run_repo \<times> idempotency_claim_record option" where
  "complete_idempotency_claim now cid result_payload result_hash s =
     (case dict_get (idempotency_claims s) cid of
        None \<Rightarrow> (s, None)
      | Some c \<Rightarrow>
          let c' = c\<lparr>cl_status := ''completed'', cl_result_payload := result_payload,
                     cl_result_hash := Some result_hash, cl_updated_at := now\<rparr>
          in (s\<lparr>idempotency_claims := dict_set cid c' (idempotency_claims s)\<rparr>, Some c'))"

definition fail_idempotency_claim ::
  "datetime \<Rightarrow> string \<Rightarrow> string \<Rightarrow> run_repo \<Rightarrow> run_repo \<times> idempotency_claim_record option" where
  "fail_idempotency_claim now cid error_message s =
     (case dict_get (idempotency_claims s) cid of
        None \<Rightarrow> (s, None)
      | Some c \<Rightarrow>
          let c' = c\<lparr>cl_status := ''failed'', cl_error_message := Some error_message, cl_updated_at := now\<rparr>
          in (s\<lparr>idempotency_claims := dict_set cid c' (idempotency_claims s)\<rparr>, Some c'))"

definition retry_idempotency_claim ::
  "datetime \<Rightarrow> string \<Rightarrow> run_repo \<Rightarrow> run_repo \<times> idempotency_claim_record option" where
  "retry_idempotency_claim now cid s =
     (case dict_get (idempotency_claims s) cid of
        None \<Rightarrow> (s, None)
      | Some c \<Rightarrow>
          if cl_status c \<noteq> ''failed'' then (s, None)
          else
            let c' = c\<lparr>cl_status := ''running'', cl_error_message := None, cl_updated_at := now\<rparr>
            in (s\<lparr>idempotency_claims := dict_set cid c' (idempotency_claims s)\<rparr>, Some c'))"

subsection \<open>The claim service\<close>

datatype idempotency_outcome = IO_CLAIMED | IO_CACHED_COMPLETED | IO_IN_PROGRESS | IO_RETRIED

text \<open>The record \<open>try_claim\<close> builds; its identifier and its two timestamps are generated.\<close>

definition new_claim ::
  "string \<Rightarrow> datetime \<Rightarrow> datetime \<Rightarrow> string \<Rightarrow> string \<Rightarrow> string \<Rightarrow> string \<Rightarrow> string \<Rightarrow> string \<Rightarrow> string option
     \<Rightarrow> string option \<Rightarrow> idempotency_claim_record" where
  "new_claim cid t1 t2 rid tid cap key phash scope_kind scope_key tenant =
     \<lparr>cl_claim_id = cid, cl_tenant_id = tenant, cl_capability_id = cap, cl_scope_kind = scope_kind,
      cl_scope_key = or_else scope_key rid, cl_idempotency_key = key, cl_payload_hash = phash,
      cl_run_id = rid, cl_tool_call_id = tid, cl_status = ''running'', cl_result_hash = None,
      cl_result_payload = None, cl_error_message = None, cl_created_at = t1, cl_updated_at = t2\<rparr>"

definition same_invocation :: "idempotency_claim_record \<Rightarrow> idempotency_claim_record \<Rightarrow> bool" where
  "same_invocation e c \<longleftrightarrow> cl_run_id e = cl_run_id c \<and> cl_tool_call_id e = cl_tool_call_id c"

text \<open>\<open>try_claim\<close> once the claim record is built; \<open>now\<close> is the clock reading of a retry. The
  three repository calls are awaited one after another; no other caller runs in between
  in this sequential reading, and the branch for a lost retry is kept.\<close>

definition try_claim ::
  "datetime \<Rightarrow> idempotency_claim_record \<Rightarrow> run_repo
     \<Rightarrow> run_repo \<times> (repo_error + idempotency_outcome \<times> idempotency_claim_record)" where
  "try_claim now c s =
     (case claim_idempotency c s of
        (s1, Inl e) \<Rightarrow> (s1, Inl e)
      | (s1, Inr (True, r)) \<Rightarrow> (s1, Inr (IO_CLAIMED, r))
      | (s1, Inr (False, r)) \<Rightarrow>
          if cl_status r = ''completed'' then (s1, Inr (IO_CACHED_COMPLETED, r))
          else if cl_status r = ''failed'' then
            (case retry_idempotency_claim now (cl_claim_id r) s1 of
               (s2, Some r') \<Rightarrow> (s2, Inr (IO_RETRIED, r'))
             | (s2, None) \<Rightarrow>
                 (case claim_idempotency c s2 of
                    (s3, Inl e) \<Rightarrow> (s3, Inl e)
                  | (s3, Inr (_, r')) \<Rightarrow>
                      if same_invocation r' c then (s3, Inr (IO_CLAIMED, r'))
                      else (s3, Inr (IO_IN_PROGRESS, r'))))
          else if same_invocation r c then (s1, Inr (IO_CLAIMED, r))
          else (s1, Inr (IO_IN_PROGRESS, r)))"

definition claim_complete :: "datetime \<Rightarrow> string \<Rightarrow> pyval option \<Rightarrow> string \<Rightarrow> run_repo \<Rightarrow> run_repo" where
  "claim_complete now cid result_payload result_hash s =
     fst (complete_idempotency_claim now cid result_payload result_hash s)"

definition claim_fail :: "datetime \<Rightarrow> string \<Rightarrow> string \<Rightarrow> run_repo \<Rightarrow> run_repo" where
  "claim_fail now cid error_message s = fst (fail_idempotency_claim now cid error_message s)"

end
