(* ===== verification/RunOps.thy ===== *)
theory RunOps
  imports RunApprovals RunClaims
begin

text \<open>
  All state-changing operations of \<open>InMemoryRunRepository\<close> as requests of one state machine, the
  invariant of the repository and the properties that hold along every interleaving of them:
  the append-only, gap-free event log, checkpoint references that always resolve, the one claim
  per idempotency key, decisions that are taken once, and cancellations that are never
  overwritten by a late completion.
\<close>

subsection \<open>Requests\<close>

datatype run_op =
    OpCreateRun run_record
  | OpAttach datetime string workforce_run_attribution
  | OpUpdateStatus datetime datetime string run_status "pyval option" "payload option"
  | OpTransition datetime datetime string "run_status list" run_status "pyval option" "payload option"
  | OpCancel datetime datetime string string
  | OpSaveCheckpoint run_checkpoint_record
  | OpSaveManifest string string payload
  | OpAppendEvent run_event_record
  | OpSaveToolCall run_tool_call_record
  | OpCreateApproval run_approval_record
  | OpDecide datetime string string bool "string option" "payload option"
  | OpCreateChange run_approval_record
  | OpApprovalEvent string datetime string string string "string option" "payload option"
  | OpDecideChange "string \<times> string" "datetime \<times> datetime \<times> datetime \<times> datetime" string string bool
      "string option" "payload option"
  | OpClaimActions int string datetime
  | OpDelivered datetime string string
  | OpClaim idempotency_claim_record
  | OpCompleteClaim datetime string "pyval option" string
  | OpFailClaim datetime string string
  | OpRetryClaim datetime string

fun repo_step :: "run_op \<Rightarrow> run_repo \<Rightarrow> run_repo" where
  "repo_step (OpCreateRun r) s = fst (create_run r s)"
| "repo_step (OpAttach now rid attr) s = fst (attach_workforce_attribution now rid attr s)"
| "repo_step (OpUpdateStatus now now' rid st out err) s = fst (update_run_status now now' rid st out err s)"
| "repo_step (OpTransition now now' rid frm st out err) s =
     fst (transition_run_status now now' rid frm st out err s)"
| "repo_step (OpCancel now now' rid reason) s = fst (cancel_run now now' rid reason s)"
| "repo_step (OpSaveCheckpoint c) s = fst (save_checkpoint c s)"
| "repo_step (OpSaveManifest rid h json) s = fst (save_automation_manifest rid h json s)"
| "repo_step (OpAppendEvent e) s = fst (append_event e s)"
| "repo_step (OpSaveToolCall tc) s = fst (save_tool_call tc s)"
| "repo_step (OpCreateApproval a) s = fst (create_approval a s)"
| "repo_step (OpDecide now aid rv ok rs ev) s = fst (decide_approval now aid rv ok rs ev s)"
| "repo_step (OpCreateChange a) s = fst (create_or_get_pending_change_approval a s)"
| "repo_step (OpApprovalEvent eid now aid ws et actor pl) s =
     fst (append_approval_event eid now aid ws et actor pl s)"
| "repo_step (OpDecideChange ids ts aid rv ok rs ev) s =
     fst (decide_change_approval_and_enqueue ids ts aid rv ok rs ev s)"
| "repo_step (OpClaimActions limit w now) s = fst (claim_approval_actions limit w now s)"
| "repo_step (OpDelivered now aid w) s = fst (mark_approval_action_delivered now aid w s)"
| "repo_step (OpClaim c) s = fst (claim_idempotency c s)"
| "repo_step (OpCompleteClaim now cid out h) s = fst (complete_idempotency_claim now cid out h s)"
| "repo_step (OpFailClaim now cid msg) s = fst (fail_idempotency_claim now cid msg s)"
| "repo_step (OpRetryClaim now cid) s = fst (retry_idempotency_claim now cid s)"

lemma cancel_run_fst:
  "fst (cancel_run now now' rid reason s) =
     fst (transition_run_status now now' rid cancellable RS_CANCELLED None (Some [(''reason'', PStr reason)]) s)"
  by (simp add: cancel_run_def split: prod.split option.split)

lemmas repo_op_defs = cancel_run_fst Let_def
  create_run_def attach_workforce_attribution_def update_run_status_def transition_run_status_def
  save_checkpoint_def save_automation_manifest_def append_event_def save_tool_call_def
  create_approval_def decide_approval_def create_or_get_pending_change_approval_def
  append_approval_event_def decide_change_approval_and_enqueue_def claim_approval_actions_def
  mark_approval_action_delivered_def claim_idempotency_def complete_idempotency_claim_def
  fail_idempotency_claim_def retry_idempotency_claim_def

subsection \<open>What each request leaves unchanged\<close>

text \<open>One equation per field: the requests that can change it, all others leaving it as it was.\<close>

lemma step_runs [frame_simps]:
  "runs (repo_step op s) =
     (case op of
        OpCreateRun r \<Rightarrow> dict_set (r_run_id r) r (runs s)
      | OpAttach now rid attr \<Rightarrow> runs (fst (attach_workforce_attribution now rid attr s))
      | OpUpdateStatus now now' rid st out err \<Rightarrow> runs (fst (update_run_status now now' rid st out err s))
      | OpTransition now now' rid frm st out err \<Rightarrow> runs (fst (transition_run_status now now' rid frm st out err s))
      | OpCancel now now' rid reason \<Rightarrow>
          runs (fst (transition_run_status now now' rid cancellable RS_CANCELLED None (Some [(''reason'', PStr reason)]) s))
      | _ \<Rightarrow> runs s)"
  by (cases op) (simp_all add: repo_op_defs split: option.split prod.split)

lemma step_checkpoints [frame_simps]:
  "checkpoints (repo_step op s) =
     (case op of OpSaveCheckpoint c \<Rightarrow> dict_set (ck_checkpoint_ref c) c (checkpoints s) | _ \<Rightarrow> checkpoints s)"
  by (cases op) (simp_all add: repo_op_defs split: option.split prod.split)

lemma step_run_checkpoints [frame_simps]:
  "run_checkpoints (repo_step op s) =
     (case op of OpSaveCheckpoint c \<Rightarrow> run_checkpoints (fst (save_checkpoint c s)) | _ \<Rightarrow> run_checkpoints s)"
  by (cases op) (simp_all add: repo_op_defs split: option.split prod.split)

lemma step_events [frame_simps]:
  "events (repo_step op s) =
     (case op of OpAppendEvent e \<Rightarrow> events (fst (append_event e s)) | _ \<Rightarrow> events s)"
  by (cases op) (simp_all add: repo_op_defs split: option.split prod.split)

lemma step_approvals [frame_simps]:
  "approvals (repo_step op s) =
     (case op of
        OpCreateApproval a \<Rightarrow> approvals (fst (create_approval a s))
      | OpDecide now aid rv ok rs ev \<Rightarrow> approvals (fst (decide_approval now aid rv ok rs ev s))
      | OpCreateChange a \<Rightarrow> approvals (fst (create_or_get_pending_change_approval a s))
      | OpDecideChange ids ts aid rv ok rs ev \<Rightarrow> approvals (fst (decide_approval (fst ts) aid rv ok rs ev s))
      | _ \<Rightarrow> approvals s)"
  by (cases op) (simp_all add: repo_op_defs split: option.split prod.split)

lemma step_approval_events [frame_simps]:
  "approval_events (repo_step op s) =
     (case op of
        OpApprovalEvent eid now aid ws et actor pl \<Rightarrow>
          approval_events (fst (append_approval_event eid now aid ws et actor pl s))
      | OpDecideChange ids ts aid rv ok rs ev \<Rightarrow>
          approval_events (fst (decide_change_approval_and_enqueue ids ts aid rv ok rs ev s))
      | _ \<Rightarrow> approval_events s)"
  by (cases op) (simp_all add: repo_op_defs split: option.split prod.split)

lemma step_outbox [frame_simps]:
  "approval_outbox (repo_step op s) =
     (case op of
        OpDecideChange ids ts aid rv ok rs ev \<Rightarrow>
          approval_outbox (fst (decide_change_approval_and_enqueue ids ts aid rv ok rs ev s))
      | OpClaimActions limit w now \<Rightarrow> fst (claim_loop limit w now 0 (approval_outbox s))
      | OpDelivered now aid w \<Rightarrow> approval_outbox (fst (mark_approval_action_delivered now aid w s))
      | _ \<Rightarrow> approval_outbox s)"
  by (cases op) (simp_all add: repo_op_defs split: option.split prod.split)

lemma step_claims [frame_simps]:
  "idempotency_claims (repo_step op s) =
     (case op of
        OpClaim c \<Rightarrow> idempotency_claims (fst (claim_idempotency c s))
      | OpCompleteClaim now cid out h \<Rightarrow> idempotency_claims (fst (complete_idempotency_claim now cid out h s))
      | OpFailClaim now cid msg \<Rightarrow> idempotency_claims (fst (fail_idempotency_claim now cid msg s))
      | OpRetryClaim now cid \<Rightarrow> idempotency_claims (fst (retry_idempotency_claim now cid s))
      | _ \<Rightarrow> idempotency_claims s)"
  by (cases op) (simp_all add: repo_op_defs split: option.split prod.split)

lemma step_claim_index [frame_simps]:
  "idempotency_index (repo_step op s) =
     (case op of OpClaim c \<Rightarrow> idempotency_index (fst (claim_idempotency c s)) | _ \<Rightarrow> idempotency_index s)"
  by (cases op) (simp_all add: repo_op_defs split: option.split prod.split)

lemma step_manifests [frame_simps]:
  "automation_manifests (repo_step op s) =
     (case op of OpSaveManifest rid h json \<Rightarrow> automation_manifests (fst (save_automation_manifest rid h json s))
      | _ \<Rightarrow> automation_manifests s)"
  by (cases op) (simp_all add: repo_op_defs split: option.split prod.split)


subsection \<open>The invariant\<close>

text \<open>The event log of a run is numbered from 1 without gaps and holds only that run's events.\<close>

abbreviation event_log :: "run_repo \<Rightarrow> string \<Rightarrow> run_event_record list" where
  "event_log s rid \<equiv> dict_get_or (events s) rid []"

definition numbered :: "run_event_record list \<Rightarrow> bool" where
  "numbered evs \<longleftrightarrow> (\<forall>i < length evs. ev_sequence_no (evs ! i) = Some (Suc i))"

definition events_inv :: "run_repo \<Rightarrow> bool" where
  "events_inv s \<longleftrightarrow> (\<forall>rid. numbered (event_log s rid) \<and> (\<forall>e \<in> set (event_log s rid). ev_run_id e = rid))"

text \<open>Every reference in a run's checkpoint list resolves, and no reference is listed twice.\<close>

abbreviation checkpoint_refs :: "run_repo \<Rightarrow> string \<Rightarrow> string list" where
  "checkpoint_refs s rid \<equiv> dict_get_or (run_checkpoints s) rid []"

definition checkpoint_filed :: "run_repo \<Rightarrow> string \<Rightarrow> bool" where
  "checkpoint_filed s ref \<longleftrightarrow> (\<exists>c. dict_get (checkpoints s) ref = Some c \<and> ck_checkpoint_ref c = ref)"

definition checkpoints_inv :: "run_repo \<Rightarrow> bool" where
  "checkpoints_inv s \<longleftrightarrow>
     (\<forall>rid. distinct (checkpoint_refs s rid) \<and> (\<forall>ref \<in> set (checkpoint_refs s rid). checkpoint_filed s ref))"

text \<open>The claim table and its index are inverse to each other: one claim per key.\<close>

definition claims_inv :: "run_repo \<Rightarrow> bool" where
  "claims_inv s \<longleftrightarrow>
     (\<forall>key cid. dict_get (idempotency_index s) key = Some cid \<longrightarrow>
        (\<exists>c. dict_get (idempotency_claims s) cid = Some c \<and> claim_key_of c = key)) \<and>
     (\<forall>cid c. dict_get (idempotency_claims s) cid = Some c \<longrightarrow>
        cl_claim_id c = cid \<and> dict_get (idempotency_index s) (claim_key_of c) = Some cid)"

text \<open>Approvals are filed under their own identifier, and every action in the outbox belongs to an
  approved request whose action may be executed automatically.\<close>

definition approvals_inv :: "run_repo \<Rightarrow> bool" where
  "approvals_inv s \<longleftrightarrow>
     (\<forall>aid a. dict_get (approvals s) aid = Some a \<longrightarrow> ap_approval_id a = aid) \<and>
     (\<forall>aid ob. dict_get (approval_outbox s) aid = Some ob \<longrightarrow> ob_approval_id ob = aid \<and>
        (\<exists>a. dict_get (approvals s) aid = Some a \<and> ap_status a = ''approved'' \<and> outbox_eligible a))"

text \<open>No table lists an identifier twice.\<close>

definition tables_inv :: "run_repo \<Rightarrow> bool" where
  "tables_inv s \<longleftrightarrow> dict_ok (approvals s) \<and> dict_ok (approval_outbox s)"

definition repo_inv :: "run_repo \<Rightarrow> bool" where
  "repo_inv s \<longleftrightarrow> events_inv s \<and> checkpoints_inv s \<and> claims_inv s \<and> approvals_inv s \<and> tables_inv s"

text \<open>The environment's obligation: identifiers of new claims and new approvals are fresh (the
  code draws them from \<open>uuid4\<close>).\<close>

fun repo_guard :: "run_op \<Rightarrow> run_repo \<Rightarrow> bool" where
  "repo_guard (OpClaim c) s = (dict_get (idempotency_claims s) (cl_claim_id c) = None)"
| "repo_guard (OpCreateApproval a) s = (dict_get (approvals s) (ap_approval_id a) = None)"
| "repo_guard (OpCreateChange a) s = (dict_get (approvals s) (ap_approval_id a) = None)"
| "repo_guard _ s = True"

lemma repo_inv_empty: "repo_inv empty_repo"
  by (simp add: repo_inv_def events_inv_def checkpoints_inv_def claims_inv_def approvals_inv_def empty_repo_def
      numbered_def tables_inv_def)

lemma numbered_snoc: "numbered evs \<Longrightarrow> ev_sequence_no e = Some (length evs + 1) \<Longrightarrow> numbered (evs @ [e])"
  by (auto simp: numbered_def nth_append less_Suc_eq)

lemma event_log_step:
  "event_log (repo_step op s) rid =
     (case op of
        OpAppendEvent e \<Rightarrow>
          (if ev_run_id e = rid then event_log s rid @ [e\<lparr>ev_sequence_no := Some (length (event_log s rid) + 1)\<rparr>]
           else event_log s rid)
      | _ \<Rightarrow> event_log s rid)"
  by (cases op) (simp_all add: step_events append_event_def Let_def del: repo_step.simps)

lemma events_inv_step: "events_inv s \<Longrightarrow> events_inv (repo_step op s)"
  by (cases op) (simp_all add: events_inv_def event_log_step numbered_snoc del: repo_step.simps)

lemma checkpoint_refs_save:
  "checkpoint_refs (fst (save_checkpoint c s)) rid =
     (if rid = ck_run_id c \<and> ck_checkpoint_ref c \<notin> set (checkpoint_refs s rid)
      then checkpoint_refs s rid @ [ck_checkpoint_ref c] else checkpoint_refs s rid)"
  by (simp add: save_checkpoint_def Let_def)

lemma checkpoint_filed_save:
  "checkpoint_filed (fst (save_checkpoint c s)) ref \<longleftrightarrow> ref = ck_checkpoint_ref c \<or> checkpoint_filed s ref"
  by (simp add: checkpoint_filed_def save_checkpoint_def Let_def)

lemma checkpoints_inv_save: "checkpoints_inv s \<Longrightarrow> checkpoints_inv (fst (save_checkpoint c s))"
  by (simp add: checkpoints_inv_def checkpoint_refs_save checkpoint_filed_save)

lemma checkpoints_inv_step:
  assumes "checkpoints_inv s" shows "checkpoints_inv (repo_step op s)"
proof (cases op)
  case (OpSaveCheckpoint c)
  then show ?thesis using assms by (simp add: checkpoints_inv_save)
qed (use assms in \<open>simp_all add: checkpoints_inv_def checkpoint_filed_def step_checkpoints step_run_checkpoints
       del: repo_step.simps\<close>)

text \<open>Rewriting a stored claim without touching its identity keeps the table consistent.\<close>

lemma claims_inv_update:
  assumes "claims_inv s" "dict_get (idempotency_claims s) cid = Some c"
    and "claim_key_of c' = claim_key_of c" "cl_claim_id c' = cl_claim_id c"
  shows "claims_inv (s\<lparr>idempotency_claims := dict_set cid c' (idempotency_claims s)\<rparr>)"
  using assms unfolding claims_inv_def by (auto split: if_splits) (metis option.inject)+

lemma claims_inv_frame:
  "idempotency_claims t = idempotency_claims s \<Longrightarrow> idempotency_index t = idempotency_index s \<Longrightarrow>
   claims_inv t = claims_inv s"
  by (simp add: claims_inv_def)

lemma claims_inv_claim:
  assumes "claims_inv s" "dict_get (idempotency_claims s) (cl_claim_id c) = None"
  shows "claims_inv (fst (claim_idempotency c s))"
proof (cases "dict_get (idempotency_index s) (claim_key_of c)")
  case None
  with assms show ?thesis
    unfolding claims_inv_def claim_idempotency_def by (auto split: if_splits) (metis option.distinct(1))+
next
  case (Some cid)
  with assms show ?thesis
    by (auto simp: claim_idempotency_def split: option.split)
qed

lemma claims_inv_rewrite:
  "claims_inv s \<Longrightarrow> claims_inv (fst (complete_idempotency_claim now cid out h s))"
  "claims_inv s \<Longrightarrow> claims_inv (fst (fail_idempotency_claim now cid msg s))"
  "claims_inv s \<Longrightarrow> claims_inv (fst (retry_idempotency_claim now cid s))"
  by (auto simp: complete_idempotency_claim_def fail_idempotency_claim_def retry_idempotency_claim_def Let_def
      claim_key_of_def intro!: claims_inv_update split: option.split)

lemma claims_inv_step:
  assumes "claims_inv s" "repo_guard op s" shows "claims_inv (repo_step op s)"
proof (cases op)
  case (OpClaim c)
  with assms show ?thesis by (simp add: claims_inv_claim)
qed (use assms in \<open>simp_all add: claims_inv_rewrite del: repo_step.simps(1-16)\<close>,
     use assms in \<open>simp_all add: claims_inv_def step_claims step_claim_index del: repo_step.simps\<close>)

subsection \<open>Approvals and the outbox\<close>

lemma decided_fields [simp]:
  "ap_approval_id (decided now rv ok rs ev a) = ap_approval_id a"
  "ap_status (decided now rv ok rs ev a) = (if ok then ''approved'' else ''denied'')"
  "ap_action (decided now rv ok rs ev a) = ap_action a"
  "ap_subject_kind (decided now rv ok rs ev a) = ap_subject_kind a"
  "ap_run_id (decided now rv ok rs ev a) = ap_run_id a"
  "ap_tool_call_id (decided now rv ok rs ev a) = ap_tool_call_id a"
  "ap_checkpoint_ref (decided now rv ok rs ev a) = ap_checkpoint_ref a"
  "ap_reviewer (decided now rv ok rs ev a) = Some rv"
  "ap_decision_version (decided now rv ok rs ev a) = ap_decision_version a + 1"
  by (simp_all add: decided_def Let_def)

lemma outbox_eligible_decided [simp]: "outbox_eligible (decided now rv ok rs ev a) = outbox_eligible a"
  by (simp add: outbox_eligible_def)

text \<open>The claiming loop rewrites only records that are due, and only to their claimed form.\<close>

lemma claim_loop_cases:
  "dict_get (fst (claim_loop limit w now n d)) k = Some ob' \<Longrightarrow>
   \<exists>ob. dict_get d k = Some ob \<and> (ob' = ob \<or> outbox_due now ob \<and> ob' = outbox_claimed w now ob)"
  by (induction d arbitrary: n) (auto simp: Let_def split_beta split: if_splits)

lemma claim_loop_keys [simp]: "dict_keys (fst (claim_loop limit w now n d)) = dict_keys d"
  by (induction d arbitrary: n) (auto simp: Let_def split_beta)

lemma claim_loop_claimed:
  "ob' \<in> set (snd (claim_loop limit w now n d)) \<Longrightarrow>
   \<exists>k ob. (k, ob) \<in> set d \<and> outbox_due now ob \<and> ob' = outbox_claimed w now ob"
  by (induction d arbitrary: n) (fastforce simp: Let_def split_beta split: if_splits)+

lemma claim_loop_length: "n \<le> limit \<Longrightarrow> n + int (length (snd (claim_loop limit w now n d))) \<le> limit"
proof (induction d arbitrary: n)
  case (Cons x d)
  have "n < limit \<Longrightarrow> n + (1 + int (length (snd (claim_loop limit w now (n + 1) d)))) \<le> limit"
    using Cons.IH [of "n + 1"] by (simp add: algebra_simps)
  with Cons.IH [of n] Cons.prems show ?case
    by (cases x) (auto simp: Let_def split_beta)
qed simp

lemma outbox_claimed_id [simp]: "ob_approval_id (outbox_claimed w now ob) = ob_approval_id ob"
  by (simp add: outbox_claimed_def)

lemma create_approval_fields:
  "approvals (fst (create_approval a s)) =
     dict_set (ap_approval_id a) (snd (create_approval a s)) (approvals s)"
  "ap_approval_id (snd (create_approval a s)) = ap_approval_id a"
  "ap_status (snd (create_approval a s)) = ap_status a"
  by (auto simp: create_approval_def Let_def split: option.split prod.split)


text \<open>Filing a record over one that is not approved cannot orphan an action in the outbox.\<close>

lemma approvals_inv_file:
  assumes inv: "approvals_inv s"
    and old: "\<And>a0. dict_get (approvals s) aid = Some a0 \<Longrightarrow> ap_status a0 \<noteq> ''approved''"
    and new: "ap_approval_id a = aid"
  shows "approvals_inv (s\<lparr>approvals := dict_set aid a (approvals s)\<rparr>)"
proof -
  have "dict_get (approval_outbox s) aid = None"
    using inv old unfolding approvals_inv_def by (metis not_None_eq)
  with inv new show ?thesis
    unfolding approvals_inv_def by auto
qed

lemma approvals_inv_new:
  assumes "approvals_inv s" "dict_get (approvals s) (ap_approval_id a) = None"
  shows "approvals_inv (fst (create_approval a s))"
    and "approvals_inv (fst (create_or_get_pending_change_approval a s))"
  using assms by (auto simp: create_approval_def create_or_get_pending_change_approval_def Let_def
      intro!: approvals_inv_file split: option.split)

lemma approvals_inv_decide:
  assumes "approvals_inv s"
  shows "approvals_inv (fst (decide_approval now aid rv ok rs ev s))"
proof (cases "dict_get (approvals s) aid")
  case (Some a)
  then have "ap_approval_id a = aid" using assms by (simp add: approvals_inv_def)
  with Some assms show ?thesis
    by (auto simp: decide_approval_def Let_def intro!: approvals_inv_file)
qed (use assms in \<open>simp add: decide_approval_def\<close>)

lemma decide_change_approvals:
  "approvals (fst (decide_change_approval_and_enqueue ids ts aid rv ok rs ev s)) =
     approvals (fst (decide_approval (fst ts) aid rv ok rs ev s))"
  by (simp add: decide_change_approval_and_enqueue_def decide_approval_def append_approval_event_def Let_def
      split: option.split prod.split)

text \<open>A change decision adds at most the record of the decided approval to the outbox.\<close>

lemma decide_change_outbox:
  assumes "dict_get (approval_outbox (fst (decide_change_approval_and_enqueue ids ts aid rv ok rs ev s))) k = Some ob"
    and "approvals_inv s"
  shows "dict_get (approval_outbox s) k = Some ob \<or>
    k = aid \<and> ok \<and> ob_approval_id ob = aid \<and>
    (\<exists>a. dict_get (approvals s) aid = Some a \<and> ap_status a = ''pending'' \<and> outbox_eligible a)"
  using assms
  by (auto simp: decide_change_approval_and_enqueue_def append_approval_event_def Let_def approvals_inv_def
      split: option.splits prod.splits if_splits)

lemma approvals_inv_decide_change:
  assumes "approvals_inv s"
  shows "approvals_inv (fst (decide_change_approval_and_enqueue ids ts aid rv ok rs ev s))" (is "approvals_inv ?t")
proof -
  have d: "approvals_inv (fst (decide_approval (fst ts) aid rv ok rs ev s))" (is "approvals_inv ?d")
    using assms by (rule approvals_inv_decide)
  have out: "approval_outbox ?d = approval_outbox s" by (simp add: decide_approval_def Let_def split: option.split)
  have new: "\<exists>a. dict_get (approvals ?d) aid = Some a \<and> ap_status a = ''approved'' \<and> outbox_eligible a"
    if "ok" "dict_get (approvals s) aid = Some a" "ap_status a = ''pending''" "outbox_eligible a" for a
    using that by (simp add: decide_approval_def Let_def)
  show ?thesis
    unfolding approvals_inv_def decide_change_approvals
  proof (intro conjI allI impI)
    fix k ob
    assume "dict_get (approval_outbox ?t) k = Some ob"
    from decide_change_outbox [OF this assms] d new
    show "ob_approval_id ob = k"
      "\<exists>a. dict_get (approvals ?d) k = Some a \<and> ap_status a = ''approved'' \<and> outbox_eligible a"
      unfolding approvals_inv_def out by blast+
  qed (use d in \<open>auto simp: approvals_inv_def\<close>)
qed

lemma approvals_inv_outbox:
  assumes "approvals_inv s"
  shows "approvals_inv (fst (claim_approval_actions limit w now s))"
    and "approvals_inv (fst (mark_approval_action_delivered now aid w s))"
proof -
  show "approvals_inv (fst (claim_approval_actions limit w now s))"
    using assms unfolding approvals_inv_def claim_approval_actions_def
    by (auto simp: split_beta dest!: claim_loop_cases)
  show "approvals_inv (fst (mark_approval_action_delivered now aid w s))"
    using assms unfolding approvals_inv_def mark_approval_action_delivered_def
    by (auto split: option.split if_splits)
qed

lemma approvals_inv_step:
  assumes "approvals_inv s" "repo_guard op s" shows "approvals_inv (repo_step op s)"
proof (cases op)
  case (OpCreateApproval a)
  with assms show ?thesis by (simp add: approvals_inv_new)
next
  case (OpCreateChange a)
  with assms show ?thesis by (simp add: approvals_inv_new)
qed (use assms in \<open>simp_all add: approvals_inv_decide approvals_inv_decide_change approvals_inv_outbox
       del: repo_step.simps(1-10,12,13,17-20)\<close>,
     use assms in \<open>simp_all add: approvals_inv_def step_approvals step_outbox del: repo_step.simps\<close>)

lemma tables_inv_step: "tables_inv s \<Longrightarrow> tables_inv (repo_step op s)"
  by (cases op) (auto simp: tables_inv_def step_approvals step_outbox create_approval_fields
      create_or_get_pending_change_approval_def decide_approval_def decide_change_approval_and_enqueue_def
      append_approval_event_def mark_approval_action_delivered_def Let_def
      simp del: repo_step.simps map_of_eq_Some_iff split: option.split prod.split)

lemma repo_inv_step: "repo_inv s \<Longrightarrow> repo_guard op s \<Longrightarrow> repo_inv (repo_step op s)"
  by (simp add: repo_inv_def events_inv_step checkpoints_inv_step claims_inv_step approvals_inv_step tables_inv_step
      del: repo_step.simps repo_guard.simps)


text \<open>The states a repository can be in.\<close>

inductive reachable_repo :: "run_repo \<Rightarrow> bool" where
  reachable_init: "reachable_repo empty_repo"
| reachable_step: "reachable_repo s \<Longrightarrow> repo_guard op s \<Longrightarrow> reachable_repo (repo_step op s)"

lemma reachable_inv: "reachable_repo s \<Longrightarrow> repo_inv s"
  by (induction rule: reachable_repo.induct) (simp_all add: repo_inv_empty repo_inv_step del: repo_step.simps)

lemma reachable_fold:
  "reachable_repo s \<Longrightarrow> admissible repo_guard repo_step ops s \<Longrightarrow> reachable_repo (fold repo_step ops s)"
  by (induction ops arbitrary: s) (simp_all add: reachable_step del: repo_step.simps repo_guard.simps)

subsection \<open>What is never lost\<close>

text \<open>Event logs only grow, at the end.\<close>

definition log_le :: "run_repo \<Rightarrow> run_repo \<Rightarrow> bool" where
  "log_le s t \<longleftrightarrow> (\<forall>rid. prefix (event_log s rid) (event_log t rid))"

lemma log_le_step: "log_le s (repo_step op s)"
  by (cases op) (simp_all add: log_le_def event_log_step del: repo_step.simps)

interpretation evlog: monotone_machine repo_step "\<lambda>_ _. True" events_inv log_le
  by unfold_locales (auto simp: events_inv_step log_le_step simp del: repo_step.simps,
     auto simp: log_le_def intro: prefix_order.trans)

text \<open>Decided approvals, saved manifests, claimed keys and the audit trail stay as they are.\<close>

definition record_le :: "run_repo \<Rightarrow> run_repo \<Rightarrow> bool" where
  "record_le s t \<longleftrightarrow>
     (\<forall>aid a. dict_get (approvals s) aid = Some a \<and> ap_status a \<noteq> ''pending'' \<longrightarrow> dict_get (approvals t) aid = Some a) \<and>
     (\<forall>rid m. dict_get (automation_manifests s) rid = Some m \<longrightarrow> dict_get (automation_manifests t) rid = Some m) \<and>
     (\<forall>key cid. dict_get (idempotency_index s) key = Some cid \<longrightarrow> dict_get (idempotency_index t) key = Some cid) \<and>
     prefix (approval_events s) (approval_events t)"

lemma step_keeps_decided:
  assumes "repo_guard op s" "dict_get (approvals s) aid = Some a" "ap_status a \<noteq> ''pending''"
  shows "dict_get (approvals (repo_step op s)) aid = Some a"
  using assms
  by (cases op) (auto simp: step_approvals create_approval_fields create_or_get_pending_change_approval_def
      decide_approval_def Let_def simp del: repo_step.simps split: option.split)

lemma step_keeps_manifest:
  "dict_get (automation_manifests s) rid = Some m \<Longrightarrow> dict_get (automation_manifests (repo_step op s)) rid = Some m"
  by (cases op) (auto simp: step_manifests save_automation_manifest_def Let_def simp del: repo_step.simps split: option.split)

lemma step_keeps_claim_key:
  "dict_get (idempotency_index s) key = Some cid \<Longrightarrow> dict_get (idempotency_index (repo_step op s)) key = Some cid"
  by (cases op) (auto simp: step_claim_index claim_idempotency_def simp del: repo_step.simps split: option.split)

lemma step_audit_grows: "prefix (approval_events s) (approval_events (repo_step op s))"
  by (cases op) (auto simp: step_approval_events append_approval_event_def decide_change_approval_and_enqueue_def
      Let_def simp del: repo_step.simps split: option.split prod.split)

interpretation repo: monotone_machine repo_step repo_guard repo_inv record_le
proof unfold_locales
  show "record_le s t \<Longrightarrow> record_le t u \<Longrightarrow> record_le s u" for s t u
    unfolding record_le_def by (blast intro: prefix_order.trans)
qed (auto simp: record_le_def repo_inv_step step_keeps_decided step_keeps_manifest step_keeps_claim_key
       step_audit_grows simp del: repo_step.simps)

subsection \<open>Terminal runs\<close>

definition run_status_of :: "run_repo \<Rightarrow> string \<Rightarrow> run_status option" where
  "run_status_of s rid = map_option r_status (dict_get (runs s) rid)"

text \<open>Callers of one run that go through the compare-and-set transitions from live states only
  (and through cancellation) and never write its status unconditionally.\<close>

fun cas_only :: "string \<Rightarrow> run_op \<Rightarrow> bool" where
  "cas_only rid (OpCreateRun r) \<longleftrightarrow> r_run_id r \<noteq> rid"
| "cas_only rid (OpUpdateStatus now now' rid' st out err) \<longleftrightarrow> rid' \<noteq> rid"
| "cas_only rid (OpTransition now now' rid' frm st out err) \<longleftrightarrow> rid' = rid \<longrightarrow> list_all (\<lambda>x. \<not> run_terminal x) frm"
| "cas_only rid _ \<longleftrightarrow> True"

definition terminal_le :: "string \<Rightarrow> run_repo \<Rightarrow> run_repo \<Rightarrow> bool" where
  "terminal_le rid s t \<longleftrightarrow>
     (\<forall>st. run_status_of s rid = Some st \<and> run_terminal st \<longrightarrow> run_status_of t rid = Some st)"

lemma set_run_status_status [simp]: "r_status (set_run_status now now' st out err r) = st"
  by (simp add: set_run_status_def Let_def split: option.split)

lemma transition_status:
  "run_status_of (fst (transition_run_status now now' rid' frm st out err s)) rid =
     (case run_status_of s rid of
        None \<Rightarrow> None
      | Some st0 \<Rightarrow> if rid = rid' \<and> st0 \<in> set frm then Some st else Some st0)"
  by (auto simp: run_status_of_def transition_run_status_def Let_def split: option.split)

lemma run_status_of_step:
  "run_status_of (repo_step op s) rid =
     (case op of
        OpCreateRun r \<Rightarrow> (if r_run_id r = rid then Some (r_status r) else run_status_of s rid)
      | OpUpdateStatus now now' rid' st out err \<Rightarrow>
          (if rid' = rid then map_option (\<lambda>_. st) (run_status_of s rid) else run_status_of s rid)
      | OpTransition now now' rid' frm st out err \<Rightarrow>
          run_status_of (fst (transition_run_status now now' rid' frm st out err s)) rid
      | OpCancel now now' rid' reason \<Rightarrow>
          run_status_of (fst (transition_run_status now now' rid' cancellable RS_CANCELLED None
            (Some [(''reason'', PStr reason)]) s)) rid
      | _ \<Rightarrow> run_status_of s rid)"
  by (cases op) (auto simp: run_status_of_def step_runs attach_workforce_attribution_def update_run_status_def
      Let_def simp del: repo_step.simps split: option.split)

lemma terminal_le_step: "cas_only rid op \<Longrightarrow> terminal_le rid s (repo_step op s)"
  by (cases op) (auto simp: terminal_le_def run_status_of_step transition_status cancellable_def run_terminal_def
      list_all_iff simp del: repo_step.simps split: option.split)

interpretation cas: monotone_machine repo_step "\<lambda>op s. cas_only rid op" "\<lambda>s. True" "terminal_le rid" for rid
  by unfold_locales (auto simp: terminal_le_step simp del: repo_step.simps, auto simp: terminal_le_def)


subsection \<open>Claims along an interleaving\<close>

text \<open>The claim held under a key, and requests that do not touch one given claim.\<close>

fun spares_claim :: "string \<Rightarrow> run_op \<Rightarrow> bool" where
  "spares_claim cid (OpCompleteClaim now cid' out h) \<longleftrightarrow> cid' \<noteq> cid"
| "spares_claim cid (OpFailClaim now cid' msg) \<longleftrightarrow> cid' \<noteq> cid"
| "spares_claim cid _ \<longleftrightarrow> True"

lemma step_keeps_claim:
  assumes "repo_guard op s" "spares_claim cid op"
    and "dict_get (idempotency_claims s) cid = Some c" "cl_status c \<noteq> ''failed''"
  shows "dict_get (idempotency_claims (repo_step op s)) cid = Some c"
  using assms
  by (cases op) (auto simp: step_claims claim_idempotency_def complete_idempotency_claim_def
      fail_idempotency_claim_def retry_idempotency_claim_def Let_def simp del: repo_step.simps split: option.split)

lemma fold_keeps_claim:
  assumes "admissible repo_guard repo_step ops s" "list_all (spares_claim cid) ops"
    and "dict_get (idempotency_claims s) cid = Some c" "cl_status c \<noteq> ''failed''"
  shows "dict_get (idempotency_claims (fold repo_step ops s)) cid = Some c"
  using assms by (induction ops arbitrary: s) (simp_all add: step_keeps_claim del: repo_step.simps repo_guard.simps spares_claim.simps)

lemma try_claim_held:
  assumes "dict_get (idempotency_index s) (claim_key_of c) = Some cid"
    and "dict_get (idempotency_claims s) cid = Some r" "cl_status r \<noteq> ''failed''"
  shows "try_claim now c s =
     (s, Inr (if cl_status r = ''completed'' then IO_CACHED_COMPLETED
              else if same_invocation r c then IO_CLAIMED else IO_IN_PROGRESS, r))"
  using assms by (simp add: try_claim_def claim_idempotency_def)

text \<open>In a consistent table \<open>try_claim\<close> never raises, and has exactly these outcomes.\<close>

lemma try_claim_cases:
  assumes "claims_inv s"
  obtains (fresh) "dict_get (idempotency_index s) (claim_key_of c) = None"
      "try_claim now c s = (fst (claim_idempotency c s), Inr (IO_CLAIMED, c))"
  | (retried) r where "dict_get (idempotency_index s) (claim_key_of c) = Some (cl_claim_id r)"
      "dict_get (idempotency_claims s) (cl_claim_id r) = Some r" "cl_status r = ''failed''"
      "try_claim now c s = (fst (retry_idempotency_claim now (cl_claim_id r) s),
         Inr (IO_RETRIED, r\<lparr>cl_status := ''running'', cl_error_message := None, cl_updated_at := now\<rparr>))"
  | (held) r where "dict_get (idempotency_index s) (claim_key_of c) = Some (cl_claim_id r)"
      "dict_get (idempotency_claims s) (cl_claim_id r) = Some r" "cl_status r \<noteq> ''failed''"
      "try_claim now c s = (s, Inr (if cl_status r = ''completed'' then IO_CACHED_COMPLETED
         else if same_invocation r c then IO_CLAIMED else IO_IN_PROGRESS, r))"
proof (cases "dict_get (idempotency_index s) (claim_key_of c)")
  case None
  then show thesis by (intro fresh) (simp_all add: try_claim_def claim_idempotency_def)
next
  case (Some cid)
  then obtain r where r: "dict_get (idempotency_claims s) cid = Some r" "cl_claim_id r = cid"
    using assms unfolding claims_inv_def by blast
  show thesis
  proof (cases "cl_status r = ''failed''")
    case True
    with Some r show thesis
      by (intro retried [of r]) (simp_all add: try_claim_def claim_idempotency_def retry_idempotency_claim_def Let_def)
  next
    case False
    with Some r try_claim_held [OF Some r(1) False, of now] show thesis
      by (intro held [of r]) simp_all
  qed
qed

text \<open>Whatever \<open>try_claim\<close> answers, the key is afterwards held by the claim it returns, which is
  running unless it is the completed one.\<close>

lemma try_claim_after:
  assumes "claims_inv s" "try_claim now c s = (s', Inr (oc, r))" "cl_status c = ''running''"
  shows "dict_get (idempotency_index s') (claim_key_of c) = Some (cl_claim_id r)"
    and "dict_get (idempotency_claims s') (cl_claim_id r) = Some r"
    and "cl_status r \<noteq> ''failed''"
    and "(oc = IO_CACHED_COMPLETED) = (cl_status r = ''completed'')"
  using assms(1)
  by (cases rule: try_claim_cases [where c = c and now = now];
      use assms in \<open>auto simp: claim_idempotency_def retry_idempotency_claim_def Let_def split: if_splits\<close>)+

end
