(* ===== verification/RunProps.thy ===== *)
theory RunProps
  imports RunOps
begin

text \<open>
  The properties of the run repository (\<open>packages/agent/runs/repository.py\<close>) and of the claim
  service in front of it (\<open>packages/agent/capabilities/idempotency.py\<close>), over every interleaving
  of their operations.
\<close>

subsection \<open>Sample records\<close>

definition sample_run :: "string \<Rightarrow> run_status \<Rightarrow> run_record" where
  "sample_run rid st = \<lparr>r_run_id = rid, r_workspace_id = Some ''ws'', r_project_id = None, r_conversation_id = None,
     r_session_ref = None, r_principal = ''user'', r_root_executable_id = ''wf'', r_root_executable_kind = ''workflow'',
     r_root_executable_version = ''1'', r_root_definition_hash = None, r_policy_snapshot_ref = None, r_status = st,
     r_execution_mode = WORKFLOW, r_correlation_id = None, r_idempotency_key = None, r_input_payload = [],
     r_model_policy = [], r_final_output = None, r_usage = [], r_error_details = None, r_created_at = 0,
     r_updated_at = 0, r_completed_at = None, r_workforce_attribution = None\<rparr>"

definition sample_event :: "string \<Rightarrow> run_event_record" where
  "sample_event rid = \<lparr>ev_event_id = ''e'', ev_run_id = rid, ev_project_id = None, ev_sequence_no = None,
     ev_event_type = ''step'', ev_payload = [], ev_correlation_id = None, ev_created_at = 0\<rparr>"

definition sample_claim :: "string \<Rightarrow> string \<Rightarrow> idempotency_claim_record" where
  "sample_claim cid tid = new_claim cid 0 0 ''r1'' tid ''mail.send'' ''k1'' ''h'' ''run'' None None"

definition sample_approval :: "string \<Rightarrow> string option \<Rightarrow> run_approval_record" where
  "sample_approval aid act = \<lparr>ap_approval_id = aid, ap_workspace_id = Some ''ws'', ap_project_id = None,
     ap_binding_kind = (if act = None then TOOL_CALL else CHANGE_REQUEST), ap_run_id = Some ''r1'',
     ap_tool_call_id = Some ''t1'', ap_checkpoint_ref = Some ''c1'', ap_status = ''pending'', ap_requirement = [],
     ap_requester = None, ap_action = act, ap_subject = None, ap_subject_kind = None, ap_subject_ref = None,
     ap_subject_hash = None, ap_reviewer = None, ap_reason = None, ap_evidence = None, ap_manifest_hash = None,
     ap_decision_version = 0, ap_created_at = 0, ap_decided_at = None, ap_expires_at = Some 5\<rparr>"

definition sample_checkpoint :: "string \<Rightarrow> string \<Rightarrow> run_checkpoint_record" where
  "sample_checkpoint ref rid = \<lparr>ck_checkpoint_ref = ref, ck_run_id = rid, ck_project_id = None, ck_sequence_no = 1,
     ck_step_name = None, ck_state_kind = ''workflow'', ck_serialized_state = [], ck_manifest_snapshot = [],
     ck_resume_metadata = [], ck_created_at = 0\<rparr>"

lemmas sample_defs = sample_run_def sample_event_def sample_claim_def sample_approval_def sample_checkpoint_def
  new_claim_def

subsection \<open>The event log\<close>

lemma seq_no_nth: "numbered evs \<Longrightarrow> i < length evs \<Longrightarrow> seq_no (evs ! i) = Suc i"
  by (simp add: numbered_def seq_no_def)

lemma filter_numbered: "numbered evs \<Longrightarrow> filter (\<lambda>e. int n < int (seq_no e)) evs = drop n evs"
proof (induction evs rule: rev_induct)
  case (snoc e evs)
  have "numbered evs"
    using snoc.prems unfolding numbered_def by (metis butlast_snoc length_append_singleton less_Suc_eq nth_butlast)
  moreover have "seq_no e = Suc (length evs)"
    using seq_no_nth [OF snoc.prems, of "length evs"] by simp
  ultimately show ?case using snoc.IH by auto
qed simp

lemma events_inv_fold: "events_inv (fold repo_step ops empty_repo)"
  by (rule evlog.run_inv) (auto simp: events_inv_def empty_repo_def numbered_def)

text \<open>C8. The event log is append-only and gap-free, so that a consumer can follow it by sequence
  number: whatever operations \<open>ops\<close> and then \<open>ops'\<close> the callers perform, the log read after both
  is the log read after \<open>ops\<close> followed by exactly what \<open>list_events\<close> returns when asked for the
  events after the last sequence number seen, and those are numbered consecutively from there.\<close>

theorem event_replay_exact:
  "let s = fold repo_step ops empty_repo;
       s' = fold repo_step ops' s;
       seen = length (list_events rid None s);
       new = list_events rid (Some (int seen)) s'
   in list_events rid None s' = list_events rid None s @ new
      \<and> map seq_no new = [seen + 1..<length (list_events rid None s') + 1]"
proof -
  define s where "s = fold repo_step ops empty_repo"
  define s' where "s' = fold repo_step ops' s"
  have inv: "events_inv s" "events_inv s'"
    using events_inv_fold [of ops] events_inv_fold [of "ops @ ops'"] by (simp_all add: s_def s'_def)
  have "log_le s s'" unfolding s'_def by (rule evlog.run_le [OF inv(1)]) simp
  then obtain new where new: "event_log s' rid = event_log s rid @ new" by (auto simp: log_le_def prefix_def)
  have num: "numbered (event_log s' rid)" using inv(2) by (simp add: events_inv_def)
  have "map seq_no new = [length (event_log s rid) + 1..<length (event_log s' rid) + 1]"
  proof (rule nth_equalityI)
    fix i assume "i < length (map seq_no new)"
    then show "map seq_no new ! i = [length (event_log s rid) + 1..<length (event_log s' rid) + 1] ! i"
      using seq_no_nth [OF num, of "length (event_log s rid) + i"] new by (simp del: upt_Suc)
  qed (simp add: new del: upt_Suc)
  then show ?thesis
    using filter_numbered [OF num] new unfolding Let_def s_def [symmetric] s'_def [symmetric]
    by (simp add: list_events_def)
qed

subsection \<open>Cancellation against completion\<close>

text \<open>C9. A run that has ended stays ended, and with the outcome it got first: no interleaving of
  cancellations, compare-and-set transitions from live states and operations on anything else
  changes a terminal status. So when a cancellation races with a completion, the second of the
  two has no effect: a late transition reports failure, and a cancellation of a finished run
  returns that run as it is.\<close>

theorem terminal_run_final:
  assumes "run_status_of s rid = Some st" "run_terminal st" "list_all (cas_only rid) ops"
  shows "run_status_of (fold repo_step ops s) rid = Some st
    \<and> (list_all (\<lambda>x. \<not> run_terminal x) frm \<longrightarrow>
         transition_run_status now now' rid frm st' out err (fold repo_step ops s) = (fold repo_step ops s, None))
    \<and> (st \<noteq> RS_CANCELLED \<longrightarrow>
         cancel_run now now' rid reason (fold repo_step ops s)
           = (fold repo_step ops s, get_run rid (fold repo_step ops s)))"
proof -
  let ?t = "fold repo_step ops s"
  have "terminal_le rid s ?t"
    by (rule cas.run_le) (simp_all add: admissible_stateless assms(3))
  with assms have st: "run_status_of ?t rid = Some st" by (simp add: terminal_le_def)
  then obtain r where r: "dict_get (runs ?t) rid = Some r" "r_status r = st"
    by (auto simp: run_status_of_def)
  have "transition_run_status now now' rid frm st' out err ?t = (?t, None)"
    if "list_all (\<lambda>x. \<not> run_terminal x) frm"
    using that r assms(2) by (auto simp: transition_run_status_def list_all_iff)
  moreover have "cancel_run now now' rid reason ?t = (?t, get_run rid ?t)" if "st \<noteq> RS_CANCELLED"
    using that r assms(2) by (auto simp: cancel_run_def transition_run_status_def cancellable_def run_terminal_def)
  ultimately show ?thesis using st by blast
qed

text \<open>Witness of C9: a completed run survives a cancellation and a late failure report.\<close>

theorem terminal_run_final_witness:
  "run_status_of (fold repo_step
      [OpCancel 1 1 ''r1'' ''stop'', OpTransition 2 2 ''r1'' [RS_RUNNING] RS_FAILED None None]
      (fst (create_run (sample_run ''r1'' RS_COMPLETED) empty_repo))) ''r1'' = Some RS_COMPLETED"
proof -
  have 1: "run_status_of (fst (create_run (sample_run ''r1'' RS_COMPLETED) empty_repo)) ''r1'' = Some RS_COMPLETED"
    by (simp add: run_status_of_def create_run_def sample_defs empty_repo_def)
  show ?thesis
    using terminal_run_final [OF 1, of "[OpCancel 1 1 ''r1'' ''stop'', OpTransition 2 2 ''r1'' [RS_RUNNING] RS_FAILED None None]"]
    by (simp add: run_terminal_def)
qed

subsection \<open>Decisions\<close>

text \<open>C10. An approval is decided at most once. The first decision on a pending request files the
  verdict, the reviewer and the next decision version; from then on, along every interleaving
  of operations that gives new approvals fresh identifiers, the filed record does not change
  and every further decision, by either deciding operation, reports failure and does nothing.\<close>

theorem decision_taken_once:
  assumes "reachable_repo s" "dict_get (approvals s) aid = Some a" "ap_status a = ''pending''"
    and "s1 = fst (decide_approval now aid rv ok rs ev s)"
    and "admissible repo_guard repo_step ops s1"
  shows "\<exists>a'. dict_get (approvals (fold repo_step ops s1)) aid = Some a'
      \<and> ap_status a' = (if ok then ''approved'' else ''denied'') \<and> ap_reviewer a' = Some rv
      \<and> ap_decision_version a' = ap_decision_version a + 1
      \<and> decide_approval now2 aid rv2 ok2 rs2 ev2 (fold repo_step ops s1) = (fold repo_step ops s1, None)
      \<and> decide_change_approval_and_enqueue ids ts aid rv2 ok2 rs2 ev2 (fold repo_step ops s1)
          = (fold repo_step ops s1, None)"
proof -
  let ?a' = "decided now rv ok rs ev a" and ?t = "fold repo_step ops s1"
  have step: "s1 = repo_step (OpDecide now aid rv ok rs ev) s" using assms(4) by simp
  have "repo_inv s1"
    unfolding step using reachable_inv [OF assms(1)] by (intro repo_inv_step) simp_all
  then have "record_le s1 ?t" using assms(5) by (rule repo.run_le)
  moreover have "dict_get (approvals s1) aid = Some ?a'"
    using assms(2-4) by (simp add: decide_approval_def Let_def)
  moreover have nonpending: "ap_status ?a' \<noteq> ''pending''" by simp
  ultimately have t: "dict_get (approvals ?t) aid = Some ?a'" by (simp add: record_le_def)
  then have "decide_approval now2 aid rv2 ok2 rs2 ev2 ?t = (?t, None)"
    "decide_change_approval_and_enqueue ids ts aid rv2 ok2 rs2 ev2 ?t = (?t, None)"
    using nonpending
    by (simp_all add: decide_approval_def decide_change_approval_and_enqueue_def del: decided_fields split: prod.split)
  with t show ?thesis by (intro exI [of _ ?a']) simp
qed

lemma reachable_sample_approval: "reachable_repo (repo_step (OpCreateApproval (sample_approval ''a1'' act)) empty_repo)"
  by (intro reachable_step reachable_init) (simp add: empty_repo_def)

text \<open>Witness of C10: a denial stands although another approval is created and a second reviewer
  tries to approve.\<close>

theorem decision_taken_once_witness:
  "decide_approval 9 ''a1'' ''bob'' True None None
      (fold repo_step [OpCreateApproval (sample_approval ''a2'' None)]
         (fst (decide_approval 3 ''a1'' ''eve'' False None None
            (repo_step (OpCreateApproval (sample_approval ''a1'' None)) empty_repo)))) =
    (fold repo_step [OpCreateApproval (sample_approval ''a2'' None)]
         (fst (decide_approval 3 ''a1'' ''eve'' False None None
            (repo_step (OpCreateApproval (sample_approval ''a1'' None)) empty_repo))), None)"
proof -
  let ?s = "repo_step (OpCreateApproval (sample_approval ''a1'' None)) empty_repo"
  have a: "dict_get (approvals ?s) ''a1'' = Some (sample_approval ''a1'' None)"
    by (simp add: create_approval_def Let_def sample_defs empty_repo_def)
  have g: "admissible repo_guard repo_step [OpCreateApproval (sample_approval ''a2'' None)]
      (fst (decide_approval 3 ''a1'' ''eve'' False None None ?s))"
    using a by (simp add: decide_approval_def create_approval_def Let_def sample_defs empty_repo_def)
  have p: "ap_status (sample_approval ''a1'' None) = ''pending''" by (simp add: sample_defs)
  from decision_taken_once [OF reachable_sample_approval a p refl g] show ?thesis by blast
qed

subsection \<open>The outbox\<close>

text \<open>In every reachable state the executor is handed at most \<open>limit\<close> actions, and each of them
  belongs to an approval that was approved and whose action may be executed automatically:
  nothing pending, denied or outside the allow list ever leaves the outbox.\<close>

theorem outbox_only_approved:
  assumes "reachable_repo s" "0 \<le> limit"
  shows "int (length (snd (claim_approval_actions limit w now s))) \<le> limit
    \<and> (\<forall>ob \<in> set (snd (claim_approval_actions limit w now s)).
         ob_state ob = ''claimed'' \<and> ob_claim_token ob = Some w \<and>
         (\<exists>a. get_approval (ob_approval_id ob) s = Some a \<and> ap_status a = ''approved'' \<and> outbox_eligible a))"
proof (intro conjI ballI)
  show "int (length (snd (claim_approval_actions limit w now s))) \<le> limit"
    using claim_loop_length [of 0 limit] assms(2) by (simp add: claim_approval_actions_def split_beta)
next
  fix ob assume ob: "ob \<in> set (snd (claim_approval_actions limit w now s))"
  have inv: "approvals_inv s" using reachable_inv [OF assms(1)] by (simp add: repo_inv_def)
  from ob obtain k ob0 where k: "(k, ob0) \<in> set (approval_outbox s)" "ob = outbox_claimed w now ob0"
    by (auto simp: claim_approval_actions_def split_beta dest!: claim_loop_claimed)
  moreover have "tables_inv s" using reachable_inv [OF assms(1)] by (simp add: repo_inv_def)
  ultimately have "dict_get (approval_outbox s) k = Some ob0" by (simp add: tables_inv_def)
  with inv k(2) show "\<exists>a. get_approval (ob_approval_id ob) s = Some a \<and> ap_status a = ''approved'' \<and> outbox_eligible a"
    unfolding approvals_inv_def get_approval_def outbox_claimed_id by fastforce
  show "ob_state ob = ''claimed''" "ob_claim_token ob = Some w"
    using k(2) by (simp_all add: outbox_claimed_def)
qed

text \<open>The history of the witnesses: one change request, approved by a reviewer at time 3.\<close>

definition sample_outbox :: run_repo where
  "sample_outbox = repo_step (OpDecideChange (''e1'', ''o1'') (3, 3, 3, 3) ''a1'' ''eve'' True None None)
     (repo_step (OpCreateApproval (sample_approval ''a1'' (Some ''promote_skill_candidate''))) empty_repo)"

lemma reachable_sample_outbox: "reachable_repo sample_outbox"
  unfolding sample_outbox_def by (intro reachable_step reachable_sample_approval) simp

lemma sample_outbox_claim:
  "map ob_approval_id (snd (claim_approval_actions 5 ''w1'' 10 sample_outbox)) = [''a1'']"
  by (simp add: sample_outbox_def repo_op_defs sample_defs empty_repo_def decided_def outbox_due_def
      outbox_claimed_def outbox_eligible_def ALLOW_LISTED_CHANGE_ACTIONS_def)

text \<open>An instance: the approved change request reaches the worker.\<close>

theorem outbox_only_approved_witness:
  "map ob_approval_id (snd (claim_approval_actions 5 ''w1'' 10 sample_outbox)) = [''a1'']
   \<and> (\<exists>a. get_approval ''a1'' sample_outbox = Some a \<and> ap_status a = ''approved'')"
  using outbox_only_approved [OF reachable_sample_outbox, of 5 "''w1''" 10] sample_outbox_claim
  by (auto simp: map_eq_Cons_conv)

text \<open>Requests during which a claimed action cannot time out.\<close>

fun claims_before :: "datetime \<Rightarrow> run_op \<Rightarrow> bool" where
  "claims_before T (OpClaimActions limit w now) \<longleftrightarrow> now < T"
| "claims_before T _ \<longleftrightarrow> True"

definition action_held :: "string \<Rightarrow> string \<Rightarrow> datetime \<Rightarrow> run_repo \<Rightarrow> bool" where
  "action_held aid w T s \<longleftrightarrow> repo_inv s \<and>
     (\<exists>ob. dict_get (approval_outbox s) aid = Some ob \<and>
        (ob_state ob = ''delivered'' \<or>
         ob_state ob = ''claimed'' \<and> ob_claim_token ob = Some w \<and> ob_next_attempt_at ob = T))"

lemma claim_loop_not_due:
  assumes "dict_get d k = Some ob" "\<not> outbox_due now ob"
  shows "dict_get (fst (claim_loop limit w now n d)) k = Some ob"
  using assms by (induction d arbitrary: n) (auto simp: Let_def split_beta split: if_splits)

lemma claim_loop_returned:
  "dict_ok d \<Longrightarrow> ob' \<in> set (snd (claim_loop limit w now n d)) \<Longrightarrow>
   \<exists>k. dict_get (fst (claim_loop limit w now n d)) k = Some ob'"
proof -
  assume "dict_ok d" "ob' \<in> set (snd (claim_loop limit w now n d))"
  moreover from this(2) have "ob' \<in> set (dict_values (fst (claim_loop limit w now n d)))"
    by (induction d arbitrary: n) (auto simp: Let_def split_beta split: if_splits)
  ultimately show ?thesis by (intro dict_values_get) simp_all
qed

lemma held_not_due:
  "ob_state ob = ''delivered'' \<or> ob_state ob = ''claimed'' \<and> ob_next_attempt_at ob = T \<Longrightarrow> now < T \<Longrightarrow>
   \<not> outbox_due now ob"
  by (auto simp: outbox_due_def)

lemma action_held_step:
  assumes "action_held aid w T s" "repo_guard op s" "claims_before T op"
  shows "action_held aid w T (repo_step op s)"
proof -
  from assms(1) obtain ob where inv: "repo_inv s" and ob: "dict_get (approval_outbox s) aid = Some ob"
    "ob_state ob = ''delivered'' \<or> ob_state ob = ''claimed'' \<and> ob_claim_token ob = Some w \<and> ob_next_attempt_at ob = T"
    by (auto simp: action_held_def)
  then obtain a where a: "dict_get (approvals s) aid = Some a" "ap_status a = ''approved''"
    unfolding repo_inv_def approvals_inv_def by blast
  have "\<exists>ob'. dict_get (approval_outbox (repo_step op s)) aid = Some ob' \<and> (ob_state ob' = ''delivered'' \<or>
      ob_state ob' = ''claimed'' \<and> ob_claim_token ob' = Some w \<and> ob_next_attempt_at ob' = T)"
  proof (cases op)
    case (OpDecideChange ids ts aid' rv ok rs ev)
    have "dict_get (approval_outbox (repo_step op s)) aid = Some ob"
      using a ob inv unfolding OpDecideChange step_outbox
      by (auto simp: decide_change_approval_and_enqueue_def append_approval_event_def Let_def repo_inv_def
          approvals_inv_def split: option.split prod.split)
    with ob(2) show ?thesis by blast
  next
    case (OpClaimActions limit w' now)
    then have "\<not> outbox_due now ob" using assms(3) ob(2) held_not_due by auto
    then show ?thesis using ob claim_loop_not_due by (simp add: OpClaimActions step_outbox del: repo_step.simps)
  next
    case (OpDelivered now aid' w')
    then show ?thesis
      using ob by (auto simp: step_outbox mark_approval_action_delivered_def simp del: repo_step.simps split: option.split)
  qed (use ob in \<open>simp_all add: step_outbox del: repo_step.simps\<close>)
  with inv assms(2) show ?thesis by (simp add: action_held_def repo_inv_step del: repo_step.simps)
qed

interpretation held: state_machine repo_step "\<lambda>op s. repo_guard op s \<and> claims_before T op" "action_held aid w T" for aid w T
  by unfold_locales (simp add: action_held_step del: repo_step.simps)

lemma action_held_claim:
  assumes inv: "repo_inv s" and ob: "ob \<in> set (snd (claim_approval_actions limit w now s))"
  shows "action_held (ob_approval_id ob) w (now + timedelta_seconds 60) (fst (claim_approval_actions limit w now s))"
proof -
  let ?d = "approval_outbox s"
  have ok: "dict_ok ?d" using inv by (simp add: repo_inv_def tables_inv_def)
  obtain k where k: "dict_get (fst (claim_loop limit w now 0 ?d)) k = Some ob"
    using ob claim_loop_returned [OF ok, of ob limit w now 0] by (auto simp: claim_approval_actions_def split_beta)
  obtain ob0 where ob0: "ob = outbox_claimed w now ob0"
    using ob by (auto simp: claim_approval_actions_def split_beta dest!: claim_loop_claimed)
  have inv1: "repo_inv (fst (claim_approval_actions limit w now s))"
    using repo_inv_step [OF inv, of "OpClaimActions limit w now"] by simp
  have "approval_outbox (fst (claim_approval_actions limit w now s)) = fst (claim_loop limit w now 0 ?d)"
    by (simp add: claim_approval_actions_def split_beta)
  with k inv1 have "k = ob_approval_id ob" by (simp add: repo_inv_def approvals_inv_def)
  with k inv1 ob0 show ?thesis
    by (simp add: action_held_def claim_approval_actions_def split_beta outbox_claimed_def)
qed

lemma action_held_exclusive:
  assumes "action_held aid w T s" "now < T"
  shows "aid \<notin> ob_approval_id ` set (snd (claim_approval_actions limit w' now s))"
proof
  assume "aid \<in> ob_approval_id ` set (snd (claim_approval_actions limit w' now s))"
  then obtain k ob where k: "(k, ob) \<in> set (approval_outbox s)" "outbox_due now ob" "ob_approval_id ob = aid"
    by (auto simp: claim_approval_actions_def split_beta dest!: claim_loop_claimed)
  have inv: "repo_inv s" using assms(1) by (simp add: action_held_def)
  then have g: "dict_get (approval_outbox s) k = Some ob" using k(1) by (simp add: repo_inv_def tables_inv_def)
  moreover have "k = aid" using g k(3) inv by (simp add: repo_inv_def approvals_inv_def)
  ultimately have "\<not> outbox_due now ob"
    using assms by (auto simp: action_held_def outbox_due_def)
  with k(2) show False by simp
qed

lemma action_held_delivery:
  "action_held aid w T s \<Longrightarrow> w' \<noteq> w \<Longrightarrow> mark_approval_action_delivered now aid w' s = (s, False)"
  by (auto simp: action_held_def mark_approval_action_delivered_def)

text \<open>C11. A claimed action is fenced: from the moment worker \<open>w\<close> claims it at time \<open>now\<close>, and along
  every interleaving in which no other claim reads a clock past the 60 second lease, no worker
  is handed the action again, and a delivery report by anyone but \<open>w\<close> is refused.\<close>

theorem outbox_claim_fenced:
  assumes "reachable_repo s" "ob \<in> set (snd (claim_approval_actions limit w now s))"
    and "admissible (\<lambda>op s. repo_guard op s \<and> claims_before (now + timedelta_seconds 60) op) repo_step ops
           (fst (claim_approval_actions limit w now s))"
    and "t = fold repo_step ops (fst (claim_approval_actions limit w now s))"
  shows "(now' < now + timedelta_seconds 60 \<longrightarrow>
            ob_approval_id ob \<notin> ob_approval_id ` set (snd (claim_approval_actions limit' w' now' t)))
    \<and> (w' \<noteq> w \<longrightarrow> mark_approval_action_delivered now' (ob_approval_id ob) w' t = (t, False))"
proof -
  let ?aid = "ob_approval_id ob" and ?T = "now + timedelta_seconds 60" and ?s1 = "fst (claim_approval_actions limit w now s)"
  have "action_held ?aid w ?T ?s1"
    using action_held_claim assms(1,2) by (simp add: reachable_inv)
  from held.run_inv [OF this assms(3)] assms(4) have t: "action_held ?aid w ?T t" by simp
  then show ?thesis
    using action_held_exclusive [OF t] action_held_delivery [OF t] by blast
qed

text \<open>Witness of C11: while \<open>w1\<close> holds the approved action, \<open>w2\<close> is neither handed it nor can
  report it delivered.\<close>

theorem outbox_claim_fenced_witness:
  "mark_approval_action_delivered 20 ''a1'' ''w2''
     (fst (claim_approval_actions 5 ''w2'' 15 (fst (claim_approval_actions 5 ''w1'' 10 sample_outbox)))) =
   (fst (claim_approval_actions 5 ''w2'' 15 (fst (claim_approval_actions 5 ''w1'' 10 sample_outbox))), False)"
proof -
  obtain ob where ob: "ob \<in> set (snd (claim_approval_actions 5 ''w1'' 10 sample_outbox))" "ob_approval_id ob = ''a1''"
    using sample_outbox_claim by (auto simp: map_eq_Cons_conv)
  show ?thesis
    using outbox_claim_fenced [OF reachable_sample_outbox ob(1), of "[OpClaimActions 5 ''w2'' 15]", OF _ refl,
        of 20 5 "''w2''"] ob(2)
    by (simp add: timedelta_seconds_def)
qed


subsection \<open>Checkpoints and manifests\<close>

lemma lookup_checkpoints_filed:
  "\<forall>ref \<in> set refs. checkpoint_filed s ref \<Longrightarrow>
   \<exists>cs. lookup_checkpoints (checkpoints s) refs = Inr cs \<and> map ck_checkpoint_ref cs = refs"
  by (induction refs) (auto simp: checkpoint_filed_def)

lemma lookup_last:
  "lookup_checkpoints d refs = Inr xs \<Longrightarrow> refs \<noteq> [] \<Longrightarrow> xs \<noteq> [] \<and> dict_get d (last refs) = Some (last xs)"
  by (induction refs arbitrary: xs) (auto split: option.splits sum.splits if_splits)

lemma checkpoints_listed:
  assumes "reachable_repo s"
  shows "\<exists>cs. list_checkpoints rid s = Inr cs \<and> map ck_checkpoint_ref cs = checkpoint_refs s rid
    \<and> distinct (checkpoint_refs s rid)
    \<and> get_latest_checkpoint rid s = Inr (if cs = [] then None else Some (last cs))"
proof -
  let ?refs = "checkpoint_refs s rid"
  have inv: "distinct ?refs" "\<forall>ref \<in> set ?refs. checkpoint_filed s ref"
    using reachable_inv [OF assms] by (auto simp: repo_inv_def checkpoints_inv_def)
  then obtain cs where cs: "lookup_checkpoints (checkpoints s) ?refs = Inr cs" "map ck_checkpoint_ref cs = ?refs"
    using lookup_checkpoints_filed by blast
  show ?thesis
    using cs inv(1) lookup_last [OF cs(1)]
    by (intro exI [of _ cs]) (auto simp: list_checkpoints_def get_latest_checkpoint_def Let_def)
qed

text \<open>No reachable repository raises \<open>KeyError\<close> from its checkpoint lists: \<open>list_checkpoints\<close>
  returns exactly the listed references in the order they were first saved, without duplicates,
  and \<open>get_latest_checkpoint\<close> is the last of that list. Saving a checkpoint under a new
  reference makes it the latest one; saving it again under the same reference replaces its
  content and keeps its position.\<close>

theorem checkpoints_resolve:
  assumes "reachable_repo s"
  shows "\<exists>cs. list_checkpoints rid s = Inr cs \<and> distinct (map ck_checkpoint_ref cs)
      \<and> get_latest_checkpoint rid s = Inr (if cs = [] then None else Some (last cs))
      \<and> (ck_run_id c = rid \<and> ck_checkpoint_ref c \<notin> ck_checkpoint_ref ` set cs \<longrightarrow>
           get_latest_checkpoint rid (fst (save_checkpoint c s)) = Inr (Some c))
      \<and> (ck_run_id c = rid \<and> ck_checkpoint_ref c \<in> ck_checkpoint_ref ` set cs \<longrightarrow>
           list_checkpoints rid (fst (save_checkpoint c s))
             = Inr (map (\<lambda>x. if ck_checkpoint_ref x = ck_checkpoint_ref c then c else x) cs))"
proof -
  let ?refs = "checkpoint_refs s rid"
  obtain cs where cs: "list_checkpoints rid s = Inr cs" "map ck_checkpoint_ref cs = ?refs" "distinct ?refs"
    "get_latest_checkpoint rid s = Inr (if cs = [] then None else Some (last cs))"
    using checkpoints_listed [OF assms] by blast
  have overwrite: "lookup_checkpoints (dict_set (ck_checkpoint_ref c) c (checkpoints s)) refs
      = Inr (map (\<lambda>x. if ck_checkpoint_ref x = ck_checkpoint_ref c then c else x) xs)"
    if "lookup_checkpoints (checkpoints s) refs = Inr xs" "map ck_checkpoint_ref xs = refs" for refs xs
    using that by (induction refs arbitrary: xs) (auto split: option.splits sum.splits)
  have mem: "ck_checkpoint_ref c \<in> ck_checkpoint_ref ` set cs \<longleftrightarrow> ck_checkpoint_ref c \<in> set ?refs"
    using cs(2) by (metis set_map)
  show ?thesis
    using cs overwrite [of ?refs cs]
    by (intro exI [of _ cs]) (auto simp: mem list_checkpoints_def get_latest_checkpoint_def save_checkpoint_def Let_def)
qed

text \<open>An instance: two checkpoints of one run, the second is the latest.\<close>

theorem checkpoints_resolve_witness:
  "get_latest_checkpoint ''r1'' (fst (save_checkpoint (sample_checkpoint ''c2'' ''r1'')
     (repo_step (OpSaveCheckpoint (sample_checkpoint ''c1'' ''r1'')) empty_repo)))
   = Inr (Some (sample_checkpoint ''c2'' ''r1''))"
proof -
  have "reachable_repo (repo_step (OpSaveCheckpoint (sample_checkpoint ''c1'' ''r1'')) empty_repo)"
    by (intro reachable_step reachable_init) simp
  from checkpoints_resolve [OF this, of "''r1''" "sample_checkpoint ''c2'' ''r1''"] show ?thesis
    by (auto simp: list_checkpoints_def save_checkpoint_def empty_repo_def sample_defs)
qed

subsection \<open>Idempotency claims\<close>

lemma try_claim_repo_inv:
  assumes inv: "repo_inv s" and "dict_get (idempotency_claims s) (cl_claim_id c) = None"
    and "try_claim now c s = (s', res)"
  shows "repo_inv s'"
proof -
  have "claims_inv s" using inv by (simp add: repo_inv_def)
  then show ?thesis
  proof (cases rule: try_claim_cases [where c = c and now = now])
    case fresh
    then show ?thesis using repo_inv_step [OF inv, of "OpClaim c"] assms(2,3) by simp
  next
    case (retried r)
    then show ?thesis using repo_inv_step [OF inv, of "OpRetryClaim now (cl_claim_id r)"] assms(3) by simp
  next
    case (held r)
    then show ?thesis using inv assms(3) by simp
  qed
qed

text \<open>C5. At most one invocation holds an idempotency key. Once \<open>try_claim\<close> has granted the key to
  an invocation, along every interleaving that neither completes nor fails that claim, the
  holder may ask again (a resumed invocation is let in as the same one), every other invocation
  with the key is told the work is in progress and changes nothing; and when the holder
  completes, every further request gets the stored result instead of a second execution.\<close>

theorem claim_exclusive:
  assumes "reachable_repo s" "dict_get (idempotency_claims s) (cl_claim_id c) = None" "cl_status c = ''running''"
    and "try_claim now c s = (s1, Inr (oc, r))" "oc \<in> {IO_CLAIMED, IO_RETRIED}"
    and "admissible repo_guard repo_step ops s1" "list_all (spares_claim (cl_claim_id r)) ops"
    and "t = fold repo_step ops s1" "claim_key_of c' = claim_key_of c"
  shows "try_claim now' c' t = (t, Inr (if same_invocation r c' then IO_CLAIMED else IO_IN_PROGRESS, r))
    \<and> (\<exists>r'. try_claim now' c' (claim_complete now2 (cl_claim_id r) out h t)
          = (claim_complete now2 (cl_claim_id r) out h t, Inr (IO_CACHED_COMPLETED, r'))
        \<and> cl_result_payload r' = out \<and> cl_result_hash r' = Some h)"
proof -
  have inv: "repo_inv s" using assms(1) by (rule reachable_inv)
  then have "claims_inv s" by (simp add: repo_inv_def)
  note after = try_claim_after [OF this assms(4,3)]
  have "repo_inv s1" using try_claim_repo_inv [OF inv assms(2,4)] .
  then have "record_le s1 t" unfolding assms(8) using assms(6) by (rule repo.run_le)
  then have idx: "dict_get (idempotency_index t) (claim_key_of c') = Some (cl_claim_id r)"
    using after(1) unfolding record_le_def assms(9) by blast
  have cl: "dict_get (idempotency_claims t) (cl_claim_id r) = Some r"
    unfolding assms(8) using assms(6,7) after(2,3) by (rule fold_keeps_claim)
  have "cl_status r \<noteq> ''completed''" using after(4) assms(5) by auto
  moreover have "try_claim now' c' (claim_complete now2 (cl_claim_id r) out h t)
      = (claim_complete now2 (cl_claim_id r) out h t, Inr (IO_CACHED_COMPLETED,
           r\<lparr>cl_status := ''completed'', cl_result_payload := out, cl_result_hash := Some h, cl_updated_at := now2\<rparr>))"
    (is "_ = (_, Inr (_, ?r'))")
    using idx cl by (subst try_claim_held [where cid = "cl_claim_id r" and r = "?r'"])
      (simp_all add: claim_complete_def complete_idempotency_claim_def Let_def)
  ultimately show ?thesis
    using try_claim_held [OF idx cl after(3)] by simp
qed


text \<open>Witness of C5: the first invocation claims the key, an event is logged meanwhile, and the
  second invocation is told to wait.\<close>

theorem claim_exclusive_witness:
  "\<exists>r. try_claim 7 (sample_claim ''c2'' ''t2'')
        (fold repo_step [OpAppendEvent (sample_event ''r1'')]
          (fst (try_claim 1 (sample_claim ''c1'' ''t1'') empty_repo))) =
      (fold repo_step [OpAppendEvent (sample_event ''r1'')]
          (fst (try_claim 1 (sample_claim ''c1'' ''t1'') empty_repo)), Inr (IO_IN_PROGRESS, r))"
proof -
  let ?c = "sample_claim ''c1'' ''t1''" and ?c' = "sample_claim ''c2'' ''t2''"
  let ?s1 = "fst (try_claim 1 ?c empty_repo)"
  have free: "dict_get (idempotency_claims empty_repo) (cl_claim_id ?c) = None" by (simp add: empty_repo_def)
  have st: "cl_status ?c = ''running''" "claim_key_of ?c' = claim_key_of ?c" "\<not> same_invocation ?c ?c'"
    by (simp_all add: sample_defs claim_key_of_def same_invocation_def)
  have tr: "try_claim 1 ?c empty_repo = (?s1, Inr (IO_CLAIMED, ?c))"
    by (simp add: try_claim_def claim_idempotency_def empty_repo_def)
  from claim_exclusive [OF reachable_init free st(1) tr _ _ _ refl st(2), of "[OpAppendEvent (sample_event ''r1'')]" 7]
  show ?thesis using st(3) by (simp del: repo_step.simps)
qed

end
