(* ===== verification/RunLifecycle.thy ===== *)
theory RunLifecycle
  imports RunProps
begin

text \<open>
  The services that keep runs alive: execution leases (\<open>packages/agent/runs/leases.py\<close>), recovery of
  stale runs (\<open>runs/recovery.py\<close>) and the expiry sweep (\<open>runs/expiry.py\<close>), on top of the run
  repository.
\<close>

subsection \<open>Execution leases\<close>

record run_lease =
  le_run_id :: string
  le_worker_id :: string
  le_lease_token :: string
  le_acquired_at :: datetime
  le_expires_at :: datetime
  le_heartbeat_interval_sec :: int

text \<open>\<open>LeaseAcquisitionResult\<close>: the refusal names the current holder and its deadline.\<close>

datatype lease_result =
    LeaseHeld string string datetime
  | LeaseAcquired run_lease

type_synonym lease_table = "(string, run_lease) pydict"

text \<open>\<open>dflt\<close> is the manager's default time to live; \<open>now\<close> is read before the lock, \<open>now'\<close> and \<open>token\<close>
  are the defaults of the new lease's fields.\<close>

definition acquire_lease ::
  "int \<Rightarrow> datetime \<Rightarrow> datetime \<Rightarrow> string \<Rightarrow> string \<Rightarrow> string \<Rightarrow> int option \<Rightarrow> lease_table
     \<Rightarrow> lease_table \<times> lease_result" where
  "acquire_lease dflt now now' token rid worker ttl ls =
     (let grant = \<lparr>le_run_id = rid, le_worker_id = worker, le_lease_token = token, le_acquired_at = now',
                   le_expires_at = now + timedelta_seconds (int_or ttl dflt), le_heartbeat_interval_sec = 30\<rparr>
      in case dict_get ls rid of
           None \<Rightarrow> (dict_set rid grant ls, LeaseAcquired grant)
         | Some l \<Rightarrow>
             if now < le_expires_at l \<and> le_worker_id l \<noteq> worker
             then (ls, LeaseHeld rid (le_worker_id l) (le_expires_at l))
             else (dict_set rid grant ls, LeaseAcquired grant))"

definition renew_lease ::
  "int \<Rightarrow> datetime \<Rightarrow> string \<Rightarrow> string \<Rightarrow> string \<Rightarrow> int option \<Rightarrow> lease_table \<Rightarrow> lease_table \<times> bool" where
  "renew_lease dflt now rid worker token ttl ls =
     (case dict_get ls rid of
        None \<Rightarrow> (ls, False)
      | Some l \<Rightarrow>
          if le_worker_id l \<noteq> worker \<or> le_lease_token l \<noteq> token then (ls, False)
          else (dict_set rid (l\<lparr>le_expires_at := now + timedelta_seconds (int_or ttl dflt)\<rparr>) ls, True))"

definition release_lease :: "string \<Rightarrow> string \<Rightarrow> string \<Rightarrow> lease_table \<Rightarrow> lease_table \<times> bool" where
  "release_lease rid worker token ls =
     (case dict_get ls rid of
        None \<Rightarrow> (ls, False)
      | Some l \<Rightarrow>
          if le_worker_id l \<noteq> worker \<or> le_lease_token l \<noteq> token then (ls, False)
          else (dict_del rid ls, True))"

datatype lease_op =
    LAcquire datetime datetime string string string "int option"
  | LRenew datetime string string string "int option"
  | LRelease string string string

fun lease_step :: "int \<Rightarrow> lease_op \<Rightarrow> lease_table \<Rightarrow> lease_table" where
  "lease_step dflt (LAcquire now now' token rid w ttl) ls = fst (acquire_lease dflt now now' token rid w ttl ls)"
| "lease_step dflt (LRenew now rid w token ttl) ls = fst (renew_lease dflt now rid w token ttl ls)"
| "lease_step dflt (LRelease rid w token) ls = fst (release_lease rid w token ls)"

text \<open>Requests that respect the deadline \<open>T\<close> of worker \<open>w\<close>'s lease on \<open>rid\<close>: other workers read
  a clock before \<open>T\<close>, and \<open>w\<close> itself neither releases nor shortens its lease.\<close>

fun before_deadline :: "int \<Rightarrow> string \<Rightarrow> string \<Rightarrow> datetime \<Rightarrow> lease_op \<Rightarrow> bool" where
  "before_deadline dflt rid w T (LAcquire now now' token rid' w' ttl) \<longleftrightarrow>
     rid' = rid \<longrightarrow> (if w' = w then T \<le> now + timedelta_seconds (int_or ttl dflt) else now < T)"
| "before_deadline dflt rid w T (LRenew now rid' w' token ttl) \<longleftrightarrow>
     rid' = rid \<and> w' = w \<longrightarrow> T \<le> now + timedelta_seconds (int_or ttl dflt)"
| "before_deadline dflt rid w T (LRelease rid' w' token) \<longleftrightarrow> \<not> (rid' = rid \<and> w' = w)"

definition leased :: "string \<Rightarrow> string \<Rightarrow> datetime \<Rightarrow> lease_table \<Rightarrow> bool" where
  "leased rid w T ls \<longleftrightarrow> (\<exists>l. dict_get ls rid = Some l \<and> le_worker_id l = w \<and> T \<le> le_expires_at l)"

interpretation lease: state_machine "lease_step dflt" "\<lambda>op ls. before_deadline dflt rid w T op" "leased rid w T"
  for dflt rid w T
proof
  fix ls op assume "leased rid w T ls" "before_deadline dflt rid w T op"
  then show "leased rid w T (lease_step dflt op ls)"
    by (cases op) (auto simp: leased_def acquire_lease_def renew_lease_def release_lease_def Let_def
        split: option.splits if_splits)
qed

text \<open>C16. A lease is exclusive until its deadline: from the moment worker \<open>w\<close> holds run \<open>rid\<close> until
  \<open>T\<close>, along every interleaving of acquisitions, renewals and releases by any workers whose
  clocks have not reached \<open>T\<close> (and in which \<open>w\<close> does not give its lease up), every other worker
  is refused with \<open>w\<close> named as the holder, and can neither renew nor release what \<open>w\<close> holds.\<close>

theorem lease_exclusive:
  assumes "acquire_lease dflt now now' token rid w ttl ls0 = (ls, LeaseAcquired l)"
    and "T = now + timedelta_seconds (int_or ttl dflt)"
    and "list_all (before_deadline dflt rid w T) ops" "w' \<noteq> w" "t < T"
  shows "\<exists>until. let ls' = fold (lease_step dflt) ops ls in
           T \<le> until \<and> acquire_lease dflt t t' token' rid w' ttl' ls' = (ls', LeaseHeld rid w until)
           \<and> renew_lease dflt t rid w' token' ttl' ls' = (ls', False)
           \<and> release_lease rid w' token' ls' = (ls', False)"
proof -
  have "leased rid w T ls"
    using assms(1,2) by (auto simp: leased_def acquire_lease_def Let_def split: option.splits if_splits)
  then have "leased rid w T (fold (lease_step dflt) ops ls)"
    by (rule lease.run_inv) (simp add: admissible_stateless assms(3))
  with assms(4,5) show ?thesis
    by (auto simp: leased_def acquire_lease_def renew_lease_def release_lease_def Let_def)
qed

text \<open>Witness of C16: a renewal by the holder and an attempt of another worker in between.\<close>

theorem lease_exclusive_witness:
  "\<exists>ls l until. acquire_lease 60 0 0 ''k1'' ''r1'' ''w1'' None [] = (ls, LeaseAcquired l) \<and>
     snd (acquire_lease 60 2 2 ''k2'' ''r1'' ''w2'' None
       (fold (lease_step 60) [LRenew 1 ''r1'' ''w1'' ''k1'' (Some 90), LAcquire 1 1 ''k3'' ''r1'' ''w2'' None] ls))
     = LeaseHeld ''r1'' ''w1'' until"
proof -
  obtain ls l where a: "acquire_lease 60 0 0 ''k1'' ''r1'' ''w1'' None [] = (ls, LeaseAcquired l)"
    by (simp add: acquire_lease_def Let_def)
  have g: "list_all (before_deadline 60 ''r1'' ''w1'' (0 + timedelta_seconds (int_or None 60)))
      [LRenew 1 ''r1'' ''w1'' ''k1'' (Some 90), LAcquire 1 1 ''k3'' ''r1'' ''w2'' None]"
    by (simp add: timedelta_seconds_def)
  have "''w2'' \<noteq> ''w1''" by simp
  from lease_exclusive [OF a refl g this, of 2 2 "''k2''" None] obtain until where
    "acquire_lease 60 2 2 ''k2'' ''r1'' ''w2'' None (fold (lease_step 60)
       [LRenew 1 ''r1'' ''w1'' ''k1'' (Some 90), LAcquire 1 1 ''k3'' ''r1'' ''w2'' None] ls)
     = (fold (lease_step 60) [LRenew 1 ''r1'' ''w1'' ''k1'' (Some 90), LAcquire 1 1 ''k3'' ''r1'' ''w2'' None] ls,
        LeaseHeld ''r1'' ''w1'' until)"
    by (auto simp: Let_def timedelta_seconds_def)
  with a show ?thesis by (metis snd_conv)
qed

subsection \<open>Recovery\<close>

fun run_status_value :: "run_status \<Rightarrow> string" where
  "run_status_value RS_PENDING = ''pending''"
| "run_status_value RS_RUNNING = ''running''"
| "run_status_value RS_WAITING_APPROVAL = ''waiting_approval''"
| "run_status_value RS_WAITING_INPUT = ''waiting_input''"
| "run_status_value RS_COMPLETED = ''completed''"
| "run_status_value RS_FAILED = ''failed''"
| "run_status_value RS_CANCELLED = ''cancelled''"

record recovery_result =
  rr_run_id :: string
  rr_action_taken :: string
  rr_status :: string
  rr_checkpoint_ref :: "string option"
  rr_reason :: string
  rr_recovered_at :: datetime

text \<open>\<open>resume_executor\<close> is the caller's callback: it acts on the repository and may raise (the message
  of the exception).\<close>

type_synonym resume_executor = "string \<Rightarrow> string \<Rightarrow> run_repo \<Rightarrow> run_repo \<times> string option"

definition recover_stale_run ::
  "datetime \<Rightarrow> datetime \<Rightarrow> datetime \<Rightarrow> string \<Rightarrow> resume_executor option \<Rightarrow> run_repo
     \<Rightarrow> run_repo \<times> (repo_error + recovery_result)" where
  "recover_stale_run t now now' rid executor s =
     (let res = (\<lambda>action st ck reason. Inr \<lparr>rr_run_id = rid, rr_action_taken = action, rr_status = st,
                   rr_checkpoint_ref = ck, rr_reason = reason, rr_recovered_at = t\<rparr>)
      in case get_run rid s of
        None \<Rightarrow> (s, res ''skipped'' ''failed'' None (''Run '' @ sq rid @ '' not found''))
      | Some run \<Rightarrow>
          if r_status run \<in> {RS_COMPLETED, RS_FAILED, RS_CANCELLED} then
            (s, res ''skipped'' (run_status_value (r_status run)) None
                  (''Run already in terminal state: '' @ run_status_value (r_status run)))
          else if r_status run = RS_WAITING_APPROVAL then
            (s, res ''skipped'' (run_status_value RS_WAITING_APPROVAL) None
                  ''Run is waiting for human approval; recovery preserves pause gate'')
          else (case list_checkpoints rid s of
              Inl e \<Rightarrow> (s, Inl e)
            | Inr cks \<Rightarrow>
                if cks = [] then
                  (fst (update_run_status now now' rid RS_RUNNING None None s),
                   res ''requeued'' ''running'' None ''No checkpoint found; requeued from beginning'')
                else
                  let ref = ck_checkpoint_ref (last cks) in
                  (case executor of
                     Some f \<Rightarrow>
                       (case f rid ref s of
                          (s', None) \<Rightarrow> (s', res ''resumed'' ''running'' (Some ref)
                                             (''Resumed execution from checkpoint '' @ ref))
                        | (s', Some exc) \<Rightarrow> (s', res ''escalated_to_operator'' ''failed'' (Some ref)
                                                 (''Resume executor failed: '' @ exc)))
                   | None \<Rightarrow> (s, res ''resumed'' ''running'' (Some ref)
                               (''Loaded latest checkpoint '' @ ref @ '' for resume'')))))"


text \<open>Recovery restores liveness and nothing else. On a repository in any reachable state it never
  raises from the repository; a missing or finished run and a run that waits for a human
  approval are left exactly as they are, the executor is not called and the answer is "skipped";
  otherwise the run without checkpoints is put back to \<open>RUNNING\<close>, and the run with checkpoints is
  resumed (by the executor, if there is one) from its latest checkpoint, an executor that raises
  being reported to the operator.\<close>

theorem recovery_safe:
  assumes "reachable_repo s"
  shows "\<exists>r. snd (recover_stale_run t now now' rid executor s) = Inr r \<and>
     (case run_status_of s rid of
        None \<Rightarrow> fst (recover_stale_run t now now' rid executor s) = s \<and> rr_action_taken r = ''skipped''
      | Some st \<Rightarrow>
          if run_terminal st \<or> st = RS_WAITING_APPROVAL then
            fst (recover_stale_run t now now' rid executor s) = s \<and> rr_action_taken r = ''skipped''
            \<and> rr_status r = run_status_value st
          else
            case get_latest_checkpoint rid s of
              Inr None \<Rightarrow>
                run_status_of (fst (recover_stale_run t now now' rid executor s)) rid = Some RS_RUNNING
                \<and> rr_action_taken r = ''requeued''
            | Inr (Some c) \<Rightarrow>
                rr_checkpoint_ref r = Some (ck_checkpoint_ref c) \<and>
                (case executor of
                   None \<Rightarrow> fst (recover_stale_run t now now' rid executor s) = s \<and> rr_action_taken r = ''resumed''
                 | Some f \<Rightarrow>
                     fst (recover_stale_run t now now' rid executor s) = fst (f rid (ck_checkpoint_ref c) s)
                     \<and> rr_action_taken r = (if snd (f rid (ck_checkpoint_ref c) s) = None
                                            then ''resumed'' else ''escalated_to_operator''))
            | Inl e \<Rightarrow> False)"
proof -
  obtain cs where cs: "list_checkpoints rid s = Inr cs"
      "get_latest_checkpoint rid s = Inr (if cs = [] then None else Some (last cs))"
    using checkpoints_listed [OF assms] by blast
  show ?thesis
    by (cases "get_run rid s"; cases executor)
      (auto simp: recover_stale_run_def run_status_of_def get_run_def run_terminal_def cs update_run_status_def
        Let_def split: prod.split option.split)
qed

text \<open>An instance: a run that waits for approval is left alone although an executor is offered.\<close>

theorem recovery_safe_witness:
  "fst (recover_stale_run 0 0 0 ''r1'' (Some (\<lambda>rid ref s. (empty_repo, None)))
     (repo_step (OpCreateRun (sample_run ''r1'' RS_WAITING_APPROVAL)) empty_repo))
   = repo_step (OpCreateRun (sample_run ''r1'' RS_WAITING_APPROVAL)) empty_repo"
proof -
  let ?s = "repo_step (OpCreateRun (sample_run ''r1'' RS_WAITING_APPROVAL)) empty_repo"
  have "reachable_repo ?s" by (intro reachable_step reachable_init) simp
  moreover have "run_status_of ?s ''r1'' = Some RS_WAITING_APPROVAL"
    by (simp add: run_status_of_def create_run_def sample_defs empty_repo_def)
  ultimately show ?thesis
    using recovery_safe [of ?s 0 0 0 "''r1''" "Some (\<lambda>rid ref s. (empty_repo, None))"]
    by (auto simp del: repo_step.simps)
qed

subsection \<open>Expiry\<close>

record expiry_sweep_result =
  es_total_swept :: nat
  es_expired_runs :: "string list"
  es_archived_runs :: "string list"
  es_timestamp :: datetime

definition approval_expired :: "datetime \<Rightarrow> run_approval_record \<Rightarrow> bool" where
  "approval_expired now a \<longleftrightarrow> (case ap_expires_at a of None \<Rightarrow> False | Some e \<Rightarrow> e < now)"

text \<open>The body of the loop over the pending approvals; \<open>clk\<close> gives the clock readings that the
  repository takes while it handles one approval.\<close>

definition sweep_one ::
  "datetime \<Rightarrow> (run_approval_record \<Rightarrow> datetime \<times> datetime \<times> datetime) \<Rightarrow> run_approval_record
     \<Rightarrow> run_repo \<times> string list \<Rightarrow> run_repo \<times> string list" where
  "sweep_one now clk a st =
     (case (st, clk a) of ((s, expired), (t1, t2, t3)) \<Rightarrow>
      if approval_expired now a then
        let s1 = fst (decide_approval t1 (ap_approval_id a) ''system:expiry_daemon'' False
                        (Some ''Approval expired due to inactivity timeout'') None s)
        in case ap_run_id a of
             None \<Rightarrow> (s1, expired)
           | Some rid \<Rightarrow>
               if rid = [] then (s1, expired)
               else (fst (update_run_status t2 t3 rid RS_FAILED None
                            (Some [(''error'', PStr ''Run timed out waiting for human approval'')]) s1),
                     expired @ [rid])
      else (s, expired))"

definition sweep_dormant_runs ::
  "datetime \<Rightarrow> (run_approval_record \<Rightarrow> datetime \<times> datetime \<times> datetime) \<Rightarrow> run_repo
     \<Rightarrow> run_repo \<times> expiry_sweep_result" where
  "sweep_dormant_runs now clk s =
     (case fold (sweep_one now clk) (list_pending_approvals None s) (s, []) of
        (s', expired) \<Rightarrow> (s', \<lparr>es_total_swept = length expired, es_expired_runs = expired,
                              es_archived_runs = [], es_timestamp = now\<rparr>))"

text \<open>What the sweep does to one approval and to one run, after any part of its loop.\<close>

definition expired_denial :: "datetime \<Rightarrow> run_approval_record \<Rightarrow> run_approval_record" where
  "expired_denial t a =
     decided t ''system:expiry_daemon'' False (Some ''Approval expired due to inactivity timeout'') None a"

lemma expired_denial_status: "ap_status (expired_denial t a) \<noteq> ''pending''"
  by (simp add: expired_denial_def)

lemma decide_approval_get:
  "dict_get (approvals (fst (decide_approval t k rv ok rs ev s))) aid =
     (case dict_get (approvals s) aid of
        None \<Rightarrow> None
      | Some b \<Rightarrow> if k = aid \<and> ap_status b = ''pending'' then Some (decided t rv ok rs ev b) else Some b)"
  by (simp add: decide_approval_def Let_def split: option.split)

lemma update_run_status_frame [frame_simps]:
  "approvals (fst (update_run_status t t' rid st out err s)) = approvals s"
  by (simp add: update_run_status_def Let_def split: option.split)

lemma update_run_status_of:
  "run_status_of (fst (update_run_status t t' rid st out err s)) rid' =
     (if rid' = rid then map_option (\<lambda>_. st) (run_status_of s rid) else run_status_of s rid')"
  by (auto simp: run_status_of_def update_run_status_def Let_def split: option.split)

lemma decide_approval_frame [frame_simps]: "runs (fst (decide_approval t k rv ok rs ev s)) = runs s"
  by (simp add: decide_approval_def Let_def split: option.split)

lemma sweep_one_approval:
  "dict_get (approvals (fst (sweep_one now clk a st))) aid =
     (case dict_get (approvals (fst st)) aid of
        None \<Rightarrow> None
      | Some b \<Rightarrow> if ap_approval_id a = aid \<and> approval_expired now a \<and> ap_status b = ''pending''
                 then Some (expired_denial (fst (clk a)) b) else Some b)"
  by (cases st; cases "clk a")
    (auto simp: sweep_one_def Let_def frame_simps decide_approval_get expired_denial_def split: option.split)

lemma sweep_one_status:
  "run_status_of (fst (sweep_one now clk a st)) rid =
     (if approval_expired now a \<and> ap_run_id a = Some rid \<and> rid \<noteq> []
      then map_option (\<lambda>_. RS_FAILED) (run_status_of (fst st) rid) else run_status_of (fst st) rid)"
proof -
  have "run_status_of (fst (decide_approval t k rv ok rs ev s)) r = run_status_of s r" for t k rv ok rs ev s r
    by (simp add: run_status_of_def frame_simps)
  then show ?thesis
    by (simp add: sweep_one_def Let_def update_run_status_of split: prod.split option.split)
qed

lemma sweep_one_expired:
  "snd (sweep_one now clk a st) =
     snd st @ (if approval_expired now a \<and> truthy_opt (ap_run_id a) then [the (ap_run_id a)] else [])"
  by (auto simp: sweep_one_def Let_def split: prod.split option.split)

lemma sweep_status:
  "run_status_of (fst (fold (sweep_one now clk) as st)) rid =
     (if \<exists>a \<in> set as. approval_expired now a \<and> ap_run_id a = Some rid \<and> rid \<noteq> []
      then map_option (\<lambda>_. RS_FAILED) (run_status_of (fst st) rid) else run_status_of (fst st) rid)"
  by (induction as arbitrary: st) (auto simp: sweep_one_status map_option.compositionality comp_def)

lemma sweep_untouched:
  "\<forall>a \<in> set as. ap_approval_id a = aid \<longrightarrow> \<not> approval_expired now a \<Longrightarrow>
   dict_get (approvals (fst (fold (sweep_one now clk) as st))) aid = dict_get (approvals (fst st)) aid"
  by (induction as arbitrary: st) (auto simp: sweep_one_approval split: option.split)

lemma sweep_decided:
  "dict_get (approvals (fst st)) aid = Some b \<Longrightarrow> ap_status b \<noteq> ''pending'' \<Longrightarrow>
   dict_get (approvals (fst (fold (sweep_one now clk) as st))) aid = Some b"
  by (induction as arbitrary: st) (auto simp: sweep_one_approval)

lemma sweep_expires:
  assumes "a \<in> set as" "ap_approval_id a = aid" "approval_expired now a"
    and "dict_get (approvals (fst st)) aid = Some b" "ap_status b = ''pending''"
    and "\<forall>x \<in> set as. ap_approval_id x = aid \<longrightarrow> x = a"
  shows "dict_get (approvals (fst (fold (sweep_one now clk) as st))) aid =
     Some (expired_denial (fst (clk a)) b)"
  using assms
proof (induction as arbitrary: st)
  case (Cons x as)
  show ?case
  proof (cases "x = a")
    case True
    have "dict_get (approvals (fst (sweep_one now clk a st))) aid = Some (expired_denial (fst (clk a)) b)"
      using Cons.prems(2-5) by (simp add: sweep_one_approval)
    from sweep_decided [OF this expired_denial_status] True show ?thesis by simp
  next
    case False
    with Cons.prems(6) have "ap_approval_id x \<noteq> aid" by (metis list.set_intros(1))
    then have "dict_get (approvals (fst (sweep_one now clk x st))) aid = Some b"
      using Cons.prems(4) by (simp add: sweep_one_approval)
    from Cons.IH [OF _ Cons.prems(2,3) this Cons.prems(5)] Cons.prems(1,6) False show ?thesis by simp
  qed
next
  case Nil
  from Nil.prems(1) have False by simp
  then show ?case ..
qed


lemma pending_unique:
  assumes "reachable_repo s" "a \<in> set (list_pending_approvals None s)"
  shows "dict_get (approvals s) (ap_approval_id a) = Some a \<and> ap_status a = ''pending''"
proof -
  have inv: "approvals_inv s" "tables_inv s" using reachable_inv [OF assms(1)] by (simp_all add: repo_inv_def)
  from assms(2) have "a \<in> set (dict_values (approvals s))" "ap_status a = ''pending''"
    by (auto simp: list_pending_approvals_def)
  moreover from this(1) inv(2) obtain aid where "dict_get (approvals s) aid = Some a"
    using dict_values_get by (fastforce simp: tables_inv_def)
  ultimately show ?thesis using inv(1) by (auto simp: approvals_inv_def)
qed

lemma pending_listed:
  "dict_get (approvals s) aid = Some a \<Longrightarrow> ap_status a = ''pending'' \<Longrightarrow> a \<in> set (list_pending_approvals None s)"
  by (auto simp: list_pending_approvals_def dest: dict_get_values)

text \<open>The sweep denies, in the name of the expiry daemon, exactly the pending approvals whose
  deadline has passed, and leaves every other approval as it is; a run changes status exactly
  when one of those approvals names it, and then it becomes \<open>FAILED\<close>, whatever it was before: a
  run that was cancelled or completed while its approval was pending is overwritten, and the
  configured dormancy period plays no role.\<close>

theorem expiry_sweep_exact:
  assumes "reachable_repo s" "s' = fst (sweep_dormant_runs now clk s)"
  shows "(\<forall>aid a. get_approval aid s = Some a \<longrightarrow>
           get_approval aid s' = Some (if ap_status a = ''pending'' \<and> approval_expired now a
             then expired_denial (fst (clk a)) a else a))
    \<and> run_status_of s' rid =
        (if rid \<noteq> [] \<and> (\<exists>aid a. get_approval aid s = Some a \<and> ap_status a = ''pending''
              \<and> approval_expired now a \<and> ap_run_id a = Some rid)
         then map_option (\<lambda>_. RS_FAILED) (run_status_of s rid) else run_status_of s rid)"
proof (intro conjI allI impI)
  let ?as = "list_pending_approvals None s"
  have s': "s' = fst (fold (sweep_one now clk) ?as (s, []))"
    by (simp add: assms(2) sweep_dormant_runs_def split_beta)
  have uniq: "\<And>x y. x \<in> set ?as \<Longrightarrow> dict_get (approvals s) (ap_approval_id x) = Some y \<Longrightarrow> y = x"
    using pending_unique [OF assms(1)] by fastforce
  have filed: "\<And>aid a. dict_get (approvals s) aid = Some a \<Longrightarrow> ap_approval_id a = aid"
    using reachable_inv [OF assms(1)] by (simp add: repo_inv_def approvals_inv_def)
  fix aid a assume "get_approval aid s = Some a"
  then have a: "dict_get (approvals s) aid = Some a" by (simp add: get_approval_def)
  show "get_approval aid s' = Some (if ap_status a = ''pending'' \<and> approval_expired now a
     then expired_denial (fst (clk a)) a else a)"
  proof (cases "ap_status a = ''pending'' \<and> approval_expired now a")
    case True
    then have "get_approval aid s' = Some (expired_denial (fst (clk a)) a)"
      unfolding get_approval_def s' using a filed [OF a] pending_listed [OF a] uniq
      by (intro sweep_expires) auto
    with True show ?thesis by simp
  next
    case False
    then have "\<forall>x \<in> set ?as. ap_approval_id x = aid \<longrightarrow> \<not> approval_expired now x"
      using uniq a pending_unique [OF assms(1)] by metis
    from sweep_untouched [OF this, of clk "(s, [])"] a False show ?thesis
      by (auto simp: get_approval_def s')
  qed
next
  let ?as = "list_pending_approvals None s"
  have eq: "(\<exists>a \<in> set ?as. approval_expired now a \<and> ap_run_id a = Some rid \<and> rid \<noteq> []) \<longleftrightarrow>
     rid \<noteq> [] \<and> (\<exists>aid a. get_approval aid s = Some a \<and> ap_status a = ''pending''
              \<and> approval_expired now a \<and> ap_run_id a = Some rid)"
    using pending_unique [OF assms(1)] pending_listed unfolding get_approval_def by blast
  show "run_status_of s' rid =
      (if rid \<noteq> [] \<and> (\<exists>aid a. get_approval aid s = Some a \<and> ap_status a = ''pending''
            \<and> approval_expired now a \<and> ap_run_id a = Some rid)
       then map_option (\<lambda>_. RS_FAILED) (run_status_of s rid) else run_status_of s rid)"
    by (simp only: assms(2) sweep_dormant_runs_def split_beta fst_conv sweep_status eq)
qed

text \<open>Witness of C27: the run was cancelled, its approval is still pending at the deadline, and the
  sweep turns the run into a failed one.\<close>

definition sample_dormant :: run_repo where
  "sample_dormant = fold repo_step [OpCreateRun (sample_run ''r1'' RS_WAITING_APPROVAL),
     OpCreateApproval (sample_approval ''a1'' None), OpCancel 2 2 ''r1'' ''stop''] empty_repo"

lemma reachable_sample_dormant: "reachable_repo sample_dormant"
  unfolding sample_dormant_def
  by (intro reachable_fold reachable_init) (simp add: create_run_def sample_defs empty_repo_def)

lemma sample_dormant_facts:
  "run_status_of sample_dormant ''r1'' = Some RS_CANCELLED"
  "get_approval ''a1'' sample_dormant = Some (sample_approval ''a1'' None)"
  by (simp_all add: sample_dormant_def run_status_of_def get_approval_def repo_op_defs cancellable_def
      set_run_status_def sample_defs empty_repo_def)

theorem expiry_sweep_exact_witness:
  "run_status_of sample_dormant ''r1'' = Some RS_CANCELLED \<and>
   run_status_of (fst (sweep_dormant_runs 9 (\<lambda>_. (9, 9, 9)) sample_dormant)) ''r1'' = Some RS_FAILED"
proof -
  have "ap_status (sample_approval ''a1'' None) = ''pending'' \<and> approval_expired 9 (sample_approval ''a1'' None)
      \<and> ap_run_id (sample_approval ''a1'' None) = Some ''r1''"
    by (simp add: sample_defs approval_expired_def)
  with expiry_sweep_exact [OF reachable_sample_dormant refl, of 9 "\<lambda>_. (9, 9, 9)" "''r1''"] sample_dormant_facts
  show ?thesis by auto
qed

end
