(* ===== verification/Scheduler.thy ===== *)
theory Scheduler
  imports RunModels
begin

text \<open>
  The coalescing work queue (\<open>packages/agent/coordination/scheduler.py\<close>): tasks, the index of
  coalescing keys, polling with claim tokens, heartbeats and completion. Every method runs under
  the scheduler's lock, so one call is one step.
\<close>

subsection \<open>State and operations\<close>

record scheduled_task_record =
  sk_task_id :: string
  sk_coalescing_key :: "string option"
  sk_target_spec_id :: string
  sk_target_spec_kind :: string
  sk_input_payload :: payload
  sk_run_at :: datetime
  sk_status :: string
  sk_created_at :: datetime
  sk_claim_token :: "string option"
  sk_attempt_count :: int
  sk_max_attempts :: int

record run_scheduler =
  tasks :: "(string, scheduled_task_record) pydict"
  coalescing_index :: "(string, string) pydict"

definition empty_scheduler :: run_scheduler where
  "empty_scheduler = \<lparr>tasks = [], coalescing_index = []\<rparr>"

text \<open>The waiting task a request with this key is merged into, if there is one.\<close>

definition coalescing_target :: "string option \<Rightarrow> run_scheduler \<Rightarrow> scheduled_task_record option" where
  "coalescing_target key s =
     (case key of
        None \<Rightarrow> None
      | Some k \<Rightarrow>
          if k = [] then None
          else (case dict_get (coalescing_index s) k of
                  None \<Rightarrow> None
                | Some tid \<Rightarrow>
                    (case dict_get (tasks s) tid of
                       None \<Rightarrow> None
                     | Some t \<Rightarrow> if sk_status t = ''scheduled'' then Some t else None)))"

text \<open>\<open>tid\<close> and \<open>created\<close> are the generated identifier and creation time of a new task; a merge
  keeps the task it merges into under the identifier the index has for the key.\<close>

definition schedule ::
  "string \<Rightarrow> datetime \<Rightarrow> datetime \<Rightarrow> string \<Rightarrow> payload \<Rightarrow> string option \<Rightarrow> datetime option \<Rightarrow> string
     \<Rightarrow> run_scheduler \<Rightarrow> run_scheduler \<times> scheduled_task_record" where
  "schedule tid created now spec input key run_at kind s =
     (case coalescing_target key s of
        Some t \<Rightarrow>
          let t' = t\<lparr>sk_input_payload := dict_update (sk_input_payload t) input\<rparr>;
              existing_id = the (dict_get (coalescing_index s) (the key))
          in (s\<lparr>tasks := dict_set existing_id t' (tasks s)\<rparr>, t')
      | None \<Rightarrow>
          let t = \<lparr>sk_task_id = tid, sk_coalescing_key = key, sk_target_spec_id = spec,
                   sk_target_spec_kind = kind, sk_input_payload = input,
                   sk_run_at = (case run_at of None \<Rightarrow> now | Some r \<Rightarrow> r), sk_status = ''scheduled'',
                   sk_created_at = created, sk_claim_token = None, sk_attempt_count = 0, sk_max_attempts = 5\<rparr>;
              s1 = s\<lparr>tasks := dict_set tid t (tasks s)\<rparr>
          in ((case key of
                 None \<Rightarrow> s1
               | Some k \<Rightarrow> if k = [] then s1
                           else s1\<lparr>coalescing_index := dict_set k tid (coalescing_index s1)\<rparr>), t))"

definition task_due :: "datetime \<Rightarrow> scheduled_task_record \<Rightarrow> bool" where
  "task_due now t \<longleftrightarrow> sk_status t = ''scheduled'' \<and> sk_run_at t \<le> now"

definition task_claimed :: "(string \<Rightarrow> string) \<Rightarrow> scheduled_task_record \<Rightarrow> scheduled_task_record" where
  "task_claimed tok t = t\<lparr>sk_status := ''processing'', sk_claim_token := Some (tok (sk_task_id t))\<rparr>"

text \<open>The loop of \<open>poll_due_tasks\<close>; \<open>n\<close> is \<open>len(due)\<close>, \<open>tok\<close> the generated claim token of each task.
  The limit is tested after a task has been appended.\<close>

fun poll_loop ::
  "int \<Rightarrow> (string \<Rightarrow> string) \<Rightarrow> datetime \<Rightarrow> int \<Rightarrow> (string, scheduled_task_record) pydict
     \<Rightarrow> (string, scheduled_task_record) pydict \<times> scheduled_task_record list" where
  "poll_loop limit tok now n [] = ([], [])"
| "poll_loop limit tok now n ((k, t) # rest) =
     (if task_due now t then
        let t' = task_claimed tok t in
        if limit \<le> n + 1 then ((k, t') # rest, [t'])
        else let (d, ts) = poll_loop limit tok now (n + 1) rest in ((k, t') # d, t' # ts)
      else let (d, ts) = poll_loop limit tok now n rest in ((k, t) # d, ts))"

definition poll_due_tasks ::
  "(string \<Rightarrow> string) \<Rightarrow> datetime \<Rightarrow> int \<Rightarrow> run_scheduler \<Rightarrow> run_scheduler \<times> scheduled_task_record list" where
  "poll_due_tasks tok now limit s =
     (let (d, ts) = poll_loop limit tok now 0 (tasks s) in (s\<lparr>tasks := d\<rparr>, ts))"

definition heartbeat_task :: "string \<Rightarrow> string option \<Rightarrow> run_scheduler \<Rightarrow> bool" where
  "heartbeat_task tid token s =
     (case dict_get (tasks s) tid of
        None \<Rightarrow> False
      | Some t \<Rightarrow>
          if sk_status t \<noteq> ''processing'' then False
          else \<not> (token \<noteq> None \<and> sk_claim_token t \<noteq> token))"

definition complete_task ::
  "string \<Rightarrow> string option \<Rightarrow> bool \<Rightarrow> run_scheduler \<Rightarrow> run_scheduler \<times> bool" where
  "complete_task tid token success s =
     (case dict_get (tasks s) tid of
        None \<Rightarrow> (s, False)
      | Some t \<Rightarrow>
          if token \<noteq> None \<and> sk_claim_token t \<noteq> token then (s, False)
          else
            let s1 = s\<lparr>tasks := dict_set tid (t\<lparr>sk_status := (if success then ''completed'' else ''failed'')\<rparr>) (tasks s)\<rparr>
            in ((case sk_coalescing_key t of
                   None \<Rightarrow> s1
                 | Some k \<Rightarrow>
                     if k \<noteq> [] \<and> dict_get (coalescing_index s1) k = Some tid
                     then s1\<lparr>coalescing_index := dict_del k (coalescing_index s1)\<rparr> else s1), True))"

subsection \<open>Requests\<close>

datatype sched_op =
    SSchedule string datetime datetime string payload "string option" "datetime option" string
  | SPoll "string \<Rightarrow> string" datetime int
  | SComplete string "string option" bool

fun sched_step :: "sched_op \<Rightarrow> run_scheduler \<Rightarrow> run_scheduler" where
  "sched_step (SSchedule tid created now spec input key run_at kind) s =
     fst (schedule tid created now spec input key run_at kind s)"
| "sched_step (SPoll tok now limit) s = fst (poll_due_tasks tok now limit s)"
| "sched_step (SComplete tid token ok) s = fst (complete_task tid token ok s)"

fun sched_guard :: "sched_op \<Rightarrow> run_scheduler \<Rightarrow> bool" where
  "sched_guard (SSchedule tid created now spec input key run_at kind) s \<longleftrightarrow> dict_get (tasks s) tid = None"
| "sched_guard _ s \<longleftrightarrow> True"

text \<open>Tasks are filed once, under their own identifier; an indexed key belongs to the task it points
  to; and a task that still waits under a key is the one the index has for it.\<close>

definition sched_inv :: "run_scheduler \<Rightarrow> bool" where
  "sched_inv s \<longleftrightarrow>
     (\<forall>tid t. dict_get (tasks s) tid = Some t \<longrightarrow> sk_task_id t = tid) \<and>
     (\<forall>k tid. dict_get (coalescing_index s) k = Some tid \<longrightarrow>
        (\<exists>t. dict_get (tasks s) tid = Some t \<and> sk_coalescing_key t = Some k)) \<and>
     (\<forall>tid t k. dict_get (tasks s) tid = Some t \<and> sk_status t = ''scheduled'' \<and> sk_coalescing_key t = Some k \<and> k \<noteq> []
        \<longrightarrow> dict_get (coalescing_index s) k = Some tid)"

definition tasks_ok :: "run_scheduler \<Rightarrow> bool" where
  "tasks_ok s \<longleftrightarrow> dict_ok (tasks s)"

lemma poll_loop_keys [simp]: "dict_keys (fst (poll_loop limit tok now n d)) = dict_keys d"
  by (induction d arbitrary: n) (auto simp: Let_def split_beta)

lemma poll_loop_cases:
  "dict_get (fst (poll_loop limit tok now n d)) k = Some t' \<Longrightarrow>
   \<exists>t. dict_get d k = Some t \<and> (t' = t \<or> task_due now t \<and> t' = task_claimed tok t)"
  by (induction d arbitrary: n) (auto simp: Let_def split_beta split: if_splits)

lemma poll_loop_dom:
  "dict_get d k = Some t \<Longrightarrow>
   dict_get (fst (poll_loop limit tok now n d)) k \<in> {Some t} \<union> (if task_due now t then {Some (task_claimed tok t)} else {})"
proof (induction d arbitrary: n)
  case (Cons x d)
  show ?case
    using Cons.IH [of n] Cons.IH [of "n + 1"] Cons.prems by (cases x) (auto simp: Let_def split_beta split: if_splits)
qed simp

lemma poll_loop_returned:
  "t' \<in> set (snd (poll_loop limit tok now n d)) \<Longrightarrow>
   \<exists>k t. (k, t) \<in> set d \<and> task_due now t \<and> t' = task_claimed tok t \<and> (k, t') \<in> set (fst (poll_loop limit tok now n d))"
  by (induction d arbitrary: n) (fastforce simp: Let_def split_beta split: if_splits)+

lemma poll_loop_length:
  "int (length (snd (poll_loop limit tok now n d))) \<le> max 1 (limit - n)"
proof (induction d arbitrary: n)
  case (Cons x d)
  have "n + 1 < limit \<Longrightarrow> 1 + int (length (snd (poll_loop limit tok now (n + 1) d))) \<le> limit - n"
    using Cons.IH [of "n + 1"] by simp
  with Cons.IH [of n] show ?case by (cases x) (auto simp: Let_def split_beta)
qed simp


lemma task_claimed_fields [simp]:
  "sk_task_id (task_claimed tok t) = sk_task_id t" "sk_coalescing_key (task_claimed tok t) = sk_coalescing_key t"
  "sk_status (task_claimed tok t) = ''processing''" "sk_claim_token (task_claimed tok t) = Some (tok (sk_task_id t))"
  by (simp_all add: task_claimed_def)

text \<open>How the requests change one task: its identity and key never, its status only forwards.\<close>

definition task_le :: "scheduled_task_record \<Rightarrow> scheduled_task_record \<Rightarrow> bool" where
  "task_le t t' \<longleftrightarrow> sk_task_id t' = sk_task_id t \<and> sk_coalescing_key t' = sk_coalescing_key t
     \<and> (sk_status t \<noteq> ''scheduled'' \<longrightarrow> sk_status t' \<noteq> ''scheduled'' \<and> sk_claim_token t' = sk_claim_token t
          \<and> sk_input_payload t' = sk_input_payload t)"

definition sched_le :: "run_scheduler \<Rightarrow> run_scheduler \<Rightarrow> bool" where
  "sched_le s s' \<longleftrightarrow> (\<forall>tid t. dict_get (tasks s) tid = Some t \<longrightarrow> (\<exists>t'. dict_get (tasks s') tid = Some t' \<and> task_le t t'))"

lemma coalescing_target_SomeD:
  "coalescing_target key s = Some t \<Longrightarrow>
   \<exists>k tid. key = Some k \<and> k \<noteq> [] \<and> dict_get (coalescing_index s) k = Some tid \<and> dict_get (tasks s) tid = Some t
     \<and> sk_status t = ''scheduled''"
  by (auto simp: coalescing_target_def split: option.splits if_splits)

lemma coalescing_target_None:
  assumes "coalescing_target (Some k) s = None" "k \<noteq> []" "sched_inv s"
    and "dict_get (tasks s) tid = Some t" "sk_coalescing_key t = Some k"
  shows "sk_status t \<noteq> ''scheduled''"
  using assms unfolding sched_inv_def coalescing_target_def by (auto split: option.splits if_splits)

lemma sched_le_step: "sched_guard op s \<Longrightarrow> sched_le s (sched_step op s)"
proof (cases op)
  case (SSchedule tid created now spec input key run_at kind)
  assume g: "sched_guard op s"
  show ?thesis
  proof (cases "coalescing_target key s")
    case None
    with g SSchedule show ?thesis
      by (auto simp: sched_le_def schedule_def Let_def task_le_def split: option.split)
  next
    case (Some t)
    with SSchedule show ?thesis
      by (auto simp: sched_le_def schedule_def Let_def task_le_def dest!: coalescing_target_SomeD)
  qed
next
  case (SPoll tok now limit)
  show ?thesis
    unfolding sched_le_def
  proof (intro allI impI)
    fix tid t assume "dict_get (tasks s) tid = Some t"
    from poll_loop_dom [OF this, of limit tok now 0] SPoll
    show "\<exists>t'. dict_get (tasks (sched_step op s)) tid = Some t' \<and> task_le t t'"
      by (auto simp: poll_due_tasks_def split_beta task_le_def task_due_def task_claimed_def split: if_splits)
  qed
next
  case (SComplete tid token ok)
  then show ?thesis
    by (auto simp: sched_le_def complete_task_def Let_def task_le_def split: option.split)
qed

lemma sched_inv_schedule:
  assumes inv: "sched_inv s" and fresh: "dict_get (tasks s) tid = None"
  shows "sched_inv (fst (schedule tid created now spec input key run_at kind s))"
proof (cases "coalescing_target key s")
  case (Some t)
  then obtain k i where k: "key = Some k" "dict_get (coalescing_index s) k = Some i" "dict_get (tasks s) i = Some t"
    by (auto dest!: coalescing_target_SomeD)
  with inv Some show ?thesis
    unfolding sched_inv_def by (auto simp: schedule_def Let_def) (metis option.inject)
next
  case None
  have idx: "\<And>k. dict_get (coalescing_index s) k \<noteq> Some tid"
    using inv fresh unfolding sched_inv_def by fastforce
  have "sk_status t \<noteq> ''scheduled''" if "key = Some k" "k \<noteq> []" "dict_get (tasks s) i = Some t" "sk_coalescing_key t = Some k" for k i t
    using coalescing_target_None [OF _ that(2) inv that(3,4)] None that(1) by simp
  with inv fresh None idx show ?thesis
    unfolding sched_inv_def schedule_def by (auto simp: Let_def split: option.split)
qed


lemma sched_inv_poll:
  assumes inv: "sched_inv s"
  shows "sched_inv (fst (poll_due_tasks tok now limit s))"
proof -
  let ?d = "fst (poll_loop limit tok now 0 (tasks s))"
  have old: "\<exists>t0. dict_get (tasks s) tid = Some t0 \<and> sk_task_id t = sk_task_id t0 \<and> sk_coalescing_key t = sk_coalescing_key t0
      \<and> (sk_status t = ''scheduled'' \<longrightarrow> t = t0)" if "dict_get ?d tid = Some t" for tid t
    using poll_loop_cases [OF that] by auto
  have new: "\<exists>t. dict_get ?d tid = Some t \<and> sk_coalescing_key t = sk_coalescing_key t0"
    if "dict_get (tasks s) tid = Some t0" for tid t0
    using poll_loop_dom [OF that, of limit tok now 0] by (auto split: if_splits)
  have f: "tasks (fst (poll_due_tasks tok now limit s)) = ?d"
    "coalescing_index (fst (poll_due_tasks tok now limit s)) = coalescing_index s"
    by (simp_all add: poll_due_tasks_def split_beta)
  show ?thesis
    unfolding sched_inv_def f
  proof (intro conjI allI impI)
    fix tid t assume "dict_get ?d tid = Some t"
    with old inv show "sk_task_id t = tid" unfolding sched_inv_def by fastforce
  next
    fix k tid assume "dict_get (coalescing_index s) k = Some tid"
    with inv obtain t0 where "dict_get (tasks s) tid = Some t0" "sk_coalescing_key t0 = Some k"
      unfolding sched_inv_def by blast
    with new show "\<exists>t. dict_get ?d tid = Some t \<and> sk_coalescing_key t = Some k" by fastforce
  next
    fix tid t k
    assume t: "dict_get ?d tid = Some t \<and> sk_status t = ''scheduled'' \<and> sk_coalescing_key t = Some k \<and> k \<noteq> []"
    with old have "dict_get (tasks s) tid = Some t" by blast
    with t inv show "dict_get (coalescing_index s) k = Some tid" unfolding sched_inv_def by blast
  qed
qed

lemma sched_inv_drop_key:
  assumes "sched_inv s"
    and "\<And>i u k'. dict_get (tasks s) i = Some u \<Longrightarrow> sk_status u = ''scheduled'' \<Longrightarrow> sk_coalescing_key u = Some k' \<Longrightarrow>
      k' \<noteq> [] \<Longrightarrow> k' \<noteq> k"
  shows "sched_inv (s\<lparr>coalescing_index := dict_del k (coalescing_index s)\<rparr>)"
  using assms unfolding sched_inv_def by auto

text \<open>Ending a task and dropping the key that points to it.\<close>

lemma sched_inv_end:
  assumes inv: "sched_inv s" and t: "dict_get (tasks s) tid = Some t" and st: "st \<noteq> ''scheduled''"
  shows "sched_inv (s\<lparr>tasks := dict_set tid (t\<lparr>sk_status := st\<rparr>) (tasks s)\<rparr>)" (is "sched_inv ?s1")
    and "sk_coalescing_key t = Some k \<Longrightarrow> dict_get (coalescing_index s) k = Some tid \<Longrightarrow>
         sched_inv (s\<lparr>tasks := dict_set tid (t\<lparr>sk_status := st\<rparr>) (tasks s), coalescing_index := dict_del k (coalescing_index s)\<rparr>)"
proof -
  have key: "\<And>k. dict_get (coalescing_index s) k = Some tid \<Longrightarrow> sk_coalescing_key t = Some k"
    using inv t unfolding sched_inv_def by fastforce
  show 1: "sched_inv ?s1"
    using inv t st key unfolding sched_inv_def by (simp, blast)
  assume k: "sk_coalescing_key t = Some k" "dict_get (coalescing_index s) k = Some tid"
  have "k' \<noteq> k" if "dict_get (tasks ?s1) i = Some u" "sk_status u = ''scheduled''" "sk_coalescing_key u = Some k'" "k' \<noteq> []" for i u k'
  proof
    assume "k' = k"
    with 1 that have "dict_get (coalescing_index s) k = Some i" unfolding sched_inv_def by auto
    with k(2) that st show False by auto
  qed
  from sched_inv_drop_key [OF 1 this]
  show "sched_inv (s\<lparr>tasks := dict_set tid (t\<lparr>sk_status := st\<rparr>) (tasks s), coalescing_index := dict_del k (coalescing_index s)\<rparr>)"
    by simp
qed

lemma sched_inv_complete:
  assumes inv: "sched_inv s"
  shows "sched_inv (fst (complete_task tid token ok s))"
proof (cases "dict_get (tasks s) tid")
  case (Some t)
  define st where "st = (if ok then ''completed'' else ''failed'')"
  then have "st \<noteq> ''scheduled''" by simp
  from sched_inv_end [OF inv Some this] inv Some show ?thesis
    by (simp add: complete_task_def Let_def st_def [symmetric] split: option.split)
qed (use inv in \<open>simp add: complete_task_def\<close>)

lemma sched_inv_step: "sched_inv s \<Longrightarrow> sched_guard op s \<Longrightarrow> sched_inv (sched_step op s)"
  by (cases op) (simp_all add: sched_inv_schedule sched_inv_poll sched_inv_complete)

lemma tasks_ok_step: "tasks_ok s \<Longrightarrow> tasks_ok (sched_step op s)"
  by (cases op) (auto simp: tasks_ok_def schedule_def poll_due_tasks_def complete_task_def Let_def split_beta split: option.split)

lemma task_le_trans: "task_le t u \<Longrightarrow> task_le u v \<Longrightarrow> task_le t v"
  by (simp add: task_le_def)

lemma sched_le_trans: "sched_le s t \<Longrightarrow> sched_le t u \<Longrightarrow> sched_le s u"
  unfolding sched_le_def by (blast intro: task_le_trans)

interpretation sched: monotone_machine sched_step sched_guard "\<lambda>s. sched_inv s \<and> tasks_ok s" sched_le
  by unfold_locales
    (auto simp: sched_inv_step tasks_ok_step sched_le_step intro: sched_le_trans simp del: sched_step.simps,
     auto simp: sched_le_def task_le_def)

inductive reachable_sched :: "run_scheduler \<Rightarrow> bool" where
  sched_init: "reachable_sched empty_scheduler"
| sched_next: "reachable_sched s \<Longrightarrow> sched_guard op s \<Longrightarrow> reachable_sched (sched_step op s)"

lemma reachable_sched_inv: "reachable_sched s \<Longrightarrow> sched_inv s \<and> tasks_ok s"
  by (induction rule: reachable_sched.induct)
    (simp_all add: sched_inv_step tasks_ok_step del: sched_step.simps, simp add: empty_scheduler_def sched_inv_def tasks_ok_def)

subsection \<open>Properties\<close>

text \<open>Work is coalesced: in every reachable state at most one task per coalescing key is waiting
  to be polled, and a request with the key of a waiting task creates no second one but merges
  its input into that task, later values winning.\<close>

theorem coalescing_single_waiting:
  assumes "reachable_sched s" "dict_get (tasks s) tid = Some t" "sk_status t = ''scheduled''"
    and "sk_coalescing_key t = Some k" "k \<noteq> []"
  shows "(\<forall>tid' t'. dict_get (tasks s) tid' = Some t' \<and> sk_status t' = ''scheduled'' \<and> sk_coalescing_key t' = Some k
            \<longrightarrow> tid' = tid)
    \<and> (\<exists>t'. schedule new created now spec input (Some k) run_at kind s = (s\<lparr>tasks := dict_set tid t' (tasks s)\<rparr>, t')
          \<and> sk_task_id t' = tid \<and> sk_run_at t' = sk_run_at t
          \<and> (\<forall>f. dict_get (sk_input_payload t') f =
                (case dict_get (rev input) f of None \<Rightarrow> dict_get (sk_input_payload t) f | Some v \<Rightarrow> Some v)))"
proof -
  have inv: "sched_inv s" using reachable_sched_inv [OF assms(1)] by simp
  then have idx: "dict_get (coalescing_index s) k = Some tid" and id: "sk_task_id t = tid"
    using assms(2-5) unfolding sched_inv_def by blast+
  have "coalescing_target (Some k) s = Some t"
    using idx assms(2,3,5) by (simp add: coalescing_target_def)
  then have "schedule new created now spec input (Some k) run_at kind s =
      (let t' = t\<lparr>sk_input_payload := dict_update (sk_input_payload t) input\<rparr> in (s\<lparr>tasks := dict_set tid t' (tasks s)\<rparr>, t'))"
    by (simp add: schedule_def idx)
  moreover have "\<forall>tid' t'. dict_get (tasks s) tid' = Some t' \<and> sk_status t' = ''scheduled'' \<and> sk_coalescing_key t' = Some k
      \<longrightarrow> tid' = tid"
    using inv idx assms(5) unfolding sched_inv_def by fastforce
  ultimately show ?thesis by (simp add: Let_def id dict_update_get)
qed


text \<open>Witness of C21: two requests under one key become one task with both inputs.\<close>

definition sample_sched :: run_scheduler where
  "sample_sched = sched_step (SSchedule ''t1'' 0 0 ''wf'' [(''a'', PInt 1)] (Some ''k'') None ''workflow'') empty_scheduler"

lemma reachable_sample_sched: "reachable_sched sample_sched"
  unfolding sample_sched_def by (intro sched_next sched_init) (simp add: empty_scheduler_def)

lemma sample_sched_task:
  "\<exists>t. dict_get (tasks sample_sched) ''t1'' = Some t \<and> sk_status t = ''scheduled'' \<and> sk_coalescing_key t = Some ''k''
     \<and> sk_run_at t = 0 \<and> sk_task_id t = ''t1''"
  by (simp add: sample_sched_def schedule_def coalescing_target_def empty_scheduler_def Let_def)

theorem coalescing_single_waiting_witness:
  "\<exists>t'. snd (schedule ''t2'' 5 5 ''wf'' [(''b'', PInt 2)] (Some ''k'') None ''workflow'' sample_sched) = t'
      \<and> sk_task_id t' = ''t1'' \<and> dict_get (sk_input_payload t') ''b'' = Some (PInt 2)"
proof -
  obtain t where t: "dict_get (tasks sample_sched) ''t1'' = Some t" "sk_status t = ''scheduled''" "sk_coalescing_key t = Some ''k''"
    using sample_sched_task by blast
  have k: "''k'' \<noteq> []" by simp
  from coalescing_single_waiting [OF reachable_sample_sched t k, of "''t2''" 5 5 "''wf''" "[(''b'', PInt 2)]" None "''workflow''"]
  show ?thesis by auto
qed

text \<open>A polled task is delivered once and fenced. A poll returns only due tasks, at most \<open>limit\<close>
  of them (but one even when \<open>limit\<close> is zero or negative), marked as processing with a claim
  token; and along every interleaving of schedules, polls and completions the task is never
  returned by a later poll nor merged into, keeps its token, and a completion under another
  token is refused.\<close>

theorem poll_delivers_once:
  assumes "reachable_sched s" "t \<in> set (snd (poll_due_tasks tok now limit s))"
    and "admissible sched_guard sched_step ops (fst (poll_due_tasks tok now limit s))"
    and "s' = fold sched_step ops (fst (poll_due_tasks tok now limit s))"
  shows "int (length (snd (poll_due_tasks tok now limit s))) \<le> max 1 limit
    \<and> sk_run_at t \<le> now \<and> sk_claim_token t = Some (tok (sk_task_id t))
    \<and> (\<forall>tok' now' limit'. sk_task_id t \<notin> sk_task_id ` set (snd (poll_due_tasks tok' now' limit' s')))
    \<and> (\<exists>t'. dict_get (tasks s') (sk_task_id t) = Some t' \<and> sk_input_payload t' = sk_input_payload t)
    \<and> (\<forall>token ok. token \<noteq> tok (sk_task_id t) \<longrightarrow> complete_task (sk_task_id t) (Some token) ok s' = (s', False))"
proof -
  let ?s1 = "fst (poll_due_tasks tok now limit s)"
  have inv: "sched_inv s \<and> tasks_ok s" using reachable_sched_inv [OF assms(1)] .
  then have inv1: "sched_inv ?s1 \<and> tasks_ok ?s1"
    using sched_inv_step [of s "SPoll tok now limit"] tasks_ok_step [of s "SPoll tok now limit"] by simp
  obtain k t0 where t0: "task_due now t0" "t = task_claimed tok t0" "(k, t) \<in> set (tasks ?s1)"
    using assms(2) by (auto simp: poll_due_tasks_def split_beta dest!: poll_loop_returned)
  then have "dict_get (tasks ?s1) k = Some t" using inv1 by (simp add: tasks_ok_def)
  moreover from this inv1 have "k = sk_task_id t" unfolding sched_inv_def by blast
  ultimately have g: "dict_get (tasks ?s1) (sk_task_id t) = Some t" by simp
  have "sched_le ?s1 s'" unfolding assms(4) by (rule sched.run_le [OF inv1 assms(3)])
  with g obtain t' where t': "dict_get (tasks s') (sk_task_id t) = Some t'" "task_le t t'"
    unfolding sched_le_def by blast
  have inv': "sched_inv s' \<and> tasks_ok s'" unfolding assms(4) by (rule sched.run_inv [OF inv1 assms(3)])
  have st: "sk_status t' \<noteq> ''scheduled''" "sk_claim_token t' = Some (tok (sk_task_id t))"
    using t'(2) t0(2) by (simp_all add: task_le_def)
  have no: "sk_task_id t \<notin> sk_task_id ` set (snd (poll_due_tasks tok' now' limit' s'))" for tok' now' limit'
  proof
    assume "sk_task_id t \<in> sk_task_id ` set (snd (poll_due_tasks tok' now' limit' s'))"
    then obtain k' u where u: "(k', u) \<in> set (tasks s')" "task_due now' u" "sk_task_id u = sk_task_id t"
      by (auto simp: poll_due_tasks_def split_beta dest!: poll_loop_returned)
    then have "dict_get (tasks s') k' = Some u" using inv' by (simp add: tasks_ok_def)
    with u inv' t'(1) have "u = t'" unfolding sched_inv_def by fastforce
    with st(1) u(2) show False by (simp add: task_due_def)
  qed
  have len: "int (length (snd (poll_due_tasks tok now limit s))) \<le> max 1 limit"
    using poll_loop_length [of limit tok now 0 "tasks s"] by (simp add: poll_due_tasks_def split_beta)
  have pl: "sk_input_payload t' = sk_input_payload t" using t'(2) t0(2) by (simp add: task_le_def)
  have cm: "complete_task (sk_task_id t) (Some token) ok s' = (s', False)" if "token \<noteq> tok (sk_task_id t)" for token ok
    using that t'(1) st(2) by (simp add: complete_task_def)
  show ?thesis
    using len no pl cm t'(1) t0(1,2) by (auto simp: task_due_def task_claimed_def)
qed

text \<open>An instance: one due task, polled with limit zero, is returned all the same, and only once.\<close>

theorem poll_delivers_once_witness:
  "map sk_task_id (snd (poll_due_tasks (\<lambda>_. ''c'') 9 0 sample_sched)) = [''t1''] \<and>
   ''t1'' \<notin> sk_task_id ` set (snd (poll_due_tasks (\<lambda>_. ''d'') 10 5
      (fst (poll_due_tasks (\<lambda>_. ''c'') 9 0 sample_sched))))"
proof -
  have m: "map sk_task_id (snd (poll_due_tasks (\<lambda>_. ''c'') 9 0 sample_sched)) = [''t1'']"
    by (simp add: sample_sched_def schedule_def coalescing_target_def empty_scheduler_def Let_def poll_due_tasks_def
        task_due_def task_claimed_def)
  then obtain t where t: "t \<in> set (snd (poll_due_tasks (\<lambda>_. ''c'') 9 0 sample_sched))" "sk_task_id t = ''t1''"
    by (auto simp: map_eq_Cons_conv)
  from poll_delivers_once [OF reachable_sample_sched t(1), of "[]", OF _ refl] t(2) m show ?thesis by simp
qed

end
