(* ===== verification/Coordination.thy ===== *)
theory Coordination
  imports RunModels
begin

text \<open>
  Coordination of paused and fanned-out work: the wait resolver
  (\<open>packages/agent/coordination/wait_resolver.py\<close>), the exactly-once expansion registry
  (\<open>coordination/expansion.py\<close>) and the join policies of the durable supervisor
  (\<open>coordination/durable_supervisor.py\<close>).
\<close>

subsection \<open>Waits\<close>

record wait_entry =
  we_run_id :: string
  we_descriptor :: wait_descriptor
  we_created_at :: datetime
  we_status :: string

record wait_resolution_result =
  wr_wait_id :: string
  wr_run_id :: string
  wr_checkpoint_ref :: string
  wr_is_resolved :: bool
  wr_kind :: wait_kind
  wr_reason :: string
  wr_unblocked_by :: "string option"
  wr_unblocking_payload :: payload
  wr_resolved_at :: "datetime option"

record wait_resolver =
  wait_entries :: "(string, wait_entry) pydict"
  run_to_waits :: "(string, string list) pydict"

definition empty_resolver :: wait_resolver where
  "empty_resolver = \<lparr>wait_entries = [], run_to_waits = []\<rparr>"

definition register_wait :: "datetime \<Rightarrow> string \<Rightarrow> wait_descriptor \<Rightarrow> wait_resolver \<Rightarrow> wait_resolver \<times> wait_entry" where
  "register_wait now rid d s =
     (let e = \<lparr>we_run_id = rid, we_descriptor = d, we_created_at = now, we_status = ''active''\<rparr>
      in (s\<lparr>wait_entries := dict_set (wd_id d) e (wait_entries s),
            run_to_waits := dict_set rid (dict_get_or (run_to_waits s) rid [] @ [wd_id d]) (run_to_waits s)\<rparr>, e))"

text \<open>The identifiers a call looks at: those of the run, or all when no run is named.\<close>

definition target_ids :: "string option \<Rightarrow> wait_resolver \<Rightarrow> string list" where
  "target_ids rid s =
     (case rid of
        None \<Rightarrow> dict_keys (wait_entries s)
      | Some r \<Rightarrow> if r = [] then dict_keys (wait_entries s) else dict_get_or (run_to_waits s) r [])"

definition wait_expired :: "datetime \<Rightarrow> wait_descriptor \<Rightarrow> bool" where
  "wait_expired now d \<longleftrightarrow> (case wd_expires_at d of None \<Rightarrow> False | Some e \<Rightarrow> e < now)"

fun active_loop ::
  "datetime \<Rightarrow> string list \<Rightarrow> (string, wait_entry) pydict \<Rightarrow> (string, wait_entry) pydict \<times> wait_entry list" where
  "active_loop now [] es = (es, [])"
| "active_loop now (wid # wids) es =
     (case dict_get es wid of
        None \<Rightarrow> active_loop now wids es
      | Some e \<Rightarrow>
          if we_status e = ''active'' \<and> wait_expired now (we_descriptor e) then
            active_loop now wids (dict_set wid (e\<lparr>we_status := ''expired''\<rparr>) es)
          else if we_status e = ''active'' then
            let (es', rs) = active_loop now wids es in (es', e # rs)
          else active_loop now wids es)"

definition get_active_waits :: "datetime \<Rightarrow> string option \<Rightarrow> wait_resolver \<Rightarrow> wait_resolver \<times> wait_entry list" where
  "get_active_waits now rid s =
     (let (es, rs) = active_loop now (target_ids rid s) (wait_entries s) in (s\<lparr>wait_entries := es\<rparr>, rs))"

record wait_event =
  we_event_name :: string
  we_related_ref :: "string option"
  we_responder :: "string option"
  we_payload :: "payload option"

text \<open>\<open>desc.resume_trigger == event_name or event_name.startswith(desc.resume_trigger.rstrip("*"))\<close>.\<close>

definition trigger_match :: "wait_descriptor \<Rightarrow> string \<Rightarrow> bool" where
  "trigger_match d name \<longleftrightarrow>
     wd_resume_trigger d = name \<or> py_startswith name (py_rstrip (CHR ''*'') (wd_resume_trigger d))"

definition related_mismatch :: "wait_descriptor \<Rightarrow> string option \<Rightarrow> bool" where
  "related_mismatch d ref \<longleftrightarrow> truthy_opt (wd_related_ref d) \<and> truthy_opt ref \<and> wd_related_ref d \<noteq> ref"

definition responder_refused :: "wait_descriptor \<Rightarrow> string option \<Rightarrow> bool" where
  "responder_refused d resp \<longleftrightarrow>
     truthy_opt (wd_owner_responder d) \<and> truthy_opt resp \<and> wd_owner_responder d \<noteq> resp
     \<and> \<not> py_endswith (the resp) '':admin'' \<and> resp \<noteq> Some ''admin''"

definition resolution :: "datetime \<Rightarrow> wait_event \<Rightarrow> wait_entry \<Rightarrow> wait_resolution_result" where
  "resolution now ev e =
     (let d = we_descriptor e in
      \<lparr>wr_wait_id = wd_id d, wr_run_id = we_run_id e, wr_checkpoint_ref = wd_checkpoint_ref d,
       wr_is_resolved = True, wr_kind = wd_kind d, wr_reason = wd_reason d, wr_unblocked_by = we_responder ev,
       wr_unblocking_payload = or_else (we_payload ev) [], wr_resolved_at = Some now\<rparr>)"

text \<open>One iteration of the loop of \<open>resolve_wait_by_event\<close> on an active entry: what becomes of it.\<close>

datatype wait_outcome = WExpire | WSkip | WResolve

definition wait_verdict :: "datetime \<Rightarrow> wait_event \<Rightarrow> wait_descriptor \<Rightarrow> wait_outcome" where
  "wait_verdict now ev d =
     (if wait_expired now d then WExpire
      else if \<not> trigger_match d (we_event_name ev) then WSkip
      else if related_mismatch d (we_related_ref ev) then WSkip
      else if responder_refused d (we_responder ev) then WSkip
      else WResolve)"

fun resolve_loop ::
  "datetime \<Rightarrow> wait_event \<Rightarrow> string list \<Rightarrow> (string, wait_entry) pydict
     \<Rightarrow> (string, wait_entry) pydict \<times> wait_resolution_result list" where
  "resolve_loop now ev [] es = (es, [])"
| "resolve_loop now ev (wid # wids) es =
     (case dict_get es wid of
        None \<Rightarrow> resolve_loop now ev wids es
      | Some e \<Rightarrow>
          if we_status e \<noteq> ''active'' then resolve_loop now ev wids es
          else
            (case wait_verdict now ev (we_descriptor e) of
               WExpire \<Rightarrow> resolve_loop now ev wids (dict_set wid (e\<lparr>we_status := ''expired''\<rparr>) es)
             | WSkip \<Rightarrow> resolve_loop now ev wids es
             | WResolve \<Rightarrow>
                 let (es', rs) = resolve_loop now ev wids (dict_set wid (e\<lparr>we_status := ''resolved''\<rparr>) es)
                 in (es', resolution now ev e # rs)))"

definition resolve_wait_by_event ::
  "datetime \<Rightarrow> wait_event \<Rightarrow> string option \<Rightarrow> wait_resolver \<Rightarrow> wait_resolver \<times> wait_resolution_result list" where
  "resolve_wait_by_event now ev rid s =
     (let (es, rs) = resolve_loop now ev (target_ids rid s) (wait_entries s) in (s\<lparr>wait_entries := es\<rparr>, rs))"

datatype wait_op =
    WRegister datetime string wait_descriptor
  | WActive datetime "string option"
  | WResolveEv datetime wait_event "string option"

fun wait_step :: "wait_op \<Rightarrow> wait_resolver \<Rightarrow> wait_resolver" where
  "wait_step (WRegister now rid d) s = fst (register_wait now rid d s)"
| "wait_step (WActive now rid) s = fst (get_active_waits now rid s)"
| "wait_step (WResolveEv now ev rid) s = fst (resolve_wait_by_event now ev rid s)"

text \<open>Entries are filed under the identifier of their descriptor.\<close>

definition wait_inv :: "wait_resolver \<Rightarrow> bool" where
  "wait_inv s \<longleftrightarrow> (\<forall>wid e. dict_get (wait_entries s) wid = Some e \<longrightarrow> wd_id (we_descriptor e) = wid)"

text \<open>The environment registers a descriptor under a new identifier (drawn from \<open>uuid4\<close>).\<close>

fun wait_guard :: "wait_op \<Rightarrow> wait_resolver \<Rightarrow> bool" where
  "wait_guard (WRegister now rid d) s \<longleftrightarrow> dict_get (wait_entries s) (wd_id d) = None"
| "wait_guard _ s \<longleftrightarrow> True"

text \<open>An entry keeps its run and descriptor, and never leaves a final status.\<close>

definition entry_le :: "wait_entry \<Rightarrow> wait_entry \<Rightarrow> bool" where
  "entry_le e e' \<longleftrightarrow> we_run_id e' = we_run_id e \<and> we_descriptor e' = we_descriptor e
     \<and> (we_status e \<noteq> ''active'' \<longrightarrow> e' = e)"

definition wait_le :: "wait_resolver \<Rightarrow> wait_resolver \<Rightarrow> bool" where
  "wait_le s s' \<longleftrightarrow> (\<forall>wid e. dict_get (wait_entries s) wid = Some e \<longrightarrow>
     (\<exists>e'. dict_get (wait_entries s') wid = Some e' \<and> entry_le e e'))"

lemma entry_le_refl [simp]: "entry_le e e" by (simp add: entry_le_def)

lemma entry_le_trans: "entry_le e f \<Longrightarrow> entry_le f g \<Longrightarrow> entry_le e g" by (auto simp: entry_le_def)

text \<open>The loops, entry by entry.\<close>

definition expire :: "datetime \<Rightarrow> wait_entry \<Rightarrow> wait_entry" where
  "expire now e = (if we_status e = ''active'' \<and> wait_expired now (we_descriptor e) then e\<lparr>we_status := ''expired''\<rparr> else e)"

definition settle :: "datetime \<Rightarrow> wait_event \<Rightarrow> wait_entry \<Rightarrow> wait_entry" where
  "settle now ev e =
     (if we_status e = ''active'' then
        (case wait_verdict now ev (we_descriptor e) of
           WExpire \<Rightarrow> e\<lparr>we_status := ''expired''\<rparr> | WSkip \<Rightarrow> e | WResolve \<Rightarrow> e\<lparr>we_status := ''resolved''\<rparr>)
      else e)"

definition resolves :: "datetime \<Rightarrow> wait_event \<Rightarrow> wait_entry \<Rightarrow> bool" where
  "resolves now ev e \<longleftrightarrow> we_status e = ''active'' \<and> wait_verdict now ev (we_descriptor e) = WResolve"

lemma settled_descriptor [simp]:
  "we_descriptor (settle now ev e) = we_descriptor e" "we_descriptor (expire now e) = we_descriptor e"
  by (simp_all add: settle_def expire_def split: wait_outcome.split)

lemma expire_idem [simp]: "expire now (expire now e) = expire now e"
  by (simp add: expire_def)

lemma settle_idem [simp]: "settle now ev (settle now ev e) = settle now ev e"
  by (simp add: settle_def split: wait_outcome.split)

lemma not_resolves_settle [simp]: "\<not> resolves now ev (settle now ev e)"
  by (simp add: settle_def resolves_def split: wait_outcome.split)

lemma dict_set_same: "map_of d k = Some v \<Longrightarrow> AList.update k v d = d"
  by (induction d) auto

lemma active_loop_Cons:
  "dict_get es wid = Some e \<Longrightarrow> active_loop now (wid # wids) es =
     (let (es', rs) = active_loop now wids (dict_set wid (expire now e) es)
      in (es', if we_status (expire now e) = ''active'' then e # rs else rs))"
  by (simp add: expire_def dict_set_same split: prod.split)

lemma resolve_loop_Cons:
  "dict_get es wid = Some e \<Longrightarrow> resolve_loop now ev (wid # wids) es =
     (let (es', rs) = resolve_loop now ev wids (dict_set wid (settle now ev e) es)
      in (es', if resolves now ev e then resolution now ev e # rs else rs))"
  by (simp add: settle_def resolves_def dict_set_same split: prod.split wait_outcome.split)

lemma active_loop_get:
  "dict_get (fst (active_loop now wids es)) wid =
     map_option (if wid \<in> set wids then expire now else id) (dict_get es wid)"
proof (induction wids arbitrary: es)
  case (Cons w wids)
  show ?case
  proof (cases "dict_get es w")
    case None
    then show ?thesis using Cons.IH [of es] by (cases "wid = w") auto
  next
    case (Some e)
    then show ?thesis using Cons.IH [of "dict_set w (expire now e) es"]
      by (simp add: active_loop_Cons split_beta Let_def del: active_loop.simps)
  qed
qed (simp add: option.map_id)

lemma resolve_loop_get:
  "dict_get (fst (resolve_loop now ev wids es)) wid =
     map_option (if wid \<in> set wids then settle now ev else id) (dict_get es wid)"
proof (induction wids arbitrary: es)
  case (Cons w wids)
  show ?case
  proof (cases "dict_get es w")
    case None
    then show ?thesis using Cons.IH [of es] by (cases "wid = w") auto
  next
    case (Some e)
    then show ?thesis using Cons.IH [of "dict_set w (settle now ev e) es"]
      by (simp add: resolve_loop_Cons split_beta Let_def del: resolve_loop.simps)
  qed
qed (simp add: option.map_id)

text \<open>The results: one for each entry that the event resolves, in the order of the identifiers.\<close>

lemma resolve_loop_results:
  "set (snd (resolve_loop now ev wids es)) =
     {resolution now ev e |wid e. wid \<in> set wids \<and> dict_get es wid = Some e \<and> resolves now ev e}"
proof (induction wids arbitrary: es)
  case (Cons w wids)
  show ?case
  proof (cases "dict_get es w")
    case None
    then show ?thesis using Cons.IH [of es] by fastforce
  next
    case (Some e)
    then show ?thesis using Cons.IH [of "dict_set w (settle now ev e) es"]
      by (auto simp: resolve_loop_Cons split_beta Let_def simp del: resolve_loop.simps split: if_splits)
        (metis not_resolves_settle option.inject)+
  qed
qed simp


lemma resolve_loop_distinct:
  assumes "\<forall>wid e. dict_get es wid = Some e \<longrightarrow> wd_id (we_descriptor e) = wid"
  shows "distinct (map wr_wait_id (snd (resolve_loop now ev wids es)))"
  using assms
proof (induction wids arbitrary: es)
  case (Cons w wids)
  show ?case
  proof (cases "dict_get es w")
    case None
    then show ?thesis using Cons by simp
  next
    case (Some e)
    let ?es = "dict_set w (settle now ev e) es"
    have keyed: "\<forall>wid e. dict_get ?es wid = Some e \<longrightarrow> wd_id (we_descriptor e) = wid"
      using Cons.prems Some by (auto simp: settle_def split: wait_outcome.split)
    have "wd_id (we_descriptor e) \<notin> wr_wait_id ` set (snd (resolve_loop now ev wids ?es))"
    proof
      assume "wd_id (we_descriptor e) \<in> wr_wait_id ` set (snd (resolve_loop now ev wids ?es))"
      then obtain wid f where "dict_get ?es wid = Some f" "resolves now ev f" "wd_id (we_descriptor f) = wd_id (we_descriptor e)"
        by (auto simp: resolve_loop_results resolution_def Let_def)
      moreover from this keyed Cons.prems Some have "wid = w" by metis
      ultimately show False by auto
    qed
    then show ?thesis using Some Cons.IH [OF keyed]
      by (simp add: resolve_loop_Cons split_beta Let_def resolution_def del: resolve_loop.simps)
  qed
qed simp

lemma settle_le: "entry_le e (settle now ev e)"
  by (simp add: entry_le_def settle_def split: wait_outcome.split)

lemma expire_le: "entry_le e (expire now e)"
  by (simp add: entry_le_def expire_def)

lemma wait_le_step: "wait_guard op s \<Longrightarrow> wait_le s (wait_step op s)"
  by (cases op) (auto simp: wait_le_def register_wait_def get_active_waits_def resolve_wait_by_event_def Let_def
      split_beta active_loop_get resolve_loop_get settle_le expire_le)

lemma wait_inv_step: "wait_inv s \<Longrightarrow> wait_inv (wait_step op s)"
  by (cases op) (auto simp: wait_inv_def register_wait_def get_active_waits_def resolve_wait_by_event_def Let_def
      split_beta active_loop_get resolve_loop_get split: if_splits)

lemma wait_le_trans: "wait_le s t \<Longrightarrow> wait_le t u \<Longrightarrow> wait_le s u"
  unfolding wait_le_def by (blast intro: entry_le_trans)

interpretation waits: monotone_machine wait_step wait_guard wait_inv wait_le
  by unfold_locales (auto simp: wait_inv_step wait_le_step intro: wait_le_trans simp del: wait_step.simps,
    auto simp: wait_le_def)

inductive reachable_waits :: "wait_resolver \<Rightarrow> bool" where
  waits_init: "reachable_waits empty_resolver"
| waits_next: "reachable_waits s \<Longrightarrow> wait_guard op s \<Longrightarrow> reachable_waits (wait_step op s)"

lemma reachable_waits_inv: "reachable_waits s \<Longrightarrow> wait_inv s"
  by (induction rule: reachable_waits.induct)
    (simp_all add: wait_inv_step del: wait_step.simps, simp add: empty_resolver_def wait_inv_def)

text \<open>An event resolves exactly the waits it should, once each. The results of a call name, without
  repetition, precisely the active and unexpired entries among those it looks at whose trigger,
  reference and responder match, each with the checkpoint to resume from; and no event of any
  later interleaving resolves one of them again.\<close>

theorem wait_resolved_once:
  assumes "reachable_waits s"
    and "admissible wait_guard wait_step ops (fst (resolve_wait_by_event now ev rid s))"
    and "t = fold wait_step ops (fst (resolve_wait_by_event now ev rid s))"
  shows "distinct (map wr_wait_id (snd (resolve_wait_by_event now ev rid s)))
    \<and> set (snd (resolve_wait_by_event now ev rid s)) =
        {resolution now ev e |wid e. wid \<in> set (target_ids rid s) \<and> dict_get (wait_entries s) wid = Some e \<and> resolves now ev e}
    \<and> wr_wait_id ` set (snd (resolve_wait_by_event now ev rid s))
        \<inter> wr_wait_id ` set (snd (resolve_wait_by_event now' ev' rid' t)) = {}"
proof -
  let ?rs = "snd (resolve_wait_by_event now ev rid s)" and ?s1 = "fst (resolve_wait_by_event now ev rid s)"
  have inv: "wait_inv s" using reachable_waits_inv [OF assms(1)] .
  then have inv1: "wait_inv ?s1" using wait_inv_step [of s "WResolveEv now ev rid"] by simp
  have le: "wait_le ?s1 t" unfolding assms(3) by (rule waits.run_le [OF inv1 assms(2)])
  have invt: "wait_inv t" unfolding assms(3) by (rule waits.run_inv [OF inv1 assms(2)])
  have set: "set (snd (resolve_wait_by_event n v r u)) =
      {resolution n v e |wid e. wid \<in> set (target_ids r u) \<and> dict_get (wait_entries u) wid = Some e \<and> resolves n v e}" for n v r u
    by (simp add: resolve_wait_by_event_def split_beta Let_def resolve_loop_results)
  have dist: "distinct (map wr_wait_id ?rs)"
    using inv resolve_loop_distinct by (simp add: resolve_wait_by_event_def split_beta Let_def wait_inv_def)
  have disj: "wr_wait_id r \<noteq> wr_wait_id r'" if "r \<in> set ?rs" "r' \<in> set (snd (resolve_wait_by_event now' ev' rid' t))" for r r'
  proof
    assume eq: "wr_wait_id r = wr_wait_id r'"
    from that(1) obtain wid e where e: "wid \<in> set (target_ids rid s)" "dict_get (wait_entries s) wid = Some e"
        "resolves now ev e" "r = resolution now ev e" by (auto simp: set)
    from that(2) obtain wid' e' where e': "dict_get (wait_entries t) wid' = Some e'" "resolves now' ev' e'" "r' = resolution now' ev' e'"
      by (auto simp: set)
    have "dict_get (wait_entries ?s1) wid = Some (settle now ev e)"
      using e by (simp add: resolve_wait_by_event_def split_beta Let_def resolve_loop_get)
    with le obtain f where f: "dict_get (wait_entries t) wid = Some f" "entry_le (settle now ev e) f"
      unfolding wait_le_def by blast
    have "wid' = wid" using eq e e' inv invt f(1) unfolding wait_inv_def by (fastforce simp: resolution_def Let_def)
    then have "f = e'" using f(1) e'(1) by simp
    moreover have "we_status (settle now ev e) = ''resolved''" using e(3) by (simp add: settle_def resolves_def)
    ultimately show False using f(2) e'(2) by (simp add: entry_le_def resolves_def)
  qed
  then have "wr_wait_id ` set ?rs \<inter> wr_wait_id ` set (snd (resolve_wait_by_event now' ev' rid' t)) = {}" by blast
  with dist set show ?thesis by blast
qed

text \<open>Witness of C26: an approval event wakes the one wait registered for it.\<close>

definition sample_wait :: "string \<Rightarrow> wait_descriptor" where
  "sample_wait wid = \<lparr>wd_id = wid, wd_kind = WK_APPROVAL, wd_reason = ''gate'', wd_owner_responder = Some ''alice'',
     wd_resume_trigger = ''approval.decided'', wd_checkpoint_ref = ''c1'', wd_related_ref = Some ''a1'',
     wd_created_at = 0, wd_expires_at = None\<rparr>"

definition sample_wait_event :: "string option \<Rightarrow> wait_event" where
  "sample_wait_event resp = \<lparr>we_event_name = ''approval.decided'', we_related_ref = Some ''a1'', we_responder = resp,
     we_payload = None\<rparr>"

theorem wait_resolved_once_witness:
  "map wr_wait_id (snd (resolve_wait_by_event 1 (sample_wait_event (Some ''alice'')) None
      (wait_step (WRegister 0 ''r1'' (sample_wait ''w1'')) empty_resolver))) = [''w1'']
   \<and> ''w1'' \<notin> wr_wait_id ` set (snd (resolve_wait_by_event 2 (sample_wait_event (Some ''alice'')) None
      (fst (resolve_wait_by_event 1 (sample_wait_event (Some ''alice'')) None
        (wait_step (WRegister 0 ''r1'' (sample_wait ''w1'')) empty_resolver)))))"
proof -
  let ?s = "wait_step (WRegister 0 ''r1'' (sample_wait ''w1'')) empty_resolver" and ?ev = "sample_wait_event (Some ''alice'')"
  have r: "reachable_waits ?s" by (intro waits_next waits_init) (simp add: empty_resolver_def)
  have m: "map wr_wait_id (snd (resolve_wait_by_event 1 ?ev None ?s)) = [''w1'']"
    by (simp add: sample_wait_def sample_wait_event_def register_wait_def empty_resolver_def resolve_wait_by_event_def
        target_ids_def wait_verdict_def wait_expired_def trigger_match_def related_mismatch_def responder_refused_def
        resolution_def Let_def)
  then have "''w1'' \<in> wr_wait_id ` set (snd (resolve_wait_by_event 1 ?ev None ?s))"
    by (metis list.set_intros(1) list.set_map)
  with wait_resolved_once [OF r, of "[]", OF _ refl, of 1 ?ev None 2 ?ev None] m show ?thesis
    by (auto simp del: wait_step.simps)
qed

subsection \<open>Exactly-once expansion\<close>

record expansion_fingerprint =
  fp_source_run_id :: string
  fp_source_node_or_decision_id :: string
  fp_spec_revision :: string
  fp_expansion_semantic_key :: string

record expansion_record =
  xr_fingerprint_hash :: string
  xr_fingerprint :: expansion_fingerprint
  xr_child_run_id :: string
  xr_status :: string
  xr_created_at :: datetime
  xr_output_result :: "payload option"

definition canonical_str :: "expansion_fingerprint \<Rightarrow> string" where
  "canonical_str fp = fp_source_run_id fp @ '':'' @ fp_source_node_or_decision_id fp @ '':''
     @ fp_spec_revision fp @ '':'' @ fp_expansion_semantic_key fp"

text \<open>\<open>sha\<close> stands for \<open>hashlib.sha256(...).hexdigest()\<close>.\<close>

definition compute_hash :: "(string \<Rightarrow> string) \<Rightarrow> expansion_fingerprint \<Rightarrow> string" where
  "compute_hash sha fp = sha (canonical_str fp)"

type_synonym expansion_table = "(string, expansion_record) pydict"

text \<open>\<open>child\<close> is what the child identifier factory yields when it is called; it is called only when
  there is no record yet.\<close>

definition get_or_create_expansion ::
  "(string \<Rightarrow> string) \<Rightarrow> datetime \<Rightarrow> expansion_fingerprint \<Rightarrow> string \<Rightarrow> expansion_table
     \<Rightarrow> expansion_table \<times> (expansion_record \<times> bool)" where
  "get_or_create_expansion sha now fp child xs =
     (let h = compute_hash sha fp in
      case dict_get xs h of
        Some r \<Rightarrow> (xs, (r, False))
      | None \<Rightarrow>
          let r = \<lparr>xr_fingerprint_hash = h, xr_fingerprint = fp, xr_child_run_id = child, xr_status = ''active'',
                   xr_created_at = now, xr_output_result = None\<rparr>
          in (dict_set h r xs, (r, True)))"

definition complete_expansion ::
  "(string \<Rightarrow> string) \<Rightarrow> expansion_fingerprint \<Rightarrow> payload \<Rightarrow> expansion_table \<Rightarrow> expansion_table \<times> expansion_record option" where
  "complete_expansion sha fp out xs =
     (let h = compute_hash sha fp in
      case dict_get xs h of
        None \<Rightarrow> (xs, None)
      | Some r \<Rightarrow>
          let r' = r\<lparr>xr_status := ''completed'', xr_output_result := Some out\<rparr> in (dict_set h r' xs, Some r'))"

datatype expansion_op =
    XCreate datetime expansion_fingerprint string
  | XComplete expansion_fingerprint payload

fun expansion_step :: "(string \<Rightarrow> string) \<Rightarrow> expansion_op \<Rightarrow> expansion_table \<Rightarrow> expansion_table" where
  "expansion_step sha (XCreate now fp child) xs = fst (get_or_create_expansion sha now fp child xs)"
| "expansion_step sha (XComplete fp out) xs = fst (complete_expansion sha fp out xs)"

text \<open>The child and the fingerprint of a filed expansion never change.\<close>

definition expansion_le :: "expansion_table \<Rightarrow> expansion_table \<Rightarrow> bool" where
  "expansion_le xs ys \<longleftrightarrow> (\<forall>h r. dict_get xs h = Some r \<longrightarrow>
     (\<exists>r'. dict_get ys h = Some r' \<and> xr_child_run_id r' = xr_child_run_id r \<and> xr_fingerprint r' = xr_fingerprint r))"

lemma expansion_le_step: "expansion_le xs (expansion_step sha op xs)"
  by (cases op) (auto simp: expansion_le_def get_or_create_expansion_def complete_expansion_def Let_def split: option.split)

interpretation expansion: monotone_machine "expansion_step sha" "\<lambda>_ _. True" "\<lambda>_. True" expansion_le for sha
proof unfold_locales
  show "expansion_le s t \<Longrightarrow> expansion_le t u \<Longrightarrow> expansion_le s u" for s t u
    unfolding expansion_le_def by fastforce
qed (auto simp: expansion_le_step simp del: expansion_step.simps, simp add: expansion_le_def)

text \<open>A fan-out decision is expanded once: after the first request for a fingerprint, along every
  interleaving of requests and completions (whatever identifiers the later factories would
  produce, and whatever the hash function), every request for it gets the same child run and is
  told that it is not new.\<close>

theorem expansion_exactly_once:
  "let (xs1, (r1, new1)) = get_or_create_expansion sha now fp child xs;
       ys = fold (expansion_step sha) ops xs1;
       (ys', (r2, new2)) = get_or_create_expansion sha now' fp child' ys
   in ys' = ys \<and> \<not> new2 \<and> xr_child_run_id r2 = xr_child_run_id r1 \<and> (new1 \<longrightarrow> xr_child_run_id r1 = child)"
proof -
  obtain xs1 r1 new1 where 1: "get_or_create_expansion sha now fp child xs = (xs1, (r1, new1))"
    by (cases "get_or_create_expansion sha now fp child xs") auto
  then have r1: "dict_get xs1 (compute_hash sha fp) = Some r1" "new1 \<longrightarrow> xr_child_run_id r1 = child"
    by (auto simp: get_or_create_expansion_def Let_def split: option.splits)
  have "expansion_le xs1 (fold (expansion_step sha) ops xs1)" by (rule expansion.run_le) simp_all
  with r1(1) obtain r2 where "dict_get (fold (expansion_step sha) ops xs1) (compute_hash sha fp) = Some r2"
      "xr_child_run_id r2 = xr_child_run_id r1"
    unfolding expansion_le_def by blast
  with 1 r1(2) show ?thesis
    by (simp add: get_or_create_expansion_def [of _ _ _ "child'"] Let_def)
qed

text \<open>An instance: the second request for the decision gets the child of the first.\<close>

theorem expansion_exactly_once_witness:
  "let fp = \<lparr>fp_source_run_id = ''r'', fp_source_node_or_decision_id = ''n'', fp_spec_revision = ''v'',
              fp_expansion_semantic_key = ''k''\<rparr>;
       xs = fst (get_or_create_expansion id 1 fp ''child1'' []);
       ys = fold (expansion_step id) [XComplete fp [], XCreate 3 fp ''child2''] xs
   in xr_child_run_id (fst (snd (get_or_create_expansion id 4 fp ''child3'' ys))) = ''child1''"
proof -
  let ?fp = "\<lparr>fp_source_run_id = ''r'', fp_source_node_or_decision_id = ''n'', fp_spec_revision = ''v'',
    fp_expansion_semantic_key = ''k''\<rparr>"
  have "snd (snd (get_or_create_expansion id 1 ?fp ''child1'' []))" by (simp add: get_or_create_expansion_def Let_def)
  with expansion_exactly_once [of id 1 ?fp "''child1''" "[]" "[XComplete ?fp [], XCreate 3 ?fp ''child2'']" 4 "''child3''"]
  show ?thesis by (auto simp: Let_def split_beta simp del: expansion_step.simps)
qed

text \<open>The canonical string does not escape its separator, so two different fan-out decisions can
  have one hash, whatever the hash function: the second decision is then silently answered with
  the child run of the first.\<close>

theorem expansion_collision:
  "\<exists>fp fp'. fp \<noteq> fp' \<and> fp_source_run_id fp \<noteq> fp_source_run_id fp' \<and>
     (\<forall>sha now now' child child' xs.
        let (xs1, (r1, new1)) = get_or_create_expansion sha now fp child xs;
            (xs2, (r2, new2)) = get_or_create_expansion sha now' fp' child' xs1
        in \<not> new2 \<and> r2 = r1)"
proof -
  let ?fp = "\<lparr>fp_source_run_id = ''r:1'', fp_source_node_or_decision_id = ''n'', fp_spec_revision = ''v'',
    fp_expansion_semantic_key = ''k''\<rparr>"
  let ?fp' = "\<lparr>fp_source_run_id = ''r'', fp_source_node_or_decision_id = ''1:n'', fp_spec_revision = ''v'',
    fp_expansion_semantic_key = ''k''\<rparr>"
  have "compute_hash sha ?fp = compute_hash sha ?fp'" for sha by (simp add: compute_hash_def canonical_str_def)
  then show ?thesis
    by (intro exI [of _ ?fp] exI [of _ ?fp'])
      (auto simp: get_or_create_expansion_def Let_def split: option.split)
qed


subsection \<open>The durable supervisor\<close>

text \<open>\<open>_WRITE_CAP_RE.search\<close>: one of the suffixes at the end of the string, or before a final newline,
  where \<open>$\<close> also matches.\<close>

definition write_suffixes :: "string list" where
  "write_suffixes = [''.write'', ''.execute'', ''.send'', ''.delete'', ''.deploy'', ''.create'', ''.update'',
     ''.payout'', ''.transfer'']"

definition spec_has_write_capability :: "string list option \<Rightarrow> bool" where
  "spec_has_write_capability refs =
     list_ex (\<lambda>c. list_ex (\<lambda>suf. py_endswith c suf \<or> py_endswith c (suf @ [CHR 0x0A])) write_suffixes)
       (case refs of None \<Rightarrow> [] | Some cs \<Rightarrow> cs)"

record child_task_spec =
  cs_child_id :: string
  cs_parent_run_id :: string
  cs_agent_spec :: pinned_spec_identity
  cs_depends_on :: "string list"
  cs_mode :: string
  cs_budget :: payload

record child_state =
  ch_child_id :: string
  ch_status :: string
  ch_scheduled_task_id :: "string option"
  ch_result :: "payload option"
  ch_idempotency_key :: "string option"

record supervision_handle =
  sh_handle_id :: string
  sh_join :: string
  sh_quorum :: "int option"
  sh_children :: "(string, child_state) pydict"

text \<open>What the supervisor asks of its scheduler (\<open>ChildSchedulerProtocol\<close>), and the rows it reads back.\<close>

record child_request =
  cq_parent_task_id :: string
  cq_child_id :: string
  cq_depends_on :: "string list"
  cq_join_policy :: string
  cq_join_quorum :: "int option"
  cq_blocked :: bool
  cq_spec :: child_task_spec
  cq_idempotency_key :: string

record child_row =
  cr_state :: child_state
  cr_join_policy :: "string option"
  cr_join_quorum :: "int option"

text \<open>The scheduler is a parameter: \<open>sched\<close> files one request, \<open>list_children\<close> reads the rows of a
  handle, \<open>complete_child\<close> records a result under an idempotency key.\<close>

definition child_request_of :: "string \<Rightarrow> string \<Rightarrow> int option \<Rightarrow> child_task_spec \<Rightarrow> child_request" where
  "child_request_of handle_id join quorum c =
     (let done_ids = ([] :: string list) in
      \<lparr>cq_parent_task_id = handle_id, cq_child_id = cs_child_id c, cq_depends_on = cs_depends_on c,
       cq_join_policy = join, cq_join_quorum = quorum,
       cq_blocked = (cs_depends_on c \<noteq> [] \<and> \<not> set (cs_depends_on c) \<subseteq> set done_ids), cq_spec = c,
       cq_idempotency_key = handle_id @ '':'' @ cs_child_id c\<rparr>)"

definition resume_handle :: "('s \<Rightarrow> string \<Rightarrow> child_row list) \<Rightarrow> string \<Rightarrow> 's \<Rightarrow> supervision_handle" where
  "resume_handle list_children handle_id s =
     (let rows = list_children s handle_id in
      \<lparr>sh_handle_id = handle_id,
       sh_join = (case rows of [] \<Rightarrow> ''all'' | r # _ \<Rightarrow> (case cr_join_policy r of None \<Rightarrow> ''all'' | Some j \<Rightarrow> j)),
       sh_quorum = (case rows of [] \<Rightarrow> None | r # _ \<Rightarrow> cr_join_quorum r),
       sh_children = fold (\<lambda>r d. dict_set (ch_child_id (cr_state r)) (cr_state r) d) rows []\<rparr>)"

definition spawn ::
  "(child_request \<Rightarrow> 's \<Rightarrow> 's) \<Rightarrow> ('s \<Rightarrow> string \<Rightarrow> child_row list) \<Rightarrow> string \<Rightarrow> child_task_spec list \<Rightarrow> string
     \<Rightarrow> int option \<Rightarrow> 's \<Rightarrow> 's \<times> supervision_handle" where
  "spawn sched list_children handle_id children join quorum s =
     (let s' = fold (\<lambda>c s. sched (child_request_of handle_id join quorum c) s) children s
      in (s', resume_handle list_children handle_id s'))"

definition record_child_result ::
  "(string \<Rightarrow> string \<Rightarrow> payload \<Rightarrow> string \<Rightarrow> 's \<Rightarrow> 's) \<Rightarrow> string \<Rightarrow> string \<Rightarrow> payload \<Rightarrow> string \<Rightarrow> 's \<Rightarrow> 's" where
  "record_child_result complete_child handle_id child_id result key s = complete_child handle_id child_id result key s"

definition is_join_satisfied :: "supervision_handle \<Rightarrow> bool" where
  "is_join_satisfied h =
     (let n_done = int (length (filter (\<lambda>c. ch_status c = ''completed'') (dict_values (sh_children h))));
          total = int (length (sh_children h))
      in if sh_join h = ''any'' then 1 \<le> n_done
         else if sh_join h = ''quorum'' then int_or (sh_quorum h) total \<le> n_done
         else n_done = total \<and> 0 < total)"

text \<open>Completing one more child, the others as they are.\<close>

definition complete_in_handle :: "string \<Rightarrow> supervision_handle \<Rightarrow> supervision_handle" where
  "complete_in_handle cid h = h\<lparr>sh_children :=
     map (\<lambda>(k, c). (k, if k = cid then c\<lparr>ch_status := ''completed''\<rparr> else c)) (sh_children h)\<rparr>"

lemma filter_completed_le:
  "length (filter (\<lambda>c. ch_status c = ''completed'') (map snd d)) \<le>
   length (filter (\<lambda>c. ch_status c = ''completed'') (map snd (map (\<lambda>(k, c). (k, if k = cid then c\<lparr>ch_status := ''completed''\<rparr> else c)) d)))"
  by (induction d) (auto split: if_splits)

lemma length_filter_all: "length (filter P xs) = length xs \<longleftrightarrow> (\<forall>x \<in> set xs. P x)"
  by (induction xs) (auto dest: le_trans [OF eq_refl length_filter_le], metis Suc_n_not_le_n length_filter_le)

lemma completed_le_total: "length (filter P (map snd d)) \<le> length d"
  by (metis length_filter_le length_map)

text \<open>The join policies mean what they say: "all" waits for every child of a non-empty family, "any"
  for one, "quorum" for the given number of children (all of them when it is missing or zero,
  so an empty family is joined at once); and once a join is satisfied no completion undoes it.\<close>

theorem join_policy_correct:
  "(sh_join h = ''any'' \<longrightarrow> is_join_satisfied h \<longleftrightarrow> (\<exists>c \<in> set (dict_values (sh_children h)). ch_status c = ''completed''))
   \<and> (sh_join h = ''all'' \<longrightarrow> is_join_satisfied h \<longleftrightarrow>
        sh_children h \<noteq> [] \<and> (\<forall>c \<in> set (dict_values (sh_children h)). ch_status c = ''completed''))
   \<and> (sh_join h = ''quorum'' \<longrightarrow> is_join_satisfied h \<longleftrightarrow>
        (if sh_quorum h = None \<or> sh_quorum h = Some 0
         then (\<forall>c \<in> set (dict_values (sh_children h)). ch_status c = ''completed'')
         else the (sh_quorum h) \<le> int (length (filter (\<lambda>c. ch_status c = ''completed'') (dict_values (sh_children h))))))
   \<and> (is_join_satisfied h \<longrightarrow> is_join_satisfied (complete_in_handle cid h))"
proof -
  let ?done = "\<lambda>h. length (filter (\<lambda>c. ch_status c = ''completed'') (dict_values (sh_children h)))"
  have all: "?done h = length (sh_children h) \<longleftrightarrow> (\<forall>c \<in> set (dict_values (sh_children h)). ch_status c = ''completed'')"
    using length_filter_all [of "\<lambda>c. ch_status c = ''completed''" "dict_values (sh_children h)"] by simp
  have any: "0 < ?done h \<longleftrightarrow> (\<exists>c \<in> set (dict_values (sh_children h)). ch_status c = ''completed'')"
    by (auto simp: filter_empty_conv)
  have le: "?done h \<le> length (sh_children h)" by (rule completed_le_total)
  have mono: "?done h \<le> ?done (complete_in_handle cid h)"
    using filter_completed_le [of "sh_children h" cid] by (simp add: complete_in_handle_def)
  have len: "length (sh_children (complete_in_handle cid h)) = length (sh_children h)"
    "sh_join (complete_in_handle cid h) = sh_join h" "sh_quorum (complete_in_handle cid h) = sh_quorum h"
    by (simp_all add: complete_in_handle_def)
  have le': "?done (complete_in_handle cid h) \<le> length (sh_children h)"
    using completed_le_total [of "\<lambda>c. ch_status c = ''completed''" "sh_children (complete_in_handle cid h)"] len(1) by simp
  have sat: "is_join_satisfied g \<longleftrightarrow>
      (if sh_join g = ''any'' then 0 < ?done g
       else if sh_join g = ''quorum'' then int_or (sh_quorum g) (int (length (sh_children g))) \<le> int (?done g)
       else ?done g = length (sh_children g) \<and> sh_children g \<noteq> [])" for g
    by (auto simp: is_join_satisfied_def Let_def Suc_le_eq)
  have q: "int_or (sh_quorum h) (int (length (sh_children h))) \<le> int (?done h) \<longleftrightarrow>
      (if sh_quorum h = None \<or> sh_quorum h = Some 0 then ?done h = length (sh_children h) else the (sh_quorum h) \<le> int (?done h))"
    by (cases "sh_quorum h") (auto simp: int_or_def intro: le_antisym length_filter_le)
  have j1: "sh_join h = ''any'' \<Longrightarrow> is_join_satisfied h \<longleftrightarrow> (\<exists>c \<in> set (dict_values (sh_children h)). ch_status c = ''completed'')"
    by (auto simp: sat filter_empty_conv)
  have j2: "sh_join h = ''all'' \<Longrightarrow> is_join_satisfied h \<longleftrightarrow>
      sh_children h \<noteq> [] \<and> (\<forall>c \<in> set (dict_values (sh_children h)). ch_status c = ''completed'')"
    using all by (auto simp: sat)
  have j3: "sh_join h = ''quorum'' \<Longrightarrow> is_join_satisfied h \<longleftrightarrow>
      (if sh_quorum h = None \<or> sh_quorum h = Some 0
       then (\<forall>c \<in> set (dict_values (sh_children h)). ch_status c = ''completed'')
       else the (sh_quorum h) \<le> int (?done h))"
    using q all by (simp add: sat)
  have "is_join_satisfied h \<longrightarrow> is_join_satisfied (complete_in_handle cid h)"
    unfolding sat using mono len le le' by auto
  with j1 j2 j3 show ?thesis by blast
qed

text \<open>Witness of C28: two children, one completed: "any" is satisfied, and stays so; "all" is not yet.\<close>

definition sample_handle :: "string \<Rightarrow> supervision_handle" where
  "sample_handle j = \<lparr>sh_handle_id = ''h'', sh_join = j, sh_quorum = None,
     sh_children = map (\<lambda>(k, st). (k, \<lparr>ch_child_id = k, ch_status = st, ch_scheduled_task_id = None, ch_result = None,
        ch_idempotency_key = None\<rparr>)) [(''a'', ''completed''), (''b'', ''queued'')]\<rparr>"

theorem join_policy_correct_witness:
  "is_join_satisfied (complete_in_handle ''b'' (sample_handle ''any'')) \<and> \<not> is_join_satisfied (sample_handle ''all'')"
  using join_policy_correct [of "sample_handle ''any''" "''b''"] join_policy_correct [of "sample_handle ''all''" "''b''"]
  by (simp add: sample_handle_def)

end
