(* ===== verification/Capabilities.thy ===== *)
theory Capabilities
  imports RunModels
begin

text \<open>
  The checks that a capability call passes before anything is written: the registry and its input
  validation (\<open>packages/agent/capabilities/registry.py\<close>), technical readiness
  (\<open>capabilities/readiness.py\<close>), connector grants (\<open>capabilities/grants.py\<close>) and scoped enablements
  (\<open>capabilities/enablements.py\<close>), over the contracts of \<open>contracts/capability.py\<close> and
  \<open>contracts/invocation.py\<close>.
\<close>

subsection \<open>Rendering of values in messages\<close>

text \<open>How Python prints a date, a tuple of strings and an arbitrary value; messages are the only place
  where it matters, so it is a parameter.\<close>

record py_text =
  pt_dt :: "datetime \<Rightarrow> string"
  pt_tuple :: "string list \<Rightarrow> string"
  pt_repr :: "pyval \<Rightarrow> string"

text \<open>A rendering for the examples.\<close>

definition sample_text :: py_text where
  "sample_text = \<lparr>pt_dt = (\<lambda>_. ''time''), pt_tuple = concat, pt_repr = (\<lambda>_. ''value'')\<rparr>"

text \<open>\<open>str(v)\<close>: a string is itself.\<close>

definition py_str :: "py_text \<Rightarrow> pyval \<Rightarrow> string" where
  "py_str tx v = (case v of PStr s \<Rightarrow> s | _ \<Rightarrow> pt_repr tx v)"

definition py_type_name :: "pyval \<Rightarrow> string" where
  "py_type_name v = (case v of PNone \<Rightarrow> ''NoneType'' | PBool _ \<Rightarrow> ''bool'' | PInt _ \<Rightarrow> ''int'' | PFloat _ \<Rightarrow> ''float''
     | PStr _ \<Rightarrow> ''str'' | PList _ \<Rightarrow> ''list'' | PDict _ \<Rightarrow> ''dict'')"

subsection \<open>Capability specifications and the registry\<close>

text \<open>The parts of a JSON schema that the validation reads: the required fields, and for each property
  its \<open>type\<close> entry (absent, one name or a list of names).\<close>

datatype prop_type = NoType | OneType string | ManyTypes "string list"

record input_schema =
  sc_required :: "string list"
  sc_properties :: "(string, prop_type) pydict"

record capability_spec =
  cp_id :: string
  cp_description :: string
  cp_input_schema :: input_schema
  cp_output_schema :: payload
  cp_risk :: capability_risk
  cp_approval_policy :: approval_policy
  cp_idempotency_semantics :: string
  cp_audit_policy :: payload
  cp_eligibility :: payload
  cp_connector_requirements :: "(string, string) pydict"
  cp_metadata :: payload

text \<open>A handler gets the input, the context, the authorization ticket of the outbound headers and the
  connector grant; it raises or returns a value (\<open>None\<close> being Python's \<open>None\<close>).\<close>

record connector_grant =
  cg_grant_id :: string
  cg_tenant_id :: string
  cg_principal :: string
  cg_connector_id :: string
  cg_allowed_actions :: "string list"
  cg_resource_scope :: "string list"
  cg_valid_until :: "datetime option"
  cg_is_revoked :: bool
  cg_metadata :: payload

type_synonym capability_handler =
  "payload \<Rightarrow> payload \<Rightarrow> string option \<Rightarrow> connector_grant option \<Rightarrow> string + pyval option"

record capability_registration =
  rg_spec :: capability_spec
  rg_handler :: capability_handler

type_synonym capability_registry = "(string, capability_registration) pydict"

definition register :: "capability_spec \<Rightarrow> capability_handler \<Rightarrow> capability_registry \<Rightarrow> capability_registry" where
  "register spec h rs = dict_set (cp_id spec) \<lparr>rg_spec = spec, rg_handler = h\<rparr> rs"

definition get_capability :: "capability_registry \<Rightarrow> string \<Rightarrow> capability_registration option" where
  "get_capability rs cap = dict_get rs cap"

definition get_handler :: "capability_registry \<Rightarrow> string \<Rightarrow> capability_handler option" where
  "get_handler rs cap = map_option rg_handler (dict_get rs cap)"

definition list_specs :: "capability_registry \<Rightarrow> capability_spec list" where
  "list_specs rs = map rg_spec (dict_values rs)"

definition prop_types :: "prop_type \<Rightarrow> string list" where
  "prop_types t = (case t of NoType \<Rightarrow> [] | OneType s \<Rightarrow> (if s = [] then [] else [s]) | ManyTypes ss \<Rightarrow> ss)"

definition type_ok :: "string list \<Rightarrow> pyval \<Rightarrow> bool" where
  "type_ok types v \<longleftrightarrow>
     (''string'' \<in> set types \<and> (case v of PStr _ \<Rightarrow> True | _ \<Rightarrow> False))
     \<or> ((''number'' \<in> set types \<or> ''integer'' \<in> set types) \<and> (case v of PInt _ \<Rightarrow> True | PFloat _ \<Rightarrow> True | _ \<Rightarrow> False))
     \<or> (''array'' \<in> set types \<and> (case v of PList _ \<Rightarrow> True | _ \<Rightarrow> False))
     \<or> (''object'' \<in> set types \<and> (case v of PDict _ \<Rightarrow> True | _ \<Rightarrow> False))"

definition show_prop_type :: "py_text \<Rightarrow> prop_type \<Rightarrow> string" where
  "show_prop_type tx t = (case t of NoType \<Rightarrow> ''None'' | OneType s \<Rightarrow> s | ManyTypes ss \<Rightarrow> pt_repr tx (PList (map PStr ss)))"

definition validate_input :: "py_text \<Rightarrow> capability_spec \<Rightarrow> payload \<Rightarrow> string list" where
  "validate_input tx spec p =
     map (\<lambda>f. ''Missing required field: '' @ sq f)
       (filter (\<lambda>f. case dict_get p f of None \<Rightarrow> True | Some v \<Rightarrow> v = PNone) (sc_required (cp_input_schema spec)))
     @ concat (map (\<lambda>(k, v).
         case dict_get (sc_properties (cp_input_schema spec)) k of
           None \<Rightarrow> []
         | Some t \<Rightarrow>
             if prop_types t \<noteq> [] \<and> \<not> type_ok (prop_types t) v
             then [''Field '' @ sq k @ '' expected type '' @ show_prop_type tx t @ '', got '' @ py_type_name v]
             else []) p)"

subsection \<open>Readiness\<close>

datatype readiness_reason =
    READY | MISSING_CREDENTIAL | CONNECTOR_OFFLINE | TENANT_DISABLED | BACKEND_UNAVAILABLE
  | SCHEMA_MISMATCH | DEPENDENCY_MISSING

record capability_readiness =
  rd_capability_id :: string
  rd_ready :: bool
  rd_reason_code :: readiness_reason
  rd_connector_ref :: "string option"
  rd_details :: payload

definition company_connectors :: "string list" where
  "company_connectors = [''company_service'', ''company_service_client'', ''commercial'', ''operations'', ''finance'']"

text \<open>\<open>health\<close> is the health probe of the company client, when a client with one is configured: it
  answers or raises.\<close>

definition check_readiness ::
  "capability_registry \<Rightarrow> (string, readiness_reason) pydict \<Rightarrow> (string + bool) option \<Rightarrow> string \<Rightarrow> capability_readiness" where
  "check_readiness rs overrides health cap =
     (let mk = (\<lambda>ok reason conn details. \<lparr>rd_capability_id = cap, rd_ready = ok, rd_reason_code = reason,
                  rd_connector_ref = conn, rd_details = details\<rparr>)
      in case get_capability rs cap of
        None \<Rightarrow> mk False DEPENDENCY_MISSING None [(''error'', PStr ''Capability not found in registry'')]
      | Some reg \<Rightarrow>
          let conn = dict_get (cp_connector_requirements (rg_spec reg)) ''connector_id'' in
          (case dict_get overrides cap of
             Some reason \<Rightarrow> mk (reason = READY) reason conn [(''source'', PStr ''override_table'')]
           | None \<Rightarrow>
          (case (if truthy_opt conn then dict_get overrides (the conn) else None) of
             Some reason \<Rightarrow> mk (reason = READY) reason conn [(''source'', PStr ''connector_override_table'')]
           | None \<Rightarrow>
             (case (health, conn) of
                (Some h, Some c) \<Rightarrow>
                  if c \<in> set company_connectors then
                    (case h of
                       Inr True \<Rightarrow> mk True READY conn []
                     | Inr False \<Rightarrow> mk False CONNECTOR_OFFLINE conn
                         [(''error'', PStr ''Company service health check reported offline'')]
                     | Inl exc \<Rightarrow> mk False CONNECTOR_OFFLINE conn [(''error'', PStr exc)])
                  else mk True READY conn []
              | _ \<Rightarrow> mk True READY conn []))))"

subsection \<open>Connector grants\<close>

record grant_verification_result =
  gv_is_allowed :: bool
  gv_reason :: string
  gv_grant_id :: "string option"

definition action_matched :: "connector_grant \<Rightarrow> string \<Rightarrow> bool" where
  "action_matched g action \<longleftrightarrow>
     list_ex (\<lambda>act. py_endswith act ''*'' \<and> py_startswith action (py_rstrip (CHR ''*'') act)) (cg_allowed_actions g)"

definition verify_connector_grant ::
  "py_text \<Rightarrow> datetime \<Rightarrow> connector_grant option \<Rightarrow> string \<Rightarrow> string \<Rightarrow> pyval \<Rightarrow> string option \<Rightarrow> grant_verification_result" where
  "verify_connector_grant tx now grant action tenant prin resource =
     (case grant of
        None \<Rightarrow> \<lparr>gv_is_allowed = False, gv_reason = ''No grant found for connector'', gv_grant_id = None\<rparr>
      | Some g \<Rightarrow>
          let deny = (\<lambda>reason. \<lparr>gv_is_allowed = False, gv_reason = reason, gv_grant_id = Some (cg_grant_id g)\<rparr>) in
          if cg_is_revoked g then deny (''Connector grant '' @ sq (cg_grant_id g) @ '' has been revoked'')
          else if cg_tenant_id g \<notin> {tenant, ''*''} then
            deny (''Tenant mismatch: required '' @ sq tenant @ '', grant is '' @ sq (cg_tenant_id g))
          else if PStr (cg_principal g) \<notin> {prin, PStr ''*''} then
            deny (''Principal mismatch: required '' @ sq (py_str tx prin) @ '', grant is '' @ sq (cg_principal g))
          else if (case cg_valid_until g of None \<Rightarrow> False | Some u \<Rightarrow> u < now) then
            deny (''Connector grant '' @ sq (cg_grant_id g) @ '' expired at '' @ pt_dt tx (the (cg_valid_until g)))
          else if ''*'' \<notin> set (cg_allowed_actions g) \<and> action \<notin> set (cg_allowed_actions g) \<and> \<not> action_matched g action then
            deny (''Action '' @ sq action @ '' is not in allowed actions: '' @ pt_tuple tx (cg_allowed_actions g))
          else if truthy_opt resource \<and> cg_resource_scope g \<noteq> [] \<and> ''*'' \<notin> set (cg_resource_scope g)
                  \<and> the resource \<notin> set (cg_resource_scope g) then
            deny (''Resource '' @ sq (the resource) @ '' is outside granted scope: '' @ pt_tuple tx (cg_resource_scope g))
          else \<lparr>gv_is_allowed = True, gv_reason = ''Grant is active and valid'', gv_grant_id = Some (cg_grant_id g)\<rparr>)"

subsection \<open>Enablements\<close>

record capability_enablement =
  en_id :: string
  en_workspace_id :: string
  en_capability_id :: string
  en_skill_id :: string
  en_skill_hash :: string
  en_action_class :: string
  en_target_fingerprint :: string
  en_permitted_limits :: payload
  en_status :: string
  en_source_approval_id :: "string option"
  en_evaluation_ref :: "string option"
  en_rollback_ref :: "string option"
  en_expires_at :: "datetime option"
  en_created_at :: datetime

type_synonym enablement_store = "(string, capability_enablement) pydict"

definition is_active :: "datetime \<Rightarrow> capability_enablement \<Rightarrow> bool" where
  "is_active now e \<longleftrightarrow> en_status e = ''ENABLED'' \<and> (case en_expires_at e of None \<Rightarrow> True | Some x \<Rightarrow> now < x)"

definition enablement_match :: "string \<Rightarrow> string \<Rightarrow> string \<Rightarrow> string \<Rightarrow> string \<Rightarrow> capability_enablement \<Rightarrow> bool" where
  "enablement_match ws cap hash ac target e \<longleftrightarrow>
     en_workspace_id e = ws \<and> en_capability_id e = cap \<and> en_skill_hash e = hash \<and> en_action_class e = ac
     \<and> en_target_fingerprint e \<in> {''*'', target}"

definition get_enablement ::
  "enablement_store \<Rightarrow> string \<Rightarrow> string \<Rightarrow> string \<Rightarrow> string \<Rightarrow> string \<Rightarrow> capability_enablement option" where
  "get_enablement es ws cap hash ac target = List.find (enablement_match ws cap hash ac target) (dict_values es)"

definition save_enablement :: "capability_enablement \<Rightarrow> enablement_store \<Rightarrow> enablement_store" where
  "save_enablement e es = dict_set (en_id e) e es"

definition revoke_enablement :: "string \<Rightarrow> enablement_store \<Rightarrow> enablement_store" where
  "revoke_enablement eid es =
     (case dict_get es eid of None \<Rightarrow> es | Some e \<Rightarrow> dict_set eid (e\<lparr>en_status := ''REVOKED''\<rparr>) es)"

definition assert_enabled_for_invocation ::
  "py_text \<Rightarrow> datetime \<Rightarrow> enablement_store \<Rightarrow> string \<Rightarrow> string \<Rightarrow> string option \<Rightarrow> string \<Rightarrow> string \<Rightarrow> bool \<times> string option" where
  "assert_enabled_for_invocation tx now es ws cap hash ac target =
     (if ac \<in> {''R'', ''A''} then (True, None)
      else if \<not> truthy_opt hash then
        (False, Some (''Capability '' @ sq cap @ '' requires exact skill definition_hash for action class '' @ sq ac))
      else if ws = [] then
        (False, Some (''Capability '' @ sq cap @ '' requires workspace_id for action class '' @ sq ac))
      else (case get_enablement es ws cap (the hash) ac target of
              None \<Rightarrow> (False, Some (''No enablement record found for capability '' @ sq cap @ '' in workspace '' @ sq ws
                         @ '' (action_class='' @ ac @ '', skill_hash='' @ py_take 12 (the hash) @ ''...)''))
            | Some e \<Rightarrow>
                if \<not> is_active now e then
                  (False, Some (''Enablement record '' @ sq (en_id e) @ '' for capability '' @ sq cap
                     @ '' is not active (status='' @ en_status e @ '', expires_at=''
                     @ (case en_expires_at e of None \<Rightarrow> ''None'' | Some x \<Rightarrow> pt_dt tx x) @ '')''))
                else (True, None)))"


subsection \<open>Properties\<close>

text \<open>A schema accepts a payload when every required field has a value and every listed property that
  occurs has one of its types.\<close>

definition schema_accepts :: "input_schema \<Rightarrow> payload \<Rightarrow> bool" where
  "schema_accepts sc p \<longleftrightarrow>
     (\<forall>f \<in> set (sc_required sc). \<exists>v. dict_get p f = Some v \<and> v \<noteq> PNone) \<and>
     (\<forall>(k, v) \<in> set p. \<forall>t. dict_get (sc_properties sc) k = Some t \<and> prop_types t \<noteq> [] \<longrightarrow> type_ok (prop_types t) v)"

lemma field_errors_empty:
  "(case dict_get props k of
      None \<Rightarrow> []
    | Some t \<Rightarrow> if prop_types t \<noteq> [] \<and> \<not> type_ok (prop_types t) v then [m t] else []) = [] \<longleftrightarrow>
   (\<forall>t. dict_get props k = Some t \<and> prop_types t \<noteq> [] \<longrightarrow> type_ok (prop_types t) v)"
  by (auto split: option.split)

lemma required_present:
  "\<not> (case dict_get p f of None \<Rightarrow> True | Some v \<Rightarrow> v = PNone) \<longleftrightarrow> (\<exists>v. dict_get p f = Some v \<and> v \<noteq> PNone)"
  by (auto split: option.split)

lemma validate_input_empty: "validate_input tx spec p = [] \<longleftrightarrow> schema_accepts (cp_input_schema spec) p"
  unfolding validate_input_def schema_accepts_def
  by (simp only: append_is_Nil_conv map_is_Nil_conv filter_empty_conv required_present concat_eq_Nil_conv set_map
      image_iff ball_simps split_beta field_errors_empty) auto

text \<open>Input validation reports no error exactly when the required fields are present and typed fields
  have one of the types string, number, integer, array or object; but the types "boolean" and
  "null" are unknown to it, so a field declared boolean is rejected whatever its value, true and
  false included.\<close>

theorem validate_input_exact:
  "(validate_input tx spec p = [] \<longleftrightarrow> schema_accepts (cp_input_schema spec) p)
   \<and> (dict_get (sc_properties (cp_input_schema spec)) k = Some (OneType ''boolean'') \<and> (k, v) \<in> set p
        \<longrightarrow> validate_input tx spec p \<noteq> [])"
proof -
  have "\<not> schema_accepts (cp_input_schema spec) p"
    if "dict_get (sc_properties (cp_input_schema spec)) k = Some (OneType ''boolean'')" "(k, v) \<in> set p"
    using that unfolding schema_accepts_def
    by (auto simp: prop_types_def type_ok_def intro!: bexI [of _ "(k, v)"] exI [of _ "OneType ''boolean''"])
  then show ?thesis using validate_input_empty by blast
qed

text \<open>Witness of C32: a flag declared as boolean is rejected whatever its value.\<close>

definition flag_spec :: capability_spec where
  "flag_spec = \<lparr>cp_id = ''c'', cp_description = [], cp_input_schema = \<lparr>sc_required = [], sc_properties = [(''flag'', OneType ''boolean'')]\<rparr>,
     cp_output_schema = [], cp_risk = LOW, cp_approval_policy = NEVER, cp_idempotency_semantics = [],
     cp_audit_policy = [], cp_eligibility = [], cp_connector_requirements = [], cp_metadata = []\<rparr>"

theorem validate_input_exact_witness:
  "validate_input sample_text flag_spec [(''flag'', PBool True)] \<noteq> []"
  using validate_input_exact [of sample_text flag_spec "[(''flag'', PBool True)]" "''flag''" "PBool True"]
  by (auto simp: flag_spec_def)


text \<open>A pattern of a grant matches an action: literally, or by the prefix before its trailing stars.\<close>

definition pattern_matches :: "string \<Rightarrow> string \<Rightarrow> bool" where
  "pattern_matches pat action \<longleftrightarrow> pat = action \<or> (\<exists>p n. pat = p @ replicate (Suc n) (CHR ''*'') \<and> prefix p action)"

lemma takeWhile_replicate: "takeWhile (\<lambda>x. x = c) xs = replicate (length (takeWhile (\<lambda>x. x = c) xs)) c"
  by (induction xs) auto

lemma py_rstrip_split: "\<exists>n. s = py_rstrip c s @ replicate n c"
proof -
  have "rev s = takeWhile (\<lambda>x. x = c) (rev s) @ dropWhile (\<lambda>x. x = c) (rev s)" by simp
  then have "s = rev (dropWhile (\<lambda>x. x = c) (rev s)) @ rev (takeWhile (\<lambda>x. x = c) (rev s))"
    by (metis rev_append rev_rev_ident)
  also have "rev (takeWhile (\<lambda>x. x = c) (rev s)) = replicate (length (takeWhile (\<lambda>x. x = c) (rev s))) c"
    by (subst takeWhile_replicate) (rule rev_replicate)
  finally show ?thesis unfolding py_rstrip_def by (rule exI)
qed

lemma dropWhile_replicate_append: "dropWhile (\<lambda>x. x = c) (replicate n c @ xs) = dropWhile (\<lambda>x. x = c) xs"
  by (induction n) simp_all

lemma py_rstrip_append_replicate: "prefix (py_rstrip c (p @ replicate n c)) p"
proof -
  have "py_rstrip c (p @ replicate n c) = py_rstrip c p"
    by (simp only: py_rstrip_def rev_append rev_replicate dropWhile_replicate_append)
  moreover obtain m where "p = py_rstrip c p @ replicate m c" using py_rstrip_split by blast
  ultimately show ?thesis by (metis prefixI)
qed

lemma star_pattern:
  "py_endswith act ''*'' \<and> py_startswith action (py_rstrip (CHR ''*'') act) \<longleftrightarrow>
   (\<exists>p n. act = p @ replicate (Suc n) (CHR ''*'') \<and> prefix p action)"
proof
  assume a: "py_endswith act ''*'' \<and> py_startswith action (py_rstrip (CHR ''*'') act)"
  obtain n where n: "act = py_rstrip (CHR ''*'') act @ replicate n (CHR ''*'')" using py_rstrip_split by blast
  have "n \<noteq> 0"
  proof
    assume "n = 0"
    with n have "py_rstrip (CHR ''*'') act = act" by simp
    moreover from a have "hd (rev act) = CHR ''*''" "act \<noteq> []"
      by (auto simp: py_endswith_def prefix_def)
    then obtain xs where xs: "rev act = CHR ''*'' # xs" by (cases "rev act") auto
    ultimately have "dropWhile (\<lambda>x. x = CHR ''*'') xs = CHR ''*'' # xs"
      by (auto simp: py_rstrip_def rev_swap)
    then show False
      using length_dropWhile_le [of "\<lambda>x. x = CHR ''*''" xs] by simp
  qed
  with n a show "\<exists>p n. act = p @ replicate (Suc n) (CHR ''*'') \<and> prefix p action"
    by (metis not0_implies_Suc py_startswith_def)
next
  assume "\<exists>p n. act = p @ replicate (Suc n) (CHR ''*'') \<and> prefix p action"
  then obtain p n where p: "act = p @ replicate (Suc n) (CHR ''*'')" "prefix p action" by blast
  from p(1) have "rev act = replicate (Suc n) (CHR ''*'') @ rev p" by (simp only: rev_append rev_replicate)
  then have "py_endswith act ''*''" by (simp add: py_endswith_def)
  moreover have "prefix (py_rstrip (CHR ''*'') act) action"
    using py_rstrip_append_replicate p prefix_order.trans by blast
  ultimately show "py_endswith act ''*'' \<and> py_startswith action (py_rstrip (CHR ''*'') act)"
    by (simp add: py_startswith_def)
qed

lemma action_allowed_iff:
  "''*'' \<in> set (cg_allowed_actions g) \<or> action \<in> set (cg_allowed_actions g) \<or> action_matched g action \<longleftrightarrow>
   (\<exists>pat \<in> set (cg_allowed_actions g). pattern_matches pat action)"
proof -
  have "pattern_matches ''*'' action"
    unfolding pattern_matches_def by (intro disjI2 exI [of _ "[]"] exI [of _ 0]) simp
  then show ?thesis
    unfolding action_matched_def star_pattern list_ex_iff pattern_matches_def by blast
qed

text \<open>A connector grant lets an action through exactly when it is the caller's: not revoked, issued to
  this tenant and this principal (or to everyone), not past its validity, one of its patterns
  matches the action, and a named resource lies in its scope. Every other case, a missing grant
  included, is a denial that names the grant.\<close>

theorem grant_verified_exact:
  "(gv_is_allowed (verify_connector_grant tx now grant action tenant prin resource) \<longleftrightarrow>
     (\<exists>g. grant = Some g \<and> \<not> cg_is_revoked g \<and> cg_tenant_id g \<in> {tenant, ''*''} \<and> PStr (cg_principal g) \<in> {prin, PStr ''*''}
        \<and> (\<forall>u. cg_valid_until g = Some u \<longrightarrow> now \<le> u)
        \<and> (\<exists>pat \<in> set (cg_allowed_actions g). pattern_matches pat action)
        \<and> (\<forall>r. resource = Some r \<and> r \<noteq> [] \<and> cg_resource_scope g \<noteq> [] \<longrightarrow> r \<in> set (cg_resource_scope g) \<or> ''*'' \<in> set (cg_resource_scope g))))
   \<and> gv_grant_id (verify_connector_grant tx now grant action tenant prin resource) = map_option cg_grant_id grant"
proof (cases grant)
  case (Some g)
  have v: "(case cg_valid_until g of None \<Rightarrow> False | Some u \<Rightarrow> u < now) \<longleftrightarrow> \<not> (\<forall>u. cg_valid_until g = Some u \<longrightarrow> now \<le> u)"
    by (auto split: option.split)
  have r: "truthy_opt resource \<and> cg_resource_scope g \<noteq> [] \<and> ''*'' \<notin> set (cg_resource_scope g) \<and> the resource \<notin> set (cg_resource_scope g)
      \<longleftrightarrow> \<not> (\<forall>r. resource = Some r \<and> r \<noteq> [] \<and> cg_resource_scope g \<noteq> [] \<longrightarrow> r \<in> set (cg_resource_scope g) \<or> ''*'' \<in> set (cg_resource_scope g))"
    by (cases resource) auto
  have a: "''*'' \<notin> set (cg_allowed_actions g) \<and> action \<notin> set (cg_allowed_actions g) \<and> \<not> action_matched g action
      \<longleftrightarrow> \<not> (\<exists>pat \<in> set (cg_allowed_actions g). pattern_matches pat action)"
    using action_allowed_iff [of g action] by blast
  have "gv_is_allowed (verify_connector_grant tx now (Some g) action tenant prin resource) \<longleftrightarrow>
      \<not> cg_is_revoked g \<and> cg_tenant_id g \<in> {tenant, ''*''} \<and> PStr (cg_principal g) \<in> {prin, PStr ''*''}
      \<and> \<not> (case cg_valid_until g of None \<Rightarrow> False | Some u \<Rightarrow> u < now)
      \<and> \<not> (''*'' \<notin> set (cg_allowed_actions g) \<and> action \<notin> set (cg_allowed_actions g) \<and> \<not> action_matched g action)
      \<and> \<not> (truthy_opt resource \<and> cg_resource_scope g \<noteq> [] \<and> ''*'' \<notin> set (cg_resource_scope g)
             \<and> the resource \<notin> set (cg_resource_scope g))"
    unfolding verify_connector_grant_def option.case Let_def by (simp only: grant_verification_result.simps split: if_split) argo
  moreover have "gv_grant_id (verify_connector_grant tx now (Some g) action tenant prin resource) = Some (cg_grant_id g)"
    by (simp add: verify_connector_grant_def Let_def)
  ultimately show ?thesis unfolding Some v r a by (simp, blast)
qed (simp add: verify_connector_grant_def)

text \<open>Records are filed once, under their own identifier; both writers keep it so.\<close>

definition enablements_ok :: "enablement_store \<Rightarrow> bool" where
  "enablements_ok es \<longleftrightarrow> dict_ok es \<and> (\<forall>(k, e) \<in> set es. en_id e = k)"

lemma set_update_subset: "set (AList.update k v d) \<subseteq> insert (k, v) (set d)"
  by (induction d) auto

lemma enablements_ok_writers:
  assumes "enablements_ok es"
  shows "enablements_ok (save_enablement e es)" "enablements_ok (revoke_enablement eid es)"
proof -
  have set: "enablements_ok (dict_set (en_id x) x es)" for x
    using assms set_update_subset [of "en_id x" x es] by (fastforce simp: enablements_ok_def)
  then show "enablements_ok (save_enablement e es)" by (simp add: save_enablement_def)
  show "enablements_ok (revoke_enablement eid es)"
  proof (cases "dict_get es eid")
    case (Some x)
    then have "en_id x = eid" using assms by (auto simp: enablements_ok_def dest: map_of_SomeD)
    with Some set [of "x\<lparr>en_status := ''REVOKED''\<rparr>"] show ?thesis by (simp add: revoke_enablement_def)
  qed (use assms in \<open>simp add: revoke_enablement_def\<close>)
qed

text \<open>Witness of C26: a live grant with a wildcard covers the action.\<close>

definition sample_grant :: connector_grant where
  "sample_grant = \<lparr>cg_grant_id = ''g1'', cg_tenant_id = ''w1'', cg_principal = ''*'', cg_connector_id = ''mail'',
     cg_allowed_actions = [''mail.*''], cg_resource_scope = [], cg_valid_until = Some 100, cg_is_revoked = False, cg_metadata = []\<rparr>"

theorem grant_verified_exact_witness:
  "gv_is_allowed (verify_connector_grant sample_text 99 (Some sample_grant) ''mail.send'' ''w1'' (PStr ''alice'') None)
   \<and> \<not> gv_is_allowed (verify_connector_grant sample_text 101 (Some sample_grant) ''mail.send'' ''w1'' (PStr ''alice'') None)"
proof -
  have "pattern_matches ''mail.*'' ''mail.send''" unfolding pattern_matches_def by (intro disjI2 exI [of _ "''mail.''"] exI [of _ 0]) simp
  with grant_verified_exact [of sample_text 99 "Some sample_grant" "''mail.send''" "''w1''" "PStr ''alice''" None]
    grant_verified_exact [of sample_text 101 "Some sample_grant" "''mail.send''" "''w1''" "PStr ''alice''" None]
  show ?thesis by (simp add: sample_grant_def)
qed

lemma found_filed:
  assumes "enablements_ok es" "List.find P (dict_values es) = Some e"
  shows "dict_get es (en_id e) = Some e"
proof -
  obtain k where k: "dict_get es k = Some e"
    using assms dict_values_get find_Some_iff_mem unfolding enablements_ok_def by metis
  then have "en_id e = k" using assms(1) by (auto simp: enablements_ok_def dest: map_of_SomeD)
  with k show ?thesis by simp
qed

text \<open>Rewriting the first match in place, in a form that still matches, keeps it the first match.\<close>

lemma find_values_set:
  assumes "List.find P (dict_values es) = Some e" "enablements_ok es" "P y"
  shows "List.find P (dict_values (dict_set (en_id e) y es)) = Some y"
  using assms
proof (induction es)
  case (Cons x es)
  obtain k v where x: "x = (k, v)" by (cases x)
  have ok: "enablements_ok es" "en_id v = k" using Cons.prems(2) x by (auto simp: enablements_ok_def)
  show ?case
  proof (cases "P v")
    case True
    with Cons.prems(1,3) x ok(2) show ?thesis by simp
  next
    case False
    with Cons.prems(1) x have "List.find P (dict_values es) = Some e" by simp
    moreover from this have "en_id e \<noteq> k"
      using found_filed [OF ok(1)] Cons.prems(2) x by (force simp: enablements_ok_def dest: map_of_SomeD)
    ultimately show ?thesis using Cons.IH [OF _ ok(1) Cons.prems(3)] False x by simp
  qed
qed simp

lemma find_append_Some: "List.find P xs = Some x \<Longrightarrow> List.find P (xs @ ys) = Some x"
  by (induction xs) auto

text \<open>A side effect (every action class but the two read-only ones) needs an enablement of exactly
  this workspace, capability and skill definition that is active now; revoking the enablement in
  force withdraws the permission at once. In the in-memory store it also withdraws it for good:
  a new, active enablement saved later under another identifier is never found, because the
  lookup stops at the first matching record, the revoked one.\<close>

theorem enablement_revocation:
  assumes "ac \<notin> {''R'', ''A''}" "get_enablement es ws cap hash ac target = Some e"
    and "enablements_ok es"
  shows "(fst (assert_enabled_for_invocation tx now es ws cap (Some hash) ac target) \<longleftrightarrow>
            hash \<noteq> [] \<and> ws \<noteq> [] \<and> is_active now e)
    \<and> \<not> fst (assert_enabled_for_invocation tx now (revoke_enablement (en_id e) es) ws cap (Some hash) ac target)
    \<and> (en_id e' \<noteq> en_id e \<longrightarrow> dict_get es (en_id e') = None \<longrightarrow>
        \<not> fst (assert_enabled_for_invocation tx now (save_enablement e' (revoke_enablement (en_id e) es)) ws cap (Some hash) ac target))"
proof -
  let ?P = "enablement_match ws cap hash ac target" and ?e = "e\<lparr>en_status := ''REVOKED''\<rparr>"
  have P: "?P ?e" using assms(2) by (auto simp: get_enablement_def enablement_match_def dest!: find_Some_iff_mem)
  have rv: "revoke_enablement (en_id e) es = dict_set (en_id e) ?e es"
    using found_filed [OF assms(3)] assms(2) by (simp add: revoke_enablement_def get_enablement_def)
  have 1: "get_enablement (revoke_enablement (en_id e) es) ws cap hash ac target = Some ?e"
    unfolding rv get_enablement_def using assms(2,3) P by (intro find_values_set) (simp_all add: get_enablement_def)
  have 2: "get_enablement (save_enablement e' (revoke_enablement (en_id e) es)) ws cap hash ac target = Some ?e"
    if "en_id e' \<noteq> en_id e" "dict_get es (en_id e') = None"
    using 1 that unfolding get_enablement_def save_enablement_def rv by (simp add: dict_set_absent find_append_Some)
  have "\<not> is_active now ?e" by (simp add: is_active_def)
  with 1 2 assms(1,2) show ?thesis by (simp add: assert_enabled_for_invocation_def)
qed


text \<open>Witness of C30: a revoked enablement hides the one that replaces it.\<close>

definition sample_enablement :: "string \<Rightarrow> capability_enablement" where
  "sample_enablement eid = \<lparr>en_id = eid, en_workspace_id = ''ws'', en_capability_id = ''mail.send'', en_skill_id = ''s'',
     en_skill_hash = ''h'', en_action_class = ''X'', en_target_fingerprint = ''*'', en_permitted_limits = [],
     en_status = ''ENABLED'', en_source_approval_id = None, en_evaluation_ref = None, en_rollback_ref = None,
     en_expires_at = None, en_created_at = 0\<rparr>"

theorem enablement_revocation_witness:
  "fst (assert_enabled_for_invocation sample_text 5 [(''e1'', sample_enablement ''e1'')] ''ws'' ''mail.send'' (Some ''h'') ''X'' ''*'') \<and>
   \<not> fst (assert_enabled_for_invocation sample_text 5
       (save_enablement (sample_enablement ''e2'') (revoke_enablement ''e1'' [(''e1'', sample_enablement ''e1'')]))
       ''ws'' ''mail.send'' (Some ''h'') ''X'' ''*'')"
  using enablement_revocation [of "''X''" "[(''e1'', sample_enablement ''e1'')]" "''ws''" "''mail.send''" "''h''" "''*''"
      "sample_enablement ''e1''" sample_text 5 "sample_enablement ''e2''"]
  by (simp add: get_enablement_def enablement_match_def sample_enablement_def enablements_ok_def is_active_def)

end
