(* ===== verification/Gateway.thy ===== *)
theory Gateway
  imports RunProps Capabilities
begin

text \<open>
  The capability gateway (\<open>packages/agent/capabilities/gateway.py\<close>) and its helpers
  (\<open>capabilities/gateway_internals.py\<close>): the pipeline through which every side effect of an agent
  passes. Each step of \<open>_execute_internal\<close> is a definition that ends in the next one, so an early
  return of the code is a branch that does not call on. The registry's handlers, the tenant
  policy, the connector-grant resolver, the live authorizer, the payload hash, the clock and the
  generator of identifiers are parameters, collected in \<open>gw_env\<close>.
\<close>

subsection \<open>Requests\<close>

record invocation_context =
  ic_schema_version :: string
  ic_run_id :: string
  ic_tool_call_id :: string
  ic_checkpoint_ref :: string
  ic_workspace_id :: string
  ic_principal :: string
  ic_conversation_id :: "string option"
  ic_correlation_id :: "string option"
  ic_policy_snapshot :: "payload option"
  ic_policy_snapshot_ref :: "string option"
  ic_policy_snapshot_version :: "string option"
  ic_root_spec_identity :: "string option"
  ic_capability_identity :: "string option"
  ic_execution_mode :: execution_mode
  ic_delegation_identity :: "string option"
  ic_metadata :: payload

datatype gw_context = CtxInv invocation_context | CtxDict payload

text \<open>The principal of a request without an invocation context may be any value of the context
  dictionary, hence a \<open>pyval\<close>.\<close>

record gateway_request =
  gq_run_id :: string
  gq_capability_id :: string
  gq_input_payload :: payload
  gq_principal :: pyval
  gq_checkpoint_ref :: string
  gq_tool_call_id :: string
  gq_idempotency_key :: "string option"
  gq_execution_mode :: execution_mode
  gq_workspace_id :: "string option"
  gq_context :: gw_context

definition set_absent :: "string \<Rightarrow> pyval \<Rightarrow> payload \<Rightarrow> payload" where
  "set_absent k v d = (if dict_get d k = None then dict_set k v d else d)"

definition ctx_get :: "payload \<Rightarrow> string \<Rightarrow> pyval" where
  "ctx_get d k = dict_get_or d k PNone"

text \<open>\<open>a or b\<close> on arbitrary values.\<close>

definition py_or :: "pyval \<Rightarrow> pyval \<Rightarrow> pyval" where
  "py_or a b = (if truthy a then a else b)"

text \<open>\<open>GatewayExecutionRequest.__init__\<close>, the branch with an \<open>InvocationContext\<close>.\<close>

definition make_request_inv ::
  "string \<Rightarrow> string \<Rightarrow> payload \<Rightarrow> string \<Rightarrow> string option \<Rightarrow> string option \<Rightarrow> string option \<Rightarrow> string option
     \<Rightarrow> invocation_context \<Rightarrow> gateway_request" where
  "make_request_inv rid cap input prin ckpt tid key ws c =
     \<lparr>gq_run_id = rid, gq_capability_id = cap, gq_input_payload = input,
      gq_principal = PStr (if prin = ''system'' \<and> ic_principal c \<noteq> [] then ic_principal c else prin),
      gq_checkpoint_ref = or_else ckpt (ic_checkpoint_ref c), gq_tool_call_id = or_else tid (ic_tool_call_id c),
      gq_idempotency_key = key, gq_execution_mode = ic_execution_mode c,
      gq_workspace_id = or_opt ws (Some (ic_workspace_id c)), gq_context = CtxInv c\<rparr>"

text \<open>The branch with a dictionary or no context; \<open>hex12\<close> are the twelve hexadecimal digits drawn
  for a missing tool-call identifier.\<close>

definition make_request_dict ::
  "py_text \<Rightarrow> string \<Rightarrow> string \<Rightarrow> string \<Rightarrow> payload \<Rightarrow> string \<Rightarrow> string option \<Rightarrow> string option \<Rightarrow> string option
     \<Rightarrow> execution_mode \<Rightarrow> string option \<Rightarrow> payload option \<Rightarrow> gateway_request" where
  "make_request_dict tx hex12 rid cap input prin ckpt tid key mode ws ctx =
     (let ctx0 = (case ctx of None \<Rightarrow> [] | Some d \<Rightarrow> d);
          raw_ws = py_or (opt_val ws) (ctx_get ctx0 ''workspace_id'');
          ws' = (if raw_ws = PNone then None else Some (py_str tx raw_ws));
          prin' = (if prin \<noteq> ''system'' then PStr prin else py_or (ctx_get ctx0 ''principal'') (PStr ''system''));
          ckpt' = or_else ckpt (''ckpt_'' @ rid @ ''_initial'');
          tid' = or_else tid (''call_'' @ hex12);
          ctx1 = (if truthy_opt ws' then set_absent ''workspace_id'' (opt_val ws') ctx0 else ctx0);
          ctx2 = (if truthy prin' then set_absent ''principal'' prin' ctx1 else ctx1);
          ctx3 = set_absent ''checkpoint_ref'' (PStr ckpt')
                   (set_absent ''tool_call_id'' (PStr tid') (set_absent ''run_id'' (PStr rid) ctx2))
      in \<lparr>gq_run_id = rid, gq_capability_id = cap, gq_input_payload = input, gq_principal = prin',
          gq_checkpoint_ref = ckpt', gq_tool_call_id = tid', gq_idempotency_key = key, gq_execution_mode = mode,
          gq_workspace_id = ws', gq_context = CtxDict ctx3\<rparr>)"

subsection \<open>Results, environment and world\<close>

datatype gw_failure = TenancyFailure string | GrantFailure string | HandlerFailure string

record gateway_result =
  gr_tool_call_id :: string
  gr_status :: string
  gr_output_payload :: "pyval option"
  gr_error_message :: "string option"
  gr_validation_errors :: "string list"
  gr_wait_descriptor :: "wait_descriptor option"
  gr_cached_idempotency :: bool
  gr_failure :: "gw_failure option"

definition gw_result :: "string \<Rightarrow> string \<Rightarrow> gateway_result" where
  "gw_result tid st = \<lparr>gr_tool_call_id = tid, gr_status = st, gr_output_payload = None, gr_error_message = None,
     gr_validation_errors = [], gr_wait_descriptor = None, gr_cached_idempotency = False, gr_failure = None\<rparr>"

text \<open>A resolver of connector grants answers, refuses with a code, or fails.\<close>

datatype grant_failure = GrantDeniedCode string | ResolverError string

record auth_result =
  au_allowed :: bool
  au_error_message :: "string option"
  au_ticket_id :: "string option"

record live_authorizer =
  la_is_ticket_required :: "(capability_spec \<Rightarrow> gw_context \<Rightarrow> string \<Rightarrow> bool) option"
  la_authorize :: "gateway_request \<Rightarrow> capability_spec \<Rightarrow> string + auth_result"

record gw_env =
  ge_text :: py_text
  ge_registry :: capability_registry
  ge_overrides :: "(string, readiness_reason) pydict"
  ge_health :: "(string + bool) option"
  ge_hash :: "pyval \<Rightarrow> string"
  ge_policy :: "(string \<Rightarrow> payload \<Rightarrow> payload \<Rightarrow> string + decision_arg) option"
  ge_resolver :: "(string \<Rightarrow> gateway_request \<Rightarrow> grant_failure + connector_grant option) option"
  ge_authorizer :: "live_authorizer option"
  ge_clock :: "nat \<Rightarrow> datetime"
  ge_uuid :: "nat \<Rightarrow> string"

text \<open>The state the gateway works on. \<open>gw_tick\<close> numbers the readings of the clock and of the identifier
  generator; \<open>gw_calls\<close> is the history of handler calls (run, tool call, capability).\<close>

record gw_world =
  gw_repo :: run_repo
  gw_gov :: governance_store
  gw_enablements :: enablement_store
  gw_tick :: nat
  gw_calls :: "(string \<times> string \<times> string) list"

definition emit :: "gw_env \<Rightarrow> string \<Rightarrow> string \<Rightarrow> payload \<Rightarrow> gw_world \<Rightarrow> gw_world" where
  "emit env rid et pl w =
     w\<lparr>gw_repo := fst (append_event
          \<lparr>ev_event_id = ''evt_'' @ take 16 (ge_uuid env (gw_tick w)), ev_run_id = rid, ev_project_id = None,
           ev_sequence_no = None, ev_event_type = et, ev_payload = pl, ev_correlation_id = None,
           ev_created_at = ge_clock env (gw_tick w)\<rparr> (gw_repo w)),
       gw_tick := gw_tick w + 1\<rparr>"

definition save_tc :: "run_tool_call_record \<Rightarrow> gw_world \<Rightarrow> gw_world" where
  "save_tc tc w = w\<lparr>gw_repo := fst (save_tool_call tc (gw_repo w))\<rparr>"

definition fail_claim :: "gw_env \<Rightarrow> idempotency_claim_record \<Rightarrow> string \<Rightarrow> gw_world \<Rightarrow> gw_world" where
  "fail_claim env cl msg w =
     w\<lparr>gw_repo := claim_fail (ge_clock env (gw_tick w)) (cl_claim_id cl) msg (gw_repo w), gw_tick := gw_tick w + 1\<rparr>"

definition complete_claim :: "gw_env \<Rightarrow> idempotency_claim_record \<Rightarrow> pyval option \<Rightarrow> string \<Rightarrow> gw_world \<Rightarrow> gw_world" where
  "complete_claim env cl out h w =
     w\<lparr>gw_repo := claim_complete (ge_clock env (gw_tick w)) (cl_claim_id cl) out h (gw_repo w), gw_tick := gw_tick w + 1\<rparr>"

text \<open>What the pipeline has established about the call once it holds the claim.\<close>

record gw_invocation =
  gi_req :: gateway_request
  gi_reg :: capability_registration
  gi_workspace :: string
  gi_payload_hash :: string
  gi_target :: execution_target_snapshot
  gi_claim :: idempotency_claim_record
  gi_tc :: run_tool_call_record

abbreviation gi_cap :: "gw_invocation \<Rightarrow> string" where
  "gi_cap iv \<equiv> gq_capability_id (gi_req iv)"

abbreviation gi_tid :: "gw_invocation \<Rightarrow> string" where
  "gi_tid iv \<equiv> gq_tool_call_id (gi_req iv)"

abbreviation gi_rid :: "gw_invocation \<Rightarrow> string" where
  "gi_rid iv \<equiv> gq_run_id (gi_req iv)"

abbreviation gi_spec :: "gw_invocation \<Rightarrow> capability_spec" where
  "gi_spec iv \<equiv> rg_spec (gi_reg iv)"

text \<open>\<open>req.context.metadata if isinstance(req.context, InvocationContext) else req.context\<close>.\<close>

definition ctx_meta :: "gw_context \<Rightarrow> payload" where
  "ctx_meta c = (case c of CtxInv ic \<Rightarrow> ic_metadata ic | CtxDict d \<Rightarrow> d)"

text \<open>The ledger writes of a denial: the tool call (with its error, if one is recorded), the claim, and
  the audit event.\<close>

definition deny_call ::
  "gw_env \<Rightarrow> gw_invocation \<Rightarrow> string option \<Rightarrow> string \<Rightarrow> (string \<times> payload) option \<Rightarrow> gw_world \<Rightarrow> gw_world" where
  "deny_call env iv err claim_msg ev w =
     (let tc = (gi_tc iv)\<lparr>tc_status := ''denied''\<rparr>;
          tc' = (case err of None \<Rightarrow> tc | Some e \<Rightarrow> tc\<lparr>tc_error_message := Some e\<rparr>);
          w1 = fail_claim env (gi_claim iv) claim_msg (save_tc tc' w)
      in case ev of None \<Rightarrow> w1 | Some (et, pl) \<Rightarrow> emit env (gi_rid iv) et pl w1)"

definition denied_result :: "string \<Rightarrow> string \<Rightarrow> gateway_result" where
  "denied_result tid msg = (gw_result tid ''denied'')\<lparr>gr_error_message := Some msg\<rparr>"

subsection \<open>Steps 9 and 10: the handler\<close>

definition out_val :: "pyval option \<Rightarrow> pyval" where
  "out_val x = (case x of None \<Rightarrow> PNone | Some v \<Rightarrow> v)"

definition gw_execute_handler ::
  "gw_env \<Rightarrow> gw_invocation \<Rightarrow> invocation_governance_state \<Rightarrow> connector_grant option \<Rightarrow> gw_context \<Rightarrow> string option
     \<Rightarrow> gw_world \<Rightarrow> gw_world \<times> (string + gateway_result)" where
  "gw_execute_handler env iv gov grant ctx ticket w =
     (let w1 = emit env (gi_rid iv) ''tool.started''
                 [(''tool_call_id'', PStr (gi_tid iv)), (''capability'', PStr (gi_cap iv))] w;
          res = rg_handler (gi_reg iv) (gq_input_payload (gi_req iv)) (ctx_meta ctx) ticket grant;
          w2 = w1\<lparr>gw_calls := gw_calls w1 @ [(gi_rid iv, gi_tid iv, gi_cap iv)]\<rparr>
      in case res of
           Inr out \<Rightarrow>
             let tc = (gi_tc iv)\<lparr>tc_status := ''completed'', tc_output_payload := out, tc_governance_state := Some gov\<rparr>;
                 w3 = complete_claim env (gi_claim iv) out (ge_hash env (out_val out)) (save_tc tc w2);
                 w4 = emit env (gi_rid iv) ''tool.completed''
                        [(''tool_call_id'', PStr (gi_tid iv)), (''output_hash'', PStr (ge_hash env (out_val out))),
                         (''output_present'', PBool (out \<noteq> None))] w3
             in (w4, Inr ((gw_result (gi_tid iv) ''completed'')\<lparr>gr_output_payload := out\<rparr>))
         | Inl exc \<Rightarrow>
             let tc = (gi_tc iv)\<lparr>tc_status := ''failed'', tc_error_message := Some exc\<rparr>;
                 w3 = fail_claim env (gi_claim iv) exc (save_tc tc w2);
                 w4 = emit env (gi_rid iv) ''tool.failed''
                        [(''tool_call_id'', PStr (gi_tid iv)), (''error'', PStr exc)] w3
             in (w4, Inr ((gw_result (gi_tid iv) ''failed'')
                   \<lparr>gr_error_message := Some exc, gr_failure := Some (HandlerFailure exc)\<rparr>)))"

subsection \<open>Step 8.8: live authorization\<close>

definition skip_ticket :: "live_authorizer \<Rightarrow> capability_spec \<Rightarrow> gw_context \<Rightarrow> string \<Rightarrow> bool" where
  "skip_ticket la spec ctx cap =
     (case la_is_ticket_required la of
        Some f \<Rightarrow> \<not> f spec ctx cap
      | None \<Rightarrow>
          dict_get (cp_metadata spec) ''draft_only'' = Some (PBool True)
          \<or> dict_get (cp_metadata spec) ''risk_class'' = Some (PStr ''READ'')
          \<or> list_ex (py_endswith cap) [''.read'', ''.list'', ''.get'', ''.query''])"

definition with_ticket :: "string \<Rightarrow> gw_context \<Rightarrow> gw_context" where
  "with_ticket t c =
     (case c of
        CtxInv ic \<Rightarrow> CtxInv (ic\<lparr>ic_metadata := dict_set ''authorization_ticket_id'' (PStr t) (ic_metadata ic)\<rparr>)
      | CtxDict d \<Rightarrow> CtxDict (dict_set ''authorization_ticket_id'' (PStr t) d))"

definition gw_live_authorization ::
  "gw_env \<Rightarrow> gw_invocation \<Rightarrow> invocation_governance_state \<Rightarrow> connector_grant option \<Rightarrow> gw_world
     \<Rightarrow> gw_world \<times> (string + gateway_result)" where
  "gw_live_authorization env iv gov grant w =
     (let ctx = gq_context (gi_req iv) in
      case ge_authorizer env of
        None \<Rightarrow> gw_execute_handler env iv gov grant ctx None w
      | Some la \<Rightarrow>
          if skip_ticket la (gi_spec iv) ctx (gi_cap iv) then gw_execute_handler env iv gov grant ctx None w
          else
            (case la_authorize la (gi_req iv) (gi_spec iv) of
               Inl exc \<Rightarrow> (w, Inl exc)
             | Inr res \<Rightarrow>
                 if \<not> au_allowed res then
                   let msg = or_else (au_error_message res)
                               (''Execution of '' @ sq (gi_cap iv) @ '' denied: live authorization rejected'')
                   in (deny_call env iv (Some msg) msg
                         (Some (''authorization.ticket_denied'',
                            [(''tool_call_id'', PStr (gi_tid iv)), (''capability'', PStr (gi_cap iv)), (''error'', PStr msg)])) w,
                       Inr (denied_result (gi_tid iv) msg))
                 else if truthy_opt (au_ticket_id res) then
                   gw_execute_handler env iv gov grant (with_ticket (the (au_ticket_id res)) ctx) (au_ticket_id res) w
                 else gw_execute_handler env iv gov grant ctx None w))"


subsection \<open>Step 8.7: ambient governance\<close>

text \<open>The dictionary that \<open>verify_ambient_governance\<close> reads from a context.\<close>

definition ambient_ctx :: "gw_context \<Rightarrow> payload" where
  "ambient_ctx c =
     (case c of
        CtxInv ic \<Rightarrow> (case ic_policy_snapshot ic of
            None \<Rightarrow> ic_metadata ic
          | Some snap \<Rightarrow> if snap = [] then ic_metadata ic else dict_update (ic_metadata ic) snap)
      | CtxDict d \<Rightarrow> d)"

fun ambient_text :: "ambient_reason \<Rightarrow> string" where
  "ambient_text AmbientOk = []"
| "ambient_text (TenantIs s) = ''Tenant is currently '' @ s"
| "ambient_text (PrincipalIs s) = ''Principal is currently '' @ s"
| "ambient_text EmergencyLock = ''Emergency lock / kill switch is active''"
| "ambient_text HumanTakeover = ''Human takeover is active''"

definition gw_ambient_check ::
  "gw_env \<Rightarrow> gw_invocation \<Rightarrow> invocation_governance_state \<Rightarrow> connector_grant option \<Rightarrow> gw_world
     \<Rightarrow> gw_world \<times> (string + gateway_result)" where
  "gw_ambient_check env iv gov grant w =
     (case verify_ambient_governance (Some (ambient_ctx (gq_context (gi_req iv)))) of
        (True, _) \<Rightarrow> gw_live_authorization env iv gov grant w
      | (False, r) \<Rightarrow>
          let reason = ambient_text r in
          (deny_call env iv (Some (''Ambient governance denied: '' @ reason)) reason
             (Some (''governance.denied'', [(''tool_call_id'', PStr (gi_tid iv)), (''reason'', PStr reason)])) w,
           Inr (denied_result (gi_tid iv) (''Execution of '' @ sq (gi_cap iv) @ '' denied: '' @ reason))))"

subsection \<open>Step 8.5: the connector grant\<close>

text \<open>\<open>ConnectorGrantResolution\<close>: on success the grant and the target snapshot completed with it; on
  refusal its kind (\<open>True\<close> for a resolver error), its detail and the result to return.\<close>

datatype grant_resolution =
    GrantOk "connector_grant option" execution_target_snapshot
  | GrantNo bool string gateway_result

definition resolve_and_verify ::
  "gw_env \<Rightarrow> string option \<Rightarrow> gateway_request \<Rightarrow> execution_target_snapshot \<Rightarrow> datetime \<Rightarrow> grant_resolution" where
  "resolve_and_verify env conn req target now =
     (let denied = (\<lambda>detail. ''Execution of '' @ sq (gq_capability_id req) @ '' denied: '' @ detail) in
      case (if truthy_opt conn then ge_resolver env else None) of
        None \<Rightarrow> GrantOk None target
      | Some f \<Rightarrow>
          (case f (the conn) req of
             Inl (GrantDeniedCode code) \<Rightarrow>
               GrantNo False code
                 ((denied_result (gq_tool_call_id req) (denied code))\<lparr>gr_failure := Some (GrantFailure code)\<rparr>)
           | Inl (ResolverError msg) \<Rightarrow>
               GrantNo True msg (denied_result (gq_tool_call_id req) (denied ''connector grant verification failed''))
           | Inr grant \<Rightarrow>
               let v = verify_connector_grant (ge_text env) now grant (gq_capability_id req)
                         (or_else (gq_workspace_id req) []) (gq_principal req) None
               in if \<not> gv_is_allowed v then
                    GrantNo False (gv_reason v) (denied_result (gq_tool_call_id req) (denied (gv_reason v)))
                  else
                    GrantOk grant
                      (target\<lparr>ts_connection_account_id :=
                                (case grant of None \<Rightarrow> None
                                 | Some g \<Rightarrow> (case dict_get (cg_metadata g) ''connection_account_id'' of
                                               Some (PStr a) \<Rightarrow> Some a | _ \<Rightarrow> None)),
                              ts_credential_grant_version := map_option cg_grant_id grant\<rparr>)))"

definition gw_connector_grant ::
  "gw_env \<Rightarrow> gw_invocation \<Rightarrow> invocation_governance_state \<Rightarrow> gw_world \<Rightarrow> gw_world \<times> (string + gateway_result)" where
  "gw_connector_grant env iv gov w =
     (let conn = dict_get (cp_connector_requirements (gi_spec iv)) ''connector_id'' in
      case resolve_and_verify env conn (gi_req iv) (gi_target iv) (ge_clock env (gw_tick w)) of
        GrantOk grant target \<Rightarrow> gw_ambient_check env iv gov grant (w\<lparr>gw_tick := gw_tick w + 1\<rparr>)
      | GrantNo resolver_error detail res \<Rightarrow>
          let detail' = (if detail = [] then ''Connector grant verification failed'' else detail);
              w0 = w\<lparr>gw_tick := gw_tick w + 1\<rparr> in
          if resolver_error then
            (deny_call env iv (Some (''Connector grant resolver error: '' @ detail')) detail'
               (Some (''connector_grant.resolver_error'',
                  [(''tool_call_id'', PStr (gi_tid iv)), (''connector_id'', opt_val conn), (''error'', PStr detail')])) w0,
             Inr res)
          else
            (deny_call env iv (Some (''Connector grant check failed: '' @ detail')) detail'
               (Some (''connector_grant.denied'',
                  [(''tool_call_id'', PStr (gi_tid iv)), (''connector_id'', opt_val conn), (''reason'', PStr detail')])) w0,
             Inr res))"

subsection \<open>Step 8: the approval gate\<close>

fun dump_requirement :: "approval_requirement \<Rightarrow> payload" where
  "dump_requirement (RoleApproval r) = [(''kind'', PStr ''role_approval''), (''role'', PStr r)]"
| "dump_requirement (UserApproval u) = [(''kind'', PStr ''user_approval''), (''user_id'', PStr u)]"
| "dump_requirement (AllOf ps) = [(''kind'', PStr ''all''), (''predicates'', PList (map (\<lambda>p. PDict (dump_requirement p)) ps))]"
| "dump_requirement (AnyOf ps) = [(''kind'', PStr ''any''), (''predicates'', PList (map (\<lambda>p. PDict (dump_requirement p)) ps))]"
| "dump_requirement (Quorum n rs) = [(''kind'', PStr ''quorum''), (''count'', PInt n), (''roles'', PList (map PStr rs))]"

datatype gate_decision = GateExecute | GateWait gateway_result | GateDeny gateway_result

definition checkpoint_mismatch :: "run_approval_record \<Rightarrow> string \<Rightarrow> bool" where
  "checkpoint_mismatch a ckpt \<longleftrightarrow> ckpt \<noteq> [] \<and> truthy_opt (ap_checkpoint_ref a) \<and> ap_checkpoint_ref a \<noteq> Some ckpt"

definition new_tool_approval ::
  "datetime \<Rightarrow> string \<Rightarrow> string \<Rightarrow> string \<Rightarrow> string \<Rightarrow> string \<Rightarrow> policy_decision \<Rightarrow> run_approval_record" where
  "new_tool_approval now rid tid ckpt cap phash d =
     \<lparr>ap_approval_id = ''appr_'' @ rid @ ''_'' @ tid, ap_workspace_id = None, ap_project_id = None,
      ap_binding_kind = TOOL_CALL, ap_run_id = Some rid, ap_tool_call_id = Some tid, ap_checkpoint_ref = Some ckpt,
      ap_status = ''pending'',
      ap_requirement = (case requirement d of
          Some r \<Rightarrow> dump_requirement r
        | None \<Rightarrow> [(''kind'', PStr ''role_approval''), (''role'', PStr ''founder'')]),
      ap_requester = None, ap_action = Some cap,
      ap_subject = Some (''Approval needed for '' @ cap @ '' (payload_hash: '' @ py_take 8 phash @ '')''),
      ap_subject_kind = None, ap_subject_ref = None, ap_subject_hash = None, ap_reviewer = None, ap_reason = None,
      ap_evidence = None, ap_manifest_hash = None, ap_decision_version = 0, ap_created_at = now,
      ap_decided_at = None, ap_expires_at = None\<rparr>"

definition approval_wait :: "gw_env \<Rightarrow> string \<Rightarrow> string \<Rightarrow> string \<Rightarrow> nat \<Rightarrow> wait_descriptor" where
  "approval_wait env cap ckpt aid n =
     \<lparr>wd_id = ge_uuid env n, wd_kind = WK_APPROVAL, wd_reason = ''Action '' @ sq cap @ '' requires human approval'',
      wd_owner_responder = None, wd_resume_trigger = ''approval.decided'', wd_checkpoint_ref = ckpt,
      wd_related_ref = Some aid, wd_created_at = ge_clock env n, wd_expires_at = None\<rparr>"

text \<open>\<open>ApprovalGateDecider.decide\<close>.\<close>

definition decide_gate ::
  "gw_env \<Rightarrow> string \<Rightarrow> string \<Rightarrow> string \<Rightarrow> string \<Rightarrow> string \<Rightarrow> policy_outcome \<Rightarrow> policy_decision \<Rightarrow> gw_world
     \<Rightarrow> gw_world \<times> gate_decision" where
  "decide_gate env rid tid ckpt cap phash effective d w =
     (let approval = get_approval_by_tool_call tid (gw_repo w);
          mismatch = (case approval of None \<Rightarrow> False | Some a \<Rightarrow> checkpoint_mismatch a ckpt);
          unapproved = (case approval of None \<Rightarrow> True | Some a \<Rightarrow> ap_status a \<noteq> ''approved'')
      in if effective = REQUIRE_APPROVAL \<and> (unapproved \<or> mismatch) then
           let w1 = (if approval = None \<or> mismatch then
                       emit env rid ''approval.required''
                         [(''approval_id'', PStr (''appr_'' @ rid @ ''_'' @ tid)), (''tool_call_id'', PStr tid)]
                         (w\<lparr>gw_repo := fst (create_approval
                               (new_tool_approval (ge_clock env (gw_tick w)) rid tid ckpt cap phash d) (gw_repo w)),
                            gw_tick := gw_tick w + 1\<rparr>)
                     else w);
               aid = (if approval = None \<or> mismatch then ''appr_'' @ rid @ ''_'' @ tid else ap_approval_id (the approval))
           in (w1\<lparr>gw_tick := gw_tick w1 + 1\<rparr>,
               GateWait ((gw_result tid ''waiting_approval'')
                 \<lparr>gr_wait_descriptor := Some (approval_wait env cap ckpt aid (gw_tick w1))\<rparr>))
         else if effective = DENY then
           (w, GateDeny (denied_result tid (''Execution of '' @ sq cap @ '' denied by policy'')))
         else (w, GateExecute))"

definition gw_approval_gate ::
  "gw_env \<Rightarrow> gw_invocation \<Rightarrow> policy_decision \<Rightarrow> invocation_governance_state \<Rightarrow> gw_world
     \<Rightarrow> gw_world \<times> (string + gateway_result)" where
  "gw_approval_gate env iv d gov w =
     (case decide_gate env (gi_rid iv) (gi_tid iv) (gq_checkpoint_ref (gi_req iv)) (gi_cap iv) (gi_payload_hash iv)
             (outcome (accumulated gov)) d w of
        (w1, GateWait res) \<Rightarrow>
          (save_tc ((gi_tc iv)\<lparr>tc_status := ''waiting_approval'', tc_governance_state := Some gov\<rparr>) w1, Inr res)
      | (w1, GateDeny res) \<Rightarrow> (deny_call env iv None ''Denied by policy'' None w1, Inr res)
      | (w1, GateExecute) \<Rightarrow> gw_connector_grant env iv gov w1)"

subsection \<open>Step 7: accumulated governance\<close>

definition gw_accumulate ::
  "gw_env \<Rightarrow> gw_invocation \<Rightarrow> policy_decision \<Rightarrow> gw_world \<Rightarrow> gw_world \<times> (string + gateway_result)" where
  "gw_accumulate env iv d w =
     (let gov = (case load_governance_state (gw_gov w) (gi_rid iv) (gi_tid iv) of
                   None \<Rightarrow> gov_start (gi_rid iv) (gi_tid iv) d
                 | Some g \<Rightarrow> accumulate g d)
      in gw_approval_gate env iv d gov (w\<lparr>gw_gov := save_governance_state (gw_gov w) gov\<rparr>))"

subsection \<open>Step 6: policy and compliance\<close>

text \<open>\<open>snap.get(k)\<close> on a snapshot dictionary; a snapshot of another type has no such attribute.\<close>

definition snap_get :: "pyval \<Rightarrow> string \<Rightarrow> pyval" where
  "snap_get snap k = (case snap of PDict d \<Rightarrow> ctx_get d k | _ \<Rightarrow> PNone)"

definition snap_str :: "py_text \<Rightarrow> pyval \<Rightarrow> string \<Rightarrow> string" where
  "snap_str tx snap k = (case snap of PDict d \<Rightarrow> py_str tx (ctx_get d k) | _ \<Rightarrow> [])"

definition snap_list :: "pyval \<Rightarrow> string \<Rightarrow> pyval" where
  "snap_list snap k = (case snap_get snap k of PList xs \<Rightarrow> PList xs | _ \<Rightarrow> PList [])"

text \<open>\<open>ComplianceDecisionPayload(...).model_dump()\<close>.\<close>

definition compliance_payload ::
  "py_text \<Rightarrow> gateway_request \<Rightarrow> string \<Rightarrow> pyval \<Rightarrow> string \<Rightarrow> pyval \<Rightarrow> pyval \<Rightarrow> pyval \<Rightarrow> datetime \<Rightarrow> payload" where
  "compliance_payload tx req ws snap dec reason_code provider jti now =
     [(''run_id'', PStr (gq_run_id req)), (''workspace_id'', PStr ws),
      (''deployment_id'', PStr (snap_str tx snap ''deployment_id'')),
      (''snapshot_hash'', PStr (snap_str tx snap ''snapshot_hash'')),
      (''policy_snapshot_hash'', PStr (snap_str tx snap ''policy_snapshot_hash'')),
      (''capability_id'', PStr (gq_capability_id req)), (''tool_call_id'', PStr (gq_tool_call_id req)),
      (''checkpoint_ref'', PStr (gq_checkpoint_ref req)), (''decision'', PStr dec), (''reason_code'', reason_code),
      (''rule_version_ids'', snap_list snap ''rule_version_ids''), (''evidence_hashes'', snap_list snap ''evidence_hashes''),
      (''provider_model_ref'', provider), (''delegation_jti'', jti), (''timestamp'', PStr (pt_dt tx now))]"

text \<open>\<open>str(x) or None\<close> and \<open>str(x) if x else None\<close>.\<close>

definition str_or_none :: "string \<Rightarrow> pyval" where
  "str_or_none s = (if s = [] then PNone else PStr s)"

definition str_if :: "py_text \<Rightarrow> pyval \<Rightarrow> pyval" where
  "str_if tx v = (if truthy v then PStr (py_str tx v) else PNone)"

text \<open>\<open>ComplianceAuditor.audit\<close>: whether to continue, and the event to record; the event of a denial is
  the caller's to append, that of an allowance is appended at once.\<close>

definition compliance_audit ::
  "gw_env \<Rightarrow> gateway_request \<Rightarrow> string \<Rightarrow> policy_decision \<Rightarrow> datetime \<Rightarrow> bool \<times> payload option" where
  "compliance_audit env req ws d now =
     (let tx = ge_text env;
          meta = ctx_meta (gq_context req);
          snap = ctx_get meta ''compliance_snapshot'';
          jti = py_or (ctx_get meta ''delegation_jti'') (ctx_get meta ''_delegation_jti'')
      in if \<not> truthy snap then (True, None)
         else
           let st = snap_get snap ''status'' in
           if truthy st \<and> st \<noteq> PStr ''APPROVED_FOR_USE'' then
             (False, Some (compliance_payload tx req ws snap ''DENY'' (PStr ''DEPLOYMENT_SUSPENDED'')
                (str_or_none (snap_str tx snap ''provider_profile_version''))
                (str_or_none (py_str tx (py_or jti (PStr [])))) now))
           else
             (True, Some (compliance_payload tx req ws snap (outcome_value (outcome d)) PNone
                (str_if tx (snap_get snap ''provider_profile_version'')) (str_if tx jti) now)))"

definition gw_compliance ::
  "gw_env \<Rightarrow> gw_invocation \<Rightarrow> policy_decision \<Rightarrow> gw_world \<Rightarrow> gw_world \<times> (string + gateway_result)" where
  "gw_compliance env iv d w =
     (case compliance_audit env (gi_req iv) (gi_workspace iv) d (ge_clock env (gw_tick w)) of
        (True, None) \<Rightarrow> gw_accumulate env iv d w
      | (True, Some pl) \<Rightarrow> gw_accumulate env iv d (emit env (gi_rid iv) ''compliance.decision'' pl w)
      | (False, pl) \<Rightarrow>
          (deny_call env iv None ''Deployment suspended or not approved''
             (map_option (\<lambda>p. (''compliance.decision'', p)) pl) w,
           Inr (denied_result (gi_tid iv) ''Execution denied: AI deployment is suspended or not approved'')))"

definition tenant_verdict :: "gw_env \<Rightarrow> gw_invocation \<Rightarrow> string + decision_arg" where
  "tenant_verdict env iv =
     (case ge_policy env of
        None \<Rightarrow> Inr ArgNone
      | Some f \<Rightarrow>
          let meta = ctx_meta (gq_context (gi_req iv));
              ctx = (if gi_workspace iv \<noteq> [] \<and> dict_get meta ''workspace_id'' = None
                     then dict_set ''workspace_id'' (PStr (gi_workspace iv)) meta else meta)
          in f (gi_cap iv) (gq_input_payload (gi_req iv)) ctx)"

definition gw_policy ::
  "gw_env \<Rightarrow> gw_invocation \<Rightarrow> gw_world \<Rightarrow> gw_world \<times> (string + gateway_result)" where
  "gw_policy env iv w =
     (let floor_outcome = capability_floor (cp_risk (gi_spec iv)) (cp_approval_policy (gi_spec iv)) in
      case tenant_verdict env iv of
        Inl exc \<Rightarrow> (w, Inl exc)
      | Inr tenant \<Rightarrow>
          let d = conjoin (ArgOutcome floor_outcome) tenant in
          gw_compliance env iv d
            (emit env (gi_rid iv) ''policy.evaluated''
               [(''tool_call_id'', PStr (gi_tid iv)), (''decision'', PStr (outcome_value (outcome d)))] w))"

subsection \<open>Step 5: the idempotency claim and the ledger entry\<close>

definition meta_hash :: "capability_spec \<Rightarrow> string option" where
  "meta_hash spec =
     (case dict_get (cp_metadata spec) ''definition_hash'' of
        Some (PStr h) \<Rightarrow> (if h = [] then None else Some h) | _ \<Rightarrow> None)"

definition new_tool_call ::
  "gateway_request \<Rightarrow> string \<Rightarrow> string \<Rightarrow> execution_target_snapshot \<Rightarrow> string \<Rightarrow> string option \<Rightarrow> string option
     \<Rightarrow> string option \<Rightarrow> datetime \<Rightarrow> run_tool_call_record" where
  "new_tool_call req phash key target st dhash pol err now =
     \<lparr>tc_tool_call_id = gq_tool_call_id req, tc_run_id = gq_run_id req, tc_project_id = None,
      tc_checkpoint_ref = Some (gq_checkpoint_ref req), tc_capability_id = gq_capability_id req,
      tc_payload_hash = phash, tc_input_payload = gq_input_payload req, tc_status = st,
      tc_idempotency_key = Some key, tc_result_hash = None, tc_output_payload = None, tc_error_message = err,
      tc_spec_version = Some ''1.0.0'', tc_definition_hash = dhash, tc_policy_snapshot_ref = pol,
      tc_execution_target_snapshot = Some target, tc_governance_state = None, tc_created_at = now,
      tc_completed_at = None\<rparr>"

definition policy_ref_of :: "gw_context \<Rightarrow> string option" where
  "policy_ref_of c =
     (case c of
        CtxInv ic \<Rightarrow> ic_policy_snapshot_ref ic
      | CtxDict d \<Rightarrow> (case dict_get d ''policy_snapshot_ref'' of Some (PStr s) \<Rightarrow> Some s | _ \<Rightarrow> None))"

definition idempotency_key_of :: "gw_env \<Rightarrow> gateway_request \<Rightarrow> string" where
  "idempotency_key_of env req =
     or_else (gq_idempotency_key req)
       (gq_run_id req @ '':'' @ gq_capability_id req @ '':'' @ ge_hash env (PDict (gq_input_payload req)))"

text \<open>The claim record of this call; three readings of the clock and one identifier are drawn.\<close>

definition claim_of :: "gw_env \<Rightarrow> gateway_request \<Rightarrow> nat \<Rightarrow> idempotency_claim_record" where
  "claim_of env req n =
     new_claim (''claim_'' @ take 16 (ge_uuid env n)) (ge_clock env n) (ge_clock env (n + 1))
       (gq_run_id req) (gq_tool_call_id req) (gq_capability_id req) (idempotency_key_of env req)
       (ge_hash env (PDict (gq_input_payload req))) ''RUN'' None None"

definition gw_idempotency ::
  "gw_env \<Rightarrow> gateway_request \<Rightarrow> capability_registration \<Rightarrow> string \<Rightarrow> execution_target_snapshot \<Rightarrow> gw_world
     \<Rightarrow> gw_world \<times> (string + gateway_result)" where
  "gw_idempotency env req reg ws target w =
     (let phash = ge_hash env (PDict (gq_input_payload req));
          n = gw_tick w;
          tid = gq_tool_call_id req;
          (s', res) = try_claim (ge_clock env (n + 2)) (claim_of env req n) (gw_repo w);
          w1 = w\<lparr>gw_repo := s', gw_tick := n + 3\<rparr>
      in case res of
           Inl (KeyError k) \<Rightarrow> (w1, Inl k)
         | Inl (ManifestConflict a b c) \<Rightarrow> (w1, Inl a)
         | Inr (IO_CACHED_COMPLETED, cl) \<Rightarrow>
             (w1, Inr ((gw_result tid ''completed'')
                    \<lparr>gr_output_payload := cl_result_payload cl, gr_cached_idempotency := True\<rparr>))
         | Inr (IO_IN_PROGRESS, cl) \<Rightarrow>
             (w1, Inr ((gw_result tid ''in_progress'')
                    \<lparr>gr_error_message := Some (''Capability '' @ sq (gq_capability_id req)
                        @ '' dang duoc thuc thi boi lan goi khac voi cung idempotency_key (claim_id=''
                        @ cl_claim_id cl @ '')'')\<rparr>))
         | Inr (_, cl) \<Rightarrow>
             let tc = new_tool_call req phash (idempotency_key_of env req) target ''running'' (meta_hash (rg_spec reg))
                        (policy_ref_of (gq_context req)) None (ge_clock env (gw_tick w1));
                 iv = \<lparr>gi_req = req, gi_reg = reg, gi_workspace = ws, gi_payload_hash = phash, gi_target = target,
                        gi_claim = cl, gi_tc = tc\<rparr>;
                 w2 = emit env (gq_run_id req) ''tool.requested''
                        [(''tool_call_id'', PStr tid), (''capability'', PStr (gq_capability_id req)),
                         (''payload_hash'', PStr phash)]
                        (save_tc tc (w1\<lparr>gw_tick := gw_tick w1 + 1\<rparr>))
             in gw_policy env iv w2)"

subsection \<open>Steps 1 to 4: checks before the claim\<close>

text \<open>\<open>TenancyVerifier.verify\<close>: the workspace on success, the message of \<open>TenancyUnresolvedError\<close> otherwise.\<close>

definition needs_tenancy :: "capability_spec \<Rightarrow> bool" where
  "needs_tenancy spec \<longleftrightarrow> cp_risk spec \<in> {HIGH, CRITICAL, MEDIUM} \<or> cp_approval_policy spec = ALWAYS"

definition resolved_workspace :: "gateway_request \<Rightarrow> pyval" where
  "resolved_workspace req =
     (if truthy_opt (gq_workspace_id req) then opt_val (gq_workspace_id req)
      else case gq_context req of CtxInv ic \<Rightarrow> PStr (ic_workspace_id ic) | CtxDict d \<Rightarrow> ctx_get d ''workspace_id'')"

definition resolved_principal :: "gateway_request \<Rightarrow> pyval" where
  "resolved_principal req =
     (if truthy (gq_principal req) then gq_principal req
      else case gq_context req of CtxInv ic \<Rightarrow> PStr (ic_principal ic) | CtxDict d \<Rightarrow> ctx_get d ''principal'')"

definition tenancy_unresolved :: "py_text \<Rightarrow> pyval \<Rightarrow> pyval \<Rightarrow> bool" where
  "tenancy_unresolved tx ws prin \<longleftrightarrow>
     \<not> truthy ws \<or> py_strip (py_str tx ws) \<in> {[], ''default'', ''default_workspace''}
     \<or> \<not> truthy prin \<or> py_strip (py_str tx prin) \<in> {[], ''default''}"

definition verify_tenancy :: "py_text \<Rightarrow> capability_spec \<Rightarrow> gateway_request \<Rightarrow> string + pyval" where
  "verify_tenancy tx spec req =
     (let ws = resolved_workspace req; prin = resolved_principal req in
      if needs_tenancy spec \<and> tenancy_unresolved tx ws prin then
        Inl (''Execution of '' @ sq (gq_capability_id req) @ '' failed: tenancy unresolved (workspace_id=''
             @ pt_repr tx ws @ '', principal='' @ pt_repr tx prin @ '')'')
      else Inr (if truthy ws then ws else PStr []))"

definition extract_action_class :: "py_text \<Rightarrow> capability_spec \<Rightarrow> gw_context \<Rightarrow> string" where
  "extract_action_class tx spec ctx =
     (case ctx of
        CtxDict d \<Rightarrow>
          py_str tx (py_or (ctx_get d ''action_class'') (py_or (ctx_get (cp_metadata spec) ''action_class'') (PStr ''R'')))
      | CtxInv _ \<Rightarrow> py_str tx (py_or (ctx_get (cp_metadata spec) ''action_class'') (PStr ''R'')))"

text \<open>An invocation context has no attribute \<open>skill_hash\<close>.\<close>

definition extract_skill_hash :: "py_text \<Rightarrow> gw_context \<Rightarrow> string option" where
  "extract_skill_hash tx ctx =
     (case ctx of
        CtxInv _ \<Rightarrow> None
      | CtxDict d \<Rightarrow>
          let h = py_or (ctx_get d ''skill_hash'') (ctx_get d ''definition_hash'');
              pinned = py_or (ctx_get d ''pinned_skill'') (ctx_get d ''skill_ref'');
              h' = (if truthy h then h
                    else case pinned of
                           PDict p \<Rightarrow> py_or (ctx_get p ''definition_hash'') (ctx_get p ''skill_hash'')
                         | _ \<Rightarrow> h)
          in (if h' = PNone then None else Some (py_str tx h')))"

definition enablement_verdict ::
  "gw_env \<Rightarrow> capability_spec \<Rightarrow> gateway_request \<Rightarrow> string \<Rightarrow> gw_world \<Rightarrow> bool \<times> string option" where
  "enablement_verdict env spec req ws w =
     assert_enabled_for_invocation (ge_text env) (ge_clock env (gw_tick w)) (gw_enablements w) ws (gq_capability_id req)
       (extract_skill_hash (ge_text env) (gq_context req)) (extract_action_class (ge_text env) spec (gq_context req)) ''*''"

definition target_of :: "gateway_request \<Rightarrow> capability_spec \<Rightarrow> execution_target_snapshot" where
  "target_of req spec =
     \<lparr>ts_capability_id = gq_capability_id req,
      ts_connector_id = dict_get (cp_connector_requirements spec) ''connector_id'',
      ts_connection_account_id = None, ts_endpoint_resource_identity = None,
      ts_schema_hash_version =
        (case dict_get (cp_metadata spec) ''definition_hash'' of
           None \<Rightarrow> Some ''hash_default'' | Some (PStr h) \<Rightarrow> Some h | Some _ \<Rightarrow> None),
      ts_credential_grant_version = None, ts_capability_risk_at_request_time = cp_risk spec,
      ts_handler_catalog_version = None, ts_metadata = []\<rparr>"

definition gw_enablement_denied ::
  "gw_env \<Rightarrow> gateway_request \<Rightarrow> capability_spec \<Rightarrow> string \<Rightarrow> gw_world \<Rightarrow> gw_world \<times> (string + gateway_result)" where
  "gw_enablement_denied env req spec err w =
     (let tx = ge_text env;
          phash = ge_hash env (PDict (gq_input_payload req));
          tc = new_tool_call req phash (idempotency_key_of env req) (target_of req spec) ''denied''
                 (or_opt (meta_hash spec) (extract_skill_hash tx (gq_context req))) None (Some err) (ge_clock env (gw_tick w));
          w1 = emit env (gq_run_id req) ''capability.enablement_denied''
                 [(''tool_call_id'', PStr (gq_tool_call_id req)), (''capability'', PStr (gq_capability_id req)),
                  (''reason'', PStr err), (''action_class'', PStr (extract_action_class tx spec (gq_context req)))]
                 (save_tc tc (w\<lparr>gw_tick := gw_tick w + 1\<rparr>))
      in (w1, Inr (denied_result (gq_tool_call_id req)
            (''Execution of '' @ sq (gq_capability_id req) @ '' denied: '' @ err))))"

definition join_errors :: "string list \<Rightarrow> string" where
  "join_errors es = (case es of [] \<Rightarrow> [] | e # es' \<Rightarrow> e @ concat (map (\<lambda>x. '', '' @ x) es'))"

text \<open>\<open>CapabilityGateway._execute_internal\<close>.\<close>

definition gw_execute :: "gw_env \<Rightarrow> gateway_request \<Rightarrow> gw_world \<Rightarrow> gw_world \<times> (string + gateway_result)" where
  "gw_execute env req w =
     (let tid = gq_tool_call_id req; cap = gq_capability_id req in
      case get_capability (ge_registry env) cap of
        None \<Rightarrow> (w, Inr ((gw_result tid ''failed'')
                     \<lparr>gr_error_message := Some (''Capability '' @ sq cap @ '' not found in registry'')\<rparr>))
      | Some reg \<Rightarrow>
          let spec = rg_spec reg in
          (case verify_tenancy (ge_text env) spec req of
             Inl msg \<Rightarrow> (w, Inr ((gw_result tid ''failed'')
                            \<lparr>gr_error_message := Some msg, gr_failure := Some (TenancyFailure msg)\<rparr>))
           | Inr ws \<Rightarrow>
               let errs = validate_input (ge_text env) spec (gq_input_payload req) in
               if errs \<noteq> [] then
                 (w, Inr ((gw_result tid ''failed'')
                    \<lparr>gr_validation_errors := errs,
                     gr_error_message := Some (''Validation failed for capability '' @ sq cap @ '': '' @ join_errors errs)\<rparr>))
               else
                 let rd = check_readiness (ge_registry env) (ge_overrides env) (ge_health env) cap in
                 if \<not> rd_ready rd \<and> rd_reason_code rd = MISSING_CREDENTIAL then
                   (w, Inr ((gw_result tid ''failed'')
                      \<lparr>gr_error_message := Some (''Capability readiness error: missing credential (''
                          @ pt_repr (ge_text env) (PDict (rd_details rd)) @ '')'')\<rparr>))
                 else
                   let ws' = py_str (ge_text env) ws in
                   (case enablement_verdict env spec req ws' w of
                      (True, _) \<Rightarrow>
                        gw_idempotency env req reg ws' (target_of req spec) (w\<lparr>gw_tick := gw_tick w + 1\<rparr>)
                    | (False, err) \<Rightarrow>
                        gw_enablement_denied env req spec (or_else err ''None'') (w\<lparr>gw_tick := gw_tick w + 1\<rparr>))))"


end
