(* ===== verification/GatewayProps.thy ===== *)
theory GatewayProps
  imports Gateway
begin

text \<open>
  What the capability gateway guarantees: a handler runs only when every gate of the pipeline is open,
  at most once per call and never again for a completed idempotency key; denials, waits and
  failures leave a consistent ledger.
\<close>

subsection \<open>What the writes of the pipeline leave alone\<close>

lemma emit_frame [frame_simps]:
  "gw_calls (emit env rid et pl w) = gw_calls w" "gw_gov (emit env rid et pl w) = gw_gov w"
  "gw_enablements (emit env rid et pl w) = gw_enablements w"
  "approvals (gw_repo (emit env rid et pl w)) = approvals (gw_repo w)"
  "tool_calls (gw_repo (emit env rid et pl w)) = tool_calls (gw_repo w)"
  "idempotency_claims (gw_repo (emit env rid et pl w)) = idempotency_claims (gw_repo w)"
  "idempotency_index (gw_repo (emit env rid et pl w)) = idempotency_index (gw_repo w)"
  by (simp_all add: emit_def append_event_def Let_def)

lemma save_tc_frame [frame_simps]:
  "gw_calls (save_tc tc w) = gw_calls w" "gw_gov (save_tc tc w) = gw_gov w" "gw_tick (save_tc tc w) = gw_tick w"
  "gw_enablements (save_tc tc w) = gw_enablements w"
  "approvals (gw_repo (save_tc tc w)) = approvals (gw_repo w)"
  "tool_calls (gw_repo (save_tc tc w)) = dict_set (tc_tool_call_id tc) tc (tool_calls (gw_repo w))"
  "idempotency_claims (gw_repo (save_tc tc w)) = idempotency_claims (gw_repo w)"
  "idempotency_index (gw_repo (save_tc tc w)) = idempotency_index (gw_repo w)"
  by (simp_all add: save_tc_def save_tool_call_def)

lemma claim_writes_frame [frame_simps]:
  "gw_calls (fail_claim env cl msg w) = gw_calls w" "gw_gov (fail_claim env cl msg w) = gw_gov w"
  "gw_calls (complete_claim env cl out h w) = gw_calls w" "gw_gov (complete_claim env cl out h w) = gw_gov w"
  "tool_calls (gw_repo (fail_claim env cl msg w)) = tool_calls (gw_repo w)"
  "tool_calls (gw_repo (complete_claim env cl out h w)) = tool_calls (gw_repo w)"
  "idempotency_index (gw_repo (fail_claim env cl msg w)) = idempotency_index (gw_repo w)"
  "idempotency_index (gw_repo (complete_claim env cl out h w)) = idempotency_index (gw_repo w)"
  "idempotency_claims (gw_repo (complete_claim env cl out h w)) =
     idempotency_claims (claim_complete (ge_clock env (gw_tick w)) (cl_claim_id cl) out h (gw_repo w))"
  "idempotency_claims (gw_repo (fail_claim env cl msg w)) =
     idempotency_claims (claim_fail (ge_clock env (gw_tick w)) (cl_claim_id cl) msg (gw_repo w))"
  by (simp_all add: fail_claim_def complete_claim_def claim_fail_def claim_complete_def fail_idempotency_claim_def
      complete_idempotency_claim_def Let_def split: option.split)

lemma deny_call_frame [frame_simps]:
  "gw_calls (deny_call env iv err msg ev w) = gw_calls w" "gw_gov (deny_call env iv err msg ev w) = gw_gov w"
  by (simp_all add: deny_call_def Let_def frame_simps split: option.split)

subsection \<open>Whether the handler ran\<close>

text \<open>The results that a handler call produces.\<close>

definition handler_ran :: "gateway_result \<Rightarrow> bool" where
  "handler_ran r \<longleftrightarrow> (gr_status r = ''completed'' \<and> \<not> gr_cached_idempotency r) \<or> (\<exists>m. gr_failure r = Some (HandlerFailure m))"

text \<open>A stage either is quiet (no handler call, and its result says so) or ends in exactly one handler
  call, and then \<open>C\<close> holds; the governance store is left alone either way.\<close>

definition stage_spec ::
  "bool \<Rightarrow> gateway_request \<Rightarrow> gw_world \<Rightarrow> gw_world \<times> (string + gateway_result) \<Rightarrow> bool" where
  "stage_spec C req w out \<longleftrightarrow> gw_gov (fst out) = gw_gov w \<and>
     ((gw_calls (fst out) = gw_calls w \<and> (\<forall>r. snd out = Inr r \<longrightarrow> \<not> handler_ran r)) \<or>
      (gw_calls (fst out) = gw_calls w @ [(gq_run_id req, gq_tool_call_id req, gq_capability_id req)]
        \<and> (\<exists>r. snd out = Inr r \<and> handler_ran r) \<and> C))"

lemma stage_quiet:
  "gw_gov w' = gw_gov w \<Longrightarrow> gw_calls w' = gw_calls w \<Longrightarrow> \<not> handler_ran r \<Longrightarrow> stage_spec C req w (w', Inr r)"
  "stage_spec C req w (w, Inl exc)"
  by (simp_all add: stage_spec_def)

lemma stage_mono: "stage_spec C req w' out \<Longrightarrow> (C \<Longrightarrow> D) \<Longrightarrow> gw_gov w' = gw_gov w \<Longrightarrow> gw_calls w' = gw_calls w \<Longrightarrow> stage_spec D req w out"
  by (auto simp: stage_spec_def)

lemma denied_not_ran [simp]: "\<not> handler_ran (denied_result tid msg)" "\<not> handler_ran (gw_result tid ''denied'')"
  by (simp_all add: handler_ran_def denied_result_def gw_result_def)

lemma deny_stage: "stage_spec C req w (deny_call env iv err msg ev w, Inr (denied_result tid m))"
  by (intro stage_quiet) (simp_all add: frame_simps)

subsection \<open>The gates\<close>

definition live_authorised :: "gw_env \<Rightarrow> gw_invocation \<Rightarrow> bool" where
  "live_authorised env iv \<longleftrightarrow>
     (case ge_authorizer env of
        None \<Rightarrow> True
      | Some la \<Rightarrow> skip_ticket la (gi_spec iv) (gq_context (gi_req iv)) (gi_cap iv)
                  \<or> (\<exists>res. la_authorize la (gi_req iv) (gi_spec iv) = Inr res \<and> au_allowed res))"

definition ambient_clear :: "gateway_request \<Rightarrow> bool" where
  "ambient_clear req \<longleftrightarrow> fst (verify_ambient_governance (Some (ambient_ctx (gq_context req))))"

definition grant_clear :: "gw_env \<Rightarrow> gw_invocation \<Rightarrow> datetime \<Rightarrow> bool" where
  "grant_clear env iv now \<longleftrightarrow>
     (case dict_get (cp_connector_requirements (gi_spec iv)) ''connector_id'' of
        None \<Rightarrow> True
      | Some conn \<Rightarrow> conn = [] \<or>
          (case ge_resolver env of
             None \<Rightarrow> True
           | Some f \<Rightarrow> (\<exists>g. f conn (gi_req iv) = Inr g \<and>
               gv_is_allowed (verify_connector_grant (ge_text env) now g (gi_cap iv)
                 (or_else (gq_workspace_id (gi_req iv)) []) (gq_principal (gi_req iv)) None))))"

definition gate_open :: "gateway_request \<Rightarrow> policy_outcome \<Rightarrow> run_repo \<Rightarrow> bool" where
  "gate_open req out s \<longleftrightarrow> out \<in> {ALLOW, NON_APPROVABLE} \<or>
     out = REQUIRE_APPROVAL \<and>
       (\<exists>a. get_approval_by_tool_call (gq_tool_call_id req) s = Some a \<and> ap_status a = ''approved''
          \<and> \<not> checkpoint_mismatch a (gq_checkpoint_ref req))"

definition deployment_approved :: "gateway_request \<Rightarrow> bool" where
  "deployment_approved req \<longleftrightarrow>
     (let snap = ctx_get (ctx_meta (gq_context req)) ''compliance_snapshot''; st = snap_get snap ''status'' in
      truthy snap \<and> truthy st \<longrightarrow> st = PStr ''APPROVED_FOR_USE'')"

lemma handler_stage: "stage_spec True (gi_req iv) w (gw_execute_handler env iv gov grant ctx ticket w)"
  by (simp add: gw_execute_handler_def stage_spec_def Let_def frame_simps handler_ran_def gw_result_def split: sum.split)

lemma live_stage: "stage_spec (live_authorised env iv) (gi_req iv) w (gw_live_authorization env iv gov grant w)"
  unfolding gw_live_authorization_def Let_def
  by (auto simp: live_authorised_def deny_stage stage_quiet split: option.split sum.split
      intro!: stage_mono [OF handler_stage])

lemma ambient_stage:
  "stage_spec (ambient_clear (gi_req iv) \<and> live_authorised env iv) (gi_req iv) w (gw_ambient_check env iv gov grant w)"
  unfolding gw_ambient_check_def Let_def
  by (auto simp: ambient_clear_def deny_stage split: prod.split bool.split intro!: stage_mono [OF live_stage])

lemma resolve_GrantNo: "resolve_and_verify env conn req target now = GrantNo b detail res \<Longrightarrow> \<not> handler_ran res"
  by (auto simp: resolve_and_verify_def Let_def denied_result_def gw_result_def handler_ran_def
      split: option.splits sum.splits grant_failure.splits if_splits)

lemma resolve_GrantOk:
  "resolve_and_verify env (dict_get (cp_connector_requirements (gi_spec iv)) ''connector_id'') (gi_req iv) target now
     = GrantOk grant t \<Longrightarrow> grant_clear env iv now"
  by (auto simp: resolve_and_verify_def grant_clear_def Let_def
      split: option.splits sum.splits grant_failure.splits if_splits)

lemma grant_stage:
  "stage_spec (grant_clear env iv (ge_clock env (gw_tick w)) \<and> ambient_clear (gi_req iv) \<and> live_authorised env iv)
     (gi_req iv) w (gw_connector_grant env iv gov w)"
proof (cases "resolve_and_verify env (dict_get (cp_connector_requirements (gi_spec iv)) ''connector_id'') (gi_req iv)
    (gi_target iv) (ge_clock env (gw_tick w))")
  case (GrantOk grant t)
  then show ?thesis
    using resolve_GrantOk [OF GrantOk] by (auto simp: gw_connector_grant_def intro!: stage_mono [OF ambient_stage])
next
  case (GrantNo b detail res)
  then show ?thesis
    using resolve_GrantNo [OF GrantNo] by (auto simp: gw_connector_grant_def Let_def frame_simps intro!: stage_quiet)
qed

lemma decide_gate_frame:
  "gw_calls (fst (decide_gate env rid tid ckpt cap phash out d w)) = gw_calls w"
  "gw_gov (fst (decide_gate env rid tid ckpt cap phash out d w)) = gw_gov w"
  by (simp_all add: decide_gate_def Let_def frame_simps)

lemma decide_gate_cases:
  "snd (decide_gate env (gq_run_id req) (gq_tool_call_id req) (gq_checkpoint_ref req) cap phash out d w) = GateExecute
     \<Longrightarrow> gate_open req out (gw_repo w) \<and>
       fst (decide_gate env (gq_run_id req) (gq_tool_call_id req) (gq_checkpoint_ref req) cap phash out d w) = w"
  "snd (decide_gate env rid tid ckpt cap phash out d w) = GateWait res \<Longrightarrow> \<not> handler_ran res"
  "snd (decide_gate env rid tid ckpt cap phash out d w) = GateDeny res \<Longrightarrow> \<not> handler_ran res"
  by (cases out; auto simp: decide_gate_def gate_open_def Let_def handler_ran_def gw_result_def denied_result_def
      split: option.splits if_splits)+

lemma gate_stage:
  "stage_spec (gate_open (gi_req iv) (outcome (accumulated gov)) (gw_repo w)
      \<and> grant_clear env iv (ge_clock env (gw_tick w)) \<and> ambient_clear (gi_req iv) \<and> live_authorised env iv)
     (gi_req iv) w (gw_approval_gate env iv d gov w)"
proof -
  obtain w1 g where g: "decide_gate env (gi_rid iv) (gi_tid iv) (gq_checkpoint_ref (gi_req iv)) (gi_cap iv)
      (gi_payload_hash iv) (outcome (accumulated gov)) d w = (w1, g)" by (rule prod.exhaust)
  note f = decide_gate_frame [of env "gi_rid iv" "gi_tid iv" "gq_checkpoint_ref (gi_req iv)" "gi_cap iv"
      "gi_payload_hash iv" "outcome (accumulated gov)" d w, unfolded g fst_conv]
  show ?thesis
  proof (cases g)
    case GateExecute
    with g decide_gate_cases(1) [of env "gi_req iv" "gi_cap iv" "gi_payload_hash iv" "outcome (accumulated gov)" d w]
    have "gate_open (gi_req iv) (outcome (accumulated gov)) (gw_repo w)" "w1 = w" by auto
    then show ?thesis unfolding gw_approval_gate_def g GateExecute
      by (auto intro!: stage_mono [OF grant_stage])
  next
    case (GateWait res)
    then have "\<not> handler_ran res" using g decide_gate_cases(2) by (metis snd_conv)
    then show ?thesis unfolding gw_approval_gate_def g GateWait
      by (auto simp: frame_simps f intro!: stage_quiet)
  next
    case (GateDeny res)
    then have "\<not> handler_ran res" using g decide_gate_cases(3) by (metis snd_conv)
    then show ?thesis unfolding gw_approval_gate_def g GateDeny
      by (auto simp: frame_simps f intro!: stage_quiet)
  qed
qed

subsection \<open>From the claim to the result\<close>

text \<open>The governance of the call after one more observation.\<close>

definition next_gov :: "governance_store \<Rightarrow> gateway_request \<Rightarrow> policy_decision \<Rightarrow> invocation_governance_state" where
  "next_gov st req d =
     (case load_governance_state st (gq_run_id req) (gq_tool_call_id req) of
        None \<Rightarrow> gov_start (gq_run_id req) (gq_tool_call_id req) d
      | Some g \<Rightarrow> accumulate g d)"

definition quiet :: "gw_world \<Rightarrow> gw_world \<times> (string + gateway_result) \<Rightarrow> bool" where
  "quiet w out \<longleftrightarrow> gw_calls (fst out) = gw_calls w \<and> (\<forall>r. snd out = Inr r \<longrightarrow> \<not> handler_ran r)"

definition ran_once :: "gateway_request \<Rightarrow> gw_world \<Rightarrow> gw_world \<times> (string + gateway_result) \<Rightarrow> bool" where
  "ran_once req w out \<longleftrightarrow> gw_calls (fst out) = gw_calls w @ [(gq_run_id req, gq_tool_call_id req, gq_capability_id req)]
     \<and> (\<exists>r. snd out = Inr r \<and> handler_ran r)"

text \<open>The whole pipeline either stops without touching the governance store, or records one decision
  \<open>d\<close> (one that satisfies \<open>D\<close>) and then stops, or records it and runs the handler with \<open>C\<close>.\<close>

definition pipeline_spec ::
  "(policy_decision \<Rightarrow> bool) \<Rightarrow> (policy_outcome \<Rightarrow> bool) \<Rightarrow> gateway_request \<Rightarrow> gw_world
     \<Rightarrow> gw_world \<times> (string + gateway_result) \<Rightarrow> bool" where
  "pipeline_spec D C req w out \<longleftrightarrow>
     gw_gov (fst out) = gw_gov w \<and> quiet w out \<or>
     (\<exists>d. D d \<and> gw_gov (fst out) = save_governance_state (gw_gov w) (next_gov (gw_gov w) req d)
        \<and> (quiet w out \<or> ran_once req w out \<and> C (outcome (accumulated (next_gov (gw_gov w) req d)))))"

lemma pipeline_mono:
  "pipeline_spec D C req w' out \<Longrightarrow> (\<And>d. D d \<Longrightarrow> D' d) \<Longrightarrow> (\<And>out. C out \<Longrightarrow> C' out) \<Longrightarrow>
   gw_gov w' = gw_gov w \<Longrightarrow> gw_calls w' = gw_calls w \<Longrightarrow> pipeline_spec D' C' req w out"
  unfolding pipeline_spec_def quiet_def ran_once_def by metis

lemma pipeline_quiet:
  "gw_gov w' = gw_gov w \<Longrightarrow> gw_calls w' = gw_calls w \<Longrightarrow> (\<And>r. res = Inr r \<Longrightarrow> \<not> handler_ran r) \<Longrightarrow> pipeline_spec D C req w (w', res)"
  by (simp add: pipeline_spec_def quiet_def)

lemma pipeline_stop: "\<not> handler_ran r \<Longrightarrow> pipeline_spec D C req w (w, Inr r)"
  by (simp add: pipeline_spec_def quiet_def)

definition late_gates :: "gw_env \<Rightarrow> gw_invocation \<Rightarrow> run_repo \<Rightarrow> policy_outcome \<Rightarrow> bool" where
  "late_gates env iv s out \<longleftrightarrow> gate_open (gi_req iv) out s \<and> (\<exists>now. grant_clear env iv now)
     \<and> ambient_clear (gi_req iv) \<and> live_authorised env iv"

lemma gate_open_cong: "approvals s = approvals t \<Longrightarrow> gate_open req out s = gate_open req out t"
  by (simp add: gate_open_def get_approval_by_tool_call_def)

lemma late_gates_cong: "approvals s = approvals t \<Longrightarrow> late_gates env iv s out = late_gates env iv t out"
  unfolding late_gates_def by (simp add: gate_open_cong [of s t])

lemma accumulate_stage:
  "pipeline_spec (\<lambda>x. x = d) (late_gates env iv (gw_repo w)) (gi_req iv) w (gw_accumulate env iv d w)"
proof -
  let ?gov = "next_gov (gw_gov w) (gi_req iv) d"
  let ?w = "w\<lparr>gw_gov := save_governance_state (gw_gov w) ?gov\<rparr>"
  have "gw_accumulate env iv d w = gw_approval_gate env iv d ?gov ?w"
    by (simp add: gw_accumulate_def next_gov_def Let_def)
  with gate_stage [of iv ?gov ?w env d] show ?thesis
    by (auto simp: pipeline_spec_def stage_spec_def quiet_def ran_once_def late_gates_def)
qed

lemma compliance_stage:
  "pipeline_spec (\<lambda>x. x = d) (\<lambda>out. deployment_approved (gi_req iv) \<and> late_gates env iv (gw_repo w) out) (gi_req iv) w
     (gw_compliance env iv d w)"
proof -
  obtain ok pl where a: "compliance_audit env (gi_req iv) (gi_workspace iv) d (ge_clock env (gw_tick w)) = (ok, pl)"
    by (rule prod.exhaust)
  have ok: "ok \<Longrightarrow> deployment_approved (gi_req iv)"
    using a by (auto simp: compliance_audit_def deployment_approved_def Let_def split: if_splits)
  have lg: "late_gates env iv (gw_repo (emit env rid et p w)) = late_gates env iv (gw_repo w)" for rid et p
    by (intro ext late_gates_cong) (simp add: frame_simps)
  show ?thesis
    unfolding gw_compliance_def a
    by (auto simp: frame_simps lg ok intro!: pipeline_quiet pipeline_mono [OF accumulate_stage] split: bool.split option.split)
qed

lemma policy_stage:
  "pipeline_spec (\<lambda>x. \<exists>tenant. tenant_verdict env iv = Inr tenant
        \<and> x = conjoin (ArgOutcome (capability_floor (cp_risk (gi_spec iv)) (cp_approval_policy (gi_spec iv)))) tenant)
     (\<lambda>out. deployment_approved (gi_req iv) \<and> late_gates env iv (gw_repo w) out) (gi_req iv) w (gw_policy env iv w)"
proof -
  have lg: "late_gates env iv (gw_repo (emit env rid et p w)) = late_gates env iv (gw_repo w)" for rid et p
    by (intro ext late_gates_cong) (simp add: frame_simps)
  show ?thesis
    unfolding gw_policy_def Let_def
    by (auto simp: frame_simps lg intro!: pipeline_quiet pipeline_mono [OF compliance_stage] split: sum.split)
qed

lemma try_claim_frame [frame_simps]: "approvals (fst (try_claim now c s)) = approvals s"
  by (auto simp: try_claim_def claim_idempotency_def retry_idempotency_claim_def Let_def
      split: option.split prod.splits sum.splits bool.splits if_splits)

text \<open>What the claim step hands to the policy step.\<close>

definition claim_granted :: "gw_env \<Rightarrow> gateway_request \<Rightarrow> nat \<Rightarrow> run_repo \<Rightarrow> idempotency_claim_record \<Rightarrow> bool" where
  "claim_granted env req n s cl \<longleftrightarrow>
     (\<exists>s' oc. try_claim (ge_clock env (n + 2)) (claim_of env req n) s = (s', Inr (oc, cl)) \<and> oc \<in> {IO_CLAIMED, IO_RETRIED})"

text \<open>The decision of a call: the floor of the capability conjoined with what the tenant policy said of it.\<close>

definition floor_decision :: "gw_env \<Rightarrow> gateway_request \<Rightarrow> capability_spec \<Rightarrow> policy_decision \<Rightarrow> bool" where
  "floor_decision env req spec d \<longleftrightarrow>
     (\<exists>iv tenant. gi_req iv = req \<and> tenant_verdict env iv = Inr tenant
        \<and> d = conjoin (ArgOutcome (capability_floor (cp_risk spec) (cp_approval_policy spec))) tenant)"

lemma idempotency_stage:
  "pipeline_spec (floor_decision env req (rg_spec reg))
     (\<lambda>out. deployment_approved req \<and> (\<exists>iv. gi_req iv = req \<and> gi_reg iv = reg \<and> claim_granted env req (gw_tick w) (gw_repo w) (gi_claim iv)
        \<and> late_gates env iv (gw_repo w) out)) req w (gw_idempotency env req reg ws target w)"
proof -
  obtain s' res where t: "try_claim (ge_clock env (gw_tick w + 2)) (claim_of env req (gw_tick w)) (gw_repo w) = (s', res)"
    by (rule prod.exhaust)
  have ap: "approvals s' = approvals (gw_repo w)" using try_claim_frame [of _ _ "gw_repo w"] t by (metis fst_conv)
  have run: "pipeline_spec (floor_decision env req (rg_spec reg))
      (\<lambda>out. deployment_approved req \<and> (\<exists>iv. gi_req iv = req \<and> gi_reg iv = reg \<and> claim_granted env req (gw_tick w) (gw_repo w) (gi_claim iv)
        \<and> late_gates env iv (gw_repo w) out)) req w (gw_policy env iv w2)"
    if "gi_req iv = req" "gi_reg iv = reg" "claim_granted env req (gw_tick w) (gw_repo w) (gi_claim iv)"
      "gw_gov w2 = gw_gov w" "gw_calls w2 = gw_calls w" "approvals (gw_repo w2) = approvals (gw_repo w)" for iv w2
    using pipeline_mono [OF policy_stage [of env iv w2], of "floor_decision env req (rg_spec reg)"
        "\<lambda>out. deployment_approved req \<and> (\<exists>iv. gi_req iv = req \<and> gi_reg iv = reg \<and> claim_granted env req (gw_tick w) (gw_repo w) (gi_claim iv)
        \<and> late_gates env iv (gw_repo w) out)" w] that late_gates_cong [OF that(6)]
    by (auto simp: floor_decision_def)
  show ?thesis
  proof (cases res)
    case (Inl e)
    show ?thesis unfolding gw_idempotency_def Let_def t Inl
      by (cases e) (auto intro!: pipeline_quiet)
  next
    case (Inr oc_cl)
    then obtain oc cl where r: "res = Inr (oc, cl)" by (cases oc_cl) auto
    then have "oc \<in> {IO_CLAIMED, IO_RETRIED} \<Longrightarrow> claim_granted env req (gw_tick w) (gw_repo w) cl"
      using t by (auto simp: claim_granted_def)
    then show ?thesis
      unfolding gw_idempotency_def Let_def t r
      by (cases oc) (auto simp: frame_simps ap handler_ran_def gw_result_def intro!: pipeline_quiet run)
  qed
qed


text \<open>The checks before the claim, and the claim itself, as one condition on the call.\<close>

definition early_gates :: "gw_env \<Rightarrow> gateway_request \<Rightarrow> gw_world \<Rightarrow> capability_registration \<Rightarrow> bool" where
  "early_gates env req w reg \<longleftrightarrow>
     get_capability (ge_registry env) (gq_capability_id req) = Some reg
     \<and> schema_accepts (cp_input_schema (rg_spec reg)) (gq_input_payload req)
     \<and> (\<exists>ws. verify_tenancy (ge_text env) (rg_spec reg) req = Inr ws
          \<and> fst (enablement_verdict env (rg_spec reg) req (py_str (ge_text env) ws) w))
     \<and> (let rd = check_readiness (ge_registry env) (ge_overrides env) (ge_health env) (gq_capability_id req)
        in rd_reason_code rd = MISSING_CREDENTIAL \<longrightarrow> rd_ready rd)"

text \<open>The conditions under which a call may reach its handler.\<close>

definition all_gates :: "gw_env \<Rightarrow> gateway_request \<Rightarrow> gw_world \<Rightarrow> capability_registration \<Rightarrow> policy_outcome \<Rightarrow> bool" where
  "all_gates env req w reg out \<longleftrightarrow>
     early_gates env req w reg \<and> deployment_approved req \<and>
     (\<exists>iv. gi_req iv = req \<and> gi_reg iv = reg
        \<and> claim_granted env req (gw_tick w + 1) (gw_repo w) (gi_claim iv) \<and> late_gates env iv (gw_repo w) out)"

definition registered_floor :: "gw_env \<Rightarrow> gateway_request \<Rightarrow> policy_decision \<Rightarrow> bool" where
  "registered_floor env req d \<longleftrightarrow>
     (\<exists>reg. get_capability (ge_registry env) (gq_capability_id req) = Some reg \<and> floor_decision env req (rg_spec reg) d)"

lemma failed_not_ran [simp]:
  "\<not> handler_ran ((gw_result tid ''failed'')\<lparr>gr_error_message := m\<rparr>)"
  "\<not> handler_ran ((gw_result tid ''failed'')\<lparr>gr_error_message := m, gr_failure := Some (TenancyFailure t)\<rparr>)"
  "\<not> handler_ran ((gw_result tid ''failed'')\<lparr>gr_validation_errors := es, gr_error_message := m\<rparr>)"
  by (simp_all add: handler_ran_def gw_result_def)

lemma enablement_denied_quiet: "pipeline_spec D C req w (gw_enablement_denied env req spec err (w\<lparr>gw_tick := n\<rparr>))"
  unfolding gw_enablement_denied_def Let_def by (intro pipeline_quiet) (auto simp: frame_simps)

lemma execute_stage:
  "pipeline_spec (registered_floor env req) (\<lambda>out. \<exists>reg. all_gates env req w reg out) req w (gw_execute env req w)"
proof (cases "get_capability (ge_registry env) (gq_capability_id req)")
  case None
  then show ?thesis by (simp add: gw_execute_def Let_def pipeline_stop)
next
  case (Some reg)
  let ?spec = "rg_spec reg"
  show ?thesis
  proof (cases "verify_tenancy (ge_text env) ?spec req")
    case (Inl msg)
    with Some show ?thesis by (simp add: gw_execute_def Let_def pipeline_stop)
  next
    case (Inr ws)
    let ?ok = "early_gates env req w reg"
    have run: "pipeline_spec (registered_floor env req) (\<lambda>out. \<exists>reg. all_gates env req w reg out) req w
        (gw_idempotency env req reg ws' target (w\<lparr>gw_tick := gw_tick w + 1\<rparr>))" if ?ok for ws' target
      using that Some
      by (intro pipeline_mono [OF idempotency_stage]) (auto simp: registered_floor_def all_gates_def)
    show ?thesis
      using Some Inr run
      by (auto simp: gw_execute_def Let_def early_gates_def validate_input_empty enablement_denied_quiet pipeline_stop
          split: prod.split bool.split)
  qed
qed


subsection \<open>Properties\<close>

text \<open>C1. Every side effect is authorised. A call to the gateway runs a handler at most once, and only the
  handler of the requested capability under the requested tool call; and when it does, every
  gate was open: the capability is registered, the input fits its schema, the tenancy is
  resolved, no credential is missing, the enablement is in force, the idempotency claim was
  granted to this invocation, the deployment is approved, the governance accumulated for the
  invocation is not a denial and, if it demands an approval, that approval is granted and bound
  to this checkpoint, the connector grant is verified, no ambient lock is set, and the live
  authorizer agreed. The result tells whether the handler ran.\<close>

theorem side_effect_authorised:
  "let (w', res) = gw_execute env req w in
     (gw_calls w' = gw_calls w \<and> (\<forall>r. res = Inr r \<longrightarrow> \<not> handler_ran r)) \<or>
     (gw_calls w' = gw_calls w @ [(gq_run_id req, gq_tool_call_id req, gq_capability_id req)]
      \<and> (\<exists>r. res = Inr r \<and> handler_ran r)
      \<and> (\<exists>reg d. floor_decision env req (rg_spec reg) d
           \<and> gw_gov w' = save_governance_state (gw_gov w) (next_gov (gw_gov w) req d)
           \<and> all_gates env req w reg (outcome (accumulated (next_gov (gw_gov w) req d)))))"
proof -
  obtain w' res where e: "gw_execute env req w = (w', res)" by (rule prod.exhaust)
  have reg: "floor_decision env req (rg_spec reg) d" if "registered_floor env req d" "all_gates env req w reg out" for reg d out
    using that by (auto simp: registered_floor_def all_gates_def early_gates_def)
  from execute_stage [of env req w] show ?thesis
    unfolding e pipeline_spec_def quiet_def ran_once_def using reg by fastforce
qed

subsection \<open>The gateway as a state machine\<close>

text \<open>Governance states are filed under their own invocation, and the gateway never files
  \<open>NON_APPROVABLE\<close>.\<close>

definition gov_inv :: "gw_world \<Rightarrow> bool" where
  "gov_inv w \<longleftrightarrow> (\<forall>rid tid g. load_governance_state (gw_gov w) rid tid = Some g \<longrightarrow>
     gs_run_id g = rid \<and> gs_tool_call_id g = tid \<and> outcome (accumulated g) \<noteq> NON_APPROVABLE)"

text \<open>The governance of every invocation only gets stricter, and calls are only ever added.\<close>

definition gov_le :: "gw_world \<Rightarrow> gw_world \<Rightarrow> bool" where
  "gov_le w w' \<longleftrightarrow> prefix (gw_calls w) (gw_calls w') \<and>
     (\<forall>rid tid g. load_governance_state (gw_gov w) rid tid = Some g \<longrightarrow>
        (\<exists>g'. load_governance_state (gw_gov w') rid tid = Some g' \<and> decision_rank (accumulated g) \<le> decision_rank (accumulated g')))"

lemma floor_decision_ok: "floor_decision env req spec d \<Longrightarrow> outcome d \<noteq> NON_APPROVABLE"
  using conjoin_never_non_approvable by (auto simp: floor_decision_def)

lemma accumulate_ok:
  "outcome (accumulated g) \<noteq> NON_APPROVABLE \<Longrightarrow> outcome d \<noteq> NON_APPROVABLE \<Longrightarrow>
   outcome (accumulated (accumulate g d)) \<noteq> NON_APPROVABLE \<and> decision_rank (accumulated g) \<le> decision_rank (accumulated (accumulate g d))
   \<and> decision_rank d \<le> decision_rank (accumulated (accumulate g d))"
  by (simp add: accumulate_def combine_decisions_def)

lemma next_gov_ok:
  assumes "gov_inv w" "outcome d \<noteq> NON_APPROVABLE"
  shows "gs_run_id (next_gov (gw_gov w) req d) = gq_run_id req" "gs_tool_call_id (next_gov (gw_gov w) req d) = gq_tool_call_id req"
    "outcome (accumulated (next_gov (gw_gov w) req d)) \<noteq> NON_APPROVABLE"
    "decision_rank d \<le> decision_rank (accumulated (next_gov (gw_gov w) req d))"
    "load_governance_state (gw_gov w) (gq_run_id req) (gq_tool_call_id req) = Some g \<Longrightarrow>
       decision_rank (accumulated g) \<le> decision_rank (accumulated (next_gov (gw_gov w) req d))"
  using assms accumulate_ok
  by (auto simp: next_gov_def gov_inv_def gov_start_def accumulate_def split: option.split)

text \<open>What one call does to the governance store.\<close>

lemma execute_gov:
  obtains (same) "gw_gov (fst (gw_execute env req w)) = gw_gov w" "gw_calls (fst (gw_execute env req w)) = gw_calls w"
  | (recorded) d where "registered_floor env req d" "outcome d \<noteq> NON_APPROVABLE"
      "gw_gov (fst (gw_execute env req w)) = save_governance_state (gw_gov w) (next_gov (gw_gov w) req d)"
      "gw_calls (fst (gw_execute env req w)) = gw_calls w \<or>
       gw_calls (fst (gw_execute env req w)) = gw_calls w @ [(gq_run_id req, gq_tool_call_id req, gq_capability_id req)]
         \<and> (\<exists>reg. all_gates env req w reg (outcome (accumulated (next_gov (gw_gov w) req d))))"
  using execute_stage [of env req w] floor_decision_ok
  unfolding pipeline_spec_def quiet_def ran_once_def registered_floor_def by metis

lemma gov_inv_step: "gov_inv w \<Longrightarrow> gov_inv (fst (gw_execute env req w))"
proof (cases rule: execute_gov [of env req w])
  case (recorded d)
  assume "gov_inv w"
  with recorded next_gov_ok [OF this recorded(2), of req] show ?thesis
    by (auto simp: gov_inv_def load_after_save_governance)
qed (simp add: gov_inv_def)

lemma gov_le_step: "gov_inv w \<Longrightarrow> gov_le w (fst (gw_execute env req w))"
proof (cases rule: execute_gov [of env req w])
  case (recorded d)
  assume inv: "gov_inv w"
  note ok = next_gov_ok [OF inv recorded(2), of req]
  have "prefix (gw_calls w) (gw_calls (fst (gw_execute env req w)))" using recorded(4) by auto
  with recorded(3) ok show ?thesis by (auto simp: gov_le_def load_after_save_governance)
qed (simp add: gov_le_def)

text \<open>Everything that happens to the state the gateway works on: calls, each with the environment of
  its moment (the policy, the grants and the locks may change in between), any operation of the
  run repository by another component, and changes of the enablements.\<close>

datatype gw_op = GwCall gw_env gateway_request | GwRepo run_op | GwEnable capability_enablement | GwRevoke string

fun gw_step :: "gw_op \<Rightarrow> gw_world \<Rightarrow> gw_world" where
  "gw_step (GwCall env req) w = fst (gw_execute env req w)"
| "gw_step (GwRepo op) w = w\<lparr>gw_repo := repo_step op (gw_repo w)\<rparr>"
| "gw_step (GwEnable e) w = w\<lparr>gw_enablements := save_enablement e (gw_enablements w)\<rparr>"
| "gw_step (GwRevoke eid) w = w\<lparr>gw_enablements := revoke_enablement eid (gw_enablements w)\<rparr>"

interpretation gateway: monotone_machine gw_step "\<lambda>_ _. True" gov_inv gov_le
proof unfold_locales
  show "gov_le s t \<Longrightarrow> gov_le t u \<Longrightarrow> gov_le s u" for s t u
    unfolding gov_le_def by (meson order_trans prefix_order.trans)
  show "gov_inv w \<Longrightarrow> gov_inv (gw_step op w)" for w op
    by (cases op) (simp_all add: gov_inv_step, simp_all add: gov_inv_def)
  show "gov_inv w \<Longrightarrow> gov_le w (gw_step op w)" for w op
    by (cases op) (simp_all add: gov_le_step, simp_all add: gov_le_def)
qed (simp add: gov_le_def)

lemma gov_inv_start: "gw_gov w = empty_governance_store \<Longrightarrow> gov_inv w"
  by (simp add: gov_inv_def empty_governance_store_def load_governance_state_def)

text \<open>C2. High risk needs a human. Whatever has happened before, starting with an empty governance store,
  a handler of a capability of high or critical risk, or with the policy "always approve", runs
  only if the approval filed for its tool call is approved and not bound to another checkpoint; no
  tenant policy can waive it.\<close>

theorem high_risk_needs_approval:
  assumes "gw_gov w0 = empty_governance_store" "w = fold gw_step ops w0"
    and "gw_calls (fst (gw_execute env req w)) \<noteq> gw_calls w"
    and "get_capability (ge_registry env) (gq_capability_id req) = Some reg"
    and "cp_risk (rg_spec reg) \<in> {HIGH, CRITICAL} \<or> cp_approval_policy (rg_spec reg) = ALWAYS"
  shows "\<exists>a. get_approval_by_tool_call (gq_tool_call_id req) (gw_repo w) = Some a \<and> ap_status a = ''approved''
    \<and> \<not> checkpoint_mismatch a (gq_checkpoint_ref req)"
proof -
  have inv: "gov_inv w" unfolding assms(2) using gov_inv_start [OF assms(1)] by (rule gateway.run_inv) simp
  show ?thesis
  proof (cases rule: execute_gov [of env req w])
    case same
    with assms(3) show ?thesis by simp
  next
    case (recorded d)
    note ok = next_gov_ok [OF inv recorded(2), of req]
    from recorded(4) assms(3) obtain reg' where gates: "all_gates env req w reg' (outcome (accumulated (next_gov (gw_gov w) req d)))"
      by blast
    have "outcome d \<in> {REQUIRE_APPROVAL, DENY}"
      using recorded(1) assms(4,5)
      by (auto simp: registered_floor_def floor_decision_def capability_floor_def conjoin_outcome_cases decision_def Let_def)
    with ok(3,4) have "outcome (accumulated (next_gov (gw_gov w) req d)) \<in> {REQUIRE_APPROVAL, DENY}"
      by (cases "outcome (accumulated (next_gov (gw_gov w) req d))") auto
    with gates show ?thesis by (auto simp: all_gates_def late_gates_def gate_open_def)
  qed
qed

text \<open>The handler calls of one invocation.\<close>

definition calls_of :: "string \<Rightarrow> string \<Rightarrow> gw_world \<Rightarrow> (string \<times> string \<times> string) list" where
  "calls_of rid tid w = filter (\<lambda>(r, t, c). r = rid \<and> t = tid) (gw_calls w)"

definition denied_inv :: "string \<Rightarrow> string \<Rightarrow> (string \<times> string \<times> string) list \<Rightarrow> gw_world \<Rightarrow> bool" where
  "denied_inv rid tid L w \<longleftrightarrow> gov_inv w \<and> calls_of rid tid w = L \<and>
     (\<exists>g. load_governance_state (gw_gov w) rid tid = Some g \<and> outcome (accumulated g) = DENY)"

lemma denied_inv_step: "denied_inv rid tid L w \<Longrightarrow> denied_inv rid tid L (fst (gw_execute env req w))"
proof -
  assume d: "denied_inv rid tid L w"
  then have inv: "gov_inv w" by (simp add: denied_inv_def)
  have inv': "gov_inv (fst (gw_execute env req w))" using inv by (rule gov_inv_step)
  obtain g where g: "load_governance_state (gw_gov w) rid tid = Some g" "outcome (accumulated g) = DENY"
    using d by (auto simp: denied_inv_def)
  from gov_le_step [OF inv, of env req] g(1) obtain g' where
    g': "load_governance_state (gw_gov (fst (gw_execute env req w))) rid tid = Some g'"
      "decision_rank (accumulated g) \<le> decision_rank (accumulated g')"
    unfolding gov_le_def by blast
  have "outcome (accumulated g') \<noteq> NON_APPROVABLE" using inv' g'(1) unfolding gov_inv_def by blast
  with g' g(2) have deny: "outcome (accumulated g') = DENY"
    by (cases "outcome (accumulated g')") simp_all
  have "calls_of rid tid (fst (gw_execute env req w)) = L"
  proof (cases rule: execute_gov [of env req w])
    case same
    with d show ?thesis by (simp add: denied_inv_def calls_of_def)
  next
    case (recorded dd)
    show ?thesis
    proof (cases "gq_run_id req = rid \<and> gq_tool_call_id req = tid")
      case True
      then have "next_gov (gw_gov w) req dd = g'"
        using recorded(3) g'(1) next_gov_ok(1,2) [OF inv recorded(2), of req] by (simp add: load_after_save_governance)
      then have "gw_calls (fst (gw_execute env req w)) = gw_calls w"
        using recorded(4) deny by (auto simp: all_gates_def late_gates_def gate_open_def)
      with d show ?thesis by (simp add: denied_inv_def calls_of_def)
    next
      case False
      with recorded(4) d show ?thesis by (auto simp: denied_inv_def calls_of_def)
    qed
  qed
  with inv' g' deny show ?thesis by (simp add: denied_inv_def)
qed

interpretation denied: state_machine gw_step "\<lambda>_ _. True" "denied_inv rid tid L" for rid tid L
proof unfold_locales
  show "denied_inv rid tid L w \<Longrightarrow> denied_inv rid tid L (gw_step op w)" for w op
    by (cases op) (simp_all add: denied_inv_step, simp_all add: denied_inv_def gov_inv_def calls_of_def)
qed

text \<open>C3. A denial is final. Once the governance accumulated for an invocation is a denial, no sequence
  of later events, with whatever decisions of the tenant policy and of the approvers, ever runs a
  handler for that invocation, and the governance stays a denial: it is durable and monotone.\<close>

theorem denial_is_final:
  assumes "gw_gov w0 = empty_governance_store" "w = fold gw_step ops w0"
    and "load_governance_state (gw_gov w) rid tid = Some g" "outcome (accumulated g) = DENY"
  shows "calls_of rid tid (fold gw_step ops' w) = calls_of rid tid w
    \<and> (\<exists>g'. load_governance_state (gw_gov (fold gw_step ops' w)) rid tid = Some g' \<and> outcome (accumulated g') = DENY)"
proof -
  have "gov_inv w" unfolding assms(2) using gov_inv_start [OF assms(1)] by (rule gateway.run_inv) simp
  with assms(3,4) have "denied_inv rid tid (calls_of rid tid w) w" by (simp add: denied_inv_def)
  then have "denied_inv rid tid (calls_of rid tid w) (fold gw_step ops' w)" by (rule denied.run_inv) simp
  then show ?thesis by (auto simp: denied_inv_def)
qed

subsection \<open>Witnesses\<close>

text \<open>A payment of high risk: the first call files an approval and waits, the reviewer approves it, and
  the second call runs the handler.\<close>

definition sample_spec :: capability_spec where
  "sample_spec = \<lparr>cp_id = ''pay'', cp_description = [], cp_input_schema = \<lparr>sc_required = [''amount''], sc_properties = [(''amount'', OneType ''integer'')]\<rparr>,
     cp_output_schema = [], cp_risk = HIGH, cp_approval_policy = POLICY_DRIVEN, cp_idempotency_semantics = [],
     cp_audit_policy = [], cp_eligibility = [], cp_connector_requirements = [], cp_metadata = []\<rparr>"

definition sample_env :: "(string + decision_arg) option \<Rightarrow> gw_env" where
  "sample_env verdict =
     \<lparr>ge_text = sample_text, ge_registry = [(''pay'', \<lparr>rg_spec = sample_spec, rg_handler = (\<lambda>p c t g. Inr (Some (PStr ''paid'')))\<rparr>)],
      ge_overrides = [], ge_health = None, ge_hash = (\<lambda>_. ''hash''),
      ge_policy = map_option (\<lambda>v _ _ _. v) verdict,
      ge_resolver = None, ge_authorizer = None, ge_clock = int, ge_uuid = (\<lambda>n. replicate n CHR ''u'')\<rparr>"

definition sample_request :: gateway_request where
  "sample_request = make_request_dict sample_text ''0'' ''r1'' ''pay'' [(''amount'', PInt 7)] ''alice'' (Some ''c1'') (Some ''t1'') None AUTONOMOUS
     (Some ''w1'') None"

definition sample_world :: gw_world where
  "sample_world = \<lparr>gw_repo = empty_repo, gw_gov = empty_governance_store, gw_enablements = [], gw_tick = 0, gw_calls = []\<rparr>"

definition approved_world :: gw_world where
  "approved_world = fold gw_step [GwCall (sample_env None) sample_request, GwRepo (OpDecide 5 ''appr_r1_t1'' ''boss'' True None None)]
     sample_world"

lemma approved_world_calls:
  "gw_calls (fst (gw_execute (sample_env None) sample_request approved_world)) = [(''r1'', ''t1'', ''pay'')]" "gw_calls approved_world = []"
  by code_simp+

lemma sample_start: "gw_gov sample_world = empty_governance_store" "gw_repo sample_world = empty_repo"
  by (simp_all add: sample_world_def)

text \<open>Witness of C1: the approved payment runs, and all gates were open.\<close>

theorem side_effect_authorised_witness:
  "\<exists>reg out. all_gates (sample_env None) sample_request approved_world reg out"
proof -
  obtain w' res where e: "gw_execute (sample_env None) sample_request approved_world = (w', res)" by (rule prod.exhaust)
  from side_effect_authorised [of "sample_env None" sample_request approved_world] approved_world_calls show ?thesis
    unfolding e by auto
qed

text \<open>Witness of C2: the approved payment of high risk.\<close>

theorem high_risk_needs_approval_witness:
  "\<exists>a. get_approval_by_tool_call ''t1'' (gw_repo approved_world) = Some a \<and> ap_status a = ''approved'' \<and> \<not> checkpoint_mismatch a ''c1''"
proof -
  have req: "gq_tool_call_id sample_request = ''t1''" "gq_checkpoint_ref sample_request = ''c1''"
    "get_capability (ge_registry (sample_env None)) (gq_capability_id sample_request) = Some \<lparr>rg_spec = sample_spec, rg_handler = (\<lambda>p c t g. Inr (Some (PStr ''paid'')))\<rparr>"
    by (simp_all add: sample_request_def make_request_dict_def Let_def or_else_def sample_env_def get_capability_def truthy_opt_def)
  have "gw_calls (fst (gw_execute (sample_env None) sample_request approved_world)) \<noteq> gw_calls approved_world"
    unfolding approved_world_calls by simp
  from high_risk_needs_approval [OF sample_start(1) approved_world_def this req(3)] show ?thesis
    by (simp add: req sample_spec_def)
qed

text \<open>Witness of C3: the tenant policy denied the payment once; neither a later allowance nor an approval
  of the reviewer brings it back.\<close>

theorem denial_is_final_witness:
  "calls_of ''r1'' ''t1''
     (fold gw_step [GwCall (sample_env None) sample_request, GwRepo (OpDecide 5 ''appr_r1_t1'' ''boss'' True None None),
         GwCall (sample_env None) sample_request]
        (fold gw_step [GwCall (sample_env (Some (Inr (ArgOutcome DENY)))) sample_request] sample_world)) = []"
proof -
  let ?w = "fold gw_step [GwCall (sample_env (Some (Inr (ArgOutcome DENY)))) sample_request] sample_world"
  have g: "load_governance_state (gw_gov ?w) ''r1'' ''t1'' =
      Some (gov_start ''r1'' ''t1'' (conjoin (ArgOutcome REQUIRE_APPROVAL) (ArgOutcome DENY)))"
    "outcome (accumulated (gov_start ''r1'' ''t1'' (conjoin (ArgOutcome REQUIRE_APPROVAL) (ArgOutcome DENY)))) = DENY"
    "calls_of ''r1'' ''t1'' ?w = []"
    by code_simp+
  from denial_is_final [OF sample_start(1) refl g(1,2)] g(3) show ?thesis by (simp del: fold.simps)
qed

end
