(* ===== verification/GatewayLedger.thy ===== *)
theory GatewayLedger
  imports GatewayProps
begin

text \<open>
  What a gateway call leaves behind: the tool call is filed with the status of the result, and the
  idempotency claim is completed, released or still held accordingly. From this follows that a
  completed call is never executed again.
\<close>

subsection \<open>The ledger\<close>

text \<open>How the claim is left for each final status of the call.\<close>

definition claim_settled :: "idempotency_claim_record \<Rightarrow> gateway_result \<Rightarrow> run_repo \<Rightarrow> run_repo \<Rightarrow> bool" where
  "claim_settled cl r s s' \<longleftrightarrow> idempotency_index s' = idempotency_index s \<and>
     (if gr_status r = ''completed'' then
        \<exists>now h. idempotency_claims s' = idempotency_claims (claim_complete now (cl_claim_id cl) (gr_output_payload r) h s)
      else if gr_status r = ''waiting_approval'' then idempotency_claims s' = idempotency_claims s
      else gr_status r \<in> {''denied'', ''failed''} \<and>
        (\<exists>now msg. idempotency_claims s' = idempotency_claims (claim_fail now (cl_claim_id cl) msg s)))"

text \<open>The tool call is filed with the status of the result.\<close>

definition call_filed :: "gw_invocation \<Rightarrow> gateway_result \<Rightarrow> run_repo \<Rightarrow> bool" where
  "call_filed iv r s \<longleftrightarrow>
     (\<exists>tc. dict_get (tool_calls s) (tc_tool_call_id (gi_tc iv)) = Some tc \<and> tc_status tc = gr_status r
        \<and> tc_output_payload tc = (if gr_status r = ''completed'' then gr_output_payload r else tc_output_payload (gi_tc iv))
        \<and> tc_execution_target_snapshot tc = tc_execution_target_snapshot (gi_tc iv))"

definition ledger_spec :: "gw_invocation \<Rightarrow> gw_world \<Rightarrow> gw_world \<times> (string + gateway_result) \<Rightarrow> bool" where
  "ledger_spec iv w out \<longleftrightarrow>
     (case snd out of
        Inr r \<Rightarrow> claim_settled (gi_claim iv) r (gw_repo w) (gw_repo (fst out)) \<and> call_filed iv r (gw_repo (fst out))
      | Inl e \<Rightarrow> idempotency_claims (gw_repo (fst out)) = idempotency_claims (gw_repo w)
          \<and> idempotency_index (gw_repo (fst out)) = idempotency_index (gw_repo w))"

lemma claim_writes_cong:
  "idempotency_claims s = idempotency_claims t \<Longrightarrow>
   idempotency_claims (claim_complete now cid out h s) = idempotency_claims (claim_complete now cid out h t)"
  "idempotency_claims s = idempotency_claims t \<Longrightarrow>
   idempotency_claims (claim_fail now cid msg s) = idempotency_claims (claim_fail now cid msg t)"
  by (simp_all add: claim_complete_def complete_idempotency_claim_def claim_fail_def fail_idempotency_claim_def Let_def
      split: option.split)

lemma claim_settled_cong:
  assumes "idempotency_claims s = idempotency_claims t" "idempotency_index s = idempotency_index t"
  shows "claim_settled cl r s s' = claim_settled cl r t s'"
  unfolding claim_settled_def by (simp only: claim_writes_cong [OF assms(1)] assms)

lemma ledger_cong:
  assumes "ledger_spec iv w out" "idempotency_claims (gw_repo w) = idempotency_claims (gw_repo w')"
    "idempotency_index (gw_repo w) = idempotency_index (gw_repo w')"
  shows "ledger_spec iv w' out"
  using assms unfolding ledger_spec_def by (simp add: claim_settled_cong [OF assms(2,3)] split: sum.splits)

lemma deny_call_repo:
  "idempotency_index (gw_repo (deny_call env iv err msg ev w)) = idempotency_index (gw_repo w)"
  "idempotency_claims (gw_repo (deny_call env iv err msg ev w)) =
     idempotency_claims (claim_fail (ge_clock env (gw_tick w)) (cl_claim_id (gi_claim iv)) msg (gw_repo w))"
  "\<exists>tc. dict_get (tool_calls (gw_repo (deny_call env iv err msg ev w))) (tc_tool_call_id (gi_tc iv)) = Some tc
     \<and> tc_status tc = ''denied'' \<and> tc_output_payload tc = tc_output_payload (gi_tc iv)
     \<and> tc_execution_target_snapshot tc = tc_execution_target_snapshot (gi_tc iv)"
proof -
  show "idempotency_index (gw_repo (deny_call env iv err msg ev w)) = idempotency_index (gw_repo w)"
    by (simp add: deny_call_def Let_def frame_simps split: option.split)
  show "idempotency_claims (gw_repo (deny_call env iv err msg ev w)) =
     idempotency_claims (claim_fail (ge_clock env (gw_tick w)) (cl_claim_id (gi_claim iv)) msg (gw_repo w))"
    by (cases ev) (auto simp: deny_call_def Let_def frame_simps intro!: claim_writes_cong)
  show "\<exists>tc. dict_get (tool_calls (gw_repo (deny_call env iv err msg ev w))) (tc_tool_call_id (gi_tc iv)) = Some tc
     \<and> tc_status tc = ''denied'' \<and> tc_output_payload tc = tc_output_payload (gi_tc iv)
     \<and> tc_execution_target_snapshot tc = tc_execution_target_snapshot (gi_tc iv)"
    by (cases ev; cases err) (simp_all add: deny_call_def Let_def frame_simps split_beta)
qed

lemma ledger_deny: "gr_status r = ''denied'' \<Longrightarrow> ledger_spec iv w (deny_call env iv err msg ev w, Inr r)"
  unfolding ledger_spec_def claim_settled_def call_filed_def
  using deny_call_repo(3) [of env iv err msg ev w] by (auto simp: deny_call_repo(1,2))

lemma denied_status [simp]: "gr_status (denied_result tid msg) = ''denied''"
  by (simp add: denied_result_def gw_result_def)

lemma ledgerI:
  assumes "idempotency_index (gw_repo w') = idempotency_index (gw_repo w)"
    and "dict_get (tool_calls (gw_repo w')) (tc_tool_call_id (gi_tc iv)) = Some tc" "tc_status tc = gr_status r"
      "tc_output_payload tc = (if gr_status r = ''completed'' then gr_output_payload r else tc_output_payload (gi_tc iv))"
      "tc_execution_target_snapshot tc = tc_execution_target_snapshot (gi_tc iv)"
    and "gr_status r = ''completed'' \<and> idempotency_claims (gw_repo w') =
           idempotency_claims (claim_complete now (cl_claim_id (gi_claim iv)) (gr_output_payload r) h (gw_repo w))
         \<or> gr_status r = ''failed'' \<and> idempotency_claims (gw_repo w') =
           idempotency_claims (claim_fail now (cl_claim_id (gi_claim iv)) msg (gw_repo w))"
  shows "ledger_spec iv w (w', Inr r)"
  using assms unfolding ledger_spec_def claim_settled_def call_filed_def by auto

lemma claim_writes_norm:
  "idempotency_claims (claim_fail now cid msg (gw_repo (save_tc tc w))) = idempotency_claims (claim_fail now cid msg (gw_repo w))"
  "idempotency_claims (claim_fail now cid msg (gw_repo (emit env rid et pl w))) = idempotency_claims (claim_fail now cid msg (gw_repo w))"
  "idempotency_claims (claim_complete now cid out h (gw_repo (save_tc tc w))) =
     idempotency_claims (claim_complete now cid out h (gw_repo w))"
  "idempotency_claims (claim_complete now cid out h (gw_repo (emit env rid et pl w))) =
     idempotency_claims (claim_complete now cid out h (gw_repo w))"
  by (rule claim_writes_cong, simp add: frame_simps)+

lemma handler_ledger: "ledger_spec iv w (gw_execute_handler env iv gov grant ctx ticket w)"
proof (cases "rg_handler (gi_reg iv) (gq_input_payload (gi_req iv)) (ctx_meta ctx) ticket grant")
  case (Inl exc)
  show ?thesis
    unfolding gw_execute_handler_def Let_def Inl sum.case
    by (rule ledgerI [OF _ _ _ _ _ disjI2], simp add: frame_simps, simp add: frame_simps, simp_all add: gw_result_def,
        simp add: frame_simps claim_writes_norm gw_result_def)
next
  case (Inr out)
  show ?thesis
    unfolding gw_execute_handler_def Let_def Inr sum.case
    by (rule ledgerI [OF _ _ _ _ _ disjI1], simp add: frame_simps, simp add: frame_simps, simp_all add: gw_result_def,
        simp add: frame_simps claim_writes_norm gw_result_def)
qed

lemma live_ledger: "ledger_spec iv w (gw_live_authorization env iv gov grant w)"
  unfolding gw_live_authorization_def Let_def
  by (auto simp: handler_ledger ledger_deny split: option.split sum.split) (simp add: ledger_spec_def)

lemma ambient_ledger: "ledger_spec iv w (gw_ambient_check env iv gov grant w)"
  unfolding gw_ambient_check_def Let_def
  by (auto simp: live_ledger ledger_deny split: prod.split bool.split)

lemma resolve_denied: "resolve_and_verify env conn req target now = GrantNo b detail res \<Longrightarrow> gr_status res = ''denied''"
  by (auto simp: resolve_and_verify_def Let_def denied_result_def gw_result_def
      split: option.splits sum.splits grant_failure.splits if_splits)

lemma grant_ledger: "ledger_spec iv w (gw_connector_grant env iv gov w)"
proof (cases "resolve_and_verify env (dict_get (cp_connector_requirements (gi_spec iv)) ''connector_id'') (gi_req iv)
    (gi_target iv) (ge_clock env (gw_tick w))")
  case (GrantOk grant t)
  then show ?thesis using ambient_ledger by (auto simp: gw_connector_grant_def intro!: ledger_cong [OF ambient_ledger])
next
  case (GrantNo b detail res)
  then show ?thesis
    using resolve_denied [OF GrantNo] by (auto simp: gw_connector_grant_def Let_def intro!: ledger_cong [OF ledger_deny])
qed

lemma decide_gate_repo:
  "idempotency_claims (gw_repo (fst (decide_gate env rid tid ckpt cap phash out d w))) = idempotency_claims (gw_repo w)"
  "idempotency_index (gw_repo (fst (decide_gate env rid tid ckpt cap phash out d w))) = idempotency_index (gw_repo w)"
  "snd (decide_gate env rid tid ckpt cap phash out d w) = GateWait res \<Longrightarrow>
     gr_status res = ''waiting_approval'' \<and> gr_output_payload res = None"
  "snd (decide_gate env rid tid ckpt cap phash out d w) = GateDeny res \<Longrightarrow> gr_status res = ''denied''"
  by (auto simp: decide_gate_def Let_def frame_simps create_approval_def gw_result_def split: if_splits)

lemma gate_ledger: "ledger_spec iv w (gw_approval_gate env iv d gov w)"
proof -
  obtain w1 g where g: "decide_gate env (gi_rid iv) (gi_tid iv) (gq_checkpoint_ref (gi_req iv)) (gi_cap iv)
      (gi_payload_hash iv) (outcome (accumulated gov)) d w = (w1, g)" by (rule prod.exhaust)
  note r = decide_gate_repo [of env "gi_rid iv" "gi_tid iv" "gq_checkpoint_ref (gi_req iv)" "gi_cap iv"
      "gi_payload_hash iv" "outcome (accumulated gov)" d w, unfolded g fst_conv snd_conv]
  show ?thesis
  proof (cases g)
    case GateExecute
    show ?thesis unfolding gw_approval_gate_def g GateExecute using r(1,2) by (auto intro: ledger_cong [OF grant_ledger])
  next
    case (GateWait res)
    with r show ?thesis unfolding gw_approval_gate_def g GateWait
      by (auto simp: ledger_spec_def claim_settled_def call_filed_def frame_simps)
  next
    case (GateDeny res)
    with r show ?thesis unfolding gw_approval_gate_def g GateDeny
      by (auto intro: ledger_cong [OF ledger_deny])
  qed
qed

lemma policy_ledger: "ledger_spec iv w (gw_policy env iv w)"
proof -
  have acc: "ledger_spec iv w' (gw_accumulate env iv d w')" for d w'
    unfolding gw_accumulate_def Let_def by (rule ledger_cong [OF gate_ledger]) simp_all
  have "ledger_spec iv w' (gw_compliance env iv d w')" for d w'
    unfolding gw_compliance_def
    by (auto simp: acc ledger_deny frame_simps intro!: ledger_cong [OF acc] split: prod.split bool.split option.split)
  from ledger_cong [OF this] show ?thesis
    unfolding gw_policy_def Let_def
    by (cases "tenant_verdict env iv") (simp add: ledger_spec_def, simp add: frame_simps)
qed


text \<open>What one call does to the claim table: nothing, if a check before the claim refuses it; otherwise
  the claim is requested, and a granted claim is settled according to the result.\<close>

definition claim_outcome ::
  "gateway_request \<Rightarrow> repo_error + idempotency_outcome \<times> idempotency_claim_record \<Rightarrow> run_repo
     \<Rightarrow> gw_world \<times> (string + gateway_result) \<Rightarrow> bool" where
  "claim_outcome req res s out \<longleftrightarrow>
     (case res of
        Inr (oc, cl) \<Rightarrow>
          if oc \<in> {IO_CACHED_COMPLETED, IO_IN_PROGRESS} then
            gw_repo (fst out) = s \<and>
            (\<exists>r. snd out = Inr r \<and> (oc = IO_CACHED_COMPLETED \<longrightarrow> gr_cached_idempotency r \<and> gr_output_payload r = cl_result_payload cl)
               \<and> gr_status r = (if oc = IO_CACHED_COMPLETED then ''completed'' else ''in_progress''))
          else \<exists>iv w2. gi_req iv = req \<and> gi_claim iv = cl \<and> idempotency_claims (gw_repo w2) = idempotency_claims s
            \<and> idempotency_index (gw_repo w2) = idempotency_index s \<and> ledger_spec iv w2 out
      | Inl e \<Rightarrow> gw_repo (fst out) = s \<and> (\<exists>m. snd out = Inl m))"

lemma idempotency_ledger:
  assumes "try_claim (ge_clock env (gw_tick w + 2)) (claim_of env req (gw_tick w)) (gw_repo w) = (s', res)"
  shows "claim_outcome req res s' (gw_idempotency env req reg ws target w)"
proof (cases res)
  case (Inl e)
  show ?thesis unfolding gw_idempotency_def Let_def assms Inl by (cases e) (simp_all add: claim_outcome_def)
next
  case (Inr oc_cl)
  obtain oc cl where r: "res = Inr (oc, cl)" using Inr by (cases oc_cl) auto
  show ?thesis
  proof (cases "oc \<in> {IO_CACHED_COMPLETED, IO_IN_PROGRESS}")
    case True
    then show ?thesis unfolding gw_idempotency_def Let_def assms r
      by (auto simp: claim_outcome_def gw_result_def)
  next
    case False
    then have oc: "oc = IO_CLAIMED \<or> oc = IO_RETRIED" by (cases oc) auto
    have wit: "claim_outcome req res s' (gw_policy env iv w2)"
      if "gi_req iv = req" "gi_claim iv = cl" "idempotency_claims (gw_repo w2) = idempotency_claims s'"
        "idempotency_index (gw_repo w2) = idempotency_index s'" for iv w2
      using that policy_ledger [of iv w2 env] False unfolding claim_outcome_def r by auto
    show ?thesis
      using oc wit unfolding gw_idempotency_def Let_def assms r
      by (elim disjE) (simp_all add: frame_simps)
  qed
qed

lemma execute_ledger:
  obtains (early) "idempotency_claims (gw_repo (fst (gw_execute env req w))) = idempotency_claims (gw_repo w)"
      "idempotency_index (gw_repo (fst (gw_execute env req w))) = idempotency_index (gw_repo w)"
      "\<And>r. snd (gw_execute env req w) = Inr r \<Longrightarrow> gr_status r \<in> {''failed'', ''denied''} \<and> gw_calls (fst (gw_execute env req w)) = gw_calls w"
  | (claim) s' res where
      "try_claim (ge_clock env (gw_tick w + 1 + 2)) (claim_of env req (gw_tick w + 1)) (gw_repo w) = (s', res)"
      "claim_outcome req res s' (gw_execute env req w)"
proof (cases "get_capability (ge_registry env) (gq_capability_id req)")
  case None
  then show ?thesis by (intro early) (auto simp: gw_execute_def Let_def gw_result_def)
next
  case (Some reg)
  let ?spec = "rg_spec reg"
  show ?thesis
  proof (cases "verify_tenancy (ge_text env) ?spec req")
    case (Inl msg)
    with Some show ?thesis by (intro early) (auto simp: gw_execute_def Let_def gw_result_def)
  next
    case (Inr ws)
    let ?w = "w\<lparr>gw_tick := gw_tick w + 1\<rparr>" and ?ws = "py_str (ge_text env) ws"
    obtain s' res where t: "try_claim (ge_clock env (gw_tick ?w + 2)) (claim_of env req (gw_tick ?w)) (gw_repo ?w) = (s', res)"
      by (rule prod.exhaust)
    consider (stop) r where "gw_execute env req w = (w, Inr r)" "gr_status r = ''failed''"
      | (off) err where "gw_execute env req w = gw_enablement_denied env req ?spec err ?w"
      | (on) "gw_execute env req w = gw_idempotency env req reg ?ws (target_of req ?spec) ?w"
    proof (cases "validate_input (ge_text env) ?spec (gq_input_payload req) \<noteq> [] \<or>
        (let rd = check_readiness (ge_registry env) (ge_overrides env) (ge_health env) (gq_capability_id req)
         in \<not> rd_ready rd \<and> rd_reason_code rd = MISSING_CREDENTIAL)")
      case True
      with Some Inr have "\<exists>r. gw_execute env req w = (w, Inr r) \<and> gr_status r = ''failed''"
        by (auto simp: gw_execute_def Let_def gw_result_def)
      with that(1) show thesis by blast
    next
      case False
      obtain b err where "enablement_verdict env ?spec req ?ws w = (b, err)" by (rule prod.exhaust)
      with False Some Inr have "gw_execute env req w = (if b then gw_idempotency env req reg ?ws (target_of req ?spec) ?w
          else gw_enablement_denied env req ?spec (or_else err ''None'') ?w)"
        by (cases b) (auto simp: gw_execute_def Let_def)
      with that(2,3) show thesis by (cases b) simp_all
    qed
    then show ?thesis
    proof cases
      case stop
      then show ?thesis by (intro early) simp_all
    next
      case off
      show ?thesis by (intro early; simp add: off gw_enablement_denied_def Let_def frame_simps denied_result_def gw_result_def)
    next
      case on
      show ?thesis using t idempotency_ledger [OF t, of reg ?ws "target_of req ?spec"] by (intro claim [of s' res]) (simp_all add: on)
    qed
  qed
qed

subsection \<open>A completed call is never executed again\<close>

text \<open>The environment's obligation: fresh identifiers for new claims, and the claims are settled by the
  gateway only.\<close>

definition fresh_claim :: "gw_env \<Rightarrow> gateway_request \<Rightarrow> gw_world \<Rightarrow> bool" where
  "fresh_claim env req w \<longleftrightarrow>
     dict_get (idempotency_claims (gw_repo w)) (cl_claim_id (claim_of env req (gw_tick w + 1))) = None"

fun gw_guard :: "gw_op \<Rightarrow> gw_world \<Rightarrow> bool" where
  "gw_guard (GwCall env req) w = fresh_claim env req w"
| "gw_guard (GwRepo op) w = (repo_guard op (gw_repo w) \<and> (\<forall>cid. spares_claim cid op))"
| "gw_guard _ w = True"

text \<open>The key of a call, under which its claim is filed.\<close>

definition call_key :: "gw_env \<Rightarrow> gateway_request \<Rightarrow> claim_key" where
  "call_key env req = (''RUN'', gq_run_id req, gq_capability_id req, idempotency_key_of env req)"

lemma claim_of_key: "claim_key_of (claim_of env req n) = call_key env req" "cl_status (claim_of env req n) = ''running''"
  by (simp_all add: claim_of_def new_claim_def claim_key_of_def call_key_def or_else_def truthy_opt_def)

text \<open>The key is held by a completed claim with the result \<open>out\<close>.\<close>

definition completed_as :: "claim_key \<Rightarrow> pyval option \<Rightarrow> run_repo \<Rightarrow> bool" where
  "completed_as key out s \<longleftrightarrow> claims_inv s \<and>
     (\<exists>cid c. dict_get (idempotency_index s) key = Some cid \<and> dict_get (idempotency_claims s) cid = Some c
        \<and> cl_status c = ''completed'' \<and> cl_result_payload c = out)"

lemma completed_as_cong:
  "idempotency_claims s = idempotency_claims t \<Longrightarrow> idempotency_index s = idempotency_index t \<Longrightarrow>
   completed_as key out s = completed_as key out t"
  by (simp add: completed_as_def claims_inv_def)

lemma claims_inv_try_claim:
  assumes "claims_inv s" "dict_get (idempotency_claims s) (cl_claim_id c) = None" "try_claim now c s = (s', res)"
  shows "claims_inv s'"
  using assms(1)
  by (cases rule: try_claim_cases [where c = c and now = now])
    (use assms in \<open>auto simp: claims_inv_claim claims_inv_rewrite\<close>)

lemma completed_as_try_claim:
  assumes hit: "completed_as key out s" and free: "dict_get (idempotency_claims s) (cl_claim_id c) = None"
    and t: "try_claim now c s = (s', res)"
  shows "completed_as key out s'"
proof -
  have inv: "claims_inv s" using hit by (simp add: completed_as_def)
  have inv': "claims_inv s'" using inv free t by (rule claims_inv_try_claim)
  from hit obtain cid e where e: "dict_get (idempotency_index s) key = Some cid" "dict_get (idempotency_claims s) cid = Some e"
    "cl_status e = ''completed''" "cl_result_payload e = out" unfolding completed_as_def by blast
  from inv have "dict_get (idempotency_index s') key = Some cid \<and> dict_get (idempotency_claims s') cid = Some e"
  proof (cases rule: try_claim_cases [where c = c and now = now])
    case fresh
    moreover have "claim_key_of c \<noteq> key" using fresh(1) e(1) by auto
    moreover have "cl_claim_id c \<noteq> cid" using free e(2) by auto
    ultimately show ?thesis using t e(1,2) by (auto simp: claim_idempotency_def)
  next
    case (retried r)
    then have "cl_claim_id r \<noteq> cid" using e(2,3) by auto
    then show ?thesis using retried t e(1,2) by (auto simp: retry_idempotency_claim_def Let_def)
  next
    case (held r)
    then show ?thesis using t e(1,2) by simp
  qed
  with e(3,4) inv' show ?thesis by (auto simp: completed_as_def)
qed

lemma claims_after_write:
  "dict_get (idempotency_claims (claim_complete now cid out h s)) k =
     (if k = cid then map_option (\<lambda>c. c\<lparr>cl_status := ''completed'', cl_result_payload := out, cl_result_hash := Some h,
        cl_updated_at := now\<rparr>) (dict_get (idempotency_claims s) cid) else dict_get (idempotency_claims s) k)"
  "dict_get (idempotency_claims (claim_fail now cid msg s)) k =
     (if k = cid then map_option (\<lambda>c. c\<lparr>cl_status := ''failed'', cl_error_message := Some msg, cl_updated_at := now\<rparr>)
        (dict_get (idempotency_claims s) cid) else dict_get (idempotency_claims s) k)"
  "idempotency_index (claim_complete now cid out h s) = idempotency_index s"
  "idempotency_index (claim_fail now cid msg s) = idempotency_index s"
  by (simp_all add: claim_complete_def complete_idempotency_claim_def claim_fail_def fail_idempotency_claim_def Let_def
      split: option.split)

lemma settle_as:
  assumes "claim_settled cl r s s'"
  obtains t where "idempotency_claims s' = idempotency_claims t" "idempotency_index s' = idempotency_index t"
    "t = s \<and> gr_status r \<noteq> ''completed'' \<or> (\<exists>now h. t = claim_complete now (cl_claim_id cl) (gr_output_payload r) h s)
     \<or> (\<exists>now m. t = claim_fail now (cl_claim_id cl) m s) \<and> gr_status r \<noteq> ''completed''"
proof (cases "gr_status r = ''completed''")
  case True
  then obtain now h where "idempotency_claims s' = idempotency_claims (claim_complete now (cl_claim_id cl) (gr_output_payload r) h s)"
      "idempotency_index s' = idempotency_index s"
    using assms unfolding claim_settled_def by auto
  then show thesis by (intro that [of "claim_complete now (cl_claim_id cl) (gr_output_payload r) h s"]) (auto simp: claims_after_write(3))
next
  case False
  then consider (kept) "idempotency_claims s' = idempotency_claims s" "idempotency_index s' = idempotency_index s"
    | (failed) now m where "idempotency_claims s' = idempotency_claims (claim_fail now (cl_claim_id cl) m s)" "idempotency_index s' = idempotency_index s"
    using assms unfolding claim_settled_def by (metis (no_types))
  then show thesis
  proof cases
    case kept
    with False show thesis by (intro that [of s]) simp_all
  next
    case failed
    with False show thesis by (intro that [of "claim_fail now (cl_claim_id cl) m s"]) (auto simp: claims_after_write(4))
  qed
qed

lemma settle_keys:
  assumes inv: "claims_inv s" and "claim_settled cl r s s'" "dict_get (idempotency_claims s) (cl_claim_id cl) = Some cl"
  shows "claims_inv s'" "gr_status r = ''completed'' \<Longrightarrow> completed_as (claim_key_of cl) (gr_output_payload r) s'"
    "completed_as key out s \<Longrightarrow> key \<noteq> claim_key_of cl \<Longrightarrow> completed_as key out s'"
proof -
  obtain t where t: "idempotency_claims s' = idempotency_claims t" "idempotency_index s' = idempotency_index t"
    "t = s \<and> gr_status r \<noteq> ''completed'' \<or> (\<exists>now h. t = claim_complete now (cl_claim_id cl) (gr_output_payload r) h s)
     \<or> (\<exists>now m. t = claim_fail now (cl_claim_id cl) m s) \<and> gr_status r \<noteq> ''completed''"
    using settle_as [OF assms(2)] .
  have "claims_inv t" using t(3) inv by (auto simp: claim_complete_def claim_fail_def claims_inv_rewrite)
  then show inv': "claims_inv s'" using claims_inv_frame t(1,2) by blast
  have idx: "dict_get (idempotency_index s) (claim_key_of cl) = Some (cl_claim_id cl)"
    using inv assms(3) unfolding claims_inv_def by blast
  show "completed_as (claim_key_of cl) (gr_output_payload r) s'" if "gr_status r = ''completed''"
    using t idx assms(3) inv' that by (auto simp: completed_as_def claims_after_write)
  show "completed_as key out s'" if "completed_as key out s" "key \<noteq> claim_key_of cl"
  proof -
    from that(1) obtain cid c where c: "dict_get (idempotency_index s) key = Some cid" "dict_get (idempotency_claims s) cid = Some c"
      "cl_status c = ''completed''" "cl_result_payload c = out" unfolding completed_as_def by blast
    have "claim_key_of c = key" using inv c(1,2) unfolding claims_inv_def by (metis option.inject)
    with that(2) assms(3) c(2) have "cid \<noteq> cl_claim_id cl" by auto
    with t c inv' show ?thesis by (auto simp: completed_as_def claims_after_write)
  qed
qed

lemma cached_outcome:
  assumes "completed_as (call_key env req) out (gw_repo w)"
    and "try_claim now (claim_of env req n) (gw_repo w) = (s', res)"
  shows "s' = gw_repo w \<and> (\<exists>cl. res = Inr (IO_CACHED_COMPLETED, cl) \<and> cl_result_payload cl = out)"
proof -
  from assms(1) obtain cid c where c: "dict_get (idempotency_index (gw_repo w)) (claim_key_of (claim_of env req n)) = Some cid"
    "dict_get (idempotency_claims (gw_repo w)) cid = Some c" "cl_status c = ''completed''" "cl_result_payload c = out"
    unfolding completed_as_def claim_of_key by blast
  with try_claim_held [OF c(1,2), of now] assms(2) show ?thesis by simp
qed

lemma settle_out:
  assumes "claims_inv s'" "dict_get (idempotency_claims s') (cl_claim_id cl) = Some cl"
    and "claim_outcome req (Inr (oc, cl)) s' (w1, res)" "oc \<in> {IO_CLAIMED, IO_RETRIED}"
  shows "claims_inv (gw_repo w1)"
    and "\<And>r. res = Inr r \<Longrightarrow> gr_status r = ''completed'' \<Longrightarrow> completed_as (claim_key_of cl) (gr_output_payload r) (gw_repo w1)"
    and "completed_as key out s' \<Longrightarrow> key \<noteq> claim_key_of cl \<Longrightarrow> completed_as key out (gw_repo w1)"
proof -
  obtain iv w2 where iv: "gi_claim iv = cl" "idempotency_claims (gw_repo w2) = idempotency_claims s'"
    "idempotency_index (gw_repo w2) = idempotency_index s'" "ledger_spec iv w2 (w1, res)"
    using assms(3,4) unfolding claim_outcome_def by (auto split: if_splits)
  have "if \<exists>r. res = Inr r then \<exists>r. res = Inr r \<and> claim_settled cl r s' (gw_repo w1)
        else idempotency_claims (gw_repo w1) = idempotency_claims s' \<and> idempotency_index (gw_repo w1) = idempotency_index s'"
    using iv(4) unfolding ledger_spec_def iv(1) claim_settled_cong [OF iv(2,3)] by (cases res) (simp_all add: iv)
  then consider r where "res = Inr r" "claim_settled cl r s' (gw_repo w1)"
    | "\<nexists>r. res = Inr r" "idempotency_claims (gw_repo w1) = idempotency_claims s'" "idempotency_index (gw_repo w1) = idempotency_index s'"
    by (auto split: if_splits)
  then have all: "claims_inv (gw_repo w1) \<and>
      (\<forall>r. res = Inr r \<longrightarrow> gr_status r = ''completed'' \<longrightarrow> completed_as (claim_key_of cl) (gr_output_payload r) (gw_repo w1)) \<and>
      (completed_as key out s' \<longrightarrow> key \<noteq> claim_key_of cl \<longrightarrow> completed_as key out (gw_repo w1))"
  proof cases
    case (1 r)
    then show ?thesis using settle_keys [OF assms(1) 1(2) assms(2)] by simp
  next
    case 2
    then show ?thesis using assms(1) claims_inv_frame [OF 2(2,3)] completed_as_cong [OF 2(2,3)] by simp
  qed
  then show "claims_inv (gw_repo w1)"
    and "\<And>r. res = Inr r \<Longrightarrow> gr_status r = ''completed'' \<Longrightarrow> completed_as (claim_key_of cl) (gr_output_payload r) (gw_repo w1)"
    and "completed_as key out s' \<Longrightarrow> key \<noteq> claim_key_of cl \<Longrightarrow> completed_as key out (gw_repo w1)"
    by simp_all
qed

lemma claim_of_held:
  assumes "claims_inv s" "try_claim now (claim_of env req n) s = (s', Inr (oc, cl))" "claims_inv s'"
  shows "dict_get (idempotency_claims s') (cl_claim_id cl) = Some cl" "claim_key_of cl = call_key env req"
    "(oc = IO_CACHED_COMPLETED) = (cl_status cl = ''completed'')"
    "dict_get (idempotency_index s') (call_key env req) = Some (cl_claim_id cl)"
proof -
  note after = try_claim_after [OF assms(1,2) claim_of_key(2), unfolded claim_of_key]
  show "dict_get (idempotency_claims s') (cl_claim_id cl) = Some cl" "(oc = IO_CACHED_COMPLETED) = (cl_status cl = ''completed'')"
    "dict_get (idempotency_index s') (call_key env req) = Some (cl_claim_id cl)" using after by auto
  show "claim_key_of cl = call_key env req" using after(1,2) assms(3) unfolding claims_inv_def by (metis option.inject)
qed

lemma claim_not_granted:
  assumes "claim_outcome req res s' (w1, r)" "\<nexists>oc cl. res = Inr (oc, cl) \<and> oc \<in> {IO_CLAIMED, IO_RETRIED}"
  shows "gw_repo w1 = s'"
proof (cases res)
  case (Inr oc_cl)
  then obtain oc cl where r: "res = Inr (oc, cl)" by (cases oc_cl) auto
  with assms(2) have "oc \<in> {IO_CACHED_COMPLETED, IO_IN_PROGRESS}" by (cases oc) auto
  with assms(1) show ?thesis by (simp add: claim_outcome_def r)
qed (use assms(1) in \<open>simp add: claim_outcome_def\<close>)

lemma completed_step:
  assumes hit: "completed_as key out (gw_repo w)" and free: "fresh_claim env req w"
  shows "completed_as key out (gw_repo (fst (gw_execute env req w)))"
proof (cases rule: execute_ledger [of env req w])
  case early
  then show ?thesis using hit completed_as_cong by metis
next
  case (claim s' res)
  have inv: "claims_inv (gw_repo w)" using hit by (simp add: completed_as_def)
  have s': "completed_as key out s'" using completed_as_try_claim [OF hit _ claim(1)] free by (simp add: fresh_claim_def)
  then have inv': "claims_inv s'" by (simp add: completed_as_def)
  obtain w1 r where e: "gw_execute env req w = (w1, r)" by (rule prod.exhaust)
  show ?thesis
  proof (cases "\<exists>oc cl. res = Inr (oc, cl) \<and> oc \<in> {IO_CLAIMED, IO_RETRIED}")
    case True
    then obtain oc cl where r: "res = Inr (oc, cl)" "oc \<in> {IO_CLAIMED, IO_RETRIED}" by blast
    note held = claim_of_held [OF inv claim(1) [unfolded r(1)] inv']
    have "key \<noteq> call_key env req"
    proof
      assume "key = call_key env req"
      with cached_outcome [OF _ claim(1)] hit r show False by auto
    qed
    with settle_out(3) [OF inv' held(1) _ r(2) s'] claim(2) held(2) show ?thesis by (simp add: e r(1))
  next
    case False
    with claim(2) have "gw_repo w1 = s'" unfolding e by (rule claim_not_granted)
    with s' show ?thesis by (simp add: e)
  qed
qed

lemma completed_first:
  assumes inv: "claims_inv (gw_repo w)" and "fresh_claim env req w"
    and e: "gw_execute env req w = (w1, Inr r)" "gr_status r = ''completed''"
  shows "completed_as (call_key env req) (gr_output_payload r) (gw_repo w1)"
proof (cases rule: execute_ledger [of env req w])
  case early
  then show ?thesis using e by simp
next
  case (claim s' res)
  have inv': "claims_inv s'" using claims_inv_try_claim [OF inv _ claim(1)] assms(2) by (simp add: fresh_claim_def)
  obtain oc cl where r: "res = Inr (oc, cl)" using claim(2) unfolding e claim_outcome_def by (cases res) auto
  note held = claim_of_held [OF inv claim(1) [unfolded r] inv']
  show ?thesis
  proof (cases "oc \<in> {IO_CLAIMED, IO_RETRIED}")
    case True
    with settle_out(2) [OF inv' held(1) _ True refl e(2)] claim(2) held(2) show ?thesis by (simp add: e r)
  next
    case False
    then have oc: "oc = IO_CACHED_COMPLETED \<or> oc = IO_IN_PROGRESS" by (cases oc) auto
    with claim(2) e(2) have "oc = IO_CACHED_COMPLETED" by (auto simp: claim_outcome_def e(1) r)
    with claim(2) have "oc = IO_CACHED_COMPLETED" "gw_repo w1 = s'" "gr_output_payload r = cl_result_payload cl"
      by (simp_all add: claim_outcome_def e(1) r)
    with held inv' show ?thesis by (auto simp: completed_as_def)
  qed
qed

interpretation settled: state_machine gw_step gw_guard "\<lambda>w. completed_as key out (gw_repo w)" for key out
proof unfold_locales
  fix w op assume hit: "completed_as key out (gw_repo w)" and g: "gw_guard op w"
  show "completed_as key out (gw_repo (gw_step op w))"
  proof (cases op)
    case (GwRepo rop)
    from hit obtain cid c where c: "claims_inv (gw_repo w)" "dict_get (idempotency_index (gw_repo w)) key = Some cid"
      "dict_get (idempotency_claims (gw_repo w)) cid = Some c" "cl_status c = ''completed''" "cl_result_payload c = out"
      unfolding completed_as_def by blast
    have rg: "repo_guard rop (gw_repo w)" "spares_claim cid rop" using g GwRepo by auto
    have "dict_get (idempotency_claims (repo_step rop (gw_repo w))) cid = Some c"
      using step_keeps_claim [OF rg c(3)] c(4) by simp
    moreover have inv': "claims_inv (repo_step rop (gw_repo w))" using c(1) rg(1) by (rule claims_inv_step)
    moreover have "claim_key_of c = key" using c(1-3) unfolding claims_inv_def by (metis option.inject)
    ultimately have "dict_get (idempotency_index (repo_step rop (gw_repo w))) key = Some cid"
      unfolding claims_inv_def by blast
    with \<open>dict_get (idempotency_claims (repo_step rop (gw_repo w))) cid = Some c\<close> inv' c(4,5) show ?thesis
      unfolding completed_as_def GwRepo by (auto simp del: repo_step.simps)
  qed (use hit g completed_step in auto)
qed

lemma claims_inv_execute:
  assumes inv: "claims_inv (gw_repo w)" and free: "fresh_claim env req w"
  shows "claims_inv (gw_repo (fst (gw_execute env req w)))"
proof (cases rule: execute_ledger [of env req w])
  case early
  then show ?thesis using inv claims_inv_frame by metis
next
  case (claim s' res)
  have inv': "claims_inv s'" using claims_inv_try_claim [OF inv _ claim(1)] free by (simp add: fresh_claim_def)
  obtain w1 r where e: "gw_execute env req w = (w1, r)" by (rule prod.exhaust)
  show ?thesis
  proof (cases "\<exists>oc cl. res = Inr (oc, cl) \<and> oc \<in> {IO_CLAIMED, IO_RETRIED}")
    case True
    then obtain oc cl where r: "res = Inr (oc, cl)" "oc \<in> {IO_CLAIMED, IO_RETRIED}" by blast
    note held = claim_of_held [OF inv claim(1) [unfolded r(1)] inv']
    show ?thesis using settle_out(1) [OF inv' held(1) _ r(2)] claim(2) by (simp add: e r(1))
  next
    case False
    with claim(2) have "gw_repo w1 = s'" unfolding e by (rule claim_not_granted)
    with inv' show ?thesis by (simp add: e)
  qed
qed

interpretation claims: state_machine gw_step gw_guard "\<lambda>w. claims_inv (gw_repo w)"
proof unfold_locales
  show "claims_inv (gw_repo w) \<Longrightarrow> gw_guard op w \<Longrightarrow> claims_inv (gw_repo (gw_step op w))" for w op
    by (cases op) (simp_all add: claims_inv_execute claims_inv_step del: repo_step.simps)
qed

lemma claims_inv_empty: "claims_inv empty_repo"
  using repo_inv_empty by (simp add: repo_inv_def)

text \<open>C4. A completed call is never executed again. Once a call has returned "completed", whatever happens
  afterwards (other calls, crashes of the caller, retries with another policy, operations of
  other components), a call of the same run and capability under the same idempotency key runs
  no handler: it is refused by a check before the claim, or it returns the first call's output,
  marked as cached.\<close>

theorem completed_never_rerun:
  assumes "gw_repo w0 = empty_repo" "admissible gw_guard gw_step ops0 w0" "w = fold gw_step ops0 w0"
    and "fresh_claim env req w" "gw_execute env req w = (w1, Inr r)" "gr_status r = ''completed''"
    and "admissible gw_guard gw_step ops w1" "w2 = fold gw_step ops w1"
    and "call_key env' req' = call_key env req" "gw_execute env' req' w2 = (w3, Inr r')"
  shows "gw_calls w3 = gw_calls w2 \<and>
    (gr_status r' \<in> {''failed'', ''denied''} \<or>
     gr_status r' = ''completed'' \<and> gr_cached_idempotency r' \<and> gr_output_payload r' = gr_output_payload r)"
proof -
  have "claims_inv (gw_repo w)" unfolding assms(3)
    using claims_inv_empty assms(2) by (intro claims.run_inv) (simp_all add: assms(1))
  then have "completed_as (call_key env req) (gr_output_payload r) (gw_repo w1)" using assms(4-6) by (rule completed_first)
  then have hit: "completed_as (call_key env' req') (gr_output_payload r) (gw_repo w2)"
    unfolding assms(8,9) using assms(7) by (rule settled.run_inv)
  have calls: "gw_calls w3 = gw_calls w2"
  proof (cases rule: execute_gov [of env' req' w2])
    case same
    then show ?thesis using assms(10) by simp
  next
    case (recorded d)
    have "\<not> claim_granted env' req' (gw_tick w2 + 1) (gw_repo w2) cl" for cl
    proof
      assume "claim_granted env' req' (gw_tick w2 + 1) (gw_repo w2) cl"
      then obtain s' oc where t: "try_claim (ge_clock env' (gw_tick w2 + 1 + 2)) (claim_of env' req' (gw_tick w2 + 1)) (gw_repo w2)
          = (s', Inr (oc, cl))" and oc: "oc \<in> {IO_CLAIMED, IO_RETRIED}" unfolding claim_granted_def by blast
      from cached_outcome [OF hit t] oc show False by simp
    qed
    with recorded(4) assms(10) show ?thesis unfolding all_gates_def by auto
  qed
  show ?thesis
  proof (cases rule: execute_ledger [of env' req' w2])
    case early
    with calls assms(10) show ?thesis by auto
  next
    case (claim s' res)
    from cached_outcome [OF hit claim(1)] obtain cl where
      "res = Inr (IO_CACHED_COMPLETED, cl)" "cl_result_payload cl = gr_output_payload r" by blast
    with claim(2) calls assms(10) show ?thesis by (simp add: claim_outcome_def)
  qed
qed


text \<open>Witness of C4: the payment is made once; the second request for it is answered from the claim.\<close>

theorem completed_never_rerun_witness:
  "let w1 = fst (gw_execute (sample_env None) sample_request approved_world);
       w2 = fold gw_step [GwRepo (OpAppendEvent (sample_event ''r1''))] w1
   in gw_calls (fst (gw_execute (sample_env None) sample_request w2)) = [(''r1'', ''t1'', ''pay'')]"
proof -
  let ?e = "sample_env None" and ?ops = "[GwRepo (OpAppendEvent (sample_event ''r1''))]"
  let ?w1 = "fst (gw_execute ?e sample_request approved_world)"
  let ?w2 = "fold gw_step ?ops ?w1"
  have adm: "admissible gw_guard gw_step
      [GwCall ?e sample_request, GwRepo (OpDecide 5 ''appr_r1_t1'' ''boss'' True None None)] sample_world"
    by (simp add: fresh_claim_def sample_world_def empty_repo_def del: repo_step.simps gw_step.simps)
  have fresh: "fresh_claim ?e sample_request approved_world" by code_simp
  let ?r = "(gw_result ''t1'' ''completed'')\<lparr>gr_output_payload := Some (PStr ''paid'')\<rparr>"
  let ?r' = "?r\<lparr>gr_cached_idempotency := True\<rparr>"
  have r: "snd (gw_execute ?e sample_request approved_world) = Inr ?r" "snd (gw_execute ?e sample_request ?w2) = Inr ?r'"
    "gr_status ?r = ''completed''"
    by code_simp+
  have e: "gw_execute ?e sample_request approved_world = (?w1, Inr ?r)" "gw_execute ?e sample_request ?w2 = (fst (gw_execute ?e sample_request ?w2), Inr ?r')"
    using r(1,2) by (simp_all only: prod_eq_iff fst_conv snd_conv)
  have adm': "admissible gw_guard gw_step ?ops ?w1" by simp
  have "gw_calls ?w2 = [(''r1'', ''t1'', ''pay'')]" using approved_world_calls(1) by simp
  with completed_never_rerun [OF sample_start(2) adm approved_world_def fresh e(1) r(3) adm' refl refl e(2)] show ?thesis
    by (simp add: Let_def del: fold.simps)
qed

end
