(* ===== verification/WorkflowSpec.thy ===== *)
theory WorkflowSpec
  imports Gateway
begin

text \<open>
  Workflow specifications (\<open>packages/agent/workflows/schema.py\<close>): the steps of a declarative workflow
  and the structural validation \<open>WorkflowSpec._validate_dag\<close>, with its depth-first cycle detection.
  The validation is shown to decide a declarative notion of well-formed graph.
\<close>

subsection \<open>Steps and specifications\<close>

datatype loop_terminal_state = LT_SUCCESS | LT_NOOP | LT_BLOCKED | LT_NEED_APPROVAL | LT_EXHAUSTED | LT_STAGNATED

datatype step_type =
    ST_TOOL_CALL | ST_AGENT | ST_DETERMINISTIC | ST_APPROVAL_GATE | ST_PARALLEL | ST_RETRY | ST_COMPENSATING | ST_ROUTER

record workflow_step_spec =
  ws_id :: string
  ws_name :: "string option"
  ws_type :: step_type
  ws_tool :: "string option"
  ws_inputs :: payload
  ws_depends_on :: "string list"
  ws_on_failure :: "string option"
  ws_compensate_with :: "string option"
  ws_output_key :: "string option"
  ws_agent_key :: "string option"
  ws_goal_key :: "string option"
  ws_action :: "string option"
  ws_handler :: "string option"
  ws_params :: payload
  ws_subject_key :: "string option"
  ws_permission_level :: "string option"
  ws_autonomy_level :: "string option"
  ws_capability_risk :: "string option"
  ws_project_agent_deployment_id :: "string option"
  ws_verifier_step_id :: "string option"
  ws_terminal_state :: "loop_terminal_state option"
  ws_metadata :: payload

record workflow_spec =
  wsp_id :: string
  wsp_name :: string
  wsp_description :: string
  wsp_version :: string
  wsp_steps :: "workflow_step_spec list"
  wsp_dependencies :: "string list"
  wsp_failure_policy :: payload
  wsp_compensation_policy :: payload
  wsp_input_schema :: payload
  wsp_output_schema :: payload
  wsp_metadata :: payload
  wsp_definition_hash :: "string option"

text \<open>\<open>get_step\<close>, \<open>compute_hash\<close>, \<open>with_hash\<close> and \<open>to_pinned_identity\<close>; the canonical hash of the dumped
  model is the parameter \<open>dh\<close>.\<close>

definition get_step :: "workflow_spec \<Rightarrow> string \<Rightarrow> workflow_step_spec option" where
  "get_step spec sid = List.find (\<lambda>s. ws_id s = sid) (wsp_steps spec)"

definition spec_hash :: "(workflow_spec \<Rightarrow> string) \<Rightarrow> workflow_spec \<Rightarrow> string" where
  "spec_hash dh spec = dh (spec\<lparr>wsp_definition_hash := None\<rparr>)"

definition with_hash :: "(workflow_spec \<Rightarrow> string) \<Rightarrow> workflow_spec \<Rightarrow> workflow_spec" where
  "with_hash dh spec = spec\<lparr>wsp_definition_hash := Some (spec_hash dh spec)\<rparr>"

definition to_pinned_identity :: "(workflow_spec \<Rightarrow> string) \<Rightarrow> workflow_spec \<Rightarrow> pinned_spec_identity" where
  "to_pinned_identity dh spec =
     \<lparr>spec_kind = KIND_workflow, spec_id = wsp_id spec, spec_version = wsp_version spec,
      spec_definition_hash = or_else (wsp_definition_hash spec) (spec_hash dh spec)\<rparr>"

subsection \<open>Cycle detection\<close>

text \<open>\<open>scan g ds vis stk\<close> is the loop of \<open>has_cycle\<close> over the dependencies \<open>ds\<close> of the node on top of the
  stack; the call \<open>has_cycle(d)\<close> is the inner \<open>scan\<close> with \<open>d\<close> marked and pushed, and the removal of \<open>d\<close>
  after it. The depth limit of Python's interpreter is not modelled.\<close>

definition successors :: "(string, string list) pydict \<Rightarrow> string \<Rightarrow> string list" where
  "successors g n = dict_get_or g n []"

definition graph_nodes :: "(string, string list) pydict \<Rightarrow> string set" where
  "graph_nodes g = set (dict_keys g) \<union> (\<Union>ds \<in> set (dict_values g). set ds)"

lemma finite_graph_nodes [simp]: "finite (graph_nodes g)"
  by (simp add: graph_nodes_def)

function scan :: "(string, string list) pydict \<Rightarrow> string list \<Rightarrow> string set \<Rightarrow> string set \<Rightarrow> bool \<times> string set \<times> string set" where
  "scan g [] vis stk = (False, vis, stk)"
| "scan g (d # ds) vis stk =
     (if d \<notin> vis then
        let r = scan g (successors g d) (insert d vis) (insert d stk)
        in if fst r then r else scan g ds (fst (snd r)) (snd (snd r) - {d})
      else if d \<in> stk then (True, vis, stk)
      else scan g ds vis stk)"
  by pat_completeness auto

lemma scan_visits: "scan_dom (g, ds, vis, stk) \<Longrightarrow> vis \<subseteq> fst (snd (scan g ds vis stk))"
proof (induction g ds vis stk rule: scan.pinduct)
  case (1 g vis stk)
  then show ?case by (simp add: scan.psimps(1))
next
  case (2 g d ds vis stk)
  show ?case
  proof (cases "d \<in> vis")
    case True
    with 2 show ?thesis unfolding scan.psimps(2) [OF 2(1)] by simp
  next
    case False
    with 2(2) [OF False] 2(3) [OF False refl] show ?thesis
      unfolding scan.psimps(2) [OF 2(1)] Let_def by auto
  qed
qed

text \<open>A node without entry in the graph has no successors, so the nodes still to visit are those of the
  graph and of the pending list.\<close>

lemma successors_nodes: "set (successors g n) \<subseteq> graph_nodes g"
proof (cases "dict_get g n")
  case (Some ds)
  then have "(n, ds) \<in> set g" by (rule map_of_SomeD)
  with Some show ?thesis by (force simp: successors_def dict_get_or_def graph_nodes_def)
qed (simp add: successors_def dict_get_or_def)

termination scan
proof (relation "measures [\<lambda>(g, ds, vis, stk). card (graph_nodes g \<union> set ds - vis), \<lambda>(g, ds, vis, stk). length ds]", goal_cases)
  case 1
  show ?case by simp
next
  case (2 g d ds vis stk)
  have "graph_nodes g \<union> set (successors g d) - insert d vis \<subset> graph_nodes g \<union> set (d # ds) - vis"
    using 2 successors_nodes [of g d] by auto
  then show ?case by (simp add: psubset_card_mono)
next
  case (3 g d ds vis stk r)
  have "insert d vis \<subseteq> fst (snd r)" unfolding 3(2) by (rule scan_visits [OF 3(4)])
  then have "graph_nodes g \<union> set ds - fst (snd r) \<subset> graph_nodes g \<union> set (d # ds) - vis" using 3(1) by auto
  then show ?case by (simp add: psubset_card_mono)
next
  case (4 g d ds vis stk)
  then have "graph_nodes g \<union> set ds - vis = graph_nodes g \<union> set (d # ds) - vis" by auto
  then show ?case by simp
qed

lemma scan_grows: "vis \<subseteq> fst (snd (scan g ds vis stk))"
proof (induction g ds vis stk rule: scan.induct)
  case (2 g d ds vis stk)
  show ?case
  proof (cases "d \<notin> vis")
    case True
    with 2(1) [OF True] 2(2) [OF True refl] show ?thesis by (auto simp: Let_def)
  next
    case False
    with 2(3) show ?thesis by auto
  qed
qed simp

text \<open>The outer loop over the step identifiers, and the identifier it raises the error for.\<close>

fun scan_roots :: "(string, string list) pydict \<Rightarrow> string list \<Rightarrow> string set \<Rightarrow> string set \<Rightarrow> string option" where
  "scan_roots g [] vis stk = None"
| "scan_roots g (r # rs) vis stk =
     (if r \<notin> vis then
        let x = scan g (successors g r) (insert r vis) (insert r stk)
        in if fst x then Some r else scan_roots g rs (fst (snd x)) (snd (snd x) - {r})
      else scan_roots g rs vis stk)"

subsection \<open>The search is correct\<close>

definition edges :: "(string, string list) pydict \<Rightarrow> (string \<times> string) set" where
  "edges g = {(u, v). v \<in> set (successors g u)}"

text \<open>The finished nodes: they are closed under the edges and lie on no cycle.\<close>

definition cleared :: "(string, string list) pydict \<Rightarrow> string set \<Rightarrow> bool" where
  "cleared g B \<longleftrightarrow> edges g `` B \<subseteq> B \<and> (\<forall>x \<in> B. (x, x) \<notin> (edges g)\<^sup>+)"

lemma cleared_trancl: "(x, y) \<in> (edges g)\<^sup>+ \<Longrightarrow> cleared g B \<Longrightarrow> x \<in> B \<Longrightarrow> y \<in> B"
  by (induction rule: trancl_induct) (auto simp: cleared_def)

lemma cleared_insert:
  assumes "cleared g B" "set (successors g d) \<subseteq> B" "d \<notin> B"
  shows "cleared g (insert d B)"
proof -
  have "(x, x) \<notin> (edges g)\<^sup>+" if "x \<in> insert d B" for x
  proof
    assume c: "(x, x) \<in> (edges g)\<^sup>+"
    show False
    proof (cases "x = d")
      case True
      obtain y where "(d, y) \<in> edges g" "(y, d) \<in> (edges g)\<^sup>*" using c True by (meson tranclD)
      then have "y \<in> B" "y = d \<or> (y, d) \<in> (edges g)\<^sup>+" using assms(2) by (auto simp: edges_def rtrancl_eq_or_trancl)
      with assms(3) cleared_trancl [OF _ assms(1)] show False by blast
    next
      case False
      with that assms(1) c show False by (auto simp: cleared_def)
    qed
  qed
  with assms(1,2) show ?thesis by (auto simp: cleared_def edges_def)
qed

text \<open>Without a cycle found, the stack is as before.\<close>

lemma scan_stack: "stk \<subseteq> vis \<Longrightarrow> \<not> fst (scan g ds vis stk) \<Longrightarrow> snd (snd (scan g ds vis stk)) = stk"
proof (induction g ds vis stk rule: scan.induct)
  case (2 g d ds vis stk)
  show ?case
  proof (cases "d \<notin> vis")
    case new: True
    let ?r = "scan g (successors g d) (insert d vis) (insert d stk)"
    have nr: "\<not> fst ?r" using 2(5) new by (auto simp: Let_def split: if_splits)
    have "snd (snd ?r) = insert d stk" using 2(1) [OF new] 2(4) nr by blast
    moreover have "d \<notin> stk" using new 2(4) by blast
    ultimately have st: "snd (snd ?r) - {d} = stk" by simp
    have "stk \<subseteq> fst (snd ?r)" using scan_grows [of "insert d vis" g "successors g d" "insert d stk"] 2(4) by blast
    then show ?thesis using 2(2) [OF new refl nr] 2(5) new nr st by (simp add: Let_def)
  next
    case False
    with 2 show ?thesis by (auto split: if_splits)
  qed
qed simp

lemma scan_finds_cycle:
  assumes "fst (scan g ds vis stk)" "stk \<subseteq> vis" "\<And>s d. s \<in> stk \<Longrightarrow> d \<in> set ds \<Longrightarrow> (s, d) \<in> (edges g)\<^sup>+"
  shows "\<exists>x. (x, x) \<in> (edges g)\<^sup>+"
  using assms
proof (induction g ds vis stk rule: scan.induct)
  case (2 g d ds vis stk)
  let ?r = "scan g (successors g d) (insert d vis) (insert d stk)"
  show ?case
  proof (cases "d \<notin> vis")
    case new: True
    have below: "(s, d') \<in> (edges g)\<^sup>+" if "s \<in> insert d stk" "d' \<in> set (successors g d)" for s d'
    proof -
      have "(d, d') \<in> edges g" using that(2) by (simp add: edges_def)
      with that(1) 2(6) [of s d] show ?thesis by (auto intro: trancl_into_trancl)
    qed
    show ?thesis
    proof (cases "fst ?r")
      case True
      then show ?thesis using 2(1) [OF new] below 2(5) by blast
    next
      case False
      have st: "snd (snd ?r) = insert d stk" using 2(5) False by (intro scan_stack) auto
      have "fst (scan g ds (fst (snd ?r)) (snd (snd ?r) - {d}))" using 2(4) new False by (simp add: Let_def)
      moreover have "(s, d') \<in> (edges g)\<^sup>+" if "s \<in> snd (snd ?r) - {d}" "d' \<in> set ds" for s d'
        using that st 2(6) by auto
      moreover have "snd (snd ?r) - {d} \<subseteq> fst (snd ?r)"
        using st scan_grows [of "insert d vis" g "successors g d" "insert d stk"] 2(5) by blast
      ultimately show ?thesis using 2(2) [OF new refl False] by blast
    qed
  next
    case False
    note old = this
    show ?thesis
    proof (cases "d \<in> stk")
      case True
      with 2(6) [of d d] show ?thesis by auto
    next
      case False
      with 2(3) [OF _ False] 2(4-6) old show ?thesis by auto
    qed
  qed
qed simp

lemma scan_clears:
  assumes "\<not> fst (scan g ds vis stk)" "stk \<subseteq> vis" "cleared g (vis - stk)"
  shows "cleared g (fst (snd (scan g ds vis stk)) - stk) \<and> set ds \<subseteq> fst (snd (scan g ds vis stk)) - stk"
  using assms
proof (induction g ds vis stk rule: scan.induct)
  case (2 g d ds vis stk)
  let ?r = "scan g (successors g d) (insert d vis) (insert d stk)"
  show ?case
  proof (cases "d \<notin> vis")
    case new: True
    let ?q = "scan g ds (fst (snd ?r)) (snd (snd ?r) - {d})"
    have nr: "\<not> fst ?r" and whole: "scan g (d # ds) vis stk = ?q"
      using 2(4) new by (auto simp: Let_def split: if_splits)
    have d: "d \<notin> stk" "insert d vis - insert d stk = vis - stk" using new 2(5) by auto
    have st: "snd (snd ?r) - {d} = stk" using scan_stack [of "insert d stk" "insert d vis" g "successors g d"] nr 2(5) d(1) by auto
    have r: "cleared g (fst (snd ?r) - insert d stk)" "set (successors g d) \<subseteq> fst (snd ?r) - insert d stk"
      using 2(1) [OF new nr] 2(5,6) d(2) by auto
    have grow: "insert d vis \<subseteq> fst (snd ?r)" by (rule scan_grows)
    have "insert d (fst (snd ?r) - insert d stk) = fst (snd ?r) - stk" using grow d(1) by auto
    with cleared_insert [OF r] have "cleared g (fst (snd ?r) - stk)" by simp
    moreover have "\<not> fst ?q" using 2(4) whole by simp
    moreover have "stk \<subseteq> fst (snd ?r)" using grow 2(5) by blast
    ultimately have "cleared g (fst (snd ?q) - stk) \<and> set ds \<subseteq> fst (snd ?q) - stk"
      using 2(2) [OF new refl nr] unfolding st by blast
    moreover have "d \<in> fst (snd ?q) - stk" using grow d(1) scan_grows [of "fst (snd ?r)" g ds "snd (snd ?r) - {d}"] by blast
    ultimately show ?thesis unfolding whole by simp
  next
    case False
    then have "d \<notin> stk" using 2(4) by (auto split: if_splits)
    with False 2 scan_grows [of vis g ds stk] show ?thesis by auto
  qed
qed simp

lemma scan_roots_cycle: "scan_roots g rs vis {} = Some r \<Longrightarrow> \<exists>x. (x, x) \<in> (edges g)\<^sup>+"
proof (induction rs arbitrary: vis)
  case (Cons q rs)
  let ?x = "scan g (successors g q) (insert q vis) {q}"
  show ?case
  proof (cases "q \<notin> vis \<and> fst ?x")
    case True
    then show ?thesis by (intro scan_finds_cycle [of g "successors g q" "insert q vis" "{q}"]) (auto simp: edges_def)
  next
    case False
    have "\<exists>vis'. scan_roots g rs vis' {} = Some r"
    proof (cases "q \<in> vis")
      case True
      with Cons.prems show ?thesis by auto
    next
      case new: False
      with False have st: "snd (snd ?x) - {q} = {}"
        using scan_stack [of "{q}" "insert q vis" g "successors g q"] by auto
      have "scan_roots g (q # rs) vis {} = scan_roots g rs (fst (snd ?x)) (snd (snd ?x) - {q})"
        using new False by (simp add: Let_def del: Diff_eq_empty_iff)
      with Cons.prems show ?thesis unfolding st by auto
    qed
    then obtain vis' where "scan_roots g rs vis' {} = Some r" by blast
    then show ?thesis by (rule Cons.IH)
  qed
qed simp

lemma scan_roots_clear:
  "scan_roots g rs vis {} = None \<Longrightarrow> cleared g vis \<Longrightarrow> \<exists>B. cleared g B \<and> vis \<union> set rs \<subseteq> B"
proof (induction rs arbitrary: vis)
  case (Cons q rs)
  let ?x = "scan g (successors g q) (insert q vis) {q}"
  show ?case
  proof (cases "q \<in> vis")
    case True
    with Cons.prems Cons.IH [of vis] show ?thesis by auto
  next
    case False
    then have nx: "\<not> fst ?x" "scan_roots g rs (fst (snd ?x)) (snd (snd ?x) - {q}) = None"
      using Cons.prems(1) by (auto simp: Let_def split: if_splits)
    have st: "snd (snd ?x) - {q} = {}" using scan_stack [of "{q}" "insert q vis" g "successors g q"] nx(1) by auto
    have c: "cleared g (fst (snd ?x) - {q})" "set (successors g q) \<subseteq> fst (snd ?x) - {q}"
      using scan_clears [OF nx(1)] Cons.prems(2) False by auto
    have "insert q vis \<subseteq> fst (snd ?x)" by (rule scan_grows)
    then have "insert q (fst (snd ?x) - {q}) = fst (snd ?x)" by auto
    with cleared_insert [OF c] have "cleared g (fst (snd ?x))" by simp
    with Cons.IH [of "fst (snd ?x)"] nx(2) \<open>insert q vis \<subseteq> fst (snd ?x)\<close> show ?thesis unfolding st by auto
  qed
qed (auto intro: exI [of _ vis])

text \<open>Started at all nodes, in any order, the search finds a cycle exactly when there is one.\<close>

lemma scan_roots_exact:
  assumes "graph_nodes g \<subseteq> set rs"
  shows "scan_roots g rs {} {} = None \<longleftrightarrow> acyclic (edges g)"
proof
  assume "scan_roots g rs {} {} = None"
  then obtain B where "cleared g B" "set rs \<subseteq> B" using scan_roots_clear [of g rs "{}"] by (auto simp: cleared_def)
  show "acyclic (edges g)"
  proof (rule acyclicI, rule allI, rule notI)
    fix x assume c: "(x, x) \<in> (edges g)\<^sup>+"
    then obtain y where "(x, y) \<in> edges g" by (meson tranclD)
    then obtain ds where "dict_get g x = Some ds"
      by (cases "dict_get g x") (auto simp: edges_def successors_def dict_get_or_def)
    then have "x \<in> graph_nodes g" by (auto simp: graph_nodes_def dest: map_of_SomeD intro: rev_image_eqI)
    with c \<open>cleared g B\<close> \<open>set rs \<subseteq> B\<close> assms show False by (auto simp: cleared_def)
  qed
next
  assume "acyclic (edges g)"
  then show "scan_roots g rs {} {} = None" using scan_roots_cycle [of g rs "{}"] by (cases "scan_roots g rs {} {}") (auto simp: acyclic_def)
qed

subsection \<open>The structural validation\<close>

datatype dag_error =
    NoSteps | AgentUnpinned string | DuplicateStepIds "string set" | NoForwardSteps
  | UnknownDependency string string | UnknownOnFailure string string | UnknownCompensateWith string string
  | DependencyCycle string | DependsOnCompensation string string

fun first_error :: "('a \<Rightarrow> 'e option) \<Rightarrow> 'a list \<Rightarrow> 'e option" where
  "first_error f [] = None"
| "first_error f (x # xs) = (case f x of None \<Rightarrow> first_error f xs | Some e \<Rightarrow> Some e)"

lemma first_error_None: "first_error f xs = None \<longleftrightarrow> (\<forall>x \<in> set xs. f x = None)"
  by (induction xs) (auto split: option.split)

definition step_ids :: "workflow_spec \<Rightarrow> string list" where
  "step_ids spec = map ws_id (wsp_steps spec)"

definition deployment_pin :: "workflow_step_spec \<Rightarrow> pyval" where
  "deployment_pin s =
     py_or (opt_val (ws_project_agent_deployment_id s))
       (py_or (ctx_get (ws_inputs s) ''project_agent_deployment_id'') (ctx_get (ws_metadata s) ''project_agent_deployment_id''))"

text \<open>\<open>{s.on_failure for s in self.steps if s.on_failure}\<close>.\<close>

definition compensation_targets :: "workflow_step_spec list \<Rightarrow> string set" where
  "compensation_targets steps = set (map the (filter truthy_opt (map ws_on_failure steps)))"

definition forward_steps :: "workflow_step_spec list \<Rightarrow> workflow_step_spec list" where
  "forward_steps steps = filter (\<lambda>s. ws_id s \<notin> compensation_targets steps) steps"

definition check_references :: "string set \<Rightarrow> workflow_step_spec \<Rightarrow> dag_error option" where
  "check_references ids s =
     (case List.find (\<lambda>d. d \<notin> ids) (ws_depends_on s) of
        Some d \<Rightarrow> Some (UnknownDependency (ws_id s) d)
      | None \<Rightarrow>
     (case ws_on_failure s of
        Some t \<Rightarrow>
          if t \<notin> ids then Some (UnknownOnFailure (ws_id s) t)
          else (case ws_compensate_with s of
                  Some c \<Rightarrow> if c \<notin> ids then Some (UnknownCompensateWith (ws_id s) c) else None
                | None \<Rightarrow> None)
      | None \<Rightarrow>
          (case ws_compensate_with s of
             Some c \<Rightarrow> if c \<notin> ids then Some (UnknownCompensateWith (ws_id s) c) else None
           | None \<Rightarrow> None)))"

text \<open>\<open>{s.id: s.depends_on for s in self.steps}\<close>.\<close>

definition depends_graph :: "workflow_step_spec list \<Rightarrow> (string, string list) pydict" where
  "depends_graph steps = fold (\<lambda>s g. dict_set (ws_id s) (ws_depends_on s) g) steps []"

text \<open>\<open>_validate_dag\<close>; \<open>order\<close> is the order in which the set of step identifiers is iterated.\<close>

definition validate_dag :: "string list \<Rightarrow> workflow_spec \<Rightarrow> dag_error option" where
  "validate_dag order spec =
     (let steps = wsp_steps spec; ids = step_ids spec; targets = compensation_targets steps in
      if steps = [] then Some NoSteps
      else
      case first_error (\<lambda>s. if ws_type s = ST_AGENT \<and> \<not> truthy (deployment_pin s) then Some (AgentUnpinned (ws_id s)) else None) steps of
        Some e \<Rightarrow> Some e
      | None \<Rightarrow>
      if \<not> distinct ids then Some (DuplicateStepIds {i \<in> set ids. 1 < count_list ids i})
      else if forward_steps steps = [] then Some NoForwardSteps
      else
      case first_error (check_references (set ids)) steps of
        Some e \<Rightarrow> Some e
      | None \<Rightarrow>
      case scan_roots (depends_graph steps) order {} {} of
        Some r \<Rightarrow> Some (DependencyCycle r)
      | None \<Rightarrow>
        first_error
          (\<lambda>s. if ws_id s \<in> targets then None
               else map_option (DependsOnCompensation (ws_id s)) (List.find (\<lambda>d. d \<in> targets) (ws_depends_on s)))
          steps)"

subsection \<open>Well-formed workflow graphs\<close>

definition depends :: "workflow_step_spec list \<Rightarrow> (string \<times> string) set" where
  "depends steps = {(ws_id s, d) |s d. s \<in> set steps \<and> d \<in> set (ws_depends_on s)}"

definition well_formed_dag :: "workflow_spec \<Rightarrow> bool" where
  "well_formed_dag spec \<longleftrightarrow>
     (let steps = wsp_steps spec; ids = set (step_ids spec) in
      steps \<noteq> [] \<and> distinct (step_ids spec)
      \<and> (\<forall>s \<in> set steps. ws_type s = ST_AGENT \<longrightarrow> truthy (deployment_pin s))
      \<and> (\<exists>s \<in> set steps. \<forall>t \<in> set steps. ws_on_failure t \<noteq> Some (ws_id s) \<or> ws_id s = [])
      \<and> (\<forall>s \<in> set steps. set (ws_depends_on s) \<union> set_option (ws_on_failure s) \<union> set_option (ws_compensate_with s) \<subseteq> ids)
      \<and> acyclic (depends steps)
      \<and> (\<forall>s \<in> set (forward_steps steps). set (ws_depends_on s) \<inter> compensation_targets steps = {}))"

lemma compensation_targets_iff: "c \<in> compensation_targets steps \<longleftrightarrow> c \<noteq> [] \<and> (\<exists>t \<in> set steps. ws_on_failure t = Some c)"
  by (force simp: compensation_targets_def truthy_opt_def split: option.splits)

lemma depends_graph_map:
  "distinct (map ws_id steps) \<Longrightarrow> depends_graph steps = map (\<lambda>s. (ws_id s, ws_depends_on s)) steps"
proof -
  have "distinct (dict_keys g @ map ws_id steps) \<Longrightarrow>
    fold (\<lambda>s g. dict_set (ws_id s) (ws_depends_on s) g) steps g = g @ map (\<lambda>s. (ws_id s, ws_depends_on s)) steps" for g
  proof (induction steps arbitrary: g)
    case (Cons s steps)
    then have "dict_get g (ws_id s) = None" by (simp add: map_of_eq_None_iff)
    then have "dict_set (ws_id s) (ws_depends_on s) g = g @ [(ws_id s, ws_depends_on s)]" by (rule dict_set_absent)
    with Cons show ?case by simp
  qed simp
  from this [of "[]"] show "distinct (map ws_id steps) \<Longrightarrow> ?thesis" by (simp add: depends_graph_def)
qed

lemma edges_depends_graph:
  assumes "distinct (map ws_id steps)"
  shows "edges (depends_graph steps) = depends steps"
proof -
  have d: "distinct (map fst (map (\<lambda>s. (ws_id s, ws_depends_on s)) steps))" using assms by (simp add: comp_def)
  have "v \<in> set (successors (depends_graph steps) u) \<longleftrightarrow> (\<exists>ds. dict_get (depends_graph steps) u = Some ds \<and> v \<in> set ds)" for u v
    by (cases "dict_get (depends_graph steps) u") (simp_all add: successors_def dict_get_or_def)
  then show ?thesis
    unfolding edges_def depends_def depends_graph_map [OF assms] map_of_eq_Some_iff [OF d] by auto
qed

lemma depends_graph_nodes:
  "distinct (map ws_id steps) \<Longrightarrow>
   graph_nodes (depends_graph steps) = set (map ws_id steps) \<union> (\<Union>s \<in> set steps. set (ws_depends_on s))"
  by (auto simp: graph_nodes_def depends_graph_map)

lemma check_references_None:
  "check_references ids s = None \<longleftrightarrow>
     set (ws_depends_on s) \<union> set_option (ws_on_failure s) \<union> set_option (ws_compensate_with s) \<subseteq> ids"
proof (cases "List.find (\<lambda>d. d \<notin> ids) (ws_depends_on s)")
  case None
  then have "set (ws_depends_on s) \<subseteq> ids" by (auto simp: find_None_iff)
  with None show ?thesis by (auto simp: check_references_def split: option.split)
next
  case (Some d)
  with find_Some_iff_mem [OF Some] show ?thesis by (auto simp: check_references_def)
qed

text \<open>C18. The validation decides well-formedness. Whatever the order in which Python iterates the set of
  step identifiers, \<open>_validate_dag\<close> accepts a specification exactly when it has steps with distinct
  identifiers, every agent step is pinned to a deployment, some step is not a compensation target,
  all references name steps, the dependencies are acyclic, and no forward step waits for a
  compensation target.\<close>

theorem validate_dag_exact:
  assumes "set order = set (step_ids spec)"
  shows "validate_dag order spec = None \<longleftrightarrow> well_formed_dag spec"
proof -
  let ?steps = "wsp_steps spec"
  have fwd: "forward_steps ?steps = [] \<longleftrightarrow> \<not> (\<exists>s \<in> set ?steps. \<forall>t \<in> set ?steps. ws_on_failure t \<noteq> Some (ws_id s) \<or> ws_id s = [])"
    by (auto simp: forward_steps_def filter_empty_conv compensation_targets_iff)
  have comp: "first_error (\<lambda>s. if ws_id s \<in> compensation_targets ?steps then None
        else map_option (DependsOnCompensation (ws_id s)) (List.find (\<lambda>d. d \<in> compensation_targets ?steps) (ws_depends_on s))) ?steps = None
      \<longleftrightarrow> (\<forall>s \<in> set (forward_steps ?steps). set (ws_depends_on s) \<inter> compensation_targets ?steps = {})"
    by (auto simp: first_error_None forward_steps_def find_None_iff)
  have cyc: "scan_roots (depends_graph ?steps) order {} {} = None \<longleftrightarrow> acyclic (depends ?steps)"
    if "distinct (map ws_id ?steps)" "first_error (check_references (set (step_ids spec))) ?steps = None"
  proof -
    have "graph_nodes (depends_graph ?steps) \<subseteq> set order"
      unfolding depends_graph_nodes [OF that(1)] assms using that(2)
      by (auto simp: first_error_None check_references_None step_ids_def)
    from scan_roots_exact [OF this] show ?thesis by (simp add: edges_depends_graph [OF that(1)])
  qed
  have "validate_dag order spec = None \<longleftrightarrow> ?steps \<noteq> []
      \<and> first_error (\<lambda>s. if ws_type s = ST_AGENT \<and> \<not> truthy (deployment_pin s) then Some (AgentUnpinned (ws_id s)) else None) ?steps = None
      \<and> distinct (map ws_id ?steps) \<and> forward_steps ?steps \<noteq> []
      \<and> first_error (check_references (set (step_ids spec))) ?steps = None
      \<and> scan_roots (depends_graph ?steps) order {} {} = None
      \<and> first_error (\<lambda>s. if ws_id s \<in> compensation_targets ?steps then None
        else map_option (DependsOnCompensation (ws_id s)) (List.find (\<lambda>d. d \<in> compensation_targets ?steps) (ws_depends_on s))) ?steps = None"
    by (simp add: validate_dag_def Let_def step_ids_def split: option.split)
  also have "\<dots> \<longleftrightarrow> ?steps \<noteq> []
      \<and> (\<forall>s \<in> set ?steps. ws_type s = ST_AGENT \<longrightarrow> truthy (deployment_pin s))
      \<and> distinct (map ws_id ?steps)
      \<and> (\<exists>s \<in> set ?steps. \<forall>t \<in> set ?steps. ws_on_failure t \<noteq> Some (ws_id s) \<or> ws_id s = [])
      \<and> (\<forall>s \<in> set ?steps. set (ws_depends_on s) \<union> set_option (ws_on_failure s) \<union> set_option (ws_compensate_with s) \<subseteq> set (step_ids spec))
      \<and> acyclic (depends ?steps)
      \<and> (\<forall>s \<in> set (forward_steps ?steps). set (ws_depends_on s) \<inter> compensation_targets ?steps = {})"
    unfolding comp using cyc by (auto simp: fwd first_error_None check_references_None)
  finally show ?thesis by (auto simp: well_formed_dag_def step_ids_def Let_def)
qed

text \<open>Witness of C18: a diamond is accepted and well formed; with an edge back to its top it is neither.\<close>

definition sample_step :: "string \<Rightarrow> string list \<Rightarrow> workflow_step_spec" where
  "sample_step i deps =
     \<lparr>ws_id = i, ws_name = None, ws_type = ST_DETERMINISTIC, ws_tool = None, ws_inputs = [], ws_depends_on = deps,
      ws_on_failure = None, ws_compensate_with = None, ws_output_key = None, ws_agent_key = None, ws_goal_key = None,
      ws_action = None, ws_handler = None, ws_params = [], ws_subject_key = None, ws_permission_level = None,
      ws_autonomy_level = None, ws_capability_risk = None, ws_project_agent_deployment_id = None,
      ws_verifier_step_id = None, ws_terminal_state = None, ws_metadata = []\<rparr>"

definition sample_spec_of :: "workflow_step_spec list \<Rightarrow> workflow_spec" where
  "sample_spec_of steps =
     \<lparr>wsp_id = ''wf'', wsp_name = ''wf'', wsp_description = [], wsp_version = ''1.0.0'', wsp_steps = steps,
      wsp_dependencies = [], wsp_failure_policy = [], wsp_compensation_policy = [], wsp_input_schema = [],
      wsp_output_schema = [], wsp_metadata = [], wsp_definition_hash = None\<rparr>"

definition diamond :: "string list \<Rightarrow> workflow_spec" where
  "diamond deps = sample_spec_of
     [sample_step ''a'' deps, sample_step ''b'' [''a''], sample_step ''c'' [''a''], sample_step ''d'' [''b'', ''c'']]"

theorem validate_dag_exact_witness:
  "well_formed_dag (diamond []) \<and> \<not> well_formed_dag (diamond [''d''])"
proof -
  have o: "set [''d'', ''c'', ''b'', ''a''] = set (step_ids (diamond deps))" for deps
    by (auto simp: diamond_def sample_spec_of_def sample_step_def step_ids_def)
  have "validate_dag [''d'', ''c'', ''b'', ''a''] (diamond []) = None" "validate_dag [''d'', ''c'', ''b'', ''a''] (diamond [''d'']) \<noteq> None"
    by code_simp+
  then show ?thesis unfolding validate_dag_exact [OF o] by blast
qed

subsection \<open>A well-formed graph never blocks\<close>

lemma forward_dep:
  assumes "well_formed_dag spec" "s \<in> set (forward_steps (wsp_steps spec))" "d \<in> set (ws_depends_on s)"
  obtains t where "t \<in> set (forward_steps (wsp_steps spec))" "ws_id t = d"
proof -
  have s: "s \<in> set (wsp_steps spec)" using assms(2) by (simp add: forward_steps_def)
  with assms have "d \<in> set (step_ids spec)" "d \<notin> compensation_targets (wsp_steps spec)"
    unfolding well_formed_dag_def Let_def by blast+
  then show thesis using that by (auto simp: step_ids_def forward_steps_def)
qed

lemma finite_depends: "finite (depends steps)"
proof -
  have "depends steps = (\<Union>s \<in> set steps. (\<lambda>d. (ws_id s, d)) ` set (ws_depends_on s))" by (auto simp: depends_def)
  then show ?thesis by simp
qed

text \<open>As long as a forward step is open, one of the open steps has all its dependencies done.\<close>

lemma ready_exists:
  assumes wf: "well_formed_dag spec" and "s \<in> set (forward_steps (wsp_steps spec))" "ws_id s \<notin> C"
  shows "\<exists>t \<in> set (forward_steps (wsp_steps spec)). ws_id t \<notin> C \<and> set (ws_depends_on t) \<subseteq> C"
proof -
  let ?open = "ws_id ` {t \<in> set (forward_steps (wsp_steps spec)). ws_id t \<notin> C}"
  have "acyclic (depends (wsp_steps spec))" using wf by (simp add: well_formed_dag_def Let_def)
  then have "wf ((depends (wsp_steps spec))\<inverse>)" by (intro finite_acyclic_wf_converse finite_depends)
  moreover have "ws_id s \<in> ?open" using assms(2,3) by blast
  ultimately obtain i where i: "i \<in> ?open" "\<And>j. (j, i) \<in> (depends (wsp_steps spec))\<inverse> \<Longrightarrow> j \<notin> ?open"
    by (rule wfE_min) auto
  then obtain t where t: "t \<in> set (forward_steps (wsp_steps spec))" "ws_id t \<notin> C" "i = ws_id t" by blast
  have "d \<in> C" if d: "d \<in> set (ws_depends_on t)" for d
  proof (rule ccontr)
    assume "d \<notin> C"
    obtain u where u: "u \<in> set (forward_steps (wsp_steps spec))" "ws_id u = d" using forward_dep [OF wf t(1) d] .
    have "(d, i) \<in> (depends (wsp_steps spec))\<inverse>" using t(1,3) d by (auto simp: depends_def forward_steps_def)
    with i(2) u \<open>d \<notin> C\<close> show False by blast
  qed
  with t(1,2) show ?thesis by blast
qed


end
