(* ===== verification/WorkflowEngine.thy ===== *)
theory WorkflowEngine
  imports WorkflowSpec
begin

text \<open>
  The workflow engine (\<open>packages/agent/workflows/engine.py\<close>, \<open>models.py\<close>): the workflow record and its
  transitions, the linear pipeline (\<open>start\<close>, \<open>resume\<close>) and the declarative execution of a dependency
  graph (\<open>execute_spec\<close>, \<open>resume_spec\<close>). A step is a record of what the engine uses of it. Its
  \<open>run\<close> gets the workflow state and the world (everything outside the workflow) and returns both as it
  leaves them, with an outcome or the exception it raised; whether the engine keeps the state the step
  has written to depends on whether it passed the dictionary itself or a copy. Timestamps of the
  workflow record are not modelled: nothing reads them.
\<close>

subsection \<open>The workflow record\<close>

datatype workflow_status = WF_PENDING | WF_RUNNING | WF_WAITING_APPROVAL | WF_COMPLETED | WF_FAILED | WF_CANCELLED

definition allowed_transitions :: "workflow_status \<Rightarrow> workflow_status list" where
  "allowed_transitions st =
     (case st of
        WF_PENDING \<Rightarrow> [WF_RUNNING, WF_CANCELLED]
      | WF_RUNNING \<Rightarrow> [WF_WAITING_APPROVAL, WF_COMPLETED, WF_FAILED, WF_CANCELLED]
      | WF_WAITING_APPROVAL \<Rightarrow> [WF_RUNNING, WF_FAILED, WF_CANCELLED]
      | WF_COMPLETED \<Rightarrow> [] | WF_FAILED \<Rightarrow> [] | WF_CANCELLED \<Rightarrow> [])"

datatype step_status = STEP_COMPLETED | STEP_WAITING_APPROVAL | STEP_FAILED

record step_outcome =
  so_status :: step_status
  so_updates :: payload
  so_error :: "string option"
  so_approval_id :: "string option"

record workflow =
  wf_id :: string
  wf_name :: string
  wf_status :: workflow_status
  wf_current_step_index :: nat
  wf_completed_steps :: "string list"
  wf_checkpoints :: "(string, payload) pydict"
  wf_step_outcomes :: "(string, step_outcome) pydict"
  wf_state :: payload
  wf_pending_approval_id :: "string option"
  wf_failed_step_name :: "string option"
  wf_had_approval_gate :: bool
  wf_error :: "string option"

definition new_workflow :: "string \<Rightarrow> string \<Rightarrow> payload \<Rightarrow> workflow" where
  "new_workflow wid name st =
     \<lparr>wf_id = wid, wf_name = name, wf_status = WF_PENDING, wf_current_step_index = 0, wf_completed_steps = [],
      wf_checkpoints = [], wf_step_outcomes = [], wf_state = st, wf_pending_approval_id = None,
      wf_failed_step_name = None, wf_had_approval_gate = False, wf_error = None\<rparr>"

datatype wf_exc =
    InvalidWorkflowTransition workflow_status workflow_status | StepRaised string | StepIndexError | NotAnApprovalGate string
  | BuildError string

text \<open>\<open>Workflow.transition\<close>: the workflow, and the exception if the transition is not allowed.\<close>

definition wf_transition :: "workflow_status \<Rightarrow> workflow \<Rightarrow> workflow \<times> wf_exc option" where
  "wf_transition target wk =
     (if target \<in> set (allowed_transitions (wf_status wk)) then (wk\<lparr>wf_status := target\<rparr>, None)
      else (wk, Some (InvalidWorkflowTransition (wf_status wk) target)))"

definition is_terminal :: "workflow \<Rightarrow> bool" where
  "is_terminal wk \<longleftrightarrow> wf_status wk \<in> {WF_COMPLETED, WF_FAILED, WF_CANCELLED}"

subsection \<open>Steps\<close>

text \<open>\<open>st_check_pending\<close> is there exactly for an \<open>ApprovalGateStep\<close>, \<open>st_compensate\<close> exactly for a
  \<open>CompensatingStep\<close>.\<close>

record 'w wf_step =
  st_name :: string
  st_run :: "payload \<Rightarrow> 'w \<Rightarrow> 'w \<times> payload \<times> (string + step_outcome)"
  st_check_pending :: "(string \<Rightarrow> payload \<Rightarrow> 'w \<Rightarrow> 'w \<times> (string + step_outcome)) option"
  st_compensate :: "(payload \<Rightarrow> 'w \<Rightarrow> 'w \<times> payload \<times> string option) option"

text \<open>The bookkeeping shared by all executions: a step that completed, paused or failed.\<close>

definition record_completed :: "string \<Rightarrow> step_outcome \<Rightarrow> workflow \<Rightarrow> workflow" where
  "record_completed name oc wk =
     (let st = dict_update (wf_state wk) (so_updates oc) in
      wk\<lparr>wf_state := st, wf_completed_steps := wf_completed_steps wk @ [name],
         wf_checkpoints := dict_set name st (wf_checkpoints wk)\<rparr>)"

definition record_paused :: "string \<Rightarrow> step_outcome \<Rightarrow> workflow \<Rightarrow> workflow" where
  "record_paused name oc wk =
     wk\<lparr>wf_pending_approval_id := so_approval_id oc, wf_had_approval_gate := True,
        wf_checkpoints := dict_set name (wf_state wk) (wf_checkpoints wk)\<rparr>"

definition record_failed :: "string \<Rightarrow> step_outcome \<Rightarrow> workflow \<Rightarrow> workflow" where
  "record_failed name oc wk = wk\<lparr>wf_failed_step_name := Some name, wf_error := so_error oc\<rparr>"

subsection \<open>The linear pipeline\<close>

fun compensate_all :: "'w wf_step list \<Rightarrow> payload \<Rightarrow> 'w \<Rightarrow> 'w \<times> payload \<times> string list" where
  "compensate_all [] st w = (w, st, [])"
| "compensate_all (s # ss) st w =
     (case st_compensate s of
        None \<Rightarrow> compensate_all ss st w
      | Some f \<Rightarrow>
          (let (w1, st1, e) = f st w; (w2, st2, es) = compensate_all ss st1 w1
           in (w2, st2, (case e of None \<Rightarrow> es | Some m \<Rightarrow> (st_name s @ '': '' @ m) # es))))"

definition run_compensations :: "'w wf_step list \<Rightarrow> workflow \<Rightarrow> 'w \<Rightarrow> 'w \<times> workflow" where
  "run_compensations steps wk w =
     (let (w1, st, errors) = compensate_all (rev (take (wf_current_step_index wk) steps)) (wf_state wk) w
      in (w1, wk\<lparr>wf_state := (if errors = [] then st else dict_set ''_compensation_errors'' (PList (map PStr errors)) st)\<rparr>))"

definition fail_pipeline ::
  "'w wf_step list \<Rightarrow> string \<Rightarrow> step_outcome \<Rightarrow> workflow \<Rightarrow> 'w \<Rightarrow> 'w \<times> workflow \<times> wf_exc option" where
  "fail_pipeline steps name oc wk w =
     (case wf_transition WF_FAILED (record_failed name oc wk) of
        (wf1, Some e) \<Rightarrow> (w, wf1, Some e)
      | (wf1, None) \<Rightarrow> (let (w1, wf2) = run_compensations steps wf1 w in (w1, wf2, None)))"

function run_from :: "'w wf_step list \<Rightarrow> workflow \<Rightarrow> 'w \<Rightarrow> 'w \<times> workflow \<times> wf_exc option" where
  "run_from steps wk w =
     (if wf_current_step_index wk < length steps then
        let step = steps ! wf_current_step_index wk;
            r = st_run step (wf_state wk) w;
            wf1 = wk\<lparr>wf_state := fst (snd r)\<rparr>
        in case snd (snd r) of
             Inl e \<Rightarrow> (fst r, wf1, Some (StepRaised e))
           | Inr oc \<Rightarrow>
               (case so_status oc of
                  STEP_WAITING_APPROVAL \<Rightarrow>
                    (let (wf2, e) = wf_transition WF_WAITING_APPROVAL (record_paused (st_name step) oc wf1) in (fst r, wf2, e))
                | STEP_FAILED \<Rightarrow> fail_pipeline steps (st_name step) oc wf1 (fst r)
                | STEP_COMPLETED \<Rightarrow>
                    run_from steps
                      ((record_completed (st_name step) oc wf1)\<lparr>wf_current_step_index := wf_current_step_index wk + 1\<rparr>) (fst r))
      else (let (wf1, e) = wf_transition WF_COMPLETED wk in (w, wf1, e)))"
  by pat_completeness auto

termination run_from
  by (relation "measure (\<lambda>(steps, wk, w). length steps - wf_current_step_index wk)") auto

declare run_from.simps [simp del]

definition start_pipeline ::
  "string \<Rightarrow> string \<Rightarrow> 'w wf_step list \<Rightarrow> payload \<Rightarrow> 'w \<Rightarrow> 'w \<times> workflow \<times> wf_exc option" where
  "start_pipeline wid name steps st w = run_from steps ((new_workflow wid name st)\<lparr>wf_status := WF_RUNNING\<rparr>) w"

definition resume_pipeline :: "'w wf_step list \<Rightarrow> workflow \<Rightarrow> 'w \<Rightarrow> 'w \<times> workflow \<times> wf_exc option" where
  "resume_pipeline steps wk w =
     (if wf_status wk \<noteq> WF_WAITING_APPROVAL then (w, wk, None)
      else if length steps \<le> wf_current_step_index wk then (w, wk, Some StepIndexError)
      else
        let step = steps ! wf_current_step_index wk in
        case st_check_pending step of
          None \<Rightarrow> (w, wk, Some (NotAnApprovalGate (st_name step)))
        | Some check \<Rightarrow>
            (case check (or_else (wf_pending_approval_id wk) []) (wf_state wk) w of
               (w1, Inl e) \<Rightarrow> (w1, wk, Some (StepRaised e))
             | (w1, Inr oc) \<Rightarrow>
                 if so_status oc = STEP_WAITING_APPROVAL then (w1, wk, None)
                 else
                   let wf1 = wk\<lparr>wf_status := WF_RUNNING, wf_pending_approval_id := None\<rparr> in
                   if so_status oc = STEP_FAILED then fail_pipeline steps (st_name step) oc wf1 w1
                   else run_from steps
                          ((record_completed (st_name step) oc wf1)\<lparr>wf_current_step_index := wf_current_step_index wk + 1\<rparr>) w1))"

subsection \<open>The dependency graph\<close>

text \<open>One wave: \<open>asyncio.gather\<close> over the ready steps, each on a copy of the state that names the step; the
  copy is dropped afterwards. The steps of a wave are taken to run one after another in the order of
  the list; the first exception, in that order, is the one that surfaces.\<close>

fun run_wave ::
  "(string, 'w wf_step) pydict \<Rightarrow> payload \<Rightarrow> string list \<Rightarrow> 'w \<Rightarrow> 'w \<times> (string + (string \<times> step_outcome) list)" where
  "run_wave steps_map st [] w = (w, Inr [])"
| "run_wave steps_map st (sid # sids) w =
     (case dict_get steps_map sid of
        None \<Rightarrow> (let (w2, _) = run_wave steps_map st sids w in (w2, Inl (''KeyError: '' @ sid)))
      | Some step \<Rightarrow>
          (let (w1, _, res) = st_run step (dict_set ''_workflow_step_id'' (PStr sid) st) w;
               (w2, rest) = run_wave steps_map st sids w1
           in (w2, (case res of
                      Inl e \<Rightarrow> Inl e
                    | Inr oc \<Rightarrow> map_sum id (\<lambda>ocs. (sid, oc) # ocs) rest))))"

datatype wave_end = WaveOk | WavePaused | WaveFailed | WaveRaised wf_exc

text \<open>The compensation of a failed step: the step named by \<open>on_failure\<close> runs on the workflow state itself.\<close>

definition compensate_step ::
  "(string, 'w wf_step) pydict \<Rightarrow> workflow_step_spec \<Rightarrow> workflow \<Rightarrow> 'w \<Rightarrow> 'w \<times> workflow \<times> wave_end" where
  "compensate_step steps_map spec wk w =
     (case (if truthy_opt (ws_on_failure spec) then dict_get steps_map (the (ws_on_failure spec)) else None) of
        None \<Rightarrow> (w, wk, WaveFailed)
      | Some cstep \<Rightarrow>
          let cid = the (ws_on_failure spec); r = st_run cstep (wf_state wk) w; wk1 = wk\<lparr>wf_state := fst (snd r)\<rparr> in
          (case snd (snd r) of
             Inl e \<Rightarrow> (fst r, wk1, WaveRaised (StepRaised e))
           | Inr oc \<Rightarrow>
               let wk2 = wk1\<lparr>wf_step_outcomes := dict_set cid oc (wf_step_outcomes wk1)\<rparr> in
               if so_status oc = STEP_COMPLETED then
                 let wk3 = record_completed cid oc wk2
                 in (fst r, wk3\<lparr>wf_state := dict_set ''_compensated_step'' (PStr (ws_id spec)) (wf_state wk3)\<rparr>, WaveFailed)
               else (fst r, wk2, WaveFailed)))"

text \<open>The outcomes of a wave, in order; \<open>done\<close> is \<open>completed_set\<close>. A pause or a failure ends the loop, and
  the outcomes after it are dropped.\<close>

fun process_wave ::
  "(string, workflow_step_spec) pydict \<Rightarrow> (string, 'w wf_step) pydict \<Rightarrow> (string \<times> step_outcome) list \<Rightarrow> string set
     \<Rightarrow> workflow \<Rightarrow> 'w \<Rightarrow> 'w \<times> workflow \<times> string set \<times> wave_end" where
  "process_wave all_specs steps_map [] C wk w = (w, wk, C, WaveOk)"
| "process_wave all_specs steps_map ((sid, oc) # rest) C wk w =
     (let wk1 = wk\<lparr>wf_step_outcomes := dict_set sid oc (wf_step_outcomes wk)\<rparr> in
      case so_status oc of
        STEP_WAITING_APPROVAL \<Rightarrow>
          (case wf_transition WF_WAITING_APPROVAL (record_paused sid oc wk1) of
             (wk2, None) \<Rightarrow> (w, wk2, C, WavePaused)
           | (wk2, Some e) \<Rightarrow> (w, wk2, C, WaveRaised e))
      | STEP_FAILED \<Rightarrow>
          (case dict_get all_specs sid of
             None \<Rightarrow> (w, wk1, C, WaveRaised (StepRaised (''KeyError: '' @ sid)))
           | Some spec \<Rightarrow>
               (let (w1, wk2, e) = compensate_step steps_map spec (record_failed sid oc wk1) w in (w1, wk2, C, e)))
      | STEP_COMPLETED \<Rightarrow> process_wave all_specs steps_map rest (insert sid C) (record_completed sid oc wk1) w)"

definition ready_ids :: "workflow_step_spec list \<Rightarrow> string set \<Rightarrow> string list" where
  "ready_ids forward C = map ws_id (filter (\<lambda>s. ws_id s \<notin> C \<and> (\<forall>d \<in> set (ws_depends_on s). d \<in> C)) forward)"

definition open_ids :: "workflow_step_spec list \<Rightarrow> string set \<Rightarrow> string list" where
  "open_ids forward C = filter (\<lambda>i. i \<notin> C) (map ws_id forward)"

definition fail_stuck :: "string list \<Rightarrow> string \<Rightarrow> workflow \<Rightarrow> workflow \<times> wf_exc option" where
  "fail_stuck ids msg wk =
     wf_transition WF_FAILED (wk\<lparr>wf_failed_step_name := (case ids of [] \<Rightarrow> None | i # _ \<Rightarrow> Some i), wf_error := Some msg\<rparr>)"

lemma run_wave_ids: "snd (run_wave steps_map st sids w) = Inr ocs \<Longrightarrow> map fst ocs = sids"
proof (induction sids arbitrary: w ocs)
  case (Cons sid sids)
  show ?case
  proof (cases "dict_get steps_map sid")
    case None
    with Cons.prems show ?thesis by (simp add: split_beta)
  next
    case (Some step)
    let ?r = "st_run step (dict_set ''_workflow_step_id'' (PStr sid) st) w"
    from Some Cons.prems obtain oc ocs' where "snd (run_wave steps_map st sids (fst ?r)) = Inr ocs'" "ocs = (sid, oc) # ocs'"
      by (cases "snd (snd ?r)"; cases "snd (run_wave steps_map st sids (fst ?r))") (auto simp: Let_def split_beta)
    with Cons.IH show ?thesis by simp
  qed
qed simp

lemma compensate_step_end: "compensate_step steps_map spec wk w = (w', wk', e) \<Longrightarrow> e \<noteq> WaveOk \<and> e \<noteq> WavePaused"
  by (auto simp: compensate_step_def Let_def split: option.splits sum.splits if_splits)

lemma process_wave_ok:
  "process_wave all_specs steps_map ocs C wk w = (w', wk', C', WaveOk) \<Longrightarrow> C' = C \<union> set (map fst ocs)"
proof (induction ocs arbitrary: C wk w)
  case (Cons o' ocs)
  obtain sid oc where o: "o' = (sid, oc)" by (rule prod.exhaust)
  have "so_status oc = STEP_COMPLETED"
    using Cons.prems unfolding o
    by (cases "so_status oc") (auto simp: Let_def dest: compensate_step_end split: option.splits prod.splits)
  with Cons.prems obtain wk1 where "process_wave all_specs steps_map ocs (insert sid C) wk1 w = (w', wk', C', WaveOk)"
    unfolding o by (simp add: Let_def)
  from Cons.IH [OF this] show ?case by (simp add: o)
qed simp

lemma open_ids_shrink:
  assumes "ready_ids forward C \<noteq> []" "C' = C \<union> set (ready_ids forward C)"
  shows "length (open_ids forward C') < length (open_ids forward C)"
proof -
  have split: "open_ids forward C' = filter (\<lambda>i. i \<notin> set (ready_ids forward C)) (open_ids forward C)"
    unfolding open_ids_def assms(2) by (induction forward) auto
  obtain i where i: "i \<in> set (ready_ids forward C)" using assms(1) by (cases "ready_ids forward C") auto
  then have "i \<in> set (open_ids forward C)" by (auto simp: ready_ids_def open_ids_def)
  with i show ?thesis unfolding split by (intro length_filter_less [of i]) auto
qed

function dag_loop ::
  "py_text \<Rightarrow> workflow_step_spec list \<Rightarrow> (string, workflow_step_spec) pydict \<Rightarrow> (string, 'w wf_step) pydict \<Rightarrow> string set
     \<Rightarrow> workflow \<Rightarrow> 'w \<Rightarrow> 'w \<times> workflow \<times> wf_exc option" where
  "dag_loop tx forward all_specs steps_map C wk w =
     (if open_ids forward C = [] then
        (if wf_status wk = WF_RUNNING then (let (wk1, e) = wf_transition WF_COMPLETED wk in (w, wk1, e)) else (w, wk, None))
      else if ready_ids forward C = [] then
        (let stuck = open_ids forward C;
             (wk1, e) = fail_stuck stuck
               (''workflow DAG stuck: '' @ pt_repr tx (PInt (int (length stuck)))
                 @ '' step(s) can never become ready (cycle or dangling dependency bypassed schema validation): ''
                 @ pt_repr tx (PList (map PStr stuck))) wk
         in (w, wk1, e))
      else
        let wave = run_wave steps_map (wf_state wk) (ready_ids forward C) w in
        case snd wave of
          Inl e \<Rightarrow> (fst wave, wk, Some (StepRaised e))
        | Inr ocs \<Rightarrow>
            let r = process_wave all_specs steps_map ocs C wk (fst wave) in
            (case snd (snd (snd r)) of
               WaveOk \<Rightarrow> dag_loop tx forward all_specs steps_map (fst (snd (snd r))) (fst (snd r)) (fst r)
             | WavePaused \<Rightarrow> (fst r, fst (snd r), None)
             | WaveFailed \<Rightarrow> (let (wk1, e) = wf_transition WF_FAILED (fst (snd r)) in (fst r, wk1, e))
             | WaveRaised e \<Rightarrow> (fst r, fst (snd r), Some e)))"
  by pat_completeness auto

text \<open>Every wave that goes on has completed all its steps, so the loop makes at most one round per
  forward step.\<close>

termination dag_loop
proof (relation "measure (\<lambda>(tx, forward, all_specs, steps_map, C, wk, w). length (open_ids forward C))", goal_cases)
  case (2 tx forward all_specs steps_map C wk w wave ocs r)
  have "map fst ocs = ready_ids forward C" using 2(3,4) by (intro run_wave_ids) simp
  moreover have "fst (snd (snd r)) = C \<union> set (map fst ocs)"
    using 2(5,6) by (intro process_wave_ok [of all_specs steps_map ocs C wk "fst wave" "fst r" "fst (snd r)"]) (simp add: prod_eq_iff)
  ultimately show ?case using open_ids_shrink [OF 2(2)] by simp
qed simp

declare dag_loop.simps [simp del]

definition specs_by_id :: "workflow_step_spec list \<Rightarrow> (string, workflow_step_spec) pydict" where
  "specs_by_id steps = fold (\<lambda>s d. dict_set (ws_id s) s d) steps []"

definition steps_by_id :: "workflow_step_spec list \<Rightarrow> 'w wf_step list \<Rightarrow> (string, 'w wf_step) pydict" where
  "steps_by_id specs steps = fold (\<lambda>(s, st) d. dict_set (ws_id s) st d) (zip specs steps) []"

text \<open>\<open>_execute_dag\<close>; \<open>build\<close> is \<open>build_steps_from_spec\<close> with the engine's configuration.\<close>

definition execute_dag ::
  "py_text \<Rightarrow> (workflow_spec \<Rightarrow> string + 'w wf_step list) \<Rightarrow> workflow_spec \<Rightarrow> workflow \<Rightarrow> 'w \<Rightarrow> 'w \<times> workflow \<times> wf_exc option" where
  "execute_dag tx build spec wk w =
     (case build spec of
        Inl e \<Rightarrow> (w, wk, Some (BuildError e))
      | Inr built \<Rightarrow>
          let forward = forward_steps (wsp_steps spec) in
          if forward = [] then
            (let (wk1, e) = wf_transition WF_FAILED (wk\<lparr>wf_error := Some (''workflow has no forward steps (empty spec or ''
                 @ ''all-compensation spec bypassed schema validation)'')\<rparr>) in (w, wk1, e))
          else
            dag_loop tx forward (specs_by_id (wsp_steps spec)) (steps_by_id (wsp_steps spec) built)
              (set (wf_completed_steps wk)) wk w)"

text \<open>\<open>execute_spec\<close>; \<open>wid\<close> is the identifier drawn for a new workflow, \<open>dh\<close> the canonical hash.\<close>

definition execute_spec ::
  "py_text \<Rightarrow> (workflow_spec \<Rightarrow> string) \<Rightarrow> (workflow_spec \<Rightarrow> string + 'w wf_step list) \<Rightarrow> string \<Rightarrow> workflow_spec \<Rightarrow> payload
     \<Rightarrow> workflow option \<Rightarrow> 'w \<Rightarrow> 'w \<times> workflow \<times> wf_exc option" where
  "execute_spec tx dh build wid spec st given w =
     (let wk = (case given of
                  None \<Rightarrow> (new_workflow wid (if wsp_name spec = [] then wsp_id spec else wsp_name spec) st)\<lparr>wf_status := WF_RUNNING\<rparr>
                | Some g \<Rightarrow>
                    if wf_status g = WF_WAITING_APPROVAL then g\<lparr>wf_status := WF_RUNNING, wf_pending_approval_id := None\<rparr> else g);
          h = or_else (wsp_definition_hash spec) (spec_hash dh spec);
          h' = (if h = [] then (if wsp_version spec = [] then ''v1'' else wsp_version spec) else h)
      in execute_dag tx build spec
           (wk\<lparr>wf_state := dict_set ''_workflow_definition_hash'' (PStr h')
                 (dict_set ''_workflow_instance_id'' (PStr (wf_id wk)) (wf_state wk))\<rparr>) w)"

definition paused_step :: "workflow \<Rightarrow> string option" where
  "paused_step wk = map_option fst (List.find (\<lambda>(sid, oc). so_status oc = STEP_WAITING_APPROVAL) (wf_step_outcomes wk))"

definition resume_spec ::
  "py_text \<Rightarrow> (workflow_spec \<Rightarrow> string + 'w wf_step list) \<Rightarrow> workflow \<Rightarrow> workflow_spec \<Rightarrow> 'w \<Rightarrow> 'w \<times> workflow \<times> wf_exc option" where
  "resume_spec tx build wk spec w =
     (if wf_status wk \<noteq> WF_WAITING_APPROVAL then (w, wk, None)
      else
      case build spec of
        Inl e \<Rightarrow> (w, wk, Some (BuildError e))
      | Inr built \<Rightarrow>
          let go = (\<lambda>wk1 w1. execute_dag tx build spec (wk1\<lparr>wf_status := WF_RUNNING, wf_pending_approval_id := None\<rparr>) w1) in
          (case paused_step wk of
             None \<Rightarrow> go wk w
           | Some sid \<Rightarrow>
               (case (if sid = [] then None else dict_get (steps_by_id (wsp_steps spec) built) sid) of
                  None \<Rightarrow> go wk w
                | Some step \<Rightarrow>
                    (case st_check_pending step of
                       None \<Rightarrow> go wk w
                     | Some check \<Rightarrow>
                         (case check (or_else (wf_pending_approval_id wk) []) (wf_state wk) w of
                            (w1, Inl e) \<Rightarrow> (w1, wk, Some (StepRaised e))
                          | (w1, Inr oc) \<Rightarrow>
                              (case so_status oc of
                                 STEP_WAITING_APPROVAL \<Rightarrow> (w1, wk, None)
                               | STEP_FAILED \<Rightarrow> (w1, (record_failed sid oc wk)\<lparr>wf_status := WF_FAILED\<rparr>, None)
                               | STEP_COMPLETED \<Rightarrow> go (record_completed sid oc wk) w1))))))"

end
