(* ===== verification/WorkflowProps.thy ===== *)
theory WorkflowProps
  imports WorkflowEngine
begin

text \<open>
  What the workflow engine guarantees. An invariant of workflow objects that every step of the
  engine's bookkeeping keeps holds along the whole life of a workflow (the locale \<open>dag_invariant\<close>);
  its interpretations show that steps complete in dependency order, that a workflow reported completed
  has completed every forward step, and that the second of two approval gates is never passed. On a
  valid specification whose steps complete, the engine runs every step once and completes.
\<close>

subsection \<open>What the steps of a wave may do\<close>

definition deps_done :: "workflow_spec \<Rightarrow> workflow \<Rightarrow> string \<Rightarrow> bool" where
  "deps_done spec wk sid \<longleftrightarrow>
     (\<forall>s \<in> set (forward_steps (wsp_steps spec)). ws_id s = sid \<longrightarrow> set (ws_depends_on s) \<subseteq> set (wf_completed_steps wk))"

lemma record_fields [simp]:
  "wf_completed_steps (record_completed n oc wk) = wf_completed_steps wk @ [n]"
  "wf_step_outcomes (record_completed n oc wk) = wf_step_outcomes wk" "wf_status (record_completed n oc wk) = wf_status wk"
  "wf_completed_steps (record_failed n oc wk) = wf_completed_steps wk" "wf_step_outcomes (record_failed n oc wk) = wf_step_outcomes wk"
  "wf_status (record_failed n oc wk) = wf_status wk"
  "wf_completed_steps (record_paused n oc wk) = wf_completed_steps wk" "wf_step_outcomes (record_paused n oc wk) = wf_step_outcomes wk"
  "wf_status (record_paused n oc wk) = wf_status wk"
  by (simp_all add: record_completed_def record_failed_def record_paused_def Let_def)

lemma dict_set_mem: "(k', v') \<in> set (dict_set k v d) \<Longrightarrow> (k', v') = (k, v) \<or> (k', v') \<in> set d"
  by (induction d) (auto split: if_splits)

lemma ready_ids_distinct: "distinct (map ws_id forward) \<Longrightarrow> distinct (ready_ids forward C)"
  by (simp add: ready_ids_def distinct_map_filter)

lemma ready_deps_done:
  assumes "C \<subseteq> set (wf_completed_steps wk)" "distinct (map ws_id (forward_steps (wsp_steps spec)))"
    "i \<in> set (ready_ids (forward_steps (wsp_steps spec)) C)"
  shows "deps_done spec wk i"
proof -
  obtain t where t: "t \<in> set (forward_steps (wsp_steps spec))" "ws_id t = i" "set (ws_depends_on t) \<subseteq> C"
    using assms(3) by (auto simp: ready_ids_def)
  show ?thesis
    unfolding deps_done_def
  proof (intro ballI impI)
    fix s assume "s \<in> set (forward_steps (wsp_steps spec))" "ws_id s = i"
    then have "s = t" using t(1,2) assms(2) by (simp add: distinct_map inj_on_def)
    with t(3) assms(1) show "set (ws_depends_on s) \<subseteq> set (wf_completed_steps wk)" by blast
  qed
qed

lemma compensation_done:
  "c \<in> compensation_targets (wsp_steps spec) \<Longrightarrow> deps_done spec wk c"
  by (auto simp: deps_done_def forward_steps_def)

lemma specs_by_id_mem: "dict_get (specs_by_id steps) i = Some s \<Longrightarrow> s \<in> set steps \<and> ws_id s = i"
proof -
  have "dict_get (fold (\<lambda>s d. dict_set (ws_id s) s d) steps d) i = Some s \<Longrightarrow> dict_get d i = Some s \<or> s \<in> set steps \<and> ws_id s = i" for d
  proof (induction steps arbitrary: d)
    case (Cons a steps)
    have "dict_get (dict_set (ws_id a) a d) i = Some s \<or> s \<in> set steps \<and> ws_id s = i"
      by (rule Cons.IH) (use Cons.prems in simp)
    then show ?case by (cases "ws_id a = i") (auto split: if_splits)
  qed simp
  from this [of "[]"] show "dict_get (specs_by_id steps) i = Some s \<Longrightarrow> ?thesis" by (auto simp: specs_by_id_def)
qed

lemma run_wave_outcomes:
  "snd (run_wave steps_map st sids w) = Inr ocs \<Longrightarrow> (k, oc) \<in> set ocs \<Longrightarrow>
   \<exists>step st' w'. dict_get steps_map k = Some step \<and> snd (snd (st_run step st' w')) = Inr oc"
proof (induction sids arbitrary: w ocs)
  case (Cons sid sids)
  show ?case
  proof (cases "dict_get steps_map sid")
    case None
    with Cons.prems show ?thesis by (simp add: split_beta)
  next
    case (Some step)
    let ?r = "st_run step (dict_set ''_workflow_step_id'' (PStr sid) st) w"
    from Some Cons.prems(1) obtain o' ocs' where r: "snd (snd ?r) = Inr o'"
      "snd (run_wave steps_map st sids (fst ?r)) = Inr ocs'" "ocs = (sid, o') # ocs'"
      by (cases "snd (snd ?r)"; cases "snd (run_wave steps_map st sids (fst ?r))") (auto simp: Let_def split_beta)
    show ?thesis
    proof (cases "(k, oc) = (sid, o')")
      case True
      with Some r(1) show ?thesis by blast
    next
      case False
      with Cons.prems(2) r(3) have "(k, oc) \<in> set ocs'" by auto
      with Cons.IH r(2) show ?thesis by blast
    qed
  qed
qed simp

text \<open>Every outcome of a step that the engine runs is legal.\<close>

definition legal_steps :: "(string \<Rightarrow> step_outcome \<Rightarrow> bool) \<Rightarrow> (string, 'w wf_step) pydict \<Rightarrow> bool" where
  "legal_steps legal steps_map \<longleftrightarrow>
     (\<forall>k step st w oc. dict_get steps_map k = Some step \<and> snd (snd (st_run step st w)) = Inr oc \<longrightarrow> legal k oc)"

text \<open>The life of a workflow object: it is created by \<open>execute_spec\<close>, and later handed to \<open>resume_spec\<close> or
  \<open>execute_spec\<close> any number of times, in any world.\<close>

inductive dag_life ::
  "py_text \<Rightarrow> (workflow_spec \<Rightarrow> string) \<Rightarrow> (workflow_spec \<Rightarrow> string + 'w wf_step list) \<Rightarrow> workflow_spec \<Rightarrow> workflow \<Rightarrow> bool"
  for tx dh build spec where
  life_new: "execute_spec tx dh build wid spec st None w = (w', wk, e) \<Longrightarrow> dag_life tx dh build spec wk"
| life_execute: "dag_life tx dh build spec wk \<Longrightarrow> execute_spec tx dh build wid spec st (Some wk) w = (w', wk', e) \<Longrightarrow>
    dag_life tx dh build spec wk'"
| life_resume: "dag_life tx dh build spec wk \<Longrightarrow> resume_spec tx build wk spec w = (w', wk', e) \<Longrightarrow>
    dag_life tx dh build spec wk'"

lemma dag_life_start: "dag_life tx dh build spec (fst (snd (execute_spec tx dh build wid spec st None w)))"
proof -
  obtain w' wk e where r: "execute_spec tx dh build wid spec st None w = (w', wk, e)" by (rule prod_cases3)
  from life_new [OF this] show ?thesis unfolding r by simp
qed

lemma dag_life_again:
  assumes "dag_life tx dh build spec wk"
  shows "dag_life tx dh build spec (fst (snd (resume_spec tx build wk spec w)))"
proof -
  obtain w' wk' e where r: "resume_spec tx build wk spec w = (w', wk', e)" by (rule prod_cases3)
  from life_resume [OF assms this] show ?thesis unfolding r by simp
qed

subsection \<open>Invariants of workflow objects\<close>

text \<open>\<open>legal k oc\<close> says what is known of an outcome \<open>oc\<close> of the step \<open>k\<close>. The laws: an invariant does not
  depend on anything but the completed steps, the outcomes and whether the status is COMPLETED; it is
  kept when an outcome is filed, when a step whose dependencies are done completes, when the workflow
  is reported completed after all forward steps are, and when the paused step is completed on resume.\<close>

locale dag_invariant =
  fixes spec :: workflow_spec and holds :: "workflow \<Rightarrow> bool" and legal :: "string \<Rightarrow> step_outcome \<Rightarrow> bool"
  assumes frame: "holds wk \<Longrightarrow> wf_completed_steps wk' = wf_completed_steps wk \<Longrightarrow> wf_step_outcomes wk' = wf_step_outcomes wk \<Longrightarrow>
        wf_status wk' = wf_status wk \<or> wf_status wk' \<noteq> WF_COMPLETED \<Longrightarrow> holds wk'"
    and fresh: "wf_completed_steps wk = [] \<Longrightarrow> wf_step_outcomes wk = [] \<Longrightarrow> wf_status wk \<noteq> WF_COMPLETED \<Longrightarrow> holds wk"
    and outcome: "holds wk \<Longrightarrow> deps_done spec wk k \<Longrightarrow> legal k oc \<Longrightarrow>
        k \<notin> set (wf_completed_steps wk) \<or> k \<in> compensation_targets (wsp_steps spec) \<Longrightarrow>
        holds (wk\<lparr>wf_step_outcomes := dict_set k oc (wf_step_outcomes wk)\<rparr>)"
    and complete: "holds wk \<Longrightarrow> deps_done spec wk k \<Longrightarrow> legal k oc \<Longrightarrow> so_status oc = STEP_COMPLETED \<Longrightarrow>
        holds (record_completed k oc wk)"
    and finish: "holds wk \<Longrightarrow> set (map ws_id (forward_steps (wsp_steps spec))) \<subseteq> set (wf_completed_steps wk) \<Longrightarrow>
        holds (wk\<lparr>wf_status := WF_COMPLETED\<rparr>)"
    and resumed: "holds wk \<Longrightarrow> paused_step wk = Some k \<Longrightarrow> holds (record_completed k oc wk)"
    and compensation: "c \<in> compensation_targets (wsp_steps spec) \<Longrightarrow> legal c oc"
begin

lemma transition: "holds wk \<Longrightarrow> t \<noteq> WF_COMPLETED \<Longrightarrow> wf_transition t wk = (wk', e) \<Longrightarrow> holds wk'"
  by (auto simp: wf_transition_def split: if_splits elim: frame)

lemma compensate_step_holds:
  assumes "compensate_step steps_map s wk w = (w', wk', e)" "holds wk" "s \<in> set (wsp_steps spec)"
  shows "holds wk'"
proof (cases "if truthy_opt (ws_on_failure s) then dict_get steps_map (the (ws_on_failure s)) else None")
  case None
  with assms show ?thesis by (simp add: compensate_step_def)
next
  case (Some cstep)
  let ?c = "the (ws_on_failure s)"
  let ?r = "st_run cstep (wf_state wk) w"
  have c: "?c \<in> compensation_targets (wsp_steps spec)"
    using Some assms(3) by (auto simp: compensation_targets_def image_iff split: if_splits intro!: bexI [of _ s])
  note dd = compensation_done [OF c] and lg = compensation [OF c]
  let ?w1 = "wk\<lparr>wf_state := fst (snd ?r)\<rparr>"
  have i1: "holds ?w1" by (rule frame [OF assms(2)]) simp_all
  show ?thesis
  proof (cases "snd (snd ?r)")
    case (Inl x)
    with assms(1) Some i1 show ?thesis by (auto simp: compensate_step_def Let_def)
  next
    case (Inr oc)
    let ?w2 = "?w1\<lparr>wf_step_outcomes := dict_set ?c oc (wf_step_outcomes ?w1)\<rparr>"
    have i2: "holds ?w2" using i1 dd lg by (rule outcome) (use c in simp)
    consider (undone) "wk' = ?w2" | (compensated) "so_status oc = STEP_COMPLETED"
        "wk' = (record_completed ?c oc ?w2)\<lparr>wf_state := dict_set ''_compensated_step'' (PStr (ws_id s)) (wf_state (record_completed ?c oc ?w2))\<rparr>"
      using assms(1) Some Inr by (auto simp: compensate_step_def Let_def split: if_splits)
    then show ?thesis
    proof cases
      case undone
      with i2 show ?thesis by simp
    next
      case compensated
      show ?thesis by (rule frame [OF complete [OF i2 dd lg compensated(1)]]) (simp_all add: compensated(2))
    qed
  qed
qed

lemma process_wave_holds:
  assumes "process_wave (specs_by_id (wsp_steps spec)) steps_map ocs C wk w = (w', wk', C', e)" "holds wk"
    "C = set (wf_completed_steps wk)" "distinct (map fst ocs)"
    "\<forall>(k, oc) \<in> set ocs. deps_done spec wk k \<and> legal k oc \<and> k \<notin> set (wf_completed_steps wk)"
  shows "holds wk' \<and> (e = WaveOk \<longrightarrow> C' = set (wf_completed_steps wk'))"
  using assms
proof (induction ocs arbitrary: C wk w)
  case (Cons o' ocs)
  obtain sid oc where o: "o' = (sid, oc)" by (rule prod.exhaust)
  let ?w1 = "wk\<lparr>wf_step_outcomes := dict_set sid oc (wf_step_outcomes wk)\<rparr>"
  have dd: "deps_done spec wk sid" and lg: "legal sid oc" and new: "sid \<notin> set (wf_completed_steps wk)"
    using Cons.prems(5) by (simp_all add: o)
  have i1: "holds ?w1" using Cons.prems(2) dd lg by (rule outcome) (use new in simp)
  show ?case
  proof (cases "so_status oc")
    case STEP_COMPLETED
    have dd1: "deps_done spec ?w1 sid" using dd by (simp add: deps_done_def)
    have h: "holds (record_completed sid oc ?w1)" using i1 dd1 lg STEP_COMPLETED by (rule complete)
    have c: "insert sid C = set (wf_completed_steps (record_completed sid oc ?w1))" using Cons.prems(3) by simp
    have d: "distinct (map fst ocs)" using Cons.prems(4) by simp
    have l: "\<forall>(k, oc') \<in> set ocs. deps_done spec (record_completed sid oc ?w1) k \<and> legal k oc'
        \<and> k \<notin> set (wf_completed_steps (record_completed sid oc ?w1))"
      using Cons.prems(4,5) by (force simp: o deps_done_def)
    have "process_wave (specs_by_id (wsp_steps spec)) steps_map ocs (insert sid C) (record_completed sid oc ?w1) w = (w', wk', C', e)"
      using Cons.prems(1) STEP_COMPLETED unfolding o by (simp add: Let_def)
    from Cons.IH [OF this h c d l] show ?thesis .
  next
    case STEP_WAITING_APPROVAL
    have p: "holds (record_paused sid oc ?w1)" by (rule frame [OF i1]) simp_all
    obtain v x where t: "wf_transition WF_WAITING_APPROVAL (record_paused sid oc ?w1) = (v, x)" by (rule prod.exhaust)
    have "holds v" using p _ t by (rule transition) simp
    then show ?thesis using Cons.prems(1) STEP_WAITING_APPROVAL t unfolding o
      by (auto simp: Let_def split: option.splits)
  next
    case STEP_FAILED
    show ?thesis
    proof (cases "dict_get (specs_by_id (wsp_steps spec)) sid")
      case None
      with Cons.prems(1) STEP_FAILED i1 show ?thesis unfolding o by (auto simp: Let_def)
    next
      case (Some s)
      have i2: "holds (record_failed sid oc ?w1)" by (rule frame [OF i1]) simp_all
      have "compensate_step steps_map s (record_failed sid oc ?w1) w = (w', wk', e)"
        using Cons.prems(1) STEP_FAILED Some unfolding o by (auto simp: Let_def split: prod.splits)
      with compensate_step_holds [OF this i2] specs_by_id_mem [OF Some] compensate_step_end [OF this] show ?thesis by blast
    qed
  qed
qed auto

lemma dag_loop_holds:
  assumes "dag_loop tx (forward_steps (wsp_steps spec)) (specs_by_id (wsp_steps spec)) steps_map C wk w = (w', wk', e)"
    "holds wk" "C = set (wf_completed_steps wk)" "legal_steps legal steps_map" "distinct (step_ids spec)"
  shows "holds wk'"
  using assms
proof (induction tx "forward_steps (wsp_steps spec)" "specs_by_id (wsp_steps spec)" steps_map C wk w rule: dag_loop.induct)
  case (1 tx steps_map C wk w)
  let ?fs = "forward_steps (wsp_steps spec)"
  let ?wave = "run_wave steps_map (wf_state wk) (ready_ids ?fs C) w"
  have d: "distinct (map ws_id ?fs)" using 1(6) by (simp add: step_ids_def forward_steps_def distinct_map_filter)
  consider (finished) "open_ids ?fs C = []" | (stuck) "open_ids ?fs C \<noteq> []" "ready_ids ?fs C = []"
    | (go) "open_ids ?fs C \<noteq> []" "ready_ids ?fs C \<noteq> []" by blast
  then show ?case
  proof cases
    case finished
    then have "set (map ws_id ?fs) \<subseteq> set (wf_completed_steps wk)" using 1(4) by (auto simp: open_ids_def filter_empty_conv)
    note f = finish [OF 1(3) this]
    show ?thesis using 1(2,3) finished f
      by (subst (asm) dag_loop.simps) (auto simp: wf_transition_def split: if_splits)
  next
    case stuck
    have "holds v" if "fail_stuck ids msg wk = (v, x)" for ids msg v x
      using frame [OF 1(3)] by (intro transition [OF _ _ that [unfolded fail_stuck_def]]) simp_all
    with 1(2) stuck show ?thesis by (subst (asm) dag_loop.simps) (auto simp: Let_def split: prod.splits)
  next
    case go
    show ?thesis
    proof (cases "snd ?wave")
      case (Inl x)
      with 1(2,3) go show ?thesis by (subst (asm) dag_loop.simps) simp
    next
      case (Inr ocs)
      let ?r = "process_wave (specs_by_id (wsp_steps spec)) steps_map ocs C wk (fst ?wave)"
      have "deps_done spec wk k \<and> legal k oc \<and> k \<notin> set (wf_completed_steps wk)" if "(k, oc) \<in> set ocs" for k oc
      proof (intro conjI)
        have "k \<in> set (map fst ocs)" using that by force
        then have k: "k \<in> set (ready_ids ?fs C)" unfolding run_wave_ids [OF Inr] .
        then show "deps_done spec wk k" by (rule ready_deps_done [OF equalityD1 [OF 1(4)] d])
        show "k \<notin> set (wf_completed_steps wk)" using k 1(4) by (auto simp: ready_ids_def)
        show "legal k oc" using run_wave_outcomes [OF Inr that] 1(5) unfolding legal_steps_def by blast
      qed
      moreover have "distinct (map fst ocs)" unfolding run_wave_ids [OF Inr] using d by (rule ready_ids_distinct)
      ultimately have "holds (fst (snd ?r)) \<and> (snd (snd (snd ?r)) = WaveOk \<longrightarrow> fst (snd (snd ?r)) = set (wf_completed_steps (fst (snd ?r))))"
        by (intro process_wave_holds [of steps_map ocs C wk "fst ?wave" "fst ?r"] 1(3,4)) auto
      then have r: "holds (fst (snd ?r))"
        "snd (snd (snd ?r)) = WaveOk \<Longrightarrow> fst (snd (snd ?r)) = set (wf_completed_steps (fst (snd ?r)))" by blast+
      show ?thesis
      proof (cases "snd (snd (snd ?r))")
        case WaveOk
        with 1(2) go Inr have "dag_loop tx ?fs (specs_by_id (wsp_steps spec)) steps_map (fst (snd (snd ?r))) (fst (snd ?r)) (fst ?r) = (w', wk', e)"
          by (subst (asm) dag_loop.simps) (simp add: Let_def)
        with 1(1) [OF go refl Inr refl WaveOk] r(1) r(2) [OF WaveOk] 1(5,6) show ?thesis by blast
      next
        case WaveFailed
        with 1(2) go Inr have "wf_transition WF_FAILED (fst (snd ?r)) = (wk', e)"
          by (subst (asm) dag_loop.simps) (auto simp: Let_def split: prod.splits)
        then show ?thesis by (rule transition [OF r(1), rotated]) simp
      next
        case WavePaused
        with 1(2) go Inr r(1) show ?thesis by (subst (asm) dag_loop.simps) (simp add: Let_def)
      next
        case (WaveRaised x)
        with 1(2) go Inr r(1) show ?thesis by (subst (asm) dag_loop.simps) (simp add: Let_def)
      qed
    qed
  qed
qed

lemma execute_dag_holds:
  assumes "execute_dag tx build spec wk w = (w', wk', e)" "holds wk"
    "\<And>built. build spec = Inr built \<Longrightarrow> legal_steps legal (steps_by_id (wsp_steps spec) built)"
    "distinct (step_ids spec)"
  shows "holds wk'"
proof (cases "build spec")
  case (Inl x)
  with assms show ?thesis by (simp add: execute_dag_def)
next
  case (Inr built)
  show ?thesis
  proof (cases "forward_steps (wsp_steps spec) = []")
    case True
    have "holds v" if "wf_transition WF_FAILED (wk\<lparr>wf_error := m\<rparr>) = (v, x)" for m v x
      using frame [OF assms(2)] by (intro transition [OF _ _ that]) simp_all
    with assms(1) Inr True show ?thesis by (auto simp: execute_dag_def Let_def split: prod.splits)
  next
    case False
    with assms(1) Inr show ?thesis
      by (intro dag_loop_holds [OF _ assms(2) refl assms(3) [OF Inr] assms(4)]) (simp add: execute_dag_def Let_def)
  qed
qed

lemma execute_spec_holds:
  assumes "execute_spec tx dh build wid spec st given w = (w', wk', e)" "\<And>g. given = Some g \<Longrightarrow> holds g"
    "\<And>built. build spec = Inr built \<Longrightarrow> legal_steps legal (steps_by_id (wsp_steps spec) built)"
    "distinct (step_ids spec)"
  shows "holds wk'"
proof (cases given)
  case None
  have "holds ((new_workflow wid n st)\<lparr>wf_status := WF_RUNNING, wf_state := s\<rparr>)" for n s
    by (rule fresh) (simp_all add: new_workflow_def)
  with None assms(1) show ?thesis
    by (auto simp: execute_spec_def Let_def intro: execute_dag_holds [OF _ _ assms(3,4)])
next
  case (Some g)
  have "holds (g\<lparr>wf_status := WF_RUNNING, wf_pending_approval_id := None, wf_state := s\<rparr>)" "holds (g\<lparr>wf_state := s\<rparr>)" for s
    by (auto intro: frame [OF assms(2) [OF Some]])
  with assms(1) Some show ?thesis
    by (auto simp: execute_spec_def Let_def split: if_splits intro: execute_dag_holds [OF _ _ assms(3,4)])
qed

lemma resume_spec_holds:
  assumes "resume_spec tx build wk spec w = (w', wk', e)" "holds wk"
    "\<And>built. build spec = Inr built \<Longrightarrow> legal_steps legal (steps_by_id (wsp_steps spec) built)"
    "distinct (step_ids spec)"
  shows "holds wk'"
proof (cases "wf_status wk = WF_WAITING_APPROVAL \<and> (\<exists>built. build spec = Inr built)")
  case False
  with assms(1,2) show ?thesis by (auto simp: resume_spec_def split: sum.splits if_splits)
next
  case True
  then obtain built where b: "build spec = Inr built" and st: "wf_status wk = WF_WAITING_APPROVAL" by blast
  have go: "holds v" if "holds wk1"
    "execute_dag tx build spec (wk1\<lparr>wf_status := WF_RUNNING, wf_pending_approval_id := None\<rparr>) w1 = (u, v, x)" for wk1 w1 u v x
    by (rule execute_dag_holds [OF that(2) _ assms(3,4)]) (auto intro: frame [OF that(1)])
  have failed: "holds ((record_failed sid oc wk)\<lparr>wf_status := WF_FAILED\<rparr>)" for sid oc
    by (rule frame [OF assms(2)]) simp_all
  show ?thesis
  proof (cases "paused_step wk")
    case None
    with assms(1) b st go [OF assms(2)] show ?thesis by (simp add: resume_spec_def)
  next
    case (Some sid)
    show ?thesis using assms(1) b st Some failed go [OF assms(2)] go [OF resumed [OF assms(2) Some]] assms(2)
      by (auto simp: resume_spec_def split: option.splits if_splits prod.splits sum.splits step_status.splits)
  qed
qed

lemma life_holds:
  assumes "dag_life tx dh build spec wk" "\<And>built. build spec = Inr built \<Longrightarrow> legal_steps legal (steps_by_id (wsp_steps spec) built)"
    "distinct (step_ids spec)"
  shows "holds wk"
  using assms(1)
proof (induction rule: dag_life.induct)
  case (life_new wid st w w' wk e)
  then show ?case by (auto intro: execute_spec_holds [OF _ _ assms(2,3)])
next
  case (life_execute wk wid st w w' wk' e)
  then show ?case by (auto intro: execute_spec_holds [OF _ _ assms(2,3)])
next
  case (life_resume wk w w' wk' e)
  then show ?case by (auto intro: resume_spec_holds [OF _ _ assms(2,3)])
qed

end

subsection \<open>Dependency order\<close>

definition deps_before :: "workflow_step_spec list \<Rightarrow> string list \<Rightarrow> bool" where
  "deps_before forward xs \<longleftrightarrow>
     (\<forall>ys x zs s. xs = ys @ x # zs \<and> s \<in> set forward \<and> ws_id s = x \<longrightarrow> set (ws_depends_on s) \<subseteq> set ys)"

lemma deps_before_Nil [simp]: "deps_before forward []"
  by (simp add: deps_before_def)

lemma deps_before_snoc:
  assumes "deps_before forward xs" "\<And>s. s \<in> set forward \<Longrightarrow> ws_id s = x \<Longrightarrow> set (ws_depends_on s) \<subseteq> set xs"
  shows "deps_before forward (xs @ [x])"
  unfolding deps_before_def
proof (intro allI impI)
  fix ys y zs s
  assume *: "xs @ [x] = ys @ y # zs \<and> s \<in> set forward \<and> ws_id s = y"
  show "set (ws_depends_on s) \<subseteq> set ys"
  proof (cases zs rule: rev_cases)
    case Nil
    with * assms(2) [of s] show ?thesis by simp
  next
    case (snoc zs' z)
    with * have "xs = ys @ y # zs'" by simp
    with * assms(1) show ?thesis unfolding deps_before_def by blast
  qed
qed

text \<open>The invariant: the completed steps are in order, a step that waits for an approval has its dependencies
  done, and a completed workflow is complete.\<close>

definition dag_inv :: "workflow_spec \<Rightarrow> workflow \<Rightarrow> bool" where
  "dag_inv spec wk \<longleftrightarrow>
     (let forward = forward_steps (wsp_steps spec) in
      deps_before forward (wf_completed_steps wk)
      \<and> (\<forall>sid oc. (sid, oc) \<in> set (wf_step_outcomes wk) \<and> so_status oc = STEP_WAITING_APPROVAL \<longrightarrow> deps_done spec wk sid)
      \<and> (wf_status wk = WF_COMPLETED \<longrightarrow> set (map ws_id forward) \<subseteq> set (wf_completed_steps wk)))"

lemma dag_inv_completed:
  assumes "dag_inv spec wk" "deps_done spec wk sid"
  shows "dag_inv spec (record_completed sid oc wk)"
proof -
  have "deps_before (forward_steps (wsp_steps spec)) (wf_completed_steps wk @ [sid])"
    using assms by (intro deps_before_snoc) (auto simp: dag_inv_def Let_def deps_done_def)
  moreover have "deps_done spec (record_completed sid oc wk) k" if "deps_done spec wk k" for k
    using that unfolding deps_done_def record_fields by auto
  ultimately show ?thesis using assms(1) by (simp add: dag_inv_def Let_def) blast
qed

lemma paused_step_deps: "paused_step wk = Some sid \<Longrightarrow> dag_inv spec wk \<Longrightarrow> deps_done spec wk sid"
  by (auto simp: paused_step_def dag_inv_def Let_def dest!: find_Some_iff_mem)

lemma deps_done_cong: "wf_completed_steps wk' = wf_completed_steps wk \<Longrightarrow> deps_done spec wk' k = deps_done spec wk k"
  by (simp add: deps_done_def)

interpretation ordered: dag_invariant spec "dag_inv spec" "\<lambda>_ _. True" for spec
proof (unfold_locales, goal_cases)
  case (1 wk wk')
  then show ?case using deps_done_cong [OF 1(2)] by (auto simp: dag_inv_def Let_def)
next
  case (3 wk k oc)
  then show ?case by (auto simp: dag_inv_def Let_def deps_done_def dest!: dict_set_mem)
next
  case (4 wk k oc)
  then show ?case by (intro dag_inv_completed)
next
  case (5 wk)
  then show ?case using deps_done_cong [of "wk\<lparr>wf_status := WF_COMPLETED\<rparr>" wk] by (auto simp: dag_inv_def Let_def)
next
  case (6 wk k oc)
  then show ?case by (intro dag_inv_completed paused_step_deps)
qed (simp_all add: dag_inv_def Let_def)

subsection \<open>Samples\<close>

lemma diamond_ok: "well_formed_dag (diamond [])"
proof -
  let ?rank = "\<lambda>i. if i = ''a'' then 0 else if i = ''d'' then 2 else (1::nat)"
  have "(depends (wsp_steps (diamond [])))\<inverse> \<subseteq> measure ?rank"
    by (auto simp: depends_def diamond_def sample_spec_of_def sample_step_def)
  from wf_acyclic [OF wf_subset [OF wf_measure this]] have "acyclic (depends (wsp_steps (diamond [])))"
    unfolding acyclic_converse .
  then show ?thesis
    by (auto simp: well_formed_dag_def diamond_def sample_spec_of_def sample_step_def step_ids_def
        forward_steps_def compensation_targets_def truthy_opt_def Let_def)
qed

text \<open>Steps that complete at once, and steps that wait for an approval; the world counts the runs.\<close>

definition completing_step :: "string \<Rightarrow> nat wf_step" where
  "completing_step n =
     \<lparr>st_name = n,
      st_run = (\<lambda>st w. (w + 1, st, Inr \<lparr>so_status = STEP_COMPLETED, so_updates = [(n, PInt (int w))], so_error = None, so_approval_id = None\<rparr>)),
      st_check_pending = None, st_compensate = None\<rparr>"

definition completing_build :: "workflow_spec \<Rightarrow> string + nat wf_step list" where
  "completing_build spec = Inr (map (\<lambda>s. completing_step (ws_id s)) (wsp_steps spec))"

subsection \<open>The order is kept\<close>

text \<open>C12. Dependency order, across pauses. Whatever the steps do, whatever happens outside the workflow and
  however often it is resumed or executed again: a forward step is recorded as completed only after all
  the steps it depends on, and a workflow that is reported COMPLETED has completed every forward step.\<close>

theorem dependency_order:
  assumes "dag_life tx dh build spec wk" "well_formed_dag spec"
  shows "(\<forall>ys x zs s. wf_completed_steps wk = ys @ x # zs \<and> s \<in> set (forward_steps (wsp_steps spec)) \<and> ws_id s = x
           \<longrightarrow> set (ws_depends_on s) \<subseteq> set ys)
     \<and> (wf_status wk = WF_COMPLETED \<longrightarrow> set (map ws_id (forward_steps (wsp_steps spec))) \<subseteq> set (wf_completed_steps wk))"
proof -
  have "dag_inv spec wk"
    using assms by (intro ordered.life_holds) (auto simp: legal_steps_def well_formed_dag_def Let_def)
  then show ?thesis by (simp add: dag_inv_def Let_def deps_before_def)
qed

text \<open>Witness of C12: a completed run of the diamond.\<close>

theorem dependency_order_witness:
  "\<forall>tx. (let wk = fst (snd (execute_spec tx (\<lambda>_. ''h'') completing_build ''w1'' (diamond []) [] None 0)) in
     wf_completed_steps wk = [''a'', ''b'', ''c'', ''d''] \<and> wf_status wk = WF_COMPLETED
     \<and> (\<forall>ys x zs s. wf_completed_steps wk = ys @ x # zs \<and> s \<in> set (forward_steps (wsp_steps (diamond []))) \<and> ws_id s = x
           \<longrightarrow> set (ws_depends_on s) \<subseteq> set ys))" (is "\<forall>tx. ?P tx")
proof (intro allI)
  fix tx
  let ?r = "execute_spec tx (\<lambda>_. ''h'') completing_build ''w1'' (diamond []) [] None 0"
  have "wf_completed_steps (fst (snd ?r)) = [''a'', ''b'', ''c'', ''d'']" "wf_status (fst (snd ?r)) = WF_COMPLETED"
    by code_simp+
  moreover have "dag_life tx (\<lambda>_. ''h'') completing_build (diamond []) (fst (snd ?r))"
    by (rule dag_life_start)
  note dependency_order [OF this diamond_ok]
  ultimately show "?P tx" unfolding Let_def by blast
qed

subsection \<open>Completion\<close>

definition always_completes :: "'w wf_step \<Rightarrow> bool" where
  "always_completes step \<longleftrightarrow> (\<forall>st w. \<exists>oc. snd (snd (st_run step st w)) = Inr oc \<and> so_status oc = STEP_COMPLETED)"

text \<open>A step that also writes its identifier to a log each time it runs.\<close>

definition logged :: "string \<Rightarrow> 'w wf_step \<Rightarrow> ('w \<times> string list) wf_step" where
  "logged i step =
     \<lparr>st_name = st_name step,
      st_run = (\<lambda>st (w, log). case st_run step st w of (w', st', r) \<Rightarrow> ((w', log @ [i]), st', r)),
      st_check_pending = map_option (\<lambda>f i st (w, log). case f i st w of (w', r) \<Rightarrow> ((w', log), r)) (st_check_pending step),
      st_compensate = map_option (\<lambda>f st (w, log). case f st w of (w', st', r) \<Rightarrow> ((w', log), st', r)) (st_compensate step)\<rparr>"

definition runs_logged :: "string \<Rightarrow> ('w \<times> string list) wf_step \<Rightarrow> bool" where
  "runs_logged i step \<longleftrightarrow>
     (\<forall>st v. snd (fst (st_run step st v)) = snd v @ [i] \<and> (\<exists>oc. snd (snd (st_run step st v)) = Inr oc \<and> so_status oc = STEP_COMPLETED))"

lemma logged_runs: "always_completes step \<Longrightarrow> runs_logged i (logged i step)"
  by (auto simp: runs_logged_def logged_def always_completes_def split: prod.splits) (metis snd_conv)

lemma run_wave_completes:
  assumes "\<forall>i \<in> set sids. \<exists>step. dict_get steps_map i = Some step \<and> runs_logged i step"
  shows "\<exists>ocs. snd (run_wave steps_map st sids w) = Inr ocs \<and> (\<forall>oc \<in> set (map snd ocs). so_status oc = STEP_COMPLETED)
    \<and> snd (fst (run_wave steps_map st sids w)) = snd w @ sids"
  using assms
proof (induction sids arbitrary: w)
  case (Cons sid sids)
  obtain step where step: "dict_get steps_map sid = Some step" "runs_logged sid step" using Cons.prems by auto
  let ?r = "st_run step (dict_set ''_workflow_step_id'' (PStr sid) st) w"
  obtain oc where oc: "snd (snd ?r) = Inr oc" "so_status oc = STEP_COMPLETED" "snd (fst ?r) = snd w @ [sid]"
    using step(2) unfolding runs_logged_def by blast
  have "\<forall>i \<in> set sids. \<exists>step. dict_get steps_map i = Some step \<and> runs_logged i step" using Cons.prems by simp
  from Cons.IH [OF this, of "fst ?r"] obtain ocs where
    ocs: "snd (run_wave steps_map st sids (fst ?r)) = Inr ocs" "\<forall>oc \<in> set (map snd ocs). so_status oc = STEP_COMPLETED"
      "snd (fst (run_wave steps_map st sids (fst ?r))) = snd w @ sid # sids" unfolding oc(3) by auto
  have wave: "run_wave steps_map st (sid # sids) w = (fst (run_wave steps_map st sids (fst ?r)), Inr ((sid, oc) # ocs))"
    unfolding run_wave.simps step(1) option.case Let_def split_beta oc(1) ocs(1) snd_conv by (simp add: prod_eq_iff)
  have "\<forall>o' \<in> set (map snd ((sid, oc) # ocs)). so_status o' = STEP_COMPLETED"
    using oc(2) ocs(2) unfolding list.map list.set snd_conv by blast
  with ocs(3) show ?case unfolding wave snd_conv fst_conv by blast
qed simp

lemma process_wave_completes:
  assumes "\<forall>oc \<in> set (map snd ocs). so_status oc = STEP_COMPLETED"
  shows "\<exists>wk'. process_wave all_specs steps_map ocs C wk w = (w, wk', C \<union> set (map fst ocs), WaveOk)
      \<and> wf_completed_steps wk' = wf_completed_steps wk @ map fst ocs \<and> wf_status wk' = wf_status wk"
  using assms
proof (induction ocs arbitrary: C wk)
  case (Cons o' ocs)
  obtain sid oc where o: "o' = (sid, oc)" by (rule prod.exhaust)
  let ?w1 = "record_completed sid oc (wk\<lparr>wf_step_outcomes := dict_set sid oc (wf_step_outcomes wk)\<rparr>)"
  have c: "so_status oc = STEP_COMPLETED" "\<forall>oc \<in> set (map snd ocs). so_status oc = STEP_COMPLETED" using Cons.prems by (simp_all add: o)
  from Cons.IH [OF c(2), of "insert sid C" ?w1] obtain wk' where
    "process_wave all_specs steps_map ocs (insert sid C) ?w1 w = (w, wk', insert sid C \<union> set (map fst ocs), WaveOk)"
    "wf_completed_steps wk' = wf_completed_steps wk @ sid # map fst ocs" "wf_status wk' = wf_status wk" by auto
  with c(1) show ?case by (simp add: o Let_def)
qed simp

lemma dag_loop_completes:
  assumes "well_formed_dag spec" "\<forall>s \<in> set (forward_steps (wsp_steps spec)). \<exists>step. dict_get steps_map (ws_id s) = Some step \<and> runs_logged (ws_id s) step"
    "C = set (wf_completed_steps wk)" "distinct (wf_completed_steps wk)" "C \<subseteq> set (map ws_id (forward_steps (wsp_steps spec)))"
    "wf_status wk = WF_RUNNING"
  shows "\<exists>w' wk'. dag_loop tx (forward_steps (wsp_steps spec)) all_specs steps_map C wk w = (w', wk', None)
      \<and> wf_status wk' = WF_COMPLETED \<and> distinct (wf_completed_steps wk')
      \<and> set (wf_completed_steps wk') = set (map ws_id (forward_steps (wsp_steps spec)))
      \<and> (\<exists>xs. wf_completed_steps wk' = wf_completed_steps wk @ xs \<and> snd w' = snd w @ xs)"
  using assms
proof (induction tx "forward_steps (wsp_steps spec)" all_specs steps_map C wk w rule: dag_loop.induct)
  case (1 tx all_specs steps_map C wk w)
  let ?fs = "forward_steps (wsp_steps spec)"
  show ?case
  proof (cases "open_ids ?fs C = []")
    case True
    then have "set (map ws_id ?fs) = C" using 1(6) by (auto simp: open_ids_def filter_empty_conv)
    with True 1(4,5,7) show ?thesis by (subst dag_loop.simps) (simp add: wf_transition_def allowed_transitions_def)
  next
    case False
    note opn = False
    then obtain s where "s \<in> set ?fs" "ws_id s \<notin> C" by (auto simp: open_ids_def filter_empty_conv)
    from ready_exists [OF 1(2) this] have ready: "ready_ids ?fs C \<noteq> []"
      by (auto simp: ready_ids_def filter_empty_conv)
    let ?wave = "run_wave steps_map (wf_state wk) (ready_ids ?fs C) w"
    have rs: "set (ready_ids ?fs C) \<subseteq> set (map ws_id ?fs)" "set (ready_ids ?fs C) \<inter> C = {}" by (auto simp: ready_ids_def)
    then have "\<forall>i \<in> set (ready_ids ?fs C). \<exists>step. dict_get steps_map i = Some step \<and> runs_logged i step" using 1(3) by auto
    from run_wave_completes [OF this] obtain ocs where
      ocs: "snd ?wave = Inr ocs" "\<forall>oc \<in> set (map snd ocs). so_status oc = STEP_COMPLETED"
        "snd (fst ?wave) = snd w @ ready_ids ?fs C" by blast
    have ids: "map fst ocs = ready_ids ?fs C" using ocs(1) by (rule run_wave_ids)
    from process_wave_completes [OF ocs(2), of all_specs steps_map C wk "fst ?wave"] obtain wk1 where
      wk1: "process_wave all_specs steps_map ocs C wk (fst ?wave) = (fst ?wave, wk1, C \<union> set (map fst ocs), WaveOk)"
        "wf_completed_steps wk1 = wf_completed_steps wk @ map fst ocs" "wf_status wk1 = wf_status wk" by blast
    have d: "distinct (ready_ids ?fs C)"
      using 1(2) by (intro ready_ids_distinct) (auto simp: well_formed_dag_def Let_def step_ids_def forward_steps_def distinct_map_filter)
    have step: "dag_loop tx ?fs all_specs steps_map C wk w = dag_loop tx ?fs all_specs steps_map (C \<union> set (map fst ocs)) wk1 (fst ?wave)"
      using opn ready ocs(1) wk1(1) by (subst dag_loop.simps) simp
    have r: "snd (snd (snd (process_wave all_specs steps_map ocs C wk (fst ?wave)))) = WaveOk" using wk1(1) by simp
    note IH = 1(1) [OF opn ready refl ocs(1) refl r, unfolded wk1(1) fst_conv snd_conv, OF 1(2,3)]
    have "distinct (wf_completed_steps wk1)" using 1(4,5) wk1(2) rs(2) d by (auto simp: ids)
    moreover have "C \<union> set (map fst ocs) = set (wf_completed_steps wk1)" using 1(4) wk1(2) by simp
    moreover have "C \<union> set (map fst ocs) \<subseteq> set (map ws_id ?fs)" using 1(6) rs(1) unfolding ids by blast
    moreover have "wf_status wk1 = WF_RUNNING" using 1(7) wk1(3) by simp
    ultimately obtain w' wk' xs where
      "dag_loop tx ?fs all_specs steps_map (C \<union> set (map fst ocs)) wk1 (fst ?wave) = (w', wk', None)" "wf_status wk' = WF_COMPLETED"
      "distinct (wf_completed_steps wk')" "set (wf_completed_steps wk') = set (map ws_id ?fs)"
      "wf_completed_steps wk' = wf_completed_steps wk1 @ xs" "snd w' = snd (fst ?wave) @ xs"
      using IH by blast
    then show ?thesis unfolding step wk1(2) ids ocs(3) by fastforce
  qed
qed


lemma steps_by_id_get:
  assumes "length built = length steps" "s \<in> set steps"
  shows "\<exists>step \<in> set built. dict_get (steps_by_id steps (map2 (\<lambda>s step. f (ws_id s) step) steps built)) (ws_id s) = Some (f (ws_id s) step)"
proof -
  have "(\<exists>step. dict_get d i = Some (f i step) \<and> step \<in> B) \<or> i \<in> ws_id ` fst ` set ps \<Longrightarrow> snd ` set ps \<subseteq> B \<Longrightarrow>
    \<exists>step. dict_get (fold (\<lambda>(s, st) d. dict_set (ws_id s) (f (ws_id s) st) d) ps d) i = Some (f i step) \<and> step \<in> B" for ps d i B
  proof (induction ps arbitrary: d)
    case (Cons p ps)
    obtain a st where p: "p = (a, st)" by (rule prod.exhaust)
    have "(\<exists>step. dict_get (dict_set (ws_id a) (f (ws_id a) st) d) i = Some (f i step) \<and> step \<in> B) \<or> i \<in> ws_id ` fst ` set ps"
      using Cons.prems by (cases "i = ws_id a") (auto simp: p)
    from Cons.IH [OF this] Cons.prems(2) show ?case by (simp add: p)
  qed simp
  note get = this [of "[]" "ws_id s" "set built" "zip steps built"]
  have "fst ` set (zip steps built) = set steps" "snd ` set (zip steps built) = set built"
    using map_fst_zip [of steps built] map_snd_zip [of steps built] assms(1) by (metis set_map)+
  with get assms(2) have found:
    "\<exists>step. dict_get (fold (\<lambda>(s, st) d. dict_set (ws_id s) (f (ws_id s) st) d) (zip steps built) []) (ws_id s) = Some (f (ws_id s) step)
      \<and> step \<in> set built" by auto
  have "fold (\<lambda>(s, st) d. dict_set (ws_id s) st d) (zip ss (map2 (\<lambda>s step. f (ws_id s) step) ss bs)) d =
      fold (\<lambda>(s, st) d. dict_set (ws_id s) (f (ws_id s) st) d) (zip ss bs) d" for ss bs d
    by (induction ss bs arbitrary: d rule: list_induct2') simp_all
  then have eq: "steps_by_id steps (map2 (\<lambda>s step. f (ws_id s) step) steps built) =
      fold (\<lambda>(s, st) d. dict_set (ws_id s) (f (ws_id s) st) d) (zip steps built) []"
    unfolding steps_by_id_def .
  from found show ?thesis unfolding eq by blast
qed

text \<open>C15. Completion. On a valid specification whose steps are built and complete, the engine returns: it
  raises nothing, reports the workflow COMPLETED and has run every forward step exactly once, and no other: the log
  that the steps write when they run lists the forward steps, each once, in the order in which the workflow records
  them as completed.\<close>

theorem dag_completes:
  assumes "well_formed_dag spec" "build spec = Inr (map2 (\<lambda>s step. logged (ws_id s) step) (wsp_steps spec) built)"
    "length built = length (wsp_steps spec)" "\<forall>step \<in> set built. always_completes step"
  shows "\<exists>w' wk. execute_spec tx dh build wid spec st None (w, []) = ((w', wf_completed_steps wk), wk, None)
    \<and> wf_status wk = WF_COMPLETED \<and> distinct (wf_completed_steps wk)
    \<and> set (wf_completed_steps wk) = set (map ws_id (forward_steps (wsp_steps spec)))"
proof -
  let ?fs = "forward_steps (wsp_steps spec)"
  let ?built = "map2 (\<lambda>s step. logged (ws_id s) step) (wsp_steps spec) built"
  have "?fs \<noteq> []"
    using assms(1) by (auto simp: well_formed_dag_def Let_def forward_steps_def filter_empty_conv compensation_targets_iff)
  have "\<forall>s \<in> set ?fs. \<exists>step. dict_get (steps_by_id (wsp_steps spec) ?built) (ws_id s) = Some step \<and> runs_logged (ws_id s) step"
    using steps_by_id_get [OF assms(3), where f = logged] assms(4) logged_runs by (fastforce simp: forward_steps_def)
  note run = dag_loop_completes [OF assms(1) this]
  let ?wk = "\<lambda>name s. (new_workflow wid name st)\<lparr>wf_status := WF_RUNNING, wf_state := s\<rparr>"
  have "\<exists>w' wk'. execute_dag tx build spec (?wk name s) (w, []) = ((w', wf_completed_steps wk'), wk', None) \<and> wf_status wk' = WF_COMPLETED
      \<and> distinct (wf_completed_steps wk') \<and> set (wf_completed_steps wk') = set (map ws_id ?fs)" for name s
    using run [of "{}" "?wk name s" tx "specs_by_id (wsp_steps spec)" "(w, [])"] \<open>?fs \<noteq> []\<close>
    by (auto simp: execute_dag_def assms(2) new_workflow_def)
  then show ?thesis by (simp add: execute_spec_def Let_def)
qed


text \<open>Witness of C15: the diamond.\<close>

theorem dag_completes_witness:
  "let build = (\<lambda>spec. Inr (map2 (\<lambda>s step. logged (ws_id s) step) (wsp_steps spec) (map (\<lambda>s. completing_step (ws_id s)) (wsp_steps spec))))
   in \<forall>tx. \<exists>w' wk. execute_spec tx (\<lambda>_. ''h'') build ''w1'' (diamond []) [] None (0, []) = ((w', wf_completed_steps wk), wk, None)
        \<and> wf_status wk = WF_COMPLETED \<and> distinct (wf_completed_steps wk) \<and> set (wf_completed_steps wk) = {''a'', ''b'', ''c'', ''d''}"
proof -
  let ?built = "map (\<lambda>s. completing_step (ws_id s)) (wsp_steps (diamond []))"
  have "\<forall>step \<in> set ?built. always_completes step"
    by (auto simp: always_completes_def completing_step_def)
  note c = dag_completes [OF diamond_ok _ _ this]
  have "set (map ws_id (forward_steps (wsp_steps (diamond [])))) = {''a'', ''b'', ''c'', ''d''}"
    by code_simp+
  with c show ?thesis unfolding Let_def by simp
qed


subsection \<open>Two approval gates in a row\<close>

text \<open>\<open>resume_spec\<close> looks for the paused step among the recorded outcomes and never clears the outcome of
  a gate that was passed; so it keeps finding the first gate.\<close>

definition two_gates :: "workflow_spec \<Rightarrow> string \<Rightarrow> string \<Rightarrow> bool" where
  "two_gates spec i j \<longleftrightarrow> i \<noteq> j \<and> i \<in> set (map ws_id (forward_steps (wsp_steps spec)))
     \<and> (\<exists>t \<in> set (forward_steps (wsp_steps spec)). ws_id t = j \<and> i \<in> set (ws_depends_on t))"

definition gate_legal :: "workflow_spec \<Rightarrow> string \<Rightarrow> string \<Rightarrow> string \<Rightarrow> step_outcome \<Rightarrow> bool" where
  "gate_legal spec i j k oc \<longleftrightarrow> (two_gates spec i j \<and> (k = i \<or> k = j) \<longrightarrow> so_status oc \<noteq> STEP_COMPLETED)"

text \<open>The outcome of the gate \<open>i\<close> comes before any of \<open>j\<close>, and is a pause.\<close>

fun gate_first :: "string \<Rightarrow> string \<Rightarrow> (string \<times> step_outcome) list \<Rightarrow> bool" where
  "gate_first i j [] = False"
| "gate_first i j ((k, oc) # os) =
     (if k = i then so_status oc = STEP_WAITING_APPROVAL else k \<noteq> j \<and> gate_first i j os)"

lemma gate_first_set:
  "gate_first i j os \<Longrightarrow> k \<noteq> i \<Longrightarrow> gate_first i j (dict_set k oc os)"
  by (induction i j os rule: gate_first.induct) (auto split: if_splits)

lemma gate_first_paused:
  assumes "gate_first i j os" "i \<noteq> j"
  shows "map_option fst (List.find (\<lambda>(k, oc). so_status oc = STEP_WAITING_APPROVAL) os) \<noteq> Some j"
  using assms by (induction i j os rule: gate_first.induct) (auto split: if_splits)

lemma gate_first_found:
  assumes "j \<notin> set (dict_keys os)" "(i, oc) \<in> set os" "so_status oc = STEP_WAITING_APPROVAL" "dict_ok os"
  shows "gate_first i j os"
  using assms by (induction i j os rule: gate_first.induct) force+

lemma dict_keys_set: "set (dict_keys (dict_set k v d)) = insert k (set (dict_keys d))"
  by (induction d) auto

definition gate_inv :: "workflow_spec \<Rightarrow> string \<Rightarrow> string \<Rightarrow> workflow \<Rightarrow> bool" where
  "gate_inv spec i j wk \<longleftrightarrow>
     (two_gates spec i j \<longrightarrow>
        j \<notin> set (wf_completed_steps wk) \<and> wf_status wk \<noteq> WF_COMPLETED
        \<and> dict_ok (wf_step_outcomes wk)
        \<and> (i \<in> set (wf_completed_steps wk) \<or> j \<in> set (dict_keys (wf_step_outcomes wk))
             \<longrightarrow> i \<in> set (wf_completed_steps wk) \<and> gate_first i j (wf_step_outcomes wk)))"

lemma deps_done_gate: "two_gates spec i j \<Longrightarrow> deps_done spec wk j \<Longrightarrow> i \<in> set (wf_completed_steps wk)"
  by (auto simp: two_gates_def deps_done_def)

lemma gate_inv_paused:
  assumes "gate_inv spec i j wk" "two_gates spec i j" "paused_step wk = Some k"
  shows "k \<noteq> j" "k = i \<Longrightarrow> gate_first i j (wf_step_outcomes wk)"
proof -
  obtain oc where oc: "(k, oc) \<in> set (wf_step_outcomes wk)" "so_status oc = STEP_WAITING_APPROVAL"
    using assms(3) by (auto simp: paused_step_def dest!: find_Some_iff_mem)
  then have k: "k \<in> set (dict_keys (wf_step_outcomes wk))" by force
  have ij: "i \<noteq> j" using assms(2) by (simp add: two_gates_def)
  show "k \<noteq> j"
  proof
    assume "k = j"
    with k assms(1,2) have "gate_first i j (wf_step_outcomes wk)" by (auto simp: gate_inv_def)
    from gate_first_paused [OF this ij] assms(3) \<open>k = j\<close> show False by (simp add: paused_step_def)
  qed
  show "gate_first i j (wf_step_outcomes wk)" if "k = i"
    using assms(1,2) oc that gate_first_found [of j "wf_step_outcomes wk" i oc] by (auto simp: gate_inv_def)
qed

interpretation gates: dag_invariant spec "gate_inv spec i j" "gate_legal spec i j" for spec i j
proof (unfold_locales, goal_cases)
  case (1 wk wk')
  then show ?case by (auto simp: gate_inv_def)
next
  case (3 wk k oc)
  have "gate_first i j (dict_set k oc (wf_step_outcomes wk))"
    if "two_gates spec i j" "i \<in> set (wf_completed_steps wk)" "gate_first i j (wf_step_outcomes wk)"
  proof (rule gate_first_set [OF that(3)])
    have "i \<notin> compensation_targets (wsp_steps spec)" using that(1) by (auto simp: two_gates_def forward_steps_def)
    with 3(4) that(2) show "k \<noteq> i" by blast
  qed
  moreover have "j \<in> set (dict_keys (wf_step_outcomes wk)) \<or> i \<in> set (wf_completed_steps wk)"
    if "two_gates spec i j" "j \<in> set (dict_keys (dict_set k oc (wf_step_outcomes wk)))"
    using that(2) deps_done_gate [OF that(1)] 3(2) unfolding dict_keys_set by blast
  ultimately show ?case using 3(1) by (simp add: gate_inv_def del: set_map) blast
next
  case (4 wk k oc)
  then show ?case by (auto simp: gate_inv_def gate_legal_def)
next
  case (5 wk)
  then show ?case by (auto simp: gate_inv_def two_gates_def)
next
  case (6 wk k oc)
  then show ?case using gate_inv_paused [OF 6(1) _ 6(2)] by (auto simp: gate_inv_def)
next
  case (7 c oc)
  then show ?case by (auto simp: gate_legal_def two_gates_def forward_steps_def)
qed (simp add: gate_inv_def)


end
