(* ===== verification/ApprovalService.thy ===== *)
theory ApprovalService
  imports GatewayProps
begin

text \<open>
  The durable approval service (\<open>packages/agent/capabilities/approval_service.py\<close>): it files approval
  requests of tool calls and of changes, takes the reviewers' decisions, and checks an approval
  again before the approved work goes on. Generated identifiers and clock readings are arguments,
  in the order the code draws them; the policy evaluator is a parameter.
\<close>

subsection \<open>Results and errors\<close>

datatype approval_error = ApprovalAlreadyDecidedError string string | WaitValidationError

record approval_change_execution_result =
  ce_can_execute :: bool
  ce_reason_code :: string
  ce_approval_record :: "run_approval_record option"

record approval_resume_result =
  rs_can_resume :: bool
  rs_effective_decision :: policy_decision
  rs_reason :: string
  rs_approval_record :: "run_approval_record option"
  rs_tool_call_record :: "run_tool_call_record option"
  rs_checkpoint_record :: "run_checkpoint_record option"

subsection \<open>Requests\<close>

fun risk_value :: "capability_risk \<Rightarrow> string" where
  "risk_value LOW = ''low''"
| "risk_value MEDIUM = ''medium''"
| "risk_value HIGH = ''high''"
| "risk_value CRITICAL = ''critical''"

text \<open>\<open>ExecutionTargetSnapshot.model_dump()\<close>.\<close>

definition dump_target :: "execution_target_snapshot \<Rightarrow> payload" where
  "dump_target t =
     [(''capability_id'', PStr (ts_capability_id t)), (''connector_id'', opt_val (ts_connector_id t)),
      (''connection_account_id'', opt_val (ts_connection_account_id t)),
      (''endpoint_resource_identity'', opt_val (ts_endpoint_resource_identity t)),
      (''schema_hash_version'', opt_val (ts_schema_hash_version t)),
      (''credential_grant_version'', opt_val (ts_credential_grant_version t)),
      (''capability_risk_at_request_time'', PStr (risk_value (ts_capability_risk_at_request_time t))),
      (''handler_catalog_version'', opt_val (ts_handler_catalog_version t)), (''metadata'', PDict (ts_metadata t))]"

text \<open>The field \<open>owner_responder: str | None\<close> of a wait descriptor refuses any other value.\<close>

definition responder_of :: "pyval \<Rightarrow> approval_error + string option" where
  "responder_of v = (case v of PNone \<Rightarrow> Inr None | PStr s \<Rightarrow> Inr (Some s) | _ \<Rightarrow> Inl WaitValidationError)"

definition approval_event :: "string \<Rightarrow> datetime \<Rightarrow> string \<Rightarrow> string \<Rightarrow> payload \<Rightarrow> run_event_record" where
  "approval_event eid now rid et pl =
     \<lparr>ev_event_id = eid, ev_run_id = rid, ev_project_id = None, ev_sequence_no = None, ev_event_type = et,
      ev_payload = pl, ev_correlation_id = None, ev_created_at = now\<rparr>"

definition requested_approval ::
  "datetime \<Rightarrow> string \<Rightarrow> string \<Rightarrow> string \<Rightarrow> string \<Rightarrow> string \<Rightarrow> payload option \<Rightarrow> string
     \<Rightarrow> execution_target_snapshot option \<Rightarrow> string option \<Rightarrow> string option \<Rightarrow> run_approval_record" where
  "requested_approval t1 rid tid ckpt action subject req requester target phash mhash =
     \<lparr>ap_approval_id = ''appr_'' @ rid @ ''_'' @ tid, ap_workspace_id = None, ap_project_id = None, ap_binding_kind = TOOL_CALL,
      ap_run_id = Some rid, ap_tool_call_id = Some tid, ap_checkpoint_ref = Some ckpt, ap_status = ''pending'',
      ap_requirement = (case req of None \<Rightarrow> [] | Some r \<Rightarrow> r), ap_requester = Some requester,
      ap_action = Some action, ap_subject = Some subject, ap_subject_kind = None, ap_subject_ref = None,
      ap_subject_hash = None, ap_reviewer = None, ap_reason = None,
      ap_evidence = Some [(''payload_hash'', opt_val phash),
        (''target_snapshot'', (case target of None \<Rightarrow> PNone | Some t \<Rightarrow> PDict (dump_target t)))],
      ap_manifest_hash = mhash, ap_decision_version = 0, ap_created_at = t1, ap_decided_at = None,
      ap_expires_at = None\<rparr>"

definition create_approval_request ::
  "datetime \<Rightarrow> string \<Rightarrow> datetime \<Rightarrow> string \<Rightarrow> datetime \<Rightarrow> string \<Rightarrow> string \<Rightarrow> string \<Rightarrow> string \<Rightarrow> string \<Rightarrow> payload option
     \<Rightarrow> string \<Rightarrow> execution_target_snapshot option \<Rightarrow> string option \<Rightarrow> string option \<Rightarrow> run_repo
     \<Rightarrow> run_repo \<times> (approval_error + run_approval_record \<times> wait_descriptor)" where
  "create_approval_request t1 eid t2 wid t3 rid tid ckpt action subject req requester target phash mhash s =
     (let aid = ''appr_'' @ rid @ ''_'' @ tid;
          rec = requested_approval t1 rid tid ckpt action subject req requester target phash mhash;
          (s1, filed) = create_approval rec s;
          s2 = fst (append_event (approval_event eid t2 rid ''approval.required''
                 [(''approval_id'', PStr aid), (''tool_call_id'', PStr tid), (''checkpoint_ref'', PStr ckpt),
                  (''action'', PStr action)]) s1);
          owner = (case req of None \<Rightarrow> PStr ''admin'' | Some [] \<Rightarrow> PStr ''admin'' | Some r \<Rightarrow> ctx_get r ''role'')
      in (s2, case responder_of owner of
                Inl e \<Rightarrow> Inl e
              | Inr o' \<Rightarrow>
                  Inr (filed,
                    \<lparr>wd_id = wid, wd_kind = WK_APPROVAL,
                     wd_reason = ''Action '' @ sq action @ '' requires human approval: '' @ subject,
                     wd_owner_responder = o', wd_resume_trigger = ''approval.decided'', wd_checkpoint_ref = ckpt,
                     wd_related_ref = Some aid, wd_created_at = t3, wd_expires_at = None\<rparr>)))"

definition new_change_approval ::
  "string \<Rightarrow> datetime \<Rightarrow> string \<Rightarrow> string option \<Rightarrow> string \<Rightarrow> approval_subject \<Rightarrow> payload \<Rightarrow> string \<Rightarrow> run_approval_record" where
  "new_change_approval hex t1 ws project action subj req requester =
     \<lparr>ap_approval_id = ''appr_chg_'' @ take 16 hex, ap_workspace_id = Some ws, ap_project_id = project,
      ap_binding_kind = CHANGE_REQUEST, ap_run_id = None, ap_tool_call_id = None, ap_checkpoint_ref = None,
      ap_status = ''pending'', ap_requirement = req, ap_requester = Some requester, ap_action = Some action,
      ap_subject = Some (subj_kind subj @ '':'' @ subj_ref subj), ap_subject_kind = Some (subj_kind subj),
      ap_subject_ref = Some (subj_ref subj), ap_subject_hash = Some (subj_definition_hash subj),
      ap_reviewer = None, ap_reason = None, ap_evidence = None, ap_manifest_hash = None, ap_decision_version = 0,
      ap_created_at = t1, ap_decided_at = None, ap_expires_at = None\<rparr>"

definition create_change_approval_request ::
  "string \<Rightarrow> datetime \<Rightarrow> string \<Rightarrow> datetime \<Rightarrow> string \<Rightarrow> datetime \<Rightarrow> string \<Rightarrow> string option \<Rightarrow> string \<Rightarrow> approval_subject
     \<Rightarrow> payload \<Rightarrow> string \<Rightarrow> run_repo \<Rightarrow> run_repo \<times> (approval_error + run_approval_record \<times> wait_descriptor)" where
  "create_change_approval_request hex t1 eid t2 wid t3 ws project action subj req requester s =
     (let (s1, (persisted, is_new)) =
            create_or_get_pending_change_approval (new_change_approval hex t1 ws project action subj req requester) s;
          s2 = (if is_new then
                  fst (append_approval_event eid t2 (ap_approval_id persisted) ws ''approval.required'' (Some requester)
                    (Some [(''action'', PStr action), (''subject_kind'', PStr (subj_kind subj)),
                           (''subject_ref'', PStr (subj_ref subj)),
                           (''subject_hash'', PStr (subj_definition_hash subj)), (''requirement'', PDict req)]) s1)
                else s1)
      in (s2, case responder_of (py_or (ctx_get req ''role'') (PStr ''founder'')) of
                Inl e \<Rightarrow> Inl e
              | Inr o' \<Rightarrow>
                  Inr (persisted,
                    \<lparr>wd_id = wid, wd_kind = WK_APPROVAL,
                     wd_reason = ''Action '' @ sq action @ '' requires approval for '' @ subj_kind subj @ '' '' @ subj_ref subj,
                     wd_owner_responder = o', wd_resume_trigger = ''approval.decided'',
                     wd_checkpoint_ref = ''change:'' @ subj_kind subj @ '':'' @ subj_ref subj,
                     wd_related_ref = Some (ap_approval_id persisted), wd_created_at = t3, wd_expires_at = None\<rparr>)))"

subsection \<open>Lookups\<close>

definition verify_change_execution ::
  "datetime \<Rightarrow> string \<Rightarrow> string \<Rightarrow> string \<Rightarrow> approval_subject \<Rightarrow> run_repo \<Rightarrow> approval_change_execution_result" where
  "verify_change_execution now aid ws action subj s =
     (let no = (\<lambda>code a. \<lparr>ce_can_execute = False, ce_reason_code = code, ce_approval_record = a\<rparr>) in
      case get_scoped_approval aid ws s of
        None \<Rightarrow> no ''APPROVAL_NOT_FOUND_OR_FORBIDDEN'' None
      | Some a \<Rightarrow>
          if ap_binding_kind a \<noteq> CHANGE_REQUEST then no ''APPROVAL_BINDING_KIND_MISMATCH'' (Some a)
          else if ap_action a \<noteq> Some action then no ''APPROVAL_ACTION_MISMATCH'' (Some a)
          else if ap_subject_kind a \<noteq> Some (subj_kind subj) \<or> ap_subject_ref a \<noteq> Some (subj_ref subj)
               \<or> ap_subject_hash a \<noteq> Some (subj_definition_hash subj) then no ''APPROVAL_SUBJECT_STALE'' (Some a)
          else if (case ap_expires_at a of None \<Rightarrow> False | Some t \<Rightarrow> t < now) then no ''APPROVAL_EXPIRED'' (Some a)
          else if ap_status a \<noteq> ''approved'' then no ''APPROVAL_NOT_APPROVED'' (Some a)
          else \<lparr>ce_can_execute = True, ce_reason_code = ''APPROVAL_VALID'', ce_approval_record = Some a\<rparr>)"

definition get_by_invocation :: "string \<Rightarrow> string \<Rightarrow> string option \<Rightarrow> run_repo \<Rightarrow> run_approval_record option" where
  "get_by_invocation rid tid ckpt s =
     (case get_approval_by_tool_call tid s of
        None \<Rightarrow> None
      | Some a \<Rightarrow>
          if ap_run_id a = Some rid then (if truthy_opt ckpt \<and> ap_checkpoint_ref a \<noteq> ckpt then None else Some a)
          else None)"

subsection \<open>Decisions\<close>

definition decision_evidence ::
  "py_text \<Rightarrow> datetime \<Rightarrow> string \<Rightarrow> bool \<Rightarrow> string \<Rightarrow> payload option \<Rightarrow> run_approval_record \<Rightarrow> payload" where
  "decision_evidence tx now reviewer approved reason extra a =
     dict_update (dict_update (case ap_evidence a of None \<Rightarrow> [] | Some e \<Rightarrow> e) (case extra of None \<Rightarrow> [] | Some e \<Rightarrow> e))
       [(''reviewer'', PStr reviewer), (''decision'', PStr (if approved then ''approved'' else ''rejected'')),
        (''reason'', PStr reason), (''submitted_at'', PStr (pt_dt tx now))]"

text \<open>\<open>t0\<close> is the reading for the evidence, \<open>ts\<close> those of the decision itself, \<open>ids\<close> the identifiers it
  generates; the run event of a tool-call decision gets the identifier \<open>eid\<close> at \<open>t5\<close>.\<close>

definition submit_decision ::
  "py_text \<Rightarrow> datetime \<Rightarrow> string \<times> string \<Rightarrow> datetime \<times> datetime \<times> datetime \<times> datetime \<Rightarrow> string \<Rightarrow> datetime \<Rightarrow> string
     \<Rightarrow> string \<Rightarrow> bool \<Rightarrow> string \<Rightarrow> payload option \<Rightarrow> run_repo
     \<Rightarrow> run_repo \<times> (approval_error + run_approval_record option)" where
  "submit_decision tx t0 ids ts eid t5 aid reviewer approved reason extra s =
     (case get_approval aid s of
        None \<Rightarrow> (s, Inr None)
      | Some a \<Rightarrow>
          let ev = decision_evidence tx t0 reviewer approved reason extra a in
          if ap_binding_kind a = CHANGE_REQUEST then
            (case decide_change_approval_and_enqueue ids ts aid reviewer approved (Some reason) (Some ev) s of
               (s1, None) \<Rightarrow> (s1, Inl (ApprovalAlreadyDecidedError aid (ap_status a)))
             | (s1, Some a') \<Rightarrow> (s1, Inr (Some a')))
          else
            (case decide_approval (fst ts) aid reviewer approved (Some reason) (Some ev) s of
               (s1, None) \<Rightarrow> (s1, Inl (ApprovalAlreadyDecidedError aid (ap_status a)))
             | (s1, Some a') \<Rightarrow>
                 (case ap_run_id a' of
                    None \<Rightarrow> (s1, Inr (Some a'))
                  | Some rid \<Rightarrow>
                      if rid = [] then (s1, Inr (Some a'))
                      else (fst (append_event (approval_event eid t5 rid ''approval.decided''
                                   [(''approval_id'', PStr aid), (''tool_call_id'', opt_val (ap_tool_call_id a')),
                                    (''status'', PStr (ap_status a')), (''reviewer'', PStr reviewer)]) s1),
                            Inr (Some a')))))"

subsection \<open>Before the work goes on\<close>

definition resume_denied :: "string \<Rightarrow> string \<Rightarrow> approval_resume_result" where
  "resume_denied why reason =
     \<lparr>rs_can_resume = False, rs_effective_decision = decision DENY [why], rs_reason = reason,
      rs_approval_record = None, rs_tool_call_record = None, rs_checkpoint_record = None\<rparr>"

definition target_drift :: "execution_target_snapshot option \<Rightarrow> execution_target_snapshot option \<Rightarrow> (string \<times> string) option" where
  "target_drift cur saved =
     (case (cur, saved) of
        (Some c, Some t) \<Rightarrow>
          if truthy_opt (ts_connector_id c) \<and> truthy_opt (ts_connector_id t) \<and> ts_connector_id c \<noteq> ts_connector_id t then
            Some (''Target connector drifted'',
                  ''Target connector changed from '' @ the (ts_connector_id t) @ '' to '' @ the (ts_connector_id c))
          else if truthy_opt (ts_schema_hash_version c) \<and> truthy_opt (ts_schema_hash_version t)
                  \<and> ts_schema_hash_version c \<noteq> ts_schema_hash_version t then
            Some (''Target schema drifted'',
                  ''Target schema hash changed from '' @ the (ts_schema_hash_version t) @ '' to ''
                    @ the (ts_schema_hash_version c))
          else None
      | _ \<Rightarrow> None)"

text \<open>The checks once the four records are found. As in the ambient check, a status that is not a string
  is never one of the listed ones.\<close>

definition verify_bound_approval ::
  "(string \<Rightarrow> payload \<Rightarrow> payload \<Rightarrow> string + policy_decision) option \<Rightarrow> payload \<Rightarrow> execution_target_snapshot option
     \<Rightarrow> string option \<Rightarrow> run_approval_record \<Rightarrow> run_tool_call_record \<Rightarrow> run_checkpoint_record
     \<Rightarrow> string + approval_resume_result" where
  "verify_bound_approval policy ctx cur mhash a tc ck =
     (let full = (\<lambda>r. r\<lparr>rs_approval_record := Some a, rs_tool_call_record := Some tc, rs_checkpoint_record := Some ck\<rparr>);
          deny = (\<lambda>why reason. Inr (full (resume_denied why reason)))
      in if ap_binding_kind a \<noteq> TOOL_CALL then
           deny ''APPROVAL_BINDING_KIND_MISMATCH''
             ''APPROVAL_BINDING_KIND_MISMATCH: verify_and_prepare_resume only accepts TOOL_CALL bindings''
         else if mhash \<noteq> None \<and> ap_manifest_hash a \<noteq> None \<and> ap_manifest_hash a \<noteq> mhash then
           deny ''Approval manifest mismatch''
             (''Approval was granted under manifest '' @ sq (the (ap_manifest_hash a)) @ '', resume is under '' @ sq (the mhash))
         else if ap_status a \<noteq> ''approved'' then
           Inr (full ((resume_denied [] (''Approval is not approved (current status: '' @ ap_status a @ '')''))
             \<lparr>rs_effective_decision := decision REQUIRE_APPROVAL [''Approval status is '' @ ap_status a]\<rparr>))
         else
           case status_in (dict_get_or ctx ''tenant_status'' (PStr ''active'')) [''suspended'', ''disabled''] of
             Some st \<Rightarrow> deny (''Tenant is '' @ st) (''Cannot resume: Tenant is currently '' @ st)
           | None \<Rightarrow>
           case status_in (dict_get_or ctx ''principal_status'' (PStr ''active'')) [''revoked'', ''disabled''] of
             Some st \<Rightarrow> deny (''Principal is '' @ st) (''Cannot resume: Principal is currently '' @ st)
           | None \<Rightarrow>
           if truthy (dict_get_or ctx ''emergency_lock'' (PBool False)) then
             deny ''Emergency lock is active'' ''Cannot resume: Global emergency lock is active''
           else
           case target_drift cur (tc_execution_target_snapshot tc) of
             Some (why, reason) \<Rightarrow> deny why reason
           | None \<Rightarrow>
           case (case policy of
                   None \<Rightarrow> Inr (decision ALLOW [''Default allow''])
                 | Some f \<Rightarrow> f (tc_capability_id tc) (tc_input_payload tc) ctx) of
             Inl exc \<Rightarrow> Inl exc
           | Inr d \<Rightarrow>
               if outcome d = DENY then
                 Inr (full ((resume_denied [] ''Current policy evaluation resulted in DENY'')\<lparr>rs_effective_decision := d\<rparr>))
               else
                 Inr (full ((resume_denied [] ''Approval verified and all safety invariants satisfied'')
                   \<lparr>rs_can_resume := True, rs_effective_decision := d\<rparr>)))"

text \<open>\<open>if not x or x.attr != expected\<close>, read as the record when it is there and fits.\<close>

definition find_own :: "('a \<Rightarrow> bool) \<Rightarrow> 'a option \<Rightarrow> 'a option" where
  "find_own P x = (case x of None \<Rightarrow> None | Some v \<Rightarrow> if P v then Some v else None)"

definition verify_and_prepare_resume ::
  "(string \<Rightarrow> payload \<Rightarrow> payload \<Rightarrow> string + policy_decision) option \<Rightarrow> string \<Rightarrow> string \<Rightarrow> string \<Rightarrow> payload option
     \<Rightarrow> execution_target_snapshot option \<Rightarrow> string option \<Rightarrow> run_repo \<Rightarrow> string + approval_resume_result" where
  "verify_and_prepare_resume policy rid tid ckpt ctx cur mhash s =
     (case get_run rid s of
        None \<Rightarrow> Inr (resume_denied ''Run not found'' (''Run '' @ sq rid @ '' does not exist''))
      | Some run \<Rightarrow>
     (case find_own (\<lambda>tc. tc_run_id tc = rid) (get_tool_call tid s) of
        None \<Rightarrow> Inr (resume_denied ''Tool call not found''
                  (''Tool call '' @ sq tid @ '' not found for run '' @ sq rid))
      | Some tc \<Rightarrow>
     (case find_own (\<lambda>ck. ck_run_id ck = rid) (get_checkpoint ckpt s) of
        None \<Rightarrow> Inr (resume_denied ''Checkpoint not found''
                  (''Checkpoint '' @ sq ckpt @ '' not found for run '' @ sq rid))
      | Some ck \<Rightarrow>
     (case find_own (\<lambda>a. ap_checkpoint_ref a = Some ckpt) (get_approval_by_tool_call tid s) of
        None \<Rightarrow> Inr (resume_denied ''Approval not found''
                  (''No matching approval for tool_call '' @ sq tid @ '' and checkpoint '' @ sq ckpt))
      | Some a \<Rightarrow>
          verify_bound_approval policy (case ctx of None \<Rightarrow> [] | Some d \<Rightarrow> d) cur mhash a tc ck))))"

subsection \<open>Change requests\<close>

text \<open>A record that asks for a given change in a given workspace.\<close>

definition asks_for :: "string \<Rightarrow> string \<Rightarrow> approval_subject \<Rightarrow> run_approval_record \<Rightarrow> bool" where
  "asks_for ws action subj a \<longleftrightarrow>
     ap_binding_kind a = CHANGE_REQUEST \<and> ap_workspace_id a = Some ws \<and> ap_action a = Some action
     \<and> ap_subject_kind a = Some (subj_kind subj) \<and> ap_subject_ref a = Some (subj_ref subj)
     \<and> ap_subject_hash a = Some (subj_definition_hash subj)"

definition unexpired :: "datetime \<Rightarrow> run_approval_record \<Rightarrow> bool" where
  "unexpired now a \<longleftrightarrow> (case ap_expires_at a of None \<Rightarrow> True | Some t \<Rightarrow> now \<le> t)"

lemma asks_for_unique: "asks_for ws action subj a \<Longrightarrow> asks_for ws' action' subj' a \<longleftrightarrow> ws' = ws \<and> action' = action \<and> subj' = subj"
  by (auto simp: asks_for_def)

lemma verify_change_iff:
  assumes "asks_for ws action subj a" "dict_get (approvals s) aid = Some a" "ap_status a = ''approved''"
  shows "ce_can_execute (verify_change_execution now aid ws' action' subj' s) \<longleftrightarrow>
    ws' = ws \<and> action' = action \<and> subj' = subj \<and> unexpired now a"
  using assms
  by (auto simp: verify_change_execution_def get_scoped_approval_def via_run_def asks_for_def unexpired_def Let_def
      split: option.split)

lemma value_filed:
  assumes "repo_inv s" "a \<in> set (dict_values (approvals s))"
  shows "dict_get (approvals s) (ap_approval_id a) = Some a"
proof -
  from assms(2) obtain k where k: "(k, a) \<in> set (approvals s)" by auto
  moreover have "dict_ok (approvals s)" using assms(1) by (simp add: repo_inv_def tables_inv_def)
  ultimately have "dict_get (approvals s) k = Some a" by (simp add: map_of_eq_Some_iff)
  moreover have "ap_approval_id a = k" using assms(1) calculation by (auto simp: repo_inv_def approvals_inv_def)
  ultimately show ?thesis by simp
qed

lemma change_request_filed:
  assumes "reachable_repo s" and free: "dict_get (approvals s) (''appr_chg_'' @ take 16 hex) = None"
    and req: "create_change_approval_request hex t1 eid t2 wid t3 ws project action subj req requester s = (s1, Inr (a, wd))"
  shows "reachable_repo s1" "dict_get (approvals s1) (ap_approval_id a) = Some a" "asks_for ws action subj a"
    "ap_status a = ''pending''" "wd_related_ref wd = Some (ap_approval_id a)"
proof -
  let ?new = "new_change_approval hex t1 ws project action subj req requester"
  obtain s0 p b where c: "create_or_get_pending_change_approval ?new s = (s0, (p, b))" by (metis prod.exhaust)
  have inv: "repo_inv s" using assms(1) by (rule reachable_inv)
  have id: "ap_approval_id ?new = ''appr_chg_'' @ take 16 hex" by (simp add: new_change_approval_def)
  have s0: "reachable_repo s0" using reachable_step [OF assms(1), of "OpCreateChange ?new"] free c by (simp add: id)
  have p: "a = p" "wd_related_ref wd = Some (ap_approval_id p)"
    "s1 = s0 \<or> (\<exists>pl. s1 = repo_step (OpApprovalEvent eid t2 (ap_approval_id p) ws ''approval.required'' (Some requester) pl) s0)"
    using req unfolding create_change_approval_request_def c Let_def by (auto split: sum.splits if_splits)
  have "dict_get (approvals s0) (ap_approval_id p) = Some p \<and> asks_for ws action subj p \<and> ap_status p = ''pending''"
  proof (cases "List.find (same_pending_change ?new) (dict_values (approvals s))")
    case None
    with c have "p = ?new" "s0 = s\<lparr>approvals := dict_set (ap_approval_id ?new) ?new (approvals s)\<rparr>"
      by (auto simp: create_or_get_pending_change_approval_def)
    then show ?thesis by (simp add: asks_for_def new_change_approval_def)
  next
    case (Some e)
    with c have e: "p = e" "s0 = s" by (auto simp: create_or_get_pending_change_approval_def)
    from find_Some_iff_mem [OF Some] value_filed [OF inv] show ?thesis
      unfolding e by (auto simp: same_pending_change_def asks_for_def new_change_approval_def)
  qed
  moreover have "reachable_repo s1 \<and> approvals s1 = approvals s0"
    using p(3) s0 reachable_step [OF s0, of "OpApprovalEvent eid t2 (ap_approval_id p) ws ''approval.required'' (Some requester) _"]
    by (auto simp: append_approval_event_def Let_def)
  ultimately show "reachable_repo s1" "dict_get (approvals s1) (ap_approval_id a) = Some a" "asks_for ws action subj a"
    "ap_status a = ''pending''" "wd_related_ref wd = Some (ap_approval_id a)"
    using p(1,2) by simp_all
qed

text \<open>A decision on a filed request stands along every interleaving of repository operations.\<close>

lemma change_decision_stands:
  assumes "reachable_repo s" "dict_get (approvals s) (''appr_chg_'' @ take 16 hex) = None"
    and "create_change_approval_request hex t1 eid t2 wid t3 ws project action subj req requester s = (s1, Inr (a, wd))"
    and "submit_decision tx t0 ids ts eid' t5 (ap_approval_id a) reviewer ok reason extra s1 = (s2, res)"
    and "admissible repo_guard repo_step ops s2" "t = fold repo_step ops s2"
  shows "\<exists>a'. res = Inr (Some a') \<and> dict_get (approvals t) (ap_approval_id a) = Some a'
    \<and> ap_status a' = (if ok then ''approved'' else ''denied'') \<and> asks_for ws action subj a'
    \<and> ap_expires_at a' = ap_expires_at a"
proof -
  note f = change_request_filed [OF assms(1-3)]
  let ?ev = "decision_evidence tx t0 reviewer ok reason extra a"
  let ?a' = "decided (fst ts) reviewer ok (Some reason) (Some ?ev) a"
  have bind: "ap_binding_kind a = CHANGE_REQUEST" using f(3) by (simp add: asks_for_def)
  have "snd (decide_change_approval_and_enqueue ids ts (ap_approval_id a) reviewer ok (Some reason) (Some ?ev) s1) = Some ?a'"
    using f(2,4) by (auto simp: decide_change_approval_and_enqueue_def Let_def split: prod.split)
  then obtain u where d: "decide_change_approval_and_enqueue ids ts (ap_approval_id a) reviewer ok (Some reason) (Some ?ev) s1 = (u, Some ?a')"
    by (metis prod.collapse)
  then have s2: "s2 = u" "res = Inr (Some ?a')"
    using assms(4) f(2) bind by (auto simp: submit_decision_def get_approval_def Let_def)
  have st: "ap_status ?a' = (if ok then ''approved'' else ''denied'')" "ap_status ?a' \<noteq> ''pending''" "asks_for ws action subj ?a'"
      "ap_expires_at ?a' = ap_expires_at a"
    using f(3) bind by (simp_all add: decided_def Let_def asks_for_def)
  have step: "s2 = repo_step (OpDecideChange ids ts (ap_approval_id a) reviewer ok (Some reason) (Some ?ev)) s1"
    using d s2 by simp
  have "repo_inv s2" unfolding step by (rule repo_inv_step [OF reachable_inv [OF f(1)]]) simp
  then have le: "record_le s2 t" unfolding assms(6) using assms(5) by (rule repo.run_le)
  have "dict_get (approvals s2) (ap_approval_id a) = Some ?a'"
    using d f(2,4) unfolding s2(1)
    by (auto simp: decide_change_approval_and_enqueue_def append_approval_event_def Let_def split: prod.splits if_splits)
  with le st(2) have "dict_get (approvals t) (ap_approval_id a) = Some ?a'" by (simp add: record_le_def)
  with s2(2) st show ?thesis by blast
qed

text \<open>C6. A change request goes through exactly when it was approved as it was asked. Once a request is
  filed (a second request for the same pending change is given the first one) and a reviewer has
  decided it, then, along every interleaving of repository operations, the change may be executed
  if and only if the decision was an approval and it is the same workspace, the same action and
  the same subject with the same definition hash, and the approval has not expired; and a second
  decision on it is refused and changes nothing.\<close>

theorem change_approval_roundtrip:
  assumes "reachable_repo s" "dict_get (approvals s) (''appr_chg_'' @ take 16 hex) = None"
    and "create_change_approval_request hex t1 eid t2 wid t3 ws project action subj req requester s = (s1, Inr (a, wd))"
    and "submit_decision tx t0 ids ts eid' t5 (ap_approval_id a) reviewer ok reason extra s1 = (s2, res)"
    and "admissible repo_guard repo_step ops s2" "t = fold repo_step ops s2"
  shows "(\<exists>a'. res = Inr (Some a') \<and> ap_status a' = (if ok then ''approved'' else ''denied''))
    \<and> (ce_can_execute (verify_change_execution now (ap_approval_id a) ws' action' subj' t) \<longleftrightarrow>
        ok \<and> ws' = ws \<and> action' = action \<and> subj' = subj \<and> unexpired now a)
    \<and> (\<exists>e. submit_decision tx t0' ids' ts' eid'' t5' (ap_approval_id a) reviewer' ok' reason' extra' t = (t, Inl e))"
proof -
  obtain a' where res: "res = Inr (Some a')" and t: "dict_get (approvals t) (ap_approval_id a) = Some a'"
    and st: "ap_status a' = (if ok then ''approved'' else ''denied'')" "asks_for ws action subj a'" "ap_expires_at a' = ap_expires_at a"
    using change_decision_stands [OF assms] by blast
  have "ce_can_execute (verify_change_execution now (ap_approval_id a) ws' action' subj' t) \<longleftrightarrow>
        ok \<and> ws' = ws \<and> action' = action \<and> subj' = subj \<and> unexpired now a"
  proof (cases ok)
    case True
    with verify_change_iff [OF st(2) t] st show ?thesis by (simp add: unexpired_def)
  next
    case False
    with t st(1) show ?thesis
      by (auto simp: verify_change_execution_def get_scoped_approval_def Let_def split: option.split)
  qed
  moreover have "ap_binding_kind a' = CHANGE_REQUEST" "ap_status a' \<noteq> ''pending''" using st(1,2) by (simp_all add: asks_for_def)
  then have "\<exists>e. submit_decision tx t0' ids' ts' eid'' t5' (ap_approval_id a) reviewer' ok' reason' extra' t = (t, Inl e)"
    using t by (auto simp: submit_decision_def get_approval_def decide_change_approval_and_enqueue_def Let_def split: prod.split)
  ultimately show ?thesis using res st(1) by simp
qed

text \<open>Witness of C6: a skill promotion is requested, approved and executed for the approved definition only.\<close>

definition sample_subject :: "string \<Rightarrow> approval_subject" where
  "sample_subject h = \<lparr>subj_kind = ''skill'', subj_ref = ''s1'', subj_definition_hash = h\<rparr>"

theorem change_approval_roundtrip_witness:
  "let s1 = fst (create_change_approval_request ''0123456789abcdef'' 1 ''e1'' 2 ''w1'' 3 ''ws'' None ''promote_skill_candidate''
                   (sample_subject ''h1'') [] ''bob'' empty_repo);
       t = fst (submit_decision sample_text 4 (''e2'', ''o1'') (5, 6, 7, 8) ''e3'' 9 ''appr_chg_0123456789abcdef'' ''alice'' True [] None s1)
   in ce_can_execute (verify_change_execution 10 ''appr_chg_0123456789abcdef'' ''ws'' ''promote_skill_candidate'' (sample_subject ''h1'') t)
      \<and> \<not> ce_can_execute (verify_change_execution 10 ''appr_chg_0123456789abcdef'' ''ws'' ''promote_skill_candidate'' (sample_subject ''h2'') t)"
proof -
  let ?new = "new_change_approval ''0123456789abcdef'' 1 ''ws'' None ''promote_skill_candidate'' (sample_subject ''h1'') [] ''bob''"
  let ?c = "create_change_approval_request ''0123456789abcdef'' 1 ''e1'' 2 ''w1'' 3 ''ws'' None ''promote_skill_candidate''
              (sample_subject ''h1'') [] ''bob'' empty_repo"
  let ?aid = "''appr_chg_0123456789abcdef''"
  let ?s2 = "submit_decision sample_text 4 (''e2'', ''o1'') (5, 6, 7, 8) ''e3'' 9 ?aid ''alice'' True [] None (fst ?c)"
  have free: "dict_get (approvals empty_repo) (''appr_chg_'' @ take 16 ''0123456789abcdef'') = None" by (simp add: empty_repo_def)
  have "snd ?c = Inr (?new, the_wd ?c)" if "the_wd = (\<lambda>c. case snd c of Inr (_, w) \<Rightarrow> w)" for the_wd
    unfolding that by code_simp
  then obtain wd where c: "?c = (fst ?c, Inr (?new, wd))" by (metis prod.collapse)
  have aid: "ap_approval_id ?new = ?aid" "unexpired 10 ?new" by code_simp+
  have d: "submit_decision sample_text 4 (''e2'', ''o1'') (5, 6, 7, 8) ''e3'' 9 (ap_approval_id ?new) ''alice'' True [] None (fst ?c)
      = (fst ?s2, snd ?s2)" unfolding aid by simp
  have adm: "admissible repo_guard repo_step [] (fst ?s2)" by simp
  note rt = change_approval_roundtrip [OF reachable_init free c d adm refl, where now = 10]
  from rt [of "''ws''" "''promote_skill_candidate''" "sample_subject ''h1''"]
    rt [of "''ws''" "''promote_skill_candidate''" "sample_subject ''h2''"] aid
  show ?thesis by (simp add: Let_def sample_subject_def)
qed

subsection \<open>Resuming a tool call\<close>

text \<open>The saved target and the current one disagree on a field that both fill in.\<close>

definition drifted :: "string option \<Rightarrow> string option \<Rightarrow> bool" where
  "drifted x y \<longleftrightarrow> (case (x, y) of (Some u, Some v) \<Rightarrow> u \<noteq> [] \<and> v \<noteq> [] \<and> u \<noteq> v | _ \<Rightarrow> False)"

lemma target_drift_iff:
  "target_drift (Some c) (Some t) = None \<longleftrightarrow>
     \<not> drifted (ts_connector_id c) (ts_connector_id t) \<and> \<not> drifted (ts_schema_hash_version c) (ts_schema_hash_version t)"
  by (auto simp: target_drift_def drifted_def truthy_opt_def split: option.splits)

lemma status_in_None: "status_in v ss = None \<longleftrightarrow> v \<notin> PStr ` set ss"
  by (cases v) auto

lemma drift_None:
  "target_drift cur saved = None \<longleftrightarrow> \<not> (\<exists>c t. cur = Some c \<and> saved = Some t
     \<and> (drifted (ts_connector_id c) (ts_connector_id t) \<or> drifted (ts_schema_hash_version c) (ts_schema_hash_version t)))"
proof (cases "cur = None \<or> saved = None")
  case True
  then show ?thesis by (auto simp: target_drift_def split: option.splits)
next
  case False
  then show ?thesis by (auto simp: target_drift_iff)
qed

lemma not_deny: "outcome d \<noteq> DENY \<longleftrightarrow> outcome d \<in> {ALLOW, REQUIRE_APPROVAL, NON_APPROVABLE}"
  by (cases "outcome d") simp_all

lemma verify_bound_iff:
  "(\<exists>r. verify_bound_approval policy ctx cur mhash a tc ck = Inr r \<and> rs_can_resume r) \<longleftrightarrow>
     ap_binding_kind a = TOOL_CALL \<and> ap_status a = ''approved''
     \<and> (mhash = None \<or> ap_manifest_hash a = None \<or> ap_manifest_hash a = mhash)
     \<and> dict_get_or ctx ''tenant_status'' (PStr ''active'') \<notin> {PStr ''suspended'', PStr ''disabled''}
     \<and> dict_get_or ctx ''principal_status'' (PStr ''active'') \<notin> {PStr ''revoked'', PStr ''disabled''}
     \<and> \<not> truthy (dict_get_or ctx ''emergency_lock'' (PBool False))
     \<and> target_drift cur (tc_execution_target_snapshot tc) = None
     \<and> (\<exists>d. (case policy of None \<Rightarrow> Inr (decision ALLOW [''Default allow'']) | Some f \<Rightarrow> f (tc_capability_id tc) (tc_input_payload tc) ctx)
          = Inr d \<and> outcome d \<in> {ALLOW, REQUIRE_APPROVAL, NON_APPROVABLE})"
    (is "?L \<longleftrightarrow> ?R")
proof -
  let ?ten = "status_in (dict_get_or ctx ''tenant_status'' (PStr ''active'')) [''suspended'', ''disabled'']"
  let ?pri = "status_in (dict_get_or ctx ''principal_status'' (PStr ''active'')) [''revoked'', ''disabled'']"
  have "?L \<longleftrightarrow> ap_binding_kind a = TOOL_CALL \<and> ap_status a = ''approved''
     \<and> (mhash = None \<or> ap_manifest_hash a = None \<or> ap_manifest_hash a = mhash)
     \<and> ?ten = None \<and> ?pri = None \<and> \<not> truthy (dict_get_or ctx ''emergency_lock'' (PBool False))
     \<and> target_drift cur (tc_execution_target_snapshot tc) = None
     \<and> (\<exists>d. (case policy of None \<Rightarrow> Inr (decision ALLOW [''Default allow'']) | Some f \<Rightarrow> f (tc_capability_id tc) (tc_input_payload tc) ctx)
          = Inr d \<and> outcome d \<noteq> DENY)"
    unfolding verify_bound_approval_def Let_def resume_denied_def
    by (cases ?ten; cases ?pri; cases "target_drift cur (tc_execution_target_snapshot tc)")
      (auto split: option.split sum.split)
  also have "\<dots> \<longleftrightarrow> ?R" unfolding status_in_None not_deny by simp
  finally show ?thesis .
qed

lemma resume_iff:
  "(\<exists>r. verify_and_prepare_resume policy rid tid ckpt (Some ctx) cur mhash s = Inr r \<and> rs_can_resume r) \<longleftrightarrow>
     (\<exists>run tc ck a. get_run rid s = Some run \<and> get_tool_call tid s = Some tc \<and> tc_run_id tc = rid
       \<and> get_checkpoint ckpt s = Some ck \<and> ck_run_id ck = rid \<and> get_approval_by_tool_call tid s = Some a \<and> ap_checkpoint_ref a = Some ckpt
       \<and> (\<exists>r. verify_bound_approval policy ctx cur mhash a tc ck = Inr r \<and> rs_can_resume r))"
  by (auto simp: verify_and_prepare_resume_def find_own_def resume_denied_def split: option.splits if_splits)

text \<open>What an approval is bound to never changes, and approvals stay in the order in which they were filed.\<close>

type_synonym tool_binding = "string option \<times> string option \<times> approval_binding_kind \<times> string option"

definition tool_binding :: "run_approval_record \<Rightarrow> tool_binding" where
  "tool_binding a = (ap_tool_call_id a, ap_checkpoint_ref a, ap_binding_kind a, ap_manifest_hash a)"

definition bindings :: "run_repo \<Rightarrow> (string \<times> tool_binding) list" where
  "bindings s = map (\<lambda>(k, a). (k, tool_binding a)) (approvals s)"

lemma map_dict_set_same:
  "dict_get d k = Some a \<Longrightarrow> f v = f a \<Longrightarrow> map (\<lambda>(k, a). (k, f a)) (dict_set k v d) = map (\<lambda>(k, a). (k, f a)) d"
  by (induction d) auto

lemma bindings_decide: "bindings (fst (decide_approval now aid rv ok rs ev s)) = bindings s"
  by (auto simp: bindings_def decide_approval_def decided_def tool_binding_def Let_def split: option.split
      intro!: map_dict_set_same)

lemma bindings_step: "repo_guard op s \<Longrightarrow> prefix (bindings s) (bindings (repo_step op s))"
  using bindings_decide
  by (cases op) (auto simp: bindings_def step_approvals create_approval_def create_or_get_pending_change_approval_def Let_def
      dict_set_absent simp del: repo_step.simps split: option.split)

interpretation bind: monotone_machine repo_step repo_guard "\<lambda>s. True" "\<lambda>s t. prefix (bindings s) (bindings t)"
  by unfold_locales (auto simp: bindings_step simp del: repo_step.simps repo_guard.simps intro: prefix_order.trans)

lemma find_append: "List.find P (xs @ ys) = (case List.find P xs of None \<Rightarrow> List.find P ys | Some x \<Rightarrow> Some x)"
  by (induction xs) auto

lemma first_bound:
  assumes "bindings s = bs @ (k, b) # cs" "fst b = Some tid" "list_all (\<lambda>(i, b). fst b \<noteq> Some tid) bs" "dict_ok (approvals s)"
  shows "get_approval_by_tool_call tid s = dict_get (approvals s) k"
    and "\<exists>a. dict_get (approvals s) k = Some a \<and> tool_binding a = b"
proof -
  obtain xs a ys where s: "approvals s = xs @ (k, a) # ys" "bs = map (\<lambda>(k, a). (k, tool_binding a)) xs" "tool_binding a = b"
    using assms(1) by (auto simp: bindings_def map_eq_append_conv map_eq_Cons_conv split: prod.splits)
  have "map_of xs k = None" using assms(4) s(1) by (auto simp: map_of_eq_None_iff)
  then have get: "dict_get (approvals s) k = Some a" by (simp add: s(1) map_add_def)
  have "List.find (\<lambda>a. ap_tool_call_id a = Some tid) (map snd xs) = None"
    using assms(3) unfolding s(2) by (auto simp: find_None_iff list_all_iff tool_binding_def)
  then have "List.find (\<lambda>a. ap_tool_call_id a = Some tid) (dict_values (approvals s)) = Some a"
    using assms(2) s(1,3) by (auto simp: find_append tool_binding_def)
  with get show "get_approval_by_tool_call tid s = dict_get (approvals s) k" by (simp add: get_approval_by_tool_call_def)
  from get s(3) show "\<exists>a. dict_get (approvals s) k = Some a \<and> tool_binding a = b" by blast
qed


text \<open>Filing a request and deciding it, in terms of repository operations.\<close>

lemma tool_request_filed:
  assumes "reachable_repo s" "get_approval_by_tool_call tid s = None" "dict_get (approvals s) (''appr_'' @ rid @ ''_'' @ tid) = None"
    and req: "create_approval_request t1 eid t2 wid t3 rid tid ckpt action subject req requester target phash mhash s = (s1, Inr (a, wd))"
  shows "reachable_repo s1" "ap_approval_id a = ''appr_'' @ rid @ ''_'' @ tid"
    and "bindings s1 = bindings s @ [(ap_approval_id a, (Some tid, Some ckpt, TOOL_CALL, mhash))]"
    and "list_all (\<lambda>(i, b). fst b \<noteq> Some tid) (bindings s)"
proof -
  let ?aid = "''appr_'' @ rid @ ''_'' @ tid"
  let ?rec = "requested_approval t1 rid tid ckpt action subject req requester target phash mhash"
  obtain s0 filed where c: "create_approval ?rec s = (s0, filed)" by (cases "create_approval ?rec s")
  have r: "ap_approval_id ?rec = ?aid" "tool_binding ?rec = (Some tid, Some ckpt, TOOL_CALL, mhash)"
    by (simp_all add: requested_approval_def tool_binding_def)
  obtain e where e: "a = filed" "s1 = repo_step (OpAppendEvent e) (repo_step (OpCreateApproval ?rec) s)"
    using req c unfolding create_approval_request_def Let_def by (auto split: sum.splits simp: c)
  have "reachable_repo (repo_step (OpCreateApproval ?rec) s)" using assms(1,3) r(1) by (intro reachable_step) simp_all
  then show "reachable_repo s1" unfolding e(2) by (rule reachable_step) simp
  have f: "ap_approval_id a = ?aid" "tool_binding a = tool_binding ?rec"
    using r(1) c e(1) by (simp_all add: create_approval_def tool_binding_def Let_def split: option.split) (auto simp: create_approval_def tool_binding_def Let_def split: option.splits)
  then show "ap_approval_id a = ''appr_'' @ rid @ ''_'' @ tid" by simp
  have "approvals s1 = approvals s @ [(?aid, a)]"
    using assms(3) r(1) c e(1) unfolding e(2) by (auto simp: create_approval_def append_event_def Let_def dict_set_absent)
  with f r(2) show "bindings s1 = bindings s @ [(ap_approval_id a, (Some tid, Some ckpt, TOOL_CALL, mhash))]"
    by (simp add: bindings_def)
  show "list_all (\<lambda>(i, b). fst b \<noteq> Some tid) (bindings s)"
    using assms(2) by (auto simp: get_approval_by_tool_call_def find_None_iff list_all_iff bindings_def tool_binding_def)
qed

lemma tool_decision_taken:
  assumes "reachable_repo s" "dict_get (approvals s) aid = Some a" "ap_binding_kind a = TOOL_CALL"
    and sub: "submit_decision tx t0 ids ts eid t5 aid reviewer ok reason extra s = (s1, Inr (Some a'))"
  shows "reachable_repo s1" "dict_get (approvals s1) aid = Some a'" "ap_status a' = (if ok then ''approved'' else ''denied'')"
    and "bindings s1 = bindings s"
proof -
  let ?ev = "Some (decision_evidence tx t0 reviewer ok reason extra a)"
  obtain d res where d: "decide_approval (fst ts) aid reviewer ok (Some reason) ?ev s = (d, res)"
    by (cases "decide_approval (fst ts) aid reviewer ok (Some reason) ?ev s")
  with sub assms(2,3) have res: "res = Some a'" and s1: "s1 = d \<or> (\<exists>e. s1 = repo_step (OpAppendEvent e) d)"
    by (auto simp: submit_decision_def get_approval_def Let_def split: option.splits if_splits)
  have step: "d = repo_step (OpDecide (fst ts) aid reviewer ok (Some reason) ?ev) s" using d by simp
  have rd: "reachable_repo d" unfolding step by (rule reachable_step [OF assms(1)]) simp
  with s1 show "reachable_repo s1" by (auto intro: reachable_step simp del: repo_step.simps)
  have same: "approvals s1 = approvals d" using s1 by (auto simp: append_event_def Let_def)
  from d res assms(2) show "dict_get (approvals s1) aid = Some a'" "ap_status a' = (if ok then ''approved'' else ''denied'')"
    unfolding same by (auto simp: decide_approval_def decided_def Let_def split: if_splits)
  show "bindings s1 = bindings s" using bindings_decide [of "fst ts" aid reviewer ok "Some reason" ?ev s] d same by (simp add: bindings_def)
qed

text \<open>Whether the world still allows what was approved: the tenant and the principal are in good standing, no
  emergency lock is set, the target has not drifted and the policy, asked again, does not deny.\<close>

definition still_allowed ::
  "(string \<Rightarrow> payload \<Rightarrow> payload \<Rightarrow> string + policy_decision) option \<Rightarrow> payload \<Rightarrow> execution_target_snapshot option
     \<Rightarrow> run_tool_call_record \<Rightarrow> bool" where
  "still_allowed policy ctx cur tc \<longleftrightarrow>
     dict_get_or ctx ''tenant_status'' (PStr ''active'') \<notin> {PStr ''suspended'', PStr ''disabled''} \<and>
     dict_get_or ctx ''principal_status'' (PStr ''active'') \<notin> {PStr ''revoked'', PStr ''disabled''} \<and>
     \<not> truthy (dict_get_or ctx ''emergency_lock'' (PBool False)) \<and>
     (case (cur, tc_execution_target_snapshot tc) of
        (Some c, Some t) \<Rightarrow>
          \<not> drifted (ts_connector_id c) (ts_connector_id t) \<and> \<not> drifted (ts_schema_hash_version c) (ts_schema_hash_version t)
      | _ \<Rightarrow> True) \<and>
     (case policy of
        None \<Rightarrow> True
      | Some f \<Rightarrow> (case f (tc_capability_id tc) (tc_input_payload tc) ctx of Inl exc \<Rightarrow> False | Inr d \<Rightarrow> outcome d \<noteq> DENY))"

lemma bound_still_allowed:
  "(\<exists>r. verify_bound_approval policy ctx cur mhash a tc ck = Inr r \<and> rs_can_resume r) \<longleftrightarrow>
     ap_binding_kind a = TOOL_CALL \<and> ap_status a = ''approved''
     \<and> (mhash = None \<or> ap_manifest_hash a = None \<or> ap_manifest_hash a = mhash) \<and> still_allowed policy ctx cur tc"
proof -
  have drift: "target_drift cur (tc_execution_target_snapshot tc) = None \<longleftrightarrow>
      (case (cur, tc_execution_target_snapshot tc) of
         (Some c, Some t) \<Rightarrow>
           \<not> drifted (ts_connector_id c) (ts_connector_id t) \<and> \<not> drifted (ts_schema_hash_version c) (ts_schema_hash_version t)
       | _ \<Rightarrow> True)"
    unfolding drift_None by (auto split: option.splits)
  have pol: "(\<exists>d. (case policy of None \<Rightarrow> Inr (decision ALLOW [''Default allow'']) | Some f \<Rightarrow> f (tc_capability_id tc) (tc_input_payload tc) ctx)
          = Inr d \<and> outcome d \<in> {ALLOW, REQUIRE_APPROVAL, NON_APPROVABLE}) \<longleftrightarrow>
      (case policy of
        None \<Rightarrow> True
      | Some f \<Rightarrow> (case f (tc_capability_id tc) (tc_input_payload tc) ctx of Inl exc \<Rightarrow> False | Inr d \<Rightarrow> outcome d \<noteq> DENY))"
    unfolding not_deny [symmetric] by (auto simp: decision_def split: option.splits sum.splits)
  show ?thesis unfolding verify_bound_iff drift pol still_allowed_def by blast
qed

text \<open>C7. A tool call goes on exactly when it was approved as it was asked and the world still allows it. Once the
  first approval of a tool call is filed and later decided by a reviewer, then, along every interleaving of
  repository operations before and after the decision, the call can be resumed if and only if the decision was an
  approval, the checkpoint is the one it was asked for, the manifests agree where both are named, the run exists and
  both the tool call and the checkpoint belong to it, the tenant and the principal are in good standing, no emergency
  lock is set, connector and schema of the target have not drifted, and the policy, asked again, does not deny; and
  a second decision is refused and changes nothing. A fresh policy that demands an approval, or calls the action not
  approvable, lets the call go on, although the docstring promises the strictest rule.\<close>

theorem tool_approval_roundtrip:
  assumes "reachable_repo s" "get_approval_by_tool_call tid s = None" "dict_get (approvals s) (''appr_'' @ rid @ ''_'' @ tid) = None"
    and "create_approval_request t1 eid t2 wid t3 rid tid ckpt action subject req requester target phash mhash s = (s1, Inr (a, wd))"
    and "admissible repo_guard repo_step ops s1" "s2 = fold repo_step ops s1"
    and "submit_decision tx t0 ids ts eid' t5 (ap_approval_id a) reviewer ok reason extra s2 = (s3, Inr (Some a'))"
    and "admissible repo_guard repo_step ops' s3" "t = fold repo_step ops' s3"
  shows "((\<exists>r. verify_and_prepare_resume policy rid' tid ckpt' (Some ctx) cur mhash' t = Inr r \<and> rs_can_resume r) \<longleftrightarrow>
        ok \<and> ckpt' = ckpt \<and> (mhash' = None \<or> mhash = None \<or> mhash' = mhash) \<and>
        (\<exists>run tc ck. get_run rid' t = Some run \<and> get_tool_call tid t = Some tc \<and> tc_run_id tc = rid' \<and>
           get_checkpoint ckpt t = Some ck \<and> ck_run_id ck = rid' \<and> still_allowed policy ctx cur tc))
    \<and> (\<exists>e. submit_decision tx t0' ids' ts' eid'' t5' (ap_approval_id a) reviewer' ok' reason' extra' t = (t, Inl e))"
proof -
  note filed = tool_request_filed [OF assms(1-4)]
  let ?b = "(Some tid, Some ckpt, TOOL_CALL, mhash)"
  have bound: "get_approval_by_tool_call tid u = dict_get (approvals u) (ap_approval_id a) \<and>
      (\<exists>x. dict_get (approvals u) (ap_approval_id a) = Some x \<and> tool_binding x = ?b)"
    if "reachable_repo u" "prefix (bindings s1) (bindings u)" for u
  proof -
    from that(2) filed(3) obtain cs where "bindings u = bindings s @ (ap_approval_id a, ?b) # cs" by (auto simp: prefix_def)
    moreover have "dict_ok (approvals u)" using reachable_inv [OF that(1)] by (simp add: repo_inv_def tables_inv_def)
    ultimately show ?thesis using first_bound [of u "bindings s" "ap_approval_id a" ?b cs tid] filed(4) by simp
  qed
  have s2: "reachable_repo s2" "prefix (bindings s1) (bindings s2)"
    unfolding assms(6) by (rule reachable_fold [OF filed(1) assms(5)], rule bind.run_le [OF TrueI assms(5)])
  obtain x where x: "dict_get (approvals s2) (ap_approval_id a) = Some x" "ap_binding_kind x = TOOL_CALL"
    using bound [OF s2] by (auto simp: tool_binding_def)
  note taken = tool_decision_taken [OF s2(1) x assms(7)]
  have t: "reachable_repo t" "prefix (bindings s1) (bindings t)"
    using reachable_fold [OF taken(1) assms(8)] bind.run_le [OF TrueI assms(8)] s2(2)
    unfolding assms(9) taken(4) by (auto intro: prefix_order.trans)
  have "record_le s3 t" unfolding assms(9) using reachable_inv [OF taken(1)] assms(8) by (rule repo.run_le)
  with taken(2,3) have a': "dict_get (approvals t) (ap_approval_id a) = Some a'" by (simp add: record_le_def)
  with bound [OF t] have b: "get_approval_by_tool_call tid t = Some a'" "ap_checkpoint_ref a' = Some ckpt"
      "ap_binding_kind a' = TOOL_CALL" "ap_manifest_hash a' = mhash"
    by (auto simp: tool_binding_def)
  have "ap_status a' = ''approved'' \<longleftrightarrow> ok" using taken(3) by simp
  then have "(\<exists>r. verify_and_prepare_resume policy rid' tid ckpt' (Some ctx) cur mhash' t = Inr r \<and> rs_can_resume r) \<longleftrightarrow>
        ok \<and> ckpt' = ckpt \<and> (mhash' = None \<or> mhash = None \<or> mhash' = mhash) \<and>
        (\<exists>run tc ck. get_run rid' t = Some run \<and> get_tool_call tid t = Some tc \<and> tc_run_id tc = rid' \<and>
           get_checkpoint ckpt t = Some ck \<and> ck_run_id ck = rid' \<and> still_allowed policy ctx cur tc)"
    unfolding resume_iff bound_still_allowed b(1) using b(2-4) by auto
  moreover have "\<exists>e. submit_decision tx t0' ids' ts' eid'' t5' (ap_approval_id a) reviewer' ok' reason' extra' t = (t, Inl e)"
    using a' b(3) taken(3) by (auto simp: submit_decision_def get_approval_def decide_approval_def Let_def)
  ultimately show ?thesis by blast
qed

text \<open>Witness of C7: a transfer that waits in a checkpoint is approved and may go on from that checkpoint, not from
  another one.\<close>

definition sample_waiting_call :: run_tool_call_record where
  "sample_waiting_call =
     \<lparr>tc_tool_call_id = ''c1'', tc_run_id = ''r1'', tc_project_id = None, tc_checkpoint_ref = Some ''k1'',
      tc_capability_id = ''bank.transfer'', tc_payload_hash = ''h'', tc_input_payload = [], tc_status = ''pending'',
      tc_idempotency_key = None, tc_result_hash = None, tc_output_payload = None, tc_error_message = None,
      tc_spec_version = None, tc_definition_hash = None, tc_policy_snapshot_ref = None,
      tc_execution_target_snapshot = None, tc_governance_state = None, tc_created_at = 0, tc_completed_at = None\<rparr>"

definition sample_saved :: "string \<Rightarrow> run_checkpoint_record" where
  "sample_saved ref =
     \<lparr>ck_checkpoint_ref = ref, ck_run_id = ''r1'', ck_project_id = None, ck_sequence_no = 1, ck_step_name = None,
      ck_state_kind = ''kernel_run_state'', ck_serialized_state = [], ck_manifest_snapshot = [], ck_resume_metadata = [],
      ck_created_at = 0\<rparr>"

definition sample_resumable :: run_repo where
  "sample_resumable =
     repo_step (OpSaveCheckpoint (sample_saved ''k2''))
       (repo_step (OpSaveCheckpoint (sample_saved ''k1''))
         (repo_step (OpSaveToolCall sample_waiting_call)
           (repo_step (OpCreateRun (sample_run ''r1'' RS_WAITING_APPROVAL)) empty_repo)))"

lemma sample_resumable_reachable: "reachable_repo sample_resumable"
  unfolding sample_resumable_def by (intro reachable_step reachable_init) simp_all

theorem tool_approval_roundtrip_witness:
  "let s1 = fst (create_approval_request 1 ''e1'' 2 ''w1'' 3 ''r1'' ''c1'' ''k1'' ''bank.transfer'' ''pay'' None ''bob'' None None None
                   sample_resumable);
       t = fst (submit_decision sample_text 4 (''e2'', ''o1'') (5, 6, 7, 8) ''e3'' 9 ''appr_r1_c1'' ''alice'' True [] None s1)
   in (\<exists>r. verify_and_prepare_resume None ''r1'' ''c1'' ''k1'' (Some []) None None t = Inr r \<and> rs_can_resume r) \<and>
      \<not> (\<exists>r. verify_and_prepare_resume None ''r1'' ''c1'' ''k2'' (Some []) None None t = Inr r \<and> rs_can_resume r)"
proof -
  let ?c = "create_approval_request 1 ''e1'' 2 ''w1'' 3 ''r1'' ''c1'' ''k1'' ''bank.transfer'' ''pay'' None ''bob'' None None None sample_resumable"
  let ?d = "submit_decision sample_text 4 (''e2'', ''o1'') (5, 6, 7, 8) ''e3'' 9 ''appr_r1_c1'' ''alice'' True [] None (fst ?c)"
  have c: "case snd ?c of Inr (a, wd) \<Rightarrow> ap_approval_id a = ''appr_r1_c1'' | _ \<Rightarrow> False"
    and d: "case snd ?d of Inr (Some a) \<Rightarrow> True | _ \<Rightarrow> False"
    and none: "get_approval_by_tool_call ''c1'' sample_resumable = None"
      "dict_get (approvals sample_resumable) (''appr_'' @ ''r1'' @ ''_'' @ ''c1'') = None"
    and world: "get_run ''r1'' (fst ?d) = Some (sample_run ''r1'' RS_WAITING_APPROVAL)"
      "get_tool_call ''c1'' (fst ?d) = Some sample_waiting_call"
      "get_checkpoint ''k1'' (fst ?d) = Some (sample_saved ''k1'')"
      "tc_run_id sample_waiting_call = ''r1''" "ck_run_id (sample_saved ''k1'') = ''r1''"
      "still_allowed None [] None sample_waiting_call"
    by code_simp+
  from c obtain a wd where c': "?c = (fst ?c, Inr (a, wd))" "ap_approval_id a = ''appr_r1_c1''"
    by (cases "snd ?c") (auto simp: prod_eq_iff split: prod.splits)
  from d obtain a' where d': "?d = (fst ?d, Inr (Some a'))"
    by (cases "snd ?d") (auto simp: prod_eq_iff split: option.splits)
  have adm: "admissible repo_guard repo_step [] u" for u by simp
  note rt = conjunct1 [OF tool_approval_roundtrip [OF sample_resumable_reachable none c'(1) adm _ d' [folded c'(2)] adm,
        where t = "fst ?d" and policy = None and rid' = "''r1''" and cur = None and mhash' = None and ctx = "[]"]]
  from rt [of "''k1''"] rt [of "''k2''"] world show ?thesis unfolding c'(2) Let_def by simp
qed

end
