(* ===== verification/WorkflowSteps.thy ===== *)
theory WorkflowSteps
  imports WorkflowProps ApprovalService
begin

text \<open>
  The steps that touch the platform: the live re-check of a deployment's authority
  (\<open>packages/agent/workflows/live_authority.py\<close>), the human approval gate (\<open>approval_step.py\<close>) over the
  durable approval service, and the tool call through the capability gateway (\<open>tool_step.py\<close>). Their
  world is the gateway's. The policy engine, the authority resolver, the digest and the deployment
  manifests a workflow state may hold (as opaque objects) are parameters; the clock and the
  identifiers are the gateway's.
\<close>

subsection \<open>Environment\<close>

record governed_manifest =
  gm_run_id :: string
  gm_manifest_hash :: "string option"
  gm_project_id :: string
  gm_workspace_id :: string
  gm_workflow_asset_id :: string
  gm_workflow_version :: string
  gm_workflow_definition_hash :: string
  gm_role_deployment_id :: "string option"
  gm_project_agent_deployment_id :: "string option"
  gm_pinned_agent_specs :: payload
  gm_pinned_skill_specs :: payload
  gm_policy_epoch :: string
  gm_policy_hash :: string
  gm_capability_allowlist :: "string list"
  gm_budget_limit :: payload
  gm_trigger_id :: "string option"
  gm_correlation_id :: "string option"
  gm_evidence_refs :: "string list"
  gm_manifest_json :: payload
  gm_created_at :: datetime

text \<open>\<open>se_deref\<close> gives the manifest a value of the state stands for; any other value is plain JSON, which
  has none of a manifest's attributes. The policy engine answers with the text of its verdict. The
  resolver and the policy engine are indexed by the number of clock readings so far, so they may
  change their mind.\<close>

record step_env =
  se_gateway :: gw_env
  se_deref :: "pyval \<Rightarrow> governed_manifest option"
  se_sha256 :: "string \<Rightarrow> string"
  se_resolver :: "(nat \<Rightarrow> pyval \<Rightarrow> pyval \<Rightarrow> pyval \<Rightarrow> string + payload) option"
  se_policy :: "(nat \<Rightarrow> string + string) option"

abbreviation se_text :: "step_env \<Rightarrow> py_text" where
  "se_text env \<equiv> ge_text (se_gateway env)"

definition completed_with :: "payload \<Rightarrow> step_outcome" where
  "completed_with u = \<lparr>so_status = STEP_COMPLETED, so_updates = u, so_error = None, so_approval_id = None\<rparr>"

definition failed_with :: "string \<Rightarrow> step_outcome" where
  "failed_with m = \<lparr>so_status = STEP_FAILED, so_updates = [], so_error = Some m, so_approval_id = None\<rparr>"

definition waiting_for :: "string \<Rightarrow> step_outcome" where
  "waiting_for a = \<lparr>so_status = STEP_WAITING_APPROVAL, so_updates = [], so_error = None, so_approval_id = Some a\<rparr>"

lemma outcome_status [simp]:
  "so_status (completed_with u) = STEP_COMPLETED" "so_status (failed_with m) = STEP_FAILED"
  "so_status (waiting_for a) = STEP_WAITING_APPROVAL"
  by (simp_all add: completed_with_def failed_with_def waiting_for_def)

subsection \<open>Live deployment authority\<close>

definition state_manifest :: "payload \<Rightarrow> pyval" where
  "state_manifest st = py_or (ctx_get st ''_manifest'') (ctx_get st ''manifest'')"

text \<open>\<open>getattr(manifest, name, None)\<close>.\<close>

definition manifest_attr :: "step_env \<Rightarrow> pyval \<Rightarrow> (governed_manifest \<Rightarrow> pyval) \<Rightarrow> pyval" where
  "manifest_attr env m f = (case se_deref env m of None \<Rightarrow> PNone | Some g \<Rightarrow> f g)"

definition resolve_deployment_context :: "step_env \<Rightarrow> payload \<Rightarrow> pyval \<times> pyval \<times> pyval" where
  "resolve_deployment_context env st =
     (let m = state_manifest st in
      if m \<noteq> PNone then
        (py_or (manifest_attr env m (PStr \<circ> gm_workspace_id)) (ctx_get st ''workspace_id''),
         py_or (manifest_attr env m (PStr \<circ> gm_project_id)) (ctx_get st ''project_id''),
         py_or (manifest_attr env m (opt_val \<circ> gm_project_agent_deployment_id)) (ctx_get st ''project_agent_deployment_id''))
      else (ctx_get st ''workspace_id'', ctx_get st ''project_id'', ctx_get st ''project_agent_deployment_id''))"

text \<open>\<open>check_live_deployment_authority\<close>: \<open>None\<close> when the authority holds, the safe reason code otherwise.\<close>

definition check_live_deployment_authority ::
  "(pyval \<Rightarrow> pyval \<Rightarrow> pyval \<Rightarrow> string + payload) \<Rightarrow> pyval \<Rightarrow> pyval \<Rightarrow> pyval \<Rightarrow> string option" where
  "check_live_deployment_authority resolve ws project dep =
     (case resolve ws project dep of
        Inl _ \<Rightarrow> Some ''deployment_authority_unavailable''
      | Inr auth \<Rightarrow>
          if ctx_get auth ''state'' \<noteq> PStr ''ACTIVE'' then Some ''deployment_not_active''
          else if py_or (ctx_get auth ''workspaceId'') (ctx_get auth ''workspace_id'') \<noteq> ws
               \<or> py_or (ctx_get auth ''projectId'') (ctx_get auth ''project_id'') \<noteq> project
          then Some ''deployment_scope_mismatch''
          else None)"

text \<open>The check as both steps make it: only when a resolver is configured and the state names a deployment.\<close>

definition live_block :: "step_env \<Rightarrow> payload \<Rightarrow> gw_world \<Rightarrow> string option" where
  "live_block env st w =
     (case se_resolver env of
        None \<Rightarrow> None
      | Some resolve \<Rightarrow>
          (case resolve_deployment_context env st of
             (ws, project, dep) \<Rightarrow>
               if truthy ws \<and> truthy project \<and> truthy dep
               then check_live_deployment_authority (resolve (gw_tick w)) ws project dep
               else None))"

subsection \<open>The approval gate\<close>

record approval_gate =
  ag_name :: string
  ag_action :: string
  ag_subject_key :: string
  ag_subject_hash_key :: "string option"
  ag_permission :: string
  ag_requester :: string

definition new_approval_gate :: "string \<Rightarrow> string \<Rightarrow> string \<Rightarrow> approval_gate" where
  "new_approval_gate name action subject_key =
     \<lparr>ag_name = name, ag_action = (if action = [] then name else action),
      ag_subject_key = (if subject_key = [] then ''subject'' else subject_key), ag_subject_hash_key = None,
      ag_permission = ''None'', ag_requester = ''workflow_engine''\<rparr>"

text \<open>Step 1 of \<open>run\<close>: \<open>None\<close> when the gate goes on to ask a human. Whether the verdict allows or denies is
  looked up as a substring of its text.\<close>

definition gate_verdict :: "step_env \<Rightarrow> approval_gate \<Rightarrow> gw_world \<Rightarrow> (string + step_outcome) option" where
  "gate_verdict env g w =
     (case se_policy env of
        None \<Rightarrow> None
      | Some f \<Rightarrow>
          (case f (gw_tick w) of
             Inl e \<Rightarrow> Some (Inl e)
           | Inr v \<Rightarrow>
               if py_contains ''ALLOW'' (py_upper v) then Some (Inr (completed_with []))
               else if py_contains ''DENY'' (py_upper v) then Some (Inr (failed_with (ag_permission g @ '' is denied by policy'')))
               else None))"

definition get_default :: "payload \<Rightarrow> string \<Rightarrow> string \<Rightarrow> pyval" where
  "get_default st k d = dict_get_or st k (PStr d)"

text \<open>Step 4: what is to be approved. A state value that is not a string fails the validation of
  \<open>ApprovalSubject\<close>.\<close>

definition gate_subject :: "step_env \<Rightarrow> approval_gate \<Rightarrow> payload \<Rightarrow> string + approval_subject" where
  "gate_subject env g st =
     (let txt = py_str (se_text env);
          step_id = txt (get_default st ''_workflow_step_id'' (ag_name g));
          def_hash =
            (if truthy_opt (ag_subject_hash_key g) \<and> truthy (ctx_get st (the (ag_subject_hash_key g)))
             then ctx_get st (the (ag_subject_hash_key g))
             else PStr (''sha256:'' @ se_sha256 env
                    (txt (get_default st ''_workflow_definition_hash'' ''wf_def'') @ '':'' @ step_id @ '':''
                      @ txt (ctx_get st (ag_subject_key g)))))
      in case def_hash of
           PStr h \<Rightarrow>
             Inr \<lparr>subj_kind = ''workflow_gate'',
                  subj_ref = txt (get_default st ''_workflow_instance_id'' ''wf_instance'') @ '':'' @ step_id,
                  subj_definition_hash = h\<rparr>
         | _ \<Rightarrow> Inl ''ValidationError'')"

text \<open>The workspace and the project of the approval record must be strings (the project may be missing).\<close>

definition scope_field :: "pyval \<Rightarrow> string + string option" where
  "scope_field v = (case v of PNone \<Rightarrow> Inr None | PStr s \<Rightarrow> Inr (Some s) | _ \<Rightarrow> Inl ''ValidationError'')"

definition gate_requirement :: "payload \<Rightarrow> payload" where
  "gate_requirement st =
     [(''role'', PStr ''operator'')] @ (if truthy (ctx_get st ''run_id'') then [(''run_id'', ctx_get st ''run_id'')] else [])"

definition gate_run :: "step_env \<Rightarrow> approval_gate \<Rightarrow> payload \<Rightarrow> gw_world \<Rightarrow> gw_world \<times> payload \<times> (string + step_outcome)" where
  "gate_run env g st w =
     (case gate_verdict env g w of
        Some r \<Rightarrow> (w, st, r)
      | None \<Rightarrow>
          if \<not> truthy (ctx_get st ''workspace_id'') then
            (w, st, Inr (failed_with (''ApprovalGateStep requires trusted '' @ sq ''workspace_id'' @ '' in state'')))
          else if \<not> truthy (ctx_get st (ag_subject_key g)) then
            (w, st, Inr (failed_with (''ApprovalGateStep requires non-empty subject key '' @ sq (ag_subject_key g) @ '' in state'')))
          else
            (case (gate_subject env g st, scope_field (ctx_get st ''workspace_id''), scope_field (ctx_get st ''project_id'')) of
               (Inr subj, Inr (Some ws), Inr project) \<Rightarrow>
                 (let n = gw_tick w; uuid = ge_uuid (se_gateway env); clock = ge_clock (se_gateway env) in
                  case create_change_approval_request (uuid n) (clock n) (''apprevt_'' @ take 16 (uuid (n + 1))) (clock (n + 1))
                         (uuid (n + 2)) (clock (n + 2)) ws project (ag_action g) subj (gate_requirement st) (ag_requester g)
                         (gw_repo w) of
                    (s1, Inl _) \<Rightarrow> (w\<lparr>gw_repo := s1, gw_tick := n + 3\<rparr>, st, Inl ''ValidationError'')
                  | (s1, Inr (rec, _)) \<Rightarrow>
                      (w\<lparr>gw_repo := s1, gw_tick := n + 3\<rparr>, st, Inr (waiting_for (ap_approval_id rec))))
             | _ \<Rightarrow> (w, st, Inl ''ValidationError'')))"

definition gate_check :: "step_env \<Rightarrow> string \<Rightarrow> payload \<Rightarrow> gw_world \<Rightarrow> gw_world \<times> (string + step_outcome)" where
  "gate_check env aid st w =
     (w, Inr
       (case get_approval aid (gw_repo w) of
          None \<Rightarrow> failed_with (''approval '' @ aid @ '' not found'')
        | Some a \<Rightarrow>
            let status = py_lower (ap_status a) in
            if status = ''pending'' then waiting_for aid
            else if status = ''approved'' then
              (case live_block env st w of
                 None \<Rightarrow> completed_with []
               | Some reason \<Rightarrow> failed_with (''approval continuation blocked by live deployment authority: '' @ reason))
            else if status = ''denied'' \<or> status = ''rejected'' then
              failed_with (''approval '' @ aid @ '' was denied: '' @ or_else (ap_reason a) ''denied'')
            else failed_with (''approval '' @ aid @ '' in unexpected status: '' @ ap_status a)))"

definition gate_step :: "step_env \<Rightarrow> approval_gate \<Rightarrow> gw_world wf_step" where
  "gate_step env g =
     \<lparr>st_name = ag_name g, st_run = gate_run env g, st_check_pending = Some (gate_check env), st_compensate = None\<rparr>"

subsection \<open>The tool call\<close>

datatype tool_inputs = InputMap payload | InputFn "payload \<Rightarrow> string + payload"

record tool_step =
  tl_name :: string
  tl_tool_name :: string
  tl_inputs :: tool_inputs
  tl_output_key :: string
  tl_workspace_key :: string
  tl_principal_key :: string
  tl_checkpoint_ref :: "string option"

definition new_tool_step :: "string \<Rightarrow> string \<Rightarrow> payload \<Rightarrow> string option \<Rightarrow> tool_step" where
  "new_tool_step name tool inputs output_key =
     \<lparr>tl_name = name, tl_tool_name = tool, tl_inputs = InputMap inputs, tl_output_key = or_else output_key name,
      tl_workspace_key = ''workspace_id'', tl_principal_key = ''principal'', tl_checkpoint_ref = None\<rparr>"

text \<open>\<open>string.Template(v).safe_substitute(state)\<close>: identifiers are ASCII letters, digits and underscores,
  unknown names and stray delimiters stay as they are.\<close>

definition id_start :: "char \<Rightarrow> bool" where
  "id_start c = (let n = (of_char c :: nat) in (65 \<le> n \<and> n \<le> 90) \<or> (97 \<le> n \<and> n \<le> 122) \<or> c = CHR ''_'')"

definition id_char :: "char \<Rightarrow> bool" where
  "id_char c = (id_start c \<or> (let n = (of_char c :: nat) in 48 \<le> n \<and> n \<le> 57))"

function safe_substitute :: "(string \<Rightarrow> string option) \<Rightarrow> string \<Rightarrow> string" where
  "safe_substitute f [] = []"
| "safe_substitute f (c # cs) =
     (if c \<noteq> CHR ''$'' then c # safe_substitute f cs
      else
        case cs of
          [] \<Rightarrow> ''$''
        | d # ds \<Rightarrow>
            if d = CHR ''$'' then CHR ''$'' # safe_substitute f ds
            else if id_start d then
              (let name = takeWhile id_char cs
               in (case f name of Some v \<Rightarrow> v | None \<Rightarrow> CHR ''$'' # name) @ safe_substitute f (dropWhile id_char cs))
            else if d = CHR ''{'' \<and> (case ds of e # _ \<Rightarrow> id_start e | [] \<Rightarrow> False)
                 \<and> (case dropWhile id_char ds of r # _ \<Rightarrow> r = CHR ''}'' | [] \<Rightarrow> False) then
              (let name = takeWhile id_char ds
               in (case f name of Some v \<Rightarrow> v | None \<Rightarrow> ''${'' @ name @ ''}'')
                    @ safe_substitute f (tl (dropWhile id_char ds)))
            else CHR ''$'' # safe_substitute f cs)"
  by pat_completeness auto

termination safe_substitute
  by (relation "measure (\<lambda>(f, cs). length cs)")
    (auto simp: less_Suc_eq_le intro: order_trans [OF diff_le_self] order_trans [OF length_dropWhile_le] le_SucI)

definition resolve_input :: "step_env \<Rightarrow> payload \<Rightarrow> pyval \<Rightarrow> pyval" where
  "resolve_input env st v =
     (case v of
        PStr s \<Rightarrow>
          if py_startswith s ''$'' then ctx_get st (tl s)
          else if py_contains ''{'' s \<and> py_contains ''}'' s
          then PStr (safe_substitute (\<lambda>n. map_option (py_str (se_text env)) (dict_get st n)) s)
          else v
      | _ \<Rightarrow> v)"

definition resolve_inputs :: "step_env \<Rightarrow> tool_inputs \<Rightarrow> payload \<Rightarrow> string + payload" where
  "resolve_inputs env inputs st =
     (case inputs of
        InputFn f \<Rightarrow> f st
      | InputMap d \<Rightarrow> Inr (map (\<lambda>(k, v). (k, resolve_input env st v)) d))"

text \<open>The invocation context of the call; \<open>None\<close> when a state value does not have the type of its field.\<close>

definition dict_field :: "pyval \<Rightarrow> string + payload option" where
  "dict_field v = (case v of PNone \<Rightarrow> Inr None | PDict d \<Rightarrow> Inr (Some d) | _ \<Rightarrow> Inl ''ValidationError'')"

definition tool_context ::
  "tool_step \<Rightarrow> string \<Rightarrow> pyval \<Rightarrow> pyval \<Rightarrow> string \<Rightarrow> string \<Rightarrow> payload \<Rightarrow> invocation_context option" where
  "tool_context t rid tid ckpt ws prin st =
     (case (tid, ckpt, scope_field (ctx_get st ''conversation_id''), scope_field (ctx_get st ''correlation_id''),
            dict_field (ctx_get st ''policy_snapshot''),
            scope_field (py_or (ctx_get st ''workflow_name'') (ctx_get st ''workflow_spec_id''))) of
        (PStr tid', PStr ckpt', Inr conv, Inr corr, Inr snap, Inr spec_ref) \<Rightarrow>
          Some
            \<lparr>ic_schema_version = ''1.0.0'', ic_run_id = rid, ic_tool_call_id = tid', ic_checkpoint_ref = ckpt',
             ic_workspace_id = ws, ic_principal = prin, ic_conversation_id = conv, ic_correlation_id = corr,
             ic_policy_snapshot = snap, ic_policy_snapshot_ref = None, ic_policy_snapshot_version = None,
             ic_root_spec_identity = spec_ref, ic_capability_identity = Some (tl_tool_name t),
             ic_execution_mode = APPROVED_WORKFLOW, ic_delegation_identity = None, ic_metadata = st\<rparr>
      | _ \<Rightarrow> None)"

definition tool_key :: "tool_step \<Rightarrow> string" where
  "tool_key t = ''_tool_call_id_'' @ tl_name t"

definition tool_outcome :: "tool_step \<Rightarrow> string \<Rightarrow> string \<Rightarrow> gateway_result \<Rightarrow> step_outcome" where
  "tool_outcome t rid tid res =
     (if gr_status res = ''waiting_approval'' then
        \<lparr>so_status = STEP_WAITING_APPROVAL, so_updates = [], so_error = None,
         so_approval_id = (case gr_wait_descriptor res of
             Some d \<Rightarrow> wd_related_ref d | None \<Rightarrow> Some (''appr_'' @ rid @ ''_'' @ tid))\<rparr>
      else if gr_status res = ''denied'' \<or> gr_status res = ''failed'' then
        failed_with (or_else (gr_error_message res)
          (''Gateway execution of '' @ sq (tl_tool_name t) @ '' failed with status '' @ sq (gr_status res)))
      else completed_with [(tl_output_key t, out_val (gr_output_payload res)), (tool_key t, PStr tid)])"

text \<open>The identifiers \<open>run\<close> reads from the state or draws, with the state it leaves: the tool-call identifier
  is written to the dictionary the engine passed.\<close>

definition tool_ids :: "step_env \<Rightarrow> tool_step \<Rightarrow> payload \<Rightarrow> gw_world \<Rightarrow> gw_world \<times> payload \<times> string \<times> pyval" where
  "tool_ids env t st w =
     (let uuid = ge_uuid (se_gateway env);
          known = py_or (ctx_get st ''run_id'') (ctx_get st ''workflow_id'');
          rid = (if truthy known then py_str (se_text env) known else ''wf_run_'' @ take 12 (uuid (gw_tick w)));
          w1 = (if truthy known then w else w\<lparr>gw_tick := gw_tick w + 1\<rparr>);
          kept = ctx_get st (tool_key t);
          drawn = PStr (''call_'' @ take 12 (uuid (gw_tick w1)))
      in if truthy kept then (w1, st, rid, kept)
         else (w1\<lparr>gw_tick := gw_tick w1 + 1\<rparr>, dict_set (tool_key t) drawn st, rid, drawn))"

definition tool_run :: "step_env \<Rightarrow> tool_step \<Rightarrow> payload \<Rightarrow> gw_world \<Rightarrow> gw_world \<times> payload \<times> (string + step_outcome)" where
  "tool_run env t st w =
     (case live_block env st w of
        Some reason \<Rightarrow>
          (w, st, Inr (failed_with (''tool_call '' @ sq (tl_tool_name t) @ '' blocked by live deployment authority: '' @ reason)))
      | None \<Rightarrow>
          let txt = py_str (se_text env);
              (w1, st1, rid, tid) = tool_ids env t st w;
              ws = txt (py_or (py_or (ctx_get st (tl_workspace_key t)) (ctx_get st ''workspace_id'')) (PStr []));
              prin = txt (py_or (py_or (ctx_get st (tl_principal_key t)) (ctx_get st ''principal'')) (PStr ''system''));
              ckpt = py_or (opt_val (tl_checkpoint_ref t))
                       (py_or (ctx_get st1 ''checkpoint_ref'') (PStr (''ckpt_'' @ rid @ ''_'' @ tl_name t)))
          in case resolve_inputs env (tl_inputs t) st1 of
               Inl e \<Rightarrow> (w1, st1, Inl e)
             | Inr inputs \<Rightarrow>
                 (case tool_context t rid tid ckpt ws prin st1 of
                    None \<Rightarrow> (w1, st1, Inl ''ValidationError'')
                  | Some c \<Rightarrow>
                      (case gw_execute (se_gateway env)
                              (make_request_inv rid (tl_tool_name t) inputs prin (Some (ic_checkpoint_ref c))
                                 (Some (ic_tool_call_id c)) None (Some ws) c) w1 of
                         (w2, Inl e) \<Rightarrow> (w2, st1, Inl e)
                       | (w2, Inr res) \<Rightarrow> (w2, st1, Inr (tool_outcome t rid (ic_tool_call_id c) res)))))"

definition tool_call_step :: "step_env \<Rightarrow> tool_step \<Rightarrow> gw_world wf_step" where
  "tool_call_step env t =
     \<lparr>st_name = tl_name t, st_run = tool_run env t, st_check_pending = None, st_compensate = None\<rparr>"


subsection \<open>The gate opens for its own approval\<close>

lemma py_lower_status [simp]:
  "py_lower ''pending'' = ''pending''" "py_lower ''approved'' = ''approved''" "py_lower ''denied'' = ''denied''"
  by code_simp+

text \<open>A gate that waits has filed, or found pending, a request for exactly its change.\<close>

lemma gate_run_waits:
  assumes "gate_run env g st w = (w1, st1, Inr oc)" "so_status oc = STEP_WAITING_APPROVAL"
  shows "\<exists>subj ws project t1 eid t2 wid t3 rec wd. gate_subject env g st = Inr subj \<and> ctx_get st ''workspace_id'' = PStr ws
    \<and> create_change_approval_request (ge_uuid (se_gateway env) (gw_tick w)) t1 eid t2 wid t3 ws project (ag_action g) subj
        (gate_requirement st) (ag_requester g) (gw_repo w) = (gw_repo w1, Inr (rec, wd))
    \<and> so_approval_id oc = Some (ap_approval_id rec)"
proof -
  have v: "gate_verdict env g w = None"
  proof (rule ccontr)
    assume "gate_verdict env g w \<noteq> None"
    with assms show False
      by (auto simp: gate_run_def gate_verdict_def split: option.splits sum.splits if_splits)
  qed
  with assms have ok: "truthy (ctx_get st ''workspace_id'')" "truthy (ctx_get st (ag_subject_key g))"
    by (auto simp: gate_run_def split: if_splits)
  with v assms obtain subj ws project where f: "gate_subject env g st = Inr subj"
    "scope_field (ctx_get st ''workspace_id'') = Inr (Some ws)" "scope_field (ctx_get st ''project_id'') = Inr project"
    by (auto simp: gate_run_def split: sum.splits option.splits)
  then have "ctx_get st ''workspace_id'' = PStr ws" by (auto simp: scope_field_def split: pyval.splits)
  moreover from v ok f assms(1) obtain rec wd where
    "create_change_approval_request (ge_uuid (se_gateway env) (gw_tick w)) (ge_clock (se_gateway env) (gw_tick w))
       (''apprevt_'' @ take 16 (ge_uuid (se_gateway env) (gw_tick w + 1))) (ge_clock (se_gateway env) (gw_tick w + 1))
       (ge_uuid (se_gateway env) (gw_tick w + 2)) (ge_clock (se_gateway env) (gw_tick w + 2)) ws project (ag_action g) subj
       (gate_requirement st) (ag_requester g) (gw_repo w) = (gw_repo w1, Inr (rec, wd))"
    "so_approval_id oc = Some (ap_approval_id rec)"
    by (auto simp: gate_run_def Let_def waiting_for_def split: prod.splits sum.splits)
  ultimately show ?thesis using f(1) by blast
qed

text \<open>C13. An approval gate opens exactly for the approval of its own change. When a gate pauses the workflow,
  a pending change request is on file that names the workspace of the state, the gate's action and the
  subject (workflow instance, step, and hash over definition, step and subject value), and the gate
  keeps waiting; once a reviewer has decided it, then along every interleaving of repository operations
  the gate completes if the decision was an approval and the deployment's authority, asked again, still
  holds, and fails otherwise.\<close>

theorem approval_gate_exact:
  assumes "reachable_repo (gw_repo w)"
    and "dict_get (approvals (gw_repo w)) (''appr_chg_'' @ take 16 (ge_uuid (se_gateway env) (gw_tick w))) = None"
    and "gate_run env g st w = (w1, st1, Inr oc)" "so_status oc = STEP_WAITING_APPROVAL" "so_approval_id oc = Some aid"
    and "submit_decision tx t0 ids ts eid t5 aid reviewer ok reason extra (gw_repo w1) = (s2, res)"
    and "admissible repo_guard repo_step ops s2" "gw_repo w2 = fold repo_step ops s2"
  shows "(\<exists>subj ws a. gate_subject env g st = Inr subj \<and> ctx_get st ''workspace_id'' = PStr ws
        \<and> get_approval aid (gw_repo w1) = Some a \<and> asks_for ws (ag_action g) subj a \<and> ap_status a = ''pending'')
    \<and> gate_check env aid st' w1 = (w1, Inr (waiting_for aid))
    \<and> (\<exists>oc'. gate_check env aid st' w2 = (w2, Inr oc')
        \<and> so_status oc' = (if ok \<and> live_block env st' w2 = None then STEP_COMPLETED else STEP_FAILED))"
proof -
  obtain subj ws project t1 eid' t2 wid t3 rec wd where
    c: "gate_subject env g st = Inr subj" "ctx_get st ''workspace_id'' = PStr ws"
      "create_change_approval_request (ge_uuid (se_gateway env) (gw_tick w)) t1 eid' t2 wid t3 ws project (ag_action g) subj
         (gate_requirement st) (ag_requester g) (gw_repo w) = (gw_repo w1, Inr (rec, wd))"
      "aid = ap_approval_id rec"
    using gate_run_waits [OF assms(3,4)] assms(5) by auto
  note filed = change_request_filed [OF assms(1,2) c(3)]
  have p: "get_approval aid (gw_repo w1) = Some rec" "gate_check env aid st' w1 = (w1, Inr (waiting_for aid))"
    using filed(2,4) c(4) by (simp_all add: gate_check_def get_approval_def Let_def)
  obtain a' where a': "dict_get (approvals (gw_repo w2)) aid = Some a'" "ap_status a' = (if ok then ''approved'' else ''denied'')"
    using change_decision_stands [OF assms(1,2) c(3) assms(6) [unfolded c(4)] assms(7,8)] unfolding c(4) by blast
  then have "\<exists>oc'. gate_check env aid st' w2 = (w2, Inr oc')
      \<and> so_status oc' = (if ok \<and> live_block env st' w2 = None then STEP_COMPLETED else STEP_FAILED)"
    by (auto simp: gate_check_def get_approval_def Let_def split: option.split)
  with p filed c show ?thesis by blast
qed


text \<open>Witness of C13: a publication is asked for, waits, and goes on once approved; denied, it fails.\<close>

definition plain_steps :: step_env where
  "plain_steps = \<lparr>se_gateway = sample_env None, se_deref = (\<lambda>_. None), se_sha256 = (\<lambda>s. s), se_resolver = None, se_policy = None\<rparr>"

definition publish_gate :: "string \<Rightarrow> approval_gate" where
  "publish_gate name = new_approval_gate name ''publish'' []"

definition draft_state :: payload where
  "draft_state = [(''workspace_id'', PStr ''w1''), (''subject'', PStr ''draft'')]"

definition decide_pending :: "bool \<Rightarrow> string \<Rightarrow> gw_world \<Rightarrow> gw_world" where
  "decide_pending ok aid w =
     w\<lparr>gw_repo := fst (submit_decision sample_text 4 (''e2'', ''o1'') (5, 6, 7, 8) ''e3'' 9 aid ''alice'' ok [] None (gw_repo w)),
       gw_tick := gw_tick w + 1\<rparr>"

theorem approval_gate_exact_witness:
  "let r = gate_run plain_steps (publish_gate ''g'') draft_state sample_world in
   \<exists>aid. snd (snd r) = Inr (waiting_for aid) \<and> gate_check plain_steps aid draft_state (fst r) = (fst r, Inr (waiting_for aid))
     \<and> (\<forall>ok. \<exists>oc. gate_check plain_steps aid draft_state (decide_pending ok aid (fst r)) = (decide_pending ok aid (fst r), Inr oc)
            \<and> so_status oc = (if ok then STEP_COMPLETED else STEP_FAILED))"
proof -
  let ?r = "gate_run plain_steps (publish_gate ''g'') draft_state sample_world"
  let ?aid = "''appr_chg_''"
  have r: "snd (snd ?r) = Inr (waiting_for ?aid)" by code_simp
  then have run: "?r = (fst ?r, fst (snd ?r), Inr (waiting_for ?aid))" by (metis prod.collapse)
  have start: "reachable_repo (gw_repo sample_world)"
    "dict_get (approvals (gw_repo sample_world)) (''appr_chg_'' @ take 16 (ge_uuid (se_gateway plain_steps) (gw_tick sample_world))) = None"
    by (simp_all add: sample_world_def reachable_init) (simp add: empty_repo_def)
  have oc: "so_status (waiting_for ?aid) = STEP_WAITING_APPROVAL" "so_approval_id (waiting_for ?aid) = Some ?aid"
    by (simp_all add: waiting_for_def)
  let ?d = "\<lambda>ok. submit_decision sample_text 4 (''e2'', ''o1'') (5, 6, 7, 8) ''e3'' 9 ?aid ''alice'' ok [] None (gw_repo (fst ?r))"
  have d: "?d ok = (fst (?d ok), snd (?d ok))" for ok by simp
  have "admissible repo_guard repo_step [] (fst (?d ok))" for ok by simp
  note exact = approval_gate_exact [OF start run oc d this]
  have none: "live_block plain_steps st w = None" for st w by (simp add: live_block_def plain_steps_def)
  have "gw_repo (decide_pending ok ?aid (fst ?r)) = fold repo_step [] (fst (?d ok))" for ok by (simp add: decide_pending_def)
  note e = exact [OF this, of draft_state, unfolded none simp_thms]
  show ?thesis unfolding Let_def by (intro exI [of _ ?aid] conjI allI) (rule r, use e in blast, use e in blast)
qed

subsection \<open>Two gates in a row\<close>

text \<open>The second of two approval gates is never passed. When one approval gate depends on another and no
  policy lets them through by itself, then in no life of the workflow, whatever is approved and however
  often it is resumed, does the second gate complete or the workflow reach COMPLETED: the recorded pause
  of the first gate is never cleared, so every resume re-checks the first gate and asks for the second
  one anew.\<close>

theorem second_gate_never_passed:
  assumes "dag_life tx dh build spec wk" "well_formed_dag spec" "build spec = Inr built"
    and "s \<in> set (forward_steps (wsp_steps spec))" "t \<in> set (forward_steps (wsp_steps spec))"
    and "ws_id s \<in> set (ws_depends_on t)"
    and "dict_get (steps_by_id (wsp_steps spec) built) (ws_id s) = Some (gate_step env g)"
    and "dict_get (steps_by_id (wsp_steps spec) built) (ws_id t) = Some (gate_step env h)"
    and "\<forall>w oc. gate_verdict env g w = Some (Inr oc) \<or> gate_verdict env h w = Some (Inr oc) \<longrightarrow> so_status oc \<noteq> STEP_COMPLETED"
  shows "ws_id t \<notin> set (wf_completed_steps wk) \<and> wf_status wk \<noteq> WF_COMPLETED"
proof -
  have "(ws_id t, ws_id s) \<in> (depends (wsp_steps spec))\<^sup>+"
    using assms(5,6) by (intro r_into_trancl) (auto simp: depends_def forward_steps_def)
  moreover have "acyclic (depends (wsp_steps spec))" "distinct (step_ids spec)"
    using assms(2) by (simp_all add: well_formed_dag_def Let_def)
  ultimately have "ws_id s \<noteq> ws_id t" and d: "distinct (step_ids spec)" by (simp_all add: acyclic_def) metis
  then have two: "two_gates spec (ws_id s) (ws_id t)" using assms(4-6) by (auto simp: two_gates_def)
  have "so_status oc \<noteq> STEP_COMPLETED" if "snd (snd (gate_run env k st w)) = Inr oc" "k = g \<or> k = h" for k st w oc
    using that assms(9) by (auto simp: gate_run_def Let_def split: option.splits sum.splits prod.splits if_splits)
  then have "legal_steps (gate_legal spec (ws_id s) (ws_id t)) (steps_by_id (wsp_steps spec) built)"
    using assms(7,8) by (auto simp: legal_steps_def gate_legal_def gate_step_def)
  with assms(3) have "gate_inv spec (ws_id s) (ws_id t) wk"
    by (intro gates.life_holds [OF assms(1) _ d]) simp
  with two show ?thesis by (simp add: gate_inv_def)
qed


text \<open>Witness of C24: after any number of rounds in which the pending request is approved and the workflow resumed,
  it still waits; after two rounds the first gate has been completed twice and the second not at all.\<close>

definition two_gate_spec :: workflow_spec where
  "two_gate_spec = sample_spec_of
     [(sample_step ''g1'' [])\<lparr>ws_type := ST_APPROVAL_GATE\<rparr>, (sample_step ''g2'' [''g1''])\<lparr>ws_type := ST_APPROVAL_GATE\<rparr>]"

definition two_gate_build :: "workflow_spec \<Rightarrow> string + gw_world wf_step list" where
  "two_gate_build spec = Inr (map (\<lambda>s. gate_step plain_steps (publish_gate (ws_id s))) (wsp_steps spec))"

primrec two_gate_life :: "nat \<Rightarrow> gw_world \<times> workflow" where
  "two_gate_life 0 =
     (let r = execute_spec sample_text (\<lambda>_. ''h'') two_gate_build ''w1'' two_gate_spec draft_state None sample_world
      in (fst r, fst (snd r)))"
| "two_gate_life (Suc n) =
     (let w = fst (two_gate_life n); wk = snd (two_gate_life n);
          r = resume_spec sample_text two_gate_build wk two_gate_spec (decide_pending True (or_else (wf_pending_approval_id wk) []) w)
      in (fst r, fst (snd r)))"

lemma two_gate_life: "dag_life sample_text (\<lambda>_. ''h'') two_gate_build two_gate_spec (snd (two_gate_life n))"
proof (induction n)
  case 0
  show ?case unfolding two_gate_life.simps Let_def snd_conv by (rule dag_life_start)
next
  case (Suc n)
  show ?case unfolding two_gate_life.simps Let_def snd_conv by (rule dag_life_again [OF Suc])
qed

lemma two_gate_spec_ok: "well_formed_dag two_gate_spec"
proof -
  have "(depends (wsp_steps two_gate_spec))\<inverse> \<subseteq> measure (\<lambda>i. if i = ''g1'' then 0 else (1::nat))"
    by (auto simp: depends_def two_gate_spec_def sample_spec_of_def sample_step_def)
  from wf_acyclic [OF wf_subset [OF wf_measure this]] have "acyclic (depends (wsp_steps two_gate_spec))"
    unfolding acyclic_converse .
  then show ?thesis
    by (auto simp: well_formed_dag_def two_gate_spec_def sample_spec_of_def sample_step_def step_ids_def
        forward_steps_def compensation_targets_def truthy_opt_def Let_def)
qed

theorem second_gate_never_passed_witness:
  "wf_completed_steps (snd (two_gate_life 2)) = [''g1'', ''g1'']
   \<and> wf_status (snd (two_gate_life 2)) = WF_WAITING_APPROVAL
   \<and> (\<forall>n. ''g2'' \<notin> set (wf_completed_steps (snd (two_gate_life n))) \<and> wf_status (snd (two_gate_life n)) \<noteq> WF_COMPLETED)"
proof (intro conjI allI)
  show "wf_completed_steps (snd (two_gate_life 2)) = [''g1'', ''g1'']" by code_simp
  show "wf_status (snd (two_gate_life 2)) = WF_WAITING_APPROVAL" by code_simp
next
  fix n
  let ?g = "\<lambda>i. gate_step plain_steps (publish_gate i)"
  let ?s = "(sample_step ''g1'' [])\<lparr>ws_type := ST_APPROVAL_GATE\<rparr>"
  let ?t = "(sample_step ''g2'' [''g1''])\<lparr>ws_type := ST_APPROVAL_GATE\<rparr>"
  have b: "two_gate_build two_gate_spec = Inr [?g ''g1'', ?g ''g2'']"
    by (simp add: two_gate_build_def two_gate_spec_def sample_spec_of_def sample_step_def)
  have st: "wsp_steps two_gate_spec = [?s, ?t]" by (simp add: two_gate_spec_def sample_spec_of_def)
  have ids: "ws_id ?s = ''g1''" "ws_id ?t = ''g2''" "ws_depends_on ?t = [''g1'']" by (simp_all add: sample_step_def)
  have fs: "?s \<in> set (forward_steps (wsp_steps two_gate_spec))" "?t \<in> set (forward_steps (wsp_steps two_gate_spec))"
    unfolding st by (simp_all add: forward_steps_def compensation_targets_def sample_step_def)
  have m: "dict_get (steps_by_id (wsp_steps two_gate_spec) [?g ''g1'', ?g ''g2'']) (ws_id ?s) = Some (?g ''g1'')"
    "dict_get (steps_by_id (wsp_steps two_gate_spec) [?g ''g1'', ?g ''g2'']) (ws_id ?t) = Some (?g ''g2'')"
    unfolding st by (simp_all add: steps_by_id_def ids)
  have "ws_id ?s \<in> set (ws_depends_on ?t)" using ids by simp
  note never = second_gate_never_passed [OF two_gate_life two_gate_spec_ok b fs this m]
  have "gate_verdict plain_steps (publish_gate i) w = None" for i w by (simp add: gate_verdict_def plain_steps_def)
  with never ids show "''g2'' \<notin> set (wf_completed_steps (snd (two_gate_life n)))" "wf_status (snd (two_gate_life n)) \<noteq> WF_COMPLETED"
    by simp_all
qed


subsection \<open>A tool call that waits\<close>

definition pay_spec :: workflow_spec where
  "pay_spec = sample_spec_of
     [(sample_step ''pay'' [])\<lparr>ws_type := ST_TOOL_CALL, ws_tool := Some ''pay'', ws_inputs := [(''amount'', PInt 7)]\<rparr>]"

definition pay_build :: "workflow_spec \<Rightarrow> string + gw_world wf_step list" where
  "pay_build spec = Inr (map (\<lambda>s. tool_call_step plain_steps (new_tool_step (ws_id s) (or_else (ws_tool s) (ws_id s)) (ws_inputs s) None))
     (wsp_steps spec))"

definition pay_state :: payload where
  "pay_state = [(''workspace_id'', PStr ''w1''), (''principal'', PStr ''alice''), (''run_id'', PStr ''r1'')]"

text \<open>A run of the engine in which a decided tool call is skipped. A payment of high risk waits for its approval; the reviewer decides,
  either way, and the workflow is resumed. The identifier of the tool call was written to a copy of the
  state that the engine dropped, so the resumed step asks as another tool call, is told that the first
  one is still in progress, and counts that as success: the workflow is COMPLETED with no output, and
  the handler has never run.\<close>

lemma decided_tool_skipped:
  "let r = execute_spec sample_text (\<lambda>_. ''h'') pay_build ''w1'' pay_spec pay_state None sample_world;
       aid = or_else (wf_pending_approval_id (fst (snd r))) [];
       r' = (\<lambda>ok. resume_spec sample_text pay_build (fst (snd r)) pay_spec (decide_pending ok aid (fst r)))
   in wf_status (fst (snd r)) = WF_WAITING_APPROVAL
      \<and> (\<forall>ok. map_option ap_status (get_approval aid (gw_repo (decide_pending ok aid (fst r))))
                = Some (if ok then ''approved'' else ''denied'')
            \<and> wf_status (fst (snd (r' ok))) = WF_COMPLETED
            \<and> dict_get (wf_state (fst (snd (r' ok)))) ''pay'' = Some PNone
            \<and> gw_calls (fst (r' ok)) = [])"
  by code_simp


end
