(* ===== verification/WorkflowBuild.thy ===== *)
theory WorkflowBuild
  imports WorkflowSteps
begin

text \<open>
  From a published specification to executable steps: the steps that wrap others (\<open>steps.py\<close>,
  \<open>retry_step.py\<close>), the agent step (\<open>agent_step.py\<close>), the compilation of a specification by the engine
  (\<open>WorkflowEngine.build_steps_from_spec\<close>) and the validation before publication (\<open>validation.py\<close>).
  Agents, the kernel, the resolvers and the registered handlers are the objects the code is handed, so
  they are parameters.
\<close>

subsection \<open>Wrapping steps\<close>

text \<open>\<open>RetryStep.run\<close>: up to \<open>left\<close> more attempts after \<open>n\<close>; also returns \<open>attempts_made\<close>.\<close>

fun retry_attempts ::
  "(payload \<Rightarrow> 'w \<Rightarrow> 'w \<times> payload \<times> (string + step_outcome)) \<Rightarrow> nat \<Rightarrow> nat \<Rightarrow> payload \<Rightarrow> 'w
     \<Rightarrow> 'w \<times> payload \<times> nat \<times> (string + step_outcome)" where
  "retry_attempts run 0 n st w = (w, st, n, Inl ''AssertionError'')"
| "retry_attempts run (Suc left) n st w =
     (let (w1, st1, r) = run st w in
      case r of
        Inl e \<Rightarrow> (w1, st1, n + 1, Inl e)
      | Inr oc \<Rightarrow>
          if so_status oc \<noteq> STEP_FAILED \<or> left = 0 then (w1, st1, n + 1, Inr oc)
          else retry_attempts run left (n + 1) st1 w1)"

definition is_gate :: "'w wf_step \<Rightarrow> bool" where
  "is_gate s \<longleftrightarrow> st_check_pending s \<noteq> None"

definition retry_step :: "'w wf_step \<Rightarrow> int \<Rightarrow> string + 'w wf_step" where
  "retry_step s max_attempts =
     (if is_gate s then Inl ''RetryStep cannot wrap an ApprovalGateStep''
      else if max_attempts < 1 then Inl ''max_attempts must be >= 1''
      else Inr
        \<lparr>st_name = st_name s,
         st_run = (\<lambda>st w. let (w1, st1, _, r) = retry_attempts (st_run s) (nat max_attempts) 0 st w in (w1, st1, r)),
         st_check_pending = None, st_compensate = None\<rparr>)"

definition compensating_step :: "'w wf_step \<Rightarrow> (payload \<Rightarrow> 'w \<Rightarrow> 'w \<times> payload \<times> string option) \<Rightarrow> 'w wf_step" where
  "compensating_step s compensate =
     \<lparr>st_name = st_name s, st_run = st_run s, st_check_pending = None, st_compensate = Some compensate\<rparr>"

text \<open>What an agent's result shows: the text of its status, its error and its output.\<close>

record agent_result =
  ar_status :: string
  ar_error :: "string option"
  ar_output :: pyval

definition succeeded :: "agent_result \<Rightarrow> bool" where
  "succeeded r \<longleftrightarrow> py_upper (ar_status r) = ''COMPLETED'' \<or> py_upper (ar_status r) = ''SUCCESS''"

text \<open>An agent is run on a goal, an agent key and a workspace.\<close>

type_synonym 'w agent = "pyval \<Rightarrow> string \<Rightarrow> pyval \<Rightarrow> 'w \<Rightarrow> 'w \<times> (string + agent_result)"

definition agent_step ::
  "string \<Rightarrow> 'w agent \<Rightarrow> string \<Rightarrow> string \<Rightarrow> string \<Rightarrow> string \<Rightarrow> 'w wf_step" where
  "agent_step name agent goal_key output_key agent_key workspace_key =
     \<lparr>st_name = name,
      st_run = (\<lambda>st w.
        let (w1, r) = agent (get_default st goal_key []) agent_key (get_default st workspace_key []) w in
        (w1, st, (case r of
           Inl e \<Rightarrow> Inl e
         | Inr res \<Rightarrow>
             if \<not> succeeded res then Inr (failed_with (or_else (ar_error res) ''agent step did not complete''))
             else Inr (completed_with [(output_key, ar_output res)])))),
      st_check_pending = None, st_compensate = None\<rparr>"

record 'w parallel_branch =
  pb_name :: string
  pb_agent :: "'w agent"
  pb_goal_key :: string
  pb_agent_key :: string

text \<open>The gather over the branches; the first exception, in the order of the branches, surfaces.\<close>

fun run_branches ::
  "'w parallel_branch list \<Rightarrow> string \<Rightarrow> payload \<Rightarrow> 'w \<Rightarrow> 'w \<times> (string + (string \<times> agent_result) list)" where
  "run_branches [] workspace_key st w = (w, Inr [])"
| "run_branches (b # bs) workspace_key st w =
     (let (w1, r) = pb_agent b (get_default st (pb_goal_key b) []) (pb_agent_key b) (get_default st workspace_key []) w;
          (w2, rest) = run_branches bs workspace_key st w1
      in (w2, (case r of Inl e \<Rightarrow> Inl e | Inr res \<Rightarrow> map_sum id (\<lambda>rs. (pb_name b, res) # rs) rest)))"

definition join_names :: "string list \<Rightarrow> string" where
  "join_names ns = (case ns of [] \<Rightarrow> [] | n # ns' \<Rightarrow> n @ concat (map (\<lambda>x. '', '' @ x) ns'))"

definition merge_branches :: "string \<Rightarrow> (string \<times> agent_result) list \<Rightarrow> step_outcome" where
  "merge_branches output_key results =
     (let outputs = fold (\<lambda>(n, r) d. if succeeded r then dict_set n (ar_output r) d else d) results [];
          failures = map fst (filter (\<lambda>(n, r). \<not> succeeded r) results)
      in if outputs = [] then failed_with (''all parallel branches failed: '' @ join_names failures)
         else completed_with [(output_key, PDict outputs)])"

definition parallel_step :: "string \<Rightarrow> 'w parallel_branch list \<Rightarrow> string \<Rightarrow> string \<Rightarrow> string + 'w wf_step" where
  "parallel_step name branches output_key workspace_key =
     (if branches = [] then Inl ''ParallelStep requires at least one branch''
      else Inr
        \<lparr>st_name = name,
         st_run = (\<lambda>st w. let (w1, r) = run_branches branches workspace_key st w in (w1, st, map_sum id (merge_branches output_key) r)),
         st_check_pending = None, st_compensate = None\<rparr>)"

subsection \<open>Retry with backoff\<close>

text \<open>The retry target is a step (an approval gate or not), a callable (which may give an outcome, a dictionary, or anything else), or
  neither.\<close>

datatype handler_result = GaveOutcome step_outcome | GaveDict payload | GaveOther

datatype 'w retry_target =
    RetryRun bool "payload \<Rightarrow> 'w \<Rightarrow> 'w \<times> payload \<times> (string + step_outcome)"
  | RetryCall "payload \<Rightarrow> 'w \<Rightarrow> 'w \<times> payload \<times> (string + handler_result)"
  | RetryNone string

record retry_config =
  rc_name :: string
  rc_max_attempts :: nat
  rc_initial_backoff :: rat
  rc_backoff_factor :: rat
  rc_max_backoff :: rat

definition outcome_of :: "handler_result \<Rightarrow> step_outcome" where
  "outcome_of r = (case r of GaveOutcome oc \<Rightarrow> oc | GaveDict u \<Rightarrow> completed_with u | GaveOther \<Rightarrow> completed_with [])"

text \<open>One attempt; an exception is a failed outcome. \<open>Inl\<close> is the immediate return for a target that cannot be
  executed.\<close>

definition retry_once :: "'w retry_target \<Rightarrow> payload \<Rightarrow> 'w \<Rightarrow> 'w \<times> payload \<times> (step_outcome + step_outcome)" where
  "retry_once target st w =
     (case target of
        RetryRun _ f \<Rightarrow>
          (let (w1, st1, r) = f st w in (w1, st1, Inr (case r of Inl e \<Rightarrow> failed_with e | Inr oc \<Rightarrow> oc)))
      | RetryCall f \<Rightarrow>
          (let (w1, st1, r) = f st w in (w1, st1, Inr (case r of Inl e \<Rightarrow> failed_with e | Inr h \<Rightarrow> outcome_of h)))
      | RetryNone ty \<Rightarrow> (w, st, Inl (failed_with (''Unexecutable retry target of type '' @ ty))))"

definition backoff_after :: "retry_config \<Rightarrow> nat \<Rightarrow> rat" where
  "backoff_after c attempt = min (rc_initial_backoff c * rc_backoff_factor c ^ (attempt - 1)) (rc_max_backoff c)"

text \<open>The entry \<open>_retry_attempts\<close> of the state counts the attempts of each step; a value that is not a
  dictionary there raises. The target is taken to leave the entry alone.\<close>

definition count_attempt :: "string \<Rightarrow> nat \<Rightarrow> payload \<Rightarrow> payload option" where
  "count_attempt name attempt st =
     (case dict_get st ''_retry_attempts'' of
        None \<Rightarrow> Some (dict_set ''_retry_attempts'' (PDict [(name, PInt (int attempt))]) st)
      | Some (PDict d) \<Rightarrow> Some (dict_set ''_retry_attempts'' (PDict (dict_set name (PInt (int attempt)) d)) st)
      | Some _ \<Rightarrow> None)"

text \<open>\<open>RetryWorkflowStep.run\<close> from the attempt after \<open>n\<close> on, with the pauses made.\<close>

fun retry_loop ::
  "retry_config \<Rightarrow> 'w retry_target \<Rightarrow> nat \<Rightarrow> nat \<Rightarrow> payload \<Rightarrow> 'w \<Rightarrow> 'w \<times> payload \<times> nat \<times> rat list \<times> (string + step_outcome)" where
  "retry_loop c target 0 n st w = (w, st, n, [], Inl ''AssertionError'')"
| "retry_loop c target (Suc left) n st w =
     (case count_attempt (rc_name c) (n + 1) st of
        None \<Rightarrow> (w, st, n + 1, [], Inl ''TypeError'')
      | Some st0 \<Rightarrow>
          (case retry_once target st0 w of
             (w1, st1, Inl oc) \<Rightarrow> (w1, st1, n + 1, [], Inr oc)
           | (w1, st1, Inr oc) \<Rightarrow>
               if so_status oc \<noteq> STEP_FAILED \<or> left = 0 then (w1, st1, n + 1, [], Inr oc)
               else
                 let pause = (if 0 < rc_initial_backoff c \<and> 0 < backoff_after c (n + 1) then [backoff_after c (n + 1)] else []);
                     (w2, st2, k, pauses, r) = retry_loop c target left (n + 1) st1 w1
                 in (w2, st2, k, pause @ pauses, r)))"

definition default_retry :: "string \<Rightarrow> nat \<Rightarrow> retry_config" where
  "default_retry name m =
     \<lparr>rc_name = name, rc_max_attempts = m, rc_initial_backoff = 1 / 10, rc_backoff_factor = 2, rc_max_backoff = 5\<rparr>"

definition is_gate_target :: "'w retry_target \<Rightarrow> bool" where
  "is_gate_target target \<longleftrightarrow> (case target of RetryRun gate _ \<Rightarrow> gate | _ \<Rightarrow> False)"

definition retry_workflow_step :: "'w retry_target \<Rightarrow> string \<Rightarrow> int \<Rightarrow> string + 'w wf_step" where
  "retry_workflow_step target name max_attempts =
     (if is_gate_target target then Inl ''RetryWorkflowStep cannot wrap an ApprovalGateStep''
      else if \<not> (1 \<le> max_attempts \<and> max_attempts \<le> 10) then Inl ''max_attempts must be between 1 and 10''
      else Inr
        \<lparr>st_name = name,
         st_run = (\<lambda>st w. let (w1, st1, _, _, r) = retry_loop (default_retry name (nat max_attempts)) target (nat max_attempts) 0 st w
                          in (w1, st1, r)),
         st_check_pending = None, st_compensate = None\<rparr>)"

lemma backoff_pos: "0 < rc_initial_backoff c \<Longrightarrow> 0 < rc_backoff_factor c \<Longrightarrow> 0 < rc_max_backoff c \<Longrightarrow> 0 < backoff_after c k"
  by (simp add: backoff_after_def)

lemma retry_loop_exact:
  assumes "retry_loop c target left n st w = (w', st', k, pauses, r)" "0 < left"
    "0 < rc_initial_backoff c" "0 < rc_backoff_factor c" "0 < rc_max_backoff c"
  shows "n < k \<and> k \<le> n + left \<and> pauses = map (backoff_after c) [n + 1..<k]
    \<and> (\<forall>oc. r = Inr oc \<and> so_status oc = STEP_FAILED \<and> (\<forall>ty. target \<noteq> RetryNone ty) \<longrightarrow> k = n + left)
    \<and> (\<forall>e. r = Inl e \<longrightarrow> e = ''TypeError'')"
  using assms
proof (induction c target left n st w arbitrary: w' st' k pauses r rule: retry_loop.induct)
  case (2 c target left n st w)
  show ?case
  proof (cases "count_attempt (rc_name c) (n + 1) st")
    case None
    with 2(2) show ?thesis by auto
  next
    case (Some st0)
    obtain w1 st1 o' where once: "retry_once target st0 w = (w1, st1, o')" by (rule prod_cases3)
    show ?thesis
    proof (cases o')
      case (Inl oc')
      then have "\<exists>ty. target = RetryNone ty" using once by (cases target) (auto simp: retry_once_def split: prod.splits)
      with 2(2) Some once Inl show ?thesis by auto
    next
      case (Inr oc')
      show ?thesis
      proof (cases "so_status oc' \<noteq> STEP_FAILED \<or> left = 0")
        case True
        with 2(2) Some once Inr show ?thesis by auto
      next
        case False
        obtain w2 st2 k2 p2 r2 where l: "retry_loop c target left (n + 1) st1 w1 = (w2, st2, k2, p2, r2)" by (metis prod_cases5)
        have IH: "n + 1 < k2 \<and> k2 \<le> n + 1 + left \<and> p2 = map (backoff_after c) [n + 1 + 1..<k2]
            \<and> (\<forall>oc. r2 = Inr oc \<and> so_status oc = STEP_FAILED \<and> (\<forall>ty. target \<noteq> RetryNone ty) \<longrightarrow> k2 = n + 1 + left)
            \<and> (\<forall>e. r2 = Inl e \<longrightarrow> e = ''TypeError'')"
          by (rule 2(1) [OF Some once [symmetric] refl Inr False]) (use l False 2(4-6) in auto)
        have "w' = w2 \<and> st' = st2 \<and> k = k2 \<and> r = r2 \<and> pauses = backoff_after c (n + 1) # p2"
          using 2(2) Some once Inr False l backoff_pos [OF 2(4-6), of "n + 1"] 2(4) by simp
        moreover have "[n + 1..<k2] = (n + 1) # [n + 1 + 1..<k2]" using IH by (simp add: upt_conv_Cons)
        ultimately show ?thesis using IH by simp
      qed
    qed
  qed
qed simp


text \<open>Bounded retry. A retry step that the engine builds makes at least one attempt and at most
  \<open>max_attempts\<close>, ten at most; it waits between them for the exponential backoff, in order, never more
  than five seconds; it reports a failure only when every attempt failed (or its target cannot be
  executed); and no exception of the target gets out, only the one for a state whose
  \<open>_retry_attempts\<close> is not a dictionary.\<close>

theorem retry_bounded:
  assumes "retry_workflow_step target name m = Inr s"
    and "retry_loop (default_retry name (nat m)) target (nat m) 0 st w = (w', st', k, pauses, r)"
  shows "1 \<le> k \<and> int k \<le> m \<and> m \<le> 10
    \<and> pauses = map (\<lambda>i. min (1 / 10 * 2 ^ (i - 1)) 5) [1..<k]
    \<and> (\<forall>oc. r = Inr oc \<and> so_status oc = STEP_FAILED \<and> (\<forall>ty. target \<noteq> RetryNone ty) \<longrightarrow> int k = m)
    \<and> (\<forall>e. r = Inl e \<longrightarrow> e = ''TypeError'') \<and> st_run s st w = (w', st', r)"
proof -
  have m: "1 \<le> m" "m \<le> 10" using assms(1) by (auto simp: retry_workflow_step_def split: if_splits)
  have c: "0 < rc_initial_backoff (default_retry name (nat m))" "0 < rc_backoff_factor (default_retry name (nat m))"
    "0 < rc_max_backoff (default_retry name (nat m))" "backoff_after (default_retry name (nat m)) = (\<lambda>i. min (1 / 10 * 2 ^ (i - 1)) 5)"
    by (simp_all add: default_retry_def backoff_after_def fun_eq_iff)
  have "st_run s st w = (w', st', r)" using assms m by (auto simp: retry_workflow_step_def split: if_splits)
  with retry_loop_exact [OF assms(2) _ c(1-3)] m show ?thesis unfolding c(4) by auto
qed

text \<open>Witness of C23: a handler that raises is tried three times, with two pauses.\<close>

definition broken :: "nat retry_target" where
  "broken = RetryCall (\<lambda>st w. (w + 1, st, Inl ''down''))"

theorem retry_bounded_witness:
  "\<exists>st' r. retry_loop (default_retry ''r'' (nat 3)) broken (nat 3) 0 [] 0 = (3, st', 3, [1 / 10, 2 / 10], r)
     \<and> r = Inr (failed_with ''down'') \<and> 3 \<le> (10 :: int)"
proof -
  obtain w' st' k pauses r where l: "retry_loop (default_retry ''r'' (nat 3)) broken (nat 3) 0 [] 0 = (w', st', k, pauses, r)"
    by (metis prod_cases5)
  have "\<exists>s. retry_workflow_step broken ''r'' 3 = Inr s" by (simp add: retry_workflow_step_def is_gate_target_def broken_def)
  then obtain s where "retry_workflow_step broken ''r'' 3 = Inr s" by blast
  note b = retry_bounded [OF this l]
  have "fst (retry_loop (default_retry ''r'' (nat 3)) broken (nat 3) 0 [] 0) = 3"
    "snd (snd (snd (snd (retry_loop (default_retry ''r'' (nat 3)) broken (nat 3) 0 [] 0)))) = Inr (failed_with ''down'')"
    by code_simp+
  then have r: "w' = 3" "r = Inr (failed_with ''down'')" unfolding l by simp_all
  then have "int k = 3" using b by (simp add: broken_def)
  then have k: "k = 3" by simp
  have "[1..<3] = [1, 2 :: nat]" by (simp add: upt_rec)
  with b have "pauses = [1 / 10, 2 / 10]" unfolding k by simp
  with l r k b show ?thesis by simp
qed


subsection \<open>The agent step\<close>

text \<open>What the step uses of a resolved \<open>AgentSpec\<close>.\<close>

record agent_spec_object =
  asp_id :: pyval
  asp_version :: pyval
  asp_definition_hash :: "string option"
  asp_compute_hash :: string
  asp_pinned_identity :: pinned_spec_identity

definition asp_hash :: "agent_spec_object \<Rightarrow> string" where
  "asp_hash a = or_else (asp_definition_hash a) (asp_compute_hash a)"

text \<open>The fields of the \<open>RunRequest\<close> the step sets.\<close>

record agent_request =
  rq_principal :: string
  rq_workspace_id :: string
  rq_root :: pinned_spec_identity
  rq_input :: payload
  rq_metadata :: payload

record agent_env =
  ae_resolve_skills :: "(nat \<Rightarrow> pyval \<Rightarrow> payload \<Rightarrow> string option) option"
  ae_spec_resolver :: "(nat \<Rightarrow> pyval \<Rightarrow> pyval \<Rightarrow> pyval \<Rightarrow> string + agent_spec_object) option"
  ae_kernel :: "(agent_request \<Rightarrow> agent_spec_object \<Rightarrow> gw_world \<Rightarrow> gw_world \<times> (string + agent_result)) option"

text \<open>Every check either gives what it establishes (\<open>Inr\<close>) or ends the step, with an exception or an outcome.\<close>

abbreviation (input) stop_failed :: "string \<Rightarrow> (string + step_outcome) + 'a" where
  "stop_failed m \<equiv> Inl (Inr (failed_with m))"

abbreviation (input) stop_raise :: "string \<Rightarrow> (string + step_outcome) + 'a" where
  "stop_raise e \<equiv> Inl (Inl e)"

text \<open>Step 1: the manifest and the deployment's live authority.\<close>

definition agent_authority ::
  "step_env \<Rightarrow> pyval \<Rightarrow> payload \<Rightarrow> nat
     \<Rightarrow> (string + step_outcome) + (governed_manifest \<times> pyval \<times> pyval \<times> pyval \<times> payload)" where
  "agent_authority env pinned_dep st tick =
     (let txt = py_str (se_text env) in
      if state_manifest st = PNone then stop_failed ''Governed workflow manifest is required for an AGENT step''
      else
      case se_deref env (state_manifest st) of
        None \<Rightarrow> stop_raise ''AttributeError''
      | Some m \<Rightarrow>
          let ws = py_or (PStr (gm_workspace_id m)) (ctx_get st ''workspace_id'');
              project = py_or (PStr (gm_project_id m)) (ctx_get st ''project_id'');
              dep = py_or (py_or pinned_dep (opt_val (gm_project_agent_deployment_id m))) (ctx_get st ''project_agent_deployment_id'')
          in if \<not> truthy ws \<or> \<not> truthy project \<or> \<not> truthy dep then
               stop_failed ''AGENT step requires workspace, project, and project agent deployment authority''
             else
             (case se_resolver env of
                None \<Rightarrow> stop_failed ''Live deployment authority resolver is required for an AGENT step''
              | Some resolve \<Rightarrow>
                  (case resolve tick ws project dep of
                     Inl e \<Rightarrow> stop_failed (''Failed to resolve deployment authority for '' @ sq (txt dep) @ '': '' @ e)
                   | Inr auth \<Rightarrow>
                       let auth_ws = py_or (ctx_get auth ''workspaceId'') (ctx_get auth ''workspace_id'');
                           auth_proj = py_or (ctx_get auth ''projectId'') (ctx_get auth ''project_id'')
                       in if ctx_get auth ''state'' \<noteq> PStr ''ACTIVE'' then
                            stop_failed (''Deployment '' @ sq (txt dep) @ '' is not active (status: '' @ txt (ctx_get auth ''state'') @ '')'')
                          else if auth_ws \<noteq> ws then
                            stop_failed (''Deployment workspace mismatch: expected '' @ txt ws @ '', got '' @ txt auth_ws)
                          else if auth_proj \<noteq> project then
                            stop_failed (''Deployment project mismatch: expected '' @ txt project @ '', got '' @ txt auth_proj)
                          else Inr (m, ws, project, dep, auth))))"

text \<open>Step 2: the live \<open>AgentSpec\<close> must be pinned in the manifest. A truthy description that is not a
  dictionary, or an unhashable identifier, raises.\<close>

definition agent_pin ::
  "governed_manifest \<Rightarrow> payload \<Rightarrow> (string + step_outcome) + (pyval \<times> pyval \<times> pyval)" where
  "agent_pin m auth =
     (let info = py_or (ctx_get auth ''agentSpec'') (ctx_get auth ''agent_spec'') in
      if \<not> truthy info \<or> gm_pinned_agent_specs m = [] then
        stop_failed ''AGENT step requires a live AgentSpec and an exact manifest pin''
      else
      case info of
        PDict d \<Rightarrow>
          let sid = ctx_get d ''id''; version = ctx_get d ''version'';
              dh = py_or (ctx_get d ''definitionHash'') (ctx_get d ''definition_hash'')
          in (case sid of
                PList (_ # _) \<Rightarrow> stop_raise ''TypeError''
              | PDict (_ # _) \<Rightarrow> stop_raise ''TypeError''
              | _ \<Rightarrow>
                  (case (case sid of PStr s \<Rightarrow> if s = [] then None else dict_get (gm_pinned_agent_specs m) s | _ \<Rightarrow> None) of
                     Some (PDict pin) \<Rightarrow>
                       if \<not> truthy version \<or> \<not> truthy dh \<or> version \<noteq> ctx_get pin ''version''
                          \<or> dh \<noteq> py_or (ctx_get pin ''definition_hash'') (ctx_get pin ''definitionHash'')
                       then stop_failed ''Live AgentSpec does not match the exact manifest pin''
                       else Inr (sid, version, dh)
                   | _ \<Rightarrow> stop_failed ''Live AgentSpec is not pinned in the workflow manifest''))
      | _ \<Rightarrow> stop_raise ''AttributeError'')"

text \<open>Steps 3 and 4: the pinned skills and the exact specification.\<close>

definition agent_spec_of ::
  "step_env \<Rightarrow> agent_env \<Rightarrow> governed_manifest \<Rightarrow> pyval \<Rightarrow> pyval \<Rightarrow> pyval \<Rightarrow> pyval \<Rightarrow> nat
     \<Rightarrow> (string + step_outcome) + agent_spec_object" where
  "agent_spec_of env ae m ws sid version dh tick =
     (let skills = gm_pinned_skill_specs m;
          skill_error =
            (case ae_resolve_skills ae of
               Some f \<Rightarrow>
                 if skills = [] then None
                 else map_option (\<lambda>e. ''Skill resolution failed: '' @ e) (f tick ws skills)
             | None \<Rightarrow> if skills = [] then None else Some ''Scoped skill resolver is required for pinned workflow skills'')
      in case skill_error of
           Some e \<Rightarrow> stop_failed e
         | None \<Rightarrow>
             (case ae_spec_resolver ae of
                None \<Rightarrow> stop_failed ''Exact AgentSpec resolver is required for an AGENT step''
              | Some f \<Rightarrow>
                  (case f tick sid version dh of
                     Inl e \<Rightarrow>
                       stop_failed (''Exact AgentSpec resolution failed for ''
                         @ sq (py_str (se_text env) sid @ ''@'' @ py_str (se_text env) version) @ '': '' @ e)
                   | Inr a \<Rightarrow>
                       if asp_id a \<noteq> sid \<or> asp_version a \<noteq> version \<or> PStr (asp_hash a) \<noteq> dh then
                         stop_failed ''Resolved AgentSpec does not match the exact manifest pin''
                       else Inr a)))"

text \<open>The request for the kernel; a prompt that is neither text nor a dictionary, or a workspace that is not
  text, fails its validation.\<close>

definition agent_prompt :: "payload \<Rightarrow> pyval" where
  "agent_prompt st =
     py_or (ctx_get st ''task_prompt'')
       (py_or (ctx_get st ''input'')
          (py_or (ctx_get st ''inputs'') (PDict [(''prompt'', PStr ''Execute agent workflow task'')])))"

definition make_agent_request ::
  "governed_manifest \<Rightarrow> pyval \<Rightarrow> pyval \<Rightarrow> pyval \<Rightarrow> agent_spec_object \<Rightarrow> payload \<Rightarrow> agent_request option" where
  "make_agent_request m ws project dep a st =
     (case (ws, case agent_prompt st of PStr s \<Rightarrow> PDict [(''prompt'', PStr s)] | v \<Rightarrow> v) of
        (PStr ws', PDict input) \<Rightarrow>
          Some
            \<lparr>rq_principal = ''workflow_executor'', rq_workspace_id = ws', rq_root = asp_pinned_identity a, rq_input = input,
             rq_metadata = [(''project_id'', project), (''project_agent_deployment_id'', dep),
               (''manifest_hash'', opt_val (gm_manifest_hash m)), (''run_id'', PStr (gm_run_id m))]\<rparr>
      | _ \<Rightarrow> None)"

definition agent_kernel_run ::
  "agent_env \<Rightarrow> string \<Rightarrow> agent_request \<Rightarrow> agent_spec_object \<Rightarrow> gw_world \<Rightarrow> gw_world \<times> (string + step_outcome)" where
  "agent_kernel_run ae output_key req a w =
     (case ae_kernel ae of
        None \<Rightarrow> (w, Inr (failed_with ''No kernel registered for AgentWorkflowStep''))
      | Some run_kernel \<Rightarrow>
          (case run_kernel req a w of
             (w1, Inl e) \<Rightarrow> (w1, Inr (failed_with (''Kernel run execution failed: '' @ e)))
           | (w1, Inr res) \<Rightarrow>
               (w1, Inr (if succeeded res then completed_with [(output_key, ar_output res)]
                         else failed_with (or_else (ar_error res) ''Agent kernel run did not complete successfully'')))))"

definition agent_run ::
  "step_env \<Rightarrow> agent_env \<Rightarrow> pyval \<Rightarrow> string \<Rightarrow> payload \<Rightarrow> gw_world \<Rightarrow> gw_world \<times> payload \<times> (string + step_outcome)" where
  "agent_run env ae pinned_dep output_key st w =
     (case agent_authority env pinned_dep st (gw_tick w) of
        Inl r \<Rightarrow> (w, st, r)
      | Inr (m, ws, project, dep, auth) \<Rightarrow>
          (case agent_pin m auth of
             Inl r \<Rightarrow> (w, st, r)
           | Inr (sid, version, dh) \<Rightarrow>
               (case agent_spec_of env ae m ws sid version dh (gw_tick w) of
                  Inl r \<Rightarrow> (w, st, r)
                | Inr a \<Rightarrow>
                    (case make_agent_request m ws project dep a st of
                       None \<Rightarrow> (w, st, Inl ''ValidationError'')
                     | Some req \<Rightarrow> (let (w1, r) = agent_kernel_run ae output_key req a w in (w1, st, r))))))"

definition agent_workflow_step :: "step_env \<Rightarrow> agent_env \<Rightarrow> string \<Rightarrow> pyval \<Rightarrow> string \<Rightarrow> gw_world wf_step" where
  "agent_workflow_step env ae name pinned_dep output_key =
     \<lparr>st_name = name, st_run = agent_run env ae pinned_dep output_key, st_check_pending = None, st_compensate = None\<rparr>"


text \<open>A live specification that the manifest pins.\<close>

definition pinned_live :: "governed_manifest \<Rightarrow> payload \<Rightarrow> pyval \<Rightarrow> pyval \<Rightarrow> pyval \<Rightarrow> bool" where
  "pinned_live m auth sid version dh \<longleftrightarrow>
     (\<exists>d pin s. py_or (ctx_get auth ''agentSpec'') (ctx_get auth ''agent_spec'') = PDict d
        \<and> ctx_get d ''id'' = sid \<and> ctx_get d ''version'' = version
        \<and> py_or (ctx_get d ''definitionHash'') (ctx_get d ''definition_hash'') = dh
        \<and> sid = PStr s \<and> dict_get (gm_pinned_agent_specs m) s = Some (PDict pin)
        \<and> ctx_get pin ''version'' = version
        \<and> py_or (ctx_get pin ''definition_hash'') (ctx_get pin ''definitionHash'') = dh)"

lemma agent_pin_Inr:
  assumes "agent_pin m auth = Inr (sid, version, dh)"
  shows "pinned_live m auth sid version dh"
proof -
  obtain d where d: "py_or (ctx_get auth ''agentSpec'') (ctx_get auth ''agent_spec'') = PDict d"
    using assms by (auto simp: agent_pin_def Let_def split: if_splits pyval.splits)
  obtain s where s: "ctx_get d ''id'' = PStr s"
    using assms d by (auto simp: agent_pin_def Let_def split: if_splits pyval.splits list.splits)
  obtain pin where pin: "dict_get (gm_pinned_agent_specs m) s = Some (PDict pin)"
    using assms d s by (auto simp: agent_pin_def Let_def split: if_splits option.splits pyval.splits)
  have "sid = PStr s \<and> ctx_get d ''version'' = version \<and> py_or (ctx_get d ''definitionHash'') (ctx_get d ''definition_hash'') = dh
      \<and> ctx_get pin ''version'' = version \<and> py_or (ctx_get pin ''definition_hash'') (ctx_get pin ''definitionHash'') = dh"
    using assms d s pin by (auto simp: agent_pin_def Let_def split: if_splits)
  with d s pin show ?thesis unfolding pinned_live_def by metis
qed

lemma agent_spec_of_Inr:
  assumes "agent_spec_of env ae m ws sid version dh tick = Inr a"
  shows "asp_id a = sid" "asp_version a = version" "PStr (asp_hash a) = dh"
  using assms by (auto simp: agent_spec_of_def Let_def split: if_splits option.splits sum.splits)

text \<open>The request of a run: its workspace, project and deployment are those of the manifest, and where the manifest
  names none those of the state (for the deployment, the one fixed in the step comes first); the live authority
  found for exactly these is active and names the same workspace and project; the specification is the one it names
  and the manifest pins.\<close>

definition governed_request ::
  "step_env \<Rightarrow> pyval \<Rightarrow> payload \<Rightarrow> nat \<Rightarrow> agent_request \<Rightarrow> agent_spec_object \<Rightarrow> bool" where
  "governed_request env pinned_dep st tick req a \<longleftrightarrow>
     (case se_deref env (state_manifest st) of
        None \<Rightarrow> False
      | Some m \<Rightarrow>
          let ws = py_or (PStr (gm_workspace_id m)) (ctx_get st ''workspace_id'');
              project = py_or (PStr (gm_project_id m)) (ctx_get st ''project_id'');
              dep = py_or (py_or pinned_dep (opt_val (gm_project_agent_deployment_id m))) (ctx_get st ''project_agent_deployment_id'')
          in truthy ws \<and> truthy project \<and> truthy dep \<and>
             (case se_resolver env of
                None \<Rightarrow> False
              | Some resolve \<Rightarrow>
                  (case resolve tick ws project dep of
                     Inl e \<Rightarrow> False
                   | Inr auth \<Rightarrow>
                       ctx_get auth ''state'' = PStr ''ACTIVE'' \<and>
                       py_or (ctx_get auth ''workspaceId'') (ctx_get auth ''workspace_id'') = ws \<and>
                       py_or (ctx_get auth ''projectId'') (ctx_get auth ''project_id'') = project \<and>
                       pinned_live m auth (asp_id a) (asp_version a) (PStr (asp_hash a)) \<and>
                       PStr (rq_workspace_id req) = ws \<and> rq_root req = asp_pinned_identity a \<and>
                       rq_metadata req = [(''project_id'', project), (''project_agent_deployment_id'', dep),
                         (''manifest_hash'', opt_val (gm_manifest_hash m)), (''run_id'', PStr (gm_run_id m))])))"

lemma governed_requestI:
  assumes 1: "agent_authority env pinned_dep st tick = Inr (m, ws, project, dep, auth)"
    and 2: "agent_pin m auth = Inr (sid, version, dh)" and 3: "agent_spec_of env ae m ws sid version dh tick = Inr a"
    and 4: "make_agent_request m ws project dep a st = Some req"
  shows "governed_request env pinned_dep st tick req a"
proof -
  have "pinned_live m auth (asp_id a) (asp_version a) (PStr (asp_hash a))"
    using agent_pin_Inr [OF 2] agent_spec_of_Inr [OF 3] by simp
  moreover have "PStr (rq_workspace_id req) = ws \<and> rq_root req = asp_pinned_identity a \<and>
      rq_metadata req = [(''project_id'', project), (''project_agent_deployment_id'', dep),
        (''manifest_hash'', opt_val (gm_manifest_hash m)), (''run_id'', PStr (gm_run_id m))]"
    using 4 by (auto simp: make_agent_request_def split: pyval.splits)
  ultimately show ?thesis
    using 1 by (auto simp: governed_request_def agent_authority_def Let_def split: if_splits option.splits sum.splits)
qed



text \<open>Witness of C14: a pinned agent of an active deployment runs.\<close>

definition sample_manifest :: governed_manifest where
  "sample_manifest =
     \<lparr>gm_run_id = ''r1'', gm_manifest_hash = Some ''mh'', gm_project_id = ''p1'', gm_workspace_id = ''w1'',
      gm_workflow_asset_id = ''wf'', gm_workflow_version = ''1.0.0'', gm_workflow_definition_hash = ''dh'',
      gm_role_deployment_id = None, gm_project_agent_deployment_id = Some ''d1'',
      gm_pinned_agent_specs = [(''agent'', PDict [(''version'', PStr ''1''), (''definition_hash'', PStr ''h1'')])],
      gm_pinned_skill_specs = [], gm_policy_epoch = ''v1'', gm_policy_hash = ''ph'', gm_capability_allowlist = [],
      gm_budget_limit = [], gm_trigger_id = None, gm_correlation_id = None, gm_evidence_refs = [], gm_manifest_json = [],
      gm_created_at = 0\<rparr>"

definition sample_authority :: "string \<Rightarrow> payload" where
  "sample_authority h =
     [(''state'', PStr ''ACTIVE''), (''workspaceId'', PStr ''w1''), (''projectId'', PStr ''p1''),
      (''agentSpec'', PDict [(''id'', PStr ''agent''), (''version'', PStr ''1''), (''definitionHash'', PStr h)])]"

definition governed_steps :: "string \<Rightarrow> step_env" where
  "governed_steps h = plain_steps
     \<lparr>se_deref := (\<lambda>v. if v = PStr ''M'' then Some sample_manifest else None),
      se_resolver := Some (\<lambda>_ _ _ _. Inr (sample_authority h))\<rparr>"

definition sample_agent_env :: agent_env where
  "sample_agent_env =
     \<lparr>ae_resolve_skills = None,
      ae_spec_resolver = Some (\<lambda>_ i v h. Inr
        \<lparr>asp_id = i, asp_version = v, asp_definition_hash = Some ''h1'', asp_compute_hash = ''h1'',
         asp_pinned_identity = \<lparr>spec_kind = KIND_workflow, spec_id = ''agent'', spec_version = ''1'', spec_definition_hash = ''h1''\<rparr>\<rparr>),
      ae_kernel = Some (\<lambda>req a w. (w\<lparr>gw_tick := gw_tick w + 1\<rparr>, Inr \<lparr>ar_status = ''completed'', ar_error = None, ar_output = PStr ''ok''\<rparr>))\<rparr>"



end
