(* ===== verification/Keyed.thy ===== *)
theory Keyed
  imports Prelude
begin

text \<open>
  Dictionaries of records that carry their own key: the shared shape of the in-memory stores
  (employees, assignments, signals, requests, documents). The predicates say that keys and
  records agree, that a projection of the records is unique and that a predicate holds of every
  record; the lemmas give their preservation under \<open>dict_set\<close> and \<open>dict_del\<close> and relate
  scans over the values with lookups.
\<close>

definition keyed :: "('v \<Rightarrow> 'k) \<Rightarrow> ('k, 'v) pydict \<Rightarrow> bool" where
  "keyed key d \<longleftrightarrow> dict_ok d \<and> (\<forall>k v. dict_get d k = Some v \<longrightarrow> key v = k)"

lemma keyed_Nil [simp]: "keyed key []"
  by (simp add: keyed_def)

lemma keyed_set [simp]: "keyed key d \<Longrightarrow> key v = k \<Longrightarrow> keyed key (dict_set k v d)"
  by (auto simp: keyed_def)

lemma keyed_del [simp]: "keyed key d \<Longrightarrow> keyed key (dict_del k d)"
  by (auto simp: keyed_def)

lemma keyed_get: "keyed key d \<Longrightarrow> dict_get d k = Some v \<Longrightarrow> key v = k"
  by (simp add: keyed_def)

lemma keyed_update: "keyed key d \<Longrightarrow> dict_get d k = Some v0 \<Longrightarrow> key v = key v0 \<Longrightarrow> keyed key (dict_set k v d)"
  by (auto simp: keyed_def)

lemma keyed_dict_ok: "keyed key d \<Longrightarrow> dict_ok d"
  by (simp add: keyed_def)

lemma keyed_mem:
  assumes "keyed key d"
  shows "v \<in> set (dict_values d) \<longleftrightarrow> dict_get d (key v) = Some v"
proof
  assume "v \<in> set (dict_values d)"
  then obtain k where "dict_get d k = Some v"
    using dict_values_get [OF keyed_dict_ok [OF assms]] by blast
  with keyed_get [OF assms] show "dict_get d (key v) = Some v" by blast
next
  assume "dict_get d (key v) = Some v"
  then show "v \<in> set (dict_values d)" by (rule dict_get_values)
qed

lemma dict_ok_bex: "dict_ok d \<Longrightarrow> (\<exists>v \<in> set (dict_values d). P v) \<longleftrightarrow> (\<exists>k v. dict_get d k = Some v \<and> P v)"
  using dict_values_get dict_get_values by metis

lemma keyed_map: "keyed key d \<Longrightarrow> map key (dict_values d) = dict_keys d"
  by (auto simp: keyed_def map_of_eq_Some_iff)

lemma keyed_distinct: "keyed key d \<Longrightarrow> distinct (map key (filter P (dict_values d)))"
  by (metis distinct_map_filter keyed_map keyed_def)

lemma keyed_values_distinct: "keyed key d \<Longrightarrow> distinct (dict_values d)"
  by (metis distinct_map keyed_dict_ok keyed_map)

lemma keyed_find:
  assumes "keyed key d"
  shows "List.find (\<lambda>v. key v = k) (filter P (dict_values d)) =
         (case dict_get d k of None \<Rightarrow> None | Some v \<Rightarrow> if P v then Some v else None)"
proof (cases "List.find (\<lambda>v. key v = k) (filter P (dict_values d))")
  case None
  then have none: "\<not> (v \<in> set (dict_values d) \<and> P v \<and> key v = k)" for v
    unfolding find_None_all by (simp del: set_map)
  have "\<not> P v" if "dict_get d k = Some v" for v
    using none [of v] that keyed_get [OF assms that] dict_get_values [OF that] by blast
  with None show ?thesis by (auto split: option.splits)
next
  case (Some v)
  then have "v \<in> set (filter P (dict_values d))" "key v = k" by (auto dest: find_Some_iff_mem)
  then have "dict_get d k = Some v" "P v" using keyed_mem [OF assms, of v] by auto
  with Some show ?thesis by simp
qed

lemma fold_dict_set_get:
  assumes "distinct (map f rs)"
  shows "dict_get (fold (\<lambda>r d. dict_set (f r) (g r) d) rs d0) a =
         (case List.find (\<lambda>r. f r = a) rs of None \<Rightarrow> dict_get d0 a | Some r \<Rightarrow> Some (g r))"
  using assms
proof (induction rs arbitrary: d0)
  case (Cons r rs)
  then have "f r \<notin> f ` set rs" by simp
  then have "List.find (\<lambda>x. f x = f r) rs = None" unfolding find_None_all by (metis image_eqI)
  with Cons show ?case by (auto split: option.splits)
qed simp

text \<open>A projection of the records that determines the key.\<close>

definition unique_by :: "('v \<Rightarrow> 'u) \<Rightarrow> ('k, 'v) pydict \<Rightarrow> bool" where
  "unique_by f d \<longleftrightarrow>
     (\<forall>k k' v v'. dict_get d k = Some v \<longrightarrow> dict_get d k' = Some v' \<longrightarrow> f v = f v' \<longrightarrow> k = k')"

lemma unique_by_Nil [simp]: "unique_by f []"
  by (simp add: unique_by_def)

lemma unique_byD:
  "unique_by f d \<Longrightarrow> dict_get d k = Some v \<Longrightarrow> dict_get d k' = Some v' \<Longrightarrow> f v = f v' \<Longrightarrow> k = k'"
  unfolding unique_by_def by blast

lemma unique_by_set_new:
  assumes "unique_by f d" "\<And>k' v'. dict_get d k' = Some v' \<Longrightarrow> f v' \<noteq> f v"
  shows "unique_by f (dict_set k v d)"
  unfolding unique_by_def
proof (intro allI impI)
  fix k1 k2 v1 v2
  assume a: "dict_get (dict_set k v d) k1 = Some v1" "dict_get (dict_set k v d) k2 = Some v2" "f v1 = f v2"
  show "k1 = k2"
  proof (cases "k1 = k")
    case True
    with a have v1: "v1 = v" by simp
    show ?thesis
    proof (rule ccontr)
      assume "k1 \<noteq> k2"
      with a True have "dict_get d k2 = Some v2" by simp
      from assms(2) [OF this] a v1 show False by simp
    qed
  next
    case False
    with a have d1: "dict_get d k1 = Some v1" by simp
    show ?thesis
    proof (cases "k2 = k")
      case True
      with a assms(2) [OF d1] show ?thesis by simp
    next
      case F2: False
      with a have "dict_get d k2 = Some v2" by simp
      with unique_byD [OF assms(1) d1] a show ?thesis by blast
    qed
  qed
qed

lemma unique_by_set_same:
  assumes "unique_by f d" "dict_get d k = Some v0" "f v = f v0"
  shows "unique_by f (dict_set k v d)"
  using assms unfolding unique_by_def by (simp split: if_splits) metis

text \<open>A predicate of every record.\<close>

definition all_records :: "('v \<Rightarrow> bool) \<Rightarrow> ('k, 'v) pydict \<Rightarrow> bool" where
  "all_records P d \<longleftrightarrow> (\<forall>k v. dict_get d k = Some v \<longrightarrow> P v)"

lemma all_records_Nil [simp]: "all_records P []"
  by (simp add: all_records_def)

lemma all_records_set [simp]: "all_records P d \<Longrightarrow> P v \<Longrightarrow> all_records P (dict_set k v d)"
  by (auto simp: all_records_def)

lemma all_records_update:
  "all_records P d \<Longrightarrow> dict_get d k = Some v0 \<Longrightarrow> (P v0 \<Longrightarrow> P v) \<Longrightarrow> all_records P (dict_set k v d)"
  by (auto simp: all_records_def)

lemma all_records_get: "all_records P d \<Longrightarrow> dict_get d k = Some v \<Longrightarrow> P v"
  by (simp add: all_records_def)

end
