(* ===== verification/Texts.thy ===== *)
theory Texts
  imports Keyed
begin

text \<open>Python's \<open>s.split()\<close>, \<open>" ".join(s.split())\<close> on ASCII white space, and \<open>int(v)\<close>.\<close>

fun split_words :: "string \<Rightarrow> string \<Rightarrow> string list" where
  "split_words acc [] = (if acc = [] then [] else [acc])"
| "split_words acc (c # cs) =
     (if py_isspace c then (if acc = [] then split_words [] cs else acc # split_words [] cs)
      else split_words (acc @ [c]) cs)"

definition py_split :: "string \<Rightarrow> string list" where
  "py_split s = split_words [] s"

fun join_with :: "string \<Rightarrow> string list \<Rightarrow> string" where
  "join_with sep [] = []"
| "join_with sep [s] = s"
| "join_with sep (s # ss) = s @ sep @ join_with sep ss"

definition collapse :: "string \<Rightarrow> string" where
  "collapse s = join_with '' '' (py_split s)"

text \<open>Collapsed text has no line break and no other white space than single blanks.\<close>

definition one_line :: "string \<Rightarrow> bool" where
  "one_line s \<longleftrightarrow> list_all (\<lambda>c. \<not> py_isspace c \<or> c = CHR '' '') s"

lemma one_line_append [simp]: "one_line (a @ b) \<longleftrightarrow> one_line a \<and> one_line b"
  by (simp add: one_line_def)

lemma one_line_take: "one_line s \<Longrightarrow> one_line (take n s)"
  unfolding one_line_def by (auto simp: list_all_iff dest: in_set_takeD)

lemma one_line_no_newline: "one_line s \<Longrightarrow> CHR 10 \<notin> set s"
  by (auto simp: one_line_def list_all_iff py_isspace_def)

lemma split_words_plain:
  "list_all (\<lambda>c. \<not> py_isspace c) acc \<Longrightarrow> list_all (list_all (\<lambda>c. \<not> py_isspace c)) (split_words acc s)"
  by (induction acc s rule: split_words.induct) auto

lemma join_with_one_line: "list_all one_line ss \<Longrightarrow> one_line sep \<Longrightarrow> one_line (join_with sep ss)"
  by (induction sep ss rule: join_with.induct) (auto simp: one_line_def)

lemma one_line_collapse [simp]: "one_line (collapse s)"
proof -
  have "list_all (list_all (\<lambda>c. \<not> py_isspace c)) (py_split s)"
    unfolding py_split_def by (rule split_words_plain) simp
  then have "list_all one_line (py_split s)" by (auto simp: one_line_def list_all_iff)
  then show ?thesis unfolding collapse_def by (rule join_with_one_line) (simp add: one_line_def py_isspace_def)
qed

text \<open>\<open>int(v)\<close>.\<close>

definition digit_value :: "char \<Rightarrow> int option" where
  "digit_value c = (let n = (of_char c :: int) in if 48 \<le> n \<and> n \<le> 57 then Some (n - 48) else None)"

fun parse_digits :: "int \<Rightarrow> bool \<Rightarrow> string \<Rightarrow> int option" where
  "parse_digits acc after_digit [] = (if after_digit then Some acc else None)"
| "parse_digits acc after_digit (c # cs) =
     (case digit_value c of
        Some d \<Rightarrow> parse_digits (acc * 10 + d) True cs
      | None \<Rightarrow> if c = CHR ''_'' \<and> after_digit then parse_digits acc False cs else None)"

definition py_int :: "pyval \<Rightarrow> string + int" where
  "py_int v =
     (case v of
        PInt i \<Rightarrow> Inr i
      | PBool b \<Rightarrow> Inr (if b then 1 else 0)
      | PFloat q \<Rightarrow> Inr (if 0 \<le> q then floor q else ceiling q)
      | PStr s \<Rightarrow>
          (case (case py_strip s of
                   [] \<Rightarrow> None
                 | c # cs \<Rightarrow>
                     if c = CHR ''-'' then map_option uminus (parse_digits 0 False cs)
                     else if c = CHR ''+'' then parse_digits 0 False cs
                     else parse_digits 0 False (c # cs)) of
             Some i \<Rightarrow> Inr i | None \<Rightarrow> Inl ''ValueError'')
      | _ \<Rightarrow> Inl ''TypeError'')"

end
