(* ===== verification/WorkflowPublish.thy ===== *)
theory WorkflowPublish
  imports WorkflowBuild Texts
begin

text \<open>
  Publishing and compiling a workflow: \<open>WorkflowPublishValidator.validate\<close> (\<open>validation.py\<close>) accepts a
  specification for publication, \<open>WorkflowEngine.build_steps_from_spec\<close> (\<open>engine.py\<close>) compiles it when it runs.
  The theorem at the end says when the second can rely on the first.
\<close>

subsection \<open>Compilation\<close>

text \<open>A registered handler takes the state, or the state and its parameters (\<open>None\<close> when it is called with the
  state alone).\<close>

datatype handler =
    Handler1 "payload \<Rightarrow> gw_world \<Rightarrow> gw_world \<times> payload \<times> (string + payload)"
  | Handler2 "payload option \<Rightarrow> payload \<Rightarrow> gw_world \<Rightarrow> gw_world \<times> payload \<times> (string + payload)"

record engine_config =
  ec_env :: step_env
  ec_agent :: agent_env
  ec_has_gateway :: bool
  ec_handlers :: "(string, handler) pydict"
  ec_builders :: "(string, workflow_step_spec \<Rightarrow> string + gw_world wf_step) pydict"

fun step_type_value :: "step_type \<Rightarrow> string" where
  "step_type_value ST_TOOL_CALL = ''tool_call''"
| "step_type_value ST_AGENT = ''agent''"
| "step_type_value ST_DETERMINISTIC = ''deterministic''"
| "step_type_value ST_APPROVAL_GATE = ''approval_gate''"
| "step_type_value ST_PARALLEL = ''parallel''"
| "step_type_value ST_RETRY = ''retry''"
| "step_type_value ST_COMPENSATING = ''compensating''"
| "step_type_value ST_ROUTER = ''router''"

text \<open>The message of \<open>UnsupportedWorkflowStepError\<close>.\<close>

definition unsupported :: "string \<Rightarrow> string \<Rightarrow> string" where
  "unsupported sid what = ''Unsupported workflow step type '' @ sq what @ '' for step '' @ sq sid"

definition own_handler :: "engine_config \<Rightarrow> workflow_step_spec \<Rightarrow> pyval" where
  "own_handler cfg s = (if dict_get (ec_handlers cfg) (ws_id s) \<noteq> None then PStr (ws_id s) else PNone)"

definition call_handler ::
  "handler \<Rightarrow> payload option \<Rightarrow> payload \<Rightarrow> gw_world \<Rightarrow> gw_world \<times> payload \<times> (string + payload)" where
  "call_handler h params = (case h of Handler1 f \<Rightarrow> f | Handler2 f \<Rightarrow> f params)"

definition deterministic_step :: "string \<Rightarrow> (payload \<Rightarrow> gw_world \<Rightarrow> gw_world \<times> payload \<times> (string + payload)) \<Rightarrow> gw_world wf_step" where
  "deterministic_step name f =
     \<lparr>st_name = name, st_run = (\<lambda>st w. let (w1, st1, r) = f st w in (w1, st1, map_sum id completed_with r)),
      st_check_pending = None, st_compensate = None\<rparr>"

text \<open>\<open>handlers.get(name)\<close>: an unhashable name raises.\<close>

definition lookup_handler :: "engine_config \<Rightarrow> pyval \<Rightarrow> string + handler option" where
  "lookup_handler cfg v =
     (case v of
        PStr n \<Rightarrow> Inr (dict_get (ec_handlers cfg) n)
      | PList _ \<Rightarrow> Inl ''TypeError'' | PDict _ \<Rightarrow> Inl ''TypeError''
      | _ \<Rightarrow> Inr None)"

definition deterministic_handler :: "engine_config \<Rightarrow> workflow_step_spec \<Rightarrow> pyval" where
  "deterministic_handler cfg s =
     py_or (opt_val (ws_handler s)) (py_or (opt_val (ws_action s)) (py_or (ctx_get (ws_inputs s) ''handler'') (own_handler cfg s)))"

definition build_deterministic :: "engine_config \<Rightarrow> string \<Rightarrow> workflow_step_spec \<Rightarrow> string + gw_world wf_step" where
  "build_deterministic cfg name s =
     (let named = deterministic_handler cfg s;
          params = (if ws_params s \<noteq> [] then ws_params s else ws_inputs s) in
      case (if named \<noteq> PNone then lookup_handler cfg named else lookup_handler cfg (PStr ''pass_through'')) of
        Inl e \<Rightarrow> Inl e
      | Inr None \<Rightarrow>
          Inl (unsupported (ws_id s)
            (''DETERMINISTIC step '' @ sq (ws_id s)
              @ (if named \<noteq> PNone then '' has no registered handler for '' @ sq (py_str (se_text (ec_env cfg)) named)
                 else '' has no handler specified'')))
      | Inr (Some h) \<Rightarrow> Inr (deterministic_step name (call_handler h (Some params))))"

definition retry_attempts_of :: "workflow_step_spec \<Rightarrow> pyval" where
  "retry_attempts_of s =
     py_or (py_or (ctx_get (ws_inputs s) ''max_attempts'') (ctx_get (ws_metadata s) ''max_attempts'')) (PInt 3)"

definition retry_handler :: "engine_config \<Rightarrow> workflow_step_spec \<Rightarrow> pyval" where
  "retry_handler cfg s = py_or (ctx_get (ws_inputs s) ''handler'') (py_or (opt_val (ws_action s)) (own_handler cfg s))"

definition handler_target :: "handler \<Rightarrow> gw_world retry_target" where
  "handler_target h =
     RetryCall (\<lambda>st w. let (w1, st1, r) = call_handler h None st w in (w1, st1, map_sum id GaveDict r))"

definition build_retry :: "engine_config \<Rightarrow> string \<Rightarrow> workflow_step_spec \<Rightarrow> string + gw_world wf_step" where
  "build_retry cfg name s =
     (case py_int (retry_attempts_of s) of
        Inl e \<Rightarrow> Inl e
      | Inr m \<Rightarrow>
          (case (if truthy (retry_handler cfg s) then lookup_handler cfg (retry_handler cfg s) else Inr None) of
             Inl e \<Rightarrow> Inl e
           | Inr None \<Rightarrow> Inl (unsupported (ws_id s) ''RETRY step has no registered retry target'')
           | Inr (Some h) \<Rightarrow> retry_workflow_step (handler_target h) name m))"

text \<open>The capability a \<open>tool_call\<close> step is compiled to.\<close>

definition built_tool :: "workflow_step_spec \<Rightarrow> string" where
  "built_tool s = or_else (ws_tool s) (ws_id s)"

definition build_step :: "engine_config \<Rightarrow> workflow_step_spec \<Rightarrow> string + gw_world wf_step" where
  "build_step cfg s =
     (case dict_get (ec_builders cfg) (ws_id s) of
        Some b \<Rightarrow> b s
      | None \<Rightarrow>
          let name = or_else (ws_name s) (ws_id s) in
          (case ws_type s of
             ST_TOOL_CALL \<Rightarrow>
               if \<not> ec_has_gateway cfg then
                 Inl (''WorkflowEngine cannot compile TOOL_CALL step '' @ sq name @ '': CapabilityGateway is required'')
               else Inr (tool_call_step (ec_env cfg) (new_tool_step name (built_tool s) (ws_inputs s) (ws_output_key s)))
           | ST_APPROVAL_GATE \<Rightarrow>
               Inr (gate_step (ec_env cfg) (new_approval_gate name (or_else (ws_action s) name) (or_else (ws_subject_key s) ''subject'')))
           | ST_DETERMINISTIC \<Rightarrow> build_deterministic cfg name s
           | ST_AGENT \<Rightarrow>
               Inr (agent_workflow_step (ec_env cfg) (ec_agent cfg) name (deployment_pin s)
                 (or_else (ws_output_key s) (ws_id s @ ''_output'')))
           | ST_RETRY \<Rightarrow> build_retry cfg name s
           | other \<Rightarrow> Inl (unsupported (ws_id s) (step_type_value other))))"

fun build_all :: "engine_config \<Rightarrow> workflow_step_spec list \<Rightarrow> string + gw_world wf_step list" where
  "build_all cfg [] = Inr []"
| "build_all cfg (s # ss) =
     (case build_step cfg s of
        Inl e \<Rightarrow> Inl e
      | Inr st \<Rightarrow> map_sum id (\<lambda>sts. st # sts) (build_all cfg ss))"

definition build_steps_from_spec :: "engine_config \<Rightarrow> workflow_spec \<Rightarrow> string + gw_world wf_step list" where
  "build_steps_from_spec cfg spec = build_all cfg (wsp_steps spec)"

subsection \<open>Validation before publication\<close>

record validation_context =
  wc_workspace_id :: string
  wc_project_id :: "string option"
  wc_active_deployments :: "string list"
  wc_active_capabilities :: "string list"
  wc_registered_handlers :: "string list"
  wc_published_assets :: payload
  wc_registered_executors :: "step_type list"

text \<open>One constructor per message.\<close>

datatype publish_error =
    DagStructure dag_error
  | UnsupportedType string step_type
  | NoExecutor string step_type
  | AgentMissingDeployment string
  | AgentUnknownDeployment string pyval
  | ToolMissing string
  | ToolNotAllowed string pyval
  | GateMissingAction string
  | GateMissingSubject string
  | HandlerMissing string
  | HandlerUnregistered string pyval
  | AttemptsOutOfRange string
  | AttemptsNotInteger string

definition supported_v1 :: "step_type list" where
  "supported_v1 = [ST_AGENT, ST_TOOL_CALL, ST_APPROVAL_GATE, ST_DETERMINISTIC, ST_RETRY]"

definition executor_types :: "validation_context option \<Rightarrow> step_type list" where
  "executor_types ctx = (case ctx of None \<Rightarrow> supported_v1 | Some c \<Rightarrow> wc_registered_executors c)"

text \<open>\<open>WHITELISTED_DETERMINISTIC_HANDLERS\<close>.\<close>

definition whitelisted_handlers :: "string list" where
  "whitelisted_handlers = [''pass_through'', ''json_transform'', ''extract_fields'', ''format_template'', ''format_string'']"

definition known_handlers :: "validation_context option \<Rightarrow> string list" where
  "known_handlers ctx =
     (case ctx of
        Some c \<Rightarrow> if wc_registered_handlers c \<noteq> [] then wc_registered_handlers c else whitelisted_handlers
      | None \<Rightarrow> whitelisted_handlers)"

definition checked_handler :: "workflow_step_spec \<Rightarrow> pyval" where
  "checked_handler s = py_or (opt_val (ws_handler s)) (py_or (ctx_get (ws_inputs s) ''handler'') (opt_val (ws_action s)))"

definition handler_errors :: "validation_context option \<Rightarrow> workflow_step_spec \<Rightarrow> publish_error list" where
  "handler_errors ctx s =
     (if \<not> truthy (checked_handler s) then [HandlerMissing (ws_id s)]
      else if checked_handler s \<notin> PStr ` set (known_handlers ctx) then [HandlerUnregistered (ws_id s) (checked_handler s)]
      else [])"

definition attempts_errors :: "workflow_step_spec \<Rightarrow> publish_error list" where
  "attempts_errors s =
     (let m = py_or (ctx_get (ws_inputs s) ''max_attempts'') (ctx_get (ws_metadata s) ''max_attempts'') in
      if m = PNone then []
      else case py_int m of
             Inl _ \<Rightarrow> [AttemptsNotInteger (ws_id s)]
           | Inr i \<Rightarrow> if 1 \<le> i \<and> i \<le> 10 then [] else [AttemptsOutOfRange (ws_id s)])"

definition checked_tool :: "workflow_step_spec \<Rightarrow> pyval" where
  "checked_tool s =
     py_or (opt_val (ws_tool s)) (py_or (ctx_get (ws_inputs s) ''tool'') (ctx_get (ws_inputs s) ''capability_id''))"

definition step_errors :: "validation_context option \<Rightarrow> workflow_step_spec \<Rightarrow> publish_error list" where
  "step_errors ctx s =
     (if ws_type s \<notin> set supported_v1 then [UnsupportedType (ws_id s) (ws_type s)]
      else if ws_type s \<notin> set (executor_types ctx) then [NoExecutor (ws_id s) (ws_type s)]
      else
      case ws_type s of
        ST_AGENT \<Rightarrow>
          (if \<not> truthy (deployment_pin s) then [AgentMissingDeployment (ws_id s)]
           else case ctx of
                  Some c \<Rightarrow>
                    if wc_active_deployments c \<noteq> [] \<and> deployment_pin s \<notin> PStr ` set (wc_active_deployments c)
                    then [AgentUnknownDeployment (ws_id s) (deployment_pin s)] else []
                | None \<Rightarrow> [])
      | ST_TOOL_CALL \<Rightarrow>
          (if \<not> truthy (checked_tool s) then [ToolMissing (ws_id s)]
           else case ctx of
                  Some c \<Rightarrow>
                    if wc_active_capabilities c \<noteq> [] \<and> checked_tool s \<notin> PStr ` set (wc_active_capabilities c)
                    then [ToolNotAllowed (ws_id s) (checked_tool s)] else []
                | None \<Rightarrow> [])
      | ST_APPROVAL_GATE \<Rightarrow>
          (if truthy (py_or (opt_val (ws_action s)) (ctx_get (ws_inputs s) ''action'')) then [] else [GateMissingAction (ws_id s)])
          @ (if truthy (py_or (opt_val (ws_subject_key s)) (ctx_get (ws_inputs s) ''subject_key'')) then []
             else [GateMissingSubject (ws_id s)])
      | ST_RETRY \<Rightarrow> handler_errors ctx s @ attempts_errors s
      | ST_DETERMINISTIC \<Rightarrow> handler_errors ctx s
      | _ \<Rightarrow> [])"

text \<open>\<open>validate\<close>: the errors; the specification is valid when there are none.\<close>

definition publish_errors :: "string list \<Rightarrow> validation_context option \<Rightarrow> workflow_spec \<Rightarrow> publish_error list" where
  "publish_errors order ctx spec =
     (case validate_dag order spec of None \<Rightarrow> [] | Some e \<Rightarrow> [DagStructure e])
     @ concat (map (step_errors ctx) (wsp_steps spec))"

subsection \<open>What publication guarantees\<close>

text \<open>The step names its handler the way both sides read it: a retry not by its \<open>handler\<close> field, a deterministic
  step without an \<open>action\<close> that would hide the handler among its inputs.\<close>

definition plainly_named :: "workflow_step_spec \<Rightarrow> bool" where
  "plainly_named s \<longleftrightarrow>
     (ws_type s = ST_RETRY \<longrightarrow> \<not> truthy_opt (ws_handler s))
     \<and> (ws_type s = ST_DETERMINISTIC \<longrightarrow>
          truthy_opt (ws_handler s) \<or> \<not> truthy_opt (ws_action s) \<or> \<not> truthy (ctx_get (ws_inputs s) ''handler''))"

lemma truthy_opt_val [simp]: "truthy (opt_val x) = truthy_opt x"
  by (cases x) (simp_all add: opt_val_def)

lemma py_or_assoc: "py_or (py_or a b) c = py_or a (py_or b c)"
  by (simp add: py_or_def)

lemma py_or_left: "truthy a \<Longrightarrow> py_or a b = a"
  by (simp add: py_or_def)

lemma py_or_right: "\<not> truthy a \<Longrightarrow> py_or a b = b"
  by (simp add: py_or_def)

lemma named_handler:
  assumes "truthy (checked_handler s)"
  shows "ws_type s = ST_DETERMINISTIC \<Longrightarrow> plainly_named s \<Longrightarrow> deterministic_handler cfg s = checked_handler s"
    "ws_type s = ST_RETRY \<Longrightarrow> plainly_named s \<Longrightarrow> retry_handler cfg s = checked_handler s"
  using assms
  by (auto simp: plainly_named_def checked_handler_def deterministic_handler_def retry_handler_def py_or_def)

lemma registered:
  assumes "handler_errors ctx s = []" "set (known_handlers ctx) \<subseteq> set (dict_keys (ec_handlers cfg))"
  shows "truthy (checked_handler s)" "\<exists>h. lookup_handler cfg (checked_handler s) = Inr (Some h)"
proof -
  show t: "truthy (checked_handler s)" using assms(1) by (auto simp: handler_errors_def split: if_splits)
  with assms(1) obtain n where n: "checked_handler s = PStr n" "n \<in> set (known_handlers ctx)"
    by (auto simp: handler_errors_def split: if_splits)
  then have "n \<in> set (dict_keys (ec_handlers cfg))" using assms(2) by blast
  then obtain h where "dict_get (ec_handlers cfg) n = Some h" by (cases "dict_get (ec_handlers cfg) n") (auto simp: map_of_eq_None_iff)
  with n show "\<exists>h. lookup_handler cfg (checked_handler s) = Inr (Some h)" by (simp add: lookup_handler_def)
qed

lemma attempts_ok:
  assumes "attempts_errors s = []"
  shows "\<exists>m. py_int (retry_attempts_of s) = Inr m \<and> 1 \<le> m \<and> m \<le> 10"
proof -
  let ?m = "py_or (ctx_get (ws_inputs s) ''max_attempts'') (ctx_get (ws_metadata s) ''max_attempts'')"
  show ?thesis
  proof (cases "truthy ?m")
    case True
    then have "retry_attempts_of s = ?m" "?m \<noteq> PNone" by (auto simp: retry_attempts_of_def py_or_def split: if_splits)
    with assms show ?thesis by (auto simp: attempts_errors_def Let_def split: sum.splits if_splits)
  next
    case False
    then have "retry_attempts_of s = PInt 3" unfolding retry_attempts_of_def by (rule py_or_right)
    then show ?thesis by (simp add: py_int_def)
  qed
qed

lemma build_step_ok:
  assumes "step_errors ctx s = []" "set (known_handlers ctx) \<subseteq> set (dict_keys (ec_handlers cfg))" "ec_has_gateway cfg"
    "plainly_named s" "ec_builders cfg = []"
  shows "\<exists>st. build_step cfg s = Inr st \<and> st_name st = or_else (ws_name s) (ws_id s)"
proof (cases "ws_type s")
  case ST_TOOL_CALL
  with assms(3,5) show ?thesis by (simp add: build_step_def tool_call_step_def new_tool_step_def Let_def)
next
  case ST_APPROVAL_GATE
  with assms(5) show ?thesis by (simp add: build_step_def gate_step_def new_approval_gate_def Let_def)
next
  case ST_AGENT
  with assms(5) show ?thesis by (simp add: build_step_def agent_workflow_step_def Let_def)
next
  case ST_DETERMINISTIC
  then have "handler_errors ctx s = []" using assms(1) by (auto simp: step_errors_def supported_v1_def split: if_splits)
  note r = registered [OF this assms(2)]
  obtain h where h: "lookup_handler cfg (deterministic_handler cfg s) = Inr (Some h)"
    using r(2) named_handler(1) [OF r(1) ST_DETERMINISTIC assms(4), of cfg] by auto
  have "deterministic_handler cfg s \<noteq> PNone" using r(1) named_handler(1) [OF r(1) ST_DETERMINISTIC assms(4), of cfg] by auto
  with h ST_DETERMINISTIC assms(5) show ?thesis by (simp add: build_step_def build_deterministic_def deterministic_step_def Let_def)
next
  case ST_RETRY
  then have e: "handler_errors ctx s = []" "attempts_errors s = []"
    using assms(1) by (auto simp: step_errors_def supported_v1_def split: if_splits)
  note r = registered [OF e(1) assms(2)]
  obtain h where h: "lookup_handler cfg (retry_handler cfg s) = Inr (Some h)" "truthy (retry_handler cfg s)"
    using r named_handler(2) [OF r(1) ST_RETRY assms(4), of cfg] by auto
  obtain m where "py_int (retry_attempts_of s) = Inr m" "1 \<le> m" "m \<le> 10" using attempts_ok [OF e(2)] by blast
  with h ST_RETRY assms(5) show ?thesis by (simp add: build_step_def build_retry_def retry_workflow_step_def is_gate_target_def handler_target_def Let_def)
qed (use assms(1) in \<open>simp_all add: step_errors_def supported_v1_def\<close>)

lemma build_all_ok:
  assumes "\<forall>s \<in> set ss. \<exists>st. build_step cfg s = Inr st \<and> st_name st = or_else (ws_name s) (ws_id s)"
  shows "\<exists>built. build_all cfg ss = Inr built \<and> map st_name built = map (\<lambda>s. or_else (ws_name s) (ws_id s)) ss"
  using assms
proof (induction ss)
  case (Cons s ss)
  then obtain st built where "build_step cfg s = Inr st" "st_name st = or_else (ws_name s) (ws_id s)"
    "build_all cfg ss = Inr built" "map st_name built = map (\<lambda>s. or_else (ws_name s) (ws_id s)) ss" by auto
  then show ?case by simp
qed simp

text \<open>C17. A published workflow compiles. When the validator accepts a specification, its registered handlers are
  among the engine's, a gateway is configured and every step names its handler where both sides look for
  it, then the engine compiles every step, in order and under its name; and a tool step that fills in its
  \<open>tool\<close> field is compiled to the capability that was checked against the allow-list.\<close>

theorem publication_sound:
  assumes "publish_errors order ctx spec = []" "set (known_handlers ctx) \<subseteq> set (dict_keys (ec_handlers cfg))"
    "ec_has_gateway cfg" "\<forall>s \<in> set (wsp_steps spec). plainly_named s" "ec_builders cfg = []"
  shows "(\<exists>built. build_steps_from_spec cfg spec = Inr built
      \<and> map st_name built = map (\<lambda>s. or_else (ws_name s) (ws_id s)) (wsp_steps spec))
    \<and> (\<forall>c s. ctx = Some c \<and> wc_active_capabilities c \<noteq> [] \<and> s \<in> set (wsp_steps spec) \<and> ws_type s = ST_TOOL_CALL
        \<and> truthy_opt (ws_tool s) \<longrightarrow> built_tool s \<in> set (wc_active_capabilities c))"
proof (intro conjI allI impI)
  have e: "\<forall>s \<in> set (wsp_steps spec). step_errors ctx s = []" using assms(1) by (simp add: publish_errors_def)
  then show "\<exists>built. build_steps_from_spec cfg spec = Inr built
      \<and> map st_name built = map (\<lambda>s. or_else (ws_name s) (ws_id s)) (wsp_steps spec)"
    unfolding build_steps_from_spec_def
    using build_step_ok [OF _ assms(2,3) _ assms(5)] assms(4) by (intro build_all_ok) blast
  fix c s
  assume a: "ctx = Some c \<and> wc_active_capabilities c \<noteq> [] \<and> s \<in> set (wsp_steps spec) \<and> ws_type s = ST_TOOL_CALL
        \<and> truthy_opt (ws_tool s)"
  then obtain t where t: "ws_tool s = Some t" "t \<noteq> []" by (cases "ws_tool s") auto
  then have c: "checked_tool s = PStr t" "built_tool s = t"
    by (simp_all add: checked_tool_def built_tool_def py_or_def opt_val_def or_else_def)
  have "step_errors ctx s = []" using e a by blast
  then have "PStr t \<in> PStr ` set (wc_active_capabilities c)"
    using a t c(1) by (auto simp: step_errors_def supported_v1_def split: if_splits)
  with c(2) show "built_tool s \<in> set (wc_active_capabilities c)" by auto
qed

text \<open>Witness of C17: an accepted workflow that compiles; and two accepted ones outside the hypotheses, a retry
  step named by its \<open>handler\<close> field that does not compile, and a tool step checked as \<open>read\<close> that is
  compiled to the capability \<open>pay\<close>, its own identifier.\<close>

definition publish_context :: validation_context where
  "publish_context =
     \<lparr>wc_workspace_id = ''w1'', wc_project_id = None, wc_active_deployments = [], wc_active_capabilities = [''read''],
      wc_registered_handlers = [], wc_published_assets = [], wc_registered_executors = supported_v1\<rparr>"

definition publish_config :: engine_config where
  "publish_config =
     \<lparr>ec_env = plain_steps, ec_agent = sample_agent_env, ec_has_gateway = True,
      ec_handlers = map (\<lambda>n. (n, Handler1 (\<lambda>st w. (w, st, Inr [])))) whitelisted_handlers, ec_builders = []\<rparr>"

definition publish_sample :: "workflow_step_spec \<Rightarrow> workflow_spec" where
  "publish_sample s =
     sample_spec_of [(sample_step ''load'' [])\<lparr>ws_type := ST_DETERMINISTIC, ws_handler := Some ''pass_through''\<rparr>, s]"

definition retry_by_inputs :: workflow_step_spec where
  "retry_by_inputs = (sample_step ''again'' [''load''])\<lparr>ws_type := ST_RETRY, ws_inputs := [(''handler'', PStr ''json_transform'')]\<rparr>"

definition retry_by_handler :: workflow_step_spec where
  "retry_by_handler = (sample_step ''again'' [''load''])\<lparr>ws_type := ST_RETRY, ws_handler := Some ''json_transform''\<rparr>"

definition tool_by_inputs :: workflow_step_spec where
  "tool_by_inputs = (sample_step ''pay'' [''load''])\<lparr>ws_type := ST_TOOL_CALL, ws_inputs := [(''tool'', PStr ''read'')]\<rparr>"

theorem publication_sound_witness:
  "(\<exists>built. build_steps_from_spec publish_config (publish_sample retry_by_inputs) = Inr built
      \<and> map st_name built = [''load'', ''again''])
   \<and> publish_errors [''load'', ''again''] (Some publish_context) (publish_sample retry_by_handler) = []
   \<and> (\<exists>e. build_step publish_config retry_by_handler = Inl e)
   \<and> publish_errors [''load'', ''pay''] (Some publish_context) (publish_sample tool_by_inputs) = []
   \<and> built_tool tool_by_inputs = ''pay''"
proof (intro conjI)
  have v: "publish_errors [''load'', ''again''] (Some publish_context) (publish_sample retry_by_inputs) = []" by code_simp
  have k: "set (known_handlers (Some publish_context)) \<subseteq> set (dict_keys (ec_handlers publish_config))"
    by (simp add: known_handlers_def publish_context_def publish_config_def comp_def)
  have g: "ec_has_gateway publish_config" "ec_builders publish_config = []" by (simp_all add: publish_config_def)
  have p: "\<forall>s \<in> set (wsp_steps (publish_sample retry_by_inputs)). plainly_named s"
    by (simp add: publish_sample_def sample_spec_of_def sample_step_def retry_by_inputs_def plainly_named_def)
  have "map (\<lambda>s. or_else (ws_name s) (ws_id s)) (wsp_steps (publish_sample retry_by_inputs)) = [''load'', ''again'']" by code_simp
  with publication_sound [OF v k g(1) p g(2)]
  show "\<exists>built. build_steps_from_spec publish_config (publish_sample retry_by_inputs) = Inr built \<and> map st_name built = [''load'', ''again'']"
    by simp
next
  show "publish_errors [''load'', ''again''] (Some publish_context) (publish_sample retry_by_handler) = []" by code_simp
  show "publish_errors [''load'', ''pay''] (Some publish_context) (publish_sample tool_by_inputs) = []" by code_simp
  show "built_tool tool_by_inputs = ''pay''" by code_simp
  have "retry_handler publish_config retry_by_handler = PNone" "ws_type retry_by_handler = ST_RETRY" by code_simp+
  moreover have "py_int (retry_attempts_of retry_by_handler) = Inr 3" by code_simp
  ultimately show "\<exists>e. build_step publish_config retry_by_handler = Inl e"
    by (simp add: build_step_def build_retry_def publish_config_def Let_def)
qed


end
