(* ===== verification/Reporting.thy ===== *)
theory Reporting
  imports Prelude
begin

text \<open>
  The reporting line of the workforce (\<open>packages/agent/workforce/reporting.py\<close>,
  \<open>escalation.py\<close>): the check that an assignment may report to a manager, the chain of active
  managers above an assignment, its direct reports and the next target of an escalation. The
  mapping \<open>ReportingNodes\<close> is a dictionary from an assignment's id to the id it reports to and
  its status. The relation \<open>line_of\<close> reads the mapping as a graph; the lemmas show that the
  check keeps this graph free of cycles and that the chain is the path of active managers.
  A \<open>UUID\<close> is its 128-bit integer value.
\<close>

type_synonym uuid = int
type_synonym reporting_nodes = "(uuid, uuid option \<times> string) pydict"

datatype reporting_error =
    SelfReference
  | ParentNotFound
  | ParentNotActive
  | LineCycle
  | DepthExceeded

definition MAX_REPORTING_DEPTH :: nat where
  "MAX_REPORTING_DEPTH = 8"

text \<open>The loop of \<open>check_reporting_line\<close>: \<open>depth\<close> counts the edges walked so far.\<close>

function line_walk :: "reporting_nodes \<Rightarrow> uuid list \<Rightarrow> nat \<Rightarrow> uuid option \<Rightarrow> reporting_error option" where
  "line_walk nodes seen depth current =
     (case current of
        None \<Rightarrow> None
      | Some c \<Rightarrow>
          if c \<in> set seen then Some LineCycle
          else
            (case (case dict_get nodes c of None \<Rightarrow> None | Some node \<Rightarrow> fst node) of
               None \<Rightarrow> None
             | Some p \<Rightarrow>
                 if MAX_REPORTING_DEPTH < depth + 1 then Some DepthExceeded
                 else line_walk nodes (c # seen) (depth + 1) (Some p)))"
  by pat_completeness auto

termination
  by (relation "measure (\<lambda>(nodes, seen, depth, current). Suc MAX_REPORTING_DEPTH - depth)") auto

declare line_walk.simps [simp del]

text \<open>\<open>None\<close>: the check passes; otherwise the \<open>ReportingLineError\<close> it raises.\<close>

definition check_reporting_line :: "uuid \<Rightarrow> uuid option \<Rightarrow> reporting_nodes \<Rightarrow> reporting_error option" where
  "check_reporting_line assignment_id parent_id nodes =
     (case parent_id of
        None \<Rightarrow> None
      | Some p \<Rightarrow>
          if p = assignment_id then Some SelfReference
          else
            (case dict_get nodes p of
               None \<Rightarrow> Some ParentNotFound
             | Some parent \<Rightarrow>
                 if snd parent \<noteq> ''ACTIVE'' then Some ParentNotActive
                 else line_walk nodes [assignment_id] 1 (Some p)))"

text \<open>The loop of \<open>manager_chain\<close>.\<close>

function chain_walk :: "reporting_nodes \<Rightarrow> int \<Rightarrow> uuid list \<Rightarrow> uuid list \<Rightarrow> uuid option \<Rightarrow> uuid list" where
  "chain_walk nodes max_hops chain seen current =
     (case current of
        None \<Rightarrow> chain
      | Some c \<Rightarrow>
          if int (length chain) < max_hops then
            (case dict_get nodes c of
               None \<Rightarrow> chain
             | Some parent \<Rightarrow>
                 if c \<in> set seen \<or> snd parent \<noteq> ''ACTIVE'' then chain
                 else chain_walk nodes max_hops (chain @ [c]) (c # seen) (fst parent))
          else chain)"
  by pat_completeness auto

termination
  by (relation "measure (\<lambda>(nodes, max_hops, chain, seen, current). nat (max_hops - int (length chain)))") auto

declare chain_walk.simps [simp del]

definition manager_chain :: "reporting_nodes \<Rightarrow> uuid \<Rightarrow> int \<Rightarrow> uuid list" where
  "manager_chain nodes assignment_id max_hops =
     chain_walk nodes max_hops [] [assignment_id]
       (case dict_get nodes assignment_id of None \<Rightarrow> None | Some node \<Rightarrow> fst node)"

definition direct_reports :: "reporting_nodes \<Rightarrow> uuid \<Rightarrow> uuid list" where
  "direct_reports nodes manager_id =
     map fst (filter (\<lambda>(aid, parent, status). parent = Some manager_id \<and> status = ''ACTIVE'') nodes)"

subsection \<open>Escalation\<close>

datatype escalation_kind = ToManager | ToOperator

record escalation_target =
  et_kind :: escalation_kind
  et_assignment_id :: "uuid option"
  et_hop :: int
  et_reason :: string

definition DEFAULT_HOP_CAP :: int where
  "DEFAULT_HOP_CAP = 3"

definition next_escalation_target :: "reporting_nodes \<Rightarrow> uuid \<Rightarrow> int \<Rightarrow> int \<Rightarrow> escalation_target" where
  "next_escalation_target nodes assignment_id hop hop_cap =
     (if hop_cap \<le> hop then
        \<lparr>et_kind = ToOperator, et_assignment_id = None, et_hop = hop, et_reason = ''hop_cap_reached''\<rparr>
      else
        (case manager_chain nodes assignment_id 1 of
           [] \<Rightarrow> \<lparr>et_kind = ToOperator, et_assignment_id = None, et_hop = hop, et_reason = ''no_manager''\<rparr>
         | m # _ \<Rightarrow> \<lparr>et_kind = ToManager, et_assignment_id = Some m, et_hop = hop + 1,
                      et_reason = ''escalated_to_manager''\<rparr>))"

subsection \<open>The reporting graph\<close>

definition parent_of :: "reporting_nodes \<Rightarrow> uuid \<Rightarrow> uuid option" where
  "parent_of nodes a = (case dict_get nodes a of None \<Rightarrow> None | Some node \<Rightarrow> fst node)"

definition line_of :: "reporting_nodes \<Rightarrow> (uuid \<times> uuid) set" where
  "line_of nodes = {(a, p). parent_of nodes a = Some p}"

lemma line_of_iff [simp]: "(a, p) \<in> line_of nodes \<longleftrightarrow> parent_of nodes a = Some p"
  by (simp add: line_of_def)

lemma line_walk_simps [simp]:
  "line_walk nodes seen depth None = None"
  "line_walk nodes seen depth (Some c) =
     (if c \<in> set seen then Some LineCycle
      else (case parent_of nodes c of
              None \<Rightarrow> None
            | Some p \<Rightarrow> if MAX_REPORTING_DEPTH < depth + 1 then Some DepthExceeded
                        else line_walk nodes (c # seen) (depth + 1) (Some p)))"
  by (simp_all add: line_walk.simps [of nodes seen depth] parent_of_def)

lemma line_of_rtrancl_cases:
  assumes "(c, x) \<in> (line_of nodes)\<^sup>*"
  shows "x = c \<or> (\<exists>p. parent_of nodes c = Some p \<and> (p, x) \<in> (line_of nodes)\<^sup>*)"
  using assms by (cases rule: converse_rtranclE) auto

text \<open>A walk that ends without an error has met every id above its start, and none of them
  was seen before.\<close>

lemma line_walk_None_unseen:
  assumes "line_walk nodes seen depth (Some c) = None"
    and "(c, x) \<in> (line_of nodes)\<^sup>*"
  shows "x \<notin> set seen"
  using assms
proof (induction nodes seen depth "Some c" arbitrary: c rule: line_walk.induct)
  case (1 nodes seen depth c)
  from "1.prems"(1) have c: "c \<notin> set seen" by (auto split: if_splits)
  from line_of_rtrancl_cases [OF "1.prems"(2)] show ?case
  proof (elim disjE exE conjE)
    assume "x = c"
    with c show ?thesis by simp
  next
    fix p assume p: "parent_of nodes c = Some p" and px: "(p, x) \<in> (line_of nodes)\<^sup>*"
    from "1.prems"(1) c p
    have depth: "\<not> MAX_REPORTING_DEPTH < depth + 1"
      and walk: "line_walk nodes (c # seen) (depth + 1) (Some p) = None"
      by (auto split: if_splits)
    have "x \<notin> set (c # seen)"
      using "1.hyps" [OF refl c p [unfolded parent_of_def] depth walk px] by simp
    then show ?thesis by simp
  qed
qed

lemma check_reporting_line_unreachable:
  assumes "check_reporting_line a (Some p) nodes = None"
  shows "(p, a) \<notin> (line_of nodes)\<^sup>*"
proof
  assume reach: "(p, a) \<in> (line_of nodes)\<^sup>*"
  from assms have "line_walk nodes [a] 1 (Some p) = None"
    by (auto simp: check_reporting_line_def split: if_splits option.splits simp del: line_walk_simps)
  from line_walk_None_unseen [OF this reach] show False by simp
qed

text \<open>Replacing the line of one assignment by one that passes the check, and dropping lines
  of others, keeps the graph free of cycles.\<close>

lemma acyclic_reparent:
  assumes acyc: "acyclic (line_of nodes)"
    and ok: "check_reporting_line a parent nodes = None"
    and sub: "\<And>x y. parent_of nodes' x = Some y \<Longrightarrow>
                (x = a \<and> parent = Some y) \<or> (x \<noteq> a \<and> parent_of nodes x = Some y)"
  shows "acyclic (line_of nodes')"
proof (cases parent)
  case None
  then have "line_of nodes' \<subseteq> line_of nodes" using sub by auto
  with acyc show ?thesis by (rule acyclic_subset)
next
  case (Some p)
  with ok have "(p, a) \<notin> (line_of nodes)\<^sup>*" by (simp add: check_reporting_line_unreachable)
  with acyc have "acyclic (insert (a, p) (line_of nodes))" by (simp add: acyclic_insert)
  moreover have "line_of nodes' \<subseteq> insert (a, p) (line_of nodes)"
    using sub Some by (auto simp: line_of_def dest!: sub)
  ultimately show ?thesis by (rule acyclic_subset)
qed


subsection \<open>The chain of active managers\<close>

text \<open>The path of active managers above an assignment, by structural recursion on the number
  of hops.\<close>

fun active_line :: "nat \<Rightarrow> reporting_nodes \<Rightarrow> uuid option \<Rightarrow> uuid list" where
  "active_line 0 nodes current = []"
| "active_line (Suc n) nodes None = []"
| "active_line (Suc n) nodes (Some c) =
     (case dict_get nodes c of
        None \<Rightarrow> []
      | Some node \<Rightarrow> if snd node = ''ACTIVE'' then c # active_line n nodes (fst node) else [])"

lemma chain_walk_None [simp]: "chain_walk nodes m chain seen None = chain"
  by (simp add: chain_walk.simps [of nodes m chain seen])

lemma chain_walk_Some:
  "chain_walk nodes m chain seen (Some c) =
     (if int (length chain) < m then
        (case dict_get nodes c of
           None \<Rightarrow> chain
         | Some node \<Rightarrow> if c \<in> set seen \<or> snd node \<noteq> ''ACTIVE'' then chain
                        else chain_walk nodes m (chain @ [c]) (c # seen) (fst node))
      else chain)"
  by (simp add: chain_walk.simps [of nodes m chain seen "Some c"])

lemma parent_of_Some_node: "dict_get nodes c = Some node \<Longrightarrow> parent_of nodes c = fst node"
  by (simp add: parent_of_def)

lemma chain_walk_active_line:
  assumes "acyclic (line_of nodes)"
    and "\<And>c x y. current = Some c \<Longrightarrow> (c, x) \<in> (line_of nodes)\<^sup>* \<Longrightarrow> x \<notin> set seen"
  shows "chain_walk nodes m chain seen current = chain @ active_line (nat (m - int (length chain))) nodes current"
  using assms(2)
proof (induction "nat (m - int (length chain))" arbitrary: chain seen current)
  case 0
  then have "\<not> int (length chain) < m" by simp
  with 0 show ?case by (cases current) (simp_all add: chain_walk_Some)
next
  case (Suc n)
  show ?case
  proof (cases current)
    case None
    then show ?thesis by (simp add: Suc(2)[symmetric])
  next
    case (Some c)
    have len: "int (length chain) < m" using Suc(2) by simp
    have unseen: "c \<notin> set seen" using Suc.prems [OF Some] by blast
    show ?thesis
    proof (cases "dict_get nodes c")
      case None
      with Some len show ?thesis by (simp add: chain_walk_Some Suc(2)[symmetric])
    next
      case node: (Some node)
      have "chain_walk nodes m (chain @ [c]) (c # seen) (fst node)
          = (chain @ [c]) @ active_line (nat (m - int (length (chain @ [c])))) nodes (fst node)"
      proof (rule Suc(1))
        show "n = nat (m - int (length (chain @ [c])))" using Suc(2) by simp
      next
        fix c' x y
        assume c': "fst node = Some c'" and x: "(c', x) \<in> (line_of nodes)\<^sup>*"
        have edge: "(c, c') \<in> line_of nodes" using node c' by (simp add: parent_of_Some_node)
        then have "(c, x) \<in> (line_of nodes)\<^sup>+" using x by (rule rtrancl_into_trancl2)
        with assms(1) have "x \<noteq> c" by (auto simp: acyclic_def)
        moreover have "x \<notin> set seen"
          using Suc.prems [OF Some] edge x by (meson converse_rtrancl_into_rtrancl)
        ultimately show "x \<notin> set (c # seen)" by simp
      qed
      moreover have "nat (m - int (length (chain @ [c]))) = n" using Suc(2) by simp
      ultimately show ?thesis
        using Some node len unseen by (auto simp: chain_walk_Some Suc(2)[symmetric])
    qed
  qed
qed

lemma manager_chain_active_line:
  assumes "acyclic (line_of nodes)"
  shows "manager_chain nodes a m = active_line (nat m) nodes (parent_of nodes a)"
proof -
  have "x \<notin> set [a]" if "parent_of nodes a = Some c" "(c, x) \<in> (line_of nodes)\<^sup>*" for c x
  proof -
    from that have "(a, x) \<in> (line_of nodes)\<^sup>+" by (meson line_of_iff rtrancl_into_trancl2)
    with assms show ?thesis by (auto simp: acyclic_def)
  qed
  then show ?thesis
    using chain_walk_active_line [OF assms, of "parent_of nodes a" "[a]" m "[]"]
    by (simp add: manager_chain_def parent_of_def)
qed

text \<open>On any mapping, damaged or not, the chain is finite: it never repeats an id, never
  contains the assignment itself, and respects the bound.\<close>

lemma chain_walk_sound:
  assumes "distinct chain" "set chain \<subseteq> set seen" "a \<in> set seen" "a \<notin> set chain"
  shows "distinct (chain_walk nodes m chain seen current) \<and>
         a \<notin> set (chain_walk nodes m chain seen current) \<and>
         (int (length chain) \<le> m \<longrightarrow> int (length (chain_walk nodes m chain seen current)) \<le> m)"
  using assms
proof (induction nodes m chain seen current rule: chain_walk.induct)
  case (1 nodes m chain seen current)
  show ?case
  proof (cases current)
    case None
    with "1.prems" show ?thesis by simp
  next
    case (Some c)
    show ?thesis
    proof (cases "int (length chain) < m \<and> (\<exists>node. dict_get nodes c = Some node \<and> c \<notin> set seen \<and> snd node = ''ACTIVE'')")
      case False
      then have "chain_walk nodes m chain seen (Some c) = chain"
        by (auto simp: chain_walk_Some split: option.splits)
      with "1.prems" Some show ?thesis by simp
    next
      case True
      then obtain node where node: "dict_get nodes c = Some node" "c \<notin> set seen" "snd node = ''ACTIVE''"
        and len: "int (length chain) < m" by blast
      have eq: "chain_walk nodes m chain seen (Some c) = chain_walk nodes m (chain @ [c]) (c # seen) (fst node)"
        using node len by (simp add: chain_walk_Some)
      have "distinct (chain @ [c])" "set (chain @ [c]) \<subseteq> set (c # seen)" "a \<in> set (c # seen)" "a \<notin> set (chain @ [c])"
        using "1.prems" node by auto
      moreover have "\<not> (c \<in> set seen \<or> snd node \<noteq> ''ACTIVE'')" using node by simp
      ultimately show ?thesis
        using "1.IH" [OF Some len node(1)] len unfolding Some eq by simp
    qed
  qed
qed

lemma manager_chain_sound:
  "distinct (manager_chain nodes a m) \<and> a \<notin> set (manager_chain nodes a m) \<and>
   (0 \<le> m \<longrightarrow> int (length (manager_chain nodes a m)) \<le> m)"
  unfolding manager_chain_def using chain_walk_sound [of "[]" "[a]" a] by simp


subsection \<open>The check, exactly\<close>

text \<open>The ids above one, whatever their status.\<close>

fun line_above :: "nat \<Rightarrow> reporting_nodes \<Rightarrow> uuid \<Rightarrow> uuid list" where
  "line_above 0 nodes c = []"
| "line_above (Suc n) nodes c =
     (case parent_of nodes c of None \<Rightarrow> [] | Some p \<Rightarrow> p # line_above n nodes p)"

lemma line_above_reach: "x \<in> set (line_above n nodes c) \<Longrightarrow> (c, x) \<in> (line_of nodes)\<^sup>+"
proof (induction n arbitrary: c)
  case (Suc n)
  then obtain p where "parent_of nodes c = Some p" "x = p \<or> x \<in> set (line_above n nodes p)"
    by (cases "parent_of nodes c") auto
  then have "(c, p) \<in> line_of nodes" "x = p \<or> (p, x) \<in> (line_of nodes)\<^sup>+"
    using Suc.IH by auto
  then show ?case by (auto intro: trancl_into_trancl2)
qed simp

lemma line_walk_exact:
  assumes "acyclic (line_of nodes)" and "depth \<le> MAX_REPORTING_DEPTH"
    and "set seen \<inter> {x. (c, x) \<in> (line_of nodes)\<^sup>*} \<subseteq> {a}" and "a \<in> set seen"
  shows "line_walk nodes seen depth (Some c) = None \<longleftrightarrow>
         a \<notin> set (c # line_above (Suc (MAX_REPORTING_DEPTH - depth)) nodes c) \<and>
         length (line_above (Suc (MAX_REPORTING_DEPTH - depth)) nodes c) \<le> MAX_REPORTING_DEPTH - depth"
  using assms
proof (induction "MAX_REPORTING_DEPTH - depth" arbitrary: seen depth c)
  case 0
  then have "depth = MAX_REPORTING_DEPTH" by simp
  with 0 show ?case by (auto split: option.splits)
next
  case (Suc n)
  note seen = Suc.prems(3) and a = Suc.prems(4)
  show ?case
  proof (cases "c \<in> set seen")
    case True
    then have "c = a" using seen by auto
    with True show ?thesis by simp
  next
    case c: False
    show ?thesis
    proof (cases "parent_of nodes c")
      case None
      with c a show ?thesis by auto
    next
      case (Some p)
      have "(p, c) \<notin> (line_of nodes)\<^sup>*"
        using assms(1) Some by (meson acyclic_def line_of_iff rtrancl_into_trancl2)
      moreover have "(c, x) \<in> (line_of nodes)\<^sup>*" if "(p, x) \<in> (line_of nodes)\<^sup>*" for x
        using that Some by (meson converse_rtrancl_into_rtrancl line_of_iff)
      ultimately have seen': "set (c # seen) \<inter> {x. (p, x) \<in> (line_of nodes)\<^sup>*} \<subseteq> {a}"
        using seen by auto
      have n: "n = MAX_REPORTING_DEPTH - (depth + 1)" and le: "depth + 1 \<le> MAX_REPORTING_DEPTH"
        using Suc(2) by simp_all
      have "c \<noteq> a" using c a by auto
      then show ?thesis
        using Suc(1) [OF n assms(1) le seen'] c Some le a n Suc(2)[symmetric] by auto
    qed
  qed
qed

text \<open>On a graph without cycles the check accepts a manager exactly when the manager is another
  active node whose own line neither contains the assignment nor makes it too deep.\<close>

lemma check_reporting_line_exact:
  assumes "acyclic (line_of nodes)"
  shows "check_reporting_line a (Some p) nodes = None \<longleftrightarrow>
         p \<noteq> a \<and> (\<exists>node. dict_get nodes p = Some node \<and> snd node = ''ACTIVE'') \<and>
         a \<notin> set (line_above MAX_REPORTING_DEPTH nodes p) \<and>
         length (line_above MAX_REPORTING_DEPTH nodes p) < MAX_REPORTING_DEPTH"
proof -
  have d: "Suc (MAX_REPORTING_DEPTH - 1) = MAX_REPORTING_DEPTH" by (simp add: MAX_REPORTING_DEPTH_def)
  have "line_walk nodes [a] 1 (Some p) = None \<longleftrightarrow>
        a \<notin> set (p # line_above MAX_REPORTING_DEPTH nodes p) \<and>
        length (line_above MAX_REPORTING_DEPTH nodes p) \<le> MAX_REPORTING_DEPTH - 1"
    using line_walk_exact [OF assms, of 1 "[a]" p a] unfolding d
    by (auto simp: MAX_REPORTING_DEPTH_def simp del: line_walk_simps)
  then show ?thesis
    using d by (auto simp: check_reporting_line_def simp del: line_walk_simps split: option.splits)
qed

subsection \<open>Escalation moves up one hop and stops at the cap\<close>

lemma next_escalation_target_manager:
  assumes "et_kind (next_escalation_target nodes a hop hop_cap) = ToManager"
  shows "hop < hop_cap \<and> et_hop (next_escalation_target nodes a hop hop_cap) = hop + 1 \<and>
         (\<exists>m node. et_assignment_id (next_escalation_target nodes a hop hop_cap) = Some m \<and> m \<noteq> a \<and>
            parent_of nodes a = Some m \<and> dict_get nodes m = Some node \<and> snd node = ''ACTIVE'')"
proof -
  from assms have hop: "hop < hop_cap"
    by (auto simp: next_escalation_target_def split: if_splits)
  with assms obtain m ms where chain: "manager_chain nodes a 1 = m # ms"
    by (auto simp: next_escalation_target_def split: list.splits)
  then have t: "next_escalation_target nodes a hop hop_cap =
      \<lparr>et_kind = ToManager, et_assignment_id = Some m, et_hop = hop + 1, et_reason = ''escalated_to_manager''\<rparr>"
    using hop by (simp add: next_escalation_target_def)
  from chain have "m \<noteq> a" using manager_chain_sound [of nodes a 1] by auto
  moreover obtain c where c: "parent_of nodes a = Some c"
    using chain by (cases "parent_of nodes a") (auto simp: manager_chain_def parent_of_def)
  moreover from chain c obtain node where "dict_get nodes c = Some node" "snd node = ''ACTIVE''" "m = c"
    by (auto simp: manager_chain_def parent_of_def [symmetric] chain_walk_Some split: option.splits if_splits)
       (auto simp: chain_walk.simps split: option.splits if_splits)
  ultimately show ?thesis using t hop by (cases node) auto
qed

text \<open>Following the targets from any assignment, on any mapping, reaches the operator: at most
  \<open>hop_cap - hop\<close> managers are asked.\<close>

fun escalate :: "nat \<Rightarrow> reporting_nodes \<Rightarrow> uuid \<Rightarrow> int \<Rightarrow> int \<Rightarrow> escalation_target" where
  "escalate 0 nodes a hop hop_cap = next_escalation_target nodes a hop hop_cap"
| "escalate (Suc n) nodes a hop hop_cap =
     (let t = next_escalation_target nodes a hop hop_cap in
      case et_assignment_id t of None \<Rightarrow> t | Some m \<Rightarrow> escalate n nodes m (et_hop t) hop_cap)"

lemma next_escalation_target_operator:
  "et_assignment_id (next_escalation_target nodes a hop hop_cap) = None \<longleftrightarrow>
   et_kind (next_escalation_target nodes a hop hop_cap) = ToOperator"
  by (auto simp: next_escalation_target_def split: list.splits)

lemma escalate_operator:
  assumes "hop_cap - hop \<le> int n"
  shows "et_kind (escalate n nodes a hop hop_cap) = ToOperator"
  using assms
proof (induction n arbitrary: a hop)
  case 0
  then show ?case by (simp add: next_escalation_target_def)
next
  case (Suc n)
  let ?t = "next_escalation_target nodes a hop hop_cap"
  show ?case
  proof (cases "et_assignment_id ?t")
    case None
    then show ?thesis using next_escalation_target_operator [of nodes a hop hop_cap] by (simp add: Let_def)
  next
    case (Some m)
    then have "et_kind ?t = ToManager"
      using next_escalation_target_operator [of nodes a hop hop_cap] by (cases "et_kind ?t") auto
    then have "et_hop ?t = hop + 1" using next_escalation_target_manager by blast
    with Suc Some show ?thesis by simp
  qed
qed

end
