(* ===== verification/Workforce.thy ===== *)
theory Workforce
  imports Reporting
begin

text \<open>
  The workforce repository (\<open>packages/agent/workforce/repository.py\<close>, in-memory
  implementation, over the records of \<open>models.py\<close>): AI employees, their assignments and
  reporting lines, schedules, cost observations, the outcome-analysis bindings and the outbox
  of runtime signals, with the publisher that drains the outbox
  (\<open>apps/cosa/events/runtime_signal.py\<close>). Each operation takes the store and returns the
  new one; the identifiers \<open>uuid4()\<close> would generate and the clock readings are arguments.
  The properties are in \<open>WorkforceProps\<close>.
\<close>

subsection \<open>Identifiers\<close>

text \<open>An id argument of type \<open>UUID | str\<close>: \<open>GoodUuid u\<close> is a \<open>UUID\<close> or a string that
  \<open>UUID(\<dots>)\<close> parses to it, \<open>NotUuid s\<close> a string it rejects with \<open>ValueError\<close>.\<close>

datatype uuid_arg = GoodUuid uuid | NotUuid string

fun uuid_of :: "uuid_arg \<Rightarrow> uuid option" where
  "uuid_of (GoodUuid u) = Some u"
| "uuid_of (NotUuid s) = None"

text \<open>\<open>UUID(str(x)) if x else d\<close> for an optional argument: \<open>None\<close> and the empty string are
  falsy; the result \<open>None\<close> stands for the \<open>ValueError\<close>.\<close>

fun uuid_or :: "uuid_arg option \<Rightarrow> 'a \<Rightarrow> (uuid \<Rightarrow> 'a) \<Rightarrow> 'a option" where
  "uuid_or None d f = Some d"
| "uuid_or (Some (GoodUuid u)) d f = Some (f u)"
| "uuid_or (Some (NotUuid s)) d f = (if s = [] then Some d else None)"

subsection \<open>Records\<close>

record workforce_employee =
  we_agent_instance_id :: uuid
  we_workspace_id :: string
  we_employee_code :: string
  we_display_name :: string
  we_status :: string
  we_created_by :: string
  we_created_at :: datetime
  we_suspended_at :: "datetime option"
  we_retired_at :: "datetime option"

record workforce_assignment =
  wa_assignment_id :: uuid
  wa_workspace_id :: string
  wa_functional_key :: string
  wa_spec_id :: string
  wa_spec_version :: string
  wa_definition_hash :: string
  wa_reports_to :: "uuid option"
  wa_configured_by :: string
  wa_status :: string
  wa_created_at :: datetime
  wa_retired_at :: "datetime option"
  wa_agent_instance_id :: "uuid option"
  wa_company_workforce_member_id :: "string option"

record workforce_schedule =
  ws_schedule_id :: uuid
  ws_workspace_id :: string
  ws_name :: string
  ws_functional_key :: string
  ws_cron_expression :: string
  ws_input_payload :: payload
  ws_configured_by :: string
  ws_status :: string
  ws_created_at :: datetime
  ws_retired_at :: "datetime option"

record runtime_signal =
  rs_outbox_id :: uuid
  rs_workspace_id :: string
  rs_source_kind :: string
  rs_source_id :: string
  rs_sequence :: int
  rs_state :: string
  rs_observed_at :: datetime
  rs_correlation_id :: string
  rs_payload_hash :: string
  rs_state_delivery :: string
  rs_attempt_count :: int
  rs_next_attempt_at :: datetime
  rs_delivered_at :: "datetime option"

record cost_observation =
  co_observation_id :: uuid
  co_workspace_id :: string
  co_run_id :: string
  co_provider_key :: string
  co_model_key :: string
  co_input_tokens :: "int option"
  co_output_tokens :: "int option"
  co_cost_amount :: "rat option"
  co_currency :: "string option"
  co_observed_at :: datetime

record outcome_analysis_binding =
  ob_workspace_id :: string
  ob_analysis_kind :: string
  ob_agent_instance_id :: string
  ob_assignment_id :: string
  ob_policy :: string
  ob_skill_id :: string
  ob_skill_version :: string
  ob_definition_hash :: string
  ob_version :: int

record workforce_store =
  wst_employees :: "(uuid, workforce_employee) pydict"
  wst_assignments :: "(uuid, workforce_assignment) pydict"
  wst_schedules :: "(uuid, workforce_schedule) pydict"
  wst_cost_observations :: "cost_observation list"
  wst_outbox :: "(uuid, runtime_signal) pydict"
  wst_bindings :: "(string \<times> string, outcome_analysis_binding) pydict"

datatype workforce_error =
    DuplicateEmployeeCode
  | EmployeeNotAssignable
  | ReportingLine reporting_error
  | InvalidUuid
  | MissingKey

definition empty_workforce :: workforce_store where
  "empty_workforce = \<lparr>wst_employees = [], wst_assignments = [], wst_schedules = [],
     wst_cost_observations = [], wst_outbox = [], wst_bindings = []\<rparr>"

subsection \<open>Employees\<close>

definition create_employee ::
  "string \<Rightarrow> string \<Rightarrow> string \<Rightarrow> string \<Rightarrow> uuid_arg option \<Rightarrow> uuid \<Rightarrow> datetime \<Rightarrow> workforce_store \<Rightarrow>
   workforce_error + workforce_employee \<times> workforce_store" where
  "create_employee workspace_id employee_code display_name created_by agent_instance_id fresh now st =
     (if \<exists>e \<in> set (dict_values (wst_employees st)).
           we_workspace_id e = workspace_id \<and> we_employee_code e = employee_code
      then Inl DuplicateEmployeeCode
      else
        (case uuid_or agent_instance_id fresh id of
           None \<Rightarrow> Inl InvalidUuid
         | Some eid \<Rightarrow>
             let rec = \<lparr>we_agent_instance_id = eid, we_workspace_id = workspace_id,
                         we_employee_code = employee_code, we_display_name = display_name,
                         we_status = ''ACTIVE'', we_created_by = created_by, we_created_at = now,
                         we_suspended_at = None, we_retired_at = None\<rparr>
             in Inr (rec, st\<lparr>wst_employees := dict_set eid rec (wst_employees st)\<rparr>)))"

definition get_employee :: "string \<Rightarrow> uuid_arg \<Rightarrow> workforce_store \<Rightarrow> workforce_employee option" where
  "get_employee workspace_id agent_instance_id st =
     (case uuid_of agent_instance_id of
        None \<Rightarrow> None
      | Some eid \<Rightarrow>
          (case dict_get (wst_employees st) eid of
             None \<Rightarrow> None
           | Some rec \<Rightarrow> if we_workspace_id rec = workspace_id then Some rec else None))"

definition list_employees :: "string \<Rightarrow> string option \<Rightarrow> workforce_store \<Rightarrow> workforce_employee list" where
  "list_employees workspace_id status st =
     filter (\<lambda>e. we_workspace_id e = workspace_id \<and> (status = None \<or> status = Some (we_status e)))
       (dict_values (wst_employees st))"

definition set_employee_lifecycle ::
  "string \<Rightarrow> uuid_arg \<Rightarrow> string \<Rightarrow> datetime \<Rightarrow> workforce_store \<Rightarrow> workforce_employee option \<times> workforce_store" where
  "set_employee_lifecycle workspace_id agent_instance_id status now st =
     (case uuid_of agent_instance_id of
        None \<Rightarrow> (None, st)
      | Some eid \<Rightarrow>
          (case dict_get (wst_employees st) eid of
             None \<Rightarrow> (None, st)
           | Some rec \<Rightarrow>
               if we_workspace_id rec \<noteq> workspace_id then (None, st)
               else
                 let updated = rec\<lparr>we_status := status,
                       we_suspended_at := (if status = ''SUSPENDED'' then Some now else we_suspended_at rec),
                       we_retired_at := (if status = ''RETIRED'' then Some now else we_retired_at rec)\<rparr>
                 in (Some updated, st\<lparr>wst_employees := dict_set eid updated (wst_employees st)\<rparr>)))"

definition suspend_employee where
  "suspend_employee workspace_id agent_instance_id now st =
     set_employee_lifecycle workspace_id agent_instance_id ''SUSPENDED'' now st"

definition retire_employee where
  "retire_employee workspace_id agent_instance_id now st =
     set_employee_lifecycle workspace_id agent_instance_id ''RETIRED'' now st"

subsection \<open>Outcome-analysis bindings\<close>

definition get_outcome_analysis_binding :: "string \<Rightarrow> string \<Rightarrow> workforce_store \<Rightarrow> outcome_analysis_binding option" where
  "get_outcome_analysis_binding workspace_id analysis_kind st =
     dict_get (wst_bindings st) (workspace_id, analysis_kind)"

text \<open>The analyst ids arrive as texts (\<open>str(\<dots>)\<close> of a \<open>UUID\<close>).\<close>

definition upsert_outcome_analysis_binding ::
  "string \<Rightarrow> string \<Rightarrow> string \<Rightarrow> string \<Rightarrow> string \<Rightarrow> string \<Rightarrow> string \<Rightarrow> string \<Rightarrow> workforce_store \<Rightarrow>
   outcome_analysis_binding \<times> workforce_store" where
  "upsert_outcome_analysis_binding workspace_id analysis_kind analyst_employee_id analyst_assignment_id
     policy skill_id skill_version definition_hash st =
     (let version = (case dict_get (wst_bindings st) (workspace_id, analysis_kind) of
                       None \<Rightarrow> 1 | Some existing \<Rightarrow> ob_version existing + 1);
          binding = \<lparr>ob_workspace_id = workspace_id, ob_analysis_kind = analysis_kind,
                      ob_agent_instance_id = analyst_employee_id, ob_assignment_id = analyst_assignment_id,
                      ob_policy = policy, ob_skill_id = skill_id, ob_skill_version = skill_version,
                      ob_definition_hash = definition_hash, ob_version = version\<rparr>
      in (binding, st\<lparr>wst_bindings := dict_set (workspace_id, analysis_kind) binding (wst_bindings st)\<rparr>))"

subsection \<open>Schedules\<close>

definition create_schedule ::
  "string \<Rightarrow> string \<Rightarrow> string \<Rightarrow> string \<Rightarrow> payload \<Rightarrow> string \<Rightarrow> uuid_arg option \<Rightarrow> uuid \<Rightarrow> datetime \<Rightarrow> workforce_store \<Rightarrow>
   workforce_error + workforce_schedule \<times> workforce_store" where
  "create_schedule workspace_id name functional_key cron_expression input_payload configured_by schedule_id fresh now st =
     (case uuid_or schedule_id fresh id of
        None \<Rightarrow> Inl InvalidUuid
      | Some sid \<Rightarrow>
          let rec = \<lparr>ws_schedule_id = sid, ws_workspace_id = workspace_id, ws_name = name,
                      ws_functional_key = functional_key, ws_cron_expression = cron_expression,
                      ws_input_payload = input_payload, ws_configured_by = configured_by,
                      ws_status = ''ACTIVE'', ws_created_at = now, ws_retired_at = None\<rparr>
          in Inr (rec, st\<lparr>wst_schedules := dict_set sid rec (wst_schedules st)\<rparr>))"

definition get_schedule :: "string \<Rightarrow> uuid_arg \<Rightarrow> workforce_store \<Rightarrow> workforce_schedule option" where
  "get_schedule workspace_id schedule_id st =
     (case uuid_of schedule_id of
        None \<Rightarrow> None
      | Some sid \<Rightarrow>
          (case dict_get (wst_schedules st) sid of
             None \<Rightarrow> None
           | Some rec \<Rightarrow> if ws_workspace_id rec = workspace_id then Some rec else None))"

definition list_schedules :: "string \<Rightarrow> string option \<Rightarrow> workforce_store \<Rightarrow> workforce_schedule list" where
  "list_schedules workspace_id status st =
     filter (\<lambda>s. ws_workspace_id s = workspace_id \<and> (status = None \<or> status = Some (ws_status s)))
       (dict_values (wst_schedules st))"

subsection \<open>Assignments\<close>

text \<open>\<open>_nodes_of\<close>: a dictionary comprehension, later records overwrite earlier ones.\<close>

definition nodes_of :: "workforce_assignment list \<Rightarrow> reporting_nodes" where
  "nodes_of records =
     fold (\<lambda>r d. dict_set (wa_assignment_id r) (wa_reports_to r, wa_status r) d) records []"

definition list_assignments :: "string \<Rightarrow> string option \<Rightarrow> workforce_store \<Rightarrow> workforce_assignment list" where
  "list_assignments workspace_id status st =
     filter (\<lambda>a. wa_workspace_id a = workspace_id \<and> (status = None \<or> status = Some (wa_status a)))
       (dict_values (wst_assignments st))"

text \<open>The unique constraint \<open>(workspace_id, functional_key, spec_id, spec_version, definition_hash)\<close>.\<close>

definition same_pin :: "string \<Rightarrow> string \<Rightarrow> string \<Rightarrow> string \<Rightarrow> string \<Rightarrow> workforce_assignment \<Rightarrow> bool" where
  "same_pin workspace_id functional_key spec_ident spec_version definition_hash a \<longleftrightarrow>
     wa_workspace_id a = workspace_id \<and> wa_functional_key a = functional_key \<and>
     wa_spec_id a = spec_ident \<and> wa_spec_version a = spec_version \<and>
     wa_definition_hash a = definition_hash"

text \<open>The employee an assignment is bound to must be an active one of the workspace.\<close>

definition assignable_employee :: "string \<Rightarrow> uuid_arg option \<Rightarrow> workforce_store \<Rightarrow> workforce_error + uuid option" where
  "assignable_employee workspace_id agent_instance_id st =
     (case agent_instance_id of
        None \<Rightarrow> Inr None
      | Some arg \<Rightarrow>
          (case uuid_of arg of
             None \<Rightarrow> Inl InvalidUuid
           | Some eid \<Rightarrow>
               (case get_employee workspace_id (GoodUuid eid) st of
                  None \<Rightarrow> Inl EmployeeNotAssignable
                | Some employee \<Rightarrow>
                    if we_status employee \<noteq> ''ACTIVE'' then Inl EmployeeNotAssignable else Inr (Some eid))))"

definition create_assignment ::
  "string \<Rightarrow> string \<Rightarrow> string \<Rightarrow> string \<Rightarrow> string \<Rightarrow> string \<Rightarrow> uuid_arg option \<Rightarrow> uuid_arg option \<Rightarrow> uuid_arg option \<Rightarrow>
   string option \<Rightarrow> uuid \<Rightarrow> datetime \<Rightarrow> workforce_store \<Rightarrow>
   workforce_error + workforce_assignment \<times> workforce_store" where
  "create_assignment workspace_id functional_key spec_ident spec_version definition_hash configured_by
     reports_to assignment_id agent_instance_id company_member fresh now st =
     (case uuid_or reports_to None Some of
        None \<Rightarrow> Inl InvalidUuid
      | Some rid \<Rightarrow>
     (case assignable_employee workspace_id agent_instance_id st of
        Inl e \<Rightarrow> Inl e
      | Inr eid \<Rightarrow>
     (let existing = List.find (same_pin workspace_id functional_key spec_ident spec_version definition_hash)
                       (dict_values (wst_assignments st))
      in case (case existing of Some x \<Rightarrow> Some (wa_assignment_id x) | None \<Rightarrow> uuid_or assignment_id fresh id) of
           None \<Rightarrow> Inl InvalidUuid
         | Some effective_id \<Rightarrow>
     (case check_reporting_line effective_id rid (nodes_of (list_assignments workspace_id None st)) of
        Some err \<Rightarrow> Inl (ReportingLine err)
      | None \<Rightarrow>
          (case existing of
             Some x \<Rightarrow>
               let updated = \<lparr>wa_assignment_id = wa_assignment_id x, wa_workspace_id = workspace_id,
                     wa_functional_key = functional_key, wa_spec_id = spec_ident,
                     wa_spec_version = spec_version, wa_definition_hash = definition_hash,
                     wa_reports_to = rid, wa_configured_by = configured_by, wa_status = ''ACTIVE'',
                     wa_created_at = wa_created_at x, wa_retired_at = None,
                     wa_agent_instance_id = (case eid of None \<Rightarrow> wa_agent_instance_id x | Some u \<Rightarrow> Some u),
                     wa_company_workforce_member_id = or_opt company_member (wa_company_workforce_member_id x)\<rparr>
               in Inr (updated, st\<lparr>wst_assignments := dict_set (wa_assignment_id x) updated (wst_assignments st)\<rparr>)
           | None \<Rightarrow>
               let rec = \<lparr>wa_assignment_id = effective_id, wa_workspace_id = workspace_id,
                     wa_functional_key = functional_key, wa_spec_id = spec_ident,
                     wa_spec_version = spec_version, wa_definition_hash = definition_hash,
                     wa_reports_to = rid, wa_configured_by = configured_by, wa_status = ''ACTIVE'',
                     wa_created_at = now, wa_retired_at = None, wa_agent_instance_id = eid,
                     wa_company_workforce_member_id = company_member\<rparr>
               in Inr (rec, st\<lparr>wst_assignments := dict_set effective_id rec (wst_assignments st)\<rparr>))))))"

definition list_direct_reports ::
  "string \<Rightarrow> uuid_arg \<Rightarrow> workforce_store \<Rightarrow> workforce_error + workforce_assignment list" where
  "list_direct_reports workspace_id assignment_id st =
     (let records = list_assignments workspace_id (Some ''ACTIVE'') st
      in case uuid_of assignment_id of
           None \<Rightarrow> Inl InvalidUuid
         | Some aid \<Rightarrow>
             (let wanted = direct_reports (nodes_of records) aid
              in Inr (filter (\<lambda>r. wa_assignment_id r \<in> set wanted) records)))"

text \<open>\<open>[by_id[i] for i in chain]\<close>, \<open>Inl MissingKey\<close> for the \<open>KeyError\<close>.\<close>

fun lookup_all :: "('k, 'v) pydict \<Rightarrow> 'k list \<Rightarrow> 'v list option" where
  "lookup_all d [] = Some []"
| "lookup_all d (k # ks) =
     (case dict_get d k of
        None \<Rightarrow> None
      | Some v \<Rightarrow> (case lookup_all d ks of None \<Rightarrow> None | Some vs \<Rightarrow> Some (v # vs)))"

definition resolve_manager_chain ::
  "string \<Rightarrow> uuid_arg \<Rightarrow> int \<Rightarrow> workforce_store \<Rightarrow> workforce_error + workforce_assignment list" where
  "resolve_manager_chain workspace_id assignment_id max_hops st =
     (let records = list_assignments workspace_id None st;
          by_id = fold (\<lambda>r d. dict_set (wa_assignment_id r) r d) records []
      in case uuid_of assignment_id of
           None \<Rightarrow> Inl InvalidUuid
         | Some aid \<Rightarrow>
             (case lookup_all by_id (manager_chain (nodes_of records) aid max_hops) of
                None \<Rightarrow> Inl MissingKey
              | Some rs \<Rightarrow> Inr rs))"

definition get_assignment ::
  "string \<Rightarrow> uuid_arg \<Rightarrow> workforce_store \<Rightarrow> workforce_error + workforce_assignment option" where
  "get_assignment workspace_id assignment_id st =
     (case uuid_of assignment_id of
        None \<Rightarrow> Inl InvalidUuid
      | Some aid \<Rightarrow>
          Inr (case dict_get (wst_assignments st) aid of
                 None \<Rightarrow> None
               | Some rec \<Rightarrow> if wa_workspace_id rec = workspace_id then Some rec else None))"

definition retire_assignment ::
  "string \<Rightarrow> uuid_arg \<Rightarrow> datetime \<Rightarrow> workforce_store \<Rightarrow>
   workforce_error + workforce_assignment option \<times> workforce_store" where
  "retire_assignment workspace_id assignment_id now st =
     (case uuid_of assignment_id of
        None \<Rightarrow> Inl InvalidUuid
      | Some aid \<Rightarrow>
          (case dict_get (wst_assignments st) aid of
             None \<Rightarrow> Inr (None, st)
           | Some rec \<Rightarrow>
               if wa_workspace_id rec \<noteq> workspace_id then Inr (None, st)
               else
                 let retired = rec\<lparr>wa_status := ''RETIRED'', wa_retired_at := Some now\<rparr>
                 in Inr (Some retired, st\<lparr>wst_assignments := dict_set aid retired (wst_assignments st)\<rparr>)))"

subsection \<open>Cost observations\<close>

definition record_cost_observation ::
  "string \<Rightarrow> string \<Rightarrow> string \<Rightarrow> string \<Rightarrow> datetime \<Rightarrow> int option \<Rightarrow> int option \<Rightarrow> rat option \<Rightarrow> string option \<Rightarrow>
   uuid_arg option \<Rightarrow> uuid \<Rightarrow> workforce_store \<Rightarrow> workforce_error + cost_observation \<times> workforce_store" where
  "record_cost_observation workspace_id run_id provider_key model_key observed_at input_tokens output_tokens
     cost_amount currency observation_id fresh st =
     (case uuid_or observation_id fresh id of
        None \<Rightarrow> Inl InvalidUuid
      | Some oid \<Rightarrow>
          let rec = \<lparr>co_observation_id = oid, co_workspace_id = workspace_id, co_run_id = run_id,
                      co_provider_key = provider_key, co_model_key = model_key,
                      co_input_tokens = input_tokens, co_output_tokens = output_tokens,
                      co_cost_amount = cost_amount, co_currency = currency, co_observed_at = observed_at\<rparr>
          in Inr (rec, st\<lparr>wst_cost_observations := wst_cost_observations st @ [rec]\<rparr>))"

text \<open>\<open>sorted(\<dots>, reverse=True)\<close> is stable, as is \<open>sort_key\<close> on the negated key.\<close>

definition list_cost_observations :: "string \<Rightarrow> string option \<Rightarrow> int \<Rightarrow> workforce_store \<Rightarrow> cost_observation list" where
  "list_cost_observations workspace_id run_id limit st =
     py_take limit
       (filter (\<lambda>c. co_workspace_id c = workspace_id \<and> (run_id = None \<or> run_id = Some (co_run_id c)))
         (sort_key (\<lambda>c. - co_observed_at c) (wst_cost_observations st)))"

subsection \<open>The outbox of runtime signals\<close>

definition same_signal :: "string \<Rightarrow> string \<Rightarrow> string \<Rightarrow> int \<Rightarrow> runtime_signal \<Rightarrow> bool" where
  "same_signal workspace_id source_kind source_id sequence s \<longleftrightarrow>
     rs_workspace_id s = workspace_id \<and> rs_source_kind s = source_kind \<and>
     rs_source_id s = source_id \<and> rs_sequence s = sequence"

text \<open>\<open>sha\<close> is \<open>hashlib.sha256(\<dots>.encode()).hexdigest()\<close>.\<close>

definition enqueue_runtime_signal ::
  "(string \<Rightarrow> string) \<Rightarrow> string \<Rightarrow> string \<Rightarrow> string \<Rightarrow> int \<Rightarrow> string \<Rightarrow> datetime \<Rightarrow> string option \<Rightarrow> string option \<Rightarrow>
   uuid_arg option \<Rightarrow> uuid \<Rightarrow> datetime \<Rightarrow> workforce_store \<Rightarrow> workforce_error + runtime_signal \<times> workforce_store" where
  "enqueue_runtime_signal sha workspace_id source_kind source_id sequence state observed_at
     correlation_id payload_hash outbox_id fresh now st =
     (case List.find (same_signal workspace_id source_kind source_id sequence) (dict_values (wst_outbox st)) of
        Some existing \<Rightarrow> Inr (existing, st)
      | None \<Rightarrow>
          (case uuid_or outbox_id fresh id of
             None \<Rightarrow> Inl InvalidUuid
           | Some oid \<Rightarrow>
               let ident = source_kind @ '':'' @ source_id @ '':'' @ int_str sequence;
                   rec = \<lparr>rs_outbox_id = oid, rs_workspace_id = workspace_id, rs_source_kind = source_kind,
                           rs_source_id = source_id, rs_sequence = sequence, rs_state = state,
                           rs_observed_at = observed_at, rs_correlation_id = or_else correlation_id ident,
                           rs_payload_hash = or_else payload_hash (sha (ident @ '':'' @ state)),
                           rs_state_delivery = ''PENDING'', rs_attempt_count = 0,
                           rs_next_attempt_at = now, rs_delivered_at = None\<rparr>
               in Inr (rec, st\<lparr>wst_outbox := dict_set oid rec (wst_outbox st)\<rparr>)))"

definition claim_pending_signals :: "int \<Rightarrow> int \<Rightarrow> datetime \<Rightarrow> workforce_store \<Rightarrow> runtime_signal list" where
  "claim_pending_signals limit max_attempts now st =
     py_take limit
       (filter (\<lambda>s. rs_state_delivery s = ''PENDING'' \<and> rs_next_attempt_at s \<le> now \<and>
                     rs_attempt_count s < max_attempts)
         (sort_key rs_observed_at (dict_values (wst_outbox st))))"

text \<open>Called with a \<open>UUID\<close>; \<open>delivered_at\<close> is the argument or the clock reading.\<close>

definition mark_signal_delivered :: "uuid \<Rightarrow> datetime \<Rightarrow> workforce_store \<Rightarrow> workforce_store" where
  "mark_signal_delivered oid delivered_at st =
     (case dict_get (wst_outbox st) oid of
        None \<Rightarrow> st
      | Some rec \<Rightarrow>
          st\<lparr>wst_outbox := dict_set oid (rec\<lparr>rs_state_delivery := ''DELIVERED'', rs_delivered_at := Some delivered_at\<rparr>)
                (wst_outbox st)\<rparr>)"

definition mark_signal_failed :: "uuid \<Rightarrow> datetime \<Rightarrow> workforce_store \<Rightarrow> workforce_store" where
  "mark_signal_failed oid next_attempt_at st =
     (case dict_get (wst_outbox st) oid of
        None \<Rightarrow> st
      | Some rec \<Rightarrow>
          st\<lparr>wst_outbox := dict_set oid
                (rec\<lparr>rs_state_delivery := ''PENDING'', rs_attempt_count := rs_attempt_count rec + 1,
                     rs_next_attempt_at := next_attempt_at, rs_delivered_at := None\<rparr>)
                (wst_outbox st)\<rparr>)"

definition is_signal_delivered :: "string \<Rightarrow> string \<Rightarrow> string \<Rightarrow> int \<Rightarrow> workforce_store \<Rightarrow> bool" where
  "is_signal_delivered workspace_id source_kind source_id sequence st =
     (case List.find (same_signal workspace_id source_kind source_id sequence) (dict_values (wst_outbox st)) of
        None \<Rightarrow> False
      | Some s \<Rightarrow> rs_state_delivery s = ''DELIVERED'')"

subsection \<open>The publisher\<close>

text \<open>The attempt to post one signal to the company service: a status code, or an exception of
  the client. \<open>http\<close> is that service, \<open>clock\<close> the reading taken after the attempt.\<close>

datatype http_result = HttpStatus int | HttpError

definition http_ok :: "http_result \<Rightarrow> bool" where
  "http_ok r = (case r of HttpStatus c \<Rightarrow> 200 \<le> c \<and> c < 300 | HttpError \<Rightarrow> False)"

text \<open>\<open>min(300, 2 ** (attempt_count + 1))\<close> seconds.\<close>

definition signal_backoff :: "int \<Rightarrow> int" where
  "signal_backoff attempt_count = timedelta_seconds (min 300 (2 ^ nat (attempt_count + 1)))"

fun deliver_signals ::
  "(runtime_signal \<Rightarrow> http_result) \<Rightarrow> (runtime_signal \<Rightarrow> datetime) \<Rightarrow> runtime_signal list \<Rightarrow> int \<times> workforce_store \<Rightarrow>
   int \<times> workforce_store" where
  "deliver_signals http clock [] acc = acc"
| "deliver_signals http clock (s # ss) (n, st) =
     (if http_ok (http s)
      then deliver_signals http clock ss (n + 1, mark_signal_delivered (rs_outbox_id s) (clock s) st)
      else deliver_signals http clock ss
             (n, mark_signal_failed (rs_outbox_id s) (clock s + signal_backoff (rs_attempt_count s)) st))"

definition deliver_due ::
  "(runtime_signal \<Rightarrow> http_result) \<Rightarrow> (runtime_signal \<Rightarrow> datetime) \<Rightarrow> int \<Rightarrow> int \<Rightarrow> datetime \<Rightarrow> workforce_store \<Rightarrow>
   int \<times> workforce_store" where
  "deliver_due http clock limit max_attempts now st =
     deliver_signals http clock (claim_pending_signals limit max_attempts now st) (0, st)"

end
