(* ===== verification/WorkforceProps.thy ===== *)
theory WorkforceProps
  imports Workforce Keyed
begin

text \<open>
  Properties of the workforce repository: a step function over all its operations, the
  invariant of its store (keys agree with the records, employee codes, pinned specs and signals
  are unique, no workspace has a cycle of managers), the typing of its records, the exact
  behaviour of \<open>create_assignment\<close>, and the bound on the attempts to publish a signal.
\<close>

subsection \<open>Requests\<close>

datatype workforce_op =
    OpCreateEmployee string string string string "uuid_arg option" uuid datetime
  | OpSuspendEmployee string uuid_arg datetime
  | OpRetireEmployee string uuid_arg datetime
  | OpCreateSchedule string string string string payload string "uuid_arg option" uuid datetime
  | OpCreateAssignment string string string string string string "uuid_arg option" "uuid_arg option"
      "uuid_arg option" "string option" uuid datetime
  | OpRetireAssignment string uuid_arg datetime
  | OpUpsertBinding string string string string string string string string
  | OpRecordCost string string string string datetime "int option" "int option" "rat option" "string option"
      "uuid_arg option" uuid
  | OpEnqueueSignal "string \<Rightarrow> string" string string string int string datetime "string option" "string option"
      "uuid_arg option" uuid datetime
  | OpMarkDelivered uuid datetime
  | OpMarkFailed uuid datetime
  | OpDeliverDue "runtime_signal \<Rightarrow> http_result" "runtime_signal \<Rightarrow> datetime" int int datetime

text \<open>A refused request leaves the store as it is.\<close>

definition store_after :: "'e + 'a \<times> workforce_store \<Rightarrow> workforce_store \<Rightarrow> workforce_store" where
  "store_after r st = (case r of Inl _ \<Rightarrow> st | Inr (_, st') \<Rightarrow> st')"

lemma store_after_simps [simp]:
  "store_after (Inl e) st = st" "store_after (Inr (x, st')) st = st'"
  by (simp_all add: store_after_def)

fun workforce_step :: "workforce_op \<Rightarrow> workforce_store \<Rightarrow> workforce_store" where
  "workforce_step (OpCreateEmployee w c d b i fresh now) st = store_after (create_employee w c d b i fresh now st) st"
| "workforce_step (OpSuspendEmployee w i now) st = snd (suspend_employee w i now st)"
| "workforce_step (OpRetireEmployee w i now) st = snd (retire_employee w i now st)"
| "workforce_step (OpCreateSchedule w n k c p b i fresh now) st =
     store_after (create_schedule w n k c p b i fresh now st) st"
| "workforce_step (OpCreateAssignment w k s v h b r a i m fresh now) st =
     store_after (create_assignment w k s v h b r a i m fresh now st) st"
| "workforce_step (OpRetireAssignment w a now) st = store_after (retire_assignment w a now st) st"
| "workforce_step (OpUpsertBinding w k e a p s v h) st = snd (upsert_outcome_analysis_binding w k e a p s v h st)"
| "workforce_step (OpRecordCost w r p m t i out c u oid fresh) st =
     store_after (record_cost_observation w r p m t i out c u oid fresh st) st"
| "workforce_step (OpEnqueueSignal sha w k i q s t c h oid fresh now) st =
     store_after (enqueue_runtime_signal sha w k i q s t c h oid fresh now st) st"
| "workforce_step (OpMarkDelivered oid t) st = mark_signal_delivered oid t st"
| "workforce_step (OpMarkFailed oid t) st = mark_signal_failed oid t st"
| "workforce_step (OpDeliverDue http clock limit m now) st = snd (deliver_due http clock limit m now st)"

subsection \<open>The reporting graph of a workspace\<close>

definition workspace_nodes :: "string \<Rightarrow> (uuid, workforce_assignment) pydict \<Rightarrow> reporting_nodes" where
  "workspace_nodes w d = nodes_of (filter (\<lambda>a. wa_workspace_id a = w) (dict_values d))"

lemma list_assignments_nodes: "nodes_of (list_assignments w None st) = workspace_nodes w (wst_assignments st)"
  by (simp add: workspace_nodes_def list_assignments_def)

lemma workspace_nodes_get:
  assumes "keyed wa_assignment_id d"
  shows "dict_get (workspace_nodes w d) a =
         (case dict_get d a of
            None \<Rightarrow> None
          | Some r \<Rightarrow> if wa_workspace_id r = w then Some (wa_reports_to r, wa_status r) else None)"
  unfolding workspace_nodes_def nodes_of_def
  by (subst fold_dict_set_get)
     (auto simp: keyed_distinct [OF assms] keyed_find [OF assms] split: option.splits)

lemma workspace_parent:
  assumes "keyed wa_assignment_id d"
  shows "parent_of (workspace_nodes w d) a = Some p \<longleftrightarrow>
         (\<exists>r. dict_get d a = Some r \<and> wa_workspace_id r = w \<and> wa_reports_to r = Some p)"
  by (auto simp: parent_of_def workspace_nodes_get [OF assms] split: option.splits)

definition assignment_pin :: "workforce_assignment \<Rightarrow> string \<times> string \<times> string \<times> string \<times> string" where
  "assignment_pin a = (wa_workspace_id a, wa_functional_key a, wa_spec_id a, wa_spec_version a, wa_definition_hash a)"

lemma same_pin_iff: "same_pin w k s v h a \<longleftrightarrow> assignment_pin a = (w, k, s, v, h)"
  by (simp add: same_pin_def assignment_pin_def)

definition assignments_inv :: "(uuid, workforce_assignment) pydict \<Rightarrow> bool" where
  "assignments_inv d \<longleftrightarrow> keyed wa_assignment_id d \<and> unique_by assignment_pin d \<and>
     (\<forall>w. acyclic (line_of (workspace_nodes w d)))"

text \<open>Writing one record whose line passed the check of its workspace.\<close>

lemma assignments_acyclic_set:
  assumes d: "keyed wa_assignment_id d" and acyc: "\<And>w. acyclic (line_of (workspace_nodes w d))"
    and r: "wa_assignment_id r = a"
    and ok: "check_reporting_line a (wa_reports_to r) (workspace_nodes (wa_workspace_id r) d) = None"
  shows "acyclic (line_of (workspace_nodes w (dict_set a r d)))"
proof -
  note d' = keyed_set [OF d r]
  show ?thesis
  proof (cases "w = wa_workspace_id r")
    case True
    show ?thesis
    proof (rule acyclic_reparent [OF acyc [of w], of a "wa_reports_to r"])
      show "check_reporting_line a (wa_reports_to r) (workspace_nodes w d) = None" using ok True by simp
    next
      fix x y assume "parent_of (workspace_nodes w (dict_set a r d)) x = Some y"
      then show "(x = a \<and> wa_reports_to r = Some y) \<or> (x \<noteq> a \<and> parent_of (workspace_nodes w d) x = Some y)"
        by (auto simp: workspace_parent [OF d'] workspace_parent [OF d] split: if_splits)
    qed
  next
    case False
    have "line_of (workspace_nodes w (dict_set a r d)) \<subseteq> line_of (workspace_nodes w d)"
      using False by (auto simp: workspace_parent [OF d'] workspace_parent [OF d] split: if_splits)
    then show ?thesis by (rule acyclic_subset [OF acyc])
  qed
qed

lemma find_pin_None:
  assumes "keyed wa_assignment_id d"
    and "List.find (same_pin w k s v h) (dict_values d) = None" and "dict_get d a = Some r"
  shows "assignment_pin r \<noteq> (w, k, s, v, h)"
  using assms dict_get_values [OF assms(3)] unfolding find_None_all same_pin_iff by blast

lemma find_pin_Some:
  assumes "keyed wa_assignment_id d" and "List.find (same_pin w k s v h) (dict_values d) = Some x"
  shows "assignment_pin x = (w, k, s, v, h)" "dict_get d (wa_assignment_id x) = Some x"
proof -
  from assms(2) have "x \<in> set (dict_values d)" "same_pin w k s v h x"
    using find_Some_iff_mem by fastforce+
  with assms(1) show "assignment_pin x = (w, k, s, v, h)" "dict_get d (wa_assignment_id x) = Some x"
    by (auto simp: same_pin_iff keyed_mem simp del: set_map)
qed

text \<open>A successful \<open>create_assignment\<close>: what it checked and what it wrote.\<close>

lemma create_assignment_ok:
  assumes "create_assignment w k s v h b rt ai ei m fresh now st = Inr (r, st')"
  shows "assignment_pin r = (w, k, s, v, h) \<and> wa_status r = ''ACTIVE'' \<and> wa_retired_at r = None \<and>
         uuid_or rt None Some = Some (wa_reports_to r) \<and>
         check_reporting_line (wa_assignment_id r) (wa_reports_to r) (workspace_nodes w (wst_assignments st)) = None \<and>
         st' = st\<lparr>wst_assignments := dict_set (wa_assignment_id r) r (wst_assignments st)\<rparr> \<and>
         (\<exists>eid. assignable_employee w ei st = Inr eid \<and> (eid \<noteq> None \<longrightarrow> wa_agent_instance_id r = eid)) \<and>
         (case List.find (same_pin w k s v h) (dict_values (wst_assignments st)) of
            Some x \<Rightarrow> wa_assignment_id r = wa_assignment_id x \<and> wa_created_at r = wa_created_at x
          | None \<Rightarrow> uuid_or ai fresh id = Some (wa_assignment_id r) \<and> wa_created_at r = now)"
proof -
  let ?d = "wst_assignments st"
  obtain rid where rid: "uuid_or rt None Some = Some rid"
    using assms by (cases "uuid_or rt None Some") (simp_all add: create_assignment_def)
  obtain eid where eid: "assignable_employee w ei st = Inr eid"
    using assms by (cases "assignable_employee w ei st") (simp_all add: create_assignment_def rid)
  show ?thesis
  proof (cases "List.find (same_pin w k s v h) (dict_values ?d)")
    case (Some x)
    have "check_reporting_line (wa_assignment_id x) rid (workspace_nodes w ?d) = None"
      using assms Some
      by (cases "check_reporting_line (wa_assignment_id x) rid (workspace_nodes w ?d)")
        (simp_all add: create_assignment_def rid eid list_assignments_nodes)
    with assms Some show ?thesis
      by (cases eid) (auto simp: create_assignment_def rid eid list_assignments_nodes Let_def assignment_pin_def)
  next
    case None
    obtain aid where aid: "uuid_or ai fresh id = Some aid"
      using assms None by (cases "uuid_or ai fresh id") (simp_all add: create_assignment_def rid eid)
    have "check_reporting_line aid rid (workspace_nodes w ?d) = None"
      using assms None
      by (cases "check_reporting_line aid rid (workspace_nodes w ?d)")
        (simp_all add: create_assignment_def rid eid aid list_assignments_nodes)
    with assms None show ?thesis
      by (auto simp: create_assignment_def rid eid aid list_assignments_nodes Let_def assignment_pin_def)
  qed
qed

lemma create_assignment_inv:
  assumes inv: "assignments_inv (wst_assignments st)"
    and eq: "create_assignment w k s v h b rt ai ei m fresh now st = Inr (r, st')"
  shows "assignments_inv (wst_assignments st')"
proof -
  let ?d = "wst_assignments st" and ?a = "wa_assignment_id r"
  from inv have d: "keyed wa_assignment_id ?d" and u: "unique_by assignment_pin ?d"
    and acyc: "\<And>w. acyclic (line_of (workspace_nodes w ?d))"
    by (auto simp: assignments_inv_def)
  note ok = create_assignment_ok [OF eq]
  from ok have pin: "assignment_pin r = (w, k, s, v, h)" and st': "wst_assignments st' = dict_set ?a r ?d"
    and chk: "check_reporting_line ?a (wa_reports_to r) (workspace_nodes (wa_workspace_id r) ?d) = None"
    by (auto simp: assignment_pin_def)
  have "unique_by assignment_pin (dict_set ?a r ?d)"
  proof (cases "List.find (same_pin w k s v h) (dict_values ?d)")
    case (Some x)
    then have "?a = wa_assignment_id x" using ok by simp
    then show ?thesis using unique_by_set_same [OF u] find_pin_Some [OF d Some] pin by simp
  next
    case None
    with pin show ?thesis using find_pin_None [OF d None] by (intro unique_by_set_new [OF u]) auto
  qed
  moreover have "acyclic (line_of (workspace_nodes w' (dict_set ?a r ?d)))" for w'
    by (rule assignments_acyclic_set [OF d acyc refl chk])
  ultimately show ?thesis using d unfolding assignments_inv_def st' by simp
qed

lemma retire_assignment_inv:
  assumes inv: "assignments_inv (wst_assignments st)" and eq: "retire_assignment w a now st = Inr (r, st')"
  shows "assignments_inv (wst_assignments st')"
proof (cases "wst_assignments st' = wst_assignments st")
  case True
  with inv show ?thesis by simp
next
  case False
  let ?d = "wst_assignments st"
  from inv have d: "keyed wa_assignment_id ?d" and u: "unique_by assignment_pin ?d"
    and acyc: "\<And>w. acyclic (line_of (workspace_nodes w ?d))"
    by (auto simp: assignments_inv_def)
  from eq obtain aid where aid: "uuid_of a = Some aid"
    by (cases "uuid_of a") (simp_all add: retire_assignment_def)
  from eq False obtain x where x: "dict_get ?d aid = Some x"
    by (cases "dict_get ?d aid") (auto simp: retire_assignment_def aid)
  from eq False have "wa_workspace_id x = w"
    by (cases "wa_workspace_id x = w") (auto simp: retire_assignment_def aid x)
  with eq have st': "wst_assignments st' = dict_set aid (x\<lparr>wa_status := ''RETIRED'', wa_retired_at := Some now\<rparr>) ?d"
    by (auto simp: retire_assignment_def aid x Let_def)
  let ?r = "x\<lparr>wa_status := ''RETIRED'', wa_retired_at := Some now\<rparr>"
  have d': "keyed wa_assignment_id (dict_set aid ?r ?d)" using d keyed_get [OF d x] by simp
  have "unique_by assignment_pin (dict_set aid ?r ?d)"
    by (rule unique_by_set_same [OF u x]) (simp add: assignment_pin_def)
  moreover have "acyclic (line_of (workspace_nodes w' (dict_set aid ?r ?d)))" for w'
  proof (rule acyclic_subset [OF acyc])
    show "line_of (workspace_nodes w' (dict_set aid ?r ?d)) \<subseteq> line_of (workspace_nodes w' ?d)"
      using x by (auto simp: workspace_parent [OF d'] workspace_parent [OF d] split: if_splits)
  qed
  ultimately show ?thesis using d' unfolding assignments_inv_def st' by simp
qed

subsection \<open>The records are well typed\<close>

definition employee_typed :: "workforce_employee \<Rightarrow> bool" where
  "employee_typed e \<longleftrightarrow>
     (we_status e = ''ACTIVE'' \<and> we_suspended_at e = None \<and> we_retired_at e = None) \<or>
     (we_status e = ''SUSPENDED'' \<and> we_suspended_at e \<noteq> None) \<or>
     (we_status e = ''RETIRED'' \<and> we_retired_at e \<noteq> None)"

definition assignment_typed :: "workforce_assignment \<Rightarrow> bool" where
  "assignment_typed a \<longleftrightarrow>
     (wa_status a = ''ACTIVE'' \<and> wa_retired_at a = None) \<or> (wa_status a = ''RETIRED'' \<and> wa_retired_at a \<noteq> None)"

definition schedule_typed :: "workforce_schedule \<Rightarrow> bool" where
  "schedule_typed s \<longleftrightarrow> ws_status s = ''ACTIVE'' \<and> ws_retired_at s = None"

definition signal_typed :: "runtime_signal \<Rightarrow> bool" where
  "signal_typed s \<longleftrightarrow> 0 \<le> rs_attempt_count s \<and>
     ((rs_state_delivery s = ''PENDING'' \<and> rs_delivered_at s = None) \<or>
      (rs_state_delivery s = ''DELIVERED'' \<and> rs_delivered_at s \<noteq> None))"

definition binding_typed :: "outcome_analysis_binding \<Rightarrow> bool" where
  "binding_typed b \<longleftrightarrow> 1 \<le> ob_version b"

definition workforce_typed :: "workforce_store \<Rightarrow> bool" where
  "workforce_typed st \<longleftrightarrow>
     keyed we_agent_instance_id (wst_employees st) \<and> all_records employee_typed (wst_employees st) \<and>
     keyed wa_assignment_id (wst_assignments st) \<and> all_records assignment_typed (wst_assignments st) \<and>
     keyed ws_schedule_id (wst_schedules st) \<and> all_records schedule_typed (wst_schedules st) \<and>
     keyed rs_outbox_id (wst_outbox st) \<and> all_records signal_typed (wst_outbox st) \<and>
     keyed (\<lambda>b. (ob_workspace_id b, ob_analysis_kind b)) (wst_bindings st) \<and>
     all_records binding_typed (wst_bindings st)"

named_theorems typed_intros \<open>the writes that keep the store typed\<close>

lemma typed_employee [typed_intros]:
  "workforce_typed st \<Longrightarrow> we_agent_instance_id e = k \<Longrightarrow> employee_typed e \<Longrightarrow>
   workforce_typed (st\<lparr>wst_employees := dict_set k e (wst_employees st)\<rparr>)"
  by (simp add: workforce_typed_def)

lemma typed_assignment [typed_intros]:
  "workforce_typed st \<Longrightarrow> wa_assignment_id a = k \<Longrightarrow> assignment_typed a \<Longrightarrow>
   workforce_typed (st\<lparr>wst_assignments := dict_set k a (wst_assignments st)\<rparr>)"
  by (simp add: workforce_typed_def)

lemma typed_schedule [typed_intros]:
  "workforce_typed st \<Longrightarrow> ws_schedule_id s = k \<Longrightarrow> schedule_typed s \<Longrightarrow>
   workforce_typed (st\<lparr>wst_schedules := dict_set k s (wst_schedules st)\<rparr>)"
  by (simp add: workforce_typed_def)

lemma typed_signal [typed_intros]:
  "workforce_typed st \<Longrightarrow> rs_outbox_id s = k \<Longrightarrow> signal_typed s \<Longrightarrow>
   workforce_typed (st\<lparr>wst_outbox := dict_set k s (wst_outbox st)\<rparr>)"
  by (simp add: workforce_typed_def)

lemma typed_binding [typed_intros]:
  "workforce_typed st \<Longrightarrow> (ob_workspace_id b, ob_analysis_kind b) = k \<Longrightarrow> binding_typed b \<Longrightarrow>
   workforce_typed (st\<lparr>wst_bindings := dict_set k b (wst_bindings st)\<rparr>)"
  by (auto simp: workforce_typed_def)

lemma typed_cost [typed_intros]:
  "workforce_typed st \<Longrightarrow> workforce_typed (st\<lparr>wst_cost_observations := cs\<rparr>)"
  by (simp add: workforce_typed_def)

lemma typed_lookup:
  assumes "workforce_typed st"
  shows "dict_get (wst_employees st) k = Some e \<Longrightarrow> we_agent_instance_id e = k \<and> employee_typed e"
    and "dict_get (wst_assignments st) k = Some a \<Longrightarrow> wa_assignment_id a = k \<and> assignment_typed a"
    and "dict_get (wst_outbox st) k = Some s \<Longrightarrow> rs_outbox_id s = k \<and> signal_typed s"
    and "dict_get (wst_bindings st) k' = Some b \<Longrightarrow> binding_typed b"
  using assms by (auto simp: workforce_typed_def dest: keyed_get all_records_get)

lemma create_employee_typed:
  assumes "workforce_typed st"
  shows "workforce_typed (store_after (create_employee w c d b i fresh now st) st)"
  using assms
  by (cases "uuid_or i fresh id")
     (auto simp: create_employee_def Let_def employee_typed_def intro!: typed_intros)

lemma set_employee_lifecycle_typed:
  assumes "workforce_typed st" and "status = ''SUSPENDED'' \<or> status = ''RETIRED''"
  shows "workforce_typed (snd (set_employee_lifecycle w i status now st))"
proof (cases "\<exists>eid e. uuid_of i = Some eid \<and> dict_get (wst_employees st) eid = Some e \<and> we_workspace_id e = w")
  case True
  then obtain eid e where e: "uuid_of i = Some eid" "dict_get (wst_employees st) eid = Some e" "we_workspace_id e = w"
    by blast
  then show ?thesis
    using assms typed_lookup(1) [OF assms(1) e(2)]
    by (auto simp: set_employee_lifecycle_def Let_def employee_typed_def intro!: typed_intros)
next
  case False
  then have "snd (set_employee_lifecycle w i status now st) = st"
    by (auto simp: set_employee_lifecycle_def split: option.splits)
  with assms show ?thesis by simp
qed

lemma create_schedule_typed:
  assumes "workforce_typed st"
  shows "workforce_typed (store_after (create_schedule w n k c p b i fresh now st) st)"
  using assms
  by (cases "uuid_or i fresh id")
     (auto simp: create_schedule_def Let_def schedule_typed_def intro!: typed_intros)

lemma upsert_binding_typed:
  assumes "workforce_typed st"
  shows "workforce_typed (snd (upsert_outcome_analysis_binding w k e a p s v h st))"
  using assms typed_lookup(4) [OF assms, of "(w, k)"]
  by (cases "dict_get (wst_bindings st) (w, k)")
     (auto simp: upsert_outcome_analysis_binding_def Let_def binding_typed_def intro!: typed_intros)

lemma record_cost_typed:
  assumes "workforce_typed st"
  shows "workforce_typed (store_after (record_cost_observation w r p m t i out c u oid fresh st) st)"
  using assms
  by (cases "uuid_or oid fresh id")
     (auto simp: record_cost_observation_def Let_def intro!: typed_intros)

lemma enqueue_signal_typed:
  assumes "workforce_typed st"
  shows "workforce_typed (store_after (enqueue_runtime_signal sha w k i q s t c h oid fresh now st) st)"
proof (cases "List.find (same_signal w k i q) (dict_values (wst_outbox st))")
  case (Some x)
  with assms show ?thesis by (simp add: enqueue_runtime_signal_def)
next
  case None
  with assms show ?thesis
    by (cases "uuid_or oid fresh id")
       (auto simp: enqueue_runtime_signal_def Let_def signal_typed_def intro!: typed_intros)
qed

lemma mark_signal_typed:
  assumes "workforce_typed st"
  shows "workforce_typed (mark_signal_delivered oid t st)" "workforce_typed (mark_signal_failed oid t st)"
  using assms typed_lookup(3) [OF assms, of oid]
  by (cases "dict_get (wst_outbox st) oid";
      auto simp: mark_signal_delivered_def mark_signal_failed_def signal_typed_def intro!: typed_intros)+

lemma deliver_signals_typed:
  "workforce_typed st \<Longrightarrow> workforce_typed (snd (deliver_signals http clock ss (n, st)))"
  by (induction ss arbitrary: n st) (simp_all add: mark_signal_typed)


lemma create_assignment_typed:
  assumes "workforce_typed st"
  shows "workforce_typed (store_after (create_assignment w k s v h b rt ai ei m fresh now st) st)"
proof (cases "create_assignment w k s v h b rt ai ei m fresh now st")
  case (Inl e)
  with assms show ?thesis by simp
next
  case (Inr p)
  obtain r st' where p: "p = (r, st')" by (cases p)
  from create_assignment_ok [OF Inr [unfolded p]]
  have "st' = st\<lparr>wst_assignments := dict_set (wa_assignment_id r) r (wst_assignments st)\<rparr>" "assignment_typed r"
    by (simp_all add: assignment_typed_def)
  with assms show ?thesis unfolding Inr p by (auto intro!: typed_intros)
qed

lemma retire_assignment_typed:
  assumes "workforce_typed st"
  shows "workforce_typed (store_after (retire_assignment w a now st) st)"
proof (cases "uuid_of a")
  case None
  with assms show ?thesis by (simp add: retire_assignment_def)
next
  case (Some aid)
  then show ?thesis
    using assms typed_lookup(2) [OF assms, of aid]
    by (cases "dict_get (wst_assignments st) aid")
       (auto simp: retire_assignment_def Let_def assignment_typed_def intro!: typed_intros)
qed

lemma workforce_step_typed: "workforce_typed st \<Longrightarrow> workforce_typed (workforce_step op st)"
  by (cases op)
     (simp_all add: create_employee_typed set_employee_lifecycle_typed suspend_employee_def retire_employee_def
        create_schedule_typed create_assignment_typed retire_assignment_typed upsert_binding_typed
        record_cost_typed enqueue_signal_typed mark_signal_typed deliver_due_def deliver_signals_typed)

interpretation wf_typed: state_machine workforce_step "\<lambda>_ _. True" workforce_typed
  by unfold_locales (rule workforce_step_typed)

lemma workforce_typed_empty: "workforce_typed empty_workforce"
  by (simp add: workforce_typed_def empty_workforce_def)

subsection \<open>Lines, codes and pins over all requests\<close>

definition workforce_inv :: "workforce_store \<Rightarrow> bool" where
  "workforce_inv st \<longleftrightarrow> assignments_inv (wst_assignments st) \<and>
     unique_by (\<lambda>e. (we_workspace_id e, we_employee_code e)) (wst_employees st)"

lemma create_employee_code:
  assumes "unique_by (\<lambda>e. (we_workspace_id e, we_employee_code e)) (wst_employees st)"
  shows "unique_by (\<lambda>e. (we_workspace_id e, we_employee_code e))
           (wst_employees (store_after (create_employee w c n b i fresh now st) st))"
proof (cases "create_employee w c n b i fresh now st")
  case (Inl e)
  with assms show ?thesis by simp
next
  case (Inr p)
  have new: "\<not> (\<exists>e \<in> set (dict_values (wst_employees st)). we_workspace_id e = w \<and> we_employee_code e = c)"
    using Inr unfolding create_employee_def by (metis sum.distinct(1))
  note Inr' = Inr [unfolded create_employee_def if_not_P [OF new]]
  then obtain eid where "uuid_or i fresh id = Some eid"
    by (cases "uuid_or i fresh id") simp_all
  with Inr' have e: "we_workspace_id (fst p) = w" "we_employee_code (fst p) = c"
    and p: "snd p = st\<lparr>wst_employees := dict_set eid (fst p) (wst_employees st)\<rparr>"
    by (auto simp: Let_def)
  have "unique_by (\<lambda>e. (we_workspace_id e, we_employee_code e)) (dict_set eid (fst p) (wst_employees st))"
    by (rule unique_by_set_new [OF assms]) (use new e in \<open>blast dest: dict_get_values\<close>)
  with Inr p show ?thesis by (cases p) simp
qed

lemma set_employee_lifecycle_code:
  assumes "unique_by (\<lambda>e. (we_workspace_id e, we_employee_code e)) (wst_employees st)"
  shows "unique_by (\<lambda>e. (we_workspace_id e, we_employee_code e))
           (wst_employees (snd (set_employee_lifecycle w i status now st)))"
proof (cases "\<exists>eid e. uuid_of i = Some eid \<and> dict_get (wst_employees st) eid = Some e \<and> we_workspace_id e = w")
  case True
  then obtain eid e where e: "uuid_of i = Some eid" "dict_get (wst_employees st) eid = Some e" "we_workspace_id e = w"
    by blast
  then show ?thesis
    by (auto simp: set_employee_lifecycle_def Let_def intro!: unique_by_set_same [OF assms e(2)])
next
  case False
  then have "snd (set_employee_lifecycle w i status now st) = st"
    by (auto simp: set_employee_lifecycle_def split: option.splits)
  with assms show ?thesis by simp
qed


text \<open>The operations on schedules, bindings, costs and signals leave employees and assignments
  alone.\<close>

definition same_people :: "workforce_store \<Rightarrow> workforce_store \<Rightarrow> bool" where
  "same_people st st' \<longleftrightarrow> wst_employees st' = wst_employees st \<and> wst_assignments st' = wst_assignments st"

lemma mark_signal_people [simp]:
  "wst_employees (mark_signal_delivered oid t st) = wst_employees st"
  "wst_assignments (mark_signal_delivered oid t st) = wst_assignments st"
  "wst_employees (mark_signal_failed oid t st) = wst_employees st"
  "wst_assignments (mark_signal_failed oid t st) = wst_assignments st"
  by (simp_all add: mark_signal_delivered_def mark_signal_failed_def split: option.splits)

lemma deliver_signals_people [simp]:
  "wst_employees (snd (deliver_signals http clock ss (n, st))) = wst_employees st"
  "wst_assignments (snd (deliver_signals http clock ss (n, st))) = wst_assignments st"
  by (induction ss arbitrary: n st) simp_all

lemma other_operations_people:
  "same_people st (store_after (create_schedule w n k c p b i fresh now st) st)"
  "same_people st (snd (upsert_outcome_analysis_binding w k e a pol s v h st))"
  "same_people st (store_after (record_cost_observation w r prov m t inp out cost u oid fresh st) st)"
  "same_people st (store_after (enqueue_runtime_signal sha w k src q s t cid ph oid fresh now st) st)"
  by (auto simp: same_people_def create_schedule_def upsert_outcome_analysis_binding_def
        record_cost_observation_def enqueue_runtime_signal_def Let_def store_after_def split: option.splits)

lemma same_people_inv: "same_people st st' \<Longrightarrow> workforce_inv st \<Longrightarrow> workforce_inv st'"
  by (simp add: same_people_def workforce_inv_def)

lemma set_employee_lifecycle_assignments [simp]:
  "wst_assignments (snd (set_employee_lifecycle w i status now st)) = wst_assignments st"
  by (simp add: set_employee_lifecycle_def Let_def split: option.splits)

lemma create_employee_assignments [simp]:
  "wst_assignments (store_after (create_employee w c n b i fresh now st) st) = wst_assignments st"
  by (simp add: create_employee_def Let_def store_after_def del: set_map split: option.splits)

lemma assignment_operations_employees [simp]:
  "wst_employees (store_after (create_assignment w k s v h b rt ai ei m fresh now st) st) = wst_employees st"
  "wst_employees (store_after (retire_assignment w a now st) st) = wst_employees st"
proof -
  show "wst_employees (store_after (create_assignment w k s v h b rt ai ei m fresh now st) st) = wst_employees st"
    using create_assignment_ok [of w k s v h b rt ai ei m fresh now st]
    by (cases "create_assignment w k s v h b rt ai ei m fresh now st") (simp, fastforce)
  show "wst_employees (store_after (retire_assignment w a now st) st) = wst_employees st"
    by (simp add: retire_assignment_def Let_def store_after_def split: option.splits)
qed

lemma workforce_step_inv: "workforce_inv st \<Longrightarrow> workforce_inv (workforce_step op st)"
proof (cases op)
  case (OpCreateAssignment w k s v h b rt ai ei m fresh now)
  assume inv: "workforce_inv st"
  show ?thesis
  proof (cases "create_assignment w k s v h b rt ai ei m fresh now st")
    case (Inl e)
    with inv OpCreateAssignment show ?thesis by simp
  next
    case (Inr p)
    have "wst_employees (snd p) = wst_employees st"
      using assignment_operations_employees(1) [of w k s v h b rt ai ei m fresh now st] Inr by (cases p) simp
    moreover have "assignments_inv (wst_assignments (snd p))"
      using create_assignment_inv [of st w k s v h b rt ai ei m fresh now "fst p" "snd p"] Inr inv
      by (simp add: workforce_inv_def)
    ultimately show ?thesis
      using Inr inv OpCreateAssignment by (cases p) (simp add: workforce_inv_def)
  qed
next
  case (OpRetireAssignment w a now)
  assume inv: "workforce_inv st"
  show ?thesis
  proof (cases "retire_assignment w a now st")
    case (Inl e)
    with inv OpRetireAssignment show ?thesis by simp
  next
    case (Inr p)
    have "wst_employees (snd p) = wst_employees st"
      using assignment_operations_employees(2) [of w a now st] Inr by (cases p) simp
    moreover have "assignments_inv (wst_assignments (snd p))"
      using retire_assignment_inv [of st w a now "fst p" "snd p"] Inr inv by (simp add: workforce_inv_def)
    ultimately show ?thesis
      using Inr inv OpRetireAssignment by (cases p) (simp add: workforce_inv_def)
  qed
qed (auto simp: workforce_inv_def create_employee_code suspend_employee_def retire_employee_def
        set_employee_lifecycle_code deliver_due_def other_operations_people [unfolded same_people_def])

interpretation wf_lines: state_machine workforce_step "\<lambda>_ _. True" workforce_inv
  by unfold_locales (rule workforce_step_inv)

lemma workforce_inv_empty: "workforce_inv empty_workforce"
  by (simp add: workforce_inv_def assignments_inv_def empty_workforce_def workspace_nodes_def nodes_of_def
      line_of_def parent_of_def acyclic_def)


subsection \<open>The chain of managers that the repository resolves\<close>

lemma lookup_all_Some:
  "(\<And>k. k \<in> set ks \<Longrightarrow> \<exists>v. dict_get d k = Some v \<and> key v = k) \<Longrightarrow> \<exists>vs. lookup_all d ks = Some vs \<and> map key vs = ks"
proof (induction ks)
  case (Cons k ks)
  then obtain v vs where "dict_get d k = Some v" "key v = k" "lookup_all d ks = Some vs" "map key vs = ks"
    by (metis list.set_intros)
  then show ?case by simp
qed simp

lemma active_line_nodes: "x \<in> set (active_line n nodes c) \<Longrightarrow> \<exists>node. dict_get nodes x = Some node \<and> snd node = ''ACTIVE''"
proof (induction n nodes c rule: active_line.induct)
  case (3 n nodes c)
  then show ?case by (cases "dict_get nodes c") (auto split: if_splits)
qed simp_all

lemma resolve_manager_chain_active_line:
  assumes inv: "assignments_inv (wst_assignments st)"
    and nodes_def: "nodes = workspace_nodes w (wst_assignments st)"
  shows "\<exists>rs. resolve_manager_chain w (GoodUuid a) m st = Inr rs \<and>
              map wa_assignment_id rs = active_line (nat m) nodes (parent_of nodes a)"
proof -
  let ?rs = "list_assignments w None st"
  let ?by_id = "fold (\<lambda>r d. dict_set (wa_assignment_id r) r d) ?rs []"
  from inv have d: "keyed wa_assignment_id (wst_assignments st)" and acyc: "acyclic (line_of nodes)"
    by (auto simp: assignments_inv_def nodes_def)
  have dist: "distinct (map wa_assignment_id ?rs)"
    unfolding list_assignments_def by (rule keyed_distinct [OF d])
  have by_id: "\<exists>r. dict_get ?by_id x = Some r \<and> wa_assignment_id r = x" if "dict_get nodes x = Some node" for x node
  proof -
    from that obtain r where r: "dict_get (wst_assignments st) x = Some r" "wa_workspace_id r = w"
      unfolding nodes_def workspace_nodes_get [OF d] by (auto split: option.splits if_splits)
    then have "dict_get ?by_id x = Some r"
      using fold_dict_set_get [OF dist, of "\<lambda>r. r" "[]" x]
        keyed_find [OF d, of x "\<lambda>a. wa_workspace_id a = w"]
      by (simp add: list_assignments_def)
    with keyed_get [OF d r(1)] show ?thesis by blast
  qed
  let ?chain = "active_line (nat m) nodes (parent_of nodes a)"
  have "\<exists>rs. lookup_all ?by_id ?chain = Some rs \<and> map wa_assignment_id rs = ?chain"
    by (rule lookup_all_Some) (use active_line_nodes by_id in blast)
  moreover have "manager_chain (nodes_of ?rs) a m = ?chain"
    unfolding list_assignments_nodes nodes_def [symmetric] by (rule manager_chain_active_line [OF acyc])
  ultimately show ?thesis by (auto simp: resolve_manager_chain_def Let_def)
qed

subsection \<open>The attempts to publish a signal\<close>

definition signal_after :: "(runtime_signal \<Rightarrow> http_result) \<Rightarrow> (runtime_signal \<Rightarrow> datetime) \<Rightarrow> runtime_signal \<Rightarrow> runtime_signal" where
  "signal_after http clock s =
     (if http_ok (http s) then s\<lparr>rs_state_delivery := ''DELIVERED'', rs_delivered_at := Some (clock s)\<rparr>
      else s\<lparr>rs_state_delivery := ''PENDING'', rs_attempt_count := rs_attempt_count s + 1,
              rs_next_attempt_at := clock s + signal_backoff (rs_attempt_count s), rs_delivered_at := None\<rparr>)"

lemma mark_signal_outbox:
  "dict_get (wst_outbox st) oid = Some r \<Longrightarrow>
     wst_outbox (mark_signal_delivered oid t st) =
       dict_set oid (r\<lparr>rs_state_delivery := ''DELIVERED'', rs_delivered_at := Some t\<rparr>) (wst_outbox st)"
  "dict_get (wst_outbox st) oid = Some r \<Longrightarrow>
     wst_outbox (mark_signal_failed oid t st) =
       dict_set oid (r\<lparr>rs_state_delivery := ''PENDING'', rs_attempt_count := rs_attempt_count r + 1,
                       rs_next_attempt_at := t, rs_delivered_at := None\<rparr>) (wst_outbox st)"
  by (simp_all add: mark_signal_delivered_def mark_signal_failed_def)

lemma deliver_signals_get:
  assumes "distinct (map rs_outbox_id ss)"
    and "\<And>s. s \<in> set ss \<Longrightarrow> dict_get (wst_outbox st) (rs_outbox_id s) = Some s"
  shows "dict_get (wst_outbox (snd (deliver_signals http clock ss (n, st)))) u =
         (case List.find (\<lambda>s. rs_outbox_id s = u) ss of
            None \<Rightarrow> dict_get (wst_outbox st) u | Some s \<Rightarrow> Some (signal_after http clock s))"
  using assms
proof (induction ss arbitrary: n st)
  case (Cons s ss)
  let ?st = "if http_ok (http s) then mark_signal_delivered (rs_outbox_id s) (clock s) st
             else mark_signal_failed (rs_outbox_id s) (clock s + signal_backoff (rs_attempt_count s)) st"
  have s: "dict_get (wst_outbox st) (rs_outbox_id s) = Some s" using Cons.prems by simp
  have out: "wst_outbox ?st = dict_set (rs_outbox_id s) (signal_after http clock s) (wst_outbox st)"
    by (simp add: mark_signal_outbox [OF s] signal_after_def)
  have fresh: "rs_outbox_id s \<notin> rs_outbox_id ` set ss" using Cons.prems by simp
  have "dict_get (wst_outbox ?st) (rs_outbox_id t) = Some t" if "t \<in> set ss" for t
    unfolding out using that fresh Cons.prems(2) by (auto simp: image_iff)
  moreover have "snd (deliver_signals http clock (s # ss) (n, st)) =
      snd (deliver_signals http clock ss (if http_ok (http s) then n + 1 else n, ?st))"
    by simp
  moreover have "distinct (map rs_outbox_id ss)" using Cons.prems(1) by simp
  ultimately have step: "dict_get (wst_outbox (snd (deliver_signals http clock (s # ss) (n, st)))) u =
      (case List.find (\<lambda>s. rs_outbox_id s = u) ss of
         None \<Rightarrow> dict_get (wst_outbox ?st) u | Some s \<Rightarrow> Some (signal_after http clock s))"
    using Cons.IH by metis
  note step [unfolded out]
  moreover have "List.find (\<lambda>t. rs_outbox_id t = rs_outbox_id s) ss = None"
    using fresh unfolding find_None_all by (metis image_eqI)
  ultimately show ?case
    by (cases "rs_outbox_id s = u"; cases "List.find (\<lambda>s. rs_outbox_id s = u) ss")
      (auto simp del: deliver_signals.simps)
qed simp


text \<open>The store together with the log of the posts to the company service and their success.
  Only the publisher settles signals, with one \<open>max_attempts\<close>, and a new signal gets an id that
  no signal has.\<close>

type_synonym publish_world = "workforce_store \<times> (uuid \<times> bool) list"

fun posts_of :: "workforce_op \<Rightarrow> workforce_store \<Rightarrow> (uuid \<times> bool) list" where
  "posts_of (OpDeliverDue http clock limit m now) st =
     map (\<lambda>s. (rs_outbox_id s, http_ok (http s))) (claim_pending_signals limit m now st)"
| "posts_of _ st = []"

definition publish_step :: "workforce_op \<Rightarrow> publish_world \<Rightarrow> publish_world" where
  "publish_step op w = (workforce_step op (fst w), snd w @ posts_of op (fst w))"

fun publish_guard :: "int \<Rightarrow> workforce_op \<Rightarrow> publish_world \<Rightarrow> bool" where
  "publish_guard M (OpMarkDelivered _ _) w = False"
| "publish_guard M (OpMarkFailed _ _) w = False"
| "publish_guard M (OpDeliverDue _ _ _ m _) w = (m = M)"
| "publish_guard M (OpEnqueueSignal _ _ _ _ _ _ _ _ _ oid fresh _) w =
     (case uuid_or oid fresh id of None \<Rightarrow> True | Some k \<Rightarrow> dict_get (wst_outbox (fst w)) k = None)"
| "publish_guard M _ w = True"

definition signal_posts :: "int \<Rightarrow> runtime_signal option \<Rightarrow> nat \<Rightarrow> nat \<Rightarrow> bool" where
  "signal_posts M r failed delivered \<longleftrightarrow>
     (case r of
        None \<Rightarrow> failed = 0 \<and> delivered = 0
      | Some s \<Rightarrow> int failed = rs_attempt_count s \<and>
          delivered = (if rs_state_delivery s = ''DELIVERED'' then 1 else 0) \<and> int (failed + delivered) \<le> max 0 M)"

definition publish_inv :: "int \<Rightarrow> publish_world \<Rightarrow> bool" where
  "publish_inv M w \<longleftrightarrow> keyed rs_outbox_id (wst_outbox (fst w)) \<and>
     (\<forall>u. signal_posts M (dict_get (wst_outbox (fst w)) u) (count_list (snd w) (u, False)) (count_list (snd w) (u, True)))"

lemma count_list_tagged:
  "distinct (map f ss) \<Longrightarrow>
   count_list (map (\<lambda>s. (f s, g s)) ss) (u, b) =
     (case List.find (\<lambda>s. f s = u) ss of None \<Rightarrow> 0 | Some s \<Rightarrow> if g s = b then 1 else 0)"
proof (induction ss)
  case (Cons s ss)
  then have "f s \<notin> f ` set ss" by simp
  then have "List.find (\<lambda>t. f t = f s) ss = None" unfolding find_None_all by (metis image_eqI)
  with Cons show ?case by auto
qed simp

lemma count_list_append [simp]: "count_list (xs @ ys) x = count_list xs x + count_list ys x"
  by (induction xs) simp_all

lemma distinct_map_sort_key: "distinct (map f xs) \<Longrightarrow> distinct (map f (sort_key k xs))"
  by (simp add: distinct_map)

lemma distinct_map_py_take: "distinct (map f xs) \<Longrightarrow> distinct (map f (py_take n xs))"
  by (simp add: py_take_def take_map [symmetric])

lemma claimed_signals:
  assumes "keyed rs_outbox_id (wst_outbox st)"
  shows "distinct (map rs_outbox_id (claim_pending_signals limit m now st))"
    and "s \<in> set (claim_pending_signals limit m now st) \<Longrightarrow>
         dict_get (wst_outbox st) (rs_outbox_id s) = Some s \<and> rs_state_delivery s = ''PENDING'' \<and> rs_attempt_count s < m"
proof -
  have "distinct (map rs_outbox_id (dict_values (wst_outbox st)))"
    using keyed_distinct [OF assms, of "\<lambda>_. True"] by simp
  then have "distinct (map rs_outbox_id (sort_key rs_observed_at (dict_values (wst_outbox st))))"
    by (rule distinct_map_sort_key)
  then show "distinct (map rs_outbox_id (claim_pending_signals limit m now st))"
    unfolding claim_pending_signals_def by (intro distinct_map_py_take distinct_map_filter)
  assume "s \<in> set (claim_pending_signals limit m now st)"
  then have "s \<in> set (dict_values (wst_outbox st))" "rs_state_delivery s = ''PENDING''" "rs_attempt_count s < m"
    unfolding claim_pending_signals_def using set_py_take by fastforce+
  then show "dict_get (wst_outbox st) (rs_outbox_id s) = Some s \<and> rs_state_delivery s = ''PENDING'' \<and> rs_attempt_count s < m"
    using keyed_mem [OF assms] by blast
qed

lemma deliver_signals_keyed:
  "keyed rs_outbox_id (wst_outbox st) \<Longrightarrow> keyed rs_outbox_id (wst_outbox (snd (deliver_signals http clock ss (n, st))))"
proof (induction ss arbitrary: n st)
  case (Cons s ss)
  have "keyed rs_outbox_id (wst_outbox (mark_signal_delivered oid t st))"
       "keyed rs_outbox_id (wst_outbox (mark_signal_failed oid t st))" for oid t
    using Cons.prems
    by (auto simp: mark_signal_delivered_def mark_signal_failed_def intro: keyed_update split: option.splits)
  with Cons.IH show ?case by simp
qed simp

lemma publish_pass:
  assumes "publish_inv M (st, posts)"
  shows "publish_inv M (publish_step (OpDeliverDue http clock limit M now) (st, posts))"
proof -
  let ?ss = "claim_pending_signals limit M now st"
  let ?st = "snd (deliver_signals http clock ?ss (0, st))"
  from assms have keyed: "keyed rs_outbox_id (wst_outbox st)"
    and sent: "\<And>u. signal_posts M (dict_get (wst_outbox st) u) (count_list posts (u, False)) (count_list posts (u, True))"
    by (simp_all add: publish_inv_def)
  note ss = claimed_signals [OF keyed, where limit = limit and m = M and now = now]
  have "signal_posts M (dict_get (wst_outbox ?st) u)
          (count_list posts (u, False) + count_list (posts_of (OpDeliverDue http clock limit M now) st) (u, False))
          (count_list posts (u, True) + count_list (posts_of (OpDeliverDue http clock limit M now) st) (u, True))" for u
  proof (cases "List.find (\<lambda>s. rs_outbox_id s = u) ?ss")
    case None
    with sent [of u] show ?thesis
      by (simp add: deliver_signals_get [OF ss(1)] ss(2) count_list_tagged [OF ss(1)])
  next
    case (Some s)
    then have s: "s \<in> set ?ss" "rs_outbox_id s = u" by (auto dest: find_Some_iff_mem)
    have "dict_get (wst_outbox ?st) u = Some (signal_after http clock s)"
      using Some by (simp add: deliver_signals_get [OF ss(1)] ss(2))
    then show ?thesis
      using sent [of u] ss(2) [OF s(1)] s(2) Some
      by (auto simp: signal_posts_def signal_after_def count_list_tagged [OF ss(1)])
  qed
  with deliver_signals_keyed [OF keyed] show ?thesis
    by (simp add: publish_inv_def publish_step_def deliver_due_def)
qed


lemma enqueue_signal_outbox:
  assumes "publish_guard M (OpEnqueueSignal sha w k i q s t c h oid fresh now) (st, posts)"
  shows "wst_outbox (workforce_step (OpEnqueueSignal sha w k i q s t c h oid fresh now) st) = wst_outbox st \<or>
         (\<exists>u r. dict_get (wst_outbox st) u = None \<and> rs_outbox_id r = u \<and> rs_attempt_count r = 0 \<and>
            rs_state_delivery r = ''PENDING'' \<and>
            wst_outbox (workforce_step (OpEnqueueSignal sha w k i q s t c h oid fresh now) st) =
              dict_set u r (wst_outbox st))"
proof (cases "List.find (same_signal w k i q) (dict_values (wst_outbox st))")
  case (Some x)
  then show ?thesis by (simp add: enqueue_runtime_signal_def)
next
  case None
  show ?thesis
  proof (cases "uuid_or oid fresh id")
    case None
    with \<open>List.find _ _ = None\<close> show ?thesis by (simp add: enqueue_runtime_signal_def)
  next
    case (Some u)
    with assms have "dict_get (wst_outbox st) u = None" by simp
    moreover have "\<exists>r. rs_outbox_id r = u \<and> rs_attempt_count r = 0 \<and> rs_state_delivery r = ''PENDING'' \<and>
        wst_outbox (workforce_step (OpEnqueueSignal sha w k i q s t c h oid fresh now) st) = dict_set u r (wst_outbox st)"
      using Some None by (simp add: enqueue_runtime_signal_def Let_def) (rule exI, auto)
    ultimately show ?thesis by blast
  qed
qed

lemma other_operations_outbox:
  "wst_outbox (store_after (create_employee w c n b i fresh now st) st) = wst_outbox st"
  "wst_outbox (snd (set_employee_lifecycle w arg status now st)) = wst_outbox st"
  "wst_outbox (store_after (create_schedule w n k c p b i fresh now st) st) = wst_outbox st"
  "wst_outbox (store_after (retire_assignment w a now st) st) = wst_outbox st"
  "wst_outbox (snd (upsert_outcome_analysis_binding w k e a' pol s v h st)) = wst_outbox st"
  "wst_outbox (store_after (record_cost_observation w r prov m t inp out cost u oid fresh st) st) = wst_outbox st"
  by (simp_all add: create_employee_def set_employee_lifecycle_def create_schedule_def retire_assignment_def
      upsert_outcome_analysis_binding_def record_cost_observation_def Let_def store_after_def del: set_map
      split: option.splits)

lemma create_assignment_outbox:
  "wst_outbox (store_after (create_assignment w k s v h b rt ai ei m fresh now st) st) = wst_outbox st"
  using create_assignment_ok [of w k s v h b rt ai ei m fresh now st]
  by (cases "create_assignment w k s v h b rt ai ei m fresh now st") (simp, fastforce)

lemma publish_frame:
  "wst_outbox (workforce_step op st) = wst_outbox st \<Longrightarrow> posts_of op st = [] \<Longrightarrow>
   publish_inv M (st, posts) \<Longrightarrow> publish_inv M (publish_step op (st, posts))"
  by (simp add: publish_inv_def publish_step_def)

lemma publish_step_inv:
  assumes inv: "publish_inv M w" and guard: "publish_guard M op w"
  shows "publish_inv M (publish_step op w)"
proof (cases w)
  case w: (Pair st posts)
  show ?thesis
  proof (cases op)
    case (OpDeliverDue http clock limit m now)
    with guard w have "m = M" by simp
    with publish_pass [OF inv [unfolded w]] OpDeliverDue show ?thesis unfolding w by blast
  next
    case (OpEnqueueSignal sha ws k i q s t c h oid fresh now)
    from enqueue_signal_outbox [OF guard [unfolded OpEnqueueSignal w]] show ?thesis
    proof (elim disjE exE conjE)
      assume "wst_outbox (workforce_step (OpEnqueueSignal sha ws k i q s t c h oid fresh now) st) = wst_outbox st"
      then show ?thesis using inv unfolding w OpEnqueueSignal by (intro publish_frame) simp_all
    next
      fix u r
      assume new: "dict_get (wst_outbox st) u = None" "rs_outbox_id r = u" "rs_attempt_count r = 0"
          "rs_state_delivery r = ''PENDING''"
        and out: "wst_outbox (workforce_step (OpEnqueueSignal sha ws k i q s t c h oid fresh now) st) =
            dict_set u r (wst_outbox st)"
      have "signal_posts M None (count_list posts (u, False)) (count_list posts (u, True))"
        using inv new(1) unfolding w publish_inv_def by (metis fst_conv snd_conv)
      then have "signal_posts M (Some r) (count_list posts (u, False)) (count_list posts (u, True))"
        using new by (simp add: signal_posts_def)
      with inv new out show ?thesis
        unfolding w OpEnqueueSignal publish_inv_def publish_step_def by (auto simp del: workforce_step.simps)
    qed
  qed (use guard inv w in \<open>auto intro!: publish_frame
         simp: other_operations_outbox create_assignment_outbox suspend_employee_def retire_employee_def\<close>)
qed

interpretation publisher: state_machine publish_step "publish_guard M" "publish_inv M" for M
  by unfold_locales (rule publish_step_inv)


subsection \<open>Properties\<close>

text \<open>C20. Reporting lines have no cycle. Whatever requests reach the workforce repository, in whatever
  order, starting from the empty store: in no workspace does a chain of managers return to its
  start, two assignments never carry the same pinned spec and two employees of a workspace never
  share a code; and the chain that \<open>resolve_manager_chain\<close> returns is exactly the path of active
  managers above the assignment within the workspace, cut at \<open>max_hops\<close>. It is not claimed that a manager
  stays in the workspace: an assignment created elsewhere under the same identifier replaces it.\<close>

theorem reporting_lines_acyclic:
  shows "let st = fold workforce_step ops empty_workforce;
             nodes = workspace_nodes w (wst_assignments st) in
         acyclic (line_of nodes) \<and>
         unique_by assignment_pin (wst_assignments st) \<and>
         unique_by (\<lambda>e. (we_workspace_id e, we_employee_code e)) (wst_employees st) \<and>
         (\<exists>rs. resolve_manager_chain w (GoodUuid a) m st = Inr rs \<and>
               map wa_assignment_id rs = active_line (nat m) nodes (parent_of nodes a))"
proof -
  let ?st = "fold workforce_step ops empty_workforce"
  have "workforce_inv ?st" by (rule wf_lines.run_inv [OF workforce_inv_empty]) simp
  then have "assignments_inv (wst_assignments ?st)"
    "unique_by (\<lambda>e. (we_workspace_id e, we_employee_code e)) (wst_employees ?st)"
    by (simp_all add: workforce_inv_def)
  then show ?thesis
    using resolve_manager_chain_active_line [of ?st _ w a m, OF _ refl]
    by (simp add: assignments_inv_def Let_def)
qed

text \<open>The case left open: assignment 2 of workspace A reports to assignment 1; creating assignment 1 in
  workspace B overwrites A's record, and 2 now reports to an assignment of another workspace.\<close>

definition reused_identifier :: "workforce_error + workforce_store" where
  "reused_identifier =
     (case create_assignment ''A'' ''ceo'' ''s1'' ''1'' ''h1'' ''alice'' None (Some (GoodUuid 1)) None None 7 0 empty_workforce of
        Inl e \<Rightarrow> Inl e
      | Inr (_, st1) \<Rightarrow>
          (case create_assignment ''A'' ''cfo'' ''s2'' ''1'' ''h2'' ''alice'' (Some (GoodUuid 1)) (Some (GoodUuid 2)) None None 8 1 st1 of
             Inl e \<Rightarrow> Inl e
           | Inr (_, st2) \<Rightarrow>
               (case create_assignment ''B'' ''ceo'' ''s3'' ''1'' ''h3'' ''bob'' None (Some (GoodUuid 1)) None None 9 2 st2 of
                  Inl e \<Rightarrow> Inl e
                | Inr (_, st3) \<Rightarrow> Inr st3)))"

lemma manager_in_other_workspace:
  "case reused_identifier of
     Inl e \<Rightarrow> False
   | Inr st \<Rightarrow>
       map_option (\<lambda>x. (wa_workspace_id x, wa_reports_to x)) (dict_get (wst_assignments st) 2) = Some (''A'', Some 1) \<and>
       map_option wa_workspace_id (dict_get (wst_assignments st) 1) = Some ''B''"
  by code_simp

text \<open>C23. Typed records. In every reachable store each record sits under its own id, the statuses
  are those the annotations declare, and the time stamps agree with them: an active employee was
  never suspended or retired, a suspended or retired one has the time of it, an assignment has a
  retirement time exactly when it is retired, a signal a delivery time exactly when delivered.\<close>

theorem workforce_store_typed:
  "workforce_typed (fold workforce_step ops empty_workforce)"
  by (rule wf_typed.run_inv [OF workforce_typed_empty]) simp

text \<open>When an assignment is accepted. In a store without cycles a request that names a manager and
  an employee succeeds exactly when the employee is an active one of the workspace and the manager
  is another active assignment of the workspace whose own line does not contain the assignment
  and is shorter than the depth limit; the identity of the assignment is that of the row with the
  same pinned spec, if there is one.\<close>

theorem create_assignment_exact:
  assumes "workforce_inv st"
  shows "(\<exists>r st'. create_assignment w k s v h b (Some (GoodUuid p)) None (Some (GoodUuid e)) c fresh now st = Inr (r, st'))
     \<longleftrightarrow>
     (\<exists>emp. dict_get (wst_employees st) e = Some emp \<and> we_workspace_id emp = w \<and> we_status emp = ''ACTIVE'') \<and>
     (let a = (case List.find (same_pin w k s v h) (dict_values (wst_assignments st)) of
                 Some x \<Rightarrow> wa_assignment_id x | None \<Rightarrow> fresh);
          nodes = workspace_nodes w (wst_assignments st)
      in p \<noteq> a \<and>
         (\<exists>m. dict_get (wst_assignments st) p = Some m \<and> wa_workspace_id m = w \<and> wa_status m = ''ACTIVE'') \<and>
         a \<notin> set (line_above MAX_REPORTING_DEPTH nodes p) \<and>
         length (line_above MAX_REPORTING_DEPTH nodes p) < MAX_REPORTING_DEPTH)"
proof -
  let ?d = "wst_assignments st" and ?nodes = "workspace_nodes w (wst_assignments st)"
  let ?a = "case List.find (same_pin w k s v h) (dict_values ?d) of Some x \<Rightarrow> wa_assignment_id x | None \<Rightarrow> fresh"
  from assms have d: "keyed wa_assignment_id ?d" and acyc: "acyclic (line_of ?nodes)"
    by (auto simp: workforce_inv_def assignments_inv_def)
  have emp: "(assignable_employee w (Some (GoodUuid e)) st = Inr (Some e)) \<longleftrightarrow>
      (\<exists>emp. dict_get (wst_employees st) e = Some emp \<and> we_workspace_id emp = w \<and> we_status emp = ''ACTIVE'')"
    by (auto simp: assignable_employee_def get_employee_def split: option.splits)
  have eid: "assignable_employee w (Some (GoodUuid e)) st = Inr x \<Longrightarrow> x = Some e" for x
    by (auto simp: assignable_employee_def split: option.splits if_splits)
  have mgr: "(\<exists>node. dict_get ?nodes p = Some node \<and> snd node = ''ACTIVE'') \<longleftrightarrow>
      (\<exists>m. dict_get ?d p = Some m \<and> wa_workspace_id m = w \<and> wa_status m = ''ACTIVE'')"
    by (auto simp: workspace_nodes_get [OF d] split: option.splits)
  have "(\<exists>r st'. create_assignment w k s v h b (Some (GoodUuid p)) None (Some (GoodUuid e)) c fresh now st = Inr (r, st'))
      \<longleftrightarrow> assignable_employee w (Some (GoodUuid e)) st = Inr (Some e) \<and> check_reporting_line ?a (Some p) ?nodes = None"
  proof (cases "assignable_employee w (Some (GoodUuid e)) st")
    case (Inl err)
    then show ?thesis by (simp add: create_assignment_def)
  next
    case (Inr x)
    with eid have x: "assignable_employee w (Some (GoodUuid e)) st = Inr (Some e)" by blast
    show ?thesis
      by (cases "List.find (same_pin w k s v h) (dict_values ?d)"; cases "check_reporting_line ?a (Some p) ?nodes")
        (simp_all add: create_assignment_def x list_assignments_nodes Let_def)
  qed
  then show ?thesis unfolding check_reporting_line_exact [OF acyc] mgr emp Let_def by blast
qed

text \<open>Witness of C37: the second assignment may report to the first.\<close>

definition example_workforce :: workforce_store where
  "example_workforce =
     fold workforce_step
       [OpCreateEmployee ''w'' ''E1'' ''Ada'' ''founder'' None 1 0,
        OpCreateAssignment ''w'' ''office'' ''s'' ''1'' ''h'' ''founder'' None None (Some (GoodUuid 1)) None 10 0]
       empty_workforce"

theorem create_assignment_exact_witness:
  "\<exists>r st'. create_assignment ''w'' ''planner'' ''s'' ''1'' ''h'' ''founder'' (Some (GoodUuid 10)) None
             (Some (GoodUuid 1)) None 11 0 example_workforce = Inr (r, st')"
proof -
  have inv: "workforce_inv example_workforce"
    unfolding example_workforce_def by (rule wf_lines.run_inv [OF workforce_inv_empty]) simp
  have emp: "map_option (\<lambda>x. (we_workspace_id x, we_status x)) (dict_get (wst_employees example_workforce) 1) = Some (''w'', ''ACTIVE'')"
    and mgr: "map_option (\<lambda>x. (wa_workspace_id x, wa_status x)) (dict_get (wst_assignments example_workforce) 10) = Some (''w'', ''ACTIVE'')"
    and new: "List.find (same_pin ''w'' ''planner'' ''s'' ''1'' ''h'') (dict_values (wst_assignments example_workforce)) = None"
    and line: "line_above MAX_REPORTING_DEPTH (workspace_nodes ''w'' (wst_assignments example_workforce)) 10 = []"
    by code_simp+
  show ?thesis
    unfolding create_assignment_exact [OF inv, of "''w''" "''planner''" "''s''" "''1''" "''h''" "''founder''" 10 1 None 11 0]
      new Let_def option.case line using emp mgr by (auto simp: MAX_REPORTING_DEPTH_def)
qed

text \<open>Bounded publication. As long as only the publisher settles signals, every signal is
  posted to the company service at most \<open>max_attempts\<close> times over all passes, at most one of
  these posts succeeds, and a delivered signal has been posted exactly \<open>attempt_count\<close> times in
  vain before.\<close>

theorem signal_publication_bounded:
  assumes "admissible (publish_guard M) publish_step ops (empty_workforce, [])"
  shows "let (st, posts) = fold publish_step ops (empty_workforce, []) in
         int (count_list posts (u, False) + count_list posts (u, True)) \<le> max 0 M \<and>
         count_list posts (u, True) \<le> 1 \<and>
         (\<forall>s. dict_get (wst_outbox st) u = Some s \<longrightarrow>
            int (count_list posts (u, False)) = rs_attempt_count s \<and>
            (rs_state_delivery s = ''DELIVERED'' \<longleftrightarrow> count_list posts (u, True) = 1))"
proof (cases "fold publish_step ops (empty_workforce, [])")
  case (Pair st posts)
  have "publish_inv M (empty_workforce, [])"
    by (simp add: publish_inv_def signal_posts_def empty_workforce_def)
  then have "publish_inv M (st, posts)"
    unfolding Pair [symmetric] by (rule publisher.run_inv [OF _ assms])
  then have "signal_posts M (dict_get (wst_outbox st) u) (count_list posts (u, False)) (count_list posts (u, True))"
    by (simp add: publish_inv_def)
  then show ?thesis unfolding Pair by (auto simp: signal_posts_def split: option.splits if_splits)
qed

text \<open>Witness of C27: a signal that fails once and is then delivered.\<close>

definition example_publication :: "workforce_op list" where
  "example_publication =
     [OpEnqueueSignal (\<lambda>s. s) ''w'' ''run'' ''r1'' 1 ''done'' 0 None None None 7 0,
      OpDeliverDue (\<lambda>_. HttpStatus 503) (\<lambda>_. 1) 50 10 1,
      OpDeliverDue (\<lambda>_. HttpStatus 200) (\<lambda>_. 9000000) 50 10 9000000]"

theorem signal_publication_bounded_witness:
  "int (count_list (snd (fold publish_step example_publication (empty_workforce, []))) (7, False) +
        count_list (snd (fold publish_step example_publication (empty_workforce, []))) (7, True)) \<le> max 0 10 \<and>
   snd (fold publish_step example_publication (empty_workforce, [])) = [(7, False), (7, True)]"
proof
  have adm: "admissible (publish_guard 10) publish_step example_publication (empty_workforce, [])"
    by code_simp
  show "int (count_list (snd (fold publish_step example_publication (empty_workforce, []))) (7, False) +
        count_list (snd (fold publish_step example_publication (empty_workforce, []))) (7, True)) \<le> max 0 10"
    using signal_publication_bounded [OF adm, of 7] by (auto split: prod.splits)
  show "snd (fold publish_step example_publication (empty_workforce, [])) = [(7, False), (7, True)]"
    by code_simp
qed


text \<open>C40. The depth limit is not kept. \<open>check_reporting_line\<close> walks from the manager upwards only,
  so moving a manager who already has a line below her lengthens every line below: ten accepted
  requests build two short lines, an eleventh, accepted too, puts one under the other, and an
  assignment is then nine levels deep, above \<open>MAX_REPORTING_DEPTH\<close>.\<close>

definition assignment_request :: "string \<Rightarrow> uuid option \<Rightarrow> uuid \<Rightarrow> workforce_op" where
  "assignment_request key parent fresh =
     OpCreateAssignment ''w'' key ''s'' ''1'' ''h'' ''founder'' (map_option GoodUuid parent) None None None fresh 0"

definition deep_line_requests :: "workforce_op list" where
  "deep_line_requests =
     [assignment_request ''a1'' None 1, assignment_request ''a2'' (Some 1) 2, assignment_request ''a3'' (Some 2) 3,
      assignment_request ''a4'' (Some 3) 4, assignment_request ''a5'' (Some 4) 5,
      assignment_request ''b1'' None 11, assignment_request ''b2'' (Some 11) 12, assignment_request ''b3'' (Some 12) 13,
      assignment_request ''b4'' (Some 13) 14, assignment_request ''b5'' (Some 14) 15,
      assignment_request ''b1'' (Some 5) 99]"

theorem reporting_depth_not_kept:
  "length (line_above 20 (workspace_nodes ''w'' (wst_assignments (fold workforce_step deep_line_requests empty_workforce))) 15)
     = MAX_REPORTING_DEPTH + 1"
  by code_simp

end
