(* ===== verification/WorkforceControl.thy ===== *)
theory WorkforceControl
  imports Workforce Keyed
begin

text \<open>
  Control of the workforce: founder delegations and the check that guards founder-scope commands
  (\<open>packages/agent/workforce/delegation.py\<close>), the ledger of wakeups
  (\<open>wakeup_ledger.py\<close>), the evidence scorecard (\<open>scorecard.py\<close>) and the resolver of the
  outcome-analysis binding (\<open>outcome_analysis.py\<close>). The lemmas relate what the delegation
  repository answers to the history of grants and revocations.
\<close>

subsection \<open>Delegations\<close>

record delegation =
  dl_delegation_id :: uuid
  dl_workspace_id :: string
  dl_grantor_id :: string
  dl_principal_id :: string
  dl_action_scope :: string
  dl_functional_key :: "string option"
  dl_status :: string
  dl_granted_at :: datetime
  dl_expires_at :: "datetime option"
  dl_revoked_at :: "datetime option"
  dl_revoked_by :: "string option"

type_synonym delegation_rows = "(uuid, delegation) pydict"

definition is_effective :: "datetime \<Rightarrow> delegation \<Rightarrow> bool" where
  "is_effective now d =
     (if dl_status d \<noteq> ''ACTIVE'' then False
      else \<not> (case dl_expires_at d of None \<Rightarrow> False | Some t \<Rightarrow> t \<le> now))"

definition grant_delegation ::
  "string \<Rightarrow> string \<Rightarrow> string \<Rightarrow> string \<Rightarrow> string option \<Rightarrow> datetime option \<Rightarrow> uuid \<Rightarrow> datetime \<Rightarrow> delegation_rows \<Rightarrow>
   delegation \<times> delegation_rows" where
  "grant_delegation workspace_id grantor_id principal_id action_scope functional_key expires_at did now rows =
     (let rec = \<lparr>dl_delegation_id = did, dl_workspace_id = workspace_id, dl_grantor_id = grantor_id,
                  dl_principal_id = principal_id, dl_action_scope = action_scope,
                  dl_functional_key = functional_key, dl_status = ''ACTIVE'', dl_granted_at = now,
                  dl_expires_at = expires_at, dl_revoked_at = None, dl_revoked_by = None\<rparr>
      in (rec, dict_set did rec rows))"

definition revoke_delegation ::
  "string \<Rightarrow> uuid_arg \<Rightarrow> string \<Rightarrow> datetime \<Rightarrow> delegation_rows \<Rightarrow> delegation option \<times> delegation_rows" where
  "revoke_delegation workspace_id delegation_id revoked_by now rows =
     (case uuid_of delegation_id of
        None \<Rightarrow> (None, rows)
      | Some did \<Rightarrow>
          (case dict_get rows did of
             None \<Rightarrow> (None, rows)
           | Some rec \<Rightarrow>
               if dl_workspace_id rec \<noteq> workspace_id then (None, rows)
               else let revoked = rec\<lparr>dl_status := ''REVOKED'', dl_revoked_at := Some now, dl_revoked_by := Some revoked_by\<rparr>
                    in (Some revoked, dict_set did revoked rows)))"

definition list_active_delegations :: "string \<Rightarrow> string \<Rightarrow> string \<Rightarrow> delegation_rows \<Rightarrow> delegation list" where
  "list_active_delegations workspace_id principal_id action_scope rows =
     filter (\<lambda>r. dl_workspace_id r = workspace_id \<and> dl_principal_id r = principal_id \<and>
                 dl_action_scope r = action_scope \<and> dl_status r = ''ACTIVE'')
       (dict_values rows)"

text \<open>The loop of \<open>require_founder_or_delegate\<close>; \<open>clock\<close> is the reading that
  \<open>d.is_effective()\<close> takes for each delegation.\<close>

fun any_delegation_covers :: "(delegation \<Rightarrow> datetime) \<Rightarrow> string option \<Rightarrow> delegation list \<Rightarrow> bool" where
  "any_delegation_covers clock functional_key [] = False"
| "any_delegation_covers clock functional_key (d # ds) =
     (if \<not> is_effective (clock d) d then any_delegation_covers clock functional_key ds
      else if dl_functional_key d \<noteq> None \<and> functional_key \<noteq> None \<and> dl_functional_key d \<noteq> functional_key
           then any_delegation_covers clock functional_key ds
      else True)"

text \<open>\<open>founder\<close> is the answer of \<open>founder_check.is_founder(\<dots>)\<close>; \<open>False\<close> is
  \<open>FounderApprovalRequired\<close>.\<close>

definition require_founder_or_delegate ::
  "(string \<Rightarrow> string \<Rightarrow> bool) \<Rightarrow> (delegation \<Rightarrow> datetime) \<Rightarrow> string \<Rightarrow> string \<Rightarrow> string \<Rightarrow> string option \<Rightarrow> delegation_rows \<Rightarrow> bool" where
  "require_founder_or_delegate founder clock workspace_id principal_id action functional_key rows =
     (if founder workspace_id principal_id then True
      else any_delegation_covers clock functional_key
             (list_active_delegations workspace_id principal_id action rows))"

subsection \<open>Wakeups\<close>

record wakeup_entry =
  wk_wake_id :: string
  wk_workspace_id :: string
  wk_assignment_id :: string
  wk_project_id :: string
  wk_reason_kind :: string
  wk_source_ref :: string
  wk_hop :: int
  wk_created_at :: datetime
  wk_handled_at :: "datetime option"

type_synonym wakeup_ledger = "(string \<times> string \<times> string, wakeup_entry) pydict"

definition record_if_absent :: "wakeup_entry \<Rightarrow> wakeup_ledger \<Rightarrow> bool \<times> wakeup_ledger" where
  "record_if_absent entry ledger =
     (let key = (wk_workspace_id entry, wk_assignment_id entry, wk_source_ref entry)
      in if dict_get ledger key \<noteq> None then (False, ledger) else (True, dict_set key entry ledger))"

definition count_since :: "string \<Rightarrow> string \<Rightarrow> datetime \<Rightarrow> wakeup_ledger \<Rightarrow> nat" where
  "count_since workspace_id assignment_id since ledger =
     length (filter (\<lambda>e. wk_workspace_id e = workspace_id \<and> wk_assignment_id e = assignment_id \<and>
                         since \<le> wk_created_at e)
               (dict_values ledger))"

text \<open>Python's order on strings (by code points) and the sort by \<open>(created_at, wake_id)\<close>:
  two stable sorts, the less significant key first.\<close>

fun str_le :: "string \<Rightarrow> string \<Rightarrow> bool" where
  "str_le [] ys = True"
| "str_le (x # xs) [] = False"
| "str_le (x # xs) (y # ys) =
     (if (of_char x :: nat) < of_char y then True
      else if (of_char y :: nat) < of_char x then False else str_le xs ys)"

fun insert_wakeup :: "wakeup_entry \<Rightarrow> wakeup_entry list \<Rightarrow> wakeup_entry list" where
  "insert_wakeup e [] = [e]"
| "insert_wakeup e (x # xs) =
     (if wk_created_at e < wk_created_at x \<or>
         (wk_created_at e = wk_created_at x \<and> str_le (wk_wake_id e) (wk_wake_id x))
      then e # x # xs else x # insert_wakeup e xs)"

definition sort_wakeups :: "wakeup_entry list \<Rightarrow> wakeup_entry list" where
  "sort_wakeups es = foldr insert_wakeup es []"

definition list_unhandled :: "string \<Rightarrow> string \<Rightarrow> string \<Rightarrow> int \<Rightarrow> wakeup_ledger \<Rightarrow> wakeup_entry list" where
  "list_unhandled workspace_id assignment_id project_id limit ledger =
     py_take (max 1 limit)
       (sort_wakeups
         (filter (\<lambda>e. wk_workspace_id e = workspace_id \<and> wk_assignment_id e = assignment_id \<and>
                      wk_project_id e = project_id \<and> wk_handled_at e = None)
           (dict_values ledger)))"

definition mark_handled :: "string \<Rightarrow> string list \<Rightarrow> datetime \<Rightarrow> wakeup_ledger \<Rightarrow> int \<times> wakeup_ledger" where
  "mark_handled workspace_id wake_ids now ledger =
     (let hit = (\<lambda>e. wk_workspace_id e = workspace_id \<and> wk_wake_id e \<in> set wake_ids \<and> wk_handled_at e = None)
      in (int (length (filter hit (dict_values ledger))),
          map (\<lambda>(key, e). (key, if hit e then e\<lparr>wk_handled_at := Some now\<rparr> else e)) ledger))"

subsection \<open>Scorecard\<close>

record attempt_outcome =
  ao_agent_instance_id :: string
  ao_spec_hash :: string
  ao_outcome_type :: string
  ao_package_type :: string
  ao_review_decision :: string
  ao_retry_count :: int
  ao_escalated :: bool

record scorecard =
  sc_available :: bool
  sc_unavailable_reason :: "string option"
  sc_accepted_count :: int
  sc_rework_count :: int
  sc_reject_count :: int
  sc_escalation_count :: int
  sc_retry_count :: int
  sc_accepted_by_spec :: "(string, int) pydict"

definition scorecard_unavailable :: "string \<Rightarrow> scorecard" where
  "scorecard_unavailable reason =
     \<lparr>sc_available = False, sc_unavailable_reason = Some reason, sc_accepted_count = 0, sc_rework_count = 0,
      sc_reject_count = 0, sc_escalation_count = 0, sc_retry_count = 0, sc_accepted_by_spec = []\<rparr>"

text \<open>One round of the loop over the reviewed outcomes.\<close>

definition count_outcome :: "attempt_outcome \<Rightarrow> scorecard \<Rightarrow> scorecard" where
  "count_outcome out c =
     (let c1 = c\<lparr>sc_retry_count := sc_retry_count c + ao_retry_count out\<rparr>;
          c2 = (if ao_escalated out then c1\<lparr>sc_escalation_count := sc_escalation_count c1 + 1\<rparr> else c1)
      in if ao_review_decision out = ''ACCEPT'' then
           c2\<lparr>sc_accepted_count := sc_accepted_count c2 + 1,
              sc_accepted_by_spec := dict_set (ao_spec_hash out)
                (dict_get_or (sc_accepted_by_spec c2) (ao_spec_hash out) 0 + 1) (sc_accepted_by_spec c2)\<rparr>
         else if ao_review_decision out = ''REWORK'' then c2\<lparr>sc_rework_count := sc_rework_count c2 + 1\<rparr>
         else if ao_review_decision out = ''REJECT'' then c2\<lparr>sc_reject_count := sc_reject_count c2 + 1\<rparr>
         else c2)"

text \<open>What the evidence source answers: an exception with its text, nothing, or the outcomes.\<close>

datatype evidence_answer = EvidenceError string | NoEvidence | Evidence "attempt_outcome list"

definition get_employee_scorecard :: "evidence_answer \<Rightarrow> scorecard" where
  "get_employee_scorecard evidence =
     (case evidence of
        EvidenceError msg \<Rightarrow> scorecard_unavailable (''evidence_error:'' @ msg)
      | NoEvidence \<Rightarrow> scorecard_unavailable ''company_evidence_unavailable''
      | Evidence outcomes \<Rightarrow>
          fold count_outcome outcomes
            \<lparr>sc_available = True, sc_unavailable_reason = None, sc_accepted_count = 0, sc_rework_count = 0,
             sc_reject_count = 0, sc_escalation_count = 0, sc_retry_count = 0, sc_accepted_by_spec = []\<rparr>)"

subsection \<open>The outcome-analysis binding\<close>

definition OUTCOME_ANALYSIS_SKILL_ID :: string where
  "OUTCOME_ANALYSIS_SKILL_ID = ''operations/task-outcome-analysis''"

definition OUTCOME_ANALYST_CAPABILITY_REFS :: "string list" where
  "OUTCOME_ANALYST_CAPABILITY_REFS =
     [''operations.task.read'', ''operations.task-result.read'', ''operations.work-package.read'',
      ''operations.evidence.read'', ''agent.artifact.read'', ''operations.outcome-assessment.record'']"

definition resolve_outcome_analysis_binding :: "string \<Rightarrow> string \<Rightarrow> workforce_store \<Rightarrow> outcome_analysis_binding option" where
  "resolve_outcome_analysis_binding workspace_id analysis_kind st =
     (case get_outcome_analysis_binding workspace_id analysis_kind st of
        None \<Rightarrow> None
      | Some binding \<Rightarrow> if ob_skill_id binding \<noteq> OUTCOME_ANALYSIS_SKILL_ID then None else Some binding)"

subsection \<open>Who may act: the history of grants decides\<close>

datatype delegation_op =
    GrantDelegation string string string string "string option" "datetime option" uuid datetime
  | RevokeDelegation string uuid_arg string datetime

fun delegation_step :: "delegation_op \<Rightarrow> delegation_rows \<Rightarrow> delegation_rows" where
  "delegation_step (GrantDelegation w g p a k t did now) rows = snd (grant_delegation w g p a k t did now rows)"
| "delegation_step (RevokeDelegation w did b now) rows = snd (revoke_delegation w did b now rows)"

text \<open>\<open>uuid4()\<close> yields an id that no delegation has.\<close>

fun fresh_delegation :: "delegation_op \<Rightarrow> delegation_rows \<Rightarrow> bool" where
  "fresh_delegation (GrantDelegation w g p a k t did now) rows = (dict_get rows did = None)"
| "fresh_delegation (RevokeDelegation w did b now) rows = True"

text \<open>A history grants: a grant to the principal for the action, not revoked later in its
  workspace, not expired at the time it is consulted, and covering the functional key.\<close>

definition revokes :: "string \<Rightarrow> uuid \<Rightarrow> delegation_op \<Rightarrow> bool" where
  "revokes w did op \<longleftrightarrow> (\<exists>b now. op = RevokeDelegation w (GoodUuid did) b now)"

definition history_grants ::
  "delegation_op list \<Rightarrow> string \<Rightarrow> string \<Rightarrow> string \<Rightarrow> string option \<Rightarrow> datetime \<Rightarrow> bool" where
  "history_grants ops w p a key now \<longleftrightarrow>
     (\<exists>before after g k t did granted.
        ops = before @ GrantDelegation w g p a k t did granted # after \<and>
        (\<forall>op \<in> set after. \<not> revokes w did op) \<and>
        (case t of None \<Rightarrow> True | Some deadline \<Rightarrow> now < deadline) \<and>
        (k = None \<or> key = None \<or> k = key))"

lemma any_delegation_covers_iff:
  "any_delegation_covers clock key ds \<longleftrightarrow>
     (\<exists>d \<in> set ds. is_effective (clock d) d \<and> (dl_functional_key d = None \<or> key = None \<or> dl_functional_key d = key))"
  by (induction ds) auto

lemma delegation_step_get:
  "dict_get (delegation_step (GrantDelegation w g p a k t did now) rows) u =
     (if u = did then Some \<lparr>dl_delegation_id = did, dl_workspace_id = w, dl_grantor_id = g, dl_principal_id = p,
        dl_action_scope = a, dl_functional_key = k, dl_status = ''ACTIVE'', dl_granted_at = now,
        dl_expires_at = t, dl_revoked_at = None, dl_revoked_by = None\<rparr> else dict_get rows u)"
  "dict_get (delegation_step (RevokeDelegation w arg b now) rows) u =
     (case dict_get rows u of
        None \<Rightarrow> None
      | Some d \<Rightarrow> if uuid_of arg = Some u \<and> dl_workspace_id d = w
                  then Some (d\<lparr>dl_status := ''REVOKED'', dl_revoked_at := Some now, dl_revoked_by := Some b\<rparr>)
                  else Some d)"
  by (simp_all add: grant_delegation_def revoke_delegation_def Let_def split: option.splits)

lemma delegation_step_keyed: "keyed dl_delegation_id rows \<Longrightarrow> keyed dl_delegation_id (delegation_step op rows)"
  by (cases op)
     (auto simp: grant_delegation_def revoke_delegation_def Let_def intro: keyed_update split: option.splits)

interpretation delegations: state_machine delegation_step "\<lambda>_ _. True" "keyed dl_delegation_id"
  by unfold_locales (rule delegation_step_keyed)

text \<open>An active row is a grant of the history that was not revoked since.\<close>

definition active_grant :: "delegation_op list \<Rightarrow> uuid \<Rightarrow> delegation \<Rightarrow> bool" where
  "active_grant ops did d \<longleftrightarrow>
     (\<exists>before after.
        ops = before @ GrantDelegation (dl_workspace_id d) (dl_grantor_id d) (dl_principal_id d) (dl_action_scope d)
                         (dl_functional_key d) (dl_expires_at d) did (dl_granted_at d) # after \<and>
        (\<forall>op \<in> set after. \<not> revokes (dl_workspace_id d) did op))"

lemma uuid_of_iff: "uuid_of arg = Some u \<longleftrightarrow> arg = GoodUuid u"
  by (cases arg) auto

lemma active_grant_snoc:
  assumes "active_grant ops did d" "\<not> revokes (dl_workspace_id d) did op"
  shows "active_grant (ops @ [op]) did d"
proof -
  from assms(1) obtain before after where
    "ops = before @ GrantDelegation (dl_workspace_id d) (dl_grantor_id d) (dl_principal_id d) (dl_action_scope d)
             (dl_functional_key d) (dl_expires_at d) did (dl_granted_at d) # after"
    "\<forall>op \<in> set after. \<not> revokes (dl_workspace_id d) did op"
    unfolding active_grant_def by blast
  with assms(2) show ?thesis
    unfolding active_grant_def by (intro exI [of _ before] exI [of _ "after @ [op]"]) simp
qed

lemma active_rows_granted:
  "dict_get (fold delegation_step ops []) did = Some d \<Longrightarrow> dl_status d = ''ACTIVE'' \<Longrightarrow> active_grant ops did d"
proof (induction ops arbitrary: d rule: rev_induct)
  case (snoc op ops)
  let ?rows = "fold delegation_step ops []"
  show ?case
  proof (cases op)
    case (GrantDelegation w g p a k t u now)
    show ?thesis
    proof (cases "did = u")
      case True
      with snoc.prems GrantDelegation show ?thesis
        unfolding active_grant_def
        by (intro exI [of _ ops] exI [of _ "[]"]) (auto simp: delegation_step_get simp del: delegation_step.simps)
    next
      case False
      with snoc.prems GrantDelegation have "dict_get ?rows did = Some d"
        by (simp add: delegation_step_get del: delegation_step.simps)
      with snoc have "active_grant ops did d" by blast
      then show ?thesis by (rule active_grant_snoc) (simp add: GrantDelegation revokes_def)
    qed
  next
    case (RevokeDelegation w arg b now)
    with snoc.prems have old: "dict_get ?rows did = Some d"
      and keep: "\<not> (uuid_of arg = Some did \<and> dl_workspace_id d = w)"
      by (auto simp: delegation_step_get simp del: delegation_step.simps split: option.splits if_splits)
    with snoc have "active_grant ops did d" by blast
    then show ?thesis
      by (rule active_grant_snoc) (use keep in \<open>auto simp: RevokeDelegation revokes_def\<close>)
  qed
qed simp

lemma granted_row_kept:
  assumes "dict_get rows did = Some d" "dl_status d = ''ACTIVE''"
    and "admissible fresh_delegation delegation_step ops rows"
    and "\<forall>op \<in> set ops. \<not> revokes (dl_workspace_id d) did op"
  shows "dict_get (fold delegation_step ops rows) did = Some d"
  using assms(1,3,4)
proof (induction ops arbitrary: rows)
  case (Cons op ops)
  have "dict_get (delegation_step op rows) did = Some d"
  proof (cases op)
    case (GrantDelegation w g p a k t u now)
    with Cons.prems show ?thesis by (auto simp: delegation_step_get simp del: delegation_step.simps)
  next
    case (RevokeDelegation w arg b now)
    with Cons.prems show ?thesis
      by (auto simp: delegation_step_get revokes_def uuid_of_iff simp del: delegation_step.simps)
  qed
  with Cons show ?case by simp
qed simp

lemma history_grants_row:
  assumes adm: "admissible fresh_delegation delegation_step ops []"
  shows "history_grants ops w p a key now \<longleftrightarrow>
         (\<exists>did d. dict_get (fold delegation_step ops []) did = Some d \<and> dl_workspace_id d = w \<and>
            dl_principal_id d = p \<and> dl_action_scope d = a \<and> is_effective now d \<and>
            (dl_functional_key d = None \<or> key = None \<or> dl_functional_key d = key))"
proof
  assume "history_grants ops w p a key now"
  then obtain before after g k t did granted where
    ops: "ops = before @ GrantDelegation w g p a k t did granted # after"
    and keep: "\<forall>op \<in> set after. \<not> revokes w did op"
    and time: "case t of None \<Rightarrow> True | Some deadline \<Rightarrow> now < deadline" and k: "k = None \<or> key = None \<or> k = key"
    unfolding history_grants_def by blast
  let ?rows = "delegation_step (GrantDelegation w g p a k t did granted) (fold delegation_step before [])"
  obtain d where d: "dict_get ?rows did = Some d" "dl_status d = ''ACTIVE''" "dl_workspace_id d = w"
      "dl_principal_id d = p" "dl_action_scope d = a" "dl_functional_key d = k" "dl_expires_at d = t"
    by (simp add: delegation_step_get del: delegation_step.simps)
  have "admissible fresh_delegation delegation_step after ?rows"
    using adm unfolding ops by (simp add: admissible_append)
  with d keep have "dict_get (fold delegation_step after ?rows) did = Some d"
    by (intro granted_row_kept) auto
  with d time k show "\<exists>did d. dict_get (fold delegation_step ops []) did = Some d \<and> dl_workspace_id d = w \<and>
      dl_principal_id d = p \<and> dl_action_scope d = a \<and> is_effective now d \<and>
      (dl_functional_key d = None \<or> key = None \<or> dl_functional_key d = key)"
    unfolding ops by (intro exI [of _ did] exI [of _ d]) (auto simp: is_effective_def split: option.splits)
next
  assume "\<exists>did d. dict_get (fold delegation_step ops []) did = Some d \<and> dl_workspace_id d = w \<and>
      dl_principal_id d = p \<and> dl_action_scope d = a \<and> is_effective now d \<and>
      (dl_functional_key d = None \<or> key = None \<or> dl_functional_key d = key)"
  then obtain did d where d: "dict_get (fold delegation_step ops []) did = Some d" "dl_workspace_id d = w"
      "dl_principal_id d = p" "dl_action_scope d = a" "is_effective now d"
      "dl_functional_key d = None \<or> key = None \<or> dl_functional_key d = key" by blast
  then have "dl_status d = ''ACTIVE''" by (auto simp: is_effective_def split: if_splits)
  from active_rows_granted [OF d(1) this] obtain before after where
    "ops = before @ GrantDelegation w (dl_grantor_id d) p a (dl_functional_key d) (dl_expires_at d) did (dl_granted_at d) # after"
    "\<forall>op \<in> set after. \<not> revokes w did op"
    unfolding active_grant_def d(2,3,4) by blast
  moreover have "case dl_expires_at d of None \<Rightarrow> True | Some deadline \<Rightarrow> now < deadline"
    using d(5) by (auto simp: is_effective_def split: option.splits if_splits)
  ultimately show "history_grants ops w p a key now"
    unfolding history_grants_def using d(6) by blast
qed


text \<open>C22. Delegated authority is exactly what the history grants. After any history of grants and
  revocations, a principal may run a founder-scope command if and only if the principal is a
  founder or the history holds a grant to that principal, in that workspace and for that action,
  that was not revoked afterwards from within the workspace, has not expired and whose
  functional key does not contradict the command's (a missing key on either side contradicts
  nothing).\<close>

theorem delegated_authority_exact:
  assumes "admissible fresh_delegation delegation_step ops []"
  shows "require_founder_or_delegate founder (\<lambda>_. now) w p a key (fold delegation_step ops []) \<longleftrightarrow>
         founder w p \<or> history_grants ops w p a key now"
proof -
  let ?rows = "fold delegation_step ops []"
  have keyed: "keyed dl_delegation_id ?rows" by (rule delegations.run_inv) simp_all
  have "any_delegation_covers (\<lambda>_. now) key (list_active_delegations w p a ?rows) \<longleftrightarrow>
        (\<exists>d \<in> set (dict_values ?rows). dl_workspace_id d = w \<and> dl_principal_id d = p \<and> dl_action_scope d = a \<and>
           is_effective now d \<and> (dl_functional_key d = None \<or> key = None \<or> dl_functional_key d = key))"
    unfolding any_delegation_covers_iff list_active_delegations_def
    by (auto simp: is_effective_def simp del: set_map)
  also have "\<dots> \<longleftrightarrow> history_grants ops w p a key now"
    unfolding history_grants_row [OF assms] dict_ok_bex [OF keyed_dict_ok [OF keyed]] ..
  finally show ?thesis by (simp add: require_founder_or_delegate_def)
qed

text \<open>Witness of C22: a grant for one functional key, then its revocation. The grant also admits
  a command that names no functional key.\<close>

definition example_delegations :: "delegation_op list" where
  "example_delegations =
     [GrantDelegation ''w'' ''f'' ''m'' ''queue_control'' (Some ''operations'') (Some 100) 7 0,
      GrantDelegation ''w'' ''f'' ''m'' ''evaluation'' None None 8 0,
      RevokeDelegation ''w'' (GoodUuid 8) ''f'' 5]"

theorem delegated_authority_exact_witness:
  "history_grants example_delegations ''w'' ''m'' ''queue_control'' None 50 \<and>
   \<not> history_grants example_delegations ''w'' ''m'' ''queue_control'' (Some ''finance'') 50 \<and>
   \<not> history_grants example_delegations ''w'' ''m'' ''evaluation'' None 50"
proof -
  have adm: "admissible fresh_delegation delegation_step example_delegations []"
    by code_simp
  note exact = delegated_authority_exact [OF adm, of "\<lambda>_ _. False" 50 "''w''" "''m''"]
  have "require_founder_or_delegate (\<lambda>_ _. False) (\<lambda>_. 50) ''w'' ''m'' ''queue_control'' None
          (fold delegation_step example_delegations [])"
    "\<not> require_founder_or_delegate (\<lambda>_ _. False) (\<lambda>_. 50) ''w'' ''m'' ''queue_control'' (Some ''finance'')
          (fold delegation_step example_delegations [])"
    "\<not> require_founder_or_delegate (\<lambda>_ _. False) (\<lambda>_. 50) ''w'' ''m'' ''evaluation'' None
          (fold delegation_step example_delegations [])"
    by code_simp+
  with exact show ?thesis by blast
qed

subsection \<open>Wakeups are recorded once and handled once\<close>

datatype wakeup_op = RecordWakeup wakeup_entry | HandleWakeups string "string list" datetime

fun wakeup_step :: "wakeup_op \<Rightarrow> wakeup_ledger \<Rightarrow> wakeup_ledger" where
  "wakeup_step (RecordWakeup e) l = snd (record_if_absent e l)"
| "wakeup_step (HandleWakeups w ids now) l = snd (mark_handled w ids now l)"

text \<open>Nothing recorded is lost or changed, except that an unhandled entry becomes handled.\<close>

definition handled_later :: "wakeup_entry \<Rightarrow> wakeup_entry \<Rightarrow> bool" where
  "handled_later e e' \<longleftrightarrow>
     e' = e\<lparr>wk_handled_at := wk_handled_at e'\<rparr> \<and> (wk_handled_at e = None \<or> wk_handled_at e' = wk_handled_at e)"

definition wakeup_le :: "wakeup_ledger \<Rightarrow> wakeup_ledger \<Rightarrow> bool" where
  "wakeup_le l l' \<longleftrightarrow> (\<forall>key e. dict_get l key = Some e \<longrightarrow> (\<exists>e'. dict_get l' key = Some e' \<and> handled_later e e'))"

lemma handled_later_refl [simp]: "handled_later e e"
  by (simp add: handled_later_def)

lemma handled_later_trans: "handled_later e e' \<Longrightarrow> handled_later e' e'' \<Longrightarrow> handled_later e e''"
  by (cases e; cases e'; cases e'') (auto simp: handled_later_def)

lemma mark_handled_get:
  "dict_get (snd (mark_handled w ids now l)) key =
     map_option (\<lambda>e. if wk_workspace_id e = w \<and> wk_wake_id e \<in> set ids \<and> wk_handled_at e = None
                     then e\<lparr>wk_handled_at := Some now\<rparr> else e) (dict_get l key)"
  by (induction l) (auto simp: mark_handled_def Let_def)

lemma wakeup_step_le: "wakeup_le l (wakeup_step op l)"
proof (cases op)
  case (RecordWakeup e)
  then show ?thesis by (auto simp: wakeup_le_def record_if_absent_def Let_def)
next
  case (HandleWakeups w ids now)
  then show ?thesis by (auto simp: wakeup_le_def mark_handled_get handled_later_def)
qed

interpretation wakeups: monotone_machine wakeup_step "\<lambda>_ _. True" "\<lambda>_. True" wakeup_le
proof
  fix l l' l'' :: wakeup_ledger and op
  show "wakeup_le l l" by (auto simp: wakeup_le_def)
  show "wakeup_le l l''" if "wakeup_le l l'" "wakeup_le l' l''"
    using that unfolding wakeup_le_def by (meson handled_later_trans)
  show "wakeup_le l (wakeup_step op l)" by (rule wakeup_step_le)
qed simp

text \<open>A cause wakes once. After an entry was recorded for a workspace, an assignment and a
  source, whatever is recorded and handled later: another entry for the same cause is refused and
  leaves the ledger as it is, the first entry is still there with its content, and once handled it
  stays handled and is never listed again.\<close>

theorem wakeup_recorded_once:
  assumes "dict_get l (wk_workspace_id e, wk_assignment_id e, wk_source_ref e) = Some e0"
  shows "record_if_absent e (fold wakeup_step ops l) = (False, fold wakeup_step ops l) \<and>
         (\<exists>e1. dict_get (fold wakeup_step ops l) (wk_workspace_id e, wk_assignment_id e, wk_source_ref e) = Some e1 \<and>
               handled_later e0 e1 \<and>
               (wk_handled_at e1 \<noteq> None \<longrightarrow> e1 \<notin> set (list_unhandled w a p n (fold wakeup_step ops l))))"
proof -
  have "wakeup_le l (fold wakeup_step ops l)" by (rule wakeups.run_le) simp_all
  with assms obtain e1 where e1: "handled_later e0 e1"
    "dict_get (fold wakeup_step ops l) (wk_workspace_id e, wk_assignment_id e, wk_source_ref e) = Some e1"
    unfolding wakeup_le_def by blast
  have ins: "set (insert_wakeup x xs) = insert x (set xs)" for x xs
    by (induction xs) auto
  have "set (sort_wakeups es) = set es" for es
    by (induction es) (simp_all add: sort_wakeups_def ins)
  then have "e1 \<notin> set (list_unhandled w a p n (fold wakeup_step ops l))" if "wk_handled_at e1 \<noteq> None"
    unfolding list_unhandled_def using that set_py_take by fastforce
  with e1 show ?thesis by (auto simp: record_if_absent_def)
qed

text \<open>Witness of C41.\<close>

definition example_wakeup :: wakeup_entry where
  "example_wakeup = \<lparr>wk_wake_id = ''k1'', wk_workspace_id = ''w'', wk_assignment_id = ''a'', wk_project_id = ''p'',
     wk_reason_kind = ''task'', wk_source_ref = ''t1'', wk_hop = 0, wk_created_at = 5, wk_handled_at = None\<rparr>"

theorem wakeup_recorded_once_witness:
  "fst (record_if_absent example_wakeup
     (fold wakeup_step [HandleWakeups ''w'' [''k1''] 9] (wakeup_step (RecordWakeup example_wakeup) []))) = False"
proof -
  have "dict_get (wakeup_step (RecordWakeup example_wakeup) [])
          (wk_workspace_id example_wakeup, wk_assignment_id example_wakeup, wk_source_ref example_wakeup) = Some example_wakeup"
    by code_simp
  from wakeup_recorded_once [OF this, of "[HandleWakeups ''w'' [''k1''] 9]"] show ?thesis by simp
qed

subsection \<open>The scorecard counts the reviewed outcomes\<close>

lemma count_outcome_fold:
  "sc_accepted_count (fold count_outcome os c) = sc_accepted_count c + int (length (filter (\<lambda>a. ao_review_decision a = ''ACCEPT'') os))"
  "sc_rework_count (fold count_outcome os c) = sc_rework_count c + int (length (filter (\<lambda>a. ao_review_decision a = ''REWORK'') os))"
  "sc_reject_count (fold count_outcome os c) = sc_reject_count c + int (length (filter (\<lambda>a. ao_review_decision a = ''REJECT'') os))"
  "sc_escalation_count (fold count_outcome os c) = sc_escalation_count c + int (length (filter ao_escalated os))"
  "sc_retry_count (fold count_outcome os c) = sc_retry_count c + sum_list (map ao_retry_count os)"
  "dict_get_or (sc_accepted_by_spec (fold count_outcome os c)) h 0 = dict_get_or (sc_accepted_by_spec c) h 0 +
     int (length (filter (\<lambda>a. ao_review_decision a = ''ACCEPT'' \<and> ao_spec_hash a = h) os))"
  "sc_available (fold count_outcome os c) = sc_available c"
  by (induction os arbitrary: c) (simp_all add: count_outcome_def Let_def)

end
