(* ===== verification/WorkforceGov.thy ===== *)
theory WorkforceGov
  imports WorkforceControl
begin

text \<open>
  Founder-controlled change: the lifecycle of outcome-analysis policies
  (\<open>packages/agent/workforce/skill_governance.py\<close>: draft, publish, roll back, over the
  in-memory repository) and of improvement proposals (\<open>improvements.py\<close>). The lemmas show
  what every published policy version satisfies and who can approve a proposal.
\<close>

subsection \<open>Policy drafts and versions\<close>

record policy_draft =
  pd_draft_id :: uuid
  pd_workspace_id :: string
  pd_analysis_kind :: string
  pd_policy :: string
  pd_analyst_employee_id :: uuid
  pd_analyst_assignment_id :: uuid
  pd_skill_id :: string
  pd_skill_version :: string
  pd_definition_hash :: string
  pd_capability_allowlist :: "string list"
  pd_depth_rules :: payload
  pd_status :: string
  pd_version :: int
  pd_created_by :: string

record policy_version =
  pv_policy_version_id :: uuid
  pv_workspace_id :: string
  pv_analysis_kind :: string
  pv_version_no :: int
  pv_policy :: string
  pv_analyst_employee_id :: uuid
  pv_analyst_assignment_id :: uuid
  pv_skill_id :: string
  pv_skill_version :: string
  pv_definition_hash :: string
  pv_capability_allowlist :: "string list"
  pv_effective_at :: datetime
  pv_created_by :: string
  pv_approved_by :: string
  pv_rollback_target :: "uuid option"

record policy_repo =
  pr_drafts :: "(uuid, policy_draft) pydict"
  pr_versions :: "policy_version list"
  pr_events :: "(string \<times> string \<times> string) list"

datatype policy_error =
    InvalidCapabilityBoundary
  | PolicyValidationError string
  | PolicyFounderRequired
  | StalePolicyDraft
  | PolicyValueError string
  | PolicyKeyError string
  | PolicyBadUuid

definition validate_capability_allowlist :: "string list \<Rightarrow> policy_error + string list" where
  "validate_capability_allowlist refs =
     (if filter (\<lambda>r. r \<notin> set OUTCOME_ANALYST_CAPABILITY_REFS) refs \<noteq> [] then Inl InvalidCapabilityBoundary
      else Inr refs)"

text \<open>The in-memory repository.\<close>

definition get_policy_draft :: "string \<Rightarrow> uuid_arg \<Rightarrow> policy_repo \<Rightarrow> policy_draft option" where
  "get_policy_draft workspace_id draft_id repo =
     (case uuid_of draft_id of
        None \<Rightarrow> None
      | Some did \<Rightarrow>
          (case dict_get (pr_drafts repo) did of
             None \<Rightarrow> None
           | Some d \<Rightarrow> if pd_workspace_id d = workspace_id then Some d else None))"

definition mark_draft_published :: "uuid \<Rightarrow> policy_repo \<Rightarrow> policy_repo" where
  "mark_draft_published did repo =
     (case dict_get (pr_drafts repo) did of
        None \<Rightarrow> repo
      | Some d \<Rightarrow> repo\<lparr>pr_drafts := dict_set did (d\<lparr>pd_status := ''PUBLISHED''\<rparr>) (pr_drafts repo)\<rparr>)"

definition versions_of :: "string \<Rightarrow> string \<Rightarrow> policy_version list \<Rightarrow> policy_version list" where
  "versions_of workspace_id analysis_kind vs =
     filter (\<lambda>v. pv_workspace_id v = workspace_id \<and> pv_analysis_kind v = analysis_kind) vs"

definition next_version_no :: "string \<Rightarrow> string \<Rightarrow> policy_repo \<Rightarrow> int" where
  "next_version_no workspace_id analysis_kind repo =
     int (length (versions_of workspace_id analysis_kind (pr_versions repo))) + 1"

definition latest_policy_version :: "string \<Rightarrow> string \<Rightarrow> policy_repo \<Rightarrow> policy_version option" where
  "latest_policy_version workspace_id analysis_kind repo =
     (let matches = versions_of workspace_id analysis_kind (pr_versions repo)
      in if matches = [] then None else Some (last matches))"

text \<open>\<open>str(v.policy_version_id) == str(version_id)\<close>: a text that is no UUID matches nothing.\<close>

definition get_policy_version :: "string \<Rightarrow> uuid_arg \<Rightarrow> policy_repo \<Rightarrow> policy_version option" where
  "get_policy_version workspace_id version_id repo =
     List.find (\<lambda>v. Some (pv_policy_version_id v) = uuid_of version_id \<and> pv_workspace_id v = workspace_id)
       (pr_versions repo)"

definition append_policy_event :: "string \<Rightarrow> string \<Rightarrow> string \<Rightarrow> policy_repo \<Rightarrow> policy_repo" where
  "append_policy_event analysis_kind event_type actor_id repo =
     repo\<lparr>pr_events := pr_events repo @ [(analysis_kind, event_type, actor_id)]\<rparr>"

text \<open>The payload of a draft: absent keys are \<open>None\<close>; the values are texts, as \<open>str(\<dots>)\<close>
  leaves them, and the allowlist is a list of texts.\<close>

record policy_payload =
  pp_policy :: "string option"
  pp_analyst_employee_id :: "uuid_arg option"
  pp_analyst_assignment_id :: "uuid_arg option"
  pp_skill_id :: "string option"
  pp_skill_version :: "string option"
  pp_definition_hash :: "string option"
  pp_capability_allowlist :: "string list option"
  pp_depth_rules :: "payload option"

definition opt_or_default :: "'a option \<Rightarrow> 'a \<Rightarrow> 'a" where
  "opt_or_default x d = (case x of None \<Rightarrow> d | Some v \<Rightarrow> v)"

definition payload_uuid :: "string \<Rightarrow> uuid_arg option \<Rightarrow> policy_error + uuid" where
  "payload_uuid key x =
     (case x of
        None \<Rightarrow> Inl (PolicyKeyError key)
      | Some arg \<Rightarrow> (case uuid_of arg of None \<Rightarrow> Inl PolicyBadUuid | Some u \<Rightarrow> Inr u))"

definition create_policy_draft ::
  "string \<Rightarrow> string \<Rightarrow> policy_payload \<Rightarrow> string \<Rightarrow> uuid \<Rightarrow> policy_repo \<Rightarrow> policy_error + policy_draft \<times> policy_repo" where
  "create_policy_draft workspace_id created_by payload analysis_kind fresh repo =
     (case validate_capability_allowlist (or_else (pp_capability_allowlist payload) OUTCOME_ANALYST_CAPABILITY_REFS) of
        Inl e \<Rightarrow> Inl e
      | Inr allowlist \<Rightarrow>
     (let skill_id = opt_or_default (pp_skill_id payload) OUTCOME_ANALYSIS_SKILL_ID
      in if skill_id \<noteq> OUTCOME_ANALYSIS_SKILL_ID then Inl (PolicyValidationError ''skill_id'')
         else
     (case pp_policy payload of
        None \<Rightarrow> Inl (PolicyKeyError ''policy'')
      | Some policy \<Rightarrow>
     (case payload_uuid ''analyst_employee_id'' (pp_analyst_employee_id payload) of
        Inl e \<Rightarrow> Inl e
      | Inr employee \<Rightarrow>
     (case payload_uuid ''analyst_assignment_id'' (pp_analyst_assignment_id payload) of
        Inl e \<Rightarrow> Inl e
      | Inr assignment \<Rightarrow>
          let draft = \<lparr>pd_draft_id = fresh, pd_workspace_id = workspace_id, pd_analysis_kind = analysis_kind,
                        pd_policy = policy, pd_analyst_employee_id = employee,
                        pd_analyst_assignment_id = assignment, pd_skill_id = skill_id,
                        pd_skill_version = opt_or_default (pp_skill_version payload) ''1.0.0'',
                        pd_definition_hash = opt_or_default (pp_definition_hash payload) ''sha256:pending'',
                        pd_capability_allowlist = allowlist,
                        pd_depth_rules = or_else (pp_depth_rules payload) [],
                        pd_status = ''DRAFT'', pd_version = 1, pd_created_by = created_by\<rparr>
          in Inr (draft, append_policy_event analysis_kind ''draft_created'' created_by
                    (repo\<lparr>pr_drafts := dict_set fresh draft (pr_drafts repo)\<rparr>)))))))"

text \<open>A change proposes one more capability on top of the boundary's.\<close>

definition create_skill_change_draft ::
  "string \<Rightarrow> string \<Rightarrow> string option \<Rightarrow> uuid_arg option \<Rightarrow> uuid_arg option \<Rightarrow> string \<Rightarrow> uuid \<Rightarrow> policy_repo \<Rightarrow>
   policy_error + policy_draft \<times> policy_repo" where
  "create_skill_change_draft workspace_id created_by add_capability employee assignment analysis_kind fresh repo =
     (let base = (case add_capability of
                    None \<Rightarrow> OUTCOME_ANALYST_CAPABILITY_REFS
                  | Some c \<Rightarrow> if c = [] then OUTCOME_ANALYST_CAPABILITY_REFS else OUTCOME_ANALYST_CAPABILITY_REFS @ [c])
      in case validate_capability_allowlist base of
           Inl e \<Rightarrow> Inl e
         | Inr _ \<Rightarrow>
             if employee = None then Inl (PolicyKeyError ''analyst_employee_id'')
             else if assignment = None then Inl (PolicyKeyError ''analyst_assignment_id'')
             else create_policy_draft workspace_id created_by
                    \<lparr>pp_policy = Some ''AUTO_ALL_TASKS'', pp_analyst_employee_id = employee,
                     pp_analyst_assignment_id = assignment, pp_skill_id = None, pp_skill_version = None,
                     pp_definition_hash = None, pp_capability_allowlist = Some base, pp_depth_rules = None\<rparr>
                    analysis_kind fresh repo)"

text \<open>The four facts the services answer.\<close>

record policy_validators =
  val_is_founder :: "string \<Rightarrow> string \<Rightarrow> bool"
  val_employee_is_active :: "string \<Rightarrow> uuid \<Rightarrow> bool"
  val_assignment_is_effective :: "string \<Rightarrow> uuid \<Rightarrow> bool"
  val_skill_version_is_published :: "string \<Rightarrow> string \<Rightarrow> bool"

definition publish_outcome_analysis_policy ::
  "policy_validators \<Rightarrow> string \<Rightarrow> uuid_arg \<Rightarrow> int \<Rightarrow> string \<Rightarrow> string \<Rightarrow> uuid \<Rightarrow> datetime \<Rightarrow> policy_repo \<Rightarrow>
   policy_error + policy_version \<times> policy_repo" where
  "publish_outcome_analysis_policy val workspace_id draft_id expected_version actor_id analysis_kind fresh now repo =
     (if \<not> val_is_founder val workspace_id actor_id then Inl PolicyFounderRequired
      else
     (case get_policy_draft workspace_id draft_id repo of
        None \<Rightarrow> Inl (PolicyValueError ''policy draft not found in workspace'')
      | Some draft \<Rightarrow>
          if pd_version draft \<noteq> expected_version then Inl StalePolicyDraft
          else if pd_status draft \<noteq> ''DRAFT'' then Inl (PolicyValueError (''draft is '' @ pd_status draft @ '', not DRAFT''))
          else
     (case validate_capability_allowlist (pd_capability_allowlist draft) of
        Inl e \<Rightarrow> Inl e
      | Inr _ \<Rightarrow>
          if \<not> val_employee_is_active val workspace_id (pd_analyst_employee_id draft)
          then Inl (PolicyValidationError ''analyst employee is not ACTIVE'')
          else if \<not> val_assignment_is_effective val workspace_id (pd_analyst_assignment_id draft)
          then Inl (PolicyValidationError ''analyst assignment is not effective'')
          else if \<not> val_skill_version_is_published val (pd_skill_id draft) (pd_skill_version draft)
          then Inl (PolicyValidationError ''pinned skill version is not PUBLISHED'')
          else
            let version = \<lparr>pv_policy_version_id = fresh, pv_workspace_id = workspace_id,
                  pv_analysis_kind = analysis_kind,
                  pv_version_no = next_version_no workspace_id analysis_kind repo,
                  pv_policy = pd_policy draft, pv_analyst_employee_id = pd_analyst_employee_id draft,
                  pv_analyst_assignment_id = pd_analyst_assignment_id draft, pv_skill_id = pd_skill_id draft,
                  pv_skill_version = pd_skill_version draft, pv_definition_hash = pd_definition_hash draft,
                  pv_capability_allowlist = pd_capability_allowlist draft, pv_effective_at = now,
                  pv_created_by = pd_created_by draft, pv_approved_by = actor_id, pv_rollback_target = None\<rparr>
            in Inr (version,
                 append_policy_event analysis_kind ''published'' actor_id
                   (mark_draft_published (pd_draft_id draft)
                     (repo\<lparr>pr_versions := pr_versions repo @ [version]\<rparr>))))))"

definition rollback_outcome_analysis_policy ::
  "policy_validators \<Rightarrow> string \<Rightarrow> uuid_arg \<Rightarrow> string \<Rightarrow> string \<Rightarrow> uuid \<Rightarrow> datetime \<Rightarrow> policy_repo \<Rightarrow>
   policy_error + policy_version \<times> policy_repo" where
  "rollback_outcome_analysis_policy val workspace_id target_version_id actor_id analysis_kind fresh now repo =
     (if \<not> val_is_founder val workspace_id actor_id then Inl PolicyFounderRequired
      else
     (case get_policy_version workspace_id target_version_id repo of
        None \<Rightarrow> Inl (PolicyValueError ''rollback target version not found'')
      | Some target \<Rightarrow>
          let rolled = target\<lparr>pv_policy_version_id := fresh, pv_workspace_id := workspace_id,
                pv_analysis_kind := analysis_kind,
                pv_version_no := next_version_no workspace_id analysis_kind repo,
                pv_effective_at := now, pv_created_by := actor_id, pv_approved_by := actor_id,
                pv_rollback_target := Some (pv_policy_version_id target)\<rparr>
          in Inr (rolled,
               append_policy_event analysis_kind ''rolled_back'' actor_id
                 (repo\<lparr>pr_versions := pr_versions repo @ [rolled]\<rparr>))))"

subsection \<open>Improvement proposals\<close>

record improvement_proposal =
  ip_proposal_id :: uuid
  ip_workspace_id :: string
  ip_agent_instance_id :: uuid
  ip_created_by :: string
  ip_status :: string
  ip_change_class :: string
  ip_requires_founder :: bool
  ip_baseline_evidence_refs :: "string list"
  ip_hypothesis :: string
  ip_proposed_revision :: payload
  ip_candidate_definition_hash :: "string option"
  ip_baseline_definition_hash :: "string option"
  ip_risk_cost_impact :: payload
  ip_canary_selection :: payload
  ip_rollback_plan :: "string option"
  ip_version :: int

record proposal_repo =
  ir_rows :: "(uuid, improvement_proposal) pydict"
  ir_events :: "(uuid \<times> string \<times> string) list"

datatype proposal_error =
    ForbiddenProposalField string
  | ProposalFounderRequired
  | ProposalNotFound
  | CannotPromote string
  | ProposalBadUuid

definition EVALUATION_OWNER_SELF_SERVICE :: "string list" where
  "EVALUATION_OWNER_SELF_SERVICE = [''rubric'', ''tag'', ''sla'']"

definition FORBIDDEN_FIELDS :: "string list" where
  "FORBIDDEN_FIELDS = [''credential'', ''secret'', ''api_key'', ''password'', ''delegation_token'', ''raw_prompt'']"

definition forbidden_key :: "string \<Rightarrow> bool" where
  "forbidden_key k \<longleftrightarrow> (\<exists>f \<in> set FORBIDDEN_FIELDS. py_contains f (py_lower k))"

text \<open>\<open>_scan_forbidden\<close>: the path of the first forbidden field, going into nested dictionaries
  (but not into lists).\<close>

fun scan_forbidden :: "payload \<Rightarrow> string \<Rightarrow> string option"
and scan_forbidden_value :: "pyval \<Rightarrow> string \<Rightarrow> string option" where
  "scan_forbidden [] path = None"
| "scan_forbidden ((k, v) # kvs) path =
     (if forbidden_key k then Some (path @ ''.'' @ k)
      else (case scan_forbidden_value v (path @ ''.'' @ k) of
              Some p \<Rightarrow> Some p
            | None \<Rightarrow> scan_forbidden kvs path))"
| "scan_forbidden_value (PDict d) path = scan_forbidden d path"
| "scan_forbidden_value _ path = None"

definition get_proposal :: "string \<Rightarrow> uuid_arg \<Rightarrow> proposal_repo \<Rightarrow> improvement_proposal option" where
  "get_proposal workspace_id proposal_id repo =
     (case uuid_of proposal_id of
        None \<Rightarrow> None
      | Some pid \<Rightarrow>
          (case dict_get (ir_rows repo) pid of
             None \<Rightarrow> None
           | Some p \<Rightarrow> if ip_workspace_id p = workspace_id then Some p else None))"

definition update_proposal :: "improvement_proposal \<Rightarrow> proposal_repo \<Rightarrow> proposal_repo" where
  "update_proposal p repo = repo\<lparr>ir_rows := dict_set (ip_proposal_id p) p (ir_rows repo)\<rparr>"

definition append_proposal_event :: "uuid \<Rightarrow> string \<Rightarrow> string \<Rightarrow> proposal_repo \<Rightarrow> proposal_repo" where
  "append_proposal_event pid event_type actor_id repo =
     repo\<lparr>ir_events := ir_events repo @ [(pid, event_type, actor_id)]\<rparr>"

definition create_improvement_proposal ::
  "string \<Rightarrow> uuid_arg \<Rightarrow> string \<Rightarrow> string \<Rightarrow> string \<Rightarrow> payload \<Rightarrow> string option \<Rightarrow> string list option \<Rightarrow> payload option \<Rightarrow>
   string option \<Rightarrow> uuid \<Rightarrow> proposal_repo \<Rightarrow> proposal_error + improvement_proposal \<times> proposal_repo" where
  "create_improvement_proposal workspace_id agent_instance_id created_by change_class hypothesis proposed_revision
     baseline_definition_hash baseline_evidence_refs risk_cost_impact rollback_plan fresh repo =
     (case scan_forbidden proposed_revision ''proposed_revision'' of
        Some p \<Rightarrow> Inl (ForbiddenProposalField p)
      | None \<Rightarrow>
     (case scan_forbidden (or_else risk_cost_impact []) ''risk_cost_impact'' of
        Some p \<Rightarrow> Inl (ForbiddenProposalField p)
      | None \<Rightarrow>
     (case uuid_of agent_instance_id of
        None \<Rightarrow> Inl ProposalBadUuid
      | Some agent \<Rightarrow>
          let proposal = \<lparr>ip_proposal_id = fresh, ip_workspace_id = workspace_id, ip_agent_instance_id = agent,
                ip_created_by = created_by, ip_status = ''DRAFT'', ip_change_class = change_class,
                ip_requires_founder = (change_class \<notin> set EVALUATION_OWNER_SELF_SERVICE),
                ip_baseline_evidence_refs = or_else baseline_evidence_refs [], ip_hypothesis = hypothesis,
                ip_proposed_revision = proposed_revision, ip_candidate_definition_hash = None,
                ip_baseline_definition_hash = baseline_definition_hash,
                ip_risk_cost_impact = or_else risk_cost_impact [], ip_canary_selection = [],
                ip_rollback_plan = rollback_plan, ip_version = 1\<rparr>
          in Inr (proposal, append_proposal_event fresh ''created'' created_by (update_proposal proposal repo)))))"

definition promote_proposal ::
  "string \<Rightarrow> uuid_arg \<Rightarrow> string \<Rightarrow> bool \<Rightarrow> proposal_repo \<Rightarrow> proposal_error + improvement_proposal \<times> proposal_repo" where
  "promote_proposal workspace_id proposal_id actor_id is_founder repo =
     (case get_proposal workspace_id proposal_id repo of
        None \<Rightarrow> Inl ProposalNotFound
      | Some p \<Rightarrow>
          if ip_status p = ''DRAFT'' then
            let p' = p\<lparr>ip_status := (if ip_requires_founder p then ''PENDING_FOUNDER_REVIEW'' else ''APPROVED''),
                       ip_version := ip_version p + 1\<rparr>
            in Inr (p', update_proposal p' (append_proposal_event (ip_proposal_id p) ''submitted'' actor_id repo))
          else if ip_status p = ''PENDING_FOUNDER_REVIEW'' then
            if \<not> is_founder then Inl ProposalFounderRequired
            else
              let p' = p\<lparr>ip_status := ''APPROVED'', ip_version := ip_version p + 1\<rparr>
              in Inr (p', update_proposal p' (append_proposal_event (ip_proposal_id p) ''approved'' actor_id repo))
          else Inl (CannotPromote (ip_status p)))"

definition approve_canary ::
  "string \<Rightarrow> uuid_arg \<Rightarrow> string \<Rightarrow> string \<Rightarrow> string list \<Rightarrow> proposal_repo \<Rightarrow>
   proposal_error + improvement_proposal \<times> proposal_repo" where
  "approve_canary workspace_id proposal_id founder_id candidate_definition_hash selected_attempt_ids repo =
     (case get_proposal workspace_id proposal_id repo of
        None \<Rightarrow> Inl ProposalNotFound
      | Some p \<Rightarrow>
          let p' = p\<lparr>ip_status := ''CANARY'', ip_candidate_definition_hash := Some candidate_definition_hash,
                     ip_canary_selection := [(''attempt_ids'', PList (map PStr selected_attempt_ids))],
                     ip_version := ip_version p + 1\<rparr>
          in Inr (p', append_proposal_event (ip_proposal_id p) ''canary_started'' founder_id (update_proposal p' repo)))"

definition rollback_proposal ::
  "string \<Rightarrow> uuid_arg \<Rightarrow> string \<Rightarrow> proposal_repo \<Rightarrow> proposal_error + improvement_proposal \<times> proposal_repo" where
  "rollback_proposal workspace_id proposal_id founder_id repo =
     (case get_proposal workspace_id proposal_id repo of
        None \<Rightarrow> Inl ProposalNotFound
      | Some p \<Rightarrow>
          let p' = p\<lparr>ip_status := ''ROLLED_BACK'', ip_version := ip_version p + 1\<rparr>
          in Inr (p', append_proposal_event (ip_proposal_id p) ''rolled_back'' founder_id (update_proposal p' repo)))"

subsection \<open>Every published policy version is bounded, founder-approved and numbered\<close>

datatype policy_op =
    CreateDraft string string policy_payload string uuid
  | CreateSkillChange string string "string option" "uuid_arg option" "uuid_arg option" string uuid
  | PublishPolicy string uuid_arg int string string uuid datetime
  | RollbackPolicy string uuid_arg string string uuid datetime

definition repo_after :: "'e + 'a \<times> 's \<Rightarrow> 's \<Rightarrow> 's" where
  "repo_after r s = (case r of Inl _ \<Rightarrow> s | Inr (_, s') \<Rightarrow> s')"

lemma repo_after_simps [simp]: "repo_after (Inl e) s = s" "repo_after (Inr (x, s')) s = s'"
  by (simp_all add: repo_after_def)

fun policy_step :: "policy_validators \<Rightarrow> policy_op \<Rightarrow> policy_repo \<Rightarrow> policy_repo" where
  "policy_step val (CreateDraft w b pl k fresh) s = repo_after (create_policy_draft w b pl k fresh s) s"
| "policy_step val (CreateSkillChange w b c e a k fresh) s = repo_after (create_skill_change_draft w b c e a k fresh s) s"
| "policy_step val (PublishPolicy w d v a k fresh now) s =
     repo_after (publish_outcome_analysis_policy val w d v a k fresh now s) s"
| "policy_step val (RollbackPolicy w t a k fresh now) s =
     repo_after (rollback_outcome_analysis_policy val w t a k fresh now s) s"

definition version_sound :: "policy_validators \<Rightarrow> policy_version \<Rightarrow> bool" where
  "version_sound val v \<longleftrightarrow>
     set (pv_capability_allowlist v) \<subseteq> set OUTCOME_ANALYST_CAPABILITY_REFS \<and>
     pv_skill_id v = OUTCOME_ANALYSIS_SKILL_ID \<and> val_is_founder val (pv_workspace_id v) (pv_approved_by v)"

definition policy_inv :: "policy_validators \<Rightarrow> policy_repo \<Rightarrow> bool" where
  "policy_inv val s \<longleftrightarrow>
     all_records (\<lambda>d. pd_skill_id d = OUTCOME_ANALYSIS_SKILL_ID) (pr_drafts s) \<and>
     (\<forall>v \<in> set (pr_versions s). version_sound val v) \<and>
     (\<forall>w k. map pv_version_no (versions_of w k (pr_versions s)) = [1..int (length (versions_of w k (pr_versions s)))])"

lemma validate_capability_allowlist_Inr:
  "validate_capability_allowlist refs = Inr xs \<longleftrightarrow> xs = refs \<and> set refs \<subseteq> set OUTCOME_ANALYST_CAPABILITY_REFS"
  by (auto simp: validate_capability_allowlist_def filter_empty_conv)


lemma create_policy_draft_effect:
  assumes "create_policy_draft w b pl k fresh s = Inr (d, s')"
  shows "pd_skill_id d = OUTCOME_ANALYSIS_SKILL_ID \<and> pr_versions s' = pr_versions s \<and>
         pr_drafts s' = dict_set fresh d (pr_drafts s)"
proof -
  let ?refs = "or_else (pp_capability_allowlist pl) OUTCOME_ANALYST_CAPABILITY_REFS"
  obtain allow where allow: "validate_capability_allowlist ?refs = Inr allow"
    using assms by (cases "validate_capability_allowlist ?refs") (simp_all add: create_policy_draft_def)
  have skill: "opt_or_default (pp_skill_id pl) OUTCOME_ANALYSIS_SKILL_ID = OUTCOME_ANALYSIS_SKILL_ID"
    using assms
    by (cases "opt_or_default (pp_skill_id pl) OUTCOME_ANALYSIS_SKILL_ID = OUTCOME_ANALYSIS_SKILL_ID")
      (simp_all add: create_policy_draft_def allow)
  obtain policy where policy: "pp_policy pl = Some policy"
    using assms by (cases "pp_policy pl") (simp_all add: create_policy_draft_def allow skill)
  obtain e where e: "payload_uuid ''analyst_employee_id'' (pp_analyst_employee_id pl) = Inr e"
    using assms by (cases "payload_uuid ''analyst_employee_id'' (pp_analyst_employee_id pl)")
      (simp_all add: create_policy_draft_def allow skill policy)
  obtain a where a: "payload_uuid ''analyst_assignment_id'' (pp_analyst_assignment_id pl) = Inr a"
    using assms by (cases "payload_uuid ''analyst_assignment_id'' (pp_analyst_assignment_id pl)")
      (simp_all add: create_policy_draft_def allow skill policy e)
  from assms show ?thesis
    by (auto simp: create_policy_draft_def allow skill policy e a Let_def append_policy_event_def)
qed

lemma create_skill_change_draft_effect:
  assumes "create_skill_change_draft w b c e a k fresh s = Inr (d, s')"
  shows "pd_skill_id d = OUTCOME_ANALYSIS_SKILL_ID \<and> pr_versions s' = pr_versions s \<and>
         pr_drafts s' = dict_set fresh d (pr_drafts s)"
proof -
  let ?base = "case c of None \<Rightarrow> OUTCOME_ANALYST_CAPABILITY_REFS
    | Some x \<Rightarrow> if x = [] then OUTCOME_ANALYST_CAPABILITY_REFS else OUTCOME_ANALYST_CAPABILITY_REFS @ [x]"
  have "\<exists>pl. create_policy_draft w b pl k fresh s = Inr (d, s')"
    using assms
    by (cases "validate_capability_allowlist ?base"; cases e; cases a)
      (auto simp: create_skill_change_draft_def Let_def simp del: not_None_eq)
  then obtain pl where "create_policy_draft w b pl k fresh s = Inr (d, s')" by blast
  then show ?thesis by (rule create_policy_draft_effect)
qed

lemma policy_inv_draft:
  assumes "policy_inv val s" "pd_skill_id d = OUTCOME_ANALYSIS_SKILL_ID"
    "pr_versions s' = pr_versions s" "pr_drafts s' = dict_set fresh d (pr_drafts s)"
  shows "policy_inv val s'"
  using assms by (simp add: policy_inv_def)

lemma policy_inv_version:
  assumes inv: "policy_inv val s" and v: "version_sound val v"
    and no: "pv_version_no v = next_version_no (pv_workspace_id v) (pv_analysis_kind v) s"
    and vs: "pr_versions s' = pr_versions s @ [v]"
    and ds: "all_records (\<lambda>d. pd_skill_id d = OUTCOME_ANALYSIS_SKILL_ID) (pr_drafts s')"
  shows "policy_inv val s'"
proof -
  have "map pv_version_no (versions_of w k (pr_versions s')) = [1..int (length (versions_of w k (pr_versions s')))]" for w k
  proof (cases "pv_workspace_id v = w \<and> pv_analysis_kind v = k")
    case True
    have "versions_of w k (pr_versions s') = versions_of w k (pr_versions s) @ [v]"
      using True vs by (simp add: versions_of_def)
    moreover have "[1..int n + 1] = [1..int n] @ [int n + 1]" for n
      by (simp add: upto_rec2)
    ultimately show ?thesis using inv True no by (simp add: policy_inv_def next_version_no_def add.commute)
  next
    case False
    then have "versions_of w k (pr_versions s') = versions_of w k (pr_versions s)"
      using vs by (auto simp: versions_of_def)
    with inv show ?thesis by (simp add: policy_inv_def)
  qed
  with inv v vs ds show ?thesis by (simp add: policy_inv_def)
qed

lemma publish_effect:
  assumes eq: "publish_outcome_analysis_policy val w d ver a k fresh now s = Inr (v, s')"
    and inv: "all_records (\<lambda>d. pd_skill_id d = OUTCOME_ANALYSIS_SKILL_ID) (pr_drafts s)"
  shows "version_sound val v \<and> pv_version_no v = next_version_no (pv_workspace_id v) (pv_analysis_kind v) s \<and>
         pr_versions s' = pr_versions s @ [v] \<and>
         all_records (\<lambda>d. pd_skill_id d = OUTCOME_ANALYSIS_SKILL_ID) (pr_drafts s') \<and>
         (\<exists>dr. get_policy_draft w d s = Some dr \<and> pd_status dr = ''DRAFT'' \<and> pd_version dr = ver \<and>
               pv_approved_by v = a \<and> pv_workspace_id v = w \<and>
               val_employee_is_active val w (pd_analyst_employee_id dr) \<and>
               val_assignment_is_effective val w (pd_analyst_assignment_id dr) \<and>
               val_skill_version_is_published val (pd_skill_id dr) (pd_skill_version dr))"
proof -
  have founder: "val_is_founder val w a"
    using eq by (cases "val_is_founder val w a") (simp_all add: publish_outcome_analysis_policy_def)
  obtain dr where dr: "get_policy_draft w d s = Some dr"
    using eq founder by (cases "get_policy_draft w d s") (simp_all add: publish_outcome_analysis_policy_def)
  have ver: "pd_version dr = ver"
    using eq founder dr by (cases "pd_version dr = ver") (simp_all add: publish_outcome_analysis_policy_def)
  have st: "pd_status dr = ''DRAFT''"
    using eq founder dr ver by (cases "pd_status dr = ''DRAFT''") (simp_all add: publish_outcome_analysis_policy_def)
  obtain xs where xs: "validate_capability_allowlist (pd_capability_allowlist dr) = Inr xs"
    using eq founder dr ver st
    by (cases "validate_capability_allowlist (pd_capability_allowlist dr)") (simp_all add: publish_outcome_analysis_policy_def)
  have emp: "val_employee_is_active val w (pd_analyst_employee_id dr)"
    using eq founder dr ver st xs
    by (cases "val_employee_is_active val w (pd_analyst_employee_id dr)") (simp_all add: publish_outcome_analysis_policy_def)
  have asg: "val_assignment_is_effective val w (pd_analyst_assignment_id dr)"
    using eq founder dr ver st xs emp
    by (cases "val_assignment_is_effective val w (pd_analyst_assignment_id dr)") (simp_all add: publish_outcome_analysis_policy_def)
  have skv: "val_skill_version_is_published val (pd_skill_id dr) (pd_skill_version dr)"
    using eq founder dr ver st xs emp asg
    by (cases "val_skill_version_is_published val (pd_skill_id dr) (pd_skill_version dr)")
      (simp_all add: publish_outcome_analysis_policy_def)
  obtain did where did: "dict_get (pr_drafts s) did = Some dr"
    using dr by (auto simp: get_policy_draft_def split: option.splits if_splits)
  have skill: "pd_skill_id dr = OUTCOME_ANALYSIS_SKILL_ID" using all_records_get [OF inv did] .
  have marked: "pr_versions (mark_draft_published u r) = pr_versions r"
      "all_records (\<lambda>d. pd_skill_id d = OUTCOME_ANALYSIS_SKILL_ID) (pr_drafts r) \<Longrightarrow>
       all_records (\<lambda>d. pd_skill_id d = OUTCOME_ANALYSIS_SKILL_ID) (pr_drafts (mark_draft_published u r))" for u r
    by (auto simp: mark_draft_published_def intro: all_records_update split: option.splits)
  from eq show ?thesis
    using inv founder dr ver st xs emp asg skv skill marked
    by (auto simp: publish_outcome_analysis_policy_def Let_def append_policy_event_def version_sound_def
        validate_capability_allowlist_Inr)
qed

lemma rollback_effect:
  assumes eq: "rollback_outcome_analysis_policy val w t a k fresh now s = Inr (v, s')"
    and inv: "policy_inv val s"
  shows "version_sound val v \<and> pv_version_no v = next_version_no (pv_workspace_id v) (pv_analysis_kind v) s \<and>
         pr_versions s' = pr_versions s @ [v] \<and> pr_drafts s' = pr_drafts s"
proof -
  have founder: "val_is_founder val w a"
    using eq by (cases "val_is_founder val w a") (simp_all add: rollback_outcome_analysis_policy_def)
  obtain x where x: "get_policy_version w t s = Some x"
    using eq founder by (cases "get_policy_version w t s") (simp_all add: rollback_outcome_analysis_policy_def)
  then have "x \<in> set (pr_versions s)" by (auto simp: get_policy_version_def dest: find_Some_iff_mem)
  with inv have "version_sound val x" by (simp add: policy_inv_def)
  with eq founder x show ?thesis
    by (auto simp: rollback_outcome_analysis_policy_def Let_def append_policy_event_def version_sound_def)
qed

lemma policy_step_inv:
  assumes "policy_inv val s"
  shows "policy_inv val (policy_step val op s)"
proof (cases op)
  case (CreateDraft w b pl k fresh)
  show ?thesis
  proof (cases "create_policy_draft w b pl k fresh s")
    case (Inr p)
    with create_policy_draft_effect [of w b pl k fresh s "fst p" "snd p"] assms CreateDraft show ?thesis
      by (cases p) (auto intro: policy_inv_draft)
  qed (simp add: CreateDraft assms)
next
  case (CreateSkillChange w b c e a k fresh)
  show ?thesis
  proof (cases "create_skill_change_draft w b c e a k fresh s")
    case (Inr p)
    with create_skill_change_draft_effect [of w b c e a k fresh s "fst p" "snd p"] assms CreateSkillChange show ?thesis
      by (cases p) (auto intro: policy_inv_draft)
  qed (simp add: CreateSkillChange assms)
next
  case (PublishPolicy w d ver a k fresh now)
  show ?thesis
  proof (cases "publish_outcome_analysis_policy val w d ver a k fresh now s")
    case (Inr p)
    have "all_records (\<lambda>d. pd_skill_id d = OUTCOME_ANALYSIS_SKILL_ID) (pr_drafts s)"
      using assms by (simp add: policy_inv_def)
    with publish_effect [of val w d ver a k fresh now s "fst p" "snd p"] Inr
    have "policy_inv val (snd p)" by (intro policy_inv_version [OF assms, of "fst p"]) simp_all
    with Inr PublishPolicy show ?thesis by (cases p) simp
  qed (simp add: PublishPolicy assms)
next
  case (RollbackPolicy w t a k fresh now)
  show ?thesis
  proof (cases "rollback_outcome_analysis_policy val w t a k fresh now s")
    case (Inr p)
    have "all_records (\<lambda>d. pd_skill_id d = OUTCOME_ANALYSIS_SKILL_ID) (pr_drafts s)"
      using assms by (simp add: policy_inv_def)
    with rollback_effect [of val w t a k fresh now s "fst p" "snd p"] Inr assms
    have "policy_inv val (snd p)" by (intro policy_inv_version [OF assms, of "fst p"]) simp_all
    with Inr RollbackPolicy show ?thesis by (cases p) simp
  qed (simp add: RollbackPolicy assms)
qed

interpretation policies: state_machine "policy_step val" "\<lambda>_ _. True" "policy_inv val" for val
  by unfold_locales (rule policy_step_inv)

text \<open>Published policies stay inside the boundary. Whatever drafts are created, published and
  rolled back, in whatever order: every policy version in the history allows only the six
  capabilities of the Outcome Analyst, pins the outcome-analysis skill and was approved by a
  founder of its workspace, and the versions of each kind of analysis are numbered 1, 2, 3, \<dots>
  without a gap, the latest last.\<close>

theorem policy_history_sound:
  shows "let s = fold (policy_step val) ops \<lparr>pr_drafts = [], pr_versions = [], pr_events = []\<rparr>;
             vs = versions_of w k (pr_versions s) in
         list_all (\<lambda>v. set (pv_capability_allowlist v) \<subseteq> set OUTCOME_ANALYST_CAPABILITY_REFS \<and>
            pv_skill_id v = OUTCOME_ANALYSIS_SKILL_ID \<and> val_is_founder val (pv_workspace_id v) (pv_approved_by v))
           (pr_versions s) \<and>
         map pv_version_no vs = [1..int (length vs)] \<and>
         map_option pv_version_no (latest_policy_version w k s) = (if vs = [] then None else Some (int (length vs)))"
proof -
  let ?s = "fold (policy_step val) ops \<lparr>pr_drafts = [], pr_versions = [], pr_events = []\<rparr>"
  have "policy_inv val ?s"
    by (rule policies.run_inv) (simp_all add: policy_inv_def versions_of_def)
  then have all: "\<forall>v \<in> set (pr_versions ?s). version_sound val v"
    and no: "map pv_version_no (versions_of w k (pr_versions ?s)) = [1..int (length (versions_of w k (pr_versions ?s)))]"
    by (simp_all add: policy_inv_def)
  have "pv_version_no (last vs) = int (length vs)" if "map pv_version_no vs = [1..int (length vs)]" "vs \<noteq> []" for vs
  proof -
    from that(2) have "1 \<le> int (length vs)" by (cases vs) simp_all
    then have "last (map pv_version_no vs) = int (length vs)" unfolding that(1) by (simp add: upto_rec2)
    with that(2) show ?thesis by (simp add: last_map)
  qed
  with no have "map_option pv_version_no (latest_policy_version w k ?s) =
      (if versions_of w k (pr_versions ?s) = [] then None else Some (int (length (versions_of w k (pr_versions ?s)))))"
    unfolding latest_policy_version_def Let_def by auto
  with all no show ?thesis by (simp add: version_sound_def list_all_iff Let_def)
qed


subsection \<open>Only a founder approves a founder-scope proposal\<close>

datatype proposal_op =
    CreateProposal string uuid_arg string string string payload "string option" "string list option" "payload option"
      "string option" uuid
  | PromoteProposal string uuid_arg string bool
  | CanaryProposal string uuid_arg string string "string list"
  | RollbackProposal string uuid_arg string

fun proposal_step :: "proposal_op \<Rightarrow> proposal_repo \<Rightarrow> proposal_repo" where
  "proposal_step (CreateProposal w a b c h r bd be ri rp fresh) s =
     repo_after (create_improvement_proposal w a b c h r bd be ri rp fresh s) s"
| "proposal_step (PromoteProposal w p a f) s = repo_after (promote_proposal w p a f s) s"
| "proposal_step (CanaryProposal w p f h ids) s = repo_after (approve_canary w p f h ids s) s"
| "proposal_step (RollbackProposal w p f) s = repo_after (rollback_proposal w p f s) s"

lemma get_proposal_Some:
  "get_proposal w arg s = Some p \<longleftrightarrow>
     (\<exists>pid. arg = GoodUuid pid \<and> dict_get (ir_rows s) pid = Some p \<and> ip_workspace_id p = w)"
  by (cases arg) (auto simp: get_proposal_def split: option.splits)

definition proposal_ok :: "improvement_proposal \<Rightarrow> bool" where
  "proposal_ok p \<longleftrightarrow> ip_requires_founder p = (ip_change_class p \<notin> set EVALUATION_OWNER_SELF_SERVICE)"

definition founder_approved :: "proposal_op list \<Rightarrow> improvement_proposal \<Rightarrow> bool" where
  "founder_approved ops p \<longleftrightarrow>
     (\<exists>actor. PromoteProposal (ip_workspace_id p) (GoodUuid (ip_proposal_id p)) actor True \<in> set ops)"

definition proposal_inv :: "proposal_op list \<Rightarrow> proposal_repo \<Rightarrow> bool" where
  "proposal_inv ops s \<longleftrightarrow> keyed ip_proposal_id (ir_rows s) \<and>
     all_records (\<lambda>p. proposal_ok p \<and> (ip_status p = ''APPROVED'' \<and> ip_requires_founder p \<longrightarrow> founder_approved ops p)) (ir_rows s)"

lemma founder_approved_snoc: "founder_approved ops p \<Longrightarrow> founder_approved (ops @ [op]) p"
  by (auto simp: founder_approved_def)

lemma proposal_inv_snoc: "proposal_inv ops s \<Longrightarrow> proposal_inv (ops @ [op]) s"
  by (auto simp: proposal_inv_def all_records_def intro: founder_approved_snoc)

lemma proposal_inv_write:
  assumes "proposal_inv ops s" "proposal_ok p" "ip_status p = ''APPROVED'' \<Longrightarrow> ip_requires_founder p \<Longrightarrow> founder_approved ops p"
    and "ir_rows s' = dict_set (ip_proposal_id p) p (ir_rows s)"
  shows "proposal_inv ops s'"
  using assms by (simp add: proposal_inv_def)

lemma proposal_step_inv:
  assumes "proposal_inv ops s"
  shows "proposal_inv (ops @ [op]) (proposal_step op s)"
proof -
  note inv = proposal_inv_snoc [OF assms, of op]
  have row: "proposal_ok p \<and> ip_proposal_id p = pid" if "dict_get (ir_rows s) pid = Some p" for pid p
    using assms that by (auto simp: proposal_inv_def dest: keyed_get all_records_get)
  show ?thesis
  proof (cases op)
    case (CreateProposal w a b c h r bd be ri rp fresh)
    show ?thesis
    proof (cases "create_improvement_proposal w a b c h r bd be ri rp fresh s")
      case (Inr x)
      then have "proposal_ok (fst x)" "ip_status (fst x) = ''DRAFT''"
        "ir_rows (snd x) = dict_set (ip_proposal_id (fst x)) (fst x) (ir_rows s)"
        by (auto simp: create_improvement_proposal_def Let_def proposal_ok_def append_proposal_event_def
            update_proposal_def split: option.splits)
      with proposal_inv_write [OF inv, of "fst x" "snd x"] have "proposal_inv (ops @ [op]) (snd x)" by simp
      with Inr CreateProposal show ?thesis by (cases x) simp
    qed (use inv CreateProposal in simp)
  next
    case (PromoteProposal w arg a f)
    show ?thesis
    proof (cases "promote_proposal w arg a f s")
      case (Inr x)
      then obtain p pid where p: "get_proposal w arg s = Some p" "arg = GoodUuid pid" "dict_get (ir_rows s) pid = Some p"
          "ip_workspace_id p = w"
        by (cases "get_proposal w arg s") (auto simp: promote_proposal_def get_proposal_Some)
      note r = row [OF p(3)]
      have "proposal_ok (fst x)" "ir_rows (snd x) = dict_set (ip_proposal_id (fst x)) (fst x) (ir_rows s)"
        using Inr p(1) r
        by (auto simp: promote_proposal_def Let_def proposal_ok_def append_proposal_event_def update_proposal_def
            split: if_splits)
      moreover have "founder_approved (ops @ [op]) (fst x)" if "ip_status (fst x) = ''APPROVED''" "ip_requires_founder (fst x)"
        using Inr p r that
        by (auto simp: promote_proposal_def Let_def founder_approved_def PromoteProposal split: if_splits)
      ultimately have "proposal_inv (ops @ [op]) (snd x)"
        using proposal_inv_write [OF inv, of "fst x" "snd x"] by blast
      with Inr PromoteProposal show ?thesis by (cases x) simp
    qed (use inv PromoteProposal in simp)
  next
    case (CanaryProposal w arg fnd h ids)
    show ?thesis
    proof (cases "approve_canary w arg fnd h ids s")
      case (Inr x)
      then obtain p pid where p: "get_proposal w arg s = Some p" "dict_get (ir_rows s) pid = Some p"
        by (cases "get_proposal w arg s") (auto simp: approve_canary_def get_proposal_Some)
      have "proposal_ok (fst x)" "ip_status (fst x) = ''CANARY''"
        "ir_rows (snd x) = dict_set (ip_proposal_id (fst x)) (fst x) (ir_rows s)"
        using Inr p(1) row [OF p(2)]
        by (auto simp: approve_canary_def Let_def proposal_ok_def append_proposal_event_def update_proposal_def)
      with proposal_inv_write [OF inv, of "fst x" "snd x"] have "proposal_inv (ops @ [op]) (snd x)" by simp
      with Inr CanaryProposal show ?thesis by (cases x) simp
    qed (use inv CanaryProposal in simp)
  next
    case (RollbackProposal w arg fnd)
    show ?thesis
    proof (cases "rollback_proposal w arg fnd s")
      case (Inr x)
      then obtain p pid where p: "get_proposal w arg s = Some p" "dict_get (ir_rows s) pid = Some p"
        by (cases "get_proposal w arg s") (auto simp: rollback_proposal_def get_proposal_Some)
      have "proposal_ok (fst x)" "ip_status (fst x) = ''ROLLED_BACK''"
        "ir_rows (snd x) = dict_set (ip_proposal_id (fst x)) (fst x) (ir_rows s)"
        using Inr p(1) row [OF p(2)]
        by (auto simp: rollback_proposal_def Let_def proposal_ok_def append_proposal_event_def update_proposal_def)
      with proposal_inv_write [OF inv, of "fst x" "snd x"] have "proposal_inv (ops @ [op]) (snd x)" by simp
      with Inr RollbackProposal show ?thesis by (cases x) simp
    qed (use inv RollbackProposal in simp)
  qed
qed

lemma proposal_run_inv: "proposal_inv ops (fold proposal_step ops \<lparr>ir_rows = [], ir_events = []\<rparr>)"
proof (induction ops rule: rev_induct)
  case Nil
  show ?case by (simp add: proposal_inv_def)
next
  case (snoc op ops)
  then show ?case using proposal_step_inv by simp
qed

text \<open>Founder approval of improvements. After any requests, an approved proposal whose change is
  not one an evaluation owner may make alone (a rubric, a tag, an SLA) was approved by a promotion
  request of its workspace that carried a founder.\<close>

theorem founder_scope_approved_by_founder:
  assumes "dict_get (ir_rows (fold proposal_step ops \<lparr>ir_rows = [], ir_events = []\<rparr>)) pid = Some p"
    and "ip_status p = ''APPROVED''" and "ip_change_class p \<notin> {''rubric'', ''tag'', ''sla''}"
  shows "\<exists>actor. PromoteProposal (ip_workspace_id p) (GoodUuid pid) actor True \<in> set ops"
proof -
  from proposal_run_inv [of ops] assms(1)
  have "ip_proposal_id p = pid \<and> proposal_ok p \<and> (ip_requires_founder p \<longrightarrow> founder_approved ops p)"
    using assms(2) by (auto simp: proposal_inv_def dest: keyed_get all_records_get)
  with assms(3) show ?thesis
    by (auto simp: proposal_ok_def founder_approved_def EVALUATION_OWNER_SELF_SERVICE_def)
qed

text \<open>Witness of C30.\<close>

definition example_proposals :: "proposal_op list" where
  "example_proposals =
     [CreateProposal ''w'' (GoodUuid 3) ''owner'' ''autonomy'' ''h'' [] None None None None 5,
      PromoteProposal ''w'' (GoodUuid 5) ''owner'' False, PromoteProposal ''w'' (GoodUuid 5) ''owner'' False,
      PromoteProposal ''w'' (GoodUuid 5) ''boss'' True]"

theorem founder_scope_approved_by_founder_witness:
  "\<exists>actor. PromoteProposal ''w'' (GoodUuid 5) actor True \<in> set example_proposals"
proof -
  let ?rows = "ir_rows (fold proposal_step example_proposals \<lparr>ir_rows = [], ir_events = []\<rparr>)"
  have shape: "map_option (\<lambda>p. (ip_status p, ip_change_class p, ip_workspace_id p)) (dict_get ?rows 5) =
        Some (''APPROVED'', ''autonomy'', ''w'')"
    by code_simp
  then obtain p where "dict_get ?rows 5 = Some p" "ip_status p = ''APPROVED''" "ip_change_class p = ''autonomy''"
      "ip_workspace_id p = ''w''" by auto
  from founder_scope_approved_by_founder [OF this(1,2)] this(3,4) show ?thesis by simp
qed

end
