(* ===== verification/Relay.thy ===== *)
theory Relay
  imports Keyed
begin

text \<open>
  Commands relayed to a local node: the authenticated envelope, its verifier with the replay
  cache of nonces (\<open>packages/agent/remote/command_envelope.py\<close>) and the gate that audits
  every command (\<open>relay_command_gate.py\<close>). The message authentication code, the ISO-8601
  parser and formatter of the standard library are fields of \<open>relay_env\<close>; nothing is assumed
  of them. An exception that the code does not turn into an \<open>EnvelopeError\<close> is a value of its
  own, because the gate treats the two differently.
\<close>

subsection \<open>Principals and envelopes\<close>

record relay_principal =
  rp_kind :: string
  rp_id :: string

record command_envelope =
  ce_workspace_id :: string
  ce_principal :: relay_principal
  ce_command :: payload
  ce_nonce :: string
  ce_issued_at :: string
  ce_expires_at :: string
  ce_signature :: pyval

record verified_command =
  vc_workspace_id :: string
  vc_principal :: relay_principal
  vc_command :: payload
  vc_nonce :: string
  vc_expires_at :: datetime

datatype relay_error =
    EnvelopeError string
  | OtherException string

definition principal_to_dict :: "relay_principal \<Rightarrow> payload" where
  "principal_to_dict p = [(''kind'', PStr (rp_kind p)), (''id'', PStr (rp_id p))]"

definition principal_from_dict :: "payload \<Rightarrow> relay_error + relay_principal" where
  "principal_from_dict d =
     (case dict_get d ''kind'' of
        Some (PStr kind) \<Rightarrow>
          if kind \<noteq> ''user'' \<and> kind \<noteq> ''workforce_member'' then Inl (EnvelopeError ''principal.kind'')
          else
            (case dict_get d ''id'' of
               Some (PStr pid) \<Rightarrow>
                 if pid = [] then Inl (EnvelopeError ''principal.id'')
                 else Inr \<lparr>rp_kind = kind, rp_id = pid\<rparr>
             | _ \<Rightarrow> Inl (EnvelopeError ''principal.id''))
      | _ \<Rightarrow> Inl (EnvelopeError ''principal.kind''))"

text \<open>\<open>Principal.from_dict(d.get("principal") or {})\<close>: a truthy value that is no dictionary has no
  method \<open>get\<close>.\<close>

definition principal_field :: "pyval option \<Rightarrow> relay_error + relay_principal" where
  "principal_field v =
     (case v of
        None \<Rightarrow> principal_from_dict []
      | Some x \<Rightarrow>
          if \<not> truthy x then principal_from_dict []
          else (case x of PDict p \<Rightarrow> principal_from_dict p | _ \<Rightarrow> Inl (OtherException ''AttributeError'')))"

definition signing_payload :: "command_envelope \<Rightarrow> payload" where
  "signing_payload e =
     [(''workspace_id'', PStr (ce_workspace_id e)), (''principal'', PDict (principal_to_dict (ce_principal e))),
      (''command'', PDict (ce_command e)), (''nonce'', PStr (ce_nonce e)),
      (''issued_at'', PStr (ce_issued_at e)), (''expires_at'', PStr (ce_expires_at e))]"

definition envelope_to_dict :: "command_envelope \<Rightarrow> payload" where
  "envelope_to_dict e = signing_payload e @ [(''signature'', ce_signature e)]"

text \<open>A field that must be a non-empty string.\<close>

definition str_field :: "payload \<Rightarrow> string \<Rightarrow> relay_error + string" where
  "str_field d f =
     (case dict_get d f of
        Some (PStr s) \<Rightarrow> if s = [] then Inl (EnvelopeError f) else Inr s
      | _ \<Rightarrow> Inl (EnvelopeError f))"

definition envelope_from_dict :: "payload \<Rightarrow> relay_error + command_envelope" where
  "envelope_from_dict d =
     (case str_field d ''workspace_id'' of Inl e \<Rightarrow> Inl e | Inr ws \<Rightarrow>
     (case str_field d ''nonce'' of Inl e \<Rightarrow> Inl e | Inr nonce \<Rightarrow>
     (case str_field d ''issued_at'' of Inl e \<Rightarrow> Inl e | Inr issued \<Rightarrow>
     (case str_field d ''expires_at'' of Inl e \<Rightarrow> Inl e | Inr expires \<Rightarrow>
     (case dict_get d ''command'' of
        Some (PDict command) \<Rightarrow>
          (case principal_field (dict_get d ''principal'') of
             Inl e \<Rightarrow> Inl e
           | Inr prin \<Rightarrow>
               Inr \<lparr>ce_workspace_id = ws, ce_principal = prin, ce_command = command, ce_nonce = nonce,
                    ce_issued_at = issued, ce_expires_at = expires,
                    ce_signature = (case dict_get d ''signature'' of
                                      Some x \<Rightarrow> if truthy x then x else PStr [] | None \<Rightarrow> PStr [])\<rparr>)
      | _ \<Rightarrow> Inl (EnvelopeError ''command''))))))"

text \<open>The received object: an envelope or a dictionary.\<close>

datatype raw_envelope = RawEnvelope command_envelope | RawDict payload

definition read_envelope :: "raw_envelope \<Rightarrow> relay_error + command_envelope" where
  "read_envelope raw = (case raw of RawEnvelope e \<Rightarrow> Inr e | RawDict d \<Rightarrow> envelope_from_dict d)"

subsection \<open>The verifier\<close>

record relay_env =
  rl_key :: string
  rl_mac :: "string \<Rightarrow> payload \<Rightarrow> string"
  rl_iso :: "string \<Rightarrow> datetime option"
  rl_isoformat :: "datetime \<Rightarrow> string"
  rl_skew :: int
  rl_max_ttl :: int

definition CLOCK_SKEW_SEC :: int where "CLOCK_SKEW_SEC = 60"
definition MAX_TTL_SEC :: int where "MAX_TTL_SEC = 15 * 60"

definition sign_envelope :: "relay_env \<Rightarrow> command_envelope \<Rightarrow> command_envelope" where
  "sign_envelope env e = e\<lparr>ce_signature := PStr (rl_mac env (rl_key env) (signing_payload e))\<rparr>"

text \<open>\<open>hmac.compare_digest\<close> on texts accepts ASCII only and no other type: \<open>None\<close> is the
  \<open>TypeError\<close>.\<close>

definition compare_digest :: "string \<Rightarrow> pyval \<Rightarrow> bool option" where
  "compare_digest expected v =
     (case v of
        PStr s \<Rightarrow> if \<forall>c \<in> set s. (of_char c :: nat) < 128 then Some (expected = s) else None
      | _ \<Rightarrow> None)"

type_synonym nonce_cache = "(string \<times> string, datetime) pydict"

definition evict :: "datetime \<Rightarrow> nonce_cache \<Rightarrow> nonce_cache" where
  "evict now seen = filter (\<lambda>(k, x). \<not> x \<le> now) seen"

text \<open>\<open>check_and_record\<close>: the eviction stays even when the nonce is refused.\<close>

definition check_and_record :: "string \<Rightarrow> string \<Rightarrow> datetime \<Rightarrow> datetime \<Rightarrow> nonce_cache \<Rightarrow> bool \<times> nonce_cache" where
  "check_and_record workspace_id nonce expires now seen =
     (let seen = evict now seen
      in if dict_get seen (workspace_id, nonce) \<noteq> None then (False, seen)
         else (True, dict_set (workspace_id, nonce) expires seen))"

definition check_signature :: "relay_env \<Rightarrow> command_envelope \<Rightarrow> relay_error + unit" where
  "check_signature env e =
     (if \<not> truthy (ce_signature e) then Inl (EnvelopeError ''no signature'')
      else (case compare_digest (rl_mac env (rl_key env) (signing_payload e)) (ce_signature e) of
              None \<Rightarrow> Inl (OtherException ''TypeError'')
            | Some False \<Rightarrow> Inl (EnvelopeError ''bad signature'')
            | Some True \<Rightarrow> Inr ()))"

text \<open>The checks of the validity window; the result is \<open>expires\<close>.\<close>

definition check_window :: "relay_env \<Rightarrow> command_envelope \<Rightarrow> datetime \<Rightarrow> relay_error + datetime" where
  "check_window env e now =
     (case rl_iso env (ce_issued_at e) of
        None \<Rightarrow> Inl (EnvelopeError ''issued_at'')
      | Some issued \<Rightarrow>
          (case rl_iso env (ce_expires_at e) of
             None \<Rightarrow> Inl (EnvelopeError ''expires_at'')
           | Some expires \<Rightarrow>
               if expires \<le> issued then Inl (EnvelopeError ''expires_at before issued_at'')
               else if timedelta_seconds (rl_max_ttl env) < expires - issued then Inl (EnvelopeError ''TTL'')
               else if expires \<le> now then Inl (EnvelopeError ''expired'')
               else if timedelta_seconds (rl_skew env) < issued - now then Inl (EnvelopeError ''issued in the future'')
               else Inr expires))"

definition verify :: "relay_env \<Rightarrow> raw_envelope \<Rightarrow> datetime \<Rightarrow> nonce_cache \<Rightarrow> (relay_error + verified_command) \<times> nonce_cache" where
  "verify env raw now seen =
     (case read_envelope raw of
        Inl err \<Rightarrow> (Inl err, seen)
      | Inr e \<Rightarrow>
     (case check_signature env e of
        Inl err \<Rightarrow> (Inl err, seen)
      | Inr _ \<Rightarrow>
     (case check_window env e now of
        Inl err \<Rightarrow> (Inl err, seen)
      | Inr expires \<Rightarrow>
          (case check_and_record (ce_workspace_id e) (ce_nonce e) expires now seen of
             (False, seen') \<Rightarrow> (Inl (EnvelopeError ''nonce replayed''), seen')
           | (True, seen') \<Rightarrow>
               (Inr \<lparr>vc_workspace_id = ce_workspace_id e, vc_principal = ce_principal e,
                     vc_command = ce_command e, vc_nonce = ce_nonce e, vc_expires_at = expires\<rparr>, seen')))))"

subsection \<open>The gate\<close>

record command_audit =
  ca_workspace_id :: string
  ca_principal :: "relay_principal option"
  ca_command :: "payload option"
  ca_nonce :: "string option"
  ca_received_at :: string
  ca_outcome :: string
  ca_source :: string
  ca_reject_reason :: "string option"

text \<open>\<open>_peek\<close>: workspace, principal, command and nonce as far as they can be read; none of
  them is trusted.\<close>

definition str_or_none :: "pyval option \<Rightarrow> string option" where
  "str_or_none v = (case v of Some (PStr s) \<Rightarrow> Some s | _ \<Rightarrow> None)"

definition peek :: "raw_envelope \<Rightarrow> string option \<times> relay_principal option \<times> payload option \<times> string option" where
  "peek raw =
     (case raw of
        RawEnvelope e \<Rightarrow> (Some (ce_workspace_id e), Some (ce_principal e), Some (ce_command e), Some (ce_nonce e))
      | RawDict d \<Rightarrow>
          (str_or_none (dict_get d ''workspace_id''),
           (case dict_get d ''principal'' of
              Some (PDict p) \<Rightarrow> (case principal_from_dict p of Inl _ \<Rightarrow> None | Inr x \<Rightarrow> Some x)
            | _ \<Rightarrow> None),
           (case dict_get d ''command'' of Some (PDict c) \<Rightarrow> Some c | _ \<Rightarrow> None),
           str_or_none (dict_get d ''nonce'')))"

record relay_gate =
  rg_seen :: nonce_cache
  rg_audit :: "command_audit list"

definition accept :: "relay_env \<Rightarrow> raw_envelope \<Rightarrow> datetime \<Rightarrow> relay_gate \<Rightarrow> (relay_error + verified_command) \<times> relay_gate" where
  "accept env raw now g =
     (let received = rl_isoformat env now;
          (raw_ws, raw_principal, raw_command, raw_nonce) = peek raw;
          (result, seen) = verify env raw now (rg_seen g);
          g = g\<lparr>rg_seen := seen\<rparr>
      in case result of
           Inl (EnvelopeError reason) \<Rightarrow>
             (result, g\<lparr>rg_audit := rg_audit g @
               [\<lparr>ca_workspace_id = or_else raw_ws ''?'', ca_principal = raw_principal, ca_command = raw_command,
                 ca_nonce = raw_nonce, ca_received_at = received, ca_outcome = ''rejected'',
                 ca_source = ''remote_relay'', ca_reject_reason = Some reason\<rparr>]\<rparr>)
         | Inl (OtherException _) \<Rightarrow> (result, g)
         | Inr v \<Rightarrow>
             (result, g\<lparr>rg_audit := rg_audit g @
               [\<lparr>ca_workspace_id = vc_workspace_id v, ca_principal = Some (vc_principal v),
                 ca_command = Some (vc_command v), ca_nonce = Some (vc_nonce v), ca_received_at = received,
                 ca_outcome = ''accepted'', ca_source = ''remote_relay'', ca_reject_reason = None\<rparr>]\<rparr>))"

subsection \<open>What a verified command has passed\<close>

lemma verify_Inr:
  "verify env raw now seen = (Inr v, seen') \<longleftrightarrow>
     (\<exists>e expires. read_envelope raw = Inr e \<and> check_signature env e = Inr () \<and> check_window env e now = Inr expires \<and>
        dict_get (evict now seen) (ce_workspace_id e, ce_nonce e) = None \<and>
        v = \<lparr>vc_workspace_id = ce_workspace_id e, vc_principal = ce_principal e, vc_command = ce_command e,
             vc_nonce = ce_nonce e, vc_expires_at = expires\<rparr> \<and>
        seen' = dict_set (ce_workspace_id e, ce_nonce e) expires (evict now seen))"
  by (auto simp: verify_def check_and_record_def Let_def split: sum.splits prod.splits bool.splits if_splits)

lemma verify_seen:
  "verify env raw now seen = (Inl err, seen') \<Longrightarrow> seen' = seen \<or> seen' = evict now seen"
  by (auto simp: verify_def check_and_record_def Let_def split: sum.splits prod.splits bool.splits if_splits)

lemma check_signature_Inr:
  "check_signature env e = Inr () \<longleftrightarrow>
     (ce_signature e = PStr (rl_mac env (rl_key env) (signing_payload e)) \<and>
      rl_mac env (rl_key env) (signing_payload e) \<noteq> [] \<and>
      (\<forall>c \<in> set (rl_mac env (rl_key env) (signing_payload e)). (of_char c :: nat) < 128))"
  by (cases "ce_signature e") (auto simp: check_signature_def compare_digest_def split: option.splits bool.splits)

lemma check_window_Inr:
  "check_window env e now = Inr expires \<longleftrightarrow>
     (\<exists>issued. rl_iso env (ce_issued_at e) = Some issued \<and> rl_iso env (ce_expires_at e) = Some expires \<and>
        issued < expires \<and> expires - issued \<le> timedelta_seconds (rl_max_ttl env) \<and> now < expires \<and>
        issued - now \<le> timedelta_seconds (rl_skew env))"
  by (auto simp: check_window_def split: option.splits)

lemma evict_ok: "dict_ok seen \<Longrightarrow> dict_ok (evict now seen)"
  unfolding evict_def by (rule distinct_map_filter)

lemma evict_get:
  "dict_ok seen \<Longrightarrow> dict_get (evict now seen) k =
     (case dict_get seen k of None \<Rightarrow> None | Some x \<Rightarrow> if x \<le> now then None else Some x)"
proof (induction seen)
  case (Cons kv seen)
  then have "dict_get seen (fst kv) = None" by (simp add: map_of_eq_None_iff)
  with Cons show ?case by (cases kv) (auto simp: evict_def split: option.splits)
qed (simp add: evict_def)

subsection \<open>Replay\<close>

text \<open>A gate with the log of the commands it let through, each with the time of its acceptance,
  and the last reading of the clock. The environment sends any objects at any times, as long as the
  clock does not run backwards.\<close>

type_synonym relay_world = "relay_gate \<times> (verified_command \<times> datetime) list \<times> datetime"

definition relay_step :: "relay_env \<Rightarrow> raw_envelope \<times> datetime \<Rightarrow> relay_world \<Rightarrow> relay_world" where
  "relay_step env req w =
     (let (raw, now) = req; (g, log, t) = w; (result, g') = accept env raw now g
      in (g', log @ (case result of Inr v \<Rightarrow> [(v, now)] | Inl _ \<Rightarrow> []), now))"

definition clock_forward :: "raw_envelope \<times> datetime \<Rightarrow> relay_world \<Rightarrow> bool" where
  "clock_forward req w \<longleftrightarrow> snd (snd w) \<le> snd req"

definition command_nonce :: "verified_command \<Rightarrow> string \<times> string" where
  "command_nonce v = (vc_workspace_id v, vc_nonce v)"

definition after_expiry :: "verified_command \<times> datetime \<Rightarrow> verified_command \<times> datetime \<Rightarrow> bool" where
  "after_expiry x y \<longleftrightarrow> (command_nonce (fst x) = command_nonce (fst y) \<longrightarrow> vc_expires_at (fst x) \<le> snd y)"

definition relay_inv :: "relay_world \<Rightarrow> bool" where
  "relay_inv w \<longleftrightarrow>
     (let (g, log, t) = w in
        dict_ok (rg_seen g) \<and> sorted_wrt after_expiry log \<and>
        (\<forall>(v, tm) \<in> set log. tm < vc_expires_at v \<and>
           (vc_expires_at v \<le> t \<or> dict_get (rg_seen g) (command_nonce v) = Some (vc_expires_at v))))"

lemma accept_seen:
  "rg_seen (snd (accept env raw now g)) = snd (verify env raw now (rg_seen g))"
  "fst (accept env raw now g) = fst (verify env raw now (rg_seen g))"
  by (auto simp: accept_def Let_def split: prod.splits sum.splits relay_error.splits)

lemma relay_step_inv:
  assumes inv: "relay_inv w" and fwd: "clock_forward req w"
  shows "relay_inv (relay_step env req w)"
proof -
  obtain g log t where w: "w = (g, log, t)" by (cases w)
  obtain raw now where req: "req = (raw, now)" by (cases req)
  let ?seen = "rg_seen g" and ?acc = "accept env raw now g"
  from inv have ok: "dict_ok ?seen" and sorted: "sorted_wrt after_expiry log"
    and cached: "\<And>v tm. (v, tm) \<in> set log \<Longrightarrow> tm < vc_expires_at v \<and>
           (vc_expires_at v \<le> t \<or> dict_get ?seen (command_nonce v) = Some (vc_expires_at v))"
    by (auto simp: relay_inv_def w)
  from fwd have now: "t \<le> now" by (simp add: clock_forward_def w req)
  have evicted: "vc_expires_at v \<le> now \<or> dict_get (evict now ?seen) (command_nonce v) = Some (vc_expires_at v)"
    if "(v, tm) \<in> set log" for v tm
    using cached [OF that] now by (auto simp: evict_get [OF ok] split: if_splits)
  obtain result seen' where ver: "verify env raw now ?seen = (result, seen')" by fastforce
  have acc: "rg_seen (snd ?acc) = seen'" "fst ?acc = result" by (simp_all add: accept_seen ver)
  have step: "relay_step env req w = (snd ?acc, log @ (case result of Inr v \<Rightarrow> [(v, now)] | Inl _ \<Rightarrow> []), now)"
    using acc(2) by (cases ?acc) (simp add: relay_step_def w req)
  show ?thesis
  proof (cases result)
    case (Inl err)
    with verify_seen [of env raw now ?seen err seen'] ver have "seen' = ?seen \<or> seen' = evict now ?seen" by simp
    then show ?thesis
    proof
      assume "seen' = ?seen"
      with ok sorted cached now show ?thesis
        unfolding step relay_inv_def by (fastforce simp: Inl acc)
    next
      assume "seen' = evict now ?seen"
      with ok sorted cached evicted show ?thesis
        unfolding step relay_inv_def by (fastforce simp: Inl acc evict_ok)
    qed
  next
    case (Inr v)
    with ver obtain e expires where e: "check_window env e now = Inr expires"
        "dict_get (evict now ?seen) (command_nonce v) = None" "vc_expires_at v = expires"
        "seen' = dict_set (command_nonce v) expires (evict now ?seen)"
      by (auto simp: verify_Inr command_nonce_def)
    have new: "now < expires" using e(1) by (auto simp: check_window_Inr)
    have "after_expiry x (v, now)" if "x \<in> set log" for x
      using that evicted [of "fst x" "snd x"] e(2) by (auto simp: after_expiry_def)
    with sorted have "sorted_wrt after_expiry (log @ [(v, now)])" by (simp add: sorted_wrt_append)
    moreover have "tm < vc_expires_at u \<and> (vc_expires_at u \<le> now \<or> dict_get seen' (command_nonce u) = Some (vc_expires_at u))"
      if "(u, tm) \<in> set (log @ [(v, now)])" for u tm
      using that cached [of u tm] evicted [of u tm] new e(2,3) unfolding e(4) by auto
    then have "\<forall>(u, tm) \<in> set (log @ [(v, now)]). tm < vc_expires_at u \<and>
        (vc_expires_at u \<le> now \<or> dict_get seen' (command_nonce u) = Some (vc_expires_at u))"
      by blast
    moreover have "dict_ok seen'" unfolding e(4) by (simp add: evict_ok ok)
    ultimately show ?thesis
      unfolding step relay_inv_def Let_def by (simp only: acc Inr sum.case prod.case simp_thms)
  qed
qed

interpretation relay: state_machine "relay_step env" clock_forward relay_inv for env
  by unfold_locales (rule relay_step_inv)

definition fresh_gate :: relay_gate where
  "fresh_gate = \<lparr>rg_seen = [], rg_audit = []\<rparr>"

text \<open>C21. No replay. Whatever objects arrive at the gate, as long as the clock does not run
  backwards: no command is let through twice, and a nonce is let through a second time in a
  workspace only after the first envelope that used it has expired.\<close>

theorem relay_no_replay:
  assumes "admissible clock_forward (relay_step env) reqs (fresh_gate, [], t0)"
  shows "let (g, log, t) = fold (relay_step env) reqs (fresh_gate, [], t0) in
         distinct (map fst log) \<and>
         (\<forall>i j. i < j \<longrightarrow> j < length log \<longrightarrow> command_nonce (fst (log ! i)) = command_nonce (fst (log ! j)) \<longrightarrow>
            vc_expires_at (fst (log ! i)) \<le> snd (log ! j))"
proof -
  obtain g log t where run: "fold (relay_step env) reqs (fresh_gate, [], t0) = (g, log, t)"
    by (cases "fold (relay_step env) reqs (fresh_gate, [], t0)")
  have "relay_inv (fresh_gate, [], t0)" by (simp add: relay_inv_def fresh_gate_def)
  from relay.run_inv [OF this assms] have inv: "relay_inv (g, log, t)" by (simp add: run)
  have later: "vc_expires_at (fst (log ! i)) \<le> snd (log ! j)"
    if "i < j" "j < length log" "command_nonce (fst (log ! i)) = command_nonce (fst (log ! j))" for i j
    using inv that unfolding relay_inv_def by (auto simp: sorted_wrt_iff_nth_less after_expiry_def)
  have time: "snd (log ! j) < vc_expires_at (fst (log ! j))" if "j < length log" for j
    using inv nth_mem [OF that] unfolding relay_inv_def by (cases "log ! j") fastforce
  have "fst (log ! i) \<noteq> fst (log ! j)" if "i < j" "j < length log" for i j
    using later [OF that] time [OF that(2)] by fastforce
  then have "distinct (map fst log)"
    by (auto simp: distinct_conv_nth) (metis nat_neq_iff)
  with later show ?thesis by (simp add: run)
qed


text \<open>A concrete environment: a code that spells out the fields it covers, times in seconds as
  unary texts.\<close>

definition example_relay :: relay_env where
  "example_relay = \<lparr>rl_key = ''k'', rl_mac = (\<lambda>k d. k @ (case dict_get d ''nonce'' of Some (PStr n) \<Rightarrow> n | _ \<Rightarrow> [])),
     rl_iso = (\<lambda>s. Some (timedelta_seconds (int (length s)))), rl_isoformat = (\<lambda>_. ''now''),
     rl_skew = CLOCK_SKEW_SEC, rl_max_ttl = MAX_TTL_SEC\<rparr>"

definition example_envelope :: "string \<Rightarrow> string \<Rightarrow> command_envelope" where
  "example_envelope nonce expires = sign_envelope example_relay
     \<lparr>ce_workspace_id = ''w'', ce_principal = \<lparr>rp_kind = ''user'', rp_id = ''u1''\<rparr>, ce_command = [(''op'', PStr ''sync'')],
      ce_nonce = nonce, ce_issued_at = ''s'', ce_expires_at = expires, ce_signature = PStr []\<rparr>"

text \<open>Witness of C21: the same envelope three times, the third after its expiry, then a new
  envelope with the old nonce.\<close>

theorem relay_no_replay_witness:
  "let (g, log, t) = fold (relay_step example_relay)
         [(RawEnvelope (example_envelope ''n'' ''sss''), 0), (RawEnvelope (example_envelope ''n'' ''sss''), 1),
          (RawEnvelope (example_envelope ''n'' ''sss''), 3000000), (RawEnvelope (example_envelope ''n'' ''sssss''), 3000000)]
         (fresh_gate, [], 0)
   in distinct (map fst log) \<and> length log = 2"
proof -
  let ?reqs = "[(RawEnvelope (example_envelope ''n'' ''sss''), 0), (RawEnvelope (example_envelope ''n'' ''sss''), 1),
          (RawEnvelope (example_envelope ''n'' ''sss''), 3000000), (RawEnvelope (example_envelope ''n'' ''sssss''), 3000000)]"
  have adm: "admissible clock_forward (relay_step example_relay) ?reqs (fresh_gate, [], 0)"
    by code_simp
  have "length (fst (snd (fold (relay_step example_relay) ?reqs (fresh_gate, [], 0)))) = 2"
    by code_simp
  with relay_no_replay [OF adm] show ?thesis by (auto split: prod.splits)
qed

text \<open>The assumption on the clock is needed: once an eviction has dropped the nonce, a clock set
  back into the validity window lets the same envelope through again.\<close>

lemma replay_after_clock_step_back:
  "map (\<lambda>x. vc_nonce (fst x)) (fst (snd (fold (relay_step example_relay)
     [(RawEnvelope (example_envelope ''n'' ''sss''), 0), (RawDict [], 3000000),
      (RawEnvelope (example_envelope ''other'' ''sssss''), 3000000), (RawEnvelope (example_envelope ''n'' ''sss''), 1)]
     (fresh_gate, [], 0)))) = [''n'', ''other'', ''n'']"
  by code_simp

subsection \<open>Audit\<close>

definition audit_of :: "relay_env \<Rightarrow> verified_command \<times> datetime \<Rightarrow> command_audit" where
  "audit_of env x = \<lparr>ca_workspace_id = vc_workspace_id (fst x), ca_principal = Some (vc_principal (fst x)),
     ca_command = Some (vc_command (fst x)), ca_nonce = Some (vc_nonce (fst x)), ca_received_at = rl_isoformat env (snd x),
     ca_outcome = ''accepted'', ca_source = ''remote_relay'', ca_reject_reason = None\<rparr>"

lemma accept_audit:
  "case fst (accept env raw now g) of
     Inr v \<Rightarrow> rg_audit (snd (accept env raw now g)) = rg_audit g @ [audit_of env (v, now)]
   | Inl (EnvelopeError reason) \<Rightarrow>
       (\<exists>a. rg_audit (snd (accept env raw now g)) = rg_audit g @ [a] \<and> ca_outcome a = ''rejected'' \<and>
            ca_reject_reason a = Some reason)
   | Inl (OtherException _) \<Rightarrow> rg_audit (snd (accept env raw now g)) = rg_audit g"
  by (auto simp: accept_def audit_of_def Let_def split: prod.splits sum.splits relay_error.splits)

text \<open>Every command that is let through is audited, and nothing else is audited as accepted:
  the accepted entries of the audit log are, in order, exactly the verified commands with the
  workspace, principal, command and nonce of the verified envelope, never those of the
  transport.\<close>

theorem relay_audit_exact:
  "let (g, log, t) = fold (relay_step env) reqs (fresh_gate, [], t0) in
   filter (\<lambda>a. ca_outcome a = ''accepted'') (rg_audit g) = map (audit_of env) log"
proof (induction reqs rule: rev_induct)
  case Nil
  show ?case by (simp add: fresh_gate_def)
next
  case (snoc req reqs)
  obtain g log t where run: "fold (relay_step env) reqs (fresh_gate, [], t0) = (g, log, t)"
    by (cases "fold (relay_step env) reqs (fresh_gate, [], t0)")
  obtain raw now where req: "req = (raw, now)" by (cases req)
  obtain result g' where acc: "accept env raw now g = (result, g')" by fastforce
  have "filter (\<lambda>a. ca_outcome a = ''accepted'') (rg_audit g') =
        filter (\<lambda>a. ca_outcome a = ''accepted'') (rg_audit g) @
        map (audit_of env) (case result of Inr v \<Rightarrow> [(v, now)] | Inl _ \<Rightarrow> [])"
    using accept_audit [of env raw now g]
    by (auto simp: acc audit_of_def split: sum.splits relay_error.splits)
  moreover have "fold (relay_step env) (reqs @ [req]) (fresh_gate, [], t0) =
      (g', log @ (case result of Inr v \<Rightarrow> [(v, now)] | Inl _ \<Rightarrow> []), now)"
    by (simp add: run) (simp add: relay_step_def req acc)
  ultimately show ?case using snoc by (simp add: run)
qed

text \<open>What the gate does not audit. A dictionary whose \<open>principal\<close> is a non-empty text
  makes \<open>from_dict\<close> fail with an \<open>AttributeError\<close>, and one whose \<open>signature\<close> is not an
  ASCII text makes \<open>compare_digest\<close> fail with a \<open>TypeError\<close>; neither is an \<open>EnvelopeError\<close>,
  so the sender, who needs no key for this, leaves no trace in the audit log.\<close>

theorem malformed_envelope_unaudited:
  "let raw = (\<lambda>prin sig. RawDict [(''workspace_id'', PStr ''w''), (''nonce'', PStr ''n''), (''issued_at'', PStr ''s''),
                (''expires_at'', PStr ''sss''), (''command'', PDict []), (''principal'', prin), (''signature'', sig)]);
       user = PDict [(''kind'', PStr ''user''), (''id'', PStr ''u1'')] in
   accept example_relay (raw (PStr ''root'') (PStr ''00'')) 0 fresh_gate = (Inl (OtherException ''AttributeError''), fresh_gate) \<and>
   accept example_relay (raw user (PInt 7)) 0 fresh_gate = (Inl (OtherException ''TypeError''), fresh_gate) \<and>
   map ca_reject_reason (rg_audit (snd (accept example_relay (raw user (PStr ''00'')) 0 fresh_gate))) = [Some ''bad signature'']"
  by code_simp

subsection \<open>An honest command arrives\<close>

definition envelope_wellformed :: "command_envelope \<Rightarrow> bool" where
  "envelope_wellformed e \<longleftrightarrow> ce_workspace_id e \<noteq> [] \<and> ce_nonce e \<noteq> [] \<and> ce_issued_at e \<noteq> [] \<and> ce_expires_at e \<noteq> [] \<and>
     (rp_kind (ce_principal e) = ''user'' \<or> rp_kind (ce_principal e) = ''workforce_member'') \<and> rp_id (ce_principal e) \<noteq> []"

lemma envelope_dict_roundtrip:
  assumes "envelope_wellformed e" "truthy (ce_signature e)"
  shows "envelope_from_dict (envelope_to_dict e) = Inr e"
  using assms
  by (auto simp: envelope_wellformed_def envelope_from_dict_def envelope_to_dict_def signing_payload_def str_field_def
      principal_field_def principal_from_dict_def principal_to_dict_def)

text \<open>An honest command arrives unchanged. An envelope with all its fields, signed with the
  node's key, sent as a dictionary inside its validity window and with a nonce the gate does not
  hold is let through, whatever else the gate has seen, and what is dispatched is its own
  workspace, principal and command.\<close>

theorem honest_command_arrives:
  assumes "envelope_wellformed e" and "dict_ok (rg_seen g)"
    and "rl_mac env (rl_key env) (signing_payload e) \<noteq> []"
    and "\<forall>c \<in> set (rl_mac env (rl_key env) (signing_payload e)). (of_char c :: nat) < 128"
    and "rl_iso env (ce_issued_at e) = Some issued" and "rl_iso env (ce_expires_at e) = Some expires"
    and "issued < expires" and "expires - issued \<le> timedelta_seconds (rl_max_ttl env)"
    and "now < expires" and "issued - now \<le> timedelta_seconds (rl_skew env)"
    and "dict_get (rg_seen g) (ce_workspace_id e, ce_nonce e) = None"
  shows "fst (accept env (RawDict (envelope_to_dict (sign_envelope env e))) now g) =
         Inr \<lparr>vc_workspace_id = ce_workspace_id e, vc_principal = ce_principal e, vc_command = ce_command e,
              vc_nonce = ce_nonce e, vc_expires_at = expires\<rparr>"
proof -
  let ?e = "sign_envelope env e"
  have same: "signing_payload ?e = signing_payload e"
    by (simp add: sign_envelope_def signing_payload_def)
  have "read_envelope (RawDict (envelope_to_dict ?e)) = Inr ?e"
    using assms(1,3) by (simp add: read_envelope_def envelope_dict_roundtrip envelope_wellformed_def sign_envelope_def)
  moreover have "check_signature env ?e = Inr ()"
    unfolding check_signature_Inr same using assms(3,4) by (simp add: sign_envelope_def)
  moreover have "check_window env ?e now = Inr expires"
    unfolding check_window_Inr using assms(5-10) by (simp add: sign_envelope_def)
  moreover have "dict_get (evict now (rg_seen g)) (ce_workspace_id ?e, ce_nonce ?e) = None"
    using assms(11) by (simp add: evict_get [OF assms(2)] sign_envelope_def)
  ultimately show ?thesis
    unfolding accept_seen verify_def check_and_record_def Let_def by (simp add: sign_envelope_def)
qed

text \<open>An instance.\<close>

theorem honest_command_arrives_witness:
  "fst (accept example_relay (RawDict (envelope_to_dict (example_envelope ''n'' ''sss''))) 0 fresh_gate) =
   Inr \<lparr>vc_workspace_id = ''w'', vc_principal = \<lparr>rp_kind = ''user'', rp_id = ''u1''\<rparr>, vc_command = [(''op'', PStr ''sync'')],
        vc_nonce = ''n'', vc_expires_at = 3000000\<rparr>"
  using honest_command_arrives [of "\<lparr>ce_workspace_id = ''w'', ce_principal = \<lparr>rp_kind = ''user'', rp_id = ''u1''\<rparr>,
      ce_command = [(''op'', PStr ''sync'')], ce_nonce = ''n'', ce_issued_at = ''s'', ce_expires_at = ''sss'',
      ce_signature = PStr []\<rparr>" fresh_gate example_relay 1000000 3000000 0]
  by (simp add: example_envelope_def envelope_wellformed_def fresh_gate_def example_relay_def signing_payload_def
      timedelta_seconds_def CLOCK_SKEW_SEC_def MAX_TTL_SEC_def)

end
