(* ===== verification/SpecRegistry.thy ===== *)
theory SpecRegistry
  imports Governance Keyed "HOL-Library.Char_ord" "HOL-Library.List_Lexorder"
begin

text \<open>
  The registry of published specifications (\<open>packages/agent/registry/models.py\<close>, \<open>repository.py\<close>,
  \<open>publisher.py\<close>, \<open>resolver.py\<close>, \<open>skills/resolver.py\<close>, \<open>contracts/spec.py\<close>) and the evidence and gate
  of promotions (\<open>evals/promotion.py\<close>, \<open>promotion_gate.py\<close>). The digests of canonical JSON and the ISO
  format of the standard library are fields of \<open>spec_env\<close>; nothing is assumed of them.
\<close>

subsection \<open>Published records\<close>

record published_spec =
  pb_kind :: string
  pb_id :: string
  pb_version :: string
  pb_hash :: string
  pb_content :: payload
  pb_status :: string
  pb_publisher :: "string option"
  pb_created_at :: datetime
  pb_published_at :: datetime
  pb_retired_at :: "datetime option"

datatype spec_error =
    SpecVersionHashConflict string string string string string
  | SpecDependencyMissing string string string string
  | SkillResolutionError string string string
  | SpecKeyError "string \<times> string \<times> string"

type_synonym spec_registry = "(string \<times> string \<times> string, published_spec) pydict"

definition spec_key :: "published_spec \<Rightarrow> string \<times> string \<times> string" where
  "spec_key r = (pb_kind r, pb_id r, pb_version r)"

definition hash_conflict :: "published_spec \<Rightarrow> published_spec \<Rightarrow> spec_error" where
  "hash_conflict r known =
     SpecVersionHashConflict (pb_kind r) (pb_id r) (pb_version r) (pb_hash known) (pb_hash r)"

subsection \<open>The repository\<close>

definition publish_spec :: "published_spec \<Rightarrow> spec_registry \<Rightarrow> (spec_error + published_spec) \<times> spec_registry" where
  "publish_spec r reg =
     (case dict_get reg (spec_key r) of
        Some existing \<Rightarrow>
          if pb_hash existing \<noteq> pb_hash r then (Inl (hash_conflict r existing), reg) else (Inr existing, reg)
      | None \<Rightarrow> (Inr r, dict_set (spec_key r) r reg))"

text \<open>The loop of \<open>publish_batch\<close> that finds the conflicts and collects what is new: a record is
  compared with the pending one of its key first.\<close>

fun batch_pending :: "spec_registry \<Rightarrow> published_spec list \<Rightarrow> spec_registry \<Rightarrow> spec_error + spec_registry" where
  "batch_pending reg [] pending = Inr pending"
| "batch_pending reg (r # rs) pending =
     (let known = (case dict_get pending (spec_key r) of Some p \<Rightarrow> Some p | None \<Rightarrow> dict_get reg (spec_key r))
      in case known of
           Some k \<Rightarrow>
             if pb_hash k \<noteq> pb_hash r then Inl (hash_conflict r k)
             else batch_pending reg rs (if dict_get reg (spec_key r) = None then dict_set (spec_key r) r pending else pending)
         | None \<Rightarrow> batch_pending reg rs (dict_set (spec_key r) r pending))"

definition publish_batch ::
  "published_spec list \<Rightarrow> spec_registry \<Rightarrow> (spec_error + published_spec list) \<times> spec_registry" where
  "publish_batch rs reg =
     (case batch_pending reg rs [] of
        Inl e \<Rightarrow> (Inl e, reg)
      | Inr pending \<Rightarrow>
          (let reg' = dict_update reg pending
           in case List.find (\<lambda>r. dict_get reg' (spec_key r) = None) rs of
                Some r \<Rightarrow> (Inl (SpecKeyError (spec_key r)), reg')
              | None \<Rightarrow> (Inr (List.map_filter (\<lambda>r. dict_get reg' (spec_key r)) rs), reg')))"

definition get_spec :: "string \<Rightarrow> string \<Rightarrow> string \<Rightarrow> spec_registry \<Rightarrow> published_spec option" where
  "get_spec kind sid version reg = dict_get reg (kind, sid, version)"

definition get_spec_by_hash :: "string \<Rightarrow> string \<Rightarrow> string \<Rightarrow> spec_registry \<Rightarrow> published_spec option" where
  "get_spec_by_hash kind sid h reg =
     List.find (\<lambda>r. pb_kind r = kind \<and> pb_id r = sid \<and> pb_hash r = h) (dict_values reg)"

definition list_spec_versions :: "string \<Rightarrow> string \<Rightarrow> spec_registry \<Rightarrow> published_spec list" where
  "list_spec_versions kind sid reg = filter (\<lambda>r. pb_kind r = kind \<and> pb_id r = sid) (dict_values reg)"

definition list_all_specs :: "string option \<Rightarrow> spec_registry \<Rightarrow> published_spec list" where
  "list_all_specs kind reg = filter (\<lambda>r. case kind of None \<Rightarrow> True | Some k \<Rightarrow> pb_kind r = k) (dict_values reg)"

definition update_spec_status ::
  "string \<Rightarrow> string \<Rightarrow> string \<Rightarrow> string \<Rightarrow> datetime \<Rightarrow> spec_registry \<Rightarrow> published_spec option \<times> spec_registry" where
  "update_spec_status kind sid version status now reg =
     (case dict_get reg (kind, sid, version) of
        None \<Rightarrow> (None, reg)
      | Some r \<Rightarrow>
          (let r' = r\<lparr>pb_status := status, pb_retired_at := (if status = ''retired'' then Some now else pb_retired_at r)\<rparr>
           in (Some r', dict_set (kind, sid, version) r' reg)))"

subsection \<open>Specifications\<close>

record pinned_skill_ref =
  pk_skill_id :: string
  pk_version :: string
  pk_hash :: string

record agent_spec =
  ag_id :: string
  ag_version :: string
  ag_instructions :: string
  ag_model_policy :: payload
  ag_autonomy_level :: string
  ag_capability_refs :: "string list"
  ag_model_input_ref :: "string option"
  ag_pinned_skills :: "pinned_skill_ref list"
  ag_prompt_ref :: "pinned_spec_identity option"
  ag_model_policy_ref :: "pinned_spec_identity option"
  ag_tool_contract_refs :: "payload list"
  ag_knowledge_ref :: "pinned_spec_identity option"
  ag_memory_policy :: payload
  ag_knowledge_policy :: payload
  ag_coordination_policy :: payload
  ag_limits :: payload
  ag_output_schema :: "payload option"
  ag_metadata :: payload
  ag_hash :: "string option"

record skill_spec =
  sk_id :: string
  sk_version :: string
  sk_name :: string
  sk_description :: string
  sk_instructions :: string
  sk_applicability :: payload
  sk_ceiling :: string
  sk_side_effect_class :: string
  sk_evidence_requirement :: payload
  sk_quality :: "payload option"
  sk_required_capabilities :: "string list"
  sk_required_knowledge :: "string list"
  sk_references :: payload
  sk_status :: string
  sk_publisher :: string
  sk_created_at :: datetime
  sk_hash :: "string option"

record flat_spec =
  fs_id :: string
  fs_version :: string
  fs_fields :: payload
  fs_hash :: "string option"

record spec_env =
  se_definition_hash :: "payload \<Rightarrow> string"
  se_json_sha256 :: "payload \<Rightarrow> string"
  se_isoformat :: "datetime \<Rightarrow> string"

fun kind_name :: "spec_kind \<Rightarrow> string" where
  "kind_name KIND_agent = ''agent''"
| "kind_name KIND_workflow = ''workflow''"
| "kind_name KIND_skill = ''skill''"
| "kind_name KIND_prompt = ''prompt''"
| "kind_name KIND_model_policy = ''model_policy''"
| "kind_name KIND_tool_contract = ''tool_contract''"
| "kind_name KIND_eval_suite = ''eval_suite''"
| "kind_name KIND_knowledge_snapshot = ''knowledge_snapshot''"

definition opt_dict :: "payload option \<Rightarrow> pyval" where
  "opt_dict x = (case x of None \<Rightarrow> PNone | Some d \<Rightarrow> PDict d)"

definition ref_dump :: "pinned_spec_identity option \<Rightarrow> pyval" where
  "ref_dump x = (case x of None \<Rightarrow> PNone | Some r \<Rightarrow>
     PDict [(''spec_kind'', PStr (kind_name (spec_kind r))), (''spec_id'', PStr (spec_id r)),
            (''spec_version'', PStr (spec_version r)), (''definition_hash'', PStr (spec_definition_hash r))])"

text \<open>\<open>model_dump\<close> without \<open>definition_hash\<close>.\<close>

definition agent_fields :: "agent_spec \<Rightarrow> payload" where
  "agent_fields s =
     [(''id'', PStr (ag_id s)), (''version'', PStr (ag_version s)), (''instructions'', PStr (ag_instructions s)),
      (''model_policy'', PDict (ag_model_policy s)), (''autonomy_level'', PStr (ag_autonomy_level s)),
      (''capability_refs'', PList (map PStr (ag_capability_refs s))),
      (''model_input_capability_ref'', opt_val (ag_model_input_ref s)),
      (''pinned_skills'', PList (map (\<lambda>p. PDict [(''skill_id'', PStr (pk_skill_id p)), (''version'', PStr (pk_version p)),
         (''definition_hash'', PStr (pk_hash p))]) (ag_pinned_skills s))),
      (''prompt_ref'', ref_dump (ag_prompt_ref s)), (''model_policy_ref'', ref_dump (ag_model_policy_ref s)),
      (''tool_contract_refs'', PList (map PDict (ag_tool_contract_refs s))),
      (''knowledge_snapshot_ref'', ref_dump (ag_knowledge_ref s)), (''memory_policy'', PDict (ag_memory_policy s)),
      (''knowledge_policy'', PDict (ag_knowledge_policy s)), (''coordination_policy'', PDict (ag_coordination_policy s)),
      (''limits'', PDict (ag_limits s)), (''output_schema'', opt_dict (ag_output_schema s)),
      (''metadata'', PDict (ag_metadata s))]"

definition agent_compute_hash :: "spec_env \<Rightarrow> agent_spec \<Rightarrow> string" where
  "agent_compute_hash env s = se_definition_hash env (agent_fields s)"

text \<open>\<open>spec.definition_hash or spec.compute_hash()\<close>.\<close>

definition agent_pinned_hash :: "spec_env \<Rightarrow> agent_spec \<Rightarrow> string" where
  "agent_pinned_hash env s = or_else (ag_hash s) (agent_compute_hash env s)"

definition agent_content :: "spec_env \<Rightarrow> agent_spec \<Rightarrow> payload" where
  "agent_content env s =
     (let h = (case ag_hash s of None \<Rightarrow> PStr (agent_compute_hash env s) | Some x \<Rightarrow> PStr x)
      in agent_fields s @ [(''definition_hash'', h)])"

definition skill_compute_hash :: "spec_env \<Rightarrow> skill_spec \<Rightarrow> string" where
  "skill_compute_hash env s = se_json_sha256 env
     [(''id'', PStr (sk_id s)), (''version'', PStr (sk_version s)), (''instructions'', PStr (sk_instructions s)),
      (''applicability'', PDict (sk_applicability s)),
      (''autonomy'', PDict [(''ceiling'', PStr (sk_ceiling s)), (''side_effect_class'', PStr (sk_side_effect_class s))]),
      (''evidence_requirement'', PDict (sk_evidence_requirement s)), (''quality'', opt_dict (sk_quality s)),
      (''required_capabilities'', PList (map PStr (sort (sk_required_capabilities s)))),
      (''required_knowledge'', PList (map PStr (sort (sk_required_knowledge s)))),
      (''references'', PDict (sk_references s))]"

definition skill_pinned_hash :: "spec_env \<Rightarrow> skill_spec \<Rightarrow> string" where
  "skill_pinned_hash env s = or_else (sk_hash s) (skill_compute_hash env s)"

definition skill_content :: "spec_env \<Rightarrow> skill_spec \<Rightarrow> payload" where
  "skill_content env s =
     [(''id'', PStr (sk_id s)), (''version'', PStr (sk_version s)), (''name'', PStr (sk_name s)),
      (''description'', PStr (sk_description s)), (''instructions'', PStr (sk_instructions s)),
      (''applicability'', PDict (sk_applicability s)),
      (''autonomy'', PDict [(''ceiling'', PStr (sk_ceiling s)), (''side_effect_class'', PStr (sk_side_effect_class s))]),
      (''evidence_requirement'', PDict (sk_evidence_requirement s)), (''quality'', opt_dict (sk_quality s)),
      (''required_capabilities'', PList (map PStr (sk_required_capabilities s))),
      (''required_knowledge'', PList (map PStr (sk_required_knowledge s))),
      (''references'', PDict (sk_references s)), (''status'', PStr (sk_status s)), (''publisher'', PStr (sk_publisher s)),
      (''created_at'', PStr (se_isoformat env (sk_created_at s))),
      (''definition_hash'', PStr (skill_pinned_hash env s))]"

text \<open>\<open>PromptSpec\<close> and \<open>ModelPolicySpec\<close>: an identifier, a version, other fields, a hash.\<close>

definition flat_pinned_hash :: "spec_env \<Rightarrow> flat_spec \<Rightarrow> string" where
  "flat_pinned_hash env s =
     or_else (fs_hash s) (se_definition_hash env ((''id'', PStr (fs_id s)) # (''version'', PStr (fs_version s)) # fs_fields s))"

definition flat_content :: "flat_spec \<Rightarrow> payload" where
  "flat_content s = (''id'', PStr (fs_id s)) # (''version'', PStr (fs_version s)) # fs_fields s
     @ [(''definition_hash'', opt_val (fs_hash s))]"

subsection \<open>Publishing\<close>

definition new_published :: "string \<Rightarrow> string \<Rightarrow> string \<Rightarrow> string \<Rightarrow> payload \<Rightarrow> string option \<Rightarrow> datetime \<Rightarrow> published_spec" where
  "new_published kind sid version h content pub now =
     \<lparr>pb_kind = kind, pb_id = sid, pb_version = version, pb_hash = h, pb_content = content, pb_status = ''published'',
      pb_publisher = pub, pb_created_at = now, pb_published_at = now, pb_retired_at = None\<rparr>"

definition check_dependency :: "string \<Rightarrow> pinned_spec_identity option \<Rightarrow> spec_registry \<Rightarrow> spec_error option" where
  "check_dependency kind ref reg =
     (case ref of
        None \<Rightarrow> None
      | Some r \<Rightarrow>
          (case get_spec (kind_name (spec_kind r)) (spec_id r) (spec_version r) reg of
             None \<Rightarrow> Some (SpecDependencyMissing kind (spec_id r) (spec_version r) ''not_found'')
           | Some existing \<Rightarrow>
               if pb_hash existing \<noteq> spec_definition_hash r
               then Some (SpecDependencyMissing kind (spec_id r) (spec_version r) ''hash_mismatch'')
               else None))"

definition publish_agent_spec ::
  "spec_env \<Rightarrow> agent_spec \<Rightarrow> string option \<Rightarrow> datetime \<Rightarrow> spec_registry \<Rightarrow> (spec_error + published_spec) \<times> spec_registry" where
  "publish_agent_spec env s pub now reg =
     (case check_dependency ''prompt'' (ag_prompt_ref s) reg of
        Some e \<Rightarrow> (Inl e, reg)
      | None \<Rightarrow>
     (case check_dependency ''model_policy'' (ag_model_policy_ref s) reg of
        Some e \<Rightarrow> (Inl e, reg)
      | None \<Rightarrow>
          publish_spec (new_published ''agent'' (ag_id s) (ag_version s) (agent_pinned_hash env s) (agent_content env s) pub now) reg))"

definition skill_record :: "spec_env \<Rightarrow> string option \<Rightarrow> datetime \<Rightarrow> skill_spec \<Rightarrow> published_spec" where
  "skill_record env pub now s =
     new_published ''skill'' (sk_id s) (sk_version s) (skill_pinned_hash env s) (skill_content env s) pub now"

definition publish_skill_spec ::
  "spec_env \<Rightarrow> skill_spec \<Rightarrow> string option \<Rightarrow> datetime \<Rightarrow> spec_registry \<Rightarrow> (spec_error + published_spec) \<times> spec_registry" where
  "publish_skill_spec env s pub now reg = publish_spec (skill_record env pub now s) reg"

definition publish_skill_batch ::
  "spec_env \<Rightarrow> skill_spec list \<Rightarrow> string option \<Rightarrow> datetime \<Rightarrow> spec_registry \<Rightarrow> (spec_error + published_spec list) \<times> spec_registry" where
  "publish_skill_batch env ss pub now reg = publish_batch (map (skill_record env pub now) ss) reg"

definition publish_prompt_spec ::
  "spec_env \<Rightarrow> flat_spec \<Rightarrow> string option \<Rightarrow> datetime \<Rightarrow> spec_registry \<Rightarrow> (spec_error + published_spec) \<times> spec_registry" where
  "publish_prompt_spec env s pub now reg =
     publish_spec (new_published ''prompt'' (fs_id s) (fs_version s) (flat_pinned_hash env s) (flat_content s) pub now) reg"

definition publish_model_policy_spec ::
  "spec_env \<Rightarrow> flat_spec \<Rightarrow> string option \<Rightarrow> datetime \<Rightarrow> spec_registry \<Rightarrow> (spec_error + published_spec) \<times> spec_registry" where
  "publish_model_policy_spec env s pub now reg =
     publish_spec (new_published ''model_policy'' (fs_id s) (fs_version s) (flat_pinned_hash env s) (flat_content s) pub now) reg"

subsection \<open>Exact resolution\<close>

definition resolve_exact :: "string \<Rightarrow> string \<Rightarrow> string \<Rightarrow> string \<Rightarrow> spec_registry \<Rightarrow> spec_error + payload" where
  "resolve_exact kind sid version h reg =
     (case get_spec kind sid version reg of
        None \<Rightarrow> Inl (SpecDependencyMissing kind sid version ''not_found'')
      | Some r \<Rightarrow>
          if pb_hash r \<noteq> h then Inl (SpecDependencyMissing kind sid version ''hash_mismatch'') else Inr (pb_content r))"

record dependency_edge =
  de_owner :: pinned_spec_identity
  de_dependency :: pinned_spec_identity
  de_relation :: string

record agent_resolution =
  ar_agent_content :: payload
  ar_prompt_content :: "payload option"
  ar_model_policy_content :: "payload option"
  ar_edges :: "dependency_edge list"

definition resolve_ref :: "pinned_spec_identity option \<Rightarrow> spec_registry \<Rightarrow> spec_error + payload option" where
  "resolve_ref ref reg =
     (case ref of
        None \<Rightarrow> Inr None
      | Some r \<Rightarrow>
          (case resolve_exact (kind_name (spec_kind r)) (spec_id r) (spec_version r) (spec_definition_hash r) reg of
             Inl e \<Rightarrow> Inl e
           | Inr content \<Rightarrow> Inr (Some content)))"

definition ref_edges :: "pinned_spec_identity \<Rightarrow> pinned_spec_identity option \<Rightarrow> string \<Rightarrow> dependency_edge list" where
  "ref_edges owner ref relation =
     (case ref of None \<Rightarrow> [] | Some r \<Rightarrow> [\<lparr>de_owner = owner, de_dependency = r, de_relation = relation\<rparr>])"

definition resolve_agent_spec_dependencies :: "spec_env \<Rightarrow> agent_spec \<Rightarrow> spec_registry \<Rightarrow> spec_error + agent_resolution" where
  "resolve_agent_spec_dependencies env s reg =
     (let h = agent_pinned_hash env s;
          owner = \<lparr>spec_kind = KIND_agent, spec_id = ag_id s, spec_version = ag_version s, spec_definition_hash = h\<rparr>
      in case resolve_exact ''agent'' (ag_id s) (ag_version s) h reg of
           Inl e \<Rightarrow> Inl e
         | Inr content \<Rightarrow>
        (case resolve_ref (ag_prompt_ref s) reg of
           Inl e \<Rightarrow> Inl e
         | Inr prompt \<Rightarrow>
        (case resolve_ref (ag_model_policy_ref s) reg of
           Inl e \<Rightarrow> Inl e
         | Inr policy \<Rightarrow>
             Inr \<lparr>ar_agent_content = content, ar_prompt_content = prompt, ar_model_policy_content = policy,
                  ar_edges = ref_edges owner (ag_prompt_ref s) ''uses_prompt'' @
                             ref_edges owner (ag_model_policy_ref s) ''uses_model_policy''\<rparr>)))"

text \<open>\<open>SkillResolver.resolve\<close>; a resolved skill is its published content.\<close>

fun resolve_skills :: "pinned_skill_ref list \<Rightarrow> spec_registry \<Rightarrow> spec_error + payload list" where
  "resolve_skills [] reg = Inr []"
| "resolve_skills (p # ps) reg =
     (case get_spec ''skill'' (pk_skill_id p) (pk_version p) reg of
        None \<Rightarrow> Inl (SkillResolutionError (pk_skill_id p) (pk_version p) ''not_found'')
      | Some r \<Rightarrow>
          if pb_hash r \<noteq> pk_hash p then Inl (SkillResolutionError (pk_skill_id p) (pk_version p) ''hash_mismatch'')
          else (case resolve_skills ps reg of Inl e \<Rightarrow> Inl e | Inr cs \<Rightarrow> Inr (pb_content r # cs)))"

subsection \<open>Promotion\<close>

record eval_run =
  er_run_id :: string
  er_target_ref :: pinned_spec_identity
  er_suite_ref :: "pinned_spec_identity option"
  er_status :: string
  er_pass_rate :: "rat option"

record promotion_evidence =
  pe_evidence_id :: string
  pe_target_ref :: pinned_spec_identity
  pe_required_eval_run_ids :: "string list"
  pe_observed_fingerprints :: "(string, string) pydict"
  pe_policy_version :: string
  pe_policy_checks_passed :: bool
  pe_threshold :: rat
  pe_run_statuses :: "(string, string) pydict"
  pe_run_pass_rates :: "(string, rat option) pydict"

definition evidence_is_stale :: "promotion_evidence \<Rightarrow> (string, string) pydict \<Rightarrow> bool" where
  "evidence_is_stale e current \<longleftrightarrow>
     list_ex (\<lambda>(name, observed). dict_get current name \<noteq> Some observed) (pe_observed_fingerprints e)"

text \<open>\<open>(run.pass_rate or 0.0) >= threshold\<close>: no rate counts as zero.\<close>

definition run_passes :: "rat \<Rightarrow> eval_run \<Rightarrow> bool" where
  "run_passes threshold r \<longleftrightarrow>
     er_status r = ''completed'' \<and> threshold \<le> (case er_pass_rate r of None \<Rightarrow> 0 | Some x \<Rightarrow> x)"

definition observed_fingerprints :: "pinned_spec_identity \<Rightarrow> dependency_edge list \<Rightarrow> (string, string) pydict" where
  "observed_fingerprints target edges =
     fold (\<lambda>e d. dict_set (spec_id (de_dependency e)) (spec_definition_hash (de_dependency e)) d) edges
       [(spec_id target, spec_definition_hash target)]"

definition build_promotion_evidence ::
  "string \<Rightarrow> pinned_spec_identity \<Rightarrow> dependency_edge list \<Rightarrow> eval_run list \<Rightarrow> string \<Rightarrow> rat \<Rightarrow> promotion_evidence" where
  "build_promotion_evidence eid target edges runs version threshold =
     \<lparr>pe_evidence_id = eid, pe_target_ref = target, pe_required_eval_run_ids = map er_run_id runs,
      pe_observed_fingerprints = observed_fingerprints target edges, pe_policy_version = version,
      pe_policy_checks_passed = (runs \<noteq> [] \<and> list_all (run_passes threshold) runs), pe_threshold = threshold,
      pe_run_statuses = fold (\<lambda>r d. dict_set (er_run_id r) (er_status r) d) runs [],
      pe_run_pass_rates = fold (\<lambda>r d. dict_set (er_run_id r) (er_pass_rate r) d) runs []\<rparr>"

datatype promotion_issue = POLICY_VERSION_MISMATCH | NO_EVAL_RUN | CHECKS_NOT_PASSED | EVIDENCE_STALE

record promotion_result =
  pg_approved :: bool
  pg_issue_codes :: "promotion_issue list"
  pg_target_ref :: pinned_spec_identity
  pg_evidence_id :: string

definition promotion_check :: "string \<Rightarrow> promotion_evidence \<Rightarrow> (string, string) pydict \<Rightarrow> promotion_result" where
  "promotion_check version e current =
     (let codes =
        (if pe_policy_version e \<noteq> version then [POLICY_VERSION_MISMATCH] else []) @
        (if pe_required_eval_run_ids e = [] then [NO_EVAL_RUN] else []) @
        (if \<not> pe_policy_checks_passed e then [CHECKS_NOT_PASSED] else []) @
        (if evidence_is_stale e current then [EVIDENCE_STALE] else [])
      in \<lparr>pg_approved = (codes = []), pg_issue_codes = codes, pg_target_ref = pe_target_ref e,
          pg_evidence_id = pe_evidence_id e\<rparr>)"

text \<open>\<open>InMemoryPromotionEvidenceRepository\<close>.\<close>

type_synonym evidence_store = "(string, promotion_evidence) pydict"

definition create_evidence :: "promotion_evidence \<Rightarrow> evidence_store \<Rightarrow> evidence_store" where
  "create_evidence e st = dict_set (pe_evidence_id e) e st"

definition get_evidence :: "string \<Rightarrow> evidence_store \<Rightarrow> promotion_evidence option" where
  "get_evidence eid st = dict_get st eid"

definition list_evidence_by_target :: "pinned_spec_identity \<Rightarrow> evidence_store \<Rightarrow> promotion_evidence list" where
  "list_evidence_by_target ref st = filter (\<lambda>e. pe_target_ref e = ref) (dict_values st)"


subsection \<open>Batches\<close>

declare split_paired_All [simp del] split_paired_Ex [simp del]

definition known_spec :: "spec_registry \<Rightarrow> spec_registry \<Rightarrow> string \<times> string \<times> string \<Rightarrow> published_spec option" where
  "known_spec reg pending k = (case dict_get pending k of Some p \<Rightarrow> Some p | None \<Rightarrow> dict_get reg k)"

text \<open>A record of the batch disagrees with what is published under its key, or with another record
  of the batch.\<close>

definition batch_conflict :: "published_spec list \<Rightarrow> spec_registry \<Rightarrow> bool" where
  "batch_conflict rs reg \<longleftrightarrow>
     (\<exists>r \<in> set rs. (\<exists>x. dict_get reg (spec_key r) = Some x \<and> pb_hash x \<noteq> pb_hash r) \<or>
                   (\<exists>r' \<in> set rs. spec_key r' = spec_key r \<and> pb_hash r' \<noteq> pb_hash r))"

definition pending_ok :: "spec_registry \<Rightarrow> spec_registry \<Rightarrow> bool" where
  "pending_ok reg pending \<longleftrightarrow> keyed spec_key pending \<and> (\<forall>k. dict_get pending k \<noteq> None \<longrightarrow> dict_get reg k = None)"

lemma pending_ok_set: "pending_ok reg pending \<Longrightarrow> dict_get reg (spec_key r) = None \<Longrightarrow> pending_ok reg (dict_set (spec_key r) r pending)"
  by (simp add: pending_ok_def)

lemma batch_pending_step:
  "batch_pending reg (r # rs) pending =
     (if \<exists>x. known_spec reg pending (spec_key r) = Some x \<and> pb_hash x \<noteq> pb_hash r
      then Inl (hash_conflict r (the (known_spec reg pending (spec_key r))))
      else batch_pending reg rs (if dict_get reg (spec_key r) = None then dict_set (spec_key r) r pending else pending))"
  by (auto simp: known_spec_def Let_def split: option.splits)

declare batch_pending.simps(2) [simp del]

lemma batch_pending_Inr:
  "batch_pending reg rs pending = Inr pending' \<Longrightarrow> pending_ok reg pending \<Longrightarrow>
     pending_ok reg pending' \<and>
     (\<forall>k x. known_spec reg pending k = Some x \<longrightarrow> (\<exists>x'. known_spec reg pending' k = Some x' \<and> pb_hash x' = pb_hash x)) \<and>
     (\<forall>r \<in> set rs. \<exists>x. known_spec reg pending' (spec_key r) = Some x \<and> pb_hash x = pb_hash r) \<and>
     (\<forall>k. dict_get pending' k \<noteq> None \<longrightarrow> dict_get pending k \<noteq> None \<or> k \<in> spec_key ` set rs)"
proof (induction rs arbitrary: pending)
  case (Cons r rs)
  let ?p = "if dict_get reg (spec_key r) = None then dict_set (spec_key r) r pending else pending"
  from Cons.prems have same: "\<And>x. known_spec reg pending (spec_key r) = Some x \<Longrightarrow> pb_hash x = pb_hash r"
    and rest: "batch_pending reg rs ?p = Inr pending'"
    by (auto simp: batch_pending_step split: if_splits)
  have "pending_ok reg ?p" using Cons.prems(2) by (simp add: pending_ok_set)
  note IH = Cons.IH [OF rest this]
  have step: "\<exists>x'. known_spec reg ?p k = Some x' \<and> pb_hash x' = pb_hash x" if "known_spec reg pending k = Some x" for k x
    using that same by (auto simp: known_spec_def split: if_splits option.splits)
  have here: "\<exists>x. known_spec reg ?p (spec_key r) = Some x \<and> pb_hash x = pb_hash r"
  proof (cases "dict_get reg (spec_key r)")
    case None
    then show ?thesis by (simp add: known_spec_def)
  next
    case (Some x)
    with Cons.prems(2) have "dict_get pending (spec_key r) = None" by (auto simp: pending_ok_def)
    with Some same show ?thesis by (simp add: known_spec_def)
  qed
  have "\<exists>x'. known_spec reg pending' k = Some x' \<and> pb_hash x' = pb_hash x" if "known_spec reg pending k = Some x" for k x
    using step [OF that] IH by metis
  moreover have "\<exists>x. known_spec reg pending' (spec_key r') = Some x \<and> pb_hash x = pb_hash r'" if "r' \<in> set (r # rs)" for r'
    using that here IH by (cases "r' = r") (metis, auto)
  moreover have "dict_get pending k \<noteq> None \<or> k \<in> spec_key ` set (r # rs)" if "dict_get pending' k \<noteq> None" for k
    using IH that by (auto split: if_splits)
  ultimately show ?case using IH by blast
qed auto

lemma batch_pending_Inl:
  "batch_pending reg rs pending = Inl e \<Longrightarrow> pending_ok reg pending \<Longrightarrow>
     (\<exists>r \<in> set rs. (\<exists>x. known_spec reg pending (spec_key r) = Some x \<and> pb_hash x \<noteq> pb_hash r) \<or>
        (\<exists>r' \<in> set rs. spec_key r' = spec_key r \<and> pb_hash r' \<noteq> pb_hash r))"
proof (induction rs arbitrary: pending)
  case (Cons r rs)
  let ?p = "if dict_get reg (spec_key r) = None then dict_set (spec_key r) r pending else pending"
  show ?case
  proof (cases "\<exists>x. known_spec reg pending (spec_key r) = Some x \<and> pb_hash x \<noteq> pb_hash r")
    case False
    with Cons.prems have rest: "batch_pending reg rs ?p = Inl e" by (simp add: batch_pending_step)
    have "pending_ok reg ?p" using Cons.prems(2) by (simp add: pending_ok_set)
    from Cons.IH [OF rest this] obtain r' where r': "r' \<in> set rs"
      "(\<exists>x. known_spec reg ?p (spec_key r') = Some x \<and> pb_hash x \<noteq> pb_hash r') \<or>
       (\<exists>r'' \<in> set rs. spec_key r'' = spec_key r' \<and> pb_hash r'' \<noteq> pb_hash r')" by blast
    have "known_spec reg ?p (spec_key r') = known_spec reg pending (spec_key r') \<or>
          spec_key r' = spec_key r \<and> known_spec reg ?p (spec_key r') = Some r"
      by (auto simp: known_spec_def)
    with r' show ?thesis by (metis list.set_intros option.inject)
  qed auto
qed simp

lemma map_of_rev_ok: "dict_ok d \<Longrightarrow> map_of (rev d) = map_of d"
  using map_of_inject_set [of "rev d" d] by (simp add: rev_map [symmetric])

lemma dict_update_ok: "dict_ok d \<Longrightarrow> dict_ok (dict_update d e)"
  unfolding dict_update_def by (induction e arbitrary: d) (auto simp: dict_ok_set)

lemma published_batch:
  assumes "batch_pending reg rs [] = Inr pending"
  shows "dict_get (dict_update reg pending) k = known_spec reg pending k"
proof -
  have "pending_ok reg []" by (simp add: pending_ok_def)
  with batch_pending_Inr [OF assms] have "keyed spec_key pending" by (simp add: pending_ok_def)
  then have "dict_ok pending" by (rule keyed_dict_ok)
  then show ?thesis by (simp add: dict_update_get map_of_rev_ok known_spec_def)
qed

lemma map_filter_list_all2:
  "(\<And>x. x \<in> set xs \<Longrightarrow> \<exists>y. f x = Some y \<and> P x y) \<Longrightarrow> list_all2 P xs (List.map_filter f xs)"
proof (induction xs)
  case (Cons x xs)
  from Cons.prems [of x] obtain y where "f x = Some y" "P x y" by auto
  with Cons show ?case by (simp add: List.map_filter_simps)
qed (simp add: List.map_filter_simps)

text \<open>A batch is published as a whole or not at all. It is refused, leaving the registry as it is,
  exactly when one of its records disagrees with what is published under its kind, identifier and
  version or with another record of the batch; otherwise every record gets a published record with its
  hash, nothing that was published changes and nothing else is published.\<close>

theorem batch_all_or_nothing:
  "if batch_conflict rs reg then \<exists>e. publish_batch rs reg = (Inl e, reg)
   else \<exists>out reg'. publish_batch rs reg = (Inr out, reg') \<and>
     list_all2 (\<lambda>r x. dict_get reg' (spec_key r) = Some x \<and> pb_hash x = pb_hash r) rs out \<and>
     (\<forall>k. dict_get reg' k = (case dict_get reg k of
                               Some x \<Rightarrow> Some x
                             | None \<Rightarrow> if k \<in> spec_key ` set rs then dict_get reg' k else None))"
proof (cases "batch_pending reg rs []")
  case (Inl e)
  have "pending_ok reg []" by (simp add: pending_ok_def)
  from batch_pending_Inl [OF Inl this] have "batch_conflict rs reg"
    by (simp add: batch_conflict_def known_spec_def)
  with Inl show ?thesis by (simp add: publish_batch_def)
next
  case (Inr pending)
  have "pending_ok reg []" by (simp add: pending_ok_def)
  note p = batch_pending_Inr [OF Inr this]
  let ?reg = "dict_update reg pending"
  have old: "dict_get ?reg k = dict_get reg k" if "dict_get reg k \<noteq> None" for k
    using p that by (auto simp: published_batch [OF Inr] known_spec_def pending_ok_def split: option.splits)
  have have_all: "\<exists>x. dict_get ?reg (spec_key r) = Some x \<and> pb_hash x = pb_hash r" if "r \<in> set rs" for r
    using p that by (auto simp: published_batch [OF Inr])
  have "\<not> batch_conflict rs reg"
    unfolding batch_conflict_def using have_all old by (metis option.distinct(1) option.inject)
  moreover have "List.find (\<lambda>r. dict_get ?reg (spec_key r) = None) rs = None"
    unfolding find_None_all using have_all by fastforce
  then have "publish_batch rs reg = (Inr (List.map_filter (\<lambda>r. dict_get ?reg (spec_key r)) rs), ?reg)"
    by (simp add: publish_batch_def Inr Let_def)
  moreover have "list_all2 (\<lambda>r x. dict_get ?reg (spec_key r) = Some x \<and> pb_hash x = pb_hash r) rs
      (List.map_filter (\<lambda>r. dict_get ?reg (spec_key r)) rs)"
    using have_all by (intro map_filter_list_all2) auto
  moreover have "dict_get ?reg k = None" if "dict_get reg k = None" "k \<notin> spec_key ` set rs" for k
    using p that by (auto simp: published_batch [OF Inr] known_spec_def split: option.splits)
  then have "dict_get ?reg k = (case dict_get reg k of Some x \<Rightarrow> Some x
      | None \<Rightarrow> if k \<in> spec_key ` set rs then dict_get ?reg k else None)" for k
    using old by (cases "dict_get reg k") auto
  ultimately show ?thesis by auto
qed


subsection \<open>Published versions are immutable\<close>

datatype registry_op =
    RegPublish published_spec
  | RegBatch "published_spec list"
  | RegAgent spec_env agent_spec "string option" datetime
  | RegSkill spec_env skill_spec "string option" datetime
  | RegSkillBatch spec_env "skill_spec list" "string option" datetime
  | RegPrompt spec_env flat_spec "string option" datetime
  | RegModelPolicy spec_env flat_spec "string option" datetime
  | RegStatus string string string string datetime

fun registry_step :: "registry_op \<Rightarrow> spec_registry \<Rightarrow> spec_registry" where
  "registry_step (RegPublish r) reg = snd (publish_spec r reg)"
| "registry_step (RegBatch rs) reg = snd (publish_batch rs reg)"
| "registry_step (RegAgent env s pub now) reg = snd (publish_agent_spec env s pub now reg)"
| "registry_step (RegSkill env s pub now) reg = snd (publish_skill_spec env s pub now reg)"
| "registry_step (RegSkillBatch env ss pub now) reg = snd (publish_skill_batch env ss pub now reg)"
| "registry_step (RegPrompt env s pub now) reg = snd (publish_prompt_spec env s pub now reg)"
| "registry_step (RegModelPolicy env s pub now) reg = snd (publish_model_policy_spec env s pub now reg)"
| "registry_step (RegStatus kind sid version status now) reg = snd (update_spec_status kind sid version status now reg)"

text \<open>Everything of a record but its status and the time of its retirement.\<close>

definition spec_body :: "published_spec \<Rightarrow> published_spec" where
  "spec_body r = r\<lparr>pb_status := [], pb_retired_at := None\<rparr>"

definition registry_le :: "spec_registry \<Rightarrow> spec_registry \<Rightarrow> bool" where
  "registry_le reg reg' \<longleftrightarrow>
     (\<forall>k r. dict_get reg k = Some r \<longrightarrow> (\<exists>r'. dict_get reg' k = Some r' \<and> spec_body r' = spec_body r))"

lemma registry_le_refl: "registry_le reg reg"
  by (simp add: registry_le_def)

lemma registry_le_trans: "registry_le r1 r2 \<Longrightarrow> registry_le r2 r3 \<Longrightarrow> registry_le r1 r3"
  unfolding registry_le_def by metis

lemma spec_body_same:
  "spec_body r' = spec_body r \<Longrightarrow> spec_key r' = spec_key r \<and> pb_hash r' = pb_hash r \<and> pb_content r' = pb_content r"
  by (cases r; cases r') (simp add: spec_body_def spec_key_def)

lemma publish_spec_le: "registry_le reg (snd (publish_spec r reg))"
  by (auto simp: registry_le_def publish_spec_def split: option.splits)

lemma publish_spec_keyed: "keyed spec_key reg \<Longrightarrow> keyed spec_key (snd (publish_spec r reg))"
  by (auto simp: publish_spec_def split: option.splits)

lemma publish_batch_le: "registry_le reg (snd (publish_batch rs reg))"
proof (cases "batch_pending reg rs []")
  case (Inr pending)
  have "pending_ok reg []" by (simp add: pending_ok_def)
  with batch_pending_Inr [OF Inr] have "pending_ok reg pending" by blast
  then have "known_spec reg pending k = Some r" if "dict_get reg k = Some r" for k r
    using that by (auto simp: pending_ok_def known_spec_def split: option.splits)
  then show ?thesis
    by (auto simp: registry_le_def publish_batch_def Inr Let_def published_batch [OF Inr] split: option.splits)
qed (simp add: publish_batch_def registry_le_refl)

lemma keyed_dict_update:
  "keyed f d \<Longrightarrow> (\<And>k v. (k, v) \<in> set e \<Longrightarrow> f v = k) \<Longrightarrow> keyed f (dict_update d e)"
  unfolding dict_update_def by (induction e arbitrary: d) auto

lemma publish_batch_keyed:
  assumes "keyed spec_key reg"
  shows "keyed spec_key (snd (publish_batch rs reg))"
proof (cases "batch_pending reg rs []")
  case (Inr pending)
  have "pending_ok reg []" by (simp add: pending_ok_def)
  with batch_pending_Inr [OF Inr] have p: "keyed spec_key pending" by (simp add: pending_ok_def)
  have "spec_key v = k" if "(k, v) \<in> set pending" for k v
    using keyed_get [OF p] map_of_is_SomeI [OF keyed_dict_ok [OF p] that] by blast
  then have "keyed spec_key (dict_update reg pending)" by (rule keyed_dict_update [OF assms])
  then show ?thesis by (simp add: publish_batch_def Inr Let_def split: option.splits)
qed (simp add: publish_batch_def assms)

lemma update_spec_status_le: "registry_le reg (snd (update_spec_status kind sid version status now reg))"
  by (auto simp: registry_le_def update_spec_status_def spec_body_def Let_def split: option.splits)

lemma update_spec_status_keyed:
  "keyed spec_key reg \<Longrightarrow> keyed spec_key (snd (update_spec_status kind sid version status now reg))"
  by (auto simp: update_spec_status_def Let_def spec_key_def intro: keyed_update split: option.splits)

lemmas publisher_defs = publish_agent_spec_def publish_skill_spec_def publish_skill_batch_def publish_prompt_spec_def
  publish_model_policy_spec_def

lemma registry_step_le: "registry_le reg (registry_step op reg)"
  by (cases op)
    (auto simp: publisher_defs publish_spec_le publish_batch_le update_spec_status_le registry_le_refl split: option.splits)

lemma registry_step_keyed: "keyed spec_key reg \<Longrightarrow> keyed spec_key (registry_step op reg)"
  by (cases op)
    (auto simp: publisher_defs publish_spec_keyed publish_batch_keyed update_spec_status_keyed split: option.splits)

interpretation registry: monotone_machine registry_step "\<lambda>_ _. True" "keyed spec_key" registry_le
  by unfold_locales (auto intro: registry_step_keyed registry_step_le registry_le_refl registry_le_trans)

lemma registry_history:
  assumes "reg = fold registry_step ops0 []"
  shows "keyed spec_key reg" "registry_le reg (fold registry_step ops reg)"
proof -
  show k: "keyed spec_key reg" unfolding assms by (rule registry.run_inv) simp_all
  show "registry_le reg (fold registry_step ops reg)" by (rule registry.run_le [OF k]) simp
qed

text \<open>C24. A published version is never rewritten. Whatever is published, in single requests or in
  batches, and however statuses change afterwards: a record keeps its kind, identifier, version, hash,
  content, publisher and times of publication, and stands under its own kind, identifier and
  version.\<close>

theorem published_spec_immutable:
  assumes "dict_get (fold registry_step ops0 []) (kind, sid, version) = Some r"
  shows "pb_kind r = kind \<and> pb_id r = sid \<and> pb_version r = version \<and>
         (\<exists>r'. get_spec kind sid version (fold registry_step ops (fold registry_step ops0 [])) = Some r' \<and>
               spec_body r' = spec_body r)"
proof -
  note h = registry_history [OF refl, of ops0]
  from keyed_get [OF h(1) assms] have "spec_key r = (kind, sid, version)" .
  moreover obtain r' where "dict_get (fold registry_step ops (fold registry_step ops0 [])) (kind, sid, version) = Some r'"
      "spec_body r' = spec_body r"
    using h(2) [of ops] assms unfolding registry_le_def by blast
  ultimately show ?thesis by (simp add: spec_key_def get_spec_def)
qed

definition plain_env :: spec_env where
  "plain_env = \<lparr>se_definition_hash = (\<lambda>d. ''h''), se_json_sha256 = (\<lambda>d. ''j''), se_isoformat = (\<lambda>_. ''t'')\<rparr>"

definition example_prompt :: "string \<Rightarrow> flat_spec" where
  "example_prompt text = \<lparr>fs_id = ''p'', fs_version = ''1'', fs_fields = [(''text'', PStr text)], fs_hash = Some text\<rparr>"

text \<open>Witness of C24: a prompt is published, published again with other content, retired and published
  once more; the first content stands.\<close>

theorem published_spec_immutable_witness:
  "map_option pb_content (get_spec ''prompt'' ''p'' ''1'' (fold registry_step
     [RegPrompt plain_env (example_prompt ''b'') None 1, RegStatus ''prompt'' ''p'' ''1'' ''retired'' 2,
      RegPrompt plain_env (example_prompt ''a'') None 3]
     (fold registry_step [RegPrompt plain_env (example_prompt ''a'') None 0] []))) =
   Some (flat_content (example_prompt ''a''))"
proof -
  let ?r = "new_published ''prompt'' ''p'' ''1'' ''a'' (flat_content (example_prompt ''a'')) None 0"
  have "dict_get (fold registry_step [RegPrompt plain_env (example_prompt ''a'') None 0] []) (''prompt'', ''p'', ''1'') = Some ?r"
    by code_simp
  from published_spec_immutable [OF this, of "[RegPrompt plain_env (example_prompt ''b'') None 1,
      RegStatus ''prompt'' ''p'' ''1'' ''retired'' 2, RegPrompt plain_env (example_prompt ''a'') None 3]"]
  obtain r' where r': "get_spec ''prompt'' ''p'' ''1'' (fold registry_step
     [RegPrompt plain_env (example_prompt ''b'') None 1, RegStatus ''prompt'' ''p'' ''1'' ''retired'' 2,
      RegPrompt plain_env (example_prompt ''a'') None 3]
     (fold registry_step [RegPrompt plain_env (example_prompt ''a'') None 0] [])) = Some r'"
     "spec_body r' = spec_body ?r" by blast
  from spec_body_same [OF r'(2)] have "pb_content r' = flat_content (example_prompt ''a'')"
    by (simp add: new_published_def)
  then show ?thesis unfolding r'(1) by (simp only: option.map)
qed


subsection \<open>What is published resolves\<close>

lemma publish_spec_Inr:
  "publish_spec r reg = (Inr x, reg') \<Longrightarrow> dict_get reg' (spec_key r) = Some x \<and> pb_hash x = pb_hash r \<and>
     (\<forall>k. dict_get reg k \<noteq> None \<longrightarrow> dict_get reg' k = dict_get reg k)"
  by (auto simp: publish_spec_def split: option.splits if_splits)

lemma resolve_exact_Inr:
  "resolve_exact kind sid version h reg = Inr c \<longleftrightarrow>
     (\<exists>r. dict_get reg (kind, sid, version) = Some r \<and> pb_hash r = h \<and> pb_content r = c)"
  by (auto simp: resolve_exact_def get_spec_def split: option.splits)

lemma resolve_exact_later:
  assumes "resolve_exact kind sid version h reg = Inr c" "registry_le reg reg'"
  shows "resolve_exact kind sid version h reg' = Inr c"
proof -
  from assms(1) obtain r where r: "dict_get reg (kind, sid, version) = Some r" "pb_hash r = h" "pb_content r = c"
    unfolding resolve_exact_Inr by blast
  then obtain r' where r': "dict_get reg' (kind, sid, version) = Some r'" "spec_body r' = spec_body r"
    using assms(2) unfolding registry_le_def by blast
  from spec_body_same [OF r'(2)] r r' show ?thesis unfolding resolve_exact_Inr by auto
qed

lemma check_dependency_resolves:
  assumes "check_dependency kind ref reg = None"
  obtains c where "resolve_ref ref reg = Inr c"
  using assms by (cases ref) (auto simp: check_dependency_def resolve_ref_def resolve_exact_def split: option.splits if_splits)

lemma resolve_ref_later: "resolve_ref ref reg = Inr c \<Longrightarrow> registry_le reg reg' \<Longrightarrow> resolve_ref ref reg' = Inr c"
  unfolding resolve_ref_def by (auto split: option.splits sum.splits dest: resolve_exact_later)

text \<open>What is published resolves. Once \<open>publish_agent_spec\<close> has accepted a specification, its
  dependencies resolve in every later state of the registry, without an error and to the same contents:
  the record it returned, and for the prompt and the model policy what was published at that time with
  the pinned hashes, whatever is published afterwards and whatever is retired; the lineage names exactly
  the pinned references.\<close>

theorem published_agent_resolves:
  assumes "publish_agent_spec env s pub now (fold registry_step ops0 []) = (Inr r, reg)"
  shows "\<exists>prompt policy. resolve_ref (ag_prompt_ref s) (fold registry_step ops0 []) = Inr prompt \<and>
           resolve_ref (ag_model_policy_ref s) (fold registry_step ops0 []) = Inr policy \<and>
           map_sum id (\<lambda>a. (ar_agent_content a, ar_prompt_content a, ar_model_policy_content a, map de_dependency (ar_edges a)))
             (resolve_agent_spec_dependencies env s (fold registry_step ops reg)) =
           Inr (pb_content r, prompt, policy,
             (case ag_prompt_ref s of None \<Rightarrow> [] | Some p \<Rightarrow> [p]) @ (case ag_model_policy_ref s of None \<Rightarrow> [] | Some p \<Rightarrow> [p]))"
proof -
  let ?reg0 = "fold registry_step ops0 []"
  let ?r = "new_published ''agent'' (ag_id s) (ag_version s) (agent_pinned_hash env s) (agent_content env s) pub now"
  from assms have deps: "check_dependency ''prompt'' (ag_prompt_ref s) ?reg0 = None"
      "check_dependency ''model_policy'' (ag_model_policy_ref s) ?reg0 = None"
    and pub: "publish_spec ?r ?reg0 = (Inr r, reg)"
    by (auto simp: publish_agent_spec_def split: option.splits)
  obtain prompt policy where refs: "resolve_ref (ag_prompt_ref s) ?reg0 = Inr prompt"
      "resolve_ref (ag_model_policy_ref s) ?reg0 = Inr policy"
    using check_dependency_resolves [OF deps(1)] check_dependency_resolves [OF deps(2)] by metis
  have reg: "reg = fold registry_step (ops0 @ [RegPublish ?r]) []" using pub by simp
  have "registry_le ?reg0 reg" using publish_spec_le [of ?reg0 ?r] pub by simp
  from registry_le_trans [OF this registry_history(2) [OF reg]]
  have le: "registry_le ?reg0 (fold registry_step ops reg)" .
  have "resolve_exact ''agent'' (ag_id s) (ag_version s) (agent_pinned_hash env s) reg = Inr (pb_content r)"
    unfolding resolve_exact_Inr using publish_spec_Inr [OF pub] by (simp add: spec_key_def new_published_def)
  from resolve_exact_later [OF this registry_history(2) [OF reg]]
  have "resolve_exact ''agent'' (ag_id s) (ag_version s) (agent_pinned_hash env s) (fold registry_step ops reg) = Inr (pb_content r)" .
  with refs resolve_ref_later [OF refs(1) le] resolve_ref_later [OF refs(2) le] show ?thesis
    by (auto simp: resolve_agent_spec_dependencies_def ref_edges_def Let_def split: option.splits)
qed

definition example_agent :: agent_spec where
  "example_agent =
     \<lparr>ag_id = ''a'', ag_version = ''1'', ag_instructions = ''do'', ag_model_policy = [], ag_autonomy_level = ''L1'',
      ag_capability_refs = [], ag_model_input_ref = None, ag_pinned_skills = [],
      ag_prompt_ref = Some \<lparr>spec_kind = KIND_prompt, spec_id = ''p'', spec_version = ''1'', spec_definition_hash = ''a''\<rparr>,
      ag_model_policy_ref = None, ag_tool_contract_refs = [], ag_knowledge_ref = None, ag_memory_policy = [],
      ag_knowledge_policy = [], ag_coordination_policy = [], ag_limits = [], ag_output_schema = None, ag_metadata = [],
      ag_hash = None\<rparr>"

text \<open>An instance: the prompt is retired after the publication, and the specification still resolves.\<close>

theorem published_agent_resolves_witness:
  "\<exists>x. resolve_agent_spec_dependencies plain_env example_agent (fold registry_step
     [RegStatus ''prompt'' ''p'' ''1'' ''retired'' 2, RegStatus ''agent'' ''a'' ''1'' ''retired'' 3]
     (snd (publish_agent_spec plain_env example_agent None 1
        (fold registry_step [RegPrompt plain_env (example_prompt ''a'') None 0] [])))) = Inr x"
proof -
  let ?pub = "publish_agent_spec plain_env example_agent None 1
     (fold registry_step [RegPrompt plain_env (example_prompt ''a'') None 0] [])"
  have "isl (fst ?pub) = False" by code_simp
  then obtain r reg where pub: "?pub = (Inr r, reg)" by (cases ?pub; cases "fst ?pub") auto
  from published_agent_resolves [OF pub, of "[RegStatus ''prompt'' ''p'' ''1'' ''retired'' 2,
      RegStatus ''agent'' ''a'' ''1'' ''retired'' 3]"]
  show ?thesis unfolding pub snd_conv
    by (cases "resolve_agent_spec_dependencies plain_env example_agent (fold registry_step
     [RegStatus ''prompt'' ''p'' ''1'' ''retired'' 2, RegStatus ''agent'' ''a'' ''1'' ''retired'' 3] reg)") (simp_all del: fold_simps)
qed

text \<open>Skills: what a batch or a single publication accepted resolves later by its pinned hash.\<close>

lemma resolve_skills_Inr:
  "(\<And>p. p \<in> set ps \<Longrightarrow> \<exists>r. dict_get reg (''skill'', pk_skill_id p, pk_version p) = Some r \<and> pb_hash r = pk_hash p) \<Longrightarrow>
   \<exists>cs. resolve_skills ps reg = Inr cs \<and>
     list_all2 (\<lambda>p c. \<exists>r. dict_get reg (''skill'', pk_skill_id p, pk_version p) = Some r \<and> pb_hash r = pk_hash p \<and> pb_content r = c) ps cs"
proof (induction ps)
  case (Cons p ps)
  from Cons.prems [of p] obtain r where "dict_get reg (''skill'', pk_skill_id p, pk_version p) = Some r" "pb_hash r = pk_hash p"
    by auto
  with Cons show ?case by (fastforce simp: get_spec_def)
qed simp


text \<open>Pinned skills. When a batch of skills is accepted, then in every later state of the registry
  the pins of these skills, by identifier, version and the hash they were published with, resolve: each
  to the content of the record that the publication returned for it.\<close>

theorem published_skills_resolve:
  assumes "publish_skill_batch env ss pub now (fold registry_step ops0 []) = (Inr out, reg)"
  shows "resolve_skills (map (\<lambda>s. \<lparr>pk_skill_id = sk_id s, pk_version = sk_version s, pk_hash = skill_pinned_hash env s\<rparr>) ss)
           (fold registry_step ops reg) = Inr (map pb_content out)"
proof -
  let ?rs = "map (skill_record env pub now) ss"
  let ?later = "fold registry_step ops reg"
  have batch: "publish_batch ?rs (fold registry_step ops0 []) = (Inr out, reg)"
    using assms by (simp add: publish_skill_batch_def)
  then have reg: "reg = fold registry_step (ops0 @ [RegBatch ?rs]) []" by simp
  have "\<not> batch_conflict ?rs (fold registry_step ops0 [])"
    using batch_all_or_nothing [of ?rs "fold registry_step ops0 []"] batch by (auto split: if_splits)
  with batch_all_or_nothing [of ?rs "fold registry_step ops0 []"] batch
  have "list_all2 (\<lambda>r x. dict_get reg (spec_key r) = Some x \<and> pb_hash x = pb_hash r) ?rs out" by simp
  then have stored: "list_all2 (\<lambda>s x. dict_get reg (''skill'', sk_id s, sk_version s) = Some x \<and>
      pb_hash x = skill_pinned_hash env s) ss out"
    by (simp add: list_all2_map1 skill_record_def new_published_def spec_key_def)
  have le: "registry_le reg ?later" by (rule registry_history(2) [OF reg])
  have kept: "\<exists>y. dict_get ?later k = Some y \<and> pb_hash y = pb_hash x \<and> pb_content y = pb_content x"
    if "dict_get reg k = Some x" for k x
  proof -
    from le that obtain y where "dict_get ?later k = Some y" "spec_body y = spec_body x"
      unfolding registry_le_def by blast
    with spec_body_same [of y x] show ?thesis by blast
  qed
  from stored show ?thesis
  proof (induction rule: list_all2_induct)
    case (Cons s ss x out)
    then obtain y where "dict_get ?later (''skill'', sk_id s, sk_version s) = Some y" "pb_hash y = skill_pinned_hash env s"
        "pb_content y = pb_content x" using kept [of "(''skill'', sk_id s, sk_version s)" x] by auto
    with Cons.IH show ?case by (simp add: get_spec_def)
  qed simp
qed

definition example_skill :: "string \<Rightarrow> skill_spec" where
  "example_skill sid =
     \<lparr>sk_id = sid, sk_version = ''1'', sk_name = [], sk_description = [], sk_instructions = ''do'', sk_applicability = [],
      sk_ceiling = ''L0_OBSERVE'', sk_side_effect_class = ''R'', sk_evidence_requirement = [], sk_quality = None,
      sk_required_capabilities = [''c2'', ''c1''], sk_required_knowledge = [], sk_references = [], sk_status = ''DRAFT'',
      sk_publisher = ''p'', sk_created_at = 0, sk_hash = None\<rparr>"

text \<open>An instance: two skills in one batch.\<close>

theorem published_skills_resolve_witness:
  "\<exists>cs. resolve_skills (map (\<lambda>s. \<lparr>pk_skill_id = sk_id s, pk_version = sk_version s, pk_hash = skill_pinned_hash plain_env s\<rparr>)
      [example_skill ''a'', example_skill ''b''])
    (fold registry_step [RegStatus ''skill'' ''a'' ''1'' ''retired'' 5]
      (snd (publish_skill_batch plain_env [example_skill ''a'', example_skill ''b''] None 0 (fold registry_step [] [])))) = Inr cs"
proof -
  let ?pub = "publish_skill_batch plain_env [example_skill ''a'', example_skill ''b''] None 0 (fold registry_step [] [])"
  have "isl (fst ?pub) = False" by code_simp
  then obtain out reg where pub: "?pub = (Inr out, reg)" by (cases ?pub; cases "fst ?pub") auto
  from published_skills_resolve [OF pub, of "[RegStatus ''skill'' ''a'' ''1'' ''retired'' 5]"]
  show ?thesis unfolding pub snd_conv by blast
qed

subsection \<open>The promotion gate\<close>

lemma observed_fingerprints_get:
  "dict_get (observed_fingerprints target edges) k =
     (case List.find (\<lambda>e. spec_id (de_dependency e) = k) (rev edges) of
        Some e \<Rightarrow> Some (spec_definition_hash (de_dependency e))
      | None \<Rightarrow> if k = spec_id target then Some (spec_definition_hash target) else None)"
proof (induction edges rule: rev_induct)
  case (snoc e edges)
  then show ?case by (simp add: observed_fingerprints_def)
qed (simp add: observed_fingerprints_def)

lemma observed_fingerprints_ok: "dict_ok (observed_fingerprints target edges)"
  by (induction edges rule: rev_induct) (simp_all add: observed_fingerprints_def dict_ok_set)

lemma evidence_not_stale:
  assumes "dict_ok (pe_observed_fingerprints e)"
  shows "\<not> evidence_is_stale e current \<longleftrightarrow>
     (\<forall>k h. dict_get (pe_observed_fingerprints e) k = Some h \<longrightarrow> dict_get current k = Some h)"
  unfolding evidence_is_stale_def using map_of_eq_Some_iff [OF assms] by (fastforce simp: list_ex_iff)

text \<open>The promotion gate is exact. Evidence built from the lineage of a specification and a list of
  evaluation runs is approved under a policy version exactly when it was built under that version, there
  is a run and every run completed at or above the threshold, and every identifier observed, of the
  target or of a dependency (of the last dependency with that identifier), still has the observed
  hash; the issues are empty exactly then.\<close>

theorem promotion_gate_exact:
  "let e = build_promotion_evidence eid target edges runs version threshold;
       result = promotion_check gate_version e current in
   pg_approved result = (pg_issue_codes result = []) \<and>
   (pg_approved result \<longleftrightarrow>
      version = gate_version \<and> runs \<noteq> [] \<and>
      list_all (\<lambda>r. er_status r = ''completed'' \<and> threshold \<le> (case er_pass_rate r of None \<Rightarrow> 0 | Some x \<Rightarrow> x)) runs \<and>
      (\<forall>k. dict_get current k = (case List.find (\<lambda>e. spec_id (de_dependency e) = k) (rev edges) of
              Some e \<Rightarrow> Some (spec_definition_hash (de_dependency e))
            | None \<Rightarrow> if k = spec_id target then Some (spec_definition_hash target) else dict_get current k)))"
proof -
  let ?e = "build_promotion_evidence eid target edges runs version threshold"
  have fp: "pe_observed_fingerprints ?e = observed_fingerprints target edges"
    by (simp add: build_promotion_evidence_def)
  have stale: "\<not> evidence_is_stale ?e current \<longleftrightarrow>
      (\<forall>k. dict_get current k = (case List.find (\<lambda>e. spec_id (de_dependency e) = k) (rev edges) of
              Some e \<Rightarrow> Some (spec_definition_hash (de_dependency e))
            | None \<Rightarrow> if k = spec_id target then Some (spec_definition_hash target) else dict_get current k))"
    unfolding evidence_not_stale [of ?e, unfolded fp, OF observed_fingerprints_ok] observed_fingerprints_get
    by (intro all_cong1) (auto split: option.splits)
  have gate: "pg_approved (promotion_check v e c) = (pg_issue_codes (promotion_check v e c) = []) \<and>
      (pg_approved (promotion_check v e c) \<longleftrightarrow> pe_policy_version e = v \<and> pe_required_eval_run_ids e \<noteq> [] \<and>
         pe_policy_checks_passed e \<and> \<not> evidence_is_stale e c)" for v e c
    by (simp add: promotion_check_def Let_def)
  have version: "pe_policy_version ?e = version"
    and runs: "(pe_required_eval_run_ids ?e \<noteq> [] \<and> pe_policy_checks_passed ?e) =
      (runs \<noteq> [] \<and> list_all (\<lambda>r. er_status r = ''completed'' \<and>
         threshold \<le> (case er_pass_rate r of None \<Rightarrow> 0 | Some x \<Rightarrow> x)) runs)"
    by (auto simp: build_promotion_evidence_def run_passes_def [abs_def])
  show ?thesis
    unfolding Let_def stale [symmetric] using gate [of gate_version ?e current] runs unfolding version by argo
qed

end
