(* ===== verification/SkillImprovement.thy ===== *)
theory SkillImprovement
  imports SpecRegistry
begin

text \<open>
  Skill candidates, feedback and the queue of improvement requests
  (\<open>packages/agent/skills/contracts.py\<close>, \<open>candidate_store.py\<close>, \<open>improvement_repository.py\<close>, in their
  in-memory implementations, and \<open>apps/cosa/skills/improvement_policy.py\<close>). A float is the rational it
  denotes; the operations that round are fields of \<open>float_ops\<close>, and nothing is assumed of them.
\<close>

subsection \<open>Candidates\<close>

record skill_candidate =
  cd_id :: string
  cd_parent_run_id :: string
  cd_skill :: skill_spec
  cd_evidence_refs :: "string list"
  cd_eval_score :: rat
  cd_status :: string
  cd_hash :: "string option"
  cd_approval_id :: "string option"
  cd_promotion_hash :: "string option"

type_synonym candidate_store = "(string \<times> string, skill_candidate) pydict"

definition fill_hash :: "spec_env \<Rightarrow> skill_candidate \<Rightarrow> skill_candidate" where
  "fill_hash env c =
     (if truthy_opt (cd_hash c) then c else c\<lparr>cd_hash := Some (''sha256:'' @ skill_compute_hash env (cd_skill c))\<rparr>)"

definition save_candidate :: "spec_env \<Rightarrow> string \<Rightarrow> skill_candidate \<Rightarrow> candidate_store \<Rightarrow> skill_candidate \<times> candidate_store" where
  "save_candidate env ws c st =
     (let c1 = fill_hash env c;
          c2 = (if truthy_opt (sk_hash (cd_skill c1)) then c1 else c1\<lparr>cd_skill := (cd_skill c1)\<lparr>sk_hash := cd_hash c1\<rparr>\<rparr>)
      in (c2, dict_set (ws, cd_id c2) c2 st))"

text \<open>A candidate is also found by the identifier of its skill, the first in insertion order.\<close>

definition get_candidate :: "spec_env \<Rightarrow> string \<Rightarrow> string \<Rightarrow> candidate_store \<Rightarrow> skill_candidate option" where
  "get_candidate env ws cid st =
     (case dict_get st (ws, cid) of
        Some c \<Rightarrow> Some (fill_hash env c)
      | None \<Rightarrow>
          map_option (\<lambda>x. fill_hash env (snd x)) (List.find (\<lambda>(k, c). fst k = ws \<and> sk_id (cd_skill c) = cid) st))"

definition list_candidates :: "spec_env \<Rightarrow> string \<Rightarrow> string option \<Rightarrow> candidate_store \<Rightarrow> skill_candidate list" where
  "list_candidates env ws status st =
     map (\<lambda>x. fill_hash env (snd x))
       (filter (\<lambda>(k, c). fst k = ws \<and> (case status of None \<Rightarrow> True | Some s \<Rightarrow> py_lower (cd_status c) = py_lower s)) st)"

definition update_candidate_status ::
  "spec_env \<Rightarrow> string \<Rightarrow> string \<Rightarrow> string \<Rightarrow> rat option \<Rightarrow> candidate_store \<Rightarrow> skill_candidate option \<times> candidate_store" where
  "update_candidate_status env ws cid status score st =
     (case get_candidate env ws cid st of
        None \<Rightarrow> (None, st)
      | Some c \<Rightarrow>
          (let c' = c\<lparr>cd_status := status, cd_eval_score := (case score of None \<Rightarrow> cd_eval_score c | Some x \<Rightarrow> x)\<rparr>
           in (Some c', dict_set (ws, cd_id c) c' st)))"

type_synonym publish_answer = "bool \<times> string \<times> skill_candidate option"

definition publish_candidate_if_approved ::
  "spec_env \<Rightarrow> string \<Rightarrow> string \<Rightarrow> string \<Rightarrow> string \<Rightarrow> candidate_store \<Rightarrow> publish_answer \<times> candidate_store" where
  "publish_candidate_if_approved env ws cid approval expected st =
     (case get_candidate env ws cid st of
        None \<Rightarrow> ((False, ''CANDIDATE_NOT_FOUND'', None), st)
      | Some c \<Rightarrow>
          if cd_status c = ''PUBLISHED'' then
            (if cd_approval_id c = Some approval \<and> (Some expected = cd_promotion_hash c \<or> Some expected = cd_hash c)
             then ((True, ''ALREADY_PUBLISHED'', Some c), st)
             else ((False, ''ALREADY_PUBLISHED_DIFFERENT_APPROVAL'', Some c), st))
          else if cd_hash c \<noteq> Some expected then ((False, ''APPROVAL_SUBJECT_STALE'', Some c), st)
          else if cd_status c \<noteq> ''EVALUATED'' then ((False, ''CANDIDATE_NOT_EVALUATED'', Some c), st)
          else if cd_approval_id c \<noteq> None then ((False, ''PROMOTION_ALREADY_CLAIMED'', Some c), st)
          else
            (let c' = c\<lparr>cd_status := ''PUBLISHED'', cd_skill := (cd_skill c)\<lparr>sk_status := ''PUBLISHED''\<rparr>,
                        cd_approval_id := Some approval, cd_promotion_hash := Some expected\<rparr>
             in ((True, ''PUBLISHED'', Some c'), dict_set (ws, cd_id c) c' st)))"

subsection \<open>Feedback\<close>

record skill_feedback =
  sf_id :: string
  sf_workspace_id :: string
  sf_skill_id :: string
  sf_version :: "string option"
  sf_hash :: "string option"
  sf_run_id :: "string option"
  sf_idempotency_key :: "string option"
  sf_source_kind :: string
  sf_success :: bool
  sf_rating :: "int option"
  sf_notes :: "string option"
  sf_project_id :: "string option"
  sf_manifest_hash :: "string option"
  sf_created_at :: datetime

record float_ops =
  fl_div :: "rat \<Rightarrow> rat \<Rightarrow> rat"
  fl_sub :: "rat \<Rightarrow> rat \<Rightarrow> rat"
  fl_sum :: "rat list \<Rightarrow> rat"
  fl_round3 :: "rat \<Rightarrow> rat"

definition feedback_score :: "float_ops \<Rightarrow> skill_feedback \<Rightarrow> rat" where
  "feedback_score fl f =
     (case sf_rating f of
        Some n \<Rightarrow> max 0 (min 1 (fl_div fl (of_int n) 5))
      | None \<Rightarrow> if sf_success f then 1 else 0)"

definition mean_score :: "float_ops \<Rightarrow> rat list \<Rightarrow> rat" where
  "mean_score fl scores = fl_div fl (fl_sum fl scores) (of_nat (length scores))"

definition save_feedback :: "skill_feedback \<Rightarrow> skill_feedback list \<Rightarrow> skill_feedback list" where
  "save_feedback f fs = fs @ [f]"

definition list_feedback :: "string \<Rightarrow> string \<Rightarrow> skill_feedback list \<Rightarrow> skill_feedback list" where
  "list_feedback ws sid fs = filter (\<lambda>f. sf_workspace_id f = ws \<and> sf_skill_id f = sid) fs"

definition compute_aggregate_feedback_score :: "float_ops \<Rightarrow> string \<Rightarrow> string \<Rightarrow> skill_feedback list \<Rightarrow> rat option" where
  "compute_aggregate_feedback_score fl ws sid fs =
     (let fbs = list_feedback ws sid fs
      in if fbs = [] then None else Some (fl_round3 fl (mean_score fl (map (feedback_score fl) fbs))))"

subsection \<open>The improvement repository\<close>

record usage_observation =
  uo_id :: string
  uo_workspace_id :: string
  uo_run_id :: string
  uo_skill_id :: string
  uo_skill_version :: string
  uo_hash :: string
  uo_root_spec_id :: string
  uo_root_hash :: string
  uo_project_id :: "string option"
  uo_manifest_hash :: "string option"
  uo_created_at :: datetime

datatype feedback_health = INSUFFICIENT_SAMPLES | STABLE | DEGRADING

record feedback_aggregate =
  fa_workspace_id :: string
  fa_skill_id :: string
  fa_skill_version :: string
  fa_hash :: string
  fa_revision :: int
  fa_sample_count :: nat
  fa_score :: rat
  fa_previous_score :: "rat option"
  fa_delta :: "rat option"
  fa_window_started_at :: datetime
  fa_window_ended_at :: datetime
  fa_health :: feedback_health
  fa_project_id :: "string option"
  fa_manifest_hash :: "string option"
  fa_created_at :: datetime

record improvement_request =
  rq_id :: string
  rq_workspace_id :: string
  rq_skill_id :: string
  rq_skill_version :: string
  rq_hash :: string
  rq_revision :: int
  rq_policy_hash :: string
  rq_status :: string
  rq_attempt_count :: int
  rq_claim_token :: "string option"
  rq_claimed_by :: "string option"
  rq_claimed_at :: "datetime option"
  rq_reason_code :: "string option"
  rq_project_id :: "string option"
  rq_manifest_hash :: "string option"
  rq_created_at :: datetime
  rq_updated_at :: datetime

record improvement_outbox =
  ob_id :: string
  ob_request_id :: string
  ob_workspace_id :: string
  ob_state :: string
  ob_attempt_count :: int
  ob_next_attempt_at :: datetime
  ob_claim_token :: "string option"
  ob_claimed_by :: "string option"
  ob_delivered_at :: "datetime option"
  ob_project_id :: "string option"
  ob_manifest_hash :: "string option"
  ob_created_at :: datetime

datatype improvement_disposition =
    Disp_INSUFFICIENT_SAMPLES | Disp_STABLE | Disp_DEFERRED_POLICY_DISABLED | Disp_NOT_ELIGIBLE | Disp_QUEUED

record feedback_result =
  fr_feedback_id :: string
  fr_workspace_id :: string
  fr_skill_id :: string
  fr_skill_version :: string
  fr_hash :: string
  fr_health :: feedback_health
  fr_score :: rat
  fr_disposition :: improvement_disposition
  fr_request_id :: "string option"

record improvement_outcome =
  io_status :: string
  io_reason_code :: "string option"
  io_candidate_id :: "string option"

record improvement_evaluation =
  ev_workspace_id :: string
  ev_request_id :: string
  ev_candidate_id :: "string option"
  ev_suite_ref :: string
  ev_suite_hash :: string
  ev_baseline_score :: rat
  ev_candidate_score :: rat
  ev_delta :: rat
  ev_passed_cases :: "string list"
  ev_failed_cases :: "string list"
  ev_reason_code :: "string option"

record improvement_mutation =
  mu_workspace_id :: string
  mu_request_id :: string
  mu_candidate_id :: "string option"
  mu_round_no :: int
  mu_mutator_name :: string
  mu_accepted :: bool
  mu_score_before :: rat
  mu_score_after :: rat
  mu_validation_passed :: bool
  mu_reason_code :: "string option"

record improvement_policy =
  ip_mode :: string
  ip_allowed :: "(string \<times> string \<times> string) list option"
  ip_min_samples :: int
  ip_window_size :: int
  ip_low_score :: rat
  ip_min_delta :: rat
  ip_max_rounds :: int
  ip_policy_hash :: string

record improvement_repo =
  ir_observations :: "(string, usage_observation) pydict"
  ir_feedbacks :: "skill_feedback list"
  ir_feedback_by_key :: "(string \<times> string, skill_feedback) pydict"
  ir_aggregates :: "feedback_aggregate list"
  ir_requests :: "(string, improvement_request) pydict"
  ir_outbox :: "(string, improvement_outbox) pydict"
  ir_evaluations :: "improvement_evaluation list"
  ir_mutations :: "improvement_mutation list"

definition empty_improvements :: improvement_repo where
  "empty_improvements =
     \<lparr>ir_observations = [], ir_feedbacks = [], ir_feedback_by_key = [], ir_aggregates = [], ir_requests = [],
      ir_outbox = [], ir_evaluations = [], ir_mutations = []\<rparr>"

text \<open>\<open>SkillImprovementPolicyConfig()\<close>; 0.60 and 0.15 are the doubles of these decimals.\<close>

definition default_policy :: improvement_policy where
  "default_policy =
     \<lparr>ip_mode = ''OFF'', ip_allowed = Some [], ip_min_samples = 3, ip_window_size = 10,
      ip_low_score = Fract 5404319552844595 9007199254740992, ip_min_delta = Fract 5404319552844595 36028797018963968,
      ip_max_rounds = 2, ip_policy_hash = ''sha256:policy_default''\<rparr>"

definition record_resolved_skill_use :: "usage_observation \<Rightarrow> improvement_repo \<Rightarrow> bool \<times> improvement_repo" where
  "record_resolved_skill_use o1 repo =
     (let key = uo_run_id o1 @ '':'' @ uo_skill_id o1 @ '':'' @ uo_skill_version o1 @ '':'' @ uo_hash o1
      in if dict_get (ir_observations repo) key \<noteq> None then (False, repo)
         else (True, repo\<lparr>ir_observations := dict_set key o1 (ir_observations repo)\<rparr>))"

definition get_usage_observations :: "string \<Rightarrow> string \<Rightarrow> string option \<Rightarrow> improvement_repo \<Rightarrow> usage_observation list" where
  "get_usage_observations ws run sid repo =
     filter (\<lambda>o1. uo_workspace_id o1 = ws \<and> uo_run_id o1 = run \<and> (case sid of None \<Rightarrow> True | Some s \<Rightarrow> uo_skill_id o1 = s))
       (dict_values (ir_observations repo))"

subsection \<open>Recording feedback\<close>

datatype feedback_error =
    NoObservation | AmbiguousObservations | NoProjectMatch | NoManifestMatch | IdentityRequired

text \<open>The identity a feedback is about: the one observed for its run, or the one it names. The result
  is version, hash, project and manifest.\<close>

definition resolve_feedback_identity ::
  "skill_feedback \<Rightarrow> improvement_repo \<Rightarrow> feedback_error + string \<times> string \<times> string option \<times> string option" where
  "resolve_feedback_identity f repo =
     (if truthy_opt (sf_run_id f) then
        (case get_usage_observations (sf_workspace_id f) (or_else (sf_run_id f) []) (Some (sf_skill_id f)) repo of
           [] \<Rightarrow> Inl NoObservation
         | o1 # os \<Rightarrow>
             if 1 < card ((\<lambda>x. (uo_skill_version x, uo_hash x)) ` set (o1 # os)) then Inl AmbiguousObservations
             else if sf_project_id f \<noteq> None \<and> uo_project_id o1 \<noteq> sf_project_id f then Inl NoProjectMatch
             else if sf_manifest_hash f \<noteq> None \<and> uo_manifest_hash o1 \<noteq> sf_manifest_hash f then Inl NoManifestMatch
             else Inr (uo_skill_version o1, uo_hash o1, or_opt (sf_project_id f) (uo_project_id o1),
                       or_opt (sf_manifest_hash f) (uo_manifest_hash o1)))
      else
        (case (sf_version f, sf_hash f) of
           (Some v, Some h) \<Rightarrow> if v = [] \<or> h = [] then Inl IdentityRequired else Inr (v, h, sf_project_id f, sf_manifest_hash f)
         | _ \<Rightarrow> Inl IdentityRequired))"

type_synonym skill_identity = "string \<times> string \<times> string \<times> string"

definition aggregate_identity :: "feedback_aggregate \<Rightarrow> skill_identity" where
  "aggregate_identity a = (fa_workspace_id a, fa_skill_id a, fa_skill_version a, fa_hash a)"

definition request_identity :: "improvement_request \<Rightarrow> skill_identity" where
  "request_identity r = (rq_workspace_id r, rq_skill_id r, rq_skill_version r, rq_hash r)"

text \<open>\<open>max(aggs, key=lambda a: a.revision)\<close>: the first of the largest.\<close>

fun latest_aggregate :: "feedback_aggregate list \<Rightarrow> feedback_aggregate option" where
  "latest_aggregate [] = None"
| "latest_aggregate (a # as) =
     (case latest_aggregate as of None \<Rightarrow> Some a | Some b \<Rightarrow> if fa_revision a < fa_revision b then Some b else Some a)"

definition aggregate_of :: "skill_identity \<Rightarrow> improvement_repo \<Rightarrow> feedback_aggregate option" where
  "aggregate_of ident repo = latest_aggregate (filter (\<lambda>a. aggregate_identity a = ident) (ir_aggregates repo))"

definition live_request :: "improvement_request \<Rightarrow> bool" where
  "live_request r \<longleftrightarrow> rq_status r = ''PENDING'' \<or> rq_status r = ''RUNNING''"

definition live_request_of :: "skill_identity \<Rightarrow> improvement_repo \<Rightarrow> improvement_request option" where
  "live_request_of ident repo =
     List.find (\<lambda>r. request_identity r = ident \<and> live_request r) (dict_values (ir_requests repo))"

text \<open>The answer to a feedback whose idempotency key was used before.\<close>

definition replayed_feedback :: "skill_identity \<Rightarrow> skill_feedback \<Rightarrow> improvement_repo \<Rightarrow> feedback_result" where
  "replayed_feedback ident existing repo =
     (let (ws, sid, v, h) = ident; agg = aggregate_of ident repo; live = live_request_of ident repo
      in \<lparr>fr_feedback_id = sf_id existing, fr_workspace_id = ws, fr_skill_id = sid, fr_skill_version = v, fr_hash = h,
          fr_health = (case agg of None \<Rightarrow> INSUFFICIENT_SAMPLES | Some a \<Rightarrow> fa_health a),
          fr_score = (case agg of None \<Rightarrow> 1 | Some a \<Rightarrow> fa_score a),
          fr_disposition =
            (if live \<noteq> None then Disp_QUEUED
             else case map_option fa_health agg of
                    Some DEGRADING \<Rightarrow> Disp_DEFERRED_POLICY_DISABLED
                  | Some STABLE \<Rightarrow> Disp_STABLE
                  | _ \<Rightarrow> Disp_INSUFFICIENT_SAMPLES),
          fr_request_id = map_option rq_id live\<rparr>)"

text \<open>The aggregate over the window of the latest feedback of the identity.\<close>

definition feedback_window :: "improvement_policy \<Rightarrow> skill_identity \<Rightarrow> skill_feedback list \<Rightarrow> skill_feedback list" where
  "feedback_window pol ident fs =
     py_take (ip_window_size pol)
       (sort_key (\<lambda>f. - sf_created_at f)
         (filter (\<lambda>f. (sf_workspace_id f, sf_skill_id f, sf_version f, sf_hash f) =
                      (case ident of (ws, sid, v, h) \<Rightarrow> (ws, sid, Some v, Some h))) fs))"

definition health_of :: "improvement_policy \<Rightarrow> nat \<Rightarrow> rat \<Rightarrow> rat option \<Rightarrow> feedback_health" where
  "health_of pol n score delta =
     (if int n < ip_min_samples pol then INSUFFICIENT_SAMPLES
      else if score \<le> ip_low_score pol \<and> (case delta of None \<Rightarrow> False | Some d \<Rightarrow> ip_min_delta pol \<le> d) then DEGRADING
      else STABLE)"

definition new_aggregate ::
  "float_ops \<Rightarrow> improvement_policy \<Rightarrow> skill_identity \<Rightarrow> string option \<Rightarrow> string option \<Rightarrow> datetime \<Rightarrow> improvement_repo \<Rightarrow> feedback_aggregate" where
  "new_aggregate fl pol ident project manifest now repo =
     (let window = feedback_window pol ident (ir_feedbacks repo);
          n = length window;
          score = (if 0 < n then mean_score fl (map (feedback_score fl) window) else 0);
          prev = aggregate_of ident repo;
          delta = map_option (\<lambda>a. fl_sub fl (fa_score a) score) prev;
          stamps = map sf_created_at window;
          (ws, sid, v, h) = ident
      in \<lparr>fa_workspace_id = ws, fa_skill_id = sid, fa_skill_version = v, fa_hash = h,
          fa_revision = (case prev of None \<Rightarrow> 1 | Some a \<Rightarrow> fa_revision a + 1), fa_sample_count = n, fa_score = score,
          fa_previous_score = map_option fa_score prev, fa_delta = delta,
          fa_window_started_at = (if stamps = [] then now else Min (set stamps)),
          fa_window_ended_at = (if stamps = [] then now else Max (set stamps)),
          fa_health = health_of pol n score delta, fa_project_id = project, fa_manifest_hash = manifest,
          fa_created_at = now\<rparr>)"

text \<open>The request for a degrading aggregate and its outbox item.\<close>

definition degradation_request :: "improvement_policy \<Rightarrow> feedback_aggregate \<Rightarrow> string \<Rightarrow> datetime \<Rightarrow> improvement_request" where
  "degradation_request pol a rid now =
     \<lparr>rq_id = rid, rq_workspace_id = fa_workspace_id a, rq_skill_id = fa_skill_id a,
      rq_skill_version = fa_skill_version a, rq_hash = fa_hash a, rq_revision = fa_revision a,
      rq_policy_hash = ip_policy_hash pol, rq_status = ''PENDING'', rq_attempt_count = 0,
      rq_claim_token = None, rq_claimed_by = None, rq_claimed_at = None, rq_reason_code = None,
      rq_project_id = fa_project_id a, rq_manifest_hash = fa_manifest_hash a,
      rq_created_at = now, rq_updated_at = now\<rparr>"

definition request_outbox :: "feedback_aggregate \<Rightarrow> string \<Rightarrow> string \<Rightarrow> datetime \<Rightarrow> datetime \<Rightarrow> improvement_outbox" where
  "request_outbox a rid oid now now' =
     \<lparr>ob_id = oid, ob_request_id = rid, ob_workspace_id = fa_workspace_id a,
      ob_state = ''PENDING'', ob_attempt_count = 0, ob_next_attempt_at = now',
      ob_claim_token = None, ob_claimed_by = None, ob_delivered_at = None,
      ob_project_id = fa_project_id a, ob_manifest_hash = fa_manifest_hash a,
      ob_created_at = now\<rparr>"

text \<open>What follows from a new aggregate: the disposition, the request it belongs to and the repository.
  \<open>rid\<close> and \<open>oid\<close> are the generated identifiers, \<open>now'\<close> the clock when the outbox item is made.\<close>

definition queue_improvement ::
  "improvement_policy \<Rightarrow> feedback_aggregate \<Rightarrow> string \<Rightarrow> string \<Rightarrow> datetime \<Rightarrow> datetime \<Rightarrow> improvement_repo
     \<Rightarrow> improvement_disposition \<times> string option \<times> improvement_repo" where
  "queue_improvement pol a rid oid now now' repo =
     (case fa_health a of
        STABLE \<Rightarrow> (Disp_STABLE, None, repo)
      | INSUFFICIENT_SAMPLES \<Rightarrow> (Disp_INSUFFICIENT_SAMPLES, None, repo)
      | DEGRADING \<Rightarrow>
          if ip_mode pol \<noteq> ''CANDIDATE'' then (Disp_DEFERRED_POLICY_DISABLED, None, repo)
          else if (case ip_allowed pol of None \<Rightarrow> False
                   | Some ids \<Rightarrow> (fa_skill_id a, fa_skill_version a, fa_hash a) \<notin> set ids)
          then (Disp_NOT_ELIGIBLE, None, repo)
          else (case live_request_of (aggregate_identity a) repo of
                  Some r \<Rightarrow> (Disp_QUEUED, Some (rq_id r), repo)
                | None \<Rightarrow>
                    (Disp_QUEUED, Some rid,
                         repo\<lparr>ir_requests := dict_set rid (degradation_request pol a rid now) (ir_requests repo),
                              ir_outbox := dict_set oid (request_outbox a rid oid now now') (ir_outbox repo)\<rparr>)))"

definition store_feedback :: "skill_feedback \<Rightarrow> improvement_repo \<Rightarrow> improvement_repo" where
  "store_feedback f repo =
     (let repo = repo\<lparr>ir_feedbacks := ir_feedbacks repo @ [f]\<rparr>
      in case sf_idempotency_key f of
           Some key \<Rightarrow>
             if key \<noteq> [] then repo\<lparr>ir_feedback_by_key := dict_set (sf_workspace_id f, key) f (ir_feedback_by_key repo)\<rparr> else repo
         | None \<Rightarrow> repo)"

definition record_feedback_and_maybe_enqueue ::
  "float_ops \<Rightarrow> skill_feedback \<Rightarrow> improvement_policy option \<Rightarrow> string \<Rightarrow> string \<Rightarrow> datetime \<Rightarrow> datetime \<Rightarrow> improvement_repo
     \<Rightarrow> (feedback_error + feedback_result) \<times> improvement_repo" where
  "record_feedback_and_maybe_enqueue fl f policy rid oid now now' repo =
     (let pol = (case policy of None \<Rightarrow> default_policy | Some p \<Rightarrow> p); ws = sf_workspace_id f in
      case resolve_feedback_identity f repo of
        Inl e \<Rightarrow> (Inl e, repo)
      | Inr (v, h, project, manifest) \<Rightarrow>
          (let ident = (ws, sf_skill_id f, v, h);
               key = or_else (sf_idempotency_key f) []
           in case (if key \<noteq> [] then dict_get (ir_feedback_by_key repo) (ws, key) else None) of
                Some existing \<Rightarrow> (Inr (replayed_feedback ident existing repo), repo)
              | None \<Rightarrow>
                  (let stored = f\<lparr>sf_version := Some v, sf_hash := Some h, sf_project_id := project, sf_manifest_hash := manifest\<rparr>;
                       repo1 = store_feedback stored repo;
                       a = new_aggregate fl pol ident project manifest now repo1;
                       repo2 = repo1\<lparr>ir_aggregates := ir_aggregates repo1 @ [a]\<rparr>;
                       (disp, req, repo3) = queue_improvement pol a rid oid now now' repo2
                   in (Inr \<lparr>fr_feedback_id = sf_id stored, fr_workspace_id = ws, fr_skill_id = sf_skill_id f,
                            fr_skill_version = v, fr_hash = h, fr_health = fa_health a, fr_score = fa_score a,
                            fr_disposition = disp, fr_request_id = req\<rparr>, repo3))))"

subsection \<open>Claims\<close>

definition claim_request_as :: "string \<Rightarrow> string \<Rightarrow> datetime \<Rightarrow> improvement_request \<Rightarrow> improvement_request" where
  "claim_request_as token worker now r =
     r\<lparr>rq_status := ''RUNNING'', rq_claim_token := Some token, rq_claimed_by := Some worker,
       rq_claimed_at := Some now, rq_attempt_count := rq_attempt_count r + 1\<rparr>"

text \<open>The loop of both claim operations over a dictionary: \<open>due\<close> selects, \<open>upd\<close> claims a record under a
  token. The limit is tested after a claim; \<open>n\<close> counts the claims made and \<open>tok n\<close> is the token
  generated for the next one.\<close>

fun claim_loop ::
  "('v \<Rightarrow> bool) \<Rightarrow> (string \<Rightarrow> 'v \<Rightarrow> 'v) \<Rightarrow> int \<Rightarrow> (nat \<Rightarrow> string) \<Rightarrow> nat \<Rightarrow> (string, 'v) pydict
     \<Rightarrow> ('v \<times> string) list \<times> (string, 'v) pydict" where
  "claim_loop due upd limit tok n [] = ([], [])"
| "claim_loop due upd limit tok n ((k, v) # d) =
     (if due v then
        (let v' = upd (tok n) v in
         if limit \<le> int (Suc n) then ([(v', tok n)], (k, v') # d)
         else (let (cs, d') = claim_loop due upd limit tok (Suc n) d in ((v', tok n) # cs, (k, v') # d')))
      else (let (cs, d') = claim_loop due upd limit tok n d in (cs, (k, v) # d')))"

definition claim_improvement_requests ::
  "string \<Rightarrow> int \<Rightarrow> datetime \<Rightarrow> (nat \<Rightarrow> string) \<Rightarrow> improvement_repo \<Rightarrow> (improvement_request \<times> string) list \<times> improvement_repo" where
  "claim_improvement_requests worker limit now tok repo =
     (let (cs, d) = claim_loop (\<lambda>r. rq_status r = ''PENDING'') (\<lambda>t. claim_request_as t worker now) limit tok 0
                      (ir_requests repo)
      in (cs, repo\<lparr>ir_requests := d\<rparr>))"

definition claim_improvement_request ::
  "string \<Rightarrow> string \<Rightarrow> datetime \<Rightarrow> string \<Rightarrow> improvement_repo \<Rightarrow> (improvement_request \<times> string) option \<times> improvement_repo" where
  "claim_improvement_request rid worker now token repo =
     (case dict_get (ir_requests repo) rid of
        None \<Rightarrow> (None, repo)
      | Some r \<Rightarrow>
          if rq_status r \<noteq> ''PENDING'' then (None, repo)
          else (let r' = claim_request_as token worker now r
                in (Some (r', token), repo\<lparr>ir_requests := dict_set rid r' (ir_requests repo)\<rparr>)))"

definition finish_improvement_request ::
  "string \<Rightarrow> string \<Rightarrow> improvement_outcome \<Rightarrow> datetime \<Rightarrow> improvement_repo \<Rightarrow> bool \<times> improvement_repo" where
  "finish_improvement_request rid token outc now repo =
     (case dict_get (ir_requests repo) rid of
        None \<Rightarrow> (False, repo)
      | Some r \<Rightarrow>
          if rq_claim_token r \<noteq> Some token then (False, repo)
          else (True, repo\<lparr>ir_requests := dict_set rid
                  (r\<lparr>rq_status := io_status outc, rq_reason_code := io_reason_code outc, rq_claim_token := None,
                     rq_updated_at := now\<rparr>) (ir_requests repo)\<rparr>))"

definition claim_outbox_as :: "string \<Rightarrow> string \<Rightarrow> improvement_outbox \<Rightarrow> improvement_outbox" where
  "claim_outbox_as token worker x =
     x\<lparr>ob_state := ''CLAIMED'', ob_claim_token := Some token, ob_claimed_by := Some worker,
       ob_attempt_count := ob_attempt_count x + 1\<rparr>"

definition claim_improvement_outbox ::
  "string \<Rightarrow> int \<Rightarrow> datetime \<Rightarrow> (nat \<Rightarrow> string) \<Rightarrow> improvement_repo \<Rightarrow> (improvement_outbox \<times> string) list \<times> improvement_repo" where
  "claim_improvement_outbox worker limit now tok repo =
     (let (cs, d) = claim_loop (\<lambda>x. (ob_state x = ''PENDING'' \<or> ob_state x = ''RETRY'') \<and> ob_next_attempt_at x \<le> now)
                      (\<lambda>t. claim_outbox_as t worker) limit tok 0 (ir_outbox repo)
      in (cs, repo\<lparr>ir_outbox := d\<rparr>))"

definition mark_outbox_delivered :: "string \<Rightarrow> string \<Rightarrow> datetime \<Rightarrow> improvement_repo \<Rightarrow> bool \<times> improvement_repo" where
  "mark_outbox_delivered oid token t repo =
     (case dict_get (ir_outbox repo) oid of
        None \<Rightarrow> (False, repo)
      | Some x \<Rightarrow>
          if ob_claim_token x \<noteq> Some token then (False, repo)
          else (True, repo\<lparr>ir_outbox := dict_set oid
                  (x\<lparr>ob_state := ''DELIVERED'', ob_delivered_at := Some t, ob_claim_token := None\<rparr>) (ir_outbox repo)\<rparr>))"

definition mark_outbox_failed :: "string \<Rightarrow> string \<Rightarrow> improvement_repo \<Rightarrow> bool \<times> improvement_repo" where
  "mark_outbox_failed oid token repo =
     (case dict_get (ir_outbox repo) oid of
        None \<Rightarrow> (False, repo)
      | Some x \<Rightarrow>
          if ob_claim_token x \<noteq> Some token then (False, repo)
          else (True, repo\<lparr>ir_outbox := dict_set oid
                  (x\<lparr>ob_claim_token := None,
                     ob_state := (if 5 \<le> ob_attempt_count x then ''FAILED_REQUIRES_ATTENTION'' else ''RETRY'')\<rparr>)
                  (ir_outbox repo)\<rparr>))"

definition create_improvement_request :: "improvement_request \<Rightarrow> improvement_repo \<Rightarrow> improvement_repo" where
  "create_improvement_request r repo = repo\<lparr>ir_requests := dict_set (rq_id r) r (ir_requests repo)\<rparr>"

definition get_improvement_request :: "string \<Rightarrow> improvement_repo \<Rightarrow> improvement_request option" where
  "get_improvement_request rid repo = dict_get (ir_requests repo) rid"

definition count_requests :: "skill_identity \<Rightarrow> improvement_repo \<Rightarrow> nat" where
  "count_requests ident repo = length (filter (\<lambda>r. request_identity r = ident) (dict_values (ir_requests repo)))"

definition count_outbox :: "string \<Rightarrow> string option \<Rightarrow> improvement_repo \<Rightarrow> nat" where
  "count_outbox ws rid repo =
     length (filter (\<lambda>x. ob_workspace_id x = ws \<and> (case rid of None \<Rightarrow> True | Some r \<Rightarrow> ob_request_id x = r))
       (dict_values (ir_outbox repo)))"

definition record_evaluation :: "improvement_evaluation \<Rightarrow> improvement_repo \<Rightarrow> improvement_repo" where
  "record_evaluation e repo = repo\<lparr>ir_evaluations := ir_evaluations repo @ [e]\<rparr>"

definition get_evaluations :: "string \<Rightarrow> string \<Rightarrow> improvement_repo \<Rightarrow> improvement_evaluation list" where
  "get_evaluations ws rid repo =
     filter (\<lambda>e. ev_workspace_id e = ws \<and> ev_request_id e = rid) (ir_evaluations repo)"

definition record_mutation :: "improvement_mutation \<Rightarrow> improvement_repo \<Rightarrow> improvement_repo" where
  "record_mutation m repo = repo\<lparr>ir_mutations := ir_mutations repo @ [m]\<rparr>"

definition get_mutations :: "string \<Rightarrow> string \<Rightarrow> improvement_repo \<Rightarrow> improvement_mutation list" where
  "get_mutations ws rid repo =
     filter (\<lambda>m. mu_workspace_id m = ws \<and> mu_request_id m = rid) (ir_mutations repo)"

end
