(* ===== verification/SkillProps.thy ===== *)
theory SkillProps
  imports SkillImprovement
begin

text \<open>
  Properties of the skill improvement queue and of candidate publication, over every interleaving of
  the operations of \<open>SkillImprovement\<close>.
\<close>

declare split_paired_All [simp del] split_paired_Ex [simp del]

subsection \<open>The queue as a machine\<close>

datatype improvement_op =
    ImpUse usage_observation
  | ImpFeedback float_ops skill_feedback "improvement_policy option" string string datetime datetime
  | ImpClaimMany string int datetime "nat \<Rightarrow> string"
  | ImpClaim string string datetime string
  | ImpFinish string string improvement_outcome datetime
  | ImpOutboxClaim string int datetime "nat \<Rightarrow> string"
  | ImpDelivered string string datetime
  | ImpFailed string string
  | ImpCreate improvement_request
  | ImpEvaluation improvement_evaluation
  | ImpMutation improvement_mutation

fun improvement_step :: "improvement_op \<Rightarrow> improvement_repo \<Rightarrow> improvement_repo" where
  "improvement_step (ImpUse x) repo = snd (record_resolved_skill_use x repo)"
| "improvement_step (ImpFeedback fl f pol rid oid now now') repo =
     snd (record_feedback_and_maybe_enqueue fl f pol rid oid now now' repo)"
| "improvement_step (ImpClaimMany worker limit now tok) repo = snd (claim_improvement_requests worker limit now tok repo)"
| "improvement_step (ImpClaim rid worker now token) repo = snd (claim_improvement_request rid worker now token repo)"
| "improvement_step (ImpFinish rid token outc now) repo = snd (finish_improvement_request rid token outc now repo)"
| "improvement_step (ImpOutboxClaim worker limit now tok) repo = snd (claim_improvement_outbox worker limit now tok repo)"
| "improvement_step (ImpDelivered oid token t) repo = snd (mark_outbox_delivered oid token t repo)"
| "improvement_step (ImpFailed oid token) repo = snd (mark_outbox_failed oid token repo)"
| "improvement_step (ImpCreate r) repo = create_improvement_request r repo"
| "improvement_step (ImpEvaluation e) repo = record_evaluation e repo"
| "improvement_step (ImpMutation m) repo = record_mutation m repo"

text \<open>What callers observe: the claims they are handed and the calls that were answered with
  \<open>True\<close>.\<close>

datatype claim_event =
    RequestClaimed string string
  | RequestFinished string string
  | OutboxClaimed string string
  | OutboxDelivered string string
  | OutboxFailed string string

fun claim_events :: "improvement_op \<Rightarrow> improvement_repo \<Rightarrow> claim_event list" where
  "claim_events (ImpClaimMany worker limit now tok) repo =
     map (\<lambda>(r, token). RequestClaimed (rq_id r) token) (fst (claim_improvement_requests worker limit now tok repo))"
| "claim_events (ImpClaim rid worker now token) repo =
     (case fst (claim_improvement_request rid worker now token repo) of
        None \<Rightarrow> [] | Some (r, t) \<Rightarrow> [RequestClaimed (rq_id r) t])"
| "claim_events (ImpFinish rid token outc now) repo =
     (if fst (finish_improvement_request rid token outc now repo) then [RequestFinished rid token] else [])"
| "claim_events (ImpOutboxClaim worker limit now tok) repo =
     map (\<lambda>(x, token). OutboxClaimed (ob_id x) token) (fst (claim_improvement_outbox worker limit now tok repo))"
| "claim_events (ImpDelivered oid token t) repo =
     (if fst (mark_outbox_delivered oid token t repo) then [OutboxDelivered oid token] else [])"
| "claim_events (ImpFailed oid token) repo =
     (if fst (mark_outbox_failed oid token repo) then [OutboxFailed oid token] else [])"
| "claim_events _ repo = []"

type_synonym improvement_world = "improvement_repo \<times> claim_event list"

definition improvement_trace :: "improvement_op \<Rightarrow> improvement_world \<Rightarrow> improvement_world" where
  "improvement_trace op w = (improvement_step op (fst w), snd w @ claim_events op (fst w))"

text \<open>Generated identifiers are new, and a request written by \<open>create_improvement_request\<close> is new,
  unclaimed and no second live request of its identity.\<close>

fun improvement_guard :: "improvement_op \<Rightarrow> improvement_world \<Rightarrow> bool" where
  "improvement_guard (ImpFeedback fl f pol rid oid now now') w =
     (dict_get (ir_requests (fst w)) rid = None \<and> dict_get (ir_outbox (fst w)) oid = None)"
| "improvement_guard (ImpCreate r) w =
     (dict_get (ir_requests (fst w)) (rq_id r) = None \<and> rq_claim_token r = None \<and>
      (live_request r \<longrightarrow> live_request_of (request_identity r) (fst w) = None))"
| "improvement_guard _ w = True"

text \<open>The life of a request as its claims show it: free, or held under a token. A claim needs it free, a
  finish needs the token that holds it; anything else is a violation, \<open>None\<close>.\<close>

fun request_fence :: "string \<Rightarrow> claim_event \<Rightarrow> string option option \<Rightarrow> string option option" where
  "request_fence rid (RequestClaimed r t) (Some h) = (if r \<noteq> rid then Some h else if h = None then Some (Some t) else None)"
| "request_fence rid (RequestFinished r t) (Some h) = (if r \<noteq> rid then Some h else if h = Some t then Some None else None)"
| "request_fence rid _ x = x"

text \<open>The life of an outbox item: how often it was claimed, and whether it waits, is held or is
  delivered. More than five claims are a violation.\<close>

datatype outbox_phase = Waits | Held string | Delivered

fun outbox_fence :: "string \<Rightarrow> claim_event \<Rightarrow> (nat \<times> outbox_phase) option \<Rightarrow> (nat \<times> outbox_phase) option" where
  "outbox_fence oid (OutboxClaimed x t) (Some (n, p)) =
     (if x \<noteq> oid then Some (n, p) else if p = Waits \<and> n < 5 then Some (Suc n, Held t) else None)"
| "outbox_fence oid (OutboxDelivered x t) (Some (n, p)) =
     (if x \<noteq> oid then Some (n, p) else if p = Held t then Some (n, Delivered) else None)"
| "outbox_fence oid (OutboxFailed x t) (Some (n, p)) =
     (if x \<noteq> oid then Some (n, p) else if p = Held t then Some (n, Waits) else None)"
| "outbox_fence oid _ s = s"

text \<open>The fences agree with the records.\<close>

definition request_agrees :: "improvement_request option \<Rightarrow> string option option \<Rightarrow> bool" where
  "request_agrees r s \<longleftrightarrow>
     (case r of
        None \<Rightarrow> s = Some None
      | Some x \<Rightarrow> s = Some (rq_claim_token x) \<and> (rq_claim_token x \<noteq> None \<longrightarrow> rq_status x = ''RUNNING''))"

definition outbox_agrees :: "improvement_outbox option \<Rightarrow> (nat \<times> outbox_phase) option \<Rightarrow> bool" where
  "outbox_agrees x s \<longleftrightarrow>
     (case x of
        None \<Rightarrow> s = Some (0, Waits)
      | Some b \<Rightarrow>
          (\<exists>n. int n = ob_attempt_count b \<and> n \<le> 5 \<and>
             s = Some (n, case ob_claim_token b of Some t \<Rightarrow> Held t
                          | None \<Rightarrow> if ob_state b = ''DELIVERED'' then Delivered else Waits) \<and>
             (ob_claim_token b \<noteq> None \<longrightarrow> ob_state b = ''CLAIMED'') \<and>
             (ob_state b = ''PENDING'' \<or> ob_state b = ''RETRY'' \<longrightarrow> n < 5)))"

definition fences_inv :: "improvement_world \<Rightarrow> bool" where
  "fences_inv w \<longleftrightarrow>
     keyed rq_id (ir_requests (fst w)) \<and> keyed ob_id (ir_outbox (fst w)) \<and>
     (\<forall>rid. request_agrees (dict_get (ir_requests (fst w)) rid) (fold (request_fence rid) (snd w) (Some None))) \<and>
     (\<forall>oid. outbox_agrees (dict_get (ir_outbox (fst w)) oid) (fold (outbox_fence oid) (snd w) (Some (0, Waits))))"


subsection \<open>The claim loop\<close>

lemma keyed_Cons: "keyed key ((k, v) # d) \<longleftrightarrow> key v = k \<and> k \<notin> fst ` set d \<and> keyed key d"
proof -
  have "dict_get d k' = Some v' \<Longrightarrow> k' \<in> fst ` set d" for k' v' by (force dest: map_of_SomeD)
  then show ?thesis by (auto simp: keyed_def)
qed

lemma claim_loop_spec:
  assumes "keyed key d" "\<And>t v. key (upd t v) = key v" "claim_loop due upd limit tok n d = (cs, d')"
  shows "keyed key d' \<and> map fst d' = map fst d \<and> distinct (map (\<lambda>x. key (fst x)) cs) \<and>
     (\<forall>x \<in> set cs. \<exists>v0. dict_get d (key (fst x)) = Some v0 \<and> due v0 \<and> fst x = upd (snd x) v0) \<and>
     (\<forall>k. dict_get d' k = (case List.find (\<lambda>x. key (fst x) = k) cs of Some x \<Rightarrow> Some (fst x) | None \<Rightarrow> dict_get d k))"
  using assms(1,3)
proof (induction d arbitrary: n cs d')
  case (Cons kv d)
  obtain k v where kv: "kv = (k, v)" by (cases kv)
  from Cons.prems(1) have k: "key v = k" "k \<notin> fst ` set d" and d: "keyed key d" by (simp_all add: kv keyed_Cons)
  then have absent: "dict_get d k = None" by (simp add: map_of_eq_None_iff)
  show ?case
  proof (cases "due v \<and> limit \<le> int (Suc n)")
    case True
    with Cons.prems(2) have "cs = [(upd (tok n) v, tok n)]" "d' = (k, upd (tok n) v) # d"
      by (auto simp: kv Let_def)
    with k d True assms(2) show ?thesis by (auto simp: kv keyed_Cons)
  next
    case False
    define n' where "n' = (if due v then Suc n else n)"
    obtain cs1 d1 where rest: "claim_loop due upd limit tok n' d = (cs1, d1)" by fastforce
    note IH = Cons.IH [OF d rest]
    let ?v = "if due v then upd (tok n) v else v"
    have cs: "cs = (if due v then [(upd (tok n) v, tok n)] else []) @ cs1" and d': "d' = (k, ?v) # d1"
      using Cons.prems(2) rest False by (auto simp: kv n'_def Let_def split: if_splits)
    have other: "key (fst x) \<noteq> k" if "x \<in> set cs1" for x using IH that absent by fastforce
    then have none: "List.find (\<lambda>x. key (fst x) = k) cs1 = None" unfolding find_None_all by blast
    have "key ?v = k" using k assms(2) by simp
    have "fst ` set d1 = fst ` set d" using IH by (metis list.set_map)
    with IH k \<open>key ?v = k\<close> have "keyed key d'" "map fst d' = map fst (kv # d)" by (simp_all add: d' keyed_Cons kv)
    moreover have "k \<notin> (\<lambda>x. key (fst x)) ` set cs1" using other by blast
    with IH k assms(2) have "distinct (map (\<lambda>x. key (fst x)) cs)" by (simp add: cs)
    moreover have "\<exists>v0. dict_get (kv # d) (key (fst x)) = Some v0 \<and> due v0 \<and> fst x = upd (snd x) v0" if "x \<in> set cs" for x
    proof (cases "x \<in> set cs1")
      case True
      with IH other [OF True] show ?thesis by (auto simp: kv)
    next
      case False
      with that k assms(2) show ?thesis by (auto simp: cs kv split: if_splits)
    qed
    moreover have "dict_get d' j = (case List.find (\<lambda>x. key (fst x) = j) cs of Some x \<Rightarrow> Some (fst x) | None \<Rightarrow> dict_get (kv # d) j)" for j
      using IH none k assms(2) by (auto simp: d' cs kv split: option.splits)
    ultimately show ?thesis by blast
  qed
qed simp

lemma fence_None: "fold (request_fence rid) es None = None" "fold (outbox_fence oid) es None = None"
  by (induction es) simp_all

lemma find_distinct: "distinct (map g (x # xs)) \<Longrightarrow> List.find (\<lambda>y. g y = g x) xs = None"
  unfolding find_None_all by (metis distinct.simps(2) image_eqI list.set_map list.simps(9))

lemma request_fence_claims:
  "distinct (map (\<lambda>x. f (fst x)) cs) \<Longrightarrow>
   fold (request_fence rid) (map (\<lambda>(r, t). RequestClaimed (f r) t) cs) (Some h) =
     (case List.find (\<lambda>x. f (fst x) = rid) cs of
        None \<Rightarrow> Some h | Some x \<Rightarrow> if h = None then Some (Some (snd x)) else None)"
proof (induction cs arbitrary: h)
  case (Cons x cs)
  then have "List.find (\<lambda>y. f (fst y) = f (fst x)) cs = None"
    by (intro find_distinct) simp
  with Cons show ?case by (cases x) (auto simp: fence_None)
qed simp

lemma outbox_fence_claims:
  "distinct (map (\<lambda>x. f (fst x)) cs) \<Longrightarrow>
   fold (outbox_fence oid) (map (\<lambda>(x, t). OutboxClaimed (f x) t) cs) (Some (n, p)) =
     (case List.find (\<lambda>x. f (fst x) = oid) cs of
        None \<Rightarrow> Some (n, p) | Some x \<Rightarrow> if p = Waits \<and> n < 5 then Some (Suc n, Held (snd x)) else None)"
proof (induction cs arbitrary: n p)
  case (Cons x cs)
  then have "List.find (\<lambda>y. f (fst y) = f (fst x)) cs = None"
    by (intro find_distinct) simp
  with Cons show ?case by (cases x) (auto simp: fence_None)
qed simp

lemma fence_other:
  "fold (outbox_fence oid) (map (\<lambda>(r, t). RequestClaimed (f r) t) cs) s = s"
  "fold (request_fence rid) (map (\<lambda>(x, t). OutboxClaimed (f x) t) cs) s' = s'"
  by (induction cs) auto


subsection \<open>The invariant of the fences\<close>

lemma fences_request_claims:
  assumes "fences_inv (repo, es)"
  shows "fences_inv (improvement_trace (ImpClaimMany worker limit now tok) (repo, es))"
proof -
  let ?upd = "\<lambda>t. claim_request_as t worker now"
  obtain cs d where loop: "claim_loop (\<lambda>r. rq_status r = ''PENDING'') ?upd limit tok 0 (ir_requests repo) = (cs, d)"
    by fastforce
  from assms have k: "keyed rq_id (ir_requests repo)" by (simp add: fences_inv_def)
  note spec = claim_loop_spec [OF k _ loop, simplified claim_request_as_def, simplified]
  have "request_agrees (dict_get d rid) (fold (request_fence rid) (map (\<lambda>(r, t). RequestClaimed (rq_id r) t) cs)
          (fold (request_fence rid) es (Some None)))" for rid
  proof -
    have before: "request_agrees (dict_get (ir_requests repo) rid) (fold (request_fence rid) es (Some None))"
      using assms by (simp add: fences_inv_def)
    then obtain h where h: "fold (request_fence rid) es (Some None) = Some h"
      by (auto simp: request_agrees_def split: option.splits)
    show ?thesis
    proof (cases "List.find (\<lambda>x. rq_id (fst x) = rid) cs")
      case None
      with before spec show ?thesis by (simp add: request_fence_claims h)
    next
      case (Some x)
      then have "x \<in> set cs" "rq_id (fst x) = rid" by (auto dest: find_Some_iff_mem)
      with spec obtain v0 where "dict_get (ir_requests repo) rid = Some v0" "rq_status v0 = ''PENDING''"
          "fst x = claim_request_as (snd x) worker now v0"
        unfolding claim_request_as_def by blast
      with Some before spec show ?thesis
        by (simp add: request_fence_claims h) (auto simp: request_agrees_def claim_request_as_def)
    qed
  qed
  with assms spec show ?thesis
    by (simp add: fences_inv_def improvement_trace_def claim_improvement_requests_def loop fence_other)
qed

lemma fences_outbox_claims:
  assumes "fences_inv (repo, es)"
  shows "fences_inv (improvement_trace (ImpOutboxClaim worker limit now tok) (repo, es))"
proof -
  let ?due = "\<lambda>x. (ob_state x = ''PENDING'' \<or> ob_state x = ''RETRY'') \<and> ob_next_attempt_at x \<le> now"
  obtain cs d where loop: "claim_loop ?due (\<lambda>t. claim_outbox_as t worker) limit tok 0 (ir_outbox repo) = (cs, d)"
    by fastforce
  from assms have k: "keyed ob_id (ir_outbox repo)" by (simp add: fences_inv_def)
  note spec = claim_loop_spec [OF k _ loop, simplified claim_outbox_as_def, simplified]
  have "outbox_agrees (dict_get d oid) (fold (outbox_fence oid) (map (\<lambda>(r, t). OutboxClaimed (ob_id r) t) cs)
          (fold (outbox_fence oid) es (Some (0, Waits))))" for oid
  proof -
    have before: "outbox_agrees (dict_get (ir_outbox repo) oid) (fold (outbox_fence oid) es (Some (0, Waits)))"
      using assms by (simp add: fences_inv_def)
    then obtain n p where h: "fold (outbox_fence oid) es (Some (0, Waits)) = Some (n, p)"
      by (auto simp: outbox_agrees_def split: option.splits)
    show ?thesis
    proof (cases "List.find (\<lambda>x. ob_id (fst x) = oid) cs")
      case None
      with before spec show ?thesis by (simp add: outbox_fence_claims h)
    next
      case (Some x)
      then have "x \<in> set cs" "ob_id (fst x) = oid" by (auto dest: find_Some_iff_mem)
      with spec obtain v0 where v0: "dict_get (ir_outbox repo) oid = Some v0" "?due v0"
          "fst x = claim_outbox_as (snd x) worker v0"
        unfolding claim_outbox_as_def by blast
      with before h have np: "int n = ob_attempt_count v0" "n < 5" "p = Waits"
        by (auto simp: outbox_agrees_def)
      have "dict_get d oid = Some (fst x)" using spec Some by simp
      with np v0(3) Some spec show ?thesis
        by (simp add: outbox_fence_claims h) (auto simp: outbox_agrees_def claim_outbox_as_def intro: exI [of _ "Suc n"])
    qed
  qed
  with assms spec show ?thesis
    by (simp add: fences_inv_def improvement_trace_def claim_improvement_outbox_def loop fence_other)
qed


subsection \<open>What recording a feedback does\<close>

definition new_request :: "feedback_aggregate \<Rightarrow> string \<Rightarrow> string \<Rightarrow> improvement_request \<Rightarrow> improvement_outbox \<Rightarrow> bool" where
  "new_request a rid oid r x \<longleftrightarrow>
     fa_health a = DEGRADING \<and> request_identity r = aggregate_identity a \<and> rq_revision r = fa_revision a \<and>
     rq_id r = rid \<and> rq_status r = ''PENDING'' \<and> rq_claim_token r = None \<and>
     ob_id x = oid \<and> ob_request_id x = rid \<and> ob_workspace_id x = rq_workspace_id r \<and> ob_state x = ''PENDING'' \<and>
     ob_attempt_count x = 0 \<and> ob_claim_token x = None"

lemma live_request_of_cong: "ir_requests repo' = ir_requests repo \<Longrightarrow> live_request_of ident repo' = live_request_of ident repo"
  by (simp add: live_request_of_def)

lemma store_feedback_frame [simp]:
  "ir_requests (store_feedback f repo) = ir_requests repo" "ir_outbox (store_feedback f repo) = ir_outbox repo"
  "ir_aggregates (store_feedback f repo) = ir_aggregates repo" "ir_observations (store_feedback f repo) = ir_observations repo"
  by (simp_all add: store_feedback_def Let_def split: option.splits)

lemma queue_improvement_effect:
  assumes "queue_improvement pol a rid oid now now' repo = (disp, req, repo')"
  shows "repo' = repo \<or>
     (\<exists>r x. repo' = repo\<lparr>ir_requests := dict_set rid r (ir_requests repo), ir_outbox := dict_set oid x (ir_outbox repo)\<rparr> \<and>
        new_request a rid oid r x \<and> live_request_of (aggregate_identity a) repo = None \<and> ip_mode pol = ''CANDIDATE'')"
proof (cases "fa_health a = DEGRADING \<and> ip_mode pol = ''CANDIDATE'' \<and>
    \<not> (case ip_allowed pol of None \<Rightarrow> False | Some ids \<Rightarrow> (fa_skill_id a, fa_skill_version a, fa_hash a) \<notin> set ids) \<and>
    live_request_of (aggregate_identity a) repo = None")
  case True
  have "new_request a rid oid (degradation_request pol a rid now) (request_outbox a rid oid now now')"
    using True by (simp add: new_request_def request_identity_def aggregate_identity_def degradation_request_def request_outbox_def)
  with True assms show ?thesis by (auto simp: queue_improvement_def)
next
  case False
  with assms show ?thesis
    by (auto simp: queue_improvement_def split: feedback_health.splits if_splits option.splits)
qed

lemma feedback_effect:
  assumes "repo' = snd (record_feedback_and_maybe_enqueue fl f policy rid oid now now' repo)"
  shows "repo' = repo \<or>
     (\<exists>stored a repo1. repo1 = store_feedback stored repo \<and> sf_workspace_id stored = sf_workspace_id f \<and>
        sf_idempotency_key stored = sf_idempotency_key f \<and> sf_id stored = sf_id f \<and>
        (or_else (sf_idempotency_key f) [] \<noteq> [] \<longrightarrow>
           dict_get (ir_feedback_by_key repo) (sf_workspace_id f, or_else (sf_idempotency_key f) []) = None) \<and>
        (repo' = repo1\<lparr>ir_aggregates := ir_aggregates repo @ [a]\<rparr> \<or>
         (\<exists>r x. repo' = repo1\<lparr>ir_aggregates := ir_aggregates repo @ [a], ir_requests := dict_set rid r (ir_requests repo),
                    ir_outbox := dict_set oid x (ir_outbox repo)\<rparr> \<and>
            new_request a rid oid r x \<and> live_request_of (aggregate_identity a) repo = None)))"
proof (cases "resolve_feedback_identity f repo")
  case (Inl e)
  with assms show ?thesis by (simp add: record_feedback_and_maybe_enqueue_def Let_def)
next
  case (Inr res)
  obtain v h project manifest where res: "res = (v, h, project, manifest)" by (cases res)
  let ?key = "or_else (sf_idempotency_key f) []" and ?pol = "case policy of None \<Rightarrow> default_policy | Some p \<Rightarrow> p"
  show ?thesis
  proof (cases "if ?key \<noteq> [] then dict_get (ir_feedback_by_key repo) (sf_workspace_id f, ?key) else None")
    case (Some existing)
    with assms Inr res show ?thesis by (simp add: record_feedback_and_maybe_enqueue_def Let_def)
  next
    case None
    let ?stored = "f\<lparr>sf_version := Some v, sf_hash := Some h, sf_project_id := project, sf_manifest_hash := manifest\<rparr>"
    let ?repo1 = "store_feedback ?stored repo"
    let ?a = "new_aggregate fl ?pol (sf_workspace_id f, sf_skill_id f, v, h) project manifest now ?repo1"
    let ?repo2 = "?repo1\<lparr>ir_aggregates := ir_aggregates ?repo1 @ [?a]\<rparr>"
    obtain disp req repo3 where q: "queue_improvement ?pol ?a rid oid now now' ?repo2 = (disp, req, repo3)"
      by (cases "queue_improvement ?pol ?a rid oid now now' ?repo2")
    have "repo' = repo3"
      using assms Inr res None q by (simp add: record_feedback_and_maybe_enqueue_def Let_def)
    moreover have "live_request_of (aggregate_identity ?a) ?repo2 = live_request_of (aggregate_identity ?a) repo"
      by (rule live_request_of_cong) simp
    moreover have "?key \<noteq> [] \<longrightarrow> dict_get (ir_feedback_by_key repo) (sf_workspace_id f, ?key) = None"
      using None by meson
    moreover note queue_improvement_effect [OF q]
    ultimately show ?thesis
      by (intro disjI2 exI [of _ ?stored] exI [of _ ?a] exI [of _ ?repo1]) auto
  qed
qed


lemma fences_keep:
  assumes "fences_inv (repo, es)" "ir_requests repo' = ir_requests repo" "ir_outbox repo' = ir_outbox repo"
  shows "fences_inv (repo', es)"
  using assms by (simp add: fences_inv_def)

lemma fences_set_request:
  assumes "fences_inv (repo, es)" "rq_id r = rid" "ir_requests repo' = dict_set rid r (ir_requests repo)"
    and "ir_outbox repo' = ir_outbox repo" and "\<And>oid s. fold (outbox_fence oid) es' s = s"
    and "\<And>k s. k \<noteq> rid \<Longrightarrow> fold (request_fence k) es' s = s"
    and "request_agrees (Some r) (fold (request_fence rid) es' (fold (request_fence rid) es (Some None)))"
  shows "fences_inv (repo', es @ es')"
  using assms by (auto simp: fences_inv_def)

lemma fences_set_outbox:
  assumes "fences_inv (repo, es)" "ob_id x = oid" "ir_outbox repo' = dict_set oid x (ir_outbox repo)"
    and "ir_requests repo' = ir_requests repo" and "\<And>rid s. fold (request_fence rid) es' s = s"
    and "\<And>k s. k \<noteq> oid \<Longrightarrow> fold (outbox_fence k) es' s = s"
    and "outbox_agrees (Some x) (fold (outbox_fence oid) es' (fold (outbox_fence oid) es (Some (0, Waits))))"
  shows "fences_inv (repo', es @ es')"
  using assms by (auto simp: fences_inv_def)

lemma fence_single_other:
  "k \<noteq> rid \<Longrightarrow> request_fence k (RequestClaimed rid t) s = s" "k \<noteq> rid \<Longrightarrow> request_fence k (RequestFinished rid t) s = s"
  "request_fence k (OutboxDelivered x t) s = s" "request_fence k (OutboxFailed x t) s = s"
  "outbox_fence k' (RequestClaimed rid t) s' = s'" "outbox_fence k' (RequestFinished rid t) s' = s'"
  "k' \<noteq> x \<Longrightarrow> outbox_fence k' (OutboxDelivered x t) s' = s'" "k' \<noteq> x \<Longrightarrow> outbox_fence k' (OutboxFailed x t) s' = s'"
  by (cases s; cases s'; auto)+

lemma fences_claim_request:
  assumes inv: "fences_inv (repo, es)"
  shows "fences_inv (improvement_trace (ImpClaim rid worker now token) (repo, es))"
proof (cases "\<exists>r. dict_get (ir_requests repo) rid = Some r \<and> rq_status r = ''PENDING''")
  case True
  then obtain r where r: "dict_get (ir_requests repo) rid = Some r" "rq_status r = ''PENDING''" by blast
  from inv have "rq_id r = rid" using keyed_get [of rq_id] r(1) by (auto simp: fences_inv_def)
  moreover from inv have "request_agrees (Some r) (fold (request_fence rid) es (Some None))"
    using r(1) unfolding fences_inv_def by (metis fst_conv snd_conv)
  then have "fold (request_fence rid) es (Some None) = Some None"
    using r(2) by (cases "rq_claim_token r") (auto simp: request_agrees_def)
  ultimately show ?thesis
    unfolding improvement_trace_def
    by (simp add: claim_improvement_request_def r Let_def, intro fences_set_request [OF inv, of "claim_request_as token worker now r" rid])
      (simp_all add: claim_request_as_def fence_single_other request_agrees_def)
next
  case False
  then have "claim_improvement_request rid worker now token repo = (None, repo)"
    by (auto simp: claim_improvement_request_def split: option.splits)
  with inv show ?thesis by (simp add: improvement_trace_def)
qed

lemma fences_finish:
  assumes inv: "fences_inv (repo, es)"
  shows "fences_inv (improvement_trace (ImpFinish rid token outc now) (repo, es))"
proof (cases "\<exists>r. dict_get (ir_requests repo) rid = Some r \<and> rq_claim_token r = Some token")
  case True
  then obtain r where r: "dict_get (ir_requests repo) rid = Some r" "rq_claim_token r = Some token" by blast
  from inv have "rq_id r = rid" using keyed_get [of rq_id] r(1) by (auto simp: fences_inv_def)
  moreover from inv have "request_agrees (Some r) (fold (request_fence rid) es (Some None))"
    using r(1) unfolding fences_inv_def by (metis fst_conv snd_conv)
  then have "fold (request_fence rid) es (Some None) = Some (Some token)"
    using r(2) by (auto simp: request_agrees_def)
  ultimately show ?thesis
    unfolding improvement_trace_def
    by (simp add: finish_improvement_request_def r, intro fences_set_request [OF inv, of "r\<lparr>rq_status := io_status outc,
        rq_reason_code := io_reason_code outc, rq_claim_token := None, rq_updated_at := now\<rparr>" rid])
      (simp_all add: fence_single_other request_agrees_def)
next
  case False
  then have "finish_improvement_request rid token outc now repo = (False, repo)"
    by (auto simp: finish_improvement_request_def split: option.splits)
  with inv show ?thesis by (simp add: improvement_trace_def)
qed

lemma outbox_held:
  assumes inv: "fences_inv (repo, es)" and x: "dict_get (ir_outbox repo) oid = Some x" "ob_claim_token x = Some token"
  obtains n where "ob_id x = oid" "int n = ob_attempt_count x" "n \<le> 5"
    "fold (outbox_fence oid) es (Some (0, Waits)) = Some (n, Held token)"
proof -
  from inv have "ob_id x = oid" using keyed_get [of ob_id] x(1) by (auto simp: fences_inv_def)
  moreover from inv have "outbox_agrees (Some x) (fold (outbox_fence oid) es (Some (0, Waits)))"
    using x(1) unfolding fences_inv_def by (metis fst_conv snd_conv)
  ultimately show ?thesis using x(2) that by (auto simp: outbox_agrees_def)
qed

lemma fences_delivered:
  assumes inv: "fences_inv (repo, es)"
  shows "fences_inv (improvement_trace (ImpDelivered oid token t) (repo, es))"
proof (cases "\<exists>x. dict_get (ir_outbox repo) oid = Some x \<and> ob_claim_token x = Some token")
  case True
  then obtain x where x: "dict_get (ir_outbox repo) oid = Some x" "ob_claim_token x = Some token" by blast
  from outbox_held [OF inv x] obtain n where "ob_id x = oid" "int n = ob_attempt_count x" "n \<le> 5"
    "fold (outbox_fence oid) es (Some (0, Waits)) = Some (n, Held token)" .
  then show ?thesis
    unfolding improvement_trace_def
    by (simp add: mark_outbox_delivered_def x, intro fences_set_outbox [OF inv, of "x\<lparr>ob_state := ''DELIVERED'',
        ob_delivered_at := Some t, ob_claim_token := None\<rparr>" oid])
      (simp_all add: fence_single_other outbox_agrees_def)
next
  case False
  then have "mark_outbox_delivered oid token t repo = (False, repo)"
    by (auto simp: mark_outbox_delivered_def split: option.splits)
  with inv show ?thesis by (simp add: improvement_trace_def)
qed

lemma fences_failed:
  assumes inv: "fences_inv (repo, es)"
  shows "fences_inv (improvement_trace (ImpFailed oid token) (repo, es))"
proof (cases "\<exists>x. dict_get (ir_outbox repo) oid = Some x \<and> ob_claim_token x = Some token")
  case True
  then obtain x where x: "dict_get (ir_outbox repo) oid = Some x" "ob_claim_token x = Some token" by blast
  from outbox_held [OF inv x] obtain n where n: "ob_id x = oid" "int n = ob_attempt_count x" "n \<le> 5"
    "fold (outbox_fence oid) es (Some (0, Waits)) = Some (n, Held token)" .
  from n(2) have "5 \<le> ob_attempt_count x \<longleftrightarrow> 5 \<le> n" by linarith
  with n show ?thesis
    unfolding improvement_trace_def
    by (simp add: mark_outbox_failed_def x split del: if_split, intro fences_set_outbox [OF inv, of "x\<lparr>ob_claim_token := None,
        ob_state := (if 5 \<le> n then ''FAILED_REQUIRES_ATTENTION'' else ''RETRY'')\<rparr>" oid])
      (simp_all add: fence_single_other outbox_agrees_def)
next
  case False
  then have "mark_outbox_failed oid token repo = (False, repo)"
    by (auto simp: mark_outbox_failed_def split: option.splits)
  with inv show ?thesis by (simp add: improvement_trace_def)
qed


subsection \<open>The queue invariant\<close>

definition live_unique :: "improvement_repo \<Rightarrow> bool" where
  "live_unique repo \<longleftrightarrow>
     (\<forall>k k' r r'. dict_get (ir_requests repo) k = Some r \<longrightarrow> dict_get (ir_requests repo) k' = Some r' \<longrightarrow>
        live_request r \<longrightarrow> live_request r' \<longrightarrow> request_identity r = request_identity r' \<longrightarrow> k = k')"

text \<open>An outbox item is justified by the request it carries, and the request by a degrading aggregate.\<close>

definition outbox_justified :: "improvement_repo \<Rightarrow> improvement_outbox \<Rightarrow> bool" where
  "outbox_justified repo x \<longleftrightarrow>
     (\<exists>r a. dict_get (ir_requests repo) (ob_request_id x) = Some r \<and> ob_workspace_id x = rq_workspace_id r \<and>
        a \<in> set (ir_aggregates repo) \<and> fa_health a = DEGRADING \<and> aggregate_identity a = request_identity r \<and>
        fa_revision a = rq_revision r)"

definition queue_inv :: "improvement_repo \<Rightarrow> bool" where
  "queue_inv repo \<longleftrightarrow> live_unique repo \<and> unique_by ob_request_id (ir_outbox repo) \<and>
     (\<forall>oid x. dict_get (ir_outbox repo) oid = Some x \<longrightarrow> outbox_justified repo x)"

text \<open>The other operations keep what identifies a request and an outbox item, and make no request live.\<close>

definition requests_kept :: "improvement_repo \<Rightarrow> improvement_repo \<Rightarrow> bool" where
  "requests_kept repo repo' \<longleftrightarrow>
     (\<forall>k. rel_option (\<lambda>r r'. request_identity r' = request_identity r \<and> rq_revision r' = rq_revision r \<and>
                         (live_request r' \<longrightarrow> live_request r))
            (dict_get (ir_requests repo) k) (dict_get (ir_requests repo') k)) \<and>
     (\<forall>k. rel_option (\<lambda>x x'. ob_request_id x' = ob_request_id x \<and> ob_workspace_id x' = ob_workspace_id x)
            (dict_get (ir_outbox repo) k) (dict_get (ir_outbox repo') k)) \<and>
     ir_aggregates repo' = ir_aggregates repo"

lemma rel_option_refl': "(\<And>x. R x x) \<Longrightarrow> rel_option R z z"
  by (cases z) simp_all

lemma requests_kept_refl: "requests_kept repo repo"
  by (simp add: requests_kept_def rel_option_refl')

lemma kept_request_back:
  "requests_kept repo repo' \<Longrightarrow> dict_get (ir_requests repo') k = Some r' \<Longrightarrow>
     \<exists>r. dict_get (ir_requests repo) k = Some r \<and> request_identity r' = request_identity r \<and>
         rq_revision r' = rq_revision r \<and> (live_request r' \<longrightarrow> live_request r)"
  unfolding requests_kept_def by (drule conjunct1, drule spec [of _ k]) (auto simp: option_rel_Some2)

lemma kept_request:
  "requests_kept repo repo' \<Longrightarrow> dict_get (ir_requests repo) k = Some r \<Longrightarrow>
     \<exists>r'. dict_get (ir_requests repo') k = Some r' \<and> request_identity r' = request_identity r \<and> rq_revision r' = rq_revision r"
  unfolding requests_kept_def by (drule conjunct1, drule spec [of _ k]) (auto simp: option_rel_Some1)

lemma kept_outbox_back:
  "requests_kept repo repo' \<Longrightarrow> dict_get (ir_outbox repo') k = Some x' \<Longrightarrow>
     \<exists>x. dict_get (ir_outbox repo) k = Some x \<and> ob_request_id x' = ob_request_id x \<and> ob_workspace_id x' = ob_workspace_id x"
  unfolding requests_kept_def by (drule conjunct2, drule conjunct1, drule spec [of _ k]) (auto simp: option_rel_Some2)

lemma identity_workspace: "request_identity r = request_identity r' \<Longrightarrow> rq_workspace_id r = rq_workspace_id r'"
  by (simp add: request_identity_def)

lemma queue_inv_kept:
  assumes inv: "queue_inv repo" and kept: "requests_kept repo repo'"
  shows "queue_inv repo'"
  unfolding queue_inv_def
proof (intro conjI allI impI)
  show "live_unique repo'"
    unfolding live_unique_def
  proof (intro allI impI)
    fix k k' r r'
    assume r: "dict_get (ir_requests repo') k = Some r" "dict_get (ir_requests repo') k' = Some r'"
      and live: "live_request r" "live_request r'" "request_identity r = request_identity r'"
    from kept_request_back [OF kept r(1)] live obtain q where q: "dict_get (ir_requests repo) k = Some q"
        "live_request q" "request_identity q = request_identity r" by auto
    from kept_request_back [OF kept r(2)] live obtain q' where q': "dict_get (ir_requests repo) k' = Some q'"
        "live_request q'" "request_identity q' = request_identity r'" by auto
    from inv have "live_unique repo" by (simp add: queue_inv_def)
    with q q' live(3) show "k = k'" unfolding live_unique_def by metis
  qed
  show "unique_by ob_request_id (ir_outbox repo')"
    unfolding unique_by_def
  proof (intro allI impI)
    fix k k' x x'
    assume x: "dict_get (ir_outbox repo') k = Some x" "dict_get (ir_outbox repo') k' = Some x'" "ob_request_id x = ob_request_id x'"
    from kept_outbox_back [OF kept x(1)] obtain y where y: "dict_get (ir_outbox repo) k = Some y"
        "ob_request_id x = ob_request_id y" by blast
    from kept_outbox_back [OF kept x(2)] obtain y' where y': "dict_get (ir_outbox repo) k' = Some y'"
        "ob_request_id x' = ob_request_id y'" by blast
    from inv have "unique_by ob_request_id (ir_outbox repo)" by (simp add: queue_inv_def)
    from unique_byD [OF this y(1) y'(1)] y(2) y'(2) x(3) show "k = k'" by simp
  qed
  fix oid x
  assume "dict_get (ir_outbox repo') oid = Some x"
  from kept_outbox_back [OF kept this] obtain y where y: "dict_get (ir_outbox repo) oid = Some y"
    "ob_request_id x = ob_request_id y" "ob_workspace_id x = ob_workspace_id y" by blast
  with inv obtain r a where r: "dict_get (ir_requests repo) (ob_request_id y) = Some r" "ob_workspace_id y = rq_workspace_id r"
     "a \<in> set (ir_aggregates repo)" "fa_health a = DEGRADING" "aggregate_identity a = request_identity r"
     "fa_revision a = rq_revision r"
    unfolding queue_inv_def outbox_justified_def by blast
  from kept_request [OF kept r(1)] obtain r' where r': "dict_get (ir_requests repo') (ob_request_id y) = Some r'"
    "request_identity r' = request_identity r" "rq_revision r' = rq_revision r" by blast
  have "ir_aggregates repo' = ir_aggregates repo" using kept by (simp add: requests_kept_def)
  with y r r' identity_workspace [OF r'(2)] show "outbox_justified repo' x"
    unfolding outbox_justified_def by auto
qed

lemma kept_claims:
  assumes "fences_inv (repo, es)"
  shows "requests_kept repo (improvement_step (ImpClaimMany worker limit now tok) repo)"
    and "requests_kept repo (improvement_step (ImpOutboxClaim worker limit now tok) repo)"
proof -
  let ?upd = "\<lambda>t. claim_request_as t worker now"
  obtain cs d where loop: "claim_loop (\<lambda>r. rq_status r = ''PENDING'') ?upd limit tok 0 (ir_requests repo) = (cs, d)"
    by fastforce
  from assms have k: "keyed rq_id (ir_requests repo)" by (simp add: fences_inv_def)
  note spec = claim_loop_spec [OF k _ loop, simplified claim_request_as_def, simplified]
  have "rel_option (\<lambda>r r'. request_identity r' = request_identity r \<and> rq_revision r' = rq_revision r \<and>
           (live_request r' \<longrightarrow> live_request r)) (dict_get (ir_requests repo) rid) (dict_get d rid)" for rid
  proof (cases "List.find (\<lambda>x. rq_id (fst x) = rid) cs")
    case None
    with spec show ?thesis by (simp add: rel_option_refl')
  next
    case (Some x)
    then have "x \<in> set cs" "rq_id (fst x) = rid" by (auto dest: find_Some_iff_mem)
    with spec obtain v0 where "dict_get (ir_requests repo) rid = Some v0" "rq_status v0 = ''PENDING''"
        "fst x = claim_request_as (snd x) worker now v0"
      unfolding claim_request_as_def by blast
    with Some spec show ?thesis by (simp add: claim_request_as_def request_identity_def live_request_def)
  qed
  then show "requests_kept repo (improvement_step (ImpClaimMany worker limit now tok) repo)"
    by (simp add: claim_improvement_requests_def loop requests_kept_def rel_option_refl')
next
  let ?due = "\<lambda>x. (ob_state x = ''PENDING'' \<or> ob_state x = ''RETRY'') \<and> ob_next_attempt_at x \<le> now"
  obtain cs d where loop: "claim_loop ?due (\<lambda>t. claim_outbox_as t worker) limit tok 0 (ir_outbox repo) = (cs, d)"
    by fastforce
  from assms have k: "keyed ob_id (ir_outbox repo)" by (simp add: fences_inv_def)
  note spec = claim_loop_spec [OF k _ loop, simplified claim_outbox_as_def, simplified]
  have "rel_option (\<lambda>x x'. ob_request_id x' = ob_request_id x \<and> ob_workspace_id x' = ob_workspace_id x)
           (dict_get (ir_outbox repo) oid) (dict_get d oid)" for oid
  proof (cases "List.find (\<lambda>x. ob_id (fst x) = oid) cs")
    case None
    with spec show ?thesis by (simp add: rel_option_refl')
  next
    case (Some x)
    then have "x \<in> set cs" "ob_id (fst x) = oid" by (auto dest: find_Some_iff_mem)
    with spec obtain v0 where "dict_get (ir_outbox repo) oid = Some v0" "fst x = claim_outbox_as (snd x) worker v0"
      unfolding claim_outbox_as_def by blast
    with Some spec show ?thesis by (simp add: claim_outbox_as_def)
  qed
  then show "requests_kept repo (improvement_step (ImpOutboxClaim worker limit now tok) repo)"
    by (simp add: claim_improvement_outbox_def loop requests_kept_def rel_option_refl')
qed

lemma kept_set_request:
  assumes "dict_get (ir_requests repo) rid = Some r" "request_identity r' = request_identity r" "rq_revision r' = rq_revision r"
    "live_request r' \<longrightarrow> live_request r"
  shows "requests_kept repo (repo\<lparr>ir_requests := dict_set rid r' (ir_requests repo)\<rparr>)"
  using assms by (auto simp: requests_kept_def rel_option_refl')

lemma kept_set_outbox:
  assumes "dict_get (ir_outbox repo) oid = Some x" "ob_request_id x' = ob_request_id x" "ob_workspace_id x' = ob_workspace_id x"
  shows "requests_kept repo (repo\<lparr>ir_outbox := dict_set oid x' (ir_outbox repo)\<rparr>)"
  using assms by (auto simp: requests_kept_def rel_option_refl')

lemma kept_single:
  assumes "fences_inv (repo, es)"
  shows "requests_kept repo (improvement_step (ImpClaim rid worker now token) repo)"
    and "requests_kept repo (improvement_step (ImpFinish rid token outc now) repo)"
    and "requests_kept repo (improvement_step (ImpDelivered oid token t) repo)"
    and "requests_kept repo (improvement_step (ImpFailed oid token) repo)"
proof -
  show "requests_kept repo (improvement_step (ImpClaim rid worker now token) repo)"
    by (auto simp: claim_improvement_request_def Let_def requests_kept_refl claim_request_as_def request_identity_def
        live_request_def split: option.splits intro!: kept_set_request)
  show "requests_kept repo (improvement_step (ImpDelivered oid token t) repo)"
    by (auto simp: mark_outbox_delivered_def requests_kept_refl split: option.splits intro!: kept_set_outbox)
  show "requests_kept repo (improvement_step (ImpFailed oid token) repo)"
    by (auto simp: mark_outbox_failed_def requests_kept_refl split: option.splits intro!: kept_set_outbox)
  show "requests_kept repo (improvement_step (ImpFinish rid token outc now) repo)"
  proof (cases "\<exists>r. dict_get (ir_requests repo) rid = Some r \<and> rq_claim_token r = Some token")
    case True
    then obtain r where r: "dict_get (ir_requests repo) rid = Some r" "rq_claim_token r = Some token" by blast
    from assms have "request_agrees (Some r) (fold (request_fence rid) es (Some None))"
      using r(1) unfolding fences_inv_def by (metis fst_conv snd_conv)
    with r(2) have "live_request r" by (simp add: request_agrees_def live_request_def)
    with r show ?thesis
      by (auto simp: finish_improvement_request_def request_identity_def intro!: kept_set_request)
  next
    case False
    then have "finish_improvement_request rid token outc now repo = (False, repo)"
      by (auto simp: finish_improvement_request_def split: option.splits)
    then show ?thesis by (simp add: requests_kept_refl)
  qed
qed

lemma no_live_request:
  assumes "live_request_of ident repo = None" "dict_get (ir_requests repo) k = Some r" "request_identity r = ident"
  shows "\<not> live_request r"
  using assms dict_get_values [OF assms(2)] unfolding live_request_of_def find_None_all by blast

lemma live_unique_new:
  assumes "live_unique repo" "dict_get (ir_requests repo) rid = None"
    and "live_request r \<longrightarrow> live_request_of (request_identity r) repo = None"
    and "ir_requests repo' = dict_set rid r (ir_requests repo)"
  shows "live_unique repo'"
  unfolding live_unique_def assms(4)
proof (intro allI impI)
  fix k k' q q'
  assume q: "dict_get (dict_set rid r (ir_requests repo)) k = Some q" "dict_get (dict_set rid r (ir_requests repo)) k' = Some q'"
    and live: "live_request q" "live_request q'" "request_identity q = request_identity q'"
  show "k = k'"
  proof (cases "k = rid \<or> k' = rid")
    case True
    show ?thesis
    proof (rule ccontr)
      assume ne: "k \<noteq> k'"
      from True show False
      proof
      assume "k = rid"
      with q ne have "q = r" and k': "dict_get (ir_requests repo) k' = Some q'" by simp_all
      with live assms(3) have "live_request_of (request_identity r) repo = None" "request_identity q' = request_identity r" by simp_all
      from no_live_request [OF this(1) k' this(2)] live(2) show False by simp
    next
      assume "k' = rid"
      with q ne have "q' = r" and k: "dict_get (ir_requests repo) k = Some q" by simp_all
      with live assms(3) have "live_request_of (request_identity r) repo = None" "request_identity q = request_identity r" by simp_all
      from no_live_request [OF this(1) k this(2)] live(1) show False by simp
      qed
    qed
  next
    case False
    with q live assms(1) show ?thesis by (auto simp: live_unique_def)
  qed
qed

lemma outbox_justified_more:
  assumes "outbox_justified repo x" "\<And>r. dict_get (ir_requests repo) (ob_request_id x) = Some r \<Longrightarrow>
      dict_get (ir_requests repo') (ob_request_id x) = Some r"
    "set (ir_aggregates repo) \<subseteq> set (ir_aggregates repo')"
  shows "outbox_justified repo' x"
  using assms unfolding outbox_justified_def by blast

lemma queue_inv_more:
  assumes "queue_inv repo" "ir_requests repo' = ir_requests repo" "ir_outbox repo' = ir_outbox repo"
    "set (ir_aggregates repo) \<subseteq> set (ir_aggregates repo')"
  shows "queue_inv repo'"
  using assms outbox_justified_more [of repo _ repo'] by (auto simp: queue_inv_def live_unique_def)

lemma queue_inv_create:
  assumes inv: "queue_inv repo" and new: "dict_get (ir_requests repo) (rq_id r) = None"
    and live: "live_request r \<longrightarrow> live_request_of (request_identity r) repo = None"
  shows "queue_inv (create_improvement_request r repo)"
proof -
  let ?repo = "create_improvement_request r repo"
  from inv have "live_unique repo" by (simp add: queue_inv_def)
  from live_unique_new [OF this new live, of ?repo] have "live_unique ?repo" by (simp add: create_improvement_request_def)
  moreover have "outbox_justified ?repo x" if "dict_get (ir_outbox repo) oid = Some x" for oid x
  proof (rule outbox_justified_more)
    show "outbox_justified repo x" using inv that by (simp add: queue_inv_def)
    show "dict_get (ir_requests ?repo) (ob_request_id x) = Some q" if "dict_get (ir_requests repo) (ob_request_id x) = Some q" for q
      using that new by (auto simp: create_improvement_request_def)
  qed (simp add: create_improvement_request_def)
  ultimately show ?thesis using inv by (simp add: queue_inv_def) (simp add: create_improvement_request_def)
qed

lemma queue_inv_new:
  assumes inv: "queue_inv repo" and new: "dict_get (ir_requests repo) rid = None" "dict_get (ir_outbox repo) oid = None"
    and req: "new_request a rid oid r x" "live_request_of (aggregate_identity a) repo = None"
    and repo': "ir_requests repo' = dict_set rid r (ir_requests repo)" "ir_outbox repo' = dict_set oid x (ir_outbox repo)"
      "ir_aggregates repo' = ir_aggregates repo @ [a]"
  shows "queue_inv repo'"
  unfolding queue_inv_def
proof (intro conjI allI impI)
  from inv have "live_unique repo" by (simp add: queue_inv_def)
  from live_unique_new [OF this new(1) _ repo'(1)] req show "live_unique repo'" by (simp add: new_request_def)
  have just: "outbox_justified repo y" if "dict_get (ir_outbox repo) k = Some y" for k y
    using inv that by (simp add: queue_inv_def)
  have other: "ob_request_id y \<noteq> rid" if "dict_get (ir_outbox repo) k = Some y" for k y
    using just [OF that] new(1) by (auto simp: outbox_justified_def)
  have "unique_by ob_request_id (ir_outbox repo)" using inv by (simp add: queue_inv_def)
  then show "unique_by ob_request_id (ir_outbox repo')"
    unfolding repo' using req(1) other by (intro unique_by_set_new) (auto simp: new_request_def)
  fix k y
  assume y: "dict_get (ir_outbox repo') k = Some y"
  show "outbox_justified repo' y"
  proof (cases "k = oid")
    case True
    with y have "y = x" by (simp add: repo')
    with req(1) show ?thesis by (auto simp: outbox_justified_def new_request_def repo')
  next
    case False
    with y have old: "dict_get (ir_outbox repo) k = Some y" by (simp add: repo')
    from just [OF old] show ?thesis by (rule outbox_justified_more) (use other [OF old] in \<open>auto simp: repo'\<close>)
  qed
qed

lemma fences_new_request:
  assumes inv: "fences_inv (repo, es)" and new: "dict_get (ir_requests repo) rid = None" "dict_get (ir_outbox repo) oid = None"
    and req: "new_request a rid oid r x"
    and repo': "ir_requests repo' = dict_set rid r (ir_requests repo)" "ir_outbox repo' = dict_set oid x (ir_outbox repo)"
  shows "fences_inv (repo', es)"
proof -
  have "request_agrees None (fold (request_fence rid) es (Some None))" "outbox_agrees None (fold (outbox_fence oid) es (Some (0, Waits)))"
    using inv new unfolding fences_inv_def by (metis fst_conv snd_conv)+
  then have "fold (request_fence rid) es (Some None) = Some None" "fold (outbox_fence oid) es (Some (0, Waits)) = Some (0, Waits)"
    by (simp_all add: request_agrees_def outbox_agrees_def)
  with inv req show ?thesis
    by (auto simp: fences_inv_def repo' new_request_def request_agrees_def outbox_agrees_def)
qed

lemma fences_create:
  assumes inv: "fences_inv (repo, es)" and new: "dict_get (ir_requests repo) (rq_id r) = None" "rq_claim_token r = None"
  shows "fences_inv (create_improvement_request r repo, es)"
proof -
  have "request_agrees None (fold (request_fence (rq_id r)) es (Some None))"
    using inv new unfolding fences_inv_def by (metis fst_conv snd_conv)
  then have "fold (request_fence (rq_id r)) es (Some None) = Some None" by (simp add: request_agrees_def)
  with inv new show ?thesis
    by (auto simp: fences_inv_def create_improvement_request_def request_agrees_def)
qed

definition improvement_inv :: "improvement_world \<Rightarrow> bool" where
  "improvement_inv w \<longleftrightarrow> fences_inv w \<and> queue_inv (fst w)"

lemma improvement_inv_feedback:
  assumes inv: "improvement_inv (repo, es)" and g: "improvement_guard (ImpFeedback fl f pol rid oid now now') (repo, es)"
  shows "improvement_inv (improvement_trace (ImpFeedback fl f pol rid oid now now') (repo, es))"
proof -
  define repo' where "repo' = snd (record_feedback_and_maybe_enqueue fl f pol rid oid now now' repo)"
  from inv have i: "fences_inv (repo, es)" "queue_inv repo" by (simp_all add: improvement_inv_def)
  from g have new: "dict_get (ir_requests repo) rid = None" "dict_get (ir_outbox repo) oid = None" by simp_all
  have "fences_inv (repo', es) \<and> queue_inv repo'"
    using feedback_effect [OF repo'_def]
  proof (elim disjE exE conjE)
    fix stored a repo1 r x
    assume repo1: "repo1 = store_feedback stored repo"
      and eq: "repo' = repo1\<lparr>ir_aggregates := ir_aggregates repo @ [a], ir_requests := dict_set rid r (ir_requests repo),
                    ir_outbox := dict_set oid x (ir_outbox repo)\<rparr>"
      and req: "new_request a rid oid r x" "live_request_of (aggregate_identity a) repo = None"
    from fences_new_request [OF i(1) new req(1), of repo'] queue_inv_new [OF i(2) new req, of repo'] show ?thesis
      by (simp add: eq)
  qed (use i fences_keep [OF i(1), of repo'] queue_inv_more [OF i(2), of repo'] in auto)
  then show ?thesis by (simp add: improvement_inv_def improvement_trace_def repo'_def [symmetric])
qed

lemma improvement_inv_quiet:
  assumes "improvement_inv (repo, es)" "ir_requests repo' = ir_requests repo" "ir_outbox repo' = ir_outbox repo"
    "ir_aggregates repo' = ir_aggregates repo"
  shows "improvement_inv (repo', es)"
  using assms fences_keep [of repo es repo'] queue_inv_more [of repo repo'] by (simp add: improvement_inv_def)

lemma improvement_inv_kept:
  assumes "improvement_inv (repo, es)" "fences_inv (improvement_trace op (repo, es))" "requests_kept repo (improvement_step op repo)"
  shows "improvement_inv (improvement_trace op (repo, es))"
  using assms queue_inv_kept [OF _ assms(3)] by (simp add: improvement_inv_def improvement_trace_def)

lemma improvement_inv_step:
  assumes "improvement_inv w" "improvement_guard op w"
  shows "improvement_inv (improvement_trace op w)"
proof -
  obtain repo es where w: "w = (repo, es)" by (cases w)
  with assms have inv: "improvement_inv (repo, es)" and g: "improvement_guard op (repo, es)" by simp_all
  then have i: "fences_inv (repo, es)" "queue_inv repo" by (simp_all add: improvement_inv_def)
  show ?thesis
    unfolding w
  proof (cases op)
    case (ImpUse x)
    then show "improvement_inv (improvement_trace op (repo, es))"
      using improvement_inv_quiet [OF inv]
      by (simp add: improvement_trace_def record_resolved_skill_use_def Let_def)
  next
    case (ImpFeedback fl f pol rid oid now now')
    with improvement_inv_feedback [OF inv] g show "improvement_inv (improvement_trace op (repo, es))" by simp
  next
    case (ImpClaimMany worker limit now tok)
    with improvement_inv_kept [OF inv fences_request_claims [OF i(1)] kept_claims(1) [OF i(1)]]
    show "improvement_inv (improvement_trace op (repo, es))" by simp
  next
    case (ImpClaim rid worker now token)
    with improvement_inv_kept [OF inv fences_claim_request [OF i(1)] kept_single(1) [OF i(1)]]
    show "improvement_inv (improvement_trace op (repo, es))" by simp
  next
    case (ImpFinish rid token outc now)
    with improvement_inv_kept [OF inv fences_finish [OF i(1)] kept_single(2) [OF i(1)]]
    show "improvement_inv (improvement_trace op (repo, es))" by simp
  next
    case (ImpOutboxClaim worker limit now tok)
    with improvement_inv_kept [OF inv fences_outbox_claims [OF i(1)] kept_claims(2) [OF i(1)]]
    show "improvement_inv (improvement_trace op (repo, es))" by simp
  next
    case (ImpDelivered oid token t)
    with improvement_inv_kept [OF inv fences_delivered [OF i(1)] kept_single(3) [OF i(1)]]
    show "improvement_inv (improvement_trace op (repo, es))" by simp
  next
    case (ImpFailed oid token)
    with improvement_inv_kept [OF inv fences_failed [OF i(1)] kept_single(4) [OF i(1)]]
    show "improvement_inv (improvement_trace op (repo, es))" by simp
  next
    case (ImpCreate r)
    with g fences_create [OF i(1), of r] queue_inv_create [OF i(2), of r] show "improvement_inv (improvement_trace op (repo, es))"
      by (simp add: improvement_inv_def improvement_trace_def)
  next
    case (ImpEvaluation e)
    then show "improvement_inv (improvement_trace op (repo, es))"
      using improvement_inv_quiet [OF inv] by (simp add: improvement_trace_def record_evaluation_def)
  next
    case (ImpMutation m)
    then show "improvement_inv (improvement_trace op (repo, es))"
      using improvement_inv_quiet [OF inv] by (simp add: improvement_trace_def record_mutation_def)
  qed
qed

interpretation improvements: state_machine improvement_trace improvement_guard improvement_inv
  by unfold_locales (rule improvement_inv_step)

lemma improvement_start: "improvement_inv (empty_improvements, [])"
  by (simp add: improvement_inv_def fences_inv_def queue_inv_def live_unique_def empty_improvements_def request_agrees_def
      outbox_agrees_def)

text \<open>Claims are fenced. Along every interleaving of feedback, claims, completions and failures of
  any number of workers: a request is held by one claim at a time, and only the token of that claim
  finishes it, once; an outbox item is claimed only while it waits, at most five times, is settled only
  with the token of its last claim, and is never claimed again once delivered. The fences follow the
  events in order and end in what the records say.\<close>

theorem improvement_claims_fenced:
  assumes "admissible improvement_guard improvement_trace ops (empty_improvements, [])"
  shows "let (repo, es) = fold improvement_trace ops (empty_improvements, []) in
    fold (request_fence rid) es (Some None) =
      Some (case dict_get (ir_requests repo) rid of None \<Rightarrow> None | Some r \<Rightarrow> rq_claim_token r) \<and>
    (\<exists>n \<le> 5. fold (outbox_fence oid) es (Some (0, Waits)) =
      Some (case dict_get (ir_outbox repo) oid of
              None \<Rightarrow> (0, Waits)
            | Some x \<Rightarrow> (n, case ob_claim_token x of Some t \<Rightarrow> Held t
                               | None \<Rightarrow> if ob_state x = ''DELIVERED'' then Delivered else Waits)))"
proof -
  obtain repo es where run: "fold improvement_trace ops (empty_improvements, []) = (repo, es)"
    by (cases "fold improvement_trace ops (empty_improvements, [])")
  from improvements.run_inv [OF improvement_start assms] have "fences_inv (repo, es)"
    by (simp add: run improvement_inv_def)
  then have "request_agrees (dict_get (ir_requests repo) rid) (fold (request_fence rid) es (Some None))"
    "outbox_agrees (dict_get (ir_outbox repo) oid) (fold (outbox_fence oid) es (Some (0, Waits)))"
    by (simp_all add: fences_inv_def)
  then show ?thesis
    by (auto simp: run request_agrees_def outbox_agrees_def split: option.splits)
qed

text \<open>The queue is sound. In every reachable repository at most one live request, pending or
  running, exists per workspace and skill identity, and the outbox carries each request at most once:
  each outbox item names a request of its own workspace, which a feedback aggregate of exactly that
  identity and revision, found degrading, asked for.\<close>

theorem improvement_queue_sound:
  assumes "admissible improvement_guard improvement_trace ops (empty_improvements, [])"
  shows "let repo = fst (fold improvement_trace ops (empty_improvements, [])) in
    (\<forall>k k' r r'. dict_get (ir_requests repo) k = Some r \<longrightarrow> dict_get (ir_requests repo) k' = Some r' \<longrightarrow>
        live_request r \<longrightarrow> live_request r' \<longrightarrow> request_identity r = request_identity r' \<longrightarrow> k = k') \<and>
    unique_by ob_request_id (ir_outbox repo) \<and>
    (\<forall>oid x. dict_get (ir_outbox repo) oid = Some x \<longrightarrow>
      (\<exists>r a. dict_get (ir_requests repo) (ob_request_id x) = Some r \<and> ob_workspace_id x = rq_workspace_id r \<and>
         a \<in> set (ir_aggregates repo) \<and> fa_health a = DEGRADING \<and> aggregate_identity a = request_identity r \<and>
         fa_revision a = rq_revision r))"
  using improvements.run_inv [OF improvement_start assms]
  by (simp add: improvement_inv_def queue_inv_def live_unique_def outbox_justified_def)


text \<open>A concrete history: exact arithmetic, two ratings of which the second degrades the mean, the outbox
  item delivered, the request claimed and finished.\<close>

definition exact_floats :: float_ops where
  "exact_floats = \<lparr>fl_div = (/), fl_sub = (-), fl_sum = sum_list, fl_round3 = id\<rparr>"

definition rated :: "string \<Rightarrow> int \<Rightarrow> skill_feedback" where
  "rated fid n =
     \<lparr>sf_id = fid, sf_workspace_id = ''w'', sf_skill_id = ''s'', sf_version = Some ''1'', sf_hash = Some ''h'', sf_run_id = None,
      sf_idempotency_key = Some fid, sf_source_kind = ''user'', sf_success = True, sf_rating = Some n, sf_notes = None,
      sf_project_id = None, sf_manifest_hash = None, sf_created_at = 0\<rparr>"

definition candidate_policy :: improvement_policy where
  "candidate_policy =
     \<lparr>ip_mode = ''CANDIDATE'', ip_allowed = Some [(''s'', ''1'', ''h'')], ip_min_samples = 2, ip_window_size = 10,
      ip_low_score = 1 / 2, ip_min_delta = 1 / 5, ip_max_rounds = 2, ip_policy_hash = ''p''\<rparr>"

definition example_improvements :: "improvement_op list" where
  "example_improvements =
     [ImpFeedback exact_floats (rated ''f1'' 5) (Some candidate_policy) ''r1'' ''o1'' 0 0,
      ImpFeedback exact_floats (rated ''f2'' 0) (Some candidate_policy) ''r2'' ''o2'' 0 0,
      ImpOutboxClaim ''w1'' 10 5 (\<lambda>n. ''t''), ImpFailed ''o2'' ''t'', ImpOutboxClaim ''w2'' 10 5 (\<lambda>n. ''u''),
      ImpFailed ''o2'' ''t'', ImpDelivered ''o2'' ''u'' 6, ImpClaimMany ''w1'' 1 6 (\<lambda>n. ''c''),
      ImpClaim ''r2'' ''w2'' 7 ''d'', ImpFinish ''r2'' ''c'' \<lparr>io_status = ''COMPLETED'', io_reason_code = None, io_candidate_id = None\<rparr> 8]"

lemma example_improvements_ok:
  "admissible improvement_guard improvement_trace example_improvements (empty_improvements, [])"
  by code_simp
lemma example_improvements_log:
  "snd (fold improvement_trace example_improvements (empty_improvements, [])) = 
   [OutboxClaimed ''o2'' ''t'', OutboxFailed ''o2'' ''t'', OutboxClaimed ''o2'' ''u'', OutboxDelivered ''o2'' ''u'',
    RequestClaimed ''r2'' ''c'', RequestFinished ''r2'' ''c'']"
  by code_simp

lemma example_improvements_end:
  "(let repo = fst (fold improvement_trace example_improvements (empty_improvements, [])) in
    (map_option rq_claim_token (dict_get (ir_requests repo) ''r2''),
     map_option (\<lambda>x. (ob_claim_token x, ob_state x, ob_request_id x)) (dict_get (ir_outbox repo) ''o2''))) =
   (Some None, Some (None, ''DELIVERED'', ''r2''))"
  by code_simp

text \<open>An instance: a failed delivery, a late failure report with the old token, which is refused, a
  second delivery, and a second claim of the request, which finds it taken.\<close>

theorem improvement_claims_fenced_witness:
  "let (repo, es) = fold improvement_trace example_improvements (empty_improvements, []) in
    fold (request_fence ''r2'') es (Some None) = Some None \<and>
    (\<exists>n \<le> 5. fold (outbox_fence ''o2'') es (Some (0, Waits)) = Some (n, Delivered))"
proof -
  obtain repo es where run: "fold improvement_trace example_improvements (empty_improvements, []) = (repo, es)"
    by (cases "fold improvement_trace example_improvements (empty_improvements, [])")
  show ?thesis
    using improvement_claims_fenced [OF example_improvements_ok, of "''r2''" "''o2''"] example_improvements_end
    by (auto simp: run Let_def)
qed

text \<open>An instance: the outbox item of that history and the aggregate behind its request.\<close>

theorem improvement_queue_sound_witness:
  "let repo = fst (fold improvement_trace example_improvements (empty_improvements, [])) in
    (\<exists>r a. dict_get (ir_requests repo) ''r2'' = Some r \<and> a \<in> set (ir_aggregates repo) \<and> fa_health a = DEGRADING \<and>
       fa_revision a = rq_revision r)"
proof -
  obtain repo es where run: "fold improvement_trace example_improvements (empty_improvements, []) = (repo, es)"
    by (cases "fold improvement_trace example_improvements (empty_improvements, [])")
  from example_improvements_end obtain x where x: "dict_get (ir_outbox repo) ''o2'' = Some x" "ob_request_id x = ''r2''"
    by (auto simp: run Let_def)
  with improvement_queue_sound [OF example_improvements_ok, unfolded run Let_def fst_conv]
  obtain r a where "dict_get (ir_requests repo) (ob_request_id x) = Some r" "a \<in> set (ir_aggregates repo)"
      "fa_health a = DEGRADING" "fa_revision a = rq_revision r" by blast
  with x(2) show ?thesis unfolding run Let_def fst_conv by auto
qed

subsection \<open>Feedback is recorded once\<close>

definition feedback_le :: "improvement_world \<Rightarrow> improvement_world \<Rightarrow> bool" where
  "feedback_le w w' \<longleftrightarrow>
     (\<forall>k f. dict_get (ir_feedback_by_key (fst w)) k = Some f \<longrightarrow> dict_get (ir_feedback_by_key (fst w')) k = Some f)"

lemma store_feedback_keys:
  "ir_feedback_by_key (store_feedback f repo) =
     (if or_else (sf_idempotency_key f) [] = [] then ir_feedback_by_key repo
      else dict_set (sf_workspace_id f, or_else (sf_idempotency_key f) []) f (ir_feedback_by_key repo))"
  by (cases "sf_idempotency_key f") (auto simp: store_feedback_def Let_def or_else_def)

lemma feedback_le_step: "feedback_le w (improvement_trace op w)"
proof -
  obtain repo es where w: "w = (repo, es)" by (cases w)
  show ?thesis
  proof (cases op)
    case (ImpFeedback fl f pol rid oid now now')
    define repo' where "repo' = snd (record_feedback_and_maybe_enqueue fl f pol rid oid now now' repo)"
    have "dict_get (ir_feedback_by_key repo') k = Some g" if "dict_get (ir_feedback_by_key repo) k = Some g" for k g
      using feedback_effect [OF repo'_def] that by (auto simp: store_feedback_keys split: if_splits)
    then show ?thesis by (simp add: w ImpFeedback feedback_le_def improvement_trace_def repo'_def [symmetric])
  qed (auto simp: w feedback_le_def improvement_trace_def record_resolved_skill_use_def Let_def claim_improvement_requests_def
      claim_improvement_request_def finish_improvement_request_def claim_improvement_outbox_def mark_outbox_delivered_def
      mark_outbox_failed_def create_improvement_request_def record_evaluation_def record_mutation_def
      split: prod.splits option.splits)
qed

interpretation feedback: monotone_machine improvement_trace "\<lambda>_ _. True" "\<lambda>_. True" feedback_le
  by unfold_locales (auto simp: feedback_le_step, auto simp: feedback_le_def)

lemma replayed_feedback_id [simp]: "fr_feedback_id (replayed_feedback ident g repo) = sf_id g"
  by (cases ident) (simp add: replayed_feedback_def Let_def)

lemma feedback_replayed:
  assumes "sf_idempotency_key f = Some (c # cs)" "dict_get (ir_feedback_by_key repo) (sf_workspace_id f, c # cs) = Some g"
  shows "record_feedback_and_maybe_enqueue fl f pol rid oid t t' repo =
    (case resolve_feedback_identity f repo of
       Inl e \<Rightarrow> (Inl e, repo)
     | Inr x \<Rightarrow> (Inr (replayed_feedback (sf_workspace_id f, sf_skill_id f, fst x, fst (snd x)) g repo), repo))"
  using assms by (simp add: record_feedback_and_maybe_enqueue_def Let_def split: sum.splits prod.splits)

text \<open>Feedback is idempotent. Once a feedback with an idempotency key was recorded, then whatever
  happens in between, every later feedback with that key in its workspace leaves the repository as it
  is, makes no request, and, when it resolves to an identity at all, is answered with the identifier of
  the first.\<close>

theorem feedback_idempotent:
  assumes first: "record_feedback_and_maybe_enqueue fl f pol rid oid t t' repo = (Inr res, repo1)"
    and key: "sf_idempotency_key f = Some (c # cs)"
    and again: "sf_idempotency_key f' = Some (c # cs)" "sf_workspace_id f' = sf_workspace_id f"
    and later: "repo2 = fst (fold improvement_trace ops (repo1, es))"
  shows "snd (record_feedback_and_maybe_enqueue fl' f' pol' rid' oid' u u' repo2) = repo2 \<and>
         (\<forall>res'. fst (record_feedback_and_maybe_enqueue fl' f' pol' rid' oid' u u' repo2) = Inr res' \<longrightarrow>
            fr_feedback_id res' = fr_feedback_id res)"
proof -
  have "\<exists>g. dict_get (ir_feedback_by_key repo1) (sf_workspace_id f, c # cs) = Some g \<and> sf_id g = fr_feedback_id res"
  proof (cases "resolve_feedback_identity f repo")
    case (Inl e)
    with first show ?thesis by (simp add: record_feedback_and_maybe_enqueue_def Let_def)
  next
    case (Inr x)
    obtain v h project manifest where x: "x = (v, h, project, manifest)" by (cases x)
    show ?thesis
    proof (cases "dict_get (ir_feedback_by_key repo) (sf_workspace_id f, c # cs)")
      case (Some g)
      with first Inr key show ?thesis
        by (auto simp: feedback_replayed [OF key])
    next
      case None
      let ?stored = "f\<lparr>sf_version := Some v, sf_hash := Some h, sf_project_id := project, sf_manifest_hash := manifest\<rparr>"
      let ?p = "case pol of None \<Rightarrow> default_policy | Some p \<Rightarrow> p"
      let ?repo = "store_feedback ?stored repo"
      let ?a = "new_aggregate fl ?p (sf_workspace_id f, sf_skill_id f, v, h) project manifest t ?repo"
      let ?repo0 = "?repo\<lparr>ir_aggregates := ir_aggregates ?repo @ [?a]\<rparr>"
      obtain disp req repo3 where q: "queue_improvement ?p ?a rid oid t t' ?repo0 = (disp, req, repo3)"
        by (cases "queue_improvement ?p ?a rid oid t t' ?repo0")
      have "repo1 = repo3 \<and> fr_feedback_id res = sf_id f"
        using first Inr x None key q by (auto simp: record_feedback_and_maybe_enqueue_def Let_def)
      moreover have "dict_get (ir_feedback_by_key ?repo0) (sf_workspace_id f, c # cs) = Some ?stored"
        by (simp add: store_feedback_keys key)
      ultimately show ?thesis
        using queue_improvement_effect [OF q] by auto
    qed
  qed
  then obtain g where "dict_get (ir_feedback_by_key repo1) (sf_workspace_id f, c # cs) = Some g" "sf_id g = fr_feedback_id res"
    by blast
  moreover from feedback.run_le [where s = "(repo1, es)" and ops = ops] have "feedback_le (repo1, es) (fold improvement_trace ops (repo1, es))"
    by simp
  ultimately have "dict_get (ir_feedback_by_key repo2) (sf_workspace_id f', c # cs) = Some g"
    by (simp add: later feedback_le_def again)
  with \<open>sf_id g = _\<close> show ?thesis
    by (simp add: feedback_replayed [OF again(1)] split: sum.splits)
qed

text \<open>An instance: the feedback is sent again, with another rating, after another one in between.\<close>

theorem feedback_idempotent_witness:
  "let send = (\<lambda>f repo. record_feedback_and_maybe_enqueue exact_floats f (Some candidate_policy) ''r'' ''o'' 0 0 repo);
       repo1 = snd (send (rated ''f1'' 5) empty_improvements);
       repo2 = fst (fold improvement_trace [ImpFeedback exact_floats (rated ''f2'' 0) None ''r2'' ''o2'' 0 0] (repo1, []))
   in snd (send (rated ''f1'' 0) repo2) = repo2"
proof -
  let ?send = "\<lambda>f repo. record_feedback_and_maybe_enqueue exact_floats f (Some candidate_policy) ''r'' ''o'' 0 0 repo"
  have "isl (fst (?send (rated ''f1'' 5) empty_improvements)) = False" by code_simp
  then obtain res repo1 where send: "?send (rated ''f1'' 5) empty_improvements = (Inr res, repo1)"
    by (cases "?send (rated ''f1'' 5) empty_improvements"; cases "fst (?send (rated ''f1'' 5) empty_improvements)") auto
  have keys: "sf_idempotency_key (rated ''f1'' 5) = Some (CHR ''f'' # ''1'')"
      "sf_idempotency_key (rated ''f1'' 0) = Some (CHR ''f'' # ''1'')"
      "sf_workspace_id (rated ''f1'' 0) = sf_workspace_id (rated ''f1'' 5)"
    by (simp_all add: rated_def)
  show ?thesis
    unfolding Let_def send snd_conv by (rule conjunct1 [OF feedback_idempotent [OF send keys refl]])
qed

subsection \<open>Publication of a candidate\<close>

datatype candidate_op =
    SaveCandidate string skill_candidate
  | SetCandidateStatus string string string "rat option"
  | PublishCandidate string string string string

fun candidate_step :: "spec_env \<Rightarrow> candidate_op \<Rightarrow> candidate_store \<Rightarrow> candidate_store" where
  "candidate_step env (SaveCandidate ws c) st = snd (save_candidate env ws c st)"
| "candidate_step env (SetCandidateStatus ws cid status score) st = snd (update_candidate_status env ws cid status score st)"
| "candidate_step env (PublishCandidate ws cid approval expected) st =
     snd (publish_candidate_if_approved env ws cid approval expected st)"

text \<open>Nobody saves the candidate \<open>key\<close> again or sets its status by hand.\<close>

fun candidate_untouched :: "spec_env \<Rightarrow> string \<times> string \<Rightarrow> candidate_op \<Rightarrow> candidate_store \<Rightarrow> bool" where
  "candidate_untouched env key (SaveCandidate ws c) st = (key \<noteq> (ws, cd_id c))"
| "candidate_untouched env key (SetCandidateStatus ws cid status score) st =
     (case get_candidate env ws cid st of None \<Rightarrow> True | Some c \<Rightarrow> key \<noteq> (ws, cd_id c))"
| "candidate_untouched env key (PublishCandidate ws cid approval expected) st = True"

definition store_keyed :: "candidate_store \<Rightarrow> bool" where
  "store_keyed st \<longleftrightarrow> dict_ok st \<and> (\<forall>k c. dict_get st k = Some c \<longrightarrow> snd k = cd_id c)"

definition published_under :: "string \<times> string \<Rightarrow> string \<Rightarrow> string \<Rightarrow> candidate_store \<Rightarrow> bool" where
  "published_under key approval h st \<longleftrightarrow> store_keyed st \<and> h \<noteq> [] \<and>
     (\<exists>c. dict_get st key = Some c \<and> cd_status c = ''PUBLISHED'' \<and> cd_approval_id c = Some approval \<and>
          cd_promotion_hash c = Some h \<and> cd_hash c = Some h)"

lemma fill_hash_fields [simp]:
  "cd_id (fill_hash env c) = cd_id c" "cd_status (fill_hash env c) = cd_status c"
  "cd_approval_id (fill_hash env c) = cd_approval_id c" "cd_promotion_hash (fill_hash env c) = cd_promotion_hash c"
  "truthy_opt (cd_hash (fill_hash env c))"
  by (simp_all add: fill_hash_def)

lemma fill_hash_same: "cd_hash c = Some h \<Longrightarrow> h \<noteq> [] \<Longrightarrow> fill_hash env c = c"
  by (simp add: fill_hash_def)

lemma get_candidate_Some:
  assumes "store_keyed st" "get_candidate env ws cid st = Some c"
  obtains c0 where "dict_get st (ws, cd_id c) = Some c0" "c = fill_hash env c0"
proof (cases "dict_get st (ws, cid)")
  case (Some c0)
  with assms(1) have "snd (ws, cid) = cd_id c0" unfolding store_keyed_def by blast
  moreover from Some assms(2) have "c = fill_hash env c0" by (simp add: get_candidate_def)
  ultimately have "cid = cd_id c0" "c = fill_hash env c0" by simp_all
  with Some that show ?thesis by simp
next
  case None
  with assms(2) obtain k c0 where f: "List.find (\<lambda>(k, c). fst k = ws \<and> sk_id (cd_skill c) = cid) st = Some (k, c0)"
    "c = fill_hash env c0"
    by (auto simp: get_candidate_def split: option.splits)
  from find_Some_iff_mem [OF f(1)] have "(k, c0) \<in> set st" "fst k = ws" by auto
  with assms(1) have "dict_get st k = Some c0" by (simp add: store_keyed_def map_of_is_SomeI)
  moreover from this assms(1) have "snd k = cd_id c0" by (simp add: store_keyed_def)
  ultimately show ?thesis using that f(2) \<open>fst k = ws\<close> by (metis fill_hash_fields(1) prod.collapse)
qed

lemma store_keyed_set: "store_keyed st \<Longrightarrow> cd_id c = snd k \<Longrightarrow> store_keyed (dict_set k c st)"
  by (auto simp: store_keyed_def)

lemma candidate_step_keyed: "store_keyed st \<Longrightarrow> store_keyed (candidate_step env op st)"
  by (cases op)
    (auto simp: save_candidate_def update_candidate_status_def publish_candidate_if_approved_def Let_def
      intro!: store_keyed_set split: option.splits)

lemma publish_candidate_effect:
  assumes "publish_candidate_if_approved env ws cid approval expected st = (answer, st')"
  shows "st' = st \<or> (\<exists>c. get_candidate env ws cid st = Some c \<and> cd_status c = ''EVALUATED'' \<and> cd_hash c = Some expected \<and>
     cd_approval_id c = None \<and> (let c' = c\<lparr>cd_status := ''PUBLISHED'', cd_skill := (cd_skill c)\<lparr>sk_status := ''PUBLISHED''\<rparr>,
       cd_approval_id := Some approval, cd_promotion_hash := Some expected\<rparr>
     in answer = (True, ''PUBLISHED'', Some c') \<and> st' = dict_set (ws, cd_id c) c' st))"
  using assms by (auto simp: publish_candidate_if_approved_def Let_def split: option.splits if_splits)

lemma published_under_step:
  assumes inv: "published_under key approval h st" and g: "candidate_untouched env key op st"
  shows "published_under key approval h (candidate_step env op st)"
proof -
  from inv have st: "store_keyed st" by (simp add: published_under_def)
  have "dict_get (candidate_step env op st) key = dict_get st key"
  proof (cases op)
    case (SaveCandidate ws c)
    have "cd_id (fst (save_candidate env ws c st)) = cd_id c" by (simp add: save_candidate_def Let_def)
    with SaveCandidate g show ?thesis by (auto simp: save_candidate_def Let_def)
  next
    case (SetCandidateStatus ws cid status score)
    with g show ?thesis by (auto simp: update_candidate_status_def Let_def split: option.splits)
  next
    case (PublishCandidate ws cid a e)
    obtain answer st' where pub: "publish_candidate_if_approved env ws cid a e st = (answer, st')"
      by (cases "publish_candidate_if_approved env ws cid a e st")
    from publish_candidate_effect [OF pub] show ?thesis
    proof
      assume "\<exists>c. get_candidate env ws cid st = Some c \<and> cd_status c = ''EVALUATED'' \<and> cd_hash c = Some e \<and>
        cd_approval_id c = None \<and> (let c' = c\<lparr>cd_status := ''PUBLISHED'', cd_skill := (cd_skill c)\<lparr>sk_status := ''PUBLISHED''\<rparr>,
          cd_approval_id := Some a, cd_promotion_hash := Some e\<rparr>
        in answer = (True, ''PUBLISHED'', Some c') \<and> st' = dict_set (ws, cd_id c) c' st)"
      then obtain c c' where c: "get_candidate env ws cid st = Some c" "cd_status c = ''EVALUATED''"
        "st' = dict_set (ws, cd_id c) c' st" by (auto simp: Let_def)
      from get_candidate_Some [OF st c(1)] obtain c0 where "dict_get st (ws, cd_id c) = Some c0" "c = fill_hash env c0" .
      with inv c(2) have "key \<noteq> (ws, cd_id c)" by (auto simp: published_under_def)
      then show ?thesis by (simp add: PublishCandidate pub c(3))
    qed (simp add: PublishCandidate pub)
  qed
  with inv candidate_step_keyed [OF st] show ?thesis by (simp add: published_under_def)
qed

interpretation candidates: state_machine "candidate_step env" "candidate_untouched env key" "published_under key approval h"
  for env key approval h
  by unfold_locales (rule published_under_step)

interpretation candidate_stores: state_machine "candidate_step env" "\<lambda>_ _. True" store_keyed for env
  by unfold_locales (rule candidate_step_keyed)

text \<open>One promotion per candidate. A candidate that is published was evaluated, carried exactly the
  approved definition hash and belonged to no promotion. From then on, unless somebody saves it again or
  sets its status by hand, and whatever approvals are used for it or others: a further attempt changes
  nothing; it is answered as already published when it repeats the approval and the hash, and is refused
  otherwise.\<close>

theorem candidate_published_once:
  assumes pub: "publish_candidate_if_approved env ws cid approval h (fold (candidate_step env) ops0 []) =
                  ((True, ''PUBLISHED'', Some c), st1)"
    and later: "admissible (candidate_untouched env (ws, cd_id c)) (candidate_step env) ops st1"
  shows "(\<exists>c0. dict_get (fold (candidate_step env) ops0 []) (ws, cd_id c) = Some c0 \<and> cd_status c0 = ''EVALUATED'' \<and>
            cd_approval_id c0 = None \<and> cd_hash (fill_hash env c0) = Some h) \<and>
         (let st2 = fold (candidate_step env) ops st1;
              (answer, st3) = publish_candidate_if_approved env ws (cd_id c) approval' h' st2;
              same = (approval' = approval \<and> h' = h)
          in st3 = st2 \<and> fst answer = same \<and>
             fst (snd answer) = (if same then ''ALREADY_PUBLISHED'' else ''ALREADY_PUBLISHED_DIFFERENT_APPROVAL''))"
proof -
  let ?st0 = "fold (candidate_step env) ops0 []"
  have st0: "store_keyed ?st0"
    by (rule candidate_stores.run_inv) (simp_all add: store_keyed_def)
  from pub obtain b where b: "get_candidate env ws cid ?st0 = Some b" "cd_status b = ''EVALUATED''" "cd_hash b = Some h"
      "cd_approval_id b = None" "c = b\<lparr>cd_status := ''PUBLISHED'', cd_skill := (cd_skill b)\<lparr>sk_status := ''PUBLISHED''\<rparr>,
       cd_approval_id := Some approval, cd_promotion_hash := Some h\<rparr>" "st1 = dict_set (ws, cd_id b) c ?st0"
    by (auto simp: publish_candidate_if_approved_def Let_def split: option.splits if_splits)
  from get_candidate_Some [OF st0 b(1)] obtain c0 where c0: "dict_get ?st0 (ws, cd_id b) = Some c0" "b = fill_hash env c0" .
  have "h \<noteq> []" using b(3) fill_hash_fields(5) [of env c0] by (simp add: c0(2))
  then have "published_under (ws, cd_id c) approval h st1"
    using b(3) by (simp add: published_under_def b(5,6) store_keyed_set [OF st0])
  from candidates.run_inv [OF this later] have after: "published_under (ws, cd_id c) approval h (fold (candidate_step env) ops st1)" .
  then obtain d where d: "dict_get (fold (candidate_step env) ops st1) (ws, cd_id c) = Some d" "cd_status d = ''PUBLISHED''"
      "cd_approval_id d = Some approval" "cd_promotion_hash d = Some h" "cd_hash d = Some h"
    by (auto simp: published_under_def)
  with \<open>h \<noteq> []\<close> have "get_candidate env ws (cd_id c) (fold (candidate_step env) ops st1) = Some d"
    by (simp add: get_candidate_def fill_hash_same)
  with d have "let st2 = fold (candidate_step env) ops st1;
              (answer, st3) = publish_candidate_if_approved env ws (cd_id c) approval' h' st2;
              same = (approval' = approval \<and> h' = h)
          in st3 = st2 \<and> fst answer = same \<and>
             fst (snd answer) = (if same then ''ALREADY_PUBLISHED'' else ''ALREADY_PUBLISHED_DIFFERENT_APPROVAL'')"
    by (auto simp: publish_candidate_if_approved_def Let_def)
  with b c0 show ?thesis by auto
qed

definition example_candidate :: skill_candidate where
  "example_candidate =
     \<lparr>cd_id = ''c'', cd_parent_run_id = ''r'', cd_skill = example_skill ''s'', cd_evidence_refs = [], cd_eval_score = 1,
      cd_status = ''EVALUATED'', cd_hash = None, cd_approval_id = None, cd_promotion_hash = None\<rparr>"

text \<open>An instance: after the promotion another approval is tried, by the identifier of the skill, and
  the first once more.\<close>

theorem candidate_published_once_witness:
  "let st0 = fold (candidate_step plain_env) [SaveCandidate ''w'' example_candidate] [];
       st1 = snd (publish_candidate_if_approved plain_env ''w'' ''c'' ''a1'' ''sha256:j'' st0);
       st2 = fold (candidate_step plain_env) [PublishCandidate ''w'' ''s'' ''a2'' ''sha256:j''] st1
   in fst (fst (publish_candidate_if_approved plain_env ''w'' ''c'' ''a1'' ''sha256:j'' st2))"
proof -
  let ?st0 = "fold (candidate_step plain_env) [SaveCandidate ''w'' example_candidate] []"
  let ?pub = "publish_candidate_if_approved plain_env ''w'' ''c'' ''a1'' ''sha256:j'' ?st0"
  have fsts: "fst (fst ?pub) = True \<and> fst (snd (fst ?pub)) = ''PUBLISHED'' \<and> map_option cd_id (snd (snd (fst ?pub))) = Some ''c''"
    by code_simp
  then obtain c st1 where pub: "?pub = ((True, ''PUBLISHED'', Some c), st1)" and c: "cd_id c = ''c''"
    by (cases ?pub; cases "fst ?pub"; cases "snd (fst ?pub)") auto
  have "admissible (candidate_untouched plain_env (''w'', cd_id c)) (candidate_step plain_env)
     [PublishCandidate ''w'' ''s'' ''a2'' ''sha256:j''] st1" by simp
  from candidate_published_once [OF pub this, of "''a1''" "''sha256:j''"] show ?thesis
    unfolding Let_def pub snd_conv c by (auto split: prod.splits)
qed

end
