(* ===== verification/SkillOptimisation.thy ===== *)
theory SkillOptimisation
  imports SkillProps "HOL-Library.Multiset"
begin

text \<open>
  The optimisation of a skill and the task that runs it: eligibility and allow-lists
  (\<open>apps/cosa/skills/improvement_policy.py\<close>), the boundary of mutations (\<open>improvement_mutator.py\<close>), the
  evaluator (\<open>improvement_evaluators.py\<close>), the candidate executor
  (\<open>packages/agent/skills/lab/executor.py\<close>), \<open>SkillImprovementService.execute\<close>
  (\<open>improvement_service.py\<close>) and the worker (\<open>apps/cosa/worker/skill_improvement.py\<close>). The kernel, the
  mutator, the parser of published content and the text functions of Python are parameters; a call of
  them that raises is \<open>None\<close>. Texts are UTF-8.
\<close>

declare split_paired_All [simp del] split_paired_Ex [simp del]

subsection \<open>Policy\<close>

definition check_improvement_eligibility ::
  "improvement_policy \<Rightarrow> string \<times> string \<times> string \<Rightarrow> bool \<Rightarrow> bool \<Rightarrow> bool \<Rightarrow> bool \<Rightarrow> bool \<times> string option" where
  "check_improvement_eligibility pol ident is_executive registered suite_matches has_live =
     (if ip_mode pol = ''OFF'' then (False, Some ''POLICY_OFF'')
      else if ip_mode pol = ''OBSERVE'' then (False, Some ''POLICY_OBSERVE_ONLY'')
      else if (case ip_allowed pol of None \<Rightarrow> True | Some ids \<Rightarrow> ident \<notin> set ids) then (False, Some ''EVALUATOR_IDENTITY_MISMATCH'')
      else if is_executive then (False, Some ''EXECUTIVE_SKILL_PROTECTED'')
      else if \<not> registered \<or> \<not> suite_matches then (False, Some ''EVALUATOR_IDENTITY_MISMATCH'')
      else if has_live then (False, Some ''REQUEST_ALREADY_ACTIVE'')
      else (True, None))"

datatype allowlist_error = MalformedJson | InvalidFormat | InvalidEntry pyval

text \<open>One entry of the allow-list: a triple or a dictionary, all parts non-empty texts.\<close>

definition identity_part :: "pyval option \<Rightarrow> string option" where
  "identity_part v = (case v of Some (PStr s) \<Rightarrow> if s = [] then None else Some s | _ \<Rightarrow> None)"

definition identity_entry :: "pyval \<Rightarrow> allowlist_error + string \<times> string \<times> string" where
  "identity_entry v =
     (case (case v of
              PList [a, b, c] \<Rightarrow> Some (Some a, Some b, Some c)
            | PDict d \<Rightarrow> Some (dict_get d ''skill_id'', dict_get d ''version'', dict_get d ''definition_hash'')
            | _ \<Rightarrow> None) of
        None \<Rightarrow> Inl (InvalidEntry v)
      | Some (a, b, c) \<Rightarrow>
          (case (identity_part a, identity_part b, identity_part c) of
             (Some x, Some y, Some z) \<Rightarrow> Inr (x, y, z)
           | _ \<Rightarrow> Inl (InvalidEntry v)))"

fun identity_entries :: "pyval list \<Rightarrow> allowlist_error + (string \<times> string \<times> string) list" where
  "identity_entries [] = Inr []"
| "identity_entries (v # vs) =
     (case identity_entry v of
        Inl e \<Rightarrow> Inl e
      | Inr i \<Rightarrow> (case identity_entries vs of Inl e \<Rightarrow> Inl e | Inr is \<Rightarrow> Inr (i # is)))"

text \<open>\<open>json\<close> is the JSON parser; iterating over a parsed dictionary gives its keys, which are no
  entries.\<close>

definition parse_allowed_identities ::
  "(string \<Rightarrow> pyval option) \<Rightarrow> pyval \<Rightarrow> allowlist_error + (string \<times> string \<times> string) list" where
  "parse_allowed_identities json v =
     (if \<not> truthy v then Inr []
      else
        (case v of
           PStr s \<Rightarrow>
             (case json s of
                None \<Rightarrow> Inl MalformedJson
              | Some (PList vs) \<Rightarrow> identity_entries vs
              | Some (PDict d) \<Rightarrow> identity_entries (map (\<lambda>k. PStr k) (dict_keys d))
              | Some (PStr t) \<Rightarrow> identity_entries (map (\<lambda>c. PStr [c]) t)
              | Some x \<Rightarrow> Inl (InvalidEntry x))
         | PList vs \<Rightarrow> identity_entries vs
         | _ \<Rightarrow> Inl InvalidFormat))"

subsection \<open>Mutations\<close>

definition validate_candidate_mutation :: "skill_spec \<Rightarrow> skill_spec \<Rightarrow> bool \<times> string option" where
  "validate_candidate_mutation base m =
     (if sk_id m \<noteq> sk_id base then (False, Some ''MUTATION_BOUNDARY_VIOLATION'')
      else if sort (sk_required_capabilities m) \<noteq> sort (sk_required_capabilities base)
      then (False, Some ''MUTATION_BOUNDARY_VIOLATION'')
      else if sk_ceiling m \<noteq> sk_ceiling base then (False, Some ''MUTATION_BOUNDARY_VIOLATION'')
      else if sk_side_effect_class m \<noteq> sk_side_effect_class base then (False, Some ''MUTATION_BOUNDARY_VIOLATION'')
      else (True, None))"

subsection \<open>Evaluation\<close>

record eval_case =
  ec_id :: string
  ec_input :: payload
  ec_expected :: payload
  ec_holdout :: bool

record suite_case =
  sc_id :: string
  sc_input_payload :: payload
  sc_outcome :: string
  sc_reason :: "string option"

record lab_result =
  lr_status :: string
  lr_output :: pyval

record registered_evaluator =
  rv_cases :: "suite_case list"
  rv_suite_ref :: string
  rv_suite_hash :: string
  rv_custom_score :: "(lab_result \<Rightarrow> eval_case \<Rightarrow> rat) option"

record text_functions =
  tf_str :: "pyval \<Rightarrow> string"
  tf_lower :: "string \<Rightarrow> string"

definition get_eval_cases :: "registered_evaluator \<Rightarrow> eval_case list" where
  "get_eval_cases ev =
     map (\<lambda>c. \<lparr>ec_id = sc_id c, ec_input = sc_input_payload c,
                ec_expected = [(''outcome'', PStr (sc_outcome c)), (''reason'', opt_val (sc_reason c))],
                ec_holdout = False\<rparr>) (rv_cases ev)"

text \<open>The terms of a refusal; two of them are Vietnamese.\<close>

definition refusal_terms :: "string list" where
  "refusal_terms =
     [''t'' @ [CHR 0xE1, CHR 0xBB, CHR 0xAB] @ '' ch'' @ [CHR 0xE1, CHR 0xBB, CHR 0x91] @ ''i'', ''refuse'', ''cannot'',
      ''kh'' @ [CHR 0xC3, CHR 0xB4] @ ''ng th'' @ [CHR 0xE1, CHR 0xBB, CHR 0x83], ''denied'']"

definition output_text :: "text_functions \<Rightarrow> pyval \<Rightarrow> string" where
  "output_text tf v =
     (case v of
        PDict d \<Rightarrow>
          tf_str tf (let r = dict_get_or d ''response'' PNone; o1 = dict_get_or d ''output'' PNone
                     in if truthy r then r else if truthy o1 then o1 else v)
      | _ \<Rightarrow> if truthy v then tf_str tf v else [])"

definition score_case :: "text_functions \<Rightarrow> registered_evaluator \<Rightarrow> lab_result \<Rightarrow> eval_case \<Rightarrow> rat" where
  "score_case tf ev res c =
     (case rv_custom_score ev of
        Some score \<Rightarrow> score res c
      | None \<Rightarrow>
          if lr_status res \<noteq> ''COMPLETED'' then 0
          else
            (let out = output_text tf (lr_output res);
                 outcome = dict_get_or (ec_expected c) ''outcome'' (PStr ''accept'')
             in if outcome = PStr ''accept'' then
                  (case dict_get_or (ec_expected c) ''reason'' PNone of
                     PStr reason \<Rightarrow>
                       if reason \<noteq> [] \<and> \<not> py_contains (tf_lower tf reason) (tf_lower tf out) then 1 / 2 else 1
                   | _ \<Rightarrow> 1)
                else if outcome = PStr ''reject'' then
                  (if list_ex (\<lambda>t. py_contains t (tf_lower tf out)) refusal_terms then 1 else 0)
                else 1))"

definition build_eval_agent_spec :: "agent_spec \<Rightarrow> skill_spec \<Rightarrow> string \<Rightarrow> agent_spec" where
  "build_eval_agent_spec base s label =
     base\<lparr>ag_instructions :=
            (if sk_instructions s \<noteq> [] then py_strip (ag_instructions base @ [CHR 10, CHR 10] @ sk_instructions s)
             else ag_instructions base),
          ag_version := ag_version base @ ''-lab-'' @ label, ag_hash := None, ag_pinned_skills := [], ag_capability_refs := []\<rparr>"

text \<open>\<open>run_suite\<close> of the executor without an evaluation repository. The kernel is asked with the
  specification, the input and the position of the case.\<close>

type_synonym lab_kernel = "agent_spec \<Rightarrow> payload \<Rightarrow> nat \<Rightarrow> lab_result option"

fun run_cases :: "lab_kernel \<Rightarrow> (lab_result \<Rightarrow> eval_case \<Rightarrow> rat) \<Rightarrow> agent_spec \<Rightarrow> bool \<Rightarrow> nat \<Rightarrow> eval_case list \<Rightarrow> rat list option" where
  "run_cases krn score spec include_holdout n [] = Some []"
| "run_cases krn score spec include_holdout n (c # cs) =
     (if \<not> include_holdout \<and> ec_holdout c then run_cases krn score spec include_holdout (Suc n) cs
      else
        (case krn spec (ec_input c) n of
           None \<Rightarrow> None
         | Some res \<Rightarrow>
             (case run_cases krn score spec include_holdout (Suc n) cs of
                None \<Rightarrow> None
              | Some scores \<Rightarrow> Some (score res c # scores))))"

definition run_suite ::
  "float_ops \<Rightarrow> lab_kernel \<Rightarrow> (lab_result \<Rightarrow> eval_case \<Rightarrow> rat) \<Rightarrow> agent_spec \<Rightarrow> skill_spec \<Rightarrow> eval_case list \<Rightarrow> string \<Rightarrow> bool
     \<Rightarrow> (rat \<times> rat list) option" where
  "run_suite fl krn score base s cases label include_holdout =
     (case run_cases krn score (build_eval_agent_spec base s label) include_holdout 0 cases of
        None \<Rightarrow> None
      | Some scores \<Rightarrow> Some (if scores = [] then 0 else mean_score fl scores, scores))"


subsection \<open>The service\<close>

record optimisation_env =
  ox_spec :: spec_env
  ox_floats :: float_ops
  ox_text :: text_functions
  ox_kernel :: lab_kernel
  ox_policy :: improvement_policy
  ox_evaluators :: "(string \<times> string \<times> string, registered_evaluator) pydict"
  ox_mutator :: "(skill_spec \<Rightarrow> nat \<Rightarrow> skill_spec option) option"
  ox_mutator_name :: string
  ox_parse_skill :: "payload \<Rightarrow> skill_spec option"

definition eval_agent :: "string \<Rightarrow> agent_spec" where
  "eval_agent sid =
     \<lparr>ag_id = ''cosa.skill-eval.'' @ sid, ag_version = ''1.0.0'',
      ag_instructions = ''You are evaluating a skill in an isolated test harness.'', ag_model_policy = [],
      ag_autonomy_level = ''L1'', ag_capability_refs = [], ag_model_input_ref = None, ag_pinned_skills = [],
      ag_prompt_ref = None, ag_model_policy_ref = None, ag_tool_contract_refs = [], ag_knowledge_ref = None,
      ag_memory_policy = [], ag_knowledge_policy = [], ag_coordination_policy = [], ag_limits = [],
      ag_output_schema = None, ag_metadata = [], ag_hash = None\<rparr>"

record optimisation_state =
  os_best :: skill_spec
  os_score :: rat
  os_accepted :: nat
  os_records :: "improvement_mutation list"

datatype round_result =
    RoundsDone optimisation_state
  | BoundaryViolated improvement_mutation "string option"
  | RoundsRaised

definition mutation_record ::
  "improvement_request \<Rightarrow> string option \<Rightarrow> nat \<Rightarrow> string \<Rightarrow> bool \<Rightarrow> rat \<Rightarrow> rat \<Rightarrow> bool \<Rightarrow> string option \<Rightarrow> improvement_mutation" where
  "mutation_record req cid round_no name accepted before after passed reason =
     \<lparr>mu_workspace_id = rq_workspace_id req, mu_request_id = rq_id req, mu_candidate_id = cid, mu_round_no = int round_no,
      mu_mutator_name = name, mu_accepted = accepted, mu_score_before = before, mu_score_after = after,
      mu_validation_passed = passed, mu_reason_code = reason\<rparr>"

text \<open>The rounds \<open>n\<close> to \<open>n + k - 1\<close>. \<open>suite s label\<close> is the evaluation without the held-out cases.\<close>

fun optimisation_rounds ::
  "optimisation_env \<Rightarrow> improvement_request \<Rightarrow> string \<Rightarrow> skill_spec \<Rightarrow> (skill_spec \<Rightarrow> string \<Rightarrow> (rat \<times> rat list) option)
     \<Rightarrow> nat \<Rightarrow> nat \<Rightarrow> optimisation_state \<Rightarrow> round_result" where
  "optimisation_rounds env req cid base suite n 0 st = RoundsDone st"
| "optimisation_rounds env req cid base suite n (Suc k) st =
     (case ox_mutator env of
        None \<Rightarrow> RoundsDone st
      | Some mutator \<Rightarrow>
     (case mutator (os_best st) n of
        None \<Rightarrow> RoundsRaised
      | Some mutated \<Rightarrow>
          (let (valid, reason) = validate_candidate_mutation base mutated in
           if \<not> valid then
             BoundaryViolated (mutation_record req (Some cid) n (ox_mutator_name env) False (os_score st) (os_score st) False reason) reason
           else
             (case suite mutated (''r'' @ int_str (int n)) of
                None \<Rightarrow> RoundsRaised
              | Some (score, _) \<Rightarrow>
                  (let accepted = (os_score st < score);
                       m = mutation_record req None n (ox_mutator_name env) accepted (os_score st) score True
                             (if accepted then None else Some ''SCORE_DID_NOT_IMPROVE'');
                       st = st\<lparr>os_records := os_records st @ [m]\<rparr>
                   in optimisation_rounds env req cid base suite (Suc n) k
                        (if accepted then st\<lparr>os_best := mutated, os_score := score, os_accepted := os_accepted st + 1\<rparr> else st))))))"

definition outcome_of :: "string \<Rightarrow> string option \<Rightarrow> string option \<Rightarrow> improvement_outcome" where
  "outcome_of status reason cid = \<lparr>io_status = status, io_reason_code = reason, io_candidate_id = cid\<rparr>"

definition evaluation_record ::
  "improvement_request \<Rightarrow> registered_evaluator \<Rightarrow> string option \<Rightarrow> rat \<Rightarrow> rat \<Rightarrow> rat \<Rightarrow> eval_case list \<Rightarrow> rat list \<Rightarrow> string \<Rightarrow> improvement_evaluation" where
  "evaluation_record req ev cid baseline final delta cases scores reason =
     \<lparr>ev_workspace_id = rq_workspace_id req, ev_request_id = rq_id req, ev_candidate_id = cid, ev_suite_ref = rv_suite_ref ev,
      ev_suite_hash = rv_suite_hash ev, ev_baseline_score = baseline, ev_candidate_score = final, ev_delta = delta,
      ev_passed_cases = map (\<lambda>(c, s). ec_id c) (filter (\<lambda>(c, s). 1 \<le> s) (zip cases scores)),
      ev_failed_cases = map (\<lambda>(c, s). ec_id c) (filter (\<lambda>(c, s). s < 1) (zip cases scores)),
      ev_reason_code = Some reason\<rparr>"

type_synonym lab_world = "candidate_store \<times> improvement_repo"

definition record_mutations :: "string option \<Rightarrow> improvement_mutation list \<Rightarrow> improvement_repo \<Rightarrow> improvement_repo" where
  "record_mutations cid ms repo = fold (\<lambda>m. record_mutation (m\<lparr>mu_candidate_id := cid\<rparr>)) ms repo"

text \<open>The last part of \<open>execute\<close>: the full regression and what is kept of the result.\<close>

definition conclude_optimisation ::
  "optimisation_env \<Rightarrow> improvement_request \<Rightarrow> registered_evaluator \<Rightarrow> string \<Rightarrow> skill_spec \<Rightarrow> rat \<Rightarrow> eval_case list
     \<Rightarrow> (rat \<times> rat list) option \<Rightarrow> optimisation_state \<Rightarrow> lab_world \<Rightarrow> improvement_outcome option \<times> lab_world" where
  "conclude_optimisation env req ev cid base baseline cases regression st w =
     (case regression of
        None \<Rightarrow> (None, w)
      | Some (final, scores) \<Rightarrow>
          (let delta = fl_sub (ox_floats env) final baseline; (store, repo) = w in
           if 0 < os_accepted st \<and> 0 < delta \<and> ip_low_score (ox_policy env) \<le> final then
             (let proposed = (os_best st)\<lparr>sk_version := sk_version base @ ''-opt'', sk_status := ''CANDIDATE''\<rparr>;
                  c = \<lparr>cd_id = cid, cd_parent_run_id = ''sir_'' @ rq_id req, cd_skill = proposed, cd_evidence_refs = [],
                       cd_eval_score = final, cd_status = ''EVALUATED'', cd_hash = None, cd_approval_id = None,
                       cd_promotion_hash = None\<rparr>;
                  store = snd (save_candidate (ox_spec env) (rq_workspace_id req) c store);
                  repo = record_evaluation (evaluation_record req ev (Some cid) baseline final delta cases scores ''OK'') repo
              in (Some (outcome_of ''COMPLETED'' None (Some cid)), (store, record_mutations (Some cid) (os_records st) repo)))
           else
             (let repo = record_evaluation (evaluation_record req ev None baseline final delta cases scores ''NO_IMPROVEMENT'') repo
              in (Some (outcome_of ''NO_IMPROVEMENT'' (Some ''SCORE_DID_NOT_IMPROVE'') None),
                  (store, record_mutations None (os_records st) repo)))))"

text \<open>Baseline, rounds and regression of a skill whose source specification was found.\<close>

definition optimise_skill ::
  "optimisation_env \<Rightarrow> improvement_request \<Rightarrow> registered_evaluator \<Rightarrow> string \<Rightarrow> skill_spec \<Rightarrow> lab_world
     \<Rightarrow> improvement_outcome option \<times> lab_world" where
  "optimise_skill env req ev cid base w =
     (let cases = get_eval_cases ev;
          suite = (\<lambda>s label holdout. run_suite (ox_floats env) (ox_kernel env) (score_case (ox_text env) ev)
                     (eval_agent (rq_skill_id req)) s cases label holdout)
      in if cases = [] then (Some (outcome_of ''NOT_ELIGIBLE'' (Some ''NO_EVALUATION_CASES'') None), w)
         else
        (case suite base ''r0-baseline'' False of
           None \<Rightarrow> (None, w)
         | Some (baseline, _) \<Rightarrow>
             (case optimisation_rounds env req cid base (\<lambda>s label. suite s label False) 1
                     (nat (ip_max_rounds (ox_policy env)))
                     \<lparr>os_best = base, os_score = baseline, os_accepted = 0, os_records = []\<rparr> of
                RoundsRaised \<Rightarrow> (None, w)
              | BoundaryViolated m reason \<Rightarrow>
                  (Some (outcome_of ''FAILED_REQUIRES_ATTENTION'' reason None), (fst w, record_mutation m (snd w)))
              | RoundsDone st \<Rightarrow>
                  conclude_optimisation env req ev cid base baseline cases
                    (suite (os_best st) ''final-regression'' True) st w)))"

definition request_skill :: "improvement_request \<Rightarrow> string \<times> string \<times> string" where
  "request_skill req = (rq_skill_id req, rq_skill_version req, rq_hash req)"

text \<open>\<open>SkillImprovementService.execute\<close>; \<open>cid\<close> is the generated identifier of the candidate. \<open>None\<close> is
  an exception of the kernel, the mutator or the parser.\<close>

definition execute_optimisation ::
  "optimisation_env \<Rightarrow> spec_registry \<Rightarrow> string \<Rightarrow> improvement_request \<Rightarrow> lab_world \<Rightarrow> improvement_outcome option \<times> lab_world" where
  "execute_optimisation env reg cid req w =
     (let evaluator = dict_get (ox_evaluators env) (request_skill req);
          (eligible, reason) = check_improvement_eligibility (ox_policy env) (request_skill req)
             (py_contains ''executive'' (tf_lower (ox_text env) (rq_skill_id req))) (evaluator \<noteq> None) True False
      in if \<not> eligible then
           (Some (outcome_of (if reason = Some ''POLICY_OFF'' \<or> reason = Some ''POLICY_OBSERVE_ONLY''
                              then ''DEFERRED_POLICY_DISABLED'' else ''NOT_ELIGIBLE'') reason None), w)
         else
        (case (get_spec ''skill'' (rq_skill_id req) (rq_skill_version req) reg, evaluator) of
           (None, _) \<Rightarrow> (Some (outcome_of ''NOT_ELIGIBLE'' (Some ''SOURCE_SPEC_NOT_FOUND'') None), w)
         | (Some published, ev) \<Rightarrow>
             if pb_hash published \<noteq> rq_hash req then
               (Some (outcome_of ''NOT_ELIGIBLE'' (Some ''EVALUATOR_IDENTITY_MISMATCH'') None), w)
             else
            (case (ox_parse_skill env (pb_content published), ev) of
               (Some base, Some ev) \<Rightarrow> optimise_skill env req ev cid base w
             | _ \<Rightarrow> (None, w))))"

subsection \<open>The worker\<close>

record improvement_task =
  tk_task_type :: "string option"
  tk_request_id :: "string option"
  tk_workspace_id :: "string option"

text \<open>The plane: a missing registry or service is \<open>None\<close>.\<close>

record improvement_plane =
  pl_registry :: "spec_registry option"
  pl_service :: "(optimisation_env \<times> spec_registry) option"

text \<open>\<open>execute_skill_improvement_task\<close>; \<open>now\<close> and \<open>later\<close> are the clock at the claim and at the end,
  \<open>token\<close> the generated claim token.\<close>

definition execute_improvement_task ::
  "improvement_plane \<Rightarrow> improvement_task \<Rightarrow> string \<Rightarrow> string \<Rightarrow> string \<Rightarrow> datetime \<Rightarrow> datetime \<Rightarrow> lab_world
     \<Rightarrow> improvement_outcome option \<times> lab_world" where
  "execute_improvement_task plane task worker cid token now later w =
     (if tk_task_type task \<noteq> Some ''skill_improvement'' \<or> \<not> truthy_opt (tk_request_id task) \<or> \<not> truthy_opt (tk_workspace_id task)
      then (Some (outcome_of ''FAILED_REQUIRES_ATTENTION'' (Some ''INVALID_PAYLOAD'') None), w)
      else
        (let rid = or_else (tk_request_id task) []; (store, repo) = w in
         case get_improvement_request rid repo of
           None \<Rightarrow> (Some (outcome_of ''STALE'' (Some ''REQUEST_NOT_FOUND'') None), w)
         | Some req \<Rightarrow>
             if rq_status req \<noteq> ''PENDING'' \<and> rq_status req \<noteq> ''RUNNING''
             then (Some (outcome_of ''STALE'' (Some ''REQUEST_ALREADY_FINISHED'') None), w)
             else
            (case claim_improvement_request rid worker now token repo of
               (None, repo) \<Rightarrow> (Some (outcome_of ''STALE'' (Some ''STALE_CLAIM'') None), (store, repo))
             | (Some (claimed, t), repo) \<Rightarrow>
                 (let finish = (\<lambda>outc w. (fst (finish_improvement_request rid t outc later (snd w)),
                                        (fst w, snd (finish_improvement_request rid t outc later (snd w)))))
                  in if (case pl_registry plane of
                           None \<Rightarrow> False
                         | Some reg \<Rightarrow>
                             (case get_spec ''skill'' (rq_skill_id req) (rq_skill_version req) reg of
                                None \<Rightarrow> True | Some r \<Rightarrow> pb_hash r \<noteq> rq_hash req))
                     then (let outc = outcome_of ''STALE'' (Some ''CHANGED_SOURCE_IDENTITY'') None
                           in (Some outc, snd (finish outc (store, repo))))
                     else
                    (case pl_service plane of
                       None \<Rightarrow>
                         (let outc = outcome_of ''FAILED_REQUIRES_ATTENTION'' (Some ''MISSING_IMPROVEMENT_SERVICE'') None
                          in (Some outc, snd (finish outc (store, repo))))
                     | Some (env, reg) \<Rightarrow>
                         (case execute_optimisation env reg cid claimed (store, repo) of
                            (None, w) \<Rightarrow> (None, w)
                          | (Some outc, w) \<Rightarrow>
                              (case finish outc w of
                                 (False, w) \<Rightarrow> (Some (outcome_of ''STALE'' (Some ''CLAIM_FENCE_LOST'') None), w)
                               | (True, w) \<Rightarrow> (Some outc, w))))))))"


subsection \<open>What a round may change\<close>

definition within_boundary :: "skill_spec \<Rightarrow> skill_spec \<Rightarrow> bool" where
  "within_boundary base m \<longleftrightarrow>
     sk_id m = sk_id base \<and> mset (sk_required_capabilities m) = mset (sk_required_capabilities base) \<and>
     sk_ceiling m = sk_ceiling base \<and> sk_side_effect_class m = sk_side_effect_class base"

lemma sort_eq_iff_mset: "sort xs = sort ys \<longleftrightarrow> mset xs = mset (ys :: 'a::linorder list)"
proof
  assume "sort xs = sort ys"
  then have "mset (sort xs) = mset (sort ys)" by (simp only:)
  then show "mset xs = mset ys" by simp
next
  assume "mset xs = mset ys"
  then show "sort xs = sort ys" by (metis mset_sort properties_for_sort sorted_sort)
qed

lemma validate_mutation_exact: "fst (validate_candidate_mutation base m) \<longleftrightarrow> within_boundary base m"
  by (simp add: validate_candidate_mutation_def within_boundary_def sort_eq_iff_mset)

text \<open>The invariant of the rounds that started with \<open>base\<close> at \<open>score\<close>.\<close>

definition rounds_ok :: "skill_spec \<Rightarrow> rat \<Rightarrow> optimisation_state \<Rightarrow> bool" where
  "rounds_ok base score st \<longleftrightarrow>
     within_boundary base (os_best st) \<and> score \<le> os_score st \<and>
     (if os_accepted st = 0 then os_best st = base \<and> os_score st = score else score < os_score st) \<and>
     os_accepted st = length (filter mu_accepted (os_records st)) \<and> list_all mu_validation_passed (os_records st)"

lemma rounds_ok_step:
  assumes "rounds_ok base score st" and "within_boundary base m"
  shows "rounds_ok base score (let accepted = os_score st < x;
           r = mutation_record req None n name accepted (os_score st) x True reason;
           st1 = st\<lparr>os_records := os_records st @ [r]\<rparr>
         in if accepted then st1\<lparr>os_best := m, os_score := x, os_accepted := os_accepted st1 + 1\<rparr> else st1)"
  using assms by (auto simp: rounds_ok_def Let_def mutation_record_def split: if_splits)

lemma optimisation_rounds_ok:
  "optimisation_rounds env req cid base suite n k st = RoundsDone st' \<Longrightarrow> rounds_ok base score st \<Longrightarrow>
   rounds_ok base score st' \<and> length (os_records st') \<le> length (os_records st) + k"
proof (induction k arbitrary: n st)
  case 0
  then show ?case by simp
next
  case (Suc k)
  show ?case
  proof (cases "ox_mutator env")
    case None
    with Suc.prems show ?thesis by simp
  next
    case (Some mutator)
    show ?thesis
    proof (cases "mutator (os_best st) n")
      case None
      with Some Suc.prems(1) show ?thesis by simp
    next
      case m: (Some m)
      obtain valid_m reason where v: "validate_candidate_mutation base m = (valid_m, reason)" by fastforce
      show ?thesis
      proof (cases "valid_m \<and> suite m (''r'' @ int_str (int n)) \<noteq> None")
        case False
        with Some m v Suc.prems(1) show ?thesis by (auto split: if_splits)
      next
        case True
        then obtain x xs where x: "suite m (''r'' @ int_str (int n)) = Some (x, xs)" by auto
        have "within_boundary base m" using validate_mutation_exact [of base m] v True by simp
        note step = rounds_ok_step [OF Suc.prems(2) this, where x = x and req = req and n = n
            and name = "ox_mutator_name env" and reason = "if os_score st < x then None else Some ''SCORE_DID_NOT_IMPROVE''"]
        define st1 where "st1 = (let accepted = os_score st < x;
             r = mutation_record req None n (ox_mutator_name env) accepted (os_score st) x True
                   (if accepted then None else Some ''SCORE_DID_NOT_IMPROVE'');
             st1 = st\<lparr>os_records := os_records st @ [r]\<rparr>
           in if accepted then st1\<lparr>os_best := m, os_score := x, os_accepted := os_accepted st1 + 1\<rparr> else st1)"
        have ok: "rounds_ok base score st1" using step unfolding st1_def Let_def .
        have len: "length (os_records st1) = length (os_records st) + 1" by (simp add: st1_def Let_def)
        have "optimisation_rounds env req cid base suite (Suc n) k st1 = RoundsDone st'"
          using Suc.prems(1) Some m v x True unfolding st1_def by (simp add: Let_def split: if_splits)
        from Suc.IH [OF this ok] len show ?thesis by simp
      qed
    qed
  qed
qed

text \<open>The best skill of the rounds carries the score of the round that proposed it.\<close>

definition best_scored :: "(skill_spec \<Rightarrow> string \<Rightarrow> (rat \<times> rat list) option) \<Rightarrow> optimisation_state \<Rightarrow> bool" where
  "best_scored suite st \<longleftrightarrow>
     (if os_accepted st = 0 then True
      else (\<exists>n. map_option fst (suite (os_best st) (''r'' @ int_str (int n))) = Some (os_score st)))"

lemma optimisation_rounds_scored:
  "optimisation_rounds env req cid base suite n k st = RoundsDone st' \<Longrightarrow> best_scored suite st \<Longrightarrow> best_scored suite st'"
proof (induction k arbitrary: n st)
  case (Suc k)
  show ?case
  proof (cases "ox_mutator env")
    case None
    with Suc.prems show ?thesis by simp
  next
    case mutator: (Some mutator)
    with Suc.prems(1) obtain m where m: "mutator (os_best st) n = Some m" by (auto split: option.splits)
    with Suc.prems(1) mutator obtain x xs where x: "suite m (''r'' @ int_str (int n)) = Some (x, xs)"
      by (auto split: option.splits prod.splits if_splits)
    let ?reason = "if os_score st < x then None else Some ''SCORE_DID_NOT_IMPROVE''"
    let ?st = "st\<lparr>os_records := os_records st @
        [mutation_record req None n (ox_mutator_name env) (os_score st < x) (os_score st) x True ?reason]\<rparr>"
    let ?next = "if os_score st < x then ?st\<lparr>os_best := m, os_score := x, os_accepted := os_accepted ?st + 1\<rparr> else ?st"
    have "optimisation_rounds env req cid base suite (Suc n) k ?next = RoundsDone st'"
      using Suc.prems(1) mutator m x by (simp add: Let_def split: prod.splits if_splits)
    moreover have "best_scored suite ?next"
    proof (cases "os_score st < x")
      case True
      from x have "map_option fst (suite m (''r'' @ int_str (int n))) = Some x" by simp
      with True show ?thesis by (auto simp: best_scored_def)
    next
      case False
      with Suc.prems(2) show ?thesis unfolding best_scored_def by (auto split: if_splits)
    qed
    ultimately show ?thesis by (rule Suc.IH)
  qed
qed simp

lemma rounds_violation:
  "optimisation_rounds env req cid base suite n k st = BoundaryViolated m reason \<Longrightarrow>
   \<not> mu_validation_passed m \<and> reason = Some ''MUTATION_BOUNDARY_VIOLATION'' \<and> mu_request_id m = rq_id req"
proof (induction k arbitrary: n st)
  case (Suc k)
  then show ?case
    by (fastforce simp: Let_def mutation_record_def validate_candidate_mutation_def split: option.splits prod.splits if_splits)
qed simp

lemma record_mutations_eq:
  "record_mutations cid ms repo = repo\<lparr>ir_mutations := ir_mutations repo @ map (\<lambda>m. m\<lparr>mu_candidate_id := cid\<rparr>) ms\<rparr>"
proof (induction ms arbitrary: repo)
  case (Cons m ms)
  have "record_mutations cid (m # ms) repo = record_mutations cid ms (record_mutation (m\<lparr>mu_candidate_id := cid\<rparr>) repo)"
    by (simp add: record_mutations_def)
  then show ?case by (simp add: Cons.IH record_mutation_def)
qed (simp add: record_mutations_def)

text \<open>What a completed optimisation leaves: a candidate that was evaluated, with the mutations that led
  to it.\<close>

definition completed_candidate ::
  "optimisation_env \<Rightarrow> improvement_request \<Rightarrow> string \<Rightarrow> skill_spec \<Rightarrow> rat \<Rightarrow> skill_candidate \<Rightarrow> bool" where
  "completed_candidate env req cid base baseline c \<longleftrightarrow>
     cd_id c = cid \<and> cd_parent_run_id c = ''sir_'' @ rq_id req \<and> within_boundary base (cd_skill c) \<and>
     sk_version (cd_skill c) = sk_version base @ ''-opt'' \<and> sk_status (cd_skill c) = ''CANDIDATE'' \<and>
     cd_status c = ''EVALUATED'' \<and> cd_approval_id c = None \<and> truthy_opt (cd_hash c) \<and>
     0 < fl_sub (ox_floats env) (cd_eval_score c) baseline \<and> ip_low_score (ox_policy env) \<le> cd_eval_score c"

text \<open>How it was measured: the evaluator's cases give the source the baseline and the best skill of the rounds a
  higher score, both without the held-out cases; the score of the candidate is that of the best skill on all cases,
  and its difference to the baseline is positive.\<close>

definition evaluation_suite ::
  "optimisation_env \<Rightarrow> improvement_request \<Rightarrow> registered_evaluator \<Rightarrow> skill_spec \<Rightarrow> string \<Rightarrow> bool \<Rightarrow> (rat \<times> rat list) option" where
  "evaluation_suite env req ev s label holdout =
     run_suite (ox_floats env) (ox_kernel env) (score_case (ox_text env) ev) (eval_agent (rq_skill_id req)) s
       (get_eval_cases ev) label holdout"

definition measured_better ::
  "optimisation_env \<Rightarrow> improvement_request \<Rightarrow> registered_evaluator \<Rightarrow> skill_spec \<Rightarrow> rat \<Rightarrow> skill_candidate \<Rightarrow> bool" where
  "measured_better env req ev base baseline c \<longleftrightarrow>
     map_option fst (evaluation_suite env req ev base ''r0-baseline'' False) = Some baseline \<and>
     (\<exists>best n score h.
        cd_skill c = best\<lparr>sk_version := sk_version base @ ''-opt'', sk_status := ''CANDIDATE'', sk_hash := h\<rparr> \<and>
        map_option fst (evaluation_suite env req ev best (''r'' @ int_str (int n)) False) = Some score \<and> baseline < score \<and>
        map_option fst (evaluation_suite env req ev best ''final-regression'' True) = Some (cd_eval_score c))"

definition completed_mutations :: "optimisation_env \<Rightarrow> string \<Rightarrow> improvement_mutation list \<Rightarrow> bool" where
  "completed_mutations env cid ms \<longleftrightarrow>
     length ms \<le> nat (ip_max_rounds (ox_policy env)) \<and> list_ex mu_accepted ms \<and>
     list_all (\<lambda>m. mu_validation_passed m \<and> mu_candidate_id m = Some cid) ms"

lemma saved_candidate:
  assumes "within_boundary base (os_best st)"
  shows "\<exists>c. snd (save_candidate sp ws
      \<lparr>cd_id = cid, cd_parent_run_id = run, cd_skill = (os_best st)\<lparr>sk_version := v, sk_status := status\<rparr>,
       cd_evidence_refs = [], cd_eval_score = final, cd_status = ''EVALUATED'', cd_hash = None, cd_approval_id = None,
       cd_promotion_hash = None\<rparr> store) = dict_set (ws, cid) c store \<and>
     cd_id c = cid \<and> cd_parent_run_id c = run \<and> within_boundary base (cd_skill c) \<and> sk_version (cd_skill c) = v \<and>
     sk_status (cd_skill c) = status \<and> cd_status c = ''EVALUATED'' \<and> cd_approval_id c = None \<and> truthy_opt (cd_hash c) \<and>
     cd_eval_score c = final \<and> (\<exists>h. cd_skill c = (os_best st)\<lparr>sk_version := v, sk_status := status, sk_hash := h\<rparr>)"
proof -
  let ?x = "\<lparr>cd_id = cid, cd_parent_run_id = run, cd_skill = (os_best st)\<lparr>sk_version := v, sk_status := status\<rparr>,
       cd_evidence_refs = [], cd_eval_score = final, cd_status = ''EVALUATED'', cd_hash = None, cd_approval_id = None,
       cd_promotion_hash = None\<rparr>"
  let ?c = "fst (save_candidate sp ws ?x store)"
  have c: "?c = ?x\<lparr>cd_skill := (cd_skill ?x)\<lparr>sk_hash := sk_hash (cd_skill ?c)\<rparr>, cd_hash := cd_hash ?c\<rparr>" "truthy_opt (cd_hash ?c)"
    "snd (save_candidate sp ws ?x store) = dict_set (ws, cd_id ?c) ?c store"
    by (simp_all add: save_candidate_def fill_hash_def Let_def truthy_opt_def)
  have f: "cd_id ?c = cid" "cd_parent_run_id ?c = run" "cd_status ?c = ''EVALUATED''" "cd_approval_id ?c = None"
      "cd_eval_score ?c = final"
      "cd_skill ?c = (os_best st)\<lparr>sk_version := v, sk_status := status, sk_hash := sk_hash (cd_skill ?c)\<rparr>"
    by (subst c(1), simp)+
  have "within_boundary base (cd_skill ?c) \<and> sk_version (cd_skill ?c) = v \<and> sk_status (cd_skill ?c) = status"
    using assms by (subst f(6), subst f(6), subst f(6)) (simp add: within_boundary_def)
  with c(2,3) f show ?thesis by (intro exI [of _ ?c]) (auto simp only:)
qed

lemma conclude_optimisation_cases:
  assumes run: "conclude_optimisation env req ev cid base baseline cases regression st (store, repo) = (Some outc, (store', repo'))"
    and ok: "rounds_ok base baseline st" and len: "length (os_records st) \<le> nat (ip_max_rounds (ox_policy env))"
  shows "store' = store \<and> io_status outc = ''NO_IMPROVEMENT'' \<or>
         io_status outc = ''COMPLETED'' \<and> io_candidate_id outc = Some cid \<and>
         (\<exists>c ms. store' = dict_set (rq_workspace_id req, cid) c store \<and> completed_candidate env req cid base baseline c \<and>
            map_option fst regression = Some (cd_eval_score c) \<and> baseline < os_score st \<and> 0 < os_accepted st \<and>
            (\<exists>h. cd_skill c = (os_best st)\<lparr>sk_version := sk_version base @ ''-opt'', sk_status := ''CANDIDATE'', sk_hash := h\<rparr>) \<and>
            ir_mutations repo' = ir_mutations repo @ ms \<and> completed_mutations env cid ms)"
proof -
  obtain final scores where r: "regression = Some (final, scores)"
    using run by (cases regression) (auto simp: conclude_optimisation_def)
  show ?thesis
  proof (cases "0 < os_accepted st \<and> 0 < fl_sub (ox_floats env) final baseline \<and> ip_low_score (ox_policy env) \<le> final")
    case False
    with run r show ?thesis by (auto simp: conclude_optimisation_def Let_def outcome_of_def)
  next
    case True
    let ?ms = "map (\<lambda>m. m\<lparr>mu_candidate_id := Some cid\<rparr>) (os_records st)"
    have wb: "within_boundary base (os_best st)" using ok by (simp add: rounds_ok_def)
    have acc: "0 < length (filter mu_accepted (os_records st))" using ok True by (simp add: rounds_ok_def)
    then obtain m where "m \<in> set (os_records st)" "mu_accepted m" by (auto simp: filter_empty_conv)
    then have ms: "completed_mutations env cid ?ms"
      using len ok by (auto simp: completed_mutations_def rounds_ok_def list_ex_iff list_all_iff)
    from True run r have eqs: "outc = outcome_of ''COMPLETED'' None (Some cid)"
      "ir_mutations repo' = ir_mutations repo @ ?ms"
      by (auto simp: conclude_optimisation_def Let_def record_mutations_eq record_evaluation_def)
    from True run r have st: "store' = snd (save_candidate (ox_spec env) (rq_workspace_id req)
      \<lparr>cd_id = cid, cd_parent_run_id = ''sir_'' @ rq_id req,
       cd_skill = (os_best st)\<lparr>sk_version := sk_version base @ ''-opt'', sk_status := ''CANDIDATE''\<rparr>,
       cd_evidence_refs = [], cd_eval_score = final, cd_status = ''EVALUATED'', cd_hash = None, cd_approval_id = None,
       cd_promotion_hash = None\<rparr> store)"
      by (simp add: conclude_optimisation_def Let_def)
    from saved_candidate [OF wb, of "ox_spec env" "rq_workspace_id req" cid "''sir_'' @ rq_id req"
        "''CANDIDATE''" "sk_version base @ ''-opt''" final store]
    obtain c where c: "store' = dict_set (rq_workspace_id req, cid) c store" "cd_id c = cid" "cd_parent_run_id c = ''sir_'' @ rq_id req"
        "within_boundary base (cd_skill c)" "sk_version (cd_skill c) = sk_version base @ ''-opt''"
        "sk_status (cd_skill c) = ''CANDIDATE''" "cd_status c = ''EVALUATED''" "cd_approval_id c = None"
        "truthy_opt (cd_hash c)" "cd_eval_score c = final"
        "\<exists>h. cd_skill c = (os_best st)\<lparr>sk_version := sk_version base @ ''-opt'', sk_status := ''CANDIDATE'', sk_hash := h\<rparr>"
      unfolding st by blast
    then have "completed_candidate env req cid base baseline c" using True by (simp add: completed_candidate_def)
    moreover have "baseline < os_score st" "0 < os_accepted st" using ok True by (simp_all add: rounds_ok_def)
    ultimately show ?thesis using c(1,10,11) eqs ms r by (auto simp: outcome_of_def)
  qed
qed

lemma eligible_exact:
  "fst (check_improvement_eligibility pol ident ex registered True False) \<longleftrightarrow>
     ip_mode pol \<noteq> ''OFF'' \<and> ip_mode pol \<noteq> ''OBSERVE'' \<and> (\<exists>ids. ip_allowed pol = Some ids \<and> ident \<in> set ids) \<and>
     \<not> ex \<and> registered"
  by (auto simp: check_improvement_eligibility_def split: option.splits)

definition executive_skill :: "optimisation_env \<Rightarrow> improvement_request \<Rightarrow> bool" where
  "executive_skill env req \<longleftrightarrow> py_contains ''executive'' (tf_lower (ox_text env) (rq_skill_id req))"

lemma record_mutation_requests: "ir_requests (record_mutation m repo) = ir_requests repo"
  by (simp add: record_mutation_def)

lemma conclude_keeps_requests:
  "conclude_optimisation env req ev cid base baseline cases regression st (store, repo) = (outc, (store', repo')) \<Longrightarrow>
   ir_requests repo' = ir_requests repo \<and> ir_outbox repo' = ir_outbox repo \<and>
   (\<forall>x. outc = Some x \<longrightarrow> io_status x \<in> {''COMPLETED'', ''NO_IMPROVEMENT''})"
  by (auto simp: conclude_optimisation_def Let_def outcome_of_def record_mutations_eq record_evaluation_def
           split: option.splits prod.splits if_splits)

text \<open>The three ways \<open>execute\<close> ends, for a run that does not raise.\<close>

definition refused_outcome :: "improvement_outcome \<Rightarrow> bool" where
  "refused_outcome x \<longleftrightarrow>
     io_status x \<in> {''DEFERRED_POLICY_DISABLED'', ''NOT_ELIGIBLE'', ''FAILED_REQUIRES_ATTENTION''} \<and> io_candidate_id x = None"


definition rounds_measured ::
  "optimisation_env \<Rightarrow> improvement_request \<Rightarrow> registered_evaluator \<Rightarrow> skill_spec \<Rightarrow> rat \<Rightarrow> optimisation_state \<Rightarrow> bool" where
  "rounds_measured env req ev base baseline st \<longleftrightarrow>
     rounds_ok base baseline st \<and> length (os_records st) \<le> nat (ip_max_rounds (ox_policy env)) \<and>
     map_option fst (evaluation_suite env req ev base ''r0-baseline'' False) = Some baseline \<and>
     best_scored (\<lambda>s label. evaluation_suite env req ev s label False) st"

lemma optimise_skill_cases:
  assumes run: "optimise_skill env req ev cid base (store, repo) = (outc, (store', repo'))"
  shows "(store' = store \<and> (repo' = repo \<or> (\<exists>m. \<not> mu_validation_passed m \<and> repo' = record_mutation m repo)) \<and>
           (\<forall>x. outc = Some x \<longrightarrow> refused_outcome x)) \<or>
         (\<exists>baseline st. rounds_measured env req ev base baseline st \<and>
             conclude_optimisation env req ev cid base baseline (get_eval_cases ev)
               (evaluation_suite env req ev (os_best st) ''final-regression'' True) st (store, repo) = (outc, (store', repo')))"
proof -
  define suite where "suite = (\<lambda>s label holdout. evaluation_suite env req ev s label holdout)"
  define start where "start = (\<lambda>baseline. \<lparr>os_best = base, os_score = baseline, os_accepted = 0, os_records = []\<rparr>)"
  define rounds where "rounds = (\<lambda>baseline. optimisation_rounds env req cid base (\<lambda>s label. suite s label False) 1
      (nat (ip_max_rounds (ox_policy env))) (start baseline))"
  have run': "(if get_eval_cases ev = [] then (Some (outcome_of ''NOT_ELIGIBLE'' (Some ''NO_EVALUATION_CASES'') None), (store, repo))
         else (case suite base ''r0-baseline'' False of None \<Rightarrow> (None, (store, repo))
           | Some (baseline, _) \<Rightarrow>
             (case rounds baseline of
                RoundsRaised \<Rightarrow> (None, (store, repo))
              | BoundaryViolated m reason \<Rightarrow>
                  (Some (outcome_of ''FAILED_REQUIRES_ATTENTION'' reason None), (store, record_mutation m repo))
              | RoundsDone st \<Rightarrow>
                  conclude_optimisation env req ev cid base baseline (get_eval_cases ev)
                    (suite (os_best st) ''final-regression'' True) st (store, repo)))) = (outc, (store', repo'))"
    using run by (simp only: optimise_skill_def Let_def suite_def evaluation_suite_def start_def rounds_def fst_conv snd_conv)
  show ?thesis
  proof (cases "get_eval_cases ev = [] \<or> suite base ''r0-baseline'' False = None")
    case True
    with run' show ?thesis by (auto simp: outcome_of_def refused_outcome_def split: if_splits)
  next
    case False
    then obtain baseline ss where b: "suite base ''r0-baseline'' False = Some (baseline, ss)" by auto
    show ?thesis
    proof (cases "rounds baseline")
      case RoundsRaised
      with run' False b show ?thesis by simp
    next
      case (BoundaryViolated m reason)
      then have "\<not> mu_validation_passed m" using rounds_violation unfolding rounds_def by blast
      with run' False b BoundaryViolated show ?thesis by (auto simp: outcome_of_def refused_outcome_def)
    next
      case (RoundsDone st)
      have "rounds_ok base baseline (start baseline)" by (simp add: rounds_ok_def within_boundary_def start_def)
      from optimisation_rounds_ok [OF RoundsDone [unfolded rounds_def] this]
      have "rounds_ok base baseline st" "length (os_records st) \<le> nat (ip_max_rounds (ox_policy env))"
        by (simp_all add: start_def)
      moreover have "best_scored (\<lambda>s label. suite s label False) (start baseline)" by (simp add: best_scored_def start_def)
      from optimisation_rounds_scored [OF RoundsDone [unfolded rounds_def] this]
      have "best_scored (\<lambda>s label. evaluation_suite env req ev s label False) st" by (simp add: suite_def)
      moreover have "map_option fst (evaluation_suite env req ev base ''r0-baseline'' False) = Some baseline"
        using b by (simp add: suite_def)
      ultimately have "rounds_measured env req ev base baseline st" by (simp add: rounds_measured_def)
      with run' False b RoundsDone show ?thesis by (auto simp: suite_def)
    qed
  qed
qed

definition optimisation_ran ::
  "optimisation_env \<Rightarrow> spec_registry \<Rightarrow> string \<Rightarrow> improvement_request \<Rightarrow> lab_world \<Rightarrow> improvement_outcome option \<times> lab_world \<Rightarrow> bool" where
  "optimisation_ran env reg cid req w res \<longleftrightarrow>
     fst (check_improvement_eligibility (ox_policy env) (request_skill req) (executive_skill env req)
            (dict_get (ox_evaluators env) (request_skill req) \<noteq> None) True False) \<and>
     (\<exists>p base ev baseline st.
        get_spec ''skill'' (rq_skill_id req) (rq_skill_version req) reg = Some p \<and> pb_hash p = rq_hash req \<and>
        ox_parse_skill env (pb_content p) = Some base \<and> dict_get (ox_evaluators env) (request_skill req) = Some ev \<and>
        rounds_measured env req ev base baseline st \<and>
        conclude_optimisation env req ev cid base baseline (get_eval_cases ev)
          (evaluation_suite env req ev (os_best st) ''final-regression'' True) st w = res)"

lemma execute_optimisation_cases:
  assumes run: "execute_optimisation env reg cid req (store, repo) = (outc, (store', repo'))"
  shows "(store' = store \<and> (repo' = repo \<or> (\<exists>m. \<not> mu_validation_passed m \<and> repo' = record_mutation m repo)) \<and>
           (\<forall>x. outc = Some x \<longrightarrow> refused_outcome x)) \<or>
         optimisation_ran env reg cid req (store, repo) (outc, (store', repo'))"
proof -
  let ?ev = "dict_get (ox_evaluators env) (request_skill req)"
  obtain el reason where el: "check_improvement_eligibility (ox_policy env) (request_skill req) (executive_skill env req)
      (?ev \<noteq> None) True False = (el, reason)" by fastforce
  show ?thesis
  proof (cases "el \<and> (\<exists>p. get_spec ''skill'' (rq_skill_id req) (rq_skill_version req) reg = Some p \<and> pb_hash p = rq_hash req)")
    case False
    have "\<exists>status r. outc = Some (outcome_of status r None) \<and> store' = store \<and> repo' = repo \<and>
        status \<in> {''DEFERRED_POLICY_DISABLED'', ''NOT_ELIGIBLE''}"
    proof (cases el)
      case no: False
      with run el show ?thesis
        by (simp add: execute_optimisation_def executive_skill_def split del: if_split) (auto split: if_splits)
    next
      case yes: True
      show ?thesis
      proof (cases "get_spec ''skill'' (rq_skill_id req) (rq_skill_version req) reg")
        case None
        with run el yes show ?thesis by (simp add: execute_optimisation_def executive_skill_def) blast
      next
        case (Some p)
        with False yes have "pb_hash p \<noteq> rq_hash req" by simp
        with run el yes Some show ?thesis by (simp add: execute_optimisation_def executive_skill_def) blast
      qed
    qed
    then have "store' = store \<and> repo' = repo \<and> (\<forall>x. outc = Some x \<longrightarrow> refused_outcome x)"
      by (auto simp: outcome_of_def refused_outcome_def)
    then show ?thesis by simp
  next
    case True
    then obtain p where p: "get_spec ''skill'' (rq_skill_id req) (rq_skill_version req) reg = Some p" "pb_hash p = rq_hash req"
      and eltrue: "el" by auto
    from eltrue el have "fst (check_improvement_eligibility (ox_policy env) (request_skill req) (executive_skill env req)
         (?ev \<noteq> None) True False)" by simp
    then have "?ev \<noteq> None" unfolding eligible_exact by simp
    then obtain ev where ev: "?ev = Some ev" by auto
    have "(\<exists>base. ox_parse_skill env (pb_content p) = Some base \<and>
          optimise_skill env req ev cid base (store, repo) = (outc, (store', repo'))) \<or>
        outc = None \<and> store' = store \<and> repo' = repo"
      using run el eltrue p ev
      by (cases "ox_parse_skill env (pb_content p)") (simp_all add: execute_optimisation_def executive_skill_def)
    then show ?thesis
    proof
      assume "\<exists>base. ox_parse_skill env (pb_content p) = Some base \<and>
          optimise_skill env req ev cid base (store, repo) = (outc, (store', repo'))"
      then obtain base where b: "ox_parse_skill env (pb_content p) = Some base"
        "optimise_skill env req ev cid base (store, repo) = (outc, (store', repo'))" by blast
      from el eltrue have "fst (check_improvement_eligibility (ox_policy env) (request_skill req) (executive_skill env req)
         (?ev \<noteq> None) True False)" by simp
      with optimise_skill_cases [OF b(2)] p b(1) ev show ?thesis unfolding optimisation_ran_def by blast
    qed simp
  qed
qed

subsection \<open>Properties\<close>

lemma execute_keeps_requests:
  assumes "execute_optimisation env reg cid req (store, repo) = (outc, (store', repo'))"
  shows "ir_requests repo' = ir_requests repo \<and>
         (\<forall>x. outc = Some x \<longrightarrow> io_status x \<notin> {''PENDING'', ''RUNNING''})"
  using execute_optimisation_cases [OF assms]
proof
  assume a: "store' = store \<and> (repo' = repo \<or> (\<exists>m. \<not> mu_validation_passed m \<and> repo' = record_mutation m repo)) \<and>
           (\<forall>x. outc = Some x \<longrightarrow> refused_outcome x)"
  then have "ir_requests repo' = ir_requests repo" by (auto simp: record_mutation_requests)
  moreover have "\<And>x. refused_outcome x \<Longrightarrow> io_status x \<notin> {''PENDING'', ''RUNNING''}" by (auto simp: refused_outcome_def)
  ultimately show ?thesis using a by blast
next
  assume "optimisation_ran env reg cid req (store, repo) (outc, (store', repo'))"
  then obtain base ev baseline regression st where
    "conclude_optimisation env req ev cid base baseline (get_eval_cases ev) regression st (store, repo) = (outc, (store', repo'))"
    unfolding optimisation_ran_def by blast
  from conclude_keeps_requests [OF this] show ?thesis by auto
qed

definition valid_task :: "string \<Rightarrow> improvement_task \<Rightarrow> bool" where
  "valid_task rid task \<longleftrightarrow> rid \<noteq> [] \<and> tk_task_type task = Some ''skill_improvement'' \<and> tk_request_id task = Some rid \<and>
     truthy_opt (tk_workspace_id task)"

lemma task_finished:
  assumes "valid_task rid task" and "dict_get (ir_requests repo) rid = Some r" and "rq_status r \<notin> {''PENDING'', ''RUNNING''}"
  shows "execute_improvement_task plane task worker cid token now later (store, repo) =
           (Some (outcome_of ''STALE'' (Some ''REQUEST_ALREADY_FINISHED'') None), (store, repo))"
  using assms by (simp add: execute_improvement_task_def valid_task_def get_improvement_request_def or_else_def truthy_opt_def)

lemma task_running:
  assumes "valid_task rid task" and "dict_get (ir_requests repo) rid = Some r" and "rq_status r = ''RUNNING''"
  shows "execute_improvement_task plane task worker cid token now later (store, repo) =
           (Some (outcome_of ''STALE'' (Some ''STALE_CLAIM'') None), (store, repo))"
  using assms by (simp add: execute_improvement_task_def valid_task_def get_improvement_request_def or_else_def
      claim_improvement_request_def truthy_opt_def)

text \<open>A task that finds its request pending: what is stored for the request afterwards.\<close>

lemma task_pending:
  assumes task: "valid_task rid task" and r: "dict_get (ir_requests repo) rid = Some r" "rq_status r = ''PENDING''"
    and run: "execute_improvement_task plane task worker cid token now later (store, repo) = (outc, (store', repo'))"
  shows "dict_get (ir_requests repo') rid =
           Some (case outc of None \<Rightarrow> claim_request_as token worker now r
                 | Some x \<Rightarrow> (claim_request_as token worker now r)\<lparr>rq_status := io_status x, rq_reason_code := io_reason_code x,
                               rq_claim_token := None, rq_updated_at := later\<rparr>) \<and>
         (\<forall>k. k \<noteq> rid \<longrightarrow> dict_get (ir_requests repo') k = dict_get (ir_requests repo) k) \<and>
         (\<forall>x. outc = Some x \<longrightarrow> io_status x \<notin> {''PENDING'', ''RUNNING''})"
proof -
  let ?c = "claim_request_as token worker now r"
  let ?repo1 = "repo\<lparr>ir_requests := dict_set rid ?c (ir_requests repo)\<rparr>"
  let ?changed = "case pl_registry plane of None \<Rightarrow> False
       | Some reg \<Rightarrow> (case get_spec ''skill'' (rq_skill_id r) (rq_skill_version r) reg of
                        None \<Rightarrow> True | Some p \<Rightarrow> pb_hash p \<noteq> rq_hash r)"
  have claim: "claim_improvement_request rid worker now token repo = (Some (?c, token), ?repo1)"
    using r by (simp add: claim_improvement_request_def Let_def)
  have fin: "\<And>x rp. ir_requests rp = ir_requests ?repo1 \<Longrightarrow> finish_improvement_request rid token x later rp =
      (True, rp\<lparr>ir_requests := dict_set rid (?c\<lparr>rq_status := io_status x, rq_reason_code := io_reason_code x,
                               rq_claim_token := None, rq_updated_at := later\<rparr>) (ir_requests rp)\<rparr>)"
    by (simp add: finish_improvement_request_def claim_request_as_def)
  note unf = execute_improvement_task_def get_improvement_request_def claim Let_def
  have valid: "tk_task_type task = Some ''skill_improvement''" "tk_request_id task = Some rid" "rid \<noteq> []"
    "truthy_opt (tk_workspace_id task)" "truthy_opt (Some rid)" "or_else (Some rid) [] = rid"
    using task by (simp_all add: valid_task_def truthy_opt_def or_else_def)
  show ?thesis
  proof (cases ?changed)
    case True
    then show ?thesis using run r valid fin [of ?repo1] by (auto simp: unf outcome_of_def)
  next
    case False
    show ?thesis
    proof (cases "pl_service plane")
      case None
      then show ?thesis using False run r valid fin [of ?repo1] by (auto simp: unf outcome_of_def)
    next
      case (Some svc)
      obtain env reg where svc: "svc = (env, reg)" by fastforce
      obtain oc st1 rp1 where ex: "execute_optimisation env reg cid ?c (store, ?repo1) = (oc, (st1, rp1))"
        by (metis prod.exhaust)
      note k = execute_keeps_requests [OF ex]
      show ?thesis
      proof (cases oc)
        case None
        then show ?thesis using False Some svc ex run r valid k by (auto simp: unf)
      next
        case (Some x)
        then show ?thesis using False \<open>pl_service plane = Some svc\<close> svc ex run r valid k fin [of rp1]
          by (auto simp: unf)
      qed
    qed
  qed
qed

text \<open>C25. Whatever the mutator and the kernel answer, \<open>execute\<close> changes the store of candidates only for a
  registered, allowed skill that is not an executive one, outside the modes OFF and OBSERVE, and whose
  published source still has the hash of the request. It then saves one candidate, under the fresh
  identifier: with the identity, the capabilities, the autonomy ceiling and the side-effect class of the
  source, evaluated and without approval, after at most \<open>max_rounds\<close> mutations of which one was accepted. Both
  scores are measurements of the registered evaluator: the baseline is the score of the source and the best skill
  had a higher one in its round, both without the held-out cases; the saved score is that of the best skill on all
  cases, is not below the threshold, and its difference to the baseline, as floats subtract, is positive.\<close>

theorem optimised_candidate_safe:
  assumes "execute_optimisation env reg cid req (store, repo) = (Some outc, (store', repo'))"
    and "store' \<noteq> store \<or> io_status outc = ''COMPLETED''"
  shows "io_status outc = ''COMPLETED'' \<and> io_candidate_id outc = Some cid \<and>
    ip_mode (ox_policy env) \<notin> {''OFF'', ''OBSERVE''} \<and>
    (\<exists>ids. ip_allowed (ox_policy env) = Some ids \<and> request_skill req \<in> set ids) \<and> \<not> executive_skill env req \<and>
    (\<exists>p ev base baseline c ms.
       get_spec ''skill'' (rq_skill_id req) (rq_skill_version req) reg = Some p \<and> pb_hash p = rq_hash req \<and>
       dict_get (ox_evaluators env) (request_skill req) = Some ev \<and> ox_parse_skill env (pb_content p) = Some base \<and>
       store' = dict_set (rq_workspace_id req, cid) c store \<and> completed_candidate env req cid base baseline c \<and>
       measured_better env req ev base baseline c \<and>
       ir_mutations repo' = ir_mutations repo @ ms \<and> completed_mutations env cid ms)"
  using execute_optimisation_cases [OF assms(1)]
proof
  assume "store' = store \<and> (repo' = repo \<or> (\<exists>m. \<not> mu_validation_passed m \<and> repo' = record_mutation m repo)) \<and>
           (\<forall>x. Some outc = Some x \<longrightarrow> refused_outcome x)"
  with assms(2) show ?thesis by (auto simp: refused_outcome_def)
next
  assume "optimisation_ran env reg cid req (store, repo) (Some outc, (store', repo'))"
  then obtain p base ev baseline st where
      el: "fst (check_improvement_eligibility (ox_policy env) (request_skill req) (executive_skill env req)
                (dict_get (ox_evaluators env) (request_skill req) \<noteq> None) True False)"
    and p: "get_spec ''skill'' (rq_skill_id req) (rq_skill_version req) reg = Some p" "pb_hash p = rq_hash req"
      "ox_parse_skill env (pb_content p) = Some base" "dict_get (ox_evaluators env) (request_skill req) = Some ev"
    and m: "rounds_measured env req ev base baseline st"
    and c: "conclude_optimisation env req ev cid base baseline (get_eval_cases ev)
               (evaluation_suite env req ev (os_best st) ''final-regression'' True) st (store, repo) = (Some outc, (store', repo'))"
    unfolding optimisation_ran_def by blast
  have "io_status outc \<noteq> ''NO_IMPROVEMENT'' \<or> store' \<noteq> store" using assms(2) by auto
  with conclude_optimisation_cases [OF c] m assms(2) obtain d ms where
    d: "io_status outc = ''COMPLETED''" "io_candidate_id outc = Some cid"
      "store' = dict_set (rq_workspace_id req, cid) d store" "completed_candidate env req cid base baseline d"
      "map_option fst (evaluation_suite env req ev (os_best st) ''final-regression'' True) = Some (cd_eval_score d)"
      "baseline < os_score st" "0 < os_accepted st"
      "\<exists>h. cd_skill d = (os_best st)\<lparr>sk_version := sk_version base @ ''-opt'', sk_status := ''CANDIDATE'', sk_hash := h\<rparr>"
      "ir_mutations repo' = ir_mutations repo @ ms" "completed_mutations env cid ms"
    by (auto simp: rounds_measured_def)
  have "measured_better env req ev base baseline d"
    using m d(5-8) unfolding measured_better_def rounds_measured_def best_scored_def by auto
  with d el [unfolded eligible_exact] p show ?thesis by blast
qed

text \<open>A task settles a pending request once: the request takes the status of the outcome, drops its
  token and counts one attempt, the other requests stay, and every later task for it is stale and changes
  nothing.\<close>

theorem improvement_task_once:
  assumes "valid_task rid task" and "dict_get (ir_requests repo) rid = Some r" and "rq_status r = ''PENDING''"
    and "execute_improvement_task plane task worker cid token now later (store, repo) = (Some outc, (store', repo'))"
    and "valid_task rid task'"
  shows "(\<exists>r'. dict_get (ir_requests repo') rid = Some r' \<and> rq_status r' = io_status outc \<and> rq_claim_token r' = None \<and>
            rq_attempt_count r' = rq_attempt_count r + 1 \<and> \<not> live_request r') \<and>
         (\<forall>k. k \<noteq> rid \<longrightarrow> dict_get (ir_requests repo') k = dict_get (ir_requests repo) k) \<and>
         execute_improvement_task plane' task' worker' cid' token' now' later' (store', repo') =
           (Some (outcome_of ''STALE'' (Some ''REQUEST_ALREADY_FINISHED'') None), (store', repo'))"
proof -
  let ?r = "(claim_request_as token worker now r)\<lparr>rq_status := io_status outc, rq_reason_code := io_reason_code outc,
                               rq_claim_token := None, rq_updated_at := later\<rparr>"
  note t = task_pending [OF assms(1-4), simplified]
  have "execute_improvement_task plane' task' worker' cid' token' now' later' (store', repo') =
           (Some (outcome_of ''STALE'' (Some ''REQUEST_ALREADY_FINISHED'') None), (store', repo'))"
    using t by (intro task_finished [OF assms(5), where r = ?r]) simp_all
  with t show ?thesis by (simp add: claim_request_as_def live_request_def)
qed

text \<open>When the service raises, the request stays RUNNING: every later task for it is stale and changes
  nothing, and no further degradation of this identity queues a request.\<close>

theorem raising_service_blocks_request:
  assumes "valid_task rid task" and "dict_get (ir_requests repo) rid = Some r" and "rq_status r = ''PENDING''"
    and "execute_improvement_task plane task worker cid token now later (store, repo) = (None, (store', repo'))"
    and "valid_task rid task'" and "aggregate_identity a = request_identity r"
  shows "execute_improvement_task plane' task' worker' cid' token' now' later' (store', repo') =
           (Some (outcome_of ''STALE'' (Some ''STALE_CLAIM'') None), (store', repo')) \<and>
         snd (snd (queue_improvement pol a rid' oid t t' repo')) = repo'"
proof -
  let ?r = "claim_request_as token worker now r"
  note t = task_pending [OF assms(1-4), simplified]
  from t have get: "dict_get (ir_requests repo') rid = Some ?r" by simp
  have live: "live_request ?r" "request_identity ?r = request_identity r"
    by (simp_all add: live_request_def claim_request_as_def request_identity_def)
  have "?r \<in> set (dict_values (ir_requests repo'))" using map_of_SomeD [OF get] by force
  with live assms(6) have "live_request_of (aggregate_identity a) repo' \<noteq> None"
    unfolding live_request_of_def find_None_iff by metis
  then have "snd (snd (queue_improvement pol a rid' oid t t' repo')) = repo'"
    by (auto simp: queue_improvement_def split: feedback_health.split option.split)
  moreover have "execute_improvement_task plane' task' worker' cid' token' now' later' (store', repo') =
           (Some (outcome_of ''STALE'' (Some ''STALE_CLAIM'') None), (store', repo'))"
    using get by (intro task_running [OF assms(5) get]) (simp add: claim_request_as_def)
  ultimately show ?thesis by simp
qed

subsection \<open>An example run\<close>

text \<open>The kernel answers with its instructions and the mutator appends \<open>yes\<close> to them, the reason the one
  case expects.\<close>

definition example_optimisation :: "(skill_spec \<Rightarrow> nat \<Rightarrow> skill_spec option) option \<Rightarrow> optimisation_env" where
  "example_optimisation mutator =
     \<lparr>ox_spec = plain_env, ox_floats = exact_floats,
      ox_text = \<lparr>tf_str = (\<lambda>v. case v of PStr s \<Rightarrow> s | _ \<Rightarrow> []), tf_lower = py_lower\<rparr>,
      ox_kernel = (\<lambda>sp inp n. Some \<lparr>lr_status = ''COMPLETED'', lr_output = PStr (ag_instructions sp)\<rparr>),
      ox_policy = candidate_policy,
      ox_evaluators = [((''s'', ''1'', ''h''), \<lparr>rv_cases = [\<lparr>sc_id = ''c1'', sc_input_payload = [], sc_outcome = ''accept'',
         sc_reason = Some ''Yes''\<rparr>], rv_suite_ref = ''suite'', rv_suite_hash = ''sh'', rv_custom_score = None\<rparr>)],
      ox_mutator = mutator, ox_mutator_name = ''append'', ox_parse_skill = (\<lambda>c. Some (example_skill ''s''))\<rparr>"

definition append_yes :: "skill_spec \<Rightarrow> nat \<Rightarrow> skill_spec option" where
  "append_yes s n = Some (s\<lparr>sk_instructions := sk_instructions s @ '' yes''\<rparr>)"

definition example_source :: spec_registry where
  "example_source = [((''skill'', ''s'', ''1''), new_published ''skill'' ''s'' ''1'' ''h'' [] None 0)]"

definition example_request :: improvement_request where
  "example_request =
     \<lparr>rq_id = ''r'', rq_workspace_id = ''w'', rq_skill_id = ''s'', rq_skill_version = ''1'', rq_hash = ''h'', rq_revision = 2,
      rq_policy_hash = ''p'', rq_status = ''PENDING'', rq_attempt_count = 0, rq_claim_token = None, rq_claimed_by = None,
      rq_claimed_at = None, rq_reason_code = None, rq_project_id = None, rq_manifest_hash = None, rq_created_at = 0,
      rq_updated_at = 0\<rparr>"

definition example_repo :: improvement_repo where
  "example_repo = create_improvement_request example_request empty_improvements"

definition example_task :: improvement_task where
  "example_task = \<lparr>tk_task_type = Some ''skill_improvement'', tk_request_id = Some ''r'', tk_workspace_id = Some ''w''\<rparr>"

definition example_plane :: "(skill_spec \<Rightarrow> nat \<Rightarrow> skill_spec option) option \<Rightarrow> improvement_plane" where
  "example_plane mutator =
     \<lparr>pl_registry = Some example_source, pl_service = Some (example_optimisation mutator, example_source)\<rparr>"

text \<open>Witness of C25: the second mutation does not improve any more.\<close>

theorem optimised_candidate_safe_witness:
  "let (store, repo) = snd (execute_optimisation (example_optimisation (Some append_yes)) example_source ''cand''
                              example_request ([], empty_improvements))
   in (\<exists>c ev base. store = [((''w'', ''cand''), c)] \<and> cd_status c = ''EVALUATED'' \<and> cd_approval_id c = None \<and>
         measured_better (example_optimisation (Some append_yes)) example_request ev base (1 / 2) c) \<and>
      length (ir_mutations repo) = 2"
proof -
  let ?env = "example_optimisation (Some append_yes)"
  have o: "map_option io_status (fst (execute_optimisation ?env example_source ''cand'' example_request ([], empty_improvements))) =
      Some ''COMPLETED'' \<and>
      length (ir_mutations (snd (snd (execute_optimisation ?env example_source ''cand'' example_request ([], empty_improvements))))) = 2"
    and half: "map_option fst (evaluation_suite ?env example_request (snd (hd (ox_evaluators ?env))) (example_skill ''s'') ''r0-baseline'' False)
      = Some (1 / 2)"
    by code_simp+
  from o obtain x store repo where run: "execute_optimisation ?env example_source ''cand'' example_request ([], empty_improvements) =
      (Some x, (store, repo))" "io_status x = ''COMPLETED''" "length (ir_mutations repo) = 2"
    by (cases "execute_optimisation ?env example_source ''cand'' example_request ([], empty_improvements)") auto
  from optimised_candidate_safe [OF run(1) disjI2 [OF run(2)]] obtain p :: published_spec and ev base baseline c where c:
    "store = dict_set (rq_workspace_id example_request, ''cand'') c []"
    "completed_candidate ?env example_request ''cand'' base baseline c"
    "dict_get (ox_evaluators ?env) (request_skill example_request) = Some ev" "ox_parse_skill ?env (pb_content p) = Some base"
    "measured_better ?env example_request ev base baseline c"
    by blast
  have "ev = snd (hd (ox_evaluators ?env))" "base = example_skill ''s''"
    using c(3,4) by (simp_all add: example_optimisation_def request_skill_def example_request_def)
  with c(5) half have "baseline = 1 / 2" by (simp add: measured_better_def)
  with c(5) have "\<exists>ev base. measured_better ?env example_request ev base (1 / 2) c" by metis
  moreover have "rq_workspace_id example_request = ''w''" by (simp add: example_request_def)
  ultimately show ?thesis using run c(1,2) by (auto simp: completed_candidate_def)
qed

text \<open>An instance: the task is delivered twice.\<close>

theorem improvement_task_once_witness:
  "\<exists>store repo r. snd (execute_improvement_task (example_plane (Some append_yes)) example_task ''w1'' ''cand'' ''t'' 1 2
                        ([], example_repo)) = (store, repo) \<and>
     dict_get (ir_requests repo) ''r'' = Some r \<and> rq_status r = ''COMPLETED'' \<and> rq_attempt_count r = 1 \<and>
     execute_improvement_task (example_plane None) example_task ''w2'' ''cand2'' ''u'' 3 4 (store, repo) =
       (Some (outcome_of ''STALE'' (Some ''REQUEST_ALREADY_FINISHED'') None), (store, repo))"
proof -
  let ?run = "execute_improvement_task (example_plane (Some append_yes)) example_task ''w1'' ''cand'' ''t'' 1 2 ([], example_repo)"
  have o: "map_option io_status (fst ?run) = Some ''COMPLETED''" by code_simp
  obtain x store repo where run: "?run = (Some x, (store, repo))" "io_status x = ''COMPLETED''"
    using o by (cases ?run) auto
  have task: "valid_task ''r'' example_task" by code_simp
  have req: "dict_get (ir_requests example_repo) ''r'' = Some example_request" "rq_status example_request = ''PENDING''"
    "rq_attempt_count example_request = 0"
    by code_simp+
  from improvement_task_once [OF task req(1,2) run(1) task, of "example_plane None" "''w2''" "''cand2''" "''u''" 3 4]
  show ?thesis using run req(3) by auto
qed

text \<open>An instance: a mutator that raises.\<close>

theorem raising_service_blocks_request_witness:
  "\<exists>store repo. execute_improvement_task (example_plane (Some (\<lambda>s n. None))) example_task ''w1'' ''cand'' ''t'' 1 2
                  ([], example_repo) = (None, (store, repo)) \<and>
     execute_improvement_task (example_plane (Some append_yes)) example_task ''w2'' ''cand2'' ''u'' 3 4 (store, repo) =
       (Some (outcome_of ''STALE'' (Some ''STALE_CLAIM'') None), (store, repo))"
proof -
  let ?run = "execute_improvement_task (example_plane (Some (\<lambda>s n. None))) example_task ''w1'' ''cand'' ''t'' 1 2 ([], example_repo)"
  let ?a = "\<lparr>fa_workspace_id = ''w'', fa_skill_id = ''s'', fa_skill_version = ''1'', fa_hash = ''h'', fa_revision = 3,
      fa_sample_count = 3, fa_score = 0, fa_previous_score = None, fa_delta = None, fa_window_started_at = 0,
      fa_window_ended_at = 0, fa_health = DEGRADING, fa_project_id = None, fa_manifest_hash = None, fa_created_at = 0\<rparr>"
  have "fst ?run = None" by code_simp
  then obtain store repo where run: "?run = (None, (store, repo))" by (cases ?run) auto
  have task: "valid_task ''r'' example_task" by code_simp
  have req: "dict_get (ir_requests example_repo) ''r'' = Some example_request" "rq_status example_request = ''PENDING''"
    by code_simp+
  have a: "aggregate_identity ?a = request_identity example_request" by code_simp
  from raising_service_blocks_request [OF task req run task a, of "example_plane (Some append_yes)" "''w2''" "''cand2''" "''u''" 3 4]
    run show ?thesis by blast
qed

end
