(* ===== verification/Vault.thy ===== *)
theory Vault
  imports Keyed
begin

text \<open>
  The document vault: records (\<open>packages/agent/vault/models.py\<close>), the in-memory repository of documents,
  versions and access grants (\<open>vault/repository.py\<close>), the life cycle of documents and standard operating
  procedures (\<open>vault/lifecycle.py\<close>) and the access decision
  (\<open>apps/cosa/knowledge_ingestion/authorization.py\<close>). A UUID is an integer; the set of roles of a caller is
  a list; the order in which Python iterates over a set is an argument.
\<close>

subsection \<open>Records\<close>

datatype vault_classification = VC_PUBLIC | VC_INTERNAL | VC_CONFIDENTIAL | VC_RESTRICTED

datatype vault_visibility = VV_PRIVATE | VV_WORKSPACE | VV_ROLE

datatype grant_subject_type = GS_USER | GS_TEAM | GS_ROLE

datatype vault_permission = VP_READ | VP_REVIEW | VP_PUBLISH | VP_MANAGE

record vault_document =
  vd_id :: int
  vd_workspace_id :: string
  vd_title :: string
  vd_kind :: string
  vd_state :: string
  vd_current_version_id :: "int option"
  vd_knowledge_source_id :: "int option"
  vd_created_by :: string
  vd_created_at :: datetime
  vd_updated_at :: datetime
  vd_classification :: vault_classification
  vd_visibility :: vault_visibility
  vd_policy_version :: int
  vd_retention_until :: "datetime option"
  vd_legal_hold :: bool

record vault_version =
  vv_id :: int
  vv_workspace_id :: string
  vv_document_id :: int
  vv_object_ref :: payload
  vv_checksum :: string
  vv_size_bytes :: int
  vv_source_uri :: string
  vv_created_by :: string
  vv_created_at :: datetime
  vv_classification :: vault_classification
  vv_visibility :: vault_visibility
  vv_policy_version :: int
  vv_retention_until :: "datetime option"
  vv_legal_hold :: bool

record access_grant =
  gr_subject_type :: grant_subject_type
  gr_subject_id :: string
  gr_permission :: vault_permission
  gr_granted_by :: string
  gr_grant_id :: "int option"
  gr_created_at :: "datetime option"

record vault_graph_node =
  gn_id :: string
  gn_label :: string
  gn_kind :: string
  gn_source_ref :: string
  gn_metadata :: payload

subsection \<open>The repository\<close>

record vault_repo =
  vr_documents :: "(string \<times> int, vault_document) pydict"
  vr_versions :: "(string \<times> int, vault_version) pydict"
  vr_grants :: "(string \<times> int, access_grant list) pydict"

definition empty_vault :: vault_repo where
  "empty_vault = \<lparr>vr_documents = [], vr_versions = [], vr_grants = []\<rparr>"

text \<open>\<open>did\<close> is the generated identifier.\<close>

definition draft_document ::
  "string \<Rightarrow> int \<Rightarrow> string \<Rightarrow> string \<Rightarrow> string \<Rightarrow> vault_classification \<Rightarrow> vault_visibility \<Rightarrow> datetime \<Rightarrow> vault_document" where
  "draft_document ws did title kind creator cls vis now =
     \<lparr>vd_id = did, vd_workspace_id = ws, vd_title = title, vd_kind = kind, vd_state = ''DRAFT'',
      vd_current_version_id = None, vd_knowledge_source_id = None, vd_created_by = creator,
      vd_created_at = now, vd_updated_at = now, vd_classification = cls, vd_visibility = vis,
      vd_policy_version = 1, vd_retention_until = None, vd_legal_hold = False\<rparr>"

definition create_draft ::
  "string \<Rightarrow> int \<Rightarrow> string \<Rightarrow> string \<Rightarrow> string \<Rightarrow> vault_classification \<Rightarrow> vault_visibility \<Rightarrow> datetime \<Rightarrow> vault_repo
     \<Rightarrow> vault_document \<times> vault_repo" where
  "create_draft ws did title kind creator cls vis now repo =
     (let d = draft_document ws did title kind creator cls vis now
      in (d, repo\<lparr>vr_documents := dict_set (ws, did) d (vr_documents repo)\<rparr>))"

definition document_grants :: "string \<Rightarrow> int \<Rightarrow> vault_repo \<Rightarrow> access_grant list" where
  "document_grants ws did repo = dict_get_or (vr_grants repo) (ws, did) []"

definition grant_access :: "string \<Rightarrow> int \<Rightarrow> access_grant \<Rightarrow> vault_repo \<Rightarrow> vault_repo" where
  "grant_access ws did g repo =
     (let existing = document_grants ws did repo;
          known = list_ex (\<lambda>x. gr_subject_type x = gr_subject_type g \<and> gr_subject_id x = gr_subject_id g \<and>
                               gr_permission x = gr_permission g) existing
      in repo\<lparr>vr_grants := dict_set (ws, did) (if known then existing else existing @ [g]) (vr_grants repo)\<rparr>)"

definition revoke_access :: "string \<Rightarrow> int \<Rightarrow> grant_subject_type \<Rightarrow> string \<Rightarrow> vault_repo \<Rightarrow> vault_repo" where
  "revoke_access ws did kind subject repo =
     (let existing = document_grants ws did repo
      in if existing = [] then repo
         else repo\<lparr>vr_grants := dict_set (ws, did)
                (filter (\<lambda>g. \<not> (gr_subject_type g = kind \<and> gr_subject_id g = subject)) existing) (vr_grants repo)\<rparr>)"

definition get_document :: "string \<Rightarrow> int \<Rightarrow> vault_repo \<Rightarrow> vault_document option" where
  "get_document ws did repo = dict_get (vr_documents repo) (ws, did)"

definition set_legal_hold :: "string \<Rightarrow> int \<Rightarrow> bool \<Rightarrow> datetime \<Rightarrow> vault_repo \<Rightarrow> vault_document option \<times> vault_repo" where
  "set_legal_hold ws did hold now repo =
     (case get_document ws did repo of
        None \<Rightarrow> (None, repo)
      | Some d \<Rightarrow>
          (let d' = d\<lparr>vd_legal_hold := hold, vd_updated_at := now\<rparr>
           in (Some d', repo\<lparr>vr_documents := dict_set (ws, did) d' (vr_documents repo)\<rparr>)))"

text \<open>A grant that gives a caller the permission.\<close>

definition grants :: "string \<Rightarrow> string list \<Rightarrow> vault_permission \<Rightarrow> access_grant \<Rightarrow> bool" where
  "grants who roles perm g \<longleftrightarrow>
     gr_permission g = perm \<and>
     (gr_subject_type g = GS_USER \<and> gr_subject_id g = who \<or> gr_subject_type g = GS_ROLE \<and> gr_subject_id g \<in> set roles)"

definition has_explicit_grant :: "string \<Rightarrow> int \<Rightarrow> string \<Rightarrow> string list \<Rightarrow> vault_permission \<Rightarrow> vault_repo \<Rightarrow> bool" where
  "has_explicit_grant ws did who roles perm repo = list_ex (grants who roles perm) (document_grants ws did repo)"

definition workspace_wide_read :: "vault_document \<Rightarrow> bool" where
  "workspace_wide_read d \<longleftrightarrow> vd_visibility d = VV_WORKSPACE \<and> vd_classification d \<noteq> VC_RESTRICTED"

definition document_readable :: "string \<Rightarrow> string \<Rightarrow> string list \<Rightarrow> vault_repo \<Rightarrow> int \<Rightarrow> vault_document \<Rightarrow> bool" where
  "document_readable ws who roles repo did d \<longleftrightarrow>
     workspace_wide_read d \<or> vd_created_by d = who \<or> list_ex (grants who roles VP_READ) (document_grants ws did repo)"

definition resolve_accessible_document_ids :: "string \<Rightarrow> string \<Rightarrow> string list \<Rightarrow> vault_repo \<Rightarrow> int set" where
  "resolve_accessible_document_ids ws who roles repo =
     set (map (\<lambda>x. snd (fst x))
       (filter (\<lambda>x. fst (fst x) = ws \<and> document_readable ws who roles repo (snd (fst x)) (snd x)) (vr_documents repo)))"

text \<open>\<open>order\<close> enumerates the set in the order Python iterates over it.\<close>

definition list_authorized_documents ::
  "(int set \<Rightarrow> int list) \<Rightarrow> string \<Rightarrow> string \<Rightarrow> string list \<Rightarrow> vault_repo \<Rightarrow> vault_document list" where
  "list_authorized_documents order ws who roles repo =
     sort_key (\<lambda>d. - vd_updated_at d)
       (List.map_filter (\<lambda>did. dict_get (vr_documents repo) (ws, did)) (order (resolve_accessible_document_ids ws who roles repo)))"

text \<open>\<open>append_version\<close> raises \<open>KeyError\<close> for an unknown document; \<open>vid\<close> is the identifier given or
  generated.\<close>

definition append_version ::
  "string \<Rightarrow> int \<Rightarrow> payload \<Rightarrow> string \<Rightarrow> int \<Rightarrow> string \<Rightarrow> string \<Rightarrow> int \<Rightarrow> datetime \<Rightarrow> vault_repo
     \<Rightarrow> vault_version option \<times> vault_repo" where
  "append_version ws did ref checksum bytes uri creator vid now repo =
     (case get_document ws did repo of
        None \<Rightarrow> (None, repo)
      | Some d \<Rightarrow>
          (let v = \<lparr>vv_id = vid, vv_workspace_id = ws, vv_document_id = did, vv_object_ref = ref, vv_checksum = checksum,
                    vv_size_bytes = bytes, vv_source_uri = uri, vv_created_by = creator, vv_created_at = now,
                    vv_classification = VC_INTERNAL, vv_visibility = VV_PRIVATE, vv_policy_version = 1,
                    vv_retention_until = None, vv_legal_hold = False\<rparr>
           in (Some v, repo\<lparr>vr_versions := dict_set (ws, vid) v (vr_versions repo),
                            vr_documents := dict_set (ws, did)
                              (d\<lparr>vd_current_version_id := Some vid, vd_updated_at := now\<rparr>) (vr_documents repo)\<rparr>)))"

definition list_documents :: "string \<Rightarrow> string option \<Rightarrow> int \<Rightarrow> vault_repo \<Rightarrow> vault_document list" where
  "list_documents ws state limit repo =
     py_take limit (sort_key (\<lambda>d. - vd_updated_at d)
       (filter (\<lambda>d. vd_workspace_id d = ws \<and> (case state of None \<Rightarrow> True | Some s \<Rightarrow> vd_state d = s)) (dict_values (vr_documents repo))))"

text \<open>A \<open>UUID\<close> is truthy, so the old source stays only when none is given.\<close>

definition update_document_state ::
  "string \<Rightarrow> int \<Rightarrow> string \<Rightarrow> int option \<Rightarrow> datetime \<Rightarrow> vault_repo \<Rightarrow> vault_document option \<times> vault_repo" where
  "update_document_state ws did state source now repo =
     (case get_document ws did repo of
        None \<Rightarrow> (None, repo)
      | Some d \<Rightarrow>
          (let d' = d\<lparr>vd_state := state,
                      vd_knowledge_source_id := (case source of None \<Rightarrow> vd_knowledge_source_id d | Some x \<Rightarrow> Some x),
                      vd_updated_at := now\<rparr>
           in (Some d', repo\<lparr>vr_documents := dict_set (ws, did) d' (vr_documents repo)\<rparr>)))"

definition delete_document :: "string \<Rightarrow> int \<Rightarrow> vault_repo \<Rightarrow> bool \<times> vault_repo" where
  "delete_document ws did repo =
     (if get_document ws did repo = None then (False, repo)
      else (True, repo\<lparr>vr_documents := dict_del (ws, did) (vr_documents repo),
                       vr_versions := filter (\<lambda>x. \<not> (vv_workspace_id (snd x) = ws \<and> vv_document_id (snd x) = did))
                                        (vr_versions repo)\<rparr>))"

definition list_versions :: "string \<Rightarrow> int \<Rightarrow> vault_repo \<Rightarrow> vault_version list" where
  "list_versions ws did repo =
     sort_key (\<lambda>v. - vv_created_at v)
       (filter (\<lambda>v. vv_workspace_id v = ws \<and> vv_document_id v = did) (dict_values (vr_versions repo)))"

definition get_version :: "string \<Rightarrow> int \<Rightarrow> vault_repo \<Rightarrow> vault_version option" where
  "get_version ws vid repo = dict_get (vr_versions repo) (ws, vid)"

text \<open>The nodes of the knowledge graph, which has no edges; \<open>uuid_str\<close> and \<open>iso_str\<close> print identifiers and
  times.\<close>

definition get_knowledge_graph :: "(int \<Rightarrow> string) \<Rightarrow> (datetime \<Rightarrow> string) \<Rightarrow> string \<Rightarrow> vault_repo \<Rightarrow> vault_graph_node list" where
  "get_knowledge_graph uuid_str iso_str ws repo =
     map (\<lambda>d. \<lparr>gn_id = uuid_str (vd_id d), gn_label = vd_title d, gn_kind = vd_kind d,
               gn_source_ref = ''vault.documents:'' @ uuid_str (vd_id d),
               gn_metadata = [(''state'', PStr (vd_state d)), (''created_at'', PStr (iso_str (vd_created_at d)))]\<rparr>)
       (list_documents ws None 200 repo)"


subsection \<open>Life cycles\<close>

datatype document_state = QUARANTINED | SCANNED | REVIEW_PENDING | PUBLISHED | ARCHIVED | PURGED

fun document_transitions :: "document_state \<Rightarrow> document_state list" where
  "document_transitions QUARANTINED = [SCANNED, PURGED]"
| "document_transitions SCANNED = [REVIEW_PENDING, QUARANTINED, PURGED]"
| "document_transitions REVIEW_PENDING = [PUBLISHED, QUARANTINED, ARCHIVED]"
| "document_transitions PUBLISHED = [ARCHIVED, REVIEW_PENDING]"
| "document_transitions ARCHIVED = [PURGED]"
| "document_transitions PURGED = []"

text \<open>\<open>None\<close> is a \<open>LifecycleError\<close>.\<close>

definition advance_document_state :: "document_state \<Rightarrow> document_state \<Rightarrow> document_state option" where
  "advance_document_state current target =
     (if target = current then Some current
      else if target \<notin> set (document_transitions current) then None
      else Some target)"

definition assert_publishable :: "string option \<Rightarrow> string option \<Rightarrow> bool" where
  "assert_publishable vault_object_ref source_uri \<longleftrightarrow>
     truthy_opt vault_object_ref \<and> truthy_opt source_uri \<and> py_contains ''workspaces/'' (or_else source_uri [])"

datatype sop_status = SOP_DRAFT | SOP_REVIEW | SOP_ACTIVE | SOP_RETIRED

fun sop_transitions :: "sop_status \<Rightarrow> sop_status list" where
  "sop_transitions SOP_DRAFT = [SOP_REVIEW, SOP_RETIRED]"
| "sop_transitions SOP_REVIEW = [SOP_ACTIVE, SOP_DRAFT, SOP_RETIRED]"
| "sop_transitions SOP_ACTIVE = [SOP_RETIRED, SOP_REVIEW]"
| "sop_transitions SOP_RETIRED = [SOP_DRAFT]"

record sop_version =
  sv_id :: int
  sv_workspace_id :: int
  sv_sop_id :: int
  sv_content_ref :: string
  sv_normalized_ref :: "string option"
  sv_checksum :: "string option"
  sv_effective_from :: "string option"
  sv_approved_by :: "int option"

record sop_definition =
  sp_id :: int
  sp_workspace_id :: int
  sp_title :: string
  sp_owner_member_id :: int
  sp_status :: sop_status
  sp_current_version_id :: "int option"
  sp_risk_class :: string
  sp_approval_policy :: "string option"
  sp_versions :: "sop_version list"

datatype sop_error = SopTransition | SopNoVersion | SopVersionMissing | SopVersionWorkspace | SopNotApproved

definition sop_current_version :: "sop_definition \<Rightarrow> sop_error + sop_version" where
  "sop_current_version s =
     (case sp_current_version_id s of
        None \<Rightarrow> Inl SopNoVersion
      | Some vid \<Rightarrow>
          (case List.find (\<lambda>v. sv_id v = vid) (sp_versions s) of
             None \<Rightarrow> Inl SopVersionMissing
           | Some v \<Rightarrow>
               if sv_workspace_id v \<noteq> sp_workspace_id s then Inl SopVersionWorkspace
               else if sv_approved_by v = None then Inl SopNotApproved
               else Inr v))"

definition advance_sop_status :: "sop_definition \<Rightarrow> sop_status \<Rightarrow> sop_error + sop_definition" where
  "advance_sop_status s target =
     (if target = sp_status s then Inr s
      else if target \<notin> set (sop_transitions (sp_status s)) then Inl SopTransition
      else if target = SOP_ACTIVE then
        (case sop_current_version s of
           Inl e \<Rightarrow> Inl e
         | Inr v \<Rightarrow> Inr (s\<lparr>sp_status := target\<rparr>))
      else Inr (s\<lparr>sp_status := target\<rparr>))"

definition select_procedural_sops :: "int option \<Rightarrow> sop_definition list \<Rightarrow> sop_definition list" where
  "select_procedural_sops ws sops =
     filter (\<lambda>s. sp_status s = SOP_ACTIVE \<and> (case ws of None \<Rightarrow> True | Some w \<Rightarrow> sp_workspace_id s = w)) sops"

definition active_sop_titles :: "int option \<Rightarrow> sop_definition list \<Rightarrow> string list" where
  "active_sop_titles ws sops = map sp_title (select_procedural_sops ws sops)"

subsection \<open>The access decision\<close>

record vault_identity =
  id_principal_id :: string
  id_role_id :: "string option"
  id_workspace_id :: string

record access_decision =
  dc_discover :: bool
  dc_read :: bool
  dc_download :: bool
  dc_manage :: bool
  dc_review :: bool
  dc_publish :: bool
  dc_policy_version :: int
  dc_denial_code :: "string option"

definition deny_access :: "int \<Rightarrow> string \<Rightarrow> access_decision" where
  "deny_access version code =
     \<lparr>dc_discover = False, dc_read = False, dc_download = False, dc_manage = False, dc_review = False,
      dc_publish = False, dc_policy_version = version, dc_denial_code = Some code\<rparr>"

definition allow_all_access :: "int \<Rightarrow> access_decision" where
  "allow_all_access version =
     \<lparr>dc_discover = True, dc_read = True, dc_download = True, dc_manage = True, dc_review = True,
      dc_publish = True, dc_policy_version = version, dc_denial_code = None\<rparr>"

definition operator_roles :: "string list" where
  "operator_roles = [''founder'', ''co-founder'', ''admin'']"

definition is_operator :: "vault_identity \<Rightarrow> bool" where
  "is_operator who \<longleftrightarrow> py_lower (or_else (id_role_id who) []) \<in> set operator_roles"

definition role_ids :: "vault_identity \<Rightarrow> string list" where
  "role_ids who = (if truthy_opt (id_role_id who) then [or_else (id_role_id who) []] else [])"

text \<open>\<open>KnowledgeAuthorization.resolve\<close> with the workspace of the identity.\<close>

definition resolve_access :: "vault_identity \<Rightarrow> int \<Rightarrow> vault_repo \<Rightarrow> access_decision" where
  "resolve_access who did repo =
     (let ws = id_workspace_id who in
      case get_document ws did repo of
        None \<Rightarrow> deny_access 0 ''document_not_found''
      | Some d \<Rightarrow>
          if is_operator who then allow_all_access (vd_policy_version d)
          else
            (let granted = (\<lambda>p. has_explicit_grant ws did (id_principal_id who) (role_ids who) p repo);
                 is_owner = (vd_created_by d = id_principal_id who);
                 rd = (is_owner \<or> granted VP_READ \<or> workspace_wide_read d);
                 mg = (is_owner \<or> granted VP_MANAGE);
                 rv = granted VP_REVIEW;
                 pb = granted VP_PUBLISH
             in if \<not> (rd \<or> mg \<or> rv \<or> pb) then deny_access (vd_policy_version d) ''not_granted''
                else \<lparr>dc_discover = True, dc_read = rd, dc_download = rd, dc_manage = mg, dc_review = rv, dc_publish = pb,
                      dc_policy_version = vd_policy_version d, dc_denial_code = None\<rparr>))"


subsection \<open>The repository over any sequence of operations\<close>

datatype vault_op =
    VCreate string int string string string vault_classification vault_visibility datetime
  | VGrant string int access_grant
  | VRevoke string int grant_subject_type string
  | VHold string int bool datetime
  | VAppend string int payload string int string string int datetime
  | VState string int string "int option" datetime
  | VDelete string int

fun vault_step :: "vault_op \<Rightarrow> vault_repo \<Rightarrow> vault_repo" where
  "vault_step (VCreate ws did title kind creator cls vis now) repo = snd (create_draft ws did title kind creator cls vis now repo)"
| "vault_step (VGrant ws did g) repo = grant_access ws did g repo"
| "vault_step (VRevoke ws did kind subject) repo = revoke_access ws did kind subject repo"
| "vault_step (VHold ws did hold now) repo = snd (set_legal_hold ws did hold now repo)"
| "vault_step (VAppend ws did ref checksum bytes uri creator vid now) repo =
     snd (append_version ws did ref checksum bytes uri creator vid now repo)"
| "vault_step (VState ws did state source now) repo = snd (update_document_state ws did state source now repo)"
| "vault_step (VDelete ws did) repo = snd (delete_document ws did repo)"

text \<open>Generated identifiers are new.\<close>

fun vault_guard :: "vault_op \<Rightarrow> vault_repo \<Rightarrow> bool" where
  "vault_guard (VCreate ws did title kind creator cls vis now) repo = (get_document ws did repo = None)"
| "vault_guard (VAppend ws did ref checksum bytes uri creator vid now) repo = (get_version ws vid repo = None)"
| "vault_guard _ repo = True"

definition versions_linked :: "vault_repo \<Rightarrow> bool" where
  "versions_linked repo \<longleftrightarrow>
     (\<forall>ws vid v. get_version ws vid repo = Some v \<longrightarrow> get_document ws (vv_document_id v) repo \<noteq> None) \<and>
     (\<forall>ws did d vid. get_document ws did repo = Some d \<longrightarrow> vd_current_version_id d = Some vid \<longrightarrow>
        (\<exists>v. get_version ws vid repo = Some v \<and> vv_document_id v = did))"

definition vault_inv :: "vault_repo \<Rightarrow> bool" where
  "vault_inv repo \<longleftrightarrow>
     keyed (\<lambda>d. (vd_workspace_id d, vd_id d)) (vr_documents repo) \<and>
     keyed (\<lambda>v. (vv_workspace_id v, vv_id v)) (vr_versions repo) \<and> versions_linked repo"

lemma vault_inv_empty [simp]: "vault_inv empty_vault"
  by (simp add: vault_inv_def versions_linked_def empty_vault_def get_document_def get_version_def)

text \<open>An update of one document that keeps its key and its current version.\<close>

lemma vault_inv_document:
  assumes "vault_inv repo" "get_document ws did repo = Some d"
    and "vd_id d' = vd_id d" "vd_workspace_id d' = vd_workspace_id d" "vd_current_version_id d' = vd_current_version_id d"
  shows "vault_inv (repo\<lparr>vr_documents := dict_set (ws, did) d' (vr_documents repo)\<rparr>)"
proof -
  have "keyed (\<lambda>d. (vd_workspace_id d, vd_id d)) (dict_set (ws, did) d' (vr_documents repo))"
    using assms by (intro keyed_update [where ?v0.0 = d]) (simp_all add: vault_inv_def get_document_def)
  with assms show ?thesis
    unfolding vault_inv_def versions_linked_def get_document_def get_version_def by auto
qed

lemma vault_inv_grants: "vault_inv (repo\<lparr>vr_grants := g\<rparr>) = vault_inv repo"
  by (simp add: vault_inv_def versions_linked_def get_document_def get_version_def)

lemma vault_inv_create:
  assumes "vault_inv repo" "get_document ws did repo = None"
  shows "vault_inv (snd (create_draft ws did title kind creator cls vis now repo))"
  using assms by (auto simp: create_draft_def draft_document_def vault_inv_def versions_linked_def get_document_def
      get_version_def Let_def)

lemma vault_inv_append:
  assumes inv: "vault_inv repo" and fresh: "get_version ws vid repo = None"
  shows "vault_inv (snd (append_version ws did ref checksum bytes uri creator vid now repo))"
proof (cases "get_document ws did repo")
  case None
  with inv show ?thesis by (simp add: append_version_def)
next
  case (Some d)
  define v where "v = \<lparr>vv_id = vid, vv_workspace_id = ws, vv_document_id = did, vv_object_ref = ref, vv_checksum = checksum,
                    vv_size_bytes = bytes, vv_source_uri = uri, vv_created_by = creator, vv_created_at = now,
                    vv_classification = VC_INTERNAL, vv_visibility = VV_PRIVATE, vv_policy_version = 1,
                    vv_retention_until = None, vv_legal_hold = False\<rparr>"
  define d' where "d' = d\<lparr>vd_current_version_id := Some vid, vd_updated_at := now\<rparr>"
  have eq: "snd (append_version ws did ref checksum bytes uri creator vid now repo) =
      repo\<lparr>vr_versions := dict_set (ws, vid) v (vr_versions repo), vr_documents := dict_set (ws, did) d' (vr_documents repo)\<rparr>"
    using Some by (simp add: append_version_def Let_def v_def d'_def)
  have "keyed (\<lambda>d. (vd_workspace_id d, vd_id d)) (dict_set (ws, did) d' (vr_documents repo))"
    using inv Some by (intro keyed_update [where ?v0.0 = d]) (simp_all add: vault_inv_def get_document_def d'_def)
  moreover have "keyed (\<lambda>v. (vv_workspace_id v, vv_id v)) (dict_set (ws, vid) v (vr_versions repo))"
    using inv by (intro keyed_set) (simp_all add: vault_inv_def v_def)
  moreover have "vd_current_version_id x \<noteq> Some vid" if "dict_get (vr_documents repo) (ws, k) = Some x" for k x
    using inv fresh that unfolding vault_inv_def versions_linked_def get_document_def get_version_def by fastforce
  ultimately show ?thesis
    using inv fresh Some unfolding eq vault_inv_def versions_linked_def get_document_def get_version_def
    by (auto simp: v_def d'_def)
qed

lemma keyed_filter: "keyed key d \<Longrightarrow> keyed key (filter P d)"
proof -
  assume k: "keyed key d"
  have sub: "dict_get (filter P d) j = Some v \<Longrightarrow> dict_get d j = Some v" if "dict_ok d" for j v
    using that by (simp add: map_of_eq_Some_iff distinct_map_filter)
  from k show ?thesis by (auto simp: keyed_def distinct_map_filter dest: sub)
qed

lemma dict_get_filter:
  "dict_ok d \<Longrightarrow> dict_get (filter P d) k = (case dict_get d k of None \<Rightarrow> None | Some v \<Rightarrow> if P (k, v) then Some v else None)"
  by (induction d) (auto simp: map_of_eq_None_iff split: option.splits)

lemma vault_inv_delete:
  assumes inv: "vault_inv repo"
  shows "vault_inv (snd (delete_document ws did repo))"
proof (cases "get_document ws did repo")
  case None
  with inv show ?thesis by (simp add: delete_document_def)
next
  case (Some d)
  define keep where "keep = (\<lambda>x :: (string \<times> int) \<times> vault_version. \<not> (vv_workspace_id (snd x) = ws \<and> vv_document_id (snd x) = did))"
  have kd: "keyed (\<lambda>d. (vd_workspace_id d, vd_id d)) (vr_documents repo)"
    and kv: "keyed (\<lambda>v. (vv_workspace_id v, vv_id v)) (vr_versions repo)"
    and linked: "versions_linked repo" using inv by (simp_all add: vault_inv_def)
  have get: "dict_get (filter keep (vr_versions repo)) (w, k) =
      (case dict_get (vr_versions repo) (w, k) of None \<Rightarrow> None
       | Some v \<Rightarrow> if w = ws \<and> vv_document_id v = did then None else Some v)" for w k
    using dict_get_filter [OF keyed_dict_ok [OF kv], of keep "(w, k)"] keyed_get [OF kv, of "(w, k)"]
    by (auto simp: keep_def split: option.splits)
  have eq: "snd (delete_document ws did repo) =
      repo\<lparr>vr_documents := dict_del (ws, did) (vr_documents repo), vr_versions := filter keep (vr_versions repo)\<rparr>"
    using Some by (simp add: delete_document_def keep_def)
  show ?thesis
    using kd kv linked keyed_filter [OF kv, of keep]
    unfolding eq vault_inv_def versions_linked_def get_document_def get_version_def
    by (fastforce simp: get split: option.splits if_splits)
qed

lemma vault_step_inv: "vault_inv repo \<Longrightarrow> vault_guard op repo \<Longrightarrow> vault_inv (vault_step op repo)"
proof (cases op)
  case VCreate
  then show "vault_inv repo \<Longrightarrow> vault_guard op repo \<Longrightarrow> ?thesis" by (simp add: vault_inv_create)
next
  case VAppend
  then show "vault_inv repo \<Longrightarrow> vault_guard op repo \<Longrightarrow> ?thesis" by (simp add: vault_inv_append)
next
  case VDelete
  then show "vault_inv repo \<Longrightarrow> ?thesis" by (simp add: vault_inv_delete)
qed (auto simp: grant_access_def revoke_access_def set_legal_hold_def update_document_state_def Let_def vault_inv_grants
      vault_inv_document split: option.splits)

interpretation vaults: state_machine vault_step vault_guard vault_inv
  by unfold_locales (rule vault_step_inv)


subsection \<open>Properties\<close>

lemma accessible_iff:
  assumes "dict_ok (vr_documents repo)"
  shows "did \<in> resolve_accessible_document_ids ws who roles repo \<longleftrightarrow>
     (\<exists>d. get_document ws did repo = Some d \<and> document_readable ws who roles repo did d)"
  unfolding resolve_accessible_document_ids_def get_document_def map_of_eq_Some_iff [OF assms] by force

text \<open>C29. The two ways of asking who may read agree. In every reachable repository the decision of
  \<open>resolve\<close> grants reading to a caller who is no workspace operator exactly when the document is among the
  identifiers \<open>resolve_accessible_document_ids\<close> returns for the caller and its role, and to an operator
  exactly when the document exists; management goes to operators, the creator and explicit grants,
  review and publication to operators and explicit grants only.\<close>

theorem vault_access_exact:
  assumes "admissible vault_guard vault_step ops empty_vault"
  shows "let repo = fold vault_step ops empty_vault;
             ws = id_workspace_id who; p = id_principal_id who; roles = role_ids who;
             a = resolve_access who did repo in
    dc_read a = (case get_document ws did repo of
                   None \<Rightarrow> False
                 | Some d \<Rightarrow> is_operator who \<or> did \<in> resolve_accessible_document_ids ws p roles repo) \<and>
    dc_download a = dc_read a \<and>
    dc_manage a = (case get_document ws did repo of
                     None \<Rightarrow> False
                   | Some d \<Rightarrow> is_operator who \<or> vd_created_by d = p \<or> has_explicit_grant ws did p roles VP_MANAGE repo) \<and>
    dc_review a = (get_document ws did repo \<noteq> None \<and> (is_operator who \<or> has_explicit_grant ws did p roles VP_REVIEW repo)) \<and>
    dc_publish a = (get_document ws did repo \<noteq> None \<and> (is_operator who \<or> has_explicit_grant ws did p roles VP_PUBLISH repo)) \<and>
    (dc_denial_code a = None) = dc_discover a \<and>
    dc_discover a = (dc_read a \<or> dc_manage a \<or> dc_review a \<or> dc_publish a)"
proof -
  let ?repo = "fold vault_step ops empty_vault"
  have "vault_inv ?repo" by (rule vaults.run_inv [OF vault_inv_empty assms])
  then have ok: "dict_ok (vr_documents ?repo)" unfolding vault_inv_def by (blast intro: keyed_dict_ok)
  show ?thesis
  proof (cases "get_document (id_workspace_id who) did ?repo")
    case None
    then show ?thesis by (simp add: resolve_access_def deny_access_def Let_def)
  next
    case (Some d)
    show ?thesis
    proof (cases "is_operator who")
      case True
      with Some show ?thesis by (simp add: resolve_access_def allow_all_access_def Let_def)
    next
      case False
      with Some show ?thesis
        unfolding Let_def accessible_iff [OF ok]
        by (auto simp: resolve_access_def deny_access_def document_readable_def has_explicit_grant_def Let_def)
    qed
  qed
qed

text \<open>In every reachable repository documents and versions are stored under their own workspace and
  identifier, every version belongs to a document of its workspace, and the current version of a document
  is a stored version of that document.\<close>

theorem vault_store_sound:
  assumes "admissible vault_guard vault_step ops empty_vault"
  shows "let repo = fold vault_step ops empty_vault in
    (\<forall>ws did d. get_document ws did repo = Some d \<longrightarrow> vd_workspace_id d = ws \<and> vd_id d = did \<and>
       (\<forall>vid. vd_current_version_id d = Some vid \<longrightarrow>
          (\<exists>v. get_version ws vid repo = Some v \<and> vv_document_id v = did))) \<and>
    (\<forall>ws vid v. get_version ws vid repo = Some v \<longrightarrow> vv_workspace_id v = ws \<and> vv_id v = vid \<and>
       (\<exists>d. get_document ws (vv_document_id v) repo = Some d))"
proof -
  let ?repo = "fold vault_step ops empty_vault"
  have inv: "vault_inv ?repo" by (rule vaults.run_inv [OF vault_inv_empty assms])
  then have kd: "keyed (\<lambda>d. (vd_workspace_id d, vd_id d)) (vr_documents ?repo)"
    and kv: "keyed (\<lambda>v. (vv_workspace_id v, vv_id v)) (vr_versions ?repo)"
    and l: "versions_linked ?repo" by (simp_all add: vault_inv_def)
  have docs: "vd_workspace_id d = ws \<and> vd_id d = did" if "get_document ws did ?repo = Some d" for ws did d
    using keyed_get [OF kd] that unfolding get_document_def by blast
  have vers: "vv_workspace_id v = ws \<and> vv_id v = vid" if "get_version ws vid ?repo = Some v" for ws vid v
    using keyed_get [OF kv] that unfolding get_version_def by blast
  show ?thesis using docs vers l unfolding versions_linked_def Let_def by blast
qed

text \<open>A revocation takes effect at once: when the grants of a user on a document are revoked and the
  user, no operator and without a role, neither created the document nor reads it through the workspace,
  every permission on it is gone.\<close>

theorem revoked_access_gone:
  assumes "get_document (id_workspace_id who) did repo = Some d"
    and "\<not> is_operator who" "role_ids who = []"
    and "vd_created_by d \<noteq> id_principal_id who" "\<not> workspace_wide_read d"
  shows "resolve_access who did (revoke_access (id_workspace_id who) did GS_USER (id_principal_id who) repo) =
           deny_access (vd_policy_version d) ''not_granted''"
proof -
  let ?repo = "revoke_access (id_workspace_id who) did GS_USER (id_principal_id who) repo"
  have doc: "get_document (id_workspace_id who) did ?repo = Some d"
    using assms(1) by (simp add: revoke_access_def get_document_def Let_def)
  have "\<not> has_explicit_grant (id_workspace_id who) did (id_principal_id who) [] p ?repo" for p
    by (auto simp: has_explicit_grant_def revoke_access_def document_grants_def grants_def Let_def list_ex_iff)
  with assms doc show ?thesis by (simp add: resolve_access_def Let_def)
qed

subsection \<open>Standard operating procedures\<close>

definition advance_all :: "sop_status list \<Rightarrow> sop_definition \<Rightarrow> sop_definition" where
  "advance_all targets s = fold (\<lambda>t s. case advance_sop_status s t of Inl e \<Rightarrow> s | Inr s' \<Rightarrow> s') targets s"

definition sop_sound :: "sop_definition \<Rightarrow> bool" where
  "sop_sound s \<longleftrightarrow> sp_status s = SOP_ACTIVE \<longrightarrow> (\<exists>v. sop_current_version s = Inr v)"

lemma sop_current_version_status: "sop_current_version (s\<lparr>sp_status := t\<rparr>) = sop_current_version s"
  by (simp add: sop_current_version_def cong: option.case_cong)

lemma sop_sound_advance:
  assumes "sop_sound s" and "advance_sop_status s t = Inr s'"
  shows "sop_sound s'"
  using assms by (auto simp: sop_sound_def advance_sop_status_def sop_current_version_status split: if_splits sum.splits)

lemma sop_sound_advance_all: "sop_sound s \<Longrightarrow> sop_sound (advance_all ts s)"
  unfolding advance_all_def
  by (induction ts arbitrary: s) (auto split: sum.split dest: sop_sound_advance)

text \<open>Only approved procedures reach the instructions of an agent. Whatever status changes are tried
  on procedures that start as drafts, each one \<open>select_procedural_sops\<close> returns is active, of the asked
  workspace, and its current version exists, belongs to the same workspace and was approved; while the
  replacement of an active procedure is under review, it is not returned.\<close>

theorem procedural_sops_approved:
  assumes "\<And>s. s \<in> set sops \<Longrightarrow> sp_status s = SOP_DRAFT"
    and "s \<in> set (select_procedural_sops (Some ws) (map (\<lambda>s. advance_all (targets s) s) sops))"
  shows "sp_status s = SOP_ACTIVE \<and> sp_workspace_id s = ws \<and>
    (\<exists>v \<in> set (sp_versions s). sp_current_version_id s = Some (sv_id v) \<and> sv_workspace_id v = ws \<and> sv_approved_by v \<noteq> None) \<and>
    (\<forall>s'. advance_sop_status s SOP_REVIEW = Inr s' \<longrightarrow> select_procedural_sops (Some ws) [s'] = [])"
proof -
  from assms(2) obtain s0 where s0: "s0 \<in> set sops" "s = advance_all (targets s0) s0"
    and active: "sp_status s = SOP_ACTIVE" "sp_workspace_id s = ws"
    by (auto simp: select_procedural_sops_def)
  have "sop_sound s" unfolding s0(2)
    by (rule sop_sound_advance_all) (simp add: sop_sound_def assms(1) [OF s0(1)])
  with active obtain v where v: "sop_current_version s = Inr v" by (auto simp: sop_sound_def)
  then have "v \<in> set (sp_versions s)" "sp_current_version_id s = Some (sv_id v)" "sv_workspace_id v = ws"
      "sv_approved_by v \<noteq> None"
    using active by (auto simp: sop_current_version_def split: option.splits if_splits dest: find_Some_iff_mem)
  then have "\<exists>v \<in> set (sp_versions s). sp_current_version_id s = Some (sv_id v) \<and> sv_workspace_id v = ws \<and> sv_approved_by v \<noteq> None"
    by blast
  moreover have "\<forall>s'. advance_sop_status s SOP_REVIEW = Inr s' \<longrightarrow> select_procedural_sops (Some ws) [s'] = []"
    using active by (auto simp: advance_sop_status_def select_procedural_sops_def)
  ultimately show ?thesis using active by blast
qed

subsection \<open>Examples\<close>

definition example_member :: "string \<Rightarrow> vault_identity" where
  "example_member p = \<lparr>id_principal_id = p, id_role_id = None, id_workspace_id = ''w''\<rparr>"

definition example_vault_ops :: "vault_op list" where
  "example_vault_ops =
     [VCreate ''w'' 1 ''t'' ''document'' ''u1'' VC_INTERNAL VV_PRIVATE 0,
      VGrant ''w'' 1 \<lparr>gr_subject_type = GS_USER, gr_subject_id = ''u2'', gr_permission = VP_READ, gr_granted_by = ''u1'',
                      gr_grant_id = None, gr_created_at = None\<rparr>,
      VAppend ''w'' 1 [] ''h'' 3 ''uri'' ''u1'' 7 1]"

lemma example_vault_ok: "admissible vault_guard vault_step example_vault_ops empty_vault"
  by code_simp

text \<open>Witness of C29: a grant to read, and nothing more.\<close>

theorem vault_access_exact_witness:
  "let a = resolve_access (example_member ''u2'') 1 (fold vault_step example_vault_ops empty_vault)
   in dc_read a \<and> \<not> dc_manage a \<and> dc_discover a"
proof -
  have "1 \<in> resolve_accessible_document_ids ''w'' ''u2'' [] (fold vault_step example_vault_ops empty_vault)"
    and "get_document ''w'' 1 (fold vault_step example_vault_ops empty_vault) \<noteq> None"
    and "map_option vd_created_by (get_document ''w'' 1 (fold vault_step example_vault_ops empty_vault)) = Some ''u1''"
    and "\<not> has_explicit_grant ''w'' 1 ''u2'' [] VP_MANAGE (fold vault_step example_vault_ops empty_vault)"
    and "\<not> is_operator (example_member ''u2'')"
    and "role_ids (example_member ''u2'') = []"
    by code_simp+
  with vault_access_exact [OF example_vault_ok, of "example_member ''u2''" 1] show ?thesis
    by (auto simp: example_member_def Let_def)
qed

text \<open>An instance: the version that was appended.\<close>

theorem vault_store_sound_witness:
  "\<exists>v. get_version ''w'' 7 (fold vault_step example_vault_ops empty_vault) = Some v \<and> vv_document_id v = 1"
proof -
  have "map_option vd_current_version_id (get_document ''w'' 1 (fold vault_step example_vault_ops empty_vault)) = Some (Some 7)"
    by code_simp
  then obtain d where "get_document ''w'' 1 (fold vault_step example_vault_ops empty_vault) = Some d"
      "vd_current_version_id d = Some 7" by auto
  with vault_store_sound [OF example_vault_ok] show ?thesis unfolding Let_def by blast
qed

text \<open>An instance.\<close>

theorem revoked_access_gone_witness:
  "\<not> dc_read (resolve_access (example_member ''u2'') 1
      (revoke_access ''w'' 1 GS_USER ''u2'' (fold vault_step example_vault_ops empty_vault)))"
proof -
  have facts: "map_option vd_created_by (get_document ''w'' 1 (fold vault_step example_vault_ops empty_vault)) = Some ''u1''"
      "map_option workspace_wide_read (get_document ''w'' 1 (fold vault_step example_vault_ops empty_vault)) = Some False"
      "\<not> is_operator (example_member ''u2'')" "role_ids (example_member ''u2'') = []"
    by code_simp+
  then obtain d where d: "get_document ''w'' 1 (fold vault_step example_vault_ops empty_vault) = Some d"
      "vd_created_by d = ''u1''" "\<not> workspace_wide_read d" by auto
  have id: "id_workspace_id (example_member ''u2'') = ''w''" "id_principal_id (example_member ''u2'') = ''u2''"
    by (simp_all add: example_member_def)
  from revoked_access_gone [of "example_member ''u2''" 1 "fold vault_step example_vault_ops empty_vault" d, unfolded id]
    d facts show ?thesis by (simp add: deny_access_def)
qed

definition example_sop :: sop_definition where
  "example_sop =
     \<lparr>sp_id = 1, sp_workspace_id = 5, sp_title = ''t'', sp_owner_member_id = 9, sp_status = SOP_DRAFT,
      sp_current_version_id = Some 2, sp_risk_class = ''standard'', sp_approval_policy = None,
      sp_versions = [\<lparr>sv_id = 2, sv_workspace_id = 5, sv_sop_id = 1, sv_content_ref = ''r'', sv_normalized_ref = None,
                      sv_checksum = None, sv_effective_from = None, sv_approved_by = Some 9\<rparr>]\<rparr>"

text \<open>An instance: the procedure becomes active, and its replacement is then sent to review.\<close>

theorem procedural_sops_approved_witness:
  "\<exists>s'. advance_sop_status (advance_all [SOP_REVIEW, SOP_ACTIVE] example_sop) SOP_REVIEW = Inr s' \<and>
        select_procedural_sops (Some 5) [s'] = []"
proof -
  let ?s = "advance_all [SOP_REVIEW, SOP_ACTIVE] example_sop"
  have "sp_status example_sop = SOP_DRAFT" by (simp add: example_sop_def)
  moreover have "map sp_id (select_procedural_sops (Some 5) (map (\<lambda>s. advance_all [SOP_REVIEW, SOP_ACTIVE] s) [example_sop])) = [1]"
    by code_simp
  then have "?s \<in> set (select_procedural_sops (Some 5) (map (\<lambda>s. advance_all [SOP_REVIEW, SOP_ACTIVE] s) [example_sop]))"
    by (auto simp: select_procedural_sops_def split: if_splits)
  moreover have "isl (advance_sop_status ?s SOP_REVIEW) = False" by code_simp
  then obtain s' where "advance_sop_status ?s SOP_REVIEW = Inr s'" by (cases "advance_sop_status ?s SOP_REVIEW") auto
  ultimately show ?thesis
    using procedural_sops_approved [of "[example_sop]" ?s 5 "\<lambda>_. [SOP_REVIEW, SOP_ACTIVE]"] by auto
qed

end
