(* ===== verification/Knowledge.thy ===== *)
theory Knowledge
  imports Vault Texts
begin

text \<open>
  Knowledge: records (\<open>packages/agent/knowledge/models.py\<close>), chunking (\<open>chunking.py\<close> and
  \<open>apps/cosa/knowledge_ingestion/normalization.py\<close>), the in-memory store (\<open>store.py\<close>) and the service
  (\<open>service.py\<close>). White space is ASCII; \<open>chunk_text\<close> counts the characters of an ASCII text. Hashes, the
  UTF-8 decoders and generated identifiers are parameters. Embeddings are not modelled.
\<close>

subsection \<open>Records\<close>

record knowledge_chunk =
  kc_id :: string
  kc_document_id :: string
  kc_workspace_id :: string
  kc_index :: nat
  kc_content :: string
  kc_content_hash :: "string option"
  kc_section :: "string option"
  kc_chunker_name :: "string option"
  kc_chunker_version :: "string option"
  kc_metadata :: payload

record knowledge_document =
  kd_id :: string
  kd_workspace_id :: string
  kd_title :: string
  kd_source_uri :: "string option"
  kd_media_type :: string
  kd_checksum :: "string option"
  kd_authority_class :: string
  kd_ingest_status :: string
  kd_chunks :: "knowledge_chunk list"
  kd_metadata :: payload
  kd_vault_document_id :: "string option"
  kd_vault_version_id :: "string option"
  kd_policy_version :: "int option"

record citation =
  ci_chunk_id :: string
  ci_document_id :: string
  ci_title :: string
  ci_source_uri :: "string option"
  ci_section :: "string option"
  ci_snippet :: string
  ci_score :: rat
  ci_vault_version_id :: "string option"

subsection \<open>Chunking of raw text\<close>

text \<open>The windows of a text: each starts \<open>step\<close> after the last.\<close>

function text_windows :: "nat \<Rightarrow> nat \<Rightarrow> string \<Rightarrow> string list" where
  "text_windows width step text =
     (if text = [] \<or> step = 0 then []
      else (let chunk = py_strip (take width text); rest = text_windows width step (drop step text)
            in if chunk \<noteq> [] then chunk # rest else rest))"
  by pat_completeness auto
termination by (relation "measure (\<lambda>(width, step, text). length text)") (auto simp: neq_Nil_conv)

declare text_windows.simps [simp del]

text \<open>\<open>None\<close> is the \<open>ValueError\<close>; both parameters are not negative.\<close>

definition chunk_text :: "string \<Rightarrow> nat \<Rightarrow> nat \<Rightarrow> string list option" where
  "chunk_text text width overlap =
     (if width \<le> overlap then None else Some (text_windows width (width - overlap) (py_strip text)))"

subsection \<open>Normalisation of converted documents\<close>

record conversion_result =
  cr_markdown :: "string option"
  cr_title :: "string option"
  cr_package :: string
  cr_version :: string
  cr_profile :: string
  cr_output_sha256 :: "string option"
  cr_warnings :: "string list"
  cr_failure_code :: "string option"

record heading =
  hd_level :: nat
  hd_text :: string
  hd_anchor_id :: string
  hd_line :: nat

fun split_lines :: "string \<Rightarrow> string list" where
  "split_lines [] = [[]]"
| "split_lines (c # cs) =
     (if c = CHR 10 then [] # split_lines cs
      else (case split_lines cs of l # ls \<Rightarrow> (c # l) # ls | [] \<Rightarrow> [[c]]))"

fun join_lines :: "string list \<Rightarrow> string" where
  "join_lines [] = []"
| "join_lines [l] = l"
| "join_lines (l # ls) = l @ CHR 10 # join_lines ls"

text \<open>The replacement of \<open>\r\n\<close>, then of \<open>\r\<close>.\<close>

fun normalise_newlines :: "string \<Rightarrow> string" where
  "normalise_newlines [] = []"
| "normalise_newlines (c # cs) =
     (if c = CHR 13 then
        CHR 10 # (case cs of d # ds \<Rightarrow> if d = CHR 10 then normalise_newlines ds else normalise_newlines cs | [] \<Rightarrow> [])
      else c # normalise_newlines cs)"

text \<open>\<open>^(#{1,6})\s+(.+)$\<close> on the stripped line.\<close>

definition heading_match :: "string \<Rightarrow> (nat \<times> string) option" where
  "heading_match line =
     (let s = py_strip line;
          n = length (takeWhile (\<lambda>c. c = CHR 35) s);
          rest = dropWhile (\<lambda>c. c = CHR 35) s
      in if 1 \<le> n \<and> n \<le> 6 \<and> rest \<noteq> [] \<and> py_isspace (hd rest) then Some (n, py_strip rest) else None)"

definition anchor_id :: "nat \<Rightarrow> string" where
  "anchor_id n = ''sec-'' @ (let s = int_str (int n) in replicate (3 - length s) (CHR ''0'') @ s)"

text \<open>The headings of the lines from index \<open>i\<close>, after \<open>n\<close> headings. Their list is the \<open>headings\<close> entry of the
  heading tree and, without levels and lines, the list of anchors.\<close>

fun parse_headings :: "nat \<Rightarrow> nat \<Rightarrow> string list \<Rightarrow> heading list" where
  "parse_headings i n [] = []"
| "parse_headings i n (l # ls) =
     (case heading_match l of
        None \<Rightarrow> parse_headings (Suc i) n ls
      | Some (level, text) \<Rightarrow>
          \<lparr>hd_level = level, hd_text = text, hd_anchor_id = anchor_id (Suc n), hd_line = i\<rparr>
            # parse_headings (Suc i) (Suc n) ls)"

definition parse_markdown_headings :: "string \<Rightarrow> heading list" where
  "parse_markdown_headings markdown = (if markdown = [] then [] else parse_headings 0 0 (split_lines markdown))"

record chunk_env =
  ke_sha256 :: "string \<Rightarrow> string"
  ke_is_utf8 :: "string \<Rightarrow> bool"
  ke_decode_ignore :: "string \<Rightarrow> string"

text \<open>The loop of \<open>_split_long_text\<close> from an offset, over the bytes.\<close>

function split_from :: "chunk_env \<Rightarrow> nat \<Rightarrow> nat \<Rightarrow> string \<Rightarrow> nat \<Rightarrow> string list" where
  "split_from env width overlap bytes offset =
     (if length bytes \<le> offset \<or> width \<le> overlap then []
      else
        (let stop = min (offset + width) (length bytes);
             piece = take (stop - offset) (drop offset bytes);
             chunk = (if ke_is_utf8 env piece then piece else ke_decode_ignore env (take (stop - 3 - offset) (drop offset bytes)))
         in chunk # (if length bytes \<le> offset + width then []
                     else split_from env width overlap bytes (offset + (width - overlap)))))"
  by pat_completeness auto
termination by (relation "measure (\<lambda>(env, width, overlap, bytes, offset). length bytes - offset)") auto

declare split_from.simps [simp del]

definition split_long_text :: "chunk_env \<Rightarrow> nat \<Rightarrow> nat \<Rightarrow> string \<Rightarrow> string list" where
  "split_long_text env width overlap text =
     (if length text \<le> width then [text] else split_from env width overlap text 0)"

text \<open>The sections: label, first line, line after the last, anchor.\<close>

fun section_ranges :: "nat \<Rightarrow> heading list \<Rightarrow> (string \<times> nat \<times> nat \<times> string) list" where
  "section_ranges n [] = []"
| "section_ranges n (h # hs) =
     (hd_text h, hd_line h, (case hs of h' # _ \<Rightarrow> hd_line h' | [] \<Rightarrow> n), hd_anchor_id h) # section_ranges n hs"

definition section_chunk ::
  "chunk_env \<Rightarrow> string \<Rightarrow> string \<Rightarrow> nat \<Rightarrow> string \<Rightarrow> string \<Rightarrow> bool \<Rightarrow> string \<Rightarrow> knowledge_chunk" where
  "section_chunk env ws doc_id index label anchor divided content =
     \<lparr>kc_id = ''chk_'' @ doc_id @ ''_'' @ int_str (int index), kc_document_id = doc_id, kc_workspace_id = ws,
      kc_index = index, kc_content = content, kc_content_hash = Some (ke_sha256 env content), kc_section = Some label,
      kc_chunker_name = Some ''document-section-v1'', kc_chunker_version = Some ''1'',
      kc_metadata = (''anchor_id'', PStr anchor) # (if divided then [(''split_reason'', PStr ''section_too_large'')] else [])\<rparr>"

definition section_contents :: "chunk_env \<Rightarrow> string \<Rightarrow> bool \<times> string list" where
  "section_contents env text =
     (if py_strip text = [] then (False, [])
      else if 1024 < length text then (True, split_long_text env 1024 128 text)
      else (False, [text]))"

fun chunk_sections ::
  "chunk_env \<Rightarrow> string \<Rightarrow> string \<Rightarrow> string list \<Rightarrow> nat \<Rightarrow> (string \<times> nat \<times> nat \<times> string) list \<Rightarrow> knowledge_chunk list" where
  "chunk_sections env ws doc_id ls index [] = []"
| "chunk_sections env ws doc_id ls index ((label, a, b, anchor) # rs) =
     (let (divided, contents) = section_contents env (join_lines (take (b - a) (drop a ls))) in
      map (\<lambda>(i, c). section_chunk env ws doc_id (index + i) label anchor divided c) (enumerate 0 contents)
        @ chunk_sections env ws doc_id ls (index + length contents) rs)"

definition chunk_markdown_by_sections :: "chunk_env \<Rightarrow> string \<Rightarrow> heading list \<Rightarrow> string \<Rightarrow> string \<Rightarrow> knowledge_chunk list" where
  "chunk_markdown_by_sections env markdown headings ws ingestion_id =
     (if markdown = [] then []
      else
        (let ls = split_lines markdown;
             ranges = section_ranges (length ls) headings
         in chunk_sections env ws (''doc_'' @ take 12 ingestion_id) ls 0
              (if ranges = [] then [(''Document'', 0, length ls, ''sec-000'')] else ranges)))"

text \<open>\<open>normalize_conversion\<close> without the manifest; \<open>key\<close> is the object key in parts, \<open>did\<close> the generated
  identifier.\<close>

definition normalise_conversion ::
  "chunk_env \<Rightarrow> string \<Rightarrow> conversion_result \<Rightarrow> string list \<Rightarrow> string \<Rightarrow> string \<Rightarrow> string \<Rightarrow> knowledge_document" where
  "normalise_conversion env did res key media_type sha ingestion_id =
     (let ws = (if 2 \<le> length key then key ! 1 else ''unknown'');
          md = normalise_newlines (py_strip (or_else (cr_markdown res) []));
          md_sha = or_else (cr_output_sha256 res) (ke_sha256 env md)
      in \<lparr>kd_id = did, kd_workspace_id = ws, kd_title = or_else (cr_title res) ''Untitled'',
          kd_source_uri = Some (''object://knowledge-ingestions/'' @ ingestion_id),
          kd_media_type = (if cr_package res \<noteq> [] then cr_package res else media_type), kd_checksum = Some sha,
          kd_authority_class = ''USER_CONTENT'', kd_ingest_status = ''review_pending'',
          kd_chunks = chunk_markdown_by_sections env md (parse_markdown_headings md) ws ingestion_id,
          kd_metadata =
            [(''ingestion_id'', PStr ingestion_id), (''source_sha256'', PStr sha), (''markdown_sha256'', PStr md_sha),
             (''converter_name'', PStr (cr_package res)), (''converter_version'', PStr (cr_version res)),
             (''converter_profile'', PStr (cr_profile res)),
             (''manifest_schema_version'', PStr ''cosa.document-extraction-manifest/v1''),
             (''scan_verdict'', PStr ''clean''), (''warning_codes'', PList (map PStr (cr_warnings res)))],
          kd_vault_document_id = None, kd_vault_version_id = None, kd_policy_version = None\<rparr>)"

subsection \<open>The store\<close>

record knowledge_store =
  ks_docs :: "(string, knowledge_document) pydict"
  ks_chunks :: "(string, knowledge_chunk) pydict"

definition empty_knowledge :: knowledge_store where
  "empty_knowledge = \<lparr>ks_docs = [], ks_chunks = []\<rparr>"

definition save_knowledge :: "knowledge_document \<Rightarrow> knowledge_store \<Rightarrow> knowledge_store" where
  "save_knowledge d ks =
     ks\<lparr>ks_docs := dict_set (kd_id d) d (ks_docs ks),
        ks_chunks := fold (\<lambda>c cs. dict_set (kc_id c) c cs) (kd_chunks d) (ks_chunks ks)\<rparr>"

definition get_knowledge :: "string \<Rightarrow> string \<Rightarrow> knowledge_store \<Rightarrow> knowledge_document option" where
  "get_knowledge did ws ks =
     (case dict_get (ks_docs ks) did of None \<Rightarrow> None | Some d \<Rightarrow> if kd_workspace_id d \<noteq> ws then None else Some d)"

definition query_terms :: "(string \<Rightarrow> string) \<Rightarrow> string \<Rightarrow> string list" where
  "query_terms lower q = map lower (filter (\<lambda>t. 1 < length t) (py_split q))"

definition match_count :: "(string \<Rightarrow> string) \<Rightarrow> string list \<Rightarrow> knowledge_chunk \<Rightarrow> nat" where
  "match_count lower terms c = length (filter (\<lambda>t. py_contains t (lower (kc_content c))) terms)"

definition make_citation :: "knowledge_document \<Rightarrow> knowledge_chunk \<Rightarrow> rat \<Rightarrow> citation" where
  "make_citation d c score =
     \<lparr>ci_chunk_id = kc_id c, ci_document_id = kd_id d, ci_title = kd_title d, ci_source_uri = kd_source_uri d,
      ci_section = kc_section c, ci_snippet = kc_content c, ci_score = (if 0 < score then score else 1),
      ci_vault_version_id = None\<rparr>"

text \<open>The scored chunks before the sort; scores are exact quotients.\<close>

definition scored_chunks ::
  "(string \<Rightarrow> string) \<Rightarrow> string \<Rightarrow> string \<Rightarrow> knowledge_store \<Rightarrow> (rat \<times> knowledge_chunk \<times> knowledge_document) list" where
  "scored_chunks lower ws q ks =
     (let terms = query_terms lower q in
      List.map_filter (\<lambda>c.
        if kc_workspace_id c \<noteq> ws then None
        else
          (case dict_get (ks_docs ks) (kc_document_id c) of
             None \<Rightarrow> None
           | Some d \<Rightarrow>
               (let m = match_count lower terms c
                in if 0 < m \<or> terms = []
                   then Some (if terms = [] then 0 else of_nat m / of_nat (length terms), c, d) else None)))
        (dict_values (ks_chunks ks)))"

definition search_chunks :: "(string \<Rightarrow> string) \<Rightarrow> string \<Rightarrow> string \<Rightarrow> int \<Rightarrow> knowledge_store \<Rightarrow> citation list" where
  "search_chunks lower ws q limit ks =
     map (\<lambda>(score, c, d). make_citation d c score)
       (py_take limit (sort_key (\<lambda>x. - fst x) (scored_chunks lower ws q ks)))"

definition delete_by_vault_document :: "string \<Rightarrow> string \<Rightarrow> knowledge_store \<Rightarrow> knowledge_store" where
  "delete_by_vault_document ws vdid ks =
     (let stale = map fst (filter (\<lambda>x. kd_workspace_id (snd x) = ws \<and> kd_vault_document_id (snd x) = Some vdid) (ks_docs ks))
      in ks\<lparr>ks_docs := filter (\<lambda>x. fst x \<notin> set stale) (ks_docs ks),
            ks_chunks := filter (\<lambda>x. kc_document_id (snd x) \<notin> set stale) (ks_chunks ks)\<rparr>)"

subsection \<open>The service\<close>

definition ingest_raw_text ::
  "(string \<Rightarrow> string) \<Rightarrow> string \<Rightarrow> string \<Rightarrow> string \<Rightarrow> string \<Rightarrow> string option \<Rightarrow> string \<Rightarrow> nat \<Rightarrow> nat \<Rightarrow> knowledge_store
     \<Rightarrow> knowledge_document option \<times> knowledge_store" where
  "ingest_raw_text sha did ws title text uri media_type width overlap ks =
     (case chunk_text text width overlap of
        None \<Rightarrow> (None, ks)
      | Some raw \<Rightarrow>
          (let chunks = map (\<lambda>(i, c). \<lparr>kc_id = ''chk_'' @ did @ ''_'' @ int_str (int i), kc_document_id = did,
                                     kc_workspace_id = ws, kc_index = i, kc_content = c, kc_content_hash = None,
                                     kc_section = Some (''Section '' @ int_str (int (Suc i))), kc_chunker_name = None,
                                     kc_chunker_version = None, kc_metadata = []\<rparr>) (enumerate 0 raw);
               d = \<lparr>kd_id = did, kd_workspace_id = ws, kd_title = title, kd_source_uri = uri, kd_media_type = media_type,
                    kd_checksum = Some (sha text), kd_authority_class = ''REFERENCE'', kd_ingest_status = ''completed'',
                    kd_chunks = chunks, kd_metadata = [], kd_vault_document_id = None, kd_vault_version_id = None,
                    kd_policy_version = None\<rparr>
           in (Some d, save_knowledge d ks)))"

definition update_ingest_status :: "string \<Rightarrow> string \<Rightarrow> string \<Rightarrow> knowledge_store \<Rightarrow> knowledge_document option \<times> knowledge_store" where
  "update_ingest_status did status ws ks =
     (case get_knowledge did ws ks of
        None \<Rightarrow> (None, ks)
      | Some d \<Rightarrow> (let d' = d\<lparr>kd_ingest_status := status\<rparr> in (Some d', save_knowledge d' ks)))"

text \<open>\<open>retrieve_authorized_citations\<close> over the in-memory store. \<open>uuid\<close> parses an identifier; \<open>None\<close> is the
  \<open>ValueError\<close> of a malformed one.\<close>

fun authorized_citations ::
  "(string \<Rightarrow> int option) \<Rightarrow> string \<Rightarrow> int set option \<Rightarrow> vault_repo \<Rightarrow> knowledge_store \<Rightarrow> nat \<Rightarrow> citation list \<Rightarrow> citation list option" where
  "authorized_citations uuid ws accessible repo ks room [] = Some []"
| "authorized_citations uuid ws accessible repo ks room (c # cs) =
     (case get_knowledge (ci_document_id c) ws ks of
        None \<Rightarrow> authorized_citations uuid ws accessible repo ks room cs
      | Some d \<Rightarrow>
          if kd_ingest_status d \<noteq> ''published'' \<or> \<not> truthy_opt (kd_vault_document_id d)
          then authorized_citations uuid ws accessible repo ks room cs
          else
            (case uuid (or_else (kd_vault_document_id d) []) of
               None \<Rightarrow> None
             | Some did \<Rightarrow>
                 if (case accessible of None \<Rightarrow> False | Some ids \<Rightarrow> did \<notin> ids)
                    \<or> (case get_document ws did repo of None \<Rightarrow> True | Some v \<Rightarrow> vd_state v \<noteq> ''PUBLISHED'')
                 then authorized_citations uuid ws accessible repo ks room cs
                 else
                   (let c' = c\<lparr>ci_vault_version_id := kd_vault_version_id d\<rparr>
                    in if room \<le> 1 then Some [c']
                       else map_option (\<lambda>xs. c' # xs) (authorized_citations uuid ws accessible repo ks (room - 1) cs))))"

definition retrieve_authorized_citations ::
  "(string \<Rightarrow> int option) \<Rightarrow> (string \<Rightarrow> string) \<Rightarrow> string \<Rightarrow> string \<Rightarrow> string list \<Rightarrow> string \<Rightarrow> int \<Rightarrow> vault_repo \<Rightarrow> knowledge_store
     \<Rightarrow> citation list option" where
  "retrieve_authorized_citations uuid lower ws who roles q limit repo ks =
     (let oper = list_ex (\<lambda>r. r \<in> set operator_roles) roles;
          ids = resolve_accessible_document_ids ws who roles repo;
          accessible = (if oper then None else Some ids)
      in if \<not> oper \<and> ids = {} then Some []
         else authorized_citations uuid ws accessible repo ks (nat limit) (search_chunks lower ws q (limit * 5) ks))"

end
