(* ===== verification/Uploads.thy ===== *)
theory Uploads
  imports Keyed
begin

text \<open>
  Uploads of untrusted documents (\<open>apps/cosa/knowledge_ingestion\<close>): the limits per media type
  (\<open>contracts.py\<close>), the checks before conversion (\<open>preflight.py\<close>), the local store of tickets, quarantined
  and promoted files (\<open>workspace_store.py\<close>) and the in-memory state machine of ingestion attempts
  (\<open>local_repository.py\<close>). A byte string is a \<open>string\<close>. A path below the storage root is its list of
  parts; the tree has no symbolic links. SHA-256, the central directory of an archive and the decoding of
  UTF-8 are parameters, generated secrets and names are arguments.
\<close>

subsection \<open>Limits\<close>

definition mib :: int where "mib = 1024 * 1024"

definition office_mime_types :: "string list" where
  "office_mime_types =
     [''application/vnd.openxmlformats-officedocument.wordprocessingml.document'',
      ''application/vnd.openxmlformats-officedocument.spreadsheetml.sheet'',
      ''application/vnd.openxmlformats-officedocument.presentationml.presentation'']"

definition mime_type_limits :: "(string, int) pydict" where
  "mime_type_limits =
     [(''text/plain'', 10 * mib), (''text/csv'', 10 * mib), (''text/html'', 10 * mib), (''application/pdf'', 25 * mib),
      (''application/vnd.openxmlformats-officedocument.wordprocessingml.document'', 25 * mib),
      (''application/vnd.openxmlformats-officedocument.spreadsheetml.sheet'', 25 * mib),
      (''application/vnd.openxmlformats-officedocument.presentationml.presentation'', 25 * mib)]"

definition failure_codes :: "string list" where
  "failure_codes =
     [''unsupported_media_type'', ''mime_mismatch'', ''file_too_large'', ''archive_limit_exceeded'', ''malware_detected'',
      ''scanner_unavailable'', ''checksum_mismatch'', ''conversion_timeout'', ''conversion_output_too_large'',
      ''conversion_parser_error'']"

subsection \<open>Preflight\<close>

record quarantined_object =
  qo_object_key :: "string list"
  qo_size_bytes :: int
  qo_source_sha256 :: string
  qo_media_type :: string

record validated_document =
  va_object_key :: "string list"
  va_media_type :: string
  va_source_sha256 :: string
  va_size_bytes :: int

record archive_report =
  ar_is_safe :: bool
  ar_reason :: "string option"
  ar_member_count :: nat
  ar_total_uncompressed :: int
  ar_max_member :: int

text \<open>The signatures \<open>%PDF-\<close> and \<open>PK\<close> 3 4.\<close>

definition pdf_magic :: string where "pdf_magic = ''%PDF-''"

definition zip_magic :: string where "zip_magic = ''PK'' @ [CHR 3, CHR 4]"

definition check_mime_magic_match :: "string \<Rightarrow> string \<Rightarrow> bool" where
  "check_mime_magic_match mime magic =
     (if mime = ''application/pdf'' then py_startswith magic pdf_magic
      else if mime \<in> set office_mime_types then py_startswith magic zip_magic
      else if mime = ''text/plain'' \<or> mime = ''text/csv'' \<or> mime = ''text/html''
      then \<not> (py_startswith magic zip_magic \<or> py_startswith magic pdf_magic)
      else True)"

text \<open>The loop over the members of an archive, given by their uncompressed and compressed sizes: it ends at
  the first member above 50 MiB. The result is whether it ended there, the sums and the largest member.\<close>

fun inspect_members :: "(int \<times> int) list \<Rightarrow> int \<Rightarrow> int \<Rightarrow> int \<Rightarrow> bool \<times> int \<times> int \<times> int" where
  "inspect_members [] sum_u sum_c largest = (False, sum_u, sum_c, largest)"
| "inspect_members ((u, c) # ms) sum_u sum_c largest =
     (if 50 * mib < u then (True, sum_u + u, sum_c + c, max largest u)
      else inspect_members ms (sum_u + u) (sum_c + c) (max largest u))"

text \<open>\<open>members\<close> reads the central directory, \<open>None\<close> for a bad archive. The reason of a report is its code,
  the text before the colon. The ratio is compared without division, which is exact: above 20 it exceeds
  20 by more than the rounding of a float, because the sizes are below 100 MiB.\<close>

definition preflight_office_archive :: "(string \<Rightarrow> (int \<times> int) list option) \<Rightarrow> string \<Rightarrow> archive_report" where
  "preflight_office_archive members content =
     (case members content of
        None \<Rightarrow> \<lparr>ar_is_safe = False, ar_reason = Some ''mime_mismatch'', ar_member_count = 0, ar_total_uncompressed = 0,
                  ar_max_member = 0\<rparr>
      | Some ms \<Rightarrow>
          (let (big, sum_u, sum_c, largest) = inspect_members ms 0 0 0;
               unsafe = (big \<or> 1000 < length ms \<or> 100 * mib < sum_u \<or> (0 < sum_c \<and> 20 * sum_c < sum_u))
           in \<lparr>ar_is_safe = \<not> unsafe, ar_reason = (if unsafe then Some ''archive_limit_exceeded'' else None),
               ar_member_count = length ms, ar_total_uncompressed = sum_u, ar_max_member = largest\<rparr>))"

record preflight_env =
  pe_sha256 :: "string \<Rightarrow> string"
  pe_archive_members :: "string \<Rightarrow> (int \<times> int) list option"
  pe_is_utf8 :: "string \<Rightarrow> bool"

text \<open>The chunked read fails as soon as more than the limit was read.\<close>

definition bounded_read_and_hash :: "preflight_env \<Rightarrow> string \<Rightarrow> int \<Rightarrow> (int \<times> string) option" where
  "bounded_read_and_hash env content limit =
     (if limit < int (length content) then None else Some (int (length content), pe_sha256 env content))"

definition validate_quarantined_object :: "preflight_env \<Rightarrow> quarantined_object \<Rightarrow> string \<Rightarrow> string + validated_document" where
  "validate_quarantined_object env obj content =
     (let mime = qo_media_type obj in
      case dict_get mime_type_limits mime of
        None \<Rightarrow> Inl ''unsupported_media_type''
      | Some limit \<Rightarrow>
          if \<not> check_mime_magic_match mime (py_take 16 content) then Inl ''mime_mismatch''
          else
            (case bounded_read_and_hash env content limit of
               None \<Rightarrow> Inl ''file_too_large''
             | Some (n, digest) \<Rightarrow>
                 if digest \<noteq> qo_source_sha256 obj then Inl ''checksum_mismatch''
                 else
                   (let doc = \<lparr>va_object_key = qo_object_key obj, va_media_type = mime, va_source_sha256 = digest,
                               va_size_bytes = n\<rparr>
                    in if mime \<in> set office_mime_types then
                         (let report = preflight_office_archive (pe_archive_members env) content
                          in if \<not> ar_is_safe report then Inl (or_else (ar_reason report) ''None'') else Inr doc)
                       else Inr doc)))"

definition sniff_mime_type :: "preflight_env \<Rightarrow> string \<Rightarrow> string" where
  "sniff_mime_type env content =
     (if py_startswith content ''%PDF'' then ''application/pdf''
      else if py_startswith content zip_magic
      then ''application/vnd.openxmlformats-officedocument.wordprocessingml.document''
      else if py_startswith content [CHR 0xFF, CHR 0xFE] \<or> py_startswith content [CHR 0xFE, CHR 0xFF]
      then ''text/plain; charset=utf-16''
      else if pe_is_utf8 env content then
        (if CHR '','' \<in> set content \<or> CHR 10 \<in> set content then ''text/csv'' else ''text/plain'')
      else ''application/octet-stream'')"

subsection \<open>Tickets and files\<close>

record upload_ticket =
  ut_workspace_id :: string
  ut_upload_id :: string
  ut_secret_hash :: string
  ut_max_bytes :: int
  ut_expires_at :: datetime
  ut_path :: "string list"
  ut_created_at :: datetime

record quarantined_local =
  ql_workspace_id :: string
  ql_upload_id :: string
  ql_size_bytes :: int
  ql_source_sha256 :: string
  ql_path :: "string list"

record document_store =
  ds_tickets :: "(string \<times> string, upload_ticket) pydict"
  ds_files :: "(string list, string) pydict"

definition empty_store :: document_store where
  "empty_store = \<lparr>ds_tickets = [], ds_files = []\<rparr>"

datatype store_error = StoreValueError | UploadTicketNotFound | UploadTicketExpired

text \<open>\<open>^[A-Za-z0-9_-]{1,128}$\<close> with \<open>re.match\<close>: the dollar also matches before a final newline.\<close>

definition id_char :: "char \<Rightarrow> bool" where
  "id_char c = (let n = (of_char c :: nat) in (48 \<le> n \<and> n \<le> 57) \<or> (65 \<le> n \<and> n \<le> 90) \<or> (97 \<le> n \<and> n \<le> 122) \<or> n = 45 \<or> n = 95)"

definition valid_id :: "string \<Rightarrow> bool" where
  "valid_id s =
     (let body = (if s \<noteq> [] \<and> last s = CHR 10 then butlast s else s)
      in body \<noteq> [] \<and> length body \<le> 128 \<and> list_all id_char body)"

text \<open>Resolution of a path: \<open>..\<close> steps back; leaving the root, or an absolute path, is an error.\<close>

fun resolve_parts :: "string list \<Rightarrow> string list \<Rightarrow> string list option" where
  "resolve_parts acc [] = Some acc"
| "resolve_parts acc (p # ps) =
     (if p = ''..'' then (if acc = [] then None else resolve_parts (butlast acc) ps)
      else if p = ''/'' then None
      else resolve_parts (acc @ [p]) ps)"

definition resolve_within_root :: "string list \<Rightarrow> string list option" where
  "resolve_within_root parts = resolve_parts [] parts"

text \<open>The answer is the secret and the deadline, an hour later.\<close>

definition issue_ticket ::
  "preflight_env \<Rightarrow> string \<Rightarrow> string \<Rightarrow> int \<Rightarrow> string \<Rightarrow> string \<Rightarrow> datetime \<Rightarrow> document_store
     \<Rightarrow> (store_error + string \<times> datetime) \<times> document_store" where
  "issue_ticket env ws uid max_bytes secret name now st =
     (if \<not> valid_id ws \<or> \<not> valid_id uid \<or> max_bytes \<le> 0 then (Inl StoreValueError, st)
      else
        (case resolve_within_root [''quarantine'', ws, uid] of
           None \<Rightarrow> (Inl StoreValueError, st)
         | Some dir \<Rightarrow>
             (let t = \<lparr>ut_workspace_id = ws, ut_upload_id = uid, ut_secret_hash = pe_sha256 env secret, ut_max_bytes = max_bytes,
                       ut_expires_at = now + timedelta_seconds 3600, ut_path = dir @ [name], ut_created_at = now\<rparr>
              in (Inr (secret, ut_expires_at t), st\<lparr>ds_tickets := dict_set (ws, uid) t (ds_tickets st)\<rparr>))))"

definition authorize_upload :: "preflight_env \<Rightarrow> string \<Rightarrow> string \<Rightarrow> string \<Rightarrow> datetime \<Rightarrow> document_store \<Rightarrow> store_error + upload_ticket" where
  "authorize_upload env ws uid secret now st =
     (case dict_get (ds_tickets st) (ws, uid) of
        None \<Rightarrow> Inl UploadTicketNotFound
      | Some t \<Rightarrow>
          if pe_sha256 env secret \<noteq> ut_secret_hash t then Inl UploadTicketNotFound
          else if ut_expires_at t < now then Inl UploadTicketExpired
          else Inr t)"

text \<open>The chunks go to a partial file that replaces the final one when all were written; above the limit
  it is removed.\<close>

fun write_chunks :: "int \<Rightarrow> string list \<Rightarrow> string \<Rightarrow> string option" where
  "write_chunks max_bytes [] written = Some written"
| "write_chunks max_bytes (c # cs) written =
     (if max_bytes < int (length written + length c) then None else write_chunks max_bytes cs (written @ c))"

definition write_upload_stream ::
  "preflight_env \<Rightarrow> string \<Rightarrow> string \<Rightarrow> string \<Rightarrow> string list \<Rightarrow> datetime \<Rightarrow> document_store
     \<Rightarrow> store_error option \<times> document_store" where
  "write_upload_stream env ws uid secret chunks now st =
     (case authorize_upload env ws uid secret now st of
        Inl e \<Rightarrow> (Some e, st)
      | Inr t \<Rightarrow>
          (case write_chunks (ut_max_bytes t) chunks [] of
             None \<Rightarrow> (Some StoreValueError, st)
           | Some content \<Rightarrow> (None, st\<lparr>ds_files := dict_set (ut_path t) content (ds_files st)\<rparr>)))"

definition finalize_upload :: "preflight_env \<Rightarrow> string \<Rightarrow> string \<Rightarrow> document_store \<Rightarrow> store_error + quarantined_local" where
  "finalize_upload env ws uid st =
     (case dict_get (ds_tickets st) (ws, uid) of
        None \<Rightarrow> Inl UploadTicketNotFound
      | Some t \<Rightarrow>
          (case dict_get (ds_files st) (ut_path t) of
             None \<Rightarrow> Inl StoreValueError
           | Some content \<Rightarrow>
               if ut_max_bytes t < int (length content) then Inl StoreValueError
               else Inr \<lparr>ql_workspace_id = ws, ql_upload_id = uid, ql_size_bytes = int (length content),
                         ql_source_sha256 = pe_sha256 env content, ql_path = ut_path t\<rparr>))"

text \<open>The hash of the source is taken when the copy starts and compared with the hash of the copy. The
  answer is the reference of the copy.\<close>

definition promote_to_vault ::
  "preflight_env \<Rightarrow> string \<Rightarrow> string \<Rightarrow> string list \<Rightarrow> document_store \<Rightarrow> string list option \<times> document_store" where
  "promote_to_vault env ws vid ref st =
     (if \<not> valid_id ws \<or> \<not> valid_id vid then (None, st)
      else
        (case resolve_within_root ref of
           None \<Rightarrow> (None, st)
         | Some source \<Rightarrow>
             (case dict_get (ds_files st) source of
                None \<Rightarrow> (None, st)
              | Some content \<Rightarrow>
                  (let expected = pe_sha256 env content;
                       target = [''vault'', ws, vid];
                       files = dict_set target content (ds_files st);
                       actual = pe_sha256 env (dict_get_or files target [])
                   in if actual \<noteq> expected then (None, st\<lparr>ds_files := dict_del target files\<rparr>)
                      else (Some target, st\<lparr>ds_files := files\<rparr>)))))"

definition read_quarantine_object :: "string \<Rightarrow> string list \<Rightarrow> document_store \<Rightarrow> string option" where
  "read_quarantine_object ws path st =
     (if \<not> valid_id ws then None
      else
        (case resolve_within_root path of
           None \<Rightarrow> None
         | Some p \<Rightarrow> if prefix [''quarantine'', ws] p then dict_get (ds_files st) p else None))"

definition purge_version :: "string \<Rightarrow> string \<Rightarrow> document_store \<Rightarrow> document_store option" where
  "purge_version ws vid st =
     (if \<not> valid_id ws \<or> \<not> valid_id vid then None
      else Some (st\<lparr>ds_files := dict_del [''vault'', ws, vid] (ds_files st)\<rparr>))"

subsection \<open>Ingestion attempts\<close>

datatype ingestion_state =
    IS_QUEUED | IS_VALIDATING | IS_CONVERTING | IS_REVIEW_PENDING | IS_PUBLISHED | IS_REJECTED | IS_FAILED

record ingestion_attempt =
  at_state :: ingestion_state
  at_path :: "string list"
  at_declared_type :: "string option"
  at_detected_type :: "string option"
  at_sha256 :: "string option"
  at_size_bytes :: "int option"
  at_knowledge_source_id :: "string option"
  at_vault_document_id :: "string option"
  at_vault_version_id :: "string option"
  at_failure_code :: "string option"

type_synonym attempts = "(string \<times> string, ingestion_attempt) pydict"

definition create_queued ::
  "string \<Rightarrow> string \<Rightarrow> string list \<Rightarrow> string option \<Rightarrow> string option \<Rightarrow> string option \<Rightarrow> int option \<Rightarrow> attempts \<Rightarrow> attempts" where
  "create_queued ws uid path declared detected sha bytes ats =
     (if dict_get ats (ws, uid) \<noteq> None then ats
      else dict_set (ws, uid)
             \<lparr>at_state = IS_QUEUED, at_path = path, at_declared_type = declared, at_detected_type = detected, at_sha256 = sha,
              at_size_bytes = bytes, at_knowledge_source_id = None, at_vault_document_id = None,
              at_vault_version_id = None, at_failure_code = None\<rparr> ats)"

text \<open>The claim answers with the attempt; the token is not kept by the in-memory repository.\<close>

definition claim_attempt :: "string \<Rightarrow> string \<Rightarrow> attempts \<Rightarrow> ingestion_attempt option \<times> attempts" where
  "claim_attempt ws uid ats =
     (case dict_get ats (ws, uid) of
        None \<Rightarrow> (None, ats)
      | Some a \<Rightarrow>
          if at_state a \<noteq> IS_QUEUED then (None, ats)
          else (let a' = a\<lparr>at_state := IS_VALIDATING\<rparr> in (Some a', dict_set (ws, uid) a' ats)))"

definition record_candidate :: "string \<Rightarrow> string \<Rightarrow> string \<Rightarrow> attempts \<Rightarrow> bool \<times> attempts" where
  "record_candidate ws uid source ats =
     (case dict_get ats (ws, uid) of
        None \<Rightarrow> (False, ats)
      | Some a \<Rightarrow>
          if at_state a \<noteq> IS_VALIDATING \<and> at_state a \<noteq> IS_CONVERTING then (False, ats)
          else (True, dict_set (ws, uid) (a\<lparr>at_state := IS_REVIEW_PENDING, at_knowledge_source_id := Some source\<rparr>) ats))"

definition reject_attempt :: "string \<Rightarrow> string \<Rightarrow> string \<Rightarrow> bool \<Rightarrow> attempts \<Rightarrow> bool \<times> attempts" where
  "reject_attempt ws uid code terminal ats =
     (case dict_get ats (ws, uid) of
        None \<Rightarrow> (False, ats)
      | Some a \<Rightarrow>
          if at_state a \<noteq> IS_QUEUED \<and> at_state a \<noteq> IS_VALIDATING \<and> at_state a \<noteq> IS_CONVERTING then (False, ats)
          else (True, dict_set (ws, uid)
                  (a\<lparr>at_state := (if terminal then IS_REJECTED else IS_FAILED), at_failure_code := Some code\<rparr>) ats))"

definition publish_attempt :: "string \<Rightarrow> string \<Rightarrow> string \<Rightarrow> string \<Rightarrow> attempts \<Rightarrow> bool \<times> attempts" where
  "publish_attempt ws uid did vid ats =
     (case dict_get ats (ws, uid) of
        None \<Rightarrow> (False, ats)
      | Some a \<Rightarrow>
          if at_state a \<noteq> IS_REVIEW_PENDING then (False, ats)
          else (True, dict_set (ws, uid)
                  (a\<lparr>at_state := IS_PUBLISHED, at_vault_document_id := Some did, at_vault_version_id := Some vid\<rparr>) ats))"

definition get_attempt_state :: "string \<Rightarrow> string \<Rightarrow> attempts \<Rightarrow> ingestion_state option" where
  "get_attempt_state ws uid ats = map_option at_state (dict_get ats (ws, uid))"

definition get_quarantine_path :: "string \<Rightarrow> string \<Rightarrow> attempts \<Rightarrow> string list option" where
  "get_quarantine_path ws uid ats = map_option at_path (dict_get ats (ws, uid))"

definition get_source_metadata :: "string \<Rightarrow> string \<Rightarrow> attempts \<Rightarrow> string option \<times> int option" where
  "get_source_metadata ws uid ats =
     (case dict_get ats (ws, uid) of None \<Rightarrow> (None, None) | Some a \<Rightarrow> (at_sha256 a, at_size_bytes a))"

end
