(* ===== verification/Ingestion.thy ===== *)
theory Ingestion
  imports Knowledge Uploads
begin

text \<open>
  The path of a document: the vault routes (\<open>apps/cosa/api/vault_routes.py\<close>), the worker task that validates,
  scans, converts and stores an upload (\<open>knowledge_ingestion/handler.py\<close>), the purge
  (\<open>purge.py\<close>) and the status change after a review (\<open>api/knowledge_routes.py\<close>), over one world. A request
  or a task is one step. The scanner, the conversion sandbox, the printing and parsing of UUIDs, the feature
  flag and what is wired are parameters; generated identifiers and times are arguments.
\<close>

subsection \<open>The world\<close>

record ingestion_env =
  ie_pre :: preflight_env
  ie_chunk :: chunk_env
  ie_scan :: "quarantined_object \<Rightarrow> string \<Rightarrow> string option"
  ie_convert :: "validated_document \<Rightarrow> string \<Rightarrow> conversion_result option"
  ie_uuid :: "string \<Rightarrow> int option"
  ie_uuid_str :: "int \<Rightarrow> string"
  ie_enabled :: bool
  ie_ready :: bool
  ie_scheduler :: bool

datatype ingestion_task = IngestTask string string | PurgeTask string string

record vault_world =
  vw_repo :: vault_repo
  vw_store :: document_store
  vw_attempts :: attempts
  vw_knowledge :: knowledge_store
  vw_tasks :: "ingestion_task list"

definition empty_world :: vault_world where
  "empty_world =
     \<lparr>vw_repo = empty_vault, vw_store = empty_store, vw_attempts = [], vw_knowledge = empty_knowledge, vw_tasks = []\<rparr>"

text \<open>The answer of a route: a body or a status; an exception no route handles is status 500.\<close>

datatype 'a http = Http_ok 'a | Http_error nat

definition schedule_task :: "ingestion_env \<Rightarrow> ingestion_task \<Rightarrow> vault_world \<Rightarrow> vault_world" where
  "schedule_task env t w = (if ie_scheduler env then w\<lparr>vw_tasks := vw_tasks w @ [t]\<rparr> else w)"

subsection \<open>Creation and upload\<close>

text \<open>The enumerations by value; \<open>None\<close> is the \<open>ValueError\<close>.\<close>

definition parse_classification :: "string \<Rightarrow> vault_classification option" where
  "parse_classification s =
     (if s = ''PUBLIC'' then Some VC_PUBLIC else if s = ''INTERNAL'' then Some VC_INTERNAL
      else if s = ''CONFIDENTIAL'' then Some VC_CONFIDENTIAL else if s = ''RESTRICTED'' then Some VC_RESTRICTED else None)"

definition parse_visibility :: "string \<Rightarrow> vault_visibility option" where
  "parse_visibility s =
     (if s = ''PRIVATE'' then Some VV_PRIVATE else if s = ''WORKSPACE'' then Some VV_WORKSPACE
      else if s = ''ROLE'' then Some VV_ROLE else None)"

definition requested_classification :: "string option \<Rightarrow> vault_classification option" where
  "requested_classification c = (if truthy_opt c then parse_classification (or_else c []) else Some VC_INTERNAL)"

definition requested_visibility :: "vault_identity \<Rightarrow> string option \<Rightarrow> vault_visibility option" where
  "requested_visibility who v =
     (if truthy_opt v \<and> is_operator who then parse_visibility (or_else v []) else Some VV_PRIVATE)"

record upload_out =
  uo_upload_id :: string
  uo_secret :: string
  uo_expires_at :: datetime
  uo_max_bytes :: int

definition create_document_route ::
  "ingestion_env \<Rightarrow> vault_identity \<Rightarrow> string \<Rightarrow> string \<Rightarrow> string option \<Rightarrow> string option \<Rightarrow> int \<Rightarrow> string \<Rightarrow> string \<Rightarrow> datetime
     \<Rightarrow> vault_world \<Rightarrow> upload_out http \<times> vault_world" where
  "create_document_route env who title media_type cls vis did secret name now w =
     (if \<not> ie_enabled env then (Http_error 403, w)
      else if \<not> ie_ready env then (Http_error 503, w)
      else
        (case requested_classification cls of
           None \<Rightarrow> (Http_error 422, w)
         | Some c \<Rightarrow>
             (case requested_visibility who vis of
                None \<Rightarrow> (Http_error 422, w)
              | Some v \<Rightarrow>
                  (let ws = id_workspace_id who;
                       (d, repo) = create_draft ws did title ''document'' (id_principal_id who) c v now (vw_repo w);
                       max_bytes = dict_get_or mime_type_limits media_type (10 * 1024 * 1024);
                       uid = ie_uuid_str env (vd_id d);
                       (ticket, st) = issue_ticket (ie_pre env) ws uid max_bytes secret name now (vw_store w);
                       w' = w\<lparr>vw_repo := repo, vw_store := st\<rparr>
                   in case ticket of
                        Inl e \<Rightarrow> (Http_error 500, w')
                      | Inr (s, deadline) \<Rightarrow>
                          (Http_ok \<lparr>uo_upload_id = uid, uo_secret = s, uo_expires_at = deadline, uo_max_bytes = max_bytes\<rparr>, w')))))"

text \<open>The workspace and the secret are query parameters; nobody is logged in.\<close>

definition upload_content_route ::
  "ingestion_env \<Rightarrow> string option \<Rightarrow> string \<Rightarrow> string option \<Rightarrow> string list \<Rightarrow> datetime \<Rightarrow> vault_world \<Rightarrow> unit http \<times> vault_world" where
  "upload_content_route env ws uid secret chunks now w =
     (if \<not> ie_enabled env then (Http_error 403, w)
      else if \<not> truthy_opt ws \<or> \<not> truthy_opt secret then (Http_error 400, w)
      else if \<not> ie_ready env then (Http_error 503, w)
      else
        (case write_upload_stream (ie_pre env) (or_else ws []) uid (or_else secret []) chunks now (vw_store w) of
           (None, st) \<Rightarrow> (Http_ok (), w\<lparr>vw_store := st\<rparr>)
         | (Some StoreValueError, st) \<Rightarrow> (Http_error 413, w\<lparr>vw_store := st\<rparr>)
         | (Some _, st) \<Rightarrow> (Http_error 404, w\<lparr>vw_store := st\<rparr>)))"

definition complete_upload_route ::
  "ingestion_env \<Rightarrow> vault_identity \<Rightarrow> string \<Rightarrow> vault_world \<Rightarrow> string http \<times> vault_world" where
  "complete_upload_route env who uid w =
     (if \<not> ie_enabled env then (Http_error 403, w)
      else if \<not> ie_ready env then (Http_error 503, w)
      else
        (let ws = id_workspace_id who in
         case finalize_upload (ie_pre env) ws uid (vw_store w) of
           Inl StoreValueError \<Rightarrow> (Http_error 400, w)
         | Inl e \<Rightarrow> (Http_error 404, w)
         | Inr q \<Rightarrow>
             (case read_quarantine_object ws (ql_path q) (vw_store w) of
                None \<Rightarrow> (Http_error 500, w)
              | Some content \<Rightarrow>
                  (Http_ok ''QUEUED'',
                   schedule_task env (IngestTask ws uid)
                     (w\<lparr>vw_attempts := create_queued ws uid (ql_path q) None (Some (sniff_mime_type (ie_pre env) content))
                          (Some (ql_source_sha256 q)) (Some (ql_size_bytes q)) (vw_attempts w)\<rparr>)))))"

subsection \<open>The worker task\<close>

datatype ingest_outcome = Ingest_no_op | Ingest_recorded | Ingest_rejected string | Ingest_raised

text \<open>The result of the steps after the claim: a mapped failure, an exception that has no code, or the
  candidate.\<close>

datatype pipeline_result = Pipeline_failed string | Pipeline_raised | Pipeline_candidate knowledge_document

definition preflight_code :: "string \<Rightarrow> string" where
  "preflight_code code = (if code \<in> set failure_codes then code else ''conversion_parser_error'')"

definition scan_failure :: "string \<Rightarrow> string option" where
  "scan_failure verdict =
     (if verdict = ''infected'' then Some ''malware_detected''
      else if verdict = ''unavailable'' then Some ''scanner_unavailable''
      else if verdict \<noteq> ''clean'' then Some ''conversion_parser_error''
      else None)"

definition convert_candidate :: "ingestion_env \<Rightarrow> string \<Rightarrow> string \<Rightarrow> validated_document \<Rightarrow> string \<Rightarrow> pipeline_result" where
  "convert_candidate env uid sid doc content =
     (case ie_convert env doc content of
        None \<Rightarrow> Pipeline_raised
      | Some res \<Rightarrow>
          if truthy_opt (cr_failure_code res) then Pipeline_failed (or_else (cr_failure_code res) [])
          else Pipeline_candidate
                 (normalise_conversion (ie_chunk env) sid res (va_object_key doc) (va_media_type doc) (va_source_sha256 doc) uid))"

definition scan_and_convert ::
  "ingestion_env \<Rightarrow> string \<Rightarrow> string \<Rightarrow> quarantined_object \<Rightarrow> validated_document \<Rightarrow> string \<Rightarrow> pipeline_result" where
  "scan_and_convert env uid sid q doc content =
     (case ie_scan env q content of
        None \<Rightarrow> Pipeline_raised
      | Some verdict \<Rightarrow>
          (case scan_failure verdict of
             Some code \<Rightarrow> Pipeline_failed code
           | None \<Rightarrow> convert_candidate env uid sid doc content))"

definition process_content :: "ingestion_env \<Rightarrow> string \<Rightarrow> string \<Rightarrow> quarantined_object \<Rightarrow> string \<Rightarrow> pipeline_result" where
  "process_content env uid sid q content =
     (case validate_quarantined_object (ie_pre env) q content of
        Inl code \<Rightarrow> Pipeline_failed (preflight_code code)
      | Inr doc \<Rightarrow>
          if va_media_type doc \<in> set office_mime_types
             \<and> \<not> ar_is_safe (preflight_office_archive (pe_archive_members (ie_pre env)) content)
          then Pipeline_failed ''archive_limit_exceeded''
          else scan_and_convert env uid sid q doc content)"

definition attempt_object :: "ingestion_attempt \<Rightarrow> quarantined_object" where
  "attempt_object a =
     \<lparr>qo_object_key = at_path a, qo_size_bytes = (case at_size_bytes a of None \<Rightarrow> 0 | Some n \<Rightarrow> n),
      qo_source_sha256 = or_else (at_sha256 a) [], qo_media_type = or_else (at_detected_type a) []\<rparr>"

definition process_claimed :: "ingestion_env \<Rightarrow> string \<Rightarrow> string \<Rightarrow> string \<Rightarrow> ingestion_attempt \<Rightarrow> document_store \<Rightarrow> pipeline_result" where
  "process_claimed env ws uid sid a st =
     (if at_path a = [] \<or> \<not> truthy_opt (at_detected_type a) \<or> \<not> truthy_opt (at_sha256 a) \<or> at_size_bytes a = None
      then Pipeline_raised
      else
        (case read_quarantine_object ws (at_path a) st of
           None \<Rightarrow> Pipeline_raised
         | Some content \<Rightarrow> process_content env uid sid (attempt_object a) content))"

text \<open>\<open>execute_knowledge_ingestion_task\<close> on a payload; \<open>sid\<close> is the generated identifier of the candidate.\<close>

definition payload_accepted ::
  "ingestion_env \<Rightarrow> string option \<Rightarrow> string option \<Rightarrow> string option \<Rightarrow> string option \<Rightarrow> bool" where
  "payload_accepted env task_type ws uid token \<longleftrightarrow>
     task_type = Some ''knowledge_ingestion'' \<and> truthy_opt ws \<and> truthy_opt uid \<and> truthy_opt token \<and> ie_enabled env"

definition execute_ingestion ::
  "ingestion_env \<Rightarrow> string option \<Rightarrow> string option \<Rightarrow> string option \<Rightarrow> string option \<Rightarrow> string \<Rightarrow> vault_world
     \<Rightarrow> ingest_outcome \<times> vault_world" where
  "execute_ingestion env task_type ws uid token sid w =
     (if \<not> payload_accepted env task_type ws uid token then (Ingest_raised, w)
      else
        (let ws = or_else ws []; uid = or_else uid [] in
         case claim_attempt ws uid (vw_attempts w) of
           (None, ats) \<Rightarrow> (Ingest_no_op, w)
         | (Some a, ats) \<Rightarrow>
             (let w1 = w\<lparr>vw_attempts := ats\<rparr> in
              case process_claimed env ws uid sid a (vw_store w) of
                Pipeline_raised \<Rightarrow> (Ingest_raised, w1)
              | Pipeline_failed code \<Rightarrow> (Ingest_rejected code, w1\<lparr>vw_attempts := snd (reject_attempt ws uid code True ats)\<rparr>)
              | Pipeline_candidate d \<Rightarrow>
                  (Ingest_recorded,
                   w1\<lparr>vw_knowledge := save_knowledge d (vw_knowledge w1),
                      vw_attempts := snd (record_candidate ws uid (kd_id d) ats)\<rparr>))))"


subsection \<open>Reading, review and publication\<close>

definition list_documents_route ::
  "ingestion_env \<Rightarrow> (int set \<Rightarrow> int list) \<Rightarrow> vault_identity \<Rightarrow> vault_world \<Rightarrow> (vault_document \<times> access_decision) list" where
  "list_documents_route env order who w =
     map (\<lambda>d. (d, resolve_access who (vd_id d) (vw_repo w)))
       (list_authorized_documents order (id_workspace_id who) (id_principal_id who)
          (case id_role_id who of None \<Rightarrow> [] | Some r \<Rightarrow> [r]) (vw_repo w))"

text \<open>The document of the path and the decision for it, \<open>None\<close> for the 404 of a malformed identifier.\<close>

definition parsed_access :: "ingestion_env \<Rightarrow> vault_identity \<Rightarrow> string \<Rightarrow> vault_world \<Rightarrow> (int \<times> access_decision) option" where
  "parsed_access env who document_id w =
     (case ie_uuid env document_id of None \<Rightarrow> None | Some did \<Rightarrow> Some (did, resolve_access who did (vw_repo w)))"

definition get_document_route ::
  "ingestion_env \<Rightarrow> vault_identity \<Rightarrow> string \<Rightarrow> vault_world \<Rightarrow> (vault_document \<times> access_decision) http" where
  "get_document_route env who document_id w =
     (case parsed_access env who document_id w of
        None \<Rightarrow> Http_error 404
      | Some (did, decision) \<Rightarrow>
          if \<not> dc_discover decision then Http_error 404
          else
            (case get_document (id_workspace_id who) did (vw_repo w) of
               None \<Rightarrow> Http_error 404
             | Some d \<Rightarrow> Http_ok (d, decision)))"

definition review_document_route ::
  "ingestion_env \<Rightarrow> vault_identity \<Rightarrow> string \<Rightarrow> vault_world \<Rightarrow> string http \<times> vault_world" where
  "review_document_route env who document_id w =
     (case parsed_access env who document_id w of
        None \<Rightarrow> (Http_error 404, w)
      | Some (did, decision) \<Rightarrow>
          if \<not> dc_review decision \<or> get_document (id_workspace_id who) did (vw_repo w) = None then (Http_error 404, w)
          else if \<not> ie_ready env then (Http_error 503, w)
          else
            (case reject_attempt (id_workspace_id who) (ie_uuid_str env did) ''reviewer_rejected'' True (vw_attempts w) of
               (ok, ats) \<Rightarrow> if \<not> ok then (Http_error 409, w) else (Http_ok ''REJECTED'', w\<lparr>vw_attempts := ats\<rparr>)))"

text \<open>The part of the publication after the copy: the version with the recorded hash and size, the state of
  the document, the state of the attempt.\<close>

definition record_publication ::
  "ingestion_env \<Rightarrow> vault_identity \<Rightarrow> int \<Rightarrow> string \<Rightarrow> int \<Rightarrow> string list \<Rightarrow> datetime \<Rightarrow> vault_world \<Rightarrow> string http \<times> vault_world" where
  "record_publication env who did uid vid ref now w =
     (let ws = id_workspace_id who;
          (sha, bytes) = get_source_metadata ws uid (vw_attempts w);
          version = ie_uuid_str env vid
      in case append_version ws did [(''relative_ref'', PList (map PStr ref))] (or_else sha [])
                (case bytes of None \<Rightarrow> 0 | Some n \<Rightarrow> n) (''workspaces/'' @ ws @ ''/vault/'' @ version)
                (id_principal_id who) vid now (vw_repo w) of
           (None, repo) \<Rightarrow> (Http_error 500, w)
         | (Some v, repo) \<Rightarrow>
             (case publish_attempt ws uid uid (ie_uuid_str env (vv_id v)) (vw_attempts w) of
                (ok, ats) \<Rightarrow>
                  (if ok then Http_ok ''PUBLISHED'' else Http_error 409,
                   w\<lparr>vw_repo := snd (update_document_state ws did ''PUBLISHED'' None now repo), vw_attempts := ats\<rparr>)))"

definition publish_document_route ::
  "ingestion_env \<Rightarrow> vault_identity \<Rightarrow> string \<Rightarrow> int \<Rightarrow> datetime \<Rightarrow> vault_world \<Rightarrow> string http \<times> vault_world" where
  "publish_document_route env who document_id vid now w =
     (case parsed_access env who document_id w of
        None \<Rightarrow> (Http_error 404, w)
      | Some (did, decision) \<Rightarrow>
          (let ws = id_workspace_id who; uid = ie_uuid_str env did in
           if \<not> dc_publish decision \<or> get_document ws did (vw_repo w) = None then (Http_error 404, w)
           else if \<not> ie_ready env then (Http_error 503, w)
           else if get_attempt_state ws uid (vw_attempts w) \<noteq> Some IS_REVIEW_PENDING then (Http_error 409, w)
           else
             (case get_quarantine_path ws uid (vw_attempts w) of
                None \<Rightarrow> (Http_error 500, w)
              | Some path \<Rightarrow>
                  if path = [] then (Http_error 500, w)
                  else
                    (case promote_to_vault (ie_pre env) ws (ie_uuid_str env vid) path (vw_store w) of
                       (None, st) \<Rightarrow> (Http_error 500, w\<lparr>vw_store := st\<rparr>)
                     | (Some ref, st) \<Rightarrow> record_publication env who did uid vid ref now (w\<lparr>vw_store := st\<rparr>)))))"

subsection \<open>Archive, revocation, legal hold and purge\<close>

text \<open>The two routes that only set a state.\<close>

definition change_state_route ::
  "string \<Rightarrow> ingestion_env \<Rightarrow> vault_identity \<Rightarrow> string \<Rightarrow> datetime \<Rightarrow> vault_world \<Rightarrow> unit http \<times> vault_world" where
  "change_state_route state env who document_id now w =
     (case parsed_access env who document_id w of
        None \<Rightarrow> (Http_error 404, w)
      | Some (did, decision) \<Rightarrow>
          if \<not> dc_manage decision then (Http_error 404, w)
          else
            (case update_document_state (id_workspace_id who) did state None now (vw_repo w) of
               (None, repo) \<Rightarrow> (Http_error 404, w)
             | (Some d, repo) \<Rightarrow> (Http_ok (), w\<lparr>vw_repo := repo\<rparr>)))"

definition delete_document_route ::
  "ingestion_env \<Rightarrow> vault_identity \<Rightarrow> string \<Rightarrow> datetime \<Rightarrow> vault_world \<Rightarrow> unit http \<times> vault_world" where
  "delete_document_route = change_state_route ''ARCHIVED''"

definition revoke_document_route ::
  "ingestion_env \<Rightarrow> vault_identity \<Rightarrow> string \<Rightarrow> datetime \<Rightarrow> vault_world \<Rightarrow> unit http \<times> vault_world" where
  "revoke_document_route = change_state_route ''REVOKED''"

datatype purge_result = Purge_not_found | Purge_blocked | Purge_pending

definition request_purge :: "string \<Rightarrow> int \<Rightarrow> datetime \<Rightarrow> vault_repo \<Rightarrow> purge_result \<times> vault_repo" where
  "request_purge ws did now repo =
     (case get_document ws did repo of
        None \<Rightarrow> (Purge_not_found, repo)
      | Some d \<Rightarrow>
          if vd_legal_hold d then (Purge_blocked, repo)
          else (Purge_pending, snd (update_document_state ws did ''PURGE_PENDING'' None now repo)))"

definition purge_document_route ::
  "ingestion_env \<Rightarrow> vault_identity \<Rightarrow> string \<Rightarrow> datetime \<Rightarrow> vault_world \<Rightarrow> unit http \<times> vault_world" where
  "purge_document_route env who document_id now w =
     (case parsed_access env who document_id w of
        None \<Rightarrow> (Http_error 404, w)
      | Some (did, decision) \<Rightarrow>
          if \<not> dc_manage decision then (Http_error 404, w)
          else if \<not> ie_ready env then (Http_error 503, w)
          else
            (case request_purge (id_workspace_id who) did now (vw_repo w) of
               (Purge_not_found, repo) \<Rightarrow> (Http_error 404, w)
             | (Purge_blocked, repo) \<Rightarrow> (Http_error 409, w)
             | (Purge_pending, repo) \<Rightarrow>
                 (Http_ok (), schedule_task env (PurgeTask (id_workspace_id who) document_id) (w\<lparr>vw_repo := repo\<rparr>))))"

definition legal_hold_route ::
  "ingestion_env \<Rightarrow> vault_identity \<Rightarrow> string \<Rightarrow> bool \<Rightarrow> datetime \<Rightarrow> vault_world \<Rightarrow> bool http \<times> vault_world" where
  "legal_hold_route env who document_id hold now w =
     (case parsed_access env who document_id w of
        None \<Rightarrow> (Http_error 404, w)
      | Some (did, decision) \<Rightarrow>
          if \<not> dc_manage decision then (Http_error 404, w)
          else if \<not> ie_ready env then (Http_error 503, w)
          else (Http_ok hold, w\<lparr>vw_repo := snd (set_legal_hold (id_workspace_id who) did hold now (vw_repo w))\<rparr>))"

text \<open>The loop over the versions ends at an invalid identifier; the flag is whether it did not.\<close>

fun purge_versions :: "ingestion_env \<Rightarrow> string \<Rightarrow> vault_version list \<Rightarrow> document_store \<Rightarrow> bool \<times> document_store" where
  "purge_versions env ws [] st = (True, st)"
| "purge_versions env ws (v # vs) st =
     (case purge_version ws (ie_uuid_str env (vv_id v)) st of
        None \<Rightarrow> (False, st)
      | Some st' \<Rightarrow> purge_versions env ws vs st')"

definition execute_purge :: "ingestion_env \<Rightarrow> string \<Rightarrow> int \<Rightarrow> datetime \<Rightarrow> vault_world \<Rightarrow> vault_world" where
  "execute_purge env ws did now w =
     (case get_document ws did (vw_repo w) of
        None \<Rightarrow> w
      | Some d \<Rightarrow>
          if vd_state d \<noteq> ''PURGE_PENDING'' then w
          else
            (let (ok, st) = purge_versions env ws (list_versions ws did (vw_repo w)) (vw_store w);
                 w' = w\<lparr>vw_knowledge := delete_by_vault_document ws (ie_uuid_str env did) (vw_knowledge w), vw_store := st\<rparr>
             in if ok then w'\<lparr>vw_repo := snd (update_document_state ws did ''PURGED'' None now (vw_repo w'))\<rparr> else w'))"

definition execute_purge_payload :: "ingestion_env \<Rightarrow> string \<Rightarrow> string \<Rightarrow> datetime \<Rightarrow> vault_world \<Rightarrow> vault_world" where
  "execute_purge_payload env ws document_id now w =
     (if \<not> ie_ready env then w
      else (case ie_uuid env document_id of None \<Rightarrow> w | Some did \<Rightarrow> execute_purge env ws did now w))"

end
