(* ===== verification/IngestionProps.thy ===== *)
theory IngestionProps
  imports Ingestion
begin

text \<open>
  The document pipeline over every sequence of requests and tasks: the machine, what each step can change,
  its invariants and the properties.
\<close>

subsection \<open>The machine\<close>

datatype vault_request =
    RCreate vault_identity string string "string option" "string option" int string string datetime
  | RUpload "string option" string "string option" "string list" datetime
  | RComplete vault_identity string
  | RReview vault_identity string
  | RPublish vault_identity string int datetime
  | RArchive vault_identity string datetime
  | RRevoke vault_identity string datetime
  | RPurge vault_identity string datetime
  | RHold vault_identity string bool datetime
  | RGrant string int access_grant
  | RIngest "string option" "string option" "string option" "string option" string
  | RExecutePurge string string datetime
  | RStatus string string string

fun request_step :: "ingestion_env \<Rightarrow> vault_request \<Rightarrow> vault_world \<Rightarrow> vault_world" where
  "request_step env (RCreate who title media cls vis did secret name now) w =
     snd (create_document_route env who title media cls vis did secret name now w)"
| "request_step env (RUpload ws uid secret chunks now) w = snd (upload_content_route env ws uid secret chunks now w)"
| "request_step env (RComplete who uid) w = snd (complete_upload_route env who uid w)"
| "request_step env (RReview who did) w = snd (review_document_route env who did w)"
| "request_step env (RPublish who did vid now) w = snd (publish_document_route env who did vid now w)"
| "request_step env (RArchive who did now) w = snd (delete_document_route env who did now w)"
| "request_step env (RRevoke who did now) w = snd (revoke_document_route env who did now w)"
| "request_step env (RPurge who did now) w = snd (purge_document_route env who did now w)"
| "request_step env (RHold who did hold now) w = snd (legal_hold_route env who did hold now w)"
| "request_step env (RGrant ws did g) w = w\<lparr>vw_repo := grant_access ws did g (vw_repo w)\<rparr>"
| "request_step env (RIngest task_type ws uid token sid) w = snd (execute_ingestion env task_type ws uid token sid w)"
| "request_step env (RExecutePurge ws did now) w = execute_purge_payload env ws did now w"
| "request_step env (RStatus sid status ws) w = w\<lparr>vw_knowledge := snd (update_ingest_status sid status ws (vw_knowledge w))\<rparr>"

text \<open>Generated identifiers are new.\<close>

fun request_guard :: "ingestion_env \<Rightarrow> vault_request \<Rightarrow> vault_world \<Rightarrow> bool" where
  "request_guard env (RCreate who title media cls vis did secret name now) w =
     (get_document (id_workspace_id who) did (vw_repo w) = None)"
| "request_guard env (RPublish who did vid now) w = (get_version (id_workspace_id who) vid (vw_repo w) = None)"
| "request_guard env _ w = True"

subsection \<open>What the steps change\<close>

lemma create_cases:
  "snd (create_document_route env who title media cls vis did secret name now w) = w \<or>
   (\<exists>c v. snd (create_document_route env who title media cls vis did secret name now w) =
      w\<lparr>vw_repo := snd (create_draft (id_workspace_id who) did title ''document'' (id_principal_id who) c v now (vw_repo w)),
        vw_store := snd (issue_ticket (ie_pre env) (id_workspace_id who) (ie_uuid_str env did)
                      (dict_get_or mime_type_limits media (10 * 1024 * 1024)) secret name now (vw_store w))\<rparr>)"
  unfolding create_document_route_def
  by (auto simp: Let_def create_draft_def draft_document_def split: option.split prod.split sum.split)

lemma upload_cases:
  "snd (upload_content_route env ws uid secret chunks now w) = w \<or>
   snd (upload_content_route env ws uid secret chunks now w) =
      w\<lparr>vw_store := snd (write_upload_stream (ie_pre env) (or_else ws []) uid (or_else secret []) chunks now (vw_store w))\<rparr>"
  unfolding upload_content_route_def
  by (auto split: option.split prod.split store_error.split)

lemma schedule_task_parts [simp]:
  "vw_repo (schedule_task env t w) = vw_repo w" "vw_store (schedule_task env t w) = vw_store w"
  "vw_attempts (schedule_task env t w) = vw_attempts w" "vw_knowledge (schedule_task env t w) = vw_knowledge w"
  by (simp_all add: schedule_task_def)

lemma complete_cases:
  "snd (complete_upload_route env who uid w) = w \<or>
   (\<exists>q content. finalize_upload (ie_pre env) (id_workspace_id who) uid (vw_store w) = Inr q \<and>
      read_quarantine_object (id_workspace_id who) (ql_path q) (vw_store w) = Some content \<and>
      snd (complete_upload_route env who uid w) =
         schedule_task env (IngestTask (id_workspace_id who) uid)
           (w\<lparr>vw_attempts := create_queued (id_workspace_id who) uid (ql_path q) None
                (Some (sniff_mime_type (ie_pre env) content)) (Some (ql_source_sha256 q)) (Some (ql_size_bytes q)) (vw_attempts w)\<rparr>))"
  unfolding complete_upload_route_def
  by (auto simp: Let_def split: option.split sum.split store_error.split)

lemma review_cases:
  "snd (review_document_route env who document_id w) = w \<or>
   (\<exists>did. ie_uuid env document_id = Some did \<and> dc_review (resolve_access who did (vw_repo w)) \<and>
      snd (review_document_route env who document_id w) =
         w\<lparr>vw_attempts := snd (reject_attempt (id_workspace_id who) (ie_uuid_str env did) ''reviewer_rejected'' True (vw_attempts w))\<rparr>)"
  unfolding review_document_route_def parsed_access_def
  by (auto split: option.split prod.split)

lemma change_state_cases:
  "snd (change_state_route state env who document_id now w) = w \<or>
   (\<exists>did. ie_uuid env document_id = Some did \<and> dc_manage (resolve_access who did (vw_repo w)) \<and>
      snd (change_state_route state env who document_id now w) =
         w\<lparr>vw_repo := snd (update_document_state (id_workspace_id who) did state None now (vw_repo w))\<rparr>)"
  unfolding change_state_route_def parsed_access_def
  by (auto split: option.split prod.split)

lemma purge_cases:
  "snd (purge_document_route env who document_id now w) = w \<or>
   (\<exists>did d. ie_uuid env document_id = Some did \<and> dc_manage (resolve_access who did (vw_repo w)) \<and>
      get_document (id_workspace_id who) did (vw_repo w) = Some d \<and> \<not> vd_legal_hold d \<and>
      snd (purge_document_route env who document_id now w) =
         schedule_task env (PurgeTask (id_workspace_id who) document_id)
          (w\<lparr>vw_repo := snd (update_document_state (id_workspace_id who) did ''PURGE_PENDING'' None now (vw_repo w))\<rparr>))"
  unfolding purge_document_route_def parsed_access_def request_purge_def
  by (auto split: option.split prod.split)

lemma hold_cases:
  "snd (legal_hold_route env who document_id hold now w) = w \<or>
   (\<exists>did. ie_uuid env document_id = Some did \<and> dc_manage (resolve_access who did (vw_repo w)) \<and>
      snd (legal_hold_route env who document_id hold now w) =
         w\<lparr>vw_repo := snd (set_legal_hold (id_workspace_id who) did hold now (vw_repo w))\<rparr>)"
  unfolding legal_hold_route_def parsed_access_def
  by (auto split: option.split prod.split)

text \<open>A publication copies the file of the attempt and then records the version, the state and the attempt.\<close>

lemma publish_cases:
  "snd (publish_document_route env who document_id vid now w) = w \<or>
   (\<exists>did a st ref. let ws = id_workspace_id who; uid = ie_uuid_str env did in
      ie_uuid env document_id = Some did \<and> dc_publish (resolve_access who did (vw_repo w)) \<and>
      dict_get (vw_attempts w) (ws, uid) = Some a \<and> at_state a = IS_REVIEW_PENDING \<and>
      promote_to_vault (ie_pre env) ws (ie_uuid_str env vid) (at_path a) (vw_store w) = (ref, st) \<and>
      (case ref of
         None \<Rightarrow> snd (publish_document_route env who document_id vid now w) = w\<lparr>vw_store := st\<rparr>
       | Some r \<Rightarrow>
           snd (publish_document_route env who document_id vid now w) =
             snd (record_publication env who did uid vid r now (w\<lparr>vw_store := st\<rparr>))))"
proof -
  let ?ws = "id_workspace_id who"
  show ?thesis
  proof (cases "ie_uuid env document_id")
    case None
    then show ?thesis by (simp add: publish_document_route_def parsed_access_def)
  next
    case (Some did)
    let ?uid = "ie_uuid_str env did"
    show ?thesis
    proof (cases "get_attempt_state ?ws ?uid (vw_attempts w) = Some IS_REVIEW_PENDING \<and> dc_publish (resolve_access who did (vw_repo w))")
      case False
      with Some show ?thesis by (auto simp: publish_document_route_def parsed_access_def Let_def)
    next
      case True
      then obtain a where a: "dict_get (vw_attempts w) (?ws, ?uid) = Some a" "at_state a = IS_REVIEW_PENDING"
        by (auto simp: get_attempt_state_def)
      obtain ref st where p: "promote_to_vault (ie_pre env) ?ws (ie_uuid_str env vid) (at_path a) (vw_store w) = (ref, st)"
        by fastforce
      have path: "get_quarantine_path ?ws ?uid (vw_attempts w) = Some (at_path a)"
        using a by (simp add: get_quarantine_path_def)
      have "snd (publish_document_route env who document_id vid now w) = w \<or>
        (case ref of
         None \<Rightarrow> snd (publish_document_route env who document_id vid now w) = w\<lparr>vw_store := st\<rparr>
       | Some r \<Rightarrow>
           snd (publish_document_route env who document_id vid now w) =
             snd (record_publication env who did ?uid vid r now (w\<lparr>vw_store := st\<rparr>)))"
        using Some True p path by (auto simp: publish_document_route_def parsed_access_def Let_def split: option.split)
      with Some True a p show ?thesis unfolding Let_def by blast
    qed
  qed
qed

text \<open>The version a publication records.\<close>

definition publication_repo ::
  "ingestion_env \<Rightarrow> vault_identity \<Rightarrow> int \<Rightarrow> string \<Rightarrow> int \<Rightarrow> string list \<Rightarrow> datetime \<Rightarrow> vault_world \<Rightarrow> vault_repo" where
  "publication_repo env who did uid vid ref now w =
     (let ws = id_workspace_id who; (sha, bytes) = get_source_metadata ws uid (vw_attempts w) in
      snd (update_document_state ws did ''PUBLISHED'' None now
        (snd (append_version ws did [(''relative_ref'', PList (map PStr ref))] (or_else sha [])
                (case bytes of None \<Rightarrow> 0 | Some n \<Rightarrow> n) (''workspaces/'' @ ws @ ''/vault/'' @ ie_uuid_str env vid)
                (id_principal_id who) vid now (vw_repo w)))))"

lemma record_publication_eq:
  assumes "get_document (id_workspace_id who) did (vw_repo w) = Some d"
  shows "record_publication env who did uid vid ref now w =
     (if fst (publish_attempt (id_workspace_id who) uid uid (ie_uuid_str env vid) (vw_attempts w))
      then Http_ok ''PUBLISHED'' else Http_error 409,
      w\<lparr>vw_repo := publication_repo env who did uid vid ref now w,
        vw_attempts := snd (publish_attempt (id_workspace_id who) uid uid (ie_uuid_str env vid) (vw_attempts w))\<rparr>)"
  using assms
  by (simp add: record_publication_def publication_repo_def append_version_def Let_def split: prod.split)

lemma access_document: "dc_discover (resolve_access who did repo) \<Longrightarrow> \<exists>d. get_document (id_workspace_id who) did repo = Some d"
  by (auto simp: resolve_access_def deny_access_def Let_def split: option.splits)

lemma publish_access_document:
  "dc_publish (resolve_access who did repo) \<Longrightarrow> \<exists>d. get_document (id_workspace_id who) did repo = Some d"
  by (auto simp: resolve_access_def deny_access_def Let_def split: option.splits)

text \<open>The parts of the world after a worker task.\<close>

lemma ingest_cases:
  "snd (execute_ingestion env task_type ws uid token sid w) = w \<or>
   (\<exists>a. let k = (or_else ws [], or_else uid []) in
      dict_get (vw_attempts w) k = Some a \<and> at_state a = IS_QUEUED \<and>
      (\<exists>a'. vw_attempts (snd (execute_ingestion env task_type ws uid token sid w)) = dict_set k a' (vw_attempts w) \<and>
         vw_repo (snd (execute_ingestion env task_type ws uid token sid w)) = vw_repo w \<and>
         vw_store (snd (execute_ingestion env task_type ws uid token sid w)) = vw_store w \<and>
         ((process_claimed env (fst k) (snd k) sid (a\<lparr>at_state := IS_VALIDATING\<rparr>) (vw_store w) = Pipeline_raised \<and>
             a' = a\<lparr>at_state := IS_VALIDATING\<rparr> \<and>
             vw_knowledge (snd (execute_ingestion env task_type ws uid token sid w)) = vw_knowledge w) \<or>
          (\<exists>code. process_claimed env (fst k) (snd k) sid (a\<lparr>at_state := IS_VALIDATING\<rparr>) (vw_store w) = Pipeline_failed code \<and>
             a' = a\<lparr>at_state := IS_REJECTED, at_failure_code := Some code\<rparr> \<and>
             vw_knowledge (snd (execute_ingestion env task_type ws uid token sid w)) = vw_knowledge w) \<or>
          (\<exists>d. process_claimed env (fst k) (snd k) sid (a\<lparr>at_state := IS_VALIDATING\<rparr>) (vw_store w) = Pipeline_candidate d \<and>
             a' = a\<lparr>at_state := IS_REVIEW_PENDING, at_knowledge_source_id := Some (kd_id d)\<rparr> \<and>
             vw_knowledge (snd (execute_ingestion env task_type ws uid token sid w)) = save_knowledge d (vw_knowledge w)))))"
proof -
  let ?k = "(or_else ws [], or_else uid [])"
  show ?thesis
  proof (cases "dict_get (vw_attempts w) ?k")
    case None
    then show ?thesis by (simp add: execute_ingestion_def claim_attempt_def Let_def)
  next
    case (Some a)
    show ?thesis
    proof (cases "at_state a = IS_QUEUED")
      case False
      with Some show ?thesis by (simp add: execute_ingestion_def claim_attempt_def Let_def)
    next
      case True
      have twice: "AList.update k y (AList.update k x m) = AList.update k y m" for k :: "string \<times> string" and x y and m :: attempts
        by (induction m) auto
      show ?thesis
        using Some True
        by (cases "process_claimed env (fst ?k) (snd ?k) sid (a\<lparr>at_state := IS_VALIDATING\<rparr>) (vw_store w)")
          (auto simp: execute_ingestion_def claim_attempt_def reject_attempt_def record_candidate_def twice Let_def)
    qed
  qed
qed

subsection \<open>The order of the attempts\<close>

fun attempt_progress :: "ingestion_state \<Rightarrow> ingestion_state list" where
  "attempt_progress IS_QUEUED = [IS_QUEUED, IS_VALIDATING, IS_REVIEW_PENDING, IS_PUBLISHED, IS_REJECTED]"
| "attempt_progress IS_VALIDATING = [IS_VALIDATING, IS_REJECTED]"
| "attempt_progress IS_CONVERTING = [IS_CONVERTING, IS_REJECTED]"
| "attempt_progress IS_REVIEW_PENDING = [IS_REVIEW_PENDING, IS_PUBLISHED]"
| "attempt_progress s = [s]"

definition attempt_le :: "ingestion_attempt \<Rightarrow> ingestion_attempt \<Rightarrow> bool" where
  "attempt_le a b \<longleftrightarrow>
     at_state b \<in> set (attempt_progress (at_state a)) \<and> at_path b = at_path a \<and> at_sha256 b = at_sha256 a \<and>
     at_size_bytes b = at_size_bytes a \<and> at_detected_type b = at_detected_type a \<and>
     (at_state b = at_state a \<longrightarrow> b = a)"

lemma attempt_progress_refl [simp]: "s \<in> set (attempt_progress s)"
  by (cases s) auto

lemma attempt_le_refl [simp]: "attempt_le a a"
  by (simp add: attempt_le_def)

lemma attempt_le_trans: "attempt_le a b \<Longrightarrow> attempt_le b c \<Longrightarrow> attempt_le a c"
  by (cases "at_state a"; cases "at_state b"; cases "at_state c") (auto simp: attempt_le_def)

definition attempts_le :: "vault_world \<Rightarrow> vault_world \<Rightarrow> bool" where
  "attempts_le w w' \<longleftrightarrow>
     (\<forall>k a. dict_get (vw_attempts w) k = Some a \<longrightarrow> (\<exists>b. dict_get (vw_attempts w') k = Some b \<and> attempt_le a b))"

lemma attempts_le_same: "vw_attempts w' = vw_attempts w \<Longrightarrow> attempts_le w w'"
  by (auto simp: attempts_le_def)

lemma attempts_le_set:
  assumes "vw_attempts w' = dict_set k b (vw_attempts w)"
    and "\<And>a. dict_get (vw_attempts w) k = Some a \<Longrightarrow> attempt_le a b"
  shows "attempts_le w w'"
  using assms by (auto simp: attempts_le_def)

lemma reject_attempt_le:
  "vw_attempts w' = snd (reject_attempt ws uid code True (vw_attempts w)) \<Longrightarrow> attempts_le w w'"
  by (cases "dict_get (vw_attempts w) (ws, uid)")
    (auto simp: reject_attempt_def attempts_le_def attempt_le_def split: if_splits)

lemma publish_attempt_le:
  "vw_attempts w' = snd (publish_attempt ws uid did vid (vw_attempts w)) \<Longrightarrow> attempts_le w w'"
  by (cases "dict_get (vw_attempts w) (ws, uid)")
    (auto simp: publish_attempt_def attempts_le_def attempt_le_def split: if_splits)

lemma create_queued_le:
  "vw_attempts w' = create_queued ws uid path declared detected sha bytes (vw_attempts w) \<Longrightarrow> attempts_le w w'"
  by (auto simp: create_queued_def attempts_le_def split: if_splits)

lemma ingest_le: "attempts_le w (snd (execute_ingestion env task_type ws uid token sid w))"
proof -
  let ?k = "(or_else ws [], or_else uid [])"
  let ?w = "snd (execute_ingestion env task_type ws uid token sid w)"
  consider "?w = w"
    | a a' where "dict_get (vw_attempts w) ?k = Some a" "at_state a = IS_QUEUED" "vw_attempts ?w = dict_set ?k a' (vw_attempts w)"
      "a' = a\<lparr>at_state := IS_VALIDATING\<rparr> \<or> (\<exists>code. a' = a\<lparr>at_state := IS_REJECTED, at_failure_code := Some code\<rparr>) \<or>
       (\<exists>i. a' = a\<lparr>at_state := IS_REVIEW_PENDING, at_knowledge_source_id := Some i\<rparr>)"
    using ingest_cases [of env task_type ws uid token sid w] unfolding Let_def by blast
  then show ?thesis
  proof cases
    case 1
    then show ?thesis by (simp add: attempts_le_same)
  next
    case 2
    from 2(3) show ?thesis by (rule attempts_le_set) (use 2 in \<open>auto simp: attempt_le_def\<close>)
  qed
qed

lemma publish_le: "attempts_le w (snd (publish_document_route env who document_id vid now w))"
proof -
  let ?w = "snd (publish_document_route env who document_id vid now w)"
  consider "vw_attempts ?w = vw_attempts w"
    | did ref st where "dc_publish (resolve_access who did (vw_repo w))"
       "?w = snd (record_publication env who did (ie_uuid_str env did) vid ref now (w\<lparr>vw_store := st\<rparr>))"
    using publish_cases [of env who document_id vid now w] unfolding Let_def
    by (force split: option.splits)
  then show ?thesis
  proof cases
    case 1
    then show ?thesis by (rule attempts_le_same)
  next
    case 2
    from publish_access_document [OF 2(1)] obtain d where d: "get_document (id_workspace_id who) did (vw_repo (w\<lparr>vw_store := st\<rparr>)) = Some d"
      by auto
    show ?thesis
      unfolding 2(2) record_publication_eq [OF d] snd_conv
      by (rule publish_attempt_le) simp
  qed
qed

lemma request_step_le: "attempts_le w (request_step env op w)"
proof (cases op)
  case (RCreate who title media cls vis did secret name now)
  then show ?thesis using create_cases [of env who title media cls vis did secret name now w] by (auto intro: attempts_le_same)
next
  case (RUpload ws uid secret chunks now)
  then show ?thesis using upload_cases [of env ws uid secret chunks now w] by (auto intro: attempts_le_same)
next
  case (RComplete who uid)
  then show ?thesis using complete_cases [of env who uid w] by (auto intro: attempts_le_same create_queued_le)
next
  case (RReview who did)
  then show ?thesis using review_cases [of env who did w] by (auto intro: attempts_le_same reject_attempt_le)
next
  case (RPublish who did vid now)
  then show ?thesis by (simp add: publish_le)
next
  case (RArchive who did now)
  then show ?thesis using change_state_cases [of "''ARCHIVED''" env who did now w]
    by (auto simp: delete_document_route_def intro: attempts_le_same)
next
  case (RRevoke who did now)
  then show ?thesis using change_state_cases [of "''REVOKED''" env who did now w]
    by (auto simp: revoke_document_route_def intro: attempts_le_same)
next
  case (RPurge who did now)
  then show ?thesis using purge_cases [of env who did now w] by (auto intro: attempts_le_same)
next
  case (RHold who did hold now)
  then show ?thesis using hold_cases [of env who did hold now w] by (auto intro: attempts_le_same)
next
  case (RIngest task_type ws uid token sid)
  then show ?thesis by (simp add: ingest_le)
next
  case (RExecutePurge ws did now)
  then show ?thesis
    by (auto simp: execute_purge_payload_def execute_purge_def Let_def intro!: attempts_le_same split: option.split prod.split)
qed (auto intro: attempts_le_same)

lemma attempts_le_trans: "attempts_le w w' \<Longrightarrow> attempts_le w' w'' \<Longrightarrow> attempts_le w w''"
  unfolding attempts_le_def by (meson attempt_le_trans)

subsection \<open>The invariant\<close>

definition max_upload :: int where "max_upload = 25 * mib"

text \<open>A path the store gives out: a ticket's file or a copy in the vault.\<close>

fun store_path :: "string list \<Rightarrow> bool" where
  "store_path [area, ws, x] = (area = ''vault'' \<and> valid_id ws \<and> valid_id x)"
| "store_path [area, ws, uid, x] = (area = ''quarantine'' \<and> valid_id ws \<and> valid_id uid)"
| "store_path _ = False"

definition ticket_ok :: "string \<times> string \<Rightarrow> upload_ticket \<Rightarrow> bool" where
  "ticket_ok k t \<longleftrightarrow> (\<exists>name. ut_path t = [''quarantine'', fst k, snd k, name]) \<and> store_path (ut_path t) \<and> ut_max_bytes t \<le> max_upload"

definition store_ok :: "document_store \<Rightarrow> bool" where
  "store_ok st \<longleftrightarrow>
     (\<forall>k t. dict_get (ds_tickets st) k = Some t \<longrightarrow> ticket_ok k t) \<and>
     (\<forall>path c. dict_get (ds_files st) path = Some c \<longrightarrow> store_path path \<and> int (length c) \<le> max_upload)"

lemma store_okD:
  "store_ok st \<Longrightarrow> dict_get (ds_tickets st) k = Some t \<Longrightarrow> ticket_ok k t"
  "store_ok st \<Longrightarrow> dict_get (ds_files st) path = Some c \<Longrightarrow> store_path path"
  "store_ok st \<Longrightarrow> dict_get (ds_files st) path = Some c \<Longrightarrow> int (length c) \<le> max_upload"
  unfolding store_ok_def by blast+

lemma store_ok_file:
  "store_ok st \<Longrightarrow> store_path path \<Longrightarrow> int (length c) \<le> max_upload \<Longrightarrow> store_ok (st\<lparr>ds_files := dict_set path c (ds_files st)\<rparr>)"
  by (simp add: store_ok_def)

lemma store_ok_file_del: "store_ok st \<Longrightarrow> store_ok (st\<lparr>ds_files := dict_del path (ds_files st)\<rparr>)"
  by (simp add: store_ok_def)

lemma valid_id_not_dots: "valid_id s \<Longrightarrow> s \<noteq> ''..'' \<and> s \<noteq> ''/''"
  by (auto simp: valid_id_def id_char_def)

lemma resolve_within_root_id [simp]: "list_all (\<lambda>x. x \<noteq> ''..'' \<and> x \<noteq> ''/'') parts \<Longrightarrow> resolve_within_root parts = Some parts"
proof -
  have "list_all (\<lambda>x. x \<noteq> ''..'' \<and> x \<noteq> ''/'') parts \<Longrightarrow> resolve_parts acc parts = Some (acc @ parts)" for acc
    by (induction parts arbitrary: acc) auto
  then show "list_all (\<lambda>x. x \<noteq> ''..'' \<and> x \<noteq> ''/'') parts \<Longrightarrow> resolve_within_root parts = Some parts"
    by (simp add: resolve_within_root_def)
qed

lemma media_limit_max: "dict_get_or mime_type_limits media (10 * 1024 * 1024) \<le> max_upload"
  by (simp add: dict_get_or_def mime_type_limits_def max_upload_def mib_def)

lemma issue_ticket_ok:
  assumes "store_ok st" "max_bytes \<le> max_upload"
  shows "store_ok (snd (issue_ticket env ws uid max_bytes secret name now st))"
proof (cases "valid_id ws \<and> valid_id uid \<and> 0 < max_bytes")
  case True
  then have "resolve_within_root [''quarantine'', ws, uid] = Some [''quarantine'', ws, uid]"
    using valid_id_not_dots [of ws] valid_id_not_dots [of uid] by (intro resolve_within_root_id) simp
  with True assms show ?thesis
    by (simp add: issue_ticket_def Let_def store_ok_def ticket_ok_def)
next
  case False
  with assms show ?thesis by (auto simp: issue_ticket_def)
qed

lemma write_chunks_bound: "write_chunks m cs acc = Some c \<Longrightarrow> int (length acc) \<le> m \<Longrightarrow> int (length c) \<le> m"
  by (induction m cs acc rule: write_chunks.induct) (auto split: if_splits)

lemma authorize_upload_ticket:
  "authorize_upload env ws uid secret now st = Inr t \<Longrightarrow>
     dict_get (ds_tickets st) (ws, uid) = Some t \<and> pe_sha256 env secret = ut_secret_hash t \<and> now \<le> ut_expires_at t"
  by (auto simp: authorize_upload_def split: option.splits if_splits)

lemma write_chunks_content: "write_chunks m cs acc = Some c \<Longrightarrow> c = acc @ concat cs"
  by (induction m cs acc rule: write_chunks.induct) (auto split: if_splits)

lemma write_upload_ok:
  assumes "store_ok st"
  shows "store_ok (snd (write_upload_stream env ws uid secret chunks now st))"
proof (cases "authorize_upload env ws uid secret now st")
  case (Inl e)
  with assms show ?thesis by (simp add: write_upload_stream_def)
next
  case (Inr t)
  from authorize_upload_ticket [OF this] store_okD(1) [OF assms] have t: "ticket_ok (ws, uid) t" by blast
  show ?thesis
  proof (cases "write_chunks (ut_max_bytes t) chunks []")
    case None
    with Inr assms show ?thesis by (simp add: write_upload_stream_def)
  next
    case (Some c)
    have "int (length c) \<le> max_upload"
    proof (cases "0 \<le> ut_max_bytes t")
      case True
      with write_chunks_bound [OF Some] t show ?thesis by (simp add: ticket_ok_def)
    next
      case False
      with Some have "chunks = []" by (cases chunks) (auto split: if_splits)
      with Some show ?thesis by (simp add: max_upload_def mib_def)
    qed
    with t assms Inr Some show ?thesis
      by (simp add: write_upload_stream_def store_ok_file ticket_ok_def)
  qed
qed

lemma promote_ok:
  assumes "store_ok st"
  shows "store_ok (snd (promote_to_vault env ws vid ref st))"
proof (cases "valid_id ws \<and> valid_id vid")
  case False
  with assms show ?thesis by (auto simp: promote_to_vault_def)
next
  case True
  show ?thesis
  proof (cases "resolve_within_root ref")
    case None
    with assms show ?thesis by (simp add: promote_to_vault_def)
  next
    case (Some p)
    show ?thesis
    proof (cases "dict_get (ds_files st) p")
      case None
      with Some assms show ?thesis by (simp add: promote_to_vault_def)
    next
      case c: (Some c)
      from store_okD(3) [OF assms c] True assms Some c show ?thesis
        by (simp add: promote_to_vault_def Let_def store_ok_file)
    qed
  qed
qed

lemma purge_versions_ok: "store_ok st \<Longrightarrow> store_ok (snd (purge_versions env ws vs st))"
proof (induction env ws vs st rule: purge_versions.induct)
  case (2 env ws v vs st)
  then show ?case
    by (auto simp: purge_version_def store_ok_file_del split: option.splits if_splits)
qed simp

lemma finalize_upload_ticket:
  "finalize_upload env ws uid st = Inr q \<Longrightarrow>
     \<exists>t c. dict_get (ds_tickets st) (ws, uid) = Some t \<and> dict_get (ds_files st) (ut_path t) = Some c \<and>
       ql_path q = ut_path t \<and> ql_source_sha256 q = pe_sha256 env c \<and> ql_size_bytes q = int (length c)"
  by (auto simp: finalize_upload_def split: option.splits if_splits)


text \<open>The attempt got past the checks: bytes with the recorded hash were validated and scanned clean.\<close>

definition passed_checks :: "ingestion_env \<Rightarrow> ingestion_attempt \<Rightarrow> bool" where
  "passed_checks env a \<longleftrightarrow>
     (\<exists>content doc. at_sha256 a = Some (pe_sha256 (ie_pre env) content) \<and>
        validate_quarantined_object (ie_pre env) (attempt_object a) content = Inr doc \<and>
        ie_scan env (attempt_object a) content = Some ''clean'')"

definition gated :: "ingestion_env \<Rightarrow> attempts \<Rightarrow> bool" where
  "gated env ats \<longleftrightarrow>
     (\<forall>ws uid a. dict_get ats (ws, uid) = Some a \<longrightarrow>
        (\<exists>name. at_path a = [''quarantine'', ws, uid, name]) \<and>
        (at_state a = IS_REVIEW_PENDING \<or> at_state a = IS_PUBLISHED \<longrightarrow> passed_checks env a))"

lemma passed_checks_cong:
  "at_path b = at_path a \<Longrightarrow> at_sha256 b = at_sha256 a \<Longrightarrow> at_size_bytes b = at_size_bytes a \<Longrightarrow>
   at_detected_type b = at_detected_type a \<Longrightarrow> passed_checks env b = passed_checks env a"
  by (simp add: passed_checks_def attempt_object_def)

lemma gated_set:
  assumes "gated env ats" "dict_get ats (ws, uid) = Some a" "at_path b = at_path a"
    and "at_state b = IS_REVIEW_PENDING \<or> at_state b = IS_PUBLISHED \<Longrightarrow> passed_checks env b"
  shows "gated env (dict_set (ws, uid) b ats)"
  using assms unfolding gated_def by (auto split: if_splits)

lemma gated_create_queued:
  assumes "gated env ats" "\<exists>name. path = [''quarantine'', ws, uid, name]"
  shows "gated env (create_queued ws uid path declared detected sha bytes ats)"
  using assms unfolding gated_def create_queued_def by auto

lemma gated_reject: "gated env ats \<Longrightarrow> gated env (snd (reject_attempt ws uid code True ats))"
proof (cases "dict_get ats (ws, uid)")
  case (Some a)
  moreover assume "gated env ats"
  ultimately show ?thesis by (auto simp: reject_attempt_def intro: gated_set)
qed (simp add: reject_attempt_def)

lemma gated_publish: "gated env ats \<Longrightarrow> gated env (snd (publish_attempt ws uid did vid ats))"
proof (cases "dict_get ats (ws, uid)")
  case (Some a)
  assume g: "gated env ats"
  show ?thesis
  proof (cases "at_state a = IS_REVIEW_PENDING")
    case True
    with g Some have "passed_checks env a" unfolding gated_def by blast
    then have "passed_checks env (a\<lparr>at_state := IS_PUBLISHED, at_vault_document_id := Some did, at_vault_version_id := Some vid\<rparr>)"
      by (simp add: passed_checks_def attempt_object_def)
    with g Some True show ?thesis by (auto simp: publish_attempt_def intro: gated_set)
  next
    case False
    with g Some show ?thesis by (simp add: publish_attempt_def)
  qed
qed (simp add: publish_attempt_def)

lemma validated_sha:
  "validate_quarantined_object pre q content = Inr doc \<Longrightarrow> qo_source_sha256 q = pe_sha256 pre content"
  by (auto simp: validate_quarantined_object_def bounded_read_and_hash_def Let_def split: option.splits if_splits)

lemma process_candidate:
  assumes "process_content env uid sid q content = Pipeline_candidate d"
  obtains doc where "validate_quarantined_object (ie_pre env) q content = Inr doc" "ie_scan env q content = Some ''clean''"
    "kd_vault_document_id d = None" "kd_ingest_status d = ''review_pending''" "kd_id d = sid"
  using assms
  by (auto simp: process_content_def scan_and_convert_def scan_failure_def convert_candidate_def normalise_conversion_def
      Let_def split: sum.splits option.splits if_splits)

lemma process_claimed_candidate:
  assumes "process_claimed env ws uid sid a st = Pipeline_candidate d"
  shows "passed_checks env a" "kd_vault_document_id d = None"
proof -
  from assms obtain content where c: "truthy_opt (at_sha256 a)" "process_content env uid sid (attempt_object a) content = Pipeline_candidate d"
    by (auto simp: process_claimed_def split: option.splits if_splits)
  from process_candidate [OF c(2)] obtain doc where
    d: "validate_quarantined_object (ie_pre env) (attempt_object a) content = Inr doc"
       "ie_scan env (attempt_object a) content = Some ''clean''" "kd_vault_document_id d = None" by metis
  from c(1) obtain s where "at_sha256 a = Some s" "s \<noteq> []" by (auto simp: truthy_opt_iff)
  with validated_sha [OF d(1)] have "at_sha256 a = Some (pe_sha256 (ie_pre env) content)"
    by (simp add: attempt_object_def or_else_def)
  with d show "passed_checks env a" "kd_vault_document_id d = None" unfolding passed_checks_def by blast+
qed

text \<open>No stored candidate is linked to a vault document.\<close>

definition unlinked :: "knowledge_store \<Rightarrow> bool" where
  "unlinked ks \<longleftrightarrow> dict_ok (ks_docs ks) \<and> all_records (\<lambda>d. kd_vault_document_id d = None) (ks_docs ks)"

lemma unlinked_save: "unlinked ks \<Longrightarrow> kd_vault_document_id d = None \<Longrightarrow> unlinked (save_knowledge d ks)"
  by (simp add: unlinked_def save_knowledge_def)

lemma unlinked_get: "unlinked ks \<Longrightarrow> get_knowledge sid ws ks = Some d \<Longrightarrow> kd_vault_document_id d = None"
  by (auto simp: unlinked_def get_knowledge_def dest: all_records_get split: option.splits if_splits)

lemma unlinked_status: "unlinked ks \<Longrightarrow> unlinked (snd (update_ingest_status sid status ws ks))"
  by (auto simp: update_ingest_status_def Let_def dest: unlinked_get intro!: unlinked_save split: option.split)

lemma unlinked_delete: "unlinked ks \<Longrightarrow> delete_by_vault_document ws vdid ks = ks"
proof -
  assume u: "unlinked ks"
  then have none: "kd_vault_document_id (snd x) = None" if "x \<in> set (ks_docs ks)" for x
  proof -
    from u have "dict_ok (ks_docs ks)" and r: "all_records (\<lambda>d. kd_vault_document_id d = None) (ks_docs ks)"
      by (simp_all add: unlinked_def)
    with that have "dict_get (ks_docs ks) (fst x) = Some (snd x)" by simp
    with r show ?thesis unfolding all_records_def by blast
  qed
  have "filter (\<lambda>x. kd_workspace_id (snd x) = ws \<and> kd_vault_document_id (snd x) = Some vdid) (ks_docs ks) = []"
    using none by (auto simp: filter_empty_conv)
  then show ?thesis by (simp add: delete_by_vault_document_def)
qed


text \<open>Every publication recorded in an attempt is a stored version with the recorded hash.\<close>

definition published_recorded :: "ingestion_env \<Rightarrow> vault_repo \<Rightarrow> attempts \<Rightarrow> bool" where
  "published_recorded env repo ats \<longleftrightarrow>
     (\<forall>ws uid a. dict_get ats (ws, uid) = Some a \<longrightarrow> at_state a = IS_PUBLISHED \<longrightarrow>
        (\<exists>vid v. at_vault_version_id a = Some (ie_uuid_str env vid) \<and> get_version ws vid repo = Some v \<and>
           ie_uuid_str env (vv_document_id v) = uid \<and> Some (vv_checksum v) = at_sha256 a))"

lemma published_recorded_versions:
  assumes "published_recorded env repo ats"
    and "\<And>ws vid v. get_version ws vid repo = Some v \<Longrightarrow> get_version ws vid repo' = Some v"
  shows "published_recorded env repo' ats"
  using assms unfolding published_recorded_def by blast

lemma published_recorded_set:
  assumes "published_recorded env repo ats" "at_state b = IS_PUBLISHED \<Longrightarrow>
     (\<exists>vid v. at_vault_version_id b = Some (ie_uuid_str env vid) \<and> get_version ws vid repo = Some v \<and>
           ie_uuid_str env (vv_document_id v) = uid \<and> Some (vv_checksum v) = at_sha256 b)"
  shows "published_recorded env repo (dict_set (ws, uid) b ats)"
  using assms unfolding published_recorded_def by auto

definition world_inv :: "ingestion_env \<Rightarrow> vault_world \<Rightarrow> bool" where
  "world_inv env w \<longleftrightarrow>
     vault_inv (vw_repo w) \<and> store_ok (vw_store w) \<and> gated env (vw_attempts w) \<and> unlinked (vw_knowledge w) \<and>
     published_recorded env (vw_repo w) (vw_attempts w)"

lemma world_inv_empty [simp]: "world_inv env empty_world"
  by (simp add: world_inv_def empty_world_def store_ok_def empty_store_def gated_def unlinked_def empty_knowledge_def
      published_recorded_def)

lemma world_inv_repo:
  assumes "world_inv env w" "vault_inv repo"
    and "\<And>ws vid v. get_version ws vid (vw_repo w) = Some v \<Longrightarrow> get_version ws vid repo = Some v"
  shows "world_inv env (w\<lparr>vw_repo := repo\<rparr>)"
  using assms published_recorded_versions unfolding world_inv_def by simp blast

lemma world_inv_store: "world_inv env w \<Longrightarrow> store_ok st \<Longrightarrow> world_inv env (w\<lparr>vw_store := st\<rparr>)"
  by (simp add: world_inv_def)

lemma world_inv_schedule [simp]: "world_inv env (schedule_task env' t w) = world_inv env w"
  by (simp add: world_inv_def)

lemma get_version_simps [simp]:
  "get_version ws vid (repo\<lparr>vr_documents := d\<rparr>) = get_version ws vid repo"
  "get_version ws vid (repo\<lparr>vr_grants := g\<rparr>) = get_version ws vid repo"
  "get_version ws vid (snd (create_draft ws' did title kind creator cls vis now repo)) = get_version ws vid repo"
  "get_version ws vid (snd (update_document_state ws' did state source now repo)) = get_version ws vid repo"
  "get_version ws vid (snd (set_legal_hold ws' did hold now repo)) = get_version ws vid repo"
  "get_version ws vid (grant_access ws' did g' repo) = get_version ws vid repo"
  by (simp_all add: get_version_def create_draft_def update_document_state_def set_legal_hold_def grant_access_def Let_def
      split: option.split)

lemma vault_inv_state: "vault_inv repo \<Longrightarrow> vault_inv (snd (update_document_state ws did state source now repo))"
  using vault_step_inv [of repo "VState ws did state source now"] by simp

lemma vault_inv_hold: "vault_inv repo \<Longrightarrow> vault_inv (snd (set_legal_hold ws did hold now repo))"
  using vault_step_inv [of repo "VHold ws did hold now"] by simp

lemma vault_inv_grant: "vault_inv repo \<Longrightarrow> vault_inv (grant_access ws did g repo)"
  using vault_step_inv [of repo "VGrant ws did g"] by simp

lemma world_inv_state: "world_inv env w \<Longrightarrow> world_inv env (w\<lparr>vw_repo := snd (update_document_state ws did state source now (vw_repo w))\<rparr>)"
  by (rule world_inv_repo) (simp_all add: vault_inv_state world_inv_def)

lemma world_inv_reject:
  assumes "world_inv env w"
  shows "world_inv env (w\<lparr>vw_attempts := snd (reject_attempt ws uid code True (vw_attempts w))\<rparr>)"
proof -
  have "published_recorded env (vw_repo w) (snd (reject_attempt ws uid code True (vw_attempts w)))"
    using assms by (auto simp: reject_attempt_def world_inv_def intro!: published_recorded_set split: option.split)
  with assms show ?thesis by (simp add: world_inv_def gated_reject)
qed

lemma world_inv_complete:
  assumes inv: "world_inv env w"
  shows "world_inv env (snd (complete_upload_route env who uid w))"
proof -
  consider "snd (complete_upload_route env who uid w) = w"
    | q detected sha bytes where "finalize_upload (ie_pre env) (id_workspace_id who) uid (vw_store w) = Inr q"
      "snd (complete_upload_route env who uid w) =
         schedule_task env (IngestTask (id_workspace_id who) uid)
           (w\<lparr>vw_attempts := create_queued (id_workspace_id who) uid (ql_path q) None detected sha bytes (vw_attempts w)\<rparr>)"
    using complete_cases [of env who uid w] by blast
  then show ?thesis
  proof cases
    case 1
    with inv show ?thesis by simp
  next
    case 2
    from finalize_upload_ticket [OF 2(1)] obtain t where
      t: "dict_get (ds_tickets (vw_store w)) (id_workspace_id who, uid) = Some t" "ql_path q = ut_path t" by blast
    have "store_ok (vw_store w)" using inv by (simp add: world_inv_def)
    from store_okD(1) [OF this t(1)] t(2) have "\<exists>name. ql_path q = [''quarantine'', id_workspace_id who, uid, name]"
      by (simp add: ticket_ok_def)
    then have "gated env (create_queued (id_workspace_id who) uid (ql_path q) None detected sha bytes (vw_attempts w))"
      using inv by (intro gated_create_queued) (simp_all add: world_inv_def)
    moreover have "published_recorded env (vw_repo w) (create_queued (id_workspace_id who) uid (ql_path q) None detected sha bytes (vw_attempts w))"
      using inv by (auto simp: create_queued_def world_inv_def intro!: published_recorded_set)
    ultimately show ?thesis using inv unfolding 2(2) by (simp add: world_inv_def)
  qed
qed


lemma publication_repo_version:
  assumes "get_document (id_workspace_id who) did (vw_repo w) = Some d"
    and "dict_get (vw_attempts w) (id_workspace_id who, uid) = Some a"
  shows "\<exists>v. get_version (id_workspace_id who) vid (publication_repo env who did uid vid ref now w) = Some v \<and>
     vv_document_id v = did \<and> vv_checksum v = or_else (at_sha256 a) []"
    and "(ws, vid') \<noteq> (id_workspace_id who, vid) \<Longrightarrow>
      get_version ws vid' (publication_repo env who did uid vid ref now w) = get_version ws vid' (vw_repo w)"
  using assms by (auto simp: publication_repo_def append_version_def get_source_metadata_def get_version_def
      update_document_state_def get_document_def Let_def split: option.splits)

lemma vault_inv_publication:
  assumes "vault_inv (vw_repo w)" "get_version (id_workspace_id who) vid (vw_repo w) = None"
  shows "vault_inv (publication_repo env who did uid vid ref now w)"
  using assms by (auto simp: publication_repo_def Let_def intro!: vault_inv_state vault_inv_append split: prod.split)

lemma world_inv_record_publication:
  assumes inv: "world_inv env w" and fresh: "get_version (id_workspace_id who) vid (vw_repo w) = None"
    and doc: "get_document (id_workspace_id who) did (vw_repo w) = Some d"
    and att: "dict_get (vw_attempts w) (id_workspace_id who, ie_uuid_str env did) = Some a" "at_state a = IS_REVIEW_PENDING"
  shows "world_inv env (snd (record_publication env who did (ie_uuid_str env did) vid ref now w))"
proof -
  let ?ws = "id_workspace_id who" and ?uid = "ie_uuid_str env did"
  let ?repo = "publication_repo env who did ?uid vid ref now w"
  have gate: "gated env (vw_attempts w)" and rec: "published_recorded env (vw_repo w) (vw_attempts w)"
    using inv by (simp_all add: world_inv_def)
  from gate att have "passed_checks env a" unfolding gated_def by blast
  then obtain s where s: "at_sha256 a = Some s" unfolding passed_checks_def by blast
  from publication_repo_version(1) [OF doc att(1)] obtain v where
    v: "get_version ?ws vid ?repo = Some v" "vv_document_id v = did" "vv_checksum v = or_else (at_sha256 a) []" by blast
  have "published_recorded env ?repo (vw_attempts w)"
  proof (rule published_recorded_versions [OF rec])
    fix ws vid' v'
    assume get: "get_version ws vid' (vw_repo w) = Some v'"
    with fresh have "(ws, vid') \<noteq> (?ws, vid)" by auto
    from publication_repo_version(2) [OF doc att(1) this] get show "get_version ws vid' ?repo = Some v'" by simp
  qed
  then have "published_recorded env ?repo (snd (publish_attempt ?ws ?uid ?uid (ie_uuid_str env vid) (vw_attempts w)))"
  proof (simp add: publish_attempt_def att, rule published_recorded_set)
    let ?b = "a\<lparr>at_state := IS_PUBLISHED, at_vault_document_id := Some ?uid, at_vault_version_id := Some (ie_uuid_str env vid)\<rparr>"
    have "at_vault_version_id ?b = Some (ie_uuid_str env vid) \<and> get_version ?ws vid ?repo = Some v \<and>
        ie_uuid_str env (vv_document_id v) = ?uid \<and> Some (vv_checksum v) = at_sha256 ?b"
      using v s by (simp add: or_else_def)
    then show "\<exists>vid' v. at_vault_version_id ?b = Some (ie_uuid_str env vid') \<and> get_version ?ws vid' ?repo = Some v \<and>
        ie_uuid_str env (vv_document_id v) = ?uid \<and> Some (vv_checksum v) = at_sha256 ?b" by blast
  qed
  moreover have "vault_inv ?repo" using inv fresh by (intro vault_inv_publication) (simp_all add: world_inv_def)
  ultimately show ?thesis
    using inv gated_publish [OF gate] unfolding record_publication_eq [OF doc] by (simp add: world_inv_def)
qed

lemma world_inv_publish:
  assumes inv: "world_inv env w" and fresh: "get_version (id_workspace_id who) vid (vw_repo w) = None"
  shows "world_inv env (snd (publish_document_route env who document_id vid now w))"
proof -
  let ?w = "snd (publish_document_route env who document_id vid now w)"
  consider "?w = w"
    | did a path ref st where "dc_publish (resolve_access who did (vw_repo w))"
      "dict_get (vw_attempts w) (id_workspace_id who, ie_uuid_str env did) = Some a" "at_state a = IS_REVIEW_PENDING"
      "promote_to_vault (ie_pre env) (id_workspace_id who) (ie_uuid_str env vid) path (vw_store w) = (ref, st)"
      "(?w = w\<lparr>vw_store := st\<rparr>) \<or>
       (\<exists>r. ?w = snd (record_publication env who did (ie_uuid_str env did) vid r now (w\<lparr>vw_store := st\<rparr>)))"
    using publish_cases [of env who document_id vid now w] unfolding Let_def
    by (force split: option.splits)
  then show ?thesis
  proof cases
    case 1
    with inv show ?thesis by simp
  next
    case 2
    from inv have "store_ok (vw_store w)" by (simp add: world_inv_def)
    from promote_ok [OF this] 2(4) have "store_ok st" by (metis snd_conv)
    with inv have w': "world_inv env (w\<lparr>vw_store := st\<rparr>)" by (rule world_inv_store)
    from publish_access_document [OF 2(1)] obtain d where d: "get_document (id_workspace_id who) did (vw_repo w) = Some d" by blast
    from world_inv_record_publication [OF w', of who vid did d a] fresh d 2(2,3)
    have "world_inv env (snd (record_publication env who did (ie_uuid_str env did) vid r now (w\<lparr>vw_store := st\<rparr>)))" for r
      by simp
    with w' 2(5) show ?thesis by auto
  qed
qed

lemma world_inv_ingest:
  assumes inv: "world_inv env w"
  shows "world_inv env (snd (execute_ingestion env task_type ws uid token sid w))"
proof -
  let ?w = "snd (execute_ingestion env task_type ws uid token sid w)" and ?k = "(or_else ws [], or_else uid [])"
  have parts: "vault_inv (vw_repo w)" "store_ok (vw_store w)" "gated env (vw_attempts w)" "unlinked (vw_knowledge w)"
    "published_recorded env (vw_repo w) (vw_attempts w)"
    using inv by (simp_all add: world_inv_def)
  let ?p = "\<lambda>a. process_claimed env (or_else ws []) (or_else uid []) sid (a\<lparr>at_state := IS_VALIDATING\<rparr>) (vw_store w)"
  consider "?w = w"
    | a a' where "dict_get (vw_attempts w) ?k = Some a" "vw_attempts ?w = dict_set ?k a' (vw_attempts w)"
      "vw_repo ?w = vw_repo w" "vw_store ?w = vw_store w"
      "(a' = a\<lparr>at_state := IS_VALIDATING\<rparr> \<and> vw_knowledge ?w = vw_knowledge w) \<or>
       (\<exists>code. a' = a\<lparr>at_state := IS_REJECTED, at_failure_code := Some code\<rparr> \<and> vw_knowledge ?w = vw_knowledge w) \<or>
       (\<exists>d. ?p a = Pipeline_candidate d \<and> a' = a\<lparr>at_state := IS_REVIEW_PENDING, at_knowledge_source_id := Some (kd_id d)\<rparr> \<and>
          vw_knowledge ?w = save_knowledge d (vw_knowledge w))"
    using ingest_cases [of env task_type ws uid token sid w] unfolding Let_def fst_conv snd_conv by blast
  then show ?thesis
  proof cases
    case 1
    with inv show ?thesis by simp
  next
    case 2
    have gate: "gated env (vw_attempts ?w)" if "at_path a' = at_path a" "at_state a' = IS_REVIEW_PENDING \<or> at_state a' = IS_PUBLISHED \<Longrightarrow> passed_checks env a'"
      unfolding 2(2) using parts(3) 2(1) that by (rule gated_set)
    have rec: "published_recorded env (vw_repo ?w) (vw_attempts ?w)" if "at_state a' \<noteq> IS_PUBLISHED"
      unfolding 2(2,3) using parts(5) that by (intro published_recorded_set) simp_all
    from 2(5) show ?thesis
    proof (elim disjE exE conjE)
      fix d
      assume d: "?p a = Pipeline_candidate d" and a': "a' = a\<lparr>at_state := IS_REVIEW_PENDING, at_knowledge_source_id := Some (kd_id d)\<rparr>"
        and k: "vw_knowledge ?w = save_knowledge d (vw_knowledge w)"
      have "passed_checks env a'"
        using process_claimed_candidate(1) [OF d] unfolding a' by (simp add: passed_checks_def attempt_object_def)
      moreover have "unlinked (vw_knowledge ?w)"
        unfolding k using parts(4) process_claimed_candidate(2) [OF d] by (rule unlinked_save)
      ultimately show ?thesis using parts gate rec 2(3,4) a' by (simp add: world_inv_def)
    qed (use parts gate rec 2(3,4) in \<open>simp_all add: world_inv_def\<close>)
  qed
qed

lemma world_inv_execute_purge:
  assumes inv: "world_inv env w"
  shows "world_inv env (execute_purge_payload env ws document_id now w)"
proof -
  have "world_inv env (execute_purge env ws did now w)" for did
  proof (cases "get_document ws did (vw_repo w)")
    case None
    with inv show ?thesis by (simp add: execute_purge_def)
  next
    case (Some d)
    obtain ok st where p: "purge_versions env ws (list_versions ws did (vw_repo w)) (vw_store w) = (ok, st)" by fastforce
    from inv have u: "unlinked (vw_knowledge w)" and "store_ok (vw_store w)" by (simp_all add: world_inv_def)
    with purge_versions_ok [of "vw_store w" env ws "list_versions ws did (vw_repo w)"] p
    have "world_inv env (w\<lparr>vw_store := st\<rparr>)" using inv by (intro world_inv_store) simp_all
    from this world_inv_state [OF this, of ws did "''PURGED''" None now] inv show ?thesis
      using Some p unlinked_delete [OF u]
      by (auto simp: execute_purge_def Let_def cong: if_cong)
  qed
  with inv show ?thesis by (auto simp: execute_purge_payload_def split: option.split)
qed

lemma request_step_inv: "world_inv env w \<Longrightarrow> request_guard env op w \<Longrightarrow> world_inv env (request_step env op w)"
proof (cases op)
  case (RCreate who title media cls vis did secret name now)
  assume inv: "world_inv env w" and g: "request_guard env op w"
  from g RCreate have fresh: "get_document (id_workspace_id who) did (vw_repo w) = None" by simp
  from inv have v: "vault_inv (vw_repo w)" and st: "store_ok (vw_store w)" by (simp_all add: world_inv_def)
  have "world_inv env (w\<lparr>vw_repo := snd (create_draft (id_workspace_id who) did title ''document'' (id_principal_id who) c x now (vw_repo w))\<rparr>)" for c x
    using inv vault_inv_create [OF v fresh] by (intro world_inv_repo) auto
  from world_inv_store [OF this issue_ticket_ok [OF st media_limit_max]] inv RCreate
    create_cases [of env who title media cls vis did secret name now w]
  show ?thesis by auto
next
  case (RUpload ws uid secret chunks now)
  assume "world_inv env w"
  with RUpload upload_cases [of env ws uid secret chunks now w] show ?thesis
    by (auto simp: world_inv_def intro!: write_upload_ok)
next
  case (RComplete who uid)
  then show "world_inv env w \<Longrightarrow> ?thesis" by (simp add: world_inv_complete)
next
  case (RReview who did)
  then show "world_inv env w \<Longrightarrow> ?thesis" using review_cases [of env who did w] by (auto intro: world_inv_reject)
next
  case (RPublish who did vid now)
  then show "world_inv env w \<Longrightarrow> request_guard env op w \<Longrightarrow> ?thesis" by (simp add: world_inv_publish)
next
  case (RArchive who did now)
  then show "world_inv env w \<Longrightarrow> ?thesis" using change_state_cases [of "''ARCHIVED''" env who did now w]
    by (auto simp: delete_document_route_def intro: world_inv_state)
next
  case (RRevoke who did now)
  then show "world_inv env w \<Longrightarrow> ?thesis" using change_state_cases [of "''REVOKED''" env who did now w]
    by (auto simp: revoke_document_route_def intro: world_inv_state)
next
  case (RPurge who did now)
  then show "world_inv env w \<Longrightarrow> ?thesis" using purge_cases [of env who did now w] by (auto intro: world_inv_state)
next
  case (RHold who did hold now)
  assume inv: "world_inv env w"
  then have "world_inv env (w\<lparr>vw_repo := snd (set_legal_hold ws d hold now (vw_repo w))\<rparr>)" for ws d
    by (intro world_inv_repo) (simp_all add: world_inv_def vault_inv_hold)
  with inv RHold show ?thesis using hold_cases [of env who did hold now w] by auto
next
  case (RGrant ws did g)
  assume "world_inv env w"
  then have "world_inv env (w\<lparr>vw_repo := grant_access ws did g (vw_repo w)\<rparr>)"
    by (intro world_inv_repo) (simp_all add: world_inv_def vault_inv_grant)
  with RGrant show ?thesis by simp
next
  case (RIngest task_type ws uid token sid)
  then show "world_inv env w \<Longrightarrow> ?thesis" by (simp add: world_inv_ingest)
next
  case (RExecutePurge ws did now)
  then show "world_inv env w \<Longrightarrow> ?thesis" by (simp add: world_inv_execute_purge)
next
  case (RStatus sid status ws)
  then show "world_inv env w \<Longrightarrow> ?thesis" by (simp add: world_inv_def unlinked_status)
qed

interpretation documents: monotone_machine "request_step env" "request_guard env" "world_inv env" attempts_le for env
proof
  show "attempts_le s t \<Longrightarrow> attempts_le t u \<Longrightarrow> attempts_le s u" for s t u by (rule attempts_le_trans)
qed (auto intro: request_step_inv request_step_le attempts_le_same)

end
