(* ===== verification/DocumentProps.thy ===== *)
theory DocumentProps
  imports IngestionProps
begin

text \<open>Properties of the document pipeline, and of the chunks it stores.\<close>

subsection \<open>The gate and the bounds\<close>

lemma reachable_world:
  "admissible (request_guard env) (request_step env) ops empty_world \<Longrightarrow> world_inv env (fold (request_step env) ops empty_world)"
  by (rule documents.run_inv [OF world_inv_empty])

text \<open>C26. Nothing is reviewed or published that did not pass the checks. Whatever requests and tasks
  interleave, an attempt that waits for review or is published carries the hash of bytes that were validated
  (type, signature, limit, archive) and scanned clean, and a published attempt names a stored version of its
  document whose checksum is that hash.\<close>

theorem publication_gate:
  assumes "admissible (request_guard env) (request_step env) ops empty_world"
  shows "let w = fold (request_step env) ops empty_world in
    \<forall>ws uid a. dict_get (vw_attempts w) (ws, uid) = Some a \<longrightarrow>
      (at_state a = IS_REVIEW_PENDING \<or> at_state a = IS_PUBLISHED \<longrightarrow> passed_checks env a) \<and>
      (at_state a = IS_PUBLISHED \<longrightarrow>
        (\<exists>vid v. at_vault_version_id a = Some (ie_uuid_str env vid) \<and> get_version ws vid (vw_repo w) = Some v \<and>
           ie_uuid_str env (vv_document_id v) = uid \<and> Some (vv_checksum v) = at_sha256 a))"
  using reachable_world [OF assms] unfolding world_inv_def gated_def published_recorded_def Let_def by blast

text \<open>Attempts only move forward, from any reachable world on: path, hash, size and type stay, an
  attempt that waits for review is later either still waiting or published, and one an exception left in
  validation is later either there or rejected, never processed again.\<close>

theorem attempts_only_advance:
  assumes "admissible (request_guard env) (request_step env) (ops @ ops') empty_world"
    and "dict_get (vw_attempts (fold (request_step env) ops empty_world)) k = Some a"
  shows "\<exists>b. dict_get (vw_attempts (fold (request_step env) (ops @ ops') empty_world)) k = Some b \<and>
    at_path b = at_path a \<and> at_sha256 b = at_sha256 a \<and> at_size_bytes b = at_size_bytes a \<and>
    at_detected_type b = at_detected_type a \<and>
    (at_state a = IS_VALIDATING \<longrightarrow> at_state b \<in> {IS_VALIDATING, IS_REJECTED}) \<and>
    (at_state a = IS_REVIEW_PENDING \<longrightarrow> at_state b \<in> {IS_REVIEW_PENDING, IS_PUBLISHED}) \<and>
    (at_state a = IS_PUBLISHED \<or> at_state a = IS_REJECTED \<longrightarrow> b = a)"
proof -
  let ?w = "fold (request_step env) ops empty_world"
  from assms(1) have a: "admissible (request_guard env) (request_step env) ops empty_world"
    "admissible (request_guard env) (request_step env) ops' ?w" by (simp_all add: admissible_append)
  from documents.run_le [OF reachable_world [OF a(1)] a(2)] assms(2)
  obtain b where b: "dict_get (vw_attempts (fold (request_step env) ops' ?w)) k = Some b" "attempt_le a b"
    unfolding attempts_le_def by blast
  from b(2) have "at_path b = at_path a \<and> at_sha256 b = at_sha256 a \<and> at_size_bytes b = at_size_bytes a \<and>
    at_detected_type b = at_detected_type a \<and>
    (at_state a = IS_VALIDATING \<longrightarrow> at_state b \<in> {IS_VALIDATING, IS_REJECTED}) \<and>
    (at_state a = IS_REVIEW_PENDING \<longrightarrow> at_state b \<in> {IS_REVIEW_PENDING, IS_PUBLISHED}) \<and>
    (at_state a = IS_PUBLISHED \<or> at_state a = IS_REJECTED \<longrightarrow> b = a)"
    unfolding attempt_le_def by auto
  with b(1) show ?thesis by auto
qed

text \<open>Storage is bounded and confined: in every reachable world each file holds at most 25 MiB and lies
  at a quarantine path or a vault path made of valid identifiers.\<close>

theorem stored_files_bounded:
  assumes "admissible (request_guard env) (request_step env) ops empty_world"
    and "dict_get (ds_files (vw_store (fold (request_step env) ops empty_world))) path = Some content"
  shows "length content \<le> 26214400 \<and>
    (\<exists>ws x. valid_id ws \<and> valid_id x \<and> (path = [''vault'', ws, x] \<or> (\<exists>name. path = [''quarantine'', ws, x, name])))"
proof -
  from reachable_world [OF assms(1)] have st: "store_ok (vw_store (fold (request_step env) ops empty_world))"
    by (simp add: world_inv_def)
  from store_okD(2,3) [OF st assms(2)] have "store_path path" "int (length content) \<le> max_upload" by simp_all
  moreover from \<open>store_path path\<close> have
    "\<exists>ws x. valid_id ws \<and> valid_id x \<and> (path = [''vault'', ws, x] \<or> (\<exists>name. path = [''quarantine'', ws, x, name]))"
    by (cases path rule: store_path.cases) auto
  ultimately show ?thesis by (simp add: max_upload_def mib_def)
qed

subsection \<open>Permissions\<close>

text \<open>The caller of a request.\<close>

fun request_identity :: "vault_request \<Rightarrow> vault_identity option" where
  "request_identity (RCreate who title media cls vis did secret name now) = Some who"
| "request_identity (RComplete who uid) = Some who"
| "request_identity (RReview who did) = Some who"
| "request_identity (RPublish who did vid now) = Some who"
| "request_identity (RArchive who did now) = Some who"
| "request_identity (RRevoke who did now) = Some who"
| "request_identity (RPurge who did now) = Some who"
| "request_identity (RHold who did hold now) = Some who"
| "request_identity _ = None"

lemma publication_repo_other:
  "(ws, k) \<noteq> (id_workspace_id who, did) \<Longrightarrow>
     get_document ws k (publication_repo env who did uid vid ref now w) = get_document ws k (vw_repo w)"
  by (auto simp: publication_repo_def append_version_def update_document_state_def get_document_def Let_def
      split: option.split prod.split)

lemma publish_document_change:
  assumes "get_document ws did (vw_repo (snd (publish_document_route env who document_id vid now w))) \<noteq> get_document ws did (vw_repo w)"
  shows "id_workspace_id who = ws \<and> dc_publish (resolve_access who did (vw_repo w))"
proof -
  let ?w = "snd (publish_document_route env who document_id vid now w)"
  from assms obtain k ref st where k: "dc_publish (resolve_access who k (vw_repo w))"
      "?w = snd (record_publication env who k (ie_uuid_str env k) vid ref now (w\<lparr>vw_store := st\<rparr>))"
    using publish_cases [of env who document_id vid now w] unfolding Let_def
    by (force split: option.splits)
  from publish_access_document [OF k(1)] obtain d where d: "get_document (id_workspace_id who) k (vw_repo (w\<lparr>vw_store := st\<rparr>)) = Some d"
    by auto
  have "vw_repo ?w = publication_repo env who k (ie_uuid_str env k) vid ref now (w\<lparr>vw_store := st\<rparr>)"
    unfolding k(2) record_publication_eq [OF d] by simp
  with assms publication_repo_other [of ws did who k env "ie_uuid_str env k" vid ref now "w\<lparr>vw_store := st\<rparr>"] k(1)
  show ?thesis by auto
qed

lemma document_update_other:
  "(ws, k) \<noteq> (ws', did) \<Longrightarrow> get_document ws k (snd (update_document_state ws' did state source now repo)) = get_document ws k repo"
  "(ws, k) \<noteq> (ws', did) \<Longrightarrow> get_document ws k (snd (set_legal_hold ws' did hold now repo)) = get_document ws k repo"
  "(ws, k) \<noteq> (ws', did) \<Longrightarrow> get_document ws k (snd (create_draft ws' did title kind creator cls vis now repo)) = get_document ws k repo"
  "get_document ws k (grant_access ws' did g repo) = get_document ws k repo"
  by (auto simp: update_document_state_def set_legal_hold_def create_draft_def grant_access_def get_document_def Let_def
      split: option.split)

text \<open>C27. Only an authorised caller changes a document. When a request or task changes a document that
  exists, it comes from a caller of the same workspace to whom \<open>resolve\<close> grants management or publication
  of that document, or it is the purge of a document in \<open>PURGE_PENDING\<close>, which only ends in
  \<open>PURGED\<close>.\<close>

theorem document_changes_authorised:
  assumes "request_guard env op w"
    and "get_document ws did (vw_repo w) = Some d"
    and "get_document ws did (vw_repo (request_step env op w)) \<noteq> Some d"
  shows "(\<exists>who. request_identity op = Some who \<and> id_workspace_id who = ws \<and>
            (dc_manage (resolve_access who did (vw_repo w)) \<or> dc_publish (resolve_access who did (vw_repo w)))) \<or>
         (vd_state d = ''PURGE_PENDING'' \<and>
            map_option vd_state (get_document ws did (vw_repo (request_step env op w))) = Some ''PURGED'')"
proof (cases op)
  case (RCreate who title media cls vis k secret name now)
  with assms(1,2) have "(ws, did) \<noteq> (id_workspace_id who, k)" by auto
  with assms RCreate document_update_other(3) [OF this] create_cases [of env who title media cls vis k secret name now w]
  show ?thesis by auto
next
  case (RUpload ws' uid secret chunks now)
  with assms upload_cases [of env ws' uid secret chunks now w] show ?thesis by auto
next
  case (RComplete who uid)
  with assms complete_cases [of env who uid w] show ?thesis by auto
next
  case (RReview who k)
  with assms review_cases [of env who k w] show ?thesis by auto
next
  case (RPublish who k vid now)
  with assms publish_document_change [of ws did env who k vid now w] show ?thesis by auto
next
  case (RArchive who k now)
  with assms change_state_cases [of "''ARCHIVED''" env who k now w] show ?thesis
    by (auto simp: delete_document_route_def) (metis document_update_other(1) prod.inject)+
next
  case (RRevoke who k now)
  with assms change_state_cases [of "''REVOKED''" env who k now w] show ?thesis
    by (auto simp: revoke_document_route_def) (metis document_update_other(1) prod.inject)+
next
  case (RPurge who k now)
  with assms purge_cases [of env who k now w] show ?thesis
    by auto (metis document_update_other(1) prod.inject)+
next
  case (RHold who k hold now)
  with assms hold_cases [of env who k hold now w] show ?thesis
    by auto (metis document_update_other(2) prod.inject)+
next
  case (RIngest task_type ws' uid token sid)
  with assms ingest_cases [of env task_type ws' uid token sid w] show ?thesis by (auto simp: Let_def)
next
  case (RExecutePurge ws' k now)
  with assms show ?thesis
    by (auto simp: execute_purge_payload_def execute_purge_def update_document_state_def get_document_def Let_def
        split: option.splits prod.splits if_splits)
qed (use assms in \<open>auto simp: document_update_other\<close>)

subsection \<open>Isolation of workspaces\<close>

fun request_workspace :: "vault_request \<Rightarrow> string" where
  "request_workspace (RCreate who title media cls vis did secret name now) = id_workspace_id who"
| "request_workspace (RUpload ws uid secret chunks now) = or_else ws []"
| "request_workspace (RComplete who uid) = id_workspace_id who"
| "request_workspace (RReview who did) = id_workspace_id who"
| "request_workspace (RPublish who did vid now) = id_workspace_id who"
| "request_workspace (RArchive who did now) = id_workspace_id who"
| "request_workspace (RRevoke who did now) = id_workspace_id who"
| "request_workspace (RPurge who did now) = id_workspace_id who"
| "request_workspace (RHold who did hold now) = id_workspace_id who"
| "request_workspace (RGrant ws did g) = ws"
| "request_workspace (RIngest task_type ws uid token sid) = or_else ws []"
| "request_workspace (RExecutePurge ws did now) = ws"
| "request_workspace (RStatus sid status ws) = ws"

text \<open>Two worlds look the same to a workspace: repository, store and attempts.\<close>

definition same_repo :: "string \<Rightarrow> vault_repo \<Rightarrow> vault_repo \<Rightarrow> bool" where
  "same_repo ws repo repo' \<longleftrightarrow>
     (\<forall>did. get_document ws did repo' = get_document ws did repo \<and> document_grants ws did repo' = document_grants ws did repo \<and>
        get_version ws did repo' = get_version ws did repo)"

definition same_store :: "string \<Rightarrow> document_store \<Rightarrow> document_store \<Rightarrow> bool" where
  "same_store ws st st' \<longleftrightarrow>
     (\<forall>uid. dict_get (ds_tickets st') (ws, uid) = dict_get (ds_tickets st) (ws, uid)) \<and>
     (\<forall>area rest. dict_get (ds_files st') (area # ws # rest) = dict_get (ds_files st) (area # ws # rest))"

definition same_attempts :: "string \<Rightarrow> attempts \<Rightarrow> attempts \<Rightarrow> bool" where
  "same_attempts ws ats ats' \<longleftrightarrow> (\<forall>uid. dict_get ats' (ws, uid) = dict_get ats (ws, uid))"

lemma same_refl [simp]: "same_repo ws r r" "same_store ws s s" "same_attempts ws a a"
  by (simp_all add: same_repo_def same_store_def same_attempts_def)

lemma same_repo_ops:
  assumes "ws' \<noteq> ws"
  shows "same_repo ws repo (snd (update_document_state ws' did state source now repo))"
    "same_repo ws repo (snd (set_legal_hold ws' did hold now repo))"
    "same_repo ws repo (snd (create_draft ws' did title kind creator cls vis now repo))"
    "same_repo ws repo (grant_access ws' did g repo)"
    "same_repo ws repo (snd (append_version ws' did ref checksum bytes uri creator vid now repo))"
  using assms
  by (auto simp: same_repo_def update_document_state_def set_legal_hold_def create_draft_def grant_access_def
      append_version_def get_document_def get_version_def document_grants_def dict_get_or_def Let_def split: option.split)

lemma same_repo_trans: "same_repo ws a b \<Longrightarrow> same_repo ws b c \<Longrightarrow> same_repo ws a c"
  by (simp add: same_repo_def)

lemma same_publication:
  "id_workspace_id who \<noteq> ws \<Longrightarrow> same_repo ws (vw_repo w) (publication_repo env who did uid vid ref now w)"
  by (auto simp: publication_repo_def Let_def split: prod.split
      intro: same_repo_trans [OF same_repo_ops(5) same_repo_ops(1)])

lemma same_attempts_ops:
  assumes "ws' \<noteq> ws"
  shows "same_attempts ws ats (snd (reject_attempt ws' uid code terminal ats))"
    "same_attempts ws ats (snd (publish_attempt ws' uid did vid ats))"
    "same_attempts ws ats (create_queued ws' uid path declared detected sha bytes ats)"
    "same_attempts ws ats (dict_set (ws', uid) a ats)"
  using assms
  by (auto simp: same_attempts_def reject_attempt_def publish_attempt_def create_queued_def split: option.split)

lemma same_store_issue: "ws' \<noteq> ws \<Longrightarrow> same_store ws st (snd (issue_ticket env ws' uid m secret name now st))"
  by (auto simp: issue_ticket_def same_store_def Let_def split: option.split)

lemma same_store_write:
  assumes "store_ok st" "ws' \<noteq> ws"
  shows "same_store ws st (snd (write_upload_stream env ws' uid secret chunks now st))"
proof (cases "authorize_upload env ws' uid secret now st")
  case (Inl e)
  then show ?thesis by (simp add: write_upload_stream_def)
next
  case (Inr t)
  from authorize_upload_ticket [OF this] store_okD(1) [OF assms(1)] have "ticket_ok (ws', uid) t" by blast
  then obtain name where "ut_path t = [''quarantine'', ws', uid, name]" by (auto simp: ticket_ok_def)
  with Inr assms(2) show ?thesis by (auto simp: write_upload_stream_def same_store_def split: option.split)
qed

lemma same_store_promote: "ws' \<noteq> ws \<Longrightarrow> same_store ws st (snd (promote_to_vault env ws' vid ref st))"
  by (auto simp: promote_to_vault_def same_store_def Let_def split: option.split)

lemma same_store_purge: "ws' \<noteq> ws \<Longrightarrow> same_store ws st (snd (purge_versions env ws' vs st))"
proof (induction env ws' vs st rule: purge_versions.induct)
  case (2 env ws' v vs st)
  show ?case
  proof (cases "purge_version ws' (ie_uuid_str env (vv_id v)) st")
    case None
    then show ?thesis by simp
  next
    case (Some st')
    with "2.IH" [OF Some "2.prems"] "2.prems" show ?thesis
      by (auto simp: purge_version_def same_store_def split: if_splits)
  qed
qed simp

text \<open>C28. Workspaces are isolated. A request or task of one workspace leaves the documents, versions, grants,
  upload tickets, ingestion attempts and stored files of every other one as they are, in every reachable
  world and whatever identifiers it carries.\<close>

theorem workspaces_isolated:
  assumes "admissible (request_guard env) (request_step env) ops empty_world"
    and "request_workspace op \<noteq> ws"
  shows "let w = fold (request_step env) ops empty_world; w' = request_step env op w in
    same_repo ws (vw_repo w) (vw_repo w') \<and> same_store ws (vw_store w) (vw_store w') \<and>
    same_attempts ws (vw_attempts w) (vw_attempts w')"
proof -
  let ?w = "fold (request_step env) ops empty_world"
  have st: "store_ok (vw_store ?w)"
    using documents.run_inv [OF world_inv_empty assms(1)] by (simp add: world_inv_def)
  have "same_repo ws (vw_repo w) (vw_repo (request_step env op w)) \<and> same_store ws (vw_store w) (vw_store (request_step env op w)) \<and>
    same_attempts ws (vw_attempts w) (vw_attempts (request_step env op w))" if st: "store_ok (vw_store w)" for w
  proof (cases op)
    case (RCreate who title media cls vis did secret name now)
    with assms(2) create_cases [of env who title media cls vis did secret name now w] show ?thesis
      by (auto simp: same_repo_ops same_store_issue)
  next
    case (RUpload ws' uid secret chunks now)
    with assms(2) upload_cases [of env ws' uid secret chunks now w] st show ?thesis by (auto simp: same_store_write)
  next
    case (RComplete who uid)
    with assms(2) complete_cases [of env who uid w] show ?thesis by (auto simp: same_attempts_ops)
  next
    case (RReview who did)
    with assms(2) review_cases [of env who did w] show ?thesis by (auto simp: same_attempts_ops)
  next
    case (RPublish who document_id vid now)
    with assms(2) have ne: "id_workspace_id who \<noteq> ws" by simp
    let ?w = "snd (publish_document_route env who document_id vid now w)"
    consider "?w = w"
      | did path ref st where "dc_publish (resolve_access who did (vw_repo w))"
        "promote_to_vault (ie_pre env) (id_workspace_id who) (ie_uuid_str env vid) path (vw_store w) = (ref, st)"
        "(?w = w\<lparr>vw_store := st\<rparr>) \<or>
         (\<exists>r. ?w = snd (record_publication env who did (ie_uuid_str env did) vid r now (w\<lparr>vw_store := st\<rparr>)))"
      using publish_cases [of env who document_id vid now w] unfolding Let_def
      by (force split: option.splits)
    then show ?thesis
    proof cases
      case 1
      with RPublish show ?thesis by simp
    next
      case 2
      from publish_access_document [OF 2(1)] obtain d where d: "get_document (id_workspace_id who) did (vw_repo (w\<lparr>vw_store := st\<rparr>)) = Some d"
        by auto
      have s: "same_store ws (vw_store w) st"
        using same_store_promote [OF ne, of "vw_store w"] 2(2) by (metis snd_conv)
      from 2(3) RPublish same_publication [OF ne, of "w\<lparr>vw_store := st\<rparr>"] s ne show ?thesis
        by (auto simp: record_publication_eq [OF d] same_attempts_ops)
    qed
  next
    case (RArchive who did now)
    with assms(2) change_state_cases [of "''ARCHIVED''" env who did now w] show ?thesis
      by (auto simp: delete_document_route_def same_repo_ops)
  next
    case (RRevoke who did now)
    with assms(2) change_state_cases [of "''REVOKED''" env who did now w] show ?thesis
      by (auto simp: revoke_document_route_def same_repo_ops)
  next
    case (RPurge who did now)
    with assms(2) purge_cases [of env who did now w] show ?thesis by (auto simp: same_repo_ops)
  next
    case (RHold who did hold now)
    with assms(2) hold_cases [of env who did hold now w] show ?thesis by (auto simp: same_repo_ops)
  next
    case (RIngest task_type ws' uid token sid)
    with assms(2) ingest_cases [of env task_type ws' uid token sid w] show ?thesis
      by (auto simp: same_attempts_ops Let_def)
  next
    case (RExecutePurge ws' document_id now)
    with assms(2) have ne: "ws' \<noteq> ws" by simp
    have "same_repo ws (vw_repo w) (vw_repo (execute_purge env ws' did now w)) \<and>
      same_store ws (vw_store w) (vw_store (execute_purge env ws' did now w)) \<and> vw_attempts (execute_purge env ws' did now w) = vw_attempts w" for did
      using same_store_purge [OF ne, of "vw_store w" env "list_versions ws' did (vw_repo w)"] same_repo_ops(1) [OF ne]
      by (auto simp: execute_purge_def Let_def split: option.split prod.splits)
    with RExecutePurge show ?thesis by (auto simp: execute_purge_payload_def split: option.split)
  qed (use assms(2) in \<open>simp_all add: same_repo_ops\<close>)
  from this [OF st] show ?thesis by (simp add: Let_def)
qed

subsection \<open>Retrieval and purge\<close>

lemma unlinked_citations: "unlinked ks \<Longrightarrow> authorized_citations uuid ws accessible repo ks room cs = Some []"
proof (induction cs)
  case (Cons c cs)
  then show ?case by (auto dest: unlinked_get split: option.split)
qed simp

text \<open>C32. Authorised retrieval returns nothing. The pipeline never links a candidate to its vault document, so
  in every reachable world, after any number of publications and status changes, the retrieval of every caller and
  every query is empty, and the purge of a document deletes no knowledge.\<close>

theorem authorised_retrieval_empty:
  assumes "admissible (request_guard env) (request_step env) ops empty_world"
  shows "let w = fold (request_step env) ops empty_world in
    retrieve_authorized_citations uuid lower ws who roles q limit (vw_repo w) (vw_knowledge w) = Some [] \<and>
    delete_by_vault_document ws vdid (vw_knowledge w) = vw_knowledge w"
proof -
  have "unlinked (vw_knowledge (fold (request_step env) ops empty_world))"
    using documents.run_inv [OF world_inv_empty assms] by (simp add: world_inv_def)
  then show ?thesis
    by (simp add: retrieve_authorized_citations_def unlinked_citations unlinked_delete Let_def)
qed

text \<open>C31. A publication serves the bytes the quarantine holds now. Whatever the state of the document, an allowed
  publication of an attempt that waits for review succeeds, sets the document to \<open>PUBLISHED\<close> and stores the
  current file of the attempt, while the version records the hash taken when the upload was completed.\<close>

theorem publication_takes_current_file:
  assumes "ie_ready env" "ie_uuid env document_id = Some did" "dc_publish (resolve_access who did (vw_repo w))"
    and "dict_get (vw_attempts w) (id_workspace_id who, ie_uuid_str env did) = Some a" "at_state a = IS_REVIEW_PENDING"
    and "dict_get (ds_files (vw_store w)) (at_path a) = Some content"
    and "at_path a \<noteq> []" "resolve_within_root (at_path a) = Some (at_path a)"
    and "valid_id (id_workspace_id who)" "valid_id (ie_uuid_str env vid)"
  shows "let (res, w') = publish_document_route env who document_id vid now w; ws = id_workspace_id who in
    res = Http_ok ''PUBLISHED'' \<and>
    map_option vd_state (get_document ws did (vw_repo w')) = Some ''PUBLISHED'' \<and>
    dict_get (ds_files (vw_store w')) [''vault'', ws, ie_uuid_str env vid] = Some content \<and>
    map_option vv_checksum (get_version ws vid (vw_repo w')) = Some (or_else (at_sha256 a) [])"
proof -
  let ?ws = "id_workspace_id who" and ?uid = "ie_uuid_str env did"
  from publish_access_document [OF assms(3)] obtain d where d: "get_document ?ws did (vw_repo w) = Some d" by blast
  define st where "st = (vw_store w)\<lparr>ds_files := dict_set [''vault'', ?ws, ie_uuid_str env vid] content (ds_files (vw_store w))\<rparr>"
  have p: "promote_to_vault (ie_pre env) ?ws (ie_uuid_str env vid) (at_path a) (vw_store w) = (Some [''vault'', ?ws, ie_uuid_str env vid], st)"
    using assms by (simp add: promote_to_vault_def Let_def st_def)
  let ?w = "w\<lparr>vw_store := st\<rparr>"
  have d': "get_document ?ws did (vw_repo ?w) = Some d" using d by simp
  have route: "publish_document_route env who document_id vid now w =
      record_publication env who did ?uid vid [''vault'', ?ws, ie_uuid_str env vid] now ?w"
    using assms d p by (simp add: publish_document_route_def parsed_access_def get_attempt_state_def get_quarantine_path_def Let_def)
  have ok: "fst (publish_attempt ?ws ?uid ?uid (ie_uuid_str env vid) (vw_attempts ?w))"
    using assms(4,5) by (simp add: publish_attempt_def)
  have a': "dict_get (vw_attempts ?w) (?ws, ?uid) = Some a" using assms(4) by simp
  let ?repo = "publication_repo env who did ?uid vid [''vault'', ?ws, ie_uuid_str env vid] now ?w"
  from publication_repo_version(1) [OF d' a', of vid env "[''vault'', ?ws, ie_uuid_str env vid]" now]
  have v: "map_option vv_checksum (get_version ?ws vid ?repo) = Some (or_else (at_sha256 a) [])" by auto
  have s: "map_option vd_state (get_document ?ws did ?repo) = Some ''PUBLISHED''"
    using d by (auto simp: publication_repo_def append_version_def update_document_state_def get_document_def Let_def split: prod.split)
  show ?thesis
    using ok v s unfolding route record_publication_eq [OF d'] by (simp add: Let_def st_def)
qed

lemma purge_versions_files:
  assumes "valid_id ws" "\<And>v. v \<in> set vs \<Longrightarrow> valid_id (ie_uuid_str env (vv_id v))"
  shows "fst (purge_versions env ws vs st) \<and>
    (\<forall>p. dict_get (ds_files (snd (purge_versions env ws vs st))) p =
       (if p \<in> (\<lambda>v. [''vault'', ws, ie_uuid_str env (vv_id v)]) ` set vs then None else dict_get (ds_files st) p))"
  using assms
proof (induction env ws vs st rule: purge_versions.induct)
  case (2 env ws v vs st)
  then have "purge_version ws (ie_uuid_str env (vv_id v)) st =
      Some (st\<lparr>ds_files := dict_del [''vault'', ws, ie_uuid_str env (vv_id v)] (ds_files st)\<rparr>)"
    by (simp add: purge_version_def)
  with 2 show ?case by auto
qed simp

text \<open>C30. A purge removes every file of the document and nothing else: from a reachable world with the
  document in \<open>PURGE_PENDING\<close>, the task ends in \<open>PURGED\<close> with the files of all its versions gone
  and every other file kept, and a second run changes nothing. A legal hold set after the request does not
  stop it, while the request itself refuses a document under hold.\<close>

theorem purge_complete:
  assumes "admissible (request_guard env) (request_step env) ops empty_world"
    and "w = fold (request_step env) ops empty_world"
    and "get_document ws did (vw_repo w) = Some d" "vd_state d = ''PURGE_PENDING''"
    and "valid_id ws" "\<And>vid. valid_id (ie_uuid_str env vid)"
  shows "let w' = execute_purge env ws did now w in
    get_document ws did (vw_repo w') = Some (d\<lparr>vd_state := ''PURGED'', vd_updated_at := now\<rparr>) \<and>
    (\<forall>path. dict_get (ds_files (vw_store w')) path =
       (if \<exists>vid v. get_version ws vid (vw_repo w) = Some v \<and> vv_document_id v = did \<and> path = [''vault'', ws, ie_uuid_str env vid]
        then None else dict_get (ds_files (vw_store w)) path)) \<and>
    execute_purge env ws did later w' = w' \<and>
    (\<forall>repo. fst (request_purge ws did now repo) = Purge_blocked \<longleftrightarrow>
       (\<exists>x. get_document ws did repo = Some x \<and> vd_legal_hold x))"
proof -
  have inv: "vault_inv (vw_repo w)" using documents.run_inv [OF world_inv_empty assms(1)] assms(2) by (simp add: world_inv_def)
  then have kv: "keyed (\<lambda>v. (vv_workspace_id v, vv_id v)) (vr_versions (vw_repo w))" by (simp add: vault_inv_def)
  let ?vs = "list_versions ws did (vw_repo w)"
  have same_id: "vv_workspace_id v = ws \<and> vv_id v = vid" if "get_version ws vid (vw_repo w) = Some v" for vid v
    using keyed_get [OF kv] that by (fastforce simp: get_version_def)
  have mem: "v \<in> set ?vs \<longleftrightarrow> get_version ws (vv_id v) (vw_repo w) = Some v \<and> vv_document_id v = did" for v
    using keyed_mem [OF kv, of v] same_id [of "vv_id v" v] by (auto simp: list_versions_def get_version_def)
  have img: "path \<in> (\<lambda>v. [''vault'', ws, ie_uuid_str env (vv_id v)]) ` set ?vs \<longleftrightarrow>
      (\<exists>vid v. get_version ws vid (vw_repo w) = Some v \<and> vv_document_id v = did \<and> path = [''vault'', ws, ie_uuid_str env vid])"
    (is "?l \<longleftrightarrow> ?r") for path
  proof
    assume ?l
    then obtain v where "v \<in> set ?vs" "path = [''vault'', ws, ie_uuid_str env (vv_id v)]" by blast
    with mem show ?r by blast
  next
    assume ?r
    then obtain vid v where v: "get_version ws vid (vw_repo w) = Some v" "vv_document_id v = did"
      "path = [''vault'', ws, ie_uuid_str env vid]" by blast
    with same_id [OF v(1)] have "v \<in> set ?vs" unfolding mem by simp
    with v(3) same_id [OF v(1)] show ?l by blast
  qed
  obtain st where st: "purge_versions env ws ?vs (vw_store w) = (True, st)"
    using purge_versions_files [OF assms(5), of ?vs env "vw_store w"] assms(6) by (metis prod.collapse)
  have files: "dict_get (ds_files st) path =
       (if path \<in> (\<lambda>v. [''vault'', ws, ie_uuid_str env (vv_id v)]) ` set ?vs then None else dict_get (ds_files (vw_store w)) path)" for path
    using purge_versions_files [OF assms(5), of ?vs env "vw_store w"] assms(6) st by simp
  have eq: "execute_purge env ws did now w =
      w\<lparr>vw_knowledge := delete_by_vault_document ws (ie_uuid_str env did) (vw_knowledge w), vw_store := st,
        vw_repo := snd (update_document_state ws did ''PURGED'' None now (vw_repo w))\<rparr>"
    using assms(3,4) st by (simp add: execute_purge_def)
  have doc: "get_document ws did (vw_repo (execute_purge env ws did now w)) = Some (d\<lparr>vd_state := ''PURGED'', vd_updated_at := now\<rparr>)"
    using assms(3) unfolding eq by (simp add: update_document_state_def get_document_def Let_def)
  have "execute_purge env ws did later (execute_purge env ws did now w) = execute_purge env ws did now w"
    using doc by (simp add: execute_purge_def [of env ws did later])
  moreover have "\<forall>repo. fst (request_purge ws did now repo) = Purge_blocked \<longleftrightarrow>
       (\<exists>x. get_document ws did repo = Some x \<and> vd_legal_hold x)"
    by (auto simp: request_purge_def split: option.split)
  ultimately show ?thesis using doc files unfolding Let_def eq img [symmetric] by simp
qed

subsection \<open>Examples\<close>

definition example_env :: ingestion_env where
  "example_env =
     \<lparr>ie_pre = \<lparr>pe_sha256 = (\<lambda>x. x), pe_archive_members = (\<lambda>_. None), pe_is_utf8 = (\<lambda>_. True)\<rparr>,
      ie_chunk = \<lparr>ke_sha256 = (\<lambda>x. x), ke_is_utf8 = (\<lambda>_. True), ke_decode_ignore = (\<lambda>x. x)\<rparr>,
      ie_scan = (\<lambda>q c. Some ''clean''),
      ie_convert = (\<lambda>d c. Some \<lparr>cr_markdown = Some c, cr_title = None, cr_package = ''markitdown'', cr_version = ''0.1.7'',
                                 cr_profile = ''p'', cr_output_sha256 = None, cr_warnings = [], cr_failure_code = None\<rparr>),
      ie_uuid = (\<lambda>s. if s = ''d1'' then Some 1 else None),
      ie_uuid_str = (\<lambda>n. if n = 1 then ''d1'' else if n = 2 then ''v2'' else ''x''),
      ie_enabled = True, ie_ready = True, ie_scheduler = True\<rparr>"

definition example_founder :: vault_identity where
  "example_founder = \<lparr>id_principal_id = ''u1'', id_role_id = Some ''founder'', id_workspace_id = ''w''\<rparr>"

text \<open>A document that is uploaded and validated, and its publication.\<close>

definition example_upload :: "vault_request list" where
  "example_upload =
     [RCreate example_founder ''t'' ''text/plain'' None None 1 ''s'' ''f'' 0,
      RUpload (Some ''w'') ''d1'' (Some ''s'') [''ab'', ''c''] 1,
      RComplete example_founder ''d1'',
      RIngest (Some ''knowledge_ingestion'') (Some ''w'') (Some ''d1'') (Some ''t'') ''k1'']"

definition example_publish :: vault_request where
  "example_publish = RPublish example_founder ''d1'' 2 5"

abbreviation example_world :: "vault_request list \<Rightarrow> vault_world" where
  "example_world ops \<equiv> fold (request_step example_env) ops empty_world"

lemma example_published_ok:
  "admissible (request_guard example_env) (request_step example_env) (example_upload @ [example_publish]) empty_world"
  by code_simp

lemma example_upload_ok: "admissible (request_guard example_env) (request_step example_env) example_upload empty_world"
  by code_simp

text \<open>Witness of C26.\<close>

theorem publication_gate_witness:
  "\<exists>a. dict_get (vw_attempts (example_world (example_upload @ [example_publish]))) (''w'', ''d1'') = Some a \<and>
     at_state a = IS_PUBLISHED \<and> passed_checks example_env a"
proof -
  have "map_option at_state (dict_get (vw_attempts (example_world (example_upload @ [example_publish]))) (''w'', ''d1'')) = Some IS_PUBLISHED"
    by code_simp
  then obtain a where "dict_get (vw_attempts (example_world (example_upload @ [example_publish]))) (''w'', ''d1'') = Some a"
      "at_state a = IS_PUBLISHED" by auto
  with publication_gate [OF example_published_ok] show ?thesis unfolding Let_def by blast
qed

text \<open>An instance: a reviewer who tries to reject the candidate, then a publication.\<close>

theorem attempts_only_advance_witness:
  "\<exists>b. dict_get (vw_attempts (example_world (example_upload @ [RReview example_founder ''d1'']))) (''w'', ''d1'') = Some b \<and>
     at_state b \<in> {IS_REVIEW_PENDING, IS_PUBLISHED}"
proof -
  have ok: "admissible (request_guard example_env) (request_step example_env) (example_upload @ [RReview example_founder ''d1'']) empty_world"
    by code_simp
  have "map_option at_state (dict_get (vw_attempts (example_world example_upload)) (''w'', ''d1'')) = Some IS_REVIEW_PENDING"
    by code_simp
  then obtain a where "dict_get (vw_attempts (example_world example_upload)) (''w'', ''d1'') = Some a" "at_state a = IS_REVIEW_PENDING"
    by auto
  with attempts_only_advance [OF ok this(1)] show ?thesis by blast
qed

text \<open>An instance.\<close>

theorem stored_files_bounded_witness:
  "\<exists>content. dict_get (ds_files (vw_store (example_world example_upload))) [''quarantine'', ''w'', ''d1'', ''f''] = Some content \<and>
     length content \<le> 26214400"
proof -
  have "dict_get (ds_files (vw_store (example_world example_upload))) [''quarantine'', ''w'', ''d1'', ''f''] = Some ''abc''"
    by code_simp
  with stored_files_bounded [OF example_upload_ok this] show ?thesis by blast
qed

text \<open>Witness of C27: the publication by the founder.\<close>

theorem document_changes_authorised_witness:
  "\<exists>who. request_identity example_publish = Some who \<and>
     (dc_manage (resolve_access who 1 (vw_repo (example_world example_upload))) \<or>
      dc_publish (resolve_access who 1 (vw_repo (example_world example_upload))))"
proof -
  let ?w = "example_world example_upload"
  have g: "request_guard example_env example_publish ?w" by code_simp
  have "map_option vd_state (get_document ''w'' 1 (vw_repo ?w)) = Some ''DRAFT''" by code_simp
  then obtain d where d: "get_document ''w'' 1 (vw_repo ?w) = Some d" "vd_state d = ''DRAFT''" by auto
  have "map_option vd_state (get_document ''w'' 1 (vw_repo (request_step example_env example_publish ?w))) = Some ''PUBLISHED''"
    by code_simp
  with d have "get_document ''w'' 1 (vw_repo (request_step example_env example_publish ?w)) \<noteq> Some d" by auto
  from document_changes_authorised [OF g d(1) this] d(2) show ?thesis by auto
qed

text \<open>Witness of C28.\<close>

theorem workspaces_isolated_witness:
  "same_store ''v'' (vw_store (example_world example_upload))
     (vw_store (request_step example_env example_publish (example_world example_upload)))"
proof -
  have "request_workspace example_publish \<noteq> ''v''" by code_simp
  from workspaces_isolated [OF example_upload_ok this] show ?thesis by (simp add: Let_def)
qed

text \<open>Witness of C32: the founder finds nothing after the publication.\<close>

theorem authorised_retrieval_empty_witness:
  "retrieve_authorized_citations (ie_uuid example_env) py_lower ''w'' ''u1'' [''founder''] ''abc'' 5
     (vw_repo (example_world (example_upload @ [example_publish])))
     (vw_knowledge (example_world (example_upload @ [example_publish]))) = Some []"
  using authorised_retrieval_empty [OF example_published_ok] by (simp add: Let_def)

text \<open>Witness of C31: after the scan the document is purged and the file overwritten with the ticket of the
  upload; the publication makes the document public again with the new bytes under the old hash.\<close>

definition example_overwritten :: "vault_request list" where
  "example_overwritten =
     example_upload @ [RPurge example_founder ''d1'' 6, RExecutePurge ''w'' ''d1'' 7,
       RUpload (Some ''w'') ''d1'' (Some ''s'') [''evil''] 8]"

theorem publication_takes_current_file_witness:
  "let w = example_world example_overwritten; (res, w') = publish_document_route example_env example_founder ''d1'' 2 9 w in
     map_option vd_state (get_document ''w'' 1 (vw_repo w)) = Some ''PURGED'' \<and> res = Http_ok ''PUBLISHED'' \<and>
     dict_get (ds_files (vw_store w')) [''vault'', ''w'', ''v2''] = Some ''evil'' \<and>
     map_option vv_checksum (get_version ''w'' 2 (vw_repo w')) = Some ''abc''"
proof -
  let ?w = "example_world example_overwritten"
  have facts: "ie_ready example_env" "ie_uuid example_env ''d1'' = Some 1" "dc_publish (resolve_access example_founder 1 (vw_repo ?w))"
      "ie_uuid_str example_env 1 = ''d1''" "ie_uuid_str example_env 2 = ''v2''" "id_workspace_id example_founder = ''w''"
      "map_option at_state (dict_get (vw_attempts ?w) (''w'', ''d1'')) = Some IS_REVIEW_PENDING"
      "map_option at_path (dict_get (vw_attempts ?w) (''w'', ''d1'')) = Some [''quarantine'', ''w'', ''d1'', ''f'']"
      "map_option at_sha256 (dict_get (vw_attempts ?w) (''w'', ''d1'')) = Some (Some ''abc'')"
      "dict_get (ds_files (vw_store ?w)) [''quarantine'', ''w'', ''d1'', ''f''] = Some ''evil''"
      "resolve_within_root [''quarantine'', ''w'', ''d1'', ''f''] = Some [''quarantine'', ''w'', ''d1'', ''f'']"
      "valid_id ''w''" "valid_id ''v2''"
      "map_option vd_state (get_document ''w'' 1 (vw_repo ?w)) = Some ''PURGED''"
    by code_simp+
  from facts(7-9) obtain a where a: "dict_get (vw_attempts ?w) (''w'', ''d1'') = Some a" "at_state a = IS_REVIEW_PENDING"
      "at_path a = [''quarantine'', ''w'', ''d1'', ''f'']" "at_sha256 a = Some ''abc''" by auto
  from publication_takes_current_file [of example_env "''d1''" 1 example_founder ?w a "''evil''" 2 9] facts a
  show ?thesis by (simp add: Let_def or_else_def split_beta)
qed

text \<open>Witness of C30: the document is put on hold after its purge was requested.\<close>

definition example_held :: "vault_request list" where
  "example_held =
     example_upload @ [example_publish, RPurge example_founder ''d1'' 6, RHold example_founder ''d1'' True 7]"

theorem purge_complete_witness:
  "let w = example_world example_held; w' = execute_purge example_env ''w'' 1 8 w in
     map_option vd_legal_hold (get_document ''w'' 1 (vw_repo w)) = Some True \<and>
     map_option vd_state (get_document ''w'' 1 (vw_repo w')) = Some ''PURGED'' \<and>
     dict_get (ds_files (vw_store w)) [''vault'', ''w'', ''v2''] = Some ''abc'' \<and>
     dict_get (ds_files (vw_store w')) [''vault'', ''w'', ''v2''] = None"
proof -
  let ?w = "example_world example_held"
  have ok: "admissible (request_guard example_env) (request_step example_env) example_held empty_world"
    by code_simp
  have facts: "map_option vd_state (get_document ''w'' 1 (vw_repo ?w)) = Some ''PURGE_PENDING''"
      "map_option vd_legal_hold (get_document ''w'' 1 (vw_repo ?w)) = Some True"
      "map_option vv_document_id (get_version ''w'' 2 (vw_repo ?w)) = Some 1"
      "dict_get (ds_files (vw_store ?w)) [''vault'', ''w'', ''v2''] = Some ''abc''"
      "valid_id ''w''" "ie_uuid_str example_env 2 = ''v2''"
    by code_simp+
  from facts(1-3) obtain d v where d: "get_document ''w'' 1 (vw_repo ?w) = Some d" "vd_state d = ''PURGE_PENDING''"
    and v: "get_version ''w'' 2 (vw_repo ?w) = Some v" "vv_document_id v = 1" by auto
  have ids: "valid_id (ie_uuid_str example_env vid)" for vid
    by (simp add: example_env_def valid_id_def id_char_def)
  have gone: "\<exists>vid v. get_version ''w'' vid (vw_repo ?w) = Some v \<and> vv_document_id v = 1 \<and>
      [''vault'', ''w'', ''v2''] = [''vault'', ''w'', ie_uuid_str example_env vid]"
    by (intro exI [of _ 2] exI [of _ v]) (simp add: v facts(6))
  note complete = purge_complete [OF ok refl d facts(5) ids, where now = 8, unfolded Let_def]
  have "dict_get (ds_files (vw_store (execute_purge example_env ''w'' 1 8 ?w))) [''vault'', ''w'', ''v2''] = None"
    using complete [THEN conjunct2, THEN conjunct1, rule_format, of "[''vault'', ''w'', ''v2'']", unfolded if_P [OF gone]] .
  with complete [THEN conjunct1] facts show ?thesis by (simp add: Let_def)
qed

end
