(* ===== verification/Chunking.thy ===== *)
theory Chunking
  imports Knowledge
begin

text \<open>Properties of the chunks of a converted document.\<close>

subsection \<open>Long sections\<close>

text \<open>The text that overlapping pieces stand for: the first one, then each without its first \<open>n\<close>
  bytes.\<close>

fun reassemble :: "nat \<Rightarrow> string list \<Rightarrow> string" where
  "reassemble n [] = []"
| "reassemble n (c # cs) = c @ concat (map (drop n) cs)"

lemma reassemble_cons:
  "cs \<noteq> [] \<Longrightarrow> n \<le> length (hd cs) \<Longrightarrow> concat (map (drop n) cs) = drop n (reassemble n cs)"
  by (cases cs) simp_all

lemma split_from_nonempty: "offset < length bytes \<Longrightarrow> overlap < width \<Longrightarrow> split_from env width overlap bytes offset \<noteq> []"
  by (subst split_from.simps) (simp add: Let_def)

lemma split_from_first:
  assumes "\<And>s. ke_is_utf8 env s" "offset < length bytes" "overlap < width"
  shows "hd (split_from env width overlap bytes offset) = take width (drop offset bytes)"
  using assms by (subst split_from.simps) (simp add: Let_def min_def)

lemma split_from_reassembled:
  assumes utf8: "\<And>s. ke_is_utf8 env s" and "offset < length bytes" and w: "overlap < width"
  shows "reassemble overlap (split_from env width overlap bytes offset) = drop offset bytes"
  using assms(2)
proof (induction "length bytes - offset" arbitrary: offset rule: less_induct)
  case less
  show ?case
  proof (cases "length bytes \<le> offset + width")
    case True
    with less.prems utf8 w show ?thesis by (subst split_from.simps) (simp add: Let_def)
  next
    case False
    let ?offset = "offset + (width - overlap)"
    let ?rest = "split_from env width overlap bytes ?offset"
    have o: "?offset < length bytes" using False w by simp
    have first: "hd ?rest = take width (drop ?offset bytes)" by (rule split_from_first [OF utf8 o w])
    have ne: "?rest \<noteq> []" by (rule split_from_nonempty [OF o w])
    have IH: "reassemble overlap ?rest = drop ?offset bytes" by (rule less.hyps) (use o w less.prems in simp_all)
    have "concat (map (drop overlap) ?rest) = drop overlap (drop ?offset bytes)"
      unfolding IH [symmetric] by (rule reassemble_cons [OF ne]) (use False w first in simp)
    also have "\<dots> = drop width (drop offset bytes)" using w by (simp add: add.commute)
    finally have "reassemble overlap (take width (drop offset bytes) # ?rest) = drop offset bytes"
      using append_take_drop_id [of width "drop offset bytes"] by (simp only: reassemble.simps)
    moreover have "split_from env width overlap bytes offset = take width (drop offset bytes) # ?rest"
      using less.prems False utf8 w by (subst split_from.simps) (simp add: Let_def)
    ultimately show ?thesis by simp
  qed
qed

lemma split_from_bounded:
  assumes "\<And>s. length (ke_decode_ignore env s) \<le> length s"
  shows "list_all (\<lambda>c. length c \<le> width) (split_from env width overlap bytes offset)"
proof (induction "length bytes - offset" arbitrary: offset rule: less_induct)
  case less
  have dec: "length (ke_decode_ignore env (take n xs)) \<le> m" if "n \<le> m" for n m xs
    using assms [of "take n xs"] that by simp
  show ?case
  proof (cases "length bytes \<le> offset \<or> width \<le> overlap")
    case True
    then show ?thesis by (subst split_from.simps) auto
  next
    case False
    then have "list_all (\<lambda>c. length c \<le> width) (split_from env width overlap bytes (offset + (width - overlap)))"
      by (intro less.hyps) auto
    with False show ?thesis
      by (subst split_from.simps) (auto simp: Let_def intro!: dec)
  qed
qed

lemma split_long_bounded:
  "(\<And>s. length (ke_decode_ignore env s) \<le> length s) \<Longrightarrow> list_all (\<lambda>c. length c \<le> width) (split_long_text env width overlap text)"
  by (simp add: split_long_text_def split_from_bounded)

text \<open>A section that is too long loses nothing: for a text that decodes at every cut, the pieces of 1024
  bytes that overlap by 128 give back the whole text when the overlap is dropped from all but the first, and
  none is longer than 1024.\<close>

theorem long_section_reassembled:
  assumes "\<And>s. ke_is_utf8 env s" and "\<And>s. length (ke_decode_ignore env s) \<le> length s"
  shows "reassemble 128 (split_long_text env 1024 128 text) = text \<and>
    list_all (\<lambda>c. length c \<le> 1024) (split_long_text env 1024 128 text)"
proof (cases "length text \<le> 1024")
  case True
  then show ?thesis by (simp add: split_long_text_def)
next
  case False
  then have "0 < length text" by linarith
  from split_from_reassembled [OF assms(1) this, of 128 1024] False split_long_bounded [OF assms(2), of 1024 128 "text"]
  show ?thesis by (simp add: split_long_text_def)
qed

subsection \<open>Sections\<close>

lemma parse_headings_lines:
  "\<forall>h \<in> set (parse_headings i n ls). i \<le> hd_line h \<and> hd_line h < i + length ls"
proof (induction i n ls rule: parse_headings.induct)
  case (2 i n l ls)
  then show ?case by (fastforce split: option.splits)
qed simp

lemma parse_headings_sorted: "sorted_wrt (<) (map hd_line (parse_headings i n ls))"
proof (induction i n ls rule: parse_headings.induct)
  case (2 i n l ls)
  show ?case
  proof (cases "heading_match l")
    case None
    with 2 show ?thesis by simp
  next
    case (Some m)
    obtain level t where m: "m = (level, t)" by fastforce
    with Some 2 parse_headings_lines [of "Suc i" "Suc n" ls] show ?thesis by (auto simp: Suc_le_eq)
  qed
qed simp

lemma take_drop_append: "a \<le> b \<Longrightarrow> b \<le> length xs \<Longrightarrow> take (b - a) (drop a xs) @ drop b xs = drop a xs"
  by (metis append_take_drop_id drop_drop le_add_diff_inverse2)

lemma section_ranges_cover:
  assumes "sorted_wrt (<) (map hd_line hs)" "\<forall>h \<in> set hs. hd_line h < length ls" "hs \<noteq> []"
  shows "concat (map (\<lambda>(label, a, b, anchor). take (b - a) (drop a ls)) (section_ranges (length ls) hs)) = drop (hd_line (hd hs)) ls"
  using assms
proof (induction hs)
  case (Cons h hs)
  show ?case
  proof (cases hs)
    case Nil
    with Cons.prems show ?thesis by simp
  next
    case (Cons h' hs')
    with Cons.IH Cons.prems show ?thesis by (simp add: take_drop_append)
  qed
qed simp

lemma section_ranges_meta: "map (\<lambda>(label, a, b, anchor). (label, a, anchor)) (section_ranges n hs) = map (\<lambda>h. (hd_text h, hd_line h, hd_anchor_id h)) hs"
  by (induction hs) auto

text \<open>The sections of a converted document with headings are exactly its lines from the first heading on, in
  order and without overlap, one section per heading under the heading's text and anchor; the lines before the
  first heading belong to no section and so reach no chunk.\<close>

theorem sections_partition:
  assumes "parse_markdown_headings md \<noteq> []"
  shows "let hs = parse_markdown_headings md; ls = split_lines md; rs = section_ranges (length ls) hs in
    concat (map (\<lambda>(label, a, b, anchor). take (b - a) (drop a ls)) rs) = drop (hd_line (hd hs)) ls \<and>
    map (\<lambda>(label, a, b, anchor). (label, a, anchor)) rs = map (\<lambda>h. (hd_text h, hd_line h, hd_anchor_id h)) hs"
proof -
  have hs: "parse_markdown_headings md = parse_headings 0 0 (split_lines md)"
    using assms by (auto simp: parse_markdown_headings_def)
  show ?thesis
    using section_ranges_cover [of "parse_markdown_headings md" "split_lines md"] assms
      parse_headings_sorted [of 0 0 "split_lines md"] parse_headings_lines [of 0 0 "split_lines md"]
    by (simp add: hs Let_def section_ranges_meta)
qed

subsection \<open>The chunks\<close>

lemma section_contents_bounded:
  assumes "\<And>s. length (ke_decode_ignore env s) \<le> length s"
  shows "list_all (\<lambda>c. length c \<le> 1024) (snd (section_contents env text))"
  using split_long_bounded [OF assms, of 1024 128 "text"] by (simp add: section_contents_def)

lemma enumerate_map_index: "map (\<lambda>(i, c). n + i) (enumerate m cs) = [n + m..<n + m + length cs]"
  by (induction cs arbitrary: m) (simp_all add: upt_conv_Cons del: upt_Suc)

lemma chunk_sections_index:
  "map kc_index (chunk_sections env ws did ls n rs) = [n..<n + length (chunk_sections env ws did ls n rs)]"
proof (induction rs arbitrary: n)
  case (Cons r rs)
  obtain label a b anchor where r: "r = (label, a, b, anchor)" by (cases r)
  obtain divided contents where c: "section_contents env (join_lines (take (b - a) (drop a ls))) = (divided, contents)" by fastforce
  have "map kc_index (map (\<lambda>(i, c). section_chunk env ws did (n + i) label anchor divided c) (enumerate 0 contents)) =
      map (\<lambda>(i, c). n + i) (enumerate 0 contents)"
    by (simp add: comp_def case_prod_beta section_chunk_def)
  with Cons [of "n + length contents"] show ?case
    by (simp add: r c enumerate_map_index comp_def) (metis add.assoc le_add1 upt_add_eq_append)
qed simp

lemma chunk_sections_ok:
  assumes "\<And>s. length (ke_decode_ignore env s) \<le> length s"
  shows "list_all (\<lambda>c. length (kc_content c) \<le> 1024 \<and> kc_document_id c = did \<and> kc_workspace_id c = ws \<and>
     kc_id c = ''chk_'' @ did @ ''_'' @ int_str (int (kc_index c)) \<and> kc_content_hash c = Some (ke_sha256 env (kc_content c)))
     (chunk_sections env ws did ls n rs)"
proof (induction rs arbitrary: n)
  case (Cons r rs)
  obtain label a b anchor where r: "r = (label, a, b, anchor)" by (cases r)
  obtain divided contents where c: "section_contents env (join_lines (take (b - a) (drop a ls))) = (divided, contents)" by fastforce
  have "list_all (\<lambda>c. length c \<le> 1024) contents"
    using section_contents_bounded [OF assms, of "join_lines (take (b - a) (drop a ls))"] by (simp add: c)
  then have "\<forall>(i, x) \<in> set (enumerate 0 contents). length x \<le> 1024"
    by (auto simp: list_all_iff in_set_enumerate_eq)
  with Cons show ?case by (auto simp: r c list_all_iff section_chunk_def)
qed simp

text \<open>The chunks of a document carry the consecutive numbers from 0, so their identifiers are distinct, belong
  to the workspace and to one document identifier derived from the upload, record the hash of their content
  and hold at most 1024 bytes each.\<close>

theorem chunks_well_formed:
  assumes "\<And>s. length (ke_decode_ignore env s) \<le> length s"
  shows "let cs = chunk_markdown_by_sections env md hs ws ingestion; did = ''doc_'' @ take 12 ingestion in
    map kc_index cs = [0..<length cs] \<and>
    list_all (\<lambda>c. length (kc_content c) \<le> 1024 \<and> kc_document_id c = did \<and> kc_workspace_id c = ws \<and>
       kc_id c = ''chk_'' @ did @ ''_'' @ int_str (int (kc_index c)) \<and> kc_content_hash c = Some (ke_sha256 env (kc_content c))) cs"
  using chunk_sections_index [of env ws "''doc_'' @ take 12 ingestion" _ 0]
    chunk_sections_ok [OF assms, where did = "''doc_'' @ take 12 ingestion" and n = 0]
  by (simp add: chunk_markdown_by_sections_def Let_def)

subsection \<open>Examples\<close>

definition example_chunk_env :: chunk_env where
  "example_chunk_env = \<lparr>ke_sha256 = (\<lambda>x. x), ke_is_utf8 = (\<lambda>_. True), ke_decode_ignore = (\<lambda>x. x)\<rparr>"

text \<open>An instance.\<close>

theorem long_section_reassembled_witness:
  "reassemble 128 (split_long_text example_chunk_env 1024 128 (replicate 3000 CHR ''a'')) = replicate 3000 CHR ''a''"
  using long_section_reassembled [of example_chunk_env "replicate 3000 CHR ''a''"] by (simp add: example_chunk_env_def)

text \<open>An instance: the first line is in no section.\<close>

theorem sections_partition_witness:
  "let md = ''intro'' @ [CHR 10] @ ''# A'' @ [CHR 10] @ ''x'' in
     concat (map (\<lambda>(label, a, b, anchor). take (b - a) (drop a (split_lines md)))
       (section_ranges (length (split_lines md)) (parse_markdown_headings md))) = [''# A'', ''x'']"
proof -
  let ?md = "''intro'' @ [CHR 10] @ ''# A'' @ [CHR 10] @ ''x''"
  have "parse_markdown_headings ?md \<noteq> []" by code_simp
  moreover have "drop (hd_line (hd (parse_markdown_headings ?md))) (split_lines ?md) = [''# A'', ''x'']" by code_simp
  ultimately show ?thesis using sections_partition [of ?md] by (simp add: Let_def)
qed

text \<open>An instance.\<close>

theorem chunks_well_formed_witness:
  "map kc_index (chunk_markdown_by_sections example_chunk_env ''text'' [] ''w'' ''d1'') =
     [0..<length (chunk_markdown_by_sections example_chunk_env ''text'' [] ''w'' ''d1'')]"
  using chunks_well_formed [of example_chunk_env "''text''" "[]" "''w''" "''d1''"]
  by (simp add: example_chunk_env_def Let_def)

end
