(* ===== verification/Prompts.thy ===== *)
theory Prompts
  imports Texts
begin

text \<open>
  The system prompt of an agent: the done criteria of a work item (\<open>packages/agent/contracts/done_criteria.py\<close>),
  the lines of its work context (\<open>prompts/work_context.py\<close>), the small-talk test, the session context and the
  rendering of the bundle (\<open>prompts/bundle.py\<close>, \<open>prompts/locale.py\<close>). The constant texts of the prompt are a
  record of parameters, as are \<open>str\<close> on values and JavaScript's text of a number; characters are ASCII.
\<close>

subsection \<open>Done criteria\<close>

record done_criterion =
  dc_id :: string
  dc_description :: string
  dc_required :: bool
  dc_predicate :: "(string \<times> payload) option"
  dc_rubric :: string

text \<open>The size of a value in JavaScript's JSON: a text with its escapes, a number by \<open>num\<close>.\<close>

definition json_char_size :: "char \<Rightarrow> nat" where
  "json_char_size c =
     (let n = (of_char c :: nat) in
      if n = 34 \<or> n = 92 \<or> n \<in> {8, 9, 10, 12, 13} then 2 else if n < 32 then 6 else 1)"

definition json_text_size :: "string \<Rightarrow> nat" where
  "json_text_size s = 2 + sum_list (map json_char_size s)"

definition list_size_with_commas :: "nat list \<Rightarrow> nat" where
  "list_size_with_commas ns = 2 + sum_list ns + (length ns - 1)"

fun json_size :: "(pyval \<Rightarrow> string) \<Rightarrow> pyval \<Rightarrow> nat"
  and json_sizes :: "(pyval \<Rightarrow> string) \<Rightarrow> pyval list \<Rightarrow> nat list"
  and json_entry_sizes :: "(pyval \<Rightarrow> string) \<Rightarrow> (string \<times> pyval) list \<Rightarrow> nat list" where
  "json_size num PNone = 4"
| "json_size num (PBool b) = (if b then 4 else 5)"
| "json_size num (PInt i) = length (num (PInt i))"
| "json_size num (PFloat q) = length (num (PFloat q))"
| "json_size num (PStr s) = json_text_size s"
| "json_size num (PList xs) = list_size_with_commas (json_sizes num xs)"
| "json_size num (PDict kvs) = list_size_with_commas (json_entry_sizes num kvs)"
| "json_sizes num [] = []"
| "json_sizes num (x # xs) = json_size num x # json_sizes num xs"
| "json_entry_sizes num [] = []"
| "json_entry_sizes num (kv # kvs) = (json_text_size (fst kv) + 1 + json_size num (snd kv)) # json_entry_sizes num kvs"

text \<open>\<open>[a-z0-9_-]{1,40}\<close>, whole.\<close>

definition criterion_id :: "string \<Rightarrow> bool" where
  "criterion_id s \<longleftrightarrow>
     s \<noteq> [] \<and> length s \<le> 40 \<and>
     list_all (\<lambda>c. let n = (of_char c :: nat) in (97 \<le> n \<and> n \<le> 122) \<or> (48 \<le> n \<and> n \<le> 57) \<or> n = 95 \<or> n = 45) s"

text \<open>JavaScript's ASCII white space, without the separators 28 to 31.\<close>

definition js_space :: "char \<Rightarrow> bool" where
  "js_space c = (let n = (of_char c :: nat) in (9 \<le> n \<and> n \<le> 13) \<or> n = 32)"

definition js_strip :: "string \<Rightarrow> string" where
  "js_strip s = rev (dropWhile js_space (rev (dropWhile js_space s)))"

fun text_or_empty :: "pyval option \<Rightarrow> string" where
  "text_or_empty (Some (PStr s)) = s"
| "text_or_empty _ = []"

text \<open>A text of 1 to \<open>n\<close> characters after trimming, at most four times as long before; else the message
  \<open>err\<close>.\<close>

definition bounded_text :: "nat \<Rightarrow> string \<Rightarrow> pyval option \<Rightarrow> string + string" where
  "bounded_text n err v =
     (let raw = text_or_empty v; s = js_strip raw
      in if n * 4 < length raw \<or> s = [] \<or> n < length s then Inl err else Inr s)"

definition predicate_kinds :: "string list" where
  "predicate_kinds = [''artifact_exists'', ''metric_gte'', ''field_present'']"

definition criterion_predicate :: "(pyval \<Rightarrow> string) \<Rightarrow> pyval option \<Rightarrow> string + (string \<times> payload)" where
  "criterion_predicate num v =
     (case v of
        Some (PDict p) \<Rightarrow>
          (case dict_get p ''kind'' of
             Some (PStr k) \<Rightarrow>
               if k \<notin> set predicate_kinds then Inl ''unknown predicate kind''
               else
                 (case dict_get p ''args'' of
                    Some (PDict args) \<Rightarrow>
                      if 2048 < json_size num (PDict args) then Inl ''predicate args too large'' else Inr (k, args)
                  | _ \<Rightarrow> Inl ''deterministic criterion requires predicate'')
           | _ \<Rightarrow> Inl ''unknown predicate kind'')
      | _ \<Rightarrow> Inl ''deterministic criterion requires predicate'')"

text \<open>What decides a criterion: a predicate or a rubric.\<close>

definition criterion_check :: "(pyval \<Rightarrow> string) \<Rightarrow> payload \<Rightarrow> done_criterion \<Rightarrow> string + done_criterion" where
  "criterion_check num raw base =
     (if dict_get raw ''check'' = Some (PStr ''deterministic'')
      then (case criterion_predicate num (dict_get raw ''predicate'') of
              Inl e \<Rightarrow> Inl e | Inr p \<Rightarrow> Inr (base\<lparr>dc_predicate := Some p\<rparr>))
      else if dict_get raw ''check'' = Some (PStr ''rubric'')
      then (case bounded_text 500 ''rubric criterion requires rubric'' (dict_get raw ''rubric'') of
              Inl e \<Rightarrow> Inl e | Inr r \<Rightarrow> Inr (base\<lparr>dc_rubric := r\<rparr>))
      else Inl ''invalid check'')"

text \<open>One criterion; \<open>seen\<close> are the identifiers before it. \<open>Inl\<close> is the \<open>DoneCriteriaError\<close> with its message.\<close>

definition parse_criterion :: "(pyval \<Rightarrow> string) \<Rightarrow> pyval \<Rightarrow> string list \<Rightarrow> string + done_criterion" where
  "parse_criterion num v seen =
     (case v of
        PDict raw \<Rightarrow>
          (case dict_get raw ''id'' of
             Some (PStr cid) \<Rightarrow>
               if \<not> criterion_id cid then Inl ''invalid criterion id''
               else if cid \<in> set seen then Inl ''duplicate criterion id''
               else
                 (case bounded_text 300 ''description must be 1..300 chars'' (dict_get raw ''description'') of
                    Inl e \<Rightarrow> Inl e
                  | Inr desc \<Rightarrow>
                      criterion_check num raw
                        \<lparr>dc_id = cid, dc_description = desc,
                         dc_required = (case dict_get raw ''required'' of Some (PBool b) \<Rightarrow> b | _ \<Rightarrow> True),
                         dc_predicate = None, dc_rubric = []\<rparr>)
           | _ \<Rightarrow> Inl ''invalid criterion id'')
      | _ \<Rightarrow> Inl ''invalid criterion id'')"

fun parse_criteria :: "(pyval \<Rightarrow> string) \<Rightarrow> pyval list \<Rightarrow> string list \<Rightarrow> string + done_criterion list" where
  "parse_criteria num [] seen = Inr []"
| "parse_criteria num (v # vs) seen =
     (case parse_criterion num v seen of
        Inl e \<Rightarrow> Inl e
      | Inr c \<Rightarrow> (case parse_criteria num vs (dc_id c # seen) of Inl e \<Rightarrow> Inl e | Inr cs \<Rightarrow> Inr (c # cs)))"

definition parse_done_criteria :: "(pyval \<Rightarrow> string) \<Rightarrow> pyval \<Rightarrow> string + done_criterion list" where
  "parse_done_criteria num v =
     (case v of
        PDict raw \<Rightarrow>
          if dict_get raw ''version'' \<noteq> Some (PInt 1) \<and> dict_get raw ''version'' \<noteq> Some (PFloat 1)
          then Inl ''unsupported version''
          else
            (case dict_get raw ''criteria'' of
               Some (PList vs) \<Rightarrow>
                 if vs = [] \<or> 10 < length vs then Inl ''criteria must contain 1..10 items'' else parse_criteria num vs []
             | _ \<Rightarrow> Inl ''criteria must contain 1..10 items'')
      | _ \<Rightarrow> Inl ''unsupported version'')"

subsection \<open>The work context\<close>

definition clean_line :: "(pyval \<Rightarrow> string) \<Rightarrow> pyval \<Rightarrow> string" where
  "clean_line str v = take 300 (collapse (str v))"

definition clean_number :: "(pyval \<Rightarrow> string) \<Rightarrow> pyval option \<Rightarrow> string" where
  "clean_number str v = (case v of None \<Rightarrow> ''?'' | Some PNone \<Rightarrow> ''?'' | Some x \<Rightarrow> clean_line str x)"

text \<open>\<open>x or ""\<close> as a line.\<close>

definition clean_or_empty :: "(pyval \<Rightarrow> string) \<Rightarrow> pyval option \<Rightarrow> string" where
  "clean_or_empty str v = (case v of None \<Rightarrow> [] | Some x \<Rightarrow> if truthy x then clean_line str x else [])"

definition titled :: "(pyval \<Rightarrow> string) \<Rightarrow> pyval option \<Rightarrow> string option" where
  "titled str v =
     (case v of
        Some (PDict d) \<Rightarrow>
          (case dict_get d ''title'' of
             None \<Rightarrow> None
           | Some t \<Rightarrow> if truthy t \<and> clean_line str t \<noteq> [] then Some (clean_line str t) else None)
      | _ \<Rightarrow> None)"

definition goal_item :: "(pyval \<Rightarrow> string) \<Rightarrow> pyval \<Rightarrow> string option" where
  "goal_item str g =
     (case titled str (Some g) of
        None \<Rightarrow> None
      | Some t \<Rightarrow>
          (let gt = clean_or_empty str (case g of PDict d \<Rightarrow> dict_get d ''goalType'' | _ \<Rightarrow> None)
           in Some (if gt \<noteq> [] then t @ '' ('' @ gt @ '')'' else t)))"

definition key_result_line :: "(pyval \<Rightarrow> string) \<Rightarrow> pyval option \<Rightarrow> string option" where
  "key_result_line str v =
     (case (titled str v, v) of
        (Some t, Some (PDict d)) \<Rightarrow>
          (let unit = clean_or_empty str (dict_get d ''unit'')
           in Some (''Key result: '' @ t @ '' (baseline '' @ clean_number str (dict_get d ''baselineValue'') @ '', current ''
                @ clean_number str (dict_get d ''currentValue'') @ '', target '' @ clean_number str (dict_get d ''targetValue'')
                @ (if unit \<noteq> [] then '' '' @ unit else []) @ '')''))
      | _ \<Rightarrow> None)"

definition opt_line :: "string \<Rightarrow> string option \<Rightarrow> string list" where
  "opt_line label x = (case x of None \<Rightarrow> [] | Some s \<Rightarrow> [label @ s])"

definition goal_context_lines :: "(pyval \<Rightarrow> string) \<Rightarrow> pyval option \<Rightarrow> string list" where
  "goal_context_lines str v =
     (case v of
        Some (PDict d) \<Rightarrow>
          (let chain = (case dict_get d ''goalChain'' of Some (PList gs) \<Rightarrow> List.map_filter (goal_item str) gs | _ \<Rightarrow> [])
           in take 12
             ((if chain \<noteq> [] then [''Goal chain (nearest first): '' @ join_with '' < '' chain] else [])
              @ opt_line ''Company objective: '' (titled str (dict_get d ''companyObjective''))
              @ opt_line ''Objective: '' (titled str (dict_get d ''objective''))
              @ opt_line [] (key_result_line str (dict_get d ''keyResult''))
              @ opt_line ''Project: '' (titled str (dict_get d ''project''))
              @ (case dict_get d ''unlinkedReason'' of
                   None \<Rightarrow> []
                 | Some r \<Rightarrow> if truthy r then [''Goal link incomplete: '' @ clean_line str r] else [])))
      | _ \<Rightarrow> [])"

definition criterion_line :: "(pyval \<Rightarrow> string) \<Rightarrow> done_criterion \<Rightarrow> string" where
  "criterion_line str c =
     ''- ['' @ (if dc_required c then ''required'' else ''optional'') @ ''] '' @ clean_line str (PStr (dc_description c)) @ '' (''
       @ (case dc_predicate c of
            Some p \<Rightarrow> ''check: '' @ clean_line str (PStr (fst p))
          | None \<Rightarrow> ''rubric: '' @ clean_line str (PStr (dc_rubric c))) @ '')''"

definition done_criteria_lines :: "(pyval \<Rightarrow> string) \<Rightarrow> (pyval \<Rightarrow> string) \<Rightarrow> pyval option \<Rightarrow> string list" where
  "done_criteria_lines str num v =
     (case parse_done_criteria num (case v of None \<Rightarrow> PNone | Some x \<Rightarrow> x) of
        Inl e \<Rightarrow> []
      | Inr cs \<Rightarrow> take 12 (map (criterion_line str) cs))"

subsection \<open>The bundle\<close>

record prompt_texts =
  pt_platform_policy :: string
  pt_session_head :: string
  pt_session_tail :: string
  pt_facts_head :: string
  pt_goal_head :: string
  pt_criteria_head :: string
  pt_style :: string
  pt_locale_head :: string
  pt_locale_tail :: string
  pt_smalltalk :: "string list"

definition smalltalk_break :: "char \<Rightarrow> bool" where
  "smalltalk_break c \<longleftrightarrow> py_isspace c \<or> c \<in> set '',.!?~:;''"

definition smalltalk_words :: "string \<Rightarrow> string list" where
  "smalltalk_words s = py_split (map (\<lambda>c. if smalltalk_break c then CHR '' '' else c) (py_lower (py_strip s)))"

definition is_smalltalk :: "prompt_texts \<Rightarrow> payload \<Rightarrow> bool" where
  "is_smalltalk texts input =
     (let v = (case dict_get input ''prompt'' of Some p \<Rightarrow> if truthy p then Some p else dict_get input ''message''
               | None \<Rightarrow> dict_get input ''message'')
      in case v of
           Some (PStr s) \<Rightarrow>
             (let ws = smalltalk_words s in ws \<noteq> [] \<and> length ws \<le> 6 \<and> list_all (\<lambda>x. x \<in> set (pt_smalltalk texts)) ws)
         | _ \<Rightarrow> False)"

definition metadata_text :: "(pyval \<Rightarrow> string) \<Rightarrow> payload \<Rightarrow> string \<Rightarrow> string" where
  "metadata_text str md k = (case dict_get md k of None \<Rightarrow> [] | Some v \<Rightarrow> if truthy v then str v else [])"

definition build_session_context :: "(pyval \<Rightarrow> string) \<Rightarrow> string option \<Rightarrow> payload \<Rightarrow> (string \<times> string) list" where
  "build_session_context str ws md =
     [(''workspace_id'', or_else ws []), (''workspace_name'', metadata_text str md ''workspace_name''),
      (''project_id'', metadata_text str md ''project_id''), (''project_name'', metadata_text str md ''project_name'')]"

record prompt_bundle =
  pu_agent_instructions :: string
  pu_skill_instructions :: "string list"
  pu_session :: "(string \<times> string) list"
  pu_facts :: "string list"
  pu_goal :: "string list"
  pu_criteria :: "string list"
  pu_locale :: string

definition session_lines :: "prompt_bundle \<Rightarrow> string list" where
  "session_lines b = map (\<lambda>(k, v). ''- '' @ k @ '': '' @ collapse v) (filter (\<lambda>(k, v). py_strip v \<noteq> []) (pu_session b))"

text \<open>Texts that are not blank, collapsed.\<close>

definition context_items :: "string list \<Rightarrow> string list" where
  "context_items xs = map collapse (filter (\<lambda>s. py_strip s \<noteq> []) xs)"

definition fact_lines :: "prompt_bundle \<Rightarrow> string list" where
  "fact_lines b = map (\<lambda>f. ''- '' @ take 500 f) (take 20 (context_items (pu_facts b)))"

definition goal_lines :: "prompt_bundle \<Rightarrow> string list" where
  "goal_lines b = map (\<lambda>g. ''- '' @ take 500 g) (take 12 (context_items (pu_goal b)))"

definition criteria_lines :: "prompt_bundle \<Rightarrow> string list" where
  "criteria_lines b = map (take 500) (take 12 (context_items (pu_criteria b)))"

definition lines_section :: "string \<Rightarrow> string list \<Rightarrow> string \<Rightarrow> string list" where
  "lines_section head_text ls tail_text =
     (if ls = [] then [] else [head_text @ [CHR 10] @ join_with [CHR 10] ls @ tail_text])"

definition prompt_sections :: "prompt_texts \<Rightarrow> prompt_bundle \<Rightarrow> string list" where
  "prompt_sections texts b =
     [pt_platform_policy texts]
     @ (if pu_agent_instructions b = [] then [] else [pu_agent_instructions b])
     @ pu_skill_instructions b
     @ lines_section (pt_session_head texts) (session_lines b) (CHR 10 # pt_session_tail texts)
     @ lines_section (pt_facts_head texts) (fact_lines b) []
     @ lines_section (pt_goal_head texts) (goal_lines b) []
     @ lines_section (pt_criteria_head texts) (criteria_lines b) []
     @ [pt_style texts, pt_locale_head texts @ or_else (Some (pu_locale b)) ''vi-VN'' @ pt_locale_tail texts]"

definition render_prompt :: "prompt_texts \<Rightarrow> prompt_bundle \<Rightarrow> string" where
  "render_prompt texts b = join_with [CHR 10, CHR 10] (prompt_sections texts b)"

subsection \<open>Untrusted text stays on its line\<close>

lemma context_items_one_line: "list_all one_line (context_items xs)"
  by (auto simp: context_items_def list_all_iff)

lemma titled_one_line: "titled str v = Some t \<Longrightarrow> one_line t"
  by (auto simp: titled_def clean_line_def one_line_take split: option.splits pyval.splits if_splits)

lemma bounded_text_Inr: "bounded_text n err v = Inr s \<Longrightarrow> 1 \<le> length s \<and> length s \<le> n"
  by (auto simp: bounded_text_def Let_def Suc_le_eq split: if_splits)

lemma criterion_check_Inr:
  "criterion_check num raw base = Inr c \<Longrightarrow> dc_id c = dc_id base \<and> dc_description c = dc_description base"
  by (auto simp: criterion_check_def split: if_splits sum.splits)

lemma parse_criterion_Inr:
  assumes "parse_criterion num v seen = Inr c"
  shows "criterion_id (dc_id c) \<and> dc_id c \<notin> set seen \<and> 1 \<le> length (dc_description c) \<and> length (dc_description c) \<le> 300"
  using assms
  by (auto simp: parse_criterion_def split: pyval.splits option.splits if_splits sum.splits
      dest!: criterion_check_Inr bounded_text_Inr)

lemma parse_criteria_Inr:
  "parse_criteria num vs seen = Inr cs \<Longrightarrow>
     length cs = length vs \<and> distinct (map dc_id cs) \<and>
     list_all (\<lambda>c. dc_id c \<notin> set seen \<and> criterion_id (dc_id c) \<and> 1 \<le> length (dc_description c) \<and> length (dc_description c) \<le> 300) cs"
proof (induction num vs seen arbitrary: cs rule: parse_criteria.induct)
  case (2 num v vs seen)
  from "2.prems" obtain c cs' where p: "parse_criterion num v seen = Inr c"
      "parse_criteria num vs (dc_id c # seen) = Inr cs'" "cs = c # cs'"
    by (auto split: sum.splits)
  from "2.IH" [OF p(1,2)] parse_criterion_Inr [OF p(1)] show ?case unfolding p(3) by (auto simp: list_all_iff)
qed simp

end
