(* ===== verification/Kernel.thy ===== *)
theory Kernel
  imports Gateway SpecRegistry Prompts
begin

text \<open>
  The execution kernel with its own tool loop, \<open>ManualToolLoopKernel\<close>
  (\<open>packages/agent/kernel/openai_agents_kernel.py\<close>), and the validation of its output
  (\<open>contracts/output.py\<close>). The model client, the capability executor, the policy evaluator, JSON, hashes, the
  clock and the generator of identifiers are parameters, numbered by a tick. Every wait for the model or for a
  capability lets others act: \<open>kx_others\<close> lists what they do to the repository, \<open>kx_cancels\<close> the runs they cancel
  in this kernel. Tracing and the observer of skill usage are left out. A checkpoint holds the value that was saved,
  as a database stores it; the in-memory repository would share its lists with the running state.
\<close>

subsection \<open>Messages and state\<close>

record kernel_message =
  km_role :: string
  km_content :: string
  km_tool_call_id :: "string option"

record kernel_call =
  kc_call_id :: string
  kc_name :: string
  kc_arguments :: string

record kernel_state =
  kn_run_id :: string
  kn_messages :: "kernel_message list"
  kn_pending :: "kernel_call list"
  kn_completed :: "(string \<times> pyval) list"
  kn_context :: payload
  kn_step :: nat

definition message_dict :: "kernel_message \<Rightarrow> pyval" where
  "message_dict m =
     (case km_tool_call_id m of
        None \<Rightarrow> PDict [(''role'', PStr (km_role m)), (''content'', PStr (km_content m))]
      | Some c \<Rightarrow> PDict [(''role'', PStr (km_role m)), (''tool_call_id'', PStr c), (''content'', PStr (km_content m))])"

definition call_dict :: "kernel_call \<Rightarrow> pyval" where
  "call_dict c = PDict [(''id'', PStr (kc_call_id c)), (''name'', PStr (kc_name c)), (''arguments'', PStr (kc_arguments c))]"

definition completed_dict :: "string \<times> pyval \<Rightarrow> pyval" where
  "completed_dict x = PDict [(''id'', PStr (fst x)), (''result'', snd x)]"

definition state_to_dict :: "kernel_state \<Rightarrow> payload" where
  "state_to_dict s =
     [(''run_id'', PStr (kn_run_id s)), (''messages'', PList (map message_dict (kn_messages s))),
      (''pending_tool_calls'', PList (map call_dict (kn_pending s))),
      (''completed_tool_calls'', PList (map completed_dict (kn_completed s))), (''context'', PDict (kn_context s)),
      (''step_index'', PInt (int (kn_step s)))]"

text \<open>Reading a dictionary back. The shapes are those \<open>to_dict\<close> writes; \<open>None\<close> stands for the exception that
  any other content raises sooner or later.\<close>

fun as_text :: "pyval option \<Rightarrow> string option" where
  "as_text (Some (PStr s)) = Some s"
| "as_text _ = None"

fun as_dict :: "pyval option \<Rightarrow> payload option" where
  "as_dict (Some (PDict d)) = Some d"
| "as_dict _ = None"

fun as_list :: "pyval option \<Rightarrow> pyval list option" where
  "as_list (Some (PList xs)) = Some xs"
| "as_list _ = None"

fun read_all :: "('a \<Rightarrow> 'b option) \<Rightarrow> 'a list \<Rightarrow> 'b list option" where
  "read_all f [] = Some []"
| "read_all f (x # xs) =
     (case f x of None \<Rightarrow> None | Some y \<Rightarrow> (case read_all f xs of None \<Rightarrow> None | Some ys \<Rightarrow> Some (y # ys)))"

definition message_of :: "pyval \<Rightarrow> kernel_message option" where
  "message_of v =
     (case as_dict (Some v) of
        None \<Rightarrow> None
      | Some d \<Rightarrow>
          (case (as_text (dict_get d ''role''), as_text (dict_get d ''content'')) of
             (Some r, Some c) \<Rightarrow>
               Some \<lparr>km_role = r, km_content = c, km_tool_call_id = as_text (dict_get d ''tool_call_id'')\<rparr>
           | _ \<Rightarrow> None))"

definition call_of :: "pyval \<Rightarrow> kernel_call option" where
  "call_of v =
     (case as_dict (Some v) of
        None \<Rightarrow> None
      | Some d \<Rightarrow>
          (case (as_text (dict_get d ''id''), as_text (dict_get d ''name''), as_text (dict_get d ''arguments'')) of
             (Some i, Some n, Some a) \<Rightarrow> Some \<lparr>kc_call_id = i, kc_name = n, kc_arguments = a\<rparr>
           | _ \<Rightarrow> None))"

definition completed_of :: "pyval \<Rightarrow> (string \<times> pyval) option" where
  "completed_of v =
     (case as_dict (Some v) of
        None \<Rightarrow> None
      | Some d \<Rightarrow>
          (case (as_text (dict_get d ''id''), dict_get d ''result'') of (Some i, Some r) \<Rightarrow> Some (i, r) | _ \<Rightarrow> None))"

text \<open>A missing list or dictionary is empty, a missing step is 0, a missing run raises.\<close>

definition list_entry :: "payload \<Rightarrow> string \<Rightarrow> pyval list option" where
  "list_entry d k = (case dict_get d k of None \<Rightarrow> Some [] | Some v \<Rightarrow> as_list (Some v))"

definition step_entry :: "payload \<Rightarrow> nat option" where
  "step_entry d = (case dict_get d ''step_index'' of None \<Rightarrow> Some 0 | Some (PInt n) \<Rightarrow> Some (nat n) | _ \<Rightarrow> None)"

definition state_from_dict :: "payload \<Rightarrow> kernel_state option" where
  "state_from_dict d =
     (case (as_text (dict_get d ''run_id''), Option.bind (list_entry d ''messages'') (read_all message_of),
            Option.bind (list_entry d ''pending_tool_calls'') (read_all call_of),
            Option.bind (list_entry d ''completed_tool_calls'') (read_all completed_of),
            (case dict_get d ''context'' of None \<Rightarrow> Some [] | Some v \<Rightarrow> as_dict (Some v)), step_entry d) of
        (Some rid, Some ms, Some ps, Some cs, Some ctx, Some n) \<Rightarrow>
          Some \<lparr>kn_run_id = rid, kn_messages = ms, kn_pending = ps, kn_completed = cs, kn_context = ctx, kn_step = n\<rparr>
      | _ \<Rightarrow> None)"

subsection \<open>The environment and the world\<close>

record runtime_error =
  re_code :: string
  re_message :: string
  re_retryable :: bool
  re_details :: payload

definition to_error_details :: "runtime_error \<Rightarrow> payload" where
  "to_error_details e =
     [(''code'', PStr (re_code e)), (''message'', PStr (re_message e)), (''retryable'', PBool (re_retryable e)),
      (''details'', PDict (re_details e))]"

record model_response =
  mo_content :: string
  mo_tool_calls :: "kernel_call list"
  mo_usage :: payload

datatype client_answer = Client_response model_response | Client_runtime_error runtime_error | Client_exception string

text \<open>What an executor answers: a value, the result of the gateway (status, error, output), a typed error or
  another exception.\<close>

datatype executor_answer =
  Exec_value pyval | Exec_gateway string "string option" pyval | Exec_runtime_error runtime_error | Exec_crash string

record kernel_env =
  kx_client :: "(nat \<Rightarrow> kernel_message list \<Rightarrow> payload \<Rightarrow> client_answer) option"
  kx_executor :: "(nat \<Rightarrow> string \<Rightarrow> payload \<Rightarrow> invocation_context \<Rightarrow> executor_answer) option"
  kx_policy :: "(string \<Rightarrow> payload \<Rightarrow> payload \<Rightarrow> string) option"
  kx_others :: "nat \<Rightarrow> run_op list"
  kx_cancels :: "nat \<Rightarrow> string list"
  kx_clock :: "nat \<Rightarrow> datetime"
  kx_uuid :: "nat \<Rightarrow> string"
  kx_loads :: "string \<Rightarrow> pyval option"
  kx_dumps :: "pyval \<Rightarrow> string"
  kx_hash :: "pyval \<Rightarrow> string"
  kx_repr :: "payload \<Rightarrow> string"
  kx_iso :: "datetime \<Rightarrow> string"
  kx_schema_error :: "pyval \<Rightarrow> payload \<Rightarrow> string option"
  kx_spec :: spec_env
  kx_str :: "pyval \<Rightarrow> string"
  kx_js_number :: "pyval \<Rightarrow> string"
  kx_texts :: prompt_texts
  kx_keeps_first :: bool

text \<open>The history of the calls handed to the executor: tool-call identifier, tool, arguments.\<close>

record kernel_world =
  kw_repo :: run_repo
  kw_registry :: spec_registry
  kw_tick :: nat
  kw_cancelled :: "string list"
  kw_executed :: "(string \<times> string \<times> payload) list"
  kw_model_calls :: nat

definition repo_do :: "run_op \<Rightarrow> kernel_world \<Rightarrow> kernel_world" where
  "repo_do op w = w\<lparr>kw_repo := repo_step op (kw_repo w), kw_tick := Suc (kw_tick w)\<rparr>"

text \<open>Saving a checkpoint. The in-memory repository overwrites a record with the same reference; the one on Postgres
  (\<open>kx_keeps_first\<close>) keeps the first, \<open>ON CONFLICT DO NOTHING\<close>.\<close>

definition save_state :: "kernel_env \<Rightarrow> run_checkpoint_record \<Rightarrow> kernel_world \<Rightarrow> kernel_world" where
  "save_state env ck w =
     (if kx_keeps_first env \<and> get_checkpoint (ck_checkpoint_ref ck) (kw_repo w) \<noteq> None then w\<lparr>kw_tick := Suc (kw_tick w)\<rparr>
      else repo_do (OpSaveCheckpoint ck) w)"

definition let_others :: "kernel_env \<Rightarrow> kernel_world \<Rightarrow> kernel_world" where
  "let_others env w =
     w\<lparr>kw_repo := fold repo_step (kx_others env (kw_tick w)) (kw_repo w), kw_tick := Suc (kw_tick w),
       kw_cancelled := kx_cancels env (kw_tick w) @ kw_cancelled w\<rparr>"

definition kernel_event :: "kernel_env \<Rightarrow> string \<Rightarrow> string \<Rightarrow> string \<Rightarrow> payload \<Rightarrow> kernel_world \<Rightarrow> kernel_world" where
  "kernel_event env rid corr event_type pl w =
     repo_do (OpAppendEvent
       \<lparr>ev_event_id = ''evt_'' @ take 16 (kx_uuid env (kw_tick w)), ev_run_id = rid, ev_project_id = None,
        ev_sequence_no = None, ev_event_type = event_type, ev_payload = pl, ev_correlation_id = Some corr,
        ev_created_at = kx_clock env (kw_tick w)\<rparr>) w"

subsection \<open>Results\<close>

record kernel_result =
  kr_run_id :: string
  kr_status :: run_status
  kr_final_output :: "pyval option"
  kr_usage :: payload
  kr_waits :: "wait_descriptor list"
  kr_errors :: "string list"

definition plain_result :: "string \<Rightarrow> run_status \<Rightarrow> string list \<Rightarrow> kernel_result" where
  "plain_result rid st errs =
     \<lparr>kr_run_id = rid, kr_status = st, kr_final_output = None, kr_usage = [], kr_waits = [], kr_errors = errs\<rparr>"

datatype kernel_exception = Spec_failure spec_error | Json_failure string | Checkpoint_failure | Executor_failure string

datatype kernel_outcome = Kernel_returned kernel_result | Kernel_raised kernel_exception

definition active_run_statuses :: "run_status list" where
  "active_run_statuses = [RS_PENDING, RS_RUNNING, RS_WAITING_APPROVAL, RS_WAITING_INPUT]"

fun status_name :: "run_status \<Rightarrow> string" where
  "status_name RS_PENDING = ''pending''"
| "status_name RS_RUNNING = ''running''"
| "status_name RS_WAITING_APPROVAL = ''waiting_approval''"
| "status_name RS_WAITING_INPUT = ''waiting_input''"
| "status_name RS_COMPLETED = ''completed''"
| "status_name RS_FAILED = ''failed''"
| "status_name RS_CANCELLED = ''cancelled''"

text \<open>The compare-and-set on an active run, with whether it succeeded.\<close>

definition run_active :: "string \<Rightarrow> kernel_world \<Rightarrow> bool" where
  "run_active rid w \<longleftrightarrow>
     (case dict_get (runs (kw_repo w)) rid of None \<Rightarrow> False | Some r \<Rightarrow> r_status r \<in> set active_run_statuses)"

definition set_status ::
  "kernel_env \<Rightarrow> string \<Rightarrow> run_status \<Rightarrow> pyval option \<Rightarrow> payload option \<Rightarrow> kernel_world \<Rightarrow> bool \<times> kernel_world" where
  "set_status env rid st out err w =
     (run_active rid w,
      repo_do (OpTransition (kx_clock env (kw_tick w)) (kx_clock env (kw_tick w)) rid active_run_statuses st out err) w)"

definition em_dash :: string where
  "em_dash = [CHR 0xE2, CHR 0x80, CHR 0x94]"

definition reload_terminal_result :: "string \<Rightarrow> kernel_world \<Rightarrow> kernel_result" where
  "reload_terminal_result rid w =
     (let r = get_run rid (kw_repo w);
          st = (case r of None \<Rightarrow> RS_CANCELLED | Some x \<Rightarrow> r_status x)
      in \<lparr>kr_run_id = rid, kr_status = st, kr_final_output = Option.bind r r_final_output, kr_usage = [], kr_waits = [],
          kr_errors = (if st = RS_CANCELLED then []
                       else [''Run '' @ rid @ '' could not transition '' @ em_dash @ '' already '' @ status_name st])\<rparr>)"

definition fail_from_runtime_error ::
  "kernel_env \<Rightarrow> string \<Rightarrow> string \<Rightarrow> runtime_error \<Rightarrow> kernel_world \<Rightarrow> kernel_result \<times> kernel_world" where
  "fail_from_runtime_error env rid corr e w =
     (case set_status env rid RS_FAILED None (Some (to_error_details e)) w of
        (ok, w1) \<Rightarrow>
          if \<not> ok then (reload_terminal_result rid w1, w1)
          else (plain_result rid RS_FAILED [re_message e], kernel_event env rid corr ''run.failed'' (to_error_details e) w1))"

subsection \<open>Output validation\<close>

text \<open>The text between the first \<open>n\<close> characters and the last three, stripped.\<close>

definition inner_text :: "nat \<Rightarrow> string \<Rightarrow> string" where
  "inner_text n s = py_strip (drop n (take (length s - 3) s))"

definition unfence :: "string \<Rightarrow> string" where
  "unfence s =
     (let t = py_strip s; fence = replicate 3 (CHR 0x60)
      in if py_startswith t (fence @ ''json'') \<and> py_endswith t fence then inner_text 7 t
         else if py_startswith t fence \<and> py_endswith t fence then inner_text 3 t
         else t)"

definition parse_output :: "kernel_env \<Rightarrow> string \<Rightarrow> pyval" where
  "parse_output env raw =
     (let t = unfence raw
      in if (py_startswith t ''{'' \<and> py_endswith t ''}'') \<or> (py_startswith t ''['' \<and> py_endswith t '']'')
         then (case kx_loads env t of None \<Rightarrow> PStr raw | Some v \<Rightarrow> v) else PStr raw)"

text \<open>The result is the parsed output and the messages of the schema, none when it is valid.\<close>

definition validate_output_payload :: "kernel_env \<Rightarrow> string \<Rightarrow> payload option \<Rightarrow> pyval \<times> string list" where
  "validate_output_payload env raw schema =
     (if \<not> truthy_opt schema then (PStr raw, [])
      else
        (let parsed = parse_output env raw
         in (parsed, case kx_schema_error env parsed (or_else schema []) of None \<Rightarrow> [] | Some m \<Rightarrow> [m])))"


subsection \<open>The model and the tools\<close>

text \<open>What stays the same during one call of the loop.\<close>

record kernel_ctx =
  kt_run_id :: string
  kt_run :: run_record
  kt_corr :: string
  kt_model_policy :: payload
  kt_schema :: "payload option"

definition provider_error :: "bool \<Rightarrow> string \<Rightarrow> runtime_error" where
  "provider_error retryable msg =
     \<lparr>re_code = ''MODEL_PROVIDER_ERROR'', re_message = msg, re_retryable = retryable, re_details = []\<rparr>"

definition call_model :: "kernel_env \<Rightarrow> kernel_ctx \<Rightarrow> kernel_message list \<Rightarrow> kernel_world \<Rightarrow> (runtime_error + model_response) \<times> kernel_world" where
  "call_model env c messages w =
     (case kx_client env of
        None \<Rightarrow> (Inl (provider_error False (''ManualToolLoopKernel requires an explicit model_client (e.g. LiteLLMModelClient) '' @ em_dash @
           '' no implicit mock fallback in production. Tests must pass '' @
           ''model_client=agent_testkit.mock_tool_loop_model_client.MockToolLoopModelClient() explicitly.'')), w)
      | Some client \<Rightarrow>
          (let asked = [(''model'', dict_get_or (kt_model_policy c) ''model'' (PStr ''deepseek-chat'')),
                        (''temperature'', dict_get_or (kt_model_policy c) ''temperature'' (PFloat 0))];
               w1 = let_others env (w\<lparr>kw_model_calls := Suc (kw_model_calls w)\<rparr>)
           in case client (kw_tick w) messages asked of
                Client_response r \<Rightarrow> (Inr r, w1)
              | Client_runtime_error e \<Rightarrow> (Inl e, w1)
              | Client_exception m \<Rightarrow> (Inl (provider_error True (''Model provider call failed: '' @ m)), w1)))"

definition invocation_for :: "kernel_ctx \<Rightarrow> string \<Rightarrow> string \<Rightarrow> string option \<Rightarrow> invocation_context" where
  "invocation_for c name call_id checkpoint_ref =
     \<lparr>ic_schema_version = ''1.0.0'', ic_run_id = kt_run_id c, ic_tool_call_id = call_id,
      ic_checkpoint_ref = or_else checkpoint_ref (''ckpt_'' @ kt_run_id c @ ''_'' @ call_id),
      ic_workspace_id = or_else (r_workspace_id (kt_run c)) [], ic_principal = or_else (Some (r_principal (kt_run c))) ''system'',
      ic_conversation_id = r_conversation_id (kt_run c), ic_correlation_id = r_correlation_id (kt_run c),
      ic_policy_snapshot = None, ic_policy_snapshot_ref = None, ic_policy_snapshot_version = None,
      ic_root_spec_identity = Some (r_root_executable_id (kt_run c)), ic_capability_identity = Some name,
      ic_execution_mode = r_execution_mode (kt_run c), ic_delegation_identity = None, ic_metadata = []\<rparr>"

definition incomplete_error :: "string \<Rightarrow> string \<Rightarrow> string \<Rightarrow> string option \<Rightarrow> runtime_error" where
  "incomplete_error name call_id st err =
     \<lparr>re_code = (if st = ''waiting_approval'' then ''APPROVAL_REQUIRED'' else ''CAPABILITY_DENIED''),
      re_message = ''Capability '' @ sq name @ '' did not complete (status='' @ st @ ''): '' @ or_else err [],
      re_retryable = False, re_details = [(''status'', PStr st), (''tool_call_id'', PStr call_id)]\<rparr>"

datatype tool_result = Tool_value pyval | Tool_error runtime_error | Tool_crash string

definition tool_answer :: "string \<Rightarrow> string \<Rightarrow> executor_answer \<Rightarrow> tool_result" where
  "tool_answer name call_id a =
     (case a of
        Exec_value v \<Rightarrow> Tool_value v
      | Exec_gateway st err out \<Rightarrow> if st \<noteq> ''completed'' then Tool_error (incomplete_error name call_id st err) else Tool_value out
      | Exec_runtime_error e \<Rightarrow> Tool_error e
      | Exec_crash m \<Rightarrow> Tool_crash m)"

definition execute_tool ::
  "kernel_env \<Rightarrow> kernel_ctx \<Rightarrow> string \<Rightarrow> string \<Rightarrow> payload \<Rightarrow> string option \<Rightarrow> kernel_world \<Rightarrow> tool_result \<times> kernel_world" where
  "execute_tool env c call_id name args checkpoint_ref w =
     (case kx_executor env of
        None \<Rightarrow>
          (Tool_error \<lparr>re_code = ''CAPABILITY_NOT_READY'',
                       re_message = ''ManualToolLoopKernel requires an explicit capability_executor to execute tool '' @ sq name
                         @ '' '' @ em_dash @ '' no implicit success fallback in production.'',
                       re_retryable = False, re_details = []\<rparr>, w)
      | Some run \<Rightarrow>
          (tool_answer name call_id (run (kw_tick w) name args (invocation_for c name call_id checkpoint_ref)),
           let_others env (w\<lparr>kw_executed := kw_executed w @ [(call_id, name, args)]\<rparr>)))"

text \<open>The arguments of a call: \<open>Inl\<close> for text that is no JSON, or no object.\<close>

definition call_arguments :: "kernel_env \<Rightarrow> kernel_call \<Rightarrow> pyval option" where
  "call_arguments env call = kx_loads env (or_else (Some (kc_arguments call)) ''{}'')"

text \<open>\<open>call.get("id") or f"call_{...}"\<close>: the identifier and the world after the draw.\<close>

definition call_identifier :: "kernel_env \<Rightarrow> kernel_call \<Rightarrow> kernel_world \<Rightarrow> string \<times> kernel_world" where
  "call_identifier env call w =
     (if kc_call_id call \<noteq> [] then (kc_call_id call, w)
      else (''call_'' @ take 8 (kx_uuid env (kw_tick w)), w\<lparr>kw_tick := Suc (kw_tick w)\<rparr>))"

text \<open>One call that may run: started, executed, completed, and its result among the messages.\<close>

datatype 'a loop_step = Step_ok 'a | Step_error runtime_error | Step_raised kernel_exception

definition tool_message :: "kernel_env \<Rightarrow> string \<Rightarrow> pyval \<Rightarrow> kernel_message" where
  "tool_message env call_id v = \<lparr>km_role = ''tool'', km_content = kx_dumps env v, km_tool_call_id = Some call_id\<rparr>"

definition perform_call ::
  "kernel_env \<Rightarrow> kernel_ctx \<Rightarrow> string \<Rightarrow> string \<Rightarrow> payload \<Rightarrow> string option \<Rightarrow> kernel_state \<Rightarrow> kernel_world
     \<Rightarrow> kernel_state loop_step \<times> kernel_world" where
  "perform_call env c call_id name args checkpoint_ref st w =
     (let w1 = kernel_event env (kt_run_id c) (kt_corr c) ''tool.started''
                 [(''tool_call_id'', PStr call_id), (''tool'', PStr name)] w
      in case execute_tool env c call_id name args checkpoint_ref w1 of
           (Tool_error e, w2) \<Rightarrow> (Step_error e, w2)
         | (Tool_crash m, w2) \<Rightarrow> (Step_raised (Executor_failure m), w2)
         | (Tool_value v, w2) \<Rightarrow>
             (Step_ok (st\<lparr>kn_messages := kn_messages st @ [tool_message env call_id v],
                          kn_completed := kn_completed st @ [(call_id, v)]\<rparr>),
              kernel_event env (kt_run_id c) (kt_corr c) ''tool.completed''
                [(''tool_call_id'', PStr call_id), (''output_hash'', PStr (kx_hash env v)),
                 (''output_present'', PBool (v \<noteq> PNone))] w2))"

subsection \<open>Requested calls\<close>

definition call_decision :: "kernel_env \<Rightarrow> string \<Rightarrow> payload \<Rightarrow> payload \<Rightarrow> string" where
  "call_decision env name args ctx =
     (case kx_policy env of
        Some f \<Rightarrow> f name args ctx
      | None \<Rightarrow> if py_contains ''transfer'' name \<or> py_contains ''payout'' name \<or> py_contains ''deploy'' name
                then ''REQUIRE_APPROVAL'' else ''ALLOW'')"

definition pending_tool_call :: "kernel_env \<Rightarrow> string \<Rightarrow> string \<Rightarrow> string \<Rightarrow> payload \<Rightarrow> datetime \<Rightarrow> run_tool_call_record" where
  "pending_tool_call env rid call_id name args now =
     \<lparr>tc_tool_call_id = call_id, tc_run_id = rid, tc_project_id = None, tc_checkpoint_ref = None, tc_capability_id = name,
      tc_payload_hash = kx_hash env (PDict args), tc_input_payload = args, tc_status = ''pending'', tc_idempotency_key = None,
      tc_result_hash = None, tc_output_payload = None, tc_error_message = None, tc_spec_version = None,
      tc_definition_hash = None, tc_policy_snapshot_ref = None, tc_execution_target_snapshot = None,
      tc_governance_state = None, tc_created_at = now, tc_completed_at = None\<rparr>"

definition state_checkpoint :: "string \<Rightarrow> string option \<Rightarrow> kernel_state \<Rightarrow> datetime \<Rightarrow> string \<Rightarrow> run_checkpoint_record" where
  "state_checkpoint rid step_name st now ref =
     \<lparr>ck_checkpoint_ref = ref, ck_run_id = rid, ck_project_id = None, ck_sequence_no = int (kn_step st), ck_step_name = step_name,
      ck_state_kind = ''kernel_run_state'', ck_serialized_state = state_to_dict st, ck_manifest_snapshot = [],
      ck_resume_metadata = [], ck_created_at = now\<rparr>"

definition tool_approval ::
  "kernel_env \<Rightarrow> string \<Rightarrow> string \<Rightarrow> string \<Rightarrow> string \<Rightarrow> string \<Rightarrow> payload \<Rightarrow> datetime \<Rightarrow> run_approval_record" where
  "tool_approval env appr_id rid call_id ref name args now =
     \<lparr>ap_approval_id = appr_id, ap_workspace_id = None, ap_project_id = None, ap_binding_kind = TOOL_CALL, ap_run_id = Some rid,
      ap_tool_call_id = Some call_id, ap_checkpoint_ref = Some ref, ap_status = ''pending'', ap_requirement = [],
      ap_requester = None, ap_action = Some name,
      ap_subject = Some (''Approval requested for tool '' @ name @ '' with params '' @ kx_repr env args),
      ap_subject_kind = None, ap_subject_ref = None, ap_subject_hash = None, ap_reviewer = None, ap_reason = None,
      ap_evidence = None, ap_manifest_hash = None, ap_decision_version = 0, ap_created_at = now, ap_decided_at = None,
      ap_expires_at = None\<rparr>"

definition kernel_wait :: "string \<Rightarrow> string \<Rightarrow> string \<Rightarrow> string \<Rightarrow> datetime \<Rightarrow> wait_descriptor" where
  "kernel_wait wid reason ref appr_id now =
     \<lparr>wd_id = wid, wd_kind = WK_APPROVAL, wd_reason = reason, wd_owner_responder = None, wd_resume_trigger = ''approval.decided'',
      wd_checkpoint_ref = ref, wd_related_ref = Some appr_id, wd_created_at = now, wd_expires_at = None\<rparr>"

text \<open>The steps that pause for one call: checkpoint, approval, wait.\<close>

definition pause_for_approval ::
  "kernel_env \<Rightarrow> kernel_ctx \<Rightarrow> string \<Rightarrow> string \<Rightarrow> payload \<Rightarrow> kernel_state \<Rightarrow> kernel_world \<Rightarrow> wait_descriptor \<times> kernel_world" where
  "pause_for_approval env c call_id name args st w =
     (let rid = kt_run_id c;
          ref = ''ckpt_'' @ rid @ ''_'' @ int_str (int (kn_step st));
          w1 = save_state env (state_checkpoint rid (Some name) st (kx_clock env (kw_tick w)) ref) w;
          w2 = kernel_event env rid (kt_corr c) ''checkpoint.created'' [(''checkpoint_ref'', PStr ref)] w1;
          appr_id = ''appr_'' @ take 12 (kx_uuid env (kw_tick w2));
          w3 = repo_do (OpCreateApproval (tool_approval env appr_id rid call_id ref name args (kx_clock env (kw_tick w2)))) w2;
          w4 = kernel_event env rid (kt_corr c) ''approval.required''
                 [(''approval_id'', PStr appr_id), (''tool_call_id'', PStr call_id), (''action'', PStr name)] w3
      in (kernel_wait (kx_uuid env (kw_tick w4)) (''Action '' @ sq name @ '' requires human approval'') ref appr_id
            (kx_clock env (kw_tick w4)), w4\<lparr>kw_tick := Suc (kw_tick w4)\<rparr>))"

text \<open>One requested call: ledger, policy and, when it is asked for, the pause. The state then lists the call as
  pending.\<close>

definition request_call ::
  "kernel_env \<Rightarrow> kernel_ctx \<Rightarrow> kernel_call \<Rightarrow> kernel_state \<Rightarrow> kernel_world
     \<Rightarrow> (kernel_exception + kernel_state \<times> wait_descriptor list) \<times> kernel_world" where
  "request_call env c call st w =
     (let (call_id, w1) = call_identifier env call w; name = kc_name call in
      case call_arguments env call of
        None \<Rightarrow> (Inl (Json_failure (kc_arguments call)), w1)
      | Some v \<Rightarrow>
          (let w2 = kernel_event env (kt_run_id c) (kt_corr c) ''tool.requested''
                      [(''tool_call_id'', PStr call_id), (''tool'', PStr name), (''args'', v)] w1
           in case v of
                PDict args \<Rightarrow>
                  (let w3 = repo_do (OpSaveToolCall (pending_tool_call env (kt_run_id c) call_id name args (kx_clock env (kw_tick w2)))) w2;
                       decision = call_decision env name args (kn_context st);
                       w4 = kernel_event env (kt_run_id c) (kt_corr c) ''policy.evaluated''
                              [(''tool_call_id'', PStr call_id), (''decision'', PStr decision)] w3
                   in if decision = ''REQUIRE_APPROVAL''
                      then (let st' = st\<lparr>kn_pending := kn_pending st @ [call]\<rparr>;
                                (wait, w5) = pause_for_approval env c call_id name args st' w4
                            in (Inr (st', [wait]), w5))
                      else (Inr (st, []), w4))
              | _ \<Rightarrow> (Inl (Json_failure (kc_arguments call)), w2)))"

fun request_calls ::
  "kernel_env \<Rightarrow> kernel_ctx \<Rightarrow> kernel_call list \<Rightarrow> kernel_state \<Rightarrow> kernel_world
     \<Rightarrow> (kernel_exception + kernel_state \<times> wait_descriptor list) \<times> kernel_world" where
  "request_calls env c [] st w = (Inr (st, []), w)"
| "request_calls env c (call # calls) st w =
     (case request_call env c call st w of
        (Inl e, w1) \<Rightarrow> (Inl e, w1)
      | (Inr (st1, waits), w1) \<Rightarrow>
          (case request_calls env c calls st1 w1 of
             (Inl e, w2) \<Rightarrow> (Inl e, w2)
           | (Inr (st2, waits'), w2) \<Rightarrow> (Inr (st2, waits @ waits'), w2)))"

text \<open>The calls of a turn that needs no approval.\<close>

fun perform_calls ::
  "kernel_env \<Rightarrow> kernel_ctx \<Rightarrow> kernel_call list \<Rightarrow> kernel_state \<Rightarrow> kernel_world \<Rightarrow> kernel_state loop_step \<times> kernel_world" where
  "perform_calls env c [] st w = (Step_ok st, w)"
| "perform_calls env c (call # calls) st w =
     (let (call_id, w1) = call_identifier env call w in
      case call_arguments env call of
        Some (PDict args) \<Rightarrow>
          (case perform_call env c call_id (kc_name call) args None st w1 of
             (Step_ok st1, w2) \<Rightarrow> perform_calls env c calls st1 w2
           | (r, w2) \<Rightarrow> (r, w2))
      | _ \<Rightarrow> (Step_raised (Json_failure (kc_arguments call)), w1))"


subsection \<open>The reasoning loop\<close>

definition wait_dict :: "kernel_env \<Rightarrow> wait_descriptor \<Rightarrow> pyval" where
  "wait_dict env d =
     PDict [(''id'', PStr (wd_id d)), (''kind'', PStr ''approval''), (''reason'', PStr (wd_reason d)),
            (''owner_responder'', opt_val (wd_owner_responder d)), (''resume_trigger'', PStr (wd_resume_trigger d)),
            (''checkpoint_ref'', PStr (wd_checkpoint_ref d)), (''related_ref'', opt_val (wd_related_ref d)),
            (''created_at'', PStr (kx_iso env (wd_created_at d))),
            (''expires_at'', opt_val (map_option (kx_iso env) (wd_expires_at d)))]"

definition finish_waiting ::
  "kernel_env \<Rightarrow> string \<Rightarrow> string \<Rightarrow> wait_descriptor list \<Rightarrow> kernel_world \<Rightarrow> kernel_result \<times> kernel_world" where
  "finish_waiting env rid corr waits w =
     (case set_status env rid RS_WAITING_APPROVAL None None w of
        (ok, w1) \<Rightarrow>
          if \<not> ok then (reload_terminal_result rid w1, w1)
          else (plain_result rid RS_WAITING_APPROVAL []\<lparr>kr_waits := waits\<rparr>,
                kernel_event env rid corr ''run.waiting'' [(''waits'', PList (map (wait_dict env) waits))] w1))"

definition fail_validation ::
  "kernel_env \<Rightarrow> kernel_ctx \<Rightarrow> string \<Rightarrow> string list \<Rightarrow> kernel_world \<Rightarrow> kernel_result \<times> kernel_world" where
  "fail_validation env c raw errs w =
     (let rid = kt_run_id c; errs_val = PList (map PStr errs) in
      case set_status env rid RS_FAILED None (Some [(''validation_errors'', errs_val)]) w of
        (ok, w1) \<Rightarrow>
          if \<not> ok then (reload_terminal_result rid w1, w1)
          else (plain_result rid RS_FAILED (map (\<lambda>e. ''Output validation failed: '' @ e) errs)
                  \<lparr>kr_final_output := Some (PDict [(''is_valid'', PBool False), (''errors'', errs_val), (''raw_output'', PStr raw)])\<rparr>,
                kernel_event env rid (kt_corr c) ''run.failed''
                  [(''error_type'', PStr ''OutputValidationError''), (''error_hash'', PStr (kx_hash env errs_val)),
                   (''error_count'', PInt (int (length errs)))] w1))"

definition complete_run :: "kernel_env \<Rightarrow> kernel_ctx \<Rightarrow> pyval \<Rightarrow> payload \<Rightarrow> kernel_world \<Rightarrow> kernel_result \<times> kernel_world" where
  "complete_run env c out usage w =
     (let rid = kt_run_id c in
      case set_status env rid RS_COMPLETED (Some out) None w of
        (ok, w1) \<Rightarrow>
          if \<not> ok then (reload_terminal_result rid w1, w1)
          else (plain_result rid RS_COMPLETED []\<lparr>kr_final_output := Some out, kr_usage := usage\<rparr>,
                kernel_event env rid (kt_corr c) ''run.completed''
                  [(''final_output_hash'', PStr (kx_hash env out)), (''final_output_present'', PBool (out \<noteq> PNone))] w1))"

definition finish_run :: "kernel_env \<Rightarrow> kernel_ctx \<Rightarrow> model_response \<Rightarrow> kernel_world \<Rightarrow> kernel_result \<times> kernel_world" where
  "finish_run env c resp w =
     (let (out, errs) = validate_output_payload env (mo_content resp) (kt_schema c)
      in if errs \<noteq> [] then fail_validation env c (mo_content resp) errs w
         else complete_run env c out (mo_usage resp) w)"

text \<open>One turn: it ends the run or continues with the next state.\<close>

datatype turn_result = Turn_done kernel_result | Turn_next kernel_state | Turn_error runtime_error | Turn_raised kernel_exception

definition take_content :: "kernel_env \<Rightarrow> kernel_ctx \<Rightarrow> string \<Rightarrow> kernel_state \<Rightarrow> kernel_world \<Rightarrow> kernel_state \<times> kernel_world" where
  "take_content env c content st w =
     (if content = [] then (st, w)
      else (st\<lparr>kn_messages := kn_messages st @ [\<lparr>km_role = ''assistant'', km_content = content, km_tool_call_id = None\<rparr>]\<rparr>,
            kernel_event env (kt_run_id c) (kt_corr c) ''message.delta''
              [(''content'', PStr content), (''role'', PStr ''assistant'')] w))"

definition handle_calls ::
  "kernel_env \<Rightarrow> kernel_ctx \<Rightarrow> kernel_call list \<Rightarrow> kernel_state \<Rightarrow> kernel_world \<Rightarrow> turn_result \<times> kernel_world" where
  "handle_calls env c calls st w =
     (case request_calls env c calls st w of
        (Inl e, w1) \<Rightarrow> (Turn_raised e, w1)
      | (Inr (st1, waits), w1) \<Rightarrow>
          if waits \<noteq> []
          then (let (r, w2) = finish_waiting env (kt_run_id c) (kt_corr c) waits w1 in (Turn_done r, w2))
          else
            (case perform_calls env c calls st1 w1 of
               (Step_ok st2, w2) \<Rightarrow> (Turn_next st2, w2)
             | (Step_error e, w2) \<Rightarrow> (Turn_error e, w2)
             | (Step_raised x, w2) \<Rightarrow> (Turn_raised x, w2)))"

definition run_turn :: "kernel_env \<Rightarrow> kernel_ctx \<Rightarrow> kernel_state \<Rightarrow> kernel_world \<Rightarrow> turn_result \<times> kernel_world" where
  "run_turn env c st w =
     (if kt_run_id c \<in> set (kw_cancelled w) then (Turn_done (plain_result (kt_run_id c) RS_CANCELLED []), w)
      else
        (let st1 = st\<lparr>kn_step := Suc (kn_step st)\<rparr> in
         case call_model env c (kn_messages st1) w of
           (Inl e, w1) \<Rightarrow> (Turn_error e, w1)
         | (Inr resp, w1) \<Rightarrow>
             (let (st2, w2) = take_content env c (mo_content resp) st1 w1 in
              if mo_tool_calls resp = []
              then (let (r, w3) = finish_run env c resp w2 in (Turn_done r, w3))
              else handle_calls env c (mo_tool_calls resp) st2 w2)))"

definition out_of_turns :: "kernel_env \<Rightarrow> string \<Rightarrow> kernel_world \<Rightarrow> kernel_result \<times> kernel_world" where
  "out_of_turns env rid w =
     (case set_status env rid RS_FAILED None (Some [(''error'', PStr ''Max reasoning turns reached'')]) w of
        (ok, w1) \<Rightarrow>
          if \<not> ok then (reload_terminal_result rid w1, w1)
          else (plain_result rid RS_FAILED [''Max reasoning turns reached''], w1))"

text \<open>A turn that goes on has counted itself. The loop below tests \<open>step_index\<close> against \<open>max_turns\<close>, as the code
  does, and this lemma is why it ends.\<close>

lemma request_calls_step: "request_calls env c calls st w = (Inr (st', ws), u) \<Longrightarrow> kn_step st' = kn_step st"
proof (induction calls arbitrary: st w ws)
  case (Cons call calls)
  have one: "kn_step st1 = kn_step st" if "request_call env c call st w = (Inr (st1, ds), x)" for st1 ds x
    using that by (auto simp: request_call_def Let_def split: prod.splits option.splits pyval.splits if_splits)
  from Cons.prems Cons.IH one show ?case by (fastforce split: prod.splits sum.splits)
qed simp

lemma perform_calls_step: "perform_calls env c calls st w = (Step_ok st', u) \<Longrightarrow> kn_step st' = kn_step st"
proof (induction calls arbitrary: st w)
  case (Cons call calls)
  have one: "kn_step st1 = kn_step st" if "perform_call env c i name args ref st v = (Step_ok st1, x)" for i name args ref v st1 x
    using that by (auto simp: perform_call_def Let_def split: prod.splits tool_result.splits)
  from Cons.prems Cons.IH one show ?case
    by (fastforce simp: Let_def split: prod.splits option.splits pyval.splits loop_step.splits)
qed simp

lemma turn_advances:
  assumes "run_turn env c st w = (Turn_next st', u)"
  shows "kn_step st' = Suc (kn_step st)"
proof -
  have "kn_step st2 = kn_step st1" if "take_content env c t st1 v = (st2, x)" for t st1 st2 v x
    using that by (auto simp: take_content_def split: if_splits)
  with assms show ?thesis
    by (fastforce simp: run_turn_def handle_calls_def Let_def dest: request_calls_step perform_calls_step
        split: if_splits prod.splits sum.splits loop_step.splits)
qed

function execute_reasoning_loop :: "kernel_env \<Rightarrow> kernel_ctx \<Rightarrow> kernel_state \<Rightarrow> kernel_world \<Rightarrow> kernel_outcome \<times> kernel_world" where
  "execute_reasoning_loop env c st w =
     (if kn_step st < 10 then
        (case run_turn env c st w of
           (Turn_done r, w1) \<Rightarrow> (Kernel_returned r, w1)
         | (Turn_next st1, w1) \<Rightarrow> execute_reasoning_loop env c st1 w1
         | (Turn_error e, w1) \<Rightarrow>
             (let (r, w2) = fail_from_runtime_error env (kt_run_id c) (kt_corr c) e w1 in (Kernel_returned r, w2))
         | (Turn_raised x, w1) \<Rightarrow> (Kernel_raised x, w1))
      else (let (r, w1) = out_of_turns env (kt_run_id c) w in (Kernel_returned r, w1)))"
  by pat_completeness auto
termination
  by (relation "measure (\<lambda>(env, c, st, w). 10 - kn_step st)") (auto dest: turn_advances [OF sym])

declare execute_reasoning_loop.simps [simp del]

subsection \<open>Run\<close>

record run_request =
  rq_run_id :: "string option"
  rq_principal :: string
  rq_workspace_id :: "string option"
  rq_conversation_id :: "string option"
  rq_session_ref :: "string option"
  rq_input :: payload
  rq_execution_mode :: execution_mode
  rq_model_policy :: payload
  rq_locale :: string
  rq_correlation_id :: "string option"
  rq_idempotency_key :: "string option"
  rq_metadata :: payload

text \<open>The history entries with a known role and a truthy content; \<open>str\<close> of the content.\<close>

definition history_message :: "(pyval \<Rightarrow> string) \<Rightarrow> pyval \<Rightarrow> kernel_message option" where
  "history_message str h =
     (case h of
        PDict d \<Rightarrow>
          (let r = dict_get_or d ''role'' PNone; x = dict_get_or d ''content'' PNone
           in if (r = PStr ''user'' \<or> r = PStr ''assistant'') \<and> truthy x
              then Some \<lparr>km_role = str r, km_content = str x, km_tool_call_id = None\<rparr> else None)
      | _ \<Rightarrow> None)"

definition history_messages :: "(pyval \<Rightarrow> string) \<Rightarrow> payload \<Rightarrow> kernel_message list" where
  "history_messages str input =
     (case dict_get input ''history'' of Some (PList hs) \<Rightarrow> List.map_filter (history_message str) hs | _ \<Rightarrow> [])"

definition user_message :: "kernel_env \<Rightarrow> payload \<Rightarrow> kernel_message list" where
  "user_message env input =
     (if input = [] then []
      else
        (let content = py_or (py_or (ctx_get input ''prompt'') (ctx_get input ''message'')) (PStr (kx_dumps env (PDict input)))
         in [\<lparr>km_role = ''user'', km_content = kx_str env content, km_tool_call_id = None\<rparr>]))"

text \<open>The prompt: small talk is answered without the instructions of the agent and of its skills.\<close>

definition skill_texts :: "payload list \<Rightarrow> string list" where
  "skill_texts skills =
     List.map_filter (\<lambda>c. case dict_get c ''instructions'' of Some (PStr t) \<Rightarrow> if t = [] then None else Some t | _ \<Rightarrow> None) skills"

definition kernel_bundle :: "kernel_env \<Rightarrow> run_request \<Rightarrow> agent_spec \<Rightarrow> payload list \<Rightarrow> prompt_bundle" where
  "kernel_bundle env req spec skills =
     (let smalltalk = is_smalltalk (kx_texts env) (rq_input req); md = rq_metadata req
      in \<lparr>pu_agent_instructions = (if smalltalk then [] else ag_instructions spec),
          pu_skill_instructions = (if smalltalk then [] else skill_texts skills),
          pu_session = build_session_context (kx_str env) (rq_workspace_id req) md,
          pu_facts = (case dict_get md ''project_facts'' of
                        Some (PList fs) \<Rightarrow> map (kx_str env) (filter truthy fs) | _ \<Rightarrow> []),
          pu_goal = goal_context_lines (kx_str env) (dict_get md ''goal_ancestry''),
          pu_criteria = done_criteria_lines (kx_str env) (kx_js_number env) (dict_get md ''done_criteria''),
          pu_locale = rq_locale req\<rparr>)"

definition system_message :: "kernel_env \<Rightarrow> run_request \<Rightarrow> agent_spec \<Rightarrow> payload list \<Rightarrow> kernel_message" where
  "system_message env req spec skills =
     \<lparr>km_role = ''system'', km_content = render_prompt (kx_texts env) (kernel_bundle env req spec skills), km_tool_call_id = None\<rparr>"

definition new_run_record :: "run_request \<Rightarrow> agent_spec \<Rightarrow> string \<Rightarrow> string \<Rightarrow> string \<Rightarrow> datetime \<Rightarrow> run_record" where
  "new_run_record req spec rid corr h now =
     \<lparr>r_run_id = rid, r_workspace_id = rq_workspace_id req, r_project_id = None, r_conversation_id = rq_conversation_id req,
      r_session_ref = rq_session_ref req, r_principal = rq_principal req, r_root_executable_id = ag_id spec,
      r_root_executable_kind = ''agent'', r_root_executable_version = ag_version spec, r_root_definition_hash = Some h,
      r_policy_snapshot_ref = as_text (dict_get (rq_metadata req) ''policy_snapshot_ref''), r_status = RS_RUNNING,
      r_execution_mode = rq_execution_mode req, r_correlation_id = Some corr, r_idempotency_key = rq_idempotency_key req,
      r_input_payload = rq_input req,
      r_model_policy = (if rq_model_policy req \<noteq> [] then rq_model_policy req else ag_model_policy spec),
      r_final_output = None, r_usage = [], r_error_details = None, r_created_at = now, r_updated_at = now,
      r_completed_at = None, r_workforce_attribution = None\<rparr>"

text \<open>The specification is published before the run exists, its skills are resolved next; a failure of either
  raises and leaves no run.\<close>

definition kernel_run ::
  "kernel_env \<Rightarrow> run_request \<Rightarrow> agent_spec \<Rightarrow> kernel_world \<Rightarrow> kernel_outcome \<times> kernel_world" where
  "kernel_run env req spec w =
     (let rid = or_else (rq_run_id req) (''run_'' @ take 16 (kx_uuid env (kw_tick w)));
          corr = or_else (rq_correlation_id req) rid;
          h = agent_pinned_hash (kx_spec env) spec;
          w0 = w\<lparr>kw_tick := Suc (kw_tick w)\<rparr>
      in case publish_agent_spec (kx_spec env) (spec\<lparr>ag_hash := Some h\<rparr>) (Some (rq_principal req)) (kx_clock env (kw_tick w0)) (kw_registry w0) of
           (Inl e, reg) \<Rightarrow> (Kernel_raised (Spec_failure e), w0\<lparr>kw_registry := reg\<rparr>)
         | (Inr p, reg) \<Rightarrow>
             (case resolve_skills (ag_pinned_skills spec) reg of
                Inl e \<Rightarrow> (Kernel_raised (Spec_failure e), w0\<lparr>kw_registry := reg\<rparr>)
              | Inr skills \<Rightarrow>
                  (let record = new_run_record req spec rid corr h (kx_clock env (kw_tick w0));
                       w1 = repo_do (OpCreateRun record) (w0\<lparr>kw_registry := reg\<rparr>);
                       w2 = kernel_event env rid corr ''run.started''
                              [(''principal'', PStr (rq_principal req)), (''spec_id'', PStr (ag_id spec))] w1;
                       st = \<lparr>kn_run_id = rid,
                             kn_messages = system_message env req spec skills
                               # history_messages (kx_str env) (rq_input req) @ user_message env (rq_input req),
                             kn_pending = [], kn_completed = [], kn_context = rq_metadata req, kn_step = 0\<rparr>
                   in execute_reasoning_loop env
                        \<lparr>kt_run_id = rid, kt_run = record, kt_corr = corr, kt_model_policy = ag_model_policy spec,
                         kt_schema = ag_output_schema spec\<rparr> st w2)))"

subsection \<open>Resume, cancel, stream\<close>

text \<open>The decisions of an update: an entry counts by its key.\<close>

definition approved_ids :: "payload \<Rightarrow> string list" where
  "approved_ids updates =
     (case dict_get updates ''approved_tool_calls'' of
        Some (PDict d) \<Rightarrow> dict_keys d
      | Some (PList xs) \<Rightarrow> List.map_filter (\<lambda>x. as_text (Some x)) xs
      | _ \<Rightarrow> [])"

fun resume_calls ::
  "kernel_env \<Rightarrow> kernel_ctx \<Rightarrow> string \<Rightarrow> string list \<Rightarrow> kernel_call list \<Rightarrow> kernel_state \<Rightarrow> kernel_world
     \<Rightarrow> (kernel_state \<times> kernel_call list) loop_step \<times> kernel_world" where
  "resume_calls env c ref approved [] st w = (Step_ok (st, []), w)"
| "resume_calls env c ref approved (call # calls) st w =
     (if kc_call_id call \<in> set approved then
        (case call_arguments env call of
           Some (PDict args) \<Rightarrow>
             (case perform_call env c (kc_call_id call) (kc_name call) args (Some ref) st w of
                (Step_ok st1, w1) \<Rightarrow> resume_calls env c ref approved calls st1 w1
              | (Step_error e, w1) \<Rightarrow> (Step_error e, w1)
              | (Step_raised x, w1) \<Rightarrow> (Step_raised x, w1))
         | _ \<Rightarrow> (Step_raised (Json_failure (kc_arguments call)), w))
      else
        (case resume_calls env c ref approved calls st w of
           (Step_ok (st1, rest), w1) \<Rightarrow> (Step_ok (st1, call # rest), w1)
         | r \<Rightarrow> r))"

text \<open>The waits for the calls still open; an approval is looked up under a name built from the call.\<close>

fun renewed_waits :: "kernel_env \<Rightarrow> string \<Rightarrow> string \<Rightarrow> kernel_call list \<Rightarrow> kernel_world \<Rightarrow> wait_descriptor list \<times> kernel_world" where
  "renewed_waits env rid ref [] w = ([], w)"
| "renewed_waits env rid ref (call # calls) w =
     (let name = ''appr_'' @ rid @ ''_'' @ kc_call_id call;
          appr_id = (case get_approval name (kw_repo w) of None \<Rightarrow> name | Some a \<Rightarrow> ap_approval_id a);
          d = kernel_wait (kx_uuid env (kw_tick w)) (''Action '' @ sq (kc_name call) @ '' still awaiting a separate approval'') ref appr_id
                (kx_clock env (kw_tick w));
          (ds, w1) = renewed_waits env rid ref calls (w\<lparr>kw_tick := Suc (kw_tick w)\<rparr>)
      in (d # ds, w1))"

definition wait_again ::
  "kernel_env \<Rightarrow> string \<Rightarrow> string \<Rightarrow> kernel_state \<Rightarrow> kernel_world \<Rightarrow> kernel_result \<times> kernel_world" where
  "wait_again env rid corr st w =
     (let ref = ''ckpt_'' @ rid @ ''_'' @ take 8 (kx_uuid env (kw_tick w));
          w1 = save_state env (state_checkpoint rid None st (kx_clock env (kw_tick w)) ref) w
      in case set_status env rid RS_WAITING_APPROVAL None None w1 of
           (ok, w2) \<Rightarrow>
             if \<not> ok then (reload_terminal_result rid w2, w2)
             else (let (waits, w3) = renewed_waits env rid ref (kn_pending st) w2
                   in (plain_result rid RS_WAITING_APPROVAL []\<lparr>kr_waits := waits\<rparr>,
                       kernel_event env rid corr ''run.waiting'' [(''waits'', PList (map (wait_dict env) waits))] w3)))"

definition resume_state ::
  "kernel_env \<Rightarrow> kernel_ctx \<Rightarrow> string \<Rightarrow> payload \<Rightarrow> kernel_state \<Rightarrow> kernel_world \<Rightarrow> kernel_outcome \<times> kernel_world" where
  "resume_state env c ref updates st w =
     (let st0 = st\<lparr>kn_context := dict_update (kn_context st) updates\<rparr> in
      case resume_calls env c ref (approved_ids updates) (kn_pending st0) st0 w of
        (Step_error e, w1) \<Rightarrow>
          (let (r, w2) = fail_from_runtime_error env (kt_run_id c) (kt_corr c) e w1 in (Kernel_returned r, w2))
      | (Step_raised x, w1) \<Rightarrow> (Kernel_raised x, w1)
      | (Step_ok (st1, rest), w1) \<Rightarrow>
          (let st2 = st1\<lparr>kn_pending := rest\<rparr> in
           if rest \<noteq> []
           then (let (r, w2) = wait_again env (kt_run_id c) (kt_corr c) st2 w1 in (Kernel_returned r, w2))
           else execute_reasoning_loop env c st2 w1))"

text \<open>The specification of a resumed run carries only identifier and version: no model policy, no output
  schema.\<close>

definition kernel_resume :: "kernel_env \<Rightarrow> string \<Rightarrow> string \<Rightarrow> payload \<Rightarrow> kernel_world \<Rightarrow> kernel_outcome \<times> kernel_world" where
  "kernel_resume env rid ref updates w =
     (case get_run rid (kw_repo w) of
        None \<Rightarrow> (Kernel_returned (plain_result rid RS_FAILED [''Run '' @ rid @ '' not found'']), w)
      | Some r \<Rightarrow>
          (case get_checkpoint ref (kw_repo w) of
             None \<Rightarrow> (Kernel_returned (plain_result rid RS_FAILED [''Checkpoint '' @ ref @ '' not found'']), w)
           | Some ck \<Rightarrow>
               (let corr = or_else (r_correlation_id r) rid;
                    w1 = kernel_event env rid corr ''run.resumed'' [(''checkpoint_ref'', PStr ref), (''updates'', PDict updates)] w
                in case state_from_dict (ck_serialized_state ck) of
                     None \<Rightarrow> (Kernel_raised Checkpoint_failure, w1)
                   | Some st \<Rightarrow>
                       resume_state env
                         \<lparr>kt_run_id = rid, kt_run = r, kt_corr = corr, kt_model_policy = [], kt_schema = None\<rparr> ref updates st w1)))"

definition kernel_cancel :: "kernel_env \<Rightarrow> string \<Rightarrow> string option \<Rightarrow> kernel_world \<Rightarrow> bool \<times> kernel_world" where
  "kernel_cancel env rid reason w =
     (let w0 = w\<lparr>kw_cancelled := rid # kw_cancelled w\<rparr> in
      case get_run rid (kw_repo w0) of
        None \<Rightarrow> (False, w0)
      | Some r \<Rightarrow>
          (let now = kx_clock env (kw_tick w0);
               done_run = snd (cancel_run now now rid (or_else reason ''Cancelled by user'') (kw_repo w0));
               w1 = repo_do (OpCancel now now rid (or_else reason ''Cancelled by user'')) w0
           in if map_option r_status done_run \<noteq> Some RS_CANCELLED then (False, w1)
              else (True, repo_do (OpAppendEvent
                     \<lparr>ev_event_id = ''evt_'' @ take 16 (kx_uuid env (kw_tick w1)), ev_run_id = rid, ev_project_id = None,
                      ev_sequence_no = None, ev_event_type = ''run.failed'',
                      ev_payload = [(''status'', PStr ''cancelled''), (''reason'', opt_val reason)],
                      ev_correlation_id = r_correlation_id r, ev_created_at = kx_clock env (kw_tick w1)\<rparr>) w1)))"

definition kernel_stream ::
  "kernel_env \<Rightarrow> run_request \<Rightarrow> agent_spec \<Rightarrow> kernel_world \<Rightarrow> kernel_outcome \<times> run_event_record list \<times> kernel_world" where
  "kernel_stream env req spec w =
     (case kernel_run env req spec w of
        (Kernel_raised x, w1) \<Rightarrow> (Kernel_raised x, [], w1)
      | (Kernel_returned r, w1) \<Rightarrow> (Kernel_returned r, list_events (kr_run_id r) None (kw_repo w1), w1))"

end
