(* ===== verification/KernelProps.thy ===== *)
theory KernelProps
  imports Kernel
begin

text \<open>
  What the execution kernel guarantees. Everything it does is a sequence of \<open>kernel_acts\<close>: writes to the
  repository of the few kinds it uses, acts of others while it waits, calls of the model, and calls of the
  executor, each of them \<open>ok\<close>. The properties follow by rule induction on this relation.
\<close>

subsection \<open>Acts\<close>

fun kernel_op :: "run_op \<Rightarrow> bool" where
  "kernel_op (OpAppendEvent e) \<longleftrightarrow> True"
| "kernel_op (OpSaveCheckpoint c) \<longleftrightarrow> True"
| "kernel_op (OpSaveToolCall c) \<longleftrightarrow> True"
| "kernel_op (OpCreateApproval a) \<longleftrightarrow> True"
| "kernel_op (OpTransition now now' rid from_statuses st out err) \<longleftrightarrow> from_statuses = active_run_statuses"
| "kernel_op _ \<longleftrightarrow> False"

type_synonym executed_call = "string \<times> string \<times> payload"

text \<open>\<open>kernel_acts env ok w n v\<close>: from \<open>w\<close> the kernel has come to \<open>v\<close> with at most \<open>n\<close> calls of the model.\<close>

inductive kernel_acts :: "kernel_env \<Rightarrow> (executed_call \<Rightarrow> bool) \<Rightarrow> kernel_world \<Rightarrow> nat \<Rightarrow> kernel_world \<Rightarrow> bool"
  for env ok w where
  acts_start: "kernel_acts env ok w n w"
| acts_repo: "kernel_acts env ok w n v \<Longrightarrow> kernel_op op \<Longrightarrow> kernel_acts env ok w n (repo_do op v)"
| acts_others: "kernel_acts env ok w n v \<Longrightarrow> kernel_acts env ok w n (let_others env v)"
| acts_draw: "kernel_acts env ok w n v \<Longrightarrow> kernel_acts env ok w n (v\<lparr>kw_tick := k\<rparr>)"
| acts_exec: "kernel_acts env ok w n v \<Longrightarrow> ok x \<Longrightarrow> kernel_acts env ok w n (v\<lparr>kw_executed := kw_executed v @ [x]\<rparr>)"
| acts_ask: "kernel_acts env ok w n v \<Longrightarrow> kernel_acts env ok w (Suc n) (v\<lparr>kw_model_calls := Suc (kw_model_calls v)\<rparr>)"

lemma acts_more: "kernel_acts env ok w n v \<Longrightarrow> n \<le> m \<Longrightarrow> kernel_acts env ok w m v"
proof (induction arbitrary: m rule: kernel_acts.induct)
  case (acts_ask n v)
  then obtain k where "m = Suc k" "n \<le> k" by (cases m) auto
  with acts_ask.IH show ?case by (auto intro: kernel_acts.acts_ask)
qed (auto intro: kernel_acts.intros)

lemma acts_model_calls: "kernel_acts env ok w n v \<Longrightarrow> kw_model_calls v \<le> kw_model_calls w + n"
  by (induction rule: kernel_acts.induct) (auto simp: repo_do_def let_others_def)

lemma acts_executed: "kernel_acts env ok w n v \<Longrightarrow> \<exists>xs. kw_executed v = kw_executed w @ xs \<and> list_all ok xs"
proof (induction rule: kernel_acts.induct)
  case (acts_exec n v x)
  then obtain xs where "kw_executed v = kw_executed w @ xs" "list_all ok xs" by blast
  with acts_exec.hyps show ?case by (intro exI [of _ "xs @ [x]"]) simp
qed (simp_all add: repo_do_def let_others_def)

text \<open>How a run has ended: status and output. (Cancelling a cancelled run again replaces its reason.)\<close>

definition ended_as :: "string \<Rightarrow> run_record \<Rightarrow> run_repo \<Rightarrow> bool" where
  "ended_as rid x s \<longleftrightarrow>
     (case dict_get (runs s) rid of
        None \<Rightarrow> False
      | Some y \<Rightarrow> r_status y = r_status x \<and> r_final_output y = r_final_output x)"

definition outcome_le :: "string \<Rightarrow> run_repo \<Rightarrow> run_repo \<Rightarrow> bool" where
  "outcome_le rid s t \<longleftrightarrow> (\<forall>x. dict_get (runs s) rid = Some x \<and> run_terminal (r_status x) \<longrightarrow> ended_as rid x t)"

lemma set_run_status_output: "r_final_output (set_run_status now now' st None err x) = r_final_output x"
  by (simp add: set_run_status_def Let_def split: option.split)

lemma ended_trans: "ended_as rid x s \<Longrightarrow> dict_get (runs s) rid = Some y \<Longrightarrow> ended_as rid y t \<Longrightarrow> ended_as rid x t"
  by (auto simp: ended_as_def split: option.splits)

lemma outcome_le_trans:
  assumes "outcome_le rid s t" "outcome_le rid t u" shows "outcome_le rid s u"
  unfolding outcome_le_def
proof (intro allI impI)
  fix x assume x: "dict_get (runs s) rid = Some x \<and> run_terminal (r_status x)"
  with assms(1) have e: "ended_as rid x t" by (simp add: outcome_le_def)
  then obtain y where y: "dict_get (runs t) rid = Some y" "r_status y = r_status x" by (auto simp: ended_as_def split: option.splits)
  with assms(2) x have "ended_as rid y u" by (simp add: outcome_le_def)
  with e y(1) show "ended_as rid x u" by (rule ended_trans)
qed

lemma outcome_le_step: "cas_only rid op \<Longrightarrow> outcome_le rid s (repo_step op s)"
  by (cases op) (auto simp: outcome_le_def ended_as_def step_runs attach_workforce_attribution_def update_run_status_def
      transition_run_status_def cancellable_def run_terminal_def list_all_iff set_run_status_output Let_def
      simp del: repo_step.simps split: option.split)

interpretation ended: monotone_machine repo_step "\<lambda>op s. cas_only rid op" "\<lambda>s. True" "outcome_le rid" for rid
proof unfold_locales
  show "outcome_le rid s s" for s by (simp add: outcome_le_def ended_as_def)
  show "outcome_le rid s t \<Longrightarrow> outcome_le rid t u \<Longrightarrow> outcome_le rid s u" for s t u by (rule outcome_le_trans)
qed (simp_all add: outcome_le_step del: repo_step.simps)

lemma acts_ended:
  assumes "\<And>t. list_all (cas_only rid) (kx_others env t)"
  shows "kernel_acts env ok w n v \<Longrightarrow> outcome_le rid (kw_repo w) (kw_repo v)"
proof (induction rule: kernel_acts.induct)
  case (acts_repo n v op)
  then have "cas_only rid op" by (cases op) (auto simp: active_run_statuses_def run_terminal_def)
  then have "outcome_le rid (kw_repo v) (kw_repo (repo_do op v))" unfolding repo_do_def by (simp add: outcome_le_step del: repo_step.simps)
  with acts_repo.IH show ?case by (rule ended.le_trans)
next
  case (acts_others n v)
  have "outcome_le rid (kw_repo v) (fold repo_step (kx_others env (kw_tick v)) (kw_repo v))"
    by (rule ended.run_le) (simp_all add: admissible_stateless assms)
  then have "outcome_le rid (kw_repo v) (kw_repo (let_others env v))" by (simp add: let_others_def)
  with acts_others.IH show ?case by (rule ended.le_trans)
qed (auto simp: outcome_le_def ended_as_def)

subsection \<open>The kernel's functions act\<close>

named_theorems kernel_act_intros \<open>one rule per function of the kernel\<close>

lemma act_event [kernel_act_intros]:
  "kernel_acts env ok w n v \<Longrightarrow> kernel_acts env ok w n (kernel_event env rid corr et pl v)"
  by (simp add: kernel_event_def acts_repo)

lemma act_status:
  "kernel_acts env ok w n v \<Longrightarrow> set_status env rid st out err v = (b, u) \<Longrightarrow> kernel_acts env ok w n u"
  by (auto simp: set_status_def intro: acts_repo)

lemma act_fail [kernel_act_intros]:
  "kernel_acts env ok w n v \<Longrightarrow> kernel_acts env ok w n (snd (fail_from_runtime_error env rid corr e v))"
  by (auto simp: fail_from_runtime_error_def split: prod.split intro: act_status kernel_act_intros)

lemma act_finish [kernel_act_intros]:
  assumes "kernel_acts env ok w n v"
  shows "kernel_acts env ok w n (snd (finish_waiting env rid corr ws v))"
    and "kernel_acts env ok w n (snd (fail_validation env c raw errs v))"
    and "kernel_acts env ok w n (snd (complete_run env c out usage v))"
    and "kernel_acts env ok w n (snd (out_of_turns env rid v))"
  using assms
  by (auto simp: finish_waiting_def fail_validation_def complete_run_def out_of_turns_def Let_def
      split: prod.split intro: act_status kernel_act_intros)

lemma act_finish_run [kernel_act_intros]:
  "kernel_acts env ok w n v \<Longrightarrow> kernel_acts env ok w n (snd (finish_run env c resp v))"
  by (auto simp: finish_run_def Let_def split: prod.split intro: kernel_act_intros)

lemma act_model:
  "kernel_acts env ok w n v \<Longrightarrow> call_model env c ms v = (r, u) \<Longrightarrow> kernel_acts env ok w (Suc n) u"
  by (auto simp: call_model_def Let_def intro: acts_more acts_others acts_ask split: option.splits client_answer.splits)

lemma act_content:
  "kernel_acts env ok w n v \<Longrightarrow> take_content env c t st v = (st', u) \<Longrightarrow> kernel_acts env ok w n u"
  by (auto simp: take_content_def intro: kernel_act_intros split: if_splits)

lemma act_identifier:
  "kernel_acts env ok w n v \<Longrightarrow> call_identifier env call v = (i, u) \<Longrightarrow> kernel_acts env ok w n u"
  by (auto simp: call_identifier_def intro: acts_draw split: if_splits)

lemma act_tool:
  assumes "kernel_acts env ok w n v" "ok (call_id, name, args)" "execute_tool env c call_id name args ref v = (r, u)"
  shows "kernel_acts env ok w n u"
proof (cases "kx_executor env")
  case None with assms show ?thesis by (simp add: execute_tool_def)
next
  case (Some run)
  with assms acts_others [OF acts_exec [OF assms(1,2)]] show ?thesis by (simp add: execute_tool_def)
qed

lemma act_perform:
  assumes "kernel_acts env ok w n v" "ok (call_id, name, args)" "perform_call env c call_id name args ref st v = (r, u)"
  shows "kernel_acts env ok w n u"
proof -
  let ?v = "kernel_event env (kt_run_id c) (kt_corr c) ''tool.started'' [(''tool_call_id'', PStr call_id), (''tool'', PStr name)] v"
  obtain a x where x: "execute_tool env c call_id name args ref ?v = (a, x)" by (cases "execute_tool env c call_id name args ref ?v")
  from act_tool [OF act_event [OF assms(1)] assms(2) x] have "kernel_acts env ok w n x" .
  with assms(3) x show ?thesis by (auto simp: perform_call_def Let_def intro: kernel_act_intros split: tool_result.splits)
qed

lemma act_save [kernel_act_intros]: "kernel_acts env ok w n v \<Longrightarrow> kernel_acts env ok w n (save_state env ck v)"
  by (simp add: save_state_def acts_repo acts_draw)

lemma act_pause:
  "kernel_acts env ok w n v \<Longrightarrow> pause_for_approval env c i name args st v = (d, u) \<Longrightarrow> kernel_acts env ok w n u"
  by (auto simp: pause_for_approval_def Let_def intro!: acts_draw kernel_act_intros acts_repo)

lemma act_request:
  assumes "kernel_acts env ok w n v" "request_call env c call st v = (r, u)"
  shows "kernel_acts env ok w n u"
proof -
  obtain i x where x: "call_identifier env call v = (i, x)" by (cases "call_identifier env call v")
  note a = act_identifier [OF assms(1) x]
  show ?thesis
  proof (cases "call_arguments env call")
    case None with assms(2) x a show ?thesis by (simp add: request_call_def)
  next
    case (Some arg)
    let ?x = "kernel_event env (kt_run_id c) (kt_corr c) ''tool.requested''
                [(''tool_call_id'', PStr i), (''tool'', PStr (kc_name call)), (''args'', arg)] x"
    show ?thesis
    proof (cases arg)
      case (PDict args)
      let ?decision = "call_decision env (kc_name call) args (kn_context st)"
      let ?y = "kernel_event env (kt_run_id c) (kt_corr c) ''policy.evaluated''
                  [(''tool_call_id'', PStr i), (''decision'', PStr ?decision)]
                  (repo_do (OpSaveToolCall (pending_tool_call env (kt_run_id c) i (kc_name call) args (kx_clock env (kw_tick ?x)))) ?x)"
      let ?pause = "pause_for_approval env c i (kc_name call) args (st\<lparr>kn_pending := kn_pending st @ [call]\<rparr>) ?y"
      have y: "kernel_acts env ok w n ?y" by (simp add: act_event acts_repo a)
      then have "kernel_acts env ok w n (snd ?pause)" by (cases ?pause) (auto dest: act_pause)
      with y assms(2) x Some PDict show ?thesis by (auto simp: request_call_def Let_def split: if_splits prod.splits)
    qed (use assms(2) x Some act_event [OF a] in \<open>auto simp: request_call_def Let_def\<close>)
  qed
qed

lemma act_requests:
  "kernel_acts env ok w n v \<Longrightarrow> request_calls env c calls st v = (r, u) \<Longrightarrow> kernel_acts env ok w n u"
proof (induction calls arbitrary: st v r u)
  case (Cons call calls)
  obtain r1 x where x: "request_call env c call st v = (r1, x)" by (cases "request_call env c call st v")
  note a = act_request [OF Cons.prems(1) x]
  show ?case
  proof (cases r1)
    case (Inl e) with x a Cons.prems show ?thesis by simp
  next
    case (Inr p)
    obtain st1 ws where p: "p = (st1, ws)" by (cases p)
    obtain r2 y where y: "request_calls env c calls st1 x = (r2, y)" by (cases "request_calls env c calls st1 x")
    from Cons.IH [OF a y] Cons.prems(2) x y Inr p show ?thesis by (auto split: sum.splits)
  qed
qed simp

subsection \<open>What a turn may execute\<close>

text \<open>A call the policy lets pass without approval in a context.\<close>

definition ungated :: "kernel_env \<Rightarrow> payload \<Rightarrow> executed_call \<Rightarrow> bool" where
  "ungated env ctx = (\<lambda>(call_id, name, args). call_decision env name args ctx \<noteq> ''REQUIRE_APPROVAL'')"

definition call_ungated :: "kernel_env \<Rightarrow> payload \<Rightarrow> kernel_call \<Rightarrow> bool" where
  "call_ungated env ctx call =
     (case call_arguments env call of
        Some (PDict args) \<Rightarrow> call_decision env (kc_name call) args ctx \<noteq> ''REQUIRE_APPROVAL'' | _ \<Rightarrow> True)"

lemma request_call_state:
  "request_call env c call st v = (Inr (st', ws), u) \<Longrightarrow>
     kn_context st' = kn_context st \<and> kn_step st' = kn_step st \<and> kn_run_id st' = kn_run_id st \<and>
     (ws = [] \<longrightarrow> st' = st \<and> call_ungated env (kn_context st) call)"
  by (auto simp: request_call_def call_ungated_def Let_def split: prod.splits option.splits pyval.splits if_splits)

lemma request_calls_state:
  "request_calls env c calls st v = (Inr (st', ws), u) \<Longrightarrow>
     kn_context st' = kn_context st \<and> kn_step st' = kn_step st \<and> kn_run_id st' = kn_run_id st \<and>
     (ws = [] \<longrightarrow> st' = st \<and> list_all (call_ungated env (kn_context st)) calls)"
proof (induction calls arbitrary: st v ws)
  case (Cons call calls)
  from Cons.prems obtain st1 ws1 x ws2 where
    "request_call env c call st v = (Inr (st1, ws1), x)" "request_calls env c calls st1 x = (Inr (st', ws2), u)" "ws = ws1 @ ws2"
    by (auto split: prod.splits sum.splits)
  with Cons.IH [of st1 x ws2] request_call_state [of env c call st v st1 ws1 x] show ?case by auto
qed simp

lemma perform_call_state:
  "perform_call env c i name args ref st v = (Step_ok st', u) \<Longrightarrow>
     kn_context st' = kn_context st \<and> kn_step st' = kn_step st \<and> kn_run_id st' = kn_run_id st \<and> kn_pending st' = kn_pending st"
  by (auto simp: perform_call_def Let_def split: prod.splits tool_result.splits)

lemma act_performs:
  assumes "\<And>x. ungated env ctx x \<Longrightarrow> ok x"
  shows "kernel_acts env ok w n v \<Longrightarrow> list_all (call_ungated env ctx) calls \<Longrightarrow> perform_calls env c calls st v = (r, u) \<Longrightarrow>
    kernel_acts env ok w n u \<and> (case r of Step_ok st' \<Rightarrow> kn_context st' = kn_context st | _ \<Rightarrow> True)"
proof (induction calls arbitrary: st v)
  case (Cons call calls)
  obtain i x where x: "call_identifier env call v = (i, x)" by (cases "call_identifier env call v")
  note a = act_identifier [OF Cons.prems(1) x]
  show ?case
  proof (cases "\<exists>args. call_arguments env call = Some (PDict args)")
    case True
    then obtain args where args: "call_arguments env call = Some (PDict args)" by blast
    with Cons.prems(2) have "ok (i, kc_name call, args)" by (intro assms) (simp add: call_ungated_def ungated_def)
    moreover obtain r1 y where y: "perform_call env c i (kc_name call) args None st x = (r1, y)"
      by (cases "perform_call env c i (kc_name call) args None st x")
    ultimately have b: "kernel_acts env ok w n y" by (intro act_perform [OF a])
    show ?thesis
    proof (cases r1)
      case (Step_ok st1)
      from Cons.IH [OF b] Cons.prems x y args Step_ok perform_call_state [of env c i "kc_name call" args None st x st1 y]
      show ?thesis by (auto split: loop_step.splits)
    qed (use Cons.prems x y args b in auto)
  qed (use Cons.prems x a in \<open>auto split: option.splits pyval.splits loop_step.splits\<close>)
qed (auto split: loop_step.splits)

lemma act_turn:
  assumes "\<And>x. ungated env (kn_context st) x \<Longrightarrow> ok x" "kernel_acts env ok w n v" "run_turn env c st v = (r, u)"
  shows "kernel_acts env ok w (Suc n) u \<and> (case r of Turn_next st' \<Rightarrow> kn_context st' = kn_context st | _ \<Rightarrow> True)"
proof (cases "kt_run_id c \<in> set (kw_cancelled v)")
  case True with assms show ?thesis by (auto simp: run_turn_def intro: acts_more)
next
  case False
  let ?st = "st\<lparr>kn_step := Suc (kn_step st)\<rparr>"
  obtain m x where x: "call_model env c (kn_messages ?st) v = (m, x)" by (cases "call_model env c (kn_messages ?st) v")
  note a = act_model [OF assms(2) x]
  show ?thesis
  proof (cases m)
    case (Inl e) with False x a assms(3) show ?thesis by (auto simp: run_turn_def split: turn_result.splits)
  next
    case (Inr resp)
    obtain st2 y where y: "take_content env c (mo_content resp) ?st x = (st2, y)"
      by (cases "take_content env c (mo_content resp) ?st x")
    note b = act_content [OF a y]
    have ctx: "kn_context st2 = kn_context st" using y by (auto simp: take_content_def split: if_splits)
    show ?thesis
    proof (cases "mo_tool_calls resp = []")
      case True
      with False x y Inr assms(3) act_finish_run [OF b, of c resp] show ?thesis
        by (auto simp: run_turn_def Let_def split: prod.splits)
    next
      case calls: False
      obtain q z where z: "request_calls env c (mo_tool_calls resp) st2 y = (q, z)"
        by (cases "request_calls env c (mo_tool_calls resp) st2 y")
      note d = act_requests [OF b z]
      have r: "handle_calls env c (mo_tool_calls resp) st2 y = (r, u)"
        using False x y Inr calls assms(3) by (simp add: run_turn_def)
      show ?thesis
      proof (cases q)
        case (Inl e) with r z d show ?thesis by (auto simp: handle_calls_def)
      next
        case Inr2: (Inr p)
        obtain st3 ws where p: "p = (st3, ws)" by (cases p)
        with Inr2 z have s: "kn_context st3 = kn_context st2" "ws = [] \<Longrightarrow> list_all (call_ungated env (kn_context st2)) (mo_tool_calls resp)"
          by (auto dest: request_calls_state)
        show ?thesis
        proof (cases "ws = []")
          case False
          with r z Inr2 p act_finish(1) [OF d, of "kt_run_id c" "kt_corr c" ws] show ?thesis
            by (auto simp: handle_calls_def Let_def split: prod.splits)
        next
          case True
          obtain q2 t where t: "perform_calls env c (mo_tool_calls resp) st3 z = (q2, t)"
            by (cases "perform_calls env c (mo_tool_calls resp) st3 z")
          from act_performs [OF assms(1) d _ t] s True ctx
          have "kernel_acts env ok w (Suc n) t \<and> (case q2 of Step_ok st' \<Rightarrow> kn_context st' = kn_context st3 | _ \<Rightarrow> True)" by simp
          with r z Inr2 p True t s ctx show ?thesis by (cases q2) (auto simp: handle_calls_def)
        qed
      qed
    qed
  qed
qed

lemma act_turns:
  assumes "\<And>x. ungated env ctx x \<Longrightarrow> ok x"
  shows "kernel_acts env ok w n v \<Longrightarrow> kn_context st = ctx \<Longrightarrow>
    kernel_acts env ok w (n + (10 - kn_step st)) (snd (execute_reasoning_loop env c st v))"
proof (induction "10 - kn_step st" arbitrary: n st v rule: less_induct)
  case less
  show ?case
  proof (cases "kn_step st < 10")
    case False
    with act_finish(4) [OF less.prems(1), of "kt_run_id c"] show ?thesis
      by (cases "out_of_turns env (kt_run_id c) v") (simp add: execute_reasoning_loop.simps [of env c st v])
  next
    case True
    obtain r u where u: "run_turn env c st v = (r, u)" by (cases "run_turn env c st v")
    from act_turn [OF _ less.prems(1) u] assms less.prems(2)
    have a: "kernel_acts env ok w (Suc n) u" "case r of Turn_next st' \<Rightarrow> kn_context st' = ctx | _ \<Rightarrow> True" by auto
    have more: "kernel_acts env ok w (n + (10 - kn_step st)) x" if "kernel_acts env ok w (Suc n) x" for x
      using that by (rule acts_more) (use True in simp)
    show ?thesis
    proof (cases r)
      case (Turn_next st')
      have "Suc n + (10 - kn_step st') = n + (10 - kn_step st)" "10 - kn_step st' < 10 - kn_step st"
        using turn_advances [OF u [unfolded Turn_next]] True by simp_all
      with less.hyps [of st' "Suc n" u] a u True Turn_next show ?thesis
        by (simp add: execute_reasoning_loop.simps [of env c st v])
    next
      case (Turn_error e)
      with u True more [OF act_fail [OF a(1), of "kt_run_id c" "kt_corr c" e]] show ?thesis
        by (auto simp: execute_reasoning_loop.simps [of env c st v] split: prod.splits)
    qed (use u True more [OF a(1)] in \<open>auto simp: execute_reasoning_loop.simps [of env c st v]\<close>)
  qed
qed

subsection \<open>Run and resume\<close>

lemma act_resume_calls:
  assumes "\<And>call args. call \<in> set calls \<Longrightarrow> kc_call_id call \<in> set approved \<Longrightarrow> call_arguments env call = Some (PDict args) \<Longrightarrow>
      ok (kc_call_id call, kc_name call, args)"
  shows "kernel_acts env ok w n v \<Longrightarrow> resume_calls env c ref approved calls st v = (r, u) \<Longrightarrow>
    kernel_acts env ok w n u \<and>
    (case r of Step_ok (st', rest) \<Rightarrow> kn_context st' = kn_context st \<and> kn_step st' = kn_step st | _ \<Rightarrow> True)"
  using assms
proof (induction calls arbitrary: st v r u)
  case (Cons call calls)
  show ?case
  proof (cases "kc_call_id call \<in> set approved")
    case True
    show ?thesis
    proof (cases "\<exists>args. call_arguments env call = Some (PDict args)")
      case ex: True
      then obtain args where args: "call_arguments env call = Some (PDict args)" by blast
      obtain r1 y where y: "perform_call env c (kc_call_id call) (kc_name call) args (Some ref) st v = (r1, y)"
        by (cases "perform_call env c (kc_call_id call) (kc_name call) args (Some ref) st v")
      have b: "kernel_acts env ok w n y"
        by (rule act_perform [OF Cons.prems(1) _ y]) (use Cons.prems(3) True args in auto)
      show ?thesis
      proof (cases r1)
        case (Step_ok st1)
        from perform_call_state [OF y [unfolded Step_ok]] Cons.IH [OF b, of st1 r u] Cons.prems(2,3) True args y Step_ok
        show ?thesis by (auto split: loop_step.splits)
      qed (use Cons.prems True args y b in auto)
    qed (use Cons.prems True in \<open>auto split: option.splits pyval.splits\<close>)
  next
    case False
    obtain r1 y where y: "resume_calls env c ref approved calls st v = (r1, y)"
      by (cases "resume_calls env c ref approved calls st v")
    from Cons.IH [OF Cons.prems(1) y] Cons.prems(3)
    have "kernel_acts env ok w n y \<and> (case r1 of Step_ok (st', rest) \<Rightarrow> kn_context st' = kn_context st \<and> kn_step st' = kn_step st | _ \<Rightarrow> True)"
      by auto
    with Cons.prems(2) False y show ?thesis by (cases r1) auto
  qed
qed (auto split: loop_step.splits)

lemma act_renewed:
  "kernel_acts env ok w n v \<Longrightarrow> renewed_waits env rid ref calls v = (ds, u) \<Longrightarrow> kernel_acts env ok w n u"
proof (induction calls arbitrary: v ds u)
  case (Cons call calls)
  obtain ds' x where x: "renewed_waits env rid ref calls (v\<lparr>kw_tick := Suc (kw_tick v)\<rparr>) = (ds', x)"
    by (cases "renewed_waits env rid ref calls (v\<lparr>kw_tick := Suc (kw_tick v)\<rparr>)")
  from Cons.IH [OF acts_draw [OF Cons.prems(1)] x] Cons.prems(2) x show ?case by (simp add: Let_def)
qed simp

lemma act_wait_again:
  assumes "kernel_acts env ok w n v"
  shows "kernel_acts env ok w n (snd (wait_again env rid corr st v))"
proof -
  let ?ref = "''ckpt_'' @ rid @ ''_'' @ take 8 (kx_uuid env (kw_tick v))"
  let ?v = "save_state env (state_checkpoint rid None st (kx_clock env (kw_tick v)) ?ref) v"
  obtain b u where u: "set_status env rid RS_WAITING_APPROVAL None None ?v = (b, u)"
    by (cases "set_status env rid RS_WAITING_APPROVAL None None ?v")
  have a: "kernel_acts env ok w n u" by (rule act_status [OF _ u]) (simp add: act_save assms)
  with u show ?thesis
    by (auto simp: wait_again_def Let_def split: prod.splits) (rule act_event, rule act_renewed [OF a])
qed

lemma act_resume_end:
  assumes "\<And>x. ungated env (dict_update (kn_context st) updates) x \<Longrightarrow> ok x"
    and u: "resume_calls env c ref (approved_ids updates) (kn_pending st) (st\<lparr>kn_context := dict_update (kn_context st) updates\<rparr>) v = (r, u)"
    and a: "kernel_acts env ok w 0 u"
    and s: "case r of Step_ok (st', rest) \<Rightarrow> kn_context st' = dict_update (kn_context st) updates \<and> kn_step st' = kn_step st | _ \<Rightarrow> True"
  shows "kernel_acts env ok w (10 - kn_step st) (snd (resume_state env c ref updates st v))"
proof -
  have more: "kernel_acts env ok w (10 - kn_step st) x" if "kernel_acts env ok w 0 x" for x
    using that by (rule acts_more) simp
  show ?thesis
  proof (cases r)
    case (Step_error e)
    with u more [OF act_fail [OF a, of "kt_run_id c" "kt_corr c" e]] show ?thesis
      by (auto simp: resume_state_def Let_def split: prod.splits)
  next
    case (Step_ok p)
    obtain st1 rest where p: "p = (st1, rest)" by (cases p)
    show ?thesis
    proof (cases "rest = []")
      case True
      from act_turns [OF assms(1) a, where st = "st1\<lparr>kn_pending := rest\<rparr>" and c = c] s Step_ok p True u
      show ?thesis by (simp add: resume_state_def Let_def)
    next
      case False
      with u Step_ok p more [OF act_wait_again [OF a, of "kt_run_id c" "kt_corr c" "st1\<lparr>kn_pending := rest\<rparr>"]]
      show ?thesis by (auto simp: resume_state_def Let_def split: prod.splits)
    qed
  qed (use u more [OF a] in \<open>simp add: resume_state_def Let_def\<close>)
qed

lemma act_resume_state:
  assumes "\<And>call args. call \<in> set (kn_pending st) \<Longrightarrow> kc_call_id call \<in> set (approved_ids updates) \<Longrightarrow>
      call_arguments env call = Some (PDict args) \<Longrightarrow> ok (kc_call_id call, kc_name call, args)"
    and "\<And>x. ungated env (dict_update (kn_context st) updates) x \<Longrightarrow> ok x"
    and "kernel_acts env ok w 0 v"
  shows "kernel_acts env ok w (10 - kn_step st) (snd (resume_state env c ref updates st v))"
proof -
  let ?st = "st\<lparr>kn_context := dict_update (kn_context st) updates\<rparr>"
  obtain r u where u: "resume_calls env c ref (approved_ids updates) (kn_pending st) ?st v = (r, u)"
    by (cases "resume_calls env c ref (approved_ids updates) (kn_pending st) ?st v")
  from act_resume_calls [OF _ assms(3) u] assms(1)
  have "kernel_acts env ok w 0 u"
    and "case r of Step_ok (st', rest) \<Rightarrow> kn_context st' = dict_update (kn_context st) updates \<and> kn_step st' = kn_step st | _ \<Rightarrow> True"
    by (auto split: loop_step.splits)
  with act_resume_end [where ok = ok, OF assms(2) u] show ?thesis by simp
qed

text \<open>The state a checkpoint holds, and the call a resume lets through.\<close>

definition checkpoint_state :: "string \<Rightarrow> kernel_world \<Rightarrow> kernel_state option" where
  "checkpoint_state ref w = Option.bind (get_checkpoint ref (kw_repo w)) (\<lambda>ck. state_from_dict (ck_serialized_state ck))"

definition resumed_call :: "kernel_env \<Rightarrow> payload \<Rightarrow> kernel_state \<Rightarrow> executed_call \<Rightarrow> bool" where
  "resumed_call env updates st = (\<lambda>(call_id, name, args).
     call_id \<in> set (approved_ids updates) \<and>
     list_ex (\<lambda>call. kc_call_id call = call_id \<and> kc_name call = name \<and> call_arguments env call = Some (PDict args)) (kn_pending st))"

definition resume_ok :: "kernel_env \<Rightarrow> string \<Rightarrow> payload \<Rightarrow> kernel_world \<Rightarrow> executed_call \<Rightarrow> bool" where
  "resume_ok env ref updates w x =
     (case checkpoint_state ref w of
        None \<Rightarrow> False
      | Some st \<Rightarrow> resumed_call env updates st x \<or> ungated env (dict_update (kn_context st) updates) x)"

definition turns_left :: "string \<Rightarrow> kernel_world \<Rightarrow> nat" where
  "turns_left ref w = (case checkpoint_state ref w of None \<Rightarrow> 0 | Some st \<Rightarrow> 10 - kn_step st)"

lemma kernel_run_cases:
  obtains (raised) x v where "kernel_run env req spec w = (Kernel_raised x, v)"
      "kw_executed v = kw_executed w" "kw_model_calls v = kw_model_calls w"
  | (turns) c st v where "kernel_run env req spec w = execute_reasoning_loop env c st v"
      "kn_step st = 0" "kn_pending st = []" "kn_context st = rq_metadata req"
      "kw_executed v = kw_executed w" "kw_model_calls v = kw_model_calls w"
proof -
  let ?rid = "or_else (rq_run_id req) (''run_'' @ take 16 (kx_uuid env (kw_tick w)))"
  let ?corr = "or_else (rq_correlation_id req) ?rid"
  let ?h = "agent_pinned_hash (kx_spec env) spec"
  let ?w0 = "w\<lparr>kw_tick := Suc (kw_tick w)\<rparr>"
  let ?pub = "publish_agent_spec (kx_spec env) (spec\<lparr>ag_hash := Some ?h\<rparr>) (Some (rq_principal req))
      (kx_clock env (kw_tick ?w0)) (kw_registry ?w0)"
  obtain p reg where pub: "?pub = (p, reg)" by (cases ?pub)
  let ?v = "?w0\<lparr>kw_registry := reg\<rparr>"
  show ?thesis
  proof (cases p)
    case (Inl e)
    with pub show ?thesis by (intro raised [of "Spec_failure e" ?v]) (simp_all add: kernel_run_def Let_def)
  next
    case (Inr q)
    show ?thesis
    proof (cases "resolve_skills (ag_pinned_skills spec) reg")
      case (Inl e)
      with Inr pub show ?thesis by (intro raised [of "Spec_failure e" ?v]) (simp_all add: kernel_run_def Let_def)
    next
      case skills: (Inr skills)
      let ?run = "new_run_record req spec ?rid ?corr ?h (kx_clock env (kw_tick ?w0))"
      let ?y = "kernel_event env ?rid ?corr ''run.started'' [(''principal'', PStr (rq_principal req)), (''spec_id'', PStr (ag_id spec))]
          (repo_do (OpCreateRun ?run) ?v)"
      let ?st = "\<lparr>kn_run_id = ?rid, kn_messages = system_message env req spec skills
          # history_messages (kx_str env) (rq_input req) @ user_message env (rq_input req),
          kn_pending = [], kn_completed = [], kn_context = rq_metadata req, kn_step = 0\<rparr>"
      let ?c = "\<lparr>kt_run_id = ?rid, kt_run = ?run, kt_corr = ?corr, kt_model_policy = ag_model_policy spec,
          kt_schema = ag_output_schema spec\<rparr>"
      from Inr skills pub show ?thesis
        by (intro turns [of ?c ?st ?y]) (simp_all add: kernel_run_def Let_def kernel_event_def repo_do_def)
    qed
  qed
qed

lemma act_run_body:
  "\<exists>v. kernel_acts env (ungated env (rq_metadata req)) v 10 (snd (kernel_run env req spec w)) \<and>
    kw_executed v = kw_executed w \<and> kw_model_calls v = kw_model_calls w"
proof (cases rule: kernel_run_cases [of env req spec w])
  case (raised x v) then show ?thesis by (intro exI [of _ v]) (simp add: acts_start)
next
  case (turns c st v)
  have "kernel_acts env (ungated env (rq_metadata req)) v (0 + (10 - kn_step st)) (snd (execute_reasoning_loop env c st v))"
    by (rule act_turns [OF _ acts_start turns(4)])
  with turns show ?thesis by (intro exI [of _ v]) simp
qed

lemma act_resume:
  "kernel_acts env (resume_ok env ref updates w) w (turns_left ref w) (snd (kernel_resume env rid ref updates w))"
proof (cases "get_run rid (kw_repo w)")
  case None then show ?thesis by (simp add: kernel_resume_def acts_start)
next
  case (Some r)
  show ?thesis
  proof (cases "get_checkpoint ref (kw_repo w)")
    case None with Some show ?thesis by (simp add: kernel_resume_def acts_start)
  next
    case ck: (Some ck)
    let ?ok = "resume_ok env ref updates w"
    let ?v = "kernel_event env rid (or_else (r_correlation_id r) rid) ''run.resumed'' [(''checkpoint_ref'', PStr ref), (''updates'', PDict updates)] w"
    have a: "kernel_acts env ?ok w n ?v" for n by (intro act_event acts_start)
    show ?thesis
    proof (cases "state_from_dict (ck_serialized_state ck)")
      case None with Some ck a show ?thesis by (simp add: kernel_resume_def Let_def)
    next
      case st: (Some st)
      have cs: "checkpoint_state ref w = Some st" using ck st by (simp add: checkpoint_state_def)
      have "kernel_acts env ?ok w (10 - kn_step st) (snd (resume_state env c ref updates st ?v))" for c
        by (rule act_resume_state [OF _ _ a]) (auto simp: resume_ok_def cs resumed_call_def list_ex_iff)
      with Some ck st cs show ?thesis by (simp add: kernel_resume_def Let_def turns_left_def)
    qed
  qed
qed

end
