(* ===== verification/KernelRuns.thy ===== *)
theory KernelRuns
  imports KernelProps
begin

text \<open>
  The properties of the execution kernel: its saved state, the calls it executes, its turns, its results and
  its pauses, and the context lines of its system prompt.
\<close>

subsection \<open>Saved states\<close>

lemma read_all_map: "(\<And>x. x \<in> set xs \<Longrightarrow> f (g x) = Some x) \<Longrightarrow> read_all f (map g xs) = Some xs"
  by (induction xs) auto

lemma message_of_dict: "message_of (message_dict m) = Some m"
  by (cases m) (auto simp: message_of_def message_dict_def split: option.splits)

lemma call_of_dict: "call_of (call_dict c) = Some c"
  by (cases c) (simp add: call_of_def call_dict_def)

lemma completed_of_dict: "completed_of (completed_dict x) = Some x"
  by (cases x) (simp add: completed_of_def completed_dict_def)

lemma kernel_state_read: "state_from_dict (state_to_dict st) = Some st"
  by (cases st)
    (simp add: state_from_dict_def state_to_dict_def list_entry_def step_entry_def read_all_map message_of_dict
      call_of_dict completed_of_dict)

text \<open>A state saved in a checkpoint is read back exactly: messages with their tool-call identifiers, the calls
  that wait, the results so far, the context and the number of turns taken.\<close>

theorem kernel_state_roundtrip: "state_from_dict (state_to_dict st) = Some st"
  by (rule kernel_state_read)

subsection \<open>Calls and turns\<close>

text \<open>C33. A call the policy gates is never executed before a resume that names it. Whatever the model answers
  and whatever others do meanwhile, a run hands to the executor only calls for which the policy, in the context of
  the request, does not ask for an approval; a resume only such calls, in the updated context, and calls that wait
  in its checkpoint and are named by the update.\<close>

theorem gated_calls_wait:
  "(let w' = snd (kernel_run env req spec w) in
      \<exists>xs. kw_executed w' = kw_executed w @ xs \<and> list_all (ungated env (rq_metadata req)) xs) \<and>
   (let w' = snd (kernel_resume env rid ref updates w) in
      \<exists>xs. kw_executed w' = kw_executed w @ xs \<and> list_all (resume_ok env ref updates w) xs)"
proof -
  obtain v where "kernel_acts env (ungated env (rq_metadata req)) v 10 (snd (kernel_run env req spec w))" "kw_executed v = kw_executed w"
    using act_run_body [of env req] by blast
  with acts_executed acts_executed [OF act_resume] show ?thesis by fastforce
qed

text \<open>C37. The number of turns is bounded over the whole life of a run. The loop tests the step index, which every
  turn advances and every checkpoint saves; so whatever the model answers, the loop ends, a run asks the model at
  most ten times, and a resume at most as often as its checkpoint leaves turns.\<close>

theorem turns_bounded:
  "kw_model_calls (snd (kernel_run env req spec w)) \<le> kw_model_calls w + 10 \<and>
   kw_model_calls (snd (kernel_resume env rid ref updates w)) \<le> kw_model_calls w + turns_left ref w"
proof -
  obtain v where "kernel_acts env (ungated env (rq_metadata req)) v 10 (snd (kernel_run env req spec w))" "kw_model_calls v = kw_model_calls w"
    using act_run_body [of env req] by blast
  with acts_model_calls acts_model_calls [OF act_resume] show ?thesis by metis
qed

subsection \<open>Results\<close>

text \<open>A result says what the repository holds.\<close>

definition reported :: "string \<Rightarrow> kernel_result \<Rightarrow> kernel_world \<Rightarrow> bool" where
  "reported rid r w \<longleftrightarrow>
     kr_run_id r = rid \<and>
     (case get_run rid (kw_repo w) of
        None \<Rightarrow> kr_status r = RS_CANCELLED
      | Some x \<Rightarrow> r_status x = kr_status r \<and> (kr_status r = RS_COMPLETED \<longrightarrow> r_final_output x = kr_final_output r))"

lemma get_run_event [simp]: "get_run i (kw_repo (kernel_event env rid corr et pl w)) = get_run i (kw_repo w)"
  by (simp add: kernel_event_def repo_do_def get_run_def append_event_def Let_def)

lemma reported_reload [simp]: "reported rid (reload_terminal_result rid w) w"
  by (auto simp: reported_def reload_terminal_result_def Let_def split: option.splits)

lemma set_status_run:
  assumes "set_status env rid st out err w = (True, u)"
  shows "\<exists>x. get_run rid (kw_repo u) = Some x \<and> r_status x = st \<and> (\<forall>v. out = Some v \<longrightarrow> r_final_output x = Some v)"
proof -
  from assms obtain x where x: "dict_get (runs (kw_repo w)) rid = Some x" "r_status x \<in> set active_run_statuses"
    and u: "u = repo_do (OpTransition (kx_clock env (kw_tick w)) (kx_clock env (kw_tick w)) rid active_run_statuses st out err) w"
    by (auto simp: set_status_def run_active_def split: option.splits)
  then have "get_run rid (kw_repo u) = Some (set_run_status (kx_clock env (kw_tick w)) (kx_clock env (kw_tick w)) st out err x)"
    by (simp add: get_run_def repo_do_def transition_run_status_def Let_def)
  then show ?thesis by (auto simp: set_run_status_def Let_def split: option.splits)
qed

text \<open>A step that sets a status and reports it, or reloads the run.\<close>

lemma settled_reported:
  assumes "(case set_status env rid st out err w of
              (ok, w1) \<Rightarrow> if \<not> ok then (reload_terminal_result rid w1, w1) else (res, f w1)) = (r, u)"
    and "kr_run_id res = rid" "kr_status res = st" "st = RS_COMPLETED \<Longrightarrow> out \<noteq> None \<and> kr_final_output res = out"
    and "\<And>x. get_run rid (kw_repo (f x)) = get_run rid (kw_repo x)"
  shows "reported rid r u"
  using assms by (auto simp: reported_def split: prod.splits if_splits dest!: set_status_run)
    (simp_all add: reported_reload [unfolded reported_def])

lemma reported_fail: "fail_from_runtime_error env rid corr e w = (r, u) \<Longrightarrow> reported rid r u"
  unfolding fail_from_runtime_error_def by (erule settled_reported) (simp_all add: plain_result_def)

lemma reported_waiting: "finish_waiting env rid corr ws w = (r, u) \<Longrightarrow> reported rid r u"
  unfolding finish_waiting_def by (erule settled_reported) (simp_all add: plain_result_def)

lemma reported_out_of_turns: "out_of_turns env rid w = (r, u) \<Longrightarrow> reported rid r u"
  unfolding out_of_turns_def by (erule settled_reported) (simp_all add: plain_result_def)

lemma reported_validation: "fail_validation env c raw errs w = (r, u) \<Longrightarrow> reported (kt_run_id c) r u"
  unfolding fail_validation_def Let_def by (erule settled_reported) (simp_all add: plain_result_def)

lemma reported_complete: "complete_run env c out usage w = (r, u) \<Longrightarrow> reported (kt_run_id c) r u"
  unfolding complete_run_def Let_def by (erule settled_reported) (simp_all add: plain_result_def)

lemma reported_finish: "finish_run env c resp w = (r, u) \<Longrightarrow> reported (kt_run_id c) r u"
  by (auto simp: finish_run_def split: prod.splits if_splits dest: reported_validation reported_complete)

definition run_reported :: "string \<Rightarrow> kernel_result \<Rightarrow> kernel_world \<Rightarrow> bool" where
  "run_reported rid r w \<longleftrightarrow> reported rid r w \<or> (r = plain_result rid RS_CANCELLED [] \<and> rid \<in> set (kw_cancelled w))"

lemma reported_turn: "run_turn env c st w = (Turn_done r, u) \<Longrightarrow> run_reported (kt_run_id c) r u"
  by (auto simp: run_turn_def handle_calls_def run_reported_def Let_def split: if_splits prod.splits sum.splits loop_step.splits
      dest: reported_finish reported_waiting)

lemma reported_turns: "execute_reasoning_loop env c st w = (Kernel_returned r, u) \<Longrightarrow> run_reported (kt_run_id c) r u"
proof (induction "10 - kn_step st" arbitrary: st w rule: less_induct)
  case less
  obtain q x where x: "run_turn env c st w = (q, x)" by (cases "run_turn env c st w")
  show ?case
  proof (cases "kn_step st < 10")
    case False
    with less.prems show ?thesis
      by (auto simp: execute_reasoning_loop.simps [of env c st w] run_reported_def split: prod.splits dest: reported_out_of_turns)
  next
    case True
    show ?thesis
    proof (cases q)
      case (Turn_next st1)
      with x True less.prems have "execute_reasoning_loop env c st1 x = (Kernel_returned r, u)"
        by (simp add: execute_reasoning_loop.simps [of env c st w])
      then show ?thesis by (rule less.hyps [rotated]) (use turn_advances [OF x [unfolded Turn_next]] True in simp)
    qed (use x True less.prems in \<open>auto simp: execute_reasoning_loop.simps [of env c st w] run_reported_def split: prod.splits
           dest: reported_turn [unfolded run_reported_def] reported_fail\<close>)
  qed
qed

lemma renewed_repo: "renewed_waits env rid ref calls w = (ds, u) \<Longrightarrow> kw_repo u = kw_repo w \<and> kw_cancelled u = kw_cancelled w"
  by (induction calls arbitrary: w ds u) (fastforce simp: Let_def split: prod.splits)+

lemma reported_wait_again:
  assumes "wait_again env rid corr st w = (r, u)"
  shows "reported rid r u"
  using assms
  by (auto simp: wait_again_def Let_def reported_def plain_result_def split: prod.splits if_splits dest!: set_status_run renewed_repo)
    (simp_all add: reported_reload [unfolded reported_def])

lemma reported_resume:
  assumes "resume_state env c ref updates st w = (Kernel_returned r, u)"
  shows "run_reported (kt_run_id c) r u"
  using assms
  by (auto simp: resume_state_def Let_def run_reported_def split: prod.splits loop_step.splits if_splits
      dest: reported_fail reported_wait_again reported_turns [unfolded run_reported_def])

lemma reported_kernel_run:
  assumes "kernel_run env req spec w = (Kernel_returned r, w')"
  shows "run_reported (kr_run_id r) r w'"
proof (cases rule: kernel_run_cases [of env req spec w])
  case (turns c st v)
  with assms have *: "run_reported (kt_run_id c) r w'" by (intro reported_turns) simp
  then have "kr_run_id r = kt_run_id c" by (auto simp: run_reported_def reported_def plain_result_def)
  with * show ?thesis by simp
qed (use assms in simp)

lemma reported_kernel_resume:
  assumes "kernel_resume env rid ref updates w = (Kernel_returned r, w')"
  shows "run_reported rid r w' \<or>
    kr_status r = RS_FAILED \<and> (get_run rid (kw_repo w) = None \<or> get_checkpoint ref (kw_repo w) = None)"
  using assms
  by (auto simp: kernel_resume_def Let_def plain_result_def split: option.splits dest: reported_resume)

text \<open>C34. A result is honest. When a run or a resume returns, the status it reports is the one the repository
  holds at that moment, and a completed run holds the output that is returned; the exceptions are the answers
  CANCELLED of a kernel that was told to cancel the run, and FAILED for a run or a checkpoint that does not
  exist.\<close>

theorem results_honest:
  "(case kernel_run env req spec w of (Kernel_returned r, w') \<Rightarrow> run_reported (kr_run_id r) r w' | _ \<Rightarrow> True) \<and>
   (case kernel_resume env rid ref updates w of
      (Kernel_returned r, w') \<Rightarrow>
        run_reported rid r w' \<or>
        kr_status r = RS_FAILED \<and> (get_run rid (kw_repo w) = None \<or> get_checkpoint ref (kw_repo w) = None)
    | _ \<Rightarrow> True)"
  by (auto split: prod.splits kernel_outcome.splits dest: reported_kernel_run reported_kernel_resume)

text \<open>C35. A run that has ended stays as it ended. Whatever is resumed or cancelled, whichever runs this kernel is
  told to cancel, and whatever others do that respects the compare-and-set, an ended run keeps its status and its
  output. A resume that returns answers with that status, and with the output of a completed run, except in two
  cases: FAILED for a checkpoint that does not exist, and CANCELLED in a kernel that was told to cancel the run. A
  cancellation answers whether the run was cancelled before, and in every case the kernel remembers it.\<close>

theorem ended_run_kept:
  assumes "get_run rid (kw_repo w) = Some x" "run_terminal (r_status x)"
    and "\<And>t. list_all (cas_only rid) (kx_others env t)"
  shows "(let (res, w') = kernel_resume env rid ref updates w in
            ended_as rid x (kw_repo w') \<and>
            (case res of
               Kernel_raised e \<Rightarrow> True
             | Kernel_returned r \<Rightarrow>
                 (kr_status r = r_status x \<and> (kr_final_output r = r_final_output x \<or> r_status x \<in> {RS_FAILED, RS_CANCELLED})) \<or>
                 (kr_status r = RS_FAILED \<and> get_checkpoint ref (kw_repo w) = None) \<or>
                 (r = plain_result rid RS_CANCELLED [] \<and> rid \<in> set (kw_cancelled w')))) \<and>
         (let (done_now, w') = kernel_cancel env rid reason w in
            ended_as rid x (kw_repo w') \<and> (done_now = (r_status x = RS_CANCELLED)) \<and> kw_cancelled w' = rid # kw_cancelled w)"
proof -
  have x: "dict_get (runs (kw_repo w)) rid = Some x" using assms(1) by (simp add: get_run_def)
  have kept: "ended_as rid x (kw_repo (snd (kernel_resume env rid ref updates w)))"
    using acts_ended [OF assms(3) act_resume [of env ref updates w rid]] x assms(2) by (auto simp: outcome_le_def)
  obtain res w' where e: "kernel_resume env rid ref updates w = (res, w')" by (cases "kernel_resume env rid ref updates w")
  have answer: "(kr_status r = r_status x \<and> (kr_final_output r = r_final_output x \<or> r_status x \<in> {RS_FAILED, RS_CANCELLED})) \<or>
      (kr_status r = RS_FAILED \<and> get_checkpoint ref (kw_repo w) = None) \<or>
      (r = plain_result rid RS_CANCELLED [] \<and> rid \<in> set (kw_cancelled w'))" if "res = Kernel_returned r" for r
    using reported_kernel_resume [OF e [unfolded that]] kept assms(1,2)
    by (auto simp: e run_reported_def reported_def ended_as_def get_run_def run_terminal_def split: option.splits)
  have "let (done_now, w') = kernel_cancel env rid reason w in
      ended_as rid x (kw_repo w') \<and> (done_now = (r_status x = RS_CANCELLED)) \<and> kw_cancelled w' = rid # kw_cancelled w"
    using x assms(2)
    by (cases "r_status x") (auto simp: kernel_cancel_def Let_def cancel_run_def transition_run_status_def cancellable_def run_terminal_def
      ended_as_def get_run_def repo_do_def append_event_def set_run_status_output)
  with kept answer show ?thesis by (auto simp: e split: kernel_outcome.splits)
qed

text \<open>What the second exception means. Cancelling a completed or failed run answers \<open>False\<close> and changes nothing in the
  repository, but the kernel keeps the identifier; a later resume of that run then answers CANCELLED while the
  repository still says how the run ended.\<close>

lemma late_cancel_answers:
  assumes "get_run rid (kw_repo w) = Some x" "run_terminal (r_status x)" "r_status x \<noteq> RS_CANCELLED"
    and "checkpoint_state ref w = Some st" "kn_pending st = []" "kn_step st < 10"
  shows "fst (kernel_cancel env rid reason w) = False"
    and "fst (kernel_resume env rid ref updates (snd (kernel_cancel env rid reason w))) = Kernel_returned (plain_result rid RS_CANCELLED [])"
proof -
  let ?w = "snd (kernel_cancel env rid reason w)"
  have x: "dict_get (runs (kw_repo w)) rid = Some x" using assms(1) by (simp add: get_run_def)
  with assms(2,3) have "r_status x \<notin> set cancellable" by (cases "r_status x") (auto simp: cancellable_def run_terminal_def)
  with x assms(3) have c: "fst (kernel_cancel env rid reason w) = False" "get_run rid (kw_repo ?w) = Some x"
      "checkpoints (kw_repo ?w) = checkpoints (kw_repo w)" "rid \<in> set (kw_cancelled ?w)"
    by (auto simp: kernel_cancel_def Let_def cancel_run_def transition_run_status_def get_run_def repo_do_def split: option.splits)
  obtain ck where ck: "get_checkpoint ref (kw_repo ?w) = Some ck" "state_from_dict (ck_serialized_state ck) = Some st"
    using assms(4) c(3) by (auto simp: checkpoint_state_def get_checkpoint_def split: Option.bind_splits)
  have turn: "run_turn env k s v = (Turn_done (plain_result (kt_run_id k) RS_CANCELLED []), v)" if "kt_run_id k \<in> set (kw_cancelled v)" for k s v
    using that by (simp add: run_turn_def)
  have loop: "execute_reasoning_loop env k s v = (Kernel_returned (plain_result (kt_run_id k) RS_CANCELLED []), v)"
    if "kn_step s < 10" "kt_run_id k \<in> set (kw_cancelled v)" for k s v
    using that by (simp add: execute_reasoning_loop.simps [of env k s v] turn)
  have ev: "kw_cancelled (kernel_event env i corr et pl v) = kw_cancelled v" for i corr et pl v
    by (simp add: kernel_event_def repo_do_def)
  show "fst (kernel_cancel env rid reason w) = False" by (rule c(1))
  show "fst (kernel_resume env rid ref updates ?w) = Kernel_returned (plain_result rid RS_CANCELLED [])"
    using c(2,4) ck assms(5,6) by (simp add: kernel_resume_def resume_state_def Let_def loop ev)
qed

subsection \<open>A rejected call\<close>

lemma perform_executes:
  assumes "kx_executor env = Some run" "perform_call env c i name args ref st v = (r, u)"
  shows "kw_executed u = kw_executed v @ [(i, name, args)]"
  using assms
  by (auto simp: perform_call_def execute_tool_def let_others_def kernel_event_def repo_do_def Let_def split: tool_result.splits)

text \<open>C39. A resume executes a call it names whatever the decision, the run and the checkpoint. The kernel asks
  whether the update has an entry for the call and never reads its value, nor the status of the run: the first call
  waiting in a checkpoint is handed to the executor also when the entry says \<open>False\<close>, which is what the worker
  passes for a rejected approval, and also when the run has ended.\<close>

theorem rejected_call_executed:
  assumes "get_run rid (kw_repo w) = Some r" "checkpoint_state ref w = Some st" "kn_pending st = call # calls"
    and "call_arguments env call = Some (PDict args)" "kx_executor env = Some run"
    and "dict_get updates ''approved_tool_calls'' = Some (PDict [(kc_call_id call, PBool approved)])"
  shows "\<exists>xs. kw_executed (snd (kernel_resume env rid ref updates w)) = kw_executed w @ (kc_call_id call, kc_name call, args) # xs"
proof -
  obtain ck where ck: "get_checkpoint ref (kw_repo w) = Some ck" "state_from_dict (ck_serialized_state ck) = Some st"
    using assms(2) by (auto simp: checkpoint_state_def split: Option.bind_splits)
  let ?c = "\<lparr>kt_run_id = rid, kt_run = r, kt_corr = or_else (r_correlation_id r) rid, kt_model_policy = [], kt_schema = None\<rparr>"
  let ?v = "kernel_event env rid (or_else (r_correlation_id r) rid) ''run.resumed'' [(''checkpoint_ref'', PStr ref), (''updates'', PDict updates)] w"
  let ?st = "st\<lparr>kn_context := dict_update (kn_context st) updates\<rparr>"
  have mem: "kc_call_id call \<in> set (approved_ids updates)" using assms(6) by (simp add: approved_ids_def)
  obtain r1 y where y: "perform_call env ?c (kc_call_id call) (kc_name call) args (Some ref) ?st ?v = (r1, y)"
    by (cases "perform_call env ?c (kc_call_id call) (kc_name call) args (Some ref) ?st ?v")
  have ex: "kw_executed y = kw_executed w @ [(kc_call_id call, kc_name call, args)]"
    using perform_executes [OF assms(5) y] by (simp add: kernel_event_def repo_do_def)
  obtain r2 u where u: "resume_calls env ?c ref (approved_ids updates) (kn_pending st) ?st ?v = (r2, u)"
    by (cases "resume_calls env ?c ref (approved_ids updates) (kn_pending st) ?st ?v")
  have "kernel_acts env (\<lambda>_. True) y 0 u \<and>
      (case r2 of Step_ok (st', rest) \<Rightarrow> kn_context st' = dict_update (kn_context st) updates \<and> kn_step st' = kn_step st | _ \<Rightarrow> True)"
  proof (cases r1)
    case (Step_ok st1)
    with u y mem assms(3,4) have r2: "resume_calls env ?c ref (approved_ids updates) calls st1 y = (r2, u)"
      by (auto split: prod.splits)
    from act_resume_calls [OF _ acts_start r2] perform_call_state [OF y [unfolded Step_ok]] show ?thesis
      by (auto split: loop_step.splits)
  qed (use u y mem assms(3,4) acts_start in auto)
  then have "kernel_acts env (\<lambda>_. True) y (10 - kn_step st) (snd (resume_state env ?c ref updates st ?v))"
    by (intro act_resume_end [OF _ u]) auto
  from acts_executed [OF this] ex assms(1) ck show ?thesis by (auto simp: kernel_resume_def Let_def)
qed

subsection \<open>Pauses\<close>

text \<open>A wait whose approval is filed, pending, for the checkpoint it names.\<close>

definition wait_filed :: "string \<Rightarrow> string \<Rightarrow> kernel_world \<Rightarrow> wait_descriptor \<Rightarrow> bool" where
  "wait_filed rid ref w d \<longleftrightarrow>
     wd_checkpoint_ref d = ref \<and>
     (case Option.bind (wd_related_ref d) (\<lambda>aid. get_approval aid (kw_repo w)) of
        None \<Rightarrow> False
      | Some a \<Rightarrow> ap_status a = ''pending'' \<and> ap_checkpoint_ref a = Some ref \<and> ap_run_id a = Some rid)"

definition same_waits :: "kernel_world \<Rightarrow> kernel_world \<Rightarrow> bool" where
  "same_waits w v \<longleftrightarrow> checkpoints (kw_repo v) = checkpoints (kw_repo w) \<and> approvals (kw_repo v) = approvals (kw_repo w) \<and>
     kw_model_calls v = kw_model_calls w"

lemma same_waits_refl [simp]: "same_waits w w"
  by (simp add: same_waits_def)

lemma same_waits_trans: "same_waits w v \<Longrightarrow> same_waits v u \<Longrightarrow> same_waits w u"
  by (simp add: same_waits_def)

lemma same_waits_event [simp]: "same_waits w (kernel_event env rid corr et pl v) = same_waits w v"
  by (simp add: same_waits_def kernel_event_def repo_do_def step_checkpoints step_approvals del: repo_step.simps)

lemma same_waits_status: "set_status env rid st out err w = (b, v) \<Longrightarrow> same_waits w v"
  by (auto simp: same_waits_def set_status_def repo_do_def step_checkpoints step_approvals simp del: repo_step.simps)

lemma same_waits_filed: "same_waits w v \<Longrightarrow> wait_filed rid ref v = wait_filed rid ref w \<and> checkpoint_state ref v = checkpoint_state ref w"
  by (auto simp: same_waits_def wait_filed_def checkpoint_state_def get_approval_def get_checkpoint_def fun_eq_iff)

definition pause_ref :: "string \<Rightarrow> nat \<Rightarrow> string" where
  "pause_ref rid n = ''ckpt_'' @ rid @ ''_'' @ int_str (int n)"

lemma get_event [simp]:
  "get_checkpoint r (kw_repo (kernel_event env rid corr et pl w)) = get_checkpoint r (kw_repo w)"
  "get_approval a (kw_repo (kernel_event env rid corr et pl w)) = get_approval a (kw_repo w)"
  "kw_model_calls (kernel_event env rid corr et pl w) = kw_model_calls w"
  by (simp_all add: kernel_event_def repo_do_def get_checkpoint_def get_approval_def append_event_def Let_def)

lemma get_saved [simp]:
  "get_checkpoint r (kw_repo (repo_do (OpSaveCheckpoint c) w)) = (if ck_checkpoint_ref c = r then Some c else get_checkpoint r (kw_repo w))"
  "get_approval a (kw_repo (repo_do (OpSaveCheckpoint c) w)) = get_approval a (kw_repo w)"
  "get_checkpoint r (kw_repo (repo_do (OpSaveToolCall tc) w)) = get_checkpoint r (kw_repo w)"
  "get_approval a (kw_repo (repo_do (OpSaveToolCall tc) w)) = get_approval a (kw_repo w)"
  by (auto simp add: repo_do_def get_checkpoint_def get_approval_def save_checkpoint_def save_tool_call_def Let_def dict_get_set)

lemma get_save_state [simp]:
  "get_checkpoint r (kw_repo (save_state env c w)) =
     (if ck_checkpoint_ref c = r \<and> \<not> (kx_keeps_first env \<and> get_checkpoint r (kw_repo w) \<noteq> None) then Some c
      else get_checkpoint r (kw_repo w))"
  "get_approval a (kw_repo (save_state env c w)) = get_approval a (kw_repo w)"
  "kw_model_calls (save_state env c w) = kw_model_calls w"
  by (auto simp: save_state_def) (simp_all add: repo_do_def)

lemma get_created [simp]:
  "get_checkpoint r (kw_repo (repo_do (OpCreateApproval x) w)) = get_checkpoint r (kw_repo w)"
  "get_approval a (kw_repo (repo_do (OpCreateApproval x) w)) =
     (if ap_approval_id x = a then Some (snd (create_approval x (kw_repo w))) else get_approval a (kw_repo w))"
  by (auto simp add: repo_do_def get_checkpoint_def get_approval_def create_approval_def Let_def dict_get_set)

lemma created_fields [simp]:
  "ap_status (snd (create_approval x s)) = ap_status x"
  "ap_checkpoint_ref (snd (create_approval x s)) = ap_checkpoint_ref x"
  "ap_run_id (snd (create_approval x s)) = ap_run_id x"
  by (auto simp: create_approval_def Let_def split: option.splits)

lemma repo_do_frame [simp]: "kw_model_calls (repo_do op w) = kw_model_calls w"
  by (simp add: repo_do_def)

lemma pause_filed:
  assumes "pause_for_approval env c i name args st v = (d, u)" and "ref = pause_ref (kt_run_id c) (kn_step st)"
  shows "wait_filed (kt_run_id c) ref u d" "kw_model_calls u = kw_model_calls v"
    and "wait_filed (kt_run_id c) ref v e \<Longrightarrow> wait_filed (kt_run_id c) ref u e"
    and "\<not> kx_keeps_first env \<Longrightarrow> checkpoint_state ref u = Some st"
    and "kx_keeps_first env \<Longrightarrow> get_checkpoint ref (kw_repo v) \<noteq> None \<Longrightarrow> get_checkpoint ref (kw_repo u) = get_checkpoint ref (kw_repo v)"
    and "get_checkpoint ref (kw_repo v) = None \<Longrightarrow> checkpoint_state ref u = Some st"
  using assms
  by (auto simp: pause_for_approval_def Let_def wait_filed_def pause_ref_def kernel_wait_def tool_approval_def
      state_checkpoint_def checkpoint_state_def kernel_state_read split: Option.bind_splits if_splits)

lemma wait_filed_same [simp]:
  "wait_filed rid ref (kernel_event env i corr et pl w) = wait_filed rid ref w"
  "wait_filed rid ref (repo_do (OpSaveToolCall tc) w) = wait_filed rid ref w"
  "wait_filed rid ref (w\<lparr>kw_tick := k\<rparr>) = wait_filed rid ref w"
  "checkpoint_state ref (kernel_event env i corr et pl w) = checkpoint_state ref w"
  "checkpoint_state ref (repo_do (OpSaveToolCall tc) w) = checkpoint_state ref w"
  "checkpoint_state ref (w\<lparr>kw_tick := k\<rparr>) = checkpoint_state ref w"
  by (auto simp: wait_filed_def checkpoint_state_def fun_eq_iff)

lemma call_identifier_same:
  assumes "call_identifier env call v = (i, x)"
  shows "wait_filed rid ref x = wait_filed rid ref v" "checkpoint_state ref x = checkpoint_state ref v" "kw_model_calls x = kw_model_calls v"
    and "get_checkpoint ref (kw_repo x) = get_checkpoint ref (kw_repo v)"
  using assms by (auto simp: call_identifier_def split: if_splits)

lemma request_call_waits:
  assumes "request_call env c call st v = (Inr (st', ws), u)" and "ref = pause_ref (kt_run_id c) (kn_step st)"
  shows "list_all (wait_filed (kt_run_id c) ref u) ws \<and>
    (ws \<noteq> [] \<and> \<not> kx_keeps_first env \<longrightarrow> checkpoint_state ref u = Some st') \<and>
    (ws = [] \<longrightarrow> checkpoint_state ref u = checkpoint_state ref v) \<and>
    length (kn_pending st') = length (kn_pending st) + length ws \<and> kw_model_calls u = kw_model_calls v \<and>
    (\<forall>e. wait_filed (kt_run_id c) ref v e \<longrightarrow> wait_filed (kt_run_id c) ref u e)"
proof -
  obtain i x where x: "call_identifier env call v = (i, x)" by (cases "call_identifier env call v")
  from assms(1) x obtain args where args: "call_arguments env call = Some (PDict args)"
    by (auto simp: request_call_def Let_def split: option.splits pyval.splits)
  let ?st = "st\<lparr>kn_pending := kn_pending st @ [call]\<rparr>"
  have step: "ref = pause_ref (kt_run_id c) (kn_step ?st)" using assms(2) by simp
  from assms(1) x args call_identifier_same [OF x] pause_filed [where st = ?st, OF _ step]
  show ?thesis by (auto simp: request_call_def Let_def split: if_splits prod.splits)
qed

lemma request_calls_waits:
  assumes "ref = pause_ref (kt_run_id c) (kn_step st)" "request_calls env c calls st v = (Inr (st', ws), u)"
  shows "list_all (wait_filed (kt_run_id c) ref u) ws \<and>
    (ws \<noteq> [] \<and> \<not> kx_keeps_first env \<longrightarrow> checkpoint_state ref u = Some st') \<and>
    (ws = [] \<longrightarrow> checkpoint_state ref u = checkpoint_state ref v) \<and>
    length (kn_pending st') = length (kn_pending st) + length ws \<and> kw_model_calls u = kw_model_calls v \<and>
    (\<forall>e. wait_filed (kt_run_id c) ref v e \<longrightarrow> wait_filed (kt_run_id c) ref u e)"
  using assms
proof (induction calls arbitrary: st v ws)
  case (Cons call calls)
  from Cons.prems(2) obtain st1 ws1 x ws2 where
    one: "request_call env c call st v = (Inr (st1, ws1), x)" and
    more: "request_calls env c calls st1 x = (Inr (st', ws2), u)" and ws: "ws = ws1 @ ws2"
    by (auto split: prod.splits sum.splits)
  note p = request_call_waits [OF one Cons.prems(1)]
  from request_call_state [OF one] Cons.prems(1) have "ref = pause_ref (kt_run_id c) (kn_step st1)" by simp
  note q = Cons.IH [OF this more]
  have same: "st' = st1" if "ws2 = []" using request_calls_state [OF more] that by blast
  from p q have "list_all (wait_filed (kt_run_id c) ref u) ws" unfolding ws by (auto simp: list_all_iff)
  moreover from p q same have "ws \<noteq> [] \<and> \<not> kx_keeps_first env \<longrightarrow> checkpoint_state ref u = Some st'" unfolding ws
    by (cases "ws2 = []") auto
  ultimately show ?case using p q unfolding ws by auto
qed simp

text \<open>What a repository that keeps the first record of a reference stores: the calls of one turn share their
  reference, so only the first of them that waits is in the checkpoint, whatever the number of waits.\<close>

lemma kept_checkpoint:
  assumes "kx_keeps_first env" "ref = pause_ref (kt_run_id c) (kn_step st)"
  shows "request_call env c call st v = (Inr (st', ws), u) \<Longrightarrow> get_checkpoint ref (kw_repo v) \<noteq> None \<Longrightarrow>
      get_checkpoint ref (kw_repo u) = get_checkpoint ref (kw_repo v)"
    and "request_call env c call st v = (Inr (st', ws), u) \<Longrightarrow> get_checkpoint ref (kw_repo v) = None \<Longrightarrow>
      (if ws = [] then st' = st \<and> get_checkpoint ref (kw_repo u) = None
       else st' = st\<lparr>kn_pending := kn_pending st @ [call]\<rparr> \<and> checkpoint_state ref u = Some st')"
proof -
  obtain i x where x: "call_identifier env call v = (i, x)" by (cases "call_identifier env call v")
  let ?st = "st\<lparr>kn_pending := kn_pending st @ [call]\<rparr>"
  have step: "ref = pause_ref (kt_run_id c) (kn_step ?st)" using assms(2) by simp
  note same = call_identifier_same(4) [OF x] pause_filed(5,6) [where st = ?st, OF _ step]
  show "get_checkpoint ref (kw_repo u) = get_checkpoint ref (kw_repo v)"
    if "request_call env c call st v = (Inr (st', ws), u)" "get_checkpoint ref (kw_repo v) \<noteq> None"
    using that x same assms(1) by (auto simp: request_call_def Let_def split: option.splits pyval.splits if_splits prod.splits)
  show "if ws = [] then st' = st \<and> get_checkpoint ref (kw_repo u) = None
       else st' = ?st \<and> checkpoint_state ref u = Some st'"
    if "request_call env c call st v = (Inr (st', ws), u)" "get_checkpoint ref (kw_repo v) = None"
    using that x same assms(1) by (auto simp: request_call_def Let_def split: option.splits pyval.splits if_splits prod.splits)
qed

lemma kept_checkpoints:
  assumes "kx_keeps_first env"
  shows "request_calls env c calls st v = (Inr (st', ws), u) \<Longrightarrow> ref = pause_ref (kt_run_id c) (kn_step st) \<Longrightarrow>
    get_checkpoint ref (kw_repo v) \<noteq> None \<Longrightarrow> get_checkpoint ref (kw_repo u) = get_checkpoint ref (kw_repo v)"
proof (induction calls arbitrary: st v ws)
  case (Cons call calls)
  from Cons.prems(1) obtain st1 ws1 x ws2 where one: "request_call env c call st v = (Inr (st1, ws1), x)"
    and more: "request_calls env c calls st1 x = (Inr (st', ws2), u)" by (auto split: prod.splits sum.splits)
  from kept_checkpoint(1) [OF assms Cons.prems(2) one Cons.prems(3)] Cons.IH [OF more] request_call_state [OF one] Cons.prems
  show ?case by simp
qed simp

lemma first_wait_kept:
  assumes "kx_keeps_first env"
  shows "request_calls env c calls st v = (Inr (st', ws), u) \<Longrightarrow> ref = pause_ref (kt_run_id c) (kn_step st) \<Longrightarrow>
    get_checkpoint ref (kw_repo v) = None \<Longrightarrow> ws \<noteq> [] \<Longrightarrow>
    \<exists>call. call \<in> set calls \<and> checkpoint_state ref u = Some (st\<lparr>kn_pending := kn_pending st @ [call]\<rparr>)"
proof (induction calls arbitrary: st v ws)
  case (Cons call calls)
  from Cons.prems(1) obtain st1 ws1 x ws2 where one: "request_call env c call st v = (Inr (st1, ws1), x)"
    and more: "request_calls env c calls st1 x = (Inr (st', ws2), u)" and ws: "ws = ws1 @ ws2" by (auto split: prod.splits sum.splits)
  note first = kept_checkpoint(2) [OF assms Cons.prems(2) one Cons.prems(3)]
  show ?case
  proof (cases "ws1 = []")
    case True
    with first Cons.IH [OF more, of] Cons.prems ws show ?thesis by auto
  next
    case False
    with first have s: "st1 = st\<lparr>kn_pending := kn_pending st @ [call]\<rparr>" "checkpoint_state ref x = Some st1" by simp_all
    then have "get_checkpoint ref (kw_repo x) \<noteq> None" by (auto simp: checkpoint_state_def split: Option.bind_splits)
    from kept_checkpoints [OF assms more _ this] s Cons.prems(2)
    have "checkpoint_state ref u = Some st1" by (simp add: checkpoint_state_def)
    with s(1) show ?thesis by auto
  qed
qed simp

text \<open>What a result with waits means, after \<open>n\<close> turns: every wait names the checkpoint and has its approval; the
  in-memory repository holds the state there.\<close>

definition paused_at :: "kernel_env \<Rightarrow> string \<Rightarrow> nat \<Rightarrow> kernel_result \<Rightarrow> kernel_world \<Rightarrow> bool" where
  "paused_at env rid n r w \<longleftrightarrow>
     list_all (wait_filed rid (pause_ref rid n) w) (kr_waits r) \<and>
     (kx_keeps_first env \<or>
      (case checkpoint_state (pause_ref rid n) w of
         None \<Rightarrow> False
       | Some st \<Rightarrow> kn_step st = n \<and> length (kn_pending st) = length (kr_waits r)))"

lemma finish_waiting_paused:
  assumes "finish_waiting env rid corr ws v = (r, u)"
  shows "same_waits v u \<and> (kr_waits r = [] \<or> kr_waits r = ws)"
  using assms
  by (auto simp: finish_waiting_def reload_terminal_result_def plain_result_def Let_def same_waits_status split: prod.splits if_splits)

lemma perform_same_calls: "perform_call env c i name args ref st v = (r, u) \<Longrightarrow> kw_model_calls u = kw_model_calls v"
  by (auto simp: perform_call_def execute_tool_def let_others_def Let_def split: prod.splits option.splits tool_result.splits)

lemma performs_same_calls:
  "perform_calls env c calls st v = (r, u) \<Longrightarrow>
     kw_model_calls u = kw_model_calls v \<and>
     (case r of Step_ok st' \<Rightarrow> kn_step st' = kn_step st \<and> kn_pending st' = kn_pending st | _ \<Rightarrow> True)"
proof (induction calls arbitrary: st v r)
  case (Cons call calls)
  obtain i x where x: "call_identifier env call v = (i, x)" by (cases "call_identifier env call v")
  note same = call_identifier_same(3) [OF x]
  show ?case
  proof (cases "\<exists>args. call_arguments env call = Some (PDict args)")
    case True
    then obtain args where args: "call_arguments env call = Some (PDict args)" by blast
    obtain r1 y where y: "perform_call env c i (kc_name call) args None st x = (r1, y)"
      by (cases "perform_call env c i (kc_name call) args None st x")
    show ?thesis
    proof (cases r1)
      case (Step_ok st1)
      with Cons.prems x args y have "perform_calls env c calls st1 y = (r, u)" by simp
      from Cons.IH [OF this] perform_call_state [OF y [unfolded Step_ok]] perform_same_calls [OF y] same show ?thesis
        by (auto split: loop_step.splits)
    qed (use Cons.prems x args y perform_same_calls [OF y] same in auto)
  qed (use Cons.prems x same in \<open>auto split: option.splits pyval.splits loop_step.splits\<close>)
qed (auto split: loop_step.splits)

lemma finish_no_waits: "finish_run env c resp w = (r, u) \<Longrightarrow> kr_waits r = []"
  by (auto simp: finish_run_def fail_validation_def complete_run_def reload_terminal_result_def plain_result_def Let_def
      split: prod.splits if_splits)

lemma turn_paused:
  assumes "run_turn env c st v = (r, u)" "kn_pending st = []"
  shows "case r of
      Turn_done res \<Rightarrow> kr_waits res = [] \<or> (paused_at env (kt_run_id c) (Suc (kn_step st)) res u \<and> kw_model_calls u = Suc (kw_model_calls v))
    | Turn_next st' \<Rightarrow> kn_step st' = Suc (kn_step st) \<and> kn_pending st' = [] \<and> kw_model_calls u = Suc (kw_model_calls v)
    | _ \<Rightarrow> True"
proof (cases "kt_run_id c \<in> set (kw_cancelled v)")
  case True with assms show ?thesis by (auto simp: run_turn_def plain_result_def)
next
  case False
  let ?st = "st\<lparr>kn_step := Suc (kn_step st)\<rparr>"
  obtain m x where x: "call_model env c (kn_messages ?st) v = (m, x)" by (cases "call_model env c (kn_messages ?st) v")
  show ?thesis
  proof (cases m)
    case (Inl e) with False x assms(1) show ?thesis by (auto simp: run_turn_def split: turn_result.splits)
  next
    case (Inr resp)
    with x have calls: "kw_model_calls x = Suc (kw_model_calls v)"
      by (auto simp: call_model_def let_others_def Let_def split: option.splits client_answer.splits)
    obtain st2 y where y: "take_content env c (mo_content resp) ?st x = (st2, y)"
      by (cases "take_content env c (mo_content resp) ?st x")
    then have st2: "kn_step st2 = Suc (kn_step st)" "kn_pending st2 = []" "kw_model_calls y = kw_model_calls x"
      using assms(2) by (auto simp: take_content_def split: if_splits)
    show ?thesis
    proof (cases "mo_tool_calls resp = []")
      case True
      with False x y Inr assms(1) show ?thesis by (auto simp: run_turn_def dest: finish_no_waits split: prod.splits turn_result.splits)
    next
      case some: False
      with False x y Inr assms(1) have r: "handle_calls env c (mo_tool_calls resp) st2 y = (r, u)" by (simp add: run_turn_def)
      obtain q z where z: "request_calls env c (mo_tool_calls resp) st2 y = (q, z)"
        by (cases "request_calls env c (mo_tool_calls resp) st2 y")
      show ?thesis
      proof (cases q)
        case (Inl e) with r z show ?thesis by (auto simp: handle_calls_def split: turn_result.splits)
      next
        case q: (Inr p)
        obtain st3 ws where p: "p = (st3, ws)" by (cases p)
        note req = request_calls_waits [OF refl z [unfolded q p]] request_calls_state [OF z [unfolded q p]]
        show ?thesis
        proof (cases "ws = []")
          case True
          obtain q2 t where t: "perform_calls env c (mo_tool_calls resp) st3 z = (q2, t)"
            by (cases "perform_calls env c (mo_tool_calls resp) st3 z")
          from performs_same_calls [OF t] req True r z q p t st2 calls show ?thesis
            by (cases q2) (auto simp: handle_calls_def)
        next
          case ws: False
          obtain res t where t: "finish_waiting env (kt_run_id c) (kt_corr c) ws z = (res, t)"
            by (cases "finish_waiting env (kt_run_id c) (kt_corr c) ws z")
          let ?ref = "pause_ref (kt_run_id c) (kn_step st2)"
          note fin = finish_waiting_paused [OF t]
          have ru: "r = Turn_done res" "u = t" using r z q p ws t by (simp_all add: handle_calls_def)
          from conjunct1 [OF fin] have same: "wait_filed (kt_run_id c) ?ref t = wait_filed (kt_run_id c) ?ref z"
              "checkpoint_state ?ref t = checkpoint_state ?ref z" "kw_model_calls t = kw_model_calls z"
            using same_waits_filed [of z t] by (simp_all add: same_waits_def)
          from req ws have "kx_keeps_first env \<or> checkpoint_state ?ref t = Some st3" unfolding same by blast
          moreover from req ws st2 calls have "list_all (wait_filed (kt_run_id c) ?ref t) ws"
              "length (kn_pending st3) = length ws" "kn_step st3 = kn_step st2" "kw_model_calls t = Suc (kw_model_calls v)"
            unfolding same by simp_all
          ultimately show ?thesis using conjunct2 [OF fin] st2(1) unfolding ru paused_at_def
            by (cases "kx_keeps_first env") (elim disjE; simp)+
        qed
      qed
    qed
  qed
qed

lemma turns_paused:
  "execute_reasoning_loop env c st v = (Kernel_returned r, u) \<Longrightarrow> kn_pending st = [] \<Longrightarrow>
     kr_waits r = [] \<or> (\<exists>n. paused_at env (kt_run_id c) n r u \<and> n + kw_model_calls v = kn_step st + kw_model_calls u \<and> n \<le> 10)"
proof (induction "10 - kn_step st" arbitrary: st v rule: less_induct)
  case less
  show ?case
  proof (cases "kn_step st < 10")
    case False
    with less.prems(1) show ?thesis
      by (auto simp: execute_reasoning_loop.simps [of env c st v] out_of_turns_def reload_terminal_result_def plain_result_def Let_def
          split: prod.splits if_splits)
  next
    case True
    obtain q x where x: "run_turn env c st v = (q, x)" by (cases "run_turn env c st v")
    note t = turn_paused [OF x less.prems(2)]
    show ?thesis
    proof (cases q)
      case (Turn_done res)
      with t x True less.prems(1) show ?thesis
        by (auto simp: execute_reasoning_loop.simps [of env c st v] intro!: exI [of _ "Suc (kn_step st)"])
    next
      case (Turn_next st')
      with t have st': "kn_step st' = Suc (kn_step st)" "kn_pending st' = []" "kw_model_calls x = Suc (kw_model_calls v)" by auto
      moreover from Turn_next x True less.prems(1) have "execute_reasoning_loop env c st' x = (Kernel_returned r, u)"
        by (simp add: execute_reasoning_loop.simps [of env c st v])
      moreover from st'(1) True have "10 - kn_step st' < 10 - kn_step st" by simp
      ultimately show ?thesis using less.hyps [of st' x] by auto
    next
      case (Turn_error e)
      with x True less.prems(1) show ?thesis
        by (auto simp: execute_reasoning_loop.simps [of env c st v] fail_from_runtime_error_def reload_terminal_result_def
            plain_result_def Let_def split: prod.splits if_splits)
    qed (use x True less.prems(1) in \<open>simp add: execute_reasoning_loop.simps [of env c st v]\<close>)
  qed
qed

text \<open>C36. A pause can be resumed. When a run returns waits after \<open>n\<close> calls of the model, all of them name one
  checkpoint and the approval of every wait is filed, pending, for this run and this checkpoint. In the repository
  that overwrites (the one in memory) the checkpoint is stored and holds a state from which a resume goes on, with as
  many turns taken as the model was asked, the rest of the ten turns left and one waiting call per wait. For the
  repository that keeps the first record of a reference, \<open>first_wait_kept\<close> tells what is stored: the first call
  of the turn that waits, so a turn with two gated calls returns two waits and a checkpoint with one call.\<close>

theorem pauses_resumable:
  "case kernel_run env req spec w of
     (Kernel_returned r, w') \<Rightarrow>
       kr_waits r = [] \<or>
       (\<exists>n. paused_at env (kr_run_id r) n r w' \<and> kw_model_calls w' = kw_model_calls w + n \<and> n \<le> 10 \<and>
            (kx_keeps_first env \<or> turns_left (pause_ref (kr_run_id r) n) w' = 10 - n))
   | _ \<Rightarrow> True"
proof (cases "kernel_run env req spec w")
  case (Pair res w')
  show ?thesis
  proof (cases res)
    case (Kernel_returned r)
    with Pair obtain c st v where v: "execute_reasoning_loop env c st v = (Kernel_returned r, w')"
        "kn_step st = 0" "kn_pending st = []" "kw_model_calls v = kw_model_calls w"
      by (cases rule: kernel_run_cases [of env req spec w]) auto
    from reported_turns [OF v(1)] have "kr_run_id r = kt_run_id c" by (auto simp: run_reported_def reported_def plain_result_def)
    with turns_paused [OF v(1,3)] v(2,4) Pair Kernel_returned show ?thesis
      by (auto simp: paused_at_def turns_left_def split: option.splits)
  qed (use Pair in simp)
qed

subsection \<open>The prompt\<close>

definition line_breaks :: "string \<Rightarrow> nat" where
  "line_breaks s = count_list s (CHR 10)"

lemma line_breaks_append [simp]: "line_breaks (s @ t) = line_breaks s + line_breaks t"
  by (simp add: line_breaks_def)

lemma line_breaks_Cons [simp]: "line_breaks (c # s) = (if c = CHR 10 then 1 else 0) + line_breaks s"
  by (simp add: line_breaks_def)

lemma line_breaks_Nil [simp]: "line_breaks [] = 0"
  by (simp add: line_breaks_def)

lemma one_line_breaks: "one_line s \<Longrightarrow> line_breaks s = 0"
  unfolding line_breaks_def by (rule count_notin) (rule one_line_no_newline)

lemma join_breaks:
  "line_breaks (join_with sep ss) = sum_list (map line_breaks ss) + line_breaks sep * (length ss - 1)"
  by (induction sep ss rule: join_with.induct) (auto simp: algebra_simps)

lemma section_breaks:
  assumes "list_all one_line ls" "length ls \<le> n"
  shows "length (lines_section h ls t) \<le> 1 \<and> sum_list (map line_breaks (lines_section h ls t)) \<le> line_breaks h + line_breaks t + n"
proof -
  have "map line_breaks ls = replicate (length ls) 0"
    using assms(1) by (induction ls) (auto simp: one_line_breaks)
  then have "line_breaks (join_with [CHR 10] ls) = length ls - 1" unfolding join_breaks by (simp add: sum_list_replicate)
  with assms(2) have "line_breaks (join_with [CHR 10] ls) + 1 \<le> n \<or> ls = []" by (cases ls) simp_all
  then show ?thesis by (auto simp: lines_section_def)
qed

lemma one_line_dash: "one_line (CHR ''-'' # CHR '' '' # s) = one_line s" "one_line (CHR '':'' # CHR '' '' # s) = one_line s"
  by (simp_all add: one_line_def py_isspace_def)

lemma context_items_lines: "list_all one_line (map (\<lambda>f. CHR ''-'' # CHR '' '' # take n f) (take m (context_items xs)))"
  "list_all one_line (map (take n) (take m (context_items xs)))"
  using context_items_one_line [of xs] by (auto simp: list_all_iff one_line_dash dest!: in_set_takeD intro: one_line_take)

lemma session_lines_confined:
  assumes "pu_session b = build_session_context str ws md"
  shows "list_all one_line (session_lines b)" "length (session_lines b) \<le> 4"
proof -
  have "one_line k" if "(k, v) \<in> set (pu_session b)" for k v
    using that by (auto simp: assms build_session_context_def one_line_def py_isspace_def)
  then show "list_all one_line (session_lines b)"
    by (auto simp: session_lines_def list_all_iff one_line_dash)
  have "length (session_lines b) \<le> length (pu_session b)" by (simp add: session_lines_def)
  also have "\<dots> = 4" by (simp add: assms build_session_context_def)
  finally show "length (session_lines b) \<le> 4" .
qed

text \<open>The parts of the prompt that are no context lines.\<close>

definition fixed_breaks :: "prompt_texts \<Rightarrow> prompt_bundle \<Rightarrow> nat" where
  "fixed_breaks texts b =
     line_breaks (pt_platform_policy texts) + line_breaks (pu_agent_instructions b)
     + sum_list (map line_breaks (pu_skill_instructions b))
     + line_breaks (pt_session_head texts) + line_breaks (pt_session_tail texts) + line_breaks (pt_facts_head texts)
     + line_breaks (pt_goal_head texts) + line_breaks (pt_criteria_head texts) + line_breaks (pt_style texts)
     + line_breaks (pt_locale_head texts) + line_breaks (or_else (Some (pu_locale b)) ''vi-VN'') + line_breaks (pt_locale_tail texts)"

text \<open>C38. What a request tells about its work cannot write instructions. In the prompt of a run, the session,
  the project facts, the goals and the done criteria stand on lines of their own: at most 4, 20, 12 and 12 of them,
  none with a line break inside; a line of a fact, a goal or a criterion has at most 502 characters, while the
  length of a session line is not limited. So whatever these values hold, they add at most 49 lines to those of the
  fixed parts.\<close>

theorem context_stays_on_its_lines:
  "let b = kernel_bundle env req spec skills; texts = kx_texts env in
     list_all one_line (session_lines b @ fact_lines b @ goal_lines b @ criteria_lines b) \<and>
     length (session_lines b) \<le> 4 \<and> length (fact_lines b) \<le> 20 \<and> length (goal_lines b) \<le> 12 \<and> length (criteria_lines b) \<le> 12 \<and>
     list_all (\<lambda>l. length l \<le> 502) (fact_lines b @ goal_lines b @ criteria_lines b) \<and>
     line_breaks (render_prompt texts b) \<le> fixed_breaks texts b + 2 * (length (pu_skill_instructions b) + 7) + 49"
proof -
  let ?b = "kernel_bundle env req spec skills"
  let ?t = "kx_texts env"
  have session: "list_all one_line (session_lines ?b)" "length (session_lines ?b) \<le> 4"
    by (rule session_lines_confined [where str = "kx_str env" and ws = "rq_workspace_id req" and md = "rq_metadata req"];
        simp add: kernel_bundle_def Let_def)+
  have facts: "list_all one_line (fact_lines ?b)" "length (fact_lines ?b) \<le> 20"
    by (simp_all add: fact_lines_def context_items_lines)
  have goal: "list_all one_line (goal_lines ?b)" "length (goal_lines ?b) \<le> 12"
    by (simp_all add: goal_lines_def context_items_lines)
  have criteria: "list_all one_line (criteria_lines ?b)" "length (criteria_lines ?b) \<le> 12"
    by (simp_all add: criteria_lines_def context_items_lines)
  have short: "list_all (\<lambda>l. length l \<le> 502) (fact_lines ?b @ goal_lines ?b @ criteria_lines ?b)"
    by (auto simp: fact_lines_def goal_lines_def criteria_lines_def list_all_iff)
  let ?secs = "prompt_sections ?t ?b"
  note s = section_breaks [OF session, of "pt_session_head ?t" "CHR 10 # pt_session_tail ?t"]
    section_breaks [OF facts, of "pt_facts_head ?t" "[]"] section_breaks [OF goal, of "pt_goal_head ?t" "[]"]
    section_breaks [OF criteria, of "pt_criteria_head ?t" "[]"]
  have "length ?secs - 1 \<le> length (pu_skill_instructions ?b) + 7"
    using s by (auto simp: prompt_sections_def)
  moreover have "sum_list (map line_breaks ?secs) \<le> fixed_breaks ?t ?b + 49"
    using s by (auto simp: prompt_sections_def fixed_breaks_def)
  ultimately have "line_breaks (render_prompt ?t ?b) \<le> fixed_breaks ?t ?b + 2 * (length (pu_skill_instructions ?b) + 7) + 49"
    by (simp add: render_prompt_def join_breaks)
  with session facts goal criteria short show ?thesis by (simp add: Let_def)
qed

subsection \<open>Instances\<close>

definition sample_kernel_env :: kernel_env where
  "sample_kernel_env =
     \<lparr>kx_client = None, kx_executor = Some (\<lambda>t name args c. Exec_value (PStr name)), kx_policy = None, kx_others = (\<lambda>t. []),
      kx_cancels = (\<lambda>t. []), kx_clock = (\<lambda>t. int t), kx_uuid = (\<lambda>t. replicate t (CHR ''u'')),
      kx_loads = (\<lambda>s. if s = ''{}'' then Some (PDict []) else None), kx_dumps = (\<lambda>v. ''json''), kx_hash = (\<lambda>v. ''hash''),
      kx_repr = (\<lambda>d. ''{}''), kx_iso = (\<lambda>t. ''time''), kx_schema_error = (\<lambda>v s. None),
      kx_spec = \<lparr>se_definition_hash = (\<lambda>p. ''h''), se_json_sha256 = (\<lambda>p. ''h''), se_isoformat = (\<lambda>t. ''time'')\<rparr>,
      kx_str = (\<lambda>v. ''text''), kx_js_number = (\<lambda>v. ''0''),
      kx_texts = \<lparr>pt_platform_policy = ''policy'', pt_session_head = ''session'', pt_session_tail = ''tail'', pt_facts_head = ''facts'',
                   pt_goal_head = ''goal'', pt_criteria_head = ''criteria'', pt_style = ''style'', pt_locale_head = ''locale '',
                   pt_locale_tail = ''.'', pt_smalltalk = [''hi'']\<rparr>,
      kx_keeps_first = False\<rparr>"

definition sample_pending :: kernel_call where
  "sample_pending = \<lparr>kc_call_id = ''c1'', kc_name = ''bank.transfer'', kc_arguments = ''{}''\<rparr>"

definition sample_kernel_state :: kernel_state where
  "sample_kernel_state =
     \<lparr>kn_run_id = ''r1'', kn_messages = [], kn_pending = [sample_pending], kn_completed = [], kn_context = [], kn_step = 1\<rparr>"

text \<open>A cancelled run with a checkpoint in which a call waits.\<close>

definition sample_kernel_world :: kernel_world where
  "sample_kernel_world =
     \<lparr>kw_repo = repo_step (OpSaveCheckpoint (state_checkpoint ''r1'' None sample_kernel_state 0 ''ck''))
                  (repo_step (OpCreateRun (sample_run ''r1'' RS_CANCELLED)) empty_repo),
      kw_registry = [], kw_tick = 0, kw_cancelled = [], kw_executed = [], kw_model_calls = 0\<rparr>"

lemma sample_kernel_facts:
  "get_run ''r1'' (kw_repo sample_kernel_world) = Some (sample_run ''r1'' RS_CANCELLED)"
  "checkpoint_state ''ck'' sample_kernel_world = Some sample_kernel_state"
  "run_status_of (kw_repo sample_kernel_world) ''r1'' = Some RS_CANCELLED"
  by (simp_all add: sample_kernel_world_def checkpoint_state_def get_run_def get_checkpoint_def save_checkpoint_def create_run_def
      Let_def kernel_state_read run_status_of_def state_checkpoint_def sample_run_def empty_repo_def)

text \<open>Witness of C35: the cancelled run stays cancelled when its checkpoint is resumed.\<close>

theorem ended_run_kept_witness:
  "ended_as ''r1'' (sample_run ''r1'' RS_CANCELLED) (kw_repo (snd (kernel_resume sample_kernel_env ''r1'' ''ck'' [] sample_kernel_world)))"
  using ended_run_kept [OF sample_kernel_facts(1), of sample_kernel_env "''ck''" "[]" None]
  by (auto simp: run_terminal_def sample_kernel_env_def sample_run_def Let_def split: prod.splits)

text \<open>Witness of C39: the transfer that waits in the checkpoint of the cancelled run is executed although the update
  rejects it.\<close>

theorem rejected_call_executed_witness:
  "\<exists>xs. kw_executed (snd (kernel_resume sample_kernel_env ''r1'' ''ck''
        [(''approved_tool_calls'', PDict [(''c1'', PBool False)])] sample_kernel_world)) = (''c1'', ''bank.transfer'', []) # xs"
  using rejected_call_executed [OF sample_kernel_facts(1,2), of sample_pending "[]" sample_kernel_env "[]"
      "\<lambda>t name args c. Exec_value (PStr name)" "[(''approved_tool_calls'', PDict [(''c1'', PBool False)])]" False]
  by (simp add: sample_kernel_state_def sample_pending_def sample_kernel_env_def sample_kernel_world_def call_arguments_def or_else_def)

end
