(* ===== verification/TenantPolicy.thy ===== *)
theory TenantPolicy
  imports Gateway Texts "HOL-Library.Char_ord" "HOL-Library.List_Lexorder"
begin

text \<open>
  The policy of a tenant (\<open>apps/cosa/policies\<close>): the snapshot of its rules and grants (\<open>snapshot.py\<close>), the business
  permission rules (\<open>business_permission_evaluator.py\<close>), the statutory floor (\<open>compliance/statutory_floor.py\<close>) and
  the engine that the capability gateway asks (\<open>evaluator.py\<close>); the table of tiers of every capability
  (\<open>capabilities/access_matrix.py\<close>, \<open>domain_draft.py\<close>) and the live authorizer that reads it
  (\<open>authorization/live_authorizer.py\<close>). An exception is its class name. The model validation of pydantic
  (\<open>PolicySnapshot.model_validate\<close>), which also lets a snapshot object through, is a parameter; an object of class
  \<open>ComplianceSnapshot\<close> is read as the dictionary of its fields. The service client of the live authorizer is a
  parameter too.
\<close>

subsection \<open>The policy snapshot\<close>

record tenant_policy_rule =
  tr_tool_pattern :: string
  tr_decision :: string
  tr_reason :: "string option"

record business_permission_rule =
  br_permission_key :: string
  br_effect :: string
  br_conditions :: payload

record agent_capability_authority =
  cau_capability_id :: string
  cau_permission_key :: string
  cau_risk_class :: string
  cau_grant_id :: string
  cau_constraints :: payload

record agent_authorization_snapshot =
  az_authorization_epoch :: int
  az_grants :: "agent_capability_authority list"

record business_policy_rule_set =
  bp_is_founder :: bool
  bp_policy_version :: int
  bp_authorization_epoch :: int
  bp_rule_groups :: "business_permission_rule list list"
  bp_agent_capabilities :: "agent_capability_authority list"

record policy_snapshot =
  ps_workspace_id :: string
  ps_workspace_status :: string
  ps_principal_status :: string
  ps_rules :: "tenant_policy_rule list"
  ps_snapshot_hash :: string
  ps_business_policy_ref :: "payload option"
  ps_agent_authority :: "agent_authorization_snapshot option"
  ps_business_policy_rules :: "business_policy_rule_set option"

text \<open>\<open>max(xs, key=f)\<close>: the first of the largest.\<close>

definition py_max_by :: "('a \<Rightarrow> nat) \<Rightarrow> 'a \<Rightarrow> 'a list \<Rightarrow> 'a" where
  "py_max_by f x xs = foldl (\<lambda>b y. if f b < f y then y else b) x xs"

text \<open>\<open>pattern.endswith(".*") and s.startswith(pattern[:-1])\<close>.\<close>

definition wildcard_matches :: "string \<Rightarrow> string \<Rightarrow> bool" where
  "wildcard_matches pat s \<longleftrightarrow> py_endswith pat ''.*'' \<and> py_startswith s (butlast pat)"

definition snapshot_match :: "policy_snapshot \<Rightarrow> string \<Rightarrow> tenant_policy_rule option" where
  "snapshot_match snap cap =
     (case List.find (\<lambda>r. tr_tool_pattern r = cap) (ps_rules snap) of
        Some r \<Rightarrow> Some r
      | None \<Rightarrow>
          (case filter (\<lambda>r. wildcard_matches (tr_tool_pattern r) cap) (ps_rules snap) of
             r # rs \<Rightarrow> Some (py_max_by (\<lambda>x. length (tr_tool_pattern x)) r rs)
           | [] \<Rightarrow> List.find (\<lambda>r. tr_tool_pattern r = ''*'') (ps_rules snap)))"

text \<open>\<open>int(minor) > int(limit)\<close>, where \<open>minor\<close> is the amount or its \<open>minor\<close> entry.\<close>

definition amount_minor :: "pyval \<Rightarrow> pyval" where
  "amount_minor a = (case a of PDict d \<Rightarrow> ctx_get d ''minor'' | _ \<Rightarrow> a)"

definition int_exceeds :: "pyval \<Rightarrow> pyval \<Rightarrow> string + bool" where
  "int_exceeds a b =
     (case py_int a of Inl e \<Rightarrow> Inl e
      | Inr m \<Rightarrow> (case py_int b of Inl e \<Rightarrow> Inl e | Inr n \<Rightarrow> Inr (n < m)))"

definition has_key :: "payload \<Rightarrow> string \<Rightarrow> bool" where
  "has_key d k \<longleftrightarrow> dict_get d k \<noteq> None"

definition check_currency ::
  "agent_capability_authority \<Rightarrow> payload \<Rightarrow> bool \<times> string \<times> agent_capability_authority option" where
  "check_currency grant payload =
     (let cs = cau_constraints grant in
      if has_key cs ''currency'' \<and> payload \<noteq> [] then
        (case ctx_get payload ''amount'' of
           PDict a \<Rightarrow>
             if ctx_get a ''currency'' \<noteq> ctx_get cs ''currency''
             then (False, ''CONSTRAINT_CURRENCY_MISMATCH'', Some grant) else (True, ''ALLOWED'', Some grant)
         | _ \<Rightarrow> (True, ''ALLOWED'', Some grant))
      else (True, ''ALLOWED'', Some grant))"

definition resolve_authority ::
  "agent_authorization_snapshot \<Rightarrow> string \<Rightarrow> payload \<Rightarrow> string + bool \<times> string \<times> agent_capability_authority option" where
  "resolve_authority auth cap payload =
     (case filter (\<lambda>g. cau_capability_id g = cap) (az_grants auth) of
        [] \<Rightarrow> Inr (False, ''MISSING_AGENT_CAPABILITY_GRANT'', None)
      | grant # _ \<Rightarrow>
          let cs = cau_constraints grant; amount = ctx_get payload ''amount'' in
          if has_key cs ''maxAmountMinor'' \<and> payload \<noteq> [] then
            if amount = PNone then Inr (False, ''MISSING_REQUIRED_FACT_AMOUNT'', Some grant)
            else if amount_minor amount = PNone then Inr (check_currency grant payload)
            else
              (case int_exceeds (amount_minor amount) (ctx_get cs ''maxAmountMinor'') of
                 Inl e \<Rightarrow> Inl e
               | Inr True \<Rightarrow> Inr (False, ''CONSTRAINT_AMOUNT_EXCEEDED'', Some grant)
               | Inr False \<Rightarrow> Inr (check_currency grant payload))
          else Inr (check_currency grant payload))"

subsection \<open>Business permission rules\<close>

definition combine_permission_rules :: "business_permission_rule list \<Rightarrow> string" where
  "combine_permission_rules rules =
     (if rules = [] \<or> list_ex (\<lambda>r. br_effect r = ''DENY'') rules then ''DENY''
      else if list_ex (\<lambda>r. br_effect r = ''REQUIRE_APPROVAL'') rules then ''REQUIRE_APPROVAL''
      else ''ALLOW'')"

definition rule_specificity :: "string \<Rightarrow> string \<Rightarrow> int" where
  "rule_specificity action key =
     (if key = action then 2 else if wildcard_matches key action then 1 else if key = ''*'' then 0 else - 1)"

text \<open>The loop: the best rule so far and its specificity.\<close>

definition better_rule ::
  "string \<Rightarrow> business_permission_rule option \<times> int \<Rightarrow> business_permission_rule \<Rightarrow> business_permission_rule option \<times> int" where
  "better_rule action best rule =
     (let key = br_permission_key rule; s = rule_specificity action key in
      if key \<noteq> [] \<and> snd best < s then (Some rule, s) else best)"

definition best_rule :: "string \<Rightarrow> business_permission_rule list \<Rightarrow> business_permission_rule option" where
  "best_rule action rules = fst (foldl (better_rule action) (None, - 1) rules)"

definition deny_rule :: "business_permission_rule \<Rightarrow> business_permission_rule" where
  "deny_rule r = r\<lparr>br_effect := ''DENY''\<rparr>"

definition apply_conditions :: "payload \<Rightarrow> business_permission_rule \<Rightarrow> string + business_permission_rule" where
  "apply_conditions facts rule =
     (let cs = br_conditions rule; amount = ctx_get facts ''amount'' in
      if (has_key cs ''maxAmountMinor'' \<or> has_key cs ''currency'') \<and> \<not> truthy amount then Inr (deny_rule rule)
      else if cs \<noteq> [] \<and> truthy amount then
        (case amount of
           PDict a \<Rightarrow>
             (case py_int (py_or (ctx_get a ''minor'') (PStr ''0'')) of
                Inl e \<Rightarrow> Inl e
              | Inr minor \<Rightarrow>
                  if truthy (ctx_get cs ''currency'') \<and> ctx_get cs ''currency'' \<noteq> ctx_get a ''currency''
                  then Inr (deny_rule rule)
                  else if ctx_get cs ''maxAmountMinor'' = PNone then Inr rule
                  else
                    (case py_int (ctx_get cs ''maxAmountMinor'') of
                       Inl e \<Rightarrow> Inl e
                     | Inr limit \<Rightarrow> Inr (if limit < minor then deny_rule rule else rule)))
         | _ \<Rightarrow> Inl ''AttributeError'')
      else Inr rule)"

definition match_best_rule_in_role ::
  "business_permission_rule list \<Rightarrow> string \<Rightarrow> payload \<Rightarrow> string + business_permission_rule option" where
  "match_best_rule_in_role rules action facts =
     (case best_rule action rules of
        None \<Rightarrow> Inr None
      | Some r \<Rightarrow> map_sum id Some (apply_conditions facts r))"

fun applicable_rules ::
  "string \<Rightarrow> payload \<Rightarrow> business_permission_rule list list \<Rightarrow> string + business_permission_rule list" where
  "applicable_rules action facts [] = Inr []"
| "applicable_rules action facts (g # gs) =
     (case match_best_rule_in_role g action facts of
        Inl e \<Rightarrow> Inl e
      | Inr best \<Rightarrow>
          (case applicable_rules action facts gs of
             Inl e \<Rightarrow> Inl e
           | Inr rest \<Rightarrow> Inr (case best of None \<Rightarrow> rest | Some r \<Rightarrow> r # rest)))"

definition evaluate_business_policy_ruleset ::
  "business_policy_rule_set \<Rightarrow> string \<Rightarrow> payload \<Rightarrow> string + string \<times> string list" where
  "evaluate_business_policy_ruleset rs action facts =
     (case applicable_rules action facts (bp_rule_groups rs) of
        Inl e \<Rightarrow> Inl e
      | Inr [] \<Rightarrow>
          Inr (if bp_is_founder rs then (''ALLOW'', [''FOUNDER_DEFAULT_ALLOW'']) else (''DENY'', [''NO_MATCHING_RULE'']))
      | Inr (r # rest) \<Rightarrow>
          let combined = combine_permission_rules (r # rest) in Inr (combined, [combined]))"

subsection \<open>The statutory floor\<close>

text \<open>\<open>set(v or [])\<close>: the elements; a list or a dictionary cannot be an element.\<close>

definition hashable :: "pyval \<Rightarrow> bool" where
  "hashable v = (case v of PList _ \<Rightarrow> False | PDict _ \<Rightarrow> False | _ \<Rightarrow> True)"

definition py_set_or_empty :: "pyval \<Rightarrow> string + pyval list" where
  "py_set_or_empty v =
     (if \<not> truthy v then Inr []
      else case v of
             PList xs \<Rightarrow> if list_all hashable xs then Inr xs else Inl ''TypeError''
           | PStr s \<Rightarrow> Inr (map (\<lambda>c. PStr [c]) s)
           | PDict d \<Rightarrow> Inr (map PStr (dict_keys d))
           | _ \<Rightarrow> Inl ''TypeError'')"

definition field_of :: "pyval \<Rightarrow> string \<Rightarrow> pyval" where
  "field_of v k = (case v of PDict d \<Rightarrow> ctx_get d k | _ \<Rightarrow> PNone)"

definition prohibited_domain :: "string \<Rightarrow> bool" where
  "prohibited_domain cap \<longleftrightarrow>
     py_startswith cap ''hr.'' \<or> py_contains ''candidate.rank'' cap \<or> py_contains ''credit.score'' cap"

text \<open>\<open>Some reason\<close> is a denial, \<open>None\<close> to continue.\<close>

definition statutory_floor :: "string \<Rightarrow> pyval \<Rightarrow> string + string option" where
  "statutory_floor cap snap =
     (if snap = PNone then Inr (Some ''COMPLIANCE_SNAPSHOT_MISSING'')
      else
        (case py_set_or_empty (field_of snap ''allowed_capabilities'') of
           Inl e \<Rightarrow> Inl e
         | Inr allowed \<Rightarrow>
             Inr (if truthy (field_of snap ''prohibited_purpose'') \<or> prohibited_domain cap
                  then Some ''PROHIBITED_DECISION_DOMAIN''
                  else if field_of snap ''status'' \<noteq> PStr ''APPROVED_FOR_USE'' then Some ''DEPLOYMENT_NOT_APPROVED''
                  else if field_of snap ''mode'' \<noteq> PStr ''ADVISORY_ONLY'' then Some ''NON_ADVISORY_MODE''
                  else if PStr ''*'' \<notin> set allowed \<and> PStr cap \<notin> set allowed then Some ''CAPABILITY_NOT_BOUND''
                  else None)))"

subsection \<open>The policy engine\<close>

definition read_only_suffixes :: "string list" where
  "read_only_suffixes = [''.read'', ''.list'', ''.get'', ''.search'', ''.tree_read'', ''.context_read'', ''.cadence_status'',
     ''.needing_review'']"

definition is_read_capability :: "string \<Rightarrow> bool" where
  "is_read_capability cap \<longleftrightarrow> list_ex (py_endswith cap) read_only_suffixes"

definition READ_ONLY_RUN_KEY :: string where
  "READ_ONLY_RUN_KEY = ''read_only_run''"

definition REQUIRE_APPROVAL_CAPABILITIES_KEY :: string where
  "REQUIRE_APPROVAL_CAPABILITIES_KEY = ''require_approval_capabilities''"

definition needs_role :: "string \<Rightarrow> string list \<Rightarrow> policy_decision" where
  "needs_role role rs = \<lparr>outcome = REQUIRE_APPROVAL, requirement = Some (RoleApproval role), reasons = rs\<rparr>"

text \<open>\<open>a > n\<close> and \<open>s in v\<close> (for a text \<open>s\<close>).\<close>

definition py_gt :: "pyval \<Rightarrow> int \<Rightarrow> string + bool" where
  "py_gt a n =
     (case a of PInt i \<Rightarrow> Inr (n < i) | PBool b \<Rightarrow> Inr (n < (if b then 1 else 0)) | PFloat q \<Rightarrow> Inr (of_int n < q)
      | _ \<Rightarrow> Inl ''TypeError'')"

definition py_in :: "string \<Rightarrow> pyval \<Rightarrow> string + bool" where
  "py_in s v =
     (case v of PList xs \<Rightarrow> Inr (PStr s \<in> set xs) | PStr t \<Rightarrow> Inr (py_contains s t) | PDict d \<Rightarrow> Inr (s \<in> set (dict_keys d))
      | _ \<Rightarrow> Inl ''TypeError'')"

text \<open>What the engine is composed with: the validation of a snapshot, the texts of values, and the outcome when no
  rule applies (\<open>ALLOW\<close> in production).\<close>

record policy_env =
  pe_validate :: "pyval \<Rightarrow> string + policy_snapshot"
  pe_text :: py_text
  pe_default_outcome :: policy_outcome

definition snapshot_from_context :: "policy_env \<Rightarrow> payload \<Rightarrow> string + policy_snapshot option" where
  "snapshot_from_context pe ctx =
     (let raw = ctx_get ctx ''policy_snapshot'' in
      if raw = PNone then Inr None else map_sum id Some (pe_validate pe raw))"

text \<open>Steps 0, 1 and 1b: the status of tenant and principal and the emergency lock.\<close>

definition status_gate :: "policy_env \<Rightarrow> payload \<Rightarrow> policy_snapshot option \<Rightarrow> policy_decision option" where
  "status_gate pe ctx snap =
     (case snap of
        Some s \<Rightarrow>
          if ps_workspace_status s \<noteq> ''active'' then Some (decision DENY [''Tenant is '' @ ps_workspace_status s])
          else if ps_principal_status s \<noteq> ''active'' then Some (decision DENY [''Principal is '' @ ps_principal_status s])
          else if ctx_get ctx ''emergency_lock'' = PBool True then Some (decision DENY [''Global emergency lock is active''])
          else None
      | None \<Rightarrow>
          if ctx_get ctx ''emergency_lock'' = PBool True then Some (decision DENY [''Global emergency lock is active''])
          else if ctx_get ctx ''tenant_status'' \<in> {PStr ''suspended'', PStr ''disabled''}
          then Some (decision DENY [''Tenant is '' @ py_str (pe_text pe) (ctx_get ctx ''tenant_status'')])
          else if ctx_get ctx ''principal_status'' \<in> {PStr ''revoked'', PStr ''disabled''}
          then Some (decision DENY [''Principal is '' @ py_str (pe_text pe) (ctx_get ctx ''principal_status'')])
          else None)"

text \<open>Step 1c.\<close>

definition statutory_gate :: "string \<Rightarrow> payload \<Rightarrow> string + policy_decision option" where
  "statutory_gate cap ctx =
     (let snap = ctx_get ctx ''compliance_snapshot'' in
      if snap \<noteq> PNone \<or> prohibited_domain cap then
        map_sum id (map_option (\<lambda>r. decision DENY [r])) (statutory_floor cap snap)
      else Inr None)"

text \<open>Step 2: the grants of the agent and the business permission of the action.\<close>

definition agent_authority_of :: "policy_snapshot option \<Rightarrow> agent_authorization_snapshot option" where
  "agent_authority_of snap =
     (case snap of
        None \<Rightarrow> None
      | Some s \<Rightarrow>
          (case ps_agent_authority s of
             Some a \<Rightarrow> Some a
           | None \<Rightarrow>
               (case ps_business_policy_rules s of
                  Some rs \<Rightarrow>
                    if bp_agent_capabilities rs \<noteq> []
                    then Some \<lparr>az_authorization_epoch = bp_authorization_epoch rs, az_grants = bp_agent_capabilities rs\<rparr>
                    else None
                | None \<Rightarrow> None)))"

definition business_gate :: "business_policy_rule_set \<Rightarrow> string \<Rightarrow> string + policy_decision option" where
  "business_gate rs action =
     (case evaluate_business_policy_ruleset rs action [] of
        Inl e \<Rightarrow> Inl e
      | Inr (effect, codes) \<Rightarrow>
          Inr (if effect = ''DENY'' then Some (decision DENY codes)
               else if effect = ''REQUIRE_APPROVAL'' then Some (needs_role ''admin'' codes)
               else None))"

definition business_rules_of :: "policy_snapshot option \<Rightarrow> business_policy_rule_set option" where
  "business_rules_of snap = (case snap of None \<Rightarrow> None | Some s \<Rightarrow> ps_business_policy_rules s)"

text \<open>The result and whether an active grant was found.\<close>

definition authority_gate ::
  "string \<Rightarrow> payload \<Rightarrow> policy_snapshot option \<Rightarrow> string + policy_decision option \<times> bool" where
  "authority_gate cap payload snap =
     (case agent_authority_of snap of
        Some auth \<Rightarrow>
          (case resolve_authority auth cap payload of
             Inl e \<Rightarrow> Inl e
           | Inr (False, reason, _) \<Rightarrow> Inr (Some (decision DENY [reason]), False)
           | Inr (True, _, grant) \<Rightarrow>
               (case (business_rules_of snap, grant) of
                  (Some rs, Some g) \<Rightarrow> map_sum id (\<lambda>d. (d, True)) (business_gate rs (cau_permission_key g))
                | _ \<Rightarrow> Inr (None, True)))
      | None \<Rightarrow>
          (case business_rules_of snap of
             Some rs \<Rightarrow> map_sum id (\<lambda>d. (d, False)) (business_gate rs cap)
           | None \<Rightarrow> Inr (None, False)))"

text \<open>Step 2b, then the permission that an active grant or a tenant rule gives.\<close>

definition overlay_gate :: "string \<Rightarrow> policy_snapshot option \<Rightarrow> bool \<Rightarrow> policy_decision option" where
  "overlay_gate cap snap has_active_grant =
     (let matched = (case snap of None \<Rightarrow> None | Some s \<Rightarrow> snapshot_match s cap);
          told = (\<lambda>r what. or_else (tr_reason r) (''Tenant policy '' @ what @ '' for '' @ tr_tool_pattern r));
          granted = decision ALLOW [''Allowed by Company agent capability grant''] in
      case matched of
        Some r \<Rightarrow>
          if tr_decision r = ''DENY'' then Some (decision DENY [told r ''DENY''])
          else if tr_decision r = ''REQUIRE_APPROVAL'' then Some (needs_role ''admin'' [told r ''REQUIRE_APPROVAL''])
          else if has_active_grant then Some granted
          else if tr_decision r = ''ALLOW'' then Some (decision ALLOW [told r ''ALLOW''])
          else None
      | None \<Rightarrow> if has_active_grant then Some granted else None)"

text \<open>Step 3: the rules that stand when the tenant has none.\<close>

definition fallback_rules :: "policy_env \<Rightarrow> string \<Rightarrow> payload \<Rightarrow> string + policy_decision" where
  "fallback_rules pe cap payload =
     (let amount = dict_get_or payload ''amount'' (PInt 0); shown = py_str (pe_text pe) amount;
          otherwise =
            (if py_startswith cap ''operations.task.read'' \<or> py_startswith cap ''operations.task.list''
             then decision ALLOW [''Read-only operations task queries are permitted'']
             else decision (pe_default_outcome pe) [''Default policy outcome'']) in
      if py_contains ''payout'' cap \<or> py_contains ''wire'' cap then
        (case py_gt amount 10000 of
           Inl e \<Rightarrow> Inl e
         | Inr True \<Rightarrow> Inr (needs_role ''founder'' [''High-value payout ($'' @ shown @ '') requires Founder approval''])
         | Inr False \<Rightarrow> Inr (needs_role ''finance_lead'' [''Payout ($'' @ shown @ '') requires Finance Lead approval'']))
      else if cap = ''engagement.message.send'' then
        Inr (needs_role ''admin'' [''Public customer message send requires approval''])
      else if py_contains ''transaction'' cap then
        (case py_gt amount 50000 of
           Inl e \<Rightarrow> Inl e
         | Inr True \<Rightarrow> Inr (needs_role ''cfo'' [''High-value transaction record requires CFO review''])
         | Inr False \<Rightarrow> Inr otherwise)
      else Inr otherwise)"

definition evaluate_base :: "policy_env \<Rightarrow> string \<Rightarrow> payload \<Rightarrow> payload \<Rightarrow> string + policy_decision" where
  "evaluate_base pe cap payload ctx =
     (case snapshot_from_context pe ctx of
        Inl e \<Rightarrow> Inl e
      | Inr snap \<Rightarrow>
          (case status_gate pe ctx snap of
             Some d \<Rightarrow> Inr d
           | None \<Rightarrow>
               (case statutory_gate cap ctx of
                  Inl e \<Rightarrow> Inl e
                | Inr (Some d) \<Rightarrow> Inr d
                | Inr None \<Rightarrow>
                    (case authority_gate cap payload snap of
                       Inl e \<Rightarrow> Inl e
                     | Inr (Some d, _) \<Rightarrow> Inr d
                     | Inr (None, granted) \<Rightarrow>
                         (case overlay_gate cap snap granted of
                            Some d \<Rightarrow> Inr d
                          | None \<Rightarrow> fallback_rules pe cap payload)))))"

text \<open>\<open>CosaPolicyEngine.evaluate\<close>; a context that is \<open>None\<close> is the empty one.\<close>

definition cosa_evaluate :: "policy_env \<Rightarrow> string \<Rightarrow> payload \<Rightarrow> payload \<Rightarrow> string + policy_decision" where
  "cosa_evaluate pe cap payload ctx =
     (if ctx_get ctx READ_ONLY_RUN_KEY = PBool True \<and> \<not> is_read_capability cap then
        Inr (decision DENY [''Read-only consultation run cannot call '' @ cap])
      else
        (case evaluate_base pe cap payload ctx of
           Inl e \<Rightarrow> Inl e
         | Inr d \<Rightarrow>
             if outcome d = ALLOW then
               (case py_in cap (py_or (ctx_get ctx REQUIRE_APPROVAL_CAPABILITIES_KEY) (PList [])) of
                  Inl e \<Rightarrow> Inl e
                | Inr True \<Rightarrow> Inr (needs_role ''founder'' [cap @ '' requires founder approval in this run''])
                | Inr False \<Rightarrow> Inr d)
             else Inr d))"

text \<open>The engine as the gateway is composed with it.\<close>

definition cosa_policy :: "policy_env \<Rightarrow> string \<Rightarrow> payload \<Rightarrow> payload \<Rightarrow> string + decision_arg" where
  "cosa_policy pe cap payload ctx = map_sum id ArgDecision (cosa_evaluate pe cap payload ctx)"

subsection \<open>Tiers\<close>

datatype access_tier = T0_READ | T1_DRAFT | T2_COMMIT | T3_EXTERNAL

record access_entry =
  acc_tier :: access_tier
  acc_domain :: string
  acc_company_agent_cap :: "string option"

record domain_draft =
  dom_capability_id :: string
  dom_profile_key :: string
  dom_artifact_kind :: string

definition domain_drafts :: "domain_draft list" where
  "domain_drafts =
     [\<lparr>dom_capability_id = ''project.crm.lead.draft'', dom_profile_key = ''sales'', dom_artifact_kind = ''sales_lead_plan_draft''\<rparr>,
      \<lparr>dom_capability_id = ''strategy.plan.draft'', dom_profile_key = ''strategy'', dom_artifact_kind = ''strategy_plan_draft''\<rparr>,
      \<lparr>dom_capability_id = ''research.intelligence.brief.draft'', dom_profile_key = ''research_intelligence'',
       dom_artifact_kind = ''research_brief_draft''\<rparr>,
      \<lparr>dom_capability_id = ''engineering.plan.draft'', dom_profile_key = ''coding'', dom_artifact_kind = ''engineering_plan_draft''\<rparr>,
      \<lparr>dom_capability_id = ''product.decision.draft'', dom_profile_key = ''product'', dom_artifact_kind = ''product_decision_draft''\<rparr>,
      \<lparr>dom_capability_id = ''people.plan.draft'', dom_profile_key = ''people'', dom_artifact_kind = ''people_plan_draft''\<rparr>,
      \<lparr>dom_capability_id = ''security.remediation.draft'', dom_profile_key = ''security'',
       dom_artifact_kind = ''security_remediation_draft''\<rparr>,
      \<lparr>dom_capability_id = ''legal.issue.draft'', dom_profile_key = ''legal'', dom_artifact_kind = ''legal_issue_draft''\<rparr>,
      \<lparr>dom_capability_id = ''data.quality.draft'', dom_profile_key = ''data'', dom_artifact_kind = ''data_quality_draft''\<rparr>]"

abbreviation reads :: "string \<Rightarrow> string option \<Rightarrow> access_entry" where
  "reads d c \<equiv> \<lparr>acc_tier = T0_READ, acc_domain = d, acc_company_agent_cap = c\<rparr>"

abbreviation drafts :: "string \<Rightarrow> string option \<Rightarrow> access_entry" where
  "drafts d c \<equiv> \<lparr>acc_tier = T1_DRAFT, acc_domain = d, acc_company_agent_cap = c\<rparr>"

abbreviation commits :: "string \<Rightarrow> string option \<Rightarrow> access_entry" where
  "commits d c \<equiv> \<lparr>acc_tier = T2_COMMIT, acc_domain = d, acc_company_agent_cap = c\<rparr>"

abbreviation external :: "string \<Rightarrow> access_entry" where
  "external d \<equiv> \<lparr>acc_tier = T3_EXTERNAL, acc_domain = d, acc_company_agent_cap = None\<rparr>"

text \<open>A capability that the company service knows under its own identifier.\<close>

abbreviation known :: "(string \<Rightarrow> string option \<Rightarrow> access_entry) \<Rightarrow> string \<Rightarrow> string \<Rightarrow> string \<times> access_entry" where
  "known f d cap \<equiv> (cap, f d (Some cap))"

definition access_matrix :: "(string, access_entry) pydict" where
  "access_matrix =
     [known reads ''operations'' ''operations.task.list'',
      known reads ''operations'' ''operations.task.read'',
      known reads ''operations'' ''operations.execution_plan.read'',
      known drafts ''operations'' ''operations.task.create_draft'',
      known commits ''operations'' ''operations.task.advance'',
      known reads ''strategy'' ''strategy.project.get'',
      known reads ''strategy'' ''strategy.next_best_action.get'',
      known reads ''strategy'' ''strategy.evidence.list'',
      known drafts ''strategy'' ''strategy.evidence.create'',
      known reads ''strategy'' ''strategy.pilot.get'',
      known drafts ''strategy'' ''strategy.pilot.create_draft'',
      known reads ''strategy'' ''analytics.metric_contract.get'',
      known reads ''goals'' ''startup_os.goal.tree_read'',
      known reads ''goals'' ''startup_os.goal.needing_review'',
      known reads ''goals'' ''startup_os.goal.advisory'',
      known commits ''goals'' ''startup_os.goal.create'',
      known commits ''goals'' ''startup_os.project.triage'',
      known reads ''okr'' ''okr.objective.list'',
      known commits ''okr'' ''okr.key_result.create'',
      known commits ''okr'' ''okr.key_result.checkin'',
      known commits ''okr'' ''okr.key_result.update'',
      known reads ''onboard'' ''startup_os.onboard.context_read'',
      known reads ''onboard'' ''startup_os.onboard.cadence_status'',
      known reads ''onboard'' ''startup_os.onboard.cadence_advisory'',
      (''startup_os.onboard.interview_plan'', reads ''onboard'' None),
      known drafts ''onboard'' ''startup_os.onboard.session_start'',
      known drafts ''onboard'' ''startup_os.onboard.dimension_update'',
      known drafts ''onboard'' ''startup_os.onboard.snapshot_create'',
      known reads ''finance'' ''finance.connection.read'',
      known reads ''finance'' ''finance.transaction.read'',
      known drafts ''finance'' ''finance.transaction.classify_propose'',
      known drafts ''finance'' ''finance.accounting_document.create_draft'',
      known commits ''finance'' ''finance.transaction.record'',
      (''finance.accounting_document.confirm'', external ''finance''),
      known reads ''crm'' ''project.crm.read'',
      known reads ''customer'' ''commercial.customer_360.read'',
      known reads ''marketing'' ''commercial.marketing_context.read'',
      (''commercial.marketing_context.write'', commits ''marketing'' None),
      (''commercial.campaign_asset.write'', drafts ''marketing'' None),
      (''commercial.experiment.write'', commits ''marketing'' None),
      known reads ''customer'' ''engagement.thread.read'',
      (''engagement.message.draft'', drafts ''customer'' None),
      (''engagement.assignment.write'', commits ''customer'' None),
      (''engagement.message.send'', external ''customer''),
      known commits ''founder'' ''founder.notify.send'',
      (''email.digest.read'', reads ''email'' None),
      known drafts ''automation'' ''automation.plan.propose'',
      known reads ''legal'' ''legal.issue.read'',
      (''legal.applicability.assess'', reads ''legal'' None),
      known drafts ''legal'' ''legal.obligation.create_draft'',
      known reads ''people'' ''people.risk.read'',
      known reads ''product'' ''product.decision.read'',
      known reads ''security'' ''security.posture.read'',
      known reads ''data'' ''data.governance.read'',
      known reads ''ai_governance'' ''ai.governance.read'',
      (''engineering.evidence.read'', reads ''engineering'' None),
      known reads ''venture'' ''venture.profile.read'',
      known commits ''venture'' ''venture.profile.propose_update'',
      (''knowledge.profile.read'', reads ''knowledge'' None),
      (''knowledge.enterprise.read'', reads ''knowledge'' None),
      (''web.search'', reads ''web'' None),
      (''workspace.context.read'', reads ''workspace'' None),
      (''agent.consult'', reads ''agents'' None),
      (''memory.fact.propose'', drafts ''memory'' None),
      (''business.read'', reads ''business'' None)] @
     map (\<lambda>d. (dom_capability_id d, drafts (takeWhile (\<lambda>c. c \<noteq> CHR ''.'') (dom_capability_id d)) None)) domain_drafts"

definition chat_t2_capabilities :: "string list" where
  "chat_t2_capabilities = map fst (filter (\<lambda>(cap, e). acc_tier e = T2_COMMIT) access_matrix)"

text \<open>The tags that a chat run carries, at its start (without what a schedule was authorised for beforehand) and
  again when it is resumed; and the tag of a consultation.\<close>

definition chat_tags :: "string list \<Rightarrow> payload" where
  "chat_tags pre_authorized =
     [(REQUIRE_APPROVAL_CAPABILITIES_KEY,
       PList (map PStr (sort (filter (\<lambda>c. c \<notin> set pre_authorized) chat_t2_capabilities))))]"

definition resume_tags :: "string \<Rightarrow> bool \<Rightarrow> string option \<Rightarrow> payload" where
  "resume_tags tid rejected project =
     [(''approved_tool_calls'', PDict [(tid, PBool (\<not> rejected))])]
     @ (if truthy_opt project then [(''project_id'', opt_val project)] else [])
     @ [(REQUIRE_APPROVAL_CAPABILITIES_KEY, PList (map PStr (sort chat_t2_capabilities)))]"

definition consult_tags :: "string \<Rightarrow> payload" where
  "consult_tags parent = [(READ_ONLY_RUN_KEY, PBool True), (''consult_depth'', PInt 1), (''consult_parent_ref'', PStr parent)]"

subsection \<open>Drafts\<close>

definition forbidden_flags :: "string list" where
  "forbidden_flags = [''send'', ''send_now'', ''deliver'', ''auto_send'', ''publish'', ''apply'', ''execute'']"

text \<open>\<open>_str_list\<close>: at most twenty stripped texts, or a \<open>ValueError\<close>.\<close>

definition draft_str_list :: "py_text \<Rightarrow> pyval \<Rightarrow> string \<Rightarrow> string \<Rightarrow> string + string list" where
  "draft_str_list tx v fld cap =
     (case v of
        PNone \<Rightarrow> Inr []
      | PList xs \<Rightarrow> Inr (take 20 (filter (\<lambda>s. s \<noteq> []) (map (\<lambda>x. py_strip (py_str tx x)) xs)))
      | _ \<Rightarrow> Inl (cap @ '': '' @ fld @ '' must be a list of strings''))"

definition domain_draft_handler :: "py_text \<Rightarrow> domain_draft \<Rightarrow> payload \<Rightarrow> string + payload" where
  "domain_draft_handler tx d args =
     (let cap = dom_capability_id d;
          title = py_strip (py_str tx (py_or (ctx_get args ''title'') (PStr [])));
          body = py_strip (py_str tx (py_or (ctx_get args ''body'') (PStr [])));
          texts = (\<lambda>k. draft_str_list tx (ctx_get args k) k cap) in
      if list_ex (\<lambda>flag. ctx_get args flag = PBool True) forbidden_flags
      then Inl (cap @ '' only creates drafts; external actions are refused'')
      else if length title < 3 then Inl (cap @ '': title is required'')
      else if length body < 10 then Inl (cap @ '': body is required'')
      else
        (case texts ''evidence_refs'' of
           Inl e \<Rightarrow> Inl e
         | Inr refs \<Rightarrow>
             (case texts ''assumptions'' of
                Inl e \<Rightarrow> Inl e
              | Inr assumed \<Rightarrow>
                  (case texts ''next_steps'' of
                     Inl e \<Rightarrow> Inl e
                   | Inr steps \<Rightarrow>
                       Inr [(''artifact_kind'', PStr (dom_artifact_kind d)), (''status'', PStr ''pending_founder_review''),
                            (''title'', PStr (take 200 title)), (''body'', PStr (take 8000 body)),
                            (''evidence_refs'', PList (map PStr refs)), (''assumptions'', PList (map PStr assumed)),
                            (''next_steps'', PList (map PStr steps)), (''delivery'', PStr ''none'')]))))"

subsection \<open>The live authorizer\<close>

definition ctx_value :: "gw_context \<Rightarrow> string \<Rightarrow> pyval" where
  "ctx_value c k = ctx_get (ctx_meta c) k"

definition cosa_ticket_required :: "capability_spec \<Rightarrow> gw_context \<Rightarrow> string \<Rightarrow> bool" where
  "cosa_ticket_required spec ctx cap =
     (if dict_get (cp_metadata spec) ''draft_only'' = Some (PBool True) then False
      else if ctx_value ctx ''is_draft'' = PBool True \<or> ctx_value ctx ''draft_only'' = PBool True then False
      else
        (case dict_get access_matrix cap of
           Some e \<Rightarrow> acc_tier e \<noteq> T0_READ \<and> \<not> (acc_tier e = T1_DRAFT \<and> acc_company_agent_cap e = None)
         | None \<Rightarrow>
             let risk_class = py_or (ctx_value ctx ''risk_class'') (ctx_get (cp_metadata spec) ''risk_class'');
                 action_class = py_or (ctx_value ctx ''action_class'') (ctx_get (cp_metadata spec) ''action_class'') in
             if risk_class = PStr ''READ'' \<or> action_class \<in> {PStr ''R'', PStr ''draft'', PStr ''DRAFT''} then False
             else \<not> (\<not> truthy risk_class \<and> \<not> truthy action_class
                      \<and> (list_ex (py_endswith cap) [''.read'', ''.list'', ''.get'', ''.query'']
                         \<or> list_ex (py_startswith cap) [''read_'', ''get_'', ''list_'']))))"

text \<open>The request for a ticket, with the scope of the delegation token that is minted for it; the client answers
  with the identifier of the ticket or an exception, which may also come from minting the token.\<close>

record ticket_request =
  tq_sub :: string
  tq_workspace :: string
  tq_run :: string
  tq_tool_call :: string
  tq_checkpoint :: string
  tq_capability :: string
  tq_member :: string

definition allowed_without_ticket :: auth_result where
  "allowed_without_ticket = \<lparr>au_allowed = True, au_error_message = None, au_ticket_id = None\<rparr>"

definition refused_ticket :: "string \<Rightarrow> auth_result" where
  "refused_ticket msg = \<lparr>au_allowed = False, au_error_message = Some msg, au_ticket_id = None\<rparr>"

definition cosa_authorize ::
  "py_text \<Rightarrow> (ticket_request \<Rightarrow> string + string option) option \<Rightarrow> gateway_request \<Rightarrow> capability_spec \<Rightarrow> auth_result" where
  "cosa_authorize tx client req spec =
     (let ctx = gq_context req;
          member = py_or (ctx_value ctx ''agent_workforce_member_id'') (ctx_value ctx ''company_workforce_member_id'');
          ws = py_or (opt_val (gq_workspace_id req)) (ctx_value ctx ''workspace_id'') in
      if \<not> cosa_ticket_required spec ctx (gq_capability_id req) then allowed_without_ticket
      else if \<not> truthy member then refused_ticket ''Missing agent_workforce_member_id in execution context''
      else
        (case client of
           None \<Rightarrow> allowed_without_ticket\<lparr>au_ticket_id := Some (''tkt_stub_'' @ gq_tool_call_id req)\<rparr>
         | Some post \<Rightarrow>
             (case post \<lparr>tq_sub = py_str tx (py_or (gq_principal req) (PStr ''system'')), tq_workspace = py_str tx ws,
                         tq_run = gq_run_id req, tq_tool_call = gq_tool_call_id req, tq_checkpoint = gq_checkpoint_ref req,
                         tq_capability = gq_capability_id req, tq_member = py_str tx member\<rparr> of
                Inr ticket \<Rightarrow> allowed_without_ticket\<lparr>au_ticket_id := ticket\<rparr>
              | Inl msg \<Rightarrow>
                  if py_contains ''AGENT_CAPABILITY_GRANT_REVOKED'' msg
                  then refused_ticket (''AGENT_CAPABILITY_GRANT_REVOKED: '' @ msg)
                  else refused_ticket (''Live authorization ticket denied: '' @ msg))))"

definition cosa_authorizer :: "py_text \<Rightarrow> (ticket_request \<Rightarrow> string + string option) option \<Rightarrow> live_authorizer" where
  "cosa_authorizer tx client =
     \<lparr>la_is_ticket_required = Some cosa_ticket_required, la_authorize = (\<lambda>req spec. Inr (cosa_authorize tx client req spec))\<rparr>"

end
