(* ===== verification/TenantProps.thy ===== *)
theory TenantProps
  imports GatewayProps TenantPolicy
begin

text \<open>
  What the tenant policy guarantees once the gateway is composed with it: no handler runs against it, the tags of a
  run only tighten it, and a write of the access matrix holds a ticket. Then the two matching rules, against
  what they promise.
\<close>

subsection \<open>The policy behind the gateway\<close>

text \<open>The engine does not look at the workspace that the gateway adds to the context.\<close>

lemma ctx_get_set [simp]: "ctx_get (dict_set k v d) k' = (if k' = k then v else ctx_get d k')"
  by (simp add: ctx_get_def)

lemma cosa_evaluate_workspace: "cosa_evaluate pe cap pl (dict_set ''workspace_id'' v ctx) = cosa_evaluate pe cap pl ctx"
proof -
  have gates: "snapshot_from_context pe (dict_set ''workspace_id'' v ctx) = snapshot_from_context pe ctx"
    "status_gate pe (dict_set ''workspace_id'' v ctx) = status_gate pe ctx"
    "statutory_gate cap (dict_set ''workspace_id'' v ctx) = statutory_gate cap ctx"
    "ctx_get (dict_set ''workspace_id'' v ctx) READ_ONLY_RUN_KEY = ctx_get ctx READ_ONLY_RUN_KEY"
    "ctx_get (dict_set ''workspace_id'' v ctx) REQUIRE_APPROVAL_CAPABILITIES_KEY = ctx_get ctx REQUIRE_APPROVAL_CAPABILITIES_KEY"
    by (simp_all add: snapshot_from_context_def status_gate_def fun_eq_iff statutory_gate_def READ_ONLY_RUN_KEY_def
        REQUIRE_APPROVAL_CAPABILITIES_KEY_def split: option.split)
  show ?thesis unfolding cosa_evaluate_def evaluate_base_def gates ..
qed

lemma tenant_verdict_cosa:
  assumes "ge_policy env = Some (cosa_policy pe)" "tenant_verdict env iv = Inr tenant"
  obtains d where "cosa_evaluate pe (gi_cap iv) (gq_input_payload (gi_req iv)) (ctx_meta (gq_context (gi_req iv))) = Inr d"
    "tenant = ArgDecision d"
  using assms by (auto simp: tenant_verdict_def cosa_policy_def Let_def cosa_evaluate_workspace map_sum_def
      split: if_splits sum.splits)

text \<open>The approval that a paused call waits for.\<close>

definition approval_given :: "gateway_request \<Rightarrow> run_repo \<Rightarrow> bool" where
  "approval_given req s \<longleftrightarrow>
     (case get_approval_by_tool_call (gq_tool_call_id req) s of
        None \<Rightarrow> False
      | Some a \<Rightarrow> ap_status a = ''approved'' \<and> \<not> checkpoint_mismatch a (gq_checkpoint_ref req))"

lemma gate_open_approval: "gate_open req out s \<Longrightarrow> out \<noteq> NON_APPROVABLE \<Longrightarrow> out = ALLOW \<or> out = REQUIRE_APPROVAL \<and> approval_given req s"
  by (auto simp: gate_open_def approval_given_def)

text \<open>A call that runs its handler had a decision of the engine that it obeyed.\<close>

lemma handler_obeys:
  assumes inv: "gov_inv w" and pol: "ge_policy env = Some (cosa_policy pe)"
    and ran: "gw_calls (fst (gw_execute env req w)) \<noteq> gw_calls w"
  obtains d where
    "cosa_evaluate pe (gq_capability_id req) (gq_input_payload req) (ctx_meta (gq_context req)) = Inr d"
    "outcome d = ALLOW \<or> outcome d = REQUIRE_APPROVAL \<and> approval_given req (gw_repo w)"
proof (cases rule: execute_gov [of env req w])
  case same
  with ran show ?thesis by simp
next
  case (recorded x)
  note ok = next_gov_ok [OF inv recorded(2), of req]
  from recorded(4) ran obtain reg where
    gates: "all_gates env req w reg (outcome (accumulated (next_gov (gw_gov w) req x)))" by blast
  from recorded(1) obtain rg :: capability_registration and iv tenant where iv: "gi_req iv = req" "tenant_verdict env iv = Inr tenant"
    and x: "x = conjoin (ArgOutcome (capability_floor (cp_risk (rg_spec rg)) (cp_approval_policy (rg_spec rg)))) tenant"
    unfolding registered_floor_def floor_decision_def by blast
  obtain d where d: "cosa_evaluate pe (gq_capability_id req) (gq_input_payload req) (ctx_meta (gq_context req)) = Inr d"
    "tenant = ArgDecision d"
    using tenant_verdict_cosa [OF pol iv(2)] iv(1) by metis
  have "gate_open req (outcome (accumulated (next_gov (gw_gov w) req x))) (gw_repo w)"
    using gates by (auto simp: all_gates_def late_gates_def)
  from gate_open_approval [OF this ok(3)] have "outcome x = ALLOW \<or> outcome x = REQUIRE_APPROVAL \<and> approval_given req (gw_repo w)"
    using ok(3,4) recorded(2)
    by (cases "outcome x"; cases "outcome (accumulated (next_gov (gw_gov w) req x))") auto
  then have "outcome d = ALLOW \<or> outcome d = REQUIRE_APPROVAL \<and> approval_given req (gw_repo w)"
    unfolding x d(2) by (auto simp: conjoin_outcome_cases Let_def split: if_splits; cases "outcome d"; simp)
  with d(1) show ?thesis by (rule that)
qed

lemma handler_obeys_run:
  assumes "gw_gov w0 = empty_governance_store" "w = fold gw_step ops w0" "ge_policy env = Some (cosa_policy pe)"
    and "gw_calls (fst (gw_execute env req w)) \<noteq> gw_calls w"
  obtains d where
    "cosa_evaluate pe (gq_capability_id req) (gq_input_payload req) (ctx_meta (gq_context req)) = Inr d"
    "outcome d = ALLOW \<or> outcome d = REQUIRE_APPROVAL \<and> approval_given req (gw_repo w)"
proof (rule handler_obeys [OF _ assms(3,4)])
  show "gov_inv w" unfolding assms(2) using gov_inv_start [OF assms(1)] by (rule gateway.run_inv) simp
qed

text \<open>Whatever happened before, a gateway that is composed with the policy
  engine runs a handler only after an evaluation of the engine that raised nothing and did not deny; and if it
  asked for an approval, only once the approval filed for the tool call is approved and not bound to another
  checkpoint. So an inactive tenant or principal, the emergency lock, the statutory floor, a missing grant or a rule
  of the tenant stops the call, whatever the floor of the capability says.\<close>

lemma engine_obeyed:
  assumes "gw_gov w0 = empty_governance_store" "w = fold gw_step ops w0" "ge_policy env = Some (cosa_policy pe)"
    and "gw_calls (fst (gw_execute env req w)) \<noteq> gw_calls w"
  shows "case cosa_evaluate pe (gq_capability_id req) (gq_input_payload req) (ctx_meta (gq_context req)) of
      Inl _ \<Rightarrow> False
    | Inr d \<Rightarrow> outcome d = ALLOW \<or> outcome d = REQUIRE_APPROVAL \<and> approval_given req (gw_repo w)"
  by (rule handler_obeys_run [OF assms]) simp

subsection \<open>The tags of a run\<close>

lemma evaluate_tightened:
  "cosa_evaluate pe cap pl ctx = Inr d \<Longrightarrow> outcome d = ALLOW \<Longrightarrow>
   py_in cap (py_or (ctx_get ctx REQUIRE_APPROVAL_CAPABILITIES_KEY) (PList [])) = Inr False
   \<and> (ctx_get ctx READ_ONLY_RUN_KEY = PBool True \<longrightarrow> is_read_capability cap)"
  by (auto simp: cosa_evaluate_def decision_def needs_role_def split: if_splits sum.splits bool.splits)

lemma evaluate_read_only:
  "cosa_evaluate pe cap pl ctx = Inr d \<Longrightarrow> outcome d \<noteq> DENY \<Longrightarrow> ctx_get ctx READ_ONLY_RUN_KEY = PBool True \<Longrightarrow> is_read_capability cap"
  by (auto simp: cosa_evaluate_def decision_def split: if_splits)

lemma py_in_PList [simp]: "py_in s (py_or (PList (map PStr xs)) (PList [])) = Inr (s \<in> set xs)"
  by (auto simp: py_in_def py_or_def)

text \<open>A chat writes only what the founder approved. In a run with the tags of a chat, whatever rules, grants and
  snapshots the tenant has, the handler of a capability that the access matrix lists as a commit runs
  only once the approval filed for the tool call is approved and not bound to another checkpoint, unless the
  capability is among those that the founder authorised beforehand for the schedule.\<close>

theorem chat_write_needs_approval:
  assumes "gw_gov w0 = empty_governance_store" "w = fold gw_step ops w0" "ge_policy env = Some (cosa_policy pe)"
    and "gw_calls (fst (gw_execute env req w)) \<noteq> gw_calls w"
    and "ctx_get (ctx_meta (gq_context req)) REQUIRE_APPROVAL_CAPABILITIES_KEY
           = ctx_get (chat_tags pre_authorized) REQUIRE_APPROVAL_CAPABILITIES_KEY"
    and "dict_get access_matrix (gq_capability_id req) = Some e" "acc_tier e = T2_COMMIT"
    and "gq_capability_id req \<notin> set pre_authorized"
  shows "approval_given req (gw_repo w)"
proof (rule handler_obeys_run [OF assms(1-4)])
  fix d
  assume d: "cosa_evaluate pe (gq_capability_id req) (gq_input_payload req) (ctx_meta (gq_context req)) = Inr d"
    and out: "outcome d = ALLOW \<or> outcome d = REQUIRE_APPROVAL \<and> approval_given req (gw_repo w)"
  have "gq_capability_id req \<in> set chat_t2_capabilities"
    using map_of_SomeD [OF assms(6)] assms(7) by (force simp: chat_t2_capabilities_def)
  then have "outcome d \<noteq> ALLOW"
    using evaluate_tightened [OF d] assms(5,8) by (auto simp: chat_tags_def ctx_get_def dict_get_or_def)
  with out show ?thesis by simp
qed

text \<open>A consultation only reads. In a run with the tag of a consultation a handler runs only for a capability
  whose name ends like a read; every such capability of the access matrix is a read there.\<close>

lemma read_names_are_reads: "list_all (\<lambda>(cap, e). is_read_capability cap \<longrightarrow> acc_tier e = T0_READ) access_matrix"
  by code_simp

theorem consultation_reads_only:
  assumes "gw_gov w0 = empty_governance_store" "w = fold gw_step ops w0" "ge_policy env = Some (cosa_policy pe)"
    and "gw_calls (fst (gw_execute env req w)) \<noteq> gw_calls w"
    and "ctx_get (ctx_meta (gq_context req)) READ_ONLY_RUN_KEY = ctx_get (consult_tags parent) READ_ONLY_RUN_KEY"
  shows "is_read_capability (gq_capability_id req)
    \<and> (case dict_get access_matrix (gq_capability_id req) of None \<Rightarrow> True | Some e \<Rightarrow> acc_tier e = T0_READ)"
proof (rule handler_obeys_run [OF assms(1-4)])
  fix d
  assume d: "cosa_evaluate pe (gq_capability_id req) (gq_input_payload req) (ctx_meta (gq_context req)) = Inr d"
    and out: "outcome d = ALLOW \<or> outcome d = REQUIRE_APPROVAL \<and> approval_given req (gw_repo w)"
  have r: "is_read_capability (gq_capability_id req)"
    using evaluate_read_only [OF d] out assms(5) by (auto simp: consult_tags_def ctx_get_def dict_get_or_def)
  moreover have "acc_tier e = T0_READ" if "dict_get access_matrix (gq_capability_id req) = Some e" for e
    using r read_names_are_reads map_of_SomeD [OF that] by (fastforce simp: list_all_iff)
  ultimately show ?thesis by (simp split: option.split)
qed

subsection \<open>The ticket of a write\<close>

lemma handler_gates:
  assumes "gw_calls (fst (gw_execute env req w)) \<noteq> gw_calls w"
  obtains reg out where "all_gates env req w reg out"
  using assms by (cases rule: execute_gov [of env req w]) auto

lemma tickets_of_commits:
  "dict_get access_matrix cap = Some e \<Longrightarrow> acc_tier e \<in> {T2_COMMIT, T3_EXTERNAL} \<Longrightarrow>
   cosa_ticket_required spec ctx cap \<longleftrightarrow> dict_get (cp_metadata spec) ''draft_only'' \<noteq> Some (PBool True)
     \<and> ctx_value ctx ''is_draft'' \<noteq> PBool True \<and> ctx_value ctx ''draft_only'' \<noteq> PBool True"
  by (auto simp: cosa_ticket_required_def)

lemma authorized_by_client:
  "au_allowed (cosa_authorize tx (Some post) req spec) \<Longrightarrow> cosa_ticket_required spec (gq_context req) (gq_capability_id req) \<Longrightarrow>
   \<exists>q t. post q = Inr t \<and> tq_capability q = gq_capability_id req \<and> tq_run q = gq_run_id req
     \<and> tq_tool_call q = gq_tool_call_id req \<and> tq_checkpoint q = gq_checkpoint_ref req"
  by (auto simp: cosa_authorize_def Let_def refused_ticket_def split: if_splits sum.splits)

text \<open>A write holds a ticket. With the live authorizer and its client, the handler of a capability that the
  access matrix lists as a commit or as external runs only if the company service issued a ticket for this
  run, tool call, checkpoint and capability, or if the capability or the context of the run is marked as a draft.\<close>

theorem write_holds_ticket:
  assumes "gw_calls (fst (gw_execute env req w)) \<noteq> gw_calls w" "ge_authorizer env = Some (cosa_authorizer tx (Some post))"
    and "dict_get access_matrix (gq_capability_id req) = Some e" "acc_tier e \<in> {T2_COMMIT, T3_EXTERNAL}"
    and "get_capability (ge_registry env) (gq_capability_id req) = Some reg"
  shows "dict_get (cp_metadata (rg_spec reg)) ''draft_only'' = Some (PBool True)
    \<or> ctx_value (gq_context req) ''is_draft'' = PBool True \<or> ctx_value (gq_context req) ''draft_only'' = PBool True
    \<or> (\<exists>q t. post q = Inr t \<and> tq_capability q = gq_capability_id req \<and> tq_run q = gq_run_id req
         \<and> tq_tool_call q = gq_tool_call_id req \<and> tq_checkpoint q = gq_checkpoint_ref req)"
proof -
  obtain reg' out where gates: "all_gates env req w reg' out" using handler_gates [OF assms(1)] .
  then have "reg' = reg" using assms(5) by (simp add: all_gates_def early_gates_def)
  with gates obtain iv where iv: "gi_req iv = req" "gi_reg iv = reg" "live_authorised env iv"
    by (auto simp: all_gates_def late_gates_def)
  have "\<not> cosa_ticket_required (rg_spec reg) (gq_context req) (gq_capability_id req)
    \<or> au_allowed (cosa_authorize tx (Some post) req (rg_spec reg))"
    using iv(3) unfolding live_authorised_def assms(2) by (simp add: iv(1,2) skip_ticket_def cosa_authorizer_def)
  then show ?thesis using tickets_of_commits [OF assms(3,4)] authorized_by_client by blast
qed

text \<open>C40. Nothing runs against the tenant. Whatever happened before, a gateway that is composed with the policy
  engine runs a handler only after an evaluation of the engine that raised nothing and did not deny; and if it
  asked for an approval, only once the approval filed for the tool call is approved and not bound to another
  checkpoint. So an inactive tenant or principal, the emergency lock, the statutory floor, a missing grant or a rule
  of the tenant stops the call, whatever the floor of the capability says. The tags of a run only tighten this: in a
  chat a commit of the access matrix runs only under such an approval, unless the founder authorised the capability
  beforehand, and in a consultation only a capability runs whose name ends like a read, which is a read of the
  matrix where the matrix lists it.\<close>

theorem tenant_policy_obeyed:
  assumes "gw_gov w0 = empty_governance_store" "w = fold gw_step ops w0" "ge_policy env = Some (cosa_policy pe)"
    and "gw_calls (fst (gw_execute env req w)) \<noteq> gw_calls w"
  shows "(case cosa_evaluate pe (gq_capability_id req) (gq_input_payload req) (ctx_meta (gq_context req)) of
      Inl _ \<Rightarrow> False
    | Inr d \<Rightarrow> outcome d = ALLOW \<or> outcome d = REQUIRE_APPROVAL \<and> approval_given req (gw_repo w)) \<and>
    (ctx_get (ctx_meta (gq_context req)) REQUIRE_APPROVAL_CAPABILITIES_KEY
         = ctx_get (chat_tags pre_authorized) REQUIRE_APPROVAL_CAPABILITIES_KEY \<and>
       map_option acc_tier (dict_get access_matrix (gq_capability_id req)) = Some T2_COMMIT \<and>
       gq_capability_id req \<notin> set pre_authorized
     \<longrightarrow> approval_given req (gw_repo w)) \<and>
    (ctx_get (ctx_meta (gq_context req)) READ_ONLY_RUN_KEY = ctx_get (consult_tags parent) READ_ONLY_RUN_KEY
     \<longrightarrow> is_read_capability (gq_capability_id req) \<and>
         (case dict_get access_matrix (gq_capability_id req) of None \<Rightarrow> True | Some e \<Rightarrow> acc_tier e = T0_READ))"
  using engine_obeyed [OF assms] chat_write_needs_approval [OF assms] consultation_reads_only [OF assms] by auto


subsection \<open>The most specific rule\<close>

text \<open>The first of the elements with the highest rank, when that is not zero.\<close>

definition picks :: "('a \<Rightarrow> nat) \<Rightarrow> 'a list \<Rightarrow> 'a option \<Rightarrow> bool" where
  "picks f xs r \<longleftrightarrow>
     (case r of
        None \<Rightarrow> list_all (\<lambda>x. f x = 0) xs
      | Some y \<Rightarrow> \<exists>pre post. xs = pre @ y # post \<and> 0 < f y \<and> list_all (\<lambda>x. f x < f y) pre \<and> list_all (\<lambda>x. f x \<le> f y) post)"

lemma picksI: "xs = pre @ y # post \<Longrightarrow> 0 < f y \<Longrightarrow> list_all (\<lambda>x. f x < f y) pre \<Longrightarrow> list_all (\<lambda>x. f x \<le> f y) post \<Longrightarrow> picks f xs (Some y)"
  unfolding picks_def by auto

lemma picks_SomeE:
  assumes "picks f xs (Some y)"
  obtains pre post where "xs = pre @ y # post" "0 < f y" "list_all (\<lambda>x. f x < f y) pre" "list_all (\<lambda>x. f x \<le> f y) post"
  using assms by (auto simp: picks_def)

lemma picks_snoc:
  "picks f xs r \<Longrightarrow> picks f (xs @ [x]) (if (case r of None \<Rightarrow> 0 | Some y \<Rightarrow> f y) < f x then Some x else r)"
proof (cases r)
  case None
  assume "picks f xs r"
  then have z: "list_all (\<lambda>x. f x = 0) xs" by (simp add: picks_def None)
  show ?thesis
  proof (cases "0 < f x")
    case True
    with z have "picks f (xs @ [x]) (Some x)" by (intro picksI [where pre = xs and post = "[]"]) (auto simp: list_all_iff)
    with True None show ?thesis by simp
  qed (use z None in \<open>simp add: picks_def\<close>)
next
  case (Some y)
  assume "picks f xs r"
  then have "picks f xs (Some y)" by (simp add: Some)
  then show ?thesis
  proof (rule picks_SomeE)
    fix pre post assume p: "xs = pre @ y # post" "0 < f y" "list_all (\<lambda>x. f x < f y) pre" "list_all (\<lambda>x. f x \<le> f y) post"
    show ?thesis
    proof (cases "f y < f x")
      case True
      with p have "picks f (xs @ [x]) (Some x)"
        by (intro picksI [where pre = xs and post = "[]"]) (auto simp: list_all_iff)
      with True Some show ?thesis by simp
    next
      case False
      with p have "picks f (xs @ [x]) (Some y)" by (intro picksI [where pre = pre and post = "post @ [x]"]) auto
      with False Some show ?thesis by simp
    qed
  qed
qed

lemma picks_Nil [simp]: "picks f [] None"
  by (simp add: picks_def)

lemma picks_cong: "(\<And>x. x \<in> set xs \<Longrightarrow> f x = g x) \<Longrightarrow> picks f xs r = picks g xs r"
proof (cases r)
  case (Some y)
  assume eq: "\<And>x. x \<in> set xs \<Longrightarrow> f x = g x"
  have "list_all (\<lambda>x. f x < f y) pre = list_all (\<lambda>x. g x < g y) pre \<and> list_all (\<lambda>x. f x \<le> f y) post = list_all (\<lambda>x. g x \<le> g y) post
      \<and> f y = g y" if "xs = pre @ y # post" for pre post
    using eq that by (auto simp: list_all_iff)
  then show ?thesis unfolding picks_def Some option.case by metis
qed (simp add: picks_def list_all_iff)

lemma picks_mem: "picks f xs (Some y) \<Longrightarrow> y \<in> set xs"
  by (rule picks_SomeE) auto

lemma picks_max: "0 < f x \<Longrightarrow> picks f (x # xs) (Some (py_max_by f x xs))"
proof (induction xs rule: rev_induct)
  case Nil
  then show ?case by (auto simp: picks_def py_max_by_def intro: exI [of _ "[]"])
next
  case (snoc y xs)
  from picks_snoc [OF snoc.IH [OF snoc.prems], of y] show ?case by (simp add: py_max_by_def split: if_splits)
qed

text \<open>Elements that rank lower than the picked one do not change the pick.\<close>

lemma filter_split:
  "filter P xs = us @ y # vs \<Longrightarrow> \<exists>pre post. xs = pre @ y # post \<and> filter P pre = us \<and> filter P post = vs"
proof (induction xs arbitrary: us)
  case (Cons x xs)
  show ?case
  proof (cases "P x")
    case True
    show ?thesis
    proof (cases us)
      case Nil
      with Cons.prems True show ?thesis by (intro exI [of _ "[]"] exI [of _ xs]) simp
    next
      case (Cons u us')
      with Cons.prems True have "filter P xs = us' @ y # vs" "x = u" by simp_all
      with Cons.IH obtain pre post where "xs = pre @ y # post \<and> filter P pre = us' \<and> filter P post = vs" by blast
      with Cons \<open>x = u\<close> True show ?thesis by (intro exI [of _ "x # pre"] exI [of _ post]) simp
    qed
  next
    case False
    with Cons.prems Cons.IH obtain pre post where "xs = pre @ y # post \<and> filter P pre = us \<and> filter P post = vs" by auto
    with False show ?thesis by (intro exI [of _ "x # pre"] exI [of _ post]) simp
  qed
qed simp

lemma picks_filter:
  assumes "picks f (filter P xs) (Some y)" "\<And>x. x \<in> set xs \<Longrightarrow> \<not> P x \<Longrightarrow> f x < f y"
  shows "picks f xs (Some y)"
proof -
  from assms(1) obtain us vs where u: "filter P xs = us @ y # vs" "0 < f y" "list_all (\<lambda>x. f x < f y) us" "list_all (\<lambda>x. f x \<le> f y) vs"
    by (rule picks_SomeE)
  from filter_split [OF u(1)] obtain pre post where x: "xs = pre @ y # post" "filter P pre = us" "filter P post = vs"
    by blast
  have "f z < f y" if "z \<in> set pre" for z using that u(3) assms(2) x by (cases "P z") (auto simp: list_all_iff)
  moreover have "f z \<le> f y" if "z \<in> set post" for z
    using that u(4) assms(2) [of z] x by (cases "P z") (auto simp: list_all_iff)
  ultimately show ?thesis using u(2) x(1) by (intro picksI) (auto simp: list_all_iff)
qed

lemma picks_find:
  assumes "List.find P xs = Some y" "\<And>x. x \<in> set xs \<Longrightarrow> if P x then f x = n else f x < n" "0 < n"
  shows "picks f xs (Some y)"
proof -
  obtain i where i: "i < length xs" "P (xs ! i)" "y = xs ! i" "\<forall>j<i. \<not> P (xs ! j)"
    using assms(1) by (auto simp: find_Some_iff)
  have f: "f y = n" using assms(2) [of y] i by simp
  have "list_all (\<lambda>x. f x < n) (take i xs)"
    using assms(2) i by (fastforce simp: list_all_length)
  moreover have "list_all (\<lambda>x. f x \<le> n) (drop (Suc i) xs)"
    using assms(2) by (fastforce simp: list_all_iff dest: in_set_dropD split: if_splits)
  moreover have "xs = take i xs @ y # drop (Suc i) xs" using i by (simp add: id_take_nth_drop)
  ultimately show ?thesis using assms(3) f by (intro picksI) simp_all
qed

text \<open>How well a pattern of the tenant fits a capability: the capability itself first, then the longest prefix,
  then the star.\<close>

definition pattern_rank :: "string \<Rightarrow> tenant_policy_rule \<Rightarrow> nat" where
  "pattern_rank cap r =
     (let p = tr_tool_pattern r in
      if p = cap then length cap + 2 else if wildcard_matches p cap then length p else if p = ''*'' then 1 else 0)"

lemma wildcard_bounds: "wildcard_matches p cap \<Longrightarrow> 2 \<le> length p \<and> length p \<le> length cap + 1"
  by (auto simp: wildcard_matches_def py_endswith_def py_startswith_def dest!: prefix_length_le)

lemma pattern_rank_cases:
  "tr_tool_pattern r = cap \<Longrightarrow> pattern_rank cap r = length cap + 2"
  "tr_tool_pattern r \<noteq> cap \<Longrightarrow> pattern_rank cap r \<le> Suc (length cap)"
  "tr_tool_pattern r \<noteq> cap \<Longrightarrow> wildcard_matches (tr_tool_pattern r) cap \<Longrightarrow>
     pattern_rank cap r = length (tr_tool_pattern r) \<and> 2 \<le> pattern_rank cap r"
  "tr_tool_pattern r \<noteq> cap \<Longrightarrow> \<not> wildcard_matches (tr_tool_pattern r) cap \<Longrightarrow>
     pattern_rank cap r = (if tr_tool_pattern r = ''*'' then 1 else 0)"
  using wildcard_bounds [of "tr_tool_pattern r" cap] by (auto simp: pattern_rank_def Let_def)

text \<open>The tenant's most specific rule decides. \<open>PolicySnapshot.match\<close> returns the first of the rules whose
  pattern fits the capability best, where the capability itself is better than every prefix, a longer prefix
  better than a shorter one, and any prefix better than the star; and nothing when no pattern fits.\<close>

theorem tenant_rule_exact: "picks (pattern_rank cap) (ps_rules snap) (snapshot_match snap cap)"
proof (cases "List.find (\<lambda>r. tr_tool_pattern r = cap) (ps_rules snap)")
  case (Some r)
  have "picks (pattern_rank cap) (ps_rules snap) (Some r)"
    by (rule picks_find [OF Some, where n = "length cap + 2"]) (auto simp: pattern_rank_cases less_Suc_eq_le)
  with Some show ?thesis by (simp add: snapshot_match_def)
next
  case None
  then have ne: "r \<in> set (ps_rules snap) \<Longrightarrow> tr_tool_pattern r \<noteq> cap" for r by (auto simp: find_None_iff)
  let ?wild = "\<lambda>r. wildcard_matches (tr_tool_pattern r) cap"
  show ?thesis
  proof (cases "filter ?wild (ps_rules snap)")
    case (Cons r rs)
    have mem: "x \<in> set (ps_rules snap) \<and> ?wild x" if "x \<in> set (r # rs)" for x
      using that unfolding Cons [symmetric] by simp
    let ?m = "py_max_by (\<lambda>x. length (tr_tool_pattern x)) r rs"
    have "picks (\<lambda>x. length (tr_tool_pattern x)) (r # rs) (Some ?m)"
      using mem [of r] wildcard_bounds [of "tr_tool_pattern r" cap] by (intro picks_max) auto
    then have p: "picks (pattern_rank cap) (filter ?wild (ps_rules snap)) (Some ?m)"
      unfolding Cons using mem ne by (subst picks_cong [where g = "\<lambda>x. length (tr_tool_pattern x)"]) (auto simp: pattern_rank_cases)
    then have "?m \<in> set (filter ?wild (ps_rules snap))" by (rule picks_mem)
    then have two: "2 \<le> pattern_rank cap ?m" using ne pattern_rank_cases(3) [of ?m cap] by auto
    have "picks (pattern_rank cap) (ps_rules snap) (Some ?m)"
    proof (rule picks_filter [OF p])
      fix x assume "x \<in> set (ps_rules snap)" "\<not> ?wild x"
      with two ne show "pattern_rank cap x < pattern_rank cap ?m" by (auto simp: pattern_rank_cases)
    qed
    with None Cons show ?thesis by (simp add: snapshot_match_def)
  next
    case Nil
    then have low: "r \<in> set (ps_rules snap) \<Longrightarrow> pattern_rank cap r = (if tr_tool_pattern r = ''*'' then 1 else 0)" for r
      using ne by (auto simp: pattern_rank_cases filter_empty_conv)
    have "picks (pattern_rank cap) (ps_rules snap) (List.find (\<lambda>r. tr_tool_pattern r = ''*'') (ps_rules snap))"
    proof (cases "List.find (\<lambda>r. tr_tool_pattern r = ''*'') (ps_rules snap)")
      case (Some r)
      then show ?thesis using picks_find [OF Some, where n = 1 and f = "pattern_rank cap"] low by auto
    next
      case None
      then have "tr_tool_pattern r \<noteq> ''*''" if "r \<in> set (ps_rules snap)" for r using that by (auto simp: find_None_iff)
      with low show ?thesis unfolding None by (simp add: picks_def list_all_iff)
    qed
    with None Nil show ?thesis by (simp add: snapshot_match_def)
  qed
qed

subsection \<open>The business permission\<close>

definition permission_rank :: "string \<Rightarrow> business_permission_rule \<Rightarrow> nat" where
  "permission_rank action r = (if br_permission_key r = [] then 0 else nat (rule_specificity action (br_permission_key r) + 1))"

lemma rule_specificity_bounds: "- 1 \<le> rule_specificity action key"
  by (simp add: rule_specificity_def)

lemma better_rule_picks:
  "picks (permission_rank action) rules (fst b) \<Longrightarrow> snd b = int (case fst b of None \<Rightarrow> 0 | Some r \<Rightarrow> permission_rank action r) - 1 \<Longrightarrow>
   picks (permission_rank action) (rules @ [r]) (fst (better_rule action b r))
   \<and> snd (better_rule action b r) = int (case fst (better_rule action b r) of None \<Rightarrow> 0 | Some r \<Rightarrow> permission_rank action r) - 1"
  using picks_snoc [of "permission_rank action" rules "fst b" r] rule_specificity_bounds [of action "br_permission_key r"]
  by (auto simp: better_rule_def Let_def permission_rank_def split: if_splits)

lemma best_rule_picks: "picks (permission_rank action) rules (best_rule action rules)"
proof -
  have "picks (permission_rank action) rules (fst (foldl (better_rule action) (None, - 1) rules))
    \<and> snd (foldl (better_rule action) (None, - 1) rules)
        = int (case fst (foldl (better_rule action) (None, - 1) rules) of None \<Rightarrow> 0 | Some r \<Rightarrow> permission_rank action r) - 1"
  proof (induction rules rule: rev_induct)
    case (snoc r rules)
    then show ?case using better_rule_picks [of action rules "foldl (better_rule action) (None, - 1) rules" r] by simp
  qed simp
  then show ?thesis by (simp add: best_rule_def)
qed

text \<open>What a rule says when no facts are known: one with a limit or a currency denies.\<close>

definition effect_without_facts :: "business_permission_rule \<Rightarrow> string" where
  "effect_without_facts r =
     (if has_key (br_conditions r) ''maxAmountMinor'' \<or> has_key (br_conditions r) ''currency'' then ''DENY'' else br_effect r)"

lemma apply_conditions_without_facts: "map_sum id br_effect (apply_conditions [] r) = Inr (effect_without_facts r)"
  by (simp add: apply_conditions_def Let_def effect_without_facts_def deny_rule_def ctx_get_def dict_get_or_def)

lemma applicable_without_facts:
  "map_sum id (map br_effect) (applicable_rules action [] groups) = Inr (map effect_without_facts (List.map_filter (best_rule action) groups))"
proof (induction groups)
  case (Cons g gs)
  then obtain rest where rest: "applicable_rules action [] gs = Inr rest"
    "map br_effect rest = map effect_without_facts (List.map_filter (best_rule action) gs)"
    by (cases "applicable_rules action [] gs") simp_all
  show ?case
  proof (cases "best_rule action g")
    case None
    with rest show ?thesis by (simp add: match_best_rule_in_role_def map_filter_simps)
  next
    case (Some r)
    obtain r' where "apply_conditions [] r = Inr r'" "br_effect r' = effect_without_facts r"
      using apply_conditions_without_facts [of r] by (cases "apply_conditions [] r") simp_all
    with rest Some show ?thesis by (simp add: match_best_rule_in_role_def map_filter_simps)
  qed
qed (simp add: map_filter_simps)

lemma list_ex_effect: "list_ex (\<lambda>r. br_effect r = x) rules \<longleftrightarrow> x \<in> set (map br_effect rules)"
  by (auto simp: list_ex_iff)

definition combined_effect :: "bool \<Rightarrow> string list \<Rightarrow> string" where
  "combined_effect founder effects =
     (if effects = [] then (if founder then ''ALLOW'' else ''DENY'')
      else if ''DENY'' \<in> set effects then ''DENY''
      else if ''REQUIRE_APPROVAL'' \<in> set effects then ''REQUIRE_APPROVAL'' else ''ALLOW'')"

text \<open>The permission of an action, as the engine asks for it. Each role answers with its most specific rule
  for the action (the first one of the best), a denial of any role wins, then a demand for approval, and
  without an answer only the founder passes. As the engine never passes facts, every rule with a limit on
  the amount or with a currency denies, whatever its effect.\<close>

theorem business_permission_exact:
  "list_all (\<lambda>g. picks (permission_rank action) g (best_rule action g)) (bp_rule_groups rs)
   \<and> map_sum id fst (evaluate_business_policy_ruleset rs action [])
       = Inr (combined_effect (bp_is_founder rs) (map effect_without_facts (List.map_filter (best_rule action) (bp_rule_groups rs))))"
proof -
  obtain rules where r: "applicable_rules action [] (bp_rule_groups rs) = Inr rules"
    "map br_effect rules = map effect_without_facts (List.map_filter (best_rule action) (bp_rule_groups rs))"
    using applicable_without_facts [of action "bp_rule_groups rs"] by (cases "applicable_rules action [] (bp_rule_groups rs)") simp_all
  have "map_sum id fst (evaluate_business_policy_ruleset rs action []) = Inr (combined_effect (bp_is_founder rs) (map br_effect rules))"
    by (simp add: evaluate_business_policy_ruleset_def r(1) combined_effect_def combine_permission_rules_def list_ex_effect
        Let_def del: set_map split: list.split)
  then show ?thesis by (simp add: r(2) best_rule_picks list_all_iff)
qed

subsection \<open>What the engine lets through\<close>

definition snapshot0 :: policy_snapshot where
  "snapshot0 = \<lparr>ps_workspace_id = ''w1'', ps_workspace_status = ''active'', ps_principal_status = ''active'', ps_rules = [],
     ps_snapshot_hash = ''h'', ps_business_policy_ref = None, ps_agent_authority = None, ps_business_policy_rules = None\<rparr>"

definition policy_env0 :: "policy_snapshot \<Rightarrow> policy_env" where
  "policy_env0 snap = \<lparr>pe_validate = (\<lambda>_. Inr snap), pe_text = sample_text, pe_default_outcome = ALLOW\<rparr>"

definition payout_grant :: "payload \<Rightarrow> agent_authorization_snapshot" where
  "payout_grant cs = \<lparr>az_authorization_epoch = 1, az_grants =
     [\<lparr>cau_capability_id = ''finance.payout.send'', cau_permission_key = ''finance.payout'', cau_risk_class = ''HIGH'',
       cau_grant_id = ''g1'', cau_constraints = cs\<rparr>]\<rparr>"

text \<open>An active grant of the company allows a payout of any amount before the rules for payouts are reached, although
  the comment of the engine says that the rules of the new system never skip them.\<close>

lemma granted_payout_unreviewed:
  "map_sum id outcome
     (cosa_evaluate (policy_env0 (snapshot0\<lparr>ps_agent_authority := Some (payout_grant [])\<rparr>)) ''finance.payout.send''
        [(''amount'', PInt 1000000)] [(''policy_snapshot'', PDict [])]) = Inr ALLOW"
  by code_simp

text \<open>A limit on the amount holds only for a payload that is not empty; a currency only for an amount that is a
  dictionary.\<close>

lemma amount_limit_gaps:
  "map_sum id fst (resolve_authority (payout_grant [(''maxAmountMinor'', PInt 10), (''currency'', PStr ''VND'')]) ''finance.payout.send'' []) = Inr True"
  "map_sum id fst (resolve_authority (payout_grant [(''currency'', PStr ''VND'')]) ''finance.payout.send'' [(''amount'', PInt 99)]) = Inr True"
  by code_simp+

text \<open>A payout whose amount is a text raises instead of asking for an approval.\<close>

lemma payout_amount_text_raises:
  "cosa_evaluate (policy_env0 snapshot0) ''finance.payout.send'' [(''amount'', PStr ''20000'')] [] = Inl ''TypeError''"
  by code_simp

text \<open>Reads that a consultation cannot use, because the name does not end like a read.\<close>

lemma reads_denied_in_consultation:
  "map fst (filter (\<lambda>(cap, e). acc_tier e = T0_READ \<and> \<not> is_read_capability cap) access_matrix) =
     [''startup_os.goal.advisory'', ''startup_os.onboard.cadence_advisory'', ''startup_os.onboard.interview_plan'',
      ''legal.applicability.assess'', ''agent.consult'']"
  by code_simp

subsection \<open>Witnesses\<close>

definition chat_spec :: "string \<Rightarrow> capability_spec" where
  "chat_spec cap = sample_spec\<lparr>cp_id := cap, cp_risk := LOW, cp_approval_policy := NEVER\<rparr>"

definition chat_env :: "string \<Rightarrow> gw_env" where
  "chat_env cap = (sample_env None)
     \<lparr>ge_registry := [(cap, \<lparr>rg_spec = chat_spec cap, rg_handler = (\<lambda>p c t g. Inr (Some (PStr ''done'')))\<rparr>)],
      ge_policy := Some (cosa_policy (policy_env0 snapshot0)),
      ge_authorizer := Some (cosa_authorizer sample_text (Some (\<lambda>q. Inr (Some ''tkt''))))\<rparr>"

definition chat_request :: "string \<Rightarrow> payload \<Rightarrow> gateway_request" where
  "chat_request cap tags = make_request_dict sample_text ''0'' ''r1'' cap [(''amount'', PInt 7)] ''alice'' (Some ''c1'') (Some ''t1'') None
     AUTONOMOUS (Some ''w1'') (Some ([(''policy_snapshot'', PDict []), (''agent_workforce_member_id'', PStr ''m1'')] @ tags))"

abbreviation okr_update :: string where
  "okr_update \<equiv> ''okr.key_result.update''"

definition chat_world :: gw_world where
  "chat_world = fold gw_step [GwCall (chat_env okr_update) (chat_request okr_update (chat_tags [])),
       GwRepo (OpDecide 5 ''appr_r1_t1'' ''founder'' True None None)] sample_world"

text \<open>The first call only waits; the approved one runs.\<close>

lemma chat_runs:
  "gw_calls (fst (gw_execute (chat_env okr_update) (chat_request okr_update (chat_tags [])) chat_world)) \<noteq> gw_calls chat_world"
  by code_simp

lemma chat_env_facts:
  "ge_policy (chat_env cap) = Some (cosa_policy (policy_env0 snapshot0))"
  "ge_authorizer (chat_env cap) = Some (cosa_authorizer sample_text (Some (\<lambda>q. Inr (Some ''tkt''))))"
  "get_capability (ge_registry (chat_env cap)) cap = Some \<lparr>rg_spec = chat_spec cap, rg_handler = (\<lambda>p c t g. Inr (Some (PStr ''done'')))\<rparr>"
  by (simp_all add: chat_env_def sample_env_def get_capability_def)

lemma chat_request_facts:
  "gq_capability_id (chat_request cap tags) = cap" "gq_tool_call_id (chat_request cap tags) = ''t1''"
  "gq_checkpoint_ref (chat_request cap tags) = ''c1''" "gq_run_id (chat_request cap tags) = ''r1''"
  by (simp_all add: chat_request_def make_request_dict_def Let_def)

lemma chat_request_tags:
  "ctx_get (ctx_meta (gq_context (chat_request okr_update (chat_tags [])))) REQUIRE_APPROVAL_CAPABILITIES_KEY
     = ctx_get (chat_tags []) REQUIRE_APPROVAL_CAPABILITIES_KEY"
  "dict_get access_matrix (gq_capability_id (chat_request okr_update (chat_tags []))) = Some (commits ''okr'' (Some okr_update))"
  "acc_tier (commits ''okr'' (Some okr_update)) = T2_COMMIT"
  "get_capability (ge_registry (chat_env okr_update)) (gq_capability_id (chat_request okr_update (chat_tags [])))
     = Some \<lparr>rg_spec = chat_spec okr_update, rg_handler = (\<lambda>p c t g. Inr (Some (PStr ''done'')))\<rparr>"
  by (code_simp, code_simp, code_simp, simp only: chat_request_facts chat_env_facts)

text \<open>An instance.\<close>

theorem chat_write_needs_approval_witness: "approval_given (chat_request okr_update (chat_tags [])) (gw_repo chat_world)"
  by (rule chat_write_needs_approval [OF sample_start(1) chat_world_def chat_env_facts(1) chat_runs chat_request_tags(1-3)])
    simp

lemma chat_not_draft:
  "dict_get (cp_metadata (chat_spec okr_update)) ''draft_only'' = None"
  "ctx_value (gq_context (chat_request okr_update (chat_tags []))) ''is_draft'' = PNone"
  "ctx_value (gq_context (chat_request okr_update (chat_tags []))) ''draft_only'' = PNone"
  by code_simp+

text \<open>An instance.\<close>

theorem write_holds_ticket_witness:
  "\<exists>q :: ticket_request. tq_capability q = okr_update \<and> tq_tool_call q = ''t1'' \<and> tq_run q = ''r1'' \<and> tq_checkpoint q = ''c1''"
proof -
  have "acc_tier (commits ''okr'' (Some okr_update)) \<in> {T2_COMMIT, T3_EXTERNAL}" by simp
  from write_holds_ticket [OF chat_runs chat_env_facts(2) chat_request_tags(2) this chat_request_tags(4)]
  show ?thesis unfolding chat_request_facts by (auto simp: chat_not_draft)
qed

text \<open>An instance: a consultation lists tasks.\<close>

lemma consultation_runs:
  "gw_calls (fst (gw_execute (chat_env ''operations.task.list'') (chat_request ''operations.task.list'' (consult_tags ''p'')) sample_world))
     \<noteq> gw_calls sample_world"
  "ctx_get (ctx_meta (gq_context (chat_request ''operations.task.list'' (consult_tags ''p'')))) READ_ONLY_RUN_KEY
     = ctx_get (consult_tags ''p'') READ_ONLY_RUN_KEY"
  by code_simp+

lemma sample_world_fold: "sample_world = fold gw_step [] sample_world"
  by simp

theorem consultation_reads_only_witness: "is_read_capability ''operations.task.list''"
  using consultation_reads_only [OF sample_start(1) sample_world_fold chat_env_facts(1) consultation_runs]
  by (simp add: chat_request_facts)

text \<open>Witness of C40: in a chat the approved update of a key result runs, in a consultation the list of tasks.\<close>

theorem tenant_policy_obeyed_witness:
  "approval_given (chat_request okr_update (chat_tags [])) (gw_repo chat_world) \<and> is_read_capability ''operations.task.list''"
proof
  have tier: "map_option acc_tier (dict_get access_matrix (gq_capability_id (chat_request okr_update (chat_tags [])))) = Some T2_COMMIT"
    unfolding chat_request_tags(2) by simp
  have none: "gq_capability_id (chat_request okr_update (chat_tags [])) \<notin> set []" by simp
  note chat = tenant_policy_obeyed [OF sample_start(1) chat_world_def chat_env_facts(1) chat_runs, THEN conjunct2, THEN conjunct1]
  show "approval_given (chat_request okr_update (chat_tags [])) (gw_repo chat_world)"
    by (rule chat [THEN mp, OF conjI [OF chat_request_tags(1) conjI [OF tier none]]])
  note consult = tenant_policy_obeyed [OF sample_start(1) sample_world_fold chat_env_facts(1) consultation_runs(1), THEN conjunct2, THEN conjunct2]
  show "is_read_capability ''operations.task.list''"
    using conjunct1 [OF consult [THEN mp, OF consultation_runs(2)]] unfolding chat_request_facts .
qed

end
